(* ===== verification/Prelude.thy ===== *)
theory Prelude
  imports Complex_Main "HOL-Library.Word" "HOL-Library.AList"
    "HOL-Library.Product_Lexorder" "HOL-Library.List_Lexorder" "HOL-Library.Char_ord"
begin

text \<open>
  Shared vocabulary of the development: Python values, dictionaries as association lists,
  the result sum that stands for exceptions, loops that stop at the first exception, and the
  fact collections the component theories extend.

  A Python \<open>str\<close> is a HOL \<^typ>\<open>string\<close>: one \<^typ>\<open>char\<close> is one code point, so the model covers
  text over the code points 0 to 255. A Python \<open>bytes\<close> object is a list of 8-bit words. A
  Python \<open>dict\<close> is an association list in insertion order (\<^const>\<open>AList.update\<close> overwrites in
  place or appends at the end, as \<open>d[k] = v\<close> does).
\<close>

named_theorems result_simps \<open>inversion of results: when a computation ends in Inr or Inl\<close>
named_theorems dict_simps \<open>dictionary lookups after updates\<close>

section \<open>Python values\<close>

type_synonym bytes = "8 word list"

datatype pyfloat = Flt rat | PosInf | NegInf | NaN

datatype pyval =
    PNone
  | PBool bool
  | PInt int
  | PFloat pyfloat
  | PStr string
  | PBytes bytes
  | PList "pyval list"
  | PTuple "pyval list"
  | PDict "(string \<times> pyval) list"

type_synonym pydict = "(string \<times> pyval) list"

definition dget_or :: "pydict \<Rightarrow> string \<Rightarrow> pyval \<Rightarrow> pyval" where
  "dget_or d k x = (case map_of d k of None \<Rightarrow> x | Some v \<Rightarrow> v)"

abbreviation dget :: "pydict \<Rightarrow> string \<Rightarrow> pyval" where
  "dget d k \<equiv> dget_or d k PNone"

definition dhas :: "pydict \<Rightarrow> string \<Rightarrow> bool" where
  "dhas d k = (map_of d k \<noteq> None)"

abbreviation dset :: "string \<Rightarrow> pyval \<Rightarrow> pydict \<Rightarrow> pydict" where
  "dset k v d \<equiv> AList.update k v d"

abbreviation dpop :: "string \<Rightarrow> pydict \<Rightarrow> pydict" where
  "dpop k d \<equiv> AList.delete k d"

lemma map_of_dset [dict_simps]: "map_of (dset k v d) = (map_of d)(k \<mapsto> v)"
  by (simp add: update_conv')

lemma dget_dset [dict_simps]: "dget_or (dset k v d) k' x = (if k' = k then v else dget_or d k' x)"
  by (simp add: dget_or_def map_of_dset)

lemma dget_dpop [dict_simps]: "dget_or (dpop k d) k' x = (if k' = k then x else dget_or d k' x)"
  by (simp add: dget_or_def delete_conv')

lemma dhas_dset [dict_simps]: "dhas (dset k v d) k' = (k' = k \<or> dhas d k')"
  by (simp add: dhas_def map_of_dset)

lemma dhas_dpop [dict_simps]: "dhas (dpop k d) k' = (k' \<noteq> k \<and> dhas d k')"
  by (simp add: dhas_def delete_conv')

lemma dset_id: "map_of d k = Some v \<Longrightarrow> dset k v d = d"
  by (induction d) (auto split: if_splits)

lemma dget_Some: "map_of d k = Some v \<Longrightarrow> dget_or d k x = v"
  by (simp add: dget_or_def)

lemma dget_not_None: "dget d k \<noteq> PNone \<Longrightarrow> map_of d k = Some (dget d k)"
  by (auto simp: dget_or_def split: option.splits)

fun is_str :: "pyval \<Rightarrow> bool" where
  "is_str (PStr s) = True"
| "is_str _ = False"

fun is_mapping :: "pyval \<Rightarrow> bool" where
  "is_mapping (PDict d) = True"
| "is_mapping _ = False"

text \<open>\<open>isinstance(v, Sequence) and not isinstance(v, (str, bytes, bytearray))\<close>.\<close>

fun seq_items :: "pyval \<Rightarrow> pyval list option" where
  "seq_items (PList xs) = Some xs"
| "seq_items (PTuple xs) = Some xs"
| "seq_items _ = None"

text \<open>
  Membership of a value in a Python \<open>set\<close> of strings hashes the value first, which raises
  \<open>TypeError\<close> for lists and dictionaries.
\<close>

fun hashable :: "pyval \<Rightarrow> bool" where
  "hashable (PList xs) = False"
| "hashable (PDict d) = False"
| "hashable (PTuple xs) = list_all hashable xs"
| "hashable _ = True"

lemma is_str_iff: "is_str v \<longleftrightarrow> (\<exists>s. v = PStr s)"
  by (cases v) auto

lemma is_mapping_iff: "is_mapping v \<longleftrightarrow> (\<exists>d. v = PDict d)"
  by (cases v) auto

section \<open>Results: a value or the exception that stopped the computation\<close>

definition rbind :: "('e + 'a) \<Rightarrow> ('a \<Rightarrow> 'e + 'b) \<Rightarrow> 'e + 'b" where
  "rbind r f = (case r of Inl e \<Rightarrow> Inl e | Inr x \<Rightarrow> f x)"

definition guard :: "bool \<Rightarrow> 'e \<Rightarrow> 'e + unit" where
  "guard ok e = (if ok then Inr () else Inl e)"

lemma rbind_Inl [simp]: "rbind (Inl e) f = Inl e"
  and rbind_Inr [simp]: "rbind (Inr x) f = f x"
  by (simp_all add: rbind_def)

lemma guard_True [simp]: "guard True e = Inr ()"
  and guard_False [simp]: "guard False e = Inl e"
  by (simp_all add: guard_def)

lemma rbind_eq_Inr [result_simps]: "rbind r f = Inr y \<longleftrightarrow> (\<exists>x. r = Inr x \<and> f x = Inr y)"
  by (cases r) auto

lemma rbind_eq_Inl [result_simps]:
  "rbind r f = Inl e \<longleftrightarrow> r = Inl e \<or> (\<exists>x. r = Inr x \<and> f x = Inl e)"
  by (cases r) auto

lemma guard_eq_Inr [result_simps]: "guard b e = Inr u \<longleftrightarrow> b"
  by (simp add: guard_def)

lemma guard_eq_Inl [result_simps]: "guard b e = Inl e' \<longleftrightarrow> \<not> b \<and> e' = e"
  by (auto simp: guard_def)

lemma rbind_cong [fundef_cong]:
  "r = r' \<Longrightarrow> (\<And>x. r' = Inr x \<Longrightarrow> f x = g x) \<Longrightarrow> rbind r f = rbind r' g"
  by (cases r') auto

text \<open>\<open>if not isinstance(v, ...): raise e\<close>, then the value at that type.\<close>

definition need_dict :: "pyval \<Rightarrow> 'e \<Rightarrow> 'e + pydict" where
  "need_dict v e = (case v of PDict d \<Rightarrow> Inr d | _ \<Rightarrow> Inl e)"

definition need_str :: "pyval \<Rightarrow> 'e \<Rightarrow> 'e + string" where
  "need_str v e = (case v of PStr s \<Rightarrow> Inr s | _ \<Rightarrow> Inl e)"

definition need_bool :: "pyval \<Rightarrow> 'e \<Rightarrow> 'e + bool" where
  "need_bool v e = (case v of PBool b \<Rightarrow> Inr b | _ \<Rightarrow> Inl e)"

definition need_items :: "pyval \<Rightarrow> 'e \<Rightarrow> 'e + pyval list" where
  "need_items v e = (case seq_items v of Some xs \<Rightarrow> Inr xs | None \<Rightarrow> Inl e)"

lemma need_dict_simps [simp]: "need_dict (PDict d) e = Inr d"
  and need_str_simps [simp]: "need_str (PStr s) e = Inr s"
  and need_bool_simps [simp]: "need_bool (PBool b) e = Inr b"
  and need_items_simps [simp]: "need_items (PList xs) e = Inr xs" "need_items (PTuple xs) e = Inr xs"
  by (simp_all add: need_dict_def need_str_def need_bool_def need_items_def)

lemma need_dict_Inr [result_simps]: "need_dict v e = Inr d \<longleftrightarrow> v = PDict d"
  and need_str_Inr [result_simps]: "need_str v e = Inr s \<longleftrightarrow> v = PStr s"
  and need_bool_Inr [result_simps]: "need_bool v e = Inr b \<longleftrightarrow> v = PBool b"
  by (cases v; simp add: need_dict_def need_str_def need_bool_def)+

lemma need_items_Inr [result_simps]: "need_items v e = Inr xs \<longleftrightarrow> v = PList xs \<or> v = PTuple xs"
  by (cases v) (auto simp: need_items_def)

lemma need_dict_Inl [result_simps]: "need_dict v e = Inl e' \<longleftrightarrow> \<not> is_mapping v \<and> e' = e"
  and need_str_Inl [result_simps]: "need_str v e = Inl e' \<longleftrightarrow> \<not> is_str v \<and> e' = e"
  by (cases v; auto simp: need_dict_def need_str_def)+

text \<open>
  A \<open>for index, x in enumerate(xs)\<close> loop that builds a list, threads an accumulator and stops
  at the first exception.
\<close>

fun traverse :: "(nat \<Rightarrow> 'a \<Rightarrow> 's \<Rightarrow> 'e + ('b \<times> 's)) \<Rightarrow> nat \<Rightarrow> 'a list \<Rightarrow> 's \<Rightarrow> 'e + ('b list \<times> 's)" where
  "traverse f i [] s = Inr ([], s)"
| "traverse f i (x # xs) s =
     rbind (f i x s) (\<lambda>(y, s').
     rbind (traverse f (Suc i) xs s') (\<lambda>(ys, s''). Inr (y # ys, s'')))"

text \<open>The same loop without an accumulator.\<close>

definition rmap :: "(nat \<Rightarrow> 'a \<Rightarrow> 'e + 'b) \<Rightarrow> 'a list \<Rightarrow> 'e + 'b list" where
  "rmap f xs =
     rbind (traverse (\<lambda>i x (_::unit). rbind (f i x) (\<lambda>y. Inr (y, ()))) 0 xs ()) (\<lambda>(ys, _). Inr ys)"

lemma traverse_eq_Inr_Nil: "traverse f i [] s = Inr (ys, s') \<longleftrightarrow> ys = [] \<and> s' = s"
  by auto

lemma traverse_eq_Inr_Cons [result_simps]:
  "traverse f i (x # xs) s = Inr (zs, s'') \<longleftrightarrow>
   (\<exists>y s' ys. f i x s = Inr (y, s') \<and> traverse f (Suc i) xs s' = Inr (ys, s'') \<and> zs = y # ys)"
  by (auto simp: result_simps split: prod.splits)

declare traverse.simps(2) [simp del]

lemma traverse_length: "traverse f i xs s = Inr (ys, s') \<Longrightarrow> length ys = length xs"
  by (induction xs arbitrary: i s ys) (auto simp: traverse_eq_Inr_Cons)

lemma traverse_list_all:
  assumes "traverse f i xs s = Inr (ys, s')"
    and "\<And>j x t y t'. x \<in> set xs \<Longrightarrow> f j x t = Inr (y, t') \<Longrightarrow> P y"
  shows "list_all P ys"
  using assms(1,2)
proof (induction xs arbitrary: i s ys)
  case (Cons x xs)
  from Cons.prems(1) obtain y t vs where
    "f i x s = Inr (y, t)" "traverse f (Suc i) xs t = Inr (vs, s')" "ys = y # vs"
    by (auto simp: traverse_eq_Inr_Cons)
  moreover from this(2) have "list_all P vs"
    using Cons.IH Cons.prems(2) by (meson list.set_intros(2))
  ultimately show ?case using Cons.prems(2) [of x i s y t] by simp
qed simp

text \<open>An accumulator-guarded loop keeps any invariant that relates input, output and state.\<close>

lemma traverse_invariant:
  assumes "traverse f i xs s = Inr (ys, s')" and "I [] s"
    and "\<And>j x t y t' zs. I zs t \<Longrightarrow> f j x t = Inr (y, t') \<Longrightarrow> I (zs @ [y]) t'"
  shows "I ys s'"
proof -
  have "I (zs @ ys) s'" if "traverse f i xs s = Inr (ys, s')" "I zs s" for zs
    using that
  proof (induction xs arbitrary: i s ys zs)
    case (Cons x xs)
    from Cons.prems(1) obtain y t vs where
      y: "f i x s = Inr (y, t)" "traverse f (Suc i) xs t = Inr (vs, s')" "ys = y # vs"
      by (auto simp: traverse_eq_Inr_Cons)
    from Cons.IH [OF y(2) assms(3) [OF Cons.prems(2) y(1)]] y(3) show ?case by simp
  qed simp
  from this [of "[]"] assms(1,2) show ?thesis by simp
qed

lemma traverse_fixpoint:
  assumes "\<And>j x. x \<in> set xs \<Longrightarrow> f j x s = Inr (x, s)"
  shows "traverse f i xs s = Inr (xs, s)"
  using assms by (induction xs arbitrary: i) (auto simp: traverse.simps(2))

lemma rmap_eq_Inr_iff:
  "rmap f xs = Inr ys \<longleftrightarrow> length ys = length xs \<and> (\<forall>i < length xs. f i (xs ! i) = Inr (ys ! i))"
proof -
  let ?g = "\<lambda>i x (u::unit). rbind (f i x) (\<lambda>y. Inr (y, ()))"
  have *: "(\<exists>u. traverse ?g k xs () = Inr (ys, u)) \<longleftrightarrow>
      length ys = length xs \<and> (\<forall>i < length xs. f (k + i) (xs ! i) = Inr (ys ! i))" for k
  proof (induction xs arbitrary: k ys)
    case Nil
    then show ?case by auto
  next
    case (Cons x xs)
    show ?case
    proof (cases ys)
      case Nil
      then show ?thesis by (auto simp: traverse_eq_Inr_Cons)
    next
      case (Cons y zs)
      have "(\<exists>u. traverse ?g k (x # xs) () = Inr (y # zs, u)) \<longleftrightarrow>
          f k x = Inr y \<and> (\<exists>u. traverse ?g (Suc k) xs () = Inr (zs, u))"
        by (auto simp: traverse_eq_Inr_Cons result_simps)
      also have "\<dots> \<longleftrightarrow> length ys = length (x # xs) \<and>
          (\<forall>i < length (x # xs). f (k + i) ((x # xs) ! i) = Inr (ys ! i))"
        unfolding Cons.IH Cons
        by (auto simp: less_Suc_eq_0_disj nth_Cons split: nat.splits)
      finally show ?thesis by (simp only: Cons)
    qed
  qed
  show ?thesis using * [of 0] by (auto simp: rmap_def result_simps)
qed

lemma rmap_Nil [simp]: "rmap f [] = Inr []"
  by (simp add: rmap_def)

lemma rmap_fixpoint: "(\<And>i. i < length xs \<Longrightarrow> f i (xs ! i) = Inr (xs ! i)) \<Longrightarrow> rmap f xs = Inr xs"
  by (simp add: rmap_eq_Inr_iff)

lemma rmap_list_all:
  "rmap f xs = Inr ys \<Longrightarrow> (\<And>i x y. f i x = Inr y \<Longrightarrow> P y) \<Longrightarrow> list_all P ys"
  by (auto simp: rmap_eq_Inr_iff list_all_length)

section \<open>Exceptions and numbers\<close>

text \<open>
  The exception classes the pure components raise. \<open>ProtocolError\<close> is the class of
  \<open>protocol.py\<close>, a subclass of \<open>ValueError\<close>; the others are Python's own.
\<close>

datatype py_exc =
    ProtocolError string
  | ValueError string
  | TypeError string
  | OverflowError string
  | AttributeError string
  | StopIteration

fun exc_name :: "py_exc \<Rightarrow> string" where
  "exc_name (ProtocolError m) = ''ProtocolError''"
| "exc_name (ValueError m) = ''ValueError''"
| "exc_name (TypeError m) = ''TypeError''"
| "exc_name (OverflowError m) = ''OverflowError''"
| "exc_name (AttributeError m) = ''AttributeError''"
| "exc_name StopIteration = ''StopIteration''"

fun exc_message :: "py_exc \<Rightarrow> string" where
  "exc_message (ProtocolError m) = m"
| "exc_message (ValueError m) = m"
| "exc_message (TypeError m) = m"
| "exc_message (OverflowError m) = m"
| "exc_message (AttributeError m) = m"
| "exc_message StopIteration = []"

text \<open>
  \<open>float(n)\<close> raises \<open>OverflowError\<close> when \<open>n\<close> rounds to \<open>2 ^ 1024\<close> or beyond.
\<close>

definition int_overflows :: "int \<Rightarrow> bool" where
  "int_overflows n = (\<bar>n\<bar> \<ge> 2 ^ 1024 - 2 ^ 970)"

abbreviation int_too_large :: py_exc where
  "int_too_large \<equiv> OverflowError ''int too large to convert to float''"

text \<open>
  \<open>lo <= float(v) <= hi\<close> for small integers \<open>lo\<close> and \<open>hi\<close>. Rounding to a float keeps the order
  against exactly representable bounds, so the comparison is made on the exact value.
\<close>

fun pyfloat_between :: "rat \<Rightarrow> rat \<Rightarrow> pyfloat \<Rightarrow> bool" where
  "pyfloat_between lo hi (Flt q) = (lo \<le> q \<and> q \<le> hi)"
| "pyfloat_between lo hi _ = False"

section \<open>Formatting\<close>

text \<open>\<open>str(n)\<close> for the indices that error messages carry.\<close>

fun nat_str :: "nat \<Rightarrow> string" where
  "nat_str n = (if n < 10 then [char_of (48 + n)] else nat_str (n div 10) @ [char_of (48 + n mod 10)])"

declare nat_str.simps [simp del]

definition join_with :: "string \<Rightarrow> string list \<Rightarrow> string" where
  "join_with sep xs = concat (case xs of [] \<Rightarrow> [] | y # ys \<Rightarrow> y # map (\<lambda>z. sep @ z) ys)"

end
