(* ===== verification/PyStdlib.thy ===== *)
theory PyStdlib
  imports Prelude
begin

text \<open>
  What the program uses of the Python standard library: \<open>str\<close> methods, \<open>fnmatch.fnmatchcase\<close>,
  \<open>base64.b64decode(..., validate=True)\<close> and \<open>hashlib.sha256\<close>. Strings range over the code
  points 0 to 255, so \<open>strip\<close>, \<open>lower\<close> and the UTF-8 encoding are exact on that range.
\<close>

section \<open>Strings\<close>

definition code :: "char \<Rightarrow> nat" where
  "code c = of_char c"

definition is_space :: "char \<Rightarrow> bool" where
  "is_space c = (code c \<in> {9, 10, 11, 12, 13, 28, 29, 30, 31, 32, 133, 160})"

definition strip :: "string \<Rightarrow> string" where
  "strip s = rev (dropWhile is_space (rev (dropWhile is_space s)))"

definition lower_char :: "char \<Rightarrow> char" where
  "lower_char c =
     (if code c \<in> {65..90} \<or> code c \<in> {192..222} - {215} then char_of (code c + 32) else c)"

definition lower :: "string \<Rightarrow> string" where
  "lower s = map lower_char s"

definition rstrip_char :: "char \<Rightarrow> string \<Rightarrow> string" where
  "rstrip_char c s = rev (dropWhile (\<lambda>x. x = c) (rev s))"

fun starts_with :: "string \<Rightarrow> string \<Rightarrow> bool" where
  "starts_with [] s = True"
| "starts_with (c # p) [] = False"
| "starts_with (c # p) (d # s) = (c = d \<and> starts_with p s)"

fun has_substring :: "string \<Rightarrow> string \<Rightarrow> bool" where
  "has_substring p [] = (p = [])"
| "has_substring p (c # s) = (starts_with p (c # s) \<or> has_substring p s)"

text \<open>\<open>s.split(sep, 1)[0]\<close> for a one-character separator.\<close>

definition before_char :: "char \<Rightarrow> string \<Rightarrow> string" where
  "before_char c s = takeWhile (\<lambda>x. x \<noteq> c) s"

text \<open>\<open>s.encode("utf-8")\<close>: code points below 128 are one byte, the others up to 255 are two.\<close>

definition utf8_char :: "char \<Rightarrow> bytes" where
  "utf8_char c =
     (if code c < 128 then [of_nat (code c)]
      else [of_nat (192 + code c div 64), of_nat (128 + code c mod 64)])"

definition utf8 :: "string \<Rightarrow> bytes" where
  "utf8 s = concat (map utf8_char s)"

lemma dropWhile_idem: "dropWhile P (dropWhile P xs) = dropWhile P xs"
  by (induction xs) auto

lemma dropWhile_rev_fix:
  assumes "dropWhile P xs = xs"
  shows "dropWhile P (rev (dropWhile P (rev xs))) = rev (dropWhile P (rev xs))"
proof (cases "rev (dropWhile P (rev xs))")
  case (Cons y ys)
  obtain zs where "xs = rev (dropWhile P (rev xs)) @ zs"
    by (metis rev_append rev_rev_ident takeWhile_dropWhile_id)
  with Cons have "xs = y # ys @ zs" by simp
  with assms have "\<not> P y" by (metis dropWhile.simps(2) list.sel(1) hd_dropWhile list.discI)
  with Cons show ?thesis by simp
next
  case Nil
  then show ?thesis by (simp only: dropWhile.simps)
qed

lemma strip_idem [simp]: "strip (strip s) = strip s"
proof -
  let ?l = "dropWhile is_space s"
  have "dropWhile is_space (strip s) = strip s"
    unfolding strip_def by (rule dropWhile_rev_fix) (rule dropWhile_idem)
  then show ?thesis
    by (metis dropWhile_idem rev_rev_ident strip_def)
qed

lemma strip_eq_Nil_iff: "strip s = [] \<longleftrightarrow> list_all is_space s"
  by (auto simp: strip_def dropWhile_eq_Nil_conv list_all_iff dest: set_dropWhileD)
     (metis dropWhile_eq_Nil_conv dropWhile_idem rev_is_Nil_conv set_rev)

lemma strip_Nil [simp]: "strip [] = []"
  by (simp add: strip_def)

lemma length_strip_le: "length (strip s) \<le> length s"
  unfolding strip_def by (metis le_trans length_dropWhile_le length_rev)

lemma length_utf8: "length s \<le> length (utf8 s)" "length (utf8 s) \<le> 2 * length s"
  by (induction s) (auto simp: utf8_def utf8_char_def)

lemma utf8_append [simp]: "utf8 (s @ t) = utf8 s @ utf8 t"
  by (simp add: utf8_def)

section \<open>fnmatch\<close>

text \<open>
  \<open>fnmatchcase(name, pat)\<close>: \<open>*\<close>, \<open>?\<close>, \<open>[seq]\<close> and \<open>[!seq]\<close>. The bracket expression follows
  \<open>fnmatch.translate\<close>: an unclosed bracket is a literal, a sequence with hyphens is cut into
  chunks, empty ranges are removed, and a leading \<open>!\<close> of what is left negates.
\<close>

datatype glob_token = GStar | GAny | GLit char | GNever | GSet bool "string list"

text \<open>The part of the pattern between the brackets and what follows, if the bracket closes.\<close>

definition bracket_split :: "string \<Rightarrow> (string \<times> string) option" where
  "bracket_split s =
     (let lead = (case s of c # r \<Rightarrow> if c = CHR ''!'' then 1 else 0 | [] \<Rightarrow> 0);
          lead' = (case drop lead s of c # r \<Rightarrow> if c = CHR '']'' then lead + 1 else lead | [] \<Rightarrow> lead);
          body = takeWhile (\<lambda>c. c \<noteq> CHR '']'') (drop lead' s);
          n = lead' + length body
      in if n < length s then Some (take n s, drop (Suc n) s) else None)"

text \<open>\<open>chunk_at k s\<close> cuts \<open>s\<close> at the first hyphen at index \<open>k\<close> or later, then again three further on.\<close>

fun hyphen_index :: "nat \<Rightarrow> string \<Rightarrow> nat option" where
  "hyphen_index k [] = None"
| "hyphen_index 0 (c # s) = (if c = CHR ''-'' then Some 0 else map_option Suc (hyphen_index 0 s))"
| "hyphen_index (Suc k) (c # s) = map_option Suc (hyphen_index k s)"

fun chunk_fuel :: "nat \<Rightarrow> nat \<Rightarrow> string \<Rightarrow> string list" where
  "chunk_fuel 0 k s = [s]"
| "chunk_fuel (Suc fuel) k s =
     (case hyphen_index k s of
        None \<Rightarrow> [s]
      | Some i \<Rightarrow> take i s # chunk_fuel fuel 2 (drop (Suc i) s))"

definition chunks_of :: "string \<Rightarrow> string list" where
  "chunks_of s =
     (let cs = chunk_fuel (Suc (length s)) (if starts_with ''!'' s then 2 else 1) s
      in if last cs = [] then butlast (butlast cs) @ [last (butlast cs) @ ''-''] else cs)"

text \<open>Remove empty ranges, from the right: \<open>chunks[k-1][-1] > chunks[k][0]\<close>.\<close>

fun drop_empty_ranges :: "string list \<Rightarrow> string list" where
  "drop_empty_ranges (a # rest) =
     (case drop_empty_ranges rest of
        [] \<Rightarrow> [a]
      | b # bs \<Rightarrow> if a \<noteq> [] \<and> b \<noteq> [] \<and> code (last a) > code (hd b)
                 then (butlast a @ tl b) # bs else a # b # bs)"
| "drop_empty_ranges [] = []"

fun in_chunks :: "char \<Rightarrow> string list \<Rightarrow> bool" where
  "in_chunks c (a # b # rest) =
     (c \<in> set a \<or> (a \<noteq> [] \<and> b \<noteq> [] \<and> code (last a) \<le> code c \<and> code c \<le> code (hd b)) \<or>
      in_chunks c (b # rest))"
| "in_chunks c [a] = (c \<in> set a)"
| "in_chunks c [] = False"

definition bracket_token :: "string \<Rightarrow> glob_token" where
  "bracket_token stuff =
     (let cs = (if CHR ''-'' \<in> set stuff then drop_empty_ranges (chunks_of stuff) else [stuff])
      in if list_all (\<lambda>c. c = []) cs then GNever
         else if concat cs = ''!'' \<and> length cs = 1 then GAny
         else case cs of
                (c # a) # rest \<Rightarrow> if c = CHR ''!'' then GSet True (a # rest) else GSet False cs
              | _ \<Rightarrow> GSet False cs)"

function glob_tokens :: "string \<Rightarrow> glob_token list" where
  "glob_tokens [] = []"
| "glob_tokens (c # s) =
     (if c = CHR ''*'' then GStar # glob_tokens s
      else if c = CHR ''?'' then GAny # glob_tokens s
      else if c = CHR ''['' then
        (case bracket_split s of
           None \<Rightarrow> GLit c # glob_tokens s
         | Some (stuff, rest) \<Rightarrow> bracket_token stuff # glob_tokens rest)
      else GLit c # glob_tokens s)"
  by pat_completeness auto
termination
  by (relation "measure length")
     (auto simp: bracket_split_def Let_def split: if_splits)

fun token_matches :: "glob_token \<Rightarrow> char \<Rightarrow> bool" where
  "token_matches GAny c = True"
| "token_matches (GLit d) c = (c = d)"
| "token_matches (GSet neg cs) c = (in_chunks c cs \<noteq> neg)"
| "token_matches _ c = False"

fun glob_match :: "glob_token list \<Rightarrow> string \<Rightarrow> bool" where
  "glob_match [] s = (s = [])"
| "glob_match (GStar # ts) [] = glob_match ts []"
| "glob_match (GStar # ts) (c # s) = (glob_match ts (c # s) \<or> glob_match (GStar # ts) s)"
| "glob_match (t # ts) [] = False"
| "glob_match (t # ts) (c # s) = (token_matches t c \<and> glob_match ts s)"

definition fnmatchcase :: "string \<Rightarrow> string \<Rightarrow> bool" where
  "fnmatchcase name pat = glob_match (glob_tokens pat) name"

text \<open>A pattern without special characters matches exactly itself; \<open>*\<close> matches everything.\<close>

definition glob_free :: "string \<Rightarrow> bool" where
  "glob_free p = list_all (\<lambda>c. c \<notin> {CHR ''*'', CHR ''?'', CHR ''[''}) p"

lemma glob_tokens_free: "glob_free p \<Longrightarrow> glob_tokens p = map GLit p"
  by (induction p) (auto simp: glob_free_def)

lemma glob_match_lits: "glob_match (map GLit p) s \<longleftrightarrow> s = p"
proof (induction p arbitrary: s)
  case (Cons c p)
  then show ?case by (cases s) auto
qed simp

lemma fnmatchcase_literal: "glob_free p \<Longrightarrow> fnmatchcase s p \<longleftrightarrow> s = p"
  by (simp add: fnmatchcase_def glob_tokens_free glob_match_lits)

lemma fnmatchcase_star: "fnmatchcase s ''*''"
  by (induction s) (auto simp: fnmatchcase_def)

end
