(* ===== verification/Encodings.thy ===== *)
theory Encodings
  imports PyStdlib
begin

unbundle bit_operations_syntax

text \<open>
  Binary encodings of the standard library: \<open>base64.b64decode(s, validate=True)\<close> and
  \<open>hashlib.sha256(data).hexdigest()\<close>, with the facts the components use of them.
\<close>

section \<open>Strict base64\<close>

definition b64_value :: "char \<Rightarrow> nat option" where
  "b64_value c =
     (let n = code c in
      if 65 \<le> n \<and> n \<le> 90 then Some (n - 65)
      else if 97 \<le> n \<and> n \<le> 122 then Some (n - 71)
      else if 48 \<le> n \<and> n \<le> 57 then Some (n + 4)
      else if n = 43 then Some 62
      else if n = 47 then Some 63
      else None)"

text \<open>
  Quads of alphabet characters; only the last quad may end in one or two padding characters,
  and nothing follows it. Every other input is \<open>binascii.Error\<close>, here \<^const>\<open>None\<close>.
\<close>

fun b64decode :: "string \<Rightarrow> bytes option" where
  "b64decode [] = Some []"
| "b64decode [a, b, c, d] =
     (case (b64_value a, b64_value b) of
        (Some va, Some vb) \<Rightarrow>
          (if c = CHR ''='' \<and> d = CHR ''='' then Some [of_nat (va * 4 + vb div 16)]
           else case b64_value c of
             None \<Rightarrow> None
           | Some vc \<Rightarrow>
               (if d = CHR ''='' then Some [of_nat (va * 4 + vb div 16), of_nat (vb mod 16 * 16 + vc div 4)]
                else case b64_value d of
                  None \<Rightarrow> None
                | Some vd \<Rightarrow> Some [of_nat (va * 4 + vb div 16), of_nat (vb mod 16 * 16 + vc div 4),
                                  of_nat (vc mod 4 * 64 + vd)]))
      | _ \<Rightarrow> None)"
| "b64decode (a # b # c # d # rest) =
     (case (b64_value a, b64_value b, b64_value c, b64_value d) of
        (Some va, Some vb, Some vc, Some vd) \<Rightarrow>
          map_option (\<lambda>bs. of_nat (va * 4 + vb div 16) # of_nat (vb mod 16 * 16 + vc div 4) #
                           of_nat (vc mod 4 * 64 + vd) # bs) (b64decode rest)
      | _ \<Rightarrow> None)"
| "b64decode _ = None"

lemma b64decode_length: "b64decode s = Some bs \<Longrightarrow> 4 * length bs \<le> 3 * length s"
proof (induction s arbitrary: bs rule: b64decode.induct)
  case (3 a b c d x xs)
  from "3.prems" obtain bs' where "b64decode (x # xs) = Some bs'" "length bs = 3 + length bs'"
    by (auto split: option.splits)
  moreover from "3.prems" have "4 * length bs' \<le> 3 * length (x # xs)" if "b64decode (x # xs) = Some bs'" for bs'
    using that "3.IH" by (fastforce split: option.splits)
  ultimately show ?case by fastforce
qed (auto split: option.splits if_splits)

lemma b64decode_example: "b64decode ''aGk='' = Some [104, 105]"
  by (simp add: b64_value_def code_def)

section \<open>SHA-256\<close>

type_synonym w32 = "32 word"

text \<open>The constants, eight 32-bit words to a line.\<close>

definition sha_line :: "int \<Rightarrow> w32 list" where
  "sha_line n = map (\<lambda>i. of_int (n div 2 ^ (32 * i) mod 2 ^ 32)) (rev [0..<8])"

definition sha_k :: "w32 list" where
  "sha_k = concat (map sha_line
    [0x428a2f9871374491b5c0fbcfe9b5dba53956c25b59f111f1923f82a4ab1c5ed5,
     0xd807aa9812835b01243185be550c7dc372be5d7480deb1fe9bdc06a7c19bf174,
     0xe49b69c1efbe47860fc19dc6240ca1cc2de92c6f4a7484aa5cb0a9dc76f988da,
     0x983e5152a831c66db00327c8bf597fc7c6e00bf3d5a7914706ca635114292967,
     0x27b70a852e1b21384d2c6dfc53380d13650a7354766a0abb81c2c92e92722c85,
     0xa2bfe8a1a81a664bc24b8b70c76c51a3d192e819d6990624f40e3585106aa070,
     0x19a4c1161e376c082748774c34b0bcb5391c0cb34ed8aa4a5b9cca4f682e6ff3,
     0x748f82ee78a5636f84c878148cc7020890befffaa4506cebbef9a3f7c67178f2])"

definition sha_h0 :: "w32 list" where
  "sha_h0 = sha_line 0x6a09e667bb67ae853c6ef372a54ff53a510e527f9b05688c1f83d9ab5be0cd19"

definition rotr :: "nat \<Rightarrow> w32 \<Rightarrow> w32" where
  "rotr n x = drop_bit n x OR push_bit (32 - n) x"

definition sha_pad :: "bytes \<Rightarrow> bytes" where
  "sha_pad m =
     m @ [0x80] @ replicate ((119 - length m mod 64) mod 64) 0 @
     map (\<lambda>i. of_nat (8 * length m div 256 ^ i)) (rev [0..<8])"

fun be_words :: "bytes \<Rightarrow> w32 list" where
  "be_words (a # b # c # d # rest) =
     (of_nat (unat a * 16777216 + unat b * 65536 + unat c * 256 + unat d)) # be_words rest"
| "be_words _ = []"

definition sha_extend :: "w32 list \<Rightarrow> nat \<Rightarrow> w32 list" where
  "sha_extend w t =
     (let x = w ! (t - 15); y = w ! (t - 2);
          s0 = rotr 7 x XOR rotr 18 x XOR drop_bit 3 x;
          s1 = rotr 17 y XOR rotr 19 y XOR drop_bit 10 y
      in w @ [w ! (t - 16) + s0 + w ! (t - 7) + s1])"

definition sha_schedule :: "w32 list \<Rightarrow> w32 list" where
  "sha_schedule block = foldl sha_extend block [16..<64]"

fun sha_round :: "w32 list \<Rightarrow> w32 \<times> w32 \<Rightarrow> w32 list" where
  "sha_round [a, b, c, d, e, f, g, h] (k, w) =
     (let s1 = rotr 6 e XOR rotr 11 e XOR rotr 25 e;
          ch = (e AND f) XOR ((NOT e) AND g);
          t1 = h + s1 + ch + k + w;
          s0 = rotr 2 a XOR rotr 13 a XOR rotr 22 a;
          maj = (a AND b) XOR (a AND c) XOR (b AND c)
      in [t1 + s0 + maj, a, b, c, d + t1, e, f, g])"
| "sha_round st _ = st"

fun sha_blocks :: "nat \<Rightarrow> w32 list \<Rightarrow> w32 list \<Rightarrow> w32 list" where
  "sha_blocks 0 h ws = h"
| "sha_blocks (Suc n) h ws =
     sha_blocks n (map2 (+) h (foldl sha_round h (zip sha_k (sha_schedule (take 16 ws))))) (drop 16 ws)"

definition hex_digit :: "nat \<Rightarrow> char" where
  "hex_digit n = char_of (if n < 10 then 48 + n else 87 + n)"

definition word_hex :: "w32 \<Rightarrow> string" where
  "word_hex w = map (\<lambda>i. hex_digit (unat w div 16 ^ i mod 16)) (rev [0..<8])"

text \<open>\<open>hashlib.sha256(m).hexdigest()\<close>.\<close>

definition sha256_hex :: "bytes \<Rightarrow> string" where
  "sha256_hex m =
     (let ws = be_words (sha_pad m)
      in concat (map word_hex (sha_blocks (length ws div 16) sha_h0 ws)))"

text \<open>\<open>hashlib.sha256(m).digest()\<close> and \<open>hmac.new(key, m, hashlib.sha256).hexdigest()\<close>.\<close>

definition word_bytes :: "w32 \<Rightarrow> bytes" where
  "word_bytes w = map (\<lambda>i. of_nat (unat w div 256 ^ i)) (rev [0..<4])"

definition sha256_digest :: "bytes \<Rightarrow> bytes" where
  "sha256_digest m =
     (let ws = be_words (sha_pad m)
      in concat (map word_bytes (sha_blocks (length ws div 16) sha_h0 ws)))"

definition hmac_key :: "bytes \<Rightarrow> bytes" where
  "hmac_key key = (let k = (if length key > 64 then sha256_digest key else key) in k @ replicate (64 - length k) 0)"

definition hmac_sha256_hex :: "bytes \<Rightarrow> bytes \<Rightarrow> string" where
  "hmac_sha256_hex key m =
     (let k = hmac_key key in
      sha256_hex (map (\<lambda>b. b XOR 0x5c) k @ sha256_digest (map (\<lambda>b. b XOR 0x36) k @ m)))"

definition sha256_str :: "string \<Rightarrow> string" where
  "sha256_str s = sha256_hex (utf8 s)"

text \<open>A hexadecimal digest is always 64 characters from the lower-case hexadecimal alphabet.\<close>

definition hex_char :: "char \<Rightarrow> bool" where
  "hex_char c = (code c \<in> {48..57} \<or> code c \<in> {97..102})"

definition hex64 :: "string \<Rightarrow> bool" where
  "hex64 s = (length s = 64 \<and> list_all hex_char s)"

lemma hex_digit_hex: "n < 16 \<Longrightarrow> hex_char (hex_digit n)"
  by (auto simp: hex_char_def hex_digit_def code_def)

lemma length_sha_round: "length h = 8 \<Longrightarrow> length (sha_round h kw) = 8"
  by (cases kw) (auto simp: length_Suc_conv eval_nat_numeral Let_def)

lemma length_sha_rounds: "length h = 8 \<Longrightarrow> length (foldl sha_round h kws) = 8"
  by (induction kws arbitrary: h) (auto simp: length_sha_round)

lemma length_sha_blocks: "length h = 8 \<Longrightarrow> length (sha_blocks n h ws) = 8"
  by (induction n arbitrary: h ws) (auto simp: length_sha_rounds)

lemma length_concat_map_const: "(\<And>x. x \<in> set xs \<Longrightarrow> length (f x) = n) \<Longrightarrow> length (concat (map f xs)) = n * length xs"
  by (induction xs) auto

lemma sha256_hex_hex64: "hex64 (sha256_hex m)"
proof -
  have "length (sha_blocks n sha_h0 ws) = 8" for n ws
    by (rule length_sha_blocks) (simp add: sha_h0_def sha_line_def)
  then show ?thesis
    unfolding hex64_def sha256_hex_def Let_def
    by (auto simp: length_concat_map_const [where n = 8] word_hex_def list_all_iff intro: hex_digit_hex)
qed

end
