(* ===== verification/Capabilities.thy ===== *)
theory Capabilities
  imports Encodings
begin

text \<open>
  The capability seams of \<open>src/cyrene_exchange/capabilities.py\<close>: tool-call fragments, usage
  facts, route targets, chunks and embedding batches. A dataclass with a \<open>__post_init__\<close> is a
  record together with a constructor \<open>mk_...\<close> that takes the untyped arguments, makes the
  checks in the order of the code and either raises or returns the record.
\<close>

section \<open>Tool-call fragments\<close>

record tool_call_delta =
  tc_index :: int
  tc_id :: "string option"
  tc_type :: "string option"
  tc_name :: "string option"
  tc_arguments :: "string option"

fun opt_text :: "pyval \<Rightarrow> string \<Rightarrow> py_exc + string option" where
  "opt_text PNone field = Inr None"
| "opt_text (PStr s) field = Inr (Some s)"
| "opt_text v field = Inl (TypeError (''tool call '' @ field @ '' must be text when provided''))"

definition mk_tool_call_delta ::
  "pyval \<Rightarrow> pyval \<Rightarrow> pyval \<Rightarrow> pyval \<Rightarrow> pyval \<Rightarrow> py_exc + tool_call_delta" where
  "mk_tool_call_delta index call_id call_type name arguments =
     (case index of
        PInt i \<Rightarrow>
          if i < 0 then Inl (ValueError ''tool call index must be a non-negative integer'')
          else rbind (opt_text call_id ''id'') (\<lambda>i'.
               rbind (opt_text call_type ''type'') (\<lambda>t.
               rbind (opt_text name ''function_name'') (\<lambda>n.
               rbind (opt_text arguments ''function_arguments'') (\<lambda>a.
               Inr \<lparr>tc_index = i, tc_id = i', tc_type = t, tc_name = n, tc_arguments = a\<rparr>))))
      | _ \<Rightarrow> Inl (ValueError ''tool call index must be a non-negative integer''))"

definition opt_field :: "string \<Rightarrow> string option \<Rightarrow> pydict" where
  "opt_field k v = (case v of None \<Rightarrow> [] | Some s \<Rightarrow> [(k, PStr s)])"

text \<open>\<open>ToolCallDelta.to_openai_delta\<close>.\<close>

definition to_openai_delta :: "tool_call_delta \<Rightarrow> pydict" where
  "to_openai_delta d =
     (let function = opt_field ''name'' (tc_name d) @ opt_field ''arguments'' (tc_arguments d)
      in (''index'', PInt (tc_index d)) # opt_field ''id'' (tc_id d) @ opt_field ''type'' (tc_type d) @
         (if function \<noteq> [] then [(''function'', PDict function)] else []))"

section \<open>Usage facts\<close>

record provider_usage =
  prompt_tokens :: "int option"
  completion_tokens :: "int option"
  total_tokens :: "int option"
  usage_source :: string

fun opt_count :: "pyval \<Rightarrow> string \<Rightarrow> py_exc + int option" where
  "opt_count PNone field = Inr None"
| "opt_count (PInt n) field =
     (if n < 0 then Inl (ValueError (''usage '' @ field @ '' must be a non-negative integer'')) else Inr (Some n))"
| "opt_count v field = Inl (ValueError (''usage '' @ field @ '' must be a non-negative integer''))"

definition mk_provider_usage ::
  "pyval \<Rightarrow> pyval \<Rightarrow> pyval \<Rightarrow> pyval \<Rightarrow> py_exc + provider_usage" where
  "mk_provider_usage prompt completion reported source =
     rbind (opt_count prompt ''prompt_tokens'') (\<lambda>p.
     rbind (opt_count completion ''completion_tokens'') (\<lambda>c.
     rbind (opt_count reported ''total_tokens'') (\<lambda>t.
     case source of
       PStr s \<Rightarrow> if strip s = [] then Inl (ValueError ''usage source must be a non-empty string'')
                 else Inr \<lparr>prompt_tokens = p, completion_tokens = c, total_tokens = t, usage_source = s\<rparr>
     | _ \<Rightarrow> Inl (ValueError ''usage source must be a non-empty string''))))"

text \<open>The checks of \<open>ProviderUsage.__post_init__\<close> on a value of the record type.\<close>

definition opt_nonneg :: "int option \<Rightarrow> bool" where
  "opt_nonneg v = (case v of None \<Rightarrow> True | Some n \<Rightarrow> 0 \<le> n)"

definition usage_ok :: "provider_usage \<Rightarrow> bool" where
  "usage_ok u = (opt_nonneg (prompt_tokens u) \<and> opt_nonneg (completion_tokens u) \<and>
                 opt_nonneg (total_tokens u) \<and> strip (usage_source u) \<noteq> [])"

definition opt_int_field :: "string \<Rightarrow> int option \<Rightarrow> pydict" where
  "opt_int_field k v = (case v of None \<Rightarrow> [] | Some n \<Rightarrow> [(k, PInt n)])"

text \<open>\<open>ProviderUsage.to_openai_dict\<close>: a total is derived only from two reported components.\<close>

definition derived_total :: "provider_usage \<Rightarrow> int option" where
  "derived_total u =
     (case (total_tokens u, prompt_tokens u, completion_tokens u) of
        (None, Some p, Some c) \<Rightarrow> Some (p + c)
      | (t, _, _) \<Rightarrow> t)"

definition usage_openai_dict :: "provider_usage \<Rightarrow> pydict" where
  "usage_openai_dict u =
     opt_int_field ''prompt_tokens'' (prompt_tokens u) @
     opt_int_field ''completion_tokens'' (completion_tokens u) @
     opt_int_field ''total_tokens'' (derived_total u)"

section \<open>Route targets and chunks\<close>

record route_target =
  provider_ref :: string
  target_route_id :: string
  target_model :: "string option"

record provider_chunk =
  chunk_delta :: string
  chunk_finish_reason :: "string option"
  chunk_role :: "string option"
  chunk_tool_calls :: "tool_call_delta list"
  chunk_usage :: "provider_usage option"

section \<open>Embedding batches\<close>

record embedding_batch =
  vectors :: "pyval list list"
  dimensions :: int
  batch_model :: string

text \<open>The largest finite 32-bit float, \<open>3.4028234663852886e38\<close>.\<close>

definition max_float32 :: int where
  "max_float32 = 2 ^ 128 - 2 ^ 104"

fun vector_value_ok :: "pyval \<Rightarrow> py_exc + bool" where
  "vector_value_ok (PInt n) =
     (if int_overflows n then Inl int_too_large else Inr (\<bar>n\<bar> \<le> max_float32))"
| "vector_value_ok (PFloat (Flt q)) = Inr (\<bar>q\<bar> \<le> of_int max_float32)"
| "vector_value_ok _ = Inr False"

fun number_nonzero :: "pyval \<Rightarrow> bool" where
  "number_nonzero (PInt n) = (n \<noteq> 0)"
| "number_nonzero (PFloat (Flt q)) = (q \<noteq> 0)"
| "number_nonzero _ = True"

fun check_values :: "nat \<Rightarrow> nat \<Rightarrow> pyval list \<Rightarrow> py_exc + unit" where
  "check_values v i [] = Inr ()"
| "check_values v i (x # xs) =
     rbind (vector_value_ok x) (\<lambda>ok.
       if ok then check_values v (Suc i) xs
       else Inl (ValueError (''embedding vector '' @ nat_str v @ ''['' @ nat_str i @ ''] must be finite numeric data'')))"

fun check_vectors :: "int \<Rightarrow> nat \<Rightarrow> pyval list list \<Rightarrow> py_exc + unit" where
  "check_vectors dims v [] = Inr ()"
| "check_vectors dims v (xs # rest) =
     (if int (length xs) \<noteq> dims
      then Inl (ValueError (''embedding vector '' @ nat_str v @ '' does not match declared dimensions''))
      else rbind (check_values v 0 xs) (\<lambda>_.
           if \<not> list_ex number_nonzero xs
           then Inl (ValueError (''embedding vector '' @ nat_str v @ '' must not be all zeros''))
           else check_vectors dims (Suc v) rest))"

definition mk_embedding_batch :: "pyval list list \<Rightarrow> pyval \<Rightarrow> pyval \<Rightarrow> py_exc + embedding_batch" where
  "mk_embedding_batch vs dims model =
     (case model of
        PStr m \<Rightarrow>
          if strip m = [] then Inl (ValueError ''embedding model must be non-empty provider-reported text'')
          else if length m > 256 then Inl (ValueError ''embedding model exceeds the maximum length'')
          else (case dims of
            PInt d \<Rightarrow>
              if d \<le> 0 then Inl (ValueError ''embedding dimensions must be a positive integer'')
              else if d > 16384 then Inl (ValueError ''embedding dimensions exceed the supported maximum'')
              else if vs = [] then Inl (ValueError ''embedding batch must contain at least one vector'')
              else rbind (check_vectors d 0 vs) (\<lambda>_. Inr \<lparr>vectors = vs, dimensions = d, batch_model = m\<rparr>)
          | _ \<Rightarrow> Inl (ValueError ''embedding dimensions must be a positive integer''))
      | _ \<Rightarrow> Inl (ValueError ''embedding model must be non-empty provider-reported text''))"

section \<open>Typed embedding errors\<close>

record embedding_error =
  ee_code :: int
  ee_message :: string
  ee_retry_after :: pyval

fun retry_delay_ok :: "pyval \<Rightarrow> py_exc + bool" where
  "retry_delay_ok PNone = Inr True"
| "retry_delay_ok (PInt n) =
     (if int_overflows n then Inl int_too_large else Inr (0 \<le> n \<and> n \<le> 86400))"
| "retry_delay_ok (PFloat f) = Inr (pyfloat_between 0 86400 f)"
| "retry_delay_ok _ = Inr False"

definition mk_embedding_error :: "int \<Rightarrow> string \<Rightarrow> pyval \<Rightarrow> py_exc + embedding_error" where
  "mk_embedding_error c message retry =
     (if c \<notin> {1, 2, 3, 4, 5} then Inl (ValueError ''embedding provider error code is invalid'')
      else if strip message = [] then Inl (ValueError ''embedding provider error message must be non-empty'')
      else rbind (retry_delay_ok retry) (\<lambda>ok.
        if ok then Inr \<lparr>ee_code = c, ee_message = message, ee_retry_after = retry\<rparr>
        else Inl (ValueError ''embedding retry delay must be between zero and one day'')))"

section \<open>Facts\<close>

lemma opt_text_eq_Inr: "opt_text v f = Inr t \<longleftrightarrow> v = (case t of None \<Rightarrow> PNone | Some s \<Rightarrow> PStr s)"
  by (cases v) (auto split: option.splits)

lemma opt_count_eq_Inr:
  "opt_count v f = Inr t \<longleftrightarrow> opt_nonneg t \<and> v = (case t of None \<Rightarrow> PNone | Some n \<Rightarrow> PInt n)"
  by (cases v) (auto simp: opt_nonneg_def split: option.splits)

lemma mk_provider_usage_ok: "mk_provider_usage p c t s = Inr u \<Longrightarrow> usage_ok u"
  by (cases s) (auto simp: mk_provider_usage_def result_simps opt_count_eq_Inr usage_ok_def split: if_splits)

lemma mk_tool_call_delta_index: "mk_tool_call_delta i a b c d = Inr t \<Longrightarrow> 0 \<le> tc_index t \<and> i = PInt (tc_index t)"
  by (cases i) (auto simp: mk_tool_call_delta_def result_simps split: if_splits)

definition vector_ok :: "int \<Rightarrow> pyval list \<Rightarrow> bool" where
  "vector_ok dims xs =
     (int (length xs) = dims \<and> list_all (\<lambda>x. vector_value_ok x = Inr True) xs \<and> list_ex number_nonzero xs)"

lemma check_values_Inr: "check_values v i xs = Inr u \<longleftrightarrow> list_all (\<lambda>x. vector_value_ok x = Inr True) xs"
  by (induction v i xs rule: check_values.induct) (auto simp: result_simps)

lemma check_vectors_Inr: "check_vectors dims v vs = Inr u \<longleftrightarrow> list_all (vector_ok dims) vs"
  by (induction dims v vs rule: check_vectors.induct)
     (auto simp: result_simps check_values_Inr vector_ok_def)

lemma mk_embedding_batch_dest:
  "mk_embedding_batch vs d m = Inr b \<Longrightarrow>
   \<exists>name dims. m = PStr name \<and> d = PInt dims \<and> length name \<le> 256 \<and> 0 < dims \<and> dims \<le> 16384 \<and>
     vs \<noteq> [] \<and> list_all (vector_ok dims) vs \<and> b = \<lparr>vectors = vs, dimensions = dims, batch_model = name\<rparr>"
  by (auto simp: mk_embedding_batch_def result_simps check_vectors_Inr split: pyval.split_asm if_split_asm)

lemma mk_embedding_batch_Inr:
  assumes "mk_embedding_batch vs d m = Inr b"
  shows "vectors b = vs" "vs \<noteq> []" "list_all (vector_ok (dimensions b)) vs"
    "0 < dimensions b" "dimensions b \<le> 16384" "length (batch_model b) \<le> 256"
  using mk_embedding_batch_dest [OF assms] by auto

lemma derived_total_None_iff:
  "derived_total u = None \<longleftrightarrow> total_tokens u = None \<and> (prompt_tokens u = None \<or> completion_tokens u = None)"
  by (auto simp: derived_total_def split: option.splits)

lemma usage_openai_dict_Nil_iff:
  "usage_openai_dict u = [] \<longleftrightarrow>
   prompt_tokens u = None \<and> completion_tokens u = None \<and> total_tokens u = None"
  by (auto simp: usage_openai_dict_def opt_int_field_def derived_total_def split: option.splits)

end
