(* ===== verification/Protocol.thy ===== *)
theory Protocol
  imports Capabilities
begin

text \<open>
  Request normalization, \<open>src/cyrene_exchange/protocol.py\<close>. Payloads are Python values as
  \<open>json.loads\<close> returns them; a normalized message or tool keeps the dictionary of the source,
  with the normalized fields written over it. Every \<open>raise\<close> is a branch with its message;
  a membership test that hashes an unhashable value raises \<open>TypeError\<close>, as in Python.
\<close>

definition MAX_CHAT_CONTENT_PARTS :: nat where "MAX_CHAT_CONTENT_PARTS = 128"
definition MAX_CHAT_MEDIA_BYTES :: nat where "MAX_CHAT_MEDIA_BYTES = 20 * 1024 * 1024"
definition MAX_ARTIFACT_ID_LENGTH :: nat where "MAX_ARTIFACT_ID_LENGTH = 256"

abbreviation perr :: "string \<Rightarrow> py_exc + 'a" where
  "perr m \<equiv> Inl (ProtocolError m)"

abbreviation require :: "bool \<Rightarrow> string \<Rightarrow> py_exc + unit" where
  "require ok m \<equiv> guard ok (ProtocolError m)"

text \<open>\<open>value not in {...}\<close> over a set of strings.\<close>

definition require_member :: "pyval \<Rightarrow> string list \<Rightarrow> string \<Rightarrow> py_exc + string" where
  "require_member v names m =
     (if \<not> hashable v then Inl (TypeError ''unhashable type'')
      else case v of PStr s \<Rightarrow> if s \<in> set names then Inr s else perr m | _ \<Rightarrow> perr m)"

definition unknown_fields :: "pydict \<Rightarrow> string list \<Rightarrow> string list" where
  "unknown_fields d allowed = sort (remdups (filter (\<lambda>k. k \<notin> set allowed) (map fst d)))"

definition require_non_empty_string :: "pyval \<Rightarrow> string \<Rightarrow> py_exc + string" where
  "require_non_empty_string v field =
     rbind (need_str v (ProtocolError (field @ '' must be a non-empty string''))) (\<lambda>s.
     rbind (require (strip s \<noteq> []) (field @ '' must be a non-empty string'')) (\<lambda>_. Inr (strip s)))"

definition quoted :: "string \<Rightarrow> string" where
  "quoted s = CHR 0x27 # s @ [CHR 0x27]"

section \<open>Tools\<close>

definition tool_label :: "nat \<Rightarrow> string" where
  "tool_label i = ''tools['' @ nat_str i @ '']''"

text \<open>
  An optional field: absent or null leaves the result as it is, a value of the wrong type is an
  error, and any other value is written into the result.
\<close>

definition put_optional ::
  "(pyval \<Rightarrow> bool) \<Rightarrow> string \<Rightarrow> pydict \<Rightarrow> string \<Rightarrow> pydict \<Rightarrow> py_exc + pydict" where
  "put_optional ok field raw m result =
     (let v = dget raw field in
      if v = PNone then Inr result
      else rbind (require (ok v) m) (\<lambda>_. Inr (dset field v result)))"

fun is_bool :: "pyval \<Rightarrow> bool" where
  "is_bool (PBool b) = True"
| "is_bool _ = False"

definition normalize_tool :: "nat \<Rightarrow> pyval \<Rightarrow> py_exc + pydict" where
  "normalize_tool index raw_tool =
     rbind (need_dict raw_tool (ProtocolError (tool_label index @ '' must be an object''))) (\<lambda>tool.
     rbind (require (dget tool ''type'' = PStr ''function'') (tool_label index @ ''.type must be '' @ quoted ''function'')) (\<lambda>_.
     rbind (need_dict (dget tool ''function'') (ProtocolError (tool_label index @ ''.function must be an object''))) (\<lambda>raw_function.
     rbind (require_non_empty_string (dget raw_function ''name'') (tool_label index @ ''.function.name'')) (\<lambda>name.
     rbind (put_optional is_str ''description'' raw_function (tool_label index @ ''.function.description must be a string'')
              (dset ''name'' (PStr name) raw_function)) (\<lambda>f1.
     rbind (put_optional is_mapping ''parameters'' raw_function (tool_label index @ ''.function.parameters must be an object'') f1) (\<lambda>f2.
     rbind (put_optional is_bool ''strict'' raw_function (tool_label index @ ''.function.strict must be a boolean'') f2) (\<lambda>f3.
     Inr (dset ''function'' (PDict f3) (dset ''type'' (PStr ''function'') tool)))))))))"

definition normalize_tool_choice :: "pyval \<Rightarrow> py_exc + pyval" where
  "normalize_tool_choice v =
     (if is_str v then
        rbind (require (v \<in> set (map PStr [''none'', ''auto'', ''required'']))
                 (''tool_choice must be '' @ quoted ''none'' @ '', '' @ quoted ''auto'' @ '', or '' @ quoted ''required'')) (\<lambda>_.
        Inr v)
      else
        rbind (need_dict v (ProtocolError ''tool_choice must be a string or an object'')) (\<lambda>d.
        rbind (require (dget d ''type'' = PStr ''function'') (''tool_choice.type must be '' @ quoted ''function'')) (\<lambda>_.
        rbind (need_dict (dget d ''function'') (ProtocolError ''tool_choice.function must be an object'')) (\<lambda>f.
        rbind (require_non_empty_string (dget f ''name'') ''tool_choice.function.name'') (\<lambda>name.
        Inr (PDict [(''type'', PStr ''function''), (''function'', PDict [(''name'', PStr name)])]))))))"

definition normalize_stream_options :: "pyval \<Rightarrow> py_exc + pydict" where
  "normalize_stream_options v =
     rbind (need_dict v (ProtocolError ''stream_options must be an object'')) (\<lambda>d.
     let unknown = unknown_fields d [''include_usage''] in
     rbind (require (unknown = []) (''stream_options contains unsupported fields: '' @ join_with '', '' unknown)) (\<lambda>_.
     rbind (need_bool (dget_or d ''include_usage'' (PBool False))
              (ProtocolError ''stream_options.include_usage must be a boolean'')) (\<lambda>b.
     Inr [(''include_usage'', PBool b)])))"

definition normalize_tool_call :: "string \<Rightarrow> pyval \<Rightarrow> py_exc + pydict" where
  "normalize_tool_call prefix raw_call =
     rbind (need_dict raw_call (ProtocolError (prefix @ '' must be an object''))) (\<lambda>c.
     rbind (require_non_empty_string (dget c ''id'') (prefix @ ''.id'')) (\<lambda>call_id.
     rbind (require (dget_or c ''type'' (PStr ''function'') = PStr ''function'') (prefix @ ''.type must be '' @ quoted ''function'')) (\<lambda>_.
     rbind (need_dict (dget c ''function'') (ProtocolError (prefix @ ''.function must be an object''))) (\<lambda>raw_function.
     rbind (require_non_empty_string (dget raw_function ''name'') (prefix @ ''.function.name'')) (\<lambda>name.
     rbind (need_str (dget_or raw_function ''arguments'' (PStr []))
              (ProtocolError (prefix @ ''.function.arguments must be a string''))) (\<lambda>arguments.
     Inr (dset ''function'' (PDict (dset ''arguments'' (PStr arguments) (dset ''name'' (PStr name) raw_function)))
           (dset ''type'' (PStr ''function'') (dset ''id'' (PStr call_id) c)))))))))"

definition normalize_tool_calls :: "pyval \<Rightarrow> nat \<Rightarrow> py_exc + pydict list" where
  "normalize_tool_calls raw message_index =
     rbind (need_items raw (ProtocolError (''messages['' @ nat_str message_index @ ''].tool_calls must be an array''))) (\<lambda>items.
     rbind (require (items \<noteq> []) (''messages['' @ nat_str message_index @ ''].tool_calls must not be empty'')) (\<lambda>_.
     rmap (\<lambda>call_index. normalize_tool_call
       (''messages['' @ nat_str message_index @ ''].tool_calls['' @ nat_str call_index @ '']'')) items))"

section \<open>Content parts\<close>

definition mime_char :: "char \<Rightarrow> bool" where
  "mime_char c = (code c \<in> {97..122} \<or> code c \<in> {48..57} \<or> c \<in> set ''!#$&^_.+-'')"

text \<open>\<open>re.fullmatch(r"[a-z0-9!#$&^_.+-]+/[a-z0-9!#$&^_.+-]+", s)\<close>.\<close>

definition mime_ok :: "string \<Rightarrow> bool" where
  "mime_ok s =
     (let category = before_char CHR ''/'' s in
      category \<noteq> [] \<and> list_all mime_char category \<and>
      (case drop (length category) s of
         [] \<Rightarrow> False
       | _ # subtype \<Rightarrow> subtype \<noteq> [] \<and> list_all mime_char subtype))"

definition mime_fits :: "string \<Rightarrow> string \<Rightarrow> bool" where
  "mime_fits part_type mime =
     (let category = before_char CHR ''/'' mime in
      (part_type = ''image'' \<longrightarrow> category = ''image'') \<and> (part_type = ''audio'' \<longrightarrow> category = ''audio''))"

definition normalize_mime :: "string \<Rightarrow> string \<Rightarrow> pyval \<Rightarrow> py_exc + string" where
  "normalize_mime prefix part_type v =
     rbind (need_str v (ProtocolError (prefix @ ''.mime_type is invalid''))) (\<lambda>s.
     let mime = lower (strip s) in
     rbind (require (length s \<le> 255 \<and> mime_ok mime) (prefix @ ''.mime_type is invalid'')) (\<lambda>_.
     rbind (require (mime_fits part_type mime) (prefix @ ''.mime_type does not match its content type'')) (\<lambda>_.
     Inr mime)))"

definition max_encoded_length :: nat where
  "max_encoded_length = (MAX_CHAT_MEDIA_BYTES + 2) div 3 * 4"

definition decode_inline :: "string \<Rightarrow> pyval \<Rightarrow> nat \<Rightarrow> py_exc + (bytes \<times> nat)" where
  "decode_inline prefix v media_bytes =
     rbind (need_str v (ProtocolError (prefix @ ''.data_base64 is empty or exceeds the size limit''))) (\<lambda>encoded.
     rbind (require (encoded \<noteq> [] \<and> length encoded \<le> max_encoded_length)
              (prefix @ ''.data_base64 is empty or exceeds the size limit'')) (\<lambda>_.
     case b64decode encoded of
       None \<Rightarrow> perr (prefix @ ''.data_base64 is not valid base64'')
     | Some data \<Rightarrow>
         rbind (require (data \<noteq> [] \<and> length data \<le> MAX_CHAT_MEDIA_BYTES)
                  (prefix @ ''.data_base64 is empty or exceeds the size limit'')) (\<lambda>_.
         rbind (require (media_bytes + length data \<le> MAX_CHAT_MEDIA_BYTES)
                  ''chat media exceeds the maximum aggregate size'') (\<lambda>_.
         Inr (data, media_bytes + length data)))))"

definition artifact_id_ok :: "string \<Rightarrow> bool" where
  "artifact_id_ok s =
     (strip s \<noteq> [] \<and> length s \<le> MAX_ARTIFACT_ID_LENGTH \<and> \<not> has_substring ''://'' s \<and>
      CHR ''/'' \<notin> set s \<and> CHR 0x5C \<notin> set s \<and> \<not> starts_with ''~'' s)"

definition filename_ok :: "string \<Rightarrow> bool" where
  "filename_ok s =
     (strip s \<noteq> [] \<and> length s \<le> 255 \<and> CHR ''/'' \<notin> set s \<and> CHR 0x5C \<notin> set s \<and> CHR 0x00 \<notin> set s \<and>
      s \<notin> {''.'', ''..''})"

definition media_fields :: "string \<Rightarrow> string list" where
  "media_fields part_type =
     [''type'', ''mime_type'', ''data_base64'', ''artifact_id''] @ (if part_type = ''file'' then [''filename''] else [])"

text \<open>The reference of a media part: its decoded bytes, or its opaque artifact id.\<close>

definition normalize_reference :: "string \<Rightarrow> pydict \<Rightarrow> nat \<Rightarrow> py_exc + (pydict \<times> nat)" where
  "normalize_reference prefix part media_bytes =
     rbind (require (dhas part ''data_base64'' \<noteq> dhas part ''artifact_id'')
              (prefix @ '' must supply exactly one of data_base64 or artifact_id'')) (\<lambda>_.
     if dhas part ''data_base64'' then
       rbind (decode_inline prefix (dget part ''data_base64'') media_bytes) (\<lambda>(data, media_bytes').
       Inr ([(''data'', PBytes data)], media_bytes'))
     else
       rbind (need_str (dget part ''artifact_id'') (ProtocolError (prefix @ ''.artifact_id must be an opaque reference''))) (\<lambda>a.
       rbind (require (artifact_id_ok a) (prefix @ ''.artifact_id must be an opaque reference'')) (\<lambda>_.
       Inr ([(''artifact_id'', PStr a)], media_bytes))))"

definition normalize_filename :: "string \<Rightarrow> string \<Rightarrow> pydict \<Rightarrow> py_exc + pydict" where
  "normalize_filename prefix part_type part =
     (if part_type = ''file'' \<and> dhas part ''filename'' then
        rbind (need_str (dget part ''filename'') (ProtocolError (prefix @ ''.filename is invalid''))) (\<lambda>f.
        rbind (require (filename_ok f) (prefix @ ''.filename is invalid'')) (\<lambda>_. Inr [(''filename'', PStr f)]))
      else Inr [])"

definition normalize_media_part :: "string \<Rightarrow> pydict \<Rightarrow> nat \<Rightarrow> py_exc + (pydict \<times> nat)" where
  "normalize_media_part prefix part media_bytes =
     rbind (require_member (dget part ''type'') [''image'', ''audio'', ''file''] (prefix @ ''.type is unsupported'')) (\<lambda>part_type.
     let unknown = unknown_fields part (media_fields part_type) in
     rbind (require (unknown = []) (prefix @ '' contains unsupported fields: '' @ join_with '', '' unknown)) (\<lambda>_.
     rbind (normalize_mime prefix part_type (dget part ''mime_type'')) (\<lambda>mime.
     rbind (normalize_reference prefix part media_bytes) (\<lambda>(reference, media_bytes').
     rbind (normalize_filename prefix part_type part) (\<lambda>filename.
     Inr ([(''type'', PStr part_type), (''mime_type'', PStr mime)] @ reference @ filename, media_bytes'))))))"

definition normalize_content_part :: "nat \<Rightarrow> nat \<Rightarrow> pyval \<Rightarrow> nat \<Rightarrow> py_exc + (pyval \<times> nat)" where
  "normalize_content_part message_index part_index raw_part media_bytes =
     (let prefix = ''messages['' @ nat_str message_index @ ''].content['' @ nat_str part_index @ '']'' in
      rbind (need_dict raw_part (ProtocolError (prefix @ '' must be an object''))) (\<lambda>part.
      if dget part ''type'' = PStr ''text'' then
        rbind (require (set (map fst part) = {''type'', ''text''} \<and> is_str (dget part ''text''))
                 (prefix @ '' text part must contain only a string text field'')) (\<lambda>_.
        Inr (PDict [(''type'', PStr ''text''), (''text'', dget part ''text'')], media_bytes))
      else rbind (normalize_media_part prefix part media_bytes) (\<lambda>(d, media_bytes'). Inr (PDict d, media_bytes'))))"

section \<open>Messages\<close>

definition message_label :: "nat \<Rightarrow> string" where
  "message_label i = ''messages['' @ nat_str i @ '']''"

definition normalize_content ::
  "nat \<Rightarrow> string \<Rightarrow> pyval \<Rightarrow> nat \<Rightarrow> py_exc + (pyval \<times> nat)" where
  "normalize_content index role content media_bytes =
     rbind (case seq_items content of
              Some items \<Rightarrow>
                rbind (require (role \<noteq> ''tool'' \<and> items \<noteq> [] \<and> length items \<le> MAX_CHAT_CONTENT_PARTS)
                         (message_label index @ ''.content must contain 1 to 128 parts'')) (\<lambda>_.
                rbind (traverse (normalize_content_part index) 0 items media_bytes) (\<lambda>(parts, media_bytes').
                Inr (PTuple parts, media_bytes')))
            | None \<Rightarrow>
                rbind (require (content = PNone \<or> is_str content)
                         (message_label index @ ''.content must be text, typed parts, or null'')) (\<lambda>_.
                Inr (content, media_bytes))) (\<lambda>(content', media_bytes').
     rbind (require (content' \<noteq> PNone \<or> role = ''assistant'')
              (message_label index @ ''.content must be text for '' @ role @ '' messages'')) (\<lambda>_.
     rbind (require (case content' of PStr s \<Rightarrow> length (utf8 s) \<le> MAX_CHAT_MEDIA_BYTES | _ \<Rightarrow> True)
              (message_label index @ ''.content exceeds the maximum text size'')) (\<lambda>_.
     Inr (content', media_bytes'))))"

definition require_optional_text :: "pydict \<Rightarrow> nat \<Rightarrow> string \<Rightarrow> py_exc + unit" where
  "require_optional_text message index field =
     require (dget message field = PNone \<or> is_str (dget message field))
       (message_label index @ ''.'' @ field @ '' must be a string when provided'')"

definition normalize_message :: "nat \<Rightarrow> pydict \<Rightarrow> nat \<Rightarrow> py_exc + (pydict \<times> nat)" where
  "normalize_message index raw media_bytes =
     rbind (require_member (dget raw ''role'') [''system'', ''user'', ''assistant'', ''tool'']
              (message_label index @ ''.role is invalid'')) (\<lambda>role.
     let has_tool_calls = dhas raw ''tool_calls'' in
     rbind (require (has_tool_calls \<longrightarrow> role = ''assistant'')
              (message_label index @ ''.tool_calls is only valid for assistant messages'')) (\<lambda>_.
     rbind (require (dhas raw ''content'' \<or> has_tool_calls) (message_label index @ ''.content is required'')) (\<lambda>_.
     rbind (normalize_content index role (dget raw ''content'') media_bytes) (\<lambda>(content, media_bytes').
     let message = dset ''content'' content (dset ''role'' (PStr role) raw) in
     rbind (require_optional_text message index ''name'') (\<lambda>_.
     rbind (require_optional_text message index ''tool_call_id'') (\<lambda>_.
     rbind (if role = ''tool'' then require_non_empty_string (dget message ''tool_call_id'') (message_label index @ ''.tool_call_id'')
            else Inr []) (\<lambda>_.
     if has_tool_calls then
       rbind (normalize_tool_calls (dget raw ''tool_calls'') index) (\<lambda>calls.
       Inr (dset ''tool_calls'' (PList (map PDict calls)) message, media_bytes'))
     else Inr (message, media_bytes'))))))))"

definition normalize_raw_message :: "nat \<Rightarrow> pyval \<Rightarrow> nat \<Rightarrow> py_exc + (pydict \<times> nat)" where
  "normalize_raw_message index raw media_bytes =
     rbind (need_dict raw (ProtocolError (message_label index @ '' must be an object''))) (\<lambda>d.
     normalize_message index d media_bytes)"

section \<open>Chat requests\<close>

record inference_request =
  req_model :: string
  req_messages :: "pydict list"
  req_stream :: bool
  req_temperature :: "pyfloat option"
  req_max_tokens :: "int option"
  req_tools :: "pydict list"
  req_tool_choice :: "pyval option"
  req_parallel_tool_calls :: "bool option"
  req_stream_options :: "pydict option"

definition check_temperature :: "pyval \<Rightarrow> py_exc + pyfloat option" where
  "check_temperature v =
     (case v of
        PNone \<Rightarrow> Inr None
      | PInt n \<Rightarrow>
          if int_overflows n then Inl int_too_large
          else rbind (require (0 \<le> n \<and> n \<le> 2) ''temperature must be between 0 and 2'') (\<lambda>_. Inr (Some (Flt (of_int n))))
      | PFloat f \<Rightarrow>
          rbind (require (pyfloat_between 0 2 f) ''temperature must be between 0 and 2'') (\<lambda>_. Inr (Some f))
      | _ \<Rightarrow> perr ''temperature must be a number'')"

definition check_max_tokens :: "pyval \<Rightarrow> py_exc + int option" where
  "check_max_tokens v =
     (case v of
        PNone \<Rightarrow> Inr None
      | PInt n \<Rightarrow> rbind (require (0 < n) ''max_tokens must be a positive integer'') (\<lambda>_. Inr (Some n))
      | _ \<Rightarrow> perr ''max_tokens must be a positive integer'')"

definition check_optional_bool :: "pyval \<Rightarrow> string \<Rightarrow> py_exc + bool option" where
  "check_optional_bool v m =
     (case v of PNone \<Rightarrow> Inr None | PBool b \<Rightarrow> Inr (Some b) | _ \<Rightarrow> perr m)"

definition check_tools :: "pyval \<Rightarrow> py_exc + pydict list" where
  "check_tools v = rbind (need_items v (ProtocolError ''tools must be an array'')) (rmap normalize_tool)"

definition optional :: "(pyval \<Rightarrow> py_exc + 'a) \<Rightarrow> pyval \<Rightarrow> py_exc + 'a option" where
  "optional f v = (if v = PNone then Inr None else rbind (f v) (\<lambda>x. Inr (Some x)))"

definition check_messages :: "pyval \<Rightarrow> py_exc + pydict list" where
  "check_messages v =
     rbind (need_items v (ProtocolError ''messages must be a non-empty array'')) (\<lambda>items.
     rbind (require (items \<noteq> []) ''messages must be a non-empty array'') (\<lambda>_.
     rbind (traverse normalize_raw_message 0 items 0) (\<lambda>(messages, _). Inr messages)))"

definition from_openai :: "pyval \<Rightarrow> py_exc + inference_request" where
  "from_openai payload =
     rbind (need_dict payload (ProtocolError ''request body must be a JSON object'')) (\<lambda>p.
     rbind (require_non_empty_string (dget p ''model'') ''model'') (\<lambda>model.
     rbind (check_messages (dget p ''messages'')) (\<lambda>messages.
     rbind (need_bool (dget_or p ''stream'' (PBool False)) (ProtocolError ''stream must be a boolean'')) (\<lambda>stream.
     rbind (check_temperature (dget p ''temperature'')) (\<lambda>temperature.
     rbind (check_max_tokens (dget p ''max_tokens'')) (\<lambda>max_tokens.
     rbind (check_tools (dget_or p ''tools'' (PTuple []))) (\<lambda>tools.
     rbind (optional normalize_tool_choice (dget p ''tool_choice'')) (\<lambda>tool_choice.
     rbind (check_optional_bool (dget p ''parallel_tool_calls'') ''parallel_tool_calls must be a boolean'') (\<lambda>parallel.
     rbind (optional normalize_stream_options (dget p ''stream_options'')) (\<lambda>stream_options.
     rbind (require (stream_options = None \<or> stream) ''stream_options is only valid when stream is true'') (\<lambda>_.
     Inr \<lparr>req_model = model, req_messages = messages, req_stream = stream, req_temperature = temperature,
          req_max_tokens = max_tokens, req_tools = tools, req_tool_choice = tool_choice,
          req_parallel_tool_calls = parallel, req_stream_options = stream_options\<rparr>)))))))))))"

definition to_provider_dict :: "inference_request \<Rightarrow> pydict" where
  "to_provider_dict r =
     [(''model'', PStr (req_model r)), (''messages'', PList (map PDict (req_messages r))),
      (''stream'', PBool (req_stream r))] @
     (case req_temperature r of None \<Rightarrow> [] | Some t \<Rightarrow> [(''temperature'', PFloat t)]) @
     (case req_max_tokens r of None \<Rightarrow> [] | Some n \<Rightarrow> [(''max_tokens'', PInt n)]) @
     (if req_tools r = [] then [] else [(''tools'', PList (map PDict (req_tools r)))]) @
     (case req_tool_choice r of None \<Rightarrow> [] | Some c \<Rightarrow> [(''tool_choice'', c)]) @
     (case req_parallel_tool_calls r of None \<Rightarrow> [] | Some b \<Rightarrow> [(''parallel_tool_calls'', PBool b)]) @
     (case req_stream_options r of None \<Rightarrow> [] | Some d \<Rightarrow> [(''stream_options'', PDict d)])"

section \<open>Embedding requests\<close>

record embedding_request =
  emb_model :: string
  emb_inputs :: "string list"

fun check_inputs :: "nat \<Rightarrow> nat \<Rightarrow> string list \<Rightarrow> py_exc + nat" where
  "check_inputs index total_bytes [] = Inr total_bytes"
| "check_inputs index total_bytes (item # rest) =
     rbind (require (strip item \<noteq> []) (''input['' @ nat_str index @ ''] must be non-empty text'')) (\<lambda>_.
     rbind (require (length item \<le> 32768) (''input['' @ nat_str index @ ''] exceeds the maximum text length'')) (\<lambda>_.
     check_inputs (Suc index) (total_bytes + length (utf8 item)) rest))"

fun text_items :: "pyval list \<Rightarrow> string list option" where
  "text_items [] = Some []"
| "text_items (PStr s # rest) = map_option (Cons s) (text_items rest)"
| "text_items _ = None"

definition embedding_inputs :: "pyval \<Rightarrow> py_exc + string list" where
  "embedding_inputs v =
     (let e = ProtocolError ''input must be text or a non-empty array of text'' in
      case v of
        PStr s \<Rightarrow> Inr [s]
      | _ \<Rightarrow> rbind (need_items v e) (\<lambda>items.
             case text_items items of
               None \<Rightarrow> Inl e
             | Some texts \<Rightarrow> rbind (guard (texts \<noteq> []) e) (\<lambda>_. Inr texts)))"

definition embedding_from_openai :: "pyval \<Rightarrow> py_exc + embedding_request" where
  "embedding_from_openai payload =
     rbind (need_dict payload (ProtocolError ''request body must be a JSON object'')) (\<lambda>p.
     let unknown = unknown_fields p [''model'', ''input'', ''encoding_format''] in
     rbind (require (unknown = []) (''embeddings request contains unsupported fields: '' @ join_with '', '' unknown)) (\<lambda>_.
     rbind (require_non_empty_string (dget p ''model'') ''model'') (\<lambda>model.
     rbind (require (length model \<le> 256) ''model exceeds the maximum length'') (\<lambda>_.
     rbind (embedding_inputs (dget p ''input'')) (\<lambda>inputs.
     rbind (require (length inputs \<le> 128) ''input must contain at most 128 items'') (\<lambda>_.
     rbind (check_inputs 0 0 inputs) (\<lambda>total_bytes.
     rbind (require (total_bytes \<le> 1048576) ''input batch exceeds the maximum encoded size'') (\<lambda>_.
     rbind (require (dget_or p ''encoding_format'' (PStr ''float'') = PStr ''float'')
              (''encoding_format must be '' @ quoted ''float'')) (\<lambda>_.
     Inr \<lparr>emb_model = model, emb_inputs = inputs\<rparr>)))))))))"

end
