(* ===== verification/Request_Facts.thy ===== *)
theory Request_Facts
  imports Protocol
begin

text \<open>
  What \<open>protocol.py\<close> guarantees: the shape of an accepted chat request (\<open>request_ok\<close>), the bound on
  its inline media, and that normalization is a normal form: sending the provider dictionary of an
  accepted request through it again changes nothing. The same for embedding batches.
\<close>

section \<open>Well-formed requests\<close>

definition text_part_ok :: "pydict \<Rightarrow> bool" where
  "text_part_ok d =
     (map fst d = [''type'', ''text''] \<and> dget d ''type'' = PStr ''text'' \<and> is_str (dget d ''text''))"

definition reference_ok :: "pydict \<Rightarrow> bool" where
  "reference_ok d =
     (case dget d ''data'' of
        PBytes b \<Rightarrow> b \<noteq> [] \<and> length b \<le> MAX_CHAT_MEDIA_BYTES \<and> \<not> dhas d ''artifact_id''
      | PNone \<Rightarrow> (case dget d ''artifact_id'' of PStr a \<Rightarrow> artifact_id_ok a | _ \<Rightarrow> False)
      | _ \<Rightarrow> False)"

definition media_part_ok :: "pydict \<Rightarrow> bool" where
  "media_part_ok d =
     (case (dget d ''type'', dget d ''mime_type'') of
        (PStr t, PStr m) \<Rightarrow>
          t \<in> {''image'', ''audio'', ''file''} \<and> mime_ok m \<and> mime_fits t m \<and> reference_ok d \<and>
          set (map fst d) \<subseteq> {''type'', ''mime_type'', ''data'', ''artifact_id'', ''filename''}
      | _ \<Rightarrow> False)"

fun part_ok :: "pyval \<Rightarrow> bool" where
  "part_ok (PDict d) = (text_part_ok d \<or> media_part_ok d)"
| "part_ok _ = False"

text \<open>The inline media bytes of a part, a message and a request.\<close>

definition part_bytes :: "pyval \<Rightarrow> nat" where
  "part_bytes v = (case v of PDict d \<Rightarrow> (case dget d ''data'' of PBytes b \<Rightarrow> length b | _ \<Rightarrow> 0) | _ \<Rightarrow> 0)"

definition content_bytes :: "pyval \<Rightarrow> nat" where
  "content_bytes v = (case v of PTuple ps \<Rightarrow> sum_list (map part_bytes ps) | _ \<Rightarrow> 0)"

definition message_bytes :: "pydict \<Rightarrow> nat" where
  "message_bytes m = content_bytes (dget m ''content'')"

definition request_bytes :: "inference_request \<Rightarrow> nat" where
  "request_bytes r = sum_list (map message_bytes (req_messages r))"

definition content_ok :: "string \<Rightarrow> pyval \<Rightarrow> bool" where
  "content_ok role v =
     (case v of
        PNone \<Rightarrow> role = ''assistant''
      | PStr s \<Rightarrow> length (utf8 s) \<le> MAX_CHAT_MEDIA_BYTES
      | PTuple ps \<Rightarrow> role \<noteq> ''tool'' \<and> ps \<noteq> [] \<and> length ps \<le> MAX_CHAT_CONTENT_PARTS \<and> list_all part_ok ps
      | _ \<Rightarrow> False)"

definition nonblank :: "pyval \<Rightarrow> bool" where
  "nonblank v = (case v of PStr s \<Rightarrow> strip s \<noteq> [] | _ \<Rightarrow> False)"

definition tool_call_ok :: "pyval \<Rightarrow> bool" where
  "tool_call_ok v =
     (case v of
        PDict c \<Rightarrow> nonblank (dget c ''id'') \<and> dget c ''type'' = PStr ''function'' \<and>
          (case dget c ''function'' of PDict f \<Rightarrow> nonblank (dget f ''name'') \<and> is_str (dget f ''arguments'') | _ \<Rightarrow> False)
      | _ \<Rightarrow> False)"

definition tool_calls_ok :: "string \<Rightarrow> pydict \<Rightarrow> bool" where
  "tool_calls_ok role m =
     (dhas m ''tool_calls'' \<longrightarrow> role = ''assistant'' \<and>
        (case dget m ''tool_calls'' of PList cs \<Rightarrow> cs \<noteq> [] \<and> list_all tool_call_ok cs | _ \<Rightarrow> False))"

definition message_ok :: "pydict \<Rightarrow> bool" where
  "message_ok m =
     (case dget m ''role'' of
        PStr role \<Rightarrow>
          role \<in> {''system'', ''user'', ''assistant'', ''tool''} \<and> content_ok role (dget m ''content'') \<and>
          (role = ''tool'' \<longrightarrow> nonblank (dget m ''tool_call_id'')) \<and> tool_calls_ok role m
      | _ \<Rightarrow> False)"

definition tool_ok :: "pydict \<Rightarrow> bool" where
  "tool_ok t =
     (dget t ''type'' = PStr ''function'' \<and>
      (case dget t ''function'' of PDict f \<Rightarrow> nonblank (dget f ''name'') | _ \<Rightarrow> False))"

definition request_ok :: "inference_request \<Rightarrow> bool" where
  "request_ok r =
     (strip (req_model r) = req_model r \<and> req_model r \<noteq> [] \<and>
      req_messages r \<noteq> [] \<and> list_all message_ok (req_messages r) \<and> list_all tool_ok (req_tools r) \<and>
      (case req_temperature r of None \<Rightarrow> True | Some t \<Rightarrow> pyfloat_between 0 2 t) \<and>
      (case req_max_tokens r of None \<Rightarrow> True | Some n \<Rightarrow> 0 < n) \<and>
      (req_stream_options r = None \<or> req_stream r))"

section \<open>Facts\<close>

lemma dget_Cons: "dget_or ((k, v) # d) k' x = (if k' = k then v else dget_or d k' x)"
  and dget_Nil: "dget_or [] k' x = x"
  by (auto simp: dget_or_def)

lemma require_non_empty_Inr [result_simps]:
  "require_non_empty_string v f = Inr s \<longleftrightarrow> (\<exists>t. v = PStr t \<and> strip t \<noteq> [] \<and> s = strip t)"
  by (auto simp: require_non_empty_string_def result_simps)

lemma require_member_Inr [result_simps]:
  "require_member v names m = Inr s \<longleftrightarrow> v = PStr s \<and> s \<in> set names"
  by (cases v) (auto simp: require_member_def)

lemma normalize_mime_Inr [result_simps]:
  "normalize_mime p t v = Inr m \<longleftrightarrow>
   (\<exists>s. v = PStr s \<and> length s \<le> 255 \<and> m = lower (strip s) \<and> mime_ok m \<and> mime_fits t m)"
  by (auto simp: normalize_mime_def Let_def result_simps)

lemma decode_inline_Inr [result_simps]:
  "decode_inline p v n = Inr (d, n') \<longleftrightarrow>
   (\<exists>s. v = PStr s \<and> s \<noteq> [] \<and> length s \<le> max_encoded_length \<and> b64decode s = Some d \<and> d \<noteq> [] \<and>
     n' = n + length d \<and> n' \<le> MAX_CHAT_MEDIA_BYTES)"
  by (auto simp: decode_inline_def result_simps split: option.splits)

lemma normalize_filename_Inr:
  "normalize_filename p t part = Inr fs \<Longrightarrow> fs = [] \<or> (\<exists>f. fs = [(''filename'', PStr f)] \<and> filename_ok f)"
  by (auto simp: normalize_filename_def result_simps split: if_splits)

lemma normalize_reference_Inr:
  assumes "normalize_reference p part n = Inr (ref, n')"
  shows "(\<exists>b. ref = [(''data'', PBytes b)] \<and> b \<noteq> [] \<and> n' = n + length b \<and> n' \<le> MAX_CHAT_MEDIA_BYTES) \<or>
    (\<exists>a. ref = [(''artifact_id'', PStr a)] \<and> artifact_id_ok a \<and> n' = n)"
  using assms
  by (auto simp: normalize_reference_def result_simps split: if_splits)

lemma normalize_media_part_ok:
  assumes "normalize_media_part p part n = Inr (d, n')"
  shows "media_part_ok d \<and> n' = n + part_bytes (PDict d) \<and> (n \<le> MAX_CHAT_MEDIA_BYTES \<longrightarrow> n' \<le> MAX_CHAT_MEDIA_BYTES)"
proof -
  from assms obtain t m ref fs where
    t: "t \<in> {''image'', ''audio'', ''file''}" and m: "mime_ok m" "mime_fits t m" and
    ref: "normalize_reference p part n = Inr (ref, n')" and fs: "normalize_filename p t part = Inr fs" and
    d: "d = [(''type'', PStr t), (''mime_type'', PStr m)] @ ref @ fs"
    by (auto simp: normalize_media_part_def Let_def result_simps)
  show ?thesis
    using normalize_reference_Inr [OF ref] normalize_filename_Inr [OF fs] t m
    by (elim disjE exE conjE)
       (auto simp: d media_part_ok_def reference_ok_def part_bytes_def dget_or_def dhas_def)
qed

lemma normalize_content_part_ok:
  assumes "normalize_content_part i j raw n = Inr (v, n')"
  shows "part_ok v \<and> n' = n + part_bytes v \<and> (n \<le> MAX_CHAT_MEDIA_BYTES \<longrightarrow> n' \<le> MAX_CHAT_MEDIA_BYTES)"
proof -
  from assms obtain part where raw: "raw = PDict part"
    by (auto simp: normalize_content_part_def Let_def result_simps)
  show ?thesis
  proof (cases "dget part ''type'' = PStr ''text''")
    case True
    with assms raw have "is_str (dget part ''text'')" "n' = n"
      "v = PDict [(''type'', PStr ''text''), (''text'', dget part ''text'')]"
      by (auto simp: normalize_content_part_def result_simps)
    then show ?thesis by (simp add: part_bytes_def text_part_ok_def dget_Cons dget_Nil)
  next
    case False
    with assms raw obtain d where "v = PDict d"
      "\<exists>p. normalize_media_part p part n = Inr (d, n')"
      by (auto simp: normalize_content_part_def Let_def result_simps)
    then show ?thesis using normalize_media_part_ok by auto
  qed
qed

text \<open>A loop whose body adds the measure of its output to a bounded counter.\<close>

lemma traverse_counter:
  assumes "traverse f i xs n = Inr (ys, n')" and "n \<le> limit"
    and step: "\<And>j x k y k'. f j x k = Inr (y, k') \<Longrightarrow> k \<le> limit \<Longrightarrow> P y \<and> k' = k + m y \<and> k' \<le> limit"
  shows "list_all P ys \<and> n' = n + sum_list (map m ys) \<and> n' \<le> (limit :: nat)"
  using assms(1,2)
proof (induction xs arbitrary: i n ys)
  case (Cons x xs)
  from Cons.prems(1) obtain y k zs where
    y: "f i x n = Inr (y, k)" "traverse f (Suc i) xs k = Inr (zs, n')" "ys = y # zs"
    by (auto simp: traverse_eq_Inr_Cons)
  from step [OF y(1) Cons.prems(2)] have "P y" "k = n + m y" "k \<le> limit" by auto
  with Cons.IH [OF y(2)] y(3) show ?case by simp
qed auto

lemma normalize_content_ok:
  assumes "normalize_content i role v n = Inr (c, n')" "n \<le> MAX_CHAT_MEDIA_BYTES"
  shows "content_ok role c \<and> n' = n + content_bytes c \<and> n' \<le> MAX_CHAT_MEDIA_BYTES"
proof (cases "seq_items v")
  case None
  with assms show ?thesis
    by (auto simp: normalize_content_def result_simps content_ok_def content_bytes_def is_str_iff)
next
  case (Some items)
  with assms(1) obtain ps where ps: "traverse (normalize_content_part i) 0 items n = Inr (ps, n')"
      "c = PTuple ps" "role \<noteq> ''tool''" "items \<noteq> []" "length items \<le> MAX_CHAT_CONTENT_PARTS"
    by (auto simp: normalize_content_def result_simps)
  from traverse_counter [OF ps(1) assms(2), of part_ok part_bytes] normalize_content_part_ok
  have "list_all part_ok ps \<and> n' = n + sum_list (map part_bytes ps) \<and> n' \<le> MAX_CHAT_MEDIA_BYTES"
    by blast
  with ps traverse_length [OF ps(1)] show ?thesis
    by (auto simp: content_ok_def content_bytes_def)
qed

lemma normalize_tool_call_ok: "normalize_tool_call p v = Inr c \<Longrightarrow> tool_call_ok (PDict c)"
  by (simp only: normalize_tool_call_def result_simps, elim exE conjE)
     (auto simp only: sum.inject, simp add: tool_call_ok_def nonblank_def dict_simps)

lemma normalize_tool_calls_ok:
  "normalize_tool_calls v i = Inr cs \<Longrightarrow> cs \<noteq> [] \<and> list_all tool_call_ok (map PDict cs)"
  by (auto simp: normalize_tool_calls_def result_simps rmap_eq_Inr_iff list_all_length intro: normalize_tool_call_ok)

lemma message_facts:
  assumes c: "content_ok role c" "n' = n + content_bytes c" and role: "role \<in> {''system'', ''user'', ''assistant'', ''tool''}"
    and tool: "role = ''tool'' \<Longrightarrow> nonblank (dget raw ''tool_call_id'')"
    and m: "m = dset ''content'' c (dset ''role'' (PStr role) raw)"
  shows "\<not> dhas raw ''tool_calls'' \<Longrightarrow> message_ok m \<and> n' = n + message_bytes m"
    and "role = ''assistant'' \<Longrightarrow> cs \<noteq> [] \<Longrightarrow> list_all tool_call_ok cs \<Longrightarrow>
      message_ok (dset ''tool_calls'' (PList cs) m) \<and> n' = n + message_bytes (dset ''tool_calls'' (PList cs) m)"
  using c role tool
  by (simp_all add: m message_ok_def message_bytes_def tool_calls_ok_def dict_simps)

lemma normalize_message_ok:
  assumes "normalize_message i raw n = Inr (m, n')" "n \<le> MAX_CHAT_MEDIA_BYTES"
  shows "message_ok m \<and> n' = n + message_bytes m \<and> n' \<le> MAX_CHAT_MEDIA_BYTES"
  using assms(1)
proof (simp only: normalize_message_def Let_def result_simps split_paired_Ex prod.case, elim exE conjE)
  fix role c k u
  let ?m = "dset ''content'' c (dset ''role'' (PStr role) raw)"
  assume role: "role \<in> set [''system'', ''user'', ''assistant'', ''tool'']"
    and calls: "dhas raw ''tool_calls'' \<longrightarrow> role = ''assistant''"
    and c: "normalize_content i role (dget raw ''content'') n = Inr (c, k)"
    and u: "(if role = ''tool'' then require_non_empty_string (dget ?m ''tool_call_id'') (message_label i @ ''.tool_call_id'')
      else Inr []) = Inr u"
    and m: "(if dhas raw ''tool_calls'' then
        rbind (normalize_tool_calls (dget raw ''tool_calls'') i)
          (\<lambda>calls. Inr (dset ''tool_calls'' (PList (map PDict calls)) ?m, k))
      else Inr (?m, k)) = Inr (m, n')"
  note c_ok = normalize_content_ok [OF c assms(2)]
  have tool: "nonblank (dget raw ''tool_call_id'')" if "role = ''tool''"
    using u that by (auto simp: nonblank_def dict_simps result_simps)
  note facts = message_facts [of role c k n raw ?m]
  show ?thesis
  proof (cases "dhas raw ''tool_calls''")
    case True
    with m obtain cs where "normalize_tool_calls (dget raw ''tool_calls'') i = Inr cs" "k = n'"
      "m = dset ''tool_calls'' (PList (map PDict cs)) ?m"
      by (auto simp only: if_True result_simps sum.inject prod.inject)
    with facts(2) [of "map PDict cs"] True calls role tool c_ok normalize_tool_calls_ok show ?thesis by auto
  next
    case False
    with m facts(1) role tool c_ok show ?thesis by auto
  qed
qed

lemma put_optional_Inr [result_simps]:
  "put_optional ok k raw m d = Inr d' \<longleftrightarrow>
   (dget raw k = PNone \<and> d' = d \<or> dget raw k \<noteq> PNone \<and> ok (dget raw k) \<and> d' = dset k (dget raw k) d)"
  by (auto simp: put_optional_def Let_def result_simps)

lemma put_optional_keeps: "put_optional ok k raw m d = Inr d' \<Longrightarrow> k' \<noteq> k \<Longrightarrow> dget_or d' k' x = dget_or d k' x"
  by (auto simp: result_simps dict_simps)

lemma normalize_tool_ok: "normalize_tool i v = Inr t \<Longrightarrow> tool_ok t"
proof (simp only: normalize_tool_def rbind_eq_Inr need_dict_Inr require_non_empty_Inr sum.inject, elim exE conjE)
  fix raw f s name f1 f2 f3
  assume f:
    "put_optional is_str ''description'' f (tool_label i @ ''.function.description must be a string'')
      (dset ''name'' (PStr name) f) = Inr f1"
    "put_optional is_mapping ''parameters'' f (tool_label i @ ''.function.parameters must be an object'') f1 = Inr f2"
    "put_optional is_bool ''strict'' f (tool_label i @ ''.function.strict must be a boolean'') f2 = Inr f3"
    and t: "strip s \<noteq> []" "name = strip s" "dset ''function'' (PDict f3) (dset ''type'' (PStr ''function'') raw) = t"
  from f have "dget f3 ''name'' = PStr (strip s)"
    by (simp add: t put_optional_keeps dict_simps)
  with t show "tool_ok t" by (auto simp: tool_ok_def nonblank_def dict_simps)
qed

lemma check_messages_ok:
  assumes "check_messages v = Inr ms"
  shows "ms \<noteq> [] \<and> list_all message_ok ms \<and> sum_list (map message_bytes ms) \<le> MAX_CHAT_MEDIA_BYTES"
proof -
  from assms obtain items n where items: "items \<noteq> []" "traverse normalize_raw_message 0 items 0 = Inr (ms, n)"
    by (auto simp: check_messages_def result_simps split: option.splits)
  have step: "message_ok m \<and> k' = k + message_bytes m \<and> k' \<le> MAX_CHAT_MEDIA_BYTES"
    if "normalize_raw_message j x k = Inr (m, k')" "k \<le> MAX_CHAT_MEDIA_BYTES" for j x k m k'
    using that normalize_message_ok by (auto simp: normalize_raw_message_def result_simps)
  show ?thesis
  proof -
    have "list_all message_ok ms \<and> n = 0 + sum_list (map message_bytes ms) \<and> n \<le> MAX_CHAT_MEDIA_BYTES"
      by (rule traverse_counter [OF items(2)]) (simp, rule step)
    with traverse_length [OF items(2)] items(1) show ?thesis by auto
  qed
qed


section \<open>Normal forms\<close>

lemma put_optional_same:
  assumes "dget d k = dget raw k"
  shows "put_optional ok k raw m d = (if dget raw k = PNone \<or> ok (dget raw k) then Inr d else perr m)"
proof (cases "dget raw k = PNone")
  case False
  with assms have "map_of d k = Some (dget raw k)" by (metis dget_not_None)
  with False show ?thesis by (simp add: put_optional_def Let_def dset_id)
qed (simp add: put_optional_def)

definition tool_function_ok :: "pydict \<Rightarrow> bool" where
  "tool_function_ok f =
     ((dget f ''description'' = PNone \<or> is_str (dget f ''description'')) \<and>
      (dget f ''parameters'' = PNone \<or> is_mapping (dget f ''parameters'')) \<and>
      (dget f ''strict'' = PNone \<or> is_bool (dget f ''strict'')))"

lemma if_Inl_eq_Inr: "(if b then Inr d else Inl e) = Inr x \<longleftrightarrow> b \<and> x = d"
  by auto

lemma function_fields [simp]:
  "dget (dset ''name'' x f) ''description'' = dget f ''description''"
  "dget (dset ''name'' x f) ''parameters'' = dget f ''parameters''"
  "dget (dset ''name'' x f) ''strict'' = dget f ''strict''"
  by (simp_all add: dict_simps)

definition tool_result :: "pydict \<Rightarrow> pydict \<Rightarrow> string \<Rightarrow> pydict" where
  "tool_result raw f name = dset ''function'' (PDict (dset ''name'' (PStr name) f)) (dset ''type'' (PStr ''function'') raw)"

lemma normalize_tool_dest: "normalize_tool i v = Inr t \<Longrightarrow>
    \<exists>raw f s. v = PDict raw \<and> strip s \<noteq> [] \<and> tool_function_ok f \<and> t = tool_result raw f (strip s)"
proof (simp only: normalize_tool_def rbind_eq_Inr need_dict_Inr require_non_empty_Inr sum.inject, elim exE conjE)
  fix raw f s name f1 f2 f3
  assume f:
    "put_optional is_str ''description'' f (tool_label i @ ''.function.description must be a string'')
      (dset ''name'' (PStr name) f) = Inr f1"
    "put_optional is_mapping ''parameters'' f (tool_label i @ ''.function.parameters must be an object'') f1 = Inr f2"
    "put_optional is_bool ''strict'' f (tool_label i @ ''.function.strict must be a boolean'') f2 = Inr f3"
    and t: "strip s \<noteq> []" "name = strip s" "dset ''function'' (PDict f3) (dset ''type'' (PStr ''function'') raw) = t"
    and v: "v = PDict raw"
  from f(1) have 1: "f1 = dset ''name'' (PStr name) f" "dget f ''description'' = PNone \<or> is_str (dget f ''description'')"
    by (simp_all add: put_optional_same if_Inl_eq_Inr)
  with f(2) have 2: "f2 = f1" "dget f ''parameters'' = PNone \<or> is_mapping (dget f ''parameters'')"
    by (simp_all add: put_optional_same if_Inl_eq_Inr)
  with f(3) 1 have 3: "f3 = f1" "dget f ''strict'' = PNone \<or> is_bool (dget f ''strict'')"
    by (simp_all add: put_optional_same if_Inl_eq_Inr)
  from 1 2 3 t v show ?thesis
    unfolding tool_function_ok_def tool_result_def by blast
qed

lemma dset_dget: "dget d k = v \<Longrightarrow> v \<noteq> PNone \<Longrightarrow> dset k v d = d"
  by (metis dget_not_None dset_id)

lemma normalize_tool_normal:
  assumes "normalize_tool i v = Inr t"
  shows "normalize_tool j (PDict t) = Inr t"
proof -
  from normalize_tool_dest [OF assms] obtain raw f s where
    t: "t = tool_result raw f (strip s)" and ok: "strip s \<noteq> []" "tool_function_ok f"
    by blast
  from ok show ?thesis unfolding t
    by (simp add: normalize_tool_def require_non_empty_string_def tool_function_ok_def tool_result_def
        put_optional_same dict_simps dset_dget)
qed

text \<open>The same for tool calls and messages.\<close>

definition call_result :: "pydict \<Rightarrow> pydict \<Rightarrow> string \<Rightarrow> string \<Rightarrow> string \<Rightarrow> pydict" where
  "call_result c f call_id name args =
     dset ''function'' (PDict (dset ''arguments'' (PStr args) (dset ''name'' (PStr name) f)))
       (dset ''type'' (PStr ''function'') (dset ''id'' (PStr call_id) c))"

lemma normalize_tool_call_dest: "normalize_tool_call p v = Inr t \<Longrightarrow>
    \<exists>c f i n a. strip i \<noteq> [] \<and> strip n \<noteq> [] \<and> t = call_result c f (strip i) (strip n) a"
proof (simp only: normalize_tool_call_def rbind_eq_Inr need_dict_Inr need_str_Inr require_non_empty_Inr sum.inject, elim exE conjE)
  fix c i f n a i' n'
  assume "strip i \<noteq> []" "strip n \<noteq> []" "i' = strip i" "n' = strip n"
    "dset ''function'' (PDict (dset ''arguments'' (PStr a) (dset ''name'' (PStr n') f)))
      (dset ''type'' (PStr ''function'') (dset ''id'' (PStr i') c)) = t"
  then show ?thesis unfolding call_result_def by blast
qed

lemma normalize_tool_call_normal:
  assumes "normalize_tool_call p v = Inr t"
  shows "normalize_tool_call p' (PDict t) = Inr t"
proof -
  from normalize_tool_call_dest [OF assms] obtain c f i n a where
    t: "t = call_result c f (strip i) (strip n) a" and ok: "strip i \<noteq> []" "strip n \<noteq> []"
    by blast
  from ok show ?thesis unfolding t
    by (simp add: normalize_tool_call_def require_non_empty_string_def call_result_def dict_simps dset_dget)
qed

lemma normalize_tool_calls_normal:
  "normalize_tool_calls v i = Inr cs \<Longrightarrow> normalize_tool_calls (PList (map PDict cs)) j = Inr cs"
  by (auto simp: normalize_tool_calls_def result_simps rmap_eq_Inr_iff intro: normalize_tool_call_normal)

lemma mime_char_fixed:
  assumes "mime_char c"
  shows "\<not> is_space c \<and> lower_char c = c"
proof -
  have special: "\<forall>c \<in> set ''!#$&^_.+-''. \<not> is_space c \<and> lower_char c = c"
    by (simp add: is_space_def lower_char_def code_def)
  from assms consider "code c \<in> {97..122}" | "code c \<in> {48..57}" | "c \<in> set ''!#$&^_.+-''"
    unfolding mime_char_def by blast
  then show ?thesis
  proof cases
    case 3
    with special show ?thesis by blast
  qed (simp_all add: is_space_def lower_char_def)
qed

lemma slash_fixed: "\<not> is_space CHR ''/'' \<and> lower_char CHR ''/'' = CHR ''/''"
  by (simp add: is_space_def lower_char_def code_def)

lemma strip_fixed: "list_all (\<lambda>c. \<not> is_space c) s \<Longrightarrow> strip s = s"
  unfolding strip_def list_all_iff
  by (metis dropWhile_eq_self_iff hd_in_set rev_rev_ident set_rev)

lemma mime_ok_fixed:
  assumes "mime_ok m"
  shows "lower (strip m) = m"
proof -
  let ?c = "before_char CHR ''/'' m"
  have m: "m = ?c @ dropWhile (\<lambda>x. x \<noteq> CHR ''/'') m" and d: "drop (length ?c) m = dropWhile (\<lambda>x. x \<noteq> CHR ''/'') m"
    by (simp_all add: before_char_def flip: dropWhile_eq_drop)
  from assms d obtain x sub where x: "dropWhile (\<lambda>x. x \<noteq> CHR ''/'') m = x # sub"
    and all: "list_all mime_char sub" "list_all mime_char ?c"
    by (auto simp: mime_ok_def Let_def split: list.splits)
  from x have "x = CHR ''/''" by (simp add: dropWhile_eq_Cons_conv)
  with m x have "m = ?c @ CHR ''/'' # sub" by simp
  then have "set m = set ?c \<union> {CHR ''/''} \<union> set sub"
    by (metis (no_types, opaque_lifting) Un_insert_right list.simps(15) set_append sup_bot.right_neutral sup_assoc insert_is_Un)
  with all have fixed: "\<not> is_space c \<and> lower_char c = c" if "c \<in> set m" for c
    using that mime_char_fixed slash_fixed by (auto simp: list_all_iff)
  then have "strip m = m" by (intro strip_fixed) (simp add: list_all_iff)
  moreover from fixed have "map lower_char m = m" by (intro map_idI) blast
  ultimately show ?thesis by (simp add: lower_def)
qed

text \<open>
  A part without inline bytes is its own normal form, whatever labels the error messages carry and
  whatever the byte count is.
\<close>

lemma unknown_fields_Nil_iff: "unknown_fields d names = [] \<longleftrightarrow> set (map fst d) \<subseteq> set names"
proof -
  have "set (unknown_fields d names) = set (map fst d) - set names"
    by (auto simp: unknown_fields_def)
  then show ?thesis by (metis Diff_eq_empty_iff set_empty2)
qed

lemma normalize_media_part_normal:
  assumes "normalize_media_part p part n = Inr (d, n')" and "part_bytes (PDict d) = 0"
  shows "normalize_media_part p' d k = Inr (d, k) \<and> dget d ''type'' \<noteq> PStr ''text''"
  using assms(1) [unfolded normalize_media_part_def Let_def rbind_eq_Inr require_member_Inr normalize_mime_Inr
    guard_eq_Inr split_paired_Ex prod.case sum.inject prod.inject]
proof (elim exE conjE)
  fix t s m ref fs h
  assume t: "t \<in> set [''image'', ''audio'', ''file'']" and m: "length s \<le> 255" "m = lower (strip s)" "mime_ok m" "mime_fits t m"
    and r: "normalize_reference p part n = Inr (ref, h)" and f: "normalize_filename p t part = Inr fs"
    and d: "[(''type'', PStr t), (''mime_type'', PStr m)] @ ref @ fs = d"
  from m(1,2) have len: "length m \<le> 255" using length_strip_le [of s] by (simp add: lower_def)
  have "\<not> (\<exists>b. ref = [(''data'', PBytes b)] \<and> b \<noteq> [])"
    using assms(2) by (auto simp: d [symmetric] part_bytes_def dget_Cons)
  with normalize_reference_Inr [OF r] obtain a where ref: "ref = [(''artifact_id'', PStr a)]" "artifact_id_ok a"
    by blast
  from f normalize_filename_Inr [OF f] have fs: "fs = [] \<or> (t = ''file'' \<and> (\<exists>x. fs = [(''filename'', PStr x)] \<and> filename_ok x))"
    by (auto simp: normalize_filename_def split: if_splits)
  have mime: "normalize_mime p' t (PStr m) = Inr m"
    using len m mime_ok_fixed [OF m(3)] by (auto simp: normalize_mime_Inr)
  have d': "dget d ''type'' = PStr t" "dget d ''mime_type'' = PStr m" "dget d ''artifact_id'' = PStr a"
      "dhas d ''artifact_id''" "\<not> dhas d ''data_base64''" "set (map fst d) \<subseteq> set (media_fields t)"
    using fs unfolding d [symmetric] ref by (auto simp: dget_Cons dhas_def media_fields_def)
  have name: "normalize_filename p' t d = Inr fs"
    using fs unfolding d [symmetric] ref
    by (auto simp: normalize_filename_def dget_Cons dget_Nil dhas_def)
  have unknown: "unknown_fields d (media_fields t) = []"
    using d'(6) by (simp add: unknown_fields_Nil_iff)
  have "require_member (PStr t) [''image'', ''audio'', ''file''] x = Inr t" for x
    using t by (simp add: require_member_Inr)
  with mime name unknown d' ref show ?thesis
    using t d by (auto simp: normalize_media_part_def normalize_reference_def)
qed

lemma normalize_content_part_normal:
  assumes "normalize_content_part i j raw n = Inr (v, n')" and "part_bytes v = 0"
  shows "normalize_content_part i' j' v k = Inr (v, k)"
proof -
  from assms obtain part where raw: "raw = PDict part"
    by (auto simp: normalize_content_part_def Let_def result_simps)
  show ?thesis
  proof (cases "dget part ''type'' = PStr ''text''")
    case True
    with assms raw have v: "is_str (dget part ''text'')" "v = PDict [(''type'', PStr ''text''), (''text'', dget part ''text'')]"
      by (auto simp: normalize_content_part_def result_simps)
    then show ?thesis by (simp add: normalize_content_part_def dget_Cons)
  next
    case False
    with assms raw obtain d p where v: "v = PDict d" "normalize_media_part p part n = Inr (d, n')"
      by (auto simp: normalize_content_part_def Let_def result_simps)
    from normalize_media_part_normal [OF v(2)] assms(2) v(1)
    show ?thesis by (simp add: normalize_content_part_def)
  qed
qed

lemma sum_list_0: "sum_list (map f xs) = (0::nat) \<longleftrightarrow> (\<forall>x \<in> set xs. f x = 0)"
  by (induction xs) auto

lemma normalize_content_normal:
  assumes "normalize_content i role v n = Inr (c, n')" and "content_bytes c = 0"
  shows "normalize_content j role c k = Inr (c, k)"
proof (cases "seq_items v")
  case None
  with assms(1) show ?thesis
    by (auto simp: normalize_content_def result_simps is_str_iff)
next
  case (Some items)
  with assms(1) obtain ps where ps: "traverse (normalize_content_part i) 0 items n = Inr (ps, n')"
      "c = PTuple ps" "role \<noteq> ''tool''" "items \<noteq> []" "length items \<le> MAX_CHAT_CONTENT_PARTS"
    by (auto simp: normalize_content_def result_simps)
  from assms(2) ps(2) have "part_bytes x = 0" if "x \<in> set ps" for x
    using that by (simp add: content_bytes_def sum_list_0)
  moreover from traverse_list_all [OF ps(1), of "\<lambda>y. \<exists>i j x n n'. normalize_content_part i j x n = Inr (y, n')"]
  have "\<exists>i j r n n'. normalize_content_part i j r n = Inr (x, n')" if "x \<in> set ps" for x
    using that by (simp add: list_all_iff) blast
  ultimately have "traverse (normalize_content_part j) 0 ps k = Inr (ps, k)"
    by (intro traverse_fixpoint) (metis normalize_content_part_normal)
  moreover from ps traverse_length [OF ps(1)] have "ps \<noteq> []" "length ps \<le> MAX_CHAT_CONTENT_PARTS" by auto
  ultimately show ?thesis using ps(2,3) by (simp add: normalize_content_def)
qed

lemma normalize_message_normal:
  assumes "normalize_message i raw n = Inr (m, n')" and "message_bytes m = 0"
  shows "normalize_message j m k = Inr (m, k)"
  using assms(1) [unfolded normalize_message_def Let_def result_simps split_paired_Ex prod.case]
proof (elim exE conjE)
  fix role c h u w1 w2
  let ?m = "dset ''content'' c (dset ''role'' (PStr role) raw)"
  assume role: "role \<in> set [''system'', ''user'', ''assistant'', ''tool'']"
    and calls: "dhas raw ''tool_calls'' \<longrightarrow> role = ''assistant''"
    and c: "normalize_content i role (dget raw ''content'') n = Inr (c, h)"
    and named: "require_optional_text ?m i ''name'' = Inr w1" "require_optional_text ?m i ''tool_call_id'' = Inr w2"
    and u: "(if role = ''tool'' then require_non_empty_string (dget ?m ''tool_call_id'') (message_label i @ ''.tool_call_id'')
      else Inr []) = Inr u"
    and m: "(if dhas raw ''tool_calls'' then
        rbind (normalize_tool_calls (dget raw ''tool_calls'') i)
          (\<lambda>calls. Inr (dset ''tool_calls'' (PList (map PDict calls)) ?m, h))
      else Inr (?m, h)) = Inr (m, n')"
  have m_get: "dget m ''role'' = PStr role" "dget m ''content'' = c" "dget m ''name'' = dget raw ''name''"
      "dget m ''tool_call_id'' = dget raw ''tool_call_id''" "dhas m ''tool_calls'' = dhas raw ''tool_calls''"
      "dhas m ''content''" "dhas m ''role''"
    using m by (auto simp: result_simps dict_simps split: if_splits)
  have "map_of m ''content'' = Some c" "map_of m ''role'' = Some (PStr role)"
    using m_get(1,2,6,7) by (auto simp: dhas_def dget_or_def)
  then have same: "dset ''content'' c (dset ''role'' (PStr role) m) = m" by (simp add: dset_id)
  have cn: "normalize_content j role c k = Inr (c, k)"
    using normalize_content_normal [OF c] assms(2) m_get(2) by (simp add: message_bytes_def)
  have tool: "normalize_tool_calls (dget m ''tool_calls'') j = Inr cs \<and> dset ''tool_calls'' (PList (map PDict cs)) m = m"
    if "normalize_tool_calls (dget raw ''tool_calls'') i = Inr cs" "m = dset ''tool_calls'' (PList (map PDict cs)) ?m" for cs
    using that normalize_tool_calls_normal by (simp add: dict_simps dset_dget)
  have named': "require_optional_text m j ''name'' = Inr ()" "require_optional_text m j ''tool_call_id'' = Inr ()"
    using named m_get by (simp_all add: require_optional_text_def result_simps dict_simps)
  have u': "\<exists>u. (if role = ''tool'' then require_non_empty_string (dget m ''tool_call_id'') (message_label j @ ''.tool_call_id'')
      else Inr []) = Inr u"
    using u m_get(4) by (auto simp: require_non_empty_Inr dict_simps split: if_splits)
  have "require_member (PStr role) [''system'', ''user'', ''assistant'', ''tool''] x = Inr role" for x
    using role by (simp add: require_member_Inr)
  note rest = this calls cn named' u' m_get same
  show ?thesis
  proof (cases "dhas raw ''tool_calls''")
    case True
    with m obtain cs where "normalize_tool_calls (dget raw ''tool_calls'') i = Inr cs"
      "m = dset ''tool_calls'' (PList (map PDict cs)) ?m"
      by (auto simp only: if_True result_simps sum.inject prod.inject)
    from tool [OF this] rest True show ?thesis
      by (auto simp: normalize_message_def)
  next
    case False
    with rest show ?thesis by (auto simp: normalize_message_def)
  qed
qed

lemma check_messages_normal:
  assumes "check_messages v = Inr ms" and "\<forall>m \<in> set ms. message_bytes m = 0"
  shows "check_messages (PList (map PDict ms)) = Inr ms"
proof -
  from assms(1) obtain items n where items: "items \<noteq> []" "traverse normalize_raw_message 0 items 0 = Inr (ms, n)"
    by (auto simp: check_messages_def result_simps)
  have "\<exists>i x n n'. normalize_message i x n = Inr (m, n')" if "m \<in> set ms" for m
    using that traverse_list_all [OF items(2), of "\<lambda>m. \<exists>i x n n'. normalize_message i x n = Inr (m, n')"]
    by (auto simp: normalize_raw_message_def result_simps list_all_iff)
  with assms(2) normalize_message_normal have "normalize_message j m 0 = Inr (m, 0)" if "m \<in> set ms" for m j
    using that by metis
  then have "traverse normalize_raw_message i (map PDict xs) 0 = Inr (xs, 0)" if "set xs \<subseteq> set ms" for i xs
    using that by (induction xs arbitrary: i) (auto simp: traverse.simps(2) normalize_raw_message_def)
  from this [of ms] have "traverse normalize_raw_message 0 (map PDict ms) 0 = Inr (ms, 0)" by simp
  moreover from items traverse_length [OF items(2)] have "ms \<noteq> []" by auto
  ultimately show ?thesis by (simp add: check_messages_def)
qed

lemma check_tools_normal: "check_tools v = Inr ts \<Longrightarrow> check_tools (PList (map PDict ts)) = Inr ts"
  by (auto simp: check_tools_def result_simps rmap_eq_Inr_iff intro: normalize_tool_normal)

lemma normalize_tool_choice_normal:
  assumes "normalize_tool_choice v = Inr c"
  shows "normalize_tool_choice c = Inr c \<and> c \<noteq> PNone"
proof (cases "is_str v")
  case True
  with assms show ?thesis by (auto simp: normalize_tool_choice_def result_simps is_str_iff)
next
  case False
  with assms obtain s where "strip s \<noteq> []"
    "c = PDict [(''type'', PStr ''function''), (''function'', PDict [(''name'', PStr (strip s))])]"
    by (auto simp: normalize_tool_choice_def result_simps)
  then show ?thesis by (simp add: normalize_tool_choice_def dget_Cons require_non_empty_string_def)
qed

lemma normalize_stream_options_normal:
  "normalize_stream_options v = Inr d \<Longrightarrow> normalize_stream_options (PDict d) = Inr d"
  by (auto simp: normalize_stream_options_def Let_def result_simps dget_Cons unknown_fields_Nil_iff)

section \<open>Accepted chat requests\<close>

lemma check_max_tokens_Inr: "check_max_tokens v = Inr n \<Longrightarrow> (case n of None \<Rightarrow> True | Some k \<Rightarrow> 0 < k)"
  by (cases v) (auto simp: check_max_tokens_def result_simps)

lemma check_temperature_Inr: "check_temperature v = Inr t \<Longrightarrow> (case t of None \<Rightarrow> True | Some q \<Rightarrow> pyfloat_between 0 2 q)"
  by (cases v) (auto simp: check_temperature_def result_simps split: if_splits)

lemma check_tools_ok: "check_tools v = Inr ts \<Longrightarrow> list_all tool_ok ts"
  by (auto simp: check_tools_def result_simps intro: rmap_list_all normalize_tool_ok)

lemma from_openai_dest:
  assumes "from_openai payload = Inr r"
  shows "\<exists>p. payload = PDict p \<and>
      (\<exists>s. dget p ''model'' = PStr s \<and> strip s \<noteq> [] \<and> req_model r = strip s) \<and>
      check_messages (dget p ''messages'') = Inr (req_messages r) \<and>
      check_temperature (dget p ''temperature'') = Inr (req_temperature r) \<and>
      check_max_tokens (dget p ''max_tokens'') = Inr (req_max_tokens r) \<and>
      check_tools (dget_or p ''tools'' (PTuple [])) = Inr (req_tools r) \<and>
      optional normalize_tool_choice (dget p ''tool_choice'') = Inr (req_tool_choice r) \<and>
      optional normalize_stream_options (dget p ''stream_options'') = Inr (req_stream_options r) \<and>
      (req_stream_options r = None \<or> req_stream r)"
  using assms [unfolded from_openai_def rbind_eq_Inr need_dict_Inr require_non_empty_Inr guard_eq_Inr sum.inject]
proof (elim exE conjE)
  fix p s model messages stream temperature max_tokens tools tool_choice parallel stream_options
  assume "payload = PDict p" "dget p ''model'' = PStr s" "strip s \<noteq> []" "model = strip s"
    "check_messages (dget p ''messages'') = Inr messages" "check_temperature (dget p ''temperature'') = Inr temperature"
    "check_max_tokens (dget p ''max_tokens'') = Inr max_tokens"
    "check_tools (dget_or p ''tools'' (PTuple [])) = Inr tools"
    "optional normalize_tool_choice (dget p ''tool_choice'') = Inr tool_choice"
    "optional normalize_stream_options (dget p ''stream_options'') = Inr stream_options"
    "stream_options = None \<or> stream"
    "\<lparr>req_model = model, req_messages = messages, req_stream = stream, req_temperature = temperature,
      req_max_tokens = max_tokens, req_tools = tools, req_tool_choice = tool_choice,
      req_parallel_tool_calls = parallel, req_stream_options = stream_options\<rparr> = r"
  then show ?thesis by auto
qed

lemma from_openai_request_ok:
  assumes "from_openai payload = Inr r"
  shows "request_ok r \<and> request_bytes r \<le> MAX_CHAT_MEDIA_BYTES"
proof -
  from from_openai_dest [OF assms] obtain p s where r: "strip s \<noteq> []" "req_model r = strip s"
    "check_messages (dget p ''messages'') = Inr (req_messages r)"
    "check_temperature (dget p ''temperature'') = Inr (req_temperature r)"
    "check_max_tokens (dget p ''max_tokens'') = Inr (req_max_tokens r)"
    "check_tools (dget_or p ''tools'' (PTuple [])) = Inr (req_tools r)"
    "req_stream_options r = None \<or> req_stream r" by blast
  show ?thesis
    using r(1,2,7) check_messages_ok [OF r(3)] check_temperature_Inr [OF r(4)] check_max_tokens_Inr [OF r(5)]
      check_tools_ok [OF r(6)]
    by (simp add: request_ok_def request_bytes_def)
qed

lemma check_messages_empty: "check_messages v = Inr ms \<Longrightarrow> ms \<noteq> []"
  using check_messages_ok by blast

lemma dget_append: "dget_or (d1 @ d2) k x = (if dhas d1 k then dget_or d1 k x else dget_or d2 k x)"
  by (auto simp: dget_or_def dhas_def map_add_def split: option.splits)

lemma opt_field:
  "dhas (case opt of None \<Rightarrow> [] | Some x \<Rightarrow> [(k, f x)]) k' = (k' = k \<and> opt \<noteq> None)"
  "dget_or (case opt of None \<Rightarrow> [] | Some x \<Rightarrow> [(k, f x)]) k' y =
   (if k' = k then (case opt of None \<Rightarrow> y | Some x \<Rightarrow> f x) else y)"
  by (auto simp: dhas_def dget_or_def split: option.splits)

lemma provider_dict_fields:
  "dget (to_provider_dict r) ''model'' = PStr (req_model r)"
  "dget (to_provider_dict r) ''messages'' = PList (map PDict (req_messages r))"
  "dget_or (to_provider_dict r) ''stream'' x = PBool (req_stream r)"
  "dget (to_provider_dict r) ''temperature'' = (case req_temperature r of None \<Rightarrow> PNone | Some t \<Rightarrow> PFloat t)"
  "dget (to_provider_dict r) ''max_tokens'' = (case req_max_tokens r of None \<Rightarrow> PNone | Some n \<Rightarrow> PInt n)"
  "dget_or (to_provider_dict r) ''tools'' x = (if req_tools r = [] then x else PList (map PDict (req_tools r)))"
  "dget (to_provider_dict r) ''tool_choice'' = (case req_tool_choice r of None \<Rightarrow> PNone | Some c \<Rightarrow> c)"
  "dget (to_provider_dict r) ''parallel_tool_calls'' = (case req_parallel_tool_calls r of None \<Rightarrow> PNone | Some b \<Rightarrow> PBool b)"
  "dget (to_provider_dict r) ''stream_options'' = (case req_stream_options r of None \<Rightarrow> PNone | Some d \<Rightarrow> PDict d)"
  by (simp_all add: to_provider_dict_def dget_Cons dget_Nil dget_append opt_field dhas_def [of "[]"] dhas_def [of "_ # _"] split: option.splits)

lemma optional_normal:
  assumes "optional f v = Inr x" and "\<And>u y. f u = Inr y \<Longrightarrow> f (g y) = Inr y \<and> g y \<noteq> PNone"
  shows "optional f (case x of None \<Rightarrow> PNone | Some y \<Rightarrow> g y) = Inr x"
  using assms(1) by (auto simp: optional_def result_simps assms(2) split: if_splits)

text \<open>A request that carries no inline bytes survives the trip through its provider dictionary.\<close>

lemma from_openai_provider_dict:
  assumes "from_openai payload = Inr r" and "request_bytes r = 0"
  shows "from_openai (PDict (to_provider_dict r)) = Inr r"
proof -
  from from_openai_dest [OF assms(1)] obtain p s where r: "strip s \<noteq> []" "req_model r = strip s"
    "check_messages (dget p ''messages'') = Inr (req_messages r)"
    "check_temperature (dget p ''temperature'') = Inr (req_temperature r)"
    "check_max_tokens (dget p ''max_tokens'') = Inr (req_max_tokens r)"
    "check_tools (dget_or p ''tools'' (PTuple [])) = Inr (req_tools r)"
    "optional normalize_tool_choice (dget p ''tool_choice'') = Inr (req_tool_choice r)"
    "optional normalize_stream_options (dget p ''stream_options'') = Inr (req_stream_options r)"
    "req_stream_options r = None \<or> req_stream r" by blast
  let ?d = "to_provider_dict r"
  have "require_non_empty_string (PStr (req_model r)) ''model'' = Inr (req_model r)"
    using r(1,2) by (simp add: require_non_empty_string_def)
  moreover have "check_messages (PList (map PDict (req_messages r))) = Inr (req_messages r)"
    using check_messages_normal [OF r(3)] assms(2) by (simp add: request_bytes_def sum_list_0)
  moreover have "check_temperature (dget ?d ''temperature'') = Inr (req_temperature r)"
    using check_temperature_Inr [OF r(4)]
    by (auto simp: provider_dict_fields check_temperature_def split: option.splits)
  moreover have "check_max_tokens (dget ?d ''max_tokens'') = Inr (req_max_tokens r)"
    using check_max_tokens_Inr [OF r(5)]
    by (auto simp: provider_dict_fields check_max_tokens_def split: option.splits)
  moreover have "check_tools (dget_or ?d ''tools'' (PTuple [])) = Inr (req_tools r)"
    using check_tools_normal [OF r(6)] by (simp add: provider_dict_fields) (simp add: check_tools_def)
  moreover have "optional normalize_tool_choice (dget ?d ''tool_choice'') = Inr (req_tool_choice r)"
    unfolding provider_dict_fields by (rule optional_normal [OF r(7)]) (rule normalize_tool_choice_normal)
  moreover have "optional normalize_stream_options (dget ?d ''stream_options'') = Inr (req_stream_options r)"
    unfolding provider_dict_fields by (rule optional_normal [OF r(8)]) (simp add: normalize_stream_options_normal)
  moreover have "check_optional_bool (dget ?d ''parallel_tool_calls'') m = Inr (req_parallel_tool_calls r)" for m
    by (simp add: provider_dict_fields check_optional_bool_def split: option.splits)
  ultimately show ?thesis using r(9)
    by (simp add: from_openai_def) (simp add: provider_dict_fields)
qed

section \<open>Embedding batches\<close>

definition embedding_request_ok :: "embedding_request \<Rightarrow> bool" where
  "embedding_request_ok e =
     (emb_model e \<noteq> [] \<and> strip (emb_model e) = emb_model e \<and> length (emb_model e) \<le> 256 \<and>
      emb_inputs e \<noteq> [] \<and> length (emb_inputs e) \<le> 128 \<and>
      list_all (\<lambda>s. strip s \<noteq> [] \<and> length s \<le> 32768) (emb_inputs e) \<and>
      sum_list (map (\<lambda>s. length (utf8 s)) (emb_inputs e)) \<le> 1048576)"

lemma check_inputs_Inr:
  "check_inputs i n xs = Inr total_bytes \<longleftrightarrow>
   list_all (\<lambda>s. strip s \<noteq> [] \<and> length s \<le> 32768) xs \<and> total_bytes = n + sum_list (map (\<lambda>s. length (utf8 s)) xs)"
  by (induction i n xs rule: check_inputs.induct) (auto simp: result_simps)

lemma text_items_iff: "text_items vs = Some xs \<longleftrightarrow> vs = map PStr xs"
  by (induction vs arbitrary: xs rule: text_items.induct) auto

lemma map_eq_conv_PStr [simp]: "map PStr xs = map PStr ys \<longleftrightarrow> xs = ys"
  by (rule inj_map_eq_map) (simp add: inj_def)

lemma embedding_inputs_Inr:
  "embedding_inputs v = Inr xs \<longleftrightarrow>
   (\<exists>s. v = PStr s \<and> xs = [s]) \<or> (xs \<noteq> [] \<and> (v = PList (map PStr xs) \<or> v = PTuple (map PStr xs)))"
proof -
  have [simp]: "text_items (map PStr ys) = Some ys" for ys by (simp add: text_items_iff)
  show ?thesis
    by (cases v) (auto simp: embedding_inputs_def Let_def result_simps text_items_iff need_items_def
        map_eq_conv_PStr split: option.splits)
qed

lemma embedding_from_openai_ok:
  assumes "embedding_from_openai payload = Inr e"
  shows "embedding_request_ok e \<and>
    (\<exists>p. payload = PDict p \<and> (dget p ''input'' = PStr (hd (emb_inputs e)) \<and> length (emb_inputs e) = 1 \<or>
      dget p ''input'' \<in> {PList (map PStr (emb_inputs e)), PTuple (map PStr (emb_inputs e))}))"
  using assms [unfolded embedding_from_openai_def Let_def rbind_eq_Inr need_dict_Inr require_non_empty_Inr
    guard_eq_Inr embedding_inputs_Inr check_inputs_Inr sum.inject]
proof (elim exE conjE)
  fix p s model inputs n
  assume "payload = PDict p" "strip s \<noteq> []" "model = strip s" "length model \<le> 256" "length inputs \<le> 128" "n \<le> 1048576"
    and i: "(\<exists>s. dget p ''input'' = PStr s \<and> inputs = [s]) \<or>
      inputs \<noteq> [] \<and> (dget p ''input'' = PList (map PStr inputs) \<or> dget p ''input'' = PTuple (map PStr inputs))"
    "list_all (\<lambda>s. strip s \<noteq> [] \<and> length s \<le> 32768) inputs"
    "n = 0 + sum_list (map (\<lambda>s. length (utf8 s)) inputs)"
    "\<lparr>emb_model = model, emb_inputs = inputs\<rparr> = e"
  moreover from i(1) have "inputs \<noteq> []" by auto
  ultimately show ?thesis by (auto simp: embedding_request_ok_def)
qed

section \<open>Rejections\<close>

text \<open>
  Every rejection of an embeddings request is a \<open>ProtocolError\<close>. A chat request can also raise
  \<open>TypeError\<close>, for a role or a part type that cannot be hashed, and \<open>OverflowError\<close>, for an integer
  temperature beyond the range of floats.
\<close>

definition raises_only :: "(py_exc \<Rightarrow> bool) \<Rightarrow> py_exc + 'a \<Rightarrow> bool" where
  "raises_only P r = (\<forall>e. r = Inl e \<longrightarrow> P e)"

definition is_protocol_error :: "py_exc \<Rightarrow> bool" where
  "is_protocol_error e = (exc_name e = ''ProtocolError'')"

definition request_error :: "py_exc \<Rightarrow> bool" where
  "request_error e = (is_protocol_error e \<or> e = TypeError ''unhashable type'' \<or> e = int_too_large)"

named_theorems raises_intros \<open>which exceptions an operation raises\<close>

lemma raises_Inr [raises_intros]: "raises_only P (Inr x)"
  and raises_Inl: "P e \<Longrightarrow> raises_only P (Inl e)"
  by (simp_all add: raises_only_def)

lemma raises_rbind [raises_intros]: "raises_only P r \<Longrightarrow> (\<And>x. raises_only P (f x)) \<Longrightarrow> raises_only P (rbind r f)"
  by (auto simp: raises_only_def result_simps)

lemma raises_if [raises_intros]: "raises_only P a \<Longrightarrow> raises_only P b \<Longrightarrow> raises_only P (if c then a else b)"
  by simp

lemma raises_prod [raises_intros]: "(\<And>a b. raises_only P (f a b)) \<Longrightarrow> raises_only P (case x of (a, b) \<Rightarrow> f a b)"
  by (cases x) simp

lemma raises_option [raises_intros]:
  "raises_only P a \<Longrightarrow> (\<And>y. raises_only P (f y)) \<Longrightarrow> raises_only P (case x of None \<Rightarrow> a | Some y \<Rightarrow> f y)"
  by (cases x) simp_all

lemma raises_leaves [raises_intros]:
  "P e \<Longrightarrow> raises_only P (guard b e)" "P e \<Longrightarrow> raises_only P (need_dict v e)"
  "P e \<Longrightarrow> raises_only P (need_str v e)" "P e \<Longrightarrow> raises_only P (need_bool v e)"
  "P e \<Longrightarrow> raises_only P (need_items v e)"
  by (auto simp: raises_only_def guard_def need_dict_def need_str_def need_bool_def need_items_def
      split: pyval.splits option.splits if_splits)

lemma raises_traverse [raises_intros]:
  assumes "\<And>i x s. raises_only P (f i x s)"
  shows "raises_only P (traverse f i xs s)"
proof (induction xs arbitrary: i s)
  case (Cons x xs)
  then show ?case using assms
    by (simp only: traverse.simps) (intro raises_intros Cons.IH assms)
qed (simp add: raises_only_def)

lemma raises_rmap [raises_intros]: "(\<And>i x. raises_only P (f i x)) \<Longrightarrow> raises_only P (rmap f xs)"
  unfolding rmap_def by (intro raises_intros)

lemma protocol_is_protocol [simp]: "is_protocol_error (ProtocolError m)" "request_error (ProtocolError m)"
  by (simp_all add: is_protocol_error_def request_error_def)

lemma raises_embedding_from_openai: "raises_only is_protocol_error (embedding_from_openai payload)"
proof -
  have "raises_only is_protocol_error (check_inputs i n xs)" for i n xs
    by (induction xs arbitrary: i n) (simp_all only: check_inputs.simps, (intro raises_intros protocol_is_protocol | simp)+)
  moreover have "raises_only is_protocol_error (embedding_inputs v)" for v
    by (cases v) (simp_all add: embedding_inputs_def Let_def, (intro raises_intros raises_Inl protocol_is_protocol)+)
  ultimately show ?thesis
    unfolding embedding_from_openai_def Let_def require_non_empty_string_def
    by (intro raises_intros protocol_is_protocol)
qed

lemma raises_require_member [raises_intros]: "raises_only request_error (require_member v names m)"
  by (cases v) (auto simp: require_member_def raises_only_def request_error_def is_protocol_error_def)

lemma raises_check_temperature [raises_intros]: "raises_only request_error (check_temperature v)"
  by (cases v) (auto simp: check_temperature_def raises_only_def result_simps request_error_def is_protocol_error_def)

lemma raises_check_max_tokens [raises_intros]: "raises_only request_error (check_max_tokens v)"
  by (cases v) (auto simp: check_max_tokens_def raises_only_def result_simps request_error_def is_protocol_error_def)

lemma raises_check_optional_bool [raises_intros]: "raises_only request_error (check_optional_bool v m)"
  by (cases v) (auto simp: check_optional_bool_def raises_only_def)

lemma raises_put_optional [raises_intros]: "raises_only request_error (put_optional ok k raw m d)"
  unfolding put_optional_def Let_def by (intro raises_intros protocol_is_protocol)

lemma raises_normalize_message [raises_intros]: "raises_only request_error (normalize_raw_message i raw n)"
  unfolding normalize_raw_message_def normalize_message_def normalize_content_def normalize_tool_calls_def
    normalize_tool_call_def normalize_content_part_def normalize_media_part_def normalize_mime_def
    normalize_reference_def normalize_filename_def decode_inline_def require_optional_text_def
    require_non_empty_string_def Let_def
  by (intro raises_intros raises_Inl protocol_is_protocol)

lemma raises_from_openai: "raises_only request_error (from_openai payload)"
  unfolding from_openai_def check_messages_def check_tools_def optional_def normalize_tool_def
    normalize_tool_choice_def normalize_stream_options_def require_non_empty_string_def Let_def
  by (intro raises_intros protocol_is_protocol)

end
