(* ===== verification/Effects.thy ===== *)
theory Effects
  imports Prelude
begin

text \<open>
  Code that reads and writes state and may raise: a function from a state to a result and a
  state. \<open>catch\<close> is \<open>try ... except\<close>: the handler sees the exception and the state at the point
  where it was raised. The rules below are the ones the components use: what a composed action
  returns, and which assertions it establishes when it returns and when it raises.
\<close>

type_synonym ('w, 'e, 'a) act = "'w \<Rightarrow> ('e + 'a) \<times> 'w"

definition ret :: "'a \<Rightarrow> ('w, 'e, 'a) act" where
  "ret x = (\<lambda>w. (Inr x, w))"

definition raise :: "'e \<Rightarrow> ('w, 'e, 'a) act" where
  "raise e = (\<lambda>w. (Inl e, w))"

definition result :: "('e + 'a) \<Rightarrow> ('w, 'e, 'a) act" where
  "result r = (\<lambda>w. (r, w))"

definition bind :: "('w, 'e, 'a) act \<Rightarrow> ('a \<Rightarrow> ('w, 'e, 'b) act) \<Rightarrow> ('w, 'e, 'b) act" where
  "bind m f = (\<lambda>w. case m w of (Inl e, w') \<Rightarrow> (Inl e, w') | (Inr x, w') \<Rightarrow> f x w')"

definition catch :: "('w, 'e, 'a) act \<Rightarrow> ('e \<Rightarrow> ('w, 'e, 'a) act) \<Rightarrow> ('w, 'e, 'a) act" where
  "catch m h = (\<lambda>w. case m w of (Inl e, w') \<Rightarrow> h e w' | (Inr x, w') \<Rightarrow> (Inr x, w'))"

abbreviation andthen :: "('w, 'e, 'a) act \<Rightarrow> ('w, 'e, 'b) act \<Rightarrow> ('w, 'e, 'b) act" where
  "andthen m n \<equiv> bind m (\<lambda>_. n)"

named_theorems act_simps \<open>evaluation of actions on a state\<close>

lemma ret_apply [act_simps]: "ret x w = (Inr x, w)"
  and raise_apply [act_simps]: "raise e w = (Inl e, w)"
  and result_apply [act_simps]: "result r w = (r, w)"
  by (simp_all add: ret_def raise_def result_def)

lemma bind_apply [act_simps]:
  "bind m f w = (case m w of (Inl e, w') \<Rightarrow> (Inl e, w') | (Inr x, w') \<Rightarrow> f x w')"
  by (simp add: bind_def)

lemma catch_apply [act_simps]:
  "catch m h w = (case m w of (Inl e, w') \<Rightarrow> h e w' | (Inr x, w') \<Rightarrow> (Inr x, w'))"
  by (simp add: catch_def)

lemma bind_ret [simp]: "bind (ret x) f = f x"
  and bind_raise [simp]: "bind (raise e) f = raise e"
  and bind_result_Inr [simp]: "bind (result (Inr x)) f = f x"
  and bind_result_Inl [simp]: "bind (result (Inl e)) f = raise e"
  and result_Inr: "result (Inr x) = ret x"
  and result_Inl: "result (Inl e) = raise e"
  by (simp_all add: fun_eq_iff act_simps)

lemma bind_assoc: "bind (bind m f) g = bind m (\<lambda>x. bind (f x) g)"
  by (auto simp: fun_eq_iff act_simps split: sum.splits prod.splits)

lemma bind_Inr_cases:
  "bind m f w = (Inr y, w2) \<Longrightarrow> (\<And>x w1. m w = (Inr x, w1) \<Longrightarrow> f x w1 = (Inr y, w2) \<Longrightarrow> R) \<Longrightarrow> R"
  by (auto simp: act_simps split: sum.splits prod.splits)

section \<open>Assertions\<close>

text \<open>
  From a state with \<open>P\<close>, the action returns \<open>x\<close> in a state with \<open>Q x\<close> or raises \<open>e\<close> in a state
  with \<open>E e\<close>. Actions are total functions, so nothing is left out.
\<close>

definition valid :: "('w \<Rightarrow> bool) \<Rightarrow> ('w, 'e, 'a) act \<Rightarrow> ('a \<Rightarrow> 'w \<Rightarrow> bool) \<Rightarrow> ('e \<Rightarrow> 'w \<Rightarrow> bool) \<Rightarrow> bool" where
  "valid P m Q E =
     (\<forall>w. P w \<longrightarrow> (case m w of (Inr x, w') \<Rightarrow> Q x w' | (Inl e, w') \<Rightarrow> E e w'))"

named_theorems valid_intros \<open>rules for assertions about actions\<close>

lemma valid_ret [valid_intros]: "(\<And>w. P w \<Longrightarrow> Q x w) \<Longrightarrow> valid P (ret x) Q E"
  and valid_raise [valid_intros]: "(\<And>w. P w \<Longrightarrow> E e w) \<Longrightarrow> valid P (raise e) Q E"
  by (simp_all add: valid_def act_simps)

lemma valid_bind:
  assumes "valid P m R E" and "\<And>x. valid (R x) (f x) Q E"
  shows "valid P (bind m f) Q E"
  using assms by (fastforce simp: valid_def act_simps split: sum.splits prod.splits)

lemma valid_catch:
  assumes "valid P m Q R" and "\<And>e. valid (R e) (h e) Q E"
  shows "valid P (catch m h) Q E"
  using assms by (fastforce simp: valid_def act_simps split: sum.splits prod.splits)

lemma valid_result [valid_intros]:
  "(\<And>x w. r = Inr x \<Longrightarrow> P w \<Longrightarrow> Q x w) \<Longrightarrow> (\<And>e w. r = Inl e \<Longrightarrow> P w \<Longrightarrow> E e w) \<Longrightarrow> valid P (result r) Q E"
  by (cases r) (simp_all add: valid_def act_simps)

lemma valid_if [valid_intros]:
  "(c \<Longrightarrow> valid P m Q E) \<Longrightarrow> (\<not> c \<Longrightarrow> valid P n Q E) \<Longrightarrow> valid P (if c then m else n) Q E"
  by simp

lemma valid_option [valid_intros]:
  "(v = None \<Longrightarrow> valid P m Q E) \<Longrightarrow> (\<And>x. v = Some x \<Longrightarrow> valid P (f x) Q E) \<Longrightarrow>
   valid P (case v of None \<Rightarrow> m | Some x \<Rightarrow> f x) Q E"
  by (cases v) simp_all

lemma valid_pre: "valid P m Q E \<Longrightarrow> (\<And>w. P' w \<Longrightarrow> P w) \<Longrightarrow> valid P' m Q E"
  by (simp add: valid_def)

lemma valid_post:
  "valid P m Q E \<Longrightarrow> (\<And>x w. Q x w \<Longrightarrow> Q' x w) \<Longrightarrow> (\<And>e w. E e w \<Longrightarrow> E' e w) \<Longrightarrow> valid P m Q' E'"
  by (fastforce simp: valid_def split: sum.splits prod.splits)

lemma validD_Inr: "valid P m Q E \<Longrightarrow> P w \<Longrightarrow> m w = (Inr x, w') \<Longrightarrow> Q x w'"
  by (fastforce simp: valid_def)

lemma validD_Inl: "valid P m Q E \<Longrightarrow> P w \<Longrightarrow> m w = (Inl e, w') \<Longrightarrow> E e w'"
  by (fastforce simp: valid_def)

text \<open>An assertion every outcome keeps.\<close>

abbreviation keeps :: "('w \<Rightarrow> bool) \<Rightarrow> ('w, 'e, 'a) act \<Rightarrow> bool" where
  "keeps I m \<equiv> valid I m (\<lambda>_. I) (\<lambda>_. I)"

section \<open>Outcomes\<close>

named_theorems outcome_simps \<open>when an action ends with a given result\<close>

lemma bind_Inr_iff [outcome_simps]: "bind m f w = (Inr y, w2) \<longleftrightarrow> (\<exists>x w1. m w = (Inr x, w1) \<and> f x w1 = (Inr y, w2))"
  by (auto simp: act_simps split: sum.splits prod.splits)

lemma basic_Inr [outcome_simps]:
  "ret x s = (Inr y, s') \<longleftrightarrow> y = x \<and> s' = s" "raise e s = (Inr y, s') \<longleftrightarrow> False"
  "result r s = (Inr y, s') \<longleftrightarrow> r = Inr y \<and> s' = s"
  by (auto simp: act_simps)

lemma basic_Inl [outcome_simps]:
  "ret x s = (Inl e, s') \<longleftrightarrow> False" "raise e s = (Inl e', s') \<longleftrightarrow> e' = e \<and> s' = s"
  "result r s = (Inl e, s') \<longleftrightarrow> r = Inl e \<and> s' = s"
  by (auto simp: act_simps)

section \<open>Loops\<close>

text \<open>A \<open>for\<close> loop that builds a list, threads an accumulator and acts on the state.\<close>

fun traverse_act :: "('a \<Rightarrow> 's \<Rightarrow> ('w, 'e, 'b \<times> 's) act) \<Rightarrow> 'a list \<Rightarrow> 's \<Rightarrow> ('w, 'e, 'b list \<times> 's) act" where
  "traverse_act f [] s = ret ([], s)"
| "traverse_act f (x # xs) s =
     bind (f x s) (\<lambda>(y, s').
     bind (traverse_act f xs s') (\<lambda>(ys, s''). ret (y # ys, s'')))"

text \<open>
  A loop whose body relates each element to its output and adds to a bounded counter; every state
  the body leaves behind keeps the assertion \<open>I\<close>.
\<close>

lemma valid_traverse_act:
  assumes "\<And>x k. valid (\<lambda>w. I w \<and> k \<le> limit) (f x k)
      (\<lambda>(y, k') w. I w \<and> R x y \<and> k' = k + m y \<and> k' \<le> limit) E"
  shows "valid (\<lambda>w. I w \<and> k \<le> limit) (traverse_act f xs k)
      (\<lambda>(ys, k') w. I w \<and> list_all2 R xs ys \<and> k' = k + sum_list (map m ys) \<and> k' \<le> (limit :: nat)) E"
proof (induction xs arbitrary: k)
  case Nil
  show ?case by (simp add: valid_def act_simps)
next
  case (Cons x xs)
  have rest: "valid ((\<lambda>(y, k') w. I w \<and> R x y \<and> k' = k + m y \<and> k' \<le> limit) yk)
      ((\<lambda>(y, s'). bind (traverse_act f xs s') (\<lambda>(ys, s''). ret (y # ys, s''))) yk)
      (\<lambda>(ys, k') w. I w \<and> list_all2 R (x # xs) ys \<and> k' = k + sum_list (map m ys) \<and> k' \<le> limit) E" for yk
  proof (cases yk)
    case (Pair y k1)
    show ?thesis
    proof (cases "R x y \<and> k1 = k + m y \<and> k1 \<le> limit")
      case True
      show ?thesis unfolding Pair prod.case
        by (rule valid_bind [OF valid_pre [OF Cons.IH [of k1]]])
           (use True in \<open>auto simp: valid_def act_simps split: prod.splits\<close>)
    qed (auto simp: Pair valid_def)
  qed
  show ?case unfolding traverse_act.simps
    by (rule valid_bind [OF assms [of k x] rest])
qed

end
