(* ===== verification/Gateway_Core.thy ===== *)
theory Gateway_Core
  imports Request_Facts Effects
begin

text \<open>
  The building blocks of \<open>src/cyrene_exchange/gateway.py\<close>: the exceptions with their transport
  mapping, the request principal and its model scope, the metadata and the observer interface,
  and the assembly of provider chunks (tool calls, usage, messages).
\<close>

section \<open>Exceptions\<close>

text \<open>
  \<open>ProviderInvocationCancelled\<close> and \<open>ProviderEmbeddingError\<close> are the classes of
  \<open>capabilities.py\<close>; \<open>OtherError\<close> stands for any other exception, by its class name, its text
  and the \<open>usage\<close> attribute it may carry.
\<close>

datatype gw_exn =
    GatewayLifecycleError string
  | AuthenticationError string
  | InvalidRequestError string
  | MediaArtifactUnavailableError string
  | ModelNotPermittedError string
  | NoRouteError string
  | ProviderFailureError string "provider_usage option"
  | EmbeddingProviderResponseError embedding_error
  | RequestCancelled string "provider_usage option"
  | QuotaExceededError string
  | QuotaUnavailableError string
  | ProviderInvocationCancelled string
  | ProviderEmbeddingError embedding_error
  | OtherError string string "provider_usage option"

definition of_py :: "py_exc \<Rightarrow> gw_exn" where
  "of_py e = OtherError (exc_name e) (exc_message e) None"

fun embedding_error_kind :: "int \<Rightarrow> int \<times> string" where
  "embedding_error_kind c =
     (if c = 1 then (400, ''invalid_request_error'')
      else if c = 2 then (404, ''model_not_found'')
      else if c = 5 then (429, ''rate_limit_error'')
      else (502, ''provider_error''))"

text \<open>\<open>status_code\<close> and \<open>error_type\<close> of the \<open>GatewayError\<close> classes; \<open>None\<close> for the other exceptions.\<close>

fun gateway_error :: "gw_exn \<Rightarrow> (int \<times> string) option" where
  "gateway_error (GatewayLifecycleError m) = Some (500, ''gateway_lifecycle_error'')"
| "gateway_error (AuthenticationError m) = Some (401, ''authentication_error'')"
| "gateway_error (InvalidRequestError m) = Some (400, ''invalid_request_error'')"
| "gateway_error (MediaArtifactUnavailableError m) = Some (424, ''media_artifact_unavailable'')"
| "gateway_error (ModelNotPermittedError m) = Some (403, ''model_not_permitted'')"
| "gateway_error (NoRouteError m) = Some (503, ''no_route'')"
| "gateway_error (ProviderFailureError m u) = Some (502, ''provider_error'')"
| "gateway_error (EmbeddingProviderResponseError e) = Some (embedding_error_kind (ee_code e))"
| "gateway_error (RequestCancelled m u) = Some (499, ''request_cancelled'')"
| "gateway_error (QuotaExceededError m) = Some (429, ''quota_exceeded'')"
| "gateway_error (QuotaUnavailableError m) = Some (503, ''quota_unavailable'')"
| "gateway_error _ = None"

fun exn_text :: "gw_exn \<Rightarrow> string" where
  "exn_text (GatewayLifecycleError m) = m"
| "exn_text (AuthenticationError m) = m"
| "exn_text (InvalidRequestError m) = m"
| "exn_text (MediaArtifactUnavailableError m) = m"
| "exn_text (ModelNotPermittedError m) = m"
| "exn_text (NoRouteError m) = m"
| "exn_text (ProviderFailureError m u) = m"
| "exn_text (EmbeddingProviderResponseError e) = ee_message e"
| "exn_text (RequestCancelled m u) = m"
| "exn_text (QuotaExceededError m) = m"
| "exn_text (QuotaUnavailableError m) = m"
| "exn_text (ProviderInvocationCancelled m) = m"
| "exn_text (ProviderEmbeddingError e) = ee_message e"
| "exn_text (OtherError c m u) = m"

text \<open>\<open>getattr(exc, "usage", None)\<close>.\<close>

fun exn_usage :: "gw_exn \<Rightarrow> provider_usage option" where
  "exn_usage (ProviderFailureError m u) = u"
| "exn_usage (RequestCancelled m u) = u"
| "exn_usage (OtherError c m u) = u"
| "exn_usage _ = None"

text \<open>\<open>type(exc).__name__\<close> of an exception that is not a \<open>GatewayError\<close>.\<close>

fun exn_class :: "gw_exn \<Rightarrow> string" where
  "exn_class (ProviderInvocationCancelled m) = ''ProviderInvocationCancelled''"
| "exn_class (ProviderEmbeddingError e) = ''ProviderEmbeddingError''"
| "exn_class (OtherError c m u) = c"
| "exn_class _ = ''GatewayError''"

definition audit_error_type :: "gw_exn \<Rightarrow> string" where
  "audit_error_type e = (case gateway_error e of Some (_, t) \<Rightarrow> t | None \<Rightarrow> exn_class e)"

text \<open>\<open>to_openai_error\<close> of a \<open>GatewayError\<close>.\<close>

definition to_openai_error :: "gw_exn \<Rightarrow> pydict" where
  "to_openai_error e =
     [(''error'', PDict
        (case e of
           EmbeddingProviderResponseError pe \<Rightarrow>
             [(''message'', PStr (ee_message pe)), (''type'', PStr (audit_error_type e)), (''code'', PInt (ee_code pe))] @
             (if ee_retry_after pe = PNone then [] else [(''retry_after_seconds'', ee_retry_after pe)])
         | _ \<Rightarrow> [(''message'', PStr (exn_text e)), (''type'', PStr (audit_error_type e))]))]"

section \<open>The request principal\<close>

record request_principal =
  actor_id :: string
  workspace_id :: string
  credential_ref :: string
  model_scope :: "string list"
  organization_id :: "string option"

definition blank :: "string \<Rightarrow> bool" where
  "blank s = (strip s = [])"

definition mk_request_principal ::
  "string \<Rightarrow> string \<Rightarrow> string \<Rightarrow> string list \<Rightarrow> string option \<Rightarrow> py_exc + request_principal" where
  "mk_request_principal actor workspace credential scope organization =
     rbind (guard (\<not> blank actor) (ValueError ''request principal actor_id must be non-empty text'')) (\<lambda>_.
     rbind (guard (\<not> blank workspace) (ValueError ''request principal workspace_id must be non-empty text'')) (\<lambda>_.
     rbind (guard (\<not> blank credential) (ValueError ''request principal credential_ref must be non-empty text'')) (\<lambda>_.
     rbind (guard (case organization of None \<Rightarrow> True | Some s \<Rightarrow> \<not> blank s)
              (ValueError ''request principal organization_id must be non-empty text when configured'')) (\<lambda>_.
     rbind (guard (list_all (\<lambda>p. \<not> blank p) scope)
              (ValueError ''request principal model_scope patterns must be non-empty text'')) (\<lambda>_.
     Inr \<lparr>actor_id = actor, workspace_id = workspace, credential_ref = credential, model_scope = scope,
          organization_id = organization\<rparr>)))))"

definition permits :: "request_principal \<Rightarrow> string \<Rightarrow> bool" where
  "permits p m = (model_scope p = [] \<or> list_ex (fnmatchcase m) (model_scope p))"

section \<open>Metadata and the observer interface\<close>

record request_metadata =
  meta_request_id :: string
  meta_model :: string
  meta_stream :: bool
  meta_route_id :: string
  meta_provider_ref :: string
  meta_principal :: request_principal

datatype terminal_status = Completed | Failed | Cancelled

datatype rejection_status = Rejected | RejectedCancelled

record request_rejection =
  rej_request_id :: string
  rej_principal :: "request_principal option"
  rej_status :: rejection_status
  rej_error_type :: string
  rej_model :: "string option"
  rej_stream :: "bool option"

text \<open>\<open>RequestLifecycleObserver\<close>: its three operations over a state of their own.\<close>

record 's observer =
  on_started :: "request_metadata \<Rightarrow> ('s, gw_exn, unit) act"
  on_finished :: "request_metadata \<Rightarrow> terminal_status \<Rightarrow> provider_usage option \<Rightarrow> string option \<Rightarrow> ('s, gw_exn, unit) act"
  on_rejected :: "request_rejection \<Rightarrow> ('s, gw_exn, unit) act"

definition noop_observer :: "'s observer" where
  "noop_observer = \<lparr>on_started = (\<lambda>m. ret ()), on_finished = (\<lambda>m s u e. ret ()), on_rejected = (\<lambda>r. ret ())\<rparr>"

section \<open>Assembling tool calls\<close>

record accumulator =
  acc_index :: int
  acc_id :: "string option"
  acc_type :: "string option"
  acc_name :: string
  acc_arguments :: string
  acc_name_seen :: bool
  acc_arguments_seen :: bool

definition new_accumulator :: "int \<Rightarrow> accumulator" where
  "new_accumulator i =
     \<lparr>acc_index = i, acc_id = None, acc_type = None, acc_name = [], acc_arguments = [],
      acc_name_seen = False, acc_arguments_seen = False\<rparr>"

definition int_str :: "int \<Rightarrow> string" where
  "int_str i = (if i < 0 then ''-'' @ nat_str (nat (- i)) else nat_str (nat i))"

text \<open>An identity field keeps the first value reported; a different later value is a conflict.\<close>

definition merge_identity :: "string \<Rightarrow> string option \<Rightarrow> string option \<Rightarrow> gw_exn + string option" where
  "merge_identity m old new =
     (case new of
        None \<Rightarrow> Inr old
      | Some x \<Rightarrow> if old \<noteq> None \<and> old \<noteq> Some x then Inl (ProviderFailureError m None) else Inr (Some x))"

definition merge_accumulator :: "tool_call_delta \<Rightarrow> accumulator \<Rightarrow> gw_exn + accumulator" where
  "merge_accumulator delta acc =
     rbind (guard (tc_index delta = acc_index acc)
              (ProviderFailureError ''provider tool-call index changed during assembly'' None)) (\<lambda>_.
     rbind (merge_identity (''provider returned conflicting tool-call ids for index '' @ int_str (acc_index acc))
              (acc_id acc) (tc_id delta)) (\<lambda>i.
     rbind (merge_identity (''provider returned conflicting tool-call types for index '' @ int_str (acc_index acc))
              (acc_type acc) (tc_type delta)) (\<lambda>t.
     Inr (acc\<lparr>acc_id := i, acc_type := t,
       acc_name_seen := acc_name_seen acc \<or> tc_name delta \<noteq> None,
       acc_name := acc_name acc @ (case tc_name delta of None \<Rightarrow> [] | Some s \<Rightarrow> s),
       acc_arguments_seen := acc_arguments_seen acc \<or> tc_arguments delta \<noteq> None,
       acc_arguments := acc_arguments acc @ (case tc_arguments delta of None \<Rightarrow> [] | Some s \<Rightarrow> s)\<rparr>))))"

definition to_openai_message :: "accumulator \<Rightarrow> pydict" where
  "to_openai_message acc =
     (let function = (if acc_name_seen acc then [(''name'', PStr (acc_name acc))] else []) @
                     (if acc_arguments_seen acc then [(''arguments'', PStr (acc_arguments acc))] else [])
      in opt_field ''id'' (acc_id acc) @ opt_field ''type'' (acc_type acc) @
         (if function \<noteq> [] then [(''function'', PDict function)] else []))"

section \<open>Usage and messages\<close>

text \<open>\<open>observed.x if observed.x is not None else current.x\<close>.\<close>

definition if_reported :: "'a option \<Rightarrow> 'a option \<Rightarrow> 'a option" where
  "if_reported a b = (if a \<noteq> None then a else b)"

definition merge_usage :: "provider_usage option \<Rightarrow> provider_usage option \<Rightarrow> provider_usage option" where
  "merge_usage current observed =
     (case observed of
        None \<Rightarrow> current
      | Some o' \<Rightarrow>
          (case current of
             None \<Rightarrow> Some o'
           | Some c \<Rightarrow> Some \<lparr>prompt_tokens = if_reported (prompt_tokens o') (prompt_tokens c),
                completion_tokens = if_reported (completion_tokens o') (completion_tokens c),
                total_tokens = if_reported (total_tokens o') (total_tokens c), usage_source = usage_source o'\<rparr>))"

definition merge_chunk_usage :: "provider_chunk list \<Rightarrow> provider_usage option" where
  "merge_chunk_usage chunks = foldl merge_usage None (map chunk_usage chunks)"

text \<open>
  The dictionary of accumulators, \<open>setdefault\<close> then \<open>merge\<close> for every fragment in order.
\<close>

fun merge_calls :: "tool_call_delta list \<Rightarrow> (int \<times> accumulator) list \<Rightarrow> gw_exn + (int \<times> accumulator) list" where
  "merge_calls [] accs = Inr accs"
| "merge_calls (d # ds) accs =
     (let acc = (case map_of accs (tc_index d) of Some a \<Rightarrow> a | None \<Rightarrow> new_accumulator (tc_index d))
      in rbind (merge_accumulator d acc) (\<lambda>acc'. merge_calls ds (AList.update (tc_index d) acc' accs)))"

fun first_some :: "('a \<Rightarrow> 'b option) \<Rightarrow> 'a list \<Rightarrow> 'b option" where
  "first_some f [] = None"
| "first_some f (x # xs) = (case f x of Some y \<Rightarrow> Some y | None \<Rightarrow> first_some f xs)"

definition or_default :: "'a option \<Rightarrow> 'a \<Rightarrow> 'a" where
  "or_default v x = (case v of None \<Rightarrow> x | Some y \<Rightarrow> y)"

definition assemble_message :: "provider_chunk list \<Rightarrow> gw_exn + pydict" where
  "assemble_message chunks =
     (let content = concat (map chunk_delta chunks);
          role = or_default (first_some chunk_role chunks) ''assistant''
      in rbind (merge_calls (concat (map chunk_tool_calls chunks)) []) (\<lambda>accs.
         Inr ([(''role'', PStr role),
               (''content'', if content \<noteq> [] \<or> accs = [] then PStr content else PNone)] @
              (if accs \<noteq> []
               then [(''tool_calls'', PList (map (\<lambda>i. PDict (to_openai_message (the (map_of accs i))))
                       (sort (map fst accs))))]
               else []))))"

section \<open>Facts\<close>

text \<open>What usage merging computes: every component is the last one a chunk reported.\<close>

definition last_some :: "('a \<Rightarrow> 'b option) \<Rightarrow> 'a list \<Rightarrow> 'b option" where
  "last_some f xs = first_some f (rev xs)"

definition reported_usage :: "provider_chunk list \<Rightarrow> provider_usage list" where
  "reported_usage chunks = map the (filter (\<lambda>u. u \<noteq> None) (map chunk_usage chunks))"

definition usage_summary :: "provider_usage list \<Rightarrow> provider_usage option" where
  "usage_summary us =
     (if us = [] then None
      else Some \<lparr>prompt_tokens = last_some prompt_tokens us, completion_tokens = last_some completion_tokens us,
        total_tokens = last_some total_tokens us, usage_source = usage_source (last us)\<rparr>)"

lemma first_some_append: "first_some f (xs @ ys) = if_reported (first_some f xs) (first_some f ys)"
  by (induction xs) (auto simp: if_reported_def split: option.splits)

lemma last_some_snoc [simp]: "last_some f (xs @ [x]) = if_reported (f x) (last_some f xs)"
  by (auto simp: last_some_def if_reported_def split: option.splits)

lemma last_some_Nil [simp]: "last_some f [] = None"
  by (simp add: last_some_def)

lemma if_reported_None [simp]: "if_reported x None = x"
  by (simp add: if_reported_def)

lemma first_some_Some: "first_some f xs = Some y \<Longrightarrow> \<exists>x \<in> set xs. f x = Some y"
  by (induction xs) (auto split: option.splits)

lemma first_some_None: "first_some f xs = None \<longleftrightarrow> (\<forall>x \<in> set xs. f x = None)"
  by (induction xs) (auto split: option.splits)

lemma merge_chunk_usage_summary: "merge_chunk_usage chunks = usage_summary (reported_usage chunks)"
proof (induction chunks rule: rev_induct)
  case (snoc c cs)
  have "merge_chunk_usage (cs @ [c]) = merge_usage (usage_summary (reported_usage cs)) (chunk_usage c)"
    by (simp add: merge_chunk_usage_def snoc.IH [symmetric])
  also have "\<dots> = usage_summary (reported_usage (cs @ [c]))"
    by (cases "chunk_usage c") (auto simp: merge_usage_def usage_summary_def reported_usage_def)
  finally show ?case .
qed (simp add: merge_chunk_usage_def usage_summary_def reported_usage_def)

lemma usage_summary_ok:
  assumes "list_all usage_ok us" "usage_summary us = Some u"
  shows "usage_ok u"
proof -
  have "opt_nonneg (last_some f us)" if "\<And>u. u \<in> set us \<Longrightarrow> opt_nonneg (f u)" for f :: "provider_usage \<Rightarrow> int option"
  proof (cases "last_some f us")
    case (Some n)
    then obtain x where "x \<in> set us" "f x = Some n"
      by (metis first_some_Some last_some_def set_rev)
    with that Some show ?thesis by metis
  qed (simp add: opt_nonneg_def)
  with assms show ?thesis
    by (auto simp: usage_summary_def usage_ok_def list_all_iff split: if_splits)
qed

text \<open>What tool-call assembly computes.\<close>

definition agree :: "('a \<Rightarrow> 'b option) \<Rightarrow> 'a list \<Rightarrow> bool" where
  "agree f xs = list_all (\<lambda>x. f x = None \<or> f x = first_some f xs) xs"

definition calls_of :: "int \<Rightarrow> tool_call_delta list \<Rightarrow> tool_call_delta list" where
  "calls_of i ds = filter (\<lambda>d. tc_index d = i) ds"

definition calls_agree :: "tool_call_delta list \<Rightarrow> bool" where
  "calls_agree ds = list_all (\<lambda>d. agree tc_id (calls_of (tc_index d) ds) \<and> agree tc_type (calls_of (tc_index d) ds)) ds"

definition call_summary :: "int \<Rightarrow> tool_call_delta list \<Rightarrow> accumulator" where
  "call_summary i ds =
     \<lparr>acc_index = i, acc_id = first_some tc_id ds, acc_type = first_some tc_type ds,
      acc_name = concat (map (\<lambda>d. or_default (tc_name d) []) ds),
      acc_arguments = concat (map (\<lambda>d. or_default (tc_arguments d) []) ds),
      acc_name_seen = list_ex (\<lambda>d. tc_name d \<noteq> None) ds,
      acc_arguments_seen = list_ex (\<lambda>d. tc_arguments d \<noteq> None) ds\<rparr>"

lemma agree_snoc:
  "agree f (xs @ [x]) \<longleftrightarrow> agree f xs \<and> (f x = None \<or> first_some f xs = None \<or> f x = first_some f xs)"
proof (cases "first_some f xs")
  case None
  then have "\<forall>y \<in> set xs. f y = None" by (simp add: first_some_None)
  then show ?thesis using None
    by (auto simp: agree_def first_some_append if_reported_def list_all_iff split: option.splits)
next
  case (Some y)
  then show ?thesis by (auto simp: agree_def first_some_append if_reported_def list_all_iff)
qed

lemma merge_identity_agree:
  assumes "agree f xs"
  shows "merge_identity m (first_some f xs) (f x) =
    (if agree f (xs @ [x]) then Inr (first_some f (xs @ [x])) else Inl (ProviderFailureError m None))"
  using assms
  by (auto simp: merge_identity_def agree_snoc first_some_append if_reported_def split: option.splits)

lemma merge_accumulator_summary:
  assumes "agree tc_id ds" "agree tc_type ds" "tc_index d = i"
  shows "(agree tc_id (ds @ [d]) \<and> agree tc_type (ds @ [d]) \<longrightarrow>
      merge_accumulator d (call_summary i ds) = Inr (call_summary i (ds @ [d]))) \<and>
    (\<not> (agree tc_id (ds @ [d]) \<and> agree tc_type (ds @ [d])) \<longrightarrow>
      (\<exists>m. merge_accumulator d (call_summary i ds) = Inl (ProviderFailureError m None)))"
  using assms(3) merge_identity_agree [OF assms(1)] merge_identity_agree [OF assms(2)]
  by (auto simp: merge_accumulator_def call_summary_def or_default_def split: option.splits)

definition represents :: "tool_call_delta list \<Rightarrow> (int \<times> accumulator) list \<Rightarrow> bool" where
  "represents ds accs =
     (distinct (map fst accs) \<and> calls_agree ds \<and>
      (\<forall>i. map_of accs i = (if i \<in> tc_index ` set ds then Some (call_summary i (calls_of i ds)) else None)))"

lemma calls_of_snoc: "calls_of i (ds @ [d]) = (if tc_index d = i then calls_of i ds @ [d] else calls_of i ds)"
  by (simp add: calls_of_def)

lemma calls_of_Nil: "i \<notin> tc_index ` set ds \<Longrightarrow> calls_of i ds = []"
  by (auto simp: calls_of_def filter_empty_conv)

lemma calls_agree_iff:
  "calls_agree ds \<longleftrightarrow> (\<forall>i. agree tc_id (calls_of i ds) \<and> agree tc_type (calls_of i ds))"
proof -
  have "agree f (calls_of i ds)" if "i \<notin> tc_index ` set ds" for i and f :: "tool_call_delta \<Rightarrow> string option"
    using that by (simp add: calls_of_Nil agree_def)
  then show ?thesis unfolding calls_agree_def list_all_iff by (metis imageE)
qed

lemma calls_agree_snoc:
  assumes "calls_agree ds"
  shows "calls_agree (ds @ [d]) \<longleftrightarrow>
    agree tc_id (calls_of (tc_index d) ds @ [d]) \<and> agree tc_type (calls_of (tc_index d) ds @ [d])"
  using assms by (auto simp: calls_agree_iff calls_of_snoc)

lemma calls_agree_prefix: "calls_agree (ds @ [d]) \<Longrightarrow> calls_agree ds"
  by (auto simp: calls_agree_iff calls_of_snoc agree_snoc split: if_splits)

lemma calls_agree_append: "calls_agree (ds @ es) \<Longrightarrow> calls_agree ds"
proof (induction es rule: rev_induct)
  case (snoc e es)
  then show ?case using calls_agree_prefix by (metis append_assoc)
qed simp

lemma merge_calls_represents:
  assumes "represents ps accs"
  shows "(calls_agree (ps @ ds) \<longrightarrow> (\<exists>accs'. merge_calls ds accs = Inr accs' \<and> represents (ps @ ds) accs')) \<and>
    (\<not> calls_agree (ps @ ds) \<longrightarrow> (\<exists>m. merge_calls ds accs = Inl (ProviderFailureError m None)))"
  using assms
proof (induction ds arbitrary: ps accs)
  case Nil
  then show ?case by (simp add: represents_def)
next
  case (Cons d ds)
  let ?i = "tc_index d" and ?p = "calls_of (tc_index d) ps"
  from Cons.prems have agree: "calls_agree ps" "agree tc_id ?p" "agree tc_type ?p"
    by (auto simp: represents_def calls_agree_iff)
  have acc: "(case map_of accs ?i of Some a \<Rightarrow> a | None \<Rightarrow> new_accumulator ?i) = call_summary ?i ?p"
  proof (cases "?i \<in> tc_index ` set ps")
    case True
    with Cons.prems show ?thesis by (simp add: represents_def)
  next
    case False
    then have "?p = []" by (rule calls_of_Nil)
    with False Cons.prems show ?thesis
      by (simp add: represents_def call_summary_def new_accumulator_def)
  qed
  note step = merge_accumulator_summary [OF agree(2,3) refl]
  show ?case
  proof (cases "calls_agree (ps @ [d])")
    case True
    then have "merge_accumulator d (call_summary ?i ?p) = Inr (call_summary ?i (?p @ [d]))"
      using step calls_agree_snoc [OF agree(1)] by blast
    moreover have "represents (ps @ [d]) (AList.update ?i (call_summary ?i (?p @ [d])) accs)"
      using Cons.prems True
      by (auto simp: represents_def calls_of_snoc update_conv' distinct_update)
    ultimately show ?thesis
      using Cons.IH [of "ps @ [d]"] by (simp add: acc)
  next
    case False
    then have "\<exists>m. merge_accumulator d (call_summary ?i ?p) = Inl (ProviderFailureError m None)"
      using step calls_agree_snoc [OF agree(1)] by blast
    moreover have "\<not> calls_agree (ps @ d # ds)"
      using False calls_agree_append [of "ps @ [d]" ds] by auto
    ultimately show ?thesis by (auto simp: acc)
  qed
qed

text \<open>The message an assistant turn amounts to.\<close>

definition message_summary :: "provider_chunk list \<Rightarrow> pydict" where
  "message_summary chunks =
     (let content = concat (map chunk_delta chunks);
          ds = concat (map chunk_tool_calls chunks)
      in [(''role'', PStr (or_default (first_some chunk_role chunks) ''assistant'')),
          (''content'', if content \<noteq> [] \<or> ds = [] then PStr content else PNone)] @
         (if ds \<noteq> []
          then [(''tool_calls'', PList (map (\<lambda>i. PDict (to_openai_message (call_summary i (calls_of i ds))))
                  (sort (remdups (map tc_index ds)))))]
          else []))"

lemma assemble_message_agree:
  assumes "calls_agree (concat (map chunk_tool_calls chunks))"
  shows "assemble_message chunks = Inr (message_summary chunks)"
proof -
  let ?ds = "concat (map chunk_tool_calls chunks)"
  have "represents [] []" by (simp add: represents_def calls_agree_def)
  from merge_calls_represents [OF this, of ?ds] assms obtain accs where
    accs: "merge_calls ?ds [] = Inr accs" and r: "represents ?ds accs" by auto
  have fst: "set (map fst accs) = tc_index ` set ?ds"
    using r by (simp add: represents_def flip: dom_map_of_conv_image_fst) (auto simp: dom_def split: if_splits)
  then have nil: "accs = [] \<longleftrightarrow> ?ds = []" by (metis image_is_empty list.map_disc_iff set_empty)
  have keys: "sort (map fst accs) = sort (remdups (map tc_index ?ds))"
    using r fst sorted_list_of_set_sort_remdups [of "map fst accs"]
      sorted_list_of_set_sort_remdups [of "map tc_index ?ds"]
    by (simp add: represents_def distinct_remdups_id)
  have the: "the (map_of accs i) = call_summary i (calls_of i ?ds)" if "i \<in> set (sort (remdups (map tc_index ?ds)))" for i
    using r that by (auto simp: represents_def)
  show ?thesis
    unfolding assemble_message_def message_summary_def Let_def accs rbind_Inr nil keys
    using the by (simp cong: map_cong)
qed

lemma assemble_message_disagree:
  assumes "\<not> calls_agree (concat (map chunk_tool_calls chunks))"
  shows "\<exists>m. assemble_message chunks = Inl (ProviderFailureError m None)"
proof -
  have "represents [] []" by (simp add: represents_def calls_agree_def)
  from merge_calls_represents [OF this, of "concat (map chunk_tool_calls chunks)"] assms
  obtain m where "merge_calls (concat (map chunk_tool_calls chunks)) [] = Inl (ProviderFailureError m None)" by auto
  then show ?thesis by (simp add: assemble_message_def)
qed

end
