(* ===== verification/Tables.thy ===== *)
theory Tables
  imports Effects "HOL-Library.Product_Lexorder" "HOL-Library.List_Lexorder"
begin

text \<open>
  SQLite tables as association lists in rowid order, with the statements the stores use: plain
  \<open>INSERT\<close> (which fails on a duplicate key), \<open>INSERT OR REPLACE\<close>, an upsert, \<open>UPDATE\<close> of one row,
  and \<open>SELECT ... ORDER BY\<close>. A write transaction rolls back when its body raises.
\<close>

type_synonym ('k, 'v) table = "('k \<times> 'v) list"

definition find_row :: "'k \<Rightarrow> ('k, 'v) table \<Rightarrow> 'v option" where
  "find_row k t = map_of t k"

definition insert_row :: "'k \<Rightarrow> 'v \<Rightarrow> ('k, 'v) table \<Rightarrow> ('k, 'v) table option" where
  "insert_row k v t = (if k \<in> fst ` set t then None else Some (t @ [(k, v)]))"

definition replace_row :: "'k \<Rightarrow> 'v \<Rightarrow> ('k, 'v) table \<Rightarrow> ('k, 'v) table" where
  "replace_row k v t = filter (\<lambda>r. fst r \<noteq> k) t @ [(k, v)]"

definition upsert_row :: "'k \<Rightarrow> 'v \<Rightarrow> ('k, 'v) table \<Rightarrow> ('k, 'v) table" where
  "upsert_row k v t = AList.update k v t"

definition update_row :: "'k \<Rightarrow> ('v \<Rightarrow> 'v) \<Rightarrow> ('k, 'v) table \<Rightarrow> ('k, 'v) table" where
  "update_row k f t = map (\<lambda>(k', v). (k', if k' = k then f v else v)) t"

definition select :: "('k \<Rightarrow> 'v \<Rightarrow> bool) \<Rightarrow> ('k, 'v) table \<Rightarrow> ('k \<times> 'v) list" where
  "select P t = filter (\<lambda>(k, v). P k v) t"

definition table_ok :: "('k, 'v) table \<Rightarrow> bool" where
  "table_ok t = distinct (map fst t)"

text \<open>\<open>_mutation\<close>: an exception leaves the database as it was.\<close>

definition mutation :: "('s, 'e, 'a) act \<Rightarrow> ('s, 'e, 'a) act" where
  "mutation m = (\<lambda>s. case m s of (Inl e, s') \<Rightarrow> (Inl e, s) | (Inr x, s') \<Rightarrow> (Inr x, s'))"

section \<open>Facts\<close>

lemma find_insert:
  assumes "insert_row k v t = Some t'"
  shows "find_row k' t' = (if k' = k then Some v else find_row k' t)"
proof -
  from assms have "map_of t k = None" and t': "t' = t @ [(k, v)]"
    by (auto simp: insert_row_def map_of_eq_None_iff split: if_splits)
  then show ?thesis by (simp add: find_row_def map_add_def split: option.splits)
qed

lemma insert_row_None: "insert_row k v t = None \<longleftrightarrow> find_row k t \<noteq> None"
  by (auto simp: insert_row_def find_row_def map_of_eq_None_iff)

lemma map_of_filter_key: "map_of (filter (\<lambda>r. fst r \<noteq> k) t) k' = (if k' = k then None else map_of t k')"
  by (induction t) auto

lemma find_replace: "find_row k' (replace_row k v t) = (if k' = k then Some v else find_row k' t)"
  by (simp add: find_row_def replace_row_def map_add_def map_of_filter_key split: option.splits)

lemma find_upsert: "find_row k' (upsert_row k v t) = (if k' = k then Some v else find_row k' t)"
  by (simp add: find_row_def upsert_row_def update_conv')

lemma find_update: "find_row k' (update_row k f t) = (if k' = k then map_option f (find_row k t) else find_row k' t)"
  unfolding find_row_def update_row_def by (induction t) auto

lemma table_ok_insert: "table_ok t \<Longrightarrow> insert_row k v t = Some t' \<Longrightarrow> table_ok t'"
  by (auto simp: table_ok_def insert_row_def split: if_splits)

lemma table_ok_replace: "table_ok t \<Longrightarrow> table_ok (replace_row k v t)"
  by (auto simp: table_ok_def replace_row_def distinct_map_filter)

lemma table_ok_upsert: "table_ok t \<Longrightarrow> table_ok (upsert_row k v t)"
  by (simp add: table_ok_def upsert_row_def distinct_update)

lemma map_fst_update [simp]: "map fst (update_row k f t) = map fst t"
  by (auto simp: update_row_def)

lemma table_ok_update: "table_ok t \<Longrightarrow> table_ok (update_row k f t)"
  by (simp add: table_ok_def)

lemma set_find: "table_ok t \<Longrightarrow> (k, v) \<in> set t \<longleftrightarrow> find_row k t = Some v"
  by (auto simp: table_ok_def find_row_def dest: map_of_SomeD)

lemma mutation_Inr: "mutation m s = (Inr x, s') \<longleftrightarrow> m s = (Inr x, s')"
  by (auto simp: mutation_def split: prod.splits sum.splits)

lemma mutation_Inl: "mutation m s = (Inl e, s') \<Longrightarrow> s' = s"
  by (auto simp: mutation_def split: prod.splits sum.splits)

lemma mutation_fst: "fst (mutation m s) = fst (m s)"
  by (auto simp: mutation_def split: prod.splits sum.splits)

lemma find_row_append: "find_row k (t @ [(k', v)]) = (case find_row k t of None \<Rightarrow> if k = k' then Some v else None | Some x \<Rightarrow> Some x)"
  by (auto simp: find_row_def map_add_def split: option.splits)

section \<open>Views an action leaves alone\<close>

definition leaves :: "('s \<Rightarrow> 'x) \<Rightarrow> ('s, 'e, 'a) act \<Rightarrow> bool" where
  "leaves view m = (\<forall>s. view (snd (m s)) = view s)"

named_theorems leaves_intros \<open>composition of actions that leave a view alone\<close>

lemma leaves_basic [leaves_intros]: "leaves view (ret x)" "leaves view (raise e)" "leaves view (result r)"
  by (simp_all add: leaves_def act_simps)

lemma leaves_compose [leaves_intros]:
  "leaves view m \<Longrightarrow> (\<And>x. leaves view (f x)) \<Longrightarrow> leaves view (bind m f)"
  "leaves view m \<Longrightarrow> leaves view (mutation m)"
  "leaves view m \<Longrightarrow> leaves view n \<Longrightarrow> leaves view (if c then m else n)"
  "leaves view m \<Longrightarrow> (\<And>x. leaves view (k x)) \<Longrightarrow> leaves view (case v of None \<Rightarrow> m | Some x \<Rightarrow> k x)"
  "(\<And>x y. leaves view (h x y)) \<Longrightarrow> leaves view (case p of (x, y) \<Rightarrow> h x y)"
  by (auto simp: leaves_def act_simps mutation_def split: prod.splits sum.splits option.splits) (metis snd_conv)+

lemma leavesD: "leaves view m \<Longrightarrow> view (snd (m s)) = view s"
  by (simp add: leaves_def)

section \<open>Well-formed tables\<close>

text \<open>Distinct keys and a predicate on every row; a column that identifies its row where it is set.\<close>

definition rows_ok :: "('k \<Rightarrow> 'v \<Rightarrow> bool) \<Rightarrow> ('k, 'v) table \<Rightarrow> bool" where
  "rows_ok P t = (table_ok t \<and> list_all (\<lambda>(k, v). P k v) t)"

definition unique_by :: "('v \<Rightarrow> 'x option) \<Rightarrow> ('k, 'v) table \<Rightarrow> bool" where
  "unique_by f t = list_all (\<lambda>(k, v). list_all (\<lambda>(k', v'). f v \<noteq> None \<and> f v = f v' \<longrightarrow> k = k') t) t"

named_theorems table_intros \<open>well-formedness is kept by the statements\<close>

lemma rows_ok_iff: "rows_ok P t \<longleftrightarrow> table_ok t \<and> (\<forall>k v. find_row k t = Some v \<longrightarrow> P k v)"
  by (auto simp: rows_ok_def list_all_iff set_find)

lemma unique_by_iff:
  "table_ok t \<Longrightarrow> unique_by f t \<longleftrightarrow>
   (\<forall>k k' v v'. find_row k t = Some v \<longrightarrow> find_row k' t = Some v' \<longrightarrow> f v \<noteq> None \<longrightarrow> f v = f v' \<longrightarrow> k = k')"
  unfolding unique_by_def list_all_iff by (simp add: set_find [symmetric] split_beta) fastforce

lemma rows_ok_table: "rows_ok P t \<Longrightarrow> table_ok t"
  and rows_okD: "rows_ok P t \<Longrightarrow> find_row k t = Some v \<Longrightarrow> P k v"
  by (auto simp: rows_ok_iff)

lemma rows_ok_insert [table_intros]: "rows_ok P t \<Longrightarrow> insert_row k v t = Some t' \<Longrightarrow> P k v \<Longrightarrow> rows_ok P t'"
  by (auto simp: rows_ok_iff table_ok_insert find_insert split: if_splits)

lemma rows_ok_replace [table_intros]: "rows_ok P t \<Longrightarrow> P k v \<Longrightarrow> rows_ok P (replace_row k v t)"
  by (auto simp: rows_ok_iff table_ok_replace find_replace)

lemma rows_ok_upsert [table_intros]: "rows_ok P t \<Longrightarrow> P k v \<Longrightarrow> rows_ok P (upsert_row k v t)"
  by (auto simp: rows_ok_iff table_ok_upsert find_upsert)

lemma rows_ok_update [table_intros]:
  "rows_ok P t \<Longrightarrow> (\<And>v. find_row k t = Some v \<Longrightarrow> P k v \<Longrightarrow> P k (f v)) \<Longrightarrow> rows_ok P (update_row k f t)"
  by (auto simp: rows_ok_iff table_ok_update find_update split: if_splits)

lemma rows_ok_map [table_intros]:
  "rows_ok P t \<Longrightarrow> (\<And>k v. P k v \<Longrightarrow> P k (f v)) \<Longrightarrow> rows_ok P (map (\<lambda>(k, v). (k, f v)) t)"
  by (induction t) (auto simp: rows_ok_def table_ok_def image_iff split_beta)

lemma rows_ok_mono: "rows_ok P t \<Longrightarrow> (\<And>k v. find_row k t = Some v \<Longrightarrow> P k v \<Longrightarrow> Q k v) \<Longrightarrow> rows_ok Q t"
  by (auto simp: rows_ok_iff)

lemma find_hit: "table_ok t \<Longrightarrow> find (\<lambda>(k, v). P k v) t = Some (k, v) \<Longrightarrow> find_row k t = Some v \<and> P k v"
  using find_Some_iff [of "\<lambda>(k, v). P k v" t "(k, v)"] by (auto simp: set_find [symmetric]) (metis nth_mem)

lemma find_miss: "table_ok t \<Longrightarrow> find (\<lambda>(k, v). P k v) t = None \<longleftrightarrow> (\<forall>k v. find_row k t = Some v \<longrightarrow> \<not> P k v)"
  by (auto simp: find_None_iff set_find)

section \<open>Keyed tables as an interface\<close>

text \<open>
  What the stores rely on: looking a key up after writing it gives the written row, other keys are
  untouched, and the table stays well-formed. Both \<open>INSERT OR REPLACE\<close> and the upsert keep it.
\<close>

locale keyed_table =
  fixes look :: "'k \<Rightarrow> 't \<Rightarrow> 'v option"
    and put :: "'k \<Rightarrow> 'v \<Rightarrow> 't \<Rightarrow> 't"
    and ok :: "'t \<Rightarrow> bool"
  assumes look_put: "look k' (put k v t) = (if k' = k then Some v else look k' t)"
    and ok_put: "ok t \<Longrightarrow> ok (put k v t)"
begin

definition put_all :: "('k \<times> 'v) list \<Rightarrow> 't \<Rightarrow> 't" where
  "put_all kvs t = foldl (\<lambda>t (k, v). put k v t) t kvs"

lemma look_put_same: "look k (put k v t) = Some v"
  by (simp add: look_put)

lemma look_put_other: "k' \<noteq> k \<Longrightarrow> look k' (put k v t) = look k' t"
  by (simp add: look_put)

lemma look_put_all: "look k (put_all kvs t) = (case map_of (rev kvs) k of Some v \<Rightarrow> Some v | None \<Rightarrow> look k t)"
  by (induction kvs rule: rev_induct) (auto simp: put_all_def look_put split: option.splits)

lemma ok_put_all: "ok t \<Longrightarrow> ok (put_all kvs t)"
  by (induction kvs rule: rev_induct) (auto simp: put_all_def ok_put)

end

interpretation replaced: keyed_table find_row replace_row table_ok
  by unfold_locales (simp_all add: find_replace table_ok_replace)

interpretation upserted: keyed_table find_row upsert_row table_ok
  by unfold_locales (simp_all add: find_upsert table_ok_upsert)

end
