(* ===== verification/Domain.thy ===== *)
theory Domain
  imports Gateway_Core Tables
begin

text \<open>
  The Product's resources, \<open>product/src/cyrene_exchange_product/domain.py\<close> and \<open>errors.py\<close>. A
  pydantic model is a record together with the predicate its \<open>Field\<close> constraints state; a UUID is
  its canonical text and a timestamp an integer in milliseconds. Serialization to and from JSON is
  pydantic's and is taken to give the value back, except for the fields the code excludes from it.
\<close>

type_synonym uuid = string

section \<open>Errors\<close>

record product_error =
  pe_code :: string
  pe_title :: string
  pe_detail :: string
  pe_status :: int
  pe_retryable :: bool
  pe_resource_ref :: "string option"

text \<open>
  What the Product operations raise: the typed Product error, the database's \<open>IntegrityError\<close>, and
  Python's own classes.
\<close>

datatype product_exn =
    ExchangeProductError product_error
  | IntegrityError string
  | ProductValueError string
  | ProductTypeError string
  | ProductRuntimeError string
  | ProductOther string string

definition product_error :: "string \<Rightarrow> string \<Rightarrow> string \<Rightarrow> int \<Rightarrow> product_exn" where
  "product_error c title detail status =
     ExchangeProductError \<lparr>pe_code = c, pe_title = title, pe_detail = detail, pe_status = status,
       pe_retryable = False, pe_resource_ref = None\<rparr>"

record error_mapping =
  em_canonical_code :: string
  em_cause_kind :: string
  em_recovery_action :: string
  em_status :: int

definition error_mapping :: "string \<Rightarrow> string \<Rightarrow> string \<Rightarrow> int \<Rightarrow> error_mapping" where
  "error_mapping c cause action status =
     \<lparr>em_canonical_code = ''PRODUCT.EXCHANGE.'' @ c, em_cause_kind = cause, em_recovery_action = action, em_status = status\<rparr>"

definition EXCHANGE_ERROR_MAPPINGS :: "(string \<times> error_mapping) list" where
  "EXCHANGE_ERROR_MAPPINGS =
     [(''EXCHANGE_CONTROL_PERMISSION_DENIED'', error_mapping ''PERMISSION_DENIED'' ''authorization'' ''fix_configuration'' 403),
      (''EXCHANGE_BINDING_PERMISSION_DENIED'', error_mapping ''BINDING_DENIED'' ''authorization'' ''fix_configuration'' 403),
      (''EXCHANGE_SOURCE_PERMISSION_DENIED'', error_mapping ''SOURCE_PERMISSION_DENIED'' ''authorization'' ''fix_configuration'' 403),
      (''EXCHANGE_SOURCE_VERSION_CONFLICT'', error_mapping ''SOURCE_VERSION_CONFLICT'' ''stale_version'' ''refresh_resource'' 409),
      (''EXCHANGE_SOURCE_UNREACHABLE'', error_mapping ''SOURCE_UNREACHABLE'' ''upstream_unreachable'' ''query_state_first'' 503),
      (''EXCHANGE_CONNECTION_REAUTHORIZATION_REQUIRED'',
         error_mapping ''CONNECTION_REAUTHORIZATION_REQUIRED'' ''authorization'' ''user_action_required'' 409),
      (''EXCHANGE_TARGET_UNREACHABLE'', error_mapping ''TARGET_UNREACHABLE'' ''upstream_unreachable'' ''query_state_first'' 502),
      (''EXCHANGE_REQUEST_INVALID'', error_mapping ''REQUEST_INVALID'' ''validation'' ''fix_configuration'' 422),
      (''EXCHANGE_API_KEY_INVALID'', error_mapping ''API_KEY_INVALID'' ''authentication'' ''user_action_required'' 401),
      (''EXCHANGE_QUOTA_EXCEEDED'', error_mapping ''QUOTA_EXCEEDED'' ''quota'' ''user_action_required'' 429),
      (''EXCHANGE_INTERNAL_ERROR'', error_mapping ''INTERNAL_ERROR'' ''internal'' ''safely_retry'' 500)]"

text \<open>\<open>code.upper()\<close>, exact on ASCII.\<close>

definition upper_ascii :: "string \<Rightarrow> string" where
  "upper_ascii s = map (\<lambda>c. if code c \<in> {97..122} then char_of (code c - 32) else c) s"

definition map_exchange_error :: "string \<Rightarrow> error_mapping" where
  "map_exchange_error c =
     or_default (map_of EXCHANGE_ERROR_MAPPINGS c) (error_mapping (upper_ascii c) ''unknown'' ''none'' 500)"

section \<open>Endpoints and routes\<close>

datatype endpoint_state = EndpointActive | EndpointDisabled

datatype route_state = RouteActive | RouteDisabled | RouteDraft

definition text_between :: "nat \<Rightarrow> nat \<Rightarrow> string \<Rightarrow> bool" where
  "text_between lo hi s = (lo \<le> length s \<and> length s \<le> hi)"

definition http_url :: "string \<Rightarrow> bool" where
  "http_url s = (starts_with ''http://'' s \<or> starts_with ''https://'' s)"

definition policy_ref :: "string \<Rightarrow> bool" where
  "policy_ref s = ((starts_with ''policy://'' s \<or> starts_with ''secret://'' s) \<and> length s \<le> 500)"

text \<open>A lower-case SHA-256 in hexadecimal after a fixed prefix.\<close>

definition digest_after :: "string \<Rightarrow> string \<Rightarrow> bool" where
  "digest_after prefix s = (starts_with prefix s \<and> hex64 (drop (length prefix) s))"

record route_source =
  rs_resource_uri :: string
  rs_resource_version :: int
  rs_artifact_digest :: string
  rs_model_version_id :: "string option"

definition route_source_ok :: "route_source \<Rightarrow> bool" where
  "route_source_ok s =
     (http_url (rs_resource_uri s) \<and> length (rs_resource_uri s) \<le> 2000 \<and> 1 \<le> rs_resource_version s \<and>
      digest_after ''sha256:'' (rs_artifact_digest s) \<and>
      (case rs_model_version_id s of None \<Rightarrow> True | Some v \<Rightarrow> digest_after ''model-version://sha256/'' v))"

record gateway_endpoint =
  ge_id :: uuid
  ge_name :: string
  ge_state :: endpoint_state
  ge_public_base_url :: string
  ge_auth_policy_ref :: string
  ge_created_at :: int
  ge_updated_at :: int
  ge_resource_version :: int

definition gateway_endpoint_ok :: "gateway_endpoint \<Rightarrow> bool" where
  "gateway_endpoint_ok e =
     (text_between 1 200 (ge_name e) \<and> http_url (ge_public_base_url e) \<and> policy_ref (ge_auth_policy_ref e) \<and>
      1 \<le> ge_resource_version e)"

record gateway_route =
  gr_id :: uuid
  gr_endpoint_id :: uuid
  gr_state :: route_state
  gr_model_pattern :: string
  gr_target_binding_id :: string
  gr_target_model :: "string option"
  gr_priority :: int
  gr_created_at :: int
  gr_updated_at :: int
  gr_resource_version :: int
  gr_source :: "route_source option"
  gr_created_by :: "string option"
  gr_workspace_id :: "string option"
  gr_organization_id :: "string option"

definition gateway_route_ok :: "gateway_route \<Rightarrow> bool" where
  "gateway_route_ok r =
     (text_between 1 200 (gr_model_pattern r) \<and> text_between 1 300 (gr_target_binding_id r) \<and>
      (case gr_target_model r of None \<Rightarrow> True | Some m \<Rightarrow> text_between 1 200 m) \<and>
      0 \<le> gr_priority r \<and> gr_priority r \<le> 10000 \<and> 1 \<le> gr_resource_version r \<and>
      (case gr_source r of None \<Rightarrow> True | Some s \<Rightarrow> route_source_ok s))"

section \<open>Commands\<close>

record create_endpoint_request =
  ce_name :: string
  ce_public_base_url :: string
  ce_auth_policy_ref :: string

definition create_endpoint_request_ok :: "create_endpoint_request \<Rightarrow> bool" where
  "create_endpoint_request_ok c =
     (text_between 1 200 (ce_name c) \<and> http_url (ce_public_base_url c) \<and> policy_ref (ce_auth_policy_ref c))"

record create_route_request =
  cr_endpoint_id :: uuid
  cr_model_pattern :: string
  cr_target_binding_id :: string
  cr_target_model :: "string option"
  cr_priority :: int

definition create_route_request_ok :: "create_route_request \<Rightarrow> bool" where
  "create_route_request_ok c =
     (text_between 1 200 (cr_model_pattern c) \<and> text_between 1 300 (cr_target_binding_id c) \<and>
      (case cr_target_model c of None \<Rightarrow> True | Some m \<Rightarrow> text_between 1 200 m) \<and>
      0 \<le> cr_priority c \<and> cr_priority c \<le> 10000)"

text \<open>\<open>CreateRouteDraftRequest\<close>: a route command with its source, the target model required.\<close>

record create_route_draft_request = create_route_request +
  cd_source :: route_source

definition create_route_draft_request_ok :: "create_route_draft_request \<Rightarrow> bool" where
  "create_route_draft_request_ok c =
     (create_route_request_ok (create_route_request.truncate c) \<and> cr_target_model c \<noteq> None \<and> route_source_ok (cd_source c))"

record edit_route_draft_request =
  ed_resource_version :: int
  ed_model_pattern :: string
  ed_target_binding_id :: string
  ed_target_model :: string
  ed_priority :: int

definition edit_route_draft_request_ok :: "edit_route_draft_request \<Rightarrow> bool" where
  "edit_route_draft_request_ok c =
     (1 \<le> ed_resource_version c \<and> text_between 1 200 (ed_model_pattern c) \<and>
      text_between 1 300 (ed_target_binding_id c) \<and> text_between 1 200 (ed_target_model c) \<and>
      0 \<le> ed_priority c \<and> ed_priority c \<le> 10000)"

section \<open>API keys, principals and grants\<close>

datatype api_key_state = KeyActive | KeyRevoked

record create_api_key_request =
  ck_name :: string
  ck_expires_at :: "int option"
  ck_model_scope :: "string list"

definition create_api_key_request_ok :: "create_api_key_request \<Rightarrow> bool" where
  "create_api_key_request_ok c = (text_between 1 200 (ck_name c) \<and> length (ck_model_scope c) \<le> 100)"

record api_key =
  ak_id :: uuid
  ak_name :: string
  ak_credential_ref :: string
  ak_actor_id :: string
  ak_workspace_id :: string
  ak_state :: api_key_state
  ak_model_scope :: "string list"
  ak_created_at :: int
  ak_updated_at :: int
  ak_expires_at :: "int option"
  ak_revoked_at :: "int option"
  ak_resource_version :: int
  ak_organization_id :: "string option"

record product_principal =
  pp_actor_id :: string
  pp_workspace_id :: string
  pp_credential_ref :: string
  pp_organization_id :: "string option"

definition mk_product_principal :: "string \<Rightarrow> string \<Rightarrow> string \<Rightarrow> string option \<Rightarrow> py_exc + product_principal" where
  "mk_product_principal actor workspace credential organization =
     rbind (guard (\<not> blank actor) (ValueError ''principal actor_id must be non-empty text'')) (\<lambda>_.
     rbind (guard (\<not> blank workspace) (ValueError ''principal workspace_id must be non-empty text'')) (\<lambda>_.
     rbind (guard (\<not> blank credential) (ValueError ''principal credential_ref must be non-empty text'')) (\<lambda>_.
     rbind (guard (case organization of None \<Rightarrow> True | Some s \<Rightarrow> \<not> blank s)
              (ValueError ''principal organization_id must be non-empty text when configured'')) (\<lambda>_.
     Inr \<lparr>pp_actor_id = actor, pp_workspace_id = workspace, pp_credential_ref = credential, pp_organization_id = organization\<rparr>))))"

text \<open>\<open>WorkspaceEndpointGrant\<close> and \<open>WorkspaceReactorEndpointGrant\<close>: endpoint, organization, workspace.\<close>

type_synonym grant = "uuid \<times> string \<times> string"

definition grant_ok :: "grant \<Rightarrow> bool" where
  "grant_ok g = (case g of (endpoint, organization, workspace) \<Rightarrow> \<not> blank organization \<and> \<not> blank workspace)"

section \<open>Quota and audit records\<close>

record tenant_quota =
  tq_tenant_id :: string
  tq_workspace_id :: string
  tq_monthly_token_quota :: int
  tq_updated_at :: int

definition tenant_quota_ok :: "tenant_quota \<Rightarrow> bool" where
  "tenant_quota_ok q =
     (text_between 1 300 (tq_tenant_id q) \<and> text_between 1 300 (tq_workspace_id q) \<and> 0 < tq_monthly_token_quota q)"

datatype audit_status = AuditStarted | AuditCompleted | AuditFailed | AuditCancelled | AuditRejected

datatype usage_state = UsageUnknown | UsagePartial | UsageFinal

record audit_record =
  au_request_id :: string
  au_route_id :: "string option"
  au_binding_id :: "string option"
  au_model :: "string option"
  au_stream :: "bool option"
  au_actor_id :: "string option"
  au_workspace_id :: "string option"
  au_credential_ref :: "string option"
  au_status :: audit_status
  au_started_at :: int
  au_finished_at :: "int option"
  au_usage_state :: usage_state
  au_prompt_tokens :: "int option"
  au_completion_tokens :: "int option"
  au_total_tokens :: "int option"
  au_usage_source :: "string option"
  au_error_type :: "string option"

end
