(* ===== verification/Store.thy ===== *)
theory Store
  imports Domain
begin

text \<open>
  \<open>ExchangeStore\<close>, \<open>product/src/cyrene_exchange_product/store.py\<close>: the SQLite tables and one
  definition per method. A method that writes is an action over the store that may raise; clock
  readings (\<open>_unix_ms()\<close>) are arguments, one per call the code makes.
\<close>

section \<open>Tables\<close>

record route_row =
  rr_endpoint_id :: uuid
  rr_priority :: int
  rr_state :: route_state
  rr_document :: gateway_route
  rr_organization_id :: "string option"
  rr_workspace_id :: "string option"

record credential_row =
  cw_token_digest :: string
  cw_actor_id :: string
  cw_workspace_id :: string
  cw_organization_id :: "string option"
  cw_enabled :: bool
  cw_created_at :: int
  cw_api_key_id :: "uuid option"
  cw_name :: "string option"
  cw_expires_at :: "int option"
  cw_revoked_at :: "int option"
  cw_model_scope :: "string list option"
  cw_resource_version :: int

record exchange_store =
  gateway_endpoints :: "(uuid, gateway_endpoint) table"
  gateway_routes :: "(uuid, route_row) table"
  endpoint_grants :: "grant list"
  reactor_endpoint_grants :: "grant list"
  idempotency :: "(string \<times> string, string \<times> string) table"
  api_credentials :: "(string, credential_row) table"
  tenant_quotas :: "(string, tenant_quota) table"
  request_audits :: "(string, audit_record) table"

type_synonym 'a store_act = "(exchange_store, product_exn, 'a) act"

definition empty_store :: exchange_store where
  "empty_store = \<lparr>gateway_endpoints = [], gateway_routes = [], endpoint_grants = [], reactor_endpoint_grants = [],
     idempotency = [], api_credentials = [], tenant_quotas = [], request_audits = []\<rparr>"

definition db_read :: "(exchange_store \<Rightarrow> 'a) \<Rightarrow> 'a store_act" where
  "db_read f = (\<lambda>s. (Inr (f s), s))"

definition db_write :: "(exchange_store \<Rightarrow> exchange_store) \<Rightarrow> unit store_act" where
  "db_write f = (\<lambda>s. (Inr (), f s))"

definition constraint :: "string \<Rightarrow> product_exn" where
  "constraint m = IntegrityError (m @ '' constraint failed'')"

section \<open>Endpoints\<close>

definition save_endpoint :: "gateway_endpoint \<Rightarrow> unit store_act" where
  "save_endpoint endpoint =
     mutation (db_write (\<lambda>s. s\<lparr>gateway_endpoints := replace_row (ge_id endpoint) endpoint (gateway_endpoints s)\<rparr>))"

definition get_endpoint :: "uuid \<Rightarrow> exchange_store \<Rightarrow> gateway_endpoint option" where
  "get_endpoint endpoint_id s = find_row endpoint_id (gateway_endpoints s)"

definition list_endpoints :: "exchange_store \<Rightarrow> gateway_endpoint list" where
  "list_endpoints s = map snd (sort_key fst (gateway_endpoints s))"

section \<open>Routes\<close>

text \<open>\<open>model_dump_json\<close>: the organization never enters the document.\<close>

definition route_document :: "gateway_route \<Rightarrow> gateway_route" where
  "route_document route = route\<lparr>gr_organization_id := None\<rparr>"

definition route_row_of :: "gateway_route \<Rightarrow> route_row" where
  "route_row_of route =
     \<lparr>rr_endpoint_id = gr_endpoint_id route, rr_priority = gr_priority route, rr_state = gr_state route,
      rr_document = route_document route, rr_organization_id = gr_organization_id route,
      rr_workspace_id = gr_workspace_id route\<rparr>"

text \<open>\<open>_route_from_row\<close>: the scope columns are the authority.\<close>

definition route_from_row :: "route_row \<Rightarrow> gateway_route" where
  "route_from_row row =
     (rr_document row)\<lparr>gr_workspace_id := rr_workspace_id row, gr_organization_id := rr_organization_id row\<rparr>"

definition save_route :: "gateway_route \<Rightarrow> unit store_act" where
  "save_route route =
     mutation (bind (db_read (get_endpoint (gr_endpoint_id route))) (\<lambda>endpoint.
       if Option.is_none endpoint then raise (constraint ''FOREIGN KEY'')
       else db_write (\<lambda>s. s\<lparr>gateway_routes := replace_row (gr_id route) (route_row_of route) (gateway_routes s)\<rparr>)))"

definition get_route :: "uuid \<Rightarrow> exchange_store \<Rightarrow> gateway_route option" where
  "get_route route_id s = map_option route_from_row (find_row route_id (gateway_routes s))"

definition get_legacy_route :: "uuid \<Rightarrow> exchange_store \<Rightarrow> gateway_route option" where
  "get_legacy_route route_id s =
     (case find_row route_id (gateway_routes s) of
        None \<Rightarrow> None
      | Some row \<Rightarrow> if rr_organization_id row = None then Some (route_from_row row) else None)"

text \<open>\<open>ORDER BY priority ASC, id ASC\<close>.\<close>

definition order_routes :: "(uuid \<times> route_row) list \<Rightarrow> gateway_route list" where
  "order_routes rows = map (route_from_row \<circ> snd) (sort_key (\<lambda>(i, row). (rr_priority row, i)) rows)"

definition active_routes :: "uuid \<Rightarrow> string option \<Rightarrow> string option \<Rightarrow> exchange_store \<Rightarrow> gateway_route list" where
  "active_routes endpoint_id organization workspace s =
     (case organization of
        None \<Rightarrow>
          if workspace \<noteq> None then []
          else order_routes (select (\<lambda>_ row. rr_endpoint_id row = endpoint_id \<and> rr_state row = RouteActive \<and>
                 rr_organization_id row = None) (gateway_routes s))
      | Some org \<Rightarrow>
          if workspace = None \<or> workspace = Some [] then []
          else order_routes (select (\<lambda>_ row. rr_endpoint_id row = endpoint_id \<and> rr_state row = RouteActive \<and>
                 rr_organization_id row = Some org \<and> rr_workspace_id row = workspace) (gateway_routes s)))"

definition list_active_routes :: "exchange_store \<Rightarrow> gateway_route list" where
  "list_active_routes s =
     order_routes (select (\<lambda>_ row. rr_state row = RouteActive \<and> rr_organization_id row = None) (gateway_routes s))"

definition active_route_count :: "uuid option \<Rightarrow> exchange_store \<Rightarrow> nat" where
  "active_route_count endpoint_id s =
     length (select (\<lambda>_ row. rr_state row = RouteActive \<and>
       (case endpoint_id of None \<Rightarrow> True | Some e \<Rightarrow> rr_endpoint_id row = e)) (gateway_routes s))"

definition list_legacy_routes :: "exchange_store \<Rightarrow> gateway_route list" where
  "list_legacy_routes s = order_routes (select (\<lambda>_ row. rr_organization_id row = None) (gateway_routes s))"

definition list_workspace_routes :: "string \<Rightarrow> string \<Rightarrow> exchange_store \<Rightarrow> gateway_route list" where
  "list_workspace_routes organization workspace s =
     order_routes (select (\<lambda>_ row. rr_organization_id row = Some organization \<and> rr_workspace_id row = Some workspace)
       (gateway_routes s))"

text \<open>\<open>_migrate_gateway_route_scope\<close>: the document's workspace fills an empty column; no organization is inferred.\<close>

definition migrate_route_scope :: "unit store_act" where
  "migrate_route_scope =
     mutation (db_write (\<lambda>s. s\<lparr>gateway_routes := map (\<lambda>(i, row). (i,
       case (rr_workspace_id row, gr_workspace_id (rr_document row)) of
         (None, Some w) \<Rightarrow> if blank w then row else row\<lparr>rr_workspace_id := Some w\<rparr>
       | _ \<Rightarrow> row)) (gateway_routes s)\<rparr>))"

section \<open>Idempotency\<close>

definition idempotency_conflict :: product_exn where
  "idempotency_conflict =
     product_error ''EXCHANGE_IDEMPOTENCY_CONFLICT'' ''Idempotency key conflict''
       ''The Idempotency-Key was already used with a different request body.'' 409"

definition resolve_idempotency ::
  "string \<Rightarrow> string option \<Rightarrow> string \<Rightarrow> exchange_store \<Rightarrow> product_exn + string option" where
  "resolve_idempotency scope key digest s =
     (case key of
        None \<Rightarrow> Inr None
      | Some k \<Rightarrow>
          (case find_row (scope, k) (idempotency s) of
             None \<Rightarrow> Inr None
           | Some (request_hash, resource_id) \<Rightarrow>
               if request_hash \<noteq> digest then Inl idempotency_conflict else Inr (Some resource_id)))"

definition insert_idempotency :: "string \<Rightarrow> string \<Rightarrow> string \<Rightarrow> string \<Rightarrow> unit store_act" where
  "insert_idempotency scope key digest resource_id = (\<lambda>s.
     case insert_row (scope, key) (digest, resource_id) (idempotency s) of
       None \<Rightarrow> (Inl (constraint ''UNIQUE''), s)
     | Some t \<Rightarrow> (Inr (), s\<lparr>idempotency := t\<rparr>))"

definition remember_idempotency :: "string \<Rightarrow> string option \<Rightarrow> string \<Rightarrow> uuid \<Rightarrow> unit store_act" where
  "remember_idempotency scope key digest resource_id =
     (case key of None \<Rightarrow> ret () | Some k \<Rightarrow> mutation (insert_idempotency scope k digest resource_id))"

text \<open>A read that may raise, inside an action.\<close>

definition check :: "(exchange_store \<Rightarrow> product_exn + 'a) \<Rightarrow> 'a store_act" where
  "check f = (\<lambda>s. (f s, s))"

section \<open>Route drafts\<close>

text \<open>The operator grants that a draft with an organization needs.\<close>

definition check_draft_scope :: "gateway_route \<Rightarrow> uuid option \<Rightarrow> bool \<Rightarrow> exchange_store \<Rightarrow> product_exn + unit" where
  "check_draft_scope route reactor_source workspace_binding s =
     (case (gr_organization_id route, gr_workspace_id route) of
        (Some org, Some workspace) \<Rightarrow>
          rbind (guard ((gr_endpoint_id route, org, workspace) \<in> set (endpoint_grants s))
            (product_error ''EXCHANGE_ROUTE_PERMISSION_DENIED'' ''Endpoint not permitted''
               ''No operator grant permits this endpoint in the authenticated workspace.'' 403)) (\<lambda>_.
          rbind (guard (get_endpoint (gr_endpoint_id route) s \<noteq> None)
            (product_error ''EXCHANGE_ENDPOINT_NOT_FOUND'' ''GatewayEndpoint not found''
               ''No GatewayEndpoint exists with the requested id.'' 404)) (\<lambda>_.
          rbind (guard (reactor_source \<noteq> None \<or> workspace_binding \<and> gr_source route = None)
            (product_error ''EXCHANGE_SOURCE_PERMISSION_DENIED'' ''Reactor Endpoint not permitted''
               ''A server-resolved Reactor Endpoint or an operator-admitted binding is required for private drafts.'' 403)) (\<lambda>_.
          guard (case reactor_source of None \<Rightarrow> True | Some e \<Rightarrow> (e, org, workspace) \<in> set (reactor_endpoint_grants s))
            (product_error ''EXCHANGE_SOURCE_PERMISSION_DENIED'' ''Reactor Endpoint not permitted''
               ''No operator grant permits this Reactor Endpoint in the authenticated workspace.'' 403))))
      | (Some org, None) \<Rightarrow>
          Inl (product_error ''EXCHANGE_ROUTE_PERMISSION_DENIED'' ''Endpoint not permitted''
            ''No operator grant permits this endpoint in the authenticated workspace.'' 403)
      | (None, _) \<Rightarrow> Inr ())"

definition insert_route :: "gateway_route \<Rightarrow> unit store_act" where
  "insert_route route = (\<lambda>s.
     case insert_row (gr_id route) (route_row_of route) (gateway_routes s) of
       None \<Rightarrow> (Inl (constraint ''UNIQUE''), s)
     | Some t \<Rightarrow>
         if get_endpoint (gr_endpoint_id route) s = None then (Inl (constraint ''FOREIGN KEY''), s)
         else (Inr (), s\<lparr>gateway_routes := t\<rparr>))"

definition create_route_draft ::
  "gateway_route \<Rightarrow> string \<Rightarrow> string \<Rightarrow> string \<Rightarrow> uuid option \<Rightarrow> bool \<Rightarrow> gateway_route store_act" where
  "create_route_draft route key digest scope reactor_source workspace_binding =
     mutation (
       bind (check (check_draft_scope route reactor_source workspace_binding)) (\<lambda>_.
       bind (check (resolve_idempotency scope (Some key) digest)) (\<lambda>replay.
       case replay of
         Some resource_id \<Rightarrow>
           bind (db_read (get_route resource_id)) (\<lambda>existing.
           case existing of
             None \<Rightarrow> raise (ProductRuntimeError ''draft idempotency points to an absent route'')
           | Some r \<Rightarrow> ret r)
       | None \<Rightarrow>
           bind (insert_route route) (\<lambda>_.
           bind (insert_idempotency scope key digest (gr_id route)) (\<lambda>_.
           ret route)))))"

definition version_conflict :: "string \<Rightarrow> product_exn" where
  "version_conflict detail = product_error ''EXCHANGE_ROUTE_VERSION_CONFLICT'' ''Route changed'' detail 409"

definition replace_route_version :: "gateway_route \<Rightarrow> int \<Rightarrow> gateway_route store_act" where
  "replace_route_version route expected =
     mutation (
       bind (db_read (get_route (gr_id route))) (\<lambda>current.
       if (case current of None \<Rightarrow> True | Some c \<Rightarrow> gr_resource_version c \<noteq> expected)
       then raise (version_conflict ''Refresh the route before editing or confirming it.'')
       else
         bind (db_write (\<lambda>s. s\<lparr>gateway_routes := update_row (gr_id route) (\<lambda>row. row\<lparr>rr_priority := gr_priority route,
           rr_state := gr_state route, rr_document := route_document route,
           rr_organization_id := gr_organization_id route, rr_workspace_id := gr_workspace_id route\<rparr>)
           (gateway_routes s)\<rparr>)) (\<lambda>_.
         ret route)))"

section \<open>Grants\<close>

definition configure_workspace_endpoint_grants :: "grant list \<Rightarrow> unit store_act" where
  "configure_workspace_endpoint_grants grants =
     mutation (db_write (\<lambda>s. s\<lparr>endpoint_grants := sort (remdups grants)\<rparr>))"

definition configure_workspace_reactor_endpoint_grants :: "grant list \<Rightarrow> unit store_act" where
  "configure_workspace_reactor_endpoint_grants grants =
     mutation (db_write (\<lambda>s. s\<lparr>reactor_endpoint_grants := sort (remdups grants)\<rparr>))"

definition workspace_endpoint_is_granted :: "uuid \<Rightarrow> string \<Rightarrow> string \<Rightarrow> exchange_store \<Rightarrow> bool" where
  "workspace_endpoint_is_granted endpoint_id organization workspace s =
     ((endpoint_id, organization, workspace) \<in> set (endpoint_grants s))"

definition workspace_reactor_endpoint_is_granted :: "uuid \<Rightarrow> string \<Rightarrow> string \<Rightarrow> exchange_store \<Rightarrow> bool" where
  "workspace_reactor_endpoint_is_granted endpoint_id organization workspace s =
     ((endpoint_id, organization, workspace) \<in> set (reactor_endpoint_grants s))"

end
