(* ===== verification/Audit_Ledger.thy ===== *)
theory Audit_Ledger
  imports Store
begin

text \<open>
  Quota policy and the request audit ledger: the audit methods of \<open>ExchangeStore\<close>
  (\<open>store.py\<close>), \<open>RequestAuditRecorder\<close> (\<open>audit.py\<close>), the observed-usage event
  (\<open>src/cyrene_exchange/billing.py\<close>) and \<open>ProductQuotaGuard\<close> (\<open>quota.py\<close>).
\<close>

section \<open>Tenant quotas\<close>

definition save_tenant_quota :: "tenant_quota \<Rightarrow> unit store_act" where
  "save_tenant_quota q =
     mutation (\<lambda>s.
       if tq_monthly_token_quota q \<le> 0 then (Inl (constraint ''CHECK''), s)
       else (Inr (), s\<lparr>tenant_quotas := upsert_row (tq_tenant_id q) q (tenant_quotas s)\<rparr>))"

definition get_tenant_quota :: "string \<Rightarrow> exchange_store \<Rightarrow> tenant_quota option" where
  "get_tenant_quota tenant_id s = find_row tenant_id (tenant_quotas s)"

section \<open>The audit ledger\<close>

definition started_record :: "request_metadata \<Rightarrow> int \<Rightarrow> audit_record" where
  "started_record m now_ms =
     \<lparr>au_request_id = meta_request_id m, au_route_id = Some (meta_route_id m), au_binding_id = Some (meta_provider_ref m),
      au_model = Some (meta_model m), au_stream = Some (meta_stream m), au_actor_id = Some (actor_id (meta_principal m)),
      au_workspace_id = Some (workspace_id (meta_principal m)), au_credential_ref = Some (credential_ref (meta_principal m)),
      au_status = AuditStarted, au_started_at = now_ms, au_finished_at = None, au_usage_state = UsageUnknown,
      au_prompt_tokens = None, au_completion_tokens = None, au_total_tokens = None, au_usage_source = None,
      au_error_type = None\<rparr>"

definition audit_conflict :: "string \<Rightarrow> product_exn" where
  "audit_conflict request_id =
     ExchangeProductError \<lparr>pe_code = ''EXCHANGE_REQUEST_AUDIT_CONFLICT'', pe_title = ''Request audit conflict'',
       pe_detail = ''The request id is already present in the Exchange audit ledger.'', pe_status = 409,
       pe_retryable = False, pe_resource_ref = Some request_id\<rparr>"

definition audit_not_found :: "string \<Rightarrow> product_exn" where
  "audit_not_found request_id =
     ExchangeProductError \<lparr>pe_code = ''EXCHANGE_REQUEST_AUDIT_NOT_FOUND'', pe_title = ''Request audit not found'',
       pe_detail = ''The request must be admitted before it can be completed.'', pe_status = 500,
       pe_retryable = False, pe_resource_ref = Some request_id\<rparr>"

definition begin_request :: "request_metadata \<Rightarrow> int \<Rightarrow> unit store_act" where
  "begin_request m now_ms =
     mutation (\<lambda>s.
       case insert_row (meta_request_id m) (started_record m now_ms) (request_audits s) of
         None \<Rightarrow> (Inl (audit_conflict (meta_request_id m)), s)
       | Some t \<Rightarrow> (Inr (), s\<lparr>request_audits := t\<rparr>))"

fun rejection_audit :: "rejection_status \<Rightarrow> audit_status" where
  "rejection_audit Rejected = AuditRejected"
| "rejection_audit RejectedCancelled = AuditCancelled"

definition rejected_record :: "request_rejection \<Rightarrow> int \<Rightarrow> int \<Rightarrow> audit_record" where
  "rejected_record r started finished =
     \<lparr>au_request_id = rej_request_id r, au_route_id = None, au_binding_id = None, au_model = rej_model r,
      au_stream = rej_stream r, au_actor_id = map_option actor_id (rej_principal r),
      au_workspace_id = map_option workspace_id (rej_principal r),
      au_credential_ref = map_option credential_ref (rej_principal r),
      au_status = rejection_audit (rej_status r), au_started_at = started, au_finished_at = Some finished,
      au_usage_state = UsageUnknown, au_prompt_tokens = None, au_completion_tokens = None, au_total_tokens = None,
      au_usage_source = None, au_error_type = Some (rej_error_type r)\<rparr>"

text \<open>\<open>ON CONFLICT(request_id) DO NOTHING\<close>; the two timestamps are two readings of the clock.\<close>

definition record_rejection :: "request_rejection \<Rightarrow> int \<Rightarrow> int \<Rightarrow> unit store_act" where
  "record_rejection r started finished =
     mutation (db_write (\<lambda>s.
       case insert_row (rej_request_id r) (rejected_record r started finished) (request_audits s) of
         None \<Rightarrow> s
       | Some t \<Rightarrow> s\<lparr>request_audits := t\<rparr>))"

fun terminal_audit :: "terminal_status \<Rightarrow> audit_status" where
  "terminal_audit Completed = AuditCompleted"
| "terminal_audit Failed = AuditFailed"
| "terminal_audit Cancelled = AuditCancelled"

text \<open>\<open>_usage_values\<close>: classification of provider facts.\<close>

definition usage_state_of :: "provider_usage option \<Rightarrow> usage_state" where
  "usage_state_of usage =
     (case usage of
        None \<Rightarrow> UsageUnknown
      | Some u \<Rightarrow>
          if prompt_tokens u = None \<and> completion_tokens u = None \<and> total_tokens u = None then UsageUnknown
          else if prompt_tokens u \<noteq> None \<and> completion_tokens u \<noteq> None then UsageFinal
          else UsagePartial)"

definition finished_record ::
  "terminal_status \<Rightarrow> provider_usage option \<Rightarrow> string option \<Rightarrow> int \<Rightarrow> audit_record \<Rightarrow> audit_record" where
  "finished_record status usage err now_ms row =
     row\<lparr>au_status := terminal_audit status, au_finished_at := Some now_ms, au_usage_state := usage_state_of usage,
       au_prompt_tokens := Option.bind usage prompt_tokens, au_completion_tokens := Option.bind usage completion_tokens,
       au_total_tokens := Option.bind usage total_tokens, au_usage_source := map_option usage_source usage,
       au_error_type := err\<rparr>"

definition finish_request ::
  "request_metadata \<Rightarrow> terminal_status \<Rightarrow> provider_usage option \<Rightarrow> string option \<Rightarrow> int \<Rightarrow> unit store_act" where
  "finish_request m status usage err now_ms =
     mutation (\<lambda>s.
       case find_row (meta_request_id m) (request_audits s) of
         None \<Rightarrow> (Inl (audit_not_found (meta_request_id m)), s)
       | Some row \<Rightarrow>
           if au_status row \<noteq> AuditStarted then (Inr (), s)
           else (Inr (), s\<lparr>request_audits := update_row (meta_request_id m) (finished_record status usage err now_ms)
                   (request_audits s)\<rparr>))"

definition get_request_audit :: "string \<Rightarrow> exchange_store \<Rightarrow> audit_record option" where
  "get_request_audit request_id s = find_row request_id (request_audits s)"

definition list_active_activity_tasks :: "exchange_store \<Rightarrow> string list" where
  "list_active_activity_tasks s = map fst (select (\<lambda>_ r. au_status r = AuditStarted) (request_audits s))"

definition list_request_audits :: "string option \<Rightarrow> string option \<Rightarrow> int \<Rightarrow> exchange_store \<Rightarrow> audit_record list" where
  "list_request_audits workspace actor limit s =
     take (nat (max 1 (min limit 500)))
       (map snd (rev (sort_key (\<lambda>(i, r). (au_started_at r, i))
         (select (\<lambda>_ r. (case workspace of None \<Rightarrow> True | Some w \<Rightarrow> au_workspace_id r = Some w) \<and>
                        (case actor of None \<Rightarrow> True | Some a \<Rightarrow> au_actor_id r = Some a)) (request_audits s)))))"

end
