(* ===== verification/Billing.thy ===== *)
theory Billing
  imports Gateway_Core
begin

text \<open>
  \<open>src/cyrene_exchange/billing.py\<close>: the content-free usage event and the HTTP adapter for the usage
  ledger. What one HTTP exchange yields is a parameter, by method, path and body.
\<close>

section \<open>Usage events\<close>

record token_usage_event =
  ev_request_id :: string
  ev_tenant_id :: string
  ev_workspace_id :: string
  ev_model :: string
  ev_request_status :: terminal_status
  ev_prompt_tokens :: "int option"
  ev_completion_tokens :: "int option"
  ev_total_tokens :: "int option"
  ev_usage_source :: string

fun status_text :: "terminal_status \<Rightarrow> string" where
  "status_text Completed = ''completed''"
| "status_text Failed = ''failed''"
| "status_text Cancelled = ''cancelled''"

definition to_wire :: "token_usage_event \<Rightarrow> pydict" where
  "to_wire e =
     [(''requestId'', PStr (ev_request_id e)), (''tenantId'', PStr (ev_tenant_id e)),
      (''workspaceId'', PStr (ev_workspace_id e)), (''model'', PStr (ev_model e)),
      (''requestStatus'', PStr (status_text (ev_request_status e))), (''usageSource'', PStr (ev_usage_source e))] @
     opt_int_field ''promptTokens'' (ev_prompt_tokens e) @
     opt_int_field ''completionTokens'' (ev_completion_tokens e) @
     opt_int_field ''totalTokens'' (ev_total_tokens e)"

definition observed_token_usage_event ::
  "request_metadata \<Rightarrow> terminal_status \<Rightarrow> provider_usage option \<Rightarrow> token_usage_event option" where
  "observed_token_usage_event m status usage =
     (case usage of
        None \<Rightarrow> None
      | Some u \<Rightarrow>
          if usage_openai_dict u = [] then None
          else Some \<lparr>ev_request_id = meta_request_id m, ev_tenant_id = actor_id (meta_principal m),
                 ev_workspace_id = workspace_id (meta_principal m), ev_model = meta_model m,
                 ev_request_status = status, ev_prompt_tokens = prompt_tokens u,
                 ev_completion_tokens = completion_tokens u, ev_total_tokens = total_tokens u,
                 ev_usage_source = usage_source u\<rparr>)"

section \<open>The HTTP client\<close>

text \<open>
  One exchange: an HTTP error status, one of the caught transport or JSON failures, any other
  exception (a body that is not UTF-8, a truncated one), or a status with a JSON value.
\<close>

datatype http_reply =
    HttpStatusError int
  | HttpUnavailable
  | HttpEscapes string string
  | HttpReply int pyval

type_synonym http_exchange = "string \<Rightarrow> string \<Rightarrow> pydict option \<Rightarrow> http_reply"

definition billing_usage_error :: "string \<Rightarrow> gw_exn" where
  "billing_usage_error m = OtherError ''BillingUsageError'' m None"

definition billing_request ::
  "http_exchange \<Rightarrow> string \<Rightarrow> string \<Rightarrow> pydict option \<Rightarrow> int list \<Rightarrow> gw_exn + pydict" where
  "billing_request http path verb body accepted =
     (case http verb path body of
        HttpStatusError status \<Rightarrow>
          Inl (billing_usage_error (''billing plugin rejected the request with HTTP '' @ int_str status))
      | HttpUnavailable \<Rightarrow> Inl (billing_usage_error ''billing plugin is unavailable or returned invalid JSON'')
      | HttpEscapes cls m \<Rightarrow> Inl (OtherError cls m None)
      | HttpReply status payload \<Rightarrow>
          rbind (guard (status \<in> set accepted) (billing_usage_error ''billing plugin returned an unexpected response'')) (\<lambda>_.
          need_dict payload (billing_usage_error ''billing plugin returned an unexpected response'')))"

definition record_token_usage :: "http_exchange \<Rightarrow> token_usage_event \<Rightarrow> gw_exn + unit" where
  "record_token_usage http e =
     rbind (billing_request http ''/api/v1/billing/token-usage'' ''POST'' (Some (to_wire e)) [200, 201]) (\<lambda>response.
     guard (dget response ''requestId'' = PStr (ev_request_id e) \<and> dget response ''tenantId'' = PStr (ev_tenant_id e))
       (billing_usage_error ''billing plugin returned a mismatched usage record''))"

text \<open>\<open>quote(tenant_id, safe='')\<close>: every byte outside the unreserved characters is percent-encoded.\<close>

definition unreserved :: "nat \<Rightarrow> bool" where
  "unreserved n = (n \<in> {48..57} \<or> n \<in> {65..90} \<or> n \<in> {97..122} \<or> n \<in> {45, 46, 95, 126})"

definition upper_hex :: "nat \<Rightarrow> char" where
  "upper_hex n = char_of (if n < 10 then 48 + n else 55 + n)"

definition quote_byte :: "nat \<Rightarrow> string" where
  "quote_byte n = (if unreserved n then [char_of n] else [CHR ''%'', upper_hex (n div 16), upper_hex (n mod 16)])"

definition percent_quote :: "string \<Rightarrow> string" where
  "percent_quote s = concat (map (\<lambda>b. quote_byte (unat b)) (utf8 s))"

definition check_total :: "pyval \<Rightarrow> gw_exn \<Rightarrow> gw_exn + int" where
  "check_total v e = (case v of PInt n \<Rightarrow> if n < 0 then Inl e else Inr n | _ \<Rightarrow> Inl e)"

definition token_total :: "http_exchange \<Rightarrow> string \<Rightarrow> gw_exn + int" where
  "token_total http tenant_id =
     rbind (billing_request http (''/api/v1/billing/tenants/'' @ percent_quote tenant_id @ ''/token-summary'')
              ''GET'' None [200]) (\<lambda>response.
     let bad = billing_usage_error ''billing plugin returned an invalid token summary'' in
     rbind (guard (dget response ''tenantId'' = PStr tenant_id) bad) (\<lambda>_.
     check_total (dget response ''totalTokens'') bad))"

text \<open>\<open>BillingUsageClient\<close>, the port the Product consumes.\<close>

record billing_client =
  bc_record :: "token_usage_event \<Rightarrow> gw_exn + unit"
  bc_total :: "string \<Rightarrow> gw_exn + int"

definition http_billing_client :: "http_exchange \<Rightarrow> billing_client" where
  "http_billing_client http = \<lparr>bc_record = record_token_usage http, bc_total = token_total http\<rparr>"

definition is_billing_error :: "gw_exn \<Rightarrow> bool" where
  "is_billing_error e = (case e of OtherError c m u \<Rightarrow> c = ''BillingUsageError'' | _ \<Rightarrow> False)"

section \<open>Facts\<close>

lemma observed_event_None:
  "observed_token_usage_event m status usage = None \<longleftrightarrow>
   (\<forall>u. usage = Some u \<longrightarrow> prompt_tokens u = None \<and> completion_tokens u = None \<and> total_tokens u = None)"
  by (auto simp: observed_token_usage_event_def usage_openai_dict_Nil_iff split: option.splits)

lemma to_wire_counts:
  "dget (to_wire e) ''promptTokens'' = (case ev_prompt_tokens e of None \<Rightarrow> PNone | Some n \<Rightarrow> PInt n)"
  "dget (to_wire e) ''completionTokens'' = (case ev_completion_tokens e of None \<Rightarrow> PNone | Some n \<Rightarrow> PInt n)"
  "dget (to_wire e) ''totalTokens'' = (case ev_total_tokens e of None \<Rightarrow> PNone | Some n \<Rightarrow> PInt n)"
  by (auto simp: to_wire_def dget_or_def opt_int_field_def split: option.splits)

lemma billing_request_Inr [result_simps]:
  "billing_request http path verb body accepted = Inr d \<longleftrightarrow>
   (\<exists>status. http verb path body = HttpReply status (PDict d) \<and> status \<in> set accepted)"
  by (auto simp: billing_request_def result_simps split: http_reply.splits)

lemma check_total_Inr [result_simps]: "check_total v e = Inr n \<longleftrightarrow> v = PInt n \<and> 0 \<le> n"
  by (cases v) (auto simp: check_total_def)

lemma token_total_Inr:
  assumes "token_total http tenant = Inr n"
  shows "0 \<le> n \<and> (\<exists>d. http ''GET'' (''/api/v1/billing/tenants/'' @ percent_quote tenant @ ''/token-summary'') None =
    HttpReply 200 (PDict d) \<and> dget d ''tenantId'' = PStr tenant \<and> dget d ''totalTokens'' = PInt n)"
  using assms unfolding token_total_def Let_def by (simp only: result_simps) auto

text \<open>A tenant identifier never leaves its path segment.\<close>

lemma quote_byte_slash: "n < 256 \<Longrightarrow> CHR ''/'' \<notin> set (quote_byte n)"
proof -
  assume n: "n < 256"
  have d: "upper_hex k \<noteq> CHR ''/''" if "k < 16" for k
    using that by (auto simp: upper_hex_def char_of_eq_iff take_bit_nat_def)
  have "char_of n \<noteq> CHR ''/''" if "unreserved n"
    using that n by (auto simp: unreserved_def char_of_eq_iff take_bit_nat_def)
  moreover have "n div 16 < 16" "n mod 16 < 16" using n by simp_all
  ultimately show ?thesis using d [of "n div 16"] d [of "n mod 16"] by (auto simp: quote_byte_def)
qed

lemma percent_quote_slash: "CHR ''/'' \<notin> set (percent_quote s)"
proof -
  have "unat (b :: 8 word) < 256" for b using unsigned_less [where 'a = nat, of b] by simp
  then show ?thesis by (simp add: percent_quote_def quote_byte_slash)
qed

end
