(* ===== verification/Recorder.thy ===== *)
theory Recorder
  imports Audit_Ledger Billing
begin

text \<open>
  \<open>RequestAuditRecorder\<close> (\<open>product/src/cyrene_exchange_product/audit.py\<close>), the lifecycle observer
  over the store with an optional billing client, and \<open>ProductQuotaGuard\<close> (\<open>quota.py\<close>). The
  recorder's optional activity lifecycle is an external SDK; the recorder without it is modelled.
\<close>

section \<open>The recorder\<close>

text \<open>The recorder's state: the store, the events it posted, and the clock readings it has used.\<close>

record product_state =
  px_store :: exchange_store
  px_posted :: "token_usage_event list"
  px_ticks :: nat

text \<open>An exception of the store as the gateway sees it: its class name and its text.\<close>

fun product_gw_exn :: "product_exn \<Rightarrow> gw_exn" where
  "product_gw_exn (ExchangeProductError e) = OtherError ''ExchangeProductError'' (pe_detail e) None"
| "product_gw_exn (IntegrityError m) = OtherError ''IntegrityError'' m None"
| "product_gw_exn (ProductValueError m) = OtherError ''ValueError'' m None"
| "product_gw_exn (ProductTypeError m) = OtherError ''TypeError'' m None"
| "product_gw_exn (ProductRuntimeError m) = OtherError ''RuntimeError'' m None"
| "product_gw_exn (ProductOther c m) = OtherError c m None"

text \<open>A store method called with the current time.\<close>

definition on_store :: "(nat \<Rightarrow> int) \<Rightarrow> (int \<Rightarrow> unit store_act) \<Rightarrow> (product_state, gw_exn, unit) act" where
  "on_store clock f = (\<lambda>p.
     case f (clock (px_ticks p)) (px_store p) of (r, s) \<Rightarrow>
       (map_sum product_gw_exn id r, p\<lparr>px_store := s, px_ticks := Suc (px_ticks p)\<rparr>))"

definition post_event :: "billing_client \<Rightarrow> token_usage_event \<Rightarrow> (product_state, gw_exn, unit) act" where
  "post_event billing e = (\<lambda>p. (bc_record billing e, p\<lparr>px_posted := px_posted p @ [e]\<rparr>))"

definition recorder_started :: "(nat \<Rightarrow> int) \<Rightarrow> request_metadata \<Rightarrow> (product_state, gw_exn, unit) act" where
  "recorder_started clock m = on_store clock (begin_request m)"

definition recorder_finished ::
  "(nat \<Rightarrow> int) \<Rightarrow> billing_client option \<Rightarrow> request_metadata \<Rightarrow> terminal_status \<Rightarrow> provider_usage option \<Rightarrow>
   string option \<Rightarrow> (product_state, gw_exn, unit) act" where
  "recorder_finished clock billing m status usage err =
     andthen (on_store clock (finish_request m status usage err))
       (case (billing, observed_token_usage_event m status usage) of
          (Some b, Some e) \<Rightarrow> post_event b e
        | _ \<Rightarrow> ret ())"

definition recorder_rejected :: "(nat \<Rightarrow> int) \<Rightarrow> request_rejection \<Rightarrow> (product_state, gw_exn, unit) act" where
  "recorder_rejected clock r = (\<lambda>p.
     on_store clock (record_rejection r (clock (px_ticks p))) (p\<lparr>px_ticks := Suc (px_ticks p)\<rparr>))"

definition audit_recorder :: "(nat \<Rightarrow> int) \<Rightarrow> billing_client option \<Rightarrow> product_state observer" where
  "audit_recorder clock billing =
     \<lparr>on_started = recorder_started clock, on_finished = recorder_finished clock billing,
      on_rejected = recorder_rejected clock\<rparr>"

section \<open>The quota guard\<close>

definition quota_guard ::
  "exchange_store \<Rightarrow> billing_client option \<Rightarrow> request_principal \<Rightarrow> gw_exn + unit" where
  "quota_guard s billing caller =
     (case get_tenant_quota (actor_id caller) s of
        None \<Rightarrow> Inr ()
      | Some q \<Rightarrow>
          if tq_workspace_id q \<noteq> workspace_id caller
          then Inl (QuotaExceededError (''Tenant '' @ quoted (actor_id caller) @ '' is not admitted in this workspace.''))
          else
            (case billing of
               None \<Rightarrow> Inl (QuotaUnavailableError ''quota usage source is not configured'')
             | Some b \<Rightarrow>
                 (case bc_total b (actor_id caller) of
                    Inl e \<Rightarrow>
                      Inl (if is_billing_error e then QuotaUnavailableError ''quota usage source is unavailable'' else e)
                  | Inr used \<Rightarrow>
                      if used \<ge> tq_monthly_token_quota q
                      then Inl (QuotaExceededError
                             (''Tenant '' @ quoted (actor_id caller) @ '' has exceeded its monthly token quota.''))
                      else Inr ())))"

section \<open>Facts\<close>

text \<open>The status the ledger holds for a request.\<close>

definition ledger_status :: "string \<Rightarrow> product_state \<Rightarrow> audit_status option" where
  "ledger_status request_id p = map_option au_status (get_request_audit request_id (px_store p))"

lemma quota_guard_Inr:
  "quota_guard s billing caller = Inr () \<longleftrightarrow>
   (case get_tenant_quota (actor_id caller) s of
      None \<Rightarrow> True
    | Some q \<Rightarrow> tq_workspace_id q = workspace_id caller \<and>
        (\<exists>b used. billing = Some b \<and> bc_total b (actor_id caller) = Inr used \<and> used < tq_monthly_token_quota q))"
  by (auto simp: quota_guard_def split: option.splits sum.splits)

lemma begin_request_run:
  "begin_request m t s =
   (if find_row (meta_request_id m) (request_audits s) = None
    then (Inr (), s\<lparr>request_audits := request_audits s @ [(meta_request_id m, started_record m t)]\<rparr>)
    else (Inl (audit_conflict (meta_request_id m)), s))"
  by (auto simp: begin_request_def mutation_def insert_row_def find_row_def map_of_eq_None_iff split: option.splits)

lemma finish_request_run:
  "finish_request m status usage err t s =
   (case find_row (meta_request_id m) (request_audits s) of
      None \<Rightarrow> (Inl (audit_not_found (meta_request_id m)), s)
    | Some row \<Rightarrow>
        if au_status row \<noteq> AuditStarted then (Inr (), s)
        else (Inr (), s\<lparr>request_audits := update_row (meta_request_id m) (finished_record status usage err t)
                (request_audits s)\<rparr>))"
  by (simp add: finish_request_def mutation_def split: option.splits)

lemma record_rejection_run:
  "record_rejection r t t2 s =
   (Inr (), if find_row (rej_request_id r) (request_audits s) = None
            then s\<lparr>request_audits := request_audits s @ [(rej_request_id r, rejected_record r t t2)]\<rparr> else s)"
  by (auto simp: record_rejection_def mutation_def db_write_def insert_row_def find_row_def map_of_eq_None_iff
      split: option.splits)

lemma status_of_records:
  "au_status (started_record m t) = AuditStarted"
  "au_status (rejected_record r t t2) = rejection_audit (rej_status r)"
  "au_status (finished_record status usage err t row) = terminal_audit status"
  by (simp_all add: started_record_def rejected_record_def finished_record_def)

lemma recorder_started_status:
  "recorder_started clock m p = (r, p') \<Longrightarrow>
   ledger_status i p' = (if i = meta_request_id m \<and> ledger_status i p = None then Some AuditStarted else ledger_status i p) \<and>
   (r = Inr () \<longleftrightarrow> ledger_status (meta_request_id m) p = None)"
  by (auto simp: recorder_started_def on_store_def begin_request_run ledger_status_def get_request_audit_def find_row_append
      status_of_records split: if_splits option.splits prod.splits)

lemma recorder_rejected_status:
  "recorder_rejected clock j p = (r, p') \<Longrightarrow>
   ledger_status i p' = (if i = rej_request_id j \<and> ledger_status i p = None then Some (rejection_audit (rej_status j))
     else ledger_status i p) \<and> r = Inr ()"
  by (auto simp: recorder_rejected_def on_store_def record_rejection_run ledger_status_def get_request_audit_def find_row_append
      status_of_records split: if_splits option.splits prod.splits)

lemma post_event_store: "px_store (snd (post_event b e p)) = px_store p"
  by (simp add: post_event_def)

lemma recorder_finished_store:
  "px_store (snd (recorder_finished clock billing m status usage err p)) =
   snd (finish_request m status usage err (clock (px_ticks p)) (px_store p))"
  by (auto simp: recorder_finished_def on_store_def act_simps post_event_store
      split: prod.splits sum.splits option.splits)

lemma recorder_finished_status:
  "recorder_finished clock billing m status usage err p = (r, p') \<Longrightarrow>
   ledger_status i p' = (if i = meta_request_id m \<and> ledger_status i p = Some AuditStarted then Some (terminal_audit status)
     else ledger_status i p)"
  using recorder_finished_store [of clock billing m status usage err p]
  by (auto simp: finish_request_run ledger_status_def get_request_audit_def find_update status_of_records
      split: option.splits if_splits)

end
