(* ===== verification/Credentials.thy ===== *)
theory Credentials
  imports Store
begin

text \<open>
  The credential table of \<open>ExchangeStore\<close>: operator-configured bearer tokens and server-generated
  API keys in one table, told apart by \<open>api_key_id\<close>. Tokens are stored as SHA-256 digests only.
\<close>

section \<open>Configured credentials\<close>

definition find_digest :: "string \<Rightarrow> exchange_store \<Rightarrow> (string \<times> credential_row) option" where
  "find_digest digest s = find (\<lambda>(ref, row). cw_token_digest row = digest) (api_credentials s)"

definition configured_row :: "product_principal \<Rightarrow> string \<Rightarrow> int \<Rightarrow> credential_row option \<Rightarrow> credential_row" where
  "configured_row p digest now_ms old =
     (case old of
        None \<Rightarrow> \<lparr>cw_token_digest = digest, cw_actor_id = pp_actor_id p, cw_workspace_id = pp_workspace_id p,
          cw_organization_id = pp_organization_id p, cw_enabled = True, cw_created_at = now_ms, cw_api_key_id = None,
          cw_name = None, cw_expires_at = None, cw_revoked_at = None, cw_model_scope = None, cw_resource_version = 1\<rparr>
      | Some row \<Rightarrow> row\<lparr>cw_token_digest := digest, cw_actor_id := pp_actor_id p, cw_workspace_id := pp_workspace_id p,
          cw_organization_id := pp_organization_id p, cw_enabled := True\<rparr>)"

definition configure_one :: "int \<Rightarrow> product_principal \<times> string \<Rightarrow> unit store_act" where
  "configure_one now_ms entry =
     (case entry of (p, digest) \<Rightarrow> (\<lambda>s.
        let existing = find_row (pp_credential_ref p) (api_credentials s) in
        if (case existing of None \<Rightarrow> False | Some row \<Rightarrow> cw_token_digest row \<noteq> digest)
        then (Inl (ProductValueError ''credential_ref is already bound to a different token''), s)
        else if (case find_digest digest s of None \<Rightarrow> False | Some (ref, _) \<Rightarrow> ref \<noteq> pp_credential_ref p)
        then (Inl (ProductValueError ''token is already bound to a different credential_ref''), s)
        else (Inr (), s\<lparr>api_credentials := upsert_row (pp_credential_ref p) (configured_row p digest now_ms existing)
                (api_credentials s)\<rparr>)))"

text \<open>One clock reading per entry.\<close>

fun configure_each :: "(nat \<Rightarrow> int) \<Rightarrow> nat \<Rightarrow> (product_principal \<times> string) list \<Rightarrow> unit store_act" where
  "configure_each clock k [] = ret ()"
| "configure_each clock k (e # rest) = andthen (configure_one (clock k) e) (configure_each clock (Suc k) rest)"

definition configure_credentials :: "(nat \<Rightarrow> int) \<Rightarrow> (string \<times> product_principal) list \<Rightarrow> unit store_act" where
  "configure_credentials clock credentials =
     (if list_ex (\<lambda>(token, _). blank token) credentials
      then raise (ProductValueError ''credential token must be non-empty text'')
      else mutation (configure_each clock 0 (map (\<lambda>(token, p). (p, sha256_str token)) credentials)))"

definition disable_credential :: "string \<Rightarrow> bool store_act" where
  "disable_credential ref =
     mutation (\<lambda>s.
       case find_row ref (api_credentials s) of
         Some row \<Rightarrow>
           if cw_enabled row
           then (Inr True, s\<lparr>api_credentials := update_row ref (\<lambda>row. row\<lparr>cw_enabled := False\<rparr>) (api_credentials s)\<rparr>)
           else (Inr False, s)
       | None \<Rightarrow> (Inr False, s))"

section \<open>API keys\<close>

definition api_key_row :: "api_key \<Rightarrow> string \<Rightarrow> int \<Rightarrow> credential_row" where
  "api_key_row k digest now_ms =
     \<lparr>cw_token_digest = digest, cw_actor_id = ak_actor_id k, cw_workspace_id = ak_workspace_id k,
      cw_organization_id = ak_organization_id k, cw_enabled = True, cw_created_at = now_ms,
      cw_api_key_id = Some (ak_id k), cw_name = Some (ak_name k), cw_expires_at = ak_expires_at k,
      cw_revoked_at = None, cw_model_scope = Some (ak_model_scope k), cw_resource_version = ak_resource_version k\<rparr>"

text \<open>\<open>_api_key_from_row\<close>, on a row that has an API key id.\<close>

definition api_key_from_row :: "string \<Rightarrow> credential_row \<Rightarrow> api_key" where
  "api_key_from_row ref row =
     \<lparr>ak_id = or_default (cw_api_key_id row) [], ak_name = or_default (cw_name row) ''None'', ak_credential_ref = ref,
      ak_actor_id = cw_actor_id row, ak_workspace_id = cw_workspace_id row,
      ak_state = (if cw_revoked_at row \<noteq> None \<and> cw_revoked_at row \<noteq> Some 0 then KeyRevoked else KeyActive),
      ak_model_scope = or_default (cw_model_scope row) [], ak_created_at = cw_created_at row,
      ak_updated_at = (case cw_revoked_at row of Some t \<Rightarrow> if t \<noteq> 0 then t else cw_created_at row | None \<Rightarrow> cw_created_at row),
      ak_expires_at = cw_expires_at row, ak_revoked_at = cw_revoked_at row,
      ak_resource_version = cw_resource_version row, ak_organization_id = cw_organization_id row\<rparr>"

definition find_api_key :: "uuid \<Rightarrow> exchange_store \<Rightarrow> (string \<times> credential_row) option" where
  "find_api_key key_id s = find (\<lambda>(ref, row). cw_api_key_id row = Some key_id) (api_credentials s)"

definition get_api_key :: "uuid \<Rightarrow> exchange_store \<Rightarrow> api_key option" where
  "get_api_key key_id s = map_option (\<lambda>(ref, row). api_key_from_row ref row) (find_api_key key_id s)"

text \<open>The \<open>INSERT\<close> is refused when the reference, the digest or the API key id is already there.\<close>

definition insert_api_key :: "api_key \<Rightarrow> string \<Rightarrow> int \<Rightarrow> unit store_act" where
  "insert_api_key k digest now_ms = (\<lambda>s.
     case insert_row (ak_credential_ref k) (api_key_row k digest now_ms) (api_credentials s) of
       None \<Rightarrow> (Inl (constraint ''UNIQUE''), s)
     | Some t \<Rightarrow>
         if find_digest digest s \<noteq> None \<or> find_api_key (ak_id k) s \<noteq> None
         then (Inl (constraint ''UNIQUE''), s)
         else (Inr (), s\<lparr>api_credentials := t\<rparr>))"

definition create_api_key ::
  "api_key \<Rightarrow> string \<Rightarrow> string option \<Rightarrow> string \<Rightarrow> string \<Rightarrow> int \<Rightarrow> (api_key \<times> bool) store_act" where
  "create_api_key k secret_digest key request_digest scope now_ms =
     mutation (
       bind (check (resolve_idempotency scope key request_digest)) (\<lambda>replay.
       case replay of
         Some resource_id \<Rightarrow>
           bind (db_read (get_api_key resource_id)) (\<lambda>existing.
           case existing of
             None \<Rightarrow> raise (ProductRuntimeError ''api-key idempotency points to an absent key'')
           | Some e \<Rightarrow> ret (e, False))
       | None \<Rightarrow>
           bind (insert_api_key k secret_digest now_ms) (\<lambda>_.
           bind (case key of None \<Rightarrow> ret () | Some i \<Rightarrow> insert_idempotency scope i request_digest (ak_id k)) (\<lambda>_.
           ret (k, True)))))"

definition list_api_keys :: "exchange_store \<Rightarrow> api_key list" where
  "list_api_keys s =
     map (\<lambda>(ref, row). api_key_from_row ref row)
       (rev (sort_key (\<lambda>(ref, row). (cw_created_at row, or_default (cw_api_key_id row) []))
         (select (\<lambda>_ row. cw_api_key_id row \<noteq> None) (api_credentials s))))"

definition revoke_api_key :: "uuid \<Rightarrow> int \<Rightarrow> api_key option store_act" where
  "revoke_api_key key_id now_ms =
     mutation (\<lambda>s.
       case find_api_key key_id s of
         None \<Rightarrow> (Inr None, s)
       | Some (ref, row) \<Rightarrow>
           let existing = api_key_from_row ref row in
           if ak_state existing = KeyRevoked then (Inr (Some existing), s)
           else (let s' = s\<lparr>api_credentials := update_row ref (\<lambda>row. row\<lparr>cw_enabled := False, cw_revoked_at := Some now_ms,
                   cw_resource_version := cw_resource_version row + 1\<rparr>) (api_credentials s)\<rparr>
                 in (Inr (get_api_key key_id s'), s')))"

section \<open>Resolving bearer tokens\<close>

text \<open>\<open>WHERE token_digest = ? AND enabled = 1 AND (expires_at IS NULL OR expires_at > ?)\<close>.\<close>

definition usable :: "int \<Rightarrow> credential_row \<Rightarrow> bool" where
  "usable now_ms row = (cw_enabled row \<and> (case cw_expires_at row of None \<Rightarrow> True | Some t \<Rightarrow> t > now_ms))"

definition find_usable :: "string \<Rightarrow> int \<Rightarrow> exchange_store \<Rightarrow> (string \<times> credential_row) option" where
  "find_usable digest now_ms s =
     find (\<lambda>(ref, row). cw_token_digest row = digest \<and> usable now_ms row) (api_credentials s)"

definition principal_of_row :: "string \<Rightarrow> credential_row \<Rightarrow> py_exc + request_principal" where
  "principal_of_row ref row =
     mk_request_principal (cw_actor_id row) (cw_workspace_id row) ref (or_default (cw_model_scope row) [])
       (cw_organization_id row)"

definition resolve_credential :: "string \<Rightarrow> int \<Rightarrow> exchange_store \<Rightarrow> py_exc + request_principal option" where
  "resolve_credential token now_ms s =
     (if token = [] then Inr None
      else (case find_usable (sha256_str token) now_ms s of
              None \<Rightarrow> Inr None
            | Some (ref, row) \<Rightarrow> rbind (principal_of_row ref row) (\<lambda>p. Inr (Some p))))"

definition resolve_data_plane_credential ::
  "string \<Rightarrow> string list \<Rightarrow> int \<Rightarrow> exchange_store \<Rightarrow> py_exc + request_principal option" where
  "resolve_data_plane_credential token configured_digests now_ms s =
     (if token = [] then Inr None
      else (case find_usable (sha256_str token) now_ms s of
              None \<Rightarrow> Inr None
            | Some (ref, row) \<Rightarrow>
                if cw_api_key_id row = None \<and> sha256_str token \<notin> set configured_digests then Inr None
                else rbind (principal_of_row ref row) (\<lambda>p. Inr (Some p))))"

definition resolve_product_credential :: "string \<Rightarrow> int \<Rightarrow> exchange_store \<Rightarrow> py_exc + product_principal option" where
  "resolve_product_credential token now_ms s =
     (if token = [] then Inr None
      else (case find (\<lambda>(ref, row). cw_token_digest row = sha256_str token \<and> usable now_ms row \<and> cw_api_key_id row = None)
                   (api_credentials s) of
              None \<Rightarrow> Inr None
            | Some (ref, row) \<Rightarrow>
                rbind (mk_product_principal (cw_actor_id row) (cw_workspace_id row) ref (cw_organization_id row)) (\<lambda>p.
                Inr (Some p))))"

end
