(* ===== verification/Service.thy ===== *)
theory Service
  imports Credentials
begin

text \<open>
  \<open>ExchangeProductService\<close>, \<open>product/src/cyrene_exchange_product/service.py\<close>: endpoint, route and API
  key operations over the store. What the code draws from its environment is an argument: the JSON
  text of a command (\<open>body\<close>), the fresh UUID, the current time, the random part of a secret and the
  target validation callback.
\<close>

definition request_hash :: "string \<Rightarrow> string" where
  "request_hash body = sha256_str body"

definition nul :: string where
  "nul = [char_of (0 :: nat)]"

definition not_found :: "string \<Rightarrow> string \<Rightarrow> string \<Rightarrow> product_exn" where
  "not_found c title detail = product_error c title detail 404"

section \<open>Endpoints\<close>

definition need_endpoint :: "uuid \<Rightarrow> gateway_endpoint store_act" where
  "need_endpoint endpoint_id =
     check (\<lambda>s. case get_endpoint endpoint_id s of
        Some e \<Rightarrow> Inr e
      | None \<Rightarrow> Inl (not_found ''EXCHANGE_ENDPOINT_NOT_FOUND'' ''GatewayEndpoint not found''
                   ''No GatewayEndpoint exists with the requested id.''))"

definition new_endpoint :: "create_endpoint_request \<Rightarrow> uuid \<Rightarrow> int \<Rightarrow> gateway_endpoint" where
  "new_endpoint command new_id now =
     \<lparr>ge_id = new_id, ge_name = ce_name command, ge_state = EndpointActive,
      ge_public_base_url = ce_public_base_url command, ge_auth_policy_ref = ce_auth_policy_ref command,
      ge_created_at = now, ge_updated_at = now, ge_resource_version = 1\<rparr>"

text \<open>The lookup and the publication are separate transactions of the store.\<close>

definition publish_endpoint :: "create_endpoint_request \<Rightarrow> string \<Rightarrow> string option \<Rightarrow> uuid \<Rightarrow> int \<Rightarrow> gateway_endpoint store_act" where
  "publish_endpoint command body key new_id now =
     (let endpoint = new_endpoint command new_id now in
      bind (save_endpoint endpoint) (\<lambda>_.
      bind (remember_idempotency ''create-endpoint'' key (request_hash body) new_id) (\<lambda>_.
      ret endpoint)))"

definition create_endpoint :: "create_endpoint_request \<Rightarrow> string \<Rightarrow> string option \<Rightarrow> uuid \<Rightarrow> int \<Rightarrow> gateway_endpoint store_act" where
  "create_endpoint command body key new_id now =
     bind (check (resolve_idempotency ''create-endpoint'' key (request_hash body))) (\<lambda>replay.
     case replay of
       Some i \<Rightarrow> need_endpoint i
     | None \<Rightarrow> publish_endpoint command body key new_id now)"

definition disable_endpoint :: "uuid \<Rightarrow> int \<Rightarrow> gateway_endpoint store_act" where
  "disable_endpoint endpoint_id now =
     bind (need_endpoint endpoint_id) (\<lambda>endpoint.
     if ge_state endpoint = EndpointDisabled then ret endpoint
     else
       (let disabled = endpoint\<lparr>ge_state := EndpointDisabled, ge_updated_at := now,
              ge_resource_version := ge_resource_version endpoint + 1\<rparr> in
        bind (save_endpoint disabled) (\<lambda>_. ret disabled)))"

section \<open>Routes\<close>

definition route_not_found :: "string \<Rightarrow> product_exn" where
  "route_not_found detail = not_found ''EXCHANGE_ROUTE_NOT_FOUND'' ''GatewayRoute not found'' detail"

definition need_route :: "uuid \<Rightarrow> gateway_route store_act" where
  "need_route route_id =
     check (\<lambda>s. case get_route route_id s of
        Some r \<Rightarrow> Inr r
      | None \<Rightarrow> Inl (route_not_found ''No GatewayRoute exists with the requested id.''))"

definition need_legacy_route :: "uuid \<Rightarrow> gateway_route store_act" where
  "need_legacy_route route_id =
     check (\<lambda>s. case get_legacy_route route_id s of
        Some r \<Rightarrow> Inr r
      | None \<Rightarrow> Inl (route_not_found ''No legacy GatewayRoute exists with the requested id.''))"

definition new_route :: "create_route_request \<Rightarrow> uuid \<Rightarrow> int \<Rightarrow> gateway_route" where
  "new_route command new_id now =
     \<lparr>gr_id = new_id, gr_endpoint_id = cr_endpoint_id command, gr_state = RouteActive,
      gr_model_pattern = cr_model_pattern command, gr_target_binding_id = cr_target_binding_id command,
      gr_target_model = cr_target_model command, gr_priority = cr_priority command, gr_created_at = now,
      gr_updated_at = now, gr_resource_version = 1, gr_source = None, gr_created_by = None,
      gr_workspace_id = None, gr_organization_id = None\<rparr>"

definition create_route :: "create_route_request \<Rightarrow> string \<Rightarrow> string option \<Rightarrow> uuid \<Rightarrow> int \<Rightarrow> gateway_route store_act" where
  "create_route command body key new_id now =
     bind (need_endpoint (cr_endpoint_id command)) (\<lambda>_.
     bind (check (resolve_idempotency ''create-route'' key (request_hash body))) (\<lambda>replay.
     case replay of
       Some i \<Rightarrow> need_route i
     | None \<Rightarrow>
         (let route = new_route command new_id now in
          bind (save_route route) (\<lambda>_.
          bind (remember_idempotency ''create-route'' key (request_hash body) new_id) (\<lambda>_.
          ret route)))))"

section \<open>Drafts\<close>

text \<open>Every draft the service makes: state, version, source and owner are the server's choice.\<close>

definition new_draft ::
  "create_route_request \<Rightarrow> route_source option \<Rightarrow> product_principal \<Rightarrow> string option \<Rightarrow> uuid \<Rightarrow> int \<Rightarrow> gateway_route" where
  "new_draft command source owner organization new_id now =
     (new_route command new_id now)\<lparr>gr_state := RouteDraft, gr_source := source, gr_created_by := Some (pp_actor_id owner),
       gr_workspace_id := Some (pp_workspace_id owner), gr_organization_id := organization\<rparr>"

definition draft_digest :: "string \<Rightarrow> string list \<Rightarrow> string" where
  "draft_digest body parts = sha256_str (concat (request_hash body # map (\<lambda>p. nul @ p) parts))"

definition scope_digest :: "string \<Rightarrow> string \<Rightarrow> string" where
  "scope_digest organization workspace = sha256_str (organization @ nul @ workspace)"

definition service_route_draft ::
  "create_route_draft_request \<Rightarrow> string \<Rightarrow> string \<Rightarrow> product_principal \<Rightarrow> uuid \<Rightarrow> int \<Rightarrow> gateway_route store_act" where
  "service_route_draft command body key owner new_id now =
     bind (need_endpoint (cr_endpoint_id command)) (\<lambda>_.
     create_route_draft
       (new_draft (create_route_request.truncate command) (Some (cd_source command)) owner None new_id now) key
       (draft_digest body [pp_workspace_id owner, pp_actor_id owner]) ''create-route-draft'' None False)"

definition scope_required :: product_exn where
  "scope_required =
     product_error ''EXCHANGE_CONTROL_PERMISSION_DENIED'' ''Workspace scope required''
       ''Use a control credential configured with organization and workspace scope.'' 403"

definition create_scoped_route_draft ::
  "create_route_draft_request \<Rightarrow> string \<Rightarrow> string \<Rightarrow> product_principal \<Rightarrow> uuid \<Rightarrow> uuid \<Rightarrow> int \<Rightarrow> gateway_route store_act" where
  "create_scoped_route_draft command body key owner reactor_source new_id now =
     (case pp_organization_id owner of
        None \<Rightarrow> raise scope_required
      | Some org \<Rightarrow>
          create_route_draft
            (new_draft (create_route_request.truncate command) (Some (cd_source command)) owner (Some org) new_id now) key
            (draft_digest body [org, pp_workspace_id owner, pp_actor_id owner])
            (''create-route-draft:v1:'' @ scope_digest org (pp_workspace_id owner)) (Some reactor_source) False)"

definition create_workspace_binding_route_draft ::
  "create_route_request \<Rightarrow> string \<Rightarrow> string \<Rightarrow> product_principal \<Rightarrow> uuid \<Rightarrow> int \<Rightarrow> gateway_route store_act" where
  "create_workspace_binding_route_draft command body key owner new_id now =
     (case pp_organization_id owner of
        None \<Rightarrow> raise scope_required
      | Some org \<Rightarrow>
          bind (need_endpoint (cr_endpoint_id command)) (\<lambda>_.
          create_route_draft (new_draft command None owner (Some org) new_id now) key
            (draft_digest body [org, pp_workspace_id owner, pp_actor_id owner])
            (''create-workspace-binding-route-draft:v1:'' @ scope_digest org (pp_workspace_id owner)) None True))"

definition route_denied :: "string \<Rightarrow> product_exn" where
  "route_denied detail = product_error ''EXCHANGE_ROUTE_PERMISSION_DENIED'' ''Route not permitted'' detail 403"

definition not_draft :: "string \<Rightarrow> product_exn" where
  "not_draft detail = product_error ''EXCHANGE_ROUTE_NOT_DRAFT'' ''Route is not a draft'' detail 409"

definition owned_draft :: "uuid \<Rightarrow> product_principal \<Rightarrow> gateway_route store_act" where
  "owned_draft route_id owner =
     bind (need_legacy_route route_id) (\<lambda>route.
     if gr_workspace_id route \<noteq> Some (pp_workspace_id owner) \<or> gr_created_by route \<noteq> Some (pp_actor_id owner)
     then raise (route_denied ''The draft belongs to another actor or workspace.'')
     else if gr_state route \<noteq> RouteDraft
     then raise (not_draft ''Only DRAFT routes can be edited or confirmed through this action.'')
     else ret route)"

definition owned_workspace_draft :: "uuid \<Rightarrow> product_principal \<Rightarrow> gateway_route store_act" where
  "owned_workspace_draft route_id owner =
     bind (check (\<lambda>s. case get_route route_id s of
        Some r \<Rightarrow>
          if gr_organization_id r = pp_organization_id owner \<and> gr_workspace_id r = Some (pp_workspace_id owner) then Inr r
          else Inl (route_not_found ''No GatewayRoute exists in the authenticated workspace.'')
      | None \<Rightarrow> Inl (route_not_found ''No GatewayRoute exists in the authenticated workspace.''))) (\<lambda>route.
     if gr_created_by route \<noteq> Some (pp_actor_id owner) then raise (route_denied ''The draft belongs to another actor.'')
     else if gr_state route \<noteq> RouteDraft then raise (not_draft ''Only DRAFT routes can be confirmed through this action.'')
     else ret route)"

definition edit_route_draft :: "uuid \<Rightarrow> edit_route_draft_request \<Rightarrow> product_principal \<Rightarrow> int \<Rightarrow> gateway_route store_act" where
  "edit_route_draft route_id command owner now =
     bind (owned_draft route_id owner) (\<lambda>route.
     replace_route_version
       (route\<lparr>gr_model_pattern := ed_model_pattern command, gr_target_binding_id := ed_target_binding_id command,
          gr_target_model := Some (ed_target_model command), gr_priority := ed_priority command, gr_updated_at := now,
          gr_resource_version := ed_resource_version command + 1\<rparr>)
       (ed_resource_version command))"

definition check_version :: "gateway_route \<Rightarrow> int \<Rightarrow> unit store_act" where
  "check_version route version =
     (if gr_resource_version route \<noteq> version
      then raise (version_conflict ''Refresh and inspect the current draft before confirming.'') else ret ())"

definition need_active_endpoint :: "uuid \<Rightarrow> unit store_act" where
  "need_active_endpoint endpoint_id =
     bind (need_endpoint endpoint_id) (\<lambda>e.
     if ge_state e \<noteq> EndpointActive
     then raise (product_error ''EXCHANGE_ENDPOINT_DISABLED'' ''Endpoint disabled''
            ''Select an active gateway endpoint before confirming this route.'' 409)
     else ret ())"

definition activate :: "gateway_route \<Rightarrow> int \<Rightarrow> int \<Rightarrow> gateway_route store_act" where
  "activate route version now =
     replace_route_version (route\<lparr>gr_state := RouteActive, gr_updated_at := now, gr_resource_version := version + 1\<rparr>) version"

definition confirm_route_draft ::
  "uuid \<Rightarrow> int \<Rightarrow> product_principal \<Rightarrow> (gateway_route \<Rightarrow> product_exn + unit) \<Rightarrow> int \<Rightarrow> gateway_route store_act" where
  "confirm_route_draft route_id version owner validate_target now =
     bind (owned_draft route_id owner) (\<lambda>route.
     bind (check_version route version) (\<lambda>_.
     bind (need_active_endpoint (gr_endpoint_id route)) (\<lambda>_.
     bind (result (validate_target route)) (\<lambda>_.
     activate route version now))))"

definition need_endpoint_grant :: "uuid \<Rightarrow> product_principal \<Rightarrow> unit store_act" where
  "need_endpoint_grant endpoint_id owner =
     check (\<lambda>s.
       if (case pp_organization_id owner of None \<Rightarrow> False
           | Some org \<Rightarrow> workspace_endpoint_is_granted endpoint_id org (pp_workspace_id owner) s)
       then Inr ()
       else Inl (product_error ''EXCHANGE_ROUTE_PERMISSION_DENIED'' ''Endpoint not permitted''
              ''No current operator grant permits this destination in the workspace.'' 403))"

text \<open>
  \<open>confirm_workspace_route_draft\<close>. The code reads the draft, the grant and the endpoint in
  transactions of their own before the compare-and-swap that activates; the model runs them as one
  step, so what it says of the grant and the endpoint holds where no other request changes them in
  between. The version guards the route itself.
\<close>

definition confirm_workspace_route_draft ::
  "uuid \<Rightarrow> int \<Rightarrow> product_principal \<Rightarrow> (gateway_route \<Rightarrow> product_exn + unit) \<Rightarrow> int \<Rightarrow> gateway_route store_act" where
  "confirm_workspace_route_draft route_id version owner validate_target now =
     bind (owned_workspace_draft route_id owner) (\<lambda>route.
     bind (check_version route version) (\<lambda>_.
     bind (need_endpoint_grant (gr_endpoint_id route) owner) (\<lambda>_.
     bind (need_active_endpoint (gr_endpoint_id route)) (\<lambda>_.
     bind (result (validate_target route)) (\<lambda>_.
     activate route version now)))))"

section \<open>API keys\<close>

definition key_in_scope :: "api_key \<Rightarrow> product_principal \<Rightarrow> bool" where
  "key_in_scope k owner = (ak_workspace_id k = pp_workspace_id owner \<and> ak_organization_id k = pp_organization_id owner)"

definition new_api_key :: "create_api_key_request \<Rightarrow> product_principal \<Rightarrow> uuid \<Rightarrow> int \<Rightarrow> api_key" where
  "new_api_key command owner new_id now =
     \<lparr>ak_id = new_id, ak_name = ck_name command, ak_credential_ref = ''api-key://'' @ new_id,
      ak_actor_id = pp_actor_id owner, ak_workspace_id = pp_workspace_id owner, ak_state = KeyActive,
      ak_model_scope = map strip (ck_model_scope command), ak_created_at = now, ak_updated_at = now,
      ak_expires_at = ck_expires_at command, ak_revoked_at = None, ak_resource_version = 1,
      ak_organization_id = pp_organization_id owner\<rparr>"

definition api_key_digest :: "string \<Rightarrow> product_principal \<Rightarrow> string" where
  "api_key_digest body owner =
     draft_digest body ([pp_workspace_id owner, pp_actor_id owner] @
       (case pp_organization_id owner of None \<Rightarrow> [] | Some org \<Rightarrow> [org]))"

definition api_key_scope :: "product_principal \<Rightarrow> string" where
  "api_key_scope owner =
     (case pp_organization_id owner of
        None \<Rightarrow> ''create-api-key''
      | Some org \<Rightarrow> ''create-api-key:v1:'' @ scope_digest org (pp_workspace_id owner))"

definition check_api_key_command :: "create_api_key_request \<Rightarrow> int \<Rightarrow> product_exn + unit" where
  "check_api_key_command command now =
     rbind (guard (case ck_expires_at command of None \<Rightarrow> True | Some t \<Rightarrow> t > now)
       (product_error ''EXCHANGE_API_KEY_EXPIRY_INVALID'' ''API key expiry is invalid''
          ''Choose an expiry that is after the current time.'' 422)) (\<lambda>_.
     guard (list_all (\<lambda>p. strip p \<noteq> []) (ck_model_scope command))
       (product_error ''EXCHANGE_API_KEY_SCOPE_INVALID'' ''API key model scope is invalid''
          ''Model scope patterns must be non-empty text.'' 422))"

text \<open>The secret is part of the response only when the key was created by this very call.\<close>

definition service_create_api_key ::
  "create_api_key_request \<Rightarrow> string \<Rightarrow> product_principal \<Rightarrow> string option \<Rightarrow> uuid \<Rightarrow> string \<Rightarrow> int \<Rightarrow> int \<Rightarrow>
   (api_key \<times> string option \<times> bool) store_act" where
  "service_create_api_key command body owner key new_id random now now_ms =
     bind (result (check_api_key_command command now)) (\<lambda>_.
     let secret = ''cyk_'' @ random in
     bind (create_api_key (new_api_key command owner new_id now) (sha256_str secret) key (api_key_digest body owner)
             (api_key_scope owner) now_ms) (\<lambda>(stored, created).
     ret (stored, if created then Some secret else None, created)))"

definition service_list_api_keys :: "product_principal \<Rightarrow> exchange_store \<Rightarrow> api_key list" where
  "service_list_api_keys owner s = filter (\<lambda>k. key_in_scope k owner) (list_api_keys s)"

definition owned_api_key :: "uuid \<Rightarrow> product_principal \<Rightarrow> api_key store_act" where
  "owned_api_key key_id owner =
     check (\<lambda>s. case get_api_key key_id s of
        Some k \<Rightarrow>
          if key_in_scope k owner then Inr k
          else Inl (not_found ''EXCHANGE_API_KEY_NOT_FOUND'' ''API key not found''
                 ''No API key exists with the requested id in this workspace.'')
      | None \<Rightarrow> Inl (not_found ''EXCHANGE_API_KEY_NOT_FOUND'' ''API key not found''
                 ''No API key exists with the requested id in this workspace.''))"

definition service_revoke_api_key :: "uuid \<Rightarrow> product_principal \<Rightarrow> int \<Rightarrow> api_key store_act" where
  "service_revoke_api_key key_id owner now_ms =
     bind (owned_api_key key_id owner) (\<lambda>_.
     bind (revoke_api_key key_id now_ms) (\<lambda>revoked.
     case revoked of
       Some k \<Rightarrow> ret k
     | None \<Rightarrow> raise (not_found ''EXCHANGE_API_KEY_NOT_FOUND'' ''API key not found''
                 ''No API key exists with the requested id.'')))"

end
