(* ===== verification/Store_Facts.thy ===== *)
theory Store_Facts
  imports Audit_Ledger Service
begin

text \<open>
  The well-formedness of the store (\<open>store_ok\<close>): keys are unique, every row carries its own key,
  scope columns and documents agree, foreign keys hold, digests and API key ids identify their row,
  and an audit row is finished exactly when it is no longer \<open>started\<close>. Every operation keeps it.
\<close>

section \<open>The invariant\<close>

definition route_row_ok :: "(uuid, gateway_endpoint) table \<Rightarrow> uuid \<Rightarrow> route_row \<Rightarrow> bool" where
  "route_row_ok endpoints i row =
     (gr_id (rr_document row) = i \<and> gr_endpoint_id (rr_document row) = rr_endpoint_id row \<and>
      gr_state (rr_document row) = rr_state row \<and> gr_priority (rr_document row) = rr_priority row \<and>
      gr_organization_id (rr_document row) = None \<and> find_row (rr_endpoint_id row) endpoints \<noteq> None \<and>
      (rr_organization_id row \<noteq> None \<longrightarrow> rr_workspace_id row \<noteq> None))"

definition audit_row_ok :: "string \<Rightarrow> audit_record \<Rightarrow> bool" where
  "audit_row_ok i r =
     (au_request_id r = i \<and> (au_status r = AuditStarted \<longleftrightarrow> au_finished_at r = None) \<and>
      (au_status r = AuditStarted \<longrightarrow> au_usage_state r = UsageUnknown \<and> au_error_type r = None))"

definition grants_ok :: "grant list \<Rightarrow> bool" where
  "grants_ok gs = (sorted gs \<and> distinct gs)"

definition store_ok :: "exchange_store \<Rightarrow> bool" where
  "store_ok s =
     (rows_ok (\<lambda>i e. ge_id e = i) (gateway_endpoints s) \<and>
      rows_ok (route_row_ok (gateway_endpoints s)) (gateway_routes s) \<and>
      grants_ok (endpoint_grants s) \<and> grants_ok (reactor_endpoint_grants s) \<and>
      table_ok (idempotency s) \<and>
      table_ok (api_credentials s) \<and> unique_by (Some \<circ> cw_token_digest) (api_credentials s) \<and>
      unique_by cw_api_key_id (api_credentials s) \<and>
      rows_ok (\<lambda>i q. tq_tenant_id q = i \<and> 0 < tq_monthly_token_quota q) (tenant_quotas s) \<and>
      rows_ok audit_row_ok (request_audits s))"

lemma store_okD:
  assumes "store_ok s"
  shows "rows_ok (\<lambda>i e. ge_id e = i) (gateway_endpoints s)" "rows_ok (route_row_ok (gateway_endpoints s)) (gateway_routes s)"
    "table_ok (idempotency s)" "table_ok (api_credentials s)" "rows_ok audit_row_ok (request_audits s)"
    "unique_by (Some \<circ> cw_token_digest) (api_credentials s)" "unique_by cw_api_key_id (api_credentials s)"
  using assms by (simp_all add: store_ok_def)

lemma empty_store_ok: "store_ok empty_store"
  by (simp add: store_ok_def empty_store_def rows_ok_def table_ok_def unique_by_def grants_ok_def)

section \<open>Rules for store actions\<close>

lemma keeps_mutation: "valid I m (\<lambda>_. I) (\<lambda>_ _. True) \<Longrightarrow> valid I (mutation m) (\<lambda>_. I) (\<lambda>_. I)"
  by (fastforce simp: valid_def mutation_def split: prod.splits sum.splits)

lemma valid_mutation: "valid P m Q (\<lambda>_ _. True) \<Longrightarrow> valid P (mutation m) Q (\<lambda>_. P)"
  by (fastforce simp: valid_def mutation_def split: prod.splits sum.splits)

lemma valid_check:
  "(\<And>s x. I s \<Longrightarrow> f s = Inr x \<Longrightarrow> Q x s) \<Longrightarrow> (\<And>s e. I s \<Longrightarrow> f s = Inl e \<Longrightarrow> E e s) \<Longrightarrow> valid I (check f) Q E"
  by (auto simp: valid_def check_def split: sum.splits)

lemma keeps_check: "keeps I (check f)"
  by (rule valid_check) simp_all

lemma valid_read: "(\<And>s. I s \<Longrightarrow> Q (f s) s) \<Longrightarrow> valid I (db_read f) Q E"
  by (simp add: valid_def db_read_def)

lemma valid_write: "(\<And>s. I s \<Longrightarrow> Q () (f s)) \<Longrightarrow> valid I (db_write f) Q E"
  by (simp add: valid_def db_write_def)

lemma keeps_bind_store: "keeps I m \<Longrightarrow> (\<And>x. keeps I (f x)) \<Longrightarrow> keeps I (bind m f)"
  by (rule valid_bind)

lemma keeps_simple: "keeps I (ret x)" "keeps I (raise e)" "keeps I (result r)" "keeps I (db_read f)"
  by (auto intro: valid_intros valid_read)

lemma keeps_if: "keeps I m \<Longrightarrow> keeps I n \<Longrightarrow> keeps I (if c then m else n)"
  and keeps_option: "keeps I m \<Longrightarrow> (\<And>x. keeps I (f x)) \<Longrightarrow> keeps I (case v of None \<Rightarrow> m | Some x \<Rightarrow> f x)"
  by simp (cases v; simp)

lemma keeps_weaken: "keeps I m \<Longrightarrow> valid I m (\<lambda>_. I) (\<lambda>_ _. True)"
  by (rule valid_post) simp_all

lemmas keeps_store = keeps_bind_store keeps_simple keeps_if keeps_option keeps_check

section \<open>Each table\<close>

lemma store_ok_endpoints:
  assumes "store_ok s" "rows_ok (\<lambda>i e. ge_id e = i) t" "\<And>i. find_row i (gateway_endpoints s) \<noteq> None \<Longrightarrow> find_row i t \<noteq> None"
  shows "store_ok (s\<lparr>gateway_endpoints := t\<rparr>)"
proof -
  have "rows_ok (route_row_ok t) (gateway_routes s)"
    by (rule rows_ok_mono [OF store_okD(2) [OF assms(1)]]) (use assms(3) in \<open>auto simp: route_row_ok_def\<close>)
  with assms(1,2) show ?thesis by (simp add: store_ok_def)
qed

lemma store_ok_tables:
  assumes "store_ok s"
  shows "rows_ok (route_row_ok (gateway_endpoints s)) r \<Longrightarrow> store_ok (s\<lparr>gateway_routes := r\<rparr>)"
    and "grants_ok g \<Longrightarrow> store_ok (s\<lparr>endpoint_grants := g\<rparr>)"
    and "grants_ok g \<Longrightarrow> store_ok (s\<lparr>reactor_endpoint_grants := g\<rparr>)"
    and "table_ok i \<Longrightarrow> store_ok (s\<lparr>idempotency := i\<rparr>)"
    and "rows_ok (\<lambda>i q. tq_tenant_id q = i \<and> 0 < tq_monthly_token_quota q) q \<Longrightarrow> store_ok (s\<lparr>tenant_quotas := q\<rparr>)"
    and "rows_ok audit_row_ok a \<Longrightarrow> store_ok (s\<lparr>request_audits := a\<rparr>)"
    and "table_ok c \<Longrightarrow> unique_by (Some \<circ> cw_token_digest) c \<Longrightarrow> unique_by cw_api_key_id c \<Longrightarrow>
      store_ok (s\<lparr>api_credentials := c\<rparr>)"
  using assms by (simp_all add: store_ok_def)

lemma grants_ok_sort: "grants_ok (sort (remdups gs))"
  by (simp add: grants_ok_def)

section \<open>Endpoints and routes\<close>

lemma keeps_save_endpoint: "keeps store_ok (save_endpoint e)"
  unfolding save_endpoint_def
  by (intro keeps_mutation valid_write store_ok_endpoints rows_ok_replace)
     (auto simp: find_replace dest: store_okD)

lemma route_row_of_ok:
  assumes "find_row (gr_endpoint_id r) eps \<noteq> None" "gr_organization_id r \<noteq> None \<longrightarrow> gr_workspace_id r \<noteq> None"
  shows "route_row_ok eps (gr_id r) (route_row_of r)"
  using assms by (simp add: route_row_ok_def route_row_of_def route_document_def)

lemma keeps_save_route:
  assumes "gr_organization_id r \<noteq> None \<longrightarrow> gr_workspace_id r \<noteq> None"
  shows "keeps store_ok (save_route r)"
  unfolding save_route_def
proof (rule keeps_mutation, rule valid_bind [OF valid_read [where Q = "\<lambda>e s. store_ok s \<and> e = get_endpoint (gr_endpoint_id r) s"]])
  fix e
  show "valid (\<lambda>s. store_ok s \<and> e = get_endpoint (gr_endpoint_id r) s) (if Option.is_none e then raise (constraint ''FOREIGN KEY'')
      else db_write (\<lambda>s. s\<lparr>gateway_routes := replace_row (gr_id r) (route_row_of r) (gateway_routes s)\<rparr>))
      (\<lambda>_. store_ok) (\<lambda>_ _. True)"
    by (intro valid_if valid_raise valid_write)
       (auto simp: get_endpoint_def Option.is_none_def intro!: store_ok_tables(1) rows_ok_replace route_row_of_ok assms dest: store_okD)
qed simp

lemma keeps_insert_route:
  assumes "gr_organization_id r \<noteq> None \<longrightarrow> gr_workspace_id r \<noteq> None"
  shows "keeps store_ok (insert_route r)"
  unfolding insert_route_def valid_def
  using assms by (auto simp: get_endpoint_def split: option.splits
      intro!: store_ok_tables(1) rows_ok_insert [OF store_okD(2)] route_row_of_ok)

lemma keeps_insert_idempotency: "keeps store_ok (insert_idempotency scope k d i)"
  unfolding insert_idempotency_def valid_def
  by (auto split: option.splits intro!: store_ok_tables(4) intro: table_ok_insert [OF store_okD(3)])

lemma keeps_remember: "keeps store_ok (remember_idempotency scope k d i)"
  unfolding remember_idempotency_def
  by (intro keeps_option keeps_simple keeps_mutation keeps_weaken keeps_insert_idempotency)

lemma keeps_create_route_draft:
  assumes "gr_organization_id r \<noteq> None \<longrightarrow> gr_workspace_id r \<noteq> None"
  shows "keeps store_ok (create_route_draft r k d sc src wb)"
  unfolding create_route_draft_def
  by (intro keeps_mutation keeps_weaken keeps_store keeps_insert_route [OF assms] keeps_insert_idempotency)

text \<open>A stored route and what may replace it: same route, same endpoint.\<close>

definition stored_route :: "gateway_route \<Rightarrow> exchange_store \<Rightarrow> bool" where
  "stored_route r s = (store_ok s \<and> get_route (gr_id r) s = Some r)"

lemma get_route_stored:
  assumes "store_ok s" "get_route i s = Some r"
  shows "gr_id r = i" "stored_route r s" "gr_organization_id r \<noteq> None \<longrightarrow> gr_workspace_id r \<noteq> None"
    "find_row (gr_endpoint_id r) (gateway_endpoints s) \<noteq> None"
proof -
  from assms(2) obtain row where f: "find_row i (gateway_routes s) = Some row" "r = route_from_row row"
    by (auto simp: get_route_def)
  from rows_okD [OF store_okD(2) [OF assms(1)] f(1)] have ok: "route_row_ok (gateway_endpoints s) i row" .
  with f(2) show "gr_id r = i" by (simp add: route_from_row_def route_row_ok_def)
  with assms show "stored_route r s" by (simp add: stored_route_def)
  from ok f(2) show "gr_organization_id r \<noteq> None \<longrightarrow> gr_workspace_id r \<noteq> None"
    "find_row (gr_endpoint_id r) (gateway_endpoints s) \<noteq> None"
    by (simp_all add: route_from_row_def route_row_ok_def)
qed

definition same_place :: "gateway_route \<Rightarrow> gateway_route \<Rightarrow> bool" where
  "same_place r r' = (gr_id r = gr_id r' \<and> gr_endpoint_id r = gr_endpoint_id r' \<and>
     gr_organization_id r = gr_organization_id r' \<and> gr_workspace_id r = gr_workspace_id r')"

lemma valid_replace_version:
  assumes "same_place r r'"
  shows "valid (stored_route r) (replace_route_version r' v) (\<lambda>_. store_ok) (\<lambda>_. store_ok)"
  unfolding replace_route_version_def
proof (rule valid_post [OF valid_mutation])
  have kept: "store_ok (s\<lparr>gateway_routes := update_row (gr_id r') (\<lambda>row. row\<lparr>rr_priority := gr_priority r',
      rr_state := gr_state r', rr_document := route_document r', rr_organization_id := gr_organization_id r',
      rr_workspace_id := gr_workspace_id r'\<rparr>) (gateway_routes s)\<rparr>)" if "stored_route r s" for s
  proof (rule store_ok_tables(1), use that in \<open>simp add: stored_route_def\<close>, rule rows_ok_update)
    show "rows_ok (route_row_ok (gateway_endpoints s)) (gateway_routes s)"
      using that by (simp add: stored_route_def store_okD)
  next
    fix row assume f: "find_row (gr_id r') (gateway_routes s) = Some row" "route_row_ok (gateway_endpoints s) (gr_id r') row"
    from that f(1) assms have "r = route_from_row row" by (auto simp: stored_route_def get_route_def same_place_def)
    with f(2) assms show "route_row_ok (gateway_endpoints s) (gr_id r') (row\<lparr>rr_priority := gr_priority r', rr_state := gr_state r',
        rr_document := route_document r', rr_organization_id := gr_organization_id r', rr_workspace_id := gr_workspace_id r'\<rparr>)"
      by (simp add: route_row_ok_def same_place_def route_from_row_def route_document_def)
  qed
  show "valid (stored_route r) (bind (db_read (get_route (gr_id r'))) (\<lambda>current.
      if case current of None \<Rightarrow> True | Some c \<Rightarrow> gr_resource_version c \<noteq> v
      then raise (version_conflict ''Refresh the route before editing or confirming it.'')
      else bind (db_write (\<lambda>s. s\<lparr>gateway_routes := update_row (gr_id r') (\<lambda>row. row\<lparr>rr_priority := gr_priority r',
          rr_state := gr_state r', rr_document := route_document r', rr_organization_id := gr_organization_id r',
          rr_workspace_id := gr_workspace_id r'\<rparr>) (gateway_routes s)\<rparr>)) (\<lambda>_. ret r'))) (\<lambda>_. store_ok) (\<lambda>_ _. True)"
    by (rule valid_bind [OF valid_read], assumption, rule valid_if, rule valid_raise, simp,
        rule valid_bind [OF valid_write], erule kept, simp add: valid_ret)
qed (simp_all add: stored_route_def)

lemma valid_need_legacy: "valid store_ok (need_legacy_route i) stored_route (\<lambda>_. store_ok)"
  unfolding need_legacy_route_def
  by (rule valid_check)
     (auto simp: get_legacy_route_def get_route_def split: option.splits if_splits intro!: get_route_stored(2))

lemma valid_owned_draft:
  "valid store_ok (owned_draft i o') stored_route (\<lambda>_. store_ok)"
  "valid store_ok (owned_workspace_draft i o') stored_route (\<lambda>_. store_ok)"
proof -
  have guarded: "valid (stored_route r) (if a then raise x else if b then raise y else ret r) stored_route (\<lambda>_. store_ok)" for r a b x y
    by (auto simp: valid_def act_simps stored_route_def)
  show "valid store_ok (owned_draft i o') stored_route (\<lambda>_. store_ok)"
    unfolding owned_draft_def by (rule valid_bind [OF valid_need_legacy guarded])
  show "valid store_ok (owned_workspace_draft i o') stored_route (\<lambda>_. store_ok)"
    unfolding owned_workspace_draft_def
    by (rule valid_bind [OF valid_check [where Q = stored_route] guarded])
       (auto simp: get_route_stored(2) split: option.splits if_splits)
qed

lemma keeps_needs: "keeps I (need_endpoint i)" "keeps I (check_version r v)" "keeps I (need_active_endpoint i)"
  "keeps I (need_endpoint_grant i o')" "keeps I (need_route i)"
  unfolding need_endpoint_def check_version_def need_active_endpoint_def need_endpoint_grant_def need_route_def
  by (intro keeps_store)+

lemma keeps_edit: "keeps store_ok (edit_route_draft i c o' now)"
  unfolding edit_route_draft_def
  by (rule valid_bind [OF valid_owned_draft(1) valid_replace_version]) (simp add: same_place_def)

lemma valid_activate: "valid (stored_route r) (activate r v now) (\<lambda>_. store_ok) (\<lambda>_. store_ok)"
  unfolding activate_def by (rule valid_replace_version) (simp add: same_place_def)

lemma stored_step:
  assumes "keeps (stored_route r) m" "\<And>x. valid (stored_route r) (f x) Q (\<lambda>_. store_ok)"
  shows "valid (stored_route r) (bind m f) Q (\<lambda>_. store_ok)"
proof -
  have "valid (stored_route r) m (\<lambda>_. stored_route r) (\<lambda>_. store_ok)"
    by (rule valid_post [OF assms(1)]) (simp_all add: stored_route_def)
  then show ?thesis by (rule valid_bind [OF _ assms(2)])
qed

lemma keeps_confirm:
  "keeps store_ok (confirm_route_draft i v o' check' now)" "keeps store_ok (confirm_workspace_route_draft i v o' check' now)"
  unfolding confirm_route_draft_def confirm_workspace_route_draft_def
  by (rule valid_bind [OF valid_owned_draft(1)], intro stored_step keeps_needs keeps_simple valid_activate)
     (rule valid_bind [OF valid_owned_draft(2)], intro stored_step keeps_needs keeps_simple valid_activate)

lemma keeps_service_routes:
  "keeps store_ok (create_endpoint ce body k i now)" "keeps store_ok (disable_endpoint e now)"
  "keeps store_ok (create_route cr body k i now)" "keeps store_ok (service_route_draft cd body key o' i now)"
  "keeps store_ok (create_scoped_route_draft cd body key o' src i now)"
  "keeps store_ok (create_workspace_binding_route_draft cr body key o' i now)"
proof -
  have d: "keeps store_ok (create_route_draft (new_draft c src o' org i now) key dg sc rs wb)" for c src org dg sc rs wb
    by (rule keeps_create_route_draft) (simp add: new_draft_def new_route_def)
  have r: "keeps store_ok (save_route (new_route c i now))" for c
    by (rule keeps_save_route) (simp add: new_route_def)
  note k = keeps_store keeps_needs keeps_save_endpoint keeps_remember d r
  show "keeps store_ok (create_endpoint ce body k i now)" "keeps store_ok (disable_endpoint e now)"
    "keeps store_ok (create_route cr body k i now)"
    unfolding create_endpoint_def publish_endpoint_def disable_endpoint_def create_route_def Let_def by (intro k)+
  show "keeps store_ok (service_route_draft cd body key o' i now)"
    "keeps store_ok (create_scoped_route_draft cd body key o' src i now)"
    "keeps store_ok (create_workspace_binding_route_draft cr body key o' i now)"
    unfolding service_route_draft_def create_scoped_route_draft_def create_workspace_binding_route_draft_def by (intro k)+
qed

lemma keeps_migrate: "keeps store_ok migrate_route_scope"
proof -
  let ?f = "\<lambda>row. case (rr_workspace_id row, gr_workspace_id (rr_document row)) of
      (None, Some w) \<Rightarrow> if blank w then row else row\<lparr>rr_workspace_id := Some w\<rparr> | _ \<Rightarrow> row"
  have row: "route_row_ok eps i (?f row)" if "route_row_ok eps i row" for eps i row
    using that by (auto simp: route_row_ok_def split: option.splits)
  have "store_ok (s\<lparr>gateway_routes := map (\<lambda>(i, row). (i, ?f row)) (gateway_routes s)\<rparr>)" if "store_ok s" for s
    by (rule store_ok_tables(1) [OF that rows_ok_map [OF store_okD(2) [OF that]]]) (rule row)
  then show ?thesis unfolding migrate_route_scope_def by (intro keeps_mutation valid_write)
qed

lemma keeps_grants: "keeps store_ok (configure_workspace_endpoint_grants gs)"
  "keeps store_ok (configure_workspace_reactor_endpoint_grants gs)"
  unfolding configure_workspace_endpoint_grants_def configure_workspace_reactor_endpoint_grants_def
  by (intro keeps_mutation valid_write store_ok_tables grants_ok_sort; assumption)+

section \<open>Credentials\<close>

definition credentials_ok :: "(string, credential_row) table \<Rightarrow> bool" where
  "credentials_ok t = (table_ok t \<and> unique_by (Some \<circ> cw_token_digest) t \<and> unique_by cw_api_key_id t)"

lemma store_ok_credentials: "store_ok s \<Longrightarrow> credentials_ok t \<Longrightarrow> store_ok (s\<lparr>api_credentials := t\<rparr>)"
  and credentials_okD: "store_ok s \<Longrightarrow> credentials_ok (api_credentials s)"
  by (simp_all add: credentials_ok_def store_ok_tables store_okD)

lemma credentials_ok_iff:
  "table_ok t \<Longrightarrow> credentials_ok t \<longleftrightarrow>
   (\<forall>k k' v v'. find_row k t = Some v \<longrightarrow> find_row k' t = Some v' \<longrightarrow>
     cw_token_digest v = cw_token_digest v' \<or> cw_api_key_id v \<noteq> None \<and> cw_api_key_id v = cw_api_key_id v' \<longrightarrow> k = k')"
  by (simp add: credentials_ok_def unique_by_iff) blast

definition same_identity :: "credential_row \<Rightarrow> credential_row \<Rightarrow> bool" where
  "same_identity v w = (cw_token_digest v = cw_token_digest w \<or> cw_api_key_id v \<noteq> None \<and> cw_api_key_id v = cw_api_key_id w)"

lemma credentials_uniq:
  assumes "credentials_ok t" "find_row i t = Some v" "find_row j t = Some w" "same_identity v w"
  shows "i = j"
proof -
  from assms(1) have t: "table_ok t" by (simp add: credentials_ok_def)
  from assms(1) [unfolded credentials_ok_iff [OF t]] assms(2-4) show ?thesis unfolding same_identity_def by blast
qed

lemma credentials_okI:
  "table_ok t \<Longrightarrow> (\<And>i j v w. find_row i t = Some v \<Longrightarrow> find_row j t = Some w \<Longrightarrow> same_identity v w \<Longrightarrow> i = j) \<Longrightarrow> credentials_ok t"
  unfolding credentials_ok_iff same_identity_def by blast

lemma same_identity_sym: "same_identity v w \<Longrightarrow> same_identity w v"
  unfolding same_identity_def by metis

text \<open>A row whose digest and API key id are its own keeps the table well-formed.\<close>

lemma credentials_ok_put:
  assumes "credentials_ok t" "table_ok t'" "\<And>i. find_row i t' = (if i = k then Some v else find_row i t)"
    and own: "\<And>i w. find_row i t = Some w \<Longrightarrow> same_identity w v \<Longrightarrow> i = k"
  shows "credentials_ok t'"
proof (rule credentials_okI [OF assms(2)])
  fix i j u w
  assume f: "find_row i t' = Some u" "find_row j t' = Some w" and same: "same_identity u w"
  show "i = j"
  proof (cases "i = k"; cases "j = k")
    assume "i = k" "j \<noteq> k"
    with f same same_identity_sym assms(3) own [of j w] show ?thesis by simp
  next
    assume "i \<noteq> k" "j = k"
    with f same assms(3) own [of i u] show ?thesis by simp
  next
    assume "i \<noteq> k" "j \<noteq> k"
    with f same assms(3) show ?thesis by (intro credentials_uniq [OF assms(1)]) simp_all
  qed simp
qed

lemma credentials_ok_update:
  assumes "credentials_ok t" "\<And>v. cw_token_digest (f v) = cw_token_digest v \<and> cw_api_key_id (f v) = cw_api_key_id v"
  shows "credentials_ok (update_row k f t)"
proof (rule credentials_okI)
  show "table_ok (update_row k f t)" using assms(1) by (simp add: credentials_ok_def table_ok_update)
  fix i j v w
  assume f: "find_row i (update_row k f t) = Some v" "find_row j (update_row k f t) = Some w" "same_identity v w"
  then obtain v' w' where "find_row i t = Some v'" "v = v' \<or> v = f v'" "find_row j t = Some w'" "w = w' \<or> w = f w'"
    by (auto simp: find_update split: if_splits)
  with f(3) assms(2) show "i = j" by (intro credentials_uniq [OF assms(1), of i v' j w']) (auto simp: same_identity_def)
qed

lemma keeps_configure_one: "keeps store_ok (configure_one now_ms e)"
proof -
  obtain p digest where e: "e = (p, digest)" by fastforce
  have step: "store_ok (s\<lparr>api_credentials := upsert_row (pp_credential_ref p) (configured_row p digest now_ms old)
      (api_credentials s)\<rparr>)"
    if s: "store_ok s" and old: "find_row (pp_credential_ref p) (api_credentials s) = old"
      and free: "\<And>ref row. find_digest digest s = Some (ref, row) \<Longrightarrow> ref = pp_credential_ref p" for s old
  proof (rule store_ok_credentials [OF s credentials_ok_put [OF credentials_okD [OF s]]])
    have t: "table_ok (api_credentials s)" using s by (simp add: store_okD)
    then show "table_ok (upsert_row (pp_credential_ref p) (configured_row p digest now_ms old) (api_credentials s))"
      by (rule table_ok_upsert)
    fix i show "find_row i (upsert_row (pp_credential_ref p) (configured_row p digest now_ms old) (api_credentials s)) =
        (if i = pp_credential_ref p then Some (configured_row p digest now_ms old) else find_row i (api_credentials s))"
      by (rule find_upsert)
    fix w assume w: "find_row i (api_credentials s) = Some w" "same_identity w (configured_row p digest now_ms old)"
    have digest: "cw_token_digest (configured_row p digest now_ms old) = digest"
      by (simp add: configured_row_def split: option.splits)
    show "i = pp_credential_ref p"
    proof (cases "cw_token_digest w = digest")
      case True
      have "find_digest digest s \<noteq> None"
        unfolding find_digest_def using find_miss [OF t, of "\<lambda>_ row. cw_token_digest row = digest"] w(1) True by auto
      then obtain ref row where f: "find_digest digest s = Some (ref, row)" by fastforce
      with find_hit [OF t, of "\<lambda>_ row. cw_token_digest row = digest"] have "find_row ref (api_credentials s) = Some row" "cw_token_digest row = digest"
        unfolding find_digest_def by blast+
      with credentials_uniq [OF credentials_okD [OF s] w(1)] True have "i = ref" by (simp add: same_identity_def)
      with free [OF f] show ?thesis by simp
    next
      case False
      with w(2) digest have k: "cw_api_key_id w \<noteq> None" "cw_api_key_id w = cw_api_key_id (configured_row p digest now_ms old)"
        unfolding same_identity_def by metis+
      then obtain row where r: "find_row (pp_credential_ref p) (api_credentials s) = Some row" "cw_api_key_id w = cw_api_key_id row"
        using old by (cases old) (auto simp: configured_row_def)
      with credentials_uniq [OF credentials_okD [OF s] w(1) r(1)] k(1) show ?thesis by (simp add: same_identity_def)
    qed
  qed
  show ?thesis
  proof (unfold valid_def, intro allI impI)
    fix w assume w: "store_ok w"
    from step [OF w refl] w
    show "case configure_one now_ms e w of (Inl x, w') \<Rightarrow> store_ok w' | (Inr x, w') \<Rightarrow> store_ok w'"
      by (cases "find_digest digest w") (auto simp: configure_one_def e Let_def split: option.splits)
  qed
qed

lemma keeps_configure_each: "keeps store_ok (configure_each clock k es)"
  by (induction es arbitrary: k) (simp_all add: keeps_store keeps_configure_one)

lemma keeps_configure: "keeps store_ok (configure_credentials clock cs)"
  unfolding configure_credentials_def by (intro keeps_store keeps_mutation keeps_weaken keeps_configure_each)

lemma keeps_disable: "keeps store_ok (disable_credential ref)"
  unfolding disable_credential_def
  by (rule keeps_mutation)
     (auto simp: valid_def split: option.splits intro!: store_ok_credentials credentials_ok_update credentials_okD)

lemma keeps_revoke: "keeps store_ok (revoke_api_key i now_ms)"
  unfolding revoke_api_key_def
  by (rule keeps_mutation)
     (auto simp: valid_def Let_def split: option.splits intro!: store_ok_credentials credentials_ok_update credentials_okD)

lemma keeps_insert_api_key: "keeps store_ok (insert_api_key k digest now_ms)"
proof -
  have step: "store_ok (s\<lparr>api_credentials := t\<rparr>)"
    if s: "store_ok s" and i: "insert_row (ak_credential_ref k) (api_key_row k digest now_ms) (api_credentials s) = Some t"
      and d: "find_digest digest s = None" and a: "find_api_key (ak_id k) s = None" for s t
  proof (rule store_ok_credentials [OF s credentials_ok_put [OF credentials_okD [OF s] table_ok_insert [OF _ i] find_insert [OF i]]])
    show t: "table_ok (api_credentials s)" using s by (simp add: store_okD)
    fix j w assume "find_row j (api_credentials s) = Some w" "same_identity w (api_key_row k digest now_ms)"
    with d a show "j = ak_credential_ref k"
      unfolding find_digest_def find_api_key_def find_miss [OF t, of "\<lambda>_ row. cw_token_digest row = digest"]
        find_miss [OF t, of "\<lambda>_ row. cw_api_key_id row = Some (ak_id k)"]
      by (auto simp: same_identity_def api_key_row_def)
  qed
  show ?thesis unfolding valid_def insert_api_key_def
    by (auto split: option.splits intro!: step simp del: split_paired_All not_None_eq not_Some_eq)
qed

lemma keeps_api_keys: "keeps store_ok (create_api_key k d key rd sc now_ms)"
  "keeps store_ok (service_create_api_key ck body o' key i rnd now now_ms)" "keeps store_ok (service_revoke_api_key i o' now_ms)"
proof -
  have c: "keeps store_ok (create_api_key k d key rd sc now_ms)" for k d key rd sc now_ms
    unfolding create_api_key_def
    by (intro keeps_mutation keeps_weaken keeps_store keeps_insert_api_key keeps_insert_idempotency)
  show "keeps store_ok (create_api_key k d key rd sc now_ms)" by (rule c)
  have "keeps store_ok (case x of (stored, created) \<Rightarrow> ret (f stored created))" for x :: "'a \<times> 'b" and f :: "'a \<Rightarrow> 'b \<Rightarrow> 'c"
    by (cases x) (simp add: keeps_simple)
  then show "keeps store_ok (service_create_api_key ck body o' key i rnd now now_ms)"
    unfolding service_create_api_key_def Let_def by (intro keeps_bind_store keeps_simple c; simp add: keeps_simple split: prod.split)
  show "keeps store_ok (service_revoke_api_key i o' now_ms)"
    unfolding service_revoke_api_key_def owned_api_key_def by (intro keeps_store keeps_revoke)
qed

section \<open>Quotas and audits\<close>

lemma keeps_save_quota: "keeps store_ok (save_tenant_quota q)"
  unfolding save_tenant_quota_def
  by (rule keeps_mutation) (auto simp: valid_def store_ok_def intro!: rows_ok_upsert)

lemma audit_rows_ok:
  "audit_row_ok (meta_request_id m) (started_record m t)" "audit_row_ok (rej_request_id r) (rejected_record r t t2)"
  "audit_row_ok i row \<Longrightarrow> audit_row_ok i (finished_record st u e t row)"
  by (cases "rej_status r"; cases st; simp add: audit_row_ok_def started_record_def rejected_record_def finished_record_def)+

lemma keeps_audits: "keeps store_ok (begin_request m t)" "keeps store_ok (record_rejection r t t2)"
  "keeps store_ok (finish_request m st u e t)"
proof -
  show "keeps store_ok (begin_request m t)" unfolding begin_request_def
    by (rule keeps_mutation)
       (auto simp: valid_def audit_rows_ok split: option.splits intro!: store_ok_tables(6) rows_ok_insert [OF store_okD(5)])
  show "keeps store_ok (record_rejection r t t2)" unfolding record_rejection_def
    by (intro keeps_mutation valid_write)
       (auto simp: audit_rows_ok split: option.splits intro!: store_ok_tables(6) rows_ok_insert [OF store_okD(5)])
  show "keeps store_ok (finish_request m st u e t)" unfolding finish_request_def
    by (rule keeps_mutation)
       (auto simp: valid_def audit_rows_ok split: option.splits intro!: store_ok_tables(6) rows_ok_update store_okD(5))
qed

end
