(* ===== verification/Product_Steps.thy ===== *)
theory Product_Steps
  imports Recorder Store_Facts
begin

text \<open>
  The Product as a transition system: every state-changing call of the service, the operator
  configuration and the audit observer as one datatype, executed on the store one after the other.
  What holds of every reachable store, and what no later operation can change.
\<close>

section \<open>Operations as data\<close>

datatype product_op =
    CreateEndpoint create_endpoint_request string "string option" uuid int
  | DisableEndpoint uuid int
  | CreateRoute create_route_request string "string option" uuid int
  | CreateDraft create_route_draft_request string string product_principal uuid int
  | CreateScopedDraft create_route_draft_request string string product_principal uuid uuid int
  | CreateBindingDraft create_route_request string string product_principal uuid int
  | EditDraft uuid edit_route_draft_request product_principal int
  | ConfirmDraft uuid int product_principal "gateway_route \<Rightarrow> product_exn + unit" int
  | ConfirmWorkspaceDraft uuid int product_principal "gateway_route \<Rightarrow> product_exn + unit" int
  | CreateApiKey create_api_key_request string product_principal "string option" uuid string int int
  | RevokeApiKey uuid product_principal int
  | ConfigureCredentials "nat \<Rightarrow> int" "(string \<times> product_principal) list"
  | DisableCredential string
  | GrantEndpoints "grant list"
  | GrantReactorEndpoints "grant list"
  | SaveTenantQuota tenant_quota
  | BeginRequest request_metadata int
  | RejectRequest request_rejection int int
  | FinishRequest request_metadata terminal_status "provider_usage option" "string option" int

fun perform :: "product_op \<Rightarrow> exchange_store \<Rightarrow> exchange_store" where
  "perform (CreateEndpoint c body key i now) s = snd (create_endpoint c body key i now s)"
| "perform (DisableEndpoint i now) s = snd (disable_endpoint i now s)"
| "perform (CreateRoute c body key i now) s = snd (create_route c body key i now s)"
| "perform (CreateDraft c body key p i now) s = snd (service_route_draft c body key p i now s)"
| "perform (CreateScopedDraft c body key p src i now) s = snd (create_scoped_route_draft c body key p src i now s)"
| "perform (CreateBindingDraft c body key p i now) s = snd (create_workspace_binding_route_draft c body key p i now s)"
| "perform (EditDraft i c p now) s = snd (edit_route_draft i c p now s)"
| "perform (ConfirmDraft i v p f now) s = snd (confirm_route_draft i v p f now s)"
| "perform (ConfirmWorkspaceDraft i v p f now) s = snd (confirm_workspace_route_draft i v p f now s)"
| "perform (CreateApiKey c body p key i rnd now ms) s = snd (service_create_api_key c body p key i rnd now ms s)"
| "perform (RevokeApiKey i p ms) s = snd (service_revoke_api_key i p ms s)"
| "perform (ConfigureCredentials ms cs) s = snd (configure_credentials ms cs s)"
| "perform (DisableCredential r) s = snd (disable_credential r s)"
| "perform (GrantEndpoints gs) s = snd (configure_workspace_endpoint_grants gs s)"
| "perform (GrantReactorEndpoints gs) s = snd (configure_workspace_reactor_endpoint_grants gs s)"
| "perform (SaveTenantQuota q) s = snd (save_tenant_quota q s)"
| "perform (BeginRequest m ms) s = snd (begin_request m ms s)"
| "perform (RejectRequest r t t2) s = snd (record_rejection r t t2 s)"
| "perform (FinishRequest m st u e ms) s = snd (finish_request m st u e ms s)"

inductive product_reachable :: "exchange_store \<Rightarrow> bool" where
  start: "product_reachable empty_store"
| step: "product_reachable s \<Longrightarrow> product_reachable (perform op s)"

section \<open>Invariants\<close>

lemma keeps_snd: "keeps I m \<Longrightarrow> I s \<Longrightarrow> I (snd (m s))"
  by (auto simp: valid_def split: prod.splits sum.splits) (metis prod.collapse)

lemmas keeps_operations =
  keeps_service_routes keeps_edit keeps_confirm keeps_api_keys keeps_configure keeps_disable keeps_grants
  keeps_save_quota keeps_audits

lemma perform_ok: "store_ok s \<Longrightarrow> store_ok (perform op s)"
  by (cases op) (simp_all add: keeps_operations [THEN keeps_snd])

lemma reachable_ok: "product_reachable s \<Longrightarrow> store_ok s"
  by (induction rule: product_reachable.induct) (simp_all add: empty_store_ok perform_ok)

section \<open>Which operation touches which table\<close>

text \<open>Primitive writes leave the other tables alone; the rest is composed of them.\<close>

lemma leaves_checks [leaves_intros]: "leaves view (check f)" "leaves view (db_read g)"
  by (simp_all add: leaves_def act_simps check_def db_read_def)

lemma leaves_write: "(\<And>s. view (f s) = view s) \<Longrightarrow> leaves view (db_write f)"
  by (simp add: leaves_def db_write_def)

lemma leaves_primitive:
  "leaves request_audits (save_endpoint e)" "leaves request_audits (save_route r)" "leaves request_audits (insert_route r)"
  "leaves request_audits (insert_idempotency sc k d i)" "leaves request_audits (replace_route_version r v)"
  "leaves request_audits (configure_one t pd)" "leaves request_audits (insert_api_key ak d t)"
  "leaves request_audits (revoke_api_key i t)" "leaves request_audits (disable_credential ref)"
  "leaves request_audits (configure_workspace_endpoint_grants gs)" "leaves request_audits (configure_workspace_reactor_endpoint_grants gs)"
  "leaves request_audits (save_tenant_quota q)"
  "leaves gateway_routes (save_endpoint e)" "leaves gateway_routes (insert_idempotency sc k d i)"
  "leaves gateway_routes (configure_one t pd)" "leaves gateway_routes (insert_api_key ak d t)"
  "leaves gateway_routes (revoke_api_key i t)" "leaves gateway_routes (disable_credential ref)"
  "leaves gateway_routes (configure_workspace_endpoint_grants gs)" "leaves gateway_routes (configure_workspace_reactor_endpoint_grants gs)"
  "leaves gateway_routes (save_tenant_quota q)" "leaves gateway_routes (begin_request m t)"
  "leaves gateway_routes (record_rejection rj t t2)" "leaves gateway_routes (finish_request m st u er t)"
  "leaves api_credentials (save_endpoint e)" "leaves api_credentials (save_route r)" "leaves api_credentials (insert_route r)"
  "leaves api_credentials (insert_idempotency sc k d i)" "leaves api_credentials (replace_route_version r v)"
  "leaves api_credentials (configure_workspace_endpoint_grants gs)" "leaves api_credentials (configure_workspace_reactor_endpoint_grants gs)"
  "leaves api_credentials (save_tenant_quota q)" "leaves api_credentials (begin_request m t)"
  "leaves api_credentials (record_rejection rj t t2)" "leaves api_credentials (finish_request m st u er t)"
  by (auto simp: leaves_def mutation_def act_simps db_read_def db_write_def save_endpoint_def save_route_def
      replace_route_version_def revoke_api_key_def disable_credential_def insert_route_def insert_idempotency_def
      configure_one_def insert_api_key_def configure_workspace_endpoint_grants_def
      configure_workspace_reactor_endpoint_grants_def save_tenant_quota_def begin_request_def record_rejection_def
      finish_request_def Let_def split: option.splits prod.splits)

lemma leaves_helpers [leaves_intros]:
  "leaves view (need_endpoint i)" "leaves view (need_route i)" "leaves view (need_legacy_route i)" "leaves view (owned_draft i p)"
  "leaves view (owned_workspace_draft i p)" "leaves view (check_version r v)" "leaves view (need_active_endpoint i)"
  "leaves view (need_endpoint_grant i p)" "leaves view (owned_api_key i p)"
  unfolding need_endpoint_def need_route_def need_legacy_route_def owned_draft_def owned_workspace_draft_def
    check_version_def need_active_endpoint_def need_endpoint_grant_def owned_api_key_def
  by (intro leaves_intros)+

definition writes_audits :: "product_op \<Rightarrow> bool" where
  "writes_audits op = (case op of BeginRequest m t \<Rightarrow> True | RejectRequest r t t2 \<Rightarrow> True | FinishRequest m st u e t \<Rightarrow> True | _ \<Rightarrow> False)"

definition writes_routes :: "product_op \<Rightarrow> bool" where
  "writes_routes op = (case op of CreateRoute c b k i t \<Rightarrow> True | CreateDraft c b k p i t \<Rightarrow> True
     | CreateScopedDraft c b k p src i t \<Rightarrow> True | CreateBindingDraft c b k p i t \<Rightarrow> True | EditDraft i c p t \<Rightarrow> True
     | ConfirmDraft i v p f t \<Rightarrow> True | ConfirmWorkspaceDraft i v p f t \<Rightarrow> True | _ \<Rightarrow> False)"

lemma leaves_each: "(\<And>t e. leaves view (configure_one t e)) \<Longrightarrow> leaves view (configure_each clock k es)"
  by (induction es arbitrary: k) (simp_all add: leaves_intros)

text \<open>The composed operations, over the primitive writes they use.\<close>

lemma leaves_composed:
  assumes "\<And>sc k d i. leaves view (insert_idempotency sc k d i)"
  shows "(\<And>e. leaves view (save_endpoint e)) \<Longrightarrow> leaves view (create_endpoint ce b k i now)"
    and "(\<And>e. leaves view (save_endpoint e)) \<Longrightarrow> leaves view (disable_endpoint i now)"
    and "(\<And>r. leaves view (save_route r)) \<Longrightarrow> leaves view (create_route cr b k i now)"
    and "(\<And>r. leaves view (insert_route r)) \<Longrightarrow> leaves view (service_route_draft cd b key p i now)"
    and "(\<And>r. leaves view (insert_route r)) \<Longrightarrow> leaves view (create_scoped_route_draft cd b key p src i now)"
    and "(\<And>r. leaves view (insert_route r)) \<Longrightarrow> leaves view (create_workspace_binding_route_draft cr b key p i now)"
    and "(\<And>r v. leaves view (replace_route_version r v)) \<Longrightarrow> leaves view (edit_route_draft i ed p now)"
    and "(\<And>r v. leaves view (replace_route_version r v)) \<Longrightarrow> leaves view (confirm_route_draft i v p f now)"
    and "(\<And>r v. leaves view (replace_route_version r v)) \<Longrightarrow> leaves view (confirm_workspace_route_draft i v p f now)"
    and "(\<And>a d t. leaves view (insert_api_key a d t)) \<Longrightarrow> leaves view (service_create_api_key ck b p k i rnd now ms)"
    and "(\<And>i t. leaves view (revoke_api_key i t)) \<Longrightarrow> leaves view (service_revoke_api_key i p ms)"
    and "(\<And>t e. leaves view (configure_one t e)) \<Longrightarrow> leaves view (configure_credentials clock cs)"
  unfolding create_endpoint_def publish_endpoint_def disable_endpoint_def create_route_def service_route_draft_def
    create_scoped_route_draft_def create_workspace_binding_route_draft_def create_route_draft_def edit_route_draft_def
    confirm_route_draft_def confirm_workspace_route_draft_def activate_def service_create_api_key_def create_api_key_def
    service_revoke_api_key_def configure_credentials_def remember_idempotency_def Let_def
  by (intro leaves_intros leaves_each assms; assumption)+

lemma audits_untouched: "\<not> writes_audits op \<Longrightarrow> request_audits (perform op s) = request_audits s"
  by (cases op) (simp_all add: writes_audits_def leaves_composed leaves_primitive leavesD)

lemma routes_untouched: "\<not> writes_routes op \<Longrightarrow> gateway_routes (perform op s) = gateway_routes s"
  by (cases op) (simp_all add: writes_routes_def leaves_composed leaves_primitive leavesD)

section \<open>The audit ledger is append-only\<close>

lemma audit_step:
  assumes "get_request_audit i s = Some r"
  shows "\<exists>r'. get_request_audit i (perform op s) = Some r' \<and> (au_status r \<noteq> AuditStarted \<longrightarrow> r' = r) \<and>
    au_started_at r' = au_started_at r \<and> au_actor_id r' = au_actor_id r \<and> au_workspace_id r' = au_workspace_id r \<and>
    au_route_id r' = au_route_id r \<and> au_model r' = au_model r"
proof (cases "writes_audits op")
  case False
  with assms show ?thesis by (simp add: get_request_audit_def audits_untouched)
next
  case True
  with assms show ?thesis
    by (cases op) (auto simp: writes_audits_def get_request_audit_def begin_request_run record_rejection_run finish_request_run
        find_row_append find_update finished_record_def split: option.splits)
qed

end
