(* ===== verification/Route_Facts.thy ===== *)
theory Route_Facts
  imports Product_Steps
begin

text \<open>
  The life of a route: what the store's compare-and-swap does, what editing and confirming a draft
  require and change, that no operation touches a route that is no longer a draft, and which
  routes a scope sees.
\<close>

section \<open>Compare and swap\<close>

lemma read_only: "leaves (\<lambda>s. s) m \<Longrightarrow> m s = (r, s') \<Longrightarrow> s' = s"
  using leavesD [of "\<lambda>s. s" m s] by simp

lemma stored_write:
  assumes "get_route (gr_id r) s \<noteq> None"
  shows "get_route i (s\<lparr>gateway_routes := update_row (gr_id r) (\<lambda>row. row\<lparr>rr_priority := gr_priority r, rr_state := gr_state r,
      rr_document := route_document r, rr_organization_id := gr_organization_id r, rr_workspace_id := gr_workspace_id r\<rparr>)
      (gateway_routes s)\<rparr>) = (if i = gr_id r then Some r else get_route i s)"
  using assms by (auto simp: get_route_def find_update route_from_row_def route_document_def)

text \<open>What a replacement does to the routes, and when it does it.\<close>

lemma replace_route_version_Inr:
  assumes "replace_route_version r v s = (Inr x, s')"
  shows "x = r \<and> (\<exists>c. get_route (gr_id r) s = Some c \<and> gr_resource_version c = v) \<and>
    (\<forall>i. get_route i s' = (if i = gr_id r then Some r else get_route i s)) \<and>
    (\<exists>t. s' = s\<lparr>gateway_routes := t\<rparr>)"
proof -
  from assms obtain c where c: "get_route (gr_id r) s = Some c" "gr_resource_version c = v" "x = r"
    "s' = s\<lparr>gateway_routes := update_row (gr_id r) (\<lambda>row. row\<lparr>rr_priority := gr_priority r, rr_state := gr_state r,
      rr_document := route_document r, rr_organization_id := gr_organization_id r, rr_workspace_id := gr_workspace_id r\<rparr>)
      (gateway_routes s)\<rparr>"
    by (auto simp: replace_route_version_def mutation_Inr act_simps db_read_def db_write_def split: option.splits if_splits)
  then show ?thesis using stored_write [of r s] by auto
qed

lemma replace_route_version_Inl: "replace_route_version r v s = (Inl e, s') \<Longrightarrow> s' = s"
  unfolding replace_route_version_def by (rule mutation_Inl)

lemma replace_route_version_stale:
  "get_route (gr_id r) s = Some c \<Longrightarrow> gr_resource_version c \<noteq> v \<Longrightarrow>
   replace_route_version r v s = (Inl (version_conflict ''Refresh the route before editing or confirming it.''), s)"
  by (simp add: replace_route_version_def mutation_def act_simps db_read_def)

section \<open>Drafts\<close>

lemma owned_draft_Inr:
  "owned_draft i p s = (Inr c, s') \<longleftrightarrow> s' = s \<and> get_legacy_route i s = Some c \<and>
   gr_workspace_id c = Some (pp_workspace_id p) \<and> gr_created_by c = Some (pp_actor_id p) \<and> gr_state c = RouteDraft"
  by (auto simp: owned_draft_def need_legacy_route_def check_def act_simps split: option.splits sum.splits prod.splits if_splits)

lemma owned_workspace_draft_Inr:
  "owned_workspace_draft i p s = (Inr c, s') \<longleftrightarrow> s' = s \<and> get_route i s = Some c \<and> gr_organization_id c = pp_organization_id p \<and>
   gr_workspace_id c = Some (pp_workspace_id p) \<and> gr_created_by c = Some (pp_actor_id p) \<and> gr_state c = RouteDraft"
  by (auto simp: owned_workspace_draft_def check_def act_simps split: option.splits sum.splits prod.splits if_splits)

lemma get_legacy_route_iff: "get_legacy_route i s = Some c \<longleftrightarrow> get_route i s = Some c \<and> gr_organization_id c = None"
  by (auto simp: get_legacy_route_def get_route_def route_from_row_def split: option.splits)

lemma need_active_endpoint_Inr:
  "need_active_endpoint e s = (Inr u, s') \<longleftrightarrow> s' = s \<and> (\<exists>ep. get_endpoint e s = Some ep \<and> ge_state ep = EndpointActive)"
  by (auto simp: need_active_endpoint_def need_endpoint_def check_def act_simps split: option.splits sum.splits prod.splits if_splits)

lemma need_endpoint_grant_Inr:
  "need_endpoint_grant e p s = (Inr u, s') \<longleftrightarrow> s' = s \<and>
   (\<exists>org. pp_organization_id p = Some org \<and> workspace_endpoint_is_granted e org (pp_workspace_id p) s)"
  by (auto simp: need_endpoint_grant_def check_def split: option.splits if_splits)

definition activated :: "gateway_route \<Rightarrow> int \<Rightarrow> int \<Rightarrow> gateway_route" where
  "activated c v now = c\<lparr>gr_state := RouteActive, gr_updated_at := now, gr_resource_version := v + 1\<rparr>"

lemma check_version_Inr: "check_version r v s = (Inr u, s') \<longleftrightarrow> s' = s \<and> gr_resource_version r = v"
  by (auto simp: check_version_def act_simps)

lemma confirm_Inr:
  assumes "confirm_route_draft i v p validate now s = (Inr r, s')"
  shows "\<exists>c ep. get_legacy_route i s = Some c \<and> gr_workspace_id c = Some (pp_workspace_id p) \<and>
    gr_created_by c = Some (pp_actor_id p) \<and> gr_state c = RouteDraft \<and> gr_resource_version c = v \<and>
    get_endpoint (gr_endpoint_id c) s = Some ep \<and> ge_state ep = EndpointActive \<and> validate c = Inr () \<and>
    replace_route_version (activated c v now) v s = (Inr r, s')"
  using assms unfolding confirm_route_draft_def activate_def activated_def [symmetric]
  by (auto simp: bind_Inr_iff owned_draft_Inr check_version_Inr need_active_endpoint_Inr result_def)

lemma confirm_workspace_Inr:
  assumes "confirm_workspace_route_draft i v p validate now s = (Inr r, s')"
  shows "\<exists>c ep org. get_route i s = Some c \<and> gr_organization_id c = Some org \<and> pp_organization_id p = Some org \<and>
    gr_workspace_id c = Some (pp_workspace_id p) \<and>
    gr_created_by c = Some (pp_actor_id p) \<and> gr_state c = RouteDraft \<and> gr_resource_version c = v \<and>
    workspace_endpoint_is_granted (gr_endpoint_id c) org (pp_workspace_id p) s \<and>
    get_endpoint (gr_endpoint_id c) s = Some ep \<and> ge_state ep = EndpointActive \<and> validate c = Inr () \<and>
    replace_route_version (activated c v now) v s = (Inr r, s')"
  using assms unfolding confirm_workspace_route_draft_def activate_def activated_def [symmetric]
  by (auto simp: bind_Inr_iff owned_workspace_draft_Inr check_version_Inr need_active_endpoint_Inr need_endpoint_grant_Inr result_def)

definition edited :: "gateway_route \<Rightarrow> edit_route_draft_request \<Rightarrow> int \<Rightarrow> gateway_route" where
  "edited c ed now = c\<lparr>gr_model_pattern := ed_model_pattern ed, gr_target_binding_id := ed_target_binding_id ed,
     gr_target_model := Some (ed_target_model ed), gr_priority := ed_priority ed, gr_updated_at := now,
     gr_resource_version := ed_resource_version ed + 1\<rparr>"

lemma edit_Inr:
  assumes "edit_route_draft i ed p now s = (Inr r, s')"
  shows "\<exists>c. get_legacy_route i s = Some c \<and> gr_workspace_id c = Some (pp_workspace_id p) \<and>
    gr_created_by c = Some (pp_actor_id p) \<and> gr_state c = RouteDraft \<and>
    replace_route_version (edited c ed now) (ed_resource_version ed) s = (Inr r, s')"
  using assms unfolding edit_route_draft_def edited_def [symmetric] by (auto simp: bind_Inr_iff owned_draft_Inr)

text \<open>A refused edit or confirmation changes nothing.\<close>

lemma read_then_write:
  assumes "leaves (\<lambda>s. s) m" "bind m f s = (Inl e, s')" "\<And>x. f x s = (Inl e, s') \<Longrightarrow> s' = s"
  shows "s' = s"
  using assms(2,3) leavesD [OF assms(1), of s] by (auto simp: act_simps split: sum.splits prod.splits)

lemma refused_unchanged:
  "edit_route_draft i ed p now s = (Inl e, s') \<Longrightarrow> s' = s"
  "confirm_route_draft i v p validate now s = (Inl e, s') \<Longrightarrow> s' = s"
  "confirm_workspace_route_draft i v p validate now s = (Inl e, s') \<Longrightarrow> s' = s"
  unfolding edit_route_draft_def confirm_route_draft_def confirm_workspace_route_draft_def activate_def
  by (erule read_then_write [rotated], erule replace_route_version_Inl, intro leaves_intros)
     ((erule read_then_write [rotated]; (intro leaves_intros)?)+, erule replace_route_version_Inl)+

text \<open>Of two actors who saw the same version, one wins: the other's edit or confirmation is refused.\<close>

lemma edit_version:
  assumes "store_ok s" "edit_route_draft i ed p now s = (Inr r, s')"
  shows "store_ok s' \<and> get_route i s' = Some r \<and> gr_resource_version r = ed_resource_version ed + 1"
proof -
  from edit_Inr [OF assms(2)] obtain c where c: "get_legacy_route i s = Some c"
    "replace_route_version (edited c ed now) (ed_resource_version ed) s = (Inr r, s')" by blast
  then have "gr_id (edited c ed now) = i" using get_route_stored(1) [OF assms(1)] by (auto simp: get_legacy_route_iff edited_def)
  with replace_route_version_Inr [OF c(2)] have "get_route i s' = Some r" "r = edited c ed now" by auto
  moreover have "store_ok (snd (edit_route_draft i ed p now s))" by (rule keeps_snd [OF keeps_edit assms(1)])
  ultimately show ?thesis using assms(2) by (simp add: edited_def)
qed

lemma stale_refused:
  assumes "store_ok s" "get_route i s = Some r" "gr_resource_version r \<noteq> v"
  shows "ed_resource_version ed = v \<Longrightarrow> \<exists>e. edit_route_draft i ed p now s = (Inl e, s)"
    and "\<exists>e. confirm_route_draft i v p validate now s = (Inl e, s)"
proof -
  have stale: False if "replace_route_version x v s = (Inr y, s')" "gr_id x = i" for x y s'
    using replace_route_version_Inr [OF that(1)] that(2) assms(2,3) by auto
  have id: "get_legacy_route i s = Some c \<Longrightarrow> gr_id c = i" for c
    using get_route_stored(1) [OF assms(1)] by (auto simp: get_legacy_route_iff)
  show "\<exists>e. edit_route_draft i ed p now s = (Inl e, s)" if "ed_resource_version ed = v"
  proof (cases "edit_route_draft i ed p now s")
    case (Pair x s')
    then show ?thesis
    proof (cases x)
      case (Inr y)
      with edit_Inr [of i ed p now s y s'] Pair id stale that show ?thesis by (fastforce simp: edited_def)
    qed (use refused_unchanged(1) in auto)
  qed
  show "\<exists>e. confirm_route_draft i v p validate now s = (Inl e, s)"
  proof (cases "confirm_route_draft i v p validate now s")
    case (Pair x s')
    then show ?thesis
    proof (cases x)
      case (Inr y)
      with confirm_Inr [of i v p validate now s y s'] Pair assms(2,3) show ?thesis by (auto simp: get_legacy_route_iff)
    qed (use refused_unchanged(2) in auto)
  qed
qed

lemma one_editor:
  assumes "store_ok s" "edit_route_draft i ed p now s = (Inr r, s')" "v = ed_resource_version ed"
  shows "ed_resource_version ed' = v \<Longrightarrow> \<exists>e. edit_route_draft i ed' p' now' s' = (Inl e, s')"
    and "\<exists>e. confirm_route_draft i v p' validate now' s' = (Inl e, s')"
proof -
  note f = edit_version [OF assms(1,2)]
  then have "gr_resource_version r \<noteq> v" using assms(3) by simp
  with f stale_refused [of s' i r v] show "ed_resource_version ed' = v \<Longrightarrow> \<exists>e. edit_route_draft i ed' p' now' s' = (Inl e, s')"
    "\<exists>e. confirm_route_draft i v p' validate now' s' = (Inl e, s')" by auto
qed

section \<open>What an operation may do to a route\<close>

text \<open>The only change a stored route sees: a draft is edited or activated, under the next version.\<close>

definition route_progress :: "gateway_route \<Rightarrow> gateway_route \<Rightarrow> bool" where
  "route_progress r r' =
     (r' = r \<or>
      gr_state r = RouteDraft \<and> same_place r r' \<and> gr_source r' = gr_source r \<and> gr_created_by r' = gr_created_by r \<and>
      gr_created_at r' = gr_created_at r \<and> gr_state r' \<in> {RouteDraft, RouteActive} \<and>
      gr_resource_version r' = gr_resource_version r + 1)"

definition recreates :: "uuid \<Rightarrow> product_op \<Rightarrow> bool" where
  "recreates i op = (case op of CreateRoute c b k j t \<Rightarrow> j = i | _ \<Rightarrow> False)"

lemma leaves_keeps: "leaves gateway_routes m \<Longrightarrow> keeps (\<lambda>s. get_route i s = Some r) m"
  unfolding valid_def by (auto simp: leaves_def get_route_def split: prod.splits sum.splits) (metis snd_conv)+

lemma keeps_inserted_route: "keeps (\<lambda>s. get_route i s = Some r) (insert_route x)"
proof -
  have "find_row i t' = find_row i t" if "insert_row k v t = Some t'" "find_row i t \<noteq> None" for k v and t t' :: "(uuid, route_row) table"
    using that insert_row_None [of k v t] by (auto simp: find_insert [OF that(1)])
  then show ?thesis by (auto simp: valid_def insert_route_def get_route_def split: option.splits)
qed

lemma keeps_created_route: "gr_id x \<noteq> i \<Longrightarrow> keeps (\<lambda>s. get_route i s = Some r) (save_route x)"
  unfolding save_route_def
  by (intro keeps_mutation keeps_weaken keeps_store)
     (auto simp: get_route_def find_replace valid_def db_write_def)

lemma drafts_keep_routes:
  "keeps (\<lambda>s. get_route i s = Some r) (service_route_draft cd b key p j now)"
  "keeps (\<lambda>s. get_route i s = Some r) (create_scoped_route_draft cd b key p src j now)"
  "keeps (\<lambda>s. get_route i s = Some r) (create_workspace_binding_route_draft cr b key p j now)"
  unfolding service_route_draft_def create_scoped_route_draft_def create_workspace_binding_route_draft_def create_route_draft_def
  by (intro keeps_mutation keeps_weaken keeps_store keeps_needs keeps_inserted_route
      leaves_keeps [OF leaves_primitive(14)])+

lemma creation_keeps_routes: "j \<noteq> i \<Longrightarrow> keeps (\<lambda>s. get_route i s = Some r) (create_route c b k j now)"
  unfolding create_route_def remember_idempotency_def Let_def
  by (intro keeps_mutation keeps_weaken keeps_store keeps_needs keeps_created_route leaves_keeps leaves_intros leaves_primitive)
     (simp add: new_route_def)

lemma replacement_progress:
  assumes "replace_route_version x v s = (Inr y, s')" "get_route (gr_id x) s = Some c" "route_progress c x"
    and "get_route i s = Some r"
  shows "\<exists>r'. get_route i s' = Some r' \<and> route_progress r r'"
  using replace_route_version_Inr [OF assms(1)] assms(2-4) by (auto simp: route_progress_def)

lemma edited_progress:
  assumes "get_route i s = Some c" "store_ok s" "gr_state c = RouteDraft" "gr_resource_version c = v"
  shows "gr_id c = i" "route_progress c (activated c v now)" "v = ed_resource_version ed \<Longrightarrow> route_progress c (edited c ed now)"
  using assms get_route_stored(1) [OF assms(2,1)]
  by (simp_all add: route_progress_def activated_def edited_def same_place_def)

lemma compare_and_swap_progress:
  assumes "store_ok s" "get_route j s = Some c" "gr_state c = RouteDraft" "get_route i s = Some r"
    and "replace_route_version x v s = (Inr y, s')" "x = activated c v now \<or> x = edited c ed now \<and> v = ed_resource_version ed"
  shows "\<exists>r'. get_route i s' = Some r' \<and> route_progress r r'"
proof -
  have id: "gr_id x = j" using assms(6) get_route_stored(1) [OF assms(1,2)] by (auto simp: activated_def edited_def)
  with replace_route_version_Inr [OF assms(5)] assms(2) have "gr_resource_version c = v" by auto
  with edited_progress [OF assms(2,1,3)] assms(6) have "route_progress c x" by auto
  with replacement_progress [OF assms(5) _ _ assms(4)] assms(2) id show ?thesis by blast
qed

lemma unchanged_progress: "keeps (\<lambda>s. get_route i s = Some r) m \<Longrightarrow> get_route i s = Some r \<Longrightarrow>
    \<exists>r'. get_route i (snd (m s)) = Some r' \<and> route_progress r r'"
  using keeps_snd by (fastforce simp: route_progress_def)

lemma swap_outcome:
  assumes "\<And>y s'. m s = (Inr y, s') \<Longrightarrow> \<exists>r'. get_route i s' = Some r' \<and> route_progress r r'"
    and "\<And>e s'. m s = (Inl e, s') \<Longrightarrow> s' = s" "get_route i s = Some r"
  shows "\<exists>r'. get_route i (snd (m s)) = Some r' \<and> route_progress r r'"
  using assms by (cases "m s"; cases "fst (m s)") (auto simp: route_progress_def)

lemma route_step:
  assumes ok: "store_ok s" and r: "get_route i s = Some r" and fresh: "\<not> recreates i op"
  shows "\<exists>r'. get_route i (perform op s) = Some r' \<and> route_progress r r'"
proof (cases "writes_routes op")
  case False
  then show ?thesis using r by (auto simp: get_route_def routes_untouched route_progress_def)
next
  case True
  then show ?thesis
  proof (cases op)
    case (EditDraft j ed p now)
    have "\<exists>r'. get_route i s' = Some r' \<and> route_progress r r'" if "edit_route_draft j ed p now s = (Inr y, s')" for y s'
      using edit_Inr [OF that] by (auto simp: get_legacy_route_iff intro: compare_and_swap_progress [OF ok _ _ r])
    from swap_outcome [OF this refused_unchanged(1) r] show ?thesis by (simp add: EditDraft)
  next
    case (ConfirmDraft j v p f now)
    have "\<exists>r'. get_route i s' = Some r' \<and> route_progress r r'" if "confirm_route_draft j v p f now s = (Inr y, s')" for y s'
      using confirm_Inr [OF that] by (auto simp: get_legacy_route_iff intro: compare_and_swap_progress [OF ok _ _ r])
    from swap_outcome [OF this refused_unchanged(2) r] show ?thesis by (simp add: ConfirmDraft)
  next
    case (ConfirmWorkspaceDraft j v p f now)
    have "\<exists>r'. get_route i s' = Some r' \<and> route_progress r r'" if "confirm_workspace_route_draft j v p f now s = (Inr y, s')" for y s'
      using confirm_workspace_Inr [OF that] by (auto intro: compare_and_swap_progress [OF ok _ _ r])
    from swap_outcome [OF this refused_unchanged(3) r] show ?thesis by (simp add: ConfirmWorkspaceDraft)
  qed (use True fresh r in \<open>simp_all add: writes_routes_def recreates_def unchanged_progress drafts_keep_routes creation_keeps_routes\<close>)
qed

section \<open>What a scope sees\<close>

lemma order_routes_set: "set (order_routes rows) = (\<lambda>x. route_from_row (snd x)) ` set rows"
  by (auto simp: order_routes_def image_iff)

lemma select_rows: "table_ok t \<Longrightarrow> (i, row) \<in> set (select P t) \<longleftrightarrow> find_row i t = Some row \<and> P i row"
  by (auto simp: select_def set_find)

lemma ordered_set:
  assumes "store_ok s" "\<And>i row. find_row i (gateway_routes s) = Some row \<Longrightarrow> P i row \<longleftrightarrow> Q (route_from_row row)"
  shows "r \<in> set (order_routes (select P (gateway_routes s))) \<longleftrightarrow> (\<exists>i. get_route i s = Some r \<and> Q r)"
proof -
  note t = rows_ok_table [OF store_okD(2) [OF assms(1)]]
  have "r \<in> set (order_routes (select P (gateway_routes s))) \<longleftrightarrow>
      (\<exists>i row. (i, row) \<in> set (select P (gateway_routes s)) \<and> r = route_from_row row)"
    by (force simp: order_routes_set)
  also have "\<dots> \<longleftrightarrow> (\<exists>i row. find_row i (gateway_routes s) = Some row \<and> Q (route_from_row row) \<and> r = route_from_row row)"
    using assms(2) by (auto simp: select_rows [OF t])
  also have "\<dots> \<longleftrightarrow> (\<exists>i. get_route i s = Some r \<and> Q r)"
    by (auto simp: get_route_def)
  finally show ?thesis .
qed

lemma active_routes_scoped:
  assumes "store_ok s"
  shows "r \<in> set (active_routes e (Some org) w s) \<longleftrightarrow>
    w \<noteq> None \<and> w \<noteq> Some [] \<and> (\<exists>i. get_route i s = Some r \<and> gr_endpoint_id r = e \<and> gr_state r = RouteActive \<and>
      gr_organization_id r = Some org \<and> gr_workspace_id r = w)"
proof -
  have row: "rr_endpoint_id row = gr_endpoint_id (route_from_row row) \<and> rr_state row = gr_state (route_from_row row)"
    if "find_row i (gateway_routes s) = Some row" for i row
    using rows_okD [OF store_okD(2) [OF assms] that] by (simp add: route_row_ok_def route_from_row_def)
  have "r \<in> set (order_routes (select (\<lambda>_ row. rr_endpoint_id row = e \<and> rr_state row = RouteActive \<and>
      rr_organization_id row = Some org \<and> rr_workspace_id row = w) (gateway_routes s))) \<longleftrightarrow>
      (\<exists>i. get_route i s = Some r \<and> (gr_endpoint_id r = e \<and> gr_state r = RouteActive \<and>
        gr_organization_id r = Some org \<and> gr_workspace_id r = w))"
    by (rule ordered_set [OF assms]) (simp add: row, simp add: route_from_row_def)
  then show ?thesis by (simp add: active_routes_def)
qed

lemma order_routes_sorted:
  assumes "\<And>i row. (i, row) \<in> set rows \<Longrightarrow> gr_id (rr_document row) = i \<and> gr_priority (rr_document row) = rr_priority row"
  shows "sorted (map (\<lambda>r. (gr_priority r, gr_id r)) (order_routes rows))"
proof -
  have "map (\<lambda>r. (gr_priority r, gr_id r)) (order_routes rows) =
      map (\<lambda>(i, row). (rr_priority row, i)) (sort_key (\<lambda>(i, row). (rr_priority row, i)) rows)"
    using assms by (auto simp: order_routes_def route_from_row_def)
  then show ?thesis by simp
qed

lemma active_routes_sorted:
  assumes "store_ok s"
  shows "sorted (map (\<lambda>r. (gr_priority r, gr_id r)) (active_routes e org w s))"
proof -
  have "sorted (map (\<lambda>r. (gr_priority r, gr_id r)) (order_routes (select P (gateway_routes s))))" for P
    by (rule order_routes_sorted)
       (auto simp: select_rows [OF rows_ok_table [OF store_okD(2) [OF assms]]] route_row_ok_def
          dest!: rows_okD [OF store_okD(2) [OF assms]])
  then show ?thesis by (auto simp: active_routes_def split: option.splits)
qed

end
