(* ===== verification/Key_Facts.thy ===== *)
theory Key_Facts
  imports Route_Facts
begin

text \<open>
  The life of a credential: what creating an API key stores, whom its secret authenticates, what a
  workspace sees of the keys, and that a revoked key stays revoked until an operator configures a
  credential under its reference.
\<close>

section \<open>What an operation may do to a credential row\<close>

definition credential_progress :: "credential_row \<Rightarrow> credential_row \<Rightarrow> bool" where
  "credential_progress row row' =
     (cw_token_digest row' = cw_token_digest row \<and> cw_api_key_id row' = cw_api_key_id row \<and>
      cw_model_scope row' = cw_model_scope row \<and> cw_expires_at row' = cw_expires_at row \<and>
      cw_actor_id row' = cw_actor_id row \<and> cw_workspace_id row' = cw_workspace_id row \<and>
      cw_organization_id row' = cw_organization_id row \<and> (\<not> cw_enabled row \<longrightarrow> \<not> cw_enabled row'))"

definition reconfigures :: "string \<Rightarrow> product_op \<Rightarrow> bool" where
  "reconfigures ref op = (case op of ConfigureCredentials ms cs \<Rightarrow> ref \<in> (pp_credential_ref \<circ> snd) ` set cs | _ \<Rightarrow> False)"

definition progressed :: "string \<Rightarrow> credential_row \<Rightarrow> exchange_store \<Rightarrow> bool" where
  "progressed ref row s = (\<exists>row'. find_row ref (api_credentials s) = Some row' \<and> credential_progress row row')"

lemma progress_refl: "credential_progress row row"
  by (simp add: credential_progress_def)

lemma progressed_refl: "find_row ref (api_credentials s) = Some row \<Longrightarrow> progressed ref row s"
  by (auto simp: progressed_def progress_refl)

lemma leaves_credentials: "leaves api_credentials m \<Longrightarrow> keeps (progressed ref row) m"
  by (auto simp: valid_def leaves_def progressed_def split: sum.splits prod.splits) (metis snd_conv)+

lemma progressed_update:
  assumes "progressed ref row s"
    and "\<And>v. cw_token_digest (f v) = cw_token_digest v \<and> cw_api_key_id (f v) = cw_api_key_id v \<and>
      cw_model_scope (f v) = cw_model_scope v \<and> cw_expires_at (f v) = cw_expires_at v \<and>
      cw_actor_id (f v) = cw_actor_id v \<and> cw_workspace_id (f v) = cw_workspace_id v \<and>
      cw_organization_id (f v) = cw_organization_id v \<and> \<not> cw_enabled (f v)"
  shows "progressed ref row (s\<lparr>api_credentials := update_row k f (api_credentials s)\<rparr>)"
  using assms by (auto simp: progressed_def find_update credential_progress_def)

lemma keeps_progressed_writes:
  "keeps (progressed ref row) (revoke_api_key i t)" "keeps (progressed ref row) (disable_credential r)"
  "keeps (progressed ref row) (insert_api_key k d t)"
  "pp_credential_ref (fst e) \<noteq> ref \<Longrightarrow> keeps (progressed ref row) (configure_one t e)"
proof -
  show "keeps (progressed ref row) (revoke_api_key i t)" unfolding revoke_api_key_def
    by (rule keeps_mutation) (auto simp: valid_def Let_def split: option.splits intro: progressed_update)
  show "keeps (progressed ref row) (disable_credential r)" unfolding disable_credential_def
    by (rule keeps_mutation) (auto simp: valid_def split: option.splits intro: progressed_update)
  show "keeps (progressed ref row) (insert_api_key k d t)" unfolding insert_api_key_def valid_def
    by (auto simp: progressed_def find_insert insert_row_def find_row_def split: option.splits if_splits)
  show "pp_credential_ref (fst e) \<noteq> ref \<Longrightarrow> keeps (progressed ref row) (configure_one t e)"
    unfolding configure_one_def valid_def Let_def
    by (auto simp: progressed_def find_upsert split: prod.splits option.splits)
qed

lemma keeps_progressed_each:
  "(\<And>e. e \<in> set es \<Longrightarrow> pp_credential_ref (fst e) \<noteq> ref) \<Longrightarrow> keeps (progressed ref row) (configure_each clock k es)"
  by (induction es arbitrary: k) (simp_all add: keeps_store keeps_progressed_writes)

lemma keeps_progressed_configure:
  assumes "ref \<notin> (pp_credential_ref \<circ> snd) ` set cs"
  shows "keeps (progressed ref row) (configure_credentials clock cs)"
  unfolding configure_credentials_def
  by (intro keeps_store keeps_mutation keeps_weaken keeps_progressed_each) (use assms in \<open>auto simp: image_iff\<close>)

lemma keeps_progressed_create:
  "keeps (progressed ref row) (service_create_api_key ck body p key i rnd now ms)"
proof -
  have c: "keeps (progressed ref row) (create_api_key k d key rd sc ms)" for k d key rd sc
    unfolding create_api_key_def
    by (intro keeps_mutation keeps_weaken keeps_store keeps_progressed_writes leaves_credentials leaves_primitive)
  show ?thesis unfolding service_create_api_key_def Let_def
    by (intro keeps_bind_store keeps_simple c; simp add: keeps_simple split: prod.split)
qed

lemma keeps_progressed_revoke: "keeps (progressed ref row) (service_revoke_api_key i p ms)"
  unfolding service_revoke_api_key_def owned_api_key_def by (intro keeps_store keeps_progressed_writes)

definition writes_credentials :: "product_op \<Rightarrow> bool" where
  "writes_credentials op = (case op of CreateApiKey c b p k i r t ms \<Rightarrow> True | RevokeApiKey i p ms \<Rightarrow> True
     | ConfigureCredentials ms cs \<Rightarrow> True | DisableCredential r \<Rightarrow> True | _ \<Rightarrow> False)"

lemma credentials_untouched: "\<not> writes_credentials op \<Longrightarrow> api_credentials (perform op s) = api_credentials s"
  by (cases op) (simp_all add: writes_credentials_def leaves_composed leaves_primitive leavesD)

lemma credential_step:
  assumes "find_row ref (api_credentials s) = Some row" "\<not> reconfigures ref op"
  shows "\<exists>row'. find_row ref (api_credentials (perform op s)) = Some row' \<and> credential_progress row row'"
proof (cases "writes_credentials op")
  case False
  with assms(1) show ?thesis by (simp add: credentials_untouched progress_refl)
next
  case True
  with progressed_refl [OF assms(1)] assms(2) have "progressed ref row (perform op s)"
    by (cases op) (simp_all add: writes_credentials_def reconfigures_def keeps_snd keeps_progressed_create
        keeps_progressed_revoke keeps_progressed_configure keeps_progressed_writes)
  then show ?thesis by (simp add: progressed_def)
qed

section \<open>Creating a key\<close>

lemma resolve_idempotency_Inr:
  "resolve_idempotency scope key digest s = Inr (Some i) \<longleftrightarrow>
     (\<exists>k. key = Some k \<and> find_row (scope, k) (idempotency s) = Some (digest, i))"
  "resolve_idempotency scope key digest s = Inr None \<longleftrightarrow> (\<forall>k. key = Some k \<longrightarrow> find_row (scope, k) (idempotency s) = None)"
  by (auto simp: resolve_idempotency_def split: option.splits if_splits)

text \<open>The outcomes of the basic actions.\<close>

lemma outcome_Inr:
  "ret x s = (Inr y, s') \<longleftrightarrow> y = x \<and> s' = s" "raise e s = (Inr y, s') \<longleftrightarrow> False"
  "result r s = (Inr y, s') \<longleftrightarrow> r = Inr y \<and> s' = s" "check f s = (Inr y, s') \<longleftrightarrow> f s = Inr y \<and> s' = s"
  "db_read g s = (Inr z, s') \<longleftrightarrow> z = g s \<and> s' = s"
  by (auto simp: act_simps check_def db_read_def)

lemma bind_check_Inr: "bind (check f) g s = (Inr y, s') \<longleftrightarrow> (\<exists>x. f s = Inr x \<and> g x s = (Inr y, s'))"
  by (auto simp: act_simps check_def split: sum.splits)

lemma insert_api_key_Inr:
  "insert_api_key k d ms s = (Inr u, s') \<longleftrightarrow>
     find_row (ak_credential_ref k) (api_credentials s) = None \<and> find_digest d s = None \<and> find_api_key (ak_id k) s = None \<and>
     s' = s\<lparr>api_credentials := api_credentials s @ [(ak_credential_ref k, api_key_row k d ms)]\<rparr>"
  by (auto simp: insert_api_key_def insert_row_def find_row_def map_of_eq_None_iff split: option.splits)

lemma insert_idempotency_Inr:
  "insert_idempotency sc k d i s = (Inr u, s') \<longleftrightarrow> find_row (sc, k) (idempotency s) = None \<and>
     s' = s\<lparr>idempotency := idempotency s @ [((sc, k), (d, i))]\<rparr>"
  by (auto simp: insert_idempotency_def insert_row_def find_row_def map_of_eq_None_iff split: option.splits)

text \<open>The bindings an idempotent creation leaves behind.\<close>

definition bound :: "string \<Rightarrow> string option \<Rightarrow> string \<Rightarrow> string \<Rightarrow> exchange_store \<Rightarrow> bool" where
  "bound sc key d i s = (\<forall>k. key = Some k \<longrightarrow> find_row (sc, k) (idempotency s) = Some (d, i))"

lemma create_api_key_Inr:
  assumes "create_api_key k d key rd sc ms s = (Inr (stored, created), s')"
  shows "if created
    then stored = k \<and> find_digest d s = None \<and> find_api_key (ak_id k) s = None \<and>
      find_row (ak_credential_ref k) (api_credentials s) = None \<and>
      api_credentials s' = api_credentials s @ [(ak_credential_ref k, api_key_row k d ms)] \<and> bound sc key rd (ak_id k) s'
    else s' = s \<and> key \<noteq> None \<and> (\<exists>i. bound sc key rd i s \<and> get_api_key i s = Some stored)"
proof -
  from assms obtain r where r: "resolve_idempotency sc key rd s = Inr r"
    "(case r of Some i \<Rightarrow> bind (db_read (get_api_key i)) (\<lambda>existing. case existing of
         None \<Rightarrow> raise (ProductRuntimeError ''api-key idempotency points to an absent key'') | Some e \<Rightarrow> ret (e, False))
     | None \<Rightarrow> bind (insert_api_key k d ms) (\<lambda>_. bind (case key of None \<Rightarrow> ret () | Some i \<Rightarrow> insert_idempotency sc i rd (ak_id k)) (\<lambda>_.
         ret (k, True)))) s = (Inr (stored, created), s')"
    by (auto simp: create_api_key_def mutation_Inr bind_check_Inr)
  show ?thesis
  proof (cases r)
    case None
    with r(2) show ?thesis
      by (cases key) (auto simp: bind_Inr_iff insert_api_key_Inr insert_idempotency_Inr bound_def find_row_append outcome_Inr)
  next
    case (Some i)
    with r resolve_idempotency_Inr(1) [of sc key rd s i] show ?thesis
      by (auto simp: bind_Inr_iff outcome_Inr bound_def split: option.splits)
  qed
qed

lemma service_create_api_key_Inr:
  assumes "service_create_api_key c body p key i rnd now ms s = (Inr (k, secret, created), s')"
  shows "secret = (if created then Some (''cyk_'' @ rnd) else None) \<and>
    create_api_key (new_api_key c p i now) (sha256_str (''cyk_'' @ rnd)) key (api_key_digest body p) (api_key_scope p) ms s =
      (Inr (k, created), s') \<and> check_api_key_command c now = Inr ()"
  using assms by (auto simp: service_create_api_key_def Let_def bind_Inr_iff outcome_Inr split: prod.splits)

lemma find_append_last: "find P xs = None \<Longrightarrow> find P (xs @ [x]) = (if P x then Some x else None)"
  by (induction xs) auto

text \<open>A freshly created key's secret authenticates its owner, with the model scope it was given.\<close>

lemma created_key_resolves:
  assumes "service_create_api_key c body p key i rnd now ms s = (Inr (k, secret, True), s')"
  shows "find_digest (sha256_str (''cyk_'' @ rnd)) s' = Some (''api-key://'' @ i, api_key_row k (sha256_str (''cyk_'' @ rnd)) ms)"
    "find_api_key i s' = Some (''api-key://'' @ i, api_key_row k (sha256_str (''cyk_'' @ rnd)) ms)"
    "k = new_api_key c p i now"
    "find_digest (sha256_str (''cyk_'' @ rnd)) s = None"
    "api_credentials s' = api_credentials s @ [(''api-key://'' @ i, api_key_row k (sha256_str (''cyk_'' @ rnd)) ms)]"
proof -
  note f = service_create_api_key_Inr [OF assms]
  with create_api_key_Inr [of "new_api_key c p i now" "sha256_str (''cyk_'' @ rnd)" key "api_key_digest body p" "api_key_scope p" ms s k True s']
  have g: "k = new_api_key c p i now" "find_digest (sha256_str (''cyk_'' @ rnd)) s = None" "find_api_key i s = None"
    "api_credentials s' = api_credentials s @ [(''api-key://'' @ i, api_key_row k (sha256_str (''cyk_'' @ rnd)) ms)]"
    by (auto simp: new_api_key_def)
  then show "k = new_api_key c p i now" "find_digest (sha256_str (''cyk_'' @ rnd)) s = None"
    "api_credentials s' = api_credentials s @ [(''api-key://'' @ i, api_key_row k (sha256_str (''cyk_'' @ rnd)) ms)]"
    "find_digest (sha256_str (''cyk_'' @ rnd)) s' = Some (''api-key://'' @ i, api_key_row k (sha256_str (''cyk_'' @ rnd)) ms)"
    "find_api_key i s' = Some (''api-key://'' @ i, api_key_row k (sha256_str (''cyk_'' @ rnd)) ms)"
    by (auto simp: find_digest_def find_api_key_def find_append_last api_key_row_def new_api_key_def)
qed

lemma find_weaken: "find P xs = Some x \<Longrightarrow> Q x \<Longrightarrow> (\<And>y. Q y \<Longrightarrow> P y) \<Longrightarrow> find Q xs = Some x"
  by (induction xs) (auto split: if_splits)

lemma created_key_authenticates:
  assumes "service_create_api_key c body p key i rnd now ms s = (Inr (k, Some secret, True), s')"
    and "case ck_expires_at c of None \<Rightarrow> True | Some t \<Rightarrow> t > later"
  shows "resolve_data_plane_credential secret digests later s' =
      rbind (mk_request_principal (pp_actor_id p) (pp_workspace_id p) (''api-key://'' @ i) (map strip (ck_model_scope c))
        (pp_organization_id p)) (\<lambda>q. Inr (Some q)) \<and>
    resolve_credential secret later s' = resolve_data_plane_credential secret digests later s' \<and>
    resolve_product_credential secret later s' = Inr None"
proof -
  note k = created_key_resolves [OF assms(1)]
  from service_create_api_key_Inr [OF assms(1)] have secret: "secret = ''cyk_'' @ rnd" by simp
  let ?row = "api_key_row k (sha256_str secret) ms"
  have use: "usable later ?row" using assms(2) k(3) by (simp add: usable_def api_key_row_def new_api_key_def)
  then have u: "find_usable (sha256_str secret) later s' = Some (''api-key://'' @ i, ?row)"
    unfolding find_usable_def
    by (intro find_weaken [OF k(1) [folded secret, unfolded find_digest_def]]) (auto simp: api_key_row_def)
  have "find (\<lambda>(ref, row). cw_token_digest row = sha256_str secret \<and> usable later row \<and> cw_api_key_id row = None)
      (api_credentials s) = None"
    using k(4) by (auto simp: find_digest_def find_None_iff secret)
  then have np: "find (\<lambda>(ref, row). cw_token_digest row = sha256_str secret \<and> usable later row \<and> cw_api_key_id row = None)
      (api_credentials s') = None"
    by (simp add: k(5) find_append_last api_key_row_def)
  show ?thesis
    using u np secret k(3)
    by (simp add: resolve_data_plane_credential_def resolve_credential_def resolve_product_credential_def principal_of_row_def
        api_key_row_def new_api_key_def or_default_def)
qed

section \<open>Listing and revoking\<close>

lemma find_api_key_iff:
  assumes "store_ok s"
  shows "find_api_key i s = Some (ref, row) \<longleftrightarrow> find_row ref (api_credentials s) = Some row \<and> cw_api_key_id row = Some i"
proof -
  note t = store_okD(4) [OF assms]
  have hit: "find_api_key i s = Some (ref, row) \<Longrightarrow> find_row ref (api_credentials s) = Some row \<and> cw_api_key_id row = Some i" for ref row
    unfolding find_api_key_def by (rule find_hit [OF t])
  moreover have "find_api_key i s = Some (ref, row)"
    if f: "find_row ref (api_credentials s) = Some row" "cw_api_key_id row = Some i"
  proof -
    from f find_miss [OF t, of "\<lambda>_ row. cw_api_key_id row = Some i"] have "find_api_key i s \<noteq> None"
      unfolding find_api_key_def by auto
    then obtain r w where "find_api_key i s = Some (r, w)" by fastforce
    moreover from hit [OF this] f have "r = ref"
      by (intro credentials_uniq [OF credentials_okD [OF assms], of r w ref row]) (auto simp: same_identity_def)
    ultimately show ?thesis using hit [of r w] f by simp
  qed
  ultimately show ?thesis by blast
qed

lemma get_api_key_iff:
  assumes "store_ok s"
  shows "get_api_key i s = Some k \<longleftrightarrow>
    (\<exists>ref row. find_row ref (api_credentials s) = Some row \<and> cw_api_key_id row = Some i \<and> k = api_key_from_row ref row)"
proof
  assume "get_api_key i s = Some k"
  then obtain ref row where "find_api_key i s = Some (ref, row)" "k = api_key_from_row ref row" by (auto simp: get_api_key_def)
  with find_api_key_iff [OF assms] show "\<exists>ref row. find_row ref (api_credentials s) = Some row \<and> cw_api_key_id row = Some i \<and>
    k = api_key_from_row ref row" by blast
next
  assume "\<exists>ref row. find_row ref (api_credentials s) = Some row \<and> cw_api_key_id row = Some i \<and> k = api_key_from_row ref row"
  with find_api_key_iff [OF assms] have "\<exists>ref row. find_api_key i s = Some (ref, row) \<and> k = api_key_from_row ref row" by blast
  then show "get_api_key i s = Some k" by (auto simp: get_api_key_def)
qed

lemma list_api_keys_set:
  assumes "store_ok s"
  shows "k \<in> set (list_api_keys s) \<longleftrightarrow> (\<exists>i. get_api_key i s = Some k)"
proof -
  have "k \<in> set (list_api_keys s) \<longleftrightarrow> (\<exists>ref row. (ref, row) \<in> set (select (\<lambda>_ row. cw_api_key_id row \<noteq> None) (api_credentials s)) \<and>
      k = api_key_from_row ref row)"
    by (force simp: list_api_keys_def)
  also have "\<dots> \<longleftrightarrow> (\<exists>i. get_api_key i s = Some k)"
    unfolding select_rows [OF store_okD(4) [OF assms]] get_api_key_iff [OF assms] by blast
  finally show ?thesis .
qed

text \<open>A workspace lists exactly the keys of its own scope.\<close>

lemma service_list_set:
  "store_ok s \<Longrightarrow> k \<in> set (service_list_api_keys p s) \<longleftrightarrow> (\<exists>i. get_api_key i s = Some k) \<and> key_in_scope k p"
  by (simp add: service_list_api_keys_def list_api_keys_set)

lemma revoke_foreign_key:
  assumes "case get_api_key i s of None \<Rightarrow> True | Some k \<Rightarrow> \<not> key_in_scope k p"
  shows "service_revoke_api_key i p ms s = (Inl (not_found ''EXCHANGE_API_KEY_NOT_FOUND'' ''API key not found''
      ''No API key exists with the requested id in this workspace.''), s)"
  using assms by (auto simp: service_revoke_api_key_def owned_api_key_def check_def act_simps split: option.splits)

text \<open>Revoking an active key, at a non-zero time, disables its row.\<close>

lemma revoke_active:
  assumes "store_ok s" "get_api_key i s = Some k0" "ak_state k0 = KeyActive"
    and "service_revoke_api_key i p ms s = (Inr k, s')" "ms \<noteq> 0"
  shows "key_in_scope k0 p" "k = k0\<lparr>ak_state := KeyRevoked, ak_updated_at := ms, ak_revoked_at := Some ms,
      ak_resource_version := ak_resource_version k0 + 1\<rparr>"
    "\<exists>row. find_row (ak_credential_ref k0) (api_credentials s') = Some row \<and> \<not> cw_enabled row"
proof -
  obtain ref row where r: "find_api_key i s = Some (ref, row)" "find_row ref (api_credentials s) = Some row"
    "cw_api_key_id row = Some i" "k0 = api_key_from_row ref row"
    using assms(2) unfolding get_api_key_iff [OF assms(1)] using find_api_key_iff [OF assms(1)] by blast
  let ?f = "\<lambda>row. row\<lparr>cw_enabled := False, cw_revoked_at := Some ms, cw_resource_version := cw_resource_version row + 1\<rparr>"
  let ?s = "s\<lparr>api_credentials := update_row ref ?f (api_credentials s)\<rparr>"
  have "store_ok (snd (revoke_api_key i ms s))" by (rule keeps_snd [OF keeps_revoke assms(1)])
  moreover have run: "revoke_api_key i ms s = (Inr (get_api_key i ?s), ?s)"
    using assms(3) r by (simp add: revoke_api_key_def mutation_def Let_def)
  ultimately have ok: "store_ok ?s" by simp
  have "get_api_key i ?s = Some (api_key_from_row ref (?f row))"
    unfolding get_api_key_iff [OF ok] using r by (auto simp: find_update intro!: exI [of _ ref])
  with run assms(2,4) have "key_in_scope k0 p \<and> k = api_key_from_row ref (?f row) \<and> s' = ?s"
    by (auto simp: service_revoke_api_key_def owned_api_key_def check_def act_simps split: if_splits)
  with r assms(5) show "key_in_scope k0 p" "k = k0\<lparr>ak_state := KeyRevoked, ak_updated_at := ms, ak_revoked_at := Some ms,
      ak_resource_version := ak_resource_version k0 + 1\<rparr>"
    "\<exists>row. find_row (ak_credential_ref k0) (api_credentials s') = Some row \<and> \<not> cw_enabled row"
    by (auto simp: api_key_from_row_def find_update)
qed

section \<open>Who a token authenticates\<close>

lemma find_usable_row:
  assumes "store_ok s" "find_usable d now s = Some (ref, row)"
  shows "find_row ref (api_credentials s) = Some row \<and> cw_token_digest row = d \<and> usable now row"
  using find_hit [OF store_okD(4) [OF assms(1)]] assms(2) unfolding find_usable_def by blast

lemma principal_of_row_ref: "principal_of_row ref row = Inr q \<Longrightarrow> credential_ref q = ref \<and> actor_id q = cw_actor_id row \<and>
    workspace_id q = cw_workspace_id row \<and> organization_id q = cw_organization_id row"
  by (auto simp: principal_of_row_def mk_request_principal_def result_simps)

lemma resolved_row:
  assumes "store_ok s" "resolve_credential token now s = Inr (Some q) \<or> resolve_data_plane_credential token digests now s = Inr (Some q)"
  shows "\<exists>row. find_row (credential_ref q) (api_credentials s) = Some row \<and> cw_token_digest row = sha256_str token \<and> usable now row \<and>
    actor_id q = cw_actor_id row \<and> workspace_id q = cw_workspace_id row \<and> organization_id q = cw_organization_id row"
proof -
  from assms(2) have "\<exists>ref row. find_usable (sha256_str token) now s = Some (ref, row) \<and> principal_of_row ref row = Inr q"
    by (elim disjE; cases "find_usable (sha256_str token) now s")
       (auto simp: resolve_credential_def resolve_data_plane_credential_def rbind_eq_Inr split: if_splits)
  then obtain ref row where f: "find_usable (sha256_str token) now s = Some (ref, row)" "principal_of_row ref row = Inr q" by blast
  from find_usable_row [OF assms(1) f(1)] principal_of_row_ref [OF f(2)] show ?thesis by auto
qed

text \<open>Revocation is permanent.\<close>

definition performs :: "product_op list \<Rightarrow> exchange_store \<Rightarrow> exchange_store" where
  "performs ops s = foldl (\<lambda>s op. perform op s) s ops"

lemma performs_ok: "store_ok s \<Longrightarrow> store_ok (performs ops s)"
  by (induction ops arbitrary: s) (simp_all add: performs_def perform_ok)

lemma disabled_stays:
  assumes "find_row ref (api_credentials s) = Some row" "\<not> cw_enabled row" "\<And>op. op \<in> set ops \<Longrightarrow> \<not> reconfigures ref op"
  shows "\<exists>row. find_row ref (api_credentials (performs ops s)) = Some row \<and> \<not> cw_enabled row"
  using assms
proof (induction ops arbitrary: s row)
  case (Cons op ops)
  from credential_step [OF Cons.prems(1), of op] Cons.prems(2,3) obtain row' where
    "find_row ref (api_credentials (perform op s)) = Some row'" "\<not> cw_enabled row'"
    by (auto simp: credential_progress_def)
  from Cons.IH [OF this] Cons.prems(3) show ?case by (simp add: performs_def)
qed (auto simp: performs_def)

lemma revoked_key_is_dead:
  assumes "store_ok s" "get_api_key i s = Some k0" "ak_state k0 = KeyActive"
    and "service_revoke_api_key i p ms s = (Inr k, s')" "ms \<noteq> 0"
    and "\<And>op. op \<in> set ops \<Longrightarrow> \<not> reconfigures (ak_credential_ref k0) op"
  shows "(resolve_credential token now (performs ops s') = Inr (Some q) \<longrightarrow> credential_ref q \<noteq> ak_credential_ref k0) \<and>
    (resolve_data_plane_credential token digests now (performs ops s') = Inr (Some q) \<longrightarrow> credential_ref q \<noteq> ak_credential_ref k0)"
proof -
  have "store_ok (snd (service_revoke_api_key i p ms s))" by (rule keeps_snd [OF keeps_api_keys(3) assms(1)])
  with assms(4) have ok: "store_ok (performs ops s')" by (simp add: performs_ok)
  from revoke_active(3) [OF assms(1-5)] obtain row where "find_row (ak_credential_ref k0) (api_credentials s') = Some row" "\<not> cw_enabled row"
    by blast
  from disabled_stays [OF this assms(6)] obtain row where
    r: "find_row (ak_credential_ref k0) (api_credentials (performs ops s')) = Some row" "\<not> cw_enabled row" by blast
  have "credential_ref q \<noteq> ak_credential_ref k0"
    if "resolve_credential token now (performs ops s') = Inr (Some q) \<or>
      resolve_data_plane_credential token digests now (performs ops s') = Inr (Some q)"
  proof
    assume "credential_ref q = ak_credential_ref k0"
    with resolved_row [OF ok that] r show False by (simp add: usable_def)
  qed
  then show ?thesis by blast
qed

section \<open>Configured credentials\<close>

definition holds_token :: "string \<Rightarrow> string \<Rightarrow> exchange_store \<Rightarrow> bool" where
  "holds_token ref digest s =
     (\<exists>row. find_row ref (api_credentials s) = Some row \<and> cw_token_digest row = digest \<and> cw_enabled row)"

lemma configure_one_Inr:
  assumes "configure_one t (p, d) s = (Inr u, s')"
  shows "find_row r (api_credentials s') = (if r = pp_credential_ref p
      then Some (configured_row p d t (find_row (pp_credential_ref p) (api_credentials s))) else find_row r (api_credentials s))"
    "\<And>row. find_row (pp_credential_ref p) (api_credentials s) = Some row \<Longrightarrow> cw_token_digest row = d"
  using assms by (auto simp: configure_one_def Let_def find_upsert split: option.splits if_splits)

lemma configured_row_holds: "cw_token_digest (configured_row p d t old) = d \<and> cw_enabled (configured_row p d t old)"
  by (simp add: configured_row_def split: option.splits)

lemma configure_one_holds:
  "configure_one t (p, d) s = (Inr u, s') \<Longrightarrow> holds_token (pp_credential_ref p) d s'"
  "configure_one t (p, d) s = (Inr u, s') \<Longrightarrow> holds_token r d' s \<Longrightarrow> holds_token r d' s'"
  by (auto simp: holds_token_def configure_one_Inr configured_row_holds dest: configure_one_Inr(2))

lemma configure_each_holds:
  assumes "configure_each clock k es s = (Inr u, s')"
  shows "(holds_token r d s \<longrightarrow> holds_token r d s') \<and> (\<forall>(p, d)\<in>set es. holds_token (pp_credential_ref p) d s')"
  using assms
proof (induction es arbitrary: k s r d)
  case (Cons e es)
  obtain p d' where e: "e = (p, d')" by fastforce
  from Cons.prems obtain v s1 where s1: "configure_one (clock k) (p, d') s = (Inr v, s1)" "configure_each clock (Suc k) es s1 = (Inr u, s')"
    by (auto simp: e bind_Inr_iff)
  show ?case
    using Cons.IH [OF s1(2), of r d] Cons.IH [OF s1(2), of "pp_credential_ref p" d'] configure_one_holds [OF s1(1)] by (auto simp: e)
qed (simp add: outcome_Inr)

lemma configure_credentials_Inr:
  assumes "configure_credentials clock cs s = (Inr u, s')" "(token, p) \<in> set cs"
  shows "holds_token (pp_credential_ref p) (sha256_str token) s' \<and> \<not> blank token"
proof -
  from assms(1) have "configure_each clock 0 (map (\<lambda>(token, p). (p, sha256_str token)) cs) s = (Inr u, s')"
    "\<not> list_ex (\<lambda>(token, _). blank token) cs"
    by (auto simp: configure_credentials_def mutation_Inr outcome_Inr split: if_splits)
  with configure_each_holds [OF this(1)] assms(2) show ?thesis by (fastforce simp: list_ex_iff)
qed

lemma configure_credentials_Inl: "configure_credentials clock cs s = (Inl e, s') \<Longrightarrow> s' = s"
  by (auto simp: configure_credentials_def act_simps dest: mutation_Inl split: if_splits)

end
