(* ===== verification/Retry_Facts.thy ===== *)
theory Retry_Facts
  imports Key_Facts
begin

text \<open>
  Idempotent creation as an interface: an operation that binds its key to the digest of the request
  and the resource it made. Repeating it, however much later, gives the same resource and changes
  nothing; the same key with another request is refused. Endpoints, routes, drafts and API keys
  provide it.
\<close>

section \<open>The contract\<close>

locale idempotent_create =
  fixes create :: "'x \<Rightarrow> ('s, 'e, 'r) act"
    and digest :: "'x \<Rightarrow> string"
    and ident :: "'r \<Rightarrow> string"
    and binding :: "'s \<Rightarrow> (string \<times> string) option"
    and there :: "string \<Rightarrow> 's \<Rightarrow> bool"
    and ready :: "'x \<Rightarrow> 's \<Rightarrow> bool"
    and ok :: "'s \<Rightarrow> bool"
    and later :: "'s \<Rightarrow> 's \<Rightarrow> bool"
  assumes create_new: "ok s \<Longrightarrow> binding s = None \<Longrightarrow> create x s = (Inr r, s') \<Longrightarrow>
      binding s' = Some (digest x, ident r) \<and> there (ident r) s' \<and> ok s'"
    and create_bound: "ok s \<Longrightarrow> binding s = Some (d, i) \<Longrightarrow> create x s = (res, s') \<Longrightarrow>
      s' = s \<and> (\<forall>y. res = Inr y \<longrightarrow> d = digest x \<and> ident y = i \<and> there i s)"
    and create_replay: "ok s \<Longrightarrow> binding s = Some (digest x, i) \<Longrightarrow> there i s \<Longrightarrow> ready x s \<Longrightarrow>
      \<exists>y. fst (create x s) = Inr y"
    and later_keeps: "later s s' \<Longrightarrow> ok s \<Longrightarrow> binding s = Some b \<Longrightarrow> there i s \<Longrightarrow>
      ok s' \<and> binding s' = Some b \<and> there i s'"
begin

lemma created:
  assumes "ok s" "create x s = (Inr r, s1)"
  shows "binding s1 = Some (digest x, ident r) \<and> ok s1 \<and> there (ident r) s1"
proof (cases "binding s")
  case None
  from create_new [OF assms(1) None assms(2)] show ?thesis by blast
next
  case (Some b)
  obtain d i where b: "b = (d, i)" by fastforce
  from create_bound [OF assms(1) Some [unfolded b] assms(2)] Some assms(1) show ?thesis by (auto simp: b)
qed

text \<open>A retry returns the same resource and changes nothing.\<close>

lemma retry_same:
  assumes "ok s" "create x s = (Inr r, s1)" "later s1 s2" "create y s2 = (Inr r2, s3)"
  shows "ident r2 = ident r \<and> digest y = digest x \<and> s3 = s2"
proof -
  from created [OF assms(1,2)] have "binding s1 = Some (digest x, ident r)" "ok s1" "there (ident r) s1" by simp_all
  with later_keeps [OF assms(3)] have "ok s2" "binding s2 = Some (digest x, ident r)" by blast+
  from create_bound [OF this assms(4)] show ?thesis by auto
qed

text \<open>It does return, when its own checks pass.\<close>

lemma retry_returns:
  assumes "ok s" "create x s = (Inr r, s1)" "later s1 s2" "digest y = digest x" "ready y s2"
  shows "\<exists>r2. create y s2 = (Inr r2, s2) \<and> ident r2 = ident r"
proof -
  from created [OF assms(1,2)] have "binding s1 = Some (digest x, ident r)" "ok s1" "there (ident r) s1" by simp_all
  with later_keeps [OF assms(3)] have b: "ok s2" "binding s2 = Some (digest x, ident r)" "there (ident r) s2" by blast+
  from create_replay [OF b(1) _ b(3) assms(5)] b(2) assms(4) obtain r2 s3 where r2: "create y s2 = (Inr r2, s3)"
    by (metis fst_conv prod.collapse)
  from create_bound [OF b(1,2) r2] r2 show ?thesis by auto
qed

text \<open>The key is not reusable for another request.\<close>

lemma reuse_refused:
  assumes "ok s" "create x s = (Inr r, s1)" "later s1 s2" "digest y \<noteq> digest x" "create y s2 = (r2, s3)"
  shows "s3 = s2 \<and> (\<exists>e. r2 = Inl e)"
proof -
  from created [OF assms(1,2)] have "binding s1 = Some (digest x, ident r)" "ok s1" "there (ident r) s1" by simp_all
  with later_keeps [OF assms(3)] have "ok s2" "binding s2 = Some (digest x, ident r)" by blast+
  from create_bound [OF this assms(5)] assms(4) show ?thesis by (cases r2) auto
qed

end

section \<open>What later operations keep\<close>

text \<open>An invariant of the primitive writes is kept by every operation of the Product.\<close>

lemma perform_keeps:
  assumes "\<And>e. keeps I (save_endpoint e)" "\<And>r. keeps I (save_route r)" "\<And>r. keeps I (insert_route r)"
    and "\<And>r v. keeps I (replace_route_version r v)" "\<And>sc k d i. keeps I (insert_idempotency sc k d i)"
    and "\<And>t e. keeps I (configure_one t e)" "\<And>k d t. keeps I (insert_api_key k d t)" "\<And>i t. keeps I (revoke_api_key i t)"
    and "\<And>ref. keeps I (disable_credential ref)" "\<And>gs. keeps I (configure_workspace_endpoint_grants gs)"
    and "\<And>gs. keeps I (configure_workspace_reactor_endpoint_grants gs)" "\<And>q. keeps I (save_tenant_quota q)"
    and "\<And>m t. keeps I (begin_request m t)" "\<And>r t t2. keeps I (record_rejection r t t2)"
    and "\<And>m st u e t. keeps I (finish_request m st u e t)" and "I s"
  shows "I (perform op s)"
proof -
  have each: "keeps I (configure_each clock k es)" for clock k es
    by (induction es arbitrary: k) (simp_all add: keeps_store assms(6))
  have key: "keeps I (case x of (stored, created) \<Rightarrow> ret (f stored created))" for x :: "'a \<times> 'b" and f :: "'a \<Rightarrow> 'b \<Rightarrow> 'c"
    by (cases x) (simp add: keeps_simple)
  have lifted: "keeps I (mutation m)" if "keeps I m" for m :: "'a store_act"
    by (intro keeps_mutation keeps_weaken that)
  note steps = keeps_store keeps_needs lifted each key assms(1-15)
  show ?thesis
    by (cases op; simp only: perform.simps; rule keeps_snd [where I = I and s = s, OF _ assms(16)];
        (unfold create_endpoint_def publish_endpoint_def disable_endpoint_def create_route_def service_route_draft_def
          create_scoped_route_draft_def create_workspace_binding_route_draft_def create_route_draft_def edit_route_draft_def
          confirm_route_draft_def confirm_workspace_route_draft_def activate_def service_create_api_key_def create_api_key_def
          service_revoke_api_key_def configure_credentials_def remember_idempotency_def owned_draft_def owned_workspace_draft_def
          need_legacy_route_def owned_api_key_def Let_def)?;
        (intro steps; simp add: key split: prod.split)?)
qed

definition endpoint_there :: "string \<Rightarrow> exchange_store \<Rightarrow> bool" where
  "endpoint_there i s = (get_endpoint i s \<noteq> None)"

definition route_there :: "string \<Rightarrow> exchange_store \<Rightarrow> bool" where
  "route_there i s = (get_route i s \<noteq> None)"

definition key_there :: "string \<Rightarrow> exchange_store \<Rightarrow> bool" where
  "key_there i s = (\<exists>ref row. find_row ref (api_credentials s) = Some row \<and> cw_api_key_id row = Some i)"

lemmas write_defs =
  valid_def mutation_def act_simps db_read_def db_write_def save_endpoint_def save_route_def
  replace_route_version_def revoke_api_key_def disable_credential_def insert_route_def insert_idempotency_def
  configure_one_def insert_api_key_def configure_workspace_endpoint_grants_def
  configure_workspace_reactor_endpoint_grants_def save_tenant_quota_def begin_request_def record_rejection_def
  finish_request_def Let_def

lemma binding_step: "find_row k (idempotency s) = Some b \<Longrightarrow> find_row k (idempotency (perform op s)) = Some b"
  by (rule perform_keeps [of "\<lambda>s. find_row k (idempotency s) = Some b"])
     (auto simp: write_defs find_insert insert_row_def find_row_def split: option.splits prod.splits if_splits)

lemma endpoint_there_step: "endpoint_there i s \<Longrightarrow> endpoint_there i (perform op s)"
  by (rule perform_keeps [of "endpoint_there i"])
     (auto simp: write_defs endpoint_there_def get_endpoint_def find_replace split: option.splits prod.splits if_splits)

lemma route_there_step: "route_there i s \<Longrightarrow> route_there i (perform op s)"
  by (rule perform_keeps [of "route_there i"])
     (auto simp: write_defs route_there_def get_route_def find_replace find_insert find_update split: option.splits prod.splits if_splits)

lemma keepsI:
  "(\<And>s x s'. m s = (Inr x, s') \<Longrightarrow> I s \<Longrightarrow> I s') \<Longrightarrow> (\<And>s e s'. m s = (Inl e, s') \<Longrightarrow> I s \<Longrightarrow> I s') \<Longrightarrow> keeps I m"
  unfolding valid_def by (intro allI impI, case_tac "m w", case_tac a) auto

lemma keepsD: "keeps I m \<Longrightarrow> m s = (r, s') \<Longrightarrow> I s \<Longrightarrow> I s'"
  using keeps_snd by fastforce

lemma leaves_view: "leaves view m \<Longrightarrow> keeps (\<lambda>s. P (view s)) m"
proof (unfold valid_def, intro allI impI)
  fix s assume "leaves view m" "P (view s)"
  then have "P (view (snd (m s)))" by (simp add: leavesD)
  then show "case m s of (Inl x, s') \<Rightarrow> P (view s') | (Inr x, s') \<Rightarrow> P (view s')"
    by (cases "m s"; cases "fst (m s)") simp_all
qed

lemma leaves_credentials_keeps: "leaves api_credentials m \<Longrightarrow> keeps (key_there i) m"
  unfolding key_there_def by (rule leaves_view)

lemma key_there_step: "key_there i s \<Longrightarrow> key_there i (perform op s)"
proof (rule perform_keeps [of "key_there i"])
  have update: "key_there i (s\<lparr>api_credentials := update_row r f (api_credentials s)\<rparr>)"
    if "key_there i s" "\<And>v. cw_api_key_id (f v) = cw_api_key_id v" for r f s
  proof -
    from that(1) obtain ref row where "find_row ref (api_credentials s) = Some row" "cw_api_key_id row = Some i"
      by (auto simp: key_there_def)
    with that(2) have "find_row ref (update_row r f (api_credentials s)) = Some (if ref = r then f row else row)"
      "cw_api_key_id (if ref = r then f row else row) = Some i"
      by (cases "ref = r"; simp add: find_update)+
    then show ?thesis unfolding key_there_def by auto
  qed
  show "keeps (key_there i) (revoke_api_key j t)" "keeps (key_there i) (disable_credential ref)" for j t ref
    unfolding revoke_api_key_def disable_credential_def
    by (rule keeps_mutation; simp add: valid_def Let_def update split: option.split prod.split)+
  show "keeps (key_there i) (insert_api_key k d t)" for k d t
  proof -
    have "key_there i s'" if "insert_api_key k d t s = (Inr u, s')" "key_there i s" for s s' u
    proof -
      from that(2) obtain ref row where "find_row ref (api_credentials s) = Some row" "cw_api_key_id row = Some i"
        by (auto simp: key_there_def)
      with that(1) show ?thesis unfolding insert_api_key_Inr key_there_def
        by (intro exI [of _ ref] exI [of _ row]) (auto simp: find_row_append)
    qed
    moreover have "s' = s" if "insert_api_key k d t s = (Inl x, s')" for s s' x
      using that by (auto simp: insert_api_key_def split: option.splits if_splits)
    ultimately show ?thesis by (metis keepsI)
  qed
  show "keeps (key_there i) (configure_one t e)" for t e
  proof -
    obtain p d where e: "e = (p, d)" by fastforce
    have "key_there i s'" if "configure_one t (p, d) s = (Inr u, s')" "key_there i s" for s s' u
    proof -
      from that(2) obtain ref row where "find_row ref (api_credentials s) = Some row" "cw_api_key_id row = Some i"
        by (auto simp: key_there_def)
      then have "find_row ref (api_credentials s') = Some (if ref = pp_credential_ref p then configured_row p d t (Some row) else row)"
        "cw_api_key_id (if ref = pp_credential_ref p then configured_row p d t (Some row) else row) = Some i"
        by (auto simp: configure_one_Inr(1) [OF that(1)] configured_row_def)
      then show ?thesis unfolding key_there_def by blast
    qed
    moreover have "s' = s" if "configure_one t (p, d) s = (Inl x, s')" for s s' x
      using that by (auto simp: configure_one_def Let_def split: option.splits if_splits)
    ultimately show ?thesis unfolding e by (metis keepsI)
  qed
qed (simp_all add: leaves_credentials_keeps leaves_primitive)

definition after :: "exchange_store \<Rightarrow> exchange_store \<Rightarrow> bool" where
  "after s s' = (\<exists>ops. s' = performs ops s)"

lemma performs_keep: "(\<And>s op. I s \<Longrightarrow> I (perform op s)) \<Longrightarrow> I s \<Longrightarrow> I (performs ops s)"
  by (induction ops arbitrary: s) (simp_all add: performs_def)

lemma after_keeps:
  assumes "after s s'" "store_ok s" "find_row k (idempotency s) = Some b"
  shows "store_ok s' \<and> find_row k (idempotency s') = Some b"
    "endpoint_there i s \<Longrightarrow> endpoint_there i s'" "route_there i s \<Longrightarrow> route_there i s'" "key_there i s \<Longrightarrow> key_there i s'"
  using assms performs_keep [of "\<lambda>s. find_row k (idempotency s) = Some b"] performs_keep [of "endpoint_there i"]
    performs_keep [of "route_there i"] performs_keep [of "key_there i"]
  by (auto simp: after_def performs_ok binding_step endpoint_there_step route_there_step key_there_step)

section \<open>The operations provide the contract\<close>

lemma need_Inr: "need_endpoint i s = (Inr e, s') \<longleftrightarrow> get_endpoint i s = Some e \<and> s' = s"
  "need_route i s = (Inr r, s') \<longleftrightarrow> get_route i s = Some r \<and> s' = s"
  by (auto simp: need_endpoint_def need_route_def check_def split: option.splits)

lemma resolve_bound:
  assumes "find_row (sc, k) (idempotency s) = Some (d, i)"
  shows "resolve_idempotency sc (Some k) d' s = (if d = d' then Inr (Some i) else Inl idempotency_conflict)"
  using assms by (simp add: resolve_idempotency_def)

lemma resolve_free: "find_row (sc, k) (idempotency s) = None \<Longrightarrow> resolve_idempotency sc (Some k) d s = Inr None"
  by (simp add: resolve_idempotency_def)

text \<open>Every creation starts with its checks and the lookup of its key; replay needs the resource.\<close>

lemma endpoint_new:
  assumes "find_row (''create-endpoint'', key) (idempotency s) = None" "create_endpoint c b (Some key) i n s = (Inr r, s')"
  shows "find_row (''create-endpoint'', key) (idempotency s') = Some (request_hash b, ge_id r) \<and> endpoint_there (ge_id r) s'"
  using assms
  by (auto simp: create_endpoint_def bind_Inr_iff outcome_Inr resolve_free publish_endpoint_def Let_def save_endpoint_def
      remember_idempotency_def mutation_Inr insert_idempotency_Inr db_write_def find_row_append new_endpoint_def endpoint_there_def
      get_endpoint_def find_replace)

lemma endpoint_bound:
  assumes "store_ok s" "find_row (''create-endpoint'', key) (idempotency s) = Some (d, j)"
    and "create_endpoint c b (Some key) i n s = (res, s')"
  shows "s' = s \<and> (\<forall>y. res = Inr y \<longrightarrow> d = request_hash b \<and> ge_id y = j \<and> endpoint_there j s)"
  using assms rows_okD [OF store_okD(1) [OF assms(1)]]
  by (auto simp: create_endpoint_def check_def act_simps resolve_bound need_endpoint_def endpoint_there_def get_endpoint_def
      split: if_splits option.splits)

lemma endpoint_replay:
  "find_row (''create-endpoint'', key) (idempotency s) = Some (request_hash b, j) \<Longrightarrow> endpoint_there j s \<Longrightarrow>
   \<exists>y. fst (create_endpoint c b (Some key) i n s) = Inr y"
  by (auto simp: create_endpoint_def check_def act_simps resolve_bound need_endpoint_def endpoint_there_def get_endpoint_def)

interpretation endpoints: idempotent_create
  "\<lambda>(c, b, i, n). create_endpoint c b (Some key) i n" "\<lambda>(c, b, i, n). request_hash b" ge_id
  "\<lambda>s. find_row (''create-endpoint'', key) (idempotency s)" endpoint_there "\<lambda>_ _. True" store_ok after for key
proof (unfold_locales, goal_cases)
  case (1 s x r s')
  then show ?case by (cases x) (simp add: endpoint_new keepsD [OF keeps_service_routes(1)])
next
  case (2 s d i x res s')
  then show ?case by (cases x) (simp only: prod.case, rule endpoint_bound)
next
  case (3 s x i)
  then show ?case by (cases x) (simp add: endpoint_replay)
next
  case (4 s s' b i)
  then show ?case by (simp add: after_keeps)
qed

lemma route_new:
  assumes "find_row (''create-route'', key) (idempotency s) = None" "create_route c b (Some key) i n s = (Inr r, s')"
  shows "find_row (''create-route'', key) (idempotency s') = Some (request_hash b, gr_id r) \<and> route_there (gr_id r) s'"
  using assms
  by (auto simp: create_route_def bind_Inr_iff outcome_Inr resolve_free Let_def save_route_def need_Inr
      remember_idempotency_def mutation_Inr insert_idempotency_Inr db_write_def find_row_append new_route_def route_there_def
      get_route_def find_replace split: if_splits)

lemma route_bound:
  assumes "store_ok s" "find_row (''create-route'', key) (idempotency s) = Some (d, j)"
    and "create_route c b (Some key) i n s = (res, s')"
  shows "s' = s \<and> (\<forall>y. res = Inr y \<longrightarrow> d = request_hash b \<and> gr_id y = j \<and> route_there j s)"
  using assms get_route_stored(1) [OF assms(1)]
  by (auto simp: create_route_def check_def act_simps resolve_bound need_endpoint_def need_route_def route_there_def
      split: if_splits option.splits)

lemma route_replay:
  "find_row (''create-route'', key) (idempotency s) = Some (request_hash b, j) \<Longrightarrow> route_there j s \<Longrightarrow>
   endpoint_there (cr_endpoint_id c) s \<Longrightarrow> \<exists>y. fst (create_route c b (Some key) i n s) = Inr y"
  by (auto simp: create_route_def check_def act_simps resolve_bound need_endpoint_def need_route_def route_there_def endpoint_there_def)

interpretation routes: idempotent_create
  "\<lambda>(c, b, i, n). create_route c b (Some key) i n" "\<lambda>(c, b, i, n). request_hash b" gr_id
  "\<lambda>s. find_row (''create-route'', key) (idempotency s)" route_there "\<lambda>(c, b, i, n). endpoint_there (cr_endpoint_id c)"
  store_ok after for key
proof (unfold_locales, goal_cases)
  case (1 s x r s')
  then show ?case by (cases x) (simp add: route_new keepsD [OF keeps_service_routes(3)])
next
  case (2 s d i x res s')
  then show ?case by (cases x) (simp only: prod.case, rule route_bound)
next
  case (3 s x i)
  then show ?case by (cases x) (simp add: route_replay)
next
  case (4 s s' b i)
  then show ?case by (simp add: after_keeps)
qed

text \<open>Drafts: one transaction of the store under three sets of checks.\<close>

lemma draft_new:
  assumes "find_row (sc, key) (idempotency s) = None" "create_route_draft route key d sc src wb s = (Inr r, s')"
  shows "find_row (sc, key) (idempotency s') = Some (d, gr_id r) \<and> route_there (gr_id r) s'"
  using assms
  by (auto simp: create_route_draft_def mutation_Inr bind_Inr_iff outcome_Inr resolve_free insert_idempotency_Inr
      find_row_append insert_route_def route_there_def get_route_def find_insert split: option.splits if_splits)

lemma draft_bound:
  assumes "store_ok s" "find_row (sc, key) (idempotency s) = Some (d', j)" "create_route_draft route key d sc src wb s = (res, s')"
  shows "s' = s \<and> (\<forall>y. res = Inr y \<longrightarrow> d' = d \<and> gr_id y = j \<and> route_there j s)"
  using assms get_route_stored(1) [OF assms(1)]
  by (auto simp: create_route_draft_def mutation_def check_def act_simps resolve_bound db_read_def route_there_def
      split: if_splits option.splits sum.splits)

lemma draft_replay:
  "find_row (sc, key) (idempotency s) = Some (d, j) \<Longrightarrow> route_there j s \<Longrightarrow> check_draft_scope route src wb s = Inr () \<Longrightarrow>
   \<exists>y. fst (create_route_draft route key d sc src wb s) = Inr y"
  by (auto simp: create_route_draft_def mutation_def check_def act_simps resolve_bound db_read_def route_there_def)

definition organization_of :: "product_principal \<Rightarrow> string" where
  "organization_of p = or_default (pp_organization_id p) []"

definition legacy_draft_digest :: "product_principal \<Rightarrow> string \<Rightarrow> string" where
  "legacy_draft_digest p b = draft_digest b [pp_workspace_id p, pp_actor_id p]"

definition scoped_draft_digest :: "product_principal \<Rightarrow> string \<Rightarrow> string" where
  "scoped_draft_digest p b = draft_digest b [organization_of p, pp_workspace_id p, pp_actor_id p]"

lemma service_draft_facts:
  "find_row (''create-route-draft'', key) (idempotency s) = None \<Longrightarrow> service_route_draft c b key p i n s = (Inr r, s') \<Longrightarrow>
    find_row (''create-route-draft'', key) (idempotency s') = Some (legacy_draft_digest p b, gr_id r) \<and> route_there (gr_id r) s'"
  "store_ok s \<Longrightarrow> find_row (''create-route-draft'', key) (idempotency s) = Some (d, j) \<Longrightarrow> service_route_draft c b key p i n s = (res, s') \<Longrightarrow>
    s' = s \<and> (\<forall>y. res = Inr y \<longrightarrow> d = legacy_draft_digest p b \<and> gr_id y = j \<and> route_there j s)"
  "find_row (''create-route-draft'', key) (idempotency s) = Some (legacy_draft_digest p b, j) \<Longrightarrow> route_there j s \<Longrightarrow>
    endpoint_there (cr_endpoint_id c) s \<Longrightarrow> \<exists>y. fst (service_route_draft c b key p i n s) = Inr y"
proof -
  show "find_row (''create-route-draft'', key) (idempotency s) = None \<Longrightarrow> service_route_draft c b key p i n s = (Inr r, s') \<Longrightarrow>
    find_row (''create-route-draft'', key) (idempotency s') = Some (legacy_draft_digest p b, gr_id r) \<and> route_there (gr_id r) s'"
    by (auto simp: service_route_draft_def bind_Inr_iff need_Inr legacy_draft_digest_def dest: draft_new)
  assume a: "store_ok s" "find_row (''create-route-draft'', key) (idempotency s) = Some (d, j)" "service_route_draft c b key p i n s = (res, s')"
  then show "s' = s \<and> (\<forall>y. res = Inr y \<longrightarrow> d = legacy_draft_digest p b \<and> gr_id y = j \<and> route_there j s)"
    by (auto simp: service_route_draft_def need_endpoint_def check_def act_simps legacy_draft_digest_def
        split: option.splits dest: draft_bound)
next
  assume "find_row (''create-route-draft'', key) (idempotency s) = Some (legacy_draft_digest p b, j)" "route_there j s"
    "endpoint_there (cr_endpoint_id c) s"
  then show "\<exists>y. fst (service_route_draft c b key p i n s) = Inr y"
    by (auto simp: service_route_draft_def need_endpoint_def check_def act_simps legacy_draft_digest_def endpoint_there_def
        intro!: draft_replay simp: check_draft_scope_def new_draft_def new_route_def)
qed

interpretation legacy_drafts: idempotent_create
  "\<lambda>(c, b, i, n). service_route_draft c b key p i n" "\<lambda>(c, b, i, n). legacy_draft_digest p b" gr_id
  "\<lambda>s. find_row (''create-route-draft'', key) (idempotency s)" route_there "\<lambda>(c, b, i, n). endpoint_there (cr_endpoint_id c)"
  store_ok after for key p
proof (unfold_locales, goal_cases)
  case (1 s x r s')
  then show ?case by (cases x) (simp add: service_draft_facts(1) keepsD [OF keeps_service_routes(4)])
next
  case (2 s d i x res s')
  then show ?case by (cases x) (simp only: prod.case, rule service_draft_facts(2))
next
  case (3 s x i)
  then show ?case by (cases x) (simp add: service_draft_facts(3))
next
  case (4 s s' b i)
  then show ?case by (simp add: after_keeps)
qed

definition scoped_scope :: "product_principal \<Rightarrow> string" where
  "scoped_scope p = ''create-route-draft:v1:'' @ scope_digest (organization_of p) (pp_workspace_id p)"

definition scoped_ready :: "product_principal \<Rightarrow> create_route_draft_request \<Rightarrow> uuid \<Rightarrow> uuid \<Rightarrow> int \<Rightarrow> exchange_store \<Rightarrow> bool" where
  "scoped_ready p c src i n s = (pp_organization_id p \<noteq> None \<and>
     check_draft_scope (new_draft (create_route_request.truncate c) (Some (cd_source c)) p (pp_organization_id p) i n) (Some src) False s = Inr ())"

lemma scoped_draft_facts:
  "find_row (scoped_scope p, key) (idempotency s) = None \<Longrightarrow> create_scoped_route_draft c b key p src i n s = (Inr r, s') \<Longrightarrow>
    find_row (scoped_scope p, key) (idempotency s') = Some (scoped_draft_digest p b, gr_id r) \<and> route_there (gr_id r) s'"
  "store_ok s \<Longrightarrow> find_row (scoped_scope p, key) (idempotency s) = Some (d, j) \<Longrightarrow>
    create_scoped_route_draft c b key p src i n s = (res, s') \<Longrightarrow>
    s' = s \<and> (\<forall>y. res = Inr y \<longrightarrow> d = scoped_draft_digest p b \<and> gr_id y = j \<and> route_there j s)"
  "find_row (scoped_scope p, key) (idempotency s) = Some (scoped_draft_digest p b, j) \<Longrightarrow> route_there j s \<Longrightarrow>
    scoped_ready p c src i n s \<Longrightarrow> \<exists>y. fst (create_scoped_route_draft c b key p src i n s) = Inr y"
  by (auto simp: create_scoped_route_draft_def scoped_scope_def organization_of_def or_default_def scoped_draft_digest_def
      scoped_ready_def act_simps split: option.splits intro: draft_replay dest: draft_bound draft_new)

interpretation scoped_drafts: idempotent_create
  "\<lambda>(c, b, src, i, n). create_scoped_route_draft c b key p src i n" "\<lambda>(c, b, src, i, n). scoped_draft_digest p b" gr_id
  "\<lambda>s. find_row (scoped_scope p, key) (idempotency s)" route_there "\<lambda>(c, b, src, i, n). scoped_ready p c src i n"
  store_ok after for key p
proof (unfold_locales, goal_cases)
  case (1 s x r s')
  then show ?case by (cases x) (simp add: scoped_draft_facts(1) keepsD [OF keeps_service_routes(5)])
next
  case (2 s d i x res s')
  then show ?case by (cases x) (simp only: prod.case, rule scoped_draft_facts(2))
next
  case (3 s x i)
  then show ?case by (cases x) (simp add: scoped_draft_facts(3))
next
  case (4 s s' b i)
  then show ?case by (simp add: after_keeps)
qed

text \<open>API keys, in one transaction.\<close>

lemma key_new:
  assumes "find_row (api_key_scope p, key) (idempotency s) = None"
    "service_create_api_key c b p (Some key) i rnd n ms s = (Inr r, s')"
  shows "find_row (api_key_scope p, key) (idempotency s') = Some (api_key_digest b p, ak_id (fst r)) \<and> key_there (ak_id (fst r)) s'"
proof -
  obtain k secret created where r: "r = (k, secret, created)" by (cases r)
  note f = service_create_api_key_Inr [OF assms(2) [unfolded r]]
  have i: "ak_id (new_api_key c p i n) = i" by (simp add: new_api_key_def)
  with f create_api_key_Inr [of "new_api_key c p i n" "sha256_str (''cyk_'' @ rnd)" "Some key" "api_key_digest b p" "api_key_scope p" ms s k created s'] assms(1)
  have created: "created \<and> k = new_api_key c p i n \<and> bound (api_key_scope p) (Some key) (api_key_digest b p) i s' \<and>
      api_credentials s' = api_credentials s @ [(ak_credential_ref k, api_key_row k (sha256_str (''cyk_'' @ rnd)) ms)] \<and>
      find_row (ak_credential_ref k) (api_credentials s) = None"
    by (cases created) (auto simp: bound_def)
  then have "api_credentials s' = api_credentials s @ [(ak_credential_ref k, api_key_row k (sha256_str (''cyk_'' @ rnd)) ms)]"
    "find_row (ak_credential_ref k) (api_credentials s) = None" by blast+
  then have "find_row (ak_credential_ref k) (api_credentials s') = Some (api_key_row k (sha256_str (''cyk_'' @ rnd)) ms)"
    by (simp only: find_row_append option.case if_True refl)
  moreover have "cw_api_key_id (api_key_row k d ms) = Some (ak_id k)" "created \<Longrightarrow> ak_id k = i" for d
    using created i by (simp_all add: api_key_row_def)
  ultimately show ?thesis using created unfolding key_there_def bound_def by (auto simp: r)
qed

lemma service_key_run:
  assumes "resolve_idempotency (api_key_scope p) (Some key) (api_key_digest b p) s = Inr (Some j)"
  shows "service_create_api_key c b p (Some key) i rnd n ms s =
    (case check_api_key_command c n of Inl e \<Rightarrow> (Inl e, s)
     | Inr u \<Rightarrow> (case get_api_key j s of
         None \<Rightarrow> (Inl (ProductRuntimeError ''api-key idempotency points to an absent key''), s)
       | Some k \<Rightarrow> (Inr (k, None, False), s)))"
  using assms by (auto simp: service_create_api_key_def create_api_key_def Let_def act_simps check_def db_read_def mutation_def
      split: sum.splits option.splits)

lemma service_key_refused:
  assumes "resolve_idempotency (api_key_scope p) (Some key) (api_key_digest b p) s = Inl e"
  shows "\<exists>e'. service_create_api_key c b p (Some key) i rnd n ms s = (Inl e', s)"
  using assms by (auto simp: service_create_api_key_def create_api_key_def Let_def act_simps check_def mutation_def
      split: sum.splits)

lemma get_key_there:
  assumes "store_ok s"
  shows "get_api_key j s = Some k \<Longrightarrow> ak_id k = j \<and> key_there j s" "key_there j s \<Longrightarrow> \<exists>k. get_api_key j s = Some k"
  by (auto simp: get_api_key_iff [OF assms] key_there_def api_key_from_row_def or_default_def)

lemma key_bound:
  assumes "store_ok s" "find_row (api_key_scope p, key) (idempotency s) = Some (d, j)"
    "service_create_api_key c b p (Some key) i rnd n ms s = (res, s')"
  shows "s' = s \<and> (\<forall>y. res = Inr y \<longrightarrow> d = api_key_digest b p \<and> ak_id (fst y) = j \<and> key_there j s)"
proof (cases "d = api_key_digest b p")
  case True
  with assms(2) have "resolve_idempotency (api_key_scope p) (Some key) (api_key_digest b p) s = Inr (Some j)"
    by (simp add: resolve_bound)
  from service_key_run [OF this, of c i rnd n ms] assms(3) True get_key_there(1) [OF assms(1)] show ?thesis
    by (auto split: sum.splits option.splits)
next
  case False
  with assms(2) have "resolve_idempotency (api_key_scope p) (Some key) (api_key_digest b p) s = Inl idempotency_conflict"
    by (simp add: resolve_bound)
  from service_key_refused [OF this, of c i rnd n ms] assms(3) show ?thesis by auto
qed

lemma key_replay:
  assumes "store_ok s" "find_row (api_key_scope p, key) (idempotency s) = Some (api_key_digest b p, j)" "key_there j s"
    and "check_api_key_command c n = Inr ()"
  shows "\<exists>y. fst (service_create_api_key c b p (Some key) i rnd n ms s) = Inr y"
proof -
  have "resolve_idempotency (api_key_scope p) (Some key) (api_key_digest b p) s = Inr (Some j)"
    using assms(2) by (simp add: resolve_bound)
  from service_key_run [OF this, of c i rnd n ms] get_key_there(2) [OF assms(1,3)] assms(4) show ?thesis by auto
qed

interpretation api_keys: idempotent_create
  "\<lambda>(c, b, i, rnd, n, ms). service_create_api_key c b p (Some key) i rnd n ms" "\<lambda>(c, b, i, rnd, n, ms). api_key_digest b p"
  "ak_id \<circ> fst" "\<lambda>s. find_row (api_key_scope p, key) (idempotency s)" key_there
  "\<lambda>(c, b, i, rnd, n, ms) s. check_api_key_command c n = Inr ()" store_ok after for key p
proof (unfold_locales, goal_cases)
  case (1 s x r s')
  then show ?case by (cases x) (simp add: key_new keepsD [OF keeps_api_keys(2)])
next
  case (2 s d i x res s')
  then show ?case by (cases x) (simp only: prod.case o_def, rule key_bound)
next
  case (3 s x i)
  obtain c b j rnd n ms where "x = (c, b, j, rnd, n, ms)" by (cases x)
  with key_replay [of s p key b i c n j rnd ms] 3 show ?case by simp
next
  case (4 s s' b i)
  then show ?case by (simp add: after_keeps)
qed

section \<open>Retries\<close>

text \<open>What the contract gives, for the operations themselves.\<close>

lemma endpoint_retry:
  assumes "store_ok s" "create_endpoint c b (Some key) i n s = (Inr e, s1)" "after s1 s2"
  shows "\<exists>e2. create_endpoint c' b (Some key) i' n' s2 = (Inr e2, s2) \<and> ge_id e2 = ge_id e"
  using endpoints.retry_returns [of s key "(c, b, i, n)" e s1 s2 "(c', b, i', n')"] assms by simp

lemma key_retry:
  assumes "store_ok s" "service_create_api_key c b p (Some key) i rnd n ms s = (Inr (k, secret, True), s1)" "after s1 s2"
    and "check_api_key_command c' n' = Inr ()"
  shows "\<exists>k2. service_create_api_key c' b p (Some key) i' rnd' n' ms' s2 = (Inr (k2, None, False), s2) \<and> ak_id k2 = ak_id k"
proof -
  let ?x = "(c, b, i, rnd, n, ms)"
  from api_keys.created [of s p key ?x "(k, secret, True)" s1] assms(1,2)
  have b: "find_row (api_key_scope p, key) (idempotency s1) = Some (api_key_digest b p, ak_id k)" "store_ok s1" "key_there (ak_id k) s1"
    by simp_all
  from after_keeps [OF assms(3) b(2,1)] b(3) have b2: "find_row (api_key_scope p, key) (idempotency s2) = Some (api_key_digest b p, ak_id k)"
    "store_ok s2" "key_there (ak_id k) s2" by simp_all
  from b2(1) have "resolve_idempotency (api_key_scope p) (Some key) (api_key_digest b p) s2 = Inr (Some (ak_id k))"
    by (simp add: resolve_bound)
  note run = service_key_run [OF this, of c' i' rnd' n' ms']
  from get_key_there(2) [OF b2(2,3)] obtain k2 where k2: "get_api_key (ak_id k) s2 = Some k2" by blast
  from get_key_there(1) [OF b2(2) this] run assms(4) k2 show ?thesis by simp
qed

section \<open>Two creations at once\<close>

text \<open>
  The lookup and the publication of an endpoint are separate transactions: a creation whose lookup
  ran before a concurrent one bound the key still saves its endpoint, and then fails.
\<close>

lemma publish_raced:
  assumes "find_row (''create-endpoint'', key) (idempotency s) = Some b"
  shows "publish_endpoint c body (Some key) i n s =
    (Inl (constraint ''UNIQUE''), s\<lparr>gateway_endpoints := replace_row i (new_endpoint c i n) (gateway_endpoints s)\<rparr>)"
  using assms
  by (auto simp: publish_endpoint_def Let_def save_endpoint_def remember_idempotency_def mutation_def insert_idempotency_def
      act_simps db_write_def insert_row_None new_endpoint_def split: option.split)

end
