(* ===== verification/Web.thy ===== *)
theory Web
  imports Domain
begin

text \<open>
  What the HTTP-facing components use of the standard library: \<open>repr\<close> and \<open>int\<close> of text, \<open>UUID\<close>,
  \<open>urllib.parse.urlsplit\<close> (Python 3.12) with the IPv6 literals it admits, and the outcome of
  \<open>json.loads\<close>.
\<close>

section \<open>Text\<close>

definition split_first :: "char \<Rightarrow> string \<Rightarrow> string \<times> string \<times> string" where
  "split_first c s = (case dropWhile (\<lambda>x. x \<noteq> c) s of
     [] \<Rightarrow> (s, [], [])
   | _ # rest \<Rightarrow> (takeWhile (\<lambda>x. x \<noteq> c) s, [c], rest))"

definition split_last :: "char \<Rightarrow> string \<Rightarrow> string \<times> string \<times> string" where
  "split_last c s = (case dropWhile (\<lambda>x. x \<noteq> c) (rev s) of
     [] \<Rightarrow> ([], [], s)
   | _ # front \<Rightarrow> (rev front, [c], rev (takeWhile (\<lambda>x. x \<noteq> c) (rev s))))"

fun split_all :: "char \<Rightarrow> string \<Rightarrow> string list" where
  "split_all c [] = [[]]"
| "split_all c (x # s) =
     (if x = c then [] # split_all c s
      else (case split_all c s of [] \<Rightarrow> [[x]] | w # ws \<Rightarrow> (x # w) # ws))"

text \<open>\<open>repr\<close> of a string over the code points 0 to 255.\<close>

definition lower_hex :: "nat \<Rightarrow> char" where
  "lower_hex n = char_of (if n < 10 then 48 + n else 87 + n)"

definition repr_char :: "char \<Rightarrow> char \<Rightarrow> string" where
  "repr_char q c =
     (let n = code c; backslash = char_of (92 :: nat) in
      if c = q \<or> n = 92 then [backslash, c]
      else if n = 9 then [backslash, CHR ''t''] else if n = 10 then [backslash, CHR ''n'']
      else if n = 13 then [backslash, CHR ''r'']
      else if n < 32 \<or> 127 \<le> n \<and> n \<le> 160 \<or> n = 173
      then [backslash, CHR ''x'', lower_hex (n div 16), lower_hex (n mod 16)] else [c])"

definition py_repr :: "string \<Rightarrow> string" where
  "py_repr s =
     (let apostrophe = char_of (39 :: nat); quotes = char_of (34 :: nat);
          q = (if apostrophe \<in> set s \<and> quotes \<notin> set s then quotes else apostrophe)
      in [q] @ concat (map (repr_char q) s) @ [q])"

section \<open>Numbers\<close>

definition digit_value :: "char \<Rightarrow> nat option" where
  "digit_value c = (let n = code c in
     if n \<in> {48..57} then Some (n - 48) else if n \<in> {97..122} then Some (n - 87)
     else if n \<in> {65..90} then Some (n - 55) else None)"

text \<open>Digits of a base, with single underscores between them; the flag says that one may come next.\<close>

fun digit_text :: "nat \<Rightarrow> bool \<Rightarrow> string \<Rightarrow> string option" where
  "digit_text b us [] = (if us then Some [] else None)"
| "digit_text b us (c # s) =
     (if c = CHR ''_'' then (if us then digit_text b False s else None)
      else (case digit_value c of
              Some d \<Rightarrow> if d < b then map_option ((#) c) (digit_text b True s) else None
            | None \<Rightarrow> None))"

definition digits_value :: "string \<Rightarrow> nat" where
  "digits_value s = foldl (\<lambda>n c. 10 * n + (code c - 48)) 0 s"

definition signed_text :: "string \<Rightarrow> int \<times> string" where
  "signed_text s = (case s of
     c # rest \<Rightarrow> if c = CHR ''-'' then (-1, rest) else if c = CHR ''+'' then (1, rest) else (1, s)
   | [] \<Rightarrow> (1, s))"

text \<open>\<open>int(s)\<close>, limited to 4300 digits.\<close>

definition py_int :: "string \<Rightarrow> py_exc + int" where
  "py_int s =
     (case signed_text (strip s) of (sign, body) \<Rightarrow>
        (let count = length (filter (\<lambda>c. c \<noteq> CHR ''_'') (takeWhile (\<lambda>c. code c \<in> {48..57} \<or> c = CHR ''_'') body)) in
         if count > 4300
         then Inl (ValueError (''Exceeds the limit (4300 digits) for integer string conversion: value has '' @
                nat_str count @ '' digits; use sys.set_int_max_str_digits() to increase the limit''))
         else
           (case digit_text 10 False body of
              None \<Rightarrow> Inl (ValueError (''invalid literal for int() with base 10: '' @ py_repr s))
            | Some ds \<Rightarrow> Inr (sign * int (digits_value ds)))))"

section \<open>UUIDs\<close>

fun remove_all :: "string \<Rightarrow> nat \<Rightarrow> string \<Rightarrow> string" where
  "remove_all p k [] = []"
| "remove_all p (Suc k) (c # s) = remove_all p k s"
| "remove_all p 0 (c # s) = (if starts_with p (c # s) then remove_all p (length p - 1) s else c # remove_all p 0 s)"

definition strip_chars :: "char list \<Rightarrow> string \<Rightarrow> string" where
  "strip_chars cs s = rev (dropWhile (\<lambda>c. c \<in> set cs) (rev (dropWhile (\<lambda>c. c \<in> set cs) s)))"

text \<open>\<open>int(s, 16)\<close> as the digits of its value: \<open>0x\<close> and one underscore after it are skipped.\<close>

definition after_prefix :: "string \<Rightarrow> string" where
  "after_prefix s =
     (case s of
        z # x # rest \<Rightarrow>
          if z = CHR ''0'' \<and> (x = CHR ''x'' \<or> x = CHR ''X'')
          then (case rest of u # rest' \<Rightarrow> if u = CHR ''_'' then rest' else rest | [] \<Rightarrow> rest)
          else s
      | _ \<Rightarrow> s)"

definition hex_int_text :: "string \<Rightarrow> string option" where
  "hex_int_text s =
     (case signed_text (strip s) of (sign, body) \<Rightarrow>
        (case digit_text 16 False (after_prefix body) of
           None \<Rightarrow> None
         | Some ds \<Rightarrow> if sign < 0 \<and> \<not> list_all (\<lambda>c. c = CHR ''0'') ds then None else Some (lower ds)))"

definition uuid_str :: "string \<Rightarrow> uuid" where
  "uuid_str digits = (let h = replicate (32 - length digits) CHR ''0'' @ digits in
     take 8 h @ ''-'' @ take 4 (drop 8 h) @ ''-'' @ take 4 (drop 12 h) @ ''-'' @ take 4 (drop 16 h) @ ''-'' @ drop 20 h)"

text \<open>\<open>str(UUID(s))\<close>: the canonical text of what the constructor accepts.\<close>

definition parse_uuid :: "string \<Rightarrow> uuid option" where
  "parse_uuid s =
     (let h = filter (\<lambda>c. c \<noteq> CHR ''-'') (strip_chars ''{}'' (remove_all ''uuid:'' 0 (remove_all ''urn:'' 0 s))) in
      if length h \<noteq> 32 then None else map_option uuid_str (hex_int_text h))"

text \<open>\<open>str(v)\<close> of a JSON value, where it can be an identifier: text or an integer.\<close>

definition id_text :: "pyval \<Rightarrow> string option" where
  "id_text v = (case v of PStr s \<Rightarrow> Some s | PInt n \<Rightarrow> Some (int_str n) | _ \<Rightarrow> None)"

definition uuid_value :: "pyval \<Rightarrow> uuid option" where
  "uuid_value v = (case id_text v of None \<Rightarrow> None | Some s \<Rightarrow> parse_uuid s)"

text \<open>\<open>v == n\<close> for an integer: booleans and integral floats compare equal to it.\<close>

definition equals_int :: "pyval \<Rightarrow> int \<Rightarrow> bool" where
  "equals_int v n = (case v of
     PInt i \<Rightarrow> i = n | PBool b \<Rightarrow> n = of_bool b | PFloat (Flt q) \<Rightarrow> q = of_int n | _ \<Rightarrow> False)"

section \<open>URLs\<close>

definition ipv4_octet :: "string \<Rightarrow> bool" where
  "ipv4_octet s = (s \<noteq> [] \<and> length s \<le> 3 \<and> list_all (\<lambda>c. code c \<in> {48..57}) s \<and>
     (length s = 1 \<or> hd s \<noteq> CHR ''0'') \<and> digits_value s \<le> 255)"

definition ipv4 :: "string \<Rightarrow> bool" where
  "ipv4 s = (let os = split_all (CHR ''.'') s in length os = 4 \<and> list_all ipv4_octet os)"

definition hextet :: "string \<Rightarrow> bool" where
  "hextet s = (s \<noteq> [] \<and> length s \<le> 4 \<and> list_all (\<lambda>c. case digit_value c of Some d \<Rightarrow> d < 16 | None \<Rightarrow> False) s)"

text \<open>The parts of an IPv6 address; an IPv4 tail counts as two hextets.\<close>

definition ipv6_parts :: "string \<Rightarrow> string list option" where
  "ipv6_parts s =
     (let ps = split_all (CHR '':'') s in
      if length ps < 3 then None
      else if CHR ''.'' \<in> set (last ps) then (if ipv4 (last ps) then Some (butlast ps @ [''0'', ''0'']) else None)
      else Some ps)"

definition ipv6_groups :: "string list \<Rightarrow> bool" where
  "ipv6_groups ps =
     (let inner = filter (\<lambda>i. ps ! i = []) [1..<length ps - 1] in
      length ps \<le> 9 \<and>
      (case inner of
         [] \<Rightarrow> length ps = 8 \<and> list_all hextet ps
       | [k] \<Rightarrow>
           (let hi = (if hd ps = [] then k - 1 else k); lo = (if last ps = [] then length ps - k - 2 else length ps - k - 1) in
            (hd ps = [] \<longrightarrow> hi = 0) \<and> (last ps = [] \<longrightarrow> lo = 0) \<and> hi + lo < 8 \<and>
            list_all hextet (take hi ps) \<and> list_all hextet (drop (length ps - lo) ps))
       | _ \<Rightarrow> False))"

definition ipv6 :: "string \<Rightarrow> bool" where
  "ipv6 s =
     (case split_first (CHR ''%'') s of (address, percent, zone) \<Rightarrow>
        (percent = [] \<or> zone \<noteq> [] \<and> CHR ''%'' \<notin> set zone) \<and>
        (case ipv6_parts address of None \<Rightarrow> False | Some ps \<Rightarrow> ipv6_groups ps))"

definition future_literal :: "string \<Rightarrow> bool" where
  "future_literal s = (case split_first (CHR ''.'') (tl s) of (v, dot, rest) \<Rightarrow>
     v \<noteq> [] \<and> list_all (\<lambda>c. case digit_value c of Some d \<Rightarrow> d < 16 | None \<Rightarrow> False) v \<and> dot \<noteq> [] \<and> rest \<noteq> [] \<and>
     CHR 0x0A \<notin> set rest)"

definition bracketed_host :: "string \<Rightarrow> bool" where
  "bracketed_host h = (if starts_with ''v'' h then future_literal h else ipv6 h)"

record split_url =
  su_scheme :: string
  su_netloc :: string
  su_path :: string
  su_query :: string
  su_fragment :: string

definition scheme_char :: "char \<Rightarrow> bool" where
  "scheme_char c = (let n = code c in n \<in> {48..57} \<or> n \<in> {65..90} \<or> n \<in> {97..122} \<or> n \<in> {43, 45, 46})"

definition url_scheme :: "string \<Rightarrow> string \<times> string" where
  "url_scheme u = (case split_first (CHR '':'') u of (front, colon, rest) \<Rightarrow>
     if colon \<noteq> [] \<and> front \<noteq> [] \<and> (code (hd front) \<in> {65..90} \<or> code (hd front) \<in> {97..122}) \<and> list_all scheme_char front
     then (lower front, rest) else ([], u))"

definition netloc_ok :: "string \<Rightarrow> bool" where
  "netloc_ok netloc =
     ((CHR ''['' \<in> set netloc \<longleftrightarrow> CHR '']'' \<in> set netloc) \<and>
      (CHR ''['' \<in> set netloc \<longrightarrow>
        (case split_last (CHR ''@'') netloc of (_, _, host_port) \<Rightarrow>
           (case split_first (CHR ''['') host_port of (before, opening, bracketed) \<Rightarrow>
              if opening \<noteq> []
              then before = [] \<and> (case split_first (CHR '']'') bracketed of (host, _, port) \<Rightarrow>
                     (port = [] \<or> hd port = CHR '':'') \<and> bracketed_host host)
              else bracketed_host (fst (split_first (CHR '':'') host_port))))))"

definition urlsplit :: "string \<Rightarrow> py_exc + split_url" where
  "urlsplit url =
     (let u = filter (\<lambda>c. code c \<notin> {9, 10, 13}) (dropWhile (\<lambda>c. code c \<le> 32) url) in
      case url_scheme u of (scheme, rest) \<Rightarrow>
        (let has_netloc = starts_with ''//'' rest;
             delim = (\<lambda>c. c = CHR ''/'' \<or> c = CHR ''?'' \<or> c = CHR ''#'');
             netloc = (if has_netloc then takeWhile (\<lambda>c. \<not> delim c) (drop 2 rest) else []);
             tail1 = (if has_netloc then dropWhile (\<lambda>c. \<not> delim c) (drop 2 rest) else rest)
         in if \<not> netloc_ok netloc then Inl (ValueError ''Invalid IPv6 URL'')
            else (case split_first (CHR ''#'') tail1 of (tail2, _, fragment) \<Rightarrow>
                  case split_first (CHR ''?'') tail2 of (path, _, query) \<Rightarrow>
                    Inr \<lparr>su_scheme = scheme, su_netloc = netloc, su_path = path, su_query = query, su_fragment = fragment\<rparr>)))"

section \<open>JSON\<close>

text \<open>\<open>json.loads\<close>: a value, a \<open>ValueError\<close>, or the \<open>RecursionError\<close> of a document nested too deeply.\<close>

datatype json_outcome = JsonValue pyval | JsonInvalid string | JsonTooDeep

end
