(* ===== verification/Gateway_Env.thy ===== *)
theory Gateway_Env
  imports Gateway_Core
begin

text \<open>
  What \<open>ExchangeGateway\<close> holds and calls: the collaborators behind its constructor arguments, the
  cancellation event, and the calls that touch them (\<open>_authenticate\<close>, \<open>_observe_*\<close>,
  \<open>_request_for_routing\<close>, \<open>_resolve_media_artifacts\<close>).

  Collaborators that live outside the repository (the Platform resolver with its routers and
  providers, the media store) are functions: what a call returns or raises. A provider's iterator
  is the list of chunks it yields and how it ends. The cancellation event can be set by another
  thread at any moment, so \<open>gw_cancelled\<close> gives the answer of every single \<open>is_set()\<close> call.
\<close>

section \<open>Collaborators\<close>

record media_artifact =
  art_mime_type :: string
  art_data :: bytes
  art_sha256 :: string
  art_size :: int

datatype stream_end = Exhausted | Raises gw_exn

type_synonym chunk_stream = "provider_chunk list \<times> stream_end"

record provider =
  p_complete :: "(inference_request \<Rightarrow> gw_exn + chunk_stream) option"
  p_embed :: "(embedding_request \<Rightarrow> gw_exn + embedding_batch option) option"

datatype routed_request = RoutedChat inference_request | RoutedEmbedding embedding_request

record router =
  rt_plan :: "(routed_request \<Rightarrow> gw_exn + route_target list) option"
  rt_plan_for_principal :: "(routed_request \<Rightarrow> request_principal \<Rightarrow> gw_exn + route_target list) option"

record 's gateway =
  gw_principal_resolver :: "string \<Rightarrow> gw_exn + request_principal option"
  gw_observer :: "'s observer"
  gw_quota_checker :: "(request_principal \<Rightarrow> gw_exn + unit) option"
  gw_media_resolver :: "(string \<Rightarrow> request_principal \<Rightarrow> gw_exn + media_artifact option) option"
  gw_max_attempts :: nat
  gw_resolve_router :: "gw_exn + router"
  gw_resolve_provider :: "nat \<Rightarrow> string \<Rightarrow> gw_exn + provider"
  gw_cancelled :: "nat \<Rightarrow> bool"
  gw_clock :: "nat \<Rightarrow> int"

text \<open>The checks of \<open>ExchangeGateway.__init__\<close>.\<close>

definition check_gateway :: "int \<Rightarrow> bool \<Rightarrow> bool \<Rightarrow> bool \<Rightarrow> py_exc + unit" where
  "check_gateway max_attempts has_resolver has_observer allow_multiple =
     rbind (guard (0 < max_attempts) (ValueError ''max_route_attempts must be positive'')) (\<lambda>_.
     rbind (guard has_resolver (ValueError ''principal_resolver is required'')) (\<lambda>_.
     rbind (guard has_observer (ValueError ''lifecycle_observer is required'')) (\<lambda>_.
     guard (max_attempts = 1 \<or> allow_multiple)
       (ValueError ''V1 request auditing requires one provider attempt per request''))))"

text \<open>
  The state a request runs in: the observer's own state, how often the cancellation event has been
  read, and the calls that left the gateway, oldest first.
\<close>

datatype outcall =
    ProviderCalled string inference_request
  | EmbedCalled string embedding_request
  | MediaRead string

record 's world =
  obs :: 's
  polls :: nat
  outcalls :: "outcall list"

type_synonym ('s, 'a) gw_act = "('s world, gw_exn, 'a) act"

definition poll :: "'s gateway \<Rightarrow> ('s, bool) gw_act" where
  "poll gw = (\<lambda>w. (Inr (gw_cancelled gw (polls w)), w\<lparr>polls := Suc (polls w)\<rparr>))"

definition call_out :: "outcall \<Rightarrow> ('s, unit) gw_act" where
  "call_out c = (\<lambda>w. (Inr (), w\<lparr>outcalls := outcalls w @ [c]\<rparr>))"

text \<open>\<open>_observe_started\<close>, \<open>_observe_finished\<close>, \<open>_observe_rejected\<close>: any other exception becomes a lifecycle error.\<close>

definition observe :: "string \<Rightarrow> ('s, gw_exn, unit) act \<Rightarrow> ('s, unit) gw_act" where
  "observe what m = (\<lambda>w. case m (obs w) of (r, s) \<Rightarrow>
     (case r of
        Inr u \<Rightarrow> (Inr (), w\<lparr>obs := s\<rparr>)
      | Inl e \<Rightarrow>
          (case e of
             GatewayLifecycleError msg \<Rightarrow> (Inl e, w\<lparr>obs := s\<rparr>)
           | _ \<Rightarrow> (Inl (GatewayLifecycleError (''request '' @ what @ '' persistence failed: '' @ exn_text e)), w\<lparr>obs := s\<rparr>))))"

definition observe_started :: "'s gateway \<Rightarrow> request_metadata \<Rightarrow> ('s, unit) gw_act" where
  "observe_started gw metadata = observe ''admission'' (on_started (gw_observer gw) metadata)"

definition observe_finished ::
  "'s gateway \<Rightarrow> request_metadata \<Rightarrow> terminal_status \<Rightarrow> provider_usage option \<Rightarrow> string option \<Rightarrow> ('s, unit) gw_act" where
  "observe_finished gw metadata status usage err =
     observe ''terminal'' (on_finished (gw_observer gw) metadata status usage err)"

definition observe_rejected :: "'s gateway \<Rightarrow> request_rejection \<Rightarrow> ('s, unit) gw_act" where
  "observe_rejected gw rejection = observe ''rejection'' (on_rejected (gw_observer gw) rejection)"

section \<open>Authentication\<close>

definition header_value :: "string \<Rightarrow> (string \<times> string) list \<Rightarrow> string option" where
  "header_value name headers = first_some (\<lambda>(k, v). if lower k = name then Some v else None) headers"

definition authenticate :: "'s gateway \<Rightarrow> (string \<times> string) list \<Rightarrow> gw_exn + request_principal" where
  "authenticate gw headers =
     (case header_value ''authorization'' headers of
        None \<Rightarrow> Inl (AuthenticationError ''Authorization must use a Bearer token'')
      | Some authorization \<Rightarrow>
          if \<not> starts_with ''Bearer '' authorization
          then Inl (AuthenticationError ''Authorization must use a Bearer token'')
          else
            (let token = strip (drop 7 authorization) in
             if token = [] then Inl (AuthenticationError ''Bearer token is empty'')
             else (case gw_principal_resolver gw token of
                     Inr (Some p) \<Rightarrow> Inr p
                   | _ \<Rightarrow> Inl (AuthenticationError ''invalid credentials''))))"

text \<open>\<open>_payload_model\<close> and \<open>_payload_stream\<close>: a payload that is no mapping has no \<open>get\<close>.\<close>

definition payload_model :: "pyval \<Rightarrow> gw_exn + string option" where
  "payload_model payload =
     rbind (need_dict payload (OtherError ''AttributeError'' ''object has no attribute get'' None)) (\<lambda>p.
     Inr (case dget p ''model'' of PStr s \<Rightarrow> Some s | _ \<Rightarrow> None))"

definition payload_stream :: "pyval \<Rightarrow> gw_exn + bool option" where
  "payload_stream payload =
     rbind (need_dict payload (OtherError ''AttributeError'' ''object has no attribute get'' None)) (\<lambda>p.
     Inr (case dget p ''stream'' of PBool b \<Rightarrow> Some b | _ \<Rightarrow> None))"

section \<open>What routing sees\<close>

definition route_part :: "pyval \<Rightarrow> pydict" where
  "route_part part =
     (case part of
        PDict d \<Rightarrow>
          if dget d ''type'' = PStr ''text'' then d
          else [(''type'', dget d ''type''), (''mime_type'', dget d ''mime_type'')] @
               (case dget d ''data'' of
                  PBytes b \<Rightarrow> [(''byte_length'', PInt (int (length b)))]
                | _ \<Rightarrow> [(''has_artifact'', PBool (dhas d ''artifact_id''))])
      | _ \<Rightarrow> [])"

definition route_message :: "pydict \<Rightarrow> pydict" where
  "route_message message =
     (case seq_items (dget message ''content'') of
        None \<Rightarrow> message
      | Some content \<Rightarrow> dset ''content'' (PTuple (map (PDict \<circ> route_part) content)) message)"

definition request_for_routing :: "inference_request \<Rightarrow> inference_request" where
  "request_for_routing request = request\<lparr>req_messages := map route_message (req_messages request)\<rparr>"

section \<open>Media artifacts\<close>

abbreviation media_error :: "string \<Rightarrow> gw_exn" where
  "media_error m \<equiv> MediaArtifactUnavailableError m"

text \<open>\<open>resolver.read(...)\<close>: a cancellation passes, any other exception hides its reason.\<close>

definition read_artifact :: "'s gateway \<Rightarrow> request_principal \<Rightarrow> string \<Rightarrow> ('s, media_artifact option) gw_act" where
  "read_artifact gw caller artifact_id =
     (case gw_media_resolver gw of
        None \<Rightarrow> raise (media_error ''media artifact resolution is unavailable'')
      | Some read \<Rightarrow>
          andthen (call_out (MediaRead artifact_id))
            (result (case read artifact_id caller of
                       Inr a \<Rightarrow> Inr a
                     | Inl (RequestCancelled m u) \<Rightarrow> Inl (RequestCancelled m u)
                     | Inl _ \<Rightarrow> Inl (media_error ''media artifact is unavailable to this principal''))))"

definition verify_artifact :: "pydict \<Rightarrow> media_artifact option \<Rightarrow> gw_exn + media_artifact" where
  "verify_artifact part found =
     (case found of
        None \<Rightarrow> Inl (media_error ''media artifact resolver returned an invalid result'')
      | Some artifact \<Rightarrow>
          if PStr (art_mime_type artifact) \<noteq> dget part ''mime_type'' \<or> art_data artifact = []
          then Inl (media_error ''media artifact content does not match its reference'')
          else if art_size artifact \<noteq> int (length (art_data artifact)) \<or> art_size artifact > int MAX_CHAT_MEDIA_BYTES
          then Inl (media_error ''media artifact size is invalid'')
          else if art_sha256 artifact \<noteq> sha256_hex (art_data artifact)
          then Inl (media_error ''media artifact digest verification failed'')
          else Inr artifact)"

definition add_media_bytes :: "nat \<Rightarrow> nat \<Rightarrow> gw_exn + nat" where
  "add_media_bytes total_bytes n =
     (if total_bytes + n > MAX_CHAT_MEDIA_BYTES
      then Inl (media_error ''resolved media exceeds the maximum aggregate size'')
      else Inr (total_bytes + n))"

definition resolve_inline :: "pydict \<Rightarrow> nat \<Rightarrow> gw_exn + (pyval \<times> nat)" where
  "resolve_inline part total_bytes =
     rbind (case dget part ''data'' of PBytes b \<Rightarrow> add_media_bytes total_bytes (length b) | _ \<Rightarrow> Inr total_bytes)
       (\<lambda>n. Inr (PDict part, n))"

definition resolve_reference ::
  "'s gateway \<Rightarrow> request_principal \<Rightarrow> pydict \<Rightarrow> nat \<Rightarrow> ('s, pyval \<times> nat) gw_act" where
  "resolve_reference gw caller part total_bytes =
     bind (poll gw) (\<lambda>cancelled.
     if cancelled then raise (RequestCancelled ''request was cancelled while resolving media'' None)
     else if Option.is_none (gw_media_resolver gw) then raise (media_error ''media artifact resolution is unavailable'')
     else
       (case dget part ''artifact_id'' of
          PStr artifact_id \<Rightarrow>
            bind (read_artifact gw caller artifact_id) (\<lambda>found.
            bind (poll gw) (\<lambda>cancelled.
            if cancelled then raise (RequestCancelled ''request was cancelled while resolving media'' None)
            else
              bind (result (verify_artifact part found)) (\<lambda>artifact.
              bind (result (add_media_bytes total_bytes (length (art_data artifact)))) (\<lambda>n.
              ret (PDict (dset ''data'' (PBytes (art_data artifact)) (dpop ''artifact_id'' part)), n)))))
        | _ \<Rightarrow> raise (media_error ''media artifact reference is invalid'')))"

definition resolve_part ::
  "'s gateway \<Rightarrow> request_principal \<Rightarrow> pyval \<Rightarrow> nat \<Rightarrow> ('s, pyval \<times> nat) gw_act" where
  "resolve_part gw caller part total_bytes =
     (case part of
        PDict d \<Rightarrow>
          if dhas d ''artifact_id'' then resolve_reference gw caller d total_bytes
          else result (resolve_inline d total_bytes)
      | _ \<Rightarrow> ret (PDict [], total_bytes))"

definition resolve_message ::
  "'s gateway \<Rightarrow> request_principal \<Rightarrow> pydict \<Rightarrow> nat \<Rightarrow> ('s, pydict \<times> nat) gw_act" where
  "resolve_message gw caller message total_bytes =
     (case seq_items (dget message ''content'') of
        None \<Rightarrow> ret (message, total_bytes)
      | Some content \<Rightarrow>
          bind (traverse_act (resolve_part gw caller) content total_bytes) (\<lambda>(parts, n).
          ret (dset ''content'' (PTuple parts) message, n)))"

definition resolve_media_artifacts ::
  "'s gateway \<Rightarrow> inference_request \<Rightarrow> request_principal \<Rightarrow> ('s, inference_request) gw_act" where
  "resolve_media_artifacts gw request caller =
     bind (traverse_act (resolve_message gw caller) (req_messages request) 0) (\<lambda>(messages, _).
     ret (request\<lparr>req_messages := messages\<rparr>))"

end
