(* ===== verification/Gateway_Response.thy ===== *)
theory Gateway_Response
  imports Gateway_Env
begin

text \<open>
  Response shaping of \<open>gateway.py\<close>: \<open>_collect_response\<close> for unary requests and the generator
  \<open>_stream_body\<close> for streams. The generator is modelled by what its consumer can observe: the
  events in order, what each \<open>yield\<close> leaves in the generator's locals, and what happens at the end
  or when the consumer closes it after any number of pulls.
\<close>

record lazy_stream =
  ls_metadata :: request_metadata
  ls_chunks :: "provider_chunk list"
  ls_end :: stream_end
  ls_include_usage :: bool

datatype response_body = Json pydict | Lazy lazy_stream

record gateway_response =
  resp_request_id :: string
  resp_model :: string
  resp_status_code :: int
  resp_body :: response_body
  resp_stream :: bool
  resp_route_id :: string
  resp_usage :: "provider_usage option"

text \<open>\<open>target.route_id or target.provider_ref\<close>.\<close>

definition target_label :: "route_target \<Rightarrow> string" where
  "target_label target = (if target_route_id target = [] then provider_ref target else target_route_id target)"

section \<open>Unary responses\<close>

text \<open>The \<open>except\<close> clauses around the collecting loop.\<close>

definition collect_error :: "string \<Rightarrow> provider_chunk list \<Rightarrow> gw_exn \<Rightarrow> gw_exn" where
  "collect_error label collected e =
     (case e of
        RequestCancelled m u \<Rightarrow> RequestCancelled m u
      | ProviderInvocationCancelled m \<Rightarrow>
          RequestCancelled ''provider invocation was cancelled during provider execution'' (merge_chunk_usage collected)
      | _ \<Rightarrow> ProviderFailureError (label @ '': '' @ exn_text e) (merge_chunk_usage collected))"

fun collect_chunks ::
  "'s gateway \<Rightarrow> string \<Rightarrow> provider_chunk list \<Rightarrow> stream_end \<Rightarrow> provider_chunk list \<Rightarrow>
   ('s, provider_chunk list) gw_act" where
  "collect_chunks gw label [] Exhausted collected = ret collected"
| "collect_chunks gw label [] (Raises e) collected = raise (collect_error label collected e)"
| "collect_chunks gw label (c # rest) fin collected =
     bind (poll gw) (\<lambda>cancelled.
     if cancelled
     then raise (RequestCancelled ''request was cancelled during provider execution'' (merge_chunk_usage collected))
     else collect_chunks gw label rest fin (collected @ [c]))"

definition has_tool_calls :: "provider_chunk list \<Rightarrow> bool" where
  "has_tool_calls chunks = list_ex (\<lambda>c. chunk_tool_calls c \<noteq> []) chunks"

definition truthy_text :: "string option \<Rightarrow> string option" where
  "truthy_text v = (if v = Some [] then None else v)"

definition final_reason :: "provider_chunk list \<Rightarrow> string" where
  "final_reason collected =
     or_default (first_some (\<lambda>c. truthy_text (chunk_finish_reason c)) (rev collected))
       (if has_tool_calls collected then ''tool_calls'' else ''stop'')"

text \<open>The \<open>usage\<close> entry of a body: present only when some component was reported.\<close>

definition usage_entry :: "provider_usage option \<Rightarrow> pydict" where
  "usage_entry usage =
     (case usage of
        None \<Rightarrow> []
      | Some u \<Rightarrow> (if usage_openai_dict u = [] then [] else [(''usage'', PDict (usage_openai_dict u))]))"

definition completion_body :: "string \<Rightarrow> string \<Rightarrow> int \<Rightarrow> pydict \<Rightarrow> string \<Rightarrow> provider_usage option \<Rightarrow> pydict" where
  "completion_body request_id model now message reason usage =
     [(''id'', PStr request_id), (''object'', PStr ''chat.completion''), (''created'', PInt now), (''model'', PStr model),
      (''choices'', PList [PDict [(''index'', PInt 0), (''message'', PDict message), (''finish_reason'', PStr reason)]])] @
     usage_entry usage"

definition collect_response ::
  "'s gateway \<Rightarrow> request_metadata \<Rightarrow> string \<Rightarrow> provider_chunk \<Rightarrow> provider_chunk list \<Rightarrow> stream_end \<Rightarrow>
   ('s, gateway_response) gw_act" where
  "collect_response gw metadata label first rest fin =
     bind (collect_chunks gw label rest fin [first]) (\<lambda>collected.
     bind (result (assemble_message collected)) (\<lambda>message.
     let usage = merge_chunk_usage collected in
     ret \<lparr>resp_request_id = meta_request_id metadata, resp_model = meta_model metadata, resp_status_code = 200,
       resp_body = Json (completion_body (meta_request_id metadata) (meta_model metadata) (gw_clock gw 0) message
         (final_reason collected) usage),
       resp_stream = False, resp_route_id = label, resp_usage = usage\<rparr>))"

section \<open>Streams\<close>

text \<open>The locals of the generator; \<open>st_reads\<close> counts reads of the event, \<open>st_events\<close> reads of the clock.\<close>

record stream_state =
  st_emitted_finish :: bool
  st_saw_tool_calls :: bool
  st_usage :: "provider_usage option"
  st_usage_emitted :: bool
  st_events :: nat
  st_reads :: nat

definition stream_start :: "nat \<Rightarrow> stream_state" where
  "stream_start reads =
     \<lparr>st_emitted_finish = False, st_saw_tool_calls = False, st_usage = None, st_usage_emitted = False,
      st_events = 0, st_reads = reads\<rparr>"

definition stream_event :: "request_metadata \<Rightarrow> int \<Rightarrow> pyval list \<Rightarrow> pydict \<Rightarrow> pydict" where
  "stream_event metadata now choices usage =
     [(''id'', PStr (meta_request_id metadata)), (''object'', PStr ''chat.completion.chunk''), (''created'', PInt now),
      (''model'', PStr (meta_model metadata)), (''choices'', PList choices)] @ usage"

definition stream_choice :: "pydict \<Rightarrow> pyval \<Rightarrow> pyval" where
  "stream_choice delta reason =
     PDict [(''index'', PInt 0), (''delta'', PDict delta), (''finish_reason'', reason)]"

definition opt_str :: "string option \<Rightarrow> pyval" where
  "opt_str v = (case v of None \<Rightarrow> PNone | Some s \<Rightarrow> PStr s)"

definition chunk_delta_dict :: "provider_chunk \<Rightarrow> pydict" where
  "chunk_delta_dict c =
     opt_field ''role'' (chunk_role c) @
     (if chunk_delta c \<noteq> [] then [(''content'', PStr (chunk_delta c))] else []) @
     (if chunk_tool_calls c \<noteq> [] then [(''tool_calls'', PList (map (PDict \<circ> to_openai_delta) (chunk_tool_calls c)))] else [])"

text \<open>One turn of the loop body after the cancellation check: the event and the new locals.\<close>

definition stream_chunk ::
  "'s gateway \<Rightarrow> lazy_stream \<Rightarrow> stream_state \<Rightarrow> provider_chunk \<Rightarrow> pydict \<times> stream_state" where
  "stream_chunk gw ls st c =
     (let delta = chunk_delta_dict c;
          usage = merge_usage (st_usage st) (chunk_usage c);
          entry = (if ls_include_usage ls then usage_entry usage else [])
      in (stream_event (ls_metadata ls) (gw_clock gw (st_events st))
            (if delta = [] \<and> chunk_finish_reason c = None then [] else [stream_choice delta (opt_str (chunk_finish_reason c))])
            entry,
          st\<lparr>st_emitted_finish := st_emitted_finish st \<or> chunk_finish_reason c \<noteq> None,
             st_saw_tool_calls := st_saw_tool_calls st \<or> chunk_tool_calls c \<noteq> [],
             st_usage := usage, st_usage_emitted := st_usage_emitted st \<or> entry \<noteq> [],
             st_events := Suc (st_events st)\<rparr>))"

text \<open>
  The run of a generator up to a point: the events with the locals right after each, the exception
  that ended it if any, and the last locals.
\<close>

type_synonym stream_run = "(pydict \<times> stream_state) list \<times> gw_exn option \<times> stream_state"

definition run_then :: "stream_run \<Rightarrow> (stream_state \<Rightarrow> stream_run) \<Rightarrow> stream_run" where
  "run_then r f =
     (case r of
        (items, Some e, st) \<Rightarrow> (items, Some e, st)
      | (items, None, st) \<Rightarrow> (case f st of (later, out, st') \<Rightarrow> (items @ later, out, st')))"

definition run_yield :: "pydict \<Rightarrow> stream_state \<Rightarrow> stream_run" where
  "run_yield event st = ([(event, st)], None, st)"

definition run_check :: "'s gateway \<Rightarrow> string \<Rightarrow> stream_state \<Rightarrow> stream_run" where
  "run_check gw m st =
     ([], if gw_cancelled gw (st_reads st) then Some (RequestCancelled m None) else None, st\<lparr>st_reads := Suc (st_reads st)\<rparr>)"

text \<open>\<open>provider_chunks\<close>: a provider cancellation becomes \<open>RequestCancelled\<close>.\<close>

definition stream_error :: "gw_exn \<Rightarrow> gw_exn" where
  "stream_error e =
     (case e of
        ProviderInvocationCancelled m \<Rightarrow> RequestCancelled ''provider invocation was cancelled during streaming'' None
      | _ \<Rightarrow> e)"

fun run_chunks :: "'s gateway \<Rightarrow> lazy_stream \<Rightarrow> provider_chunk list \<Rightarrow> stream_state \<Rightarrow> stream_run" where
  "run_chunks gw ls [] st =
     ([], case ls_end ls of Exhausted \<Rightarrow> None | Raises e \<Rightarrow> Some (stream_error e), st)"
| "run_chunks gw ls (c # rest) st =
     run_then (run_check gw ''request was cancelled during streaming'' st) (\<lambda>st.
     run_then (case stream_chunk gw ls st c of (event, st') \<Rightarrow> run_yield event st') (\<lambda>st.
     run_chunks gw ls rest st))"

definition tick :: "stream_state \<Rightarrow> stream_state" where
  "tick st = st\<lparr>st_events := Suc (st_events st)\<rparr>"

definition run_finish :: "'s gateway \<Rightarrow> lazy_stream \<Rightarrow> stream_state \<Rightarrow> stream_run" where
  "run_finish gw ls st =
     (if st_emitted_finish st then ([], None, st)
      else run_yield
        (stream_event (ls_metadata ls) (gw_clock gw (st_events st))
          [stream_choice [] (PStr (if st_saw_tool_calls st then ''tool_calls'' else ''stop''))] [])
        (tick st))"

definition run_usage :: "'s gateway \<Rightarrow> lazy_stream \<Rightarrow> stream_state \<Rightarrow> stream_run" where
  "run_usage gw ls st =
     (if ls_include_usage ls \<and> \<not> st_usage_emitted st \<and> usage_entry (st_usage st) \<noteq> []
      then run_yield
        (stream_event (ls_metadata ls) (gw_clock gw (st_events st)) [] (usage_entry (st_usage st))) (tick st)
      else ([], None, st))"

definition run_events :: "'s gateway \<Rightarrow> lazy_stream \<Rightarrow> stream_state \<Rightarrow> stream_run" where
  "run_events gw ls st =
     run_then (run_chunks gw ls (ls_chunks ls) st) (\<lambda>st.
     run_then (run_check gw ''request was cancelled after streaming'' st) (\<lambda>st.
     run_then (run_finish gw ls st) (\<lambda>st.
     run_usage gw ls st)))"

text \<open>
  The terminal fact of a generator that did not complete. The code reads the event once for the
  status and once for the error type.
\<close>

definition closing_fact ::
  "'s gateway \<Rightarrow> string \<Rightarrow> ('s, terminal_status \<times> string) gw_act" where
  "closing_fact gw err =
     bind (poll gw) (\<lambda>c1. bind (poll gw) (\<lambda>c2.
     ret (if c1 then Cancelled else Failed, if c2 then ''request_cancelled'' else err)))"

definition failure_fact :: "'s gateway \<Rightarrow> gw_exn \<Rightarrow> ('s, terminal_status \<times> string) gw_act" where
  "failure_fact gw e =
     (case e of
        RequestCancelled m u \<Rightarrow> ret (Cancelled, ''request_cancelled'')
      | _ \<Rightarrow> closing_fact gw (audit_error_type e))"

datatype stream_outcome = StreamEnded | StreamClosed | StreamRaised gw_exn

text \<open>\<open>finally\<close> when nothing was attempted yet; an exception it raises replaces the one in flight.\<close>

definition record_terminal ::
  "'s gateway \<Rightarrow> lazy_stream \<Rightarrow> stream_state \<Rightarrow> ('s, terminal_status \<times> string) gw_act \<Rightarrow> stream_outcome \<Rightarrow>
   's world \<Rightarrow> stream_outcome \<times> 's world" where
  "record_terminal gw ls st verdict outcome w =
     (case bind verdict (\<lambda>(status, err). observe_finished gw (ls_metadata ls) status (st_usage st) (Some err)) w of
        (Inr u, w') \<Rightarrow> (outcome, w')
      | (Inl e, w') \<Rightarrow> (StreamRaised e, w'))"

text \<open>The end of the generator body: the terminal fact is committed before \<open>[DONE]\<close> is published.\<close>

definition finish_stream ::
  "'s gateway \<Rightarrow> lazy_stream \<Rightarrow> gw_exn option \<Rightarrow> stream_state \<Rightarrow> 's world \<Rightarrow> bool \<times> stream_outcome \<times> 's world" where
  "finish_stream gw ls err st w =
     (case err of
        Some e \<Rightarrow> (False, record_terminal gw ls st (failure_fact gw e) (StreamRaised e) w)
      | None \<Rightarrow>
          (case observe_finished gw (ls_metadata ls) Completed (st_usage st) None w of
             (Inr u, w') \<Rightarrow> (True, StreamEnded, w')
           | (Inl e, w') \<Rightarrow> (False, StreamRaised e, snd (failure_fact gw e w'))))"

record stream_result =
  sr_events :: "pydict list"
  sr_done :: bool
  sr_outcome :: stream_outcome

definition stream_to_end :: "'s gateway \<Rightarrow> lazy_stream \<Rightarrow> 's world \<Rightarrow> stream_result \<times> 's world" where
  "stream_to_end gw ls w =
     (case run_events gw ls (stream_start (polls w)) of
        (items, err, st) \<Rightarrow>
          (case finish_stream gw ls err st (w\<lparr>polls := st_reads st\<rparr>) of
             (sent, outcome, w') \<Rightarrow> (\<lparr>sr_events = map fst items, sr_done = sent, sr_outcome = outcome\<rparr>, w')))"

text \<open>The generator is suspended at its \<open>n\<close>-th event when \<open>close()\<close> reaches it.\<close>

definition stream_closed_at ::
  "'s gateway \<Rightarrow> lazy_stream \<Rightarrow> (pydict \<times> stream_state) list \<Rightarrow> 's world \<Rightarrow> stream_result \<times> 's world" where
  "stream_closed_at gw ls seen w =
     (let st = snd (last seen)
      in case record_terminal gw ls st (closing_fact gw ''stream_closed'') StreamClosed (w\<lparr>polls := st_reads st\<rparr>) of
           (outcome, w') \<Rightarrow> (\<lparr>sr_events = map fst seen, sr_done = False, sr_outcome = outcome\<rparr>, w'))"

text \<open>
  A consumer that makes at most \<open>pulls\<close> calls of \<open>next\<close> and then closes the generator; \<open>None\<close> reads
  to the end. A generator that was never started runs no code when it is closed, and one that is
  closed at \<open>[DONE]\<close> has nothing left to record.
\<close>

definition stream_body :: "'s gateway \<Rightarrow> lazy_stream \<Rightarrow> nat option \<Rightarrow> 's world \<Rightarrow> stream_result \<times> 's world" where
  "stream_body gw ls pulls w =
     (case pulls of
        None \<Rightarrow> stream_to_end gw ls w
      | Some n \<Rightarrow>
          (let items = fst (run_events gw ls (stream_start (polls w)))
           in if n = 0 then (\<lparr>sr_events = [], sr_done = False, sr_outcome = StreamClosed\<rparr>, w)
              else if n \<le> length items then stream_closed_at gw ls (take n items) w
              else stream_to_end gw ls w))"

end
