(* ===== verification/Gateway.thy ===== *)
theory Gateway
  imports Gateway_Response
begin

text \<open>
  The two request handlers of \<open>ExchangeGateway\<close> (\<open>src/cyrene_exchange/gateway.py\<close>), phase by phase
  in the order of the code: identify the caller, normalize the request, plan the routes, resolve
  media, then try the candidates one after the other.
\<close>

section \<open>Rejections\<close>

text \<open>\<open>self._observe_rejected(...)\<close> followed by \<open>raise\<close>.\<close>

definition reject ::
  "'s gateway \<Rightarrow> string \<Rightarrow> request_principal option \<Rightarrow> rejection_status \<Rightarrow> string option \<Rightarrow> bool option \<Rightarrow>
   gw_exn \<Rightarrow> ('s, 'a) gw_act" where
  "reject gw request_id caller status model stream e =
     andthen
       (observe_rejected gw \<lparr>rej_request_id = request_id, rej_principal = caller, rej_status = status,
          rej_error_type = audit_error_type e, rej_model = model, rej_stream = stream\<rparr>)
       (raise e)"

text \<open>The same before the request is parsed: model and stream flag are read from the payload.\<close>

definition reject_payload ::
  "'s gateway \<Rightarrow> string \<Rightarrow> request_principal option \<Rightarrow> rejection_status \<Rightarrow> pyval \<Rightarrow> gw_exn \<Rightarrow> ('s, 'a) gw_act" where
  "reject_payload gw request_id caller status payload e =
     bind (result (payload_model payload)) (\<lambda>model.
     bind (result (payload_stream payload)) (\<lambda>stream.
     reject gw request_id caller status model stream e))"

text \<open>Rejection of a parsed chat request.\<close>

definition reject_chat ::
  "'s gateway \<Rightarrow> string \<Rightarrow> request_principal \<Rightarrow> rejection_status \<Rightarrow> inference_request \<Rightarrow> gw_exn \<Rightarrow> ('s, 'a) gw_act" where
  "reject_chat gw request_id caller status request e =
     reject gw request_id (Some caller) status (Some (req_model request)) (Some (req_stream request)) e"

section \<open>Chat: admission\<close>

definition is_quota_error :: "gw_exn \<Rightarrow> bool" where
  "is_quota_error e = (case e of QuotaExceededError m \<Rightarrow> True | QuotaUnavailableError m \<Rightarrow> True | _ \<Rightarrow> False)"

definition check_quota :: "'s gateway \<Rightarrow> request_principal \<Rightarrow> gw_exn + unit" where
  "check_quota gw caller = (case gw_quota_checker gw of None \<Rightarrow> Inr () | Some check \<Rightarrow> check caller)"

definition chat_identify ::
  "'s gateway \<Rightarrow> string \<Rightarrow> (string \<times> string) list \<Rightarrow> pyval \<Rightarrow> ('s, request_principal) gw_act" where
  "chat_identify gw request_id headers payload =
     bind (catch (result (authenticate gw headers))
             (\<lambda>e. reject_payload gw request_id None Rejected payload e)) (\<lambda>caller.
     bind (catch (result (check_quota gw caller))
             (\<lambda>e. if is_quota_error e then reject_payload gw request_id (Some caller) Rejected payload e else raise e)) (\<lambda>_.
     bind (poll gw) (\<lambda>cancelled.
     if cancelled
     then reject_payload gw request_id (Some caller) RejectedCancelled payload
            (RequestCancelled ''request was cancelled before routing'' None)
     else ret caller)))"

definition chat_parse :: "'s gateway \<Rightarrow> string \<Rightarrow> request_principal \<Rightarrow> pyval \<Rightarrow> ('s, inference_request) gw_act" where
  "chat_parse gw request_id caller payload =
     bind (case from_openai payload of
             Inr request \<Rightarrow> ret request
           | Inl (ProtocolError m) \<Rightarrow> reject_payload gw request_id (Some caller) Rejected payload (InvalidRequestError m)
           | Inl e \<Rightarrow> raise (of_py e)) (\<lambda>request.
     if permits caller (req_model request) then ret request
     else reject_chat gw request_id caller Rejected request
            (ModelNotPermittedError (''credential is not permitted to use model '' @ req_model request)))"

section \<open>Chat: routing\<close>

definition resolve_router :: "'s gateway \<Rightarrow> gw_exn + router" where
  "resolve_router gw =
     rbind (gw_resolve_router gw) (\<lambda>router.
     case rt_plan router of
       None \<Rightarrow> Inl (NoRouteError ''resolved model routing capability is invalid'')
     | Some plan \<Rightarrow> Inr router)"

definition plan_routes :: "router \<Rightarrow> routed_request \<Rightarrow> request_principal \<Rightarrow> gw_exn + route_target list" where
  "plan_routes router request caller =
     (case rt_plan_for_principal router of
        Some plan_for_principal \<Rightarrow> plan_for_principal request caller
      | None \<Rightarrow> (case rt_plan router of
                   Some plan \<Rightarrow> plan request
                 | None \<Rightarrow> Inl (OtherError ''AttributeError'' ''object has no attribute plan'' None)))"

definition is_no_route :: "gw_exn \<Rightarrow> bool" where
  "is_no_route e = (case e of NoRouteError m \<Rightarrow> True | _ \<Rightarrow> False)"

definition chat_plan ::
  "'s gateway \<Rightarrow> string \<Rightarrow> request_principal \<Rightarrow> inference_request \<Rightarrow> ('s, route_target list) gw_act" where
  "chat_plan gw request_id caller request =
     bind (case resolve_router gw of
             Inr router \<Rightarrow> ret router
           | Inl e \<Rightarrow>
               reject_chat gw request_id caller Rejected request
                 (if is_no_route e then e
                  else NoRouteError (''model routing capability resolution failed: '' @ exn_text e))) (\<lambda>router.
     bind (case plan_routes router (RoutedChat (request_for_routing request)) caller of
             Inr targets \<Rightarrow> ret (take (gw_max_attempts gw) targets)
           | Inl e \<Rightarrow>
               reject_chat gw request_id caller Rejected request
                 (NoRouteError (''model routing failed: '' @ exn_text e))) (\<lambda>candidates.
     if candidates = []
     then reject_chat gw request_id caller Rejected request
            (NoRouteError (''no route available for model '' @ quoted (req_model request)))
     else ret candidates))"

definition chat_media ::
  "'s gateway \<Rightarrow> string \<Rightarrow> request_principal \<Rightarrow> inference_request \<Rightarrow> ('s, inference_request) gw_act" where
  "chat_media gw request_id caller request =
     catch (resolve_media_artifacts gw request caller) (\<lambda>e.
       case e of
         RequestCancelled m u \<Rightarrow>
           reject_chat gw request_id caller RejectedCancelled request e
       | MediaArtifactUnavailableError m \<Rightarrow>
           reject_chat gw request_id caller Rejected request e
       | _ \<Rightarrow> raise e)"

section \<open>Chat: provider attempts\<close>

definition chat_metadata :: "string \<Rightarrow> request_principal \<Rightarrow> inference_request \<Rightarrow> route_target \<Rightarrow> request_metadata" where
  "chat_metadata request_id caller request target =
     \<lparr>meta_request_id = request_id, meta_model = req_model request, meta_stream = req_stream request,
      meta_route_id = target_label target, meta_provider_ref = provider_ref target, meta_principal = caller\<rparr>"

definition resolve_provider :: "'s gateway \<Rightarrow> nat \<Rightarrow> route_target \<Rightarrow> gw_exn + (inference_request \<Rightarrow> gw_exn + chunk_stream)" where
  "resolve_provider gw attempt target =
     rbind (gw_resolve_provider gw attempt (provider_ref target)) (\<lambda>p.
     case p_complete p of
       None \<Rightarrow> Inl (ProviderFailureError (''resolved provider '' @ quoted (provider_ref target) @ '' is invalid'') None)
     | Some run_complete \<Rightarrow> Inr run_complete)"

definition provider_model :: "route_target \<Rightarrow> string \<Rightarrow> string" where
  "provider_model target model =
     (case target_model target of Some m \<Rightarrow> if m \<noteq> [] then m else model | None \<Rightarrow> model)"

definition provider_request :: "route_target \<Rightarrow> inference_request \<Rightarrow> inference_request" where
  "provider_request target request = request\<lparr>req_model := provider_model target (req_model request)\<rparr>"

text \<open>\<open>next(chunks)\<close>.\<close>

definition first_chunk :: "chunk_stream \<Rightarrow> gw_exn + (provider_chunk \<times> provider_chunk list)" where
  "first_chunk chunks =
     (case chunks of
        (c # rest, fin) \<Rightarrow> Inr (c, rest)
      | ([], Raises e) \<Rightarrow> Inl e
      | ([], Exhausted) \<Rightarrow> Inl (of_py StopIteration))"

definition include_usage :: "inference_request \<Rightarrow> bool" where
  "include_usage request =
     (case req_stream_options request of
        Some options \<Rightarrow> options \<noteq> [] \<and> dget_or options ''include_usage'' (PBool False) = PBool True
      | None \<Rightarrow> False)"

text \<open>The body of the \<open>try\<close> after admission.\<close>

definition chat_call ::
  "'s gateway \<Rightarrow> nat \<Rightarrow> request_metadata \<Rightarrow> inference_request \<Rightarrow> route_target \<Rightarrow> ('s, gateway_response) gw_act" where
  "chat_call gw attempt metadata request target =
     bind (result (resolve_provider gw attempt target)) (\<lambda>run_complete.
     bind (call_out (ProviderCalled (provider_ref target) (provider_request target request))) (\<lambda>_.
     bind (result (run_complete (provider_request target request))) (\<lambda>chunks.
     bind (result (first_chunk chunks)) (\<lambda>(first, rest).
     if req_stream request then
       ret \<lparr>resp_request_id = meta_request_id metadata, resp_model = req_model request, resp_status_code = 200,
         resp_body = Lazy \<lparr>ls_metadata = metadata, ls_chunks = first # rest, ls_end = snd chunks,
           ls_include_usage = include_usage request\<rparr>,
         resp_stream = True, resp_route_id = target_label target, resp_usage = None\<rparr>
     else
       bind (collect_response gw metadata (target_label target) first rest (snd chunks)) (\<lambda>response.
       bind (observe_finished gw metadata Completed (resp_usage response) None) (\<lambda>_.
       ret response))))))"

datatype attempt_result = Answered gateway_response | NextCandidate string

text \<open>The \<open>except\<close> clauses: what is recorded, and whether the next candidate may be tried.\<close>

definition record_if_started ::
  "'s gateway \<Rightarrow> bool \<Rightarrow> request_metadata \<Rightarrow> terminal_status \<Rightarrow> provider_usage option \<Rightarrow> string \<Rightarrow> ('s, unit) gw_act" where
  "record_if_started gw started metadata status usage err =
     (if started then observe_finished gw metadata status usage (Some err) else ret ())"

definition chat_except ::
  "'s gateway \<Rightarrow> bool \<Rightarrow> request_metadata \<Rightarrow> gw_exn \<Rightarrow> ('s, attempt_result) gw_act" where
  "chat_except gw started metadata e =
     (case e of
        RequestCancelled m u \<Rightarrow>
          andthen (record_if_started gw started metadata Cancelled u ''request_cancelled'') (raise e)
      | ProviderInvocationCancelled m \<Rightarrow>
          andthen (record_if_started gw started metadata Cancelled None ''request_cancelled'')
            (raise (RequestCancelled ''provider invocation was cancelled'' None))
      | GatewayLifecycleError m \<Rightarrow> raise e
      | _ \<Rightarrow>
          bind (poll gw) (\<lambda>cancelled.
          if cancelled then
            andthen (record_if_started gw started metadata Cancelled (exn_usage e) ''request_cancelled'')
              (raise (RequestCancelled ''request was cancelled during provider execution'' None))
          else
            andthen (record_if_started gw started metadata Failed (exn_usage e) (audit_error_type e))
              (ret (NextCandidate (meta_route_id metadata @ '': '' @ exn_text e)))))"

definition chat_attempt ::
  "'s gateway \<Rightarrow> nat \<Rightarrow> request_metadata \<Rightarrow> inference_request \<Rightarrow> route_target \<Rightarrow> ('s, attempt_result) gw_act" where
  "chat_attempt gw attempt metadata request target = (\<lambda>w.
     case observe_started gw metadata w of
       (Inl e, w') \<Rightarrow> chat_except gw False metadata e w'
     | (Inr u, w') \<Rightarrow>
         catch (bind (chat_call gw attempt metadata request target) (\<lambda>response. ret (Answered response)))
           (chat_except gw True metadata) w')"

definition or_text :: "string \<Rightarrow> string \<Rightarrow> string" where
  "or_text s default_text = (if s = [] then default_text else s)"

fun chat_attempts ::
  "'s gateway \<Rightarrow> string \<Rightarrow> request_principal \<Rightarrow> inference_request \<Rightarrow> nat \<Rightarrow> route_target list \<Rightarrow> string list \<Rightarrow>
   ('s, gateway_response) gw_act" where
  "chat_attempts gw request_id caller request attempt [] failures =
     raise (ProviderFailureError (or_text (join_with ''; '' failures) ''all provider candidates failed'') None)"
| "chat_attempts gw request_id caller request attempt (target # rest) failures =
     bind (poll gw) (\<lambda>cancelled.
     if cancelled
     then reject_chat gw request_id caller RejectedCancelled request
            (RequestCancelled ''request was cancelled before provider execution'' None)
     else
       bind (chat_attempt gw attempt (chat_metadata request_id caller request target) request target) (\<lambda>r.
       case r of
         Answered response \<Rightarrow> ret response
       | NextCandidate failure \<Rightarrow>
           chat_attempts gw request_id caller request (Suc attempt) rest (failures @ [failure])))"

definition handle_openai_chat ::
  "'s gateway \<Rightarrow> string \<Rightarrow> (string \<times> string) list \<Rightarrow> pyval \<Rightarrow> ('s, gateway_response) gw_act" where
  "handle_openai_chat gw request_id headers payload =
     bind (chat_identify gw request_id headers payload) (\<lambda>caller.
     bind (chat_parse gw request_id caller payload) (\<lambda>request.
     bind (chat_plan gw request_id caller request) (\<lambda>candidates.
     bind (chat_media gw request_id caller request) (\<lambda>resolved.
     chat_attempts gw request_id caller resolved 0 candidates []))))"

section \<open>Embeddings\<close>

definition reject_embedding ::
  "'s gateway \<Rightarrow> string \<Rightarrow> request_principal option \<Rightarrow> rejection_status \<Rightarrow> pyval \<Rightarrow> gw_exn \<Rightarrow> ('s, 'a) gw_act" where
  "reject_embedding gw request_id caller status payload e =
     bind (result (payload_model payload)) (\<lambda>model.
     reject gw request_id caller status model (Some False) e)"

definition refuse_embedding ::
  "'s gateway \<Rightarrow> string \<Rightarrow> request_principal \<Rightarrow> rejection_status \<Rightarrow> embedding_request \<Rightarrow> gw_exn \<Rightarrow> ('s, 'a) gw_act" where
  "refuse_embedding gw request_id caller status request e =
     reject gw request_id (Some caller) status (Some (emb_model request)) (Some False) e"

definition embeddings_identify ::
  "'s gateway \<Rightarrow> string \<Rightarrow> (string \<times> string) list \<Rightarrow> pyval \<Rightarrow> ('s, request_principal) gw_act" where
  "embeddings_identify gw request_id headers payload =
     bind (catch (result (authenticate gw headers))
             (\<lambda>e. reject_embedding gw request_id None Rejected payload e)) (\<lambda>caller.
     bind (catch (result (check_quota gw caller))
             (\<lambda>e. if is_quota_error e then reject_embedding gw request_id (Some caller) Rejected payload e else raise e)) (\<lambda>_.
     bind (poll gw) (\<lambda>cancelled.
     if cancelled
     then reject_embedding gw request_id (Some caller) RejectedCancelled payload
            (RequestCancelled ''request was cancelled before routing'' None)
     else ret caller)))"

definition embeddings_parse ::
  "'s gateway \<Rightarrow> string \<Rightarrow> request_principal \<Rightarrow> pyval \<Rightarrow> ('s, embedding_request) gw_act" where
  "embeddings_parse gw request_id caller payload =
     bind (case embedding_from_openai payload of
             Inr request \<Rightarrow> ret request
           | Inl (ProtocolError m) \<Rightarrow> reject_embedding gw request_id (Some caller) Rejected payload (InvalidRequestError m)
           | Inl e \<Rightarrow> raise (of_py e)) (\<lambda>request.
     if permits caller (emb_model request) then ret request
     else refuse_embedding gw request_id caller Rejected request
            (ModelNotPermittedError (''credential is not permitted to use model '' @ emb_model request)))"

definition embeddings_plan ::
  "'s gateway \<Rightarrow> string \<Rightarrow> request_principal \<Rightarrow> embedding_request \<Rightarrow> ('s, route_target list) gw_act" where
  "embeddings_plan gw request_id caller request =
     bind (case rbind (resolve_router gw) (\<lambda>router. plan_routes router (RoutedEmbedding request) caller) of
             Inr targets \<Rightarrow> ret (take (gw_max_attempts gw) targets)
           | Inl e \<Rightarrow>
               refuse_embedding gw request_id caller Rejected request
                 (if is_no_route e then e else NoRouteError (''model routing failed: '' @ exn_text e))) (\<lambda>candidates.
     if candidates = []
     then refuse_embedding gw request_id caller Rejected request
            (NoRouteError (''no route available for model '' @ quoted (emb_model request)))
     else ret candidates)"

definition embeddings_metadata :: "string \<Rightarrow> request_principal \<Rightarrow> embedding_request \<Rightarrow> route_target \<Rightarrow> request_metadata" where
  "embeddings_metadata request_id caller request target =
     \<lparr>meta_request_id = request_id, meta_model = emb_model request, meta_stream = False,
      meta_route_id = target_label target, meta_provider_ref = provider_ref target, meta_principal = caller\<rparr>"

definition resolve_embedding_provider ::
  "'s gateway \<Rightarrow> nat \<Rightarrow> route_target \<Rightarrow> gw_exn + (embedding_request \<Rightarrow> gw_exn + embedding_batch option)" where
  "resolve_embedding_provider gw attempt target =
     rbind (gw_resolve_provider gw attempt (provider_ref target)) (\<lambda>p.
     case p_embed p of
       None \<Rightarrow> Inl (ProviderFailureError (''resolved embedding provider '' @ quoted (provider_ref target) @ '' is invalid'') None)
     | Some run_embed \<Rightarrow> Inr run_embed)"

definition check_batch :: "embedding_request \<Rightarrow> embedding_batch option \<Rightarrow> gw_exn + embedding_batch" where
  "check_batch request found =
     (case found of
        Some batch \<Rightarrow>
          if length (vectors batch) = length (emb_inputs request) then Inr batch
          else Inl (ProviderFailureError ''embedding provider returned an incomplete batch'' None)
      | None \<Rightarrow> Inl (ProviderFailureError ''embedding provider returned an incomplete batch'' None))"

definition embedding_item :: "nat \<Rightarrow> pyval list \<Rightarrow> pyval" where
  "embedding_item i v =
     PDict [(''object'', PStr ''embedding''), (''embedding'', PList v), (''index'', PInt (int i))]"

definition embeddings_body :: "embedding_batch \<Rightarrow> pydict" where
  "embeddings_body batch =
     [(''object'', PStr ''list''),
      (''data'', PList (map (\<lambda>(i, v). embedding_item i v) (enumerate 0 (vectors batch)))),
      (''model'', PStr (batch_model batch))]"

definition embeddings_call ::
  "'s gateway \<Rightarrow> nat \<Rightarrow> request_metadata \<Rightarrow> embedding_request \<Rightarrow> route_target \<Rightarrow> ('s, gateway_response) gw_act" where
  "embeddings_call gw attempt metadata request target =
     (let request' = request\<lparr>emb_model := provider_model target (emb_model request)\<rparr> in
      bind (result (resolve_embedding_provider gw attempt target)) (\<lambda>run_embed.
      bind (call_out (EmbedCalled (provider_ref target) request')) (\<lambda>_.
      bind (result (run_embed request')) (\<lambda>found.
      bind (result (check_batch request found)) (\<lambda>batch.
      bind (poll gw) (\<lambda>cancelled.
      if cancelled then raise (RequestCancelled ''request was cancelled during embedding provider execution'' None)
      else
        bind (observe_finished gw metadata Completed None None) (\<lambda>_.
        ret \<lparr>resp_request_id = meta_request_id metadata, resp_model = batch_model batch, resp_status_code = 200,
          resp_body = Json (embeddings_body batch), resp_stream = False,
          resp_route_id = meta_route_id metadata, resp_usage = None\<rparr>)))))))"

definition embeddings_except ::
  "'s gateway \<Rightarrow> bool \<Rightarrow> request_metadata \<Rightarrow> gw_exn \<Rightarrow> ('s, attempt_result) gw_act" where
  "embeddings_except gw started metadata e =
     (case e of
        RequestCancelled m u \<Rightarrow>
          andthen (record_if_started gw started metadata Cancelled None ''request_cancelled'') (raise e)
      | ProviderInvocationCancelled m \<Rightarrow>
          andthen (record_if_started gw started metadata Cancelled None ''request_cancelled'')
            (raise (RequestCancelled ''embedding provider invocation was cancelled'' None))
      | ProviderEmbeddingError pe \<Rightarrow>
          andthen (record_if_started gw started metadata Failed None (audit_error_type (EmbeddingProviderResponseError pe)))
            (raise (EmbeddingProviderResponseError pe))
      | GatewayLifecycleError m \<Rightarrow> raise e
      | _ \<Rightarrow>
          bind (poll gw) (\<lambda>cancelled.
          if cancelled then
            andthen (record_if_started gw started metadata Cancelled None ''request_cancelled'')
              (raise (RequestCancelled ''request was cancelled during provider execution'' None))
          else
            andthen (record_if_started gw started metadata Failed None (audit_error_type e))
              (ret (NextCandidate (meta_route_id metadata @ '': '' @ exn_text e)))))"

definition embeddings_attempt ::
  "'s gateway \<Rightarrow> nat \<Rightarrow> request_metadata \<Rightarrow> embedding_request \<Rightarrow> route_target \<Rightarrow> ('s, attempt_result) gw_act" where
  "embeddings_attempt gw attempt metadata request target = (\<lambda>w.
     case observe_started gw metadata w of
       (Inl e, w') \<Rightarrow> embeddings_except gw False metadata e w'
     | (Inr u, w') \<Rightarrow>
         catch (bind (embeddings_call gw attempt metadata request target) (\<lambda>response. ret (Answered response)))
           (embeddings_except gw True metadata) w')"

fun embeddings_attempts ::
  "'s gateway \<Rightarrow> string \<Rightarrow> request_principal \<Rightarrow> embedding_request \<Rightarrow> nat \<Rightarrow> route_target list \<Rightarrow> string list \<Rightarrow>
   ('s, gateway_response) gw_act" where
  "embeddings_attempts gw request_id caller request attempt [] failures =
     raise (ProviderFailureError (or_text (join_with ''; '' failures) ''all embedding provider candidates failed'') None)"
| "embeddings_attempts gw request_id caller request attempt (target # rest) failures =
     bind (poll gw) (\<lambda>cancelled.
     if cancelled
     then refuse_embedding gw request_id caller RejectedCancelled request
            (RequestCancelled ''request was cancelled before provider execution'' None)
     else
       bind (embeddings_attempt gw attempt (embeddings_metadata request_id caller request target) request target) (\<lambda>r.
       case r of
         Answered response \<Rightarrow> ret response
       | NextCandidate failure \<Rightarrow>
           embeddings_attempts gw request_id caller request (Suc attempt) rest (failures @ [failure])))"

definition handle_openai_embeddings ::
  "'s gateway \<Rightarrow> string \<Rightarrow> (string \<times> string) list \<Rightarrow> pyval \<Rightarrow> ('s, gateway_response) gw_act" where
  "handle_openai_embeddings gw request_id headers payload =
     bind (embeddings_identify gw request_id headers payload) (\<lambda>caller.
     bind (embeddings_parse gw request_id caller payload) (\<lambda>request.
     bind (embeddings_plan gw request_id caller request) (\<lambda>candidates.
     embeddings_attempts gw request_id caller request 0 candidates [])))"

end
