(* ===== verification/Media_Facts.thy ===== *)
theory Media_Facts
  imports Gateway
begin

text \<open>
  What routing may see of a request, and what media resolution guarantees: verified bytes in place
  of every artifact reference, within the aggregate bound, with no provider called on the way.
\<close>


section \<open>Routing sees no media\<close>

definition routed_part_fields :: "string set" where
  "routed_part_fields = {''type'', ''text'', ''mime_type'', ''byte_length'', ''has_artifact''}"

lemma route_part_fields:
  assumes "part_ok p"
  shows "set (map fst (route_part p)) \<subseteq> routed_part_fields"
proof -
  from assms obtain d where d: "p = PDict d" "text_part_ok d \<or> media_part_ok d" by (cases p) auto
  show ?thesis
  proof (cases "dget d ''type'' = PStr ''text''")
    case True
    with d(2) have "text_part_ok d"
      by (auto simp: media_part_ok_def split: pyval.split_asm)
    then have "map fst d = [''type'', ''text'']" by (simp add: text_part_ok_def)
    with True d(1) show ?thesis by (simp add: route_part_def routed_part_fields_def)
  next
    case False
    with d(1) show ?thesis
      by (auto simp: route_part_def routed_part_fields_def split: pyval.splits)
  qed
qed

text \<open>The parts of a message, as routing and providers see them.\<close>

definition message_parts :: "pydict \<Rightarrow> pyval list" where
  "message_parts m = (case dget m ''content'' of PTuple ps \<Rightarrow> ps | _ \<Rightarrow> [])"

definition part_fields :: "pyval \<Rightarrow> string list" where
  "part_fields p = (case p of PDict d \<Rightarrow> map fst d | _ \<Rightarrow> [])"

lemma message_ok_content:
  assumes "message_ok m"
  shows "(\<exists>ps. dget m ''content'' = PTuple ps \<and> list_all part_ok ps) \<or>
    (seq_items (dget m ''content'') = None)"
proof -
  from assms obtain role where "content_ok role (dget m ''content'')"
    by (auto simp: message_ok_def split: pyval.split_asm)
  then show ?thesis by (cases "dget m ''content''") (auto simp: content_ok_def)
qed

lemma route_message_fields:
  assumes "message_ok m" "p \<in> set (message_parts (route_message m))"
  shows "set (part_fields p) \<subseteq> routed_part_fields"
  using message_ok_content [OF assms(1)]
proof (elim disjE exE conjE)
  fix ps assume ps: "dget m ''content'' = PTuple ps" "list_all part_ok ps"
  with assms(2) obtain q where "q \<in> set ps" "p = PDict (route_part q)"
    by (auto simp: route_message_def message_parts_def dict_simps)
  with ps(2) route_part_fields show ?thesis by (auto simp: part_fields_def list_all_iff)
next
  assume "seq_items (dget m ''content'') = None"
  with assms(2) show ?thesis
    by (cases "dget m ''content''") (simp_all add: route_message_def message_parts_def)
qed

section \<open>Media resolution\<close>

text \<open>A resolved part: a reference was replaced by verified bytes, everything else is unchanged.\<close>

definition resolved_part :: "'s gateway \<Rightarrow> request_principal \<Rightarrow> pyval \<Rightarrow> pyval \<Rightarrow> bool" where
  "resolved_part gw caller p p' =
     (case p of
        PDict d \<Rightarrow>
          if dhas d ''artifact_id''
          then \<exists>read artifact_id a. gw_media_resolver gw = Some read \<and> dget d ''artifact_id'' = PStr artifact_id \<and>
            read artifact_id caller = Inr (Some a) \<and> dget d ''mime_type'' = PStr (art_mime_type a) \<and>
            art_data a \<noteq> [] \<and> art_size a = int (length (art_data a)) \<and> art_sha256 a = sha256_hex (art_data a) \<and>
            p' = PDict (dset ''data'' (PBytes (art_data a)) (dpop ''artifact_id'' d))
          else p' = p
      | _ \<Rightarrow> p' = PDict [])"

lemma verify_artifact_Inr:
  "verify_artifact d found = Inr a \<longleftrightarrow>
   found = Some a \<and> dget d ''mime_type'' = PStr (art_mime_type a) \<and> art_data a \<noteq> [] \<and>
   art_size a = int (length (art_data a)) \<and> art_size a \<le> int MAX_CHAT_MEDIA_BYTES \<and>
   art_sha256 a = sha256_hex (art_data a)"
  by (auto simp: verify_artifact_def split: option.splits if_splits)

lemma add_media_bytes_Inr: "add_media_bytes n k = Inr m \<longleftrightarrow> m = n + k \<and> n + k \<le> MAX_CHAT_MEDIA_BYTES"
  by (auto simp: add_media_bytes_def)

text \<open>What media resolution may raise.\<close>

definition media_exn :: "gw_exn \<Rightarrow> bool" where
  "media_exn e = ((\<exists>m u. e = RequestCancelled m u) \<or> (\<exists>m. e = MediaArtifactUnavailableError m))"

text \<open>Reading media leaves the observer alone and calls no provider.\<close>

definition media_only :: "'s world \<Rightarrow> 's world \<Rightarrow> bool" where
  "media_only w w' =
     (obs w' = obs w \<and> (\<exists>ids. outcalls w' = outcalls w @ map MediaRead ids))"

lemma media_only_refl: "media_only w w"
  by (auto simp: media_only_def intro: exI [of _ "[]"])

lemma media_only_poll: "media_only w w' \<Longrightarrow> media_only w (w'\<lparr>polls := n\<rparr>)"
  by (simp add: media_only_def)

lemma media_only_read:
  assumes "media_only w w'"
  shows "media_only w (w'\<lparr>polls := n, outcalls := outcalls w' @ [MediaRead a]\<rparr>)"
    and "media_only w (w'\<lparr>outcalls := outcalls w' @ [MediaRead a], polls := n\<rparr>)"
proof -
  from assms obtain ids where "obs w' = obs w" "outcalls w' = outcalls w @ map MediaRead ids"
    by (auto simp: media_only_def)
  then have *: "obs w' = obs w" "outcalls w' @ [MediaRead a] = outcalls w @ map MediaRead (ids @ [a])" by simp_all
  show "media_only w (w'\<lparr>polls := n, outcalls := outcalls w' @ [MediaRead a]\<rparr>)"
    "media_only w (w'\<lparr>outcalls := outcalls w' @ [MediaRead a], polls := n\<rparr>)"
    unfolding media_only_def using * by (simp_all del: map_append append_assoc) blast+
qed

lemma add_media_bytes_Inl: "add_media_bytes n k = Inl e \<Longrightarrow> \<exists>m. e = MediaArtifactUnavailableError m"
  by (auto simp: add_media_bytes_def split: if_splits)

lemma verify_artifact_Inl: "verify_artifact d found = Inl e \<Longrightarrow> \<exists>m. e = MediaArtifactUnavailableError m"
  by (auto simp: verify_artifact_def split: option.splits if_splits)

lemma resolve_reference_valid:
  assumes "dhas d ''artifact_id''"
  shows "valid (\<lambda>w. media_only w0 w \<and> n \<le> MAX_CHAT_MEDIA_BYTES) (resolve_reference gw caller d n)
    (\<lambda>(p', n') w. media_only w0 w \<and> resolved_part gw caller (PDict d) p' \<and> n' = n + part_bytes p' \<and> n' \<le> MAX_CHAT_MEDIA_BYTES)
    (\<lambda>e w. media_only w0 w \<and> media_exn e)"
  using assms
  by (auto simp: valid_def resolve_reference_def read_artifact_def act_simps poll_def call_out_def
      media_exn_def verify_artifact_Inr add_media_bytes_Inr resolved_part_def part_bytes_def dict_simps
      media_only_poll media_only_read
      dest!: add_media_bytes_Inl verify_artifact_Inl
      split: sum.splits option.splits pyval.splits if_splits gw_exn.splits)

lemma resolve_part_valid:
  "valid (\<lambda>w. media_only w0 w \<and> n \<le> MAX_CHAT_MEDIA_BYTES) (resolve_part gw caller p n)
    (\<lambda>(p', n') w. media_only w0 w \<and> resolved_part gw caller p p' \<and> n' = n + part_bytes p' \<and> n' \<le> MAX_CHAT_MEDIA_BYTES)
    (\<lambda>e w. media_only w0 w \<and> media_exn e)"
proof (cases p)
  case (PDict d)
  show ?thesis
  proof (cases "dhas d ''artifact_id''")
    case True
    with resolve_reference_valid [OF True] PDict show ?thesis by (simp add: resolve_part_def)
  next
    case False
    with PDict show ?thesis
      by (auto simp: valid_def resolve_part_def act_simps resolve_inline_def rbind_def resolved_part_def
          part_bytes_def add_media_bytes_Inr media_exn_def dest!: add_media_bytes_Inl
          split: sum.splits pyval.splits)
  qed
qed (simp_all add: valid_def resolve_part_def act_simps resolved_part_def part_bytes_def dget_Nil)

text \<open>A resolved message and a resolved request.\<close>

definition resolved_message :: "'s gateway \<Rightarrow> request_principal \<Rightarrow> pydict \<Rightarrow> pydict \<Rightarrow> bool" where
  "resolved_message gw caller m m' =
     (case seq_items (dget m ''content'') of
        None \<Rightarrow> m' = m
      | Some ps \<Rightarrow> \<exists>ps'. list_all2 (resolved_part gw caller) ps ps' \<and> m' = dset ''content'' (PTuple ps') m)"

lemma resolve_message_valid:
  "valid (\<lambda>w. media_only w0 w \<and> n \<le> MAX_CHAT_MEDIA_BYTES) (resolve_message gw caller m n)
    (\<lambda>(m', n') w. media_only w0 w \<and> resolved_message gw caller m m' \<and> n' = n + message_bytes m' \<and> n' \<le> MAX_CHAT_MEDIA_BYTES)
    (\<lambda>e w. media_only w0 w \<and> media_exn e)"
proof (cases "seq_items (dget m ''content'')")
  case None
  then have "message_bytes m = 0"
    by (cases "dget m ''content''") (simp_all add: message_bytes_def content_bytes_def)
  with None show ?thesis
    by (simp add: valid_def resolve_message_def act_simps resolved_message_def)
next
  case (Some ps)
  from valid_traverse_act [where I = "media_only w0" and m = part_bytes and R = "resolved_part gw caller",
      OF resolve_part_valid [of w0 _ gw caller]]
  have "valid (\<lambda>w. media_only w0 w \<and> n \<le> MAX_CHAT_MEDIA_BYTES) (traverse_act (resolve_part gw caller) ps n)
    (\<lambda>(ps', n') w. media_only w0 w \<and> list_all2 (resolved_part gw caller) ps ps' \<and>
       n' = n + sum_list (map part_bytes ps') \<and> n' \<le> MAX_CHAT_MEDIA_BYTES)
    (\<lambda>e w. media_only w0 w \<and> media_exn e)" .
  then show ?thesis
    unfolding resolve_message_def Some option.case
    by (rule valid_bind)
      (auto simp: valid_def act_simps resolved_message_def Some message_bytes_def content_bytes_def dict_simps)
qed

lemma resolve_media_artifacts_valid:
  "valid (\<lambda>w. w = w0) (resolve_media_artifacts gw request caller)
    (\<lambda>r w. media_only w0 w \<and> (\<exists>ms. r = request\<lparr>req_messages := ms\<rparr> \<and>
       list_all2 (resolved_message gw caller) (req_messages request) ms) \<and> request_bytes r \<le> MAX_CHAT_MEDIA_BYTES)
    (\<lambda>e w. media_only w0 w \<and> media_exn e)"
proof -
  from valid_traverse_act [where I = "media_only w0" and m = message_bytes and R = "resolved_message gw caller",
      OF resolve_message_valid [of w0 _ gw caller], of 0 "req_messages request"]
  have "valid (\<lambda>w. w = w0) (traverse_act (resolve_message gw caller) (req_messages request) 0)
    (\<lambda>(ms, n) w. media_only w0 w \<and> list_all2 (resolved_message gw caller) (req_messages request) ms \<and>
       n = 0 + sum_list (map message_bytes ms) \<and> n \<le> MAX_CHAT_MEDIA_BYTES)
    (\<lambda>e w. media_only w0 w \<and> media_exn e)"
    by (rule valid_pre) (simp add: media_only_refl)
  then show ?thesis
    unfolding resolve_media_artifacts_def
    by (rule valid_bind) (auto simp: valid_def act_simps request_bytes_def)
qed

end
