(* ===== verification/Attachments.thy ===== *)
theory Attachments
  imports Web Billing Media_Facts
begin

text \<open>
  \<open>WorkAttachmentHttpResolver\<close>, \<open>product/src/cyrene_exchange_product/media_artifacts.py\<close>: one Work
  attachment read for the principal whose profile authorizes it. The HTTP exchange is an argument:
  what a \<open>GET\<close> of a URL with a bearer token raises or answers, with the chunks of its body. The
  answers of the cancellation event are an argument too, one per \<open>is_set()\<close> of a read.
\<close>

section \<open>Configuration\<close>

record work_credential =
  wc_actor_id :: string
  wc_workspace_id :: string
  wc_credential_ref :: string
  wc_token :: string
  wc_organization_id :: "string option"

definition MAX_WORK_ATTACHMENT_BYTES :: nat where
  "MAX_WORK_ATTACHMENT_BYTES = 10000000"

record work_resolver =
  wr_origin :: string
  wr_credentials :: "(string \<times> work_credential) list"
  wr_max_bytes :: int

text \<open>The checks of \<open>__init__\<close> on the limits and the credentials, and the resolver it makes.\<close>

definition value_error :: "string \<Rightarrow> gw_exn" where
  "value_error m = OtherError ''ValueError'' m None"

definition permission_error :: "string \<Rightarrow> gw_exn" where
  "permission_error m = OtherError ''PermissionError'' m None"

definition mk_work_resolver ::
  "string \<Rightarrow> (string \<times> work_credential) list \<Rightarrow> rat \<Rightarrow> int \<Rightarrow> gw_exn + work_resolver" where
  "mk_work_resolver origin credentials timeout max_bytes =
     rbind (guard (0 < timeout \<and> timeout \<le> 60) (value_error ''Work attachment timeout must be between 0 and 60 seconds'')) (\<lambda>_.
     rbind (guard (0 < max_bytes \<and> max_bytes \<le> int MAX_WORK_ATTACHMENT_BYTES)
              (value_error ''Work attachment size limit exceeds the Work API limit'')) (\<lambda>_.
     rbind (guard (credentials \<noteq> []) (value_error ''at least one scoped Work attachment credential is required'')) (\<lambda>_.
     rbind (guard (list_all (\<lambda>(k, profile). k = wc_credential_ref profile) credentials)
              (value_error ''Work attachment credentials must be keyed by credential_ref'')) (\<lambda>_.
     Inr \<lparr>wr_origin = rstrip_char (CHR ''/'') origin, wr_credentials = credentials, wr_max_bytes = max_bytes\<rparr>))))"

section \<open>The HTTP exchange\<close>

record work_response =
  wk_status :: int
  wk_content_length :: "string option"
  wk_content_type :: string
  wk_chunks :: "bytes list"
  wk_failure :: "gw_exn option"

text \<open>A request: its URL and its bearer token.\<close>

type_synonym work_http = "string \<Rightarrow> string \<Rightarrow> gw_exn + work_response"
type_synonym 'a work_act = "(nat \<times> (string \<times> string) list, gw_exn, 'a) act"

text \<open>The state of a read: how often the event was asked, and the requests sent.\<close>

definition stop_if_cancelled :: "(nat \<Rightarrow> bool) \<Rightarrow> unit work_act" where
  "stop_if_cancelled cancelled = (\<lambda>(k, sent).
     if cancelled k then (Inl (RequestCancelled ''request was cancelled while resolving media'' None), (Suc k, sent))
     else (Inr (), (Suc k, sent)))"

definition send_get :: "work_http \<Rightarrow> string \<Rightarrow> string \<Rightarrow> work_response work_act" where
  "send_get http url token = (\<lambda>(k, sent). (http url token, (k, sent @ [(url, token)])))"

section \<open>Reading\<close>

definition mime_char :: "char \<Rightarrow> bool" where
  "mime_char c = (let n = code c in n \<in> {97..122} \<or> n \<in> {48..57} \<or> c \<in> set ''!#$&^_.+-'')"

definition mime_type_text :: "string \<Rightarrow> bool" where
  "mime_type_text s = (case split_first (CHR ''/'') s of (a, slash, b) \<Rightarrow>
     slash \<noteq> [] \<and> a \<noteq> [] \<and> b \<noteq> [] \<and> list_all mime_char a \<and> list_all mime_char b)"

definition work_profile :: "work_resolver \<Rightarrow> request_principal \<Rightarrow> gw_exn + work_credential" where
  "work_profile res caller =
     (case map_of (wr_credentials res) (credential_ref caller) of
        None \<Rightarrow> Inl (permission_error ''no Work attachment profile matches this Exchange principal'')
      | Some profile \<Rightarrow>
          if wc_actor_id profile \<noteq> actor_id caller \<or> wc_workspace_id profile \<noteq> workspace_id caller \<or>
             wc_organization_id profile \<noteq> organization_id caller
          then Inl (permission_error ''no Work attachment profile matches this Exchange principal'')
          else if blank (wc_token profile)
          then Inl (permission_error ''the configured Work attachment credential is empty'')
          else Inr profile)"

definition attachment_url :: "work_resolver \<Rightarrow> string \<Rightarrow> string \<Rightarrow> string" where
  "attachment_url res workspace artifact_id =
     wr_origin res @ ''/api/v1/workspaces/'' @ percent_quote workspace @ ''/work/attachments/'' @ artifact_id"

definition check_length :: "work_resolver \<Rightarrow> string option \<Rightarrow> gw_exn + unit" where
  "check_length res raw_length =
     (case raw_length of
        None \<Rightarrow> Inr ()
      | Some raw \<Rightarrow>
          (case py_int raw of
             Inl e \<Rightarrow> Inl (value_error ''Work attachment length is invalid'')
           | Inr n \<Rightarrow> guard (0 \<le> n \<and> n \<le> wr_max_bytes res) (value_error ''Work attachment exceeds the configured size limit'')))"

definition response_mime :: "work_response \<Rightarrow> gw_exn + string" where
  "response_mime response =
     (let mime_type = lower (strip (before_char (CHR '';'') (wk_content_type response))) in
      if mime_type_text mime_type then Inr mime_type else Inl (value_error ''Work attachment MIME type is invalid''))"

fun read_body :: "(nat \<Rightarrow> bool) \<Rightarrow> int \<Rightarrow> bytes list \<Rightarrow> gw_exn option \<Rightarrow> bytes \<Rightarrow> bytes work_act" where
  "read_body cancelled limit [] failure content = (case failure of None \<Rightarrow> ret content | Some e \<Rightarrow> raise e)"
| "read_body cancelled limit (chunk # chunks) failure content =
     andthen (stop_if_cancelled cancelled)
       (if int (length (content @ chunk)) > limit
        then raise (value_error ''Work attachment exceeds the configured size limit'')
        else read_body cancelled limit chunks failure (content @ chunk))"

definition receive :: "(nat \<Rightarrow> bool) \<Rightarrow> work_resolver \<Rightarrow> work_response \<Rightarrow> (string \<times> bytes) work_act" where
  "receive cancelled res response =
     (if wk_status response \<noteq> 200 then raise (permission_error ''Work did not authorize or find this attachment'')
      else
        bind (result (check_length res (wk_content_length response))) (\<lambda>_.
        bind (result (response_mime response)) (\<lambda>mime_type.
        bind (read_body cancelled (wr_max_bytes res) (wk_chunks response) (wk_failure response) []) (\<lambda>content.
        ret (mime_type, content)))))"

definition accept_content :: "string \<Rightarrow> string \<Rightarrow> bytes \<Rightarrow> gw_exn + media_artifact" where
  "accept_content artifact_id mime_type content =
     (if content = [] then Inl (value_error ''Work returned an empty attachment'')
      else if sha256_hex content \<noteq> artifact_id
      then Inl (value_error ''Work attachment bytes do not match the requested digest'')
      else Inr \<lparr>art_mime_type = mime_type, art_data = content, art_sha256 = sha256_hex content,
                art_size = int (length content)\<rparr>)"

definition read_attachment ::
  "work_resolver \<Rightarrow> work_http \<Rightarrow> (nat \<Rightarrow> bool) \<Rightarrow> string \<Rightarrow> request_principal \<Rightarrow> media_artifact work_act" where
  "read_attachment res http cancelled artifact_id caller =
     andthen (stop_if_cancelled cancelled)
      (bind (result (guard (hex64 artifact_id) (value_error ''Work attachment id must be a lowercase SHA-256 digest''))) (\<lambda>_.
       bind (result (work_profile res caller)) (\<lambda>profile.
       andthen (stop_if_cancelled cancelled)
        (bind (send_get http (attachment_url res (wc_workspace_id profile) artifact_id) (wc_token profile)) (\<lambda>response.
         bind (receive cancelled res response) (\<lambda>(mime_type, content).
         andthen (stop_if_cancelled cancelled)
           (result (accept_content artifact_id mime_type content))))))))"

text \<open>As the media resolver of the gateway.\<close>

definition work_media_resolver ::
  "work_resolver \<Rightarrow> work_http \<Rightarrow> (nat \<Rightarrow> bool) \<Rightarrow> string \<Rightarrow> request_principal \<Rightarrow> gw_exn + media_artifact option" where
  "work_media_resolver res http cancelled artifact_id caller =
     map_sum id Some (fst (read_attachment res http cancelled artifact_id caller (0, [])))"

section \<open>Facts\<close>

lemma stop_if_cancelled_Inr: "stop_if_cancelled cancelled (k, sent) = (Inr u, w) \<longleftrightarrow> \<not> cancelled k \<and> w = (Suc k, sent)"
  by (auto simp: stop_if_cancelled_def)

lemma work_profile_Inr:
  "work_profile res caller = Inr p \<longleftrightarrow> map_of (wr_credentials res) (credential_ref caller) = Some p \<and>
     wc_actor_id p = actor_id caller \<and> wc_workspace_id p = workspace_id caller \<and>
     wc_organization_id p = organization_id caller \<and> \<not> blank (wc_token p)"
  by (auto simp: work_profile_def split: option.splits if_splits)

lemma read_body_Inr:
  "read_body cancelled limit chunks failure content (k, sent) = (Inr body, w) \<Longrightarrow>
   body = content @ concat chunks \<and> failure = None \<and> snd w = sent \<and> (int (length content) \<le> limit \<longrightarrow> int (length body) \<le> limit)"
proof (induction cancelled limit chunks failure content arbitrary: k rule: read_body.induct)
  case (1 cancelled limit failure content)
  then show ?case by (cases failure) (auto simp: outcome_simps)
next
  case (2 cancelled limit chunk chunks failure content)
  from "2.prems" have step: "\<not> int (length (content @ chunk)) > limit"
    "read_body cancelled limit chunks failure (content @ chunk) (Suc k, sent) = (Inr body, w)"
    by (auto simp: outcome_simps stop_if_cancelled_Inr split: if_splits)
  from "2.IH" [OF step] step(1) show ?case by auto
qed

text \<open>What a successful read guarantees, and the one request it made.\<close>

lemma read_attachment_Inr:
  assumes "read_attachment res http cancelled artifact_id caller (0, []) = (Inr a, w)" "0 \<le> wr_max_bytes res"
  shows "\<exists>p r. work_profile res caller = Inr p \<and> hex64 artifact_id \<and>
    snd w = [(attachment_url res (workspace_id caller) artifact_id, wc_token p)] \<and>
    http (attachment_url res (workspace_id caller) artifact_id) (wc_token p) = Inr r \<and> wk_status r = 200 \<and> wk_failure r = None \<and>
    art_data a = concat (wk_chunks r) \<and> art_data a \<noteq> [] \<and> sha256_hex (art_data a) = artifact_id \<and> art_sha256 a = artifact_id \<and>
    art_size a = int (length (art_data a)) \<and> art_size a \<le> wr_max_bytes res \<and> mime_type_text (art_mime_type a)"
  using assms
  by (auto simp: read_attachment_def outcome_simps stop_if_cancelled_Inr send_get_def receive_def accept_content_def
      result_simps work_profile_Inr response_mime_def Let_def dest!: read_body_Inr split: if_splits)

text \<open>A request leaves only for an authorized profile, with its own token, and at most once.\<close>

definition sends_nothing :: "'a work_act \<Rightarrow> bool" where
  "sends_nothing m = (\<forall>w r w'. m w = (r, w') \<longrightarrow> snd w' = snd w)"

lemma sends_nothing_basic: "sends_nothing (ret x)" "sends_nothing (raise e)" "sends_nothing (result r)"
  "sends_nothing (stop_if_cancelled cancelled)"
  by (auto simp: sends_nothing_def act_simps stop_if_cancelled_def split: prod.splits if_splits)

lemma sends_nothing_bind: "sends_nothing m \<Longrightarrow> (\<And>x. sends_nothing (f x)) \<Longrightarrow> sends_nothing (bind m f)"
  by (fastforce simp: sends_nothing_def act_simps split: sum.splits prod.splits)

lemma sends_nothing_if: "sends_nothing m \<Longrightarrow> sends_nothing n \<Longrightarrow> sends_nothing (if c then m else n)"
  by simp

lemma sends_nothing_body: "sends_nothing (read_body cancelled limit chunks failure content)"
  by (induction cancelled limit chunks failure content rule: read_body.induct)
     (auto simp: sends_nothing_basic intro!: sends_nothing_bind split: option.split)

lemma sends_nothing_receive: "sends_nothing (receive cancelled res response)"
  unfolding receive_def
  by (intro sends_nothing_if sends_nothing_bind sends_nothing_basic sends_nothing_body)

lemma bind_stop: "bind (stop_if_cancelled cancelled) f (k, sent) = (if cancelled k
    then (Inl (RequestCancelled ''request was cancelled while resolving media'' None), (Suc k, sent)) else f () (Suc k, sent))"
  by (simp add: bind_apply stop_if_cancelled_def)

lemma bind_result: "bind (result (Inr x)) f w = f x w" "bind (result (Inl e)) f w = (Inl e, w)"
  by (simp_all add: act_simps)

lemma bind_send: "bind (send_get http url token) f (k, sent) =
    (case http url token of Inl e \<Rightarrow> (Inl e, (k, sent @ [(url, token)])) | Inr response \<Rightarrow> f response (k, sent @ [(url, token)]))"
  by (simp add: bind_apply send_get_def)

lemma read_attachment_sent:
  assumes "read_attachment res http cancelled artifact_id caller (0, []) = (r, w)"
  shows "snd w = [] \<or> (\<exists>p. work_profile res caller = Inr p \<and> hex64 artifact_id \<and>
    snd w = [(attachment_url res (workspace_id caller) artifact_id, wc_token p)])"
proof -
  have rest: "sends_nothing (bind (receive cancelled res response) (\<lambda>(mime_type, content).
      andthen (stop_if_cancelled cancelled) (result (accept_content artifact_id mime_type content))))" for response
    by (intro sends_nothing_bind sends_nothing_receive) (auto intro: sends_nothing_bind sends_nothing_basic)
  show ?thesis
  proof (cases "cancelled 0 \<or> \<not> hex64 artifact_id \<or> isl (work_profile res caller) \<or> cancelled (Suc 0)")
    case True
    with assms show ?thesis
      by (auto simp: read_attachment_def act_simps stop_if_cancelled_def isl_def guard_def split: if_splits sum.splits)
  next
    case False
    then obtain p where p: "work_profile res caller = Inr p" by (cases "work_profile res caller") auto
    then have ws: "wc_workspace_id p = workspace_id caller" by (simp add: work_profile_Inr)
    let ?url = "attachment_url res (workspace_id caller) artifact_id"
    from False p have run: "read_attachment res http cancelled artifact_id caller (0, []) =
        bind (send_get http ?url (wc_token p)) (\<lambda>response. bind (receive cancelled res response) (\<lambda>(mime_type, content).
          andthen (stop_if_cancelled cancelled) (result (accept_content artifact_id mime_type content)))) (Suc (Suc 0), [])"
      by (simp add: read_attachment_def bind_stop bind_result ws)
    have "snd w = [(?url, wc_token p)]"
    proof (cases "http ?url (wc_token p)")
      case (Inl e)
      with assms run show ?thesis by (auto simp: bind_send)
    next
      case (Inr response)
      with assms run have "bind (receive cancelled res response) (\<lambda>(mime_type, content).
          andthen (stop_if_cancelled cancelled) (result (accept_content artifact_id mime_type content)))
          (Suc (Suc 0), [(?url, wc_token p)]) = (r, w)"
        by (simp add: bind_send)
      with rest show ?thesis unfolding sends_nothing_def by (metis snd_conv)
    qed
    with False p show ?thesis by blast
  qed
qed

text \<open>What the resolver returns is what the gateway verifies, up to the declared media type.\<close>

lemma work_artifact_verified:
  assumes "work_media_resolver res http cancelled artifact_id caller = Inr (Some a)"
    and "0 \<le> wr_max_bytes res" "wr_max_bytes res \<le> int MAX_WORK_ATTACHMENT_BYTES"
  shows "verify_artifact part (Some a) =
    (if dget part ''mime_type'' = PStr (art_mime_type a) then Inr a
     else Inl (media_error ''media artifact content does not match its reference''))"
proof -
  from assms(1) obtain w where "read_attachment res http cancelled artifact_id caller (0, []) = (Inr a, w)"
    unfolding work_media_resolver_def
    by (cases "read_attachment res http cancelled artifact_id caller (0, [])"; cases "fst (read_attachment res http cancelled artifact_id caller (0, []))")
       auto
  from read_attachment_Inr [OF this assms(2)] assms(3) show ?thesis
    by (auto simp: verify_artifact_def MAX_WORK_ATTACHMENT_BYTES_def MAX_CHAT_MEDIA_BYTES_def)
qed

lemma mk_work_resolver_Inr:
  "mk_work_resolver origin credentials timeout max_bytes = Inr res \<Longrightarrow>
   0 < wr_max_bytes res \<and> wr_max_bytes res \<le> int MAX_WORK_ATTACHMENT_BYTES \<and> wr_credentials res = credentials \<and>
   (\<forall>k p. (k, p) \<in> set credentials \<longrightarrow> k = wc_credential_ref p)"
  by (auto simp: mk_work_resolver_def result_simps list_all_iff)

end
