(* ===== verification/Stream_Facts.thy ===== *)
theory Stream_Facts
  imports Gateway
begin

text \<open>
  What the stream generator delivers (text, tool calls, finish reason) and what it records: one
  terminal fact, with the usage of the chunks it delivered.
\<close>


section \<open>What a stream delivers\<close>

text \<open>A client's reading of the events.\<close>

definition event_delta :: "pydict \<Rightarrow> pydict" where
  "event_delta event =
     (case dget event ''choices'' of
        PList (PDict c # rest) \<Rightarrow> (case dget c ''delta'' of PDict d \<Rightarrow> d | _ \<Rightarrow> [])
      | _ \<Rightarrow> [])"

definition event_text :: "pydict \<Rightarrow> string" where
  "event_text event = (case dget (event_delta event) ''content'' of PStr s \<Rightarrow> s | _ \<Rightarrow> [])"

definition event_calls :: "pydict \<Rightarrow> pyval list" where
  "event_calls event = (case dget (event_delta event) ''tool_calls'' of PList cs \<Rightarrow> cs | _ \<Rightarrow> [])"

definition event_reason :: "pydict \<Rightarrow> pyval" where
  "event_reason event =
     (case dget event ''choices'' of PList (PDict c # rest) \<Rightarrow> dget c ''finish_reason'' | _ \<Rightarrow> PNone)"

lemma dget_stream_event:
  "dget (stream_event m now choices u) ''choices'' = PList choices"
  by (simp add: stream_event_def dget_Cons)

lemma event_delta_stream_event [simp]:
  "event_delta (stream_event m now [] u) = []"
  "event_delta (stream_event m now [stream_choice d r] u) = d"
  "event_reason (stream_event m now [stream_choice d r] u) = r"
  "event_reason (stream_event m now [] u) = PNone"
  by (simp_all add: event_delta_def event_reason_def dget_stream_event stream_choice_def dget_Cons)

lemma chunk_delta_dict_fields:
  "dget (chunk_delta_dict c) ''content'' = (if chunk_delta c = [] then PNone else PStr (chunk_delta c))"
  "dget (chunk_delta_dict c) ''tool_calls'' =
    (if chunk_tool_calls c = [] then PNone else PList (map (PDict \<circ> to_openai_delta) (chunk_tool_calls c)))"
  by (auto simp: chunk_delta_dict_def Capabilities.opt_field_def dget_append dget_Cons dget_Nil dhas_def split: option.splits)

lemma stream_chunk_event:
  assumes "stream_chunk gw ls st c = (ev, st')"
  shows "event_text ev = chunk_delta c"
    and "event_calls ev = map (PDict \<circ> to_openai_delta) (chunk_tool_calls c)"
    and "event_reason ev = opt_str (chunk_finish_reason c)"
    and "st_usage st' = merge_usage (st_usage st) (chunk_usage c)"
    and "st_emitted_finish st' = (st_emitted_finish st \<or> chunk_finish_reason c \<noteq> None)"
    and "st_reads st' = st_reads st"
proof -
  let ?d = "chunk_delta_dict c" and ?r = "chunk_finish_reason c"
  from assms obtain now u where ev:
    "ev = stream_event (ls_metadata ls) now (if ?d = [] \<and> ?r = None then [] else [stream_choice ?d (opt_str ?r)]) u"
    by (auto simp: stream_chunk_def Let_def)
  then have d: "event_delta ev = ?d" and r: "event_reason ev = opt_str ?r" by (simp_all add: opt_str_def)
  from d show "event_text ev = chunk_delta c" by (simp add: event_text_def chunk_delta_dict_fields)
  from d show "event_calls ev = map (PDict \<circ> to_openai_delta) (chunk_tool_calls c)"
    by (simp add: event_calls_def chunk_delta_dict_fields)
  from r show "event_reason ev = opt_str ?r" .
qed (use assms in \<open>auto simp: stream_chunk_def Let_def\<close>)

definition run_texts :: "stream_run \<Rightarrow> string" where
  "run_texts r = concat (map (event_text \<circ> fst) (fst r))"

definition usage_after :: "provider_usage option \<Rightarrow> provider_chunk list \<Rightarrow> provider_usage option" where
  "usage_after u cs = foldl merge_usage u (map chunk_usage cs)"

lemma usage_after_Cons [simp]: "usage_after u (c # cs) = usage_after (merge_usage u (chunk_usage c)) cs"
  and usage_after_Nil [simp]: "usage_after u [] = u"
  by (simp_all add: usage_after_def)

text \<open>
  The locals after every event hold the usage of the chunks delivered so far, and so do the last
  locals, whatever ended the loop.
\<close>

definition usage_tracks :: "provider_usage option \<Rightarrow> provider_chunk list \<Rightarrow> stream_run \<Rightarrow> bool" where
  "usage_tracks u cs r =
     (case r of (items, err, st) \<Rightarrow>
        (\<forall>i < length items. st_usage (snd (items ! i)) = usage_after u (take (Suc i) cs)) \<and>
        st_usage st = usage_after u (take (length items) cs) \<and> length items \<le> length cs)"

lemma run_chunks_Cons:
  "run_chunks gw ls (c # cs) st =
     (if gw_cancelled gw (st_reads st)
      then ([], Some (RequestCancelled ''request was cancelled during streaming'' None), st\<lparr>st_reads := Suc (st_reads st)\<rparr>)
      else case stream_chunk gw ls (st\<lparr>st_reads := Suc (st_reads st)\<rparr>) c of
        (ev, st1) \<Rightarrow> (case run_chunks gw ls cs st1 of (items, err, st2) \<Rightarrow> ((ev, st1) # items, err, st2)))"
  by (simp add: run_then_def run_check_def run_yield_def split: prod.splits)

declare run_chunks.simps(2) [simp del]

lemma run_chunks_usage: "usage_tracks (st_usage st) cs (run_chunks gw ls cs st)"
proof (induction cs arbitrary: st)
  case Nil
  then show ?case by (simp add: usage_tracks_def)
next
  case (Cons c cs)
  obtain ev st1 where e: "stream_chunk gw ls (st\<lparr>st_reads := Suc (st_reads st)\<rparr>) c = (ev, st1)" by fastforce
  obtain items err st2 where r: "run_chunks gw ls cs st1 = (items, err, st2)" by (rule prod_cases3)
  from stream_chunk_event(4) [OF e] have u: "st_usage st1 = merge_usage (st_usage st) (chunk_usage c)" by simp
  from Cons.IH [of st1] show ?case
    by (auto simp: run_chunks_Cons e r u usage_tracks_def nth_Cons split: nat.splits)
qed

text \<open>The events of the chunk loop carry the chunks' text and tool calls, in order.\<close>

definition delivers :: "provider_chunk list \<Rightarrow> bool \<Rightarrow> (pydict \<times> stream_state) list \<Rightarrow> bool \<Rightarrow> bool" where
  "delivers cs finished items finished' =
     (length items = length cs \<and>
      concat (map event_text (map fst items)) = concat (map chunk_delta cs) \<and>
      concat (map event_calls (map fst items)) = map (PDict \<circ> to_openai_delta) (concat (map chunk_tool_calls cs)) \<and>
      (finished' \<longrightarrow> finished \<or> (\<exists>e \<in> set (map fst items). event_reason e \<noteq> PNone)))"

lemma delivers_Cons:
  assumes "stream_chunk gw ls st c = (ev, st1)" "delivers cs (st_emitted_finish st1) items fin"
  shows "delivers (c # cs) (st_emitted_finish st) ((ev, st1) # items) fin"
  using assms(2) stream_chunk_event [OF assms(1)]
  by (auto simp: delivers_def opt_str_def split: option.splits)

lemma run_chunks_content:
  "run_chunks gw ls cs st = (items, None, st') \<Longrightarrow> delivers cs (st_emitted_finish st) items (st_emitted_finish st')"
proof (induction cs arbitrary: st items)
  case Nil
  then show ?case by (simp add: delivers_def)
next
  case (Cons c cs)
  let ?st = "st\<lparr>st_reads := Suc (st_reads st)\<rparr>"
  obtain ev st1 where e: "stream_chunk gw ls ?st c = (ev, st1)" by fastforce
  obtain items' err st2 where r: "run_chunks gw ls cs st1 = (items', err, st2)" by (rule prod_cases3)
  from Cons.prems have *: "items = (ev, st1) # items'" "err = None" "st2 = st'"
    by (simp_all add: run_chunks_Cons e r split: if_splits)
  with delivers_Cons [OF e Cons.IH [of st1 items']] r show ?case by simp
qed

text \<open>Without a cancellation the loop ends as the provider's iterator does.\<close>

lemma run_chunks_uncancelled:
  assumes "\<And>i. \<not> gw_cancelled gw i"
  shows "fst (snd (run_chunks gw ls cs st)) = (case ls_end ls of Exhausted \<Rightarrow> None | Raises e \<Rightarrow> Some (stream_error e))"
proof (induction cs arbitrary: st)
  case (Cons c cs)
  obtain ev st1 where e: "stream_chunk gw ls (st\<lparr>st_reads := Suc (st_reads st)\<rparr>) c = (ev, st1)" by fastforce
  from Cons.IH [of st1] show ?case by (auto simp: run_chunks_Cons e assms split: prod.splits)
qed simp

lemma run_chunks_error: "run_chunks gw ls cs st = (items, err, st') \<Longrightarrow> length items \<le> length cs"
  using run_chunks_usage [of st cs gw ls] by (simp add: usage_tracks_def)

text \<open>The whole run: at most two trailing events, which change no usage.\<close>

lemma run_events_usage:
  assumes "run_events gw ls st = (items, err, st')"
  shows "\<forall>i < length items. st_usage (snd (items ! i)) = usage_after (st_usage st) (take (Suc i) (ls_chunks ls))"
    and "st_usage st' = usage_after (st_usage st) (take (length items) (ls_chunks ls))"
proof -
  obtain its e1 st1 where r: "run_chunks gw ls (ls_chunks ls) st = (its, e1, st1)" by (rule prod_cases3)
  from run_chunks_usage [of st "ls_chunks ls" gw ls] r
  have u: "\<forall>i < length its. st_usage (snd (its ! i)) = usage_after (st_usage st) (take (Suc i) (ls_chunks ls))"
    "st_usage st1 = usage_after (st_usage st) (take (length its) (ls_chunks ls))" "length its \<le> length (ls_chunks ls)"
    by (auto simp: usage_tracks_def)
  have "\<exists>tail. items = its @ tail \<and> st_usage st' = st_usage st1 \<and> (\<forall>x \<in> set tail. st_usage (snd x) = st_usage st1) \<and>
      (tail = [] \<or> e1 = None)"
    using assms
    by (auto simp: run_events_def r run_then_def run_check_def run_finish_def run_usage_def run_yield_def tick_def
        split: option.splits if_splits prod.splits)
  then obtain tail where tail: "items = its @ tail" "st_usage st' = st_usage st1"
    "\<forall>x \<in> set tail. st_usage (snd x) = st_usage st1" "tail = [] \<or> e1 = None" by blast
  have all: "length its = length (ls_chunks ls)" if "tail \<noteq> []"
    using run_chunks_content [of gw ls "ls_chunks ls" st its st1] r tail(4) that by (simp add: delivers_def)
  show "st_usage st' = usage_after (st_usage st) (take (length items) (ls_chunks ls))"
    using tail u all by (cases "tail = []") auto
  show "\<forall>i < length items. st_usage (snd (items ! i)) = usage_after (st_usage st) (take (Suc i) (ls_chunks ls))"
  proof (intro allI impI)
    fix i assume i: "i < length items"
    show "st_usage (snd (items ! i)) = usage_after (st_usage st) (take (Suc i) (ls_chunks ls))"
    proof (cases "i < length its")
      case True
      with u tail show ?thesis by (simp add: nth_append)
    next
      case False
      with i tail have "tail \<noteq> []" "items ! i \<in> set tail" by (auto simp: nth_append)
      with tail u all False show ?thesis by simp
    qed
  qed
qed

section \<open>The terminal fact of a stream\<close>

text \<open>The observer's state after exactly one call of \<open>on_request_finished\<close>.\<close>

definition one_terminal ::
  "'s gateway \<Rightarrow> request_metadata \<Rightarrow> terminal_status \<Rightarrow> provider_usage option \<Rightarrow> string option \<Rightarrow> 's world \<Rightarrow> 's world \<Rightarrow> bool" where
  "one_terminal gw metadata status usage err w w' =
     (obs w' = snd (on_finished (gw_observer gw) metadata status usage err (obs w)) \<and> outcalls w' = outcalls w)"

lemma observe_world: "snd (observe what m w) = w\<lparr>obs := snd (m (obs w))\<rparr>"
  by (auto simp: observe_def split: prod.splits sum.splits gw_exn.splits)

lemma observe_Inr: "fst (observe what m w) = Inr u \<Longrightarrow> \<exists>v. fst (m (obs w)) = Inr v"
  by (auto simp: observe_def split: prod.splits sum.splits gw_exn.splits)

lemma observe_accepts: "m (obs w) = (Inr v, s) \<Longrightarrow> observe what m w = (Inr (), w\<lparr>obs := s\<rparr>)"
  by (simp add: observe_def)

lemma observe_finished_terminal:
  "observe_finished gw m status usage err w = (r, w') \<Longrightarrow> one_terminal gw m status usage err w w'"
  using observe_world [of "''terminal''" "on_finished (gw_observer gw) m status usage err" w]
  by (simp add: one_terminal_def observe_finished_def)

lemma closing_fact_run: "closing_fact gw err w = (Inr (status, e), w') \<Longrightarrow> obs w' = obs w \<and> outcalls w' = outcalls w"
  and closing_fact_total: "\<exists>status e w'. closing_fact gw err w = (Inr (status, e), w') \<and> status \<noteq> Completed"
  by (auto simp: closing_fact_def act_simps poll_def)

lemma failure_fact_total:
  "\<exists>status err w'. failure_fact gw e w = (Inr (status, err), w') \<and> status \<noteq> Completed \<and> obs w' = obs w \<and> outcalls w' = outcalls w"
  by (auto simp: failure_fact_def closing_fact_def act_simps poll_def split: gw_exn.splits)

lemma record_terminal_once:
  assumes "record_terminal gw ls st verdict outcome w = (out, w')"
    and "\<exists>status err w1. verdict w = (Inr (status, err), w1) \<and> status \<noteq> Completed \<and> obs w1 = obs w \<and> outcalls w1 = outcalls w"
  shows "\<exists>status err. status \<noteq> Completed \<and> one_terminal gw (ls_metadata ls) status (st_usage st) (Some err) w w'"
proof -
  from assms(2) obtain status err w1 where v: "verdict w = (Inr (status, err), w1)" "status \<noteq> Completed"
    and w1: "obs w1 = obs w" "outcalls w1 = outcalls w" by blast
  obtain r w2 where f: "observe_finished gw (ls_metadata ls) status (st_usage st) (Some err) w1 = (r, w2)" by fastforce
  from observe_finished_terminal [OF f] w1 have "one_terminal gw (ls_metadata ls) status (st_usage st) (Some err) w w2"
    by (simp add: one_terminal_def)
  moreover from assms(1) have "w' = w2"
    by (cases r) (simp_all add: record_terminal_def act_simps v f)
  ultimately show ?thesis using v(2) by blast
qed

text \<open>A stream that was read at all records one terminal fact, with the usage of the chunks it delivered.\<close>

definition delivered_usage :: "lazy_stream \<Rightarrow> stream_result \<Rightarrow> provider_usage option" where
  "delivered_usage ls r = merge_chunk_usage (take (length (sr_events r)) (ls_chunks ls))"

lemma usage_after_merge: "usage_after None cs = merge_chunk_usage cs"
  by (simp add: usage_after_def merge_chunk_usage_def)

lemma one_terminal_polls: "one_terminal gw m s u e (w\<lparr>polls := n\<rparr>) w' = one_terminal gw m s u e w w'"
  by (simp add: one_terminal_def)

lemma stream_to_end_terminal:
  assumes "stream_to_end gw ls w = (r, w')"
  shows "\<exists>status err. one_terminal gw (ls_metadata ls) status (delivered_usage ls r) err w w' \<and> (sr_done r \<longleftrightarrow> status = Completed \<and>
    (\<exists>u. fst (on_finished (gw_observer gw) (ls_metadata ls) status (delivered_usage ls r) err (obs w)) = Inr u))"
proof -
  obtain items err st where e: "run_events gw ls (stream_start (polls w)) = (items, err, st)" by (rule prod_cases3)
  have u: "st_usage st = merge_chunk_usage (take (length items) (ls_chunks ls))"
    using run_events_usage(2) [OF e] by (simp add: stream_start_def usage_after_merge)
  let ?w = "w\<lparr>polls := st_reads st\<rparr>"
  obtain sent outcome w1 where f: "finish_stream gw ls err st ?w = (sent, outcome, w1)" by (rule prod_cases3)
  from assms have r: "r = \<lparr>sr_events = map fst items, sr_done = sent, sr_outcome = outcome\<rparr>" "w' = w1"
    by (simp_all add: stream_to_end_def e f)
  then have d: "delivered_usage ls r = st_usage st" by (simp add: delivered_usage_def u)
  show ?thesis
  proof (cases err)
    case (Some x)
    with f have s: "\<not> sent" "record_terminal gw ls st (failure_fact gw x) (StreamRaised x) ?w = (outcome, w1)"
      by (simp_all add: finish_stream_def)
    from record_terminal_once [OF s(2) failure_fact_total] s(1) r d show ?thesis
      by (auto simp: one_terminal_polls)
  next
    case None
    obtain res w2 where o': "observe_finished gw (ls_metadata ls) Completed (st_usage st) None ?w = (res, w2)" by fastforce
    from observe_finished_terminal [OF o'] have t: "one_terminal gw (ls_metadata ls) Completed (st_usage st) None w w2"
      by (simp add: one_terminal_polls)
    have ok: "(\<exists>u. res = Inr u) \<longleftrightarrow> (\<exists>u. fst (on_finished (gw_observer gw) (ls_metadata ls) Completed (st_usage st) None (obs w)) = Inr u)"
      using o' by (auto simp: observe_finished_def observe_def split: prod.splits sum.splits gw_exn.splits)
    show ?thesis
    proof (cases res)
      case (Inr v)
      with f None o' have "sent" "w1 = w2" by (simp_all add: finish_stream_def)
      with t ok Inr r d show ?thesis by auto
    next
      case (Inl e)
      obtain s1 e1 w3 where ff: "failure_fact gw e w2 = (Inr (s1, e1), w3)" "obs w3 = obs w2" "outcalls w3 = outcalls w2"
        using failure_fact_total [of gw e w2] by blast
      with f None o' Inl have "\<not> sent" "w1 = w3" by (simp_all add: finish_stream_def)
      with t ok Inl r d ff show ?thesis by (auto simp: one_terminal_def)
    qed
  qed
qed

lemma stream_body_terminal:
  assumes "stream_body gw ls pulls w = (r, w')" "pulls \<noteq> Some 0"
  shows "\<exists>status err. one_terminal gw (ls_metadata ls) status (delivered_usage ls r) err w w' \<and> (sr_done r \<longleftrightarrow> status = Completed \<and>
    (\<exists>u. fst (on_finished (gw_observer gw) (ls_metadata ls) status (delivered_usage ls r) err (obs w)) = Inr u))"
proof -
  obtain items err st where e: "run_events gw ls (stream_start (polls w)) = (items, err, st)" by (rule prod_cases3)
  consider (to_end) "stream_to_end gw ls w = (r, w')" |
    (closed) n where "pulls = Some n" "0 < n" "n \<le> length items" "stream_closed_at gw ls (take n items) w = (r, w')"
    using assms e by (auto simp: stream_body_def split: option.splits if_splits)
  then show ?thesis
  proof cases
    case to_end
    then show ?thesis by (rule stream_to_end_terminal)
  next
    case closed
    let ?st = "snd (last (take n items))" and ?w = "\<lambda>st. w\<lparr>polls := st_reads st\<rparr>"
    have l: "last (take n items) = items ! (n - 1)" using closed by (subst last_conv_nth) auto
    have u: "st_usage ?st = merge_chunk_usage (take n (ls_chunks ls))"
      using run_events_usage(1) [OF e] closed
      by (simp add: l stream_start_def usage_after_merge)
    obtain out w1 where rec: "record_terminal gw ls ?st (closing_fact gw ''stream_closed'') StreamClosed (?w ?st) = (out, w1)" by fastforce
    with closed have r: "r = \<lparr>sr_events = map fst (take n items), sr_done = False, sr_outcome = out\<rparr>" "w' = w1"
      by (simp_all add: stream_closed_at_def Let_def)
    have "\<exists>status err w1. closing_fact gw ''stream_closed'' (?w ?st) = (Inr (status, err), w1) \<and> status \<noteq> Completed \<and>
        obs w1 = obs (?w ?st) \<and> outcalls w1 = outcalls (?w ?st)"
      by (auto simp: closing_fact_def act_simps poll_def)
    from record_terminal_once [OF rec this] r u closed show ?thesis
      by (auto simp: one_terminal_polls delivered_usage_def min_def)
  qed
qed

text \<open>A stream nobody read records nothing.\<close>

lemma stream_body_unread:
  "stream_body gw ls (Some 0) w = (\<lparr>sr_events = [], sr_done = False, sr_outcome = StreamClosed\<rparr>, w)"
  by (simp add: stream_body_def Let_def)

text \<open>An undisturbed stream delivers everything the provider produced and ends with \<open>[DONE]\<close>.\<close>

lemma run_events_complete:
  assumes "\<And>i. \<not> gw_cancelled gw i" "ls_end ls = Exhausted" "run_events gw ls st = (items, err, st')"
  shows "err = None \<and> concat (map event_text (map fst items)) = concat (map chunk_delta (ls_chunks ls)) \<and>
    concat (map event_calls (map fst items)) = map (PDict \<circ> to_openai_delta) (concat (map chunk_tool_calls (ls_chunks ls))) \<and>
    (st_emitted_finish st \<or> (\<exists>e \<in> set (map fst items). event_reason e \<noteq> PNone))"
proof -
  obtain its e1 st1 where r: "run_chunks gw ls (ls_chunks ls) st = (its, e1, st1)" by (rule prod_cases3)
  from run_chunks_uncancelled [OF assms(1), where ls = ls and cs = "ls_chunks ls" and st = st] r assms(2) have e1: "e1 = None" by simp
  from run_chunks_content r e1 have d: "delivers (ls_chunks ls) (st_emitted_finish st) its (st_emitted_finish st1)" by blast
  have empty: "event_text (stream_event m now [stream_choice [] v] u) = []" "event_calls (stream_event m now [stream_choice [] v] u) = []"
    "event_text (stream_event m now [] u) = []" "event_calls (stream_event m now [] u) = []" for m now v u
    by (simp_all add: event_text_def event_calls_def dget_Nil)
  from assms(3) show ?thesis
    using d unfolding run_events_def r e1
    by (auto simp: run_then_def run_check_def assms(1) run_finish_def run_usage_def run_yield_def tick_def
        empty delivers_def split: if_splits)
qed

lemma stream_complete:
  assumes "\<And>i. \<not> gw_cancelled gw i" "ls_end ls = Exhausted"
    and "\<And>s. fst (on_finished (gw_observer gw) (ls_metadata ls) Completed (merge_chunk_usage (ls_chunks ls)) None s) = Inr ()"
    and "stream_body gw ls None w = (r, w')"
  shows "sr_done r \<and> sr_outcome r = StreamEnded \<and>
    concat (map event_text (sr_events r)) = concat (map chunk_delta (ls_chunks ls)) \<and>
    concat (map event_calls (sr_events r)) = map (PDict \<circ> to_openai_delta) (concat (map chunk_tool_calls (ls_chunks ls))) \<and>
    (\<exists>e \<in> set (sr_events r). event_reason e \<noteq> PNone) \<and>
    one_terminal gw (ls_metadata ls) Completed (merge_chunk_usage (ls_chunks ls)) None w w'"
proof -
  obtain items err st where e: "run_events gw ls (stream_start (polls w)) = (items, err, st)" by (rule prod_cases3)
  note c = run_events_complete [OF assms(1,2) e]
  have n: "length (ls_chunks ls) \<le> length items"
  proof -
    obtain its e1 st1 where r: "run_chunks gw ls (ls_chunks ls) (stream_start (polls w)) = (its, e1, st1)" by (rule prod_cases3)
    from run_chunks_uncancelled [OF assms(1), where ls = ls and cs = "ls_chunks ls" and st = "stream_start (polls w)"] r assms(2)
    have "e1 = None" by simp
    with run_chunks_content r have "length its = length (ls_chunks ls)" by (fastforce simp: delivers_def)
    with e r \<open>e1 = None\<close> show ?thesis
      by (auto simp: run_events_def run_then_def run_check_def run_finish_def run_usage_def run_yield_def
          split: if_splits option.splits prod.splits)
  qed
  have u: "st_usage st = merge_chunk_usage (ls_chunks ls)"
    using run_events_usage(2) [OF e] n by (simp add: stream_start_def usage_after_merge)
  let ?w = "w\<lparr>polls := st_reads st\<rparr>"
  obtain res w2 where f: "observe_finished gw (ls_metadata ls) Completed (st_usage st) None ?w = (res, w2)" by fastforce
  have "res = Inr ()"
    using f assms(3) [of "obs w"] u by (auto simp: observe_finished_def observe_def split: prod.splits sum.splits)
  with assms(4) e f c have r: "r = \<lparr>sr_events = map fst items, sr_done = True, sr_outcome = StreamEnded\<rparr>" "w' = w2"
    by (simp_all add: stream_body_def stream_to_end_def finish_stream_def)
  with c observe_finished_terminal [OF f] u show ?thesis
    by (simp add: stream_start_def one_terminal_polls)
qed

end
