(* ===== verification/Chat_Facts.thy ===== *)
theory Chat_Facts
  imports Media_Facts Stream_Facts "HOL-Library.Sublist"
begin

text \<open>
  Which outgoing calls a chat request makes and when, and what a successful response consists of.
\<close>


section \<open>Which calls leave the gateway\<close>

definition quiet :: "('s, 'a) gw_act \<Rightarrow> bool" where
  "quiet m = (\<forall>w r w'. m w = (r, w') \<longrightarrow> outcalls w' = outcalls w)"

named_theorems quiet_intros \<open>actions that make no outgoing call\<close>

lemma observe_outcalls: "outcalls (snd (observe what m w)) = outcalls w"
  by (simp add: observe_world)

lemma quiet_basic [quiet_intros]: "quiet (ret x)" "quiet (raise e)" "quiet (result r)" "quiet (poll gw)"
  "quiet (observe what m)" "quiet (observe_started gw md)" "quiet (observe_finished gw md st u err)"
  "quiet (observe_rejected gw rj)"
proof -
  have o': "quiet (observe what m)" for what and m :: "('s, gw_exn, unit) act"
    using observe_outcalls [of what m] by (auto simp: quiet_def) (metis snd_conv)
  show "quiet (ret x)" "quiet (raise e)" "quiet (result r)" "quiet (poll gw)"
    by (simp_all add: quiet_def act_simps poll_def)
  show "quiet (observe what m)" "quiet (observe_started gw md)" "quiet (observe_finished gw md st u err)"
    "quiet (observe_rejected gw rj)"
    unfolding observe_started_def observe_finished_def observe_rejected_def by (rule o')+
qed

lemma quiet_bind [quiet_intros]: "quiet m \<Longrightarrow> (\<And>x. quiet (f x)) \<Longrightarrow> quiet (bind m f)"
  by (auto simp: quiet_def act_simps split: sum.splits prod.splits)

lemma quiet_catch [quiet_intros]: "quiet m \<Longrightarrow> (\<And>e. quiet (h e)) \<Longrightarrow> quiet (catch m h)"
  by (auto simp: quiet_def act_simps split: sum.splits prod.splits)

lemma quiet_cases [quiet_intros]:
  "quiet m \<Longrightarrow> quiet n \<Longrightarrow> quiet (if c then m else n)"
  "(\<And>x. quiet (f x)) \<Longrightarrow> (\<And>e. quiet (g e)) \<Longrightarrow> quiet (case s of Inl e \<Rightarrow> g e | Inr x \<Rightarrow> f x)"
  "quiet m \<Longrightarrow> (\<And>x. quiet (f x)) \<Longrightarrow> quiet (case v of None \<Rightarrow> m | Some x \<Rightarrow> f x)"
  by (simp, cases s, simp_all, cases v, simp_all)

lemma quietD: "quiet m \<Longrightarrow> m w = (r, w') \<Longrightarrow> outcalls w' = outcalls w"
  by (simp add: quiet_def)

lemma quiet_snd: "quiet m \<Longrightarrow> outcalls (snd (m w)) = outcalls w"
  by (metis quiet_def prod.collapse)

lemma quiet_reject [quiet_intros]: "quiet (reject gw rid p st m s e)" "quiet (reject_payload gw rid p st v e)"
  "quiet (reject_chat gw rid c st r e)" "quiet (reject_embedding gw rid p st v e)" "quiet (refuse_embedding gw rid c st er e)"
  unfolding reject_def reject_payload_def reject_chat_def reject_embedding_def refuse_embedding_def
  by (intro quiet_intros)+

lemma quiet_identify: "quiet (chat_identify gw rid h p)"
  unfolding chat_identify_def by (intro quiet_intros)

lemma quiet_parse: "quiet (chat_parse gw rid c p)"
proof -
  have "quiet (case from_openai p of Inr request \<Rightarrow> ret request
      | Inl (ProtocolError m) \<Rightarrow> reject_payload gw rid (Some c) Rejected p (InvalidRequestError m)
      | Inl e \<Rightarrow> raise (of_py e))"
  proof (cases "from_openai p")
    case (Inl e)
    then show ?thesis by (cases e) (simp_all add: quiet_intros)
  qed (simp add: quiet_intros)
  then show ?thesis unfolding chat_parse_def by (rule quiet_bind) (intro quiet_intros)
qed

lemma quiet_plan: "quiet (chat_plan gw rid c r)"
  unfolding chat_plan_def by (intro quiet_intros)

lemma quiet_collect: "quiet (collect_chunks gw label rest fin collected)"
proof (induction gw label rest fin collected rule: collect_chunks.induct)
  case (3 gw label c rest fin collected)
  from 3 [of False] show ?case unfolding collect_chunks.simps by (intro quiet_intros) simp
qed (simp_all add: quiet_intros)

lemma quiet_collect_response: "quiet (collect_response gw md label c rest fin)"
  unfolding collect_response_def Let_def by (intro quiet_intros quiet_collect)

lemma quiet_record [quiet_intros]: "quiet (record_if_started gw b md st u err)"
  unfolding record_if_started_def by (intro quiet_intros)

lemma quiet_chat_except: "quiet (chat_except gw b md e)"
  unfolding chat_except_def by (cases e; simp only: gw_exn.case; intro quiet_intros)

text \<open>An attempt calls the provider it was given at most once.\<close>

definition provider_call :: "inference_request \<Rightarrow> route_target \<Rightarrow> outcall" where
  "provider_call request target = ProviderCalled (provider_ref target) (provider_request target request)"

definition calls_within :: "outcall list \<Rightarrow> ('s, 'a) gw_act \<Rightarrow> bool" where
  "calls_within cs m = (\<forall>w r w'. m w = (r, w') \<longrightarrow> outcalls w' = outcalls w \<or> outcalls w' = outcalls w @ cs)"

lemma quiet_within: "quiet m \<Longrightarrow> calls_within cs m"
  by (simp add: quiet_def calls_within_def)

lemma within_quiet_bind: "quiet m \<Longrightarrow> (\<And>x. calls_within cs (f x)) \<Longrightarrow> calls_within cs (bind m f)"
  by (auto simp: quiet_def calls_within_def act_simps split: sum.splits prod.splits) metis

lemma within_bind_quiet: "calls_within cs m \<Longrightarrow> (\<And>x. quiet (f x)) \<Longrightarrow> calls_within cs (bind m f)"
  by (auto simp: quiet_def calls_within_def act_simps split: sum.splits prod.splits)

lemma within_catch_quiet: "calls_within cs m \<Longrightarrow> (\<And>e. quiet (h e)) \<Longrightarrow> calls_within cs (catch m h)"
  by (auto simp: quiet_def calls_within_def act_simps split: sum.splits prod.splits)

lemma within_call: "(\<And>x. quiet (f x)) \<Longrightarrow> calls_within [c] (bind (call_out c) f)"
  by (fastforce simp: calls_within_def quiet_def call_out_def act_simps)

lemma chat_call_within: "calls_within [provider_call request target] (chat_call gw k md request target)"
proof -
  have "quiet (case fr of (c, rest) \<Rightarrow> if req_stream request then ret (r c rest) else
      bind (collect_response gw md (target_label target) c rest fin) (\<lambda>response.
      bind (observe_finished gw md Completed (resp_usage response) None) (\<lambda>_. ret response)))" for fr r fin
    by (cases fr) (simp only: prod.case, intro quiet_intros quiet_collect_response)
  then show ?thesis
    unfolding chat_call_def provider_call_def
    by (intro within_quiet_bind [OF quiet_basic(3)] within_call quiet_bind [OF quiet_basic(3)])
qed

lemma chat_attempt_within: "calls_within [provider_call request target] (chat_attempt gw k md request target)"
proof -
  have "calls_within [provider_call request target]
      (catch (bind (chat_call gw k md request target) (\<lambda>response. ret (Answered response))) (chat_except gw True md))"
    by (intro within_catch_quiet within_bind_quiet chat_call_within quiet_basic quiet_chat_except)
  moreover have "quiet (observe_started gw md)" "\<And>e. quiet (chat_except gw False md e)"
    by (intro quiet_intros quiet_chat_except)+
  ultimately show ?thesis
    by (auto simp: chat_attempt_def calls_within_def quiet_def split: sum.splits prod.splits) metis+
qed

lemma chat_attempt_refused:
  assumes "fst (on_started (gw_observer gw) md (obs w)) = Inl e"
  shows "outcalls (snd (chat_attempt gw k md request target w)) = outcalls w"
proof -
  from assms have "\<exists>x w1. observe_started gw md w = (Inl x, w1)"
    by (cases "on_started (gw_observer gw) md (obs w)"; cases e) (auto simp: observe_started_def observe_def)
  then obtain x w1 where "observe_started gw md w = (Inl x, w1)" by blast
  with quietD [OF quiet_basic(6) this] quiet_snd [OF quiet_chat_except [of gw False md x]] show ?thesis
    by (simp add: chat_attempt_def)
qed

lemma chat_attempts_calls:
  "\<exists>ts. subseq ts targets \<and> outcalls (snd (chat_attempts gw rid c request k targets failures w)) =
    outcalls w @ map (provider_call request) ts"
proof (induction targets arbitrary: k failures w)
  case Nil
  show ?case by (auto simp: act_simps)
next
  case (Cons t ts)
  let ?md = "chat_metadata rid c request t"
  obtain r w1 where p: "poll gw w = (Inr r, w1)" and w1: "outcalls w1 = outcalls w"
    by (simp add: poll_def)
  show ?case
  proof (cases r)
    case True
    have "outcalls (snd (reject_chat gw rid c RejectedCancelled request x w1)) = outcalls w1" for x
      by (rule quiet_snd) (rule quiet_reject)
    with True p w1 show ?thesis
      by (intro exI [of _ "[]"]) (simp add: act_simps)
  next
    case False
    obtain a w2 where a: "chat_attempt gw k ?md request t w1 = (a, w2)" by fastforce
    from chat_attempt_within [of request t gw k ?md] a
    have "outcalls w2 = outcalls w1 \<or> outcalls w2 = outcalls w1 @ [provider_call request t]"
      unfolding calls_within_def by blast
    with w1 have w2: "outcalls w2 = outcalls w \<or> outcalls w2 = outcalls w @ [provider_call request t]" by simp
    let ?all = "outcalls (snd (chat_attempts gw rid c request k (t # ts) failures w))"
    have extend: "\<exists>us. subseq us (t # ts) \<and> ?all = outcalls w @ map (provider_call request) us"
      if "outcalls (snd (chat_attempts gw rid c request k (t # ts) failures w)) = outcalls w2 @ map (provider_call request) us"
      "subseq us ts" for us
      using w2 that by (elim disjE) (auto intro: exI [of _ us] exI [of _ "t # us"])
    show ?thesis
    proof (cases a)
      case (Inl e)
      with False p a show ?thesis by (intro extend [of "[]"]) (simp_all add: act_simps)
    next
      case (Inr x)
      show ?thesis
      proof (cases x)
        case (Answered response)
        with Inr False p a show ?thesis by (intro extend [of "[]"]) (simp_all add: act_simps)
      next
        case (NextCandidate failure)
        from Cons.IH [of "Suc k" "failures @ [failure]" w2] obtain us where
          "subseq us ts" "outcalls (snd (chat_attempts gw rid c request (Suc k) ts (failures @ [failure]) w2)) =
            outcalls w2 @ map (provider_call request) us" by blast
        with NextCandidate Inr False p a show ?thesis by (intro extend [of us]) (simp_all add: act_simps)
      qed
    qed
  qed
qed

section \<open>What a handled chat request went through\<close>

lemma bind_Inr: "bind m f w = (Inr y, w') \<longleftrightarrow> (\<exists>x w1. m w = (Inr x, w1) \<and> f x w1 = (Inr y, w'))"
  by (auto simp: act_simps split: sum.splits prod.splits)

lemma catch_Inr: "catch m h w = (Inr y, w') \<longleftrightarrow> m w = (Inr y, w') \<or> (\<exists>e w1. m w = (Inl e, w1) \<and> h e w1 = (Inr y, w'))"
  by (auto simp: act_simps split: sum.splits prod.splits)

lemmas run_Inr = bind_Inr catch_Inr ret_apply raise_apply result_apply

lemma reject_not_Inr [simp]:
  "reject gw rid p st m s e w \<noteq> (Inr x, w')" "reject_payload gw rid p st v e w \<noteq> (Inr x, w')"
  "reject_chat gw rid c st r e w \<noteq> (Inr x, w')" "reject_embedding gw rid p st v e w \<noteq> (Inr x, w')"
  "refuse_embedding gw rid c st er e w \<noteq> (Inr x, w')"
  by (auto simp: reject_def reject_payload_def reject_chat_def reject_embedding_def refuse_embedding_def run_Inr)

lemma chat_identify_Inr:
  "chat_identify gw rid headers payload w = (Inr caller, w') \<Longrightarrow>
   authenticate gw headers = Inr caller \<and> check_quota gw caller = Inr ()"
  by (auto simp: chat_identify_def run_Inr poll_def split: if_splits)

lemma chat_parse_Inr:
  assumes "chat_parse gw rid caller payload w = (Inr request, w')"
  shows "from_openai payload = Inr request \<and> permits caller (req_model request)"
proof (cases "from_openai payload")
  case (Inl e)
  with assms show ?thesis by (cases e) (auto simp: chat_parse_def run_Inr split: if_splits)
next
  case (Inr r)
  with assms show ?thesis by (auto simp: chat_parse_def run_Inr split: if_splits)
qed

lemma chat_plan_Inr:
  assumes "chat_plan gw rid caller request w = (Inr candidates, w')"
  shows "\<exists>router targets. resolve_router gw = Inr router \<and>
    plan_routes router (RoutedChat (request_for_routing request)) caller = Inr targets \<and>
    candidates = take (gw_max_attempts gw) targets \<and> candidates \<noteq> []"
proof -
  from assms obtain router where r: "resolve_router gw = Inr router"
    by (cases "resolve_router gw") (auto simp: chat_plan_def run_Inr)
  with assms obtain targets where "plan_routes router (RoutedChat (request_for_routing request)) caller = Inr targets"
    by (cases "plan_routes router (RoutedChat (request_for_routing request)) caller")
       (auto simp: chat_plan_def run_Inr)
  with assms r show ?thesis by (auto simp: chat_plan_def run_Inr split: if_splits)
qed

definition media_resolved :: "'s gateway \<Rightarrow> request_principal \<Rightarrow> inference_request \<Rightarrow> inference_request \<Rightarrow> bool" where
  "media_resolved gw caller request resolved =
     ((\<exists>ms. resolved = request\<lparr>req_messages := ms\<rparr> \<and> list_all2 (resolved_message gw caller) (req_messages request) ms) \<and>
      request_bytes resolved \<le> MAX_CHAT_MEDIA_BYTES)"

lemma chat_media_run:
  assumes "chat_media gw rid caller request w = (r, w')"
  shows "(\<exists>ids. outcalls w' = outcalls w @ map MediaRead ids) \<and>
    (\<forall>resolved. r = Inr resolved \<longrightarrow> media_resolved gw caller request resolved)"
proof -
  obtain r1 w1 where m: "resolve_media_artifacts gw request caller w = (r1, w1)" by fastforce
  show ?thesis
  proof (cases r1)
    case (Inr x)
    from validD_Inr [OF resolve_media_artifacts_valid refl m [unfolded Inr]] assms m Inr show ?thesis
      by (auto simp: chat_media_def act_simps media_only_def media_resolved_def)
  next
    case (Inl e)
    from validD_Inl [OF resolve_media_artifacts_valid refl m [unfolded Inl]]
    have e: "media_exn e" and w1: "\<exists>ids. outcalls w1 = outcalls w @ map MediaRead ids" by (auto simp: media_only_def)
    from e assms m Inl obtain st where rj: "reject_chat gw rid caller st request e w1 = (r, w')"
      by (auto simp: media_exn_def chat_media_def act_simps)
    have "r \<noteq> Inr x" for x using rj reject_not_Inr(3) by metis
    with quietD [OF quiet_reject(3) rj] w1 show ?thesis by auto
  qed
qed

text \<open>A request that may reach a provider: authenticated, within quota, well-formed and within its model scope.\<close>

definition admitted ::
  "'s gateway \<Rightarrow> (string \<times> string) list \<Rightarrow> pyval \<Rightarrow> request_principal \<Rightarrow> inference_request \<Rightarrow> bool" where
  "admitted gw headers payload caller request =
     (authenticate gw headers = Inr caller \<and> check_quota gw caller = Inr () \<and>
      from_openai payload = Inr request \<and> permits caller (req_model request))"

text \<open>The provider calls of a request, given the routes that were planned for it.\<close>

definition planned_calls ::
  "'s gateway \<Rightarrow> request_principal \<Rightarrow> inference_request \<Rightarrow> outcall list \<Rightarrow> bool" where
  "planned_calls gw caller request calls =
     (\<exists>router targets resolved ts. resolve_router gw = Inr router \<and>
        plan_routes router (RoutedChat (request_for_routing request)) caller = Inr targets \<and>
        media_resolved gw caller request resolved \<and>
        subseq ts (take (gw_max_attempts gw) targets) \<and> calls = map (provider_call resolved) ts)"

lemma handle_openai_chat_calls:
  assumes "handle_openai_chat gw rid headers payload w = (r, w')"
  shows "\<exists>ids calls. outcalls w' = outcalls w @ map MediaRead ids @ calls \<and>
    (ids = [] \<and> calls = [] \<or>
     (\<exists>caller request. admitted gw headers payload caller request \<and>
        (calls = [] \<or> planned_calls gw caller request calls)))"
proof -
  obtain r1 w1 where 1: "chat_identify gw rid headers payload w = (r1, w1)" by fastforce
  note q1 = quietD [OF quiet_identify 1]
  show ?thesis
  proof (cases r1)
    case (Inl e)
    with assms 1 q1 show ?thesis by (intro exI [of _ "[]"]) (simp add: handle_openai_chat_def act_simps)
  next
    case (Inr caller)
    note id = chat_identify_Inr [OF 1 [unfolded Inr]]
    obtain r2 w2 where 2: "chat_parse gw rid caller payload w1 = (r2, w2)" by fastforce
    note q2 = quietD [OF quiet_parse 2]
    show ?thesis
    proof (cases r2)
      case (Inl e)
      with assms 1 2 Inr q1 q2 show ?thesis by (intro exI [of _ "[]"]) (simp add: handle_openai_chat_def act_simps)
    next
      case r2: (Inr request)
      note parse = chat_parse_Inr [OF 2 [unfolded r2]]
      with id have adm: "admitted gw headers payload caller request" by (simp add: admitted_def)
      obtain r3 w3 where 3: "chat_plan gw rid caller request w2 = (r3, w3)" by fastforce
      note q3 = quietD [OF quiet_plan 3]
      show ?thesis
      proof (cases r3)
        case (Inl e)
        with assms 1 2 3 Inr r2 q1 q2 q3 show ?thesis
          by (intro exI [of _ "[]"]) (simp add: handle_openai_chat_def act_simps)
      next
        case r3: (Inr candidates)
        obtain r4 w4 where 4: "chat_media gw rid caller request w3 = (r4, w4)" by fastforce
        from chat_media_run [OF 4] obtain ids where ids: "outcalls w4 = outcalls w @ map MediaRead ids"
          using q1 q2 q3 by auto
        show ?thesis
        proof (cases r4)
          case (Inl e)
          with assms 1 2 3 4 Inr r2 r3 ids adm show ?thesis
            by (intro exI [of _ ids] exI [of _ "[]"]) (auto simp: handle_openai_chat_def act_simps)
        next
          case r4: (Inr resolved)
          with chat_media_run [OF 4] have res: "media_resolved gw caller request resolved" by blast
          from chat_attempts_calls [of candidates gw rid caller resolved 0 "[]" w4] obtain ts where
            ts: "subseq ts candidates" "outcalls (snd (chat_attempts gw rid caller resolved 0 candidates [] w4)) =
              outcalls w4 @ map (provider_call resolved) ts" by blast
          from chat_plan_Inr [OF 3 [unfolded r3]] res ts(1)
          have "planned_calls gw caller request (map (provider_call resolved) ts)"
            by (auto simp: planned_calls_def)
          with assms 1 2 3 4 Inr r2 r3 r4 ids adm ts(2) show ?thesis
            by (intro exI [of _ ids] exI [of _ "map (provider_call resolved) ts"]) (auto simp: handle_openai_chat_def act_simps)
        qed
      qed
    qed
  qed
qed

section \<open>Answers\<close>

text \<open>
  The response is made of the chunks the provider of target \<open>t\<close> returned for this request: a stream
  carries them lazily, a unary body is assembled from all of them.
\<close>

definition answers ::
  "'s gateway \<Rightarrow> nat \<Rightarrow> string \<Rightarrow> inference_request \<Rightarrow> route_target \<Rightarrow> request_metadata \<Rightarrow> gateway_response \<Rightarrow> bool" where
  "answers gw k rid request t md resp =
     (\<exists>p run c rest fin. gw_resolve_provider gw k (provider_ref t) = Inr p \<and> p_complete p = Some run \<and>
        run (provider_request t request) = Inr (c # rest, fin) \<and>
        resp_request_id resp = rid \<and> resp_model resp = req_model request \<and> resp_status_code resp = 200 \<and>
        resp_route_id resp = target_label t \<and> resp_stream resp = req_stream request \<and>
        (if req_stream request
         then resp_body resp = Lazy \<lparr>ls_metadata = md, ls_chunks = c # rest, ls_end = fin, ls_include_usage = include_usage request\<rparr>
         else fin = Exhausted \<and> calls_agree (concat (map chunk_tool_calls (c # rest))) \<and>
           resp_usage resp = usage_summary (reported_usage (c # rest)) \<and>
           resp_body resp = Json (completion_body rid (req_model request) (gw_clock gw 0) (message_summary (c # rest))
             (final_reason (c # rest)) (usage_summary (reported_usage (c # rest))))))"

lemma collect_chunks_Inr:
  "collect_chunks gw label rest fin collected w = (Inr cs, w') \<Longrightarrow> fin = Exhausted \<and> cs = collected @ rest"
proof (induction gw label rest fin collected arbitrary: w rule: collect_chunks.induct)
  case (3 gw label c rest fin collected)
  from "3.prems" obtain w1 where "collect_chunks gw label rest fin (collected @ [c]) w1 = (Inr cs, w')"
    by (auto simp: run_Inr split: if_splits)
  with "3.IH" [of False] show ?case by auto
qed (simp_all add: act_simps)

lemma assemble_message_Inr:
  "assemble_message cs = Inr m \<longleftrightarrow> calls_agree (concat (map chunk_tool_calls cs)) \<and> m = message_summary cs"
proof (cases "calls_agree (concat (map chunk_tool_calls cs))")
  case False
  with assemble_message_disagree [OF False] show ?thesis by auto
qed (auto simp: assemble_message_agree)

lemma first_chunk_Inr: "first_chunk chunks = Inr (c, rest) \<longleftrightarrow> fst chunks = c # rest"
  by (cases chunks) (auto simp: first_chunk_def of_py_def split: list.splits stream_end.splits)

lemma resolve_provider_Inr:
  "resolve_provider gw k t = Inr run \<longleftrightarrow> (\<exists>p. gw_resolve_provider gw k (provider_ref t) = Inr p \<and> p_complete p = Some run)"
  by (auto simp: resolve_provider_def result_simps split: option.splits)

lemma chat_call_Inr:
  assumes "chat_call gw k (chat_metadata rid caller request t) request t w = (Inr resp, w')"
  shows "answers gw k rid request t (chat_metadata rid caller request t) resp"
proof -
  let ?md = "chat_metadata rid caller request t"
  let ?reply = "\<lambda>c rest fin. if req_stream request then ret \<lparr>resp_request_id = meta_request_id ?md, resp_model = req_model request,
         resp_status_code = 200, resp_body = Lazy \<lparr>ls_metadata = ?md, ls_chunks = c # rest, ls_end = fin,
           ls_include_usage = include_usage request\<rparr>,
         resp_stream = True, resp_route_id = target_label t, resp_usage = None\<rparr>
     else
       bind (collect_response gw ?md (target_label t) c rest fin) (\<lambda>response.
       bind (observe_finished gw ?md Completed (resp_usage response) None) (\<lambda>_.
       ret response))"
  from assms obtain run chunks c rest w1 where
    run: "resolve_provider gw k t = Inr run" "run (provider_request t request) = Inr chunks" and
    first: "first_chunk chunks = Inr (c, rest)" and reply: "?reply c rest (snd chunks) w1 = (Inr resp, w')"
    unfolding chat_call_def bind_Inr result_apply by (auto simp del: if_split)
  obtain cs fin where chunks: "chunks = (cs, fin)" by (cases chunks)
  with first reply have cs: "cs = c # rest" and resp: "?reply c rest fin w1 = (Inr resp, w')"
    by (simp_all only: first_chunk_Inr fst_conv snd_conv)
  show ?thesis
  proof (cases "req_stream request")
    case True
    with resp run chunks cs show ?thesis
      by (auto simp: answers_def resolve_provider_Inr ret_apply chat_metadata_def)
  next
    case False
    with resp obtain cs' w2 w3 where c': "collect_chunks gw (target_label t) rest fin [c] w2 = (Inr cs', w3)"
      and r: "\<exists>m. assemble_message cs' = Inr m \<and> resp = \<lparr>resp_request_id = meta_request_id ?md, resp_model = meta_model ?md,
         resp_status_code = 200, resp_body = Json (completion_body (meta_request_id ?md) (meta_model ?md) (gw_clock gw 0) m
         (final_reason cs') (merge_chunk_usage cs')), resp_stream = False, resp_route_id = target_label t,
         resp_usage = merge_chunk_usage cs'\<rparr>"
      by (auto simp: run_Inr collect_response_def Let_def)
    from collect_chunks_Inr [OF c'] have "fin = Exhausted" "cs' = c # rest" by simp_all
    with r run chunks cs False show ?thesis
      by (auto simp: answers_def resolve_provider_Inr assemble_message_Inr merge_chunk_usage_summary chat_metadata_def)
  qed
qed

lemma chat_except_not_answered: "chat_except gw b md e w \<noteq> (Inr (Answered r), w')"
  by (cases e) (auto simp: chat_except_def run_Inr split: if_splits)

lemma chat_attempt_Inr:
  assumes "chat_attempt gw k (chat_metadata rid caller request t) request t w = (Inr (Answered resp), w')"
  shows "answers gw k rid request t (chat_metadata rid caller request t) resp"
proof -
  let ?md = "chat_metadata rid caller request t"
  from assms have "\<exists>w1. chat_call gw k ?md request t w1 = (Inr resp, w')"
    by (auto simp: chat_attempt_def run_Inr chat_except_not_answered split: prod.splits sum.splits)
  with chat_call_Inr show ?thesis by blast
qed

lemma chat_attempts_Inr:
  "chat_attempts gw rid caller request k targets failures w = (Inr resp, w') \<Longrightarrow>
   \<exists>j t. t \<in> set targets \<and> answers gw j rid request t (chat_metadata rid caller request t) resp"
proof (induction targets arbitrary: k failures w)
  case Nil
  then show ?case by (simp add: act_simps)
next
  case (Cons t ts)
  let ?md = "chat_metadata rid caller request t"
  from Cons.prems obtain x w1 w2 where a: "chat_attempt gw k ?md request t w1 = (Inr x, w2)"
    and rest: "(case x of Answered response \<Rightarrow> ret response
       | NextCandidate failure \<Rightarrow> chat_attempts gw rid caller request (Suc k) ts (failures @ [failure])) w2 = (Inr resp, w')"
    by (auto simp: run_Inr split: if_splits)
  show ?case
  proof (cases x)
    case (Answered response)
    with rest a have "chat_attempt gw k ?md request t w1 = (Inr (Answered resp), w')" by (simp add: act_simps)
    from chat_attempt_Inr [OF this] show ?thesis by auto
  next
    case (NextCandidate failure)
    with rest Cons.IH show ?thesis by fastforce
  qed
qed

lemma handle_openai_chat_Inr:
  assumes "handle_openai_chat gw rid headers payload w = (Inr resp, w')"
  shows "\<exists>caller request resolved router targets k t. admitted gw headers payload caller request \<and>
    resolve_router gw = Inr router \<and> plan_routes router (RoutedChat (request_for_routing request)) caller = Inr targets \<and>
    t \<in> set (take (gw_max_attempts gw) targets) \<and> media_resolved gw caller request resolved \<and>
    answers gw k rid resolved t (chat_metadata rid caller resolved t) resp"
proof -
  from assms obtain caller request candidates resolved w1 w2 w3 w4 where
    1: "chat_identify gw rid headers payload w = (Inr caller, w1)" and
    2: "chat_parse gw rid caller payload w1 = (Inr request, w2)" and
    3: "chat_plan gw rid caller request w2 = (Inr candidates, w3)" and
    4: "chat_media gw rid caller request w3 = (Inr resolved, w4)" and
    5: "chat_attempts gw rid caller resolved 0 candidates [] w4 = (Inr resp, w')"
    by (auto simp: handle_openai_chat_def run_Inr)
  from chat_attempts_Inr [OF 5] obtain k t where
    "t \<in> set candidates" "answers gw k rid resolved t (chat_metadata rid caller resolved t) resp" by blast
  moreover from chat_media_run [OF 4] have "media_resolved gw caller request resolved" by blast
  ultimately show ?thesis
    using chat_identify_Inr [OF 1] chat_parse_Inr [OF 2] chat_plan_Inr [OF 3]
    unfolding admitted_def by blast
qed

text \<open>A parse error other than \<open>ProtocolError\<close> passes every handler and every observer.\<close>

lemma parse_error_escapes:
  assumes "authenticate gw headers = Inr caller" "check_quota gw caller = Inr ()" "\<not> gw_cancelled gw (polls w)"
    and "from_openai payload = Inl e" "\<not> is_protocol_error e"
  shows "handle_openai_chat gw rid headers payload w = (Inl (of_py e), w\<lparr>polls := Suc (polls w)\<rparr>)"
  using assms
  by (cases e) (simp_all add: handle_openai_chat_def chat_identify_def chat_parse_def act_simps poll_def is_protocol_error_def)

end
