(* ===== verification/Embed_Facts.thy ===== *)
theory Embed_Facts
  imports Chat_Facts
begin

text \<open>
  The same for embeddings requests.
\<close>


definition embed_admitted ::
  "'s gateway \<Rightarrow> (string \<times> string) list \<Rightarrow> pyval \<Rightarrow> request_principal \<Rightarrow> embedding_request \<Rightarrow> bool" where
  "embed_admitted gw headers payload caller request =
     (authenticate gw headers = Inr caller \<and> check_quota gw caller = Inr () \<and>
      embedding_from_openai payload = Inr request \<and> permits caller (emb_model request))"

definition sent_batch :: "route_target \<Rightarrow> embedding_request \<Rightarrow> embedding_request" where
  "sent_batch t request = request\<lparr>emb_model := provider_model t (emb_model request)\<rparr>"

definition embed_call :: "embedding_request \<Rightarrow> route_target \<Rightarrow> outcall" where
  "embed_call request t = EmbedCalled (provider_ref t) (sent_batch t request)"

text \<open>The response carries the vectors the provider of \<open>t\<close> returned for this batch, indexed in request order.\<close>

definition embed_answers ::
  "'s gateway \<Rightarrow> nat \<Rightarrow> string \<Rightarrow> embedding_request \<Rightarrow> route_target \<Rightarrow> gateway_response \<Rightarrow> bool" where
  "embed_answers gw k rid request t resp =
     (\<exists>p run batch. gw_resolve_provider gw k (provider_ref t) = Inr p \<and> p_embed p = Some run \<and>
        run (sent_batch t request) = Inr (Some batch) \<and> length (vectors batch) = length (emb_inputs request) \<and>
        resp_request_id resp = rid \<and> resp_model resp = batch_model batch \<and> resp_status_code resp = 200 \<and>
        resp_route_id resp = target_label t \<and> \<not> resp_stream resp \<and> resp_usage resp = None \<and>
        resp_body resp = Json (embeddings_body batch))"

lemma embeddings_identify_Inr:
  "embeddings_identify gw rid headers payload w = (Inr caller, w') \<Longrightarrow>
   authenticate gw headers = Inr caller \<and> check_quota gw caller = Inr ()"
  by (auto simp: embeddings_identify_def run_Inr poll_def split: if_splits)

lemma embeddings_parse_Inr:
  assumes "embeddings_parse gw rid caller payload w = (Inr request, w')"
  shows "embedding_from_openai payload = Inr request \<and> permits caller (emb_model request)"
proof (cases "embedding_from_openai payload")
  case (Inl e)
  with assms show ?thesis by (cases e) (auto simp: embeddings_parse_def run_Inr split: if_splits)
next
  case (Inr r)
  with assms show ?thesis by (auto simp: embeddings_parse_def run_Inr split: if_splits)
qed

lemma embeddings_plan_Inr:
  assumes "embeddings_plan gw rid caller request w = (Inr candidates, w')"
  shows "\<exists>router targets. resolve_router gw = Inr router \<and>
    plan_routes router (RoutedEmbedding request) caller = Inr targets \<and>
    candidates = take (gw_max_attempts gw) targets \<and> candidates \<noteq> []"
proof -
  from assms obtain targets where t: "rbind (resolve_router gw) (\<lambda>router. plan_routes router (RoutedEmbedding request) caller) = Inr targets"
    by (cases "rbind (resolve_router gw) (\<lambda>router. plan_routes router (RoutedEmbedding request) caller)")
       (auto simp: embeddings_plan_def run_Inr split: if_splits)
  with assms show ?thesis by (auto simp: embeddings_plan_def run_Inr result_simps split: if_splits)
qed

lemma quiet_embeddings [quiet_intros]: "quiet (embeddings_identify gw rid headers payload)"
  "quiet (embeddings_plan gw rid caller er)" "quiet (embeddings_except gw b md e)"
  unfolding embeddings_identify_def embeddings_plan_def
  by (intro quiet_intros)+ (cases e; simp only: embeddings_except_def gw_exn.case; intro quiet_intros)

lemma quiet_embeddings_parse [quiet_intros]: "quiet (embeddings_parse gw rid c p)"
proof -
  have "quiet (case embedding_from_openai p of Inr request \<Rightarrow> ret request
      | Inl (ProtocolError m) \<Rightarrow> reject_embedding gw rid (Some c) Rejected p (InvalidRequestError m)
      | Inl e \<Rightarrow> raise (of_py e))"
  proof (cases "embedding_from_openai p")
    case (Inl e)
    then show ?thesis by (cases e) (simp_all add: quiet_intros)
  qed (simp add: quiet_intros)
  then show ?thesis unfolding embeddings_parse_def by (rule quiet_bind) (intro quiet_intros)
qed

lemma embeddings_call_within: "calls_within [embed_call request t] (embeddings_call gw k md request t)"
  unfolding embeddings_call_def embed_call_def Let_def sent_batch_def [symmetric]
  by (intro within_quiet_bind [OF quiet_basic(3)] within_call quiet_intros)

lemma embeddings_attempt_within: "calls_within [embed_call request t] (embeddings_attempt gw k md request t)"
proof -
  have "calls_within [embed_call request t]
      (catch (bind (embeddings_call gw k md request t) (\<lambda>response. ret (Answered response))) (embeddings_except gw True md))"
    by (intro within_catch_quiet within_bind_quiet embeddings_call_within quiet_intros)
  moreover have "quiet (observe_started gw md)" "\<And>e. quiet (embeddings_except gw False md e)"
    by (intro quiet_intros)+
  ultimately show ?thesis
    by (auto simp: embeddings_attempt_def calls_within_def quiet_def split: sum.splits prod.splits) metis+
qed

lemma embeddings_attempts_calls:
  "\<exists>ts. subseq ts targets \<and> outcalls (snd (embeddings_attempts gw rid c request k targets failures w)) =
    outcalls w @ map (embed_call request) ts"
proof (induction targets arbitrary: k failures w)
  case Nil
  show ?case by (auto simp: act_simps)
next
  case (Cons t ts)
  let ?md = "embeddings_metadata rid c request t"
  let ?all = "outcalls (snd (embeddings_attempts gw rid c request k (t # ts) failures w))"
  obtain r w1 where p: "poll gw w = (Inr r, w1)" and w1: "outcalls w1 = outcalls w"
    by (simp add: poll_def)
  obtain a w2 where a: "embeddings_attempt gw k ?md request t w1 = (a, w2)" by fastforce
  from embeddings_attempt_within [of request t gw k ?md] a
  have "outcalls w2 = outcalls w1 \<or> outcalls w2 = outcalls w1 @ [embed_call request t]"
    unfolding calls_within_def by blast
  with w1 have w2: "outcalls w2 = outcalls w \<or> outcalls w2 = outcalls w @ [embed_call request t]" by simp
  have extend: "\<exists>us. subseq us (t # ts) \<and> ?all = outcalls w @ map (embed_call request) us"
    if "?all = outcalls w2 @ map (embed_call request) us" "subseq us ts" for us
    using w2 that by (elim disjE) (auto intro: exI [of _ us] exI [of _ "t # us"])
  show ?case
  proof (cases r)
    case True
    have "outcalls (snd (refuse_embedding gw rid c RejectedCancelled request x w1)) = outcalls w1" for x
      by (rule quiet_snd) (rule quiet_reject)
    with True p w1 show ?thesis by (intro exI [of _ "[]"]) (simp add: act_simps)
  next
    case False
    show ?thesis
    proof (cases a)
      case (Inl e)
      with False p a show ?thesis by (intro extend [of "[]"]) (simp_all add: act_simps)
    next
      case (Inr x)
      show ?thesis
      proof (cases x)
        case (Answered response)
        with Inr False p a show ?thesis by (intro extend [of "[]"]) (simp_all add: act_simps)
      next
        case (NextCandidate failure)
        from Cons.IH [of "Suc k" "failures @ [failure]" w2] obtain us where
          "subseq us ts" "outcalls (snd (embeddings_attempts gw rid c request (Suc k) ts (failures @ [failure]) w2)) =
            outcalls w2 @ map (embed_call request) us" by blast
        with NextCandidate Inr False p a show ?thesis by (intro extend [of us]) (simp_all add: act_simps)
      qed
    qed
  qed
qed

lemma handle_openai_embeddings_calls:
  assumes "handle_openai_embeddings gw rid headers payload w = (r, w')"
  shows "\<exists>calls. outcalls w' = outcalls w @ calls \<and>
    (calls = [] \<or>
     (\<exists>caller request router targets ts. embed_admitted gw headers payload caller request \<and>
        resolve_router gw = Inr router \<and> plan_routes router (RoutedEmbedding request) caller = Inr targets \<and>
        subseq ts (take (gw_max_attempts gw) targets) \<and> calls = map (embed_call request) ts))"
proof (cases "\<exists>caller w1 request w2 candidates w3. embeddings_identify gw rid headers payload w = (Inr caller, w1) \<and>
    embeddings_parse gw rid caller payload w1 = (Inr request, w2) \<and>
    embeddings_plan gw rid caller request w2 = (Inr candidates, w3)")
  case True
  then obtain caller w1 request w2 candidates w3 where
    1: "embeddings_identify gw rid headers payload w = (Inr caller, w1)" and
    2: "embeddings_parse gw rid caller payload w1 = (Inr request, w2)" and
    3: "embeddings_plan gw rid caller request w2 = (Inr candidates, w3)" by blast
  have q: "outcalls w3 = outcalls w"
    using quietD [OF quiet_embeddings(1) 1] quietD [OF quiet_embeddings_parse 2] quietD [OF quiet_embeddings(2) 3] by simp
  from embeddings_attempts_calls [of candidates gw rid caller request 0 "[]" w3] obtain ts where
    "subseq ts candidates" "outcalls (snd (embeddings_attempts gw rid caller request 0 candidates [] w3)) =
      outcalls w3 @ map (embed_call request) ts" by blast
  moreover from assms 1 2 3 have "(r, w') = embeddings_attempts gw rid caller request 0 candidates [] w3"
    by (simp add: handle_openai_embeddings_def act_simps)
  ultimately show ?thesis
    using q embeddings_identify_Inr [OF 1] embeddings_parse_Inr [OF 2] embeddings_plan_Inr [OF 3]
    unfolding embed_admitted_def by (metis snd_conv)
next
  case False
  obtain r1 w1 where 1: "embeddings_identify gw rid headers payload w = (r1, w1)" by fastforce
  obtain r2 w2 where 2: "embeddings_parse gw rid (projr r1) payload w1 = (r2, w2)" by fastforce
  obtain r3 w3 where 3: "embeddings_plan gw rid (projr r1) (projr r2) w2 = (r3, w3)" by fastforce
  note q = quietD [OF quiet_embeddings(1) 1] quietD [OF quiet_embeddings_parse 2] quietD [OF quiet_embeddings(2) 3]
  have "outcalls w' = outcalls w"
  proof (cases r1)
    case (Inl e)
    with assms 1 q show ?thesis by (simp add: handle_openai_embeddings_def act_simps)
  next
    case r1: (Inr caller)
    show ?thesis
    proof (cases r2)
      case (Inl e)
      with assms 1 2 r1 q show ?thesis by (simp add: handle_openai_embeddings_def act_simps)
    next
      case r2: (Inr request)
      with False 1 2 3 r1 obtain e where "r3 = Inl e" by (cases r3) auto
      with assms 1 2 3 r1 r2 q show ?thesis by (simp add: handle_openai_embeddings_def act_simps)
    qed
  qed
  then show ?thesis by (intro exI [of _ "[]"]) simp
qed

lemma embeddings_call_Inr:
  assumes "embeddings_call gw k (embeddings_metadata rid caller request t) request t w = (Inr resp, w')"
  shows "embed_answers gw k rid request t resp"
  using assms
  by (auto simp: embeddings_call_def Let_def run_Inr resolve_embedding_provider_def result_simps check_batch_def
      embed_answers_def sent_batch_def embeddings_metadata_def split: if_splits option.splits)

lemma embeddings_attempts_Inr:
  "embeddings_attempts gw rid caller request k targets failures w = (Inr resp, w') \<Longrightarrow>
   \<exists>j t. t \<in> set targets \<and> embed_answers gw j rid request t resp"
proof (induction targets arbitrary: k failures w)
  case Nil
  then show ?case by (simp add: act_simps)
next
  case (Cons t ts)
  let ?md = "embeddings_metadata rid caller request t"
  from Cons.prems obtain x w1 w2 where a: "embeddings_attempt gw k ?md request t w1 = (Inr x, w2)"
    and rest: "(case x of Answered response \<Rightarrow> ret response
       | NextCandidate failure \<Rightarrow> embeddings_attempts gw rid caller request (Suc k) ts (failures @ [failure])) w2 = (Inr resp, w')"
    by (auto simp: run_Inr split: if_splits)
  show ?case
  proof (cases x)
    case (Answered response)
    have no: "embeddings_except gw b md e w \<noteq> (Inr (Answered r), w')" for b md e w r w'
      by (cases e) (auto simp: embeddings_except_def run_Inr split: if_splits)
    from rest a Answered have "embeddings_attempt gw k ?md request t w1 = (Inr (Answered resp), w')" by (simp add: act_simps)
    then obtain w3 where "embeddings_call gw k ?md request t w3 = (Inr resp, w')"
      by (auto simp: embeddings_attempt_def run_Inr no split: prod.splits sum.splits)
    from embeddings_call_Inr [OF this] show ?thesis by auto
  next
    case (NextCandidate failure)
    with rest Cons.IH show ?thesis by fastforce
  qed
qed

lemma handle_openai_embeddings_Inr:
  assumes "handle_openai_embeddings gw rid headers payload w = (Inr resp, w')"
  shows "\<exists>caller request k t. embed_admitted gw headers payload caller request \<and> embed_answers gw k rid request t resp"
proof -
  from assms obtain caller request candidates w1 w2 w3 where
    1: "embeddings_identify gw rid headers payload w = (Inr caller, w1)" and
    2: "embeddings_parse gw rid caller payload w1 = (Inr request, w2)" and
    5: "embeddings_attempts gw rid caller request 0 candidates [] w3 = (Inr resp, w')"
    by (auto simp: handle_openai_embeddings_def run_Inr)
  from embeddings_attempts_Inr [OF 5] embeddings_identify_Inr [OF 1] embeddings_parse_Inr [OF 2] show ?thesis
    unfolding embed_admitted_def by blast
qed

end
