(* ===== verification/Ledger.thy ===== *)
theory Ledger
  imports Embed_Facts Recorder
begin

text \<open>
  The contract between the gateway and its lifecycle observer, and what it gives for a whole
  request: whatever happens to a unary request, its ledger row does not stay \<open>started\<close>, and a
  streamed one leaves it there only until its generator is read. The audit recorder over the
  SQLite store provides the contract.
\<close>

section \<open>What the Platform's collaborators may raise\<close>

definition is_lifecycle :: "gw_exn \<Rightarrow> bool" where
  "is_lifecycle e = (case e of GatewayLifecycleError m \<Rightarrow> True | _ \<Rightarrow> False)"

definition stream_plain :: "chunk_stream \<Rightarrow> bool" where
  "stream_plain cs = (case snd cs of Exhausted \<Rightarrow> True | Raises e \<Rightarrow> \<not> is_lifecycle e)"

text \<open>\<open>GatewayLifecycleError\<close> is the gateway's own class: resolvers and providers do not raise it.\<close>

definition provider_plain :: "provider \<Rightarrow> bool" where
  "provider_plain p =
     ((\<forall>run req. p_complete p = Some run \<longrightarrow> (case run req of Inl e \<Rightarrow> \<not> is_lifecycle e | Inr cs \<Rightarrow> stream_plain cs)) \<and>
      (\<forall>run req. p_embed p = Some run \<longrightarrow> (case run req of Inl e \<Rightarrow> \<not> is_lifecycle e | Inr b \<Rightarrow> True)))"

definition platform_plain :: "'s gateway \<Rightarrow> bool" where
  "platform_plain gw =
     (\<forall>k ref. case gw_resolve_provider gw k ref of Inl e \<Rightarrow> \<not> is_lifecycle e | Inr p \<Rightarrow> provider_plain p)"

lemma is_lifecycle_simps [simp]:
  "is_lifecycle (GatewayLifecycleError m)" "\<not> is_lifecycle (ProviderFailureError m u)" "\<not> is_lifecycle (RequestCancelled m u)"
  "\<not> is_lifecycle (of_py e)"
  by (simp_all add: is_lifecycle_def of_py_def)

lemma plain_resolve: "platform_plain gw \<Longrightarrow> resolve_provider gw k t = Inl e \<Longrightarrow> \<not> is_lifecycle e"
  unfolding platform_plain_def resolve_provider_def
  by (drule spec [of _ k], drule spec [of _ "provider_ref t"])
     (auto simp: rbind_def split: sum.splits option.splits)

lemma plain_complete:
  assumes "platform_plain gw" "resolve_provider gw k t = Inr run"
  shows "case run req of Inl e \<Rightarrow> \<not> is_lifecycle e | Inr cs \<Rightarrow> stream_plain cs"
proof -
  from assms(2) obtain p where "gw_resolve_provider gw k (provider_ref t) = Inr p" "p_complete p = Some run"
    by (auto simp: resolve_provider_def result_simps split: option.splits)
  moreover from assms(1) this(1) have "provider_plain p" unfolding platform_plain_def by (metis sum.case(2))
  ultimately show ?thesis unfolding provider_plain_def by blast
qed

lemma plain_resolve_embedding:
  assumes "platform_plain gw" "resolve_embedding_provider gw k t = r"
  shows "case r of Inl e \<Rightarrow> \<not> is_lifecycle e | Inr run \<Rightarrow> (case run req of Inl e \<Rightarrow> \<not> is_lifecycle e | Inr b \<Rightarrow> True)"
proof -
  from assms(1) have p: "case gw_resolve_provider gw k (provider_ref t) of Inl e \<Rightarrow> \<not> is_lifecycle e | Inr p \<Rightarrow> provider_plain p"
    unfolding platform_plain_def by blast
  show ?thesis
  proof (cases "gw_resolve_provider gw k (provider_ref t)")
    case (Inl e)
    with p assms(2) show ?thesis by (auto simp: resolve_embedding_provider_def)
  next
    case (Inr q)
    with p assms(2) show ?thesis
      by (auto simp: resolve_embedding_provider_def provider_plain_def split: option.splits)
  qed
qed

lemma first_chunk_Inl: "stream_plain cs \<Longrightarrow> first_chunk cs = Inl e \<Longrightarrow> \<not> is_lifecycle e"
  by (auto simp: first_chunk_def stream_plain_def split: prod.splits list.splits stream_end.splits)

lemma first_chunk_plain: "stream_plain cs \<Longrightarrow> stream_plain (x, snd cs)"
  by (simp add: stream_plain_def)

lemma collect_error_plain: "\<not> is_lifecycle (collect_error label cs e)"
  by (cases e) (simp_all add: collect_error_def)

section \<open>The contract\<close>

locale request_ledger =
  fixes started :: "request_metadata \<Rightarrow> ('s, gw_exn, unit) act"
    and finished :: "request_metadata \<Rightarrow> terminal_status \<Rightarrow> provider_usage option \<Rightarrow> string option \<Rightarrow> ('s, gw_exn, unit) act"
    and rejected :: "request_rejection \<Rightarrow> ('s, gw_exn, unit) act"
    and status :: "string \<Rightarrow> 's \<Rightarrow> audit_status option"
  assumes started_status: "started m s = (r, s') \<Longrightarrow>
      status i s' = (if i = meta_request_id m \<and> status i s = None then Some AuditStarted else status i s) \<and>
      (r = Inr () \<longleftrightarrow> status (meta_request_id m) s = None)"
    and finished_status: "finished m st u e s = (r, s') \<Longrightarrow>
      status i s' = (if i = meta_request_id m \<and> status i s = Some AuditStarted then Some (terminal_audit st) else status i s)"
    and rejected_status: "rejected j s = (r, s') \<Longrightarrow>
      status i s' = (if i = rej_request_id j \<and> status i s = None then Some (rejection_audit (rej_status j)) else status i s)"
begin

definition watched :: "'s gateway \<Rightarrow> bool" where
  "watched gw = (gw_observer gw = \<lparr>on_started = started, on_finished = finished, on_rejected = rejected\<rparr>)"

definition settled :: "string \<Rightarrow> 's world \<Rightarrow> bool" where
  "settled i w = (status i (obs w) \<noteq> Some AuditStarted)"

lemma terminal_settles: "terminal_audit st \<noteq> AuditStarted" "rejection_audit rs \<noteq> AuditStarted"
  by (cases st; simp) (cases rs; simp)

lemmas status_snd =
  started_status [OF prod.collapse [symmetric], THEN conjunct1]
  finished_status [OF prod.collapse [symmetric]]
  rejected_status [OF prod.collapse [symmetric]]

lemma observed_world:
  assumes "watched gw"
  shows "obs (snd (observe_started gw m w)) = snd (started m (obs w))"
    and "obs (snd (observe_finished gw m st u e w)) = snd (finished m st u e (obs w))"
    and "obs (snd (observe_rejected gw j w)) = snd (rejected j (obs w))"
  using assms by (simp_all add: observe_started_def observe_finished_def observe_rejected_def observe_world watched_def)

lemma finish_settles: "watched gw \<Longrightarrow> settled (meta_request_id m) (snd (observe_finished gw m st u e w))"
  by (simp add: settled_def observed_world status_snd terminal_settles)

lemma finish_raises: "fst (observe_finished gw m st u e w) = Inl x \<Longrightarrow> is_lifecycle x"
  by (auto simp: observe_finished_def observe_def is_lifecycle_def split: prod.splits sum.splits gw_exn.splits)

lemma reject_settled: "watched gw \<Longrightarrow> settled i w \<Longrightarrow> settled i (snd (observe_rejected gw j w))"
  by (simp add: settled_def observed_world status_snd terminal_settles)

lemma start_outcome:
  assumes "watched gw" "meta_request_id m = i"
  shows "case observe_started gw m w of
      (Inl e, w') \<Rightarrow> is_lifecycle e \<and> status i (obs w') = status i (obs w)
    | (Inr u, w') \<Rightarrow> status i (obs w') = Some AuditStarted"
proof -
  obtain r s where s: "started m (obs w) = (r, s)" by fastforce
  from started_status [OF s] assms show ?thesis
    by (auto simp: observe_started_def observe_def watched_def s is_lifecycle_def split: sum.splits gw_exn.splits)
qed

section \<open>Assertions that keep a request settled\<close>

abbreviation steady :: "string \<Rightarrow> ('s, 'a) gw_act \<Rightarrow> bool" where
  "steady i m \<equiv> keeps (settled i) m"

lemma steady_basic [valid_intros]: "keeps (settled i) (poll gw)" "keeps (settled i) (call_out c)"
  by (auto simp: valid_def poll_def call_out_def settled_def)

lemma steady_rejected: "watched gw \<Longrightarrow> steady i (observe_rejected gw j)"
  using reject_settled [of gw i] unfolding valid_def by (metis (mono_tags, lifting) case_prod_unfold old.sum.exhaust snd_conv sum.case prod.collapse)

lemma keeps_bind: "keeps I m \<Longrightarrow> (\<And>x. keeps I (f x)) \<Longrightarrow> keeps I (bind m f)"
  and keeps_catch: "keeps I m \<Longrightarrow> (\<And>e. keeps I (h e)) \<Longrightarrow> keeps I (catch m h)"
  and keeps_basic: "keeps I (ret x)" "keeps I (raise e)" "keeps I (result r)"
  and keeps_cases: "keeps I m \<Longrightarrow> keeps I n \<Longrightarrow> keeps I (if c then m else n)"
    "(\<And>x. keeps I (f x)) \<Longrightarrow> (\<And>e. keeps I (g e)) \<Longrightarrow> keeps I (case s of Inl e \<Rightarrow> g e | Inr x \<Rightarrow> f x)"
  by (auto intro: valid_bind valid_catch valid_intros split: sum.splits)

lemmas keeps_intros = keeps_bind keeps_catch keeps_basic keeps_cases steady_basic

lemma steady_reject:
  assumes "watched gw"
  shows "steady i (reject gw rid c st m s e)" "steady i (reject_payload gw rid c st v e)"
    "steady i (reject_chat gw rid p st r e)" "steady i (reject_embedding gw rid c st v e)"
    "steady i (refuse_embedding gw rid p st er e)"
proof -
  have r: "steady i (reject gw rid c st m s e)" for rid c st m s e
    unfolding reject_def by (intro keeps_intros steady_rejected [OF assms])
  show "steady i (reject gw rid c st m s e)" by (rule r)
  show "steady i (reject_payload gw rid c st v e)" "steady i (reject_embedding gw rid c st v e)"
    unfolding reject_payload_def reject_embedding_def by (intro keeps_intros r)+
  show "steady i (reject_chat gw rid p st r e)" "steady i (refuse_embedding gw rid p st er e)"
    unfolding reject_chat_def refuse_embedding_def by (rule r)+
qed

lemma steady_protocol:
  "(\<And>m. steady i (f m)) \<Longrightarrow>
   steady i (case x of Inr request \<Rightarrow> ret request | Inl (ProtocolError m) \<Rightarrow> f m | Inl e \<Rightarrow> raise (of_py e))"
proof (cases x)
  case (Inl e)
  then show "(\<And>m. steady i (f m)) \<Longrightarrow> ?thesis" by (cases e) (simp_all add: keeps_basic)
qed (simp add: keeps_basic)

lemma steady_admission:
  assumes "watched gw"
  shows "steady i (chat_identify gw rid h v)" "steady i (chat_parse gw rid p v)" "steady i (chat_plan gw rid p r)"
    "steady i (embeddings_identify gw rid h v)" "steady i (embeddings_parse gw rid p v)" "steady i (embeddings_plan gw rid p er)"
proof -
  note r = steady_reject [OF assms]
  show "steady i (chat_identify gw rid h v)" "steady i (embeddings_identify gw rid h v)"
    unfolding chat_identify_def embeddings_identify_def by (intro keeps_intros r)+
  show "steady i (chat_plan gw rid p r)" "steady i (embeddings_plan gw rid p er)"
    unfolding chat_plan_def embeddings_plan_def by (intro keeps_intros r)+
  show "steady i (chat_parse gw rid p v)" "steady i (embeddings_parse gw rid p v)"
    unfolding chat_parse_def embeddings_parse_def by (rule keeps_bind, rule steady_protocol, rule r, intro keeps_intros r)+
qed

lemma steady_media:
  assumes "watched gw"
  shows "steady i (chat_media gw rid p request)"
proof -
  have "valid (settled i) (resolve_media_artifacts gw request p) (\<lambda>_. settled i) (\<lambda>_. settled i)"
  proof (unfold valid_def, intro allI impI)
    fix w :: "'s world" assume "settled i w"
    moreover from resolve_media_artifacts_valid [of w gw request p]
    have "media_only w (snd (resolve_media_artifacts gw request p w))"
      by (auto simp: valid_def split: prod.splits sum.splits)
    ultimately show "case resolve_media_artifacts gw request p w of (Inl e, w') \<Rightarrow> settled i w' | (Inr x, w') \<Rightarrow> settled i w'"
      by (auto simp: media_only_def settled_def split: prod.splits sum.splits)
  qed
  moreover have "steady i (case e of RequestCancelled m u \<Rightarrow> reject_chat gw rid p RejectedCancelled request e
      | MediaArtifactUnavailableError m \<Rightarrow> reject_chat gw rid p Rejected request e | _ \<Rightarrow> raise e)" for e
    by (cases e) (simp_all add: steady_reject [OF assms] keeps_basic)
  ultimately show ?thesis unfolding chat_media_def by (rule keeps_catch)
qed

section \<open>Attempts\<close>

definition live :: "string \<Rightarrow> 's world \<Rightarrow> bool" where
  "live i w = (status i (obs w) = Some AuditStarted)"

text \<open>After an exception: the row is still open unless the ledger itself failed.\<close>

definition open_unless :: "string \<Rightarrow> gw_exn \<Rightarrow> 's world \<Rightarrow> bool" where
  "open_unless i e w = (if is_lifecycle e then settled i w else live i w)"

text \<open>An answered request is recorded as completed; a streamed one is open and its generator carries its id.\<close>

definition answered :: "string \<Rightarrow> gateway_response \<Rightarrow> 's world \<Rightarrow> bool" where
  "answered i resp w =
     (if resp_stream resp then live i w \<and> (\<exists>ls. resp_body resp = Lazy ls \<and> meta_request_id (ls_metadata ls) = i)
      else status i (obs w) = Some AuditCompleted)"

lemma live_polls: "live i (w\<lparr>polls := n\<rparr>) = live i w" "live i (w\<lparr>outcalls := cs\<rparr>) = live i w"
  by (simp_all add: live_def)

lemma open_result:
  "(\<And>e. r = Inl e \<Longrightarrow> \<not> is_lifecycle e) \<Longrightarrow> valid (live i) (result r) (\<lambda>x w. live i w \<and> r = Inr x) (open_unless i)"
  by (auto simp: valid_def act_simps open_unless_def split: sum.splits)

lemma open_poll: "valid (live i) (poll gw) (\<lambda>_. live i) E" "valid (live i) (call_out c) (\<lambda>_. live i) E"
  by (simp_all add: valid_def poll_def call_out_def live_polls)

lemma open_raise: "\<not> is_lifecycle e \<Longrightarrow> valid (live i) (raise e) Q (open_unless i)"
  by (simp add: valid_def act_simps open_unless_def)

lemma open_finish:
  assumes "watched gw" "meta_request_id m = i"
  shows "valid (live i) (observe_finished gw m st u e) (\<lambda>_ w. status i (obs w) = Some (terminal_audit st)) (open_unless i)"
proof (unfold valid_def, intro allI impI)
  fix w assume "live i w"
  then have "status i (obs (snd (observe_finished gw m st u e w))) = Some (terminal_audit st)"
    using assms by (simp add: observed_world status_snd live_def)
  then show "case observe_finished gw m st u e w of (Inl x, w') \<Rightarrow> open_unless i x w'
      | (Inr x, w') \<Rightarrow> status i (obs w') = Some (terminal_audit st)"
    using finish_raises [of gw m st u e w] terminal_settles(1) [of st]
    by (auto simp: open_unless_def settled_def split: prod.splits sum.splits)
qed

lemma open_collect_chunks:
  "valid (live i) (collect_chunks gw label rest fin collected) (\<lambda>_. live i) (open_unless i)"
proof (induction gw label rest fin collected rule: collect_chunks.induct)
  case (1 gw label collected)
  show ?case by (simp add: valid_def act_simps)
next
  case (2 gw label e collected)
  show ?case by (simp add: open_raise collect_error_plain)
next
  case (3 gw label c rest fin collected)
  then show ?case unfolding collect_chunks.simps
    by (intro valid_bind [OF open_poll(1)] valid_if open_raise) simp_all
qed

lemma assemble_plain: "assemble_message cs = Inl e \<Longrightarrow> \<not> is_lifecycle e"
  using assemble_message_agree [of cs] assemble_message_disagree [of cs] by force

lemma open_collect:
  "valid (live i) (collect_response gw m label c rest fin) (\<lambda>r w. live i w \<and> \<not> resp_stream r) (open_unless i)"
  unfolding collect_response_def Let_def
  by (rule valid_bind [OF open_collect_chunks], rule valid_bind [OF open_result], erule assemble_plain)
     (auto simp: valid_def act_simps)

lemma open_bind_result:
  "(\<And>e. r = Inl e \<Longrightarrow> \<not> is_lifecycle e) \<Longrightarrow> (\<And>x. r = Inr x \<Longrightarrow> valid (live i) (f x) Q (open_unless i)) \<Longrightarrow>
   valid (live i) (bind (result r) f) Q (open_unless i)"
  by (cases r) (simp_all add: open_raise)

lemma open_bind_call: "(\<And>x. valid (live i) (f x) Q E) \<Longrightarrow> valid (live i) (bind (call_out c) f) Q E"
  by (rule valid_bind [OF open_poll(2)])

lemma open_bind_poll: "(\<And>x. valid (live i) (f x) Q E) \<Longrightarrow> valid (live i) (bind (poll gw) f) Q E"
  by (rule valid_bind [OF open_poll(1)])

lemma open_answer:
  assumes "watched gw" "meta_request_id m = i"
  shows "valid (live i) (bind (collect_response gw m label c rest fin) (\<lambda>response.
      bind (observe_finished gw m Completed (resp_usage response) None) (\<lambda>_. ret response))) (answered i) (open_unless i)"
proof (rule valid_bind [OF open_collect])
  fix r
  show "valid (\<lambda>w. live i w \<and> \<not> resp_stream r) (bind (observe_finished gw m Completed (resp_usage r) None) (\<lambda>_. ret r))
      (answered i) (open_unless i)"
  proof (cases "resp_stream r")
    case False
    show ?thesis
      by (rule valid_bind [OF valid_pre [OF open_finish [OF assms]]])
         (use False in \<open>simp_all add: valid_def act_simps answered_def\<close>)
  qed (simp add: valid_def)
qed

lemma open_chat_call:
  assumes "watched gw" "platform_plain gw" "meta_request_id m = i"
  shows "valid (live i) (chat_call gw k m request target) (answered i) (open_unless i)"
  unfolding chat_call_def
proof (rule open_bind_result, erule plain_resolve [OF assms(2)], rule open_bind_call, rule open_bind_result)
  fix run u e assume "resolve_provider gw k target = Inr run" "run (provider_request target request) = Inl e"
  with plain_complete [OF assms(2), of k target run "provider_request target request"] show "\<not> is_lifecycle e" by simp
next
  fix run u chunks assume "resolve_provider gw k target = Inr run" "run (provider_request target request) = Inr chunks"
  with plain_complete [OF assms(2), of k target run "provider_request target request"]
  have plain: "stream_plain chunks" by simp
  show "valid (live i) (bind (result (first_chunk chunks)) (\<lambda>(first, rest).
      if req_stream request then
        ret \<lparr>resp_request_id = meta_request_id m, resp_model = req_model request, resp_status_code = 200,
          resp_body = Lazy \<lparr>ls_metadata = m, ls_chunks = first # rest, ls_end = snd chunks,
            ls_include_usage = include_usage request\<rparr>,
          resp_stream = True, resp_route_id = target_label target, resp_usage = None\<rparr>
      else bind (collect_response gw m (target_label target) first rest (snd chunks)) (\<lambda>response.
        bind (observe_finished gw m Completed (resp_usage response) None) (\<lambda>_. ret response)))) (answered i) (open_unless i)"
    by (rule open_bind_result, erule first_chunk_Inl [OF plain], simp only: split: prod.split, intro allI impI valid_if)
       (simp_all add: open_answer [OF assms(1,3)] valid_ret answered_def assms(3))
qed

lemma except_settles:
  assumes "watched gw" "meta_request_id m = i"
  shows "valid (open_unless i e) (chat_except gw True m e) (\<lambda>_. settled i) (\<lambda>_. settled i)"
    and "valid (open_unless i e) (embeddings_except gw True m e) (\<lambda>_. settled i) (\<lambda>_. settled i)"
proof -
  have f: "valid P (observe_finished gw m st u x) (\<lambda>_. settled i) (\<lambda>_. settled i)" for P st u x
    using finish_settles [OF assms(1), of m st u x] assms(2) by (auto simp: valid_def split: prod.splits sum.splits) (metis snd_conv)+
  have c: "valid (live i) (bind (observe_finished gw m st u x) (\<lambda>_. n)) (\<lambda>_. settled i) (\<lambda>_. settled i)"
    if "keeps (settled i) n" for st u x and n :: "('s, attempt_result) gw_act"
    by (rule valid_bind [OF f that])
  note k = c keeps_basic open_bind_poll valid_if
  have "valid (live i) (chat_except gw True m e) (\<lambda>_. settled i) (\<lambda>_. settled i)" if "\<not> is_lifecycle e"
    unfolding chat_except_def record_if_started_def if_True
    using that by (cases e; simp only: gw_exn.case is_lifecycle_simps not_True_eq_False) (intro k)+
  moreover have "valid (live i) (embeddings_except gw True m e) (\<lambda>_. settled i) (\<lambda>_. settled i)" if "\<not> is_lifecycle e"
    unfolding embeddings_except_def record_if_started_def if_True
    using that by (cases e; simp only: gw_exn.case is_lifecycle_simps not_True_eq_False) (intro k)+
  moreover have "valid (settled i) (chat_except gw True m e) (\<lambda>_. settled i) (\<lambda>_. settled i)"
    "valid (settled i) (embeddings_except gw True m e) (\<lambda>_. settled i) (\<lambda>_. settled i)" if "is_lifecycle e"
    using that by (cases e; simp add: chat_except_def embeddings_except_def is_lifecycle_def keeps_basic)+
  ultimately show "valid (open_unless i e) (chat_except gw True m e) (\<lambda>_. settled i) (\<lambda>_. settled i)"
    "valid (open_unless i e) (embeddings_except gw True m e) (\<lambda>_. settled i) (\<lambda>_. settled i)"
    by (cases "is_lifecycle e"; simp add: open_unless_def [abs_def])+
qed

lemma open_embeddings_call:
  assumes "watched gw" "platform_plain gw" "meta_request_id m = i"
  shows "valid (live i) (embeddings_call gw k m request target) (answered i) (open_unless i)"
  unfolding embeddings_call_def Let_def
proof (rule open_bind_result)
  fix e assume "resolve_embedding_provider gw k target = Inl e"
  with plain_resolve_embedding [OF assms(2)] show "\<not> is_lifecycle e" by fastforce
next
  fix run
  let ?req = "request\<lparr>emb_model := provider_model target (emb_model request)\<rparr>"
  assume r: "resolve_embedding_provider gw k target = Inr run"
  have plain: "\<not> is_lifecycle e" if "run ?req = Inl e" for e
    using plain_resolve_embedding [OF assms(2) r] that by (metis sum.case)
  have batch: "\<not> is_lifecycle e" if "check_batch request found = Inl e" for found e
    using that by (auto simp: check_batch_def split: option.splits if_splits)
  have finish: "valid (live i) (bind (observe_finished gw m Completed None None) (\<lambda>_. ret resp)) (answered i) (open_unless i)"
    if "\<not> resp_stream resp" for resp
    by (rule valid_bind [OF open_finish [OF assms(1,3)]]) (use that in \<open>simp add: valid_def act_simps answered_def\<close>)
  show "valid (live i) (bind (call_out (EmbedCalled (provider_ref target) ?req)) (\<lambda>_. bind (result (run ?req)) (\<lambda>found.
      bind (result (check_batch request found)) (\<lambda>batch. bind (poll gw) (\<lambda>cancelled.
      if cancelled then raise (RequestCancelled ''request was cancelled during embedding provider execution'' None)
      else bind (observe_finished gw m Completed None None) (\<lambda>_.
        ret \<lparr>resp_request_id = meta_request_id m, resp_model = batch_model batch, resp_status_code = 200,
          resp_body = Json (embeddings_body batch), resp_stream = False,
          resp_route_id = meta_route_id m, resp_usage = None\<rparr>)))))) (answered i) (open_unless i)"
    by (rule open_bind_call, rule open_bind_result, erule plain, rule open_bind_result, erule batch, rule open_bind_poll,
        rule valid_if, rule open_raise, simp, rule finish, simp)
qed

definition outcome_settled :: "string \<Rightarrow> attempt_result \<Rightarrow> 's world \<Rightarrow> bool" where
  "outcome_settled i r w = (case r of Answered resp \<Rightarrow> answered i resp w | NextCandidate f \<Rightarrow> settled i w)"

lemma attempt_settles:
  assumes w: "watched gw" "meta_request_id m = i"
    and call: "valid (live i) call (answered i) (open_unless i)"
    and handled: "\<And>e. valid (open_unless i e) (handler True e) (\<lambda>_. settled i) (\<lambda>_. settled i)"
    and raises: "\<And>e. is_lifecycle e \<Longrightarrow> handler False e = raise e"
    and next_only: "\<And>e w resp w'. handler True e w \<noteq> (Inr (Answered resp), w')"
  shows "valid (settled i) (\<lambda>w. case observe_started gw m w of (Inl e, w') \<Rightarrow> handler False e w'
      | (Inr u, w') \<Rightarrow> catch (bind call (\<lambda>response. ret (Answered response))) (handler True) w')
      (outcome_settled i) (\<lambda>_. settled i)"
proof -
  have after: "valid (open_unless i e) (handler True e) (outcome_settled i) (\<lambda>_. settled i)" for e
  proof (unfold valid_def, intro allI impI)
    fix w assume "open_unless i e w"
    with handled [of e] next_only [of e w]
    show "case handler True e w of (Inl e, w') \<Rightarrow> settled i w' | (Inr r, w') \<Rightarrow> outcome_settled i r w'"
      by (fastforce simp: valid_def outcome_settled_def split: sum.splits prod.splits attempt_result.splits)
  qed
  have body: "valid (live i) (catch (bind call (\<lambda>response. ret (Answered response))) (handler True))
      (outcome_settled i) (\<lambda>_. settled i)"
    by (rule valid_catch [OF valid_bind [OF call] after]) (simp add: valid_def act_simps outcome_settled_def)
  show ?thesis
  proof (unfold valid_def, intro allI impI)
    fix w assume s: "settled i w"
    obtain r w' where o': "observe_started gw m w = (r, w')" by fastforce
    from start_outcome [OF w, of w] o' s body
    show "case (case observe_started gw m w of (Inl e, w') \<Rightarrow> handler False e w'
        | (Inr u, w') \<Rightarrow> catch (bind call (\<lambda>response. ret (Answered response))) (handler True) w') of
        (Inl e, w') \<Rightarrow> settled i w' | (Inr r, w') \<Rightarrow> outcome_settled i r w'"
      by (cases r) (auto simp: raises act_simps settled_def valid_def live_def)
  qed
qed

lemma except_passes:
  "is_lifecycle e \<Longrightarrow> chat_except gw False m e = raise e" "is_lifecycle e \<Longrightarrow> embeddings_except gw False m e = raise e"
  by (cases e; simp add: is_lifecycle_def chat_except_def embeddings_except_def)+

lemma except_continues:
  "chat_except gw b m e w \<noteq> (Inr (Answered resp), w')" "embeddings_except gw b m e w \<noteq> (Inr (Answered resp), w')"
  by (cases e; auto simp: chat_except_def embeddings_except_def act_simps record_if_started_def split: sum.splits prod.splits)+

lemma one_attempt_settles:
  assumes "watched gw" "platform_plain gw" "meta_request_id m = i"
  shows "valid (settled i) (chat_attempt gw k m request target) (outcome_settled i) (\<lambda>_. settled i)"
    and "valid (settled i) (embeddings_attempt gw k m erequest target) (outcome_settled i) (\<lambda>_. settled i)"
  unfolding chat_attempt_def embeddings_attempt_def
  by (rule attempt_settles [OF assms(1,3)]; simp add: assms open_chat_call open_embeddings_call except_settles
        except_passes except_continues)+

lemma steady_bind: "steady i m \<Longrightarrow> (\<And>x. valid (settled i) (f x) Q (\<lambda>_. settled i)) \<Longrightarrow>
    valid (settled i) (bind m f) Q (\<lambda>_. settled i)"
  by (rule valid_bind)

lemma steady_raise: "valid (settled i) (raise e) Q (\<lambda>_. settled i)"
  by (simp add: valid_def act_simps)

lemma rejecting:
  assumes "watched gw"
  shows "valid (settled i) (reject_chat gw rid p st r e) Q (\<lambda>_. settled i)"
    and "valid (settled i) (refuse_embedding gw rid p st er e) Q (\<lambda>_. settled i)"
  unfolding reject_chat_def refuse_embedding_def reject_def
  by (rule steady_bind [OF steady_rejected [OF assms] steady_raise])+

lemma attempts_settle:
  assumes w: "watched gw" "platform_plain gw"
  shows "valid (settled i) (chat_attempts gw i caller request k targets failures) (answered i) (\<lambda>_. settled i)"
    and "valid (settled i) (embeddings_attempts gw i caller erequest k targets failures) (answered i) (\<lambda>_. settled i)"
proof -
  have next_step: "valid (outcome_settled i r) (case r of Answered response \<Rightarrow> ret response | NextCandidate f \<Rightarrow> g f)
      (answered i) (\<lambda>_. settled i)" if "\<And>f. valid (settled i) (g f) (answered i) (\<lambda>_. settled i)" for r g
    using that by (cases r) (auto simp: outcome_settled_def valid_def act_simps)
  note steps = steady_bind [OF steady_basic(1)] valid_if rejecting [OF w(1)]
  show "valid (settled i) (chat_attempts gw i caller request k targets failures) (answered i) (\<lambda>_. settled i)"
  proof (induction targets arbitrary: k failures)
    case (Cons t ts)
    show ?case unfolding chat_attempts.simps
      by (intro steps valid_bind [OF one_attempt_settles(1) [OF w]] next_step Cons.IH) (simp add: chat_metadata_def)
  qed (simp add: steady_raise)
  show "valid (settled i) (embeddings_attempts gw i caller erequest k targets failures) (answered i) (\<lambda>_. settled i)"
  proof (induction targets arbitrary: k failures)
    case (Cons t ts)
    show ?case unfolding embeddings_attempts.simps
      by (intro steps valid_bind [OF one_attempt_settles(2) [OF w]] next_step Cons.IH) (simp add: embeddings_metadata_def)
  qed (simp add: steady_raise)
qed

theorem request_settles:
  assumes "watched gw" "platform_plain gw"
  shows "valid (settled i) (handle_openai_chat gw i headers payload) (answered i) (\<lambda>_. settled i)"
    and "valid (settled i) (handle_openai_embeddings gw i headers payload) (answered i) (\<lambda>_. settled i)"
  unfolding handle_openai_chat_def handle_openai_embeddings_def
  by (intro steady_bind steady_admission [OF assms(1)] steady_media [OF assms(1)] attempts_settle [OF assms])+

theorem stream_settles:
  assumes "watched gw" "meta_request_id (ls_metadata ls) = i" "stream_body gw ls pulls w = (r, w')" "pulls \<noteq> Some 0"
  shows "settled i w'"
proof -
  from stream_body_terminal [OF assms(3,4)] obtain st err where
    "obs w' = snd (finished (ls_metadata ls) st (delivered_usage ls r) err (obs w))"
    using assms(1) by (auto simp: one_terminal_def watched_def)
  then show ?thesis using assms(2) by (simp add: settled_def status_snd terminal_settles)
qed

end

section \<open>The recorder provides it\<close>

interpretation recorder: request_ledger "recorder_started clock" "recorder_finished clock billing"
  "recorder_rejected clock" ledger_status for clock billing
  by unfold_locales (simp_all add: recorder_started_status recorder_finished_status recorder_rejected_status)

lemma recorder_watched: "gw_observer gw = audit_recorder clock billing \<Longrightarrow> recorder.watched clock billing gw"
  by (simp add: recorder.watched_def audit_recorder_def)

text \<open>What the contract gives for the recorder, with the ledger statuses spelled out.\<close>

lemma recorder_settles:
  assumes "gw_observer gw = audit_recorder clock billing" "platform_plain gw" "ledger_status rid (obs w) \<noteq> Some AuditStarted"
  shows "handle_openai_chat gw rid headers payload w = (r, w') \<Longrightarrow>
      case r of Inl e \<Rightarrow> ledger_status rid (obs w') \<noteq> Some AuditStarted
      | Inr resp \<Rightarrow> if resp_stream resp
          then ledger_status rid (obs w') = Some AuditStarted \<and> (\<exists>ls. resp_body resp = Lazy ls \<and> meta_request_id (ls_metadata ls) = rid)
          else ledger_status rid (obs w') = Some AuditCompleted"
    and "handle_openai_embeddings gw rid headers payload w = (r, w') \<Longrightarrow>
      case r of Inl e \<Rightarrow> ledger_status rid (obs w') \<noteq> Some AuditStarted
      | Inr resp \<Rightarrow> \<not> resp_stream resp \<and> ledger_status rid (obs w') = Some AuditCompleted"
proof -
  note w = recorder_watched [OF assms(1)]
  show "handle_openai_chat gw rid headers payload w = (r, w') \<Longrightarrow>
      case r of Inl e \<Rightarrow> ledger_status rid (obs w') \<noteq> Some AuditStarted
      | Inr resp \<Rightarrow> if resp_stream resp
          then ledger_status rid (obs w') = Some AuditStarted \<and> (\<exists>ls. resp_body resp = Lazy ls \<and> meta_request_id (ls_metadata ls) = rid)
          else ledger_status rid (obs w') = Some AuditCompleted"
    using recorder.request_settles(1) [OF w assms(2), of rid headers payload] assms(3)
    by (fastforce simp: valid_def recorder.settled_def recorder.answered_def recorder.live_def split: sum.splits)
  assume e: "handle_openai_embeddings gw rid headers payload w = (r, w')"
  from recorder.request_settles(2) [OF w assms(2), of rid headers payload] assms(3) e
  show "case r of Inl e \<Rightarrow> ledger_status rid (obs w') \<noteq> Some AuditStarted
      | Inr resp \<Rightarrow> \<not> resp_stream resp \<and> ledger_status rid (obs w') = Some AuditCompleted"
    using handle_openai_embeddings_Inr [of gw rid headers payload w]
    by (fastforce simp: valid_def recorder.settled_def recorder.answered_def recorder.live_def embed_answers_def split: sum.splits)
qed

lemma recorder_stream_settles:
  "gw_observer gw = audit_recorder clock billing \<Longrightarrow> stream_body gw ls pulls w = (r, w') \<Longrightarrow> pulls \<noteq> Some 0 \<Longrightarrow>
   ledger_status (meta_request_id (ls_metadata ls)) (obs w') \<noteq> Some AuditStarted"
  using recorder.stream_settles [OF recorder_watched refl] by (simp add: recorder.settled_def)

end
