(* ===== verification/Product_Routing.thy ===== *)
theory Product_Routing
  imports Ledger Key_Facts
begin

text \<open>
  \<open>product/src/cyrene_exchange_product/routing.py\<close> and \<open>src/cyrene_exchange/reference_routing.py\<close>:
  the stored routes as a router of the gateway, the data-plane credential check, and the gateway
  composed over the store. The store a gateway reads is an argument, as it is when the request
  arrives; the delegate (the Platform's capability resolver), the cancellation event and the clock
  come with it.
\<close>

section \<open>Stored routes as route targets\<close>

definition target_of_route :: "gateway_route \<Rightarrow> route_target" where
  "target_of_route r = \<lparr>provider_ref = gr_target_binding_id r, target_route_id = gr_id r, target_model = gr_target_model r\<rparr>"

definition plan_for_scope :: "exchange_store \<Rightarrow> uuid \<Rightarrow> string \<Rightarrow> string option \<Rightarrow> string option \<Rightarrow> route_target list" where
  "plan_for_scope s endpoint_id model organization workspace =
     (case get_endpoint endpoint_id s of
        None \<Rightarrow> []
      | Some endpoint \<Rightarrow>
          if ge_state endpoint \<noteq> EndpointActive then []
          else map target_of_route
            (filter (\<lambda>r. fnmatchcase model (gr_model_pattern r)) (active_routes (ge_id endpoint) organization workspace s)))"

fun routed_model :: "routed_request \<Rightarrow> string" where
  "routed_model (RoutedChat r) = req_model r"
| "routed_model (RoutedEmbedding e) = emb_model e"

definition plan_for_principal :: "exchange_store \<Rightarrow> uuid \<Rightarrow> routed_request \<Rightarrow> request_principal \<Rightarrow> route_target list" where
  "plan_for_principal s endpoint_id request caller =
     plan_for_scope s endpoint_id (routed_model request) (organization_id caller)
       (if organization_id caller \<noteq> None then Some (workspace_id caller) else None)"

definition stored_router :: "exchange_store \<Rightarrow> uuid \<Rightarrow> router" where
  "stored_router s endpoint_id =
     \<lparr>rt_plan = Some (\<lambda>request. Inr (plan_for_scope s endpoint_id (routed_model request) None None)),
      rt_plan_for_principal = Some (\<lambda>request caller. Inr (plan_for_principal s endpoint_id request caller))\<rparr>"

section \<open>The gateway over the store\<close>

definition configured_digests :: "(string \<times> product_principal) list \<Rightarrow> string list" where
  "configured_digests credentials = map (\<lambda>(token, p). sha256_str token) credentials"

definition data_plane_principal_resolver ::
  "exchange_store \<Rightarrow> (string \<times> product_principal) list \<Rightarrow> int \<Rightarrow> string \<Rightarrow> gw_exn + request_principal option" where
  "data_plane_principal_resolver s credentials now_ms token =
     map_sum of_py id (resolve_data_plane_credential token (configured_digests credentials) now_ms s)"

text \<open>What the caller of \<open>build_gateway_from_store\<close> supplies.\<close>

record gateway_settings =
  gs_endpoint :: uuid
  gs_credentials :: "(string \<times> product_principal) list"
  gs_billing :: "billing_client option"
  gs_record_requests :: bool
  gs_max_attempts :: int
  gs_media_resolver :: "(string \<Rightarrow> request_principal \<Rightarrow> gw_exn + media_artifact option) option"
  gs_delegate :: "nat \<Rightarrow> string \<Rightarrow> gw_exn + provider"
  gs_cancelled :: "nat \<Rightarrow> bool"
  gs_clock :: "nat \<Rightarrow> int"

definition gateway_over :: "gateway_settings \<Rightarrow> exchange_store \<Rightarrow> int \<Rightarrow> product_state gateway" where
  "gateway_over gs s now_ms =
     \<lparr>gw_principal_resolver = data_plane_principal_resolver s (gs_credentials gs) now_ms,
      gw_observer = (if gs_record_requests gs then audit_recorder (gs_clock gs) (gs_billing gs) else noop_observer),
      gw_quota_checker = Some (quota_guard s (gs_billing gs)), gw_media_resolver = gs_media_resolver gs,
      gw_max_attempts = nat (gs_max_attempts gs), gw_resolve_router = Inr (stored_router s (gs_endpoint gs)),
      gw_resolve_provider = gs_delegate gs, gw_cancelled = gs_cancelled gs, gw_clock = gs_clock gs\<rparr>"

text \<open>
  Building configures the credentials first; the gateway it returns reads the store anew for every
  request. An observer that does not audit allows several attempts.
\<close>

definition build_gateway_from_store :: "(nat \<Rightarrow> int) \<Rightarrow> gateway_settings \<Rightarrow> (exchange_store \<Rightarrow> int \<Rightarrow> product_state gateway) store_act" where
  "build_gateway_from_store clock gs =
     andthen (configure_credentials clock (gs_credentials gs))
       (case check_gateway (gs_max_attempts gs) True True (\<not> gs_record_requests gs) of
          Inl e \<Rightarrow> raise (ProductValueError (exc_message e))
        | Inr u \<Rightarrow> ret (gateway_over gs))"

section \<open>The static planner of the reference composition\<close>

text \<open>The optional fields of a configured target are passed on as they are.\<close>

record static_target =
  st_provider_ref :: string
  st_route_id :: pyval
  st_model :: pyval

definition static_target :: "pyval \<Rightarrow> static_target list" where
  "static_target target =
     (case target of
        PDict d \<Rightarrow>
          (case dget d ''provider_ref'' of
             PStr ref \<Rightarrow> [\<lparr>st_provider_ref = ref, st_route_id = dget_or d ''route_id'' (PStr []), st_model = dget d ''model''\<rparr>]
           | _ \<Rightarrow> [])
      | _ \<Rightarrow> [])"

definition static_route_planner :: "pydict option \<Rightarrow> py_exc + static_target list" where
  "static_route_planner config =
     rbind (need_items (dget_or (case config of None \<Rightarrow> [] | Some d \<Rightarrow> d) ''targets'' (PTuple []))
       (ValueError ''routing targets must be a sequence'')) (\<lambda>raw_targets.
     Inr (concat (map static_target raw_targets)))"

section \<open>What the plan contains\<close>

lemma plan_for_scope_set:
  assumes "store_ok s"
  shows "t \<in> set (plan_for_scope s e model (Some org) (Some w)) \<longleftrightarrow>
    (\<exists>ep i r. get_endpoint e s = Some ep \<and> ge_state ep = EndpointActive \<and> get_route i s = Some r \<and> t = target_of_route r \<and>
      gr_endpoint_id r = e \<and> gr_state r = RouteActive \<and> gr_organization_id r = Some org \<and> gr_workspace_id r = Some w \<and> w \<noteq> [] \<and>
      fnmatchcase model (gr_model_pattern r))"
proof (cases "get_endpoint e s")
  case (Some ep)
  with rows_okD [OF store_okD(1) [OF assms]] have e: "ge_id ep = e" by (simp add: get_endpoint_def)
  have "t \<in> set (plan_for_scope s e model (Some org) (Some w)) \<longleftrightarrow> ge_state ep = EndpointActive \<and>
      (\<exists>r. r \<in> set (active_routes e (Some org) (Some w) s) \<and> fnmatchcase model (gr_model_pattern r) \<and> t = target_of_route r)"
    using Some e by (auto simp: plan_for_scope_def)
  then show ?thesis unfolding active_routes_scoped [OF assms] using Some by auto
qed (simp add: plan_for_scope_def)

text \<open>A route that a caller's scope sees.\<close>

definition visible_to :: "request_principal \<Rightarrow> gateway_route \<Rightarrow> bool" where
  "visible_to caller r = (gr_organization_id r = organization_id caller \<and>
     (organization_id caller \<noteq> None \<longrightarrow> gr_workspace_id r = Some (workspace_id caller)))"

lemma active_routes_legacy:
  assumes "store_ok s"
  shows "r \<in> set (active_routes e None None s) \<longleftrightarrow>
    (\<exists>i. get_route i s = Some r \<and> gr_endpoint_id r = e \<and> gr_state r = RouteActive \<and> gr_organization_id r = None)"
proof -
  have row: "rr_endpoint_id row = gr_endpoint_id (route_from_row row) \<and> rr_state row = gr_state (route_from_row row)"
    if "find_row i (gateway_routes s) = Some row" for i row
    using rows_okD [OF store_okD(2) [OF assms] that] by (simp add: route_row_ok_def route_from_row_def)
  have "r \<in> set (order_routes (select (\<lambda>_ row. rr_endpoint_id row = e \<and> rr_state row = RouteActive \<and>
      rr_organization_id row = None) (gateway_routes s))) \<longleftrightarrow>
      (\<exists>i. get_route i s = Some r \<and> (gr_endpoint_id r = e \<and> gr_state r = RouteActive \<and> gr_organization_id r = None))"
    by (rule ordered_set [OF assms]) (simp add: row, simp add: route_from_row_def)
  then show ?thesis by (simp add: active_routes_def)
qed

lemma plan_for_principal_set:
  assumes "store_ok s" "t \<in> set (plan_for_principal s e request caller)"
  shows "\<exists>ep i r. get_endpoint e s = Some ep \<and> ge_state ep = EndpointActive \<and> get_route i s = Some r \<and> t = target_of_route r \<and>
    gr_endpoint_id r = e \<and> gr_state r = RouteActive \<and> visible_to caller r \<and> fnmatchcase (routed_model request) (gr_model_pattern r)"
proof -
  from assms(2) have "\<exists>ep. get_endpoint e s = Some ep \<and> ge_state ep = EndpointActive"
    by (cases "get_endpoint e s") (auto simp: plan_for_principal_def plan_for_scope_def split: if_splits)
  then obtain ep where ep: "get_endpoint e s = Some ep" "ge_state ep = EndpointActive" by blast
  with rows_okD [OF store_okD(1) [OF assms(1)]] have id: "ge_id ep = e" by (simp add: get_endpoint_def)
  let ?w = "if organization_id caller \<noteq> None then Some (workspace_id caller) else None"
  from assms(2) ep id obtain r where r: "r \<in> set (active_routes e (organization_id caller) ?w s)" "t = target_of_route r"
    "fnmatchcase (routed_model request) (gr_model_pattern r)"
    by (auto simp: plan_for_principal_def plan_for_scope_def)
  have "\<exists>i. get_route i s = Some r \<and> gr_endpoint_id r = e \<and> gr_state r = RouteActive \<and> visible_to caller r"
  proof (cases "organization_id caller")
    case None
    with r(1) active_routes_legacy [OF assms(1)] show ?thesis by (auto simp: visible_to_def)
  next
    case (Some org)
    with r(1) active_routes_scoped [OF assms(1)] show ?thesis by (auto simp: visible_to_def)
  qed
  with ep r show ?thesis by blast
qed

section \<open>Who reaches a provider\<close>

text \<open>The credential behind an authenticated data-plane caller.\<close>

definition presented :: "gateway_settings \<Rightarrow> exchange_store \<Rightarrow> int \<Rightarrow> (string \<times> string) list \<Rightarrow> request_principal \<Rightarrow> bool" where
  "presented gs s now_ms headers caller =
     (\<exists>authorization row. header_value ''authorization'' headers = Some authorization \<and> starts_with ''Bearer '' authorization \<and>
        find_row (credential_ref caller) (api_credentials s) = Some row \<and>
        cw_token_digest row = sha256_str (strip (drop 7 authorization)) \<and> usable now_ms row \<and>
        (cw_api_key_id row \<noteq> None \<or> cw_token_digest row \<in> set (configured_digests (gs_credentials gs))) \<and>
        actor_id caller = cw_actor_id row \<and> workspace_id caller = cw_workspace_id row \<and> organization_id caller = cw_organization_id row)"

lemma map_sum_Inr: "map_sum f id r = Inr x \<longleftrightarrow> r = Inr x"
  by (cases r) auto

lemma authenticated_presented:
  assumes "store_ok s" "authenticate (gateway_over gs s now_ms) headers = Inr caller"
  shows "presented gs s now_ms headers caller"
proof -
  let ?ds = "configured_digests (gs_credentials gs)"
  from assms(2) obtain authorization where a: "header_value ''authorization'' headers = Some authorization"
    "starts_with ''Bearer '' authorization"
    "resolve_data_plane_credential (strip (drop 7 authorization)) ?ds now_ms s = Inr (Some caller)"
    by (auto simp: authenticate_def Let_def gateway_over_def data_plane_principal_resolver_def
        map_sum_Inr split: option.splits if_splits sum.splits)
  let ?t = "strip (drop 7 authorization)"
  from resolved_row [OF assms(1)] a(3) obtain row where r: "find_row (credential_ref caller) (api_credentials s) = Some row"
    "cw_token_digest row = sha256_str ?t" "usable now_ms row" "actor_id caller = cw_actor_id row"
    "workspace_id caller = cw_workspace_id row" "organization_id caller = cw_organization_id row" by blast
  from a(3) obtain ref row' where f: "find_usable (sha256_str ?t) now_ms s = Some (ref, row')"
    "cw_api_key_id row' \<noteq> None \<or> sha256_str ?t \<in> set ?ds" "principal_of_row ref row' = Inr caller"
    by (auto simp: resolve_data_plane_credential_def rbind_eq_Inr split: if_splits option.splits)
  from find_usable_row [OF assms(1) f(1)] principal_of_row_ref [OF f(3)] r(1) have "row' = row" by simp
  with f(2) r a show ?thesis unfolding presented_def by metis
qed

lemma gateway_over_routes:
  "resolve_router (gateway_over gs s now_ms) = Inr (stored_router s (gs_endpoint gs))"
  "plan_routes (stored_router s e) request caller = Inr (plan_for_principal s e request caller)"
  by (simp_all add: resolve_router_def gateway_over_def plan_routes_def stored_router_def)

lemma stored_chat_calls:
  assumes "store_ok s" "handle_openai_chat (gateway_over gs s now_ms) rid headers payload w = (r, w')"
  shows "\<exists>ids calls. outcalls w' = outcalls w @ map MediaRead ids @ calls \<and>
    (ids = [] \<and> calls = [] \<or> (\<exists>caller request. from_openai payload = Inr request \<and> presented gs s now_ms headers caller \<and>
      quota_guard s (gs_billing gs) caller = Inr () \<and> permits caller (req_model request) \<and>
      length calls \<le> nat (gs_max_attempts gs) \<and>
      (\<forall>c\<in>set calls. \<exists>i route ep q. c = ProviderCalled (gr_target_binding_id route) q \<and> get_route i s = Some route \<and>
         gr_state route = RouteActive \<and> visible_to caller route \<and> fnmatchcase (req_model request) (gr_model_pattern route) \<and>
         gr_endpoint_id route = gs_endpoint gs \<and> get_endpoint (gs_endpoint gs) s = Some ep \<and> ge_state ep = EndpointActive)))"
proof -
  let ?gw = "gateway_over gs s now_ms"
  from handle_openai_chat_calls [OF assms(2)] obtain ids calls where c: "outcalls w' = outcalls w @ map MediaRead ids @ calls"
    "ids = [] \<and> calls = [] \<or> (\<exists>caller request. admitted ?gw headers payload caller request \<and>
        (calls = [] \<or> planned_calls ?gw caller request calls))" by blast
  show ?thesis
  proof (cases "ids = [] \<and> calls = []")
    case False
    with c(2) obtain caller request where a: "admitted ?gw headers payload caller request"
      "calls = [] \<or> planned_calls ?gw caller request calls" by blast
    then have who: "presented gs s now_ms headers caller" "quota_guard s (gs_billing gs) caller = Inr ()"
      "from_openai payload = Inr request" "permits caller (req_model request)"
      using authenticated_presented [OF assms(1)] by (auto simp: admitted_def check_quota_def gateway_over_def)
    have route: "\<exists>i route ep q. c = ProviderCalled (gr_target_binding_id route) q \<and> get_route i s = Some route \<and>
        gr_state route = RouteActive \<and> visible_to caller route \<and> fnmatchcase (req_model request) (gr_model_pattern route) \<and>
        gr_endpoint_id route = gs_endpoint gs \<and> get_endpoint (gs_endpoint gs) s = Some ep \<and> ge_state ep = EndpointActive"
      if t: "t \<in> set (plan_for_principal s (gs_endpoint gs) (RoutedChat (request_for_routing request)) caller)"
        "c = provider_call resolved t" for t c resolved
      using plan_for_principal_set [OF assms(1) t(1)] t(2)
      by (auto simp: provider_call_def target_of_route_def request_for_routing_def) blast
    have "length calls \<le> nat (gs_max_attempts gs) \<and> (\<forall>c\<in>set calls. \<exists>i route ep q.
        c = ProviderCalled (gr_target_binding_id route) q \<and> get_route i s = Some route \<and>
        gr_state route = RouteActive \<and> visible_to caller route \<and> fnmatchcase (req_model request) (gr_model_pattern route) \<and>
        gr_endpoint_id route = gs_endpoint gs \<and> get_endpoint (gs_endpoint gs) s = Some ep \<and> ge_state ep = EndpointActive)"
    proof (cases "calls = []")
      case False
      with a(2) obtain ts resolved where p: "subseq ts (take (gw_max_attempts ?gw)
          (plan_for_principal s (gs_endpoint gs) (RoutedChat (request_for_routing request)) caller))"
        "calls = map (provider_call resolved) ts"
        by (auto simp: planned_calls_def gateway_over_routes)
      from list_emb_set [OF p(1)] have "\<And>t. t \<in> set ts \<Longrightarrow>
          t \<in> set (plan_for_principal s (gs_endpoint gs) (RoutedChat (request_for_routing request)) caller)"
        by (auto dest: in_set_takeD)
      moreover from list_emb_length [OF p(1)] have "length calls \<le> nat (gs_max_attempts gs)"
        by (simp add: p(2) gateway_over_def)
      ultimately show ?thesis using route by (auto simp: p(2))
    qed simp
    with c(1) who show ?thesis by blast
  qed (use c in auto)
qed

text \<open>With auditing on, a second attempt is refused when the gateway is built.\<close>

lemma build_gateway_Inr:
  assumes "build_gateway_from_store clock gs s = (Inr g, s')"
  shows "g = gateway_over gs \<and> configure_credentials clock (gs_credentials gs) s = (Inr (), s') \<and> 0 < gs_max_attempts gs \<and>
    (gs_record_requests gs \<longrightarrow> gs_max_attempts gs = 1)"
  using assms by (auto simp: build_gateway_from_store_def bind_Inr_iff outcome_Inr check_gateway_def result_simps split: sum.splits)

end
