(* ===== verification/Admission.thy ===== *)
theory Admission
  imports Web Product_Routing
begin

text \<open>
  \<open>product/src/cyrene_exchange_product/route_admission.py\<close>: reading a source from Reactor for a
  workspace draft (\<open>ReactorWorkspaceSourceResolver\<close>), and the checks before a route is activated
  (\<open>ReactorRouteAdmission\<close>). What a \<open>GET\<close> with the service token answers is an argument, with the
  outcome of parsing its body as JSON.
\<close>

section \<open>Reading from Reactor\<close>

record reactor_reply =
  re_status :: int
  re_content_type :: string
  re_chunks :: "bytes list"
  re_broken :: bool
  re_json :: json_outcome

text \<open>
  A fetch fails with an \<open>httpx.HTTPError\<close> or a \<open>ValueError\<close>, raises something else, or is answered;
  an answer may break off after its chunks.
\<close>

datatype fetched = FetchHttpError | FetchValueError | FetchEscapes string string | Fetched reactor_reply

definition retryable_error :: "string \<Rightarrow> string \<Rightarrow> string \<Rightarrow> int \<Rightarrow> product_exn" where
  "retryable_error c title detail status =
     ExchangeProductError \<lparr>pe_code = c, pe_title = title, pe_detail = detail, pe_status = status,
       pe_retryable = True, pe_resource_ref = None\<rparr>"

definition source_conflict :: "string \<Rightarrow> product_exn" where
  "source_conflict detail = product_error ''EXCHANGE_SOURCE_VERSION_CONFLICT'' ''Reactor source changed'' detail 409"

definition source_unavailable :: product_exn where
  "source_unavailable = retryable_error ''EXCHANGE_SOURCE_UNREACHABLE'' ''Reactor source unavailable''
     ''The configured Reactor source could not be read safely.'' 503"

definition recursion_error :: product_exn where
  "recursion_error = ProductOther ''RecursionError'' ''maximum recursion depth exceeded''"

definition MAX_REACTOR_DOCUMENT_BYTES :: nat where
  "MAX_REACTOR_DOCUMENT_BYTES = 1024 * 1024"

fun within_limit :: "nat \<Rightarrow> bytes list \<Rightarrow> nat \<Rightarrow> bool" where
  "within_limit limit [] n = True"
| "within_limit limit (chunk # chunks) n = (n + length chunk \<le> limit \<and> within_limit limit chunks (n + length chunk))"

definition json_document :: "json_outcome \<Rightarrow> product_exn \<Rightarrow> product_exn + pyval" where
  "json_document outcome e =
     (case outcome of JsonValue v \<Rightarrow> Inr v | JsonInvalid m \<Rightarrow> Inl e | JsonTooDeep \<Rightarrow> Inl recursion_error)"

definition get_json :: "fetched \<Rightarrow> product_exn + pydict" where
  "get_json answer =
     (case answer of
        FetchHttpError \<Rightarrow> Inl source_unavailable
      | FetchValueError \<Rightarrow> Inl source_unavailable
      | FetchEscapes c m \<Rightarrow> Inl (ProductOther c m)
      | Fetched r \<Rightarrow>
          if re_status r = 404 then Inl (source_conflict ''The selected Reactor resource is unavailable.'')
          else if re_status r \<noteq> 200 then Inl source_unavailable
          else if lower (strip (before_char (CHR '';'') (re_content_type r))) \<noteq> ''application/json'' then Inl source_unavailable
          else if \<not> within_limit MAX_REACTOR_DOCUMENT_BYTES (re_chunks r) 0 \<or> re_broken r then Inl source_unavailable
          else rbind (json_document (re_json r) source_unavailable) (\<lambda>payload. need_dict payload source_unavailable))"

section \<open>Resolving a workspace source\<close>

record endpoint_selector =
  es_endpoint_id :: uuid
  es_resource_version :: int

definition uuid_field :: "pydict \<Rightarrow> string \<Rightarrow> product_exn + uuid" where
  "uuid_field payload name =
     (case uuid_value (dget payload name) of
        Some u \<Rightarrow> Inr u
      | None \<Rightarrow> Inl (source_conflict ''Reactor returned an incompatible source identity.''))"

definition integer_field :: "pydict \<Rightarrow> string \<Rightarrow> product_exn + int" where
  "integer_field payload name =
     (case dget payload name of
        PInt n \<Rightarrow> Inr n
      | _ \<Rightarrow> Inl (source_conflict ''Reactor returned an incompatible source version.''))"

definition sub_field :: "pydict \<Rightarrow> string \<Rightarrow> string \<Rightarrow> pyval" where
  "sub_field payload name field = (case dget payload name of PDict d \<Rightarrow> dget d field | _ \<Rightarrow> PNone)"

definition artifact_digest :: "pydict \<Rightarrow> product_exn + string" where
  "artifact_digest deployment =
     (case sub_field deployment ''modelArtifact'' ''digest'' of
        PStr s \<Rightarrow>
          if digest_after ''sha256:'' s then Inr s
          else Inl (source_conflict ''Reactor returned an invalid model artifact digest.'')
      | _ \<Rightarrow> Inl (source_conflict ''Reactor returned an invalid model artifact digest.''))"

definition model_version :: "pydict \<Rightarrow> product_exn + string option" where
  "model_version deployment =
     rbind (case dget deployment ''modelVersion'' of
              PNone \<Rightarrow> Inr None
            | _ \<Rightarrow>
                (case sub_field deployment ''modelVersion'' ''id'' of
                   PStr s \<Rightarrow>
                     if digest_after ''model-version://sha256/'' s then Inr (Some s)
                     else Inl (source_conflict ''Reactor returned an invalid ModelVersion identity.'')
                 | _ \<Rightarrow> Inl (source_conflict ''Reactor returned an invalid ModelVersion identity.''))) (\<lambda>version.
     if dget deployment ''composition'' = PStr ''BASE_PLUS_LORA'' \<and> version = None
     then Inl (source_conflict ''Reactor omitted the required composed ModelVersion.'')
     else Inr version)"

text \<open>\<open>resolve\<close>; the last step is the validation of the \<open>RouteSource\<close> it constructs.\<close>

definition check_source_endpoint :: "pydict \<Rightarrow> endpoint_selector \<Rightarrow> string \<Rightarrow> product_exn + unit" where
  "check_source_endpoint endpoint selector model_name =
     rbind (uuid_field endpoint ''id'') (\<lambda>i.
     rbind (guard (i = es_endpoint_id selector) (source_conflict ''Reactor returned a different Endpoint identity.'')) (\<lambda>_.
     rbind (integer_field endpoint ''resourceVersion'') (\<lambda>version.
     rbind (guard (version = es_resource_version selector) (source_conflict ''The selected Reactor Endpoint version is stale.'')) (\<lambda>_.
     guard (dget endpoint ''state'' = PStr ''READY'' \<and> dget endpoint ''protocol'' = PStr ''openai.chat.v1'' \<and>
            dget endpoint ''model'' = PStr model_name)
       (source_conflict ''The selected Reactor Endpoint is not ready for this model.'')))))"

definition check_source_deployment :: "pydict \<Rightarrow> uuid \<Rightarrow> uuid \<Rightarrow> product_exn + unit" where
  "check_source_deployment deployment deployment_id endpoint_id =
     rbind (uuid_field deployment ''id'') (\<lambda>d.
     if d \<noteq> deployment_id then Inl (source_conflict ''Reactor returned an incompatible Deployment identity.'')
     else
       rbind (uuid_field deployment ''endpointId'') (\<lambda>e.
       guard (e = endpoint_id \<and> dget deployment ''observedState'' = PStr ''READY'')
         (source_conflict ''Reactor returned an incompatible Deployment identity.'')))"

definition resolve_source ::
  "string \<Rightarrow> (string \<Rightarrow> fetched) \<Rightarrow> endpoint_selector \<Rightarrow> string \<Rightarrow> product_exn + route_source" where
  "resolve_source origin fetch selector model_name =
     (let uri = origin @ ''/api/v1/endpoints/'' @ es_endpoint_id selector in
      rbind (get_json (fetch uri)) (\<lambda>endpoint.
      rbind (check_source_endpoint endpoint selector model_name) (\<lambda>_.
      rbind (uuid_field endpoint ''deploymentId'') (\<lambda>deployment_id.
      rbind (get_json (fetch (origin @ ''/api/v1/deployments/'' @ deployment_id))) (\<lambda>deployment.
      rbind (check_source_deployment deployment deployment_id (es_endpoint_id selector)) (\<lambda>_.
      rbind (artifact_digest deployment) (\<lambda>digest.
      rbind (model_version deployment) (\<lambda>version.
      let source = \<lparr>rs_resource_uri = uri, rs_resource_version = es_resource_version selector,
             rs_artifact_digest = digest, rs_model_version_id = version\<rparr> in
      if route_source_ok source then Inr source
      else Inl (ProductOther ''ValidationError'' ''validation error for RouteSource'')))))))))"

section \<open>Admitting a route\<close>

text \<open>\<open>_reject\<close>.\<close>

definition reject_target :: "string \<Rightarrow> string \<Rightarrow> int \<Rightarrow> product_exn" where
  "reject_target c detail status = product_error (''EXCHANGE_'' @ c) ''Route target rejected'' detail status"

definition incompatible_response :: product_exn where
  "incompatible_response = product_error ''EXCHANGE_SOURCE_RESPONSE_INVALID'' ''Source response incompatible''
     ''The source response does not match the Endpoint contract.'' 409"

record admission =
  ad_base_url :: string
  ad_fetch :: "string \<Rightarrow> fetched"
  ad_resolve_provider :: "string \<Rightarrow> gw_exn + provider"

definition id_path_char :: "char \<Rightarrow> bool" where
  "id_path_char c = (hex_char c \<or> c = CHR ''-'')"

definition endpoint_path :: "string \<Rightarrow> bool" where
  "endpoint_path path =
     (let i = drop (length ''/api/v1/endpoints/'') path in
      starts_with ''/api/v1/endpoints/'' path \<and> length i = 36 \<and> list_all id_path_char i)"

definition status_error :: "int \<Rightarrow> product_exn" where
  "status_error status =
     (if status \<in> {401, 403} then reject_target ''SOURCE_PERMISSION_DENIED'' ''Reactor denied source read permission.'' 403
      else if status = 404 then reject_target ''SOURCE_NOT_FOUND'' ''The referenced Reactor resource no longer exists.'' 404
      else retryable_error ''EXCHANGE_SOURCE_UNREACHABLE'' ''Source unavailable''
             ''Reactor could not verify the source resource.'' 503)"

text \<open>\<open>client.get\<close>, \<open>raise_for_status\<close> and \<open>json\<close>, under the handlers of the surrounding \<open>try\<close>.\<close>

definition source_json :: "fetched \<Rightarrow> product_exn + pyval" where
  "source_json answer =
     (let unreachable = retryable_error ''EXCHANGE_SOURCE_UNREACHABLE'' ''Source verification failed''
            ''Reactor is unreachable. Restore the source control path and retry.'' 503 in
      case answer of
        FetchHttpError \<Rightarrow> Inl unreachable
      | FetchValueError \<Rightarrow> Inl incompatible_response
      | FetchEscapes c m \<Rightarrow> Inl (ProductOther c m)
      | Fetched r \<Rightarrow>
          if re_broken r then Inl unreachable
          else if re_status r < 200 \<or> re_status r \<ge> 300 then Inl (status_error (re_status r))
          else json_document (re_json r) incompatible_response)"

definition check_endpoint_document :: "pyval \<Rightarrow> string \<Rightarrow> route_source \<Rightarrow> gateway_route \<Rightarrow> product_exn + string" where
  "check_endpoint_document body identity source route =
     rbind (need_dict body (reject_target ''SOURCE_RESPONSE_INVALID'' ''The source identity is invalid.'' 409)) (\<lambda>endpoint.
     rbind (case uuid_value (dget endpoint ''id'') of None \<Rightarrow> Inl incompatible_response | Some i \<Rightarrow>
        guard (i = identity) (reject_target ''SOURCE_RESPONSE_INVALID'' ''The source identity is invalid.'' 409)) (\<lambda>_.
     rbind (guard (equals_int (dget endpoint ''resourceVersion'') (rs_resource_version source))
        (reject_target ''SOURCE_VERSION_CONFLICT'' ''Refresh the source Endpoint and create a new draft.'' 409)) (\<lambda>_.
     rbind (guard (dget endpoint ''protocol'' = PStr ''openai.chat.v1'')
        (reject_target ''SOURCE_PROTOCOL_INCOMPATIBLE'' ''The source protocol is unsupported.'' 409)) (\<lambda>_.
     rbind (guard (dget endpoint ''state'' = PStr ''READY'')
        (reject_target ''SOURCE_NOT_READY'' ''The source Endpoint is unavailable.'' 409)) (\<lambda>_.
     rbind (guard (dget endpoint ''model'' = (case gr_target_model route of None \<Rightarrow> PNone | Some m \<Rightarrow> PStr m))
        (reject_target ''SOURCE_MODEL_MISMATCH'' ''The route model does not match the source Endpoint.'' 409)) (\<lambda>_.
     if \<not> dhas endpoint ''deploymentId'' then Inl incompatible_response
     else
       (let invalid = reject_target ''SOURCE_RESPONSE_INVALID'' ''The source returned an invalid resource identity.'' 409 in
        case id_text (dget endpoint ''deploymentId'') of
          None \<Rightarrow> Inl invalid
        | Some d \<Rightarrow> if length d = 36 \<and> list_all id_path_char d then Inr d else Inl invalid)))))))"

definition check_deployment_document :: "pyval \<Rightarrow> string \<Rightarrow> route_source \<Rightarrow> product_exn + unit" where
  "check_deployment_document body deployment_id source =
     rbind (need_dict body incompatible_response) (\<lambda>deployment.
     rbind (case uuid_value (dget deployment ''id'') of None \<Rightarrow> Inl incompatible_response | Some i \<Rightarrow>
        guard (i = deployment_id) (reject_target ''SOURCE_RESPONSE_INVALID'' ''The Deployment identity is invalid.'' 409)) (\<lambda>_.
     rbind (need_dict (dget deployment ''modelArtifact'') incompatible_response) (\<lambda>artifact.
     if \<not> dhas artifact ''digest'' then Inl incompatible_response
     else
       rbind (guard (dget artifact ''digest'' = PStr (rs_artifact_digest source))
         (reject_target ''SOURCE_ARTIFACT_MISMATCH'' ''The model Artifact differs from the inspected source.'' 409)) (\<lambda>_.
       guard (sub_field deployment ''modelVersion'' ''id'' =
                (case rs_model_version_id source of None \<Rightarrow> PNone | Some v \<Rightarrow> PStr v) \<and>
              \<not> (dget deployment ''composition'' = PStr ''BASE_PLUS_LORA'' \<and> rs_model_version_id source = None))
         (reject_target ''SOURCE_MODEL_VERSION_MISMATCH'' ''The immutable ModelVersion differs from the inspected source.'' 409)))))"

text \<open>The probe of the selected provider: any exception of it means that it is unreachable.\<close>

definition probe_payload :: "gateway_route \<Rightarrow> pyval" where
  "probe_payload route =
     PDict [(''model'', case gr_target_model route of None \<Rightarrow> PNone | Some m \<Rightarrow> PStr m),
       (''messages'', PList [PDict [(''role'', PStr ''user''), (''content'', PStr ''Reply with one word: ready'')]]),
       (''max_tokens'', PInt 8), (''temperature'', PInt 0)]"

definition probe_text :: "admission \<Rightarrow> gateway_route \<Rightarrow> string option" where
  "probe_text ad route =
     (case (ad_resolve_provider ad (gr_target_binding_id route), from_openai (probe_payload route)) of
        (Inr p, Inr request) \<Rightarrow>
          (case p_complete p of
             None \<Rightarrow> None
           | Some run \<Rightarrow>
               (case run request of
                  Inr (chunks, Exhausted) \<Rightarrow> Some (concat (map chunk_delta chunks))
                | _ \<Rightarrow> None))
      | _ \<Rightarrow> None)"

definition probe_provider :: "admission \<Rightarrow> gateway_route \<Rightarrow> product_exn + unit" where
  "probe_provider ad route =
     (case probe_text ad route of
        None \<Rightarrow> Inl (retryable_error ''EXCHANGE_PROVIDER_UNREACHABLE'' ''Provider verification failed''
                  ''The canonical provider binding did not complete an inference probe.'' 503)
      | Some content \<Rightarrow>
          guard (strip content \<noteq> [])
            (reject_target ''PROVIDER_PROBE_EMPTY'' ''The selected provider returned no model text.'' 503))"

definition source_in_scope :: "admission \<Rightarrow> route_source \<Rightarrow> product_exn + string" where
  "source_in_scope ad source =
     (case (urlsplit (rs_resource_uri source), urlsplit (ad_base_url ad)) of
        (Inr parsed, Inr allowed) \<Rightarrow>
          if (su_scheme parsed, su_netloc parsed) \<noteq> (su_scheme allowed, su_netloc allowed) \<or>
             su_query parsed \<noteq> [] \<or> su_fragment parsed \<noteq> [] \<or> \<not> endpoint_path (su_path parsed)
          then Inl (reject_target ''SOURCE_PERMISSION_DENIED'' ''The source URI is outside the configured Reactor scope.'' 403)
          else Inr (drop (length ''/api/v1/endpoints/'') (su_path parsed))
      | (Inl e, _) \<Rightarrow> Inl (ProductValueError (exc_message e))
      | (_, Inl e) \<Rightarrow> Inl (ProductValueError (exc_message e)))"

text \<open>\<open>ReactorRouteAdmission.__call__\<close>.\<close>

definition admit_route :: "admission \<Rightarrow> gateway_route \<Rightarrow> product_exn + unit" where
  "admit_route ad route =
     (case gr_source route of
        None \<Rightarrow> Inl (reject_target ''SOURCE_REFERENCE_REQUIRED'' ''A versioned Reactor Endpoint is required.'' 409)
      | Some source \<Rightarrow>
          rbind (source_in_scope ad source) (\<lambda>identity.
          rbind (source_json (ad_fetch ad (rs_resource_uri source))) (\<lambda>endpoint.
          rbind (check_endpoint_document endpoint identity source route) (\<lambda>deployment_id.
          rbind (source_json (ad_fetch ad (ad_base_url ad @ ''/api/v1/deployments/'' @ deployment_id))) (\<lambda>deployment.
          rbind (check_deployment_document deployment deployment_id source) (\<lambda>_.
          probe_provider ad route))))))"

section \<open>What admission guarantees\<close>

lemma source_json_Inr [result_simps]:
  "source_json answer = Inr v \<longleftrightarrow> (\<exists>r. answer = Fetched r \<and> \<not> re_broken r \<and> 200 \<le> re_status r \<and> re_status r < 300 \<and> re_json r = JsonValue v)"
  by (auto simp: source_json_def json_document_def Let_def split: fetched.splits json_outcome.splits)

lemma get_json_Inr [result_simps]:
  "get_json answer = Inr d \<longleftrightarrow> (\<exists>r. answer = Fetched r \<and> \<not> re_broken r \<and> re_status r = 200 \<and>
     lower (strip (before_char (CHR '';'') (re_content_type r))) = ''application/json'' \<and>
     within_limit MAX_REACTOR_DOCUMENT_BYTES (re_chunks r) 0 \<and> re_json r = JsonValue (PDict d))"
  by (auto simp: get_json_def json_document_def rbind_eq_Inr need_dict_Inr split: fetched.splits json_outcome.splits)

lemma within_limit_iff: "within_limit limit chunks n \<longleftrightarrow> (chunks = [] \<or> n + length (concat chunks) \<le> limit)"
  by (induction limit chunks n rule: within_limit.induct) auto

text \<open>The document of a source Endpoint, as admission demands it.\<close>

definition endpoint_matches :: "pydict \<Rightarrow> string \<Rightarrow> route_source \<Rightarrow> gateway_route \<Rightarrow> bool" where
  "endpoint_matches e identity source route =
     (uuid_value (dget e ''id'') = Some identity \<and> equals_int (dget e ''resourceVersion'') (rs_resource_version source) \<and>
      dget e ''protocol'' = PStr ''openai.chat.v1'' \<and> dget e ''state'' = PStr ''READY'' \<and>
      dget e ''model'' = (case gr_target_model route of None \<Rightarrow> PNone | Some m \<Rightarrow> PStr m))"

lemma check_endpoint_document_Inr:
  "check_endpoint_document body identity source route = Inr d \<longleftrightarrow>
   (\<exists>e. body = PDict e \<and> endpoint_matches e identity source route \<and> dhas e ''deploymentId'' \<and>
      id_text (dget e ''deploymentId'') = Some d \<and> length d = 36 \<and> list_all id_path_char d)"
  by (auto simp: check_endpoint_document_def endpoint_matches_def result_simps Let_def split: option.splits if_splits)

definition deployment_matches :: "pydict \<Rightarrow> string \<Rightarrow> route_source \<Rightarrow> bool" where
  "deployment_matches d deployment_id source =
     (uuid_value (dget d ''id'') = Some deployment_id \<and>
      sub_field d ''modelArtifact'' ''digest'' = PStr (rs_artifact_digest source) \<and>
      sub_field d ''modelVersion'' ''id'' = (case rs_model_version_id source of None \<Rightarrow> PNone | Some v \<Rightarrow> PStr v) \<and>
      (dget d ''composition'' = PStr ''BASE_PLUS_LORA'' \<longrightarrow> rs_model_version_id source \<noteq> None))"

lemma dget_dhas: "dget d k \<noteq> PNone \<Longrightarrow> dhas d k"
  by (auto simp: dget_or_def dhas_def split: option.splits)

lemma check_deployment_document_Inr:
  "check_deployment_document body deployment_id source = Inr u \<longleftrightarrow>
   (\<exists>d. body = PDict d \<and> deployment_matches d deployment_id source)"
proof -
  have "check_deployment_document (PDict d) deployment_id source = Inr u \<longleftrightarrow> deployment_matches d deployment_id source" for d
  proof (cases "is_mapping (dget d ''modelArtifact'')")
    case True
    then obtain m where m: "dget d ''modelArtifact'' = PDict m" by (auto simp: is_mapping_iff)
    have "dget m ''digest'' = PStr x \<Longrightarrow> dhas m ''digest''" for x by (rule dget_dhas) simp
    then show ?thesis
      by (cases "uuid_value (dget d ''id'')")
         (auto simp: check_deployment_document_def deployment_matches_def rbind_eq_Inr guard_eq_Inr m sub_field_def [of d "''modelArtifact''"])
  next
    case False
    then show ?thesis
      by (auto simp: check_deployment_document_def deployment_matches_def rbind_eq_Inr need_dict_Inr is_mapping_iff
          sub_field_def [of d "''modelArtifact''"] split: pyval.splits)
  qed
  then show ?thesis by (cases body) (auto simp: check_deployment_document_def need_dict_def)
qed

lemma source_in_scope_Inr:
  "source_in_scope ad source = Inr i \<longleftrightarrow>
   (\<exists>p b. urlsplit (rs_resource_uri source) = Inr p \<and> urlsplit (ad_base_url ad) = Inr b \<and> su_scheme p = su_scheme b \<and>
      su_netloc p = su_netloc b \<and> su_query p = [] \<and> su_fragment p = [] \<and> endpoint_path (su_path p) \<and>
      su_path p = ''/api/v1/endpoints/'' @ i)"
proof -
  have tail: "starts_with p s \<longleftrightarrow> s = p @ drop (length p) s" for p s :: string
    by (induction p s rule: starts_with.induct) auto
  show ?thesis unfolding source_in_scope_def endpoint_path_def Let_def
    by (cases "urlsplit (rs_resource_uri source)"; cases "urlsplit (ad_base_url ad)") (auto simp: tail)
qed

lemma probe_provider_Inr:
  "probe_provider ad route = Inr u \<longleftrightarrow>
   (\<exists>p run request chunks. ad_resolve_provider ad (gr_target_binding_id route) = Inr p \<and> p_complete p = Some run \<and>
      from_openai (probe_payload route) = Inr request \<and> run request = Inr (chunks, Exhausted) \<and>
      strip (concat (map chunk_delta chunks)) \<noteq> [])"
  by (auto simp: probe_provider_def probe_text_def guard_eq_Inr split: option.splits sum.splits prod.splits stream_end.splits)

theorem admit_route_Inr:
  "admit_route ad route = Inr u \<longleftrightarrow>
   (\<exists>source identity e d dep. gr_source route = Some source \<and> source_in_scope ad source = Inr identity \<and>
      source_json (ad_fetch ad (rs_resource_uri source)) = Inr (PDict e) \<and> endpoint_matches e identity source route \<and>
      dhas e ''deploymentId'' \<and> id_text (dget e ''deploymentId'') = Some d \<and> length d = 36 \<and> list_all id_path_char d \<and>
      source_json (ad_fetch ad (ad_base_url ad @ ''/api/v1/deployments/'' @ d)) = Inr (PDict dep) \<and>
      deployment_matches dep d source \<and> probe_provider ad route = Inr ())"
  unfolding admit_route_def
  by (auto simp: rbind_eq_Inr check_endpoint_document_Inr check_deployment_document_Inr split: option.splits)

section \<open>A resolved source is admitted\<close>

lemma while_at: "c \<notin> set a \<Longrightarrow> dropWhile (\<lambda>x. x \<noteq> c) (a @ c # b) = c # b \<and> takeWhile (\<lambda>x. x \<noteq> c) (a @ c # b) = a"
  by (induction a) auto

lemma split_first_at: "c \<notin> set a \<Longrightarrow> split_first c (a @ c # b) = (a, [c], b)"
  by (simp only: split_first_def while_at list.case simp_thms)

lemma while_none: "c \<notin> set s \<Longrightarrow> dropWhile (\<lambda>x. x \<noteq> c) s = []"
  by (induction s) auto

lemma split_first_none: "c \<notin> set s \<Longrightarrow> split_first c s = (s, [], [])"
  by (simp only: split_first_def while_none list.case simp_thms)

lemma starts_with_iff: "starts_with p s \<longleftrightarrow> (\<exists>t. s = p @ t)"
  by (induction p s rule: starts_with.induct) auto

definition plain_char :: "char \<Rightarrow> bool" where
  "plain_char c = (code c > 32 \<and> c \<noteq> CHR ''?'' \<and> c \<noteq> CHR ''#'')"

lemma plain_clean:
  assumes "list_all plain_char s"
  shows "filter (\<lambda>c. code c \<notin> {9, 10, 13}) (dropWhile (\<lambda>c. code c \<le> 32) s) = s"
proof -
  have "dropWhile (\<lambda>c. code c \<le> 32) s = s" using assms by (cases s) (simp_all add: plain_char_def)
  moreover have "filter (\<lambda>c. code c \<notin> {9, 10, 13}) s = s"
    using assms by (induction s) (simp_all add: plain_char_def)
  ultimately show ?thesis by simp
qed

abbreviation netloc_char :: "char \<Rightarrow> bool" where
  "netloc_char \<equiv> \<lambda>c. \<not> (c = CHR ''/'' \<or> c = CHR ''?'' \<or> c = CHR ''#'')"

lemma urlsplit_netloc:
  assumes "list_all plain_char s" "url_scheme s = (scheme, ''//'' @ n)" "CHR ''?'' \<notin> set n" "CHR ''#'' \<notin> set n"
  shows "urlsplit s = (if netloc_ok (takeWhile netloc_char n)
    then Inr \<lparr>su_scheme = scheme, su_netloc = takeWhile netloc_char n, su_path = dropWhile netloc_char n, su_query = [], su_fragment = []\<rparr>
    else Inl (ValueError ''Invalid IPv6 URL''))"
proof -
  have "split_first (CHR ''#'') (dropWhile netloc_char n) = (dropWhile netloc_char n, [], [])"
    "split_first (CHR ''?'') (dropWhile netloc_char n) = (dropWhile netloc_char n, [], [])"
    using assms(3,4) by (auto intro!: split_first_none dest: set_dropWhileD)
  then show ?thesis unfolding urlsplit_def plain_clean [OF assms(1)] Let_def assms(2) by simp
qed

lemma urlsplit_no_netloc:
  assumes "list_all plain_char s" "url_scheme s = (scheme, rest)" "\<not> starts_with ''//'' rest" "urlsplit s = Inr b"
  shows "su_netloc b = []"
  using assms(4) unfolding urlsplit_def plain_clean [OF assms(1)] Let_def assms(2)
  by (cases "split_first (CHR ''#'') rest"; cases "split_first (CHR ''?'') (fst (split_first (CHR ''#'') rest))")
     (use assms(3) in \<open>auto simp: netloc_ok_def\<close>)

text \<open>A path under an origin is split off exactly, and nothing else changes.\<close>

lemma urlsplit_under_origin:
  assumes b: "urlsplit origin = Inr b" "su_netloc b \<noteq> []" "su_path b = []" "su_scheme b \<noteq> []"
    and plain: "list_all plain_char origin" "list_all plain_char path"
  shows "urlsplit (origin @ CHR ''/'' # path) = Inr (b\<lparr>su_path := CHR ''/'' # path\<rparr>)" "su_query b = [] \<and> su_fragment b = []"
proof -
  obtain scheme rest where sr: "url_scheme origin = (scheme, rest)" by fastforce
  with urlsplit_no_netloc [OF plain(1) sr _ b(1)] b(2) obtain n where n: "rest = ''//'' @ n" by (auto simp: starts_with_iff)
  have sub: "set rest \<subseteq> set origin" "\<exists>front. scheme = [] \<or> origin = front @ CHR '':'' # rest \<and> CHR '':'' \<notin> set front \<and> front \<noteq> [] \<and>
      (code (hd front) \<in> {65..90} \<or> code (hd front) \<in> {97..122}) \<and> list_all scheme_char front \<and> scheme = lower front"
  proof -
    show "set rest \<subseteq> set origin" "\<exists>front. scheme = [] \<or> origin = front @ CHR '':'' # rest \<and> CHR '':'' \<notin> set front \<and> front \<noteq> [] \<and>
      (code (hd front) \<in> {65..90} \<or> code (hd front) \<in> {97..122}) \<and> list_all scheme_char front \<and> scheme = lower front"
    proof (atomize (full), cases "CHR '':'' \<in> set origin")
      case True
      then obtain front r where fr: "origin = front @ CHR '':'' # r" "CHR '':'' \<notin> set front" by (metis split_list_first)
      with sr show "set rest \<subseteq> set origin \<and> (\<exists>front. scheme = [] \<or> origin = front @ CHR '':'' # rest \<and> CHR '':'' \<notin> set front \<and> front \<noteq> [] \<and>
          (code (hd front) \<in> {65..90} \<or> code (hd front) \<in> {97..122}) \<and> list_all scheme_char front \<and> scheme = lower front)"
        by (auto simp: url_scheme_def split_first_at split: if_splits)
    next
      case False
      with sr show "set rest \<subseteq> set origin \<and> (\<exists>front. scheme = [] \<or> origin = front @ CHR '':'' # rest \<and> CHR '':'' \<notin> set front \<and> front \<noteq> [] \<and>
          (code (hd front) \<in> {65..90} \<or> code (hd front) \<in> {97..122}) \<and> list_all scheme_char front \<and> scheme = lower front)"
        by (auto simp: url_scheme_def split_first_none)
    qed
  qed
  have marks: "CHR ''?'' \<notin> set n" "CHR ''#'' \<notin> set n" using sub(1) n plain(1) by (auto simp: list_all_iff plain_char_def)
  note known = urlsplit_netloc [OF plain(1) sr [unfolded n] marks]
  from known b(1) have val: "b = \<lparr>su_scheme = scheme, su_netloc = takeWhile netloc_char n, su_path = dropWhile netloc_char n,
      su_query = [], su_fragment = []\<rparr>" "netloc_ok (takeWhile netloc_char n)" by (auto split: if_splits)
  then show "su_query b = [] \<and> su_fragment b = []" by simp
  from val(1) b(3) have nd: "\<And>c. c \<in> set n \<Longrightarrow> netloc_char c" by (simp add: dropWhile_eq_Nil_conv)
  then have n_all: "takeWhile netloc_char n = n" "dropWhile netloc_char n = []"
    "takeWhile netloc_char (n @ CHR ''/'' # path) = n" "dropWhile netloc_char (n @ CHR ''/'' # path) = CHR ''/'' # path"
    by (simp_all add: takeWhile_eq_all_conv dropWhile_eq_Nil_conv takeWhile_append2 dropWhile_append2)
  from sub(2) val(1) b(4) obtain front where front: "origin = front @ CHR '':'' # rest" "CHR '':'' \<notin> set front" "front \<noteq> []"
    "code (hd front) \<in> {65..90} \<or> code (hd front) \<in> {97..122}" "list_all scheme_char front" "scheme = lower front" by auto
  have sr': "url_scheme (origin @ CHR ''/'' # path) = (scheme, ''//'' @ (n @ CHR ''/'' # path))"
    using split_first_at [OF front(2), of "rest @ CHR ''/'' # path"] front n by (simp add: url_scheme_def)
  have plain': "list_all plain_char (origin @ CHR ''/'' # path)" using plain by (simp add: plain_char_def code_def)
  have marks': "CHR ''?'' \<notin> set (n @ CHR ''/'' # path)" "CHR ''#'' \<notin> set (n @ CHR ''/'' # path)"
    using marks plain(2) by (auto simp: list_all_iff plain_char_def)
  show "urlsplit (origin @ CHR ''/'' # path) = Inr (b\<lparr>su_path := CHR ''/'' # path\<rparr>)"
    using urlsplit_netloc [OF plain' sr' marks'] val unfolding n_all by simp
qed

text \<open>Canonical UUID text.\<close>

lemma digit_text_shape: "digit_text b us s = Some ds \<Longrightarrow> length ds \<le> length s \<and> (\<forall>c\<in>set ds. \<exists>d. digit_value c = Some d \<and> d < b)"
proof (induction b us s arbitrary: ds rule: digit_text.induct)
  case (2 b us c s)
  show ?case
  proof (cases "c = CHR ''_''")
    case True
    with "2.prems" have "us" "digit_text b False s = Some ds" by (auto split: if_splits)
    with "2.IH"(1) [OF True, of ds] show ?thesis by auto
  next
    case False
    with "2.prems" obtain d ds' where d: "digit_value c = Some d" "d < b" "digit_text b True s = Some ds'" "ds = c # ds'"
      by (auto split: option.splits if_splits)
    with "2.IH"(2) [OF False d(1,2,3)] show ?thesis by auto
  qed
qed (auto split: if_splits)

lemma signed_text_length: "signed_text t = (sign, body) \<Longrightarrow> length body \<le> length t"
  by (cases t) (auto simp: signed_text_def split: if_splits)

lemma lower_hex_digit: "digit_value c = Some d \<Longrightarrow> d < 16 \<Longrightarrow> hex_char (lower_char c)"
  by (auto simp: digit_value_def lower_char_def hex_char_def Let_def code_def split: if_splits)

lemma parse_uuid_shape:
  assumes "parse_uuid s = Some u"
  shows "length u = 36 \<and> list_all id_path_char u"
proof -
  from assms obtain h ds where h: "length h = 32" "hex_int_text h = Some ds" "u = uuid_str ds"
    by (auto simp: parse_uuid_def Let_def split: if_splits)
  obtain sign body where sb: "signed_text (strip h) = (sign, body)" by fastforce
  then have "length body \<le> length (strip h)" by (rule signed_text_length)
  then have body: "length body \<le> 32" using length_strip_le [of h] h(1) by simp
  have "length (after_prefix body) \<le> length body" by (auto simp: after_prefix_def split: list.splits)
  with body have len: "length (after_prefix body) \<le> 32" by simp
  from h(2) sb obtain es where es: "digit_text 16 False (after_prefix body) = Some es" "ds = lower es"
    by (auto simp: hex_int_text_def split: option.splits if_splits)
  from digit_text_shape [OF es(1)] len es(2) have "length ds \<le> 32" "list_all hex_char ds"
    by (auto simp: lower_def list_all_iff lower_hex_digit)
  then have "length (replicate (32 - length ds) CHR ''0'' @ ds) = 32" "list_all hex_char (replicate (32 - length ds) CHR ''0'' @ ds)"
    by (auto simp: list_all_iff hex_char_def code_def)
  moreover have "length (take 8 h @ ''-'' @ take 4 (drop 8 h) @ ''-'' @ take 4 (drop 12 h) @ ''-'' @ take 4 (drop 16 h) @ ''-'' @ drop 20 h) = 36 \<and>
      list_all id_path_char (take 8 h @ ''-'' @ take 4 (drop 8 h) @ ''-'' @ take 4 (drop 12 h) @ ''-'' @ take 4 (drop 16 h) @ ''-'' @ drop 20 h)"
    if "length h = 32" "list_all hex_char h" for h
    using that by (auto simp: list_all_iff id_path_char_def dest!: in_set_takeD in_set_dropD)
  ultimately show ?thesis unfolding h(3) uuid_str_def Let_def by blast
qed

text \<open>What a successful resolution has seen.\<close>

lemma resolve_source_Inr:
  assumes "resolve_source origin fetch selector m = Inr source"
  shows "\<exists>e deployment_id d. get_json (fetch (rs_resource_uri source)) = Inr e \<and>
    rs_resource_uri source = origin @ ''/api/v1/endpoints/'' @ es_endpoint_id selector \<and>
    rs_resource_version source = es_resource_version selector \<and> route_source_ok source \<and>
    uuid_value (dget e ''id'') = Some (es_endpoint_id selector) \<and> dget e ''resourceVersion'' = PInt (es_resource_version selector) \<and>
    dget e ''state'' = PStr ''READY'' \<and> dget e ''protocol'' = PStr ''openai.chat.v1'' \<and> dget e ''model'' = PStr m \<and>
    uuid_value (dget e ''deploymentId'') = Some deployment_id \<and>
    get_json (fetch (origin @ ''/api/v1/deployments/'' @ deployment_id)) = Inr d \<and>
    dget d ''observedState'' = PStr ''READY'' \<and> uuid_value (dget d ''endpointId'') = Some (es_endpoint_id selector) \<and>
    deployment_matches d deployment_id source"
proof -
  let ?uri = "origin @ ''/api/v1/endpoints/'' @ es_endpoint_id selector"
  from assms obtain e deployment_id d digest version where
    e: "get_json (fetch ?uri) = Inr e" "check_source_endpoint e selector m = Inr ()"
      "uuid_field e ''deploymentId'' = Inr deployment_id"
    and d: "get_json (fetch (origin @ ''/api/v1/deployments/'' @ deployment_id)) = Inr d"
      "check_source_deployment d deployment_id (es_endpoint_id selector) = Inr ()" "artifact_digest d = Inr digest" "model_version d = Inr version"
    and src: "source = \<lparr>rs_resource_uri = ?uri, rs_resource_version = es_resource_version selector,
        rs_artifact_digest = digest, rs_model_version_id = version\<rparr>" "route_source_ok source"
    unfolding resolve_source_def Let_def by (auto simp: rbind_eq_Inr split: if_splits)
  have uuid: "uuid_field p name = Inr u \<longleftrightarrow> uuid_value (dget p name) = Some u" for p name u
    by (auto simp: uuid_field_def split: option.splits)
  have int_eq: "integer_field p name = Inr n \<longleftrightarrow> dget p name = PInt n" for p name n
    by (auto simp: integer_field_def split: pyval.splits)
  have digest_eq: "sub_field d ''modelArtifact'' ''digest'' = PStr digest"
    using d(3) by (auto simp: artifact_digest_def split: pyval.splits if_splits)
  have none: "dget d ''modelVersion'' = PNone \<Longrightarrow> sub_field d ''modelVersion'' ''id'' = PNone" by (simp add: sub_field_def)
  have version: "sub_field d ''modelVersion'' ''id'' = (case version of None \<Rightarrow> PNone | Some v \<Rightarrow> PStr v) \<and>
      (dget d ''composition'' = PStr ''BASE_PLUS_LORA'' \<longrightarrow> version \<noteq> None)"
  proof (cases "dget d ''modelVersion'' = PNone")
    case True
    with d(4) none show ?thesis by (auto simp: model_version_def split: if_splits)
  next
    case False
    then have "model_version d = rbind (case sub_field d ''modelVersion'' ''id'' of
        PStr s \<Rightarrow> if digest_after ''model-version://sha256/'' s then Inr (Some s)
          else Inl (source_conflict ''Reactor returned an invalid ModelVersion identity.'')
      | _ \<Rightarrow> Inl (source_conflict ''Reactor returned an invalid ModelVersion identity.'')) (\<lambda>version.
        if dget d ''composition'' = PStr ''BASE_PLUS_LORA'' \<and> version = None
        then Inl (source_conflict ''Reactor omitted the required composed ModelVersion.'') else Inr version)"
      by (cases "dget d ''modelVersion''") (simp_all add: model_version_def)
    with d(4) show ?thesis by (auto split: pyval.splits if_splits)
  qed
  from d(2) have dep: "uuid_value (dget d ''id'') = Some deployment_id" "uuid_value (dget d ''endpointId'') = Some (es_endpoint_id selector)"
    "dget d ''observedState'' = PStr ''READY''"
    by (auto simp: check_source_deployment_def rbind_eq_Inr guard_eq_Inr uuid split: if_splits)
  then have "deployment_matches d deployment_id source"
    using digest_eq version by (simp add: deployment_matches_def src(1))
  moreover from e(2) have "uuid_value (dget e ''id'') = Some (es_endpoint_id selector)"
    "dget e ''resourceVersion'' = PInt (es_resource_version selector)" "dget e ''state'' = PStr ''READY''"
    "dget e ''protocol'' = PStr ''openai.chat.v1''" "dget e ''model'' = PStr m"
    by (auto simp: check_source_endpoint_def rbind_eq_Inr guard_eq_Inr uuid int_eq)
  ultimately show ?thesis using e(1,3) d(1) dep src uuid by auto
qed

lemma get_source_json: "get_json answer = Inr d \<Longrightarrow> source_json answer = Inr (PDict d)"
  by (auto simp: get_json_Inr source_json_Inr)

text \<open>A source resolved from Reactor passes admission as long as Reactor answers the same; only the provider can then refuse.\<close>

lemma resolved_source_admitted:
  assumes "resolve_source origin fetch selector m = Inr source"
    and o': "urlsplit origin = Inr b" "su_netloc b \<noteq> []" "su_path b = []" "su_scheme b \<noteq> []" "list_all plain_char origin"
    and id: "parse_uuid (es_endpoint_id selector) = Some (es_endpoint_id selector)"
    and dep: "\<And>e. get_json (fetch (rs_resource_uri source)) = Inr e \<Longrightarrow> \<exists>d. dget e ''deploymentId'' = PStr d \<and> parse_uuid d = Some d"
    and ad: "ad_base_url ad = origin" "ad_fetch ad = fetch"
    and route: "gr_source route = Some source" "gr_target_model route = Some m"
  shows "admit_route ad route = probe_provider ad route"
proof -
  from resolve_source_Inr [OF assms(1)] obtain e deployment_id d where
    e: "get_json (fetch (rs_resource_uri source)) = Inr e" "rs_resource_uri source = origin @ ''/api/v1/endpoints/'' @ es_endpoint_id selector"
      "rs_resource_version source = es_resource_version selector"
      "uuid_value (dget e ''id'') = Some (es_endpoint_id selector)" "dget e ''resourceVersion'' = PInt (es_resource_version selector)"
      "dget e ''state'' = PStr ''READY''" "dget e ''protocol'' = PStr ''openai.chat.v1''" "dget e ''model'' = PStr m"
      "uuid_value (dget e ''deploymentId'') = Some deployment_id"
      "get_json (fetch (origin @ ''/api/v1/deployments/'' @ deployment_id)) = Inr d" "deployment_matches d deployment_id source"
    by blast
  from dep [OF e(1)] e(9) have dpl: "dget e ''deploymentId'' = PStr deployment_id" "parse_uuid deployment_id = Some deployment_id"
    by (auto simp: uuid_value_def id_text_def)
  note shape = parse_uuid_shape [OF id] parse_uuid_shape [OF dpl(2)]
  let ?path = "''api/v1/endpoints/'' @ es_endpoint_id selector"
  have "list_all plain_char ?path"
    using shape(1) by (auto simp: list_all_iff id_path_char_def hex_char_def plain_char_def code_def)
  note split = urlsplit_under_origin [OF o' this]
  have "source_in_scope ad source = Inr (es_endpoint_id selector)"
    unfolding source_in_scope_Inr using split o' shape(1) e(2) by (simp add: ad endpoint_path_def Let_def)
  moreover have "endpoint_matches e (es_endpoint_id selector) source route"
    using e by (simp add: endpoint_matches_def equals_int_def route)
  then have "check_endpoint_document (PDict e) (es_endpoint_id selector) source route = Inr deployment_id"
    unfolding check_endpoint_document_Inr using shape(2) dget_dhas [of e "''deploymentId''"] by (simp add: dpl id_text_def)
  moreover have "check_deployment_document (PDict d) deployment_id source = Inr ()"
    using e(11) by (simp add: check_deployment_document_Inr)
  ultimately show ?thesis
    using get_source_json [OF e(1)] get_source_json [OF e(10)] by (simp add: admit_route_def route ad)
qed

end
