(* ===== verification/Http_Server.thy ===== *)
theory Http_Server
  imports Web Ledger
begin

text \<open>
  The reference HTTP transport, \<open>src/cyrene_exchange/http.py\<close>: one \<open>POST\<close> from its request line to
  the last byte written. The serializer, the parsed body and the fate of every write to the
  connection are arguments (\<open>tp_writes k\<close>: the \<open>k\<close>-th write of the response reaches the client);
  the disconnect watcher is the gateway's cancellation event, which may be set at any moment.
\<close>

section \<open>Responses\<close>

record transport =
  tp_dumps :: "pyval \<Rightarrow> string"
  tp_writes :: "nat \<Rightarrow> bool"

datatype reply_body = JsonText string | EventLines "string list"

record http_response =
  hr_status :: int
  hr_headers :: "(string \<times> string) list"
  hr_body :: reply_body

text \<open>
  How \<open>do_POST\<close> ends: a response went out (an event stream possibly cut short), the client was gone
  and the cancellation event is set, or an exception escapes to the server.
\<close>

datatype post_result = Replied http_response | ClientGone | Escaped string string

definition broken_pipe :: post_result where
  "broken_pipe = Escaped ''BrokenPipeError'' ''Broken pipe''"

text \<open>\<open>_write_json\<close>: the headers are flushed, then the body; \<open>None\<close> when a write breaks.\<close>

definition write_json ::
  "transport \<Rightarrow> int \<Rightarrow> pyval \<Rightarrow> string \<Rightarrow> (string \<times> string) list \<Rightarrow> http_response option" where
  "write_json tp status body request_id extra =
     (let encoded = tp_dumps tp body in
      if tp_writes tp 0 \<and> tp_writes tp 1
      then Some \<lparr>hr_status = status,
             hr_headers = [(''Content-Type'', ''application/json''), (''X-Request-Id'', request_id)] @ extra @
               [(''Content-Length'', nat_str (length (utf8 encoded))), (''Connection'', ''close'')],
             hr_body = JsonText encoded\<rparr>
      else None)"

definition write_error :: "transport \<Rightarrow> int \<Rightarrow> string \<Rightarrow> string \<Rightarrow> string \<Rightarrow> post_result" where
  "write_error tp status error_type message request_id =
     (case write_json tp status
        (PDict [(''error'', PDict [(''type'', PStr error_type), (''message'', PStr message)])]) request_id [] of
        Some response \<Rightarrow> Replied response
      | None \<Rightarrow> broken_pipe)"

definition event_stream :: "string \<Rightarrow> string list \<Rightarrow> post_result" where
  "event_stream request_id lines =
     Replied \<lparr>hr_status = 200,
       hr_headers = [(''Content-Type'', ''text/event-stream''), (''X-Request-Id'', request_id),
         (''Cache-Control'', ''no-cache''), (''Connection'', ''close'')],
       hr_body = EventLines lines\<rparr>"

definition is_disconnect :: "string \<Rightarrow> bool" where
  "is_disconnect c = (c = ''BrokenPipeError'' \<or> c = ''ConnectionResetError'')"

text \<open>
  \<open>_write_stream\<close>: the headers are write 0 and the events follow. A broken write leaves the generator
  at the event it was given, and it is closed there; broken headers leave it unstarted.
\<close>

definition write_stream ::
  "transport \<Rightarrow> 's gateway \<Rightarrow> lazy_stream \<Rightarrow> string \<Rightarrow> 's world \<Rightarrow> post_result \<times> 's world" where
  "write_stream tp gw ls request_id w =
     (if \<not> tp_writes tp 0 then (ClientGone, w)
      else
        (let items = fst (run_events gw ls (stream_start (polls w)));
             broken = find (\<lambda>i. \<not> tp_writes tp (Suc i)) [0..<length items] in
         case stream_body gw ls (map_option Suc broken) w of (r, w') \<Rightarrow>
           (let lines = map (tp_dumps tp \<circ> PDict) (sr_events r) in
            case broken of
              Some i \<Rightarrow> (event_stream request_id (take i lines), w')
            | None \<Rightarrow>
                ((case sr_outcome r of
                    StreamRaised e \<Rightarrow>
                      if gateway_error e \<noteq> None \<or> is_disconnect (exn_class e) then event_stream request_id lines
                      else Escaped (exn_class e) (exn_text e)
                  | _ \<Rightarrow> event_stream request_id
                      (lines @ (if sr_done r \<and> tp_writes tp (Suc (length items)) then [''[DONE]''] else []))), w'))))"

section \<open>\<open>do_POST\<close>\<close>

datatype operation = Chat | Embeddings

definition operation_of :: "string \<Rightarrow> operation option" where
  "operation_of path =
     (if path = ''/v1/chat/completions'' then Some Chat
      else if path = ''/v1/embeddings'' then Some Embeddings else None)"

definition max_body :: "operation \<Rightarrow> int" where
  "max_body op = (case op of Chat \<Rightarrow> 32 * 1024 * 1024 | Embeddings \<Rightarrow> 2 * 1024 * 1024)"

text \<open>\<open>self.headers.get("Content-Length")\<close> and the check of its value.\<close>

definition content_length :: "operation \<Rightarrow> string option \<Rightarrow> py_exc + int" where
  "content_length op length_header =
     rbind (py_int (case length_header of None \<Rightarrow> ''0'' | Some s \<Rightarrow> if s = [] then ''0'' else s)) (\<lambda>n.
     if n \<le> 0 \<or> n > max_body op then Inl (ValueError ''invalid content length'') else Inr n)"

text \<open>\<open>dict(self.headers.items())\<close>: a repeated name keeps its last value.\<close>

definition header_dict :: "(string \<times> string) list \<Rightarrow> (string \<times> string) list" where
  "header_dict items = foldl (\<lambda>d (k, v). AList.update k v d) [] items"

definition retry_after :: "gw_exn \<Rightarrow> (string \<times> string) list" where
  "retry_after e =
     (case e of
        EmbeddingProviderResponseError pe \<Rightarrow>
          (case ee_retry_after pe of
             PInt n \<Rightarrow> if 0 \<le> n then [(''Retry-After'', int_str n)] else []
           | PBool b \<Rightarrow> [(''Retry-After'', int_str (of_bool b))]
           | PFloat (Flt q) \<Rightarrow> if 0 \<le> q then [(''Retry-After'', int_str \<lceil>q\<rceil>)] else []
           | _ \<Rightarrow> [])
      | _ \<Rightarrow> [])"

definition gone_or :: "http_response option \<Rightarrow> post_result" where
  "gone_or r = (case r of Some response \<Rightarrow> Replied response | None \<Rightarrow> ClientGone)"

text \<open>A streamed body is a generator and a unary one a dictionary; the other two cases do not arise from the gateway.\<close>

definition respond ::
  "transport \<Rightarrow> 's gateway \<Rightarrow> string \<Rightarrow> gw_exn + gateway_response \<Rightarrow> 's world \<Rightarrow> post_result \<times> 's world" where
  "respond tp gw request_id r w =
     (case r of
        Inr response \<Rightarrow>
          (case (resp_stream response, resp_body response) of
             (True, Lazy ls) \<Rightarrow> write_stream tp gw ls request_id w
           | (True, Json d) \<Rightarrow> (if tp_writes tp 0 then event_stream request_id (map fst d) else ClientGone, w)
           | (False, Json d) \<Rightarrow> (gone_or (write_json tp (resp_status_code response) (PDict d) request_id []), w)
           | (False, Lazy ls) \<Rightarrow> (Escaped ''TypeError'' ''Object of type generator is not JSON serializable'', w))
      | Inl e \<Rightarrow>
          ((case gateway_error e of
              Some (status, kind) \<Rightarrow> gone_or (write_json tp status (PDict (to_openai_error e)) request_id (retry_after e))
            | None \<Rightarrow> if is_disconnect (exn_class e) then ClientGone else Escaped (exn_class e) (exn_text e)), w))"

definition do_post ::
  "transport \<Rightarrow> 's gateway \<Rightarrow> string \<Rightarrow> string \<Rightarrow> (string \<times> string) list \<Rightarrow> string option \<Rightarrow> (int \<Rightarrow> json_outcome) \<Rightarrow>
   's world \<Rightarrow> post_result \<times> 's world" where
  "do_post tp gw request_id path headers length_header body w =
     (case operation_of path of
        None \<Rightarrow> (write_error tp 404 ''not_found'' ''endpoint not found'' request_id, w)
      | Some op \<Rightarrow>
          (case content_length op length_header of
             Inl e \<Rightarrow> (write_error tp 400 ''invalid_request_error'' (exc_message e) request_id, w)
           | Inr n \<Rightarrow>
               (case body n of
                  JsonInvalid m \<Rightarrow> (write_error tp 400 ''invalid_request_error'' m request_id, w)
                | JsonTooDeep \<Rightarrow> (Escaped ''RecursionError'' ''maximum recursion depth exceeded'', w)
                | JsonValue payload \<Rightarrow>
                    (case (case op of
                             Chat \<Rightarrow> handle_openai_chat gw request_id (header_dict headers) payload w
                           | Embeddings \<Rightarrow> handle_openai_embeddings gw request_id (header_dict headers) payload w) of
                       (r, w') \<Rightarrow> respond tp gw request_id r w'))))"

section \<open>Facts\<close>

text \<open>A request that does not parse leaves no trace.\<close>

lemma post_refused:
  assumes "\<And>op. operation_of path = Some op \<Longrightarrow> isl (content_length op len) \<or>
      (\<exists>n. content_length op len = Inr n \<and> (\<forall>v. body n \<noteq> JsonValue v))"
  shows "snd (do_post tp gw rid path headers len body w) = w"
proof (cases "operation_of path")
  case (Some op)
  with assms [OF Some] show ?thesis
    by (cases "content_length op len") (auto simp: do_post_def split: json_outcome.splits)
qed (simp add: do_post_def)

lemma content_length_Inr: "content_length op len = Inr n \<Longrightarrow> 0 < n \<and> n \<le> max_body op"
  by (auto simp: content_length_def rbind_eq_Inr split: if_splits)

lemma write_stream_world:
  assumes "write_stream tp gw ls rid w = (x, w')"
  shows "if tp_writes tp 0 then \<exists>pulls. pulls \<noteq> Some 0 \<and> w' = snd (stream_body gw ls pulls w) else w' = w \<and> x = ClientGone"
proof (cases "tp_writes tp 0")
  case True
  let ?broken = "find (\<lambda>i. \<not> tp_writes tp (Suc i)) [0..<length (fst (run_events gw ls (stream_start (polls w))))]"
  obtain r w1 where r: "stream_body gw ls (map_option Suc ?broken) w = (r, w1)" by fastforce
  with assms True have "w' = w1" by (cases ?broken) (auto simp: write_stream_def Let_def)
  with r True show ?thesis by (intro if_P [THEN iffD2] exI [of _ "map_option Suc ?broken"]) auto
qed (use assms in \<open>auto simp: write_stream_def\<close>)

lemma do_post_run:
  assumes "do_post tp gw rid path headers len body w = (x, w')"
  shows "w' = w \<or> (\<exists>op n payload r w1. operation_of path = Some op \<and> content_length op len = Inr n \<and> body n = JsonValue payload \<and>
    (case op of Chat \<Rightarrow> handle_openai_chat gw rid (header_dict headers) payload w
     | Embeddings \<Rightarrow> handle_openai_embeddings gw rid (header_dict headers) payload w) = (r, w1) \<and>
    respond tp gw rid r w1 = (x, w'))"
  using assms by (cases "operation_of path") (auto simp: do_post_def split: sum.splits json_outcome.splits prod.splits)

lemma respond_world:
  assumes "respond tp gw rid r w = (x, w')"
  shows "w' = w \<and> \<not> (\<exists>resp ls. r = Inr resp \<and> resp_stream resp \<and> resp_body resp = Lazy ls \<and> tp_writes tp 0) \<or>
    (\<exists>resp ls pulls. r = Inr resp \<and> resp_stream resp \<and> resp_body resp = Lazy ls \<and> tp_writes tp 0 \<and> pulls \<noteq> Some 0 \<and>
      w' = snd (stream_body gw ls pulls w))"
proof (cases r)
  case (Inr resp)
  show ?thesis
  proof (cases "resp_stream resp"; cases "resp_body resp")
    fix ls assume "resp_stream resp" "resp_body resp = Lazy ls"
    with Inr assms write_stream_world [of tp gw ls rid w x w'] show ?thesis
      by (cases "tp_writes tp 0") (auto simp: respond_def)
  qed (use Inr assms in \<open>auto simp: respond_def\<close>)
qed (use assms in \<open>auto simp: respond_def\<close>)

text \<open>
  Over the audit recorder, a request settles whenever the response headers reach the client; a
  streamed answer whose headers do not is never read, and its ledger row stays \<open>started\<close>.
\<close>

lemma post_settles:
  assumes gw: "gw_observer gw = audit_recorder clock billing" "platform_plain gw" "ledger_status rid (obs w) \<noteq> Some AuditStarted"
    and post: "do_post tp gw rid path headers len body w = (x, w')"
  shows "ledger_status rid (obs w') = Some AuditStarted \<longrightarrow> \<not> tp_writes tp 0 \<and> x = ClientGone"
    and "tp_writes tp 0 \<Longrightarrow> ledger_status rid (obs w') \<noteq> Some AuditStarted"
proof -
  have settled: "ledger_status rid (obs w') \<noteq> Some AuditStarted \<or> \<not> tp_writes tp 0 \<and> x = ClientGone"
  proof (cases "w' = w")
    case False
    with do_post_run [OF post] obtain op payload r w1 where
      h: "(case op of Chat \<Rightarrow> handle_openai_chat gw rid (header_dict headers) payload w
         | Embeddings \<Rightarrow> handle_openai_embeddings gw rid (header_dict headers) payload w) = (r, w1)"
      "respond tp gw rid r w1 = (x, w')" by blast
    have fact: "case r of Inl e \<Rightarrow> ledger_status rid (obs w1) \<noteq> Some AuditStarted
        | Inr resp \<Rightarrow> if resp_stream resp
            then ledger_status rid (obs w1) = Some AuditStarted \<and> (\<exists>ls. resp_body resp = Lazy ls \<and> meta_request_id (ls_metadata ls) = rid)
            else ledger_status rid (obs w1) = Some AuditCompleted"
    proof (cases op)
      case Chat
      with h(1) recorder_settles(1) [OF gw] show ?thesis by simp
    next
      case Embeddings
      with h(1) recorder_settles(2) [OF gw, of "header_dict headers" payload r w1] show ?thesis by (auto split: sum.splits)
    qed
    show ?thesis
    proof (cases "\<exists>resp. r = Inr resp \<and> resp_stream resp")
      case True
      then obtain resp ls where resp: "r = Inr resp" "resp_stream resp" "resp_body resp = Lazy ls" "meta_request_id (ls_metadata ls) = rid"
        using fact by (auto split: if_splits)
      with h(2) have ws: "write_stream tp gw ls rid w1 = (x, w')" by (simp add: respond_def)
      show ?thesis
      proof (cases "tp_writes tp 0")
        case True
        with write_stream_world [OF ws] obtain pulls where "pulls \<noteq> Some 0" "w' = snd (stream_body gw ls pulls w1)" by auto
        with recorder_stream_settles [OF gw(1) prod.collapse [symmetric]] resp(4) show ?thesis by metis
      next
        case False
        with write_stream_world [OF ws] show ?thesis by auto
      qed
    next
      case False
      with respond_world [OF h(2)] have "w' = w1" by auto
      with fact False show ?thesis by (auto split: sum.splits if_splits)
    qed
  qed (use gw(3) in simp)
  then show "ledger_status rid (obs w') = Some AuditStarted \<longrightarrow> \<not> tp_writes tp 0 \<and> x = ClientGone"
    "tp_writes tp 0 \<Longrightarrow> ledger_status rid (obs w') \<noteq> Some AuditStarted" by blast+
qed

lemma post_stream_lost:
  assumes "gw_observer gw = audit_recorder clock billing" "platform_plain gw" "ledger_status rid (obs w) \<noteq> Some AuditStarted"
    and "handle_openai_chat gw rid (header_dict headers) payload w = (Inr resp, w1)" "resp_stream resp"
    and "content_length Chat len = Inr n" "body n = JsonValue payload" "\<not> tp_writes tp 0"
  shows "do_post tp gw rid ''/v1/chat/completions'' headers len body w = (ClientGone, w1) \<and>
    ledger_status rid (obs w1) = Some AuditStarted"
proof -
  from recorder_settles(1) [OF assms(1-4)] assms(5) obtain ls where
    "ledger_status rid (obs w1) = Some AuditStarted" "resp_body resp = Lazy ls" by auto
  with assms show ?thesis by (simp add: do_post_def operation_of_def respond_def write_stream_def)
qed

end
