(* ===== verification/Hub_Types.thy ===== *)
theory Hub_Types
  imports Web Tables Encodings
begin

text \<open>
  The data of the integration hub (\<open>integrations/models.py\<close>): the errors, the verified principal,
  the states of jobs, operations and WeCom events, the documents, and the store's tables. Instants
  are microseconds since the epoch: the store compares them as UTC ISO texts, whose order is the
  order of the instants.
\<close>

section \<open>Errors\<close>

datatype hub_exn =
    IntegrationNotFound string
  | IntegrationAuthorizationError string
  | IntegrationConflict string
  | IntegrationValidationError string
  | HubIntegrityError string
  | HubValueError string
  | ValidationError string
  | RetryableReadError "int option"
  | ProviderRejectedError string
  | HubOther string string

text \<open>\<open>IntegrationError.__init__\<close>: the typed error of the Product API each one is.\<close>

definition integration_error :: "string \<Rightarrow> string \<Rightarrow> int \<Rightarrow> string \<Rightarrow> product_exn" where
  "integration_error c title status detail = product_error (''EXCHANGE_'' @ c) title detail status"

fun product_exn_of :: "hub_exn \<Rightarrow> product_exn" where
  "product_exn_of (IntegrationNotFound d) = integration_error ''INTEGRATION_NOT_FOUND'' ''Integration Not Found'' 404 d"
| "product_exn_of (IntegrationAuthorizationError d) = integration_error ''INTEGRATION_FORBIDDEN'' ''Integration Forbidden'' 403 d"
| "product_exn_of (IntegrationConflict d) = integration_error ''INTEGRATION_CONFLICT'' ''Integration Conflict'' 409 d"
| "product_exn_of (IntegrationValidationError d) = integration_error ''INTEGRATION_INVALID'' ''Integration Invalid'' 422 d"
| "product_exn_of (HubIntegrityError m) = IntegrityError m"
| "product_exn_of (HubValueError m) = ProductValueError m"
| "product_exn_of (ValidationError m) = ProductOther ''ValidationError'' m"
| "product_exn_of (RetryableReadError s) = ProductOther ''RetryableReadError'' []"
| "product_exn_of (ProviderRejectedError r) = ProductOther ''ProviderRejectedError'' r"
| "product_exn_of (HubOther c m) = ProductOther c m"

section \<open>The principal\<close>

record hub_principal =
  hp_issuer :: string
  hp_subject :: string
  hp_organization_id :: string
  hp_workspace_id :: string
  hp_allowed_operation_ids :: "string list"
  hp_delegation_id :: "string option"
  hp_delegation_generation :: "int option"
  hp_expires_at :: "int option"

definition mk_hub_principal ::
  "string \<Rightarrow> string \<Rightarrow> string \<Rightarrow> string \<Rightarrow> string list \<Rightarrow> string option \<Rightarrow> int option \<Rightarrow> int option \<Rightarrow> hub_exn + hub_principal" where
  "mk_hub_principal issuer subject organization workspace allowed delegation generation expires =
     (let need = (\<lambda>(name, value). guard (\<not> blank value) (HubValueError (name @ '' must be non-empty text''))) in
      rbind (need (''issuer'', issuer)) (\<lambda>_.
      rbind (need (''subject'', subject)) (\<lambda>_.
      rbind (need (''organization_id'', organization)) (\<lambda>_.
      rbind (need (''workspace_id'', workspace)) (\<lambda>_.
      Inr \<lparr>hp_issuer = issuer, hp_subject = subject, hp_organization_id = organization, hp_workspace_id = workspace,
           hp_allowed_operation_ids = allowed, hp_delegation_id = delegation, hp_delegation_generation = generation,
           hp_expires_at = expires\<rparr>)))))"

definition require_grant :: "hub_principal \<Rightarrow> string \<Rightarrow> int \<Rightarrow> hub_exn + unit" where
  "require_grant p operation now =
     (if (case hp_expires_at p of None \<Rightarrow> False | Some t \<Rightarrow> t \<le> now)
      then Inl (IntegrationAuthorizationError ''authorization expired'')
      else if operation \<notin> set (hp_allowed_operation_ids p)
      then Inl (IntegrationAuthorizationError ''operation is not granted'')
      else Inr ())"

type_synonym scope = "string \<times> string \<times> string \<times> string"

definition scope_of :: "hub_principal \<Rightarrow> scope" where
  "scope_of p = (hp_organization_id p, hp_workspace_id p, hp_issuer p, hp_subject p)"

section \<open>States\<close>

datatype job_state = Ready | Claimed | AwaitingAuthority | Sending | Accepted | Succeeded | JobFailed | Unknown

datatype operation_state = Queued | OpAwaiting | Running | OpAccepted | OpSucceeded | OpFailed | OpUnknown

datatype wecom_state =
    Received | IgnoredSelf | IgnoredNonCommand | IgnoredScope | IgnoredInvalidCommand | IgnoredUnlinked | IgnoredUnbound
  | IgnoredUnrelated | CommandQueued | ChallengeObserving | ChallengeObserved | ChallengeUnknown | ChallengeReplyPending
  | ReplyAccepted | EventReplied | EventUnknown | EventRejected

datatype job_kind = Notify | IssueAction | CommandReply | ChallengeReply

datatype issue_action = IssueQuery | IssueComment | IssueClose | IssueReopen

fun action_id :: "issue_action \<Rightarrow> string" where
  "action_id IssueQuery = ''integration.issue.query''"
| "action_id IssueComment = ''integration.issue.comment''"
| "action_id IssueClose = ''integration.issue.close''"
| "action_id IssueReopen = ''integration.issue.reopen''"

fun job_state_text :: "job_state \<Rightarrow> string" where
  "job_state_text Ready = ''READY''"
| "job_state_text Claimed = ''CLAIMED''"
| "job_state_text AwaitingAuthority = ''AWAITING_AUTHORITY''"
| "job_state_text Sending = ''SENDING''"
| "job_state_text Accepted = ''ACCEPTED''"
| "job_state_text Succeeded = ''SUCCEEDED''"
| "job_state_text JobFailed = ''FAILED''"
| "job_state_text Unknown = ''UNKNOWN''"

section \<open>Documents\<close>

record connection =
  cn_id :: uuid
  cn_organization_id :: string
  cn_workspace_id :: string
  cn_actor_issuer :: string
  cn_actor_subject :: string
  cn_account_link_ref :: "string option"
  cn_provider :: string
  cn_binding_ref :: "string option"
  cn_target_ref :: "string option"
  cn_display_name :: "string option"
  cn_repository_id :: string
  cn_repository_name :: string
  cn_access_mode :: string
  cn_enabled :: bool
  cn_created_at :: int
  cn_updated_at :: int

record sync_binding =
  sb_id :: uuid
  sb_organization_id :: string
  sb_workspace_id :: string
  sb_connection_id :: uuid
  sb_account_link_ref :: "string option"
  sb_delegation_ref :: "string option"
  sb_notification_target_ref :: string
  sb_enabled :: bool
  sb_created_at :: int
  sb_updated_at :: int

record actor_binding =
  ab_id :: uuid
  ab_binding_id :: uuid
  ab_organization_id :: string
  ab_workspace_id :: string
  ab_actor_issuer :: string
  ab_actor_subject :: string
  ab_account_link_ref :: string
  ab_delegation_ref :: string
  ab_enabled :: bool
  ab_created_at :: int
  ab_updated_at :: int

record github_event =
  gh_event_type :: string
  gh_action :: string
  gh_repository_id :: string
  gh_issue_number :: int
  gh_sender_id :: string
  gh_sender_login :: string
  gh_title :: string
  gh_body :: string
  gh_self_authored :: bool
  gh_observed_at :: int

record incoming_event = github_event +
  ie_id :: uuid
  ie_connection_id :: uuid
  ie_organization_id :: string
  ie_workspace_id :: string
  ie_delivery_id :: string
  ie_payload_fingerprint :: string

record wecom_event =
  we_id :: uuid
  we_binding_id :: uuid
  we_organization_id :: string
  we_workspace_id :: string
  we_source_event_id :: string
  we_payload_fingerprint :: string
  we_sender_id :: string
  we_conversation_ref :: string
  we_reply_message_id :: "string option"
  we_reply_context_ref :: "string option"
  we_message_text :: string
  we_self_authored :: bool
  we_observed_at :: int
  we_state :: wecom_state
  we_challenge_id :: "string option"
  we_operation_id :: "uuid option"

record outbox_job =
  ob_id :: uuid
  ob_kind :: job_kind
  ob_organization_id :: string
  ob_workspace_id :: string
  ob_actor_issuer :: string
  ob_actor_subject :: string
  ob_connection_id :: uuid
  ob_binding_id :: "uuid option"
  ob_operation_id :: "uuid option"
  ob_idempotency_key :: "string option"
  ob_authority_invocation_id :: "string option"
  ob_authority_idempotency_key :: "string option"
  ob_authority_state :: "string option"
  ob_payload :: pydict
  ob_state :: job_state
  ob_attempts :: int
  ob_available_at :: int
  ob_claim_owner :: "string option"
  ob_claim_fence :: int
  ob_lease_expires_at :: "int option"
  ob_created_at :: int
  ob_updated_at :: int

record claimed_job =
  cj_job :: outbox_job
  cj_claim_fence :: int
  cj_claimed_from_state :: job_state

record issue_operation =
  io_id :: uuid
  io_organization_id :: string
  io_workspace_id :: string
  io_actor_issuer :: string
  io_actor_subject :: string
  io_connection_id :: uuid
  io_binding_id :: uuid
  io_actor_binding_id :: uuid
  io_account_link_ref :: string
  io_delegation_ref :: "string option"
  io_execution_operation_id :: string
  io_authority_invocation_id :: "string option"
  io_authority_idempotency_key :: "string option"
  io_argument_digest :: string
  io_reconciles_operation_id :: "uuid option"
  io_operation_id :: issue_action
  io_idempotency_key :: string
  io_request_hash :: string
  io_from_wecom :: bool
  io_source_event_ref :: "string option"
  io_reply_binding_ref :: "string option"
  io_reply_sender_id :: "string option"
  io_reply_conversation_ref :: "string option"
  io_reply_message_id :: "string option"
  io_reply_context_ref :: "string option"
  io_issue_number :: int
  io_body :: "string option"
  io_state :: operation_state
  io_result :: "pydict option"
  io_created_at :: int
  io_updated_at :: int

record issue_request =
  rq_connection_id :: uuid
  rq_binding_id :: uuid
  rq_operation_id :: issue_action
  rq_idempotency_key :: string
  rq_issue_number :: int
  rq_body :: "string option"
  rq_reconciles_operation_id :: "uuid option"

record delivery_receipt =
  dr_id :: uuid
  dr_operation_id :: "uuid option"
  dr_job_id :: "uuid option"
  dr_status :: job_state
  dr_accepted :: bool
  dr_vendor_message_id :: "string option"
  dr_transport_request_id :: "string option"
  dr_observed_at :: int
  dr_evidence :: pydict

record resource_snapshot =
  rn_id :: uuid
  rn_organization_id :: string
  rn_workspace_id :: string
  rn_actor_issuer :: string
  rn_actor_subject :: string
  rn_connection_id :: uuid
  rn_resource_type :: string
  rn_resource_id :: string
  rn_version :: string
  rn_observed_at :: int
  rn_document :: pydict

record operation_audit =
  oa_id :: uuid
  oa_organization_id :: string
  oa_workspace_id :: string
  oa_actor_issuer :: "string option"
  oa_actor_subject :: "string option"
  oa_resource_type :: string
  oa_resource_id :: string
  oa_action :: string
  oa_outcome :: string
  oa_observed_at :: int
  oa_metadata :: pydict

section \<open>The tables\<close>

text \<open>
  Every statement of the store that writes a document also writes the columns it is looked up by
  from the same document, so a row is its document; the idempotency records and the inbox keep the
  columns that are not part of it.
\<close>

record hub_store =
  hs_connections :: "(uuid, connection) table"
  hs_bindings :: "(uuid, sync_binding) table"
  hs_actor_bindings :: "(uuid, actor_binding) table"
  hs_incoming :: "(uuid, incoming_event) table"
  hs_wecom :: "(uuid, wecom_event) table"
  hs_jobs :: "(uuid, outbox_job) table"
  hs_operations :: "(uuid, issue_operation) table"
  hs_connection_keys :: "(scope \<times> string, string \<times> connection) table"
  hs_binding_keys :: "(scope \<times> string, string \<times> sync_binding) table"
  hs_actor_binding_keys :: "(scope \<times> string, string \<times> actor_binding) table"
  hs_receipts :: "(uuid, delivery_receipt) table"
  hs_snapshots :: "(uuid, resource_snapshot) table"
  hs_audits :: "(uuid, operation_audit) table"
  hs_evidence :: "(uuid \<times> int, pydict) table"

type_synonym 'a hub_act = "(hub_store, hub_exn, 'a) act"

definition empty_hub :: hub_store where
  "empty_hub = \<lparr>hs_connections = [], hs_bindings = [], hs_actor_bindings = [], hs_incoming = [], hs_wecom = [], hs_jobs = [],
     hs_operations = [], hs_connection_keys = [], hs_binding_keys = [], hs_actor_binding_keys = [], hs_receipts = [],
     hs_snapshots = [], hs_audits = [], hs_evidence = []\<rparr>"

text \<open>A lookup that raises, and the update of one table.\<close>

definition look :: "(hub_store \<Rightarrow> hub_exn + 'a) \<Rightarrow> 'a hub_act" where
  "look f = (\<lambda>s. (f s, s))"

definition write_hub :: "(hub_store \<Rightarrow> hub_store) \<Rightarrow> unit hub_act" where
  "write_hub f = (\<lambda>s. (Inr (), f s))"

definition insert_or :: "string \<Rightarrow> (hub_store \<Rightarrow> hub_store option) \<Rightarrow> unit hub_act" where
  "insert_or table f = (\<lambda>s. case f s of
     None \<Rightarrow> (Inl (HubIntegrityError (''UNIQUE constraint failed: '' @ table)), s)
   | Some s' \<Rightarrow> (Inr (), s'))"

lemma look_apply [act_simps]: "look f s = (f s, s)"
  and write_hub_apply [act_simps]: "write_hub g s = (Inr (), g s)"
  by (simp_all add: look_def write_hub_def)

lemma look_Inr [outcome_simps]: "look f s = (Inr x, s') \<longleftrightarrow> f s = Inr x \<and> s' = s"
  and write_hub_Inr [outcome_simps]: "write_hub g s = (Inr u, s') \<longleftrightarrow> s' = g s"
  and insert_or_Inr [outcome_simps]: "insert_or t h s = (Inr u, s') \<longleftrightarrow> h s = Some s'"
  by (auto simp: act_simps insert_or_def split: option.splits)

lemma look_Inl [outcome_simps]: "look f s = (Inl e, s') \<longleftrightarrow> f s = Inl e \<and> s' = s"
  and write_hub_Inl [outcome_simps]: "write_hub g s = (Inl e, s') \<longleftrightarrow> False"
  and insert_or_Inl [outcome_simps]:
    "insert_or t h s = (Inl e, s') \<longleftrightarrow> h s = None \<and> e = HubIntegrityError (''UNIQUE constraint failed: '' @ t) \<and> s' = s"
  by (auto simp: act_simps insert_or_def split: option.splits)

end
