(* ===== verification/Issue_Commands.thy ===== *)
theory Issue_Commands
  imports Hub_Types
begin

text \<open>
  The \<open>/issue\<close> command grammar (\<open>integrations/commands.py\<close>): \<open>shlex.split\<close> in POSIX mode as the
  state machine of the standard library, the parser over its tokens, and the reply text. A float
  inside provider evidence is rendered by the argument \<open>float_repr\<close>, Python's \<open>repr\<close> of it.
\<close>

section \<open>\<open>shlex.split\<close>\<close>

datatype lex_state = Between | InWord | InQuote char | Escaping lex_state

abbreviation BACKSLASH :: char where
  "BACKSLASH \<equiv> char_of (92 :: nat)"

abbreviation APOSTROPHE :: char where
  "APOSTROPHE \<equiv> char_of (39 :: nat)"

definition lex_space :: "char \<Rightarrow> bool" where
  "lex_space c = (code c \<in> {9, 10, 13, 32})"

definition lex_quote :: "char \<Rightarrow> bool" where
  "lex_quote c = (c = CHR 0x22 \<or> c = APOSTROPHE)"

text \<open>The state, the token so far and whether it was quoted; a token is emitted at white space.\<close>

definition emit :: "string \<Rightarrow> bool \<Rightarrow> (py_exc + string list) \<Rightarrow> py_exc + string list" where
  "emit token hadq rest = (if token \<noteq> [] \<or> hadq then rbind rest (\<lambda>ts. Inr (token # ts)) else rest)"

fun shlex_from :: "lex_state \<Rightarrow> string \<Rightarrow> bool \<Rightarrow> string \<Rightarrow> py_exc + string list" where
  "shlex_from (InQuote q) token hadq [] = Inl (ValueError ''No closing quotation'')"
| "shlex_from (Escaping st) token hadq [] = Inl (ValueError ''No escaped character'')"
| "shlex_from st token hadq [] = emit token hadq (Inr [])"
| "shlex_from (InQuote q) token hadq (c # cs) =
     (if c = q then shlex_from InWord token True cs
      else if c = BACKSLASH \<and> q = CHR 0x22 then shlex_from (Escaping (InQuote q)) token True cs
      else shlex_from (InQuote q) (token @ [c]) True cs)"
| "shlex_from (Escaping st) token hadq (c # cs) =
     (let kept = (case st of InQuote q \<Rightarrow> if c \<noteq> BACKSLASH \<and> c \<noteq> q then [BACKSLASH] else [] | _ \<Rightarrow> []) in
      shlex_from st (token @ kept @ [c]) hadq cs)"
| "shlex_from st token hadq (c # cs) =
     (if lex_space c then emit token hadq (shlex_from Between [] False cs)
      else if c = BACKSLASH then shlex_from (Escaping InWord) token hadq cs
      else if lex_quote c then shlex_from (InQuote c) token hadq cs
      else shlex_from InWord (token @ [c]) hadq cs)"

definition shlex_split :: "string \<Rightarrow> py_exc + string list" where
  "shlex_split s = shlex_from Between [] False s"

section \<open>Parsing\<close>

definition MAX_COMMAND_LENGTH :: nat where
  "MAX_COMMAND_LENGTH = 4096"

record issue_command =
  ic_operation_id :: issue_action
  ic_issue_number :: int
  ic_body :: "string option"

definition dec_digit :: "char \<Rightarrow> bool" where
  "dec_digit c = (48 \<le> code c \<and> code c \<le> 57)"

text \<open>\<open>#?([1-9][0-9]{0,8})\<close>, and the value of its group.\<close>

definition issue_number :: "string \<Rightarrow> int option" where
  "issue_number s =
     (let d = (case s of [] \<Rightarrow> [] | c # cs \<Rightarrow> if c = CHR ''#'' then cs else s) in
      if d \<noteq> [] \<and> list_all dec_digit d \<and> hd d \<noteq> CHR ''0'' \<and> length d \<le> 9
      then Some (foldl (\<lambda>n c. 10 * n + int (code c - 48)) 0 d) else None)"

fun join :: "string \<Rightarrow> string list \<Rightarrow> string" where
  "join sep [] = []"
| "join sep [x] = x"
| "join sep (x # xs) = x @ sep @ join sep xs"

abbreviation bad_command :: "string \<Rightarrow> hub_exn + 'a" where
  "bad_command m \<equiv> Inl (IntegrationValidationError m)"

definition command_of_parts :: "string \<Rightarrow> int \<Rightarrow> string list \<Rightarrow> hub_exn + issue_command" where
  "command_of_parts action n parts =
     (if action = ''comment''
      then
        (let body = strip (join '' '' (drop 3 parts)) in
         if body = [] \<or> length body > 4000 then bad_command ''comment body must contain 1 to 4000 characters''
         else Inr \<lparr>ic_operation_id = IssueComment, ic_issue_number = n, ic_body = Some body\<rparr>)
      else if length parts \<noteq> 3 then bad_command ''this issue action does not accept extra arguments''
      else if action = ''query'' then Inr \<lparr>ic_operation_id = IssueQuery, ic_issue_number = n, ic_body = None\<rparr>
      else if action = ''close'' then Inr \<lparr>ic_operation_id = IssueClose, ic_issue_number = n, ic_body = None\<rparr>
      else if action = ''reopen'' then Inr \<lparr>ic_operation_id = IssueReopen, ic_issue_number = n, ic_body = None\<rparr>
      else bad_command ''unsupported issue action'')"

definition parse_issue_command :: "string \<Rightarrow> hub_exn + issue_command" where
  "parse_issue_command command =
     (if blank command then bad_command ''command must be non-empty text''
      else if length command > MAX_COMMAND_LENGTH then bad_command ''command exceeds the size limit''
      else
        (case shlex_split command of
           Inl e \<Rightarrow> bad_command ''command quoting is invalid''
         | Inr parts \<Rightarrow>
             if length parts < 3 \<or> hd parts \<noteq> ''/issue'' then bad_command ''command must use /issue <action> <number>''
             else
               (case issue_number (parts ! 2) of
                  None \<Rightarrow> bad_command ''issue number is invalid''
                | Some n \<Rightarrow> command_of_parts (lower (parts ! 1)) n parts)))"

section \<open>The reply\<close>

text \<open>Python's \<open>str\<close> and \<open>repr\<close> of a JSON value.\<close>

definition bytes_repr :: "bytes \<Rightarrow> string" where
  "bytes_repr b =
     (let s = map (\<lambda>w. char_of (unat w)) b; q = (if APOSTROPHE \<in> set s \<and> CHR 0x22 \<notin> set s then CHR 0x22 else APOSTROPHE) in
      CHR ''b'' # q # concat (map (\<lambda>c. if code c < 128 then repr_char q c
         else [BACKSLASH, CHR ''x'', lower_hex (code c div 16), lower_hex (code c mod 16)]) s) @ [q])"

fun value_repr :: "(pyfloat \<Rightarrow> string) \<Rightarrow> pyval \<Rightarrow> string" where
  "value_repr fr PNone = ''None''"
| "value_repr fr (PBool b) = (if b then ''True'' else ''False'')"
| "value_repr fr (PInt n) = int_str n"
| "value_repr fr (PFloat x) = fr x"
| "value_repr fr (PStr s) = py_repr s"
| "value_repr fr (PBytes b) = bytes_repr b"
| "value_repr fr (PList vs) = ''['' @ join '', '' (map (value_repr fr) vs) @ '']''"
| "value_repr fr (PTuple vs) =
     ''('' @ join '', '' (map (value_repr fr) vs) @ (if length vs = 1 then '','' else []) @ '')''"
| "value_repr fr (PDict d) = ''{'' @ join '', '' (map (\<lambda>(k, v). py_repr k @ '': '' @ value_repr fr v) d) @ ''}''"

definition value_str :: "(pyfloat \<Rightarrow> string) \<Rightarrow> pyval \<Rightarrow> string" where
  "value_str fr v = (case v of PStr s \<Rightarrow> s | _ \<Rightarrow> value_repr fr v)"

definition render_issue_command_result ::
  "(pyfloat \<Rightarrow> string) \<Rightarrow> issue_operation \<Rightarrow> string \<Rightarrow> job_state \<Rightarrow> pydict \<Rightarrow> string" where
  "render_issue_command_result fr operation repository_name state evidence =
     (let issue = repository_name @ ''#'' @ int_str (io_issue_number operation) in
      case state of
        Unknown \<Rightarrow> ''The result for '' @ issue @ '' is unknown. No automatic retry was made.''
      | JobFailed \<Rightarrow> ''The requested operation for '' @ issue @ '' did not complete.''
      | Accepted \<Rightarrow> ''The requested operation for '' @ issue @ '' was accepted; completion is unconfirmed.''
      | _ \<Rightarrow>
          (case io_operation_id operation of
             IssueQuery \<Rightarrow>
               take 1500 (issue @ '' is '' @ take 40 (value_str fr (dget_or evidence ''state'' (PStr ''unknown''))) @ '': '' @
                 take 500 (value_str fr (dget_or evidence ''title'' (PStr []))))
           | IssueComment \<Rightarrow> ''Comment on '' @ issue @ '' was confirmed.''
           | _ \<Rightarrow> issue @ '' state change was confirmed: '' @
               take 40 (value_str fr (dget_or evidence ''state'' (PStr ''confirmed''))) @ ''.''))"

end
