(* ===== verification/Outbox.thy ===== *)
theory Outbox
  imports Issue_Commands
begin

text \<open>
  The durable outbox (\<open>integrations/store.py\<close>): intents, jobs with leases and fencing tokens, and
  the transitions between their states. A write transaction is one step that rolls back when its
  body raises; the clock and fresh UUIDs are arguments. Rows are never deleted, so the foreign keys
  of the tables always hold.
\<close>

section \<open>Serialization\<close>

text \<open>\<open>json.dumps(value, sort_keys=True, separators=(",", ":"), ensure_ascii=False)\<close>; \<open>fr\<close> renders floats.\<close>

definition json_char :: "char \<Rightarrow> string" where
  "json_char c =
     (let n = code c in
      if c = CHR 0x22 \<or> c = BACKSLASH then [BACKSLASH, c]
      else if n = 10 then [BACKSLASH, CHR ''n'']
      else if n = 13 then [BACKSLASH, CHR ''r'']
      else if n = 9 then [BACKSLASH, CHR ''t'']
      else if n = 8 then [BACKSLASH, CHR ''b'']
      else if n = 12 then [BACKSLASH, CHR ''f'']
      else if n < 32 then BACKSLASH # ''u00'' @ [lower_hex (n div 16), lower_hex (n mod 16)]
      else [c])"

definition json_string :: "string \<Rightarrow> string" where
  "json_string s = CHR 0x22 # concat (map json_char s) @ [CHR 0x22]"

fun json_dumps :: "(pyfloat \<Rightarrow> string) \<Rightarrow> pyval \<Rightarrow> string" where
  "json_dumps fr PNone = ''null''"
| "json_dumps fr (PBool b) = (if b then ''true'' else ''false'')"
| "json_dumps fr (PInt n) = int_str n"
| "json_dumps fr (PFloat x) = fr x"
| "json_dumps fr (PStr s) = json_string s"
| "json_dumps fr (PBytes b) = []"
| "json_dumps fr (PList vs) = ''['' @ join '','' (map (json_dumps fr) vs) @ '']''"
| "json_dumps fr (PTuple vs) = ''['' @ join '','' (map (json_dumps fr) vs) @ '']''"
| "json_dumps fr (PDict d) =
     ''{'' @ join '','' (map snd (sort_key fst (map (\<lambda>(k, v). (k, json_string k @ '':'' @ json_dumps fr v)) d))) @ ''}''"

text \<open>The digest of a document without floats.\<close>

definition digest_of :: "pydict \<Rightarrow> string" where
  "digest_of d = sha256_str (json_dumps (\<lambda>_. []) (PDict d))"

definition opt_py :: "string option \<Rightarrow> pyval" where
  "opt_py v = (case v of None \<Rightarrow> PNone | Some s \<Rightarrow> PStr s)"

text \<open>Truth of an optional string.\<close>

definition given :: "string option \<Rightarrow> bool" where
  "given v = (v \<noteq> None \<and> v \<noteq> Some [])"

section \<open>Scoped lookups\<close>

definition visible_connection :: "uuid \<Rightarrow> string \<Rightarrow> string \<Rightarrow> string \<Rightarrow> hub_store \<Rightarrow> hub_exn + connection" where
  "visible_connection connection_id organization workspace missing s =
     (case find_row connection_id (hs_connections s) of
        Some c \<Rightarrow>
          if cn_organization_id c = organization \<and> cn_workspace_id c = workspace \<and> cn_enabled c then Inr c
          else Inl (IntegrationNotFound missing)
      | None \<Rightarrow> Inl (IntegrationNotFound missing))"

definition connection_for_scope :: "hub_principal \<Rightarrow> uuid \<Rightarrow> hub_store \<Rightarrow> hub_exn + connection" where
  "connection_for_scope p connection_id s =
     visible_connection connection_id (hp_organization_id p) (hp_workspace_id p)
       ''integration connection not found in workspace scope'' s"

definition connection_for_scope_by_ids :: "uuid \<Rightarrow> string \<Rightarrow> string \<Rightarrow> hub_store \<Rightarrow> hub_exn + connection" where
  "connection_for_scope_by_ids connection_id organization workspace s =
     visible_connection connection_id organization workspace ''integration connection not found in sender scope'' s"

definition connection_scoped :: "hub_principal \<Rightarrow> uuid \<Rightarrow> hub_store \<Rightarrow> hub_exn + connection" where
  "connection_scoped p connection_id s =
     (case find_row connection_id (hs_connections s) of
        Some c \<Rightarrow>
          if (cn_organization_id c, cn_workspace_id c, cn_actor_issuer c, cn_actor_subject c) = scope_of p then Inr c
          else Inl (IntegrationNotFound ''integration connection not found'')
      | None \<Rightarrow> Inl (IntegrationNotFound ''integration connection not found''))"

definition binding_for_scope :: "hub_principal \<Rightarrow> uuid \<Rightarrow> hub_store \<Rightarrow> hub_exn + sync_binding" where
  "binding_for_scope p binding_id s =
     (case find_row binding_id (hs_bindings s) of
        Some b \<Rightarrow>
          if sb_organization_id b = hp_organization_id p \<and> sb_workspace_id b = hp_workspace_id p then Inr b
          else Inl (IntegrationNotFound ''sync binding not found'')
      | None \<Rightarrow> Inl (IntegrationNotFound ''sync binding not found''))"

definition get_binding :: "hub_principal \<Rightarrow> uuid \<Rightarrow> string \<Rightarrow> int \<Rightarrow> hub_store \<Rightarrow> hub_exn + sync_binding" where
  "get_binding p binding_id authorization now s =
     rbind (require_grant p authorization now) (\<lambda>_. binding_for_scope p binding_id s)"

definition attached :: "uuid \<Rightarrow> scope \<Rightarrow> actor_binding \<Rightarrow> bool" where
  "attached binding_id sc a =
     (ab_binding_id a = binding_id \<and> (ab_organization_id a, ab_workspace_id a, ab_actor_issuer a, ab_actor_subject a) = sc)"

definition find_actor_binding :: "uuid \<Rightarrow> scope \<Rightarrow> hub_store \<Rightarrow> actor_binding option" where
  "find_actor_binding binding_id sc s = map_option snd (find (\<lambda>(k, a). attached binding_id sc a) (hs_actor_bindings s))"

definition actor_binding_for_operation :: "hub_principal \<Rightarrow> uuid \<Rightarrow> string \<Rightarrow> int \<Rightarrow> hub_store \<Rightarrow> hub_exn + actor_binding" where
  "actor_binding_for_operation p binding_id operation now s =
     rbind (require_grant p operation now) (\<lambda>_.
     case find_actor_binding binding_id (scope_of p) s of
       None \<Rightarrow> Inl (IntegrationNotFound ''actor binding not found'')
     | Some a \<Rightarrow> if ab_enabled a then Inr a else Inl (IntegrationAuthorizationError ''actor binding is disabled''))"

definition connection_for_binding :: "hub_principal \<Rightarrow> uuid \<Rightarrow> uuid \<Rightarrow> string \<Rightarrow> int \<Rightarrow> hub_store \<Rightarrow> hub_exn + connection" where
  "connection_for_binding p connection_id binding_id authorization now s =
     rbind (require_grant p authorization now) (\<lambda>_.
     rbind (binding_for_scope p binding_id s) (\<lambda>b.
     if sb_connection_id b \<noteq> connection_id \<or> \<not> sb_enabled b
     then Inl (IntegrationAuthorizationError ''connection is not enabled for this binding'')
     else connection_for_scope p connection_id s))"

definition operation_for_principal :: "hub_principal \<Rightarrow> uuid \<Rightarrow> string \<Rightarrow> int \<Rightarrow> hub_store \<Rightarrow> hub_exn + issue_operation" where
  "operation_for_principal p operation_id authorization now s =
     rbind (require_grant p authorization now) (\<lambda>_.
     case find_row operation_id (hs_operations s) of
       Some o' \<Rightarrow>
         if (io_organization_id o', io_workspace_id o', io_actor_issuer o', io_actor_subject o') = scope_of p then Inr o'
         else Inl (IntegrationNotFound ''integration operation not found'')
     | None \<Rightarrow> Inl (IntegrationNotFound ''integration operation not found''))"

text \<open>The worker's lookups for a job.\<close>

definition binding_for_job :: "outbox_job \<Rightarrow> hub_store \<Rightarrow> hub_exn + sync_binding" where
  "binding_for_job job s =
     (case ob_binding_id job of
        None \<Rightarrow> Inl (IntegrationNotFound ''notification job has no binding'')
      | Some b \<Rightarrow>
          (case find_row b (hs_bindings s) of
             Some sb \<Rightarrow>
               if sb_connection_id sb = ob_connection_id job \<and> sb_organization_id sb = ob_organization_id job \<and>
                  sb_workspace_id sb = ob_workspace_id job then Inr sb
               else Inl (IntegrationNotFound ''job binding is no longer available'')
           | None \<Rightarrow> Inl (IntegrationNotFound ''job binding is no longer available'')))"

definition operation_for_job :: "outbox_job \<Rightarrow> hub_store \<Rightarrow> hub_exn + issue_operation" where
  "operation_for_job job s =
     (case ob_operation_id job of
        None \<Rightarrow> Inl (IntegrationNotFound ''issue job has no operation'')
      | Some i \<Rightarrow>
          (case find_row i (hs_operations s) of
             Some o' \<Rightarrow>
               if io_connection_id o' = ob_connection_id job \<and> io_organization_id o' = ob_organization_id job \<and>
                  io_workspace_id o' = ob_workspace_id job then Inr o'
               else Inl (IntegrationNotFound ''job operation is no longer available'')
           | None \<Rightarrow> Inl (IntegrationNotFound ''job operation is no longer available'')))"

section \<open>Rows\<close>

text \<open>
  \<open>_insert_job\<close>: the primary key, and the unique index on the kind and the idempotency key where
  there is one.
\<close>

definition job_key :: "outbox_job \<Rightarrow> (job_kind \<times> string) option" where
  "job_key j = map_option (Pair (ob_kind j)) (ob_idempotency_key j)"

definition add_job :: "outbox_job \<Rightarrow> hub_store \<Rightarrow> hub_store option" where
  "add_job j s =
     (if find_row (ob_id j) (hs_jobs s) \<noteq> None \<or>
         (job_key j \<noteq> None \<and> list_ex (\<lambda>(k, j'). job_key j' = job_key j) (hs_jobs s))
      then None else Some (s\<lparr>hs_jobs := hs_jobs s @ [(ob_id j, j)]\<rparr>))"

definition insert_job :: "outbox_job \<Rightarrow> unit hub_act" where
  "insert_job j = insert_or ''outbox_jobs'' (add_job j)"

definition persist_job :: "outbox_job \<Rightarrow> unit hub_act" where
  "persist_job j = write_hub (\<lambda>s. s\<lparr>hs_jobs := update_row (ob_id j) (\<lambda>_. j) (hs_jobs s)\<rparr>)"

definition add_evidence :: "uuid \<Rightarrow> int \<Rightarrow> pydict \<Rightarrow> unit hub_act" where
  "add_evidence job_id fence evidence =
     insert_or ''job_evidence'' (\<lambda>s. map_option (\<lambda>t. s\<lparr>hs_evidence := t\<rparr>) (insert_row (job_id, fence) evidence (hs_evidence s)))"

definition put_operation :: "issue_operation \<Rightarrow> unit hub_act" where
  "put_operation o' = write_hub (\<lambda>s. s\<lparr>hs_operations := update_row (io_id o') (\<lambda>_. o') (hs_operations s)\<rparr>)"

text \<open>\<open>_update_operation_state\<close>: nothing happens without a row.\<close>

definition update_operation_state :: "uuid \<Rightarrow> operation_state \<Rightarrow> int \<Rightarrow> pydict option \<Rightarrow> unit hub_act" where
  "update_operation_state operation_id st now outcome =
     write_hub (\<lambda>s. s\<lparr>hs_operations := update_row operation_id
       (\<lambda>o'. o'\<lparr>io_state := st, io_result := outcome, io_updated_at := now\<rparr>) (hs_operations s)\<rparr>)"

text \<open>The job of a claim: the \<open>SELECT ... WHERE id=? AND state=? AND claim_fence=?\<close> of the handlers.\<close>

definition fenced_job :: "uuid \<Rightarrow> job_state \<Rightarrow> int \<Rightarrow> string \<Rightarrow> hub_store \<Rightarrow> hub_exn + outbox_job" where
  "fenced_job job_id st fence stale s =
     (case find_row job_id (hs_jobs s) of
        Some j \<Rightarrow> if ob_state j = st \<and> ob_claim_fence j = fence then Inr j else Inl (IntegrationConflict stale)
      | None \<Rightarrow> Inl (IntegrationConflict stale))"

section \<open>Intents\<close>

text \<open>\<open>_provider_arguments\<close>.\<close>

definition provider_arguments :: "issue_request \<Rightarrow> connection \<Rightarrow> hub_exn + string \<times> pydict" where
  "provider_arguments request c =
     (let arguments = [(''repository_id'', PStr (cn_repository_id c)), (''repository'', PStr (cn_repository_name c)),
            (''issue_number'', PInt (rq_issue_number request))] in
      case rq_operation_id request of
        IssueComment \<Rightarrow>
          (case rq_body request of
             None \<Rightarrow> Inl (IntegrationValidationError ''comment body is required'')
           | Some b \<Rightarrow> Inr (''integrationExecuteIssueComment'', arguments @ [(''body'', PStr b)]))
      | IssueClose \<Rightarrow> Inr (''integrationExecuteIssueState'', arguments @ [(''state'', PStr ''CLOSED'')])
      | IssueReopen \<Rightarrow> Inr (''integrationExecuteIssueState'', arguments @ [(''state'', PStr ''OPEN'')])
      | IssueQuery \<Rightarrow> Inr (''integrationExecuteIssueQuery'', arguments))"

text \<open>Where an intent comes from: the REST API, or a WeCom message with its reply context.\<close>

record issue_source =
  is_wecom :: bool
  is_event_ref :: "string option"
  is_reply_binding_ref :: "string option"
  is_reply_sender_id :: "string option"
  is_reply_conversation_ref :: "string option"
  is_reply_message_id :: "string option"
  is_reply_context_ref :: "string option"

definition rest_source :: issue_source where
  "rest_source = \<lparr>is_wecom = False, is_event_ref = None, is_reply_binding_ref = None, is_reply_sender_id = None,
     is_reply_conversation_ref = None, is_reply_message_id = None, is_reply_context_ref = None\<rparr>"

definition canonical_intent :: "issue_request \<Rightarrow> sync_binding \<Rightarrow> issue_source \<Rightarrow> pydict" where
  "canonical_intent request b src =
     [(''connectionId'', PStr (rq_connection_id request)), (''bindingId'', PStr (sb_id b)),
      (''operationId'', PStr (action_id (rq_operation_id request))), (''issueNumber'', PInt (rq_issue_number request)),
      (''body'', opt_py (rq_body request)), (''reconcilesOperationId'', opt_py (rq_reconciles_operation_id request)),
      (''sourceKind'', PStr (if is_wecom src then ''WECOM_COMMAND'' else ''REST'')), (''sourceEventRef'', opt_py (is_event_ref src))]"

definition keyed_operation :: "scope \<Rightarrow> uuid \<Rightarrow> string \<Rightarrow> issue_operation \<Rightarrow> bool" where
  "keyed_operation sc connection_id key o' =
     ((io_organization_id o', io_workspace_id o', io_actor_issuer o', io_actor_subject o') = sc \<and>
      io_connection_id o' = connection_id \<and> io_idempotency_key o' = key)"

definition find_keyed_operation :: "scope \<Rightarrow> uuid \<Rightarrow> string \<Rightarrow> hub_store \<Rightarrow> issue_operation option" where
  "find_keyed_operation sc connection_id key s =
     map_option snd (find (\<lambda>(k, o'). keyed_operation sc connection_id key o') (hs_operations s))"

definition new_operation ::
  "issue_request \<Rightarrow> sync_binding \<Rightarrow> actor_binding \<Rightarrow> connection \<Rightarrow> scope \<Rightarrow> issue_source \<Rightarrow> string \<Rightarrow> string \<Rightarrow> string \<Rightarrow>
   uuid \<Rightarrow> int \<Rightarrow> issue_operation" where
  "new_operation request b a c sc src execution argument_digest request_digest new_id now =
     (case sc of (organization, workspace, issuer, subject) \<Rightarrow>
      \<lparr>io_id = new_id, io_organization_id = organization, io_workspace_id = workspace, io_actor_issuer = issuer,
       io_actor_subject = subject, io_connection_id = cn_id c, io_binding_id = sb_id b, io_actor_binding_id = ab_id a,
       io_account_link_ref = ab_account_link_ref a, io_delegation_ref = Some (ab_delegation_ref a),
       io_execution_operation_id = execution, io_authority_invocation_id = None, io_authority_idempotency_key = None,
       io_argument_digest = argument_digest, io_reconciles_operation_id = rq_reconciles_operation_id request,
       io_operation_id = rq_operation_id request, io_idempotency_key = rq_idempotency_key request,
       io_request_hash = request_digest, io_from_wecom = is_wecom src, io_source_event_ref = is_event_ref src,
       io_reply_binding_ref = is_reply_binding_ref src, io_reply_sender_id = is_reply_sender_id src,
       io_reply_conversation_ref = is_reply_conversation_ref src, io_reply_message_id = is_reply_message_id src,
       io_reply_context_ref = is_reply_context_ref src, io_issue_number = rq_issue_number request, io_body = rq_body request,
       io_state = Queued, io_result = None, io_created_at = now, io_updated_at = now\<rparr>)"

definition intent_job :: "issue_operation \<Rightarrow> pydict \<Rightarrow> uuid \<Rightarrow> int \<Rightarrow> outbox_job" where
  "intent_job o' payload new_id now =
     \<lparr>ob_id = new_id, ob_kind = IssueAction, ob_organization_id = io_organization_id o', ob_workspace_id = io_workspace_id o',
      ob_actor_issuer = io_actor_issuer o', ob_actor_subject = io_actor_subject o', ob_connection_id = io_connection_id o',
      ob_binding_id = Some (io_binding_id o'), ob_operation_id = Some (io_id o'),
      ob_idempotency_key = Some (''operation:'' @ io_id o'), ob_authority_invocation_id = None,
      ob_authority_idempotency_key = None, ob_authority_state = None, ob_payload = payload, ob_state = Ready, ob_attempts = 0,
      ob_available_at = now, ob_claim_owner = None, ob_claim_fence = 0, ob_lease_expires_at = None, ob_created_at = now,
      ob_updated_at = now\<rparr>"

definition add_operation :: "issue_operation \<Rightarrow> hub_store \<Rightarrow> hub_store option" where
  "add_operation o' s = map_option (\<lambda>t. s\<lparr>hs_operations := t\<rparr>) (insert_row (io_id o') o' (hs_operations s))"

definition persist_issue_action ::
  "issue_request \<Rightarrow> sync_binding \<Rightarrow> actor_binding \<Rightarrow> connection \<Rightarrow> scope \<Rightarrow> issue_source \<Rightarrow> uuid \<Rightarrow> uuid \<Rightarrow> int \<Rightarrow>
   issue_operation hub_act" where
  "persist_issue_action request b a c sc src op_id job_id now =
     (let canonical = canonical_intent request b src; request_digest = digest_of canonical in
      mutation (
        bind (look (\<lambda>s. Inr (find_keyed_operation sc (cn_id c) (rq_idempotency_key request) s))) (\<lambda>existing.
        case existing of
          Some o' \<Rightarrow>
            if io_request_hash o' \<noteq> request_digest
            then raise (IntegrationConflict ''idempotency key was reused for a different request'')
            else ret o'
        | None \<Rightarrow>
            bind (result (provider_arguments request c)) (\<lambda>(execution, arguments).
            let o' = new_operation request b a c sc src execution (digest_of arguments) request_digest op_id now in
            andthen (insert_or ''operations'' (add_operation o'))
              (andthen (insert_job (intent_job o' canonical job_id now)) (ret o'))))))"

definition enqueue_issue_action ::
  "hub_principal \<Rightarrow> issue_request \<Rightarrow> string option \<Rightarrow> uuid \<Rightarrow> uuid \<Rightarrow> int \<Rightarrow> issue_operation hub_act" where
  "enqueue_issue_action p request authorization op_id job_id now =
     (let permission = (if given authorization then the authorization else action_id (rq_operation_id request)) in
      bind (result (require_grant p permission now)) (\<lambda>_.
      if rq_operation_id request = IssueComment \<and> \<not> given (rq_body request)
      then raise (IntegrationValidationError ''comment body is required'')
      else if rq_operation_id request \<noteq> IssueComment \<and> rq_body request \<noteq> None
      then raise (IntegrationValidationError ''body is only accepted for comment operations'')
      else
        bind (look (binding_for_scope p (rq_binding_id request))) (\<lambda>b.
        if \<not> sb_enabled b \<or> sb_connection_id b \<noteq> rq_connection_id request
        then raise (IntegrationAuthorizationError ''issue action binding does not match connection'')
        else
          bind (look (actor_binding_for_operation p (sb_id b) permission now)) (\<lambda>a.
          bind (look (connection_for_scope p (rq_connection_id request))) (\<lambda>c.
          persist_issue_action request b a c (scope_of p) rest_source op_id job_id now)))))"

end
