(* ===== verification/Outbox_Jobs.thy ===== *)
theory Outbox_Jobs
  imports Outbox
begin

text \<open>
  What happens to a job of the outbox (\<open>integrations/store.py\<close>): claiming, the write boundary,
  Authority's evidence, the terminal facts with the reply they queue, recovery of expired leases and
  read-only retries. Every transition names the state and the fence it starts from.
\<close>

section \<open>Replies\<close>

text \<open>The UUID a reply of an operation would get, and how a float of the evidence is rendered.\<close>

record reply_env =
  rp_new_id :: "uuid \<Rightarrow> uuid"
  rp_float :: "pyfloat \<Rightarrow> string"

text \<open>\<open>_enqueue_command_reply\<close> and \<open>_enqueue_reply_for_operation\<close>.\<close>

definition reply_key :: "issue_operation \<Rightarrow> string" where
  "reply_key o' = ''command-reply:'' @ (case io_source_event_ref o' of None \<Rightarrow> ''None'' | Some e \<Rightarrow> e) @ '':'' @ io_id o'"

definition has_reply_context :: "issue_operation \<Rightarrow> bool" where
  "has_reply_context o' = (io_from_wecom o' \<and> given (io_source_event_ref o') \<and> given (io_reply_binding_ref o') \<and>
     given (io_reply_sender_id o') \<and> given (io_reply_conversation_ref o') \<and> given (io_reply_message_id o') \<and>
     given (io_reply_context_ref o'))"

definition reply_job :: "reply_env \<Rightarrow> issue_operation \<Rightarrow> string \<Rightarrow> job_state \<Rightarrow> pydict \<Rightarrow> int \<Rightarrow> outbox_job" where
  "reply_job env o' repository_name st evidence now =
     \<lparr>ob_id = rp_new_id env (io_id o'), ob_kind = CommandReply, ob_organization_id = io_organization_id o',
      ob_workspace_id = io_workspace_id o', ob_actor_issuer = io_actor_issuer o', ob_actor_subject = io_actor_subject o',
      ob_connection_id = io_connection_id o', ob_binding_id = Some (io_binding_id o'), ob_operation_id = Some (io_id o'),
      ob_idempotency_key = Some (reply_key o'), ob_authority_invocation_id = None, ob_authority_idempotency_key = None,
      ob_authority_state = None,
      ob_payload =
        [(''eventId'', opt_py (io_source_event_ref o')), (''sourceBindingId'', opt_py (io_reply_binding_ref o')),
         (''senderId'', opt_py (io_reply_sender_id o')), (''conversationRef'', opt_py (io_reply_conversation_ref o')),
         (''replyMessageId'', opt_py (io_reply_message_id o')), (''replyContextRef'', opt_py (io_reply_context_ref o')),
         (''text'', PStr (render_issue_command_result (rp_float env) o' repository_name st evidence))],
      ob_state = Ready, ob_attempts = 0, ob_available_at = now, ob_claim_owner = None, ob_claim_fence = 0,
      ob_lease_expires_at = None, ob_created_at = now, ob_updated_at = now\<rparr>"

definition reply_connection :: "issue_operation \<Rightarrow> hub_store \<Rightarrow> hub_exn + connection" where
  "reply_connection o' s =
     (case find_row (io_connection_id o') (hs_connections s) of
        Some c \<Rightarrow>
          if cn_organization_id c = io_organization_id o' \<and> cn_workspace_id c = io_workspace_id o' then Inr c
          else Inl (IntegrationNotFound ''reply repository connection not found'')
      | None \<Rightarrow> Inl (IntegrationNotFound ''reply repository connection not found''))"

definition enqueue_command_reply :: "reply_env \<Rightarrow> issue_operation \<Rightarrow> job_state \<Rightarrow> pydict \<Rightarrow> int \<Rightarrow> unit hub_act" where
  "enqueue_command_reply env o' st evidence now =
     (if \<not> has_reply_context o' then ret ()
      else
        bind (look (reply_connection o')) (\<lambda>c.
        let reply = reply_job env o' (cn_repository_name c) st evidence now in
        if length (reply_key o') > 300 then raise (ValidationError ''validation error for OutboxJob'')
        else insert_job reply))"

definition enqueue_reply_for_operation :: "reply_env \<Rightarrow> uuid \<Rightarrow> job_state \<Rightarrow> pydict \<Rightarrow> int \<Rightarrow> unit hub_act" where
  "enqueue_reply_for_operation env operation_id st evidence now =
     bind (look (\<lambda>s. Inr (find_row operation_id (hs_operations s)))) (\<lambda>row.
     case row of None \<Rightarrow> ret () | Some o' \<Rightarrow> enqueue_command_reply env o' st evidence now)"

text \<open>The event a reply job answers, when its payload names one.\<close>

definition set_event_state :: "string \<Rightarrow> uuid option \<Rightarrow> wecom_state \<Rightarrow> unit hub_act" where
  "set_event_state event_ref binding st =
     write_hub (\<lambda>s. s\<lparr>hs_wecom := update_row event_ref
       (\<lambda>e. if binding = None \<or> binding = Some (we_binding_id e) then e\<lparr>we_state := st\<rparr> else e) (hs_wecom s)\<rparr>)"

definition settle_event :: "outbox_job \<Rightarrow> uuid option \<Rightarrow> wecom_state \<Rightarrow> unit hub_act" where
  "settle_event j binding st =
     (if ob_kind j = CommandReply \<or> ob_kind j = ChallengeReply then
        (case dget (ob_payload j) ''eventId'' of PStr e \<Rightarrow> set_event_state e binding st | _ \<Rightarrow> ret ())
      else ret ())"

section \<open>Recovery of expired leases\<close>

definition microseconds :: "int \<Rightarrow> int" where
  "microseconds n = n * 1000000"

text \<open>\<open>timedelta(seconds=min(30, 2 ** (attempts - 1)))\<close>; a job that was sent has been attempted.\<close>

definition backoff :: "int \<Rightarrow> int" where
  "backoff attempts =
     (if 1 \<le> attempts then microseconds (min 30 (2 ^ nat (attempts - 1))) else 1000000 div 2 ^ nat (1 - attempts))"

definition released :: "outbox_job \<Rightarrow> job_state \<Rightarrow> int \<Rightarrow> outbox_job" where
  "released j st now = j\<lparr>ob_state := st, ob_claim_owner := None, ob_lease_expires_at := None, ob_updated_at := now\<rparr>"

definition requeued :: "outbox_job \<Rightarrow> int \<Rightarrow> int \<Rightarrow> outbox_job" where
  "requeued j available now =
     (released j Ready now)\<lparr>ob_authority_invocation_id := None, ob_authority_idempotency_key := None,
        ob_authority_state := None, ob_available_at := available\<rparr>"

definition readonly_query :: "outbox_job \<Rightarrow> bool" where
  "readonly_query j = (ob_kind j = IssueAction \<and> dget (ob_payload j) ''operationId'' = PStr (action_id IssueQuery))"

text \<open>A query that will be tried again forgets its Authority attempt.\<close>

definition forget_authority :: "uuid \<Rightarrow> unit hub_act" where
  "forget_authority operation_id =
     write_hub (\<lambda>s. s\<lparr>hs_operations := update_row operation_id
       (\<lambda>o'. o'\<lparr>io_authority_invocation_id := None, io_authority_idempotency_key := None\<rparr>) (hs_operations s)\<rparr>)"

definition reason :: "string \<Rightarrow> pydict" where
  "reason c = [(''reasonCode'', PStr c)]"

text \<open>What an expired send becomes, and the state and reason its operation gets.\<close>

definition expired_send :: "outbox_job \<Rightarrow> int \<Rightarrow> outbox_job \<times> operation_state \<times> string" where
  "expired_send j now =
     (if readonly_query j \<and> ob_attempts j < 4
      then (requeued j (now + backoff (ob_attempts j)) now, Queued, ''readonly_query_retry_after_crash'')
      else if readonly_query j
      then (released j JobFailed now, OpFailed, ''readonly_query_attempts_exhausted'')
      else (released j Unknown now, OpUnknown, ''send_outcome_unknown_after_lease_expiry''))"

definition settle_expired :: "reply_env \<Rightarrow> int \<Rightarrow> uuid \<Rightarrow> operation_state \<Rightarrow> string \<Rightarrow> unit hub_act" where
  "settle_expired env now operation_id st why =
     andthen (if st = Queued then forget_authority operation_id else ret ())
       (andthen (update_operation_state operation_id st now (Some (reason why)))
         (if st = OpUnknown then enqueue_reply_for_operation env operation_id Unknown (reason why) now
          else if st = OpFailed then enqueue_reply_for_operation env operation_id JobFailed (reason why) now
          else ret ()))"

definition recover_job :: "reply_env \<Rightarrow> int \<Rightarrow> outbox_job \<Rightarrow> unit hub_act" where
  "recover_job env now j =
     (if ob_state j = Claimed
      then persist_job (released j (if given (ob_authority_invocation_id j) then AwaitingAuthority else Ready) now)
      else
        (case expired_send j now of (updated, st, why) \<Rightarrow>
           andthen (case ob_operation_id j of None \<Rightarrow> ret () | Some i \<Rightarrow> settle_expired env now i st why)
             (persist_job updated)))"

definition expired :: "int \<Rightarrow> outbox_job \<Rightarrow> bool" where
  "expired now j = ((ob_state j = Claimed \<or> ob_state j = Sending) \<and>
     (case ob_lease_expires_at j of None \<Rightarrow> False | Some t \<Rightarrow> t \<le> now))"

fun recover_jobs :: "reply_env \<Rightarrow> int \<Rightarrow> outbox_job list \<Rightarrow> unit hub_act" where
  "recover_jobs env now [] = ret ()"
| "recover_jobs env now (j # js) = andthen (recover_job env now j) (recover_jobs env now js)"

definition recover_expired_claims :: "reply_env \<Rightarrow> int \<Rightarrow> nat hub_act" where
  "recover_expired_claims env now =
     mutation (
       bind (look (\<lambda>s. Inr (map snd (select (\<lambda>_. expired now) (hs_jobs s))))) (\<lambda>js.
       andthen (recover_jobs env now js) (ret (length js))))"

section \<open>Claiming\<close>

definition claimable :: "int \<Rightarrow> outbox_job \<Rightarrow> bool" where
  "claimable now j = ((ob_state j = Ready \<or> ob_state j = AwaitingAuthority) \<and> ob_available_at j \<le> now)"

text \<open>\<open>ORDER BY available_at, created_at, id LIMIT 1\<close>.\<close>

definition next_claimable :: "int \<Rightarrow> hub_store \<Rightarrow> outbox_job option" where
  "next_claimable now s =
     (case sort_key (\<lambda>j. (ob_available_at j, ob_created_at j, ob_id j)) (map snd (select (\<lambda>_. claimable now) (hs_jobs s))) of
        [] \<Rightarrow> None
      | j # js \<Rightarrow> Some j)"

definition claimed :: "outbox_job \<Rightarrow> string \<Rightarrow> int \<Rightarrow> int \<Rightarrow> outbox_job" where
  "claimed j worker now lease_seconds =
     j\<lparr>ob_state := Claimed, ob_claim_owner := Some worker, ob_claim_fence := ob_claim_fence j + 1,
       ob_lease_expires_at := Some (now + microseconds lease_seconds), ob_attempts := ob_attempts j + 1, ob_updated_at := now\<rparr>"

definition claim_next :: "string \<Rightarrow> int \<Rightarrow> int \<Rightarrow> claimed_job option hub_act" where
  "claim_next worker now lease_seconds =
     mutation (
       bind (look (\<lambda>s. Inr (next_claimable now s))) (\<lambda>row.
       case row of
         None \<Rightarrow> ret None
       | Some j \<Rightarrow>
           (let updated = claimed j worker now lease_seconds in
            andthen (persist_job updated)
              (ret (Some \<lparr>cj_job = updated, cj_claim_fence = ob_claim_fence updated, cj_claimed_from_state = ob_state j\<rparr>)))))"

definition claim_job :: "reply_env \<Rightarrow> string \<Rightarrow> int \<Rightarrow> int \<Rightarrow> claimed_job option hub_act" where
  "claim_job env worker now lease_seconds =
     (if worker = [] \<or> length worker > 200 \<or> lease_seconds < 1 \<or> lease_seconds > 300
      then raise (HubValueError ''worker id or lease duration is invalid'')
      else andthen (recover_expired_claims env now) (claim_next worker now lease_seconds))"

section \<open>The write boundary\<close>

definition mark_sending :: "uuid \<Rightarrow> int \<Rightarrow> int \<Rightarrow> outbox_job hub_act" where
  "mark_sending job_id fence now =
     mutation (
       bind (look (fenced_job job_id Claimed fence ''job claim is stale or expired'')) (\<lambda>j.
       if (case ob_lease_expires_at j of None \<Rightarrow> True | Some t \<Rightarrow> t \<le> now)
       then raise (IntegrationConflict ''job claim is stale or expired'')
       else
         (let sending = j\<lparr>ob_state := Sending, ob_updated_at := now\<rparr> in
          andthen (persist_job sending)
            (andthen (case ob_operation_id j of
                        Some i \<Rightarrow> if ob_kind j = IssueAction then update_operation_state i Running now None else ret ()
                      | None \<Rightarrow> ret ())
              (ret sending)))))"

text \<open>
  \<open>fail_claimed_job\<close>: for an issue action the code queues the reply twice, once through
  \<open>_enqueue_reply_for_operation\<close> and once more with the operation it has just read.
\<close>

definition fail_operation :: "reply_env \<Rightarrow> uuid \<Rightarrow> pydict \<Rightarrow> int \<Rightarrow> unit hub_act" where
  "fail_operation env operation_id why now =
     andthen (update_operation_state operation_id OpFailed now (Some why))
       (andthen (enqueue_reply_for_operation env operation_id JobFailed why now)
         (enqueue_reply_for_operation env operation_id JobFailed why now))"

definition fail_claimed_job :: "reply_env \<Rightarrow> uuid \<Rightarrow> int \<Rightarrow> string \<Rightarrow> int \<Rightarrow> outbox_job hub_act" where
  "fail_claimed_job env job_id fence reason_code now =
     (let why = reason (take 100 reason_code) in
      mutation (
        bind (look (fenced_job job_id Claimed fence ''job claim is stale'')) (\<lambda>j.
        let failed = released j JobFailed now in
        andthen (persist_job failed)
          (andthen (add_evidence job_id fence why)
            (andthen (case ob_operation_id j of
                        Some i \<Rightarrow> if ob_kind j = IssueAction then fail_operation env i why now else ret ()
                      | None \<Rightarrow> ret ())
              (andthen (settle_event j None EventRejected) (ret failed)))))))"

end
