(* ===== verification/Outbox_Authority.thy ===== *)
theory Outbox_Authority
  imports Outbox_Jobs
begin

text \<open>
  The Authority side of an intent (\<open>integrations/store.py\<close>): the request key and the invocation it
  is bound to, the signed execution that moves it to \<open>SENDING\<close>, the terminal facts, retries of
  queries, and the reconciliation of unknown writes.
\<close>

section \<open>Requesting an execution\<close>

definition need_operation :: "uuid \<Rightarrow> string \<Rightarrow> hub_store \<Rightarrow> hub_exn + issue_operation" where
  "need_operation operation_id missing s =
     (case find_row operation_id (hs_operations s) of None \<Rightarrow> Inl (IntegrationNotFound missing) | Some o' \<Rightarrow> Inr o')"

definition prepare_authority_enqueue ::
  "uuid \<Rightarrow> int \<Rightarrow> string \<Rightarrow> int \<Rightarrow> (issue_operation \<times> outbox_job \<times> string) hub_act" where
  "prepare_authority_enqueue job_id fence candidate now =
     (if candidate = [] \<or> length candidate > 300
      then raise (IntegrationValidationError ''Authority idempotency key is invalid'')
      else mutation (
        bind (look (fenced_job job_id Claimed fence ''job claim is stale'')) (\<lambda>j.
        case ob_operation_id j of
          None \<Rightarrow> raise (IntegrationNotFound ''Authority job has no operation'')
        | Some i \<Rightarrow>
            bind (look (need_operation i ''Authority operation not found'')) (\<lambda>o'.
            if ob_authority_idempotency_key j \<noteq> io_authority_idempotency_key o'
            then raise (IntegrationConflict ''Authority idempotency records do not match'')
            else
              (let key = (if given (ob_authority_idempotency_key j) then the (ob_authority_idempotency_key j) else candidate);
                   prepared = j\<lparr>ob_authority_idempotency_key := Some key, ob_updated_at := now\<rparr>;
                   prepared_operation = o'\<lparr>io_authority_idempotency_key := Some key, io_updated_at := now\<rparr> in
               andthen (persist_job prepared)
                 (andthen (put_operation prepared_operation) (ret (prepared_operation, prepared, key))))))))"

definition mark_awaiting_authority :: "uuid \<Rightarrow> int \<Rightarrow> string \<Rightarrow> string \<Rightarrow> int \<Rightarrow> outbox_job hub_act" where
  "mark_awaiting_authority job_id fence invocation_id authority_state now =
     (if invocation_id = [] \<or> length invocation_id > 300
      then raise (IntegrationValidationError ''authority invocation reference is invalid'')
      else mutation (
        bind (look (fenced_job job_id Claimed fence ''job claim is stale'')) (\<lambda>j.
        if ob_authority_invocation_id j \<notin> {None, Some invocation_id}
        then raise (IntegrationConflict ''job already references a different Authority invocation'')
        else
          (let updated = (released j AwaitingAuthority now)
                 \<lparr>ob_authority_invocation_id := Some invocation_id, ob_authority_state := Some authority_state\<rparr> in
           andthen (persist_job updated)
             (andthen (case ob_operation_id j of
                         None \<Rightarrow> ret ()
                       | Some i \<Rightarrow>
                           bind (look (need_operation i ''authorized operation not found'')) (\<lambda>o'.
                           put_operation (o'\<lparr>io_state := OpAwaiting, io_authority_invocation_id := Some invocation_id,
                             io_updated_at := now\<rparr>)))
               (ret updated))))))"

definition update_authority_evidence :: "uuid \<Rightarrow> int \<Rightarrow> string \<Rightarrow> string \<Rightarrow> int \<Rightarrow> outbox_job hub_act" where
  "update_authority_evidence job_id fence invocation_id authority_state now =
     mutation (
       bind (look (fenced_job job_id Claimed fence ''job claim is stale'')) (\<lambda>j.
       if ob_authority_invocation_id j \<noteq> Some invocation_id
       then raise (IntegrationConflict ''Authority invocation does not match the durable intent'')
       else
         (let updated = (released j AwaitingAuthority now)
                \<lparr>ob_authority_state := Some authority_state, ob_available_at := now + microseconds 2\<rparr> in
          andthen (persist_job updated)
            (andthen (case ob_operation_id j of
                        None \<Rightarrow> ret ()
                      | Some i \<Rightarrow>
                          bind (look (need_operation i ''authorized operation not found'')) (\<lambda>o'.
                          if io_state o' = OpAwaiting then put_operation (o'\<lparr>io_updated_at := now\<rparr>) else ret ()))
              (ret updated)))))"

definition mark_authority_result_unknown :: "reply_env \<Rightarrow> uuid \<Rightarrow> int \<Rightarrow> string \<Rightarrow> int \<Rightarrow> outbox_job hub_act" where
  "mark_authority_result_unknown env job_id fence invocation_id now =
     (let evidence = [(''authorityState'', PStr ''UNKNOWN_RESULT'')] in
      mutation (
        bind (look (fenced_job job_id Claimed fence ''Authority result claim is stale'')) (\<lambda>j.
        if ob_authority_invocation_id j \<noteq> Some invocation_id
        then raise (IntegrationConflict ''Authority result invocation does not match intent'')
        else
          (let updated = (released j Unknown now)\<lparr>ob_authority_state := Some ''UNKNOWN_RESULT''\<rparr> in
           andthen (persist_job updated)
             (andthen (add_evidence job_id fence evidence)
               (andthen (case ob_operation_id j of
                           None \<Rightarrow> ret ()
                         | Some i \<Rightarrow>
                             andthen (update_operation_state i OpUnknown now (Some evidence))
                               (enqueue_reply_for_operation env i Unknown evidence now))
                 (ret updated)))))))"

section \<open>Signed execution\<close>

definition need_scoped_binding :: "hub_principal \<Rightarrow> uuid \<Rightarrow> uuid \<Rightarrow> hub_store \<Rightarrow> hub_exn + sync_binding" where
  "need_scoped_binding p binding_id connection_id s =
     (case find_row binding_id (hs_bindings s) of
        Some b \<Rightarrow>
          if sb_connection_id b = connection_id \<and> sb_organization_id b = hp_organization_id p \<and> sb_workspace_id b = hp_workspace_id p
          then Inr b else Inl (IntegrationNotFound ''execution binding no longer exists in workspace scope'')
      | None \<Rightarrow> Inl (IntegrationNotFound ''execution binding no longer exists in workspace scope''))"

definition need_attachment :: "hub_principal \<Rightarrow> uuid \<Rightarrow> uuid \<Rightarrow> hub_store \<Rightarrow> hub_exn + actor_binding" where
  "need_attachment p actor_binding_id binding_id s =
     (case find_row actor_binding_id (hs_actor_bindings s) of
        Some a \<Rightarrow>
          if attached binding_id (scope_of p) a then Inr a
          else Inl (IntegrationNotFound ''member authority attachment no longer exists'')
      | None \<Rightarrow> Inl (IntegrationNotFound ''member authority attachment no longer exists''))"

definition executable_operation :: "hub_principal \<Rightarrow> uuid \<Rightarrow> hub_store \<Rightarrow> hub_exn + issue_operation" where
  "executable_operation p operation_id s =
     (case find_row operation_id (hs_operations s) of
        Some o' \<Rightarrow>
          if (io_organization_id o', io_workspace_id o', io_actor_issuer o', io_actor_subject o') = scope_of p \<and>
             (io_state o' = Queued \<or> io_state o' = OpAwaiting) then Inr o'
          else Inl (IntegrationConflict ''operation is not awaiting Authority execution'')
      | None \<Rightarrow> Inl (IntegrationConflict ''operation is not awaiting Authority execution''))"

definition waiting_job :: "uuid \<Rightarrow> hub_store \<Rightarrow> hub_exn + outbox_job" where
  "waiting_job operation_id s =
     (case select (\<lambda>_ j. ob_operation_id j = Some operation_id \<and> (ob_state j = AwaitingAuthority \<or> ob_state j = Claimed)) (hs_jobs s) of
        [] \<Rightarrow> Inl (IntegrationConflict ''operation has no awaiting outbox job'')
      | (k, j) # rest \<Rightarrow> Inr j)"

text \<open>The approved invocation names what the stored intent is.\<close>

definition intent_matches :: "issue_operation \<Rightarrow> uuid \<Rightarrow> string \<Rightarrow> string \<Rightarrow> string \<Rightarrow> bool" where
  "intent_matches o' binding_id execution argument_digest invocation_id =
     (io_binding_id o' = binding_id \<and> io_execution_operation_id o' = execution \<and> io_argument_digest o' = argument_digest \<and>
      io_authority_invocation_id o' \<in> {None, Some invocation_id})"

definition job_matches :: "hub_principal \<Rightarrow> outbox_job \<Rightarrow> uuid \<Rightarrow> string \<Rightarrow> bool" where
  "job_matches p j binding_id invocation_id =
     (ob_binding_id j = Some binding_id \<and> ob_authority_invocation_id j \<in> {None, Some invocation_id} \<and>
      (ob_organization_id j, ob_workspace_id j, ob_actor_issuer j, ob_actor_subject j) = scope_of p)"

definition execution_bindings_ok :: "sync_binding \<Rightarrow> actor_binding \<Rightarrow> issue_operation \<Rightarrow> bool" where
  "execution_bindings_ok b a o' =
     (sb_enabled b \<and> ab_enabled a \<and> Some (ab_delegation_ref a) = io_delegation_ref o' \<and>
      ab_account_link_ref a = io_account_link_ref o')"

definition begin_authorized_execution ::
  "hub_principal \<Rightarrow> uuid \<Rightarrow> uuid \<Rightarrow> string \<Rightarrow> string \<Rightarrow> string \<Rightarrow> int \<Rightarrow> int \<Rightarrow> (issue_operation \<times> outbox_job \<times> int) hub_act" where
  "begin_authorized_execution p operation_id binding_id execution argument_digest invocation_id lease_seconds now =
     bind (result (require_grant p execution now)) (\<lambda>_.
     mutation (
       bind (look (executable_operation p operation_id)) (\<lambda>o'.
       bind (result (guard (intent_matches o' binding_id execution argument_digest invocation_id)
               (IntegrationAuthorizationError ''approved invocation does not match intent''))) (\<lambda>_.
       bind (look (need_scoped_binding p binding_id (io_connection_id o'))) (\<lambda>b.
       bind (look (need_attachment p (io_actor_binding_id o') binding_id)) (\<lambda>a.
       bind (look (visible_connection (io_connection_id o') (hp_organization_id p) (hp_workspace_id p)
               ''execution connection no longer exists in actor scope'')) (\<lambda>c.
       bind (result (guard (execution_bindings_ok b a o')
               (IntegrationAuthorizationError ''execution binding is disabled or mismatched''))) (\<lambda>_.
       bind (look (waiting_job operation_id)) (\<lambda>j.
       bind (result (guard (job_matches p j binding_id invocation_id)
               (IntegrationAuthorizationError ''approved invocation scope does not match''))) (\<lambda>_.
       let fence = ob_claim_fence j + 1;
           sending = j\<lparr>ob_state := Sending, ob_claim_owner := Some (''authority:'' @ invocation_id), ob_claim_fence := fence,
             ob_lease_expires_at := Some (now + microseconds lease_seconds), ob_attempts := ob_attempts j + 1,
             ob_updated_at := now, ob_authority_invocation_id := Some invocation_id\<rparr>;
           running = o'\<lparr>io_state := Running, io_authority_invocation_id := Some invocation_id, io_updated_at := now\<rparr> in
       andthen (persist_job sending) (andthen (put_operation running) (ret (running, sending, fence)))))))))))))"

section \<open>Terminal facts\<close>

fun operation_state_of :: "job_state \<Rightarrow> operation_state option" where
  "operation_state_of Accepted = Some OpAccepted"
| "operation_state_of Succeeded = Some OpSucceeded"
| "operation_state_of JobFailed = Some OpFailed"
| "operation_state_of Unknown = Some OpUnknown"
| "operation_state_of _ = None"

definition add_receipt :: "outbox_job \<Rightarrow> delivery_receipt \<Rightarrow> unit hub_act" where
  "add_receipt j r =
     (let bound = r\<lparr>dr_job_id := Some (ob_id j), dr_operation_id := ob_operation_id j\<rparr> in
      insert_or ''delivery_receipts'' (\<lambda>s. map_option (\<lambda>t. s\<lparr>hs_receipts := t\<rparr>) (insert_row (dr_id bound) bound (hs_receipts s))))"

definition event_state_of :: "job_state \<Rightarrow> wecom_state" where
  "event_state_of st = (if st = Accepted then ReplyAccepted else if st = Unknown then EventUnknown else EventRejected)"

definition finish_job ::
  "reply_env \<Rightarrow> uuid \<Rightarrow> int \<Rightarrow> job_state \<Rightarrow> pydict \<Rightarrow> delivery_receipt option \<Rightarrow> int \<Rightarrow> outbox_job hub_act" where
  "finish_job env job_id fence status evidence receipt clock =
     (case operation_state_of status of
        None \<Rightarrow> raise (HubValueError ''finish status must be an explicit terminal/evidence state'')
      | Some operation_state \<Rightarrow>
          (let now = (case receipt of None \<Rightarrow> clock | Some r \<Rightarrow> dr_observed_at r) in
           mutation (
             bind (look (fenced_job job_id Sending fence ''job send fence is stale'')) (\<lambda>j.
             let finished = released j status now in
             andthen (persist_job finished)
               (andthen (add_evidence job_id fence evidence)
                 (andthen (case ob_operation_id j of
                             None \<Rightarrow> ret ()
                           | Some i \<Rightarrow>
                               if ob_kind j = IssueAction
                               then andthen (update_operation_state i operation_state now (Some evidence))
                                      (enqueue_reply_for_operation env i status evidence now)
                               else ret ())
                   (andthen (case receipt of None \<Rightarrow> ret () | Some r \<Rightarrow> add_receipt j r)
                     (andthen (settle_event j (Some (case ob_binding_id j of None \<Rightarrow> ''None'' | Some b \<Rightarrow> b)) (event_state_of status))
                       (ret finished)))))))))"

text \<open>\<open>retry_readonly_job\<close>: exponential backoff bounded by 30 seconds, the provider's delay by 60.\<close>

definition retry_delay :: "int \<Rightarrow> int option \<Rightarrow> int" where
  "retry_delay attempts retry_after =
     min (microseconds 60) (max (backoff attempts) (microseconds (case retry_after of None \<Rightarrow> 0 | Some n \<Rightarrow> n)))"

definition retry_readonly_job :: "reply_env \<Rightarrow> uuid \<Rightarrow> int \<Rightarrow> int \<Rightarrow> int option \<Rightarrow> outbox_job hub_act" where
  "retry_readonly_job env job_id fence now retry_after =
     (let why = reason ''readonly_provider_error'' in
      mutation (
        bind (look (fenced_job job_id Sending fence ''read retry fence is stale'')) (\<lambda>j.
        if \<not> readonly_query j then raise (IntegrationAuthorizationError ''only issue queries can be retried'')
        else
          (let exhausted = 4 \<le> ob_attempts j;
               updated = (if exhausted then released j JobFailed now
                          else requeued j (now + retry_delay (ob_attempts j) retry_after) now) in
           andthen (persist_job updated)
             (andthen (add_evidence job_id fence why)
               (andthen (case ob_operation_id j of
                           None \<Rightarrow> ret ()
                         | Some i \<Rightarrow>
                             andthen (if exhausted then ret () else forget_authority i)
                               (andthen (update_operation_state i (if exhausted then OpFailed else Queued) now (Some why))
                                 (if exhausted then enqueue_reply_for_operation env i JobFailed why now else ret ())))
                 (ret updated)))))))"

section \<open>Reconciliation\<close>

text \<open>\<open>resolve_unknown_operation\<close>.\<close>

fun settle_unknown_jobs :: "outbox_job list \<Rightarrow> pydict \<Rightarrow> int \<Rightarrow> unit hub_act" where
  "settle_unknown_jobs [] outcome now = ret ()"
| "settle_unknown_jobs (j # js) outcome now =
     andthen (persist_job (j\<lparr>ob_state := Succeeded, ob_updated_at := now\<rparr>))
       (andthen (write_hub (\<lambda>s. s\<lparr>hs_evidence := replace_row (ob_id j, ob_claim_fence j)
                   (foldl (\<lambda>d (k, v). dset k v d) [(''reconciledReadOnly'', PBool True)] outcome) (hs_evidence s)\<rparr>))
         (settle_unknown_jobs js outcome now))"

definition unknown_operation :: "hub_principal \<Rightarrow> uuid \<Rightarrow> hub_store \<Rightarrow> hub_exn + issue_operation" where
  "unknown_operation p operation_id s =
     (case find_row operation_id (hs_operations s) of
        Some o' \<Rightarrow>
          if (io_organization_id o', io_workspace_id o', io_actor_issuer o', io_actor_subject o') = scope_of p \<and> io_state o' = OpUnknown
          then Inr o' else Inl (IntegrationNotFound ''unknown integration operation not found'')
      | None \<Rightarrow> Inl (IntegrationNotFound ''unknown integration operation not found''))"

definition reconcile_audit :: "hub_principal \<Rightarrow> uuid \<Rightarrow> bool \<Rightarrow> uuid \<Rightarrow> int \<Rightarrow> operation_audit" where
  "reconcile_audit p operation_id succeeded new_id now =
     \<lparr>oa_id = new_id, oa_organization_id = hp_organization_id p, oa_workspace_id = hp_workspace_id p,
      oa_actor_issuer = Some (hp_issuer p), oa_actor_subject = Some (hp_subject p), oa_resource_type = ''integration.operation'',
      oa_resource_id = operation_id, oa_action = ''reconcile'', oa_outcome = (if succeeded then ''SUCCEEDED'' else ''UNKNOWN''),
      oa_observed_at = now, oa_metadata = [(''readOnly'', PBool True)]\<rparr>"

definition add_audit :: "operation_audit \<Rightarrow> unit hub_act" where
  "add_audit a =
     insert_or ''operation_audits'' (\<lambda>s. map_option (\<lambda>t. s\<lparr>hs_audits := t\<rparr>) (insert_row (oa_id a) a (hs_audits s)))"

definition resolve_unknown_operation ::
  "hub_principal \<Rightarrow> uuid \<Rightarrow> bool \<Rightarrow> pydict \<Rightarrow> string \<Rightarrow> uuid \<Rightarrow> int \<Rightarrow> issue_operation hub_act" where
  "resolve_unknown_operation p operation_id succeeded outcome authorization audit_id now =
     bind (result (require_grant p authorization now)) (\<lambda>_.
     mutation (
       bind (look (unknown_operation p operation_id)) (\<lambda>o'.
       let updated = o'\<lparr>io_state := (if succeeded then OpSucceeded else OpUnknown), io_result := Some outcome, io_updated_at := now\<rparr> in
       andthen (put_operation updated)
         (andthen (if succeeded
                   then bind (look (\<lambda>s. Inr (map snd (select (\<lambda>_ j. ob_operation_id j = Some operation_id \<and> ob_state j = Unknown) (hs_jobs s)))))
                          (\<lambda>js. settle_unknown_jobs js outcome now)
                   else ret ())
           (andthen (add_audit (reconcile_audit p operation_id succeeded audit_id now)) (ret updated))))))"

definition enqueue_reconciliation_query ::
  "hub_principal \<Rightarrow> uuid \<Rightarrow> string \<Rightarrow> uuid \<Rightarrow> uuid \<Rightarrow> int \<Rightarrow> issue_operation hub_act" where
  "enqueue_reconciliation_query p operation_id key op_id job_id now =
     bind (result (require_grant p ''integrationReconcile'' now)) (\<lambda>_.
     if key = [] \<or> length key > 200 then raise (IntegrationValidationError ''Idempotency-Key is required'')
     else
       bind (look (operation_for_principal p operation_id ''integrationReconcile'' now)) (\<lambda>original.
       if io_operation_id original \<notin> {IssueClose, IssueReopen}
       then raise (IntegrationConflict ''this operation cannot be reconciled automatically'')
       else if io_state original \<noteq> OpUnknown
       then
         bind (look (\<lambda>s. Inr (find_keyed_operation (scope_of p) (io_connection_id original) key s))) (\<lambda>existing.
         if (case existing of None \<Rightarrow> False | Some o' \<Rightarrow> io_reconciles_operation_id o' = Some (io_id original))
         then ret (the existing)
         else raise (IntegrationConflict ''only UNKNOWN operations can be reconciled''))
       else
         enqueue_issue_action p
           \<lparr>rq_connection_id = io_connection_id original, rq_binding_id = io_binding_id original, rq_operation_id = IssueQuery,
            rq_idempotency_key = key, rq_issue_number = io_issue_number original, rq_body = None,
            rq_reconciles_operation_id = Some (io_id original)\<rparr>
           (Some ''integrationReconcile'') op_id job_id now))"

section \<open>Reads\<close>

definition list_jobs :: "hub_principal \<Rightarrow> job_state option \<Rightarrow> int \<Rightarrow> hub_store \<Rightarrow> hub_exn + outbox_job list" where
  "list_jobs p st now s =
     rbind (require_grant p ''integrationListJobs'' now) (\<lambda>_.
     Inr (sort_key (\<lambda>j. (ob_created_at j, ob_id j))
       (map snd (select (\<lambda>_ j. (ob_organization_id j, ob_workspace_id j, ob_actor_issuer j, ob_actor_subject j) = scope_of p \<and>
          (case st of None \<Rightarrow> True | Some x \<Rightarrow> ob_state j = x)) (hs_jobs s)))))"

definition list_delivery_receipts :: "hub_principal \<Rightarrow> int \<Rightarrow> hub_store \<Rightarrow> hub_exn + delivery_receipt list" where
  "list_delivery_receipts p now s =
     rbind (require_grant p ''integrationListJobs'' now) (\<lambda>_.
     Inr (sort_key dr_id (map snd (select (\<lambda>_ r.
       (case dr_job_id r of
          None \<Rightarrow> False
        | Some i \<Rightarrow>
            (case find_row i (hs_jobs s) of
               None \<Rightarrow> False
             | Some j \<Rightarrow> (ob_organization_id j, ob_workspace_id j, ob_actor_issuer j, ob_actor_subject j) = scope_of p))) (hs_receipts s)))))"

definition get_operation :: "hub_principal \<Rightarrow> uuid \<Rightarrow> int \<Rightarrow> hub_store \<Rightarrow> hub_exn + issue_operation" where
  "get_operation p operation_id now s = operation_for_principal p operation_id ''integrationGetOperation'' now s"

definition get_claimed_job :: "uuid \<Rightarrow> int \<Rightarrow> hub_store \<Rightarrow> hub_exn + outbox_job" where
  "get_claimed_job job_id fence s =
     (case find_row job_id (hs_jobs s) of
        Some j \<Rightarrow> if ob_claim_fence j = fence then Inr j else Inl (IntegrationNotFound ''claimed job not found'')
      | None \<Rightarrow> Inl (IntegrationNotFound ''claimed job not found''))"

definition connection_for_job :: "outbox_job \<Rightarrow> hub_store \<Rightarrow> hub_exn + connection" where
  "connection_for_job j s =
     visible_connection (ob_connection_id j) (ob_organization_id j) (ob_workspace_id j) ''job connection is no longer available'' s"

definition save_snapshot :: "resource_snapshot \<Rightarrow> unit hub_act" where
  "save_snapshot sn =
     mutation (
       bind (look (\<lambda>s. case find_row (rn_connection_id sn) (hs_connections s) of
          Some c \<Rightarrow>
            guard (cn_organization_id c = rn_organization_id sn \<and> cn_workspace_id c = rn_workspace_id sn)
              (IntegrationNotFound ''snapshot connection not found in scope'')
        | None \<Rightarrow> Inl (IntegrationNotFound ''snapshot connection not found in scope''))) (\<lambda>_.
       insert_or ''resource_snapshots'' (\<lambda>s. map_option (\<lambda>t. s\<lparr>hs_snapshots := t\<rparr>) (insert_row (rn_id sn) sn (hs_snapshots s)))))"

definition list_snapshots :: "hub_principal \<Rightarrow> string \<Rightarrow> string \<Rightarrow> int \<Rightarrow> hub_store \<Rightarrow> hub_exn + resource_snapshot list" where
  "list_snapshots p resource_type resource_id now s =
     rbind (require_grant p ''integrationGetIssue'' now) (\<lambda>_.
     Inr (sort_key (\<lambda>sn. - rn_observed_at sn) (map snd (select (\<lambda>_ sn.
       (rn_organization_id sn, rn_workspace_id sn, rn_actor_issuer sn, rn_actor_subject sn) = scope_of p \<and>
       rn_resource_type sn = resource_type \<and> rn_resource_id sn = resource_id) (hs_snapshots s)))))"

end
