(* ===== verification/Dispatcher.thy ===== *)
theory Dispatcher
  imports Outbox_Authority
begin

text \<open>
  The worker of the outbox and the signed execution (\<open>integrations/dispatcher.py\<close>). The ports are
  parameters: what each call returns or raises may depend on how many calls were made before it. The
  world is the store and the calls made so far.
\<close>

section \<open>Ports\<close>

datatype authority_state =
    APending | AAuthorized | ADispatched | ADenied | AExpired | ARevoked | ACompleted | AUnknownResult | AFailed

fun authority_text :: "authority_state \<Rightarrow> string" where
  "authority_text APending = ''PENDING''"
| "authority_text AAuthorized = ''AUTHORIZED''"
| "authority_text ADispatched = ''DISPATCHED''"
| "authority_text ADenied = ''DENIED''"
| "authority_text AExpired = ''EXPIRED''"
| "authority_text ARevoked = ''REVOKED''"
| "authority_text ACompleted = ''COMPLETED''"
| "authority_text AUnknownResult = ''UNKNOWN_RESULT''"
| "authority_text AFailed = ''FAILED''"

record message_evidence =
  me_accepted :: bool
  me_vendor_message_id :: "string option"
  me_transport_request_id :: "string option"
  me_observed_at :: int
  me_evidence :: pydict

record reply_request =
  rpl_source_binding :: string
  rpl_sender :: string
  rpl_conversation :: string
  rpl_message :: string
  rpl_context :: string
  rpl_text :: string
  rpl_key :: string

record enqueue_request =
  er_delegation_ref :: string
  er_workspace_id :: string
  er_binding_id :: string
  er_execution_operation_id :: string
  er_operation_id :: string
  er_argument_digest :: string
  er_idempotency_key :: string

record account_authorization =
  aa_actor_issuer :: string
  aa_actor_subject :: string
  aa_organization_id :: string
  aa_workspace_id :: string
  aa_account_link_ref :: string
  aa_provider :: string
  aa_repository_id :: string
  aa_repository_name :: string
  aa_operation_id :: string
  aa_arguments_sha256 :: string
  aa_expires_at :: int
  aa_lease_ref :: string

record issue_snapshot =
  sn_repository_id :: string
  sn_issue_number :: int
  sn_state :: string
  sn_title :: string
  sn_body :: string
  sn_version :: string
  sn_observed_at :: int

record write_evidence =
  wv_accepted :: bool
  wv_succeeded :: bool
  wv_vendor_resource_id :: "string option"
  wv_observed_at :: int
  wv_evidence :: pydict

datatype port_call =
    SendNotification string string string
  | SendCommandReply reply_request
  | SendChallengeReply reply_request
  | EnqueueAction enqueue_request
  | PollInvocation string
  | GetAuthorization string string pydict
  | GetIssue account_authorization string int
  | CreateComment account_authorization string int string
  | UpdateIssueState account_authorization string int string

record hub_ports =
  pt_notify :: "nat \<Rightarrow> port_call \<Rightarrow> hub_exn + message_evidence"
  pt_enqueue :: "nat \<Rightarrow> enqueue_request \<Rightarrow> hub_exn + string \<times> authority_state"
  pt_poll :: "nat \<Rightarrow> string \<Rightarrow> hub_exn + string \<times> authority_state"
  pt_authorize :: "nat \<Rightarrow> string \<Rightarrow> string \<Rightarrow> pydict \<Rightarrow> hub_exn + account_authorization"
  pt_get_issue :: "nat \<Rightarrow> port_call \<Rightarrow> hub_exn + issue_snapshot"
  pt_write :: "nat \<Rightarrow> port_call \<Rightarrow> hub_exn + write_evidence"

text \<open>
  The dispatcher: its ports, its lease, the UUIDs and the time its steps take, and the em dash of a
  notification (U+2014, which the model's characters do not include).
\<close>

record dispatcher =
  dp_ports :: hub_ports
  dp_lease_seconds :: int
  dp_reply :: reply_env
  dp_receipt_id :: uuid
  dp_later :: int
  dp_em_dash :: string

record hub_world =
  hw_store :: hub_store
  hw_calls :: "port_call list"

type_synonym 'a hub_step = "(hub_world, hub_exn, 'a) act"

definition in_store :: "'a hub_act \<Rightarrow> 'a hub_step" where
  "in_store m = (\<lambda>w. case m (hw_store w) of (r, s) \<Rightarrow> (r, w\<lparr>hw_store := s\<rparr>))"

definition port :: "port_call \<Rightarrow> (nat \<Rightarrow> hub_exn + 'a) \<Rightarrow> 'a hub_step" where
  "port call f = (\<lambda>w. (f (length (hw_calls w)), w\<lparr>hw_calls := hw_calls w @ [call]\<rparr>))"

record dispatch_result =
  ds_job_id :: "uuid option"
  ds_state :: string
  ds_reason_code :: "string option"

section \<open>Messages\<close>

definition receipt_of :: "dispatcher \<Rightarrow> message_evidence \<Rightarrow> hub_exn + delivery_receipt" where
  "receipt_of dp e =
     (let ok = (\<lambda>r. case r of None \<Rightarrow> True | Some x \<Rightarrow> length x \<le> 300) in
      if ok (me_vendor_message_id e) \<and> ok (me_transport_request_id e)
      then Inr \<lparr>dr_id = dp_receipt_id dp, dr_operation_id = None, dr_job_id = None,
             dr_status = (if me_accepted e then Accepted else JobFailed), dr_accepted = me_accepted e,
             dr_vendor_message_id = me_vendor_message_id e, dr_transport_request_id = me_transport_request_id e,
             dr_observed_at = me_observed_at e, dr_evidence = me_evidence e\<rparr>
      else Inl (ValidationError ''validation error for DeliveryReceipt''))"

definition finish_message :: "dispatcher \<Rightarrow> outbox_job \<Rightarrow> int \<Rightarrow> message_evidence \<Rightarrow> dispatch_result hub_step" where
  "finish_message dp j fence e =
     (let status = (if me_accepted e then Accepted else JobFailed) in
      bind (result (receipt_of dp e)) (\<lambda>receipt.
      bind (in_store (finish_job (dp_reply dp) (ob_id j) fence status [(''accepted'', PBool (me_accepted e))] (Some receipt) (dp_later dp))) (\<lambda>_.
      ret \<lparr>ds_job_id = Some (ob_id j), ds_state = job_state_text status, ds_reason_code = None\<rparr>)))"

text \<open>\<open>try: send; except Exception: finish as UNKNOWN\<close>, then the receipt.\<close>

definition attempt :: "'a hub_step \<Rightarrow> (hub_exn + 'a) hub_step" where
  "attempt m = (\<lambda>w. case m w of (r, w') \<Rightarrow> (Inr r, w'))"

definition send_message ::
  "dispatcher \<Rightarrow> outbox_job \<Rightarrow> int \<Rightarrow> string \<Rightarrow> string \<Rightarrow> port_call \<Rightarrow> dispatch_result hub_step" where
  "send_message dp j fence evidence_reason result_reason call =
     bind (attempt (port call (\<lambda>n. pt_notify (dp_ports dp) n call))) (\<lambda>sent.
     case sent of
       Inl e \<Rightarrow>
         bind (in_store (finish_job (dp_reply dp) (ob_id j) fence Unknown (reason evidence_reason) None (dp_later dp))) (\<lambda>_.
         ret \<lparr>ds_job_id = Some (ob_id j), ds_state = job_state_text Unknown, ds_reason_code = Some result_reason\<rparr>)
     | Inr evidence \<Rightarrow> finish_message dp j fence evidence)"

definition notification_text :: "dispatcher \<Rightarrow> outbox_job \<Rightarrow> string" where
  "notification_text dp j =
     (let field = (\<lambda>k. value_str (rp_float (dp_reply dp)) (dget_or (ob_payload j) k (PStr []))) in
      take 2000 (''GitHub '' @ field ''repositoryName'' @ '' issue #'' @ field ''issueNumber'' @ '': '' @ field ''action'' @ '' '' @
        dp_em_dash dp @ '' '' @ field ''title''))"

definition dispatch_notification :: "dispatcher \<Rightarrow> outbox_job \<Rightarrow> int \<Rightarrow> int \<Rightarrow> dispatch_result hub_step" where
  "dispatch_notification dp j fence now =
     bind (in_store (look (binding_for_job j))) (\<lambda>b.
     if \<not> sb_enabled b then raise (IntegrationAuthorizationError ''notification binding is disabled'')
     else
       (let event_id = value_str (rp_float (dp_reply dp)) (dget_or (ob_payload j) ''eventId'' (PStr [])) in
        andthen (in_store (mark_sending (ob_id j) fence now))
          (send_message dp j fence ''transport_result_unknown'' ''transport_result_unknown''
            (SendNotification (sb_notification_target_ref b) (notification_text dp j)
              (''incoming:'' @ event_id @ '':'' @ sb_id b)))))"

text \<open>The reply context both kinds of reply need: \<open>None\<close> when a field is not a text.\<close>

definition reply_request_of :: "outbox_job \<Rightarrow> reply_request option" where
  "reply_request_of j =
     (let d = ob_payload j in
      case (dget d ''sourceBindingId'', dget d ''senderId'', dget d ''conversationRef'', dget d ''replyMessageId'',
            dget d ''replyContextRef'', dget d ''text'') of
        (PStr b, PStr u, PStr c, PStr m, PStr x, PStr t) \<Rightarrow>
          Some \<lparr>rpl_source_binding = b, rpl_sender = u, rpl_conversation = c, rpl_message = m, rpl_context = x, rpl_text = t,
             rpl_key = (if given (ob_idempotency_key j) then the (ob_idempotency_key j) else ob_id j)\<rparr>
      | _ \<Rightarrow> None)"

definition dispatch_reply ::
  "dispatcher \<Rightarrow> outbox_job \<Rightarrow> int \<Rightarrow> int \<Rightarrow> string \<Rightarrow> string \<Rightarrow> string \<Rightarrow> (reply_request \<Rightarrow> port_call) \<Rightarrow> dispatch_result hub_step" where
  "dispatch_reply dp j fence now incomplete evidence_reason result_reason call =
     (case reply_request_of j of
        None \<Rightarrow> raise (IntegrationAuthorizationError incomplete)
      | Some r \<Rightarrow>
          andthen (in_store (mark_sending (ob_id j) fence now)) (send_message dp j fence evidence_reason result_reason (call r)))"

definition dispatch_command_reply :: "dispatcher \<Rightarrow> outbox_job \<Rightarrow> int \<Rightarrow> int \<Rightarrow> dispatch_result hub_step" where
  "dispatch_command_reply dp j fence now =
     dispatch_reply dp j fence now ''command reply context is incomplete'' ''command_reply_result_unknown'' ''command_reply_unknown''
       SendCommandReply"

definition dispatch_challenge_reply :: "dispatcher \<Rightarrow> outbox_job \<Rightarrow> int \<Rightarrow> int \<Rightarrow> dispatch_result hub_step" where
  "dispatch_challenge_reply dp j fence now =
     dispatch_reply dp j fence now ''challenge reply context is incomplete'' ''challenge_reply_result_unknown'' ''challenge_reply_unknown''
       SendChallengeReply"

section \<open>Authority\<close>

definition candidate_key :: "issue_operation \<Rightarrow> outbox_job \<Rightarrow> string" where
  "candidate_key o' j =
     (if io_operation_id o' = IssueQuery then io_id o' @ '':read:'' @ int_str (ob_attempts j) else io_id o')"

definition enqueue_authority :: "dispatcher \<Rightarrow> outbox_job \<Rightarrow> int \<Rightarrow> issue_operation \<Rightarrow> int \<Rightarrow> dispatch_result hub_step" where
  "enqueue_authority dp j fence o' now =
     (if io_delegation_ref o' = None then raise (IntegrationAuthorizationError ''operation has no delegation reference'')
      else
        bind (in_store (prepare_authority_enqueue (ob_id j) fence (candidate_key o' j) now)) (\<lambda>(operation, job, key).
        case io_delegation_ref operation of
          None \<Rightarrow> raise (IntegrationAuthorizationError ''operation delegation reference was removed'')
        | Some delegation \<Rightarrow>
            (let request = \<lparr>er_delegation_ref = delegation, er_workspace_id = io_workspace_id operation,
                   er_binding_id = io_binding_id operation, er_execution_operation_id = io_execution_operation_id operation,
                   er_operation_id = io_id operation, er_argument_digest = io_argument_digest operation, er_idempotency_key = key\<rparr> in
             bind (port (EnqueueAction request) (\<lambda>n. pt_enqueue (dp_ports dp) n request)) (\<lambda>(invocation, st).
             bind (in_store (mark_awaiting_authority (ob_id job) fence invocation (authority_text st) now)) (\<lambda>updated.
             ret \<lparr>ds_job_id = Some (ob_id job), ds_state = job_state_text (ob_state updated), ds_reason_code = None\<rparr>)))))"

definition poll_authority :: "dispatcher \<Rightarrow> outbox_job \<Rightarrow> int \<Rightarrow> int \<Rightarrow> dispatch_result hub_step" where
  "poll_authority dp j fence now =
     (case ob_authority_invocation_id j of
        None \<Rightarrow> raise (IntegrationAuthorizationError ''Authority invocation is missing'')
      | Some invocation \<Rightarrow>
          bind (port (PollInvocation invocation) (\<lambda>n. pt_poll (dp_ports dp) n invocation)) (\<lambda>(observed, st).
          if observed \<noteq> invocation then raise (IntegrationAuthorizationError ''Authority poll returned a different invocation'')
          else if st \<in> {ADenied, AExpired, ARevoked, AFailed}
          then
            bind (in_store (fail_claimed_job (dp_reply dp) (ob_id j) fence (''authority_'' @ lower (authority_text st)) now)) (\<lambda>failed.
            ret \<lparr>ds_job_id = Some (ob_id j), ds_state = job_state_text (ob_state failed), ds_reason_code = Some ''authority_denied''\<rparr>)
          else if st = AUnknownResult
          then
            bind (in_store (mark_authority_result_unknown (dp_reply dp) (ob_id j) fence invocation now)) (\<lambda>unknown.
            ret \<lparr>ds_job_id = Some (ob_id j), ds_state = job_state_text (ob_state unknown), ds_reason_code = Some ''authority_unknown_result''\<rparr>)
          else
            bind (in_store (update_authority_evidence (ob_id j) fence invocation (authority_text st) now)) (\<lambda>updated.
            ret \<lparr>ds_job_id = Some (ob_id j), ds_state = job_state_text (ob_state updated), ds_reason_code = None\<rparr>)))"

section \<open>One step of the worker\<close>

definition dispatch_job :: "dispatcher \<Rightarrow> outbox_job \<Rightarrow> int \<Rightarrow> int \<Rightarrow> dispatch_result hub_step" where
  "dispatch_job dp j fence now =
     (case ob_kind j of
        Notify \<Rightarrow> dispatch_notification dp j fence now
      | CommandReply \<Rightarrow> dispatch_command_reply dp j fence now
      | ChallengeReply \<Rightarrow> dispatch_challenge_reply dp j fence now
      | IssueAction \<Rightarrow>
          bind (in_store (look (operation_for_job j))) (\<lambda>o'.
          if ob_authority_invocation_id j = None then enqueue_authority dp j fence o' now else poll_authority dp j fence now))"

definition dispatch_handler :: "dispatcher \<Rightarrow> outbox_job \<Rightarrow> int \<Rightarrow> int \<Rightarrow> hub_exn \<Rightarrow> dispatch_result hub_step" where
  "dispatch_handler dp j fence now e =
     (case e of
        IntegrationAuthorizationError m \<Rightarrow>
          bind (in_store (fail_claimed_job (dp_reply dp) (ob_id j) fence ''authorization_denied'' now)) (\<lambda>_.
          ret \<lparr>ds_job_id = Some (ob_id j), ds_state = job_state_text JobFailed, ds_reason_code = Some ''authorization_denied''\<rparr>)
      | IntegrationConflict m \<Rightarrow>
          ret \<lparr>ds_job_id = Some (ob_id j), ds_state = ''SUPERSEDED'', ds_reason_code = Some ''concurrent_authority_dispatch''\<rparr>
      | _ \<Rightarrow> raise e)"

definition run_once :: "dispatcher \<Rightarrow> string \<Rightarrow> int \<Rightarrow> dispatch_result hub_step" where
  "run_once dp worker now =
     bind (in_store (claim_job (dp_reply dp) worker now (dp_lease_seconds dp))) (\<lambda>claim.
     case claim of
       None \<Rightarrow> ret \<lparr>ds_job_id = None, ds_state = ''IDLE'', ds_reason_code = None\<rparr>
     | Some c \<Rightarrow>
         catch (dispatch_job dp (cj_job c) (cj_claim_fence c) now) (dispatch_handler dp (cj_job c) (cj_claim_fence c) now))"

definition mk_dispatcher_ok :: "int \<Rightarrow> hub_exn + unit" where
  "mk_dispatcher_ok lease_seconds =
     guard (1 \<le> lease_seconds \<and> lease_seconds \<le> 300) (HubValueError ''lease_seconds must be between 1 and 300'')"

end
