(* ===== verification/Execution.thy ===== *)
theory Execution
  imports Dispatcher
begin

text \<open>
  The signed execution of an intent (\<open>IntegrationDispatcher.execute_authorized_action\<close>): every
  check against the stored intent, the write boundary, the provider call and its evidence. The
  Authority proof arrives projected; decoding its JSON body is an argument.
\<close>

section \<open>Checks\<close>

record execution_proof =
  xp_invocation_id :: string
  xp_owner :: string
  xp_issuer :: string
  xp_subject :: string
  xp_organization_id :: string
  xp_workspace_id :: string
  xp_http_method :: string
  xp_path :: string
  xp_content_type :: string
  xp_idempotency_key :: string
  xp_execution_operation_id :: string
  xp_operation_id :: string
  xp_binding_id :: string
  xp_argument_digest :: string
  xp_raw_body :: bytes
  xp_raw_body_sha256 :: string

text \<open>Equality of dictionaries, whatever the order of their keys.\<close>

definition dict_equal :: "pydict \<Rightarrow> pydict \<Rightarrow> bool" where
  "dict_equal d e = (length d = length e \<and> list_all (\<lambda>(k, v). map_of d k = Some v) e)"

definition expected_path :: "string \<Rightarrow> uuid \<Rightarrow> string option" where
  "expected_path execution binding_id =
     (let base = ''/api/v1/integrations/sync-bindings/'' @ binding_id in
      if execution = ''integrationExecuteIssueComment'' then Some (base @ ''/execute-issue-comment'')
      else if execution = ''integrationExecuteIssueState'' then Some (base @ ''/execute-issue-state'')
      else if execution = ''integrationExecuteIssueQuery'' then Some (base @ ''/execute-issue-query'')
      else None)"

definition proof_matches ::
  "execution_proof \<Rightarrow> pyval \<Rightarrow> hub_principal \<Rightarrow> issue_operation \<Rightarrow> uuid \<Rightarrow> string \<Rightarrow> string \<Rightarrow> string \<Rightarrow> bool" where
  "proof_matches xp body p o' binding_id execution invocation_id argument_digest =
     (xp_invocation_id xp = invocation_id \<and> xp_owner xp = ''exchange'' \<and> xp_issuer xp = hp_issuer p \<and>
      xp_subject xp = hp_subject p \<and> xp_organization_id xp = hp_organization_id p \<and> xp_workspace_id xp = hp_workspace_id p \<and>
      xp_http_method xp = ''POST'' \<and> xp_content_type xp = ''application/json'' \<and>
      Some (xp_path xp) = expected_path execution binding_id \<and> Some (xp_idempotency_key xp) = io_authority_idempotency_key o' \<and>
      xp_execution_operation_id xp = execution \<and> xp_operation_id xp = io_id o' \<and> xp_binding_id xp = binding_id \<and>
      xp_argument_digest xp = argument_digest \<and> xp_raw_body_sha256 xp = sha256_hex (xp_raw_body xp) \<and>
      (case body of
         PDict d \<Rightarrow> dict_equal d [(''operationId'', PStr (io_id o')), (''argumentDigest'', PStr (io_argument_digest o'))]
       | _ \<Rightarrow> False))"

definition validate_execution_proof ::
  "(bytes \<Rightarrow> json_outcome) \<Rightarrow> execution_proof \<Rightarrow> hub_principal \<Rightarrow> issue_operation \<Rightarrow> uuid \<Rightarrow> string \<Rightarrow> string \<Rightarrow> string \<Rightarrow>
   hub_exn + unit" where
  "validate_execution_proof loads xp p o' binding_id execution invocation_id argument_digest =
     (case loads (xp_raw_body xp) of
        JsonInvalid m \<Rightarrow> Inl (IntegrationAuthorizationError ''Authority execution body is invalid'')
      | JsonTooDeep \<Rightarrow> Inl (HubOther ''RecursionError'' ''maximum recursion depth exceeded'')
      | JsonValue body \<Rightarrow>
          guard (proof_matches xp body p o' binding_id execution invocation_id argument_digest)
            (IntegrationAuthorizationError ''Authority execution proof does not match intent''))"

text \<open>\<open>_github_arguments\<close>.\<close>

definition github_arguments :: "connection \<Rightarrow> issue_operation \<Rightarrow> hub_exn + string \<times> pydict" where
  "github_arguments c o' =
     (let arguments = [(''repository_id'', PStr (cn_repository_id c)), (''repository'', PStr (cn_repository_name c)),
            (''issue_number'', PInt (io_issue_number o'))] in
      case io_operation_id o' of
        IssueComment \<Rightarrow>
          (case io_body o' of
             None \<Rightarrow> Inl (IntegrationAuthorizationError ''comment body is missing'')
           | Some b \<Rightarrow> Inr (''github.issue.comment.create'', arguments @ [(''body'', PStr b)]))
      | IssueClose \<Rightarrow> Inr (''github.issue.state.update'', arguments @ [(''state'', PStr ''CLOSED'')])
      | IssueReopen \<Rightarrow> Inr (''github.issue.state.update'', arguments @ [(''state'', PStr ''OPEN'')])
      | IssueQuery \<Rightarrow> Inr (''github.issue.get'', arguments))"

definition account_matches ::
  "account_authorization \<Rightarrow> connection \<Rightarrow> hub_principal \<Rightarrow> string \<Rightarrow> string \<Rightarrow> string \<Rightarrow> int \<Rightarrow> bool" where
  "account_matches a c p operation digest account_link_ref now =
     (aa_actor_issuer a = hp_issuer p \<and> aa_actor_subject a = hp_subject p \<and> aa_organization_id a = hp_organization_id p \<and>
      aa_workspace_id a = hp_workspace_id p \<and> aa_account_link_ref a = account_link_ref \<and> aa_provider a = ''github'' \<and>
      aa_repository_id a = cn_repository_id c \<and> aa_repository_name a = cn_repository_name c \<and> aa_operation_id a = operation \<and>
      aa_arguments_sha256 a = digest \<and> now < aa_expires_at a \<and> aa_expires_at a \<le> now + microseconds 60)"

definition member_matches :: "actor_binding \<Rightarrow> issue_operation \<Rightarrow> bool" where
  "member_matches a o' = (ab_id a = io_actor_binding_id o' \<and> ab_account_link_ref a = io_account_link_ref o' \<and>
     Some (ab_delegation_ref a) = io_delegation_ref o')"

definition authz :: "bool \<Rightarrow> string \<Rightarrow> hub_exn + unit" where
  "authz ok m = guard ok (IntegrationAuthorizationError m)"

text \<open>What the caller presents: the invocation it names and the proof of it.\<close>

record execution_call =
  xc_operation_id :: uuid
  xc_binding_id :: uuid
  xc_execution :: string
  xc_argument_digest :: string
  xc_invocation_id :: string
  xc_proof :: execution_proof

text \<open>Everything before the write boundary: the operation, its connection and the account lease.\<close>

definition check_execution ::
  "dispatcher \<Rightarrow> (bytes \<Rightarrow> json_outcome) \<Rightarrow> hub_principal \<Rightarrow> execution_call \<Rightarrow> int \<Rightarrow>
   (issue_operation \<times> connection \<times> account_authorization) hub_step" where
  "check_execution dp loads p xc now =
     (let execution = xc_execution xc; binding_id = xc_binding_id xc in
      bind (result (require_grant p execution now)) (\<lambda>_.
      bind (in_store (look (operation_for_principal p (xc_operation_id xc) execution now))) (\<lambda>o'.
      bind (result (authz (intent_matches o' binding_id execution (xc_argument_digest xc) (xc_invocation_id xc))
              ''approved invocation does not match stored intent'')) (\<lambda>_.
      bind (result (validate_execution_proof loads (xc_proof xc) p o' binding_id execution (xc_invocation_id xc) (xc_argument_digest xc))) (\<lambda>_.
      bind (in_store (look (connection_for_binding p (io_connection_id o') binding_id execution now))) (\<lambda>c.
      bind (in_store (look (get_binding p binding_id execution now))) (\<lambda>b.
      bind (result (authz (sb_enabled b \<and> sb_connection_id b = cn_id c) ''execution binding no longer matches the intent'')) (\<lambda>_.
      bind (in_store (look (actor_binding_for_operation p binding_id execution now))) (\<lambda>a.
      bind (result (authz (member_matches a o') ''member account authorization no longer matches'')) (\<lambda>_.
      bind (result (github_arguments c o')) (\<lambda>(github_operation, arguments).
      bind (result (authz (digest_of arguments = io_argument_digest o') ''stored operation payload digest is invalid'')) (\<lambda>_.
      bind (port (GetAuthorization (io_account_link_ref o') github_operation arguments)
              (\<lambda>n. pt_authorize (dp_ports dp) n (io_account_link_ref o') github_operation arguments)) (\<lambda>authorization.
      bind (result (authz (account_matches authorization c p github_operation (io_argument_digest o') (io_account_link_ref o') now)
              ''Account Center lease scope does not match'')) (\<lambda>_.
      ret (o', c, authorization)))))))))))))))"

section \<open>The provider call\<close>

definition write_status :: "write_evidence \<Rightarrow> job_state" where
  "write_status e = (if wv_accepted e \<and> wv_succeeded e then Succeeded else if wv_accepted e then Accepted else JobFailed)"

definition write_facts :: "write_evidence \<Rightarrow> pydict" where
  "write_facts e =
     foldl (\<lambda>d (k, v). dset k v d)
       [(''accepted'', PBool (wv_accepted e)), (''succeeded'', PBool (wv_succeeded e)),
        (''vendorResourceId'', opt_py (wv_vendor_resource_id e))] (wv_evidence e)"

text \<open>\<open>isoformat\<close> of an instant, and the UUID of a snapshot or an audit record, are arguments.\<close>

record execution_env =
  xe_iso :: "int \<Rightarrow> string"
  xe_snapshot_id :: uuid
  xe_audit_id :: uuid

definition finish_provider_write :: "dispatcher \<Rightarrow> outbox_job \<Rightarrow> int \<Rightarrow> write_evidence \<Rightarrow> unit hub_step" where
  "finish_provider_write dp j fence e =
     bind (in_store (finish_job (dp_reply dp) (ob_id j) fence (write_status e) (write_facts e) None (dp_later dp))) (\<lambda>_. ret ())"

definition snapshot_of :: "execution_env \<Rightarrow> hub_principal \<Rightarrow> connection \<Rightarrow> issue_snapshot \<Rightarrow> resource_snapshot" where
  "snapshot_of xe p c sn =
     \<lparr>rn_id = xe_snapshot_id xe, rn_organization_id = cn_organization_id c, rn_workspace_id = cn_workspace_id c,
      rn_actor_issuer = hp_issuer p, rn_actor_subject = hp_subject p, rn_connection_id = cn_id c,
      rn_resource_type = ''github.issue'', rn_resource_id = sn_repository_id sn @ ''#'' @ int_str (sn_issue_number sn),
      rn_version = sn_version sn, rn_observed_at = sn_observed_at sn,
      rn_document = [(''repositoryId'', PStr (sn_repository_id sn)), (''issueNumber'', PInt (sn_issue_number sn)),
        (''state'', PStr (sn_state sn)), (''title'', PStr (sn_title sn)), (''body'', PStr (sn_body sn))]\<rparr>"

definition reconcile_query :: "execution_env \<Rightarrow> hub_principal \<Rightarrow> string \<Rightarrow> uuid \<Rightarrow> issue_snapshot \<Rightarrow> int \<Rightarrow> unit hub_step" where
  "reconcile_query xe p execution original_id sn now =
     bind (in_store (look (operation_for_principal p original_id execution now))) (\<lambda>original.
     let expected = (if io_operation_id original = IssueClose then ''CLOSED'' else ''OPEN'');
         matched = (upper_ascii (sn_state sn) = expected) in
     bind (in_store (resolve_unknown_operation p (io_id original) matched
       [(''reconciledReadOnly'', PBool True), (''observedState'', PStr (sn_state sn)), (''version'', PStr (sn_version sn)),
        (''observedAt'', PStr (xe_iso xe (sn_observed_at sn))),
        (''reasonCode'', PStr (if matched then ''provider_state_confirms_operation''
           else ''provider_state_does_not_confirm_operation''))] execution (xe_audit_id xe) now)) (\<lambda>_. ret ()))"

definition execute_query ::
  "dispatcher \<Rightarrow> execution_env \<Rightarrow> hub_principal \<Rightarrow> execution_call \<Rightarrow> issue_operation \<Rightarrow> connection \<Rightarrow> account_authorization \<Rightarrow>
   outbox_job \<Rightarrow> int \<Rightarrow> int \<Rightarrow> unit hub_step" where
  "execute_query dp xe p xc o' c authorization j fence now =
     (let call = GetIssue authorization (cn_repository_id c) (io_issue_number o') in
      bind (port call (\<lambda>n. pt_get_issue (dp_ports dp) n call)) (\<lambda>sn.
      andthen (in_store (save_snapshot (snapshot_of xe p c sn)))
        (andthen (in_store (finish_job (dp_reply dp) (ob_id j) fence Succeeded
             [(''state'', PStr (sn_state sn)), (''title'', PStr (sn_title sn)), (''version'', PStr (sn_version sn)),
              (''observedAt'', PStr (xe_iso xe (sn_observed_at sn)))] None (dp_later dp)))
          (case io_reconciles_operation_id o' of
             None \<Rightarrow> ret ()
           | Some original \<Rightarrow> reconcile_query xe p (xc_execution xc) original sn now))))"

definition provider_step ::
  "dispatcher \<Rightarrow> execution_env \<Rightarrow> hub_principal \<Rightarrow> execution_call \<Rightarrow> issue_operation \<Rightarrow> connection \<Rightarrow> account_authorization \<Rightarrow>
   outbox_job \<Rightarrow> int \<Rightarrow> int \<Rightarrow> unit hub_step" where
  "provider_step dp xe p xc o' c authorization j fence now =
     (case io_operation_id o' of
        IssueQuery \<Rightarrow> execute_query dp xe p xc o' c authorization j fence now
      | IssueComment \<Rightarrow>
          (case io_body o' of
             None \<Rightarrow> raise (IntegrationAuthorizationError ''comment body is missing'')
           | Some b \<Rightarrow>
               (let call = CreateComment authorization (cn_repository_id c) (io_issue_number o') b in
                bind (port call (\<lambda>n. pt_write (dp_ports dp) n call)) (finish_provider_write dp j fence)))
      | action \<Rightarrow>
          (let call = UpdateIssueState authorization (cn_repository_id c) (io_issue_number o')
                 (if action = IssueClose then ''CLOSED'' else ''OPEN'') in
           bind (port call (\<lambda>n. pt_write (dp_ports dp) n call)) (finish_provider_write dp j fence)))"

text \<open>The handlers of the \<open>try\<close>: a rejected call fails, a retryable read is queued again, anything else is unknown.\<close>

definition provider_handler :: "dispatcher \<Rightarrow> issue_operation \<Rightarrow> outbox_job \<Rightarrow> int \<Rightarrow> hub_exn \<Rightarrow> unit hub_step" where
  "provider_handler dp o' j fence e =
     (let finish = (\<lambda>st why. in_store (finish_job (dp_reply dp) (ob_id j) fence st (reason why) None (dp_later dp))) in
      case e of
        RetryableReadError delay \<Rightarrow>
          if io_operation_id o' = IssueQuery
          then andthen (in_store (retry_readonly_job (dp_reply dp) (ob_id j) fence (dp_later dp) delay)) (ret ())
          else andthen (finish Unknown ''provider_write_result_unknown'') (raise e)
      | ProviderRejectedError c \<Rightarrow> andthen (finish JobFailed c) (ret ())
      | _ \<Rightarrow> andthen (finish Unknown ''provider_result_unknown'') (raise e))"

definition execute_authorized_action ::
  "dispatcher \<Rightarrow> execution_env \<Rightarrow> (bytes \<Rightarrow> json_outcome) \<Rightarrow> hub_principal \<Rightarrow> execution_call \<Rightarrow> int \<Rightarrow> issue_operation hub_step" where
  "execute_authorized_action dp xe loads p xc now =
     bind (check_execution dp loads p xc now) (\<lambda>(stored, c, authorization).
     bind (in_store (begin_authorized_execution p (xc_operation_id xc) (xc_binding_id xc) (xc_execution xc) (xc_argument_digest xc)
             (xc_invocation_id xc) (dp_lease_seconds dp) now)) (\<lambda>(o', j, fence).
     andthen (catch (provider_step dp xe p xc o' c authorization j fence now) (provider_handler dp o' j fence))
       (in_store (look (operation_for_principal p (xc_operation_id xc) (xc_execution xc) now)))))"

end
