(* ===== verification/Connections.thy ===== *)
theory Connections
  imports Outbox_Authority
begin

text \<open>
  Connections, group bindings and member bindings (\<open>integrations/store.py\<close> with the validators of
  \<open>integrations/models.py\<close>): idempotent creation in one transaction each, and the scoped reads. The
  canonical JSON of a request, which only its digest is computed from, is an argument.
\<close>

section \<open>The shape of a connection\<close>

abbreviation CLOUD_PROVIDERS :: "string list" where
  "CLOUD_PROVIDERS \<equiv> [''azure'', ''azure_devops'', ''gcp'', ''hf'', ''runpod'', ''tailscale'']"

text \<open>The checks both validators share up to the provider-specific account rules; the first failure.\<close>

definition repository_shape :: "string \<Rightarrow> string \<Rightarrow> string \<Rightarrow> string + unit" where
  "repository_shape provider repository_id repository_name =
     (if provider = ''github''
      then guard (repository_id \<noteq> [] \<and> repository_name \<noteq> []) ''GitHub connections require repositoryId and repositoryName''
      else guard (repository_id = [] \<and> repository_name = []) ''non-GitHub connections cannot include repository fields'')"

definition selector_shape :: "string \<Rightarrow> string option \<Rightarrow> string option \<Rightarrow> string + unit" where
  "selector_shape provider binding_ref target_ref =
     rbind (if provider \<in> set CLOUD_PROVIDERS
            then guard (given binding_ref \<and> given target_ref) ''cloud connections require configured bindingRef and targetRef''
            else guard (target_ref = None) ''targetRef is only valid for cloud resource connections'') (\<lambda>_.
     guard (\<not> (provider = ''wecom'' \<and> \<not> given binding_ref)) ''WeCom authorization connections require bindingRef'')"

record connection_request =
  cq_provider :: string
  cq_binding_ref :: "string option"
  cq_target_ref :: "string option"
  cq_account_link_ref :: "string option"
  cq_display_name :: "string option"
  cq_repository_id :: string
  cq_repository_name :: string

definition connection_request_shape :: "connection_request \<Rightarrow> string + unit" where
  "connection_request_shape q =
     (let p = cq_provider q; account = given (cq_account_link_ref q); bound = given (cq_binding_ref q) in
      rbind (repository_shape p (cq_repository_id q) (cq_repository_name q)) (\<lambda>_.
      rbind (selector_shape p (cq_binding_ref q) (cq_target_ref q)) (\<lambda>_.
      rbind (guard (\<not> (p = ''microsoft_graph'' \<and> (\<not> account \<or> \<not> bound \<or> cq_target_ref q \<noteq> None)))
               ''Microsoft Graph connections require an Account Center profile and host binding'') (\<lambda>_.
      rbind (guard (\<not> (p = ''azure_devops'' \<and> \<not> account))
               ''Azure DevOps connections require this actor`s Account Center profile'') (\<lambda>_.
      guard (\<not> (p = ''bilibili'' \<and> (\<not> account \<or> \<not> bound \<or> cq_target_ref q \<noteq> None)))
        ''Bilibili connections require an Account Center profile and host binding'')))))"

definition connection_shape :: "connection \<Rightarrow> string + unit" where
  "connection_shape c =
     (let p = cn_provider c; account = given (cn_account_link_ref c); bound = given (cn_binding_ref c);
          owned = (cn_access_mode c = ''actor_owned'') in
      rbind (repository_shape p (cn_repository_id c) (cn_repository_name c)) (\<lambda>_.
      rbind (selector_shape p (cn_binding_ref c) (cn_target_ref c)) (\<lambda>_.
      rbind (guard (\<not> (p = ''microsoft_graph'' \<and> (\<not> account \<or> \<not> bound \<or> cn_target_ref c \<noteq> None)))
               ''Microsoft Graph connections require an Account Center profile and host binding'') (\<lambda>_.
      rbind (guard (\<not> (p = ''microsoft_graph'' \<and> \<not> owned)) ''Microsoft Graph connections must remain actor owned'') (\<lambda>_.
      rbind (guard (\<not> (p = ''azure_devops'' \<and> (\<not> account \<or> \<not> owned)))
               ''Azure DevOps connections must use one actor-owned Account Center profile'') (\<lambda>_.
      rbind (guard (\<not> (p = ''bilibili'' \<and> (\<not> account \<or> \<not> bound \<or> cn_target_ref c \<noteq> None \<or> \<not> owned)))
               ''Bilibili connections require one actor-owned Account Center profile'') (\<lambda>_.
      guard (\<not> (cn_access_mode c = ''workspace_operator'' \<and> p \<notin> {''github'', ''hf'', ''azure'', ''gcp'', ''runpod''}))
        ''workspace_operator access is valid only for connector providers'')))))))"

section \<open>Connections\<close>

definition or_else :: "string option \<Rightarrow> string \<Rightarrow> string" where
  "or_else v d = (if given v then the v else d)"

definition new_connection :: "hub_principal \<Rightarrow> connection_request \<Rightarrow> string \<Rightarrow> uuid \<Rightarrow> int \<Rightarrow> connection" where
  "new_connection p q access_mode new_id now =
     \<lparr>cn_id = new_id, cn_organization_id = hp_organization_id p, cn_workspace_id = hp_workspace_id p,
      cn_actor_issuer = hp_issuer p, cn_actor_subject = hp_subject p, cn_account_link_ref = cq_account_link_ref q,
      cn_provider = cq_provider q, cn_binding_ref = cq_binding_ref q, cn_target_ref = cq_target_ref q,
      cn_display_name = Some (or_else (cq_display_name q) (if cq_repository_name q \<noteq> [] then cq_repository_name q else cq_provider q)),
      cn_repository_id = cq_repository_id q, cn_repository_name = cq_repository_name q, cn_access_mode = access_mode,
      cn_enabled = True, cn_created_at = now, cn_updated_at = now\<rparr>"

definition bad_key :: "string \<Rightarrow> bool" where
  "bad_key key = (key = [] \<or> length key > 200)"

text \<open>\<open>_idempotency_lookup\<close> in the records of one kind of resource, and \<open>_idempotency_save\<close>.\<close>

definition replay_of :: "scope \<times> string \<Rightarrow> string \<Rightarrow> (scope \<times> string, string \<times> 'a) table \<Rightarrow> hub_exn + 'a option" where
  "replay_of k digest t =
     (case find_row k t of
        None \<Rightarrow> Inr None
      | Some (d, x) \<Rightarrow>
          if d \<noteq> digest then Inl (IntegrationConflict ''idempotency key was reused for a different request'') else Inr (Some x))"

definition create_connection ::
  "hub_principal \<Rightarrow> connection_request \<Rightarrow> string \<Rightarrow> string \<Rightarrow> string \<Rightarrow> uuid \<Rightarrow> int \<Rightarrow> connection hub_act" where
  "create_connection p q body key access_mode new_id now =
     bind (result (require_grant p ''integrationCreateConnection'' now)) (\<lambda>_.
     if access_mode \<noteq> ''actor_owned'' \<and> access_mode \<noteq> ''workspace_operator''
     then raise (IntegrationValidationError ''connector access mode is unsupported'')
     else if bad_key key then raise (IntegrationValidationError ''Idempotency-Key is required'')
     else
       (let digest = sha256_str body; c = new_connection p q access_mode new_id now in
        bind (result (map_sum ValidationError id (connection_shape c))) (\<lambda>_.
        mutation (
          bind (look (\<lambda>s. replay_of (scope_of p, key) digest (hs_connection_keys s))) (\<lambda>existing.
          case existing of
            Some prior \<Rightarrow>
              if cn_access_mode prior \<noteq> access_mode
              then raise (IntegrationConflict ''connector access mode changed for an existing idempotency key'')
              else ret prior
          | None \<Rightarrow>
              andthen (insert_or ''integration_connections'' (\<lambda>s. map_option (\<lambda>t. s\<lparr>hs_connections := t\<rparr>) (insert_row new_id c (hs_connections s))))
                (andthen (write_hub (\<lambda>s. s\<lparr>hs_connection_keys := hs_connection_keys s @ [((scope_of p, key), digest, c)]\<rparr>)) (ret c)))))))"

definition list_connections :: "hub_principal \<Rightarrow> int \<Rightarrow> hub_store \<Rightarrow> hub_exn + connection list" where
  "list_connections p now s =
     rbind (require_grant p ''integrationListConnections'' now) (\<lambda>_.
     Inr (sort_key cn_id (map snd (select (\<lambda>_ c. (cn_organization_id c, cn_workspace_id c, cn_actor_issuer c, cn_actor_subject c) = scope_of p)
       (hs_connections s)))))"

definition get_connection :: "hub_principal \<Rightarrow> uuid \<Rightarrow> string \<Rightarrow> int \<Rightarrow> hub_store \<Rightarrow> hub_exn + connection" where
  "get_connection p connection_id authorization now s =
     rbind (require_grant p authorization now) (\<lambda>_. connection_scoped p connection_id s)"

definition connector_bindings_for_actor ::
  "string \<Rightarrow> string \<Rightarrow> string option \<Rightarrow> string \<Rightarrow> hub_store \<Rightarrow> hub_exn + connection list" where
  "connector_bindings_for_actor issuer subject organization workspace s =
     (if issuer = [] \<or> subject = [] \<or> workspace = []
      then Inl (IntegrationValidationError ''connector binding export requires actor and workspace'')
      else if (case organization of None \<Rightarrow> False | Some x \<Rightarrow> blank x)
      then Inl (IntegrationValidationError ''connector binding export organization cannot be empty'')
      else Inr (sort_key cn_id (map snd (select (\<lambda>_ c. cn_actor_issuer c = issuer \<and> cn_actor_subject c = subject \<and>
             cn_workspace_id c = workspace \<and> cn_enabled c \<and> (organization = None \<or> organization = Some (cn_organization_id c)))
           (hs_connections s)))))"

definition current_connection_for_provider_call :: "uuid \<Rightarrow> hub_store \<Rightarrow> connection option" where
  "current_connection_for_provider_call connection_id s =
     (case find_row connection_id (hs_connections s) of None \<Rightarrow> None | Some c \<Rightarrow> if cn_enabled c then Some c else None)"

definition connector_connection_for_actor ::
  "uuid \<Rightarrow> string \<Rightarrow> string \<Rightarrow> string \<Rightarrow> string option \<Rightarrow> hub_store \<Rightarrow> hub_exn + connection" where
  "connector_connection_for_actor connection_id issuer subject workspace organization s =
     (case current_connection_for_provider_call connection_id s of
        None \<Rightarrow> Inl (IntegrationNotFound ''integration connection not found'')
      | Some c \<Rightarrow>
          (let same_tenant = cn_actor_issuer c = issuer \<and> cn_workspace_id c = workspace \<and>
                 (organization = None \<or> organization = Some (cn_organization_id c)) in
           if same_tenant \<and> (cn_actor_subject c = subject \<or> cn_access_mode c = ''workspace_operator'') then Inr c
           else Inl (IntegrationNotFound ''integration connection not found'')))"

section \<open>Bindings\<close>

record binding_request =
  bq_connection_id :: uuid
  bq_account_link_ref :: "string option"
  bq_delegation_ref :: "string option"
  bq_notification_target_ref :: string

definition new_binding :: "hub_principal \<Rightarrow> connection \<Rightarrow> binding_request \<Rightarrow> uuid \<Rightarrow> int \<Rightarrow> sync_binding" where
  "new_binding p c q new_id now =
     \<lparr>sb_id = new_id, sb_organization_id = hp_organization_id p, sb_workspace_id = hp_workspace_id p, sb_connection_id = cn_id c,
      sb_account_link_ref = None, sb_delegation_ref = None, sb_notification_target_ref = bq_notification_target_ref q,
      sb_enabled = True, sb_created_at = now, sb_updated_at = now\<rparr>"

definition create_binding :: "hub_principal \<Rightarrow> binding_request \<Rightarrow> string \<Rightarrow> string \<Rightarrow> uuid \<Rightarrow> int \<Rightarrow> sync_binding hub_act" where
  "create_binding p q body key new_id now =
     bind (result (require_grant p ''integrationCreateBinding'' now)) (\<lambda>_.
     if bad_key key then raise (IntegrationValidationError ''Idempotency-Key is required'')
     else
       bind (look (connection_scoped p (bq_connection_id q))) (\<lambda>c.
       if bq_account_link_ref q \<noteq> None \<or> bq_delegation_ref q \<noteq> None
       then raise (IntegrationValidationError ''member account and delegation references belong in ActorBinding'')
       else
         (let digest = sha256_str body; b = new_binding p c q new_id now in
          mutation (
            bind (look (\<lambda>s. replay_of (scope_of p, key) digest (hs_binding_keys s))) (\<lambda>existing.
            case existing of
              Some prior \<Rightarrow> ret prior
            | None \<Rightarrow>
                andthen (insert_or ''sync_bindings'' (\<lambda>s. map_option (\<lambda>t. s\<lparr>hs_bindings := t\<rparr>) (insert_row new_id b (hs_bindings s))))
                  (andthen (write_hub (\<lambda>s. s\<lparr>hs_binding_keys := hs_binding_keys s @ [((scope_of p, key), digest, b)]\<rparr>)) (ret b)))))))"

definition list_bindings :: "hub_principal \<Rightarrow> uuid option \<Rightarrow> int \<Rightarrow> hub_store \<Rightarrow> hub_exn + sync_binding list" where
  "list_bindings p connection_id now s =
     rbind (require_grant p ''integrationListBindings'' now) (\<lambda>_.
     Inr (sort_key sb_id (map snd (select (\<lambda>_ b. sb_organization_id b = hp_organization_id p \<and> sb_workspace_id b = hp_workspace_id p \<and>
       (connection_id = None \<or> connection_id = Some (sb_connection_id b))) (hs_bindings s)))))"

record actor_binding_request =
  aq_binding_id :: uuid
  aq_account_link_ref :: string
  aq_delegation_ref :: string

definition new_actor_binding :: "hub_principal \<Rightarrow> actor_binding_request \<Rightarrow> uuid \<Rightarrow> int \<Rightarrow> actor_binding" where
  "new_actor_binding p q new_id now =
     \<lparr>ab_id = new_id, ab_binding_id = aq_binding_id q, ab_organization_id = hp_organization_id p,
      ab_workspace_id = hp_workspace_id p, ab_actor_issuer = hp_issuer p, ab_actor_subject = hp_subject p,
      ab_account_link_ref = aq_account_link_ref q, ab_delegation_ref = aq_delegation_ref q, ab_enabled = True,
      ab_created_at = now, ab_updated_at = now\<rparr>"

definition attach_actor :: "hub_principal \<Rightarrow> actor_binding \<Rightarrow> actor_binding hub_act" where
  "attach_actor p a =
     bind (look (\<lambda>s. Inr (find_actor_binding (ab_binding_id a) (scope_of p) s))) (\<lambda>existing.
     case existing of
       Some current \<Rightarrow>
         if ab_account_link_ref current \<noteq> ab_account_link_ref a \<or> ab_delegation_ref current \<noteq> ab_delegation_ref a
         then raise (IntegrationConflict ''actor binding already has different authority refs'')
         else ret current
     | None \<Rightarrow>
         andthen (insert_or ''actor_bindings'' (\<lambda>s. map_option (\<lambda>t. s\<lparr>hs_actor_bindings := t\<rparr>) (insert_row (ab_id a) a (hs_actor_bindings s))))
           (ret a))"

definition create_actor_binding ::
  "hub_principal \<Rightarrow> actor_binding_request \<Rightarrow> string \<Rightarrow> string \<Rightarrow> uuid \<Rightarrow> int \<Rightarrow> actor_binding hub_act" where
  "create_actor_binding p q body key new_id now =
     bind (result (require_grant p ''integrationAttachActorBinding'' now)) (\<lambda>_.
     if bad_key key then raise (IntegrationValidationError ''Idempotency-Key is required'')
     else
       bind (look (binding_for_scope p (aq_binding_id q))) (\<lambda>_.
       let digest = sha256_str body in
       mutation (
         bind (look (\<lambda>s. replay_of (scope_of p, key) digest (hs_actor_binding_keys s))) (\<lambda>existing.
         case existing of
           Some prior \<Rightarrow> ret prior
         | None \<Rightarrow>
             bind (attach_actor p (new_actor_binding p q new_id now)) (\<lambda>a.
             andthen (write_hub (\<lambda>s. s\<lparr>hs_actor_binding_keys := hs_actor_binding_keys s @ [((scope_of p, key), digest, a)]\<rparr>))
               (ret a))))))"

definition list_actor_bindings :: "hub_principal \<Rightarrow> uuid \<Rightarrow> int \<Rightarrow> hub_store \<Rightarrow> hub_exn + actor_binding list" where
  "list_actor_bindings p binding_id now s =
     rbind (require_grant p ''integrationListActorBindings'' now) (\<lambda>_.
     Inr (map snd (select (\<lambda>_ a. attached binding_id (scope_of p) a \<and>
       (case find_row binding_id (hs_bindings s) of
          None \<Rightarrow> False
        | Some b \<Rightarrow> sb_organization_id b = hp_organization_id p \<and> sb_workspace_id b = hp_workspace_id p)) (hs_actor_bindings s))))"

end
