(* ===== verification/Examples.thy ===== *)
theory Examples
  imports Retry_Facts Attachments Admission Http_Server Execution Connections "HOL-Library.Code_Target_Nat"
begin

text \<open>
  Concrete inputs, evaluated by the kernel: an accepted chat request, a gateway over the audit
  recorder and the empty store with one route and one provider, its unary and its streamed run,
  and an embeddings run. The properties are instantiated on them.
\<close>

section \<open>A request\<close>

definition demo_payload :: pyval where
  "demo_payload = PDict [(''model'', PStr '' m ''),
     (''messages'', PList [PDict [(''role'', PStr ''user''),
        (''content'', PList [PDict [(''type'', PStr ''text''), (''text'', PStr ''hi'')]])]])]"

definition demo_stream_payload :: pyval where
  "demo_stream_payload = PDict [(''model'', PStr ''m''), (''stream'', PBool True),
     (''messages'', PList [PDict [(''role'', PStr ''user''), (''content'', PStr ''hi'')]])]"

definition demo_embedding_payload :: pyval where
  "demo_embedding_payload = PDict [(''model'', PStr ''m''), (''input'', PStr ''hi'')]"

definition demo_request :: inference_request where
  "demo_request = \<lparr>req_model = ''m'',
     req_messages = [[(''role'', PStr ''user''),
        (''content'', PTuple [PDict [(''type'', PStr ''text''), (''text'', PStr ''hi'')]])]],
     req_stream = False, req_temperature = None, req_max_tokens = None, req_tools = [], req_tool_choice = None,
     req_parallel_tool_calls = None, req_stream_options = None\<rparr>"

lemma demo_parse: "from_openai demo_payload = Inr demo_request"
  by code_simp

section \<open>A gateway\<close>

definition demo_caller :: request_principal where
  "demo_caller = \<lparr>actor_id = ''a'', workspace_id = ''w'', credential_ref = ''c'', model_scope = [], organization_id = None\<rparr>"

definition demo_usage :: provider_usage where
  "demo_usage = \<lparr>prompt_tokens = Some 3, completion_tokens = Some 2, total_tokens = None, usage_source = ''provider''\<rparr>"

definition demo_chunks :: "provider_chunk list" where
  "demo_chunks =
     [\<lparr>chunk_delta = ''he'', chunk_finish_reason = None, chunk_role = Some ''assistant'', chunk_tool_calls = [], chunk_usage = None\<rparr>,
      \<lparr>chunk_delta = ''y'', chunk_finish_reason = Some ''stop'', chunk_role = None, chunk_tool_calls = [], chunk_usage = Some demo_usage\<rparr>]"

definition demo_batch :: embedding_batch where
  "demo_batch = \<lparr>vectors = [[PInt 1]], dimensions = 1, batch_model = ''m''\<rparr>"

definition demo_target :: route_target where
  "demo_target = \<lparr>provider_ref = ''p'', target_route_id = ''r'', target_model = None\<rparr>"

definition demo_router :: router where
  "demo_router = \<lparr>rt_plan = Some (\<lambda>r. Inr [demo_target]), rt_plan_for_principal = None\<rparr>"

definition demo_provider :: provider where
  "demo_provider = \<lparr>p_complete = Some (\<lambda>r. Inr (demo_chunks, Exhausted)), p_embed = Some (\<lambda>r. Inr (Some demo_batch))\<rparr>"

definition demo_clock :: "nat \<Rightarrow> int" where
  "demo_clock i = 100 + int i"

definition demo_gateway :: "product_state gateway" where
  "demo_gateway =
     \<lparr>gw_principal_resolver = (\<lambda>t. if t = ''tok'' then Inr (Some demo_caller) else Inr None),
      gw_observer = audit_recorder demo_clock None, gw_quota_checker = None, gw_media_resolver = None, gw_max_attempts = 1,
      gw_resolve_router = Inr demo_router, gw_resolve_provider = (\<lambda>k ref. Inr demo_provider),
      gw_cancelled = (\<lambda>i. False), gw_clock = demo_clock\<rparr>"

definition demo_headers :: "(string \<times> string) list" where
  "demo_headers = [(''Authorization'', ''Bearer tok'')]"

definition demo_world :: "product_state world" where
  "demo_world = \<lparr>obs = \<lparr>px_store = empty_store, px_posted = [], px_ticks = 0\<rparr>, polls = 0, outcalls = []\<rparr>"

definition demo_run :: "(gw_exn + gateway_response) \<times> product_state world" where
  "demo_run = handle_openai_chat demo_gateway ''q1'' demo_headers demo_payload demo_world"

definition demo_stream_run :: "(gw_exn + gateway_response) \<times> product_state world" where
  "demo_stream_run = handle_openai_chat demo_gateway ''q2'' demo_headers demo_stream_payload demo_world"

definition demo_embedding_run :: "(gw_exn + gateway_response) \<times> product_state world" where
  "demo_embedding_run = handle_openai_embeddings demo_gateway ''q3'' demo_headers demo_embedding_payload demo_world"

definition demo_response :: gateway_response where
  "demo_response =
     \<lparr>resp_request_id = ''q1'', resp_model = ''m'', resp_status_code = 200,
      resp_body = Json (completion_body ''q1'' ''m'' 100 [(''role'', PStr ''assistant''), (''content'', PStr ''hey'')] ''stop''
        (Some demo_usage)),
      resp_stream = False, resp_route_id = ''r'', resp_usage = Some demo_usage\<rparr>"

definition demo_metadata :: "string \<Rightarrow> bool \<Rightarrow> request_metadata" where
  "demo_metadata i streamed =
     \<lparr>meta_request_id = i, meta_model = ''m'', meta_stream = streamed, meta_route_id = ''r'', meta_provider_ref = ''p'',
      meta_principal = demo_caller\<rparr>"

definition demo_stream :: lazy_stream where
  "demo_stream = \<lparr>ls_metadata = demo_metadata ''q2'' True, ls_chunks = demo_chunks, ls_end = Exhausted, ls_include_usage = False\<rparr>"

definition demo_stream_response :: gateway_response where
  "demo_stream_response =
     \<lparr>resp_request_id = ''q2'', resp_model = ''m'', resp_status_code = 200, resp_body = Lazy demo_stream,
      resp_stream = True, resp_route_id = ''r'', resp_usage = None\<rparr>"

definition demo_embedding_response :: gateway_response where
  "demo_embedding_response =
     \<lparr>resp_request_id = ''q3'', resp_model = ''m'', resp_status_code = 200, resp_body = Json (embeddings_body demo_batch),
      resp_stream = False, resp_route_id = ''r'', resp_usage = None\<rparr>"

lemma demo_responses:
  "fst demo_run = Inr demo_response" "fst demo_stream_run = Inr demo_stream_response"
  "fst demo_embedding_run = Inr demo_embedding_response"
  by code_simp+

lemma demo_runs:
  "handle_openai_chat demo_gateway ''q1'' demo_headers demo_payload demo_world = (Inr demo_response, snd demo_run)"
  "handle_openai_chat demo_gateway ''q2'' demo_headers demo_stream_payload demo_world = (Inr demo_stream_response, snd demo_stream_run)"
  "handle_openai_embeddings demo_gateway ''q3'' demo_headers demo_embedding_payload demo_world =
     (Inr demo_embedding_response, snd demo_embedding_run)"
  using demo_responses by (metis demo_run_def demo_stream_run_def demo_embedding_run_def prod.collapse)+

text \<open>The hypotheses of the ledger theorems hold on the demonstration gateway.\<close>

lemma demo_platform: "gw_observer demo_gateway = audit_recorder demo_clock None" "platform_plain demo_gateway"
  "ledger_status i (obs demo_world) = None"
  by (simp_all add: demo_gateway_def platform_plain_def provider_plain_def demo_provider_def stream_plain_def demo_world_def
      ledger_status_def get_request_audit_def empty_store_def find_row_def)

lemma demo_uncancelled: "\<not> gw_cancelled demo_gateway i"
  by (simp add: demo_gateway_def)

lemma demo_authenticated: "authenticate demo_gateway demo_headers = Inr demo_caller"
  by code_simp

lemma demo_platform_simps: "check_quota demo_gateway p = Inr ()" "\<not> gw_cancelled demo_gateway i" "polls demo_world = 0"
  "ledger_status rid (obs demo_world) = None"
  by (simp_all add: demo_gateway_def check_quota_def demo_world_def ledger_status_def get_request_audit_def empty_store_def
      find_row_def)

text \<open>A message whose role is a list: Python cannot hash it.\<close>

definition unhashable_role :: pyval where
  "unhashable_role = PDict [(''model'', PStr ''m''),
     (''messages'', PList [PDict [(''role'', PList []), (''content'', PStr ''hi'')]])]"

section \<open>A store\<close>

text \<open>
  One endpoint with an active route and a draft of the workspace \<open>w\<close> of organization \<open>o\<close>, a legacy
  draft, and one API key whose secret is \<open>tok\<close>. The digest is left as it is: no proof evaluates it.
\<close>

definition demo_owner :: product_principal where
  "demo_owner = \<lparr>pp_actor_id = ''a'', pp_workspace_id = ''w'', pp_credential_ref = ''c'', pp_organization_id = Some ''o''\<rparr>"

definition demo_endpoint :: gateway_endpoint where
  "demo_endpoint = \<lparr>ge_id = ''e'', ge_name = ''E'', ge_state = EndpointActive, ge_public_base_url = ''https://x'',
     ge_auth_policy_ref = ''policy://p'', ge_created_at = 0, ge_updated_at = 0, ge_resource_version = 1\<rparr>"

definition demo_route :: "uuid \<Rightarrow> route_state \<Rightarrow> string option \<Rightarrow> gateway_route" where
  "demo_route i st org = \<lparr>gr_id = i, gr_endpoint_id = ''e'', gr_state = st, gr_model_pattern = ''m'', gr_target_binding_id = ''p'',
     gr_target_model = Some ''m'', gr_priority = 1, gr_created_at = 0, gr_updated_at = 0, gr_resource_version = 1, gr_source = None,
     gr_created_by = Some ''a'', gr_workspace_id = Some ''w'', gr_organization_id = org\<rparr>"

definition demo_key_row :: credential_row where
  "demo_key_row = \<lparr>cw_token_digest = sha256_str ''tok'', cw_actor_id = ''a'', cw_workspace_id = ''w'', cw_organization_id = Some ''o'',
     cw_enabled = True, cw_created_at = 1, cw_api_key_id = Some ''k'', cw_name = Some ''key'', cw_expires_at = None,
     cw_revoked_at = None, cw_model_scope = Some [], cw_resource_version = 1\<rparr>"

definition demo_base :: exchange_store where
  "demo_base = empty_store\<lparr>gateway_endpoints := [(''e'', demo_endpoint)],
     gateway_routes := [(''r'', route_row_of (demo_route ''r'' RouteActive (Some ''o''))),
       (''d'', route_row_of (demo_route ''d'' RouteDraft (Some ''o''))), (''l'', route_row_of (demo_route ''l'' RouteDraft None))],
     endpoint_grants := [(''e'', ''o'', ''w'')]\<rparr>"

definition demo_store :: exchange_store where
  "demo_store = demo_base\<lparr>api_credentials := [(''api-key://k'', demo_key_row)]\<rparr>"

lemma demo_base_ok: "store_ok demo_base"
  by code_simp

lemma demo_store_ok: "store_ok demo_store"
  by (simp add: store_ok_def demo_store_def demo_base_def empty_store_def rows_ok_def table_ok_def unique_by_def grants_ok_def demo_endpoint_def
      route_row_ok_def route_row_of_def route_document_def demo_route_def find_row_def)

lemma demo_store_finds:
  "get_endpoint ''e'' demo_store = Some demo_endpoint"
  "get_route ''r'' demo_store = Some (demo_route ''r'' RouteActive (Some ''o''))"
  "get_route ''d'' demo_store = Some (demo_route ''d'' RouteDraft (Some ''o''))"
  "get_route ''l'' demo_store = Some (demo_route ''l'' RouteDraft None)"
  "get_legacy_route ''l'' demo_store = Some (demo_route ''l'' RouteDraft None)"
  "get_request_audit i demo_store = None" "find_row k (idempotency demo_store) = None"
  "find_api_key ''k'' demo_store = Some (''api-key://k'', demo_key_row)"
  "find_row ''api-key://k'' (api_credentials demo_store) = Some demo_key_row"
  by (simp_all add: demo_store_def demo_base_def empty_store_def get_endpoint_def get_route_def get_legacy_route_def get_request_audit_def find_row_def
      route_from_row_def route_row_of_def route_document_def demo_route_def find_api_key_def demo_key_row_def)

definition demo_settings :: gateway_settings where
  "demo_settings = \<lparr>gs_endpoint = ''e'', gs_credentials = [], gs_billing = None, gs_record_requests = True, gs_max_attempts = 1,
     gs_media_resolver = None, gs_delegate = (\<lambda>k ref. Inr demo_provider), gs_cancelled = (\<lambda>i. False), gs_clock = demo_clock\<rparr>"

definition demo_command :: create_endpoint_request where
  "demo_command = \<lparr>ce_name = ''E'', ce_public_base_url = ''https://x'', ce_auth_policy_ref = ''policy://p''\<rparr>"

lemma demo_created_endpoint:
  "\<exists>s. create_endpoint demo_command ''{}'' (Some ''i'') ''n'' 5 demo_base = (Inr (new_endpoint demo_command ''n'' 5), s)"
  by (simp add: create_endpoint_def check_def act_simps resolve_idempotency_def publish_endpoint_def Let_def save_endpoint_def
      db_write_def mutation_def remember_idempotency_def insert_idempotency_def insert_row_def demo_base_def empty_store_def
      find_row_def)

definition demo_key_command :: create_api_key_request where
  "demo_key_command = \<lparr>ck_name = ''key'', ck_expires_at = None, ck_model_scope = []\<rparr>"

definition demo_key :: api_key where
  "demo_key = new_api_key demo_key_command demo_owner ''k'' 5"

lemma demo_key_checks: "check_api_key_command demo_key_command n = Inr ()"
  by (simp add: check_api_key_command_def demo_key_command_def Let_def)

lemma demo_created_key:
  "\<exists>s. service_create_api_key demo_key_command ''{}'' demo_owner (Some ''i'') ''k'' ''s'' 5 6 demo_base =
     (Inr (demo_key, Some ''cyk_s'', True), s)"
  by (simp add: service_create_api_key_def demo_key_checks act_simps Let_def create_api_key_def resolve_idempotency_def
      check_def mutation_def insert_api_key_def insert_idempotency_def insert_row_def demo_base_def empty_store_def find_row_def
      demo_key_def db_read_def db_write_def find_api_key_def find_digest_def)

section \<open>An attachment\<close>

definition demo_work :: work_resolver where
  "demo_work = \<lparr>wr_origin = ''https://work'', wr_credentials = [(''c'', \<lparr>wc_actor_id = ''a'', wc_workspace_id = ''w'',
     wc_credential_ref = ''c'', wc_token = ''t'', wc_organization_id = None\<rparr>)], wr_max_bytes = 100\<rparr>"

definition demo_work_http :: work_http where
  "demo_work_http url token = Inr \<lparr>wk_status = 200, wk_content_length = None, wk_content_type = ''image/png'',
     wk_chunks = [[1]], wk_failure = None\<rparr>"

definition demo_artifact :: media_artifact where
  "demo_artifact = \<lparr>art_mime_type = ''image/png'', art_data = [1], art_sha256 = sha256_hex [1], art_size = 1\<rparr>"

lemma demo_mime: "lower (strip (before_char (CHR '';'') ''image/png'')) = ''image/png''" "mime_type_text ''image/png''"
  by code_simp+

lemma demo_read:
  "fst (read_attachment demo_work demo_work_http (\<lambda>i. False) (sha256_hex [1]) demo_caller (0, [])) = Inr demo_artifact"
proof -
  have "work_profile demo_work demo_caller = Inr \<lparr>wc_actor_id = ''a'', wc_workspace_id = ''w'', wc_credential_ref = ''c'',
      wc_token = ''t'', wc_organization_id = None\<rparr>"
    by code_simp
  moreover have "receive (\<lambda>i. False) demo_work \<lparr>wk_status = 200, wk_content_length = None, wk_content_type = ''image/png'',
      wk_chunks = [[1]], wk_failure = None\<rparr> (j, sent) = (Inr (''image/png'', [1]), (Suc j, sent))" for j sent
    by (simp add: receive_def act_simps check_length_def response_mime_def demo_mime stop_if_cancelled_def demo_work_def)
  ultimately show ?thesis
    by (simp add: read_attachment_def bind_stop bind_result bind_send sha256_hex_hex64 demo_work_http_def
        bind_apply [of "receive c r x" for c r x] accept_content_def demo_artifact_def result_apply)
qed

end
