(* ===== verification/Inbox.thy ===== *)
theory Inbox
  imports Connections
begin

text \<open>
  What enters the hub (\<open>integrations/store.py\<close>): verified GitHub deliveries with the notifications they
  queue, verified WeCom messages with their disposition, the one observation of a link challenge, and
  the issue command of a linked sender.
\<close>

section \<open>GitHub deliveries\<close>

text \<open>The canonical JSON of an event without the time it was observed.\<close>

definition github_fingerprint :: "github_event \<Rightarrow> string" where
  "github_fingerprint e =
     digest_of [(''eventType'', PStr (gh_event_type e)), (''action'', PStr (gh_action e)),
       (''repositoryId'', PStr (gh_repository_id e)), (''issueNumber'', PInt (gh_issue_number e)),
       (''senderId'', PStr (gh_sender_id e)), (''senderLogin'', PStr (gh_sender_login e)), (''title'', PStr (gh_title e)),
       (''body'', PStr (gh_body e)), (''selfAuthored'', PBool (gh_self_authored e))]"

definition enabled_connection :: "uuid \<Rightarrow> hub_store \<Rightarrow> hub_exn + connection" where
  "enabled_connection connection_id s =
     (case find_row connection_id (hs_connections s) of
        Some c \<Rightarrow> if cn_enabled c then Inr c else Inl (IntegrationNotFound ''integration connection not found'')
      | None \<Rightarrow> Inl (IntegrationNotFound ''integration connection not found''))"

definition find_delivery :: "uuid \<Rightarrow> string \<Rightarrow> hub_store \<Rightarrow> incoming_event option" where
  "find_delivery connection_id delivery_id s =
     map_option snd (find (\<lambda>(k, e). ie_connection_id e = connection_id \<and> ie_delivery_id e = delivery_id) (hs_incoming s))"

definition incoming_of :: "github_event \<Rightarrow> connection \<Rightarrow> string \<Rightarrow> string \<Rightarrow> uuid \<Rightarrow> incoming_event" where
  "incoming_of e c delivery_id fingerprint new_id =
     github_event.extend e (incoming_event.fields new_id (cn_id c) (cn_organization_id c) (cn_workspace_id c) delivery_id fingerprint)"

definition notify_job :: "connection \<Rightarrow> incoming_event \<Rightarrow> sync_binding \<Rightarrow> uuid \<Rightarrow> int \<Rightarrow> outbox_job" where
  "notify_job c e b new_id now =
     \<lparr>ob_id = new_id, ob_kind = Notify, ob_organization_id = cn_organization_id c, ob_workspace_id = cn_workspace_id c,
      ob_actor_issuer = cn_actor_issuer c, ob_actor_subject = cn_actor_subject c, ob_connection_id = cn_id c,
      ob_binding_id = Some (sb_id b), ob_operation_id = None,
      ob_idempotency_key = Some (''incoming:'' @ ie_id e @ '':'' @ sb_id b), ob_authority_invocation_id = None,
      ob_authority_idempotency_key = None, ob_authority_state = None,
      ob_payload = [(''eventId'', PStr (ie_id e)), (''targetRef'', PStr (sb_notification_target_ref b)),
        (''issueNumber'', PInt (gh_issue_number e)), (''repositoryName'', PStr (cn_repository_name c)),
        (''title'', PStr (gh_title e)), (''action'', PStr (gh_action e))],
      ob_state = Ready, ob_attempts = 0, ob_available_at = now, ob_claim_owner = None, ob_claim_fence = 0,
      ob_lease_expires_at = None, ob_created_at = now, ob_updated_at = now\<rparr>"

fun notify_all :: "connection \<Rightarrow> incoming_event \<Rightarrow> (uuid \<Rightarrow> uuid) \<Rightarrow> int \<Rightarrow> sync_binding list \<Rightarrow> unit hub_act" where
  "notify_all c e new_id now [] = ret ()"
| "notify_all c e new_id now (b # bs) =
     andthen (if sb_enabled b then insert_job (notify_job c e b (new_id (sb_id b)) now) else ret ())
       (notify_all c e new_id now bs)"

definition bindings_of :: "connection \<Rightarrow> hub_store \<Rightarrow> sync_binding list" where
  "bindings_of c s =
     map snd (select (\<lambda>_ b. sb_connection_id b = cn_id c \<and> sb_organization_id b = cn_organization_id c \<and>
       sb_workspace_id b = cn_workspace_id c) (hs_bindings s))"

text \<open>\<open>ingest_github_event\<close>; the job of each binding gets the UUID \<open>job_id\<close> gives for it.\<close>

definition ingest_github_event ::
  "uuid \<Rightarrow> string \<Rightarrow> github_event \<Rightarrow> bool \<Rightarrow> uuid \<Rightarrow> (uuid \<Rightarrow> uuid) \<Rightarrow> int \<Rightarrow> incoming_event hub_act" where
  "ingest_github_event connection_id delivery_id event verified new_id job_id now =
     (if \<not> verified then raise (IntegrationAuthorizationError ''GitHub signature was not verified'')
      else if delivery_id = [] \<or> length delivery_id > 300
      then raise (IntegrationValidationError ''delivery_id must contain 1 to 300 characters'')
      else
        (let fingerprint = github_fingerprint event in
         mutation (
           bind (look (enabled_connection connection_id)) (\<lambda>c.
           if gh_repository_id event \<noteq> cn_repository_id c
           then raise (IntegrationAuthorizationError ''event repository does not match connection'')
           else
             bind (look (\<lambda>s. Inr (find_delivery connection_id delivery_id s))) (\<lambda>previous.
             case previous of
               Some e \<Rightarrow>
                 if ie_payload_fingerprint e \<noteq> fingerprint
                 then raise (IntegrationConflict ''delivery id was reused with a different payload'') else ret e
             | None \<Rightarrow>
                 (let incoming = incoming_of event c delivery_id fingerprint new_id in
                  andthen (insert_or ''incoming_events'' (\<lambda>s. map_option (\<lambda>t. s\<lparr>hs_incoming := t\<rparr>) (insert_row new_id incoming (hs_incoming s))))
                    (andthen (if gh_self_authored incoming then ret ()
                              else bind (look (\<lambda>s. Inr (bindings_of c s))) (notify_all c incoming job_id now))
                      (ret incoming))))))))"

section \<open>WeCom messages\<close>

record wecom_message =
  wm_sender_id :: string
  wm_conversation_ref :: string
  wm_reply_message_id :: "string option"
  wm_reply_context_ref :: "string option"
  wm_message_text :: string
  wm_fingerprint :: "string option"
  wm_self_authored :: bool

abbreviation invalid :: "string \<Rightarrow> hub_exn" where
  "invalid \<equiv> IntegrationValidationError"

definition wecom_shape :: "wecom_message \<Rightarrow> string \<Rightarrow> string \<Rightarrow> string \<Rightarrow> hub_exn + unit" where
  "wecom_shape m source_event_id organization workspace =
     (let long = (\<lambda>r. case r of None \<Rightarrow> False | Some x \<Rightarrow> length x > 300) in
      rbind (guard (source_event_id \<noteq> [] \<and> length source_event_id \<le> 300) (invalid ''WeCom source event ID is invalid'')) (\<lambda>_.
      rbind (guard (organization \<noteq> [] \<and> workspace \<noteq> []) (invalid ''WeCom source scope is not configured'')) (\<lambda>_.
      rbind (guard (wm_sender_id m \<noteq> [] \<and> length (wm_sender_id m) \<le> 200) (invalid ''WeCom sender ID is invalid'')) (\<lambda>_.
      rbind (guard (wm_conversation_ref m \<noteq> [] \<and> length (wm_conversation_ref m) \<le> 300)
               (invalid ''WeCom conversation reference is invalid'')) (\<lambda>_.
      rbind (guard (\<not> long (wm_reply_message_id m)) (invalid ''WeCom reply message ID is invalid'')) (\<lambda>_.
      rbind (guard (\<not> long (wm_reply_context_ref m)) (invalid ''WeCom reply context reference is invalid'')) (\<lambda>_.
      guard (length (wm_message_text m) \<le> 4096) (invalid ''WeCom text exceeds the size limit''))))))))"

definition wecom_digest :: "wecom_message \<Rightarrow> uuid \<Rightarrow> string" where
  "wecom_digest m binding_id =
     digest_of [(''bindingId'', PStr binding_id), (''senderId'', PStr (wm_sender_id m)),
       (''conversationRef'', PStr (wm_conversation_ref m)), (''replyMessageId'', opt_py (wm_reply_message_id m)),
       (''replyContextRef'', opt_py (wm_reply_context_ref m)), (''messageText'', PStr (wm_message_text m)),
       (''selfAuthored'', PBool (wm_self_authored m))]"

text \<open>A link challenge is never stored.\<close>

abbreviation LINK_REDACTED :: string where
  "LINK_REDACTED \<equiv> ''/link [redacted]''"

definition redacted :: "string \<Rightarrow> string" where
  "redacted s = (if starts_with ''/link'' (dropWhile is_space s) then LINK_REDACTED else s)"

definition wecom_event_of :: "wecom_message \<Rightarrow> sync_binding \<Rightarrow> string \<Rightarrow> string \<Rightarrow> uuid \<Rightarrow> int \<Rightarrow> wecom_event" where
  "wecom_event_of m b source_event_id fingerprint new_id now =
     \<lparr>we_id = new_id, we_binding_id = sb_id b, we_organization_id = sb_organization_id b, we_workspace_id = sb_workspace_id b,
      we_source_event_id = source_event_id, we_payload_fingerprint = fingerprint, we_sender_id = wm_sender_id m,
      we_conversation_ref = wm_conversation_ref m, we_reply_message_id = wm_reply_message_id m,
      we_reply_context_ref = wm_reply_context_ref m, we_message_text = redacted (wm_message_text m),
      we_self_authored = wm_self_authored m, we_observed_at = now,
      we_state = (if wm_self_authored m then IgnoredSelf else Received), we_challenge_id = None, we_operation_id = None\<rparr>"

definition find_source_event :: "uuid \<Rightarrow> string \<Rightarrow> hub_store \<Rightarrow> wecom_event option" where
  "find_source_event binding_id source_event_id s =
     map_option snd (find (\<lambda>(k, e). we_binding_id e = binding_id \<and> we_source_event_id e = source_event_id) (hs_wecom s))"

definition source_binding :: "uuid \<Rightarrow> string \<Rightarrow> string \<Rightarrow> hub_store \<Rightarrow> hub_exn + sync_binding" where
  "source_binding binding_id organization workspace s =
     (case find_row binding_id (hs_bindings s) of
        None \<Rightarrow> Inl (IntegrationNotFound ''WeCom sync binding not found'')
      | Some b \<Rightarrow>
          if sb_organization_id b \<noteq> organization \<or> sb_workspace_id b \<noteq> workspace
          then Inl (IntegrationAuthorizationError ''WeCom source scope does not match the configured binding'')
          else if \<not> sb_enabled b then Inl (IntegrationAuthorizationError ''WeCom sync binding is disabled'')
          else Inr b)"

text \<open>\<open>persist_wecom_inbound\<close>: the event, and whether it is new.\<close>

definition persist_wecom_inbound ::
  "uuid \<Rightarrow> string \<Rightarrow> string \<Rightarrow> string \<Rightarrow> wecom_message \<Rightarrow> bool \<Rightarrow> uuid \<Rightarrow> int \<Rightarrow> (wecom_event \<times> bool) hub_act" where
  "persist_wecom_inbound binding_id source_event_id organization workspace m verified new_id now =
     (if \<not> verified then raise (IntegrationAuthorizationError ''WeCom event was not authenticated'')
      else
        bind (result (wecom_shape m source_event_id organization workspace)) (\<lambda>_.
        mutation (
          bind (look (source_binding binding_id organization workspace)) (\<lambda>b.
          let fingerprint = or_else (wm_fingerprint m) (wecom_digest m (sb_id b)) in
          if \<not> hex64 fingerprint then raise (invalid ''WeCom payload fingerprint must be SHA-256'')
          else
            bind (look (\<lambda>s. Inr (find_source_event binding_id source_event_id s))) (\<lambda>previous.
            case previous of
              Some e \<Rightarrow>
                if we_payload_fingerprint e \<noteq> fingerprint
                then raise (IntegrationConflict ''WeCom source event ID was reused with a different payload'')
                else ret (e, False)
            | None \<Rightarrow>
                (let event = wecom_event_of m b source_event_id fingerprint new_id now in
                 andthen (insert_or ''wecom_inbound_events'' (\<lambda>s. map_option (\<lambda>t. s\<lparr>hs_wecom := t\<rparr>) (insert_row new_id event (hs_wecom s))))
                   (ret (event, True))))))))"

section \<open>Dispositions\<close>

definition wecom_event_at :: "uuid \<Rightarrow> string \<Rightarrow> string \<Rightarrow> hub_store \<Rightarrow> hub_exn + wecom_event" where
  "wecom_event_at binding_id event_id missing s =
     (case find_row event_id (hs_wecom s) of
        Some e \<Rightarrow> if we_binding_id e = binding_id then Inr e else Inl (IntegrationNotFound missing)
      | None \<Rightarrow> Inl (IntegrationNotFound missing))"

definition put_event :: "wecom_event \<Rightarrow> unit hub_act" where
  "put_event e = write_hub (\<lambda>s. s\<lparr>hs_wecom := update_row (we_id e) (\<lambda>_. e) (hs_wecom s)\<rparr>)"

definition disposition :: "wecom_state \<Rightarrow> bool" where
  "disposition st = (st \<notin> {Received, IgnoredSelf, ChallengeObserving, ChallengeObserved, ChallengeUnknown})"

definition command_operation :: "wecom_event \<Rightarrow> uuid \<Rightarrow> uuid option \<Rightarrow> hub_store \<Rightarrow> hub_exn + unit" where
  "command_operation e binding_id operation_id s =
     (case operation_id of
        None \<Rightarrow> Inl (invalid ''queued command requires operation ID'')
      | Some i \<Rightarrow>
          (case find_row i (hs_operations s) of
             None \<Rightarrow> Inl (IntegrationNotFound ''WeCom command operation not found'')
           | Some o' \<Rightarrow>
               guard (io_binding_id o' = binding_id \<and> io_source_event_ref o' = Some (we_id e) \<and>
                   io_organization_id o' = we_organization_id e \<and> io_workspace_id o' = we_workspace_id e)
                 (IntegrationAuthorizationError ''command operation does not match source event'')))"

definition mark_wecom_inbound_processed :: "uuid \<Rightarrow> uuid \<Rightarrow> wecom_state \<Rightarrow> uuid option \<Rightarrow> wecom_event hub_act" where
  "mark_wecom_inbound_processed event_id binding_id st operation_id =
     (if \<not> disposition st then raise (invalid ''WeCom processing state is not a terminal intake state'')
      else mutation (
        bind (look (wecom_event_at binding_id event_id ''WeCom inbound event not found'')) (\<lambda>e.
        if we_state e \<noteq> Received \<and> we_state e \<noteq> st
        then raise (IntegrationConflict ''WeCom inbound event already has a terminal disposition'')
        else if we_state e = st \<and> we_operation_id e \<noteq> None \<and> we_operation_id e \<noteq> operation_id
        then raise (IntegrationConflict ''WeCom event is linked to another operation'')
        else
          bind (if st = CommandQueued then look (command_operation e binding_id operation_id) else ret ()) (\<lambda>_.
          let updated = e\<lparr>we_state := st, we_operation_id := operation_id\<rparr> in
          andthen (put_event updated) (ret updated)))))"

section \<open>Link challenges\<close>

abbreviation no_challenge_source :: string where
  "no_challenge_source \<equiv> ''WeCom challenge source event not found''"

text \<open>Whether this caller may observe; a second attempt makes the observation unknown.\<close>

definition begin_wecom_challenge_observation :: "uuid \<Rightarrow> string \<Rightarrow> (wecom_event \<times> bool) hub_act" where
  "begin_wecom_challenge_observation binding_id event_ref =
     mutation (
       bind (look (wecom_event_at binding_id event_ref no_challenge_source)) (\<lambda>e.
       if we_state e = Received
       then (let updated = e\<lparr>we_state := ChallengeObserving\<rparr> in andthen (put_event updated) (ret (updated, True)))
       else if we_state e = ChallengeObserving
       then (let updated = e\<lparr>we_state := ChallengeUnknown\<rparr> in andthen (put_event updated) (ret (updated, False)))
       else ret (e, False)))"

definition mark_wecom_challenge_unknown :: "uuid \<Rightarrow> string \<Rightarrow> wecom_event hub_act" where
  "mark_wecom_challenge_unknown binding_id event_ref =
     mutation (
       bind (look (wecom_event_at binding_id event_ref no_challenge_source)) (\<lambda>e.
       if we_state e \<notin> {ChallengeObserving, ChallengeUnknown}
       then raise (IntegrationConflict ''WeCom challenge observation is not in progress'')
       else (let updated = e\<lparr>we_state := ChallengeUnknown\<rparr> in andthen (put_event updated) (ret updated))))"

definition challenge_key :: "wecom_event \<Rightarrow> string \<Rightarrow> string" where
  "challenge_key e challenge_id = ''wecom-challenge:'' @ we_id e @ '':'' @ challenge_id"

definition challenge_job :: "wecom_event \<Rightarrow> sync_binding \<Rightarrow> string \<Rightarrow> uuid \<Rightarrow> int \<Rightarrow> outbox_job" where
  "challenge_job e b challenge_id new_id now =
     \<lparr>ob_id = new_id, ob_kind = ChallengeReply, ob_organization_id = we_organization_id e, ob_workspace_id = we_workspace_id e,
      ob_actor_issuer = ''urn:cyrene:wecom:'' @ sb_id b, ob_actor_subject = we_sender_id e,
      ob_connection_id = sb_connection_id b, ob_binding_id = Some (sb_id b), ob_operation_id = None,
      ob_idempotency_key = Some (challenge_key e challenge_id), ob_authority_invocation_id = None,
      ob_authority_idempotency_key = None, ob_authority_state = None,
      ob_payload = [(''eventId'', PStr (we_id e)), (''sourceBindingId'', PStr (sb_id b)), (''senderId'', PStr (we_sender_id e)),
        (''conversationRef'', PStr (we_conversation_ref e)), (''replyMessageId'', opt_py (we_reply_message_id e)),
        (''replyContextRef'', opt_py (we_reply_context_ref e)),
        (''text'', PStr (''Link challenge ID: '' @ challenge_id @ ''. Confirm it in Exchange.''))],
      ob_state = Ready, ob_attempts = 0, ob_available_at = now, ob_claim_owner = None, ob_claim_fence = 0,
      ob_lease_expires_at = None, ob_created_at = now, ob_updated_at = now\<rparr>"

definition challenge_source :: "wecom_event \<Rightarrow> bool" where
  "challenge_source e = (\<not> we_self_authored e \<and> we_message_text e = LINK_REDACTED \<and> given (we_reply_message_id e) \<and>
     given (we_reply_context_ref e) \<and> we_state e \<in> {ChallengeObserving, ChallengeReplyPending, ReplyAccepted, EventUnknown})"

definition enqueue_wecom_challenge_reply :: "uuid \<Rightarrow> string \<Rightarrow> string \<Rightarrow> uuid \<Rightarrow> int \<Rightarrow> wecom_event hub_act" where
  "enqueue_wecom_challenge_reply binding_id event_ref challenge_id new_id now =
     (if challenge_id = [] \<or> length challenge_id > 300 then raise (invalid ''WeCom challenge reference is invalid'')
      else mutation (
        bind (look (wecom_event_at binding_id event_ref no_challenge_source)) (\<lambda>e.
        if \<not> challenge_source e then raise (IntegrationAuthorizationError ''WeCom challenge reply source is invalid'')
        else if we_challenge_id e \<noteq> None \<and> we_challenge_id e \<noteq> Some challenge_id
        then raise (IntegrationConflict ''WeCom source event already recorded another challenge'')
        else
          bind (look (\<lambda>s. case find_row binding_id (hs_bindings s) of
             None \<Rightarrow> Inl (IntegrationNotFound ''WeCom source binding not found'') | Some b \<Rightarrow> Inr b)) (\<lambda>b.
          if \<not> sb_enabled b then raise (IntegrationAuthorizationError ''WeCom reply target is not configured'')
          else
            bind (look (\<lambda>s. Inr (list_ex (\<lambda>(k, j). job_key j = Some (ChallengeReply, challenge_key e challenge_id)) (hs_jobs s)))) (\<lambda>existing.
            if existing then ret e
            else if we_state e \<notin> {ChallengeObserving, ChallengeReplyPending}
            then raise (IntegrationConflict ''WeCom challenge state requires explicit recovery'')
            else if length (challenge_key e challenge_id) > 300
            then raise (ValidationError ''validation error for OutboxJob'')
            else
              (let updated = e\<lparr>we_state := ChallengeReplyPending, we_challenge_id := Some challenge_id\<rparr> in
               andthen (insert_job (challenge_job e b challenge_id new_id now))
                 (andthen (put_event updated) (ret updated))))))))"

section \<open>Commands\<close>

record actor_scope =
  as_issuer :: string
  as_subject :: string
  as_organization_id :: string
  as_workspace_id :: string

definition sender_binding :: "uuid \<Rightarrow> actor_scope \<Rightarrow> hub_store \<Rightarrow> hub_exn + sync_binding \<times> actor_binding" where
  "sender_binding binding_id a s =
     (case find_row binding_id (hs_bindings s) of
        None \<Rightarrow> Inl (IntegrationNotFound ''sync binding not found for verified sender'')
      | Some b \<Rightarrow>
          if sb_organization_id b \<noteq> as_organization_id a \<or> sb_workspace_id b \<noteq> as_workspace_id a
          then Inl (IntegrationNotFound ''sync binding not found for verified sender'')
          else
            (case find_actor_binding binding_id (as_organization_id a, as_workspace_id a, as_issuer a, as_subject a) s of
               None \<Rightarrow> Inl (IntegrationAuthorizationError ''verified sender has no attached ActorBinding'')
             | Some ab \<Rightarrow> Inr (b, ab)))"

definition command_source :: "wecom_event \<Rightarrow> string \<Rightarrow> hub_exn + unit" where
  "command_source e sender_id =
     rbind (guard (we_sender_id e = sender_id \<and> \<not> we_self_authored e \<and> we_state e \<in> {Received, CommandQueued})
              (IntegrationAuthorizationError ''WeCom command source is not eligible'')) (\<lambda>_.
     guard (given (we_reply_context_ref e) \<and> given (we_reply_message_id e))
       (invalid ''WeCom command has no trusted reply context''))"

definition command_issue_source :: "wecom_event \<Rightarrow> string \<Rightarrow> uuid \<Rightarrow> issue_source" where
  "command_issue_source e event_ref binding_id =
     \<lparr>is_wecom = True, is_event_ref = Some event_ref, is_reply_binding_ref = Some binding_id,
      is_reply_sender_id = Some (we_sender_id e), is_reply_conversation_ref = Some (we_conversation_ref e),
      is_reply_message_id = we_reply_message_id e, is_reply_context_ref = we_reply_context_ref e\<rparr>"

definition enqueue_issue_command_for_actor ::
  "uuid \<Rightarrow> actor_scope \<Rightarrow> string \<Rightarrow> string \<Rightarrow> string \<Rightarrow> string \<Rightarrow> uuid \<Rightarrow> uuid \<Rightarrow> int \<Rightarrow> issue_operation hub_act" where
  "enqueue_issue_command_for_actor binding_id a event_ref sender_id key command op_id job_id now =
     (if as_issuer a = [] \<or> as_subject a = [] \<or> as_organization_id a = [] \<or> as_workspace_id a = []
      then raise (invalid ''verified sender scope is incomplete'')
      else if event_ref = [] \<or> length event_ref > 300 then raise (invalid ''source event reference is invalid'')
      else if sender_id = [] \<or> length sender_id > 200 then raise (invalid ''verified sender source ID is invalid'')
      else
        bind (result (parse_issue_command command)) (\<lambda>parsed.
        bind (look (sender_binding binding_id a)) (\<lambda>(b, ab).
        bind (look (wecom_event_at binding_id event_ref ''durable WeCom source event was not found'')) (\<lambda>e.
        bind (result (command_source e sender_id)) (\<lambda>_.
        if \<not> sb_enabled b \<or> \<not> ab_enabled ab then raise (IntegrationAuthorizationError ''WeCom ActorBinding is disabled'')
        else
          bind (look (connection_for_scope_by_ids (sb_connection_id b) (as_organization_id a) (as_workspace_id a))) (\<lambda>c.
          if bad_key key then raise (ValidationError ''validation error for EnqueueIssueAction'')
          else
            persist_issue_action
              \<lparr>rq_connection_id = cn_id c, rq_binding_id = sb_id b, rq_operation_id = ic_operation_id parsed,
               rq_idempotency_key = key, rq_issue_number = ic_issue_number parsed, rq_body = ic_body parsed,
               rq_reconciles_operation_id = None\<rparr>
              b ab c (as_organization_id a, as_workspace_id a, as_issuer a, as_subject a)
              (command_issue_source e event_ref (sb_id b)) op_id job_id now))))))"

end
