(* ===== verification/Job_Machine.thy ===== *)
theory Job_Machine
  imports Inbox
begin

text \<open>
  The abstract machine of a job: the state and the fencing token, and the moves between them. Every
  operation of the store moves each job along it, keeps what identifies the job and never deletes
  one; an action is shown to do so from its parts.
\<close>

section \<open>The machine\<close>

text \<open>
  The state, the fencing token and the attempts made; the flag says that the job is a read-only
  query, which alone may be sent again.
\<close>

type_synonym job_view = "job_state \<times> int \<times> int"

inductive job_step :: "bool \<Rightarrow> job_view \<Rightarrow> job_view \<Rightarrow> bool" for query where
  claim: "st = Ready \<or> st = AwaitingAuthority \<Longrightarrow> job_step query (st, n, a) (Claimed, n + 1, a + 1)"
| release: "st = Ready \<or> st = AwaitingAuthority \<Longrightarrow> job_step query (Claimed, n, a) (st, n, a)"
| send: "job_step query (Claimed, n, a) (Sending, n, a)"
| refuse: "st = JobFailed \<or> st = Unknown \<Longrightarrow> job_step query (Claimed, n, a) (st, n, a)"
| execute: "st = Claimed \<or> st = AwaitingAuthority \<Longrightarrow> job_step query (st, n, a) (Sending, n + 1, a + 1)"
| settle: "st \<in> {Accepted, Succeeded, JobFailed, Unknown} \<Longrightarrow> job_step query (Sending, n, a) (st, n, a)"
| retry: "query \<Longrightarrow> a < 4 \<Longrightarrow> job_step query (Sending, n, a) (Ready, n, a)"
| reconcile: "job_step query (Unknown, n, a) (Succeeded, n, a)"

code_pred job_step .

inductive_cases job_stepE: "job_step query v v'"

abbreviation job_steps :: "bool \<Rightarrow> job_view \<Rightarrow> job_view \<Rightarrow> bool" where
  "job_steps query \<equiv> (job_step query)\<^sup>*\<^sup>*"

text \<open>Past the write boundary, and settled for good.\<close>

definition sent :: "job_state \<Rightarrow> bool" where
  "sent st = (st \<in> {Sending, Accepted, Succeeded, JobFailed, Unknown})"

definition final_state :: "job_state \<Rightarrow> bool" where
  "final_state st = (st \<in> {Accepted, Succeeded, JobFailed})"

lemma job_steps_fence: "job_steps query v v' \<Longrightarrow> fst (snd v) \<le> fst (snd v')"
  by (induction rule: rtranclp_induct) (auto elim!: job_stepE)

lemma job_steps_final: "job_steps query v v' \<Longrightarrow> final_state (fst v) \<Longrightarrow> v' = v"
  by (induction rule: rtranclp_induct) (auto simp: final_state_def elim!: job_stepE)

lemma job_step_sent: "job_step False v v' \<Longrightarrow> sent (fst v) \<Longrightarrow> sent (fst v') \<and> snd v' = snd v"
  by (erule job_stepE) (auto simp: sent_def)

lemma job_steps_sent: "job_steps False v v' \<Longrightarrow> sent (fst v) \<Longrightarrow> sent (fst v') \<and> snd v' = snd v"
  by (induction rule: rtranclp_induct) (simp_all add: job_step_sent)

lemma job_steps_unknown: "job_steps query v v' \<Longrightarrow> fst v = Unknown \<Longrightarrow> fst v' = Unknown \<or> fst v' = Succeeded"
  by (induction rule: rtranclp_induct) (auto elim!: job_stepE)

text \<open>How often the boundary can still be crossed: once for a write, up to the fourth attempt for a query.\<close>

definition sends_left :: "bool \<Rightarrow> job_view \<Rightarrow> nat" where
  "sends_left query v =
     (case v of (st, n, a) \<Rightarrow>
        let again = (\<lambda>k. if query then nat (k - a) else 0) in
        if sent st then again 4 else if st = Claimed then 1 + again 4 else 1 + again 3)"

definition crossed :: "job_state \<Rightarrow> job_state \<Rightarrow> nat" where
  "crossed st st' = of_bool (st \<noteq> Sending \<and> st' = Sending)"

lemma job_step_sends: "job_step query v v' \<Longrightarrow> crossed (fst v) (fst v') + sends_left query v' \<le> sends_left query v"
  by (erule job_stepE) (auto simp: sends_left_def crossed_def sent_def nat_le_iff)

lemma job_steps_sends: "job_steps query v v' \<Longrightarrow> crossed (fst v) (fst v') + sends_left query v' \<le> sends_left query v"
proof (induction rule: rtranclp_induct)
  case (step y z)
  from job_step_sends [OF step.hyps(2)] step.IH show ?case
    by (cases "fst y = Sending") (auto simp: crossed_def of_bool_def split: if_splits)
qed (simp add: crossed_def)

section \<open>Jobs\<close>

definition view :: "outbox_job \<Rightarrow> job_view" where
  "view j = (ob_state j, ob_claim_fence j, ob_attempts j)"

definition job_ident :: "outbox_job \<Rightarrow> uuid \<times> job_kind \<times> scope \<times> uuid \<times> uuid option \<times> uuid option \<times> string option \<times> pydict \<times> int" where
  "job_ident j = (ob_id j, ob_kind j, (ob_organization_id j, ob_workspace_id j, ob_actor_issuer j, ob_actor_subject j),
     ob_connection_id j, ob_binding_id j, ob_operation_id j, ob_idempotency_key j, ob_payload j, ob_created_at j)"

definition job_moves :: "outbox_job \<Rightarrow> outbox_job \<Rightarrow> bool" where
  "job_moves j j' = (job_ident j' = job_ident j \<and> job_steps (readonly_query j) (view j) (view j'))"

lemma job_ident_eqD:
  assumes "job_ident j' = job_ident j"
  shows "ob_id j' = ob_id j" "ob_kind j' = ob_kind j" "ob_binding_id j' = ob_binding_id j" "job_key j' = job_key j"
    "ob_operation_id j' = ob_operation_id j" "ob_idempotency_key j' = ob_idempotency_key j" "ob_payload j' = ob_payload j"
    "readonly_query j' = readonly_query j" "ob_connection_id j' = ob_connection_id j"
  using assms by (simp_all add: job_ident_def job_key_def readonly_query_def)

lemma job_moves_refl [simp]: "job_moves j j"
  by (simp add: job_moves_def)

lemma job_moves_trans: "job_moves j j' \<Longrightarrow> job_moves j' j'' \<Longrightarrow> job_moves j j''"
  by (auto simp: job_moves_def dest: job_ident_eqD)

lemma job_moves_step: "job_ident j' = job_ident j \<Longrightarrow> job_step (readonly_query j) (view j) (view j') \<Longrightarrow> job_moves j j'"
  by (simp add: job_moves_def r_into_rtranclp)

text \<open>A job as the hub makes it: messages carry their key, and the machine starts at \<open>READY\<close> with fence and attempts 0.\<close>

definition message_key :: "outbox_job \<Rightarrow> string" where
  "message_key j = ''incoming:'' @ (case dget (ob_payload j) ''eventId'' of PStr e \<Rightarrow> e | _ \<Rightarrow> []) @ '':'' @
     (case ob_binding_id j of None \<Rightarrow> [] | Some b \<Rightarrow> b)"

definition job_ok :: "outbox_job \<Rightarrow> bool" where
  "job_ok j = (job_steps (readonly_query j) (Ready, 0, 0) (view j) \<and>
     (case ob_kind j of
        IssueAction \<Rightarrow> True
      | Notify \<Rightarrow> ob_idempotency_key j = Some (message_key j) \<and> is_str (dget (ob_payload j) ''eventId'')
      | _ \<Rightarrow> given (ob_idempotency_key j)))"

lemma job_ok_moves:
  assumes "job_ok j" "job_moves j j'"
  shows "job_ok j'"
proof -
  from assms(2) have same: "job_ident j' = job_ident j" and steps: "job_steps (readonly_query j) (view j) (view j')"
    by (simp_all add: job_moves_def)
  from assms(1) rtranclp_trans [OF _ steps] show ?thesis
    by (cases "ob_kind j") (simp_all add: job_ok_def message_key_def job_ident_eqD [OF same])
qed

section \<open>Stores\<close>

definition jobs_ok :: "hub_store \<Rightarrow> bool" where
  "jobs_ok s = (rows_ok (\<lambda>k j. ob_id j = k \<and> job_ok j) (hs_jobs s) \<and> unique_by job_key (hs_jobs s))"

definition progress :: "hub_store \<Rightarrow> hub_store \<Rightarrow> bool" where
  "progress s s' = (\<forall>i j. find_row i (hs_jobs s) = Some j \<longrightarrow>
     (\<exists>j'. find_row i (hs_jobs s') = Some j' \<and> job_moves j j'))"

lemma progress_same_store [simp]: "progress s s"
  by (simp add: progress_def)

lemma progress_trans: "progress s s' \<Longrightarrow> progress s' s'' \<Longrightarrow> progress s s''"
  unfolding progress_def by (meson job_moves_trans)

lemma progress_same: "hs_jobs s' = hs_jobs s \<Longrightarrow> progress s s'"
  by (simp add: progress_def)

lemma jobs_ok_same: "hs_jobs s' = hs_jobs s \<Longrightarrow> jobs_ok s' = jobs_ok s"
  by (simp add: jobs_ok_def)

lemma jobs_ok_row: "jobs_ok s \<Longrightarrow> find_row i (hs_jobs s) = Some j \<Longrightarrow> ob_id j = i \<and> job_ok j"
  by (auto simp: jobs_ok_def dest: rows_okD)

lemma jobs_ok_key:
  assumes "jobs_ok s" "find_row i (hs_jobs s) = Some j" "find_row i' (hs_jobs s) = Some j'" "job_key j = job_key j'" "job_key j \<noteq> None"
  shows "i = i'"
  using assms by (auto simp: jobs_ok_def unique_by_iff [OF rows_ok_table])

text \<open>A new job goes to a free place.\<close>

lemma add_job_find: "add_job j s = Some s' \<Longrightarrow> find_row i (hs_jobs s') = (if i = ob_id j then Some j else find_row i (hs_jobs s))"
  by (auto simp: add_job_def find_row_def map_add_def split: if_splits option.splits)

lemma add_job_ok:
  assumes "jobs_ok s" "job_ok j" "add_job j s = Some s'"
  shows "jobs_ok s' \<and> progress s s'"
proof -
  note rows = rows_ok_table [OF conjunct1 [OF assms(1) [unfolded jobs_ok_def]]]
  from assms(3) have free: "find_row (ob_id j) (hs_jobs s) = None" and s': "s' = s\<lparr>hs_jobs := hs_jobs s @ [(ob_id j, j)]\<rparr>"
    and fresh: "job_key j = None \<or> (\<forall>(k, j') \<in> set (hs_jobs s). job_key j' \<noteq> job_key j)"
    by (auto simp: add_job_def list_ex_iff split: if_splits)
  from free have "insert_row (ob_id j) j (hs_jobs s) = Some (hs_jobs s')"
    by (auto simp: insert_row_def find_row_def map_of_eq_None_iff s')
  then have ok: "rows_ok (\<lambda>k j. ob_id j = k \<and> job_ok j) (hs_jobs s')"
    by (rule rows_ok_insert [rotated]) (use assms in \<open>simp_all add: jobs_ok_def\<close>)
  have other: "job_key j' \<noteq> job_key j" if "find_row i (hs_jobs s) = Some j'" "job_key j \<noteq> None" for i j'
    using fresh that by (auto simp: set_find [OF rows, symmetric])
  from assms(1) have "unique_by job_key (hs_jobs s)" by (simp add: jobs_ok_def)
  then have "unique_by job_key (hs_jobs s')"
    unfolding unique_by_iff [OF rows_ok_table [OF ok]] unique_by_iff [OF rows] add_job_find [OF assms(3)]
    using other by (metis option.inject)
  with ok free show ?thesis by (auto simp: jobs_ok_def progress_def add_job_find [OF assms(3)])
qed

lemma persist_ok:
  assumes "jobs_ok s" "find_row (ob_id j) (hs_jobs s) = Some j" "job_moves j j'"
    and s': "s' = s\<lparr>hs_jobs := update_row (ob_id j') (\<lambda>_. j') (hs_jobs s)\<rparr>"
  shows "jobs_ok s' \<and> progress s s'"
proof -
  from assms(3) have id: "ob_id j' = ob_id j" and key: "job_key j' = job_key j"
    by (auto simp: job_moves_def dest: job_ident_eqD)
  have rows: "rows_ok (\<lambda>k j. ob_id j = k \<and> job_ok j) (hs_jobs s)" using assms(1) by (simp add: jobs_ok_def)
  have row: "find_row i (hs_jobs s') = (if i = ob_id j then Some j' else find_row i (hs_jobs s))" for i
    using assms(2) by (simp add: s' find_update id)
  have ok: "rows_ok (\<lambda>k j. ob_id j = k \<and> job_ok j) (hs_jobs s')"
    unfolding s' using rows_okD [OF rows assms(2)]
    by (auto intro!: rows_ok_update rows job_ok_moves [OF _ assms(3)] simp: id)
  have "unique_by job_key (hs_jobs s')"
    unfolding unique_by_iff [OF rows_ok_table [OF ok]] row
    using assms(1,2) key by (auto simp: jobs_ok_def unique_by_iff [OF rows_ok_table [OF rows]] split: if_splits)
  with ok assms(2,3) show ?thesis by (auto simp: jobs_ok_def progress_def row)
qed

section \<open>Actions\<close>

text \<open>
  An action advances the jobs; it does so from a state that holds a given job; or it only adds jobs.
\<close>

definition advances_from :: "(hub_store \<Rightarrow> bool) \<Rightarrow> 'a hub_act \<Rightarrow> bool" where
  "advances_from P m = (\<forall>s. jobs_ok s \<longrightarrow> P s \<longrightarrow> jobs_ok (snd (m s)) \<and> progress s (snd (m s)))"

abbreviation advances :: "'a hub_act \<Rightarrow> bool" where
  "advances m \<equiv> advances_from (\<lambda>_. True) m"

definition holds_job :: "outbox_job \<Rightarrow> hub_store \<Rightarrow> bool" where
  "holds_job j s = (find_row (ob_id j) (hs_jobs s) = Some j)"

definition adds :: "'a hub_act \<Rightarrow> bool" where
  "adds m = (\<forall>s. jobs_ok s \<longrightarrow> jobs_ok (snd (m s)) \<and>
     (\<forall>i j. find_row i (hs_jobs s) = Some j \<longrightarrow> find_row i (hs_jobs (snd (m s))) = Some j))"

named_theorems advances_intros \<open>actions that advance the jobs\<close>
named_theorems adds_intros \<open>actions that only add jobs\<close>

lemma adds_advances: "adds m \<Longrightarrow> advances_from P m"
  by (auto simp: adds_def advances_from_def progress_def)

lemma adds_same: "(\<And>s. hs_jobs (snd (m s)) = hs_jobs s) \<Longrightarrow> adds m"
  unfolding adds_def jobs_ok_def by presburger

lemma adds_basic [adds_intros]: "adds (ret x)" "adds (raise e)" "adds (result r)" "adds (look f)"
  by (simp_all add: adds_def act_simps)

lemma adds_bind [adds_intros]: "adds m \<Longrightarrow> (\<And>x. adds (f x)) \<Longrightarrow> adds (bind m f)"
  unfolding adds_def by (fastforce simp: act_simps split: sum.splits prod.splits)

lemma adds_cases [adds_intros]:
  "adds m \<Longrightarrow> adds m' \<Longrightarrow> adds (if c then m else m')"
  "adds m \<Longrightarrow> (\<And>x. adds (k x)) \<Longrightarrow> adds (case v of None \<Rightarrow> m | Some x \<Rightarrow> k x)"
  "(\<And>x y. adds (h x y)) \<Longrightarrow> adds (case p of (x, y) \<Rightarrow> h x y)"
  by (auto split: option.splits prod.splits)

lemma adds_write [adds_intros]:
  "(\<And>s. hs_jobs (g s) = hs_jobs s) \<Longrightarrow> adds (write_hub g)"
  "(\<And>s s'. h s = Some s' \<Longrightarrow> hs_jobs s' = hs_jobs s) \<Longrightarrow> adds (insert_or t h)"
  by (rule adds_same; auto simp: act_simps insert_or_def split: option.splits)+

lemma adds_insert_job [adds_intros]: "job_ok j \<Longrightarrow> adds (insert_job j)"
  unfolding adds_def insert_job_def insert_or_def
  by (auto simp: add_job_ok add_job_find split: option.splits) (auto simp: add_job_def split: if_splits)

lemma adds_mutation [adds_intros]: "adds m \<Longrightarrow> adds (mutation m)"
  unfolding adds_def mutation_def by (auto split: sum.splits prod.splits)

lemma advances_basic [advances_intros]:
  "advances_from P (ret x)" "advances_from P (raise e)" "advances_from P (result r)" "advances_from P (look f)"
  by (simp_all add: adds_advances adds_basic)

lemma advances_cases [advances_intros]:
  "(c \<Longrightarrow> advances_from P m) \<Longrightarrow> (\<not> c \<Longrightarrow> advances_from P m') \<Longrightarrow> advances_from P (if c then m else m')"
  "(v = None \<Longrightarrow> advances_from P m) \<Longrightarrow> (\<And>x. v = Some x \<Longrightarrow> advances_from P (k x)) \<Longrightarrow>
   advances_from P (case v of None \<Rightarrow> m | Some x \<Rightarrow> k x)"
  "(\<And>x y. advances_from P (h x y)) \<Longrightarrow> advances_from P (case p of (x, y) \<Rightarrow> h x y)"
  by (auto split: option.splits prod.splits)

lemma advances_mutation [advances_intros]: "advances_from P m \<Longrightarrow> advances_from P (mutation m)"
  unfolding advances_from_def mutation_def by (auto split: sum.splits prod.splits)

lemma advances_bind [advances_intros]:
  assumes "advances_from P m" "\<And>x. advances (f x)"
  shows "advances_from P (bind m f)"
  unfolding advances_from_def
proof (intro allI impI)
  fix s assume s: "jobs_ok s" "P s"
  obtain r s1 where m: "m s = (r, s1)" by fastforce
  from assms(1) s m have 1: "jobs_ok s1" "progress s s1" by (auto simp: advances_from_def)
  show "jobs_ok (snd (bind m f s)) \<and> progress s (snd (bind m f s))"
  proof (cases r)
    case (Inr x)
    with assms(2) [of x] 1 m show ?thesis by (auto simp: act_simps advances_from_def intro: progress_trans)
  qed (simp add: act_simps m 1)
qed

text \<open>A check or a look leaves the job where it is; so does an action that only adds.\<close>

lemma advances_from_result: "(\<And>x. r = Inr x \<Longrightarrow> advances_from P (f x)) \<Longrightarrow> advances_from P (bind (result r) f)"
  by (cases r) (simp_all add: advances_intros)

lemma advances_from_look: "(\<And>x. advances_from P (f x)) \<Longrightarrow> advances_from P (bind (look g) f)"
  by (auto simp: advances_from_def act_simps split: sum.splits)

lemma advances_after_adds:
  assumes "adds m" "\<And>x. advances_from (holds_job j) (f x)"
  shows "advances_from (holds_job j) (bind m f)"
  unfolding advances_from_def
proof (intro allI impI)
  fix s assume ok: "jobs_ok s" and at: "holds_job j s"
  obtain r s1 where m: "m s = (r, s1)" by fastforce
  from assms(1) ok at m have 1: "jobs_ok s1" "progress s s1" "holds_job j s1"
    by (auto simp: adds_def progress_def holds_job_def)
  show "jobs_ok (snd (bind m f s)) \<and> progress s (snd (bind m f s))"
  proof (cases r)
    case (Inr x)
    with assms(2) [of x] 1 m show ?thesis by (auto simp: act_simps advances_from_def intro: progress_trans)
  qed (simp add: act_simps m 1)
qed

lemma advances_persist: "job_moves j j' \<Longrightarrow> advances_from (holds_job j) (persist_job j')"
  unfolding advances_from_def persist_job_def holds_job_def by (simp add: act_simps persist_ok)

text \<open>The job a handler starts from: found in the store, in the state and at the fence it names.\<close>

lemma advances_fenced:
  assumes "\<And>j. ob_id j = i \<Longrightarrow> ob_state j = st \<Longrightarrow> ob_claim_fence j = fence \<Longrightarrow> advances_from (holds_job j) (f j)"
  shows "advances (bind (look (fenced_job i st fence stale)) f)"
  unfolding advances_from_def
proof (intro allI impI)
  fix s assume ok: "jobs_ok s"
  show "jobs_ok (snd (bind (look (fenced_job i st fence stale)) f s)) \<and>
      progress s (snd (bind (look (fenced_job i st fence stale)) f s))"
  proof (cases "fenced_job i st fence stale s")
    case (Inr j)
    then have "find_row i (hs_jobs s) = Some j" "ob_state j = st" "ob_claim_fence j = fence"
      by (auto simp: fenced_job_def split: option.splits if_splits)
    with assms [of j] ok jobs_ok_row [OF ok, of i j] Inr show ?thesis
      by (auto simp: act_simps advances_from_def holds_job_def)
  qed (simp add: act_simps ok)
qed

end
