(* ===== verification/Hub_Steps.thy ===== *)
theory Hub_Steps
  imports Job_Machine
begin

text \<open>
  The hub as a transition system: every operation of the store that changes state as one datatype.
  Each advances the jobs along the abstract machine.
\<close>

section \<open>More on actions\<close>

lemma advances_look_job:
  assumes "\<And>s j. jobs_ok s \<Longrightarrow> g s = Inr j \<Longrightarrow> holds_job j s \<and> Q j" "\<And>j. Q j \<Longrightarrow> advances_from (holds_job j) (f j)"
  shows "advances_from P (bind (look g) f)"
  unfolding advances_from_def
proof (intro allI impI)
  fix s assume ok: "jobs_ok s"
  show "jobs_ok (snd (bind (look g) f s)) \<and> progress s (snd (bind (look g) f s))"
    using assms(1) [OF ok] assms(2) ok by (cases "g s") (auto simp: act_simps advances_from_def)
qed

text \<open>An action that touches one job, and a loop of such actions over some of the jobs.\<close>

definition only_job :: "uuid \<Rightarrow> 'a hub_act \<Rightarrow> bool" where
  "only_job i m = (\<forall>s k j. jobs_ok s \<longrightarrow> k \<noteq> i \<longrightarrow> find_row k (hs_jobs s) = Some j \<longrightarrow> find_row k (hs_jobs (snd (m s))) = Some j)"

lemma only_job_adds: "adds m \<Longrightarrow> only_job i m"
  by (auto simp: only_job_def adds_def)

lemma only_job_persist: "only_job (ob_id j) (persist_job j)"
  by (simp add: only_job_def persist_job_def act_simps find_update)

lemma only_job_bind: "adds m \<Longrightarrow> (\<And>x. only_job i (f x)) \<Longrightarrow> only_job i (bind m f)"
  unfolding only_job_def adds_def by (fastforce simp: act_simps split: sum.splits prod.splits)

definition each :: "(outbox_job \<Rightarrow> unit hub_act) \<Rightarrow> outbox_job list \<Rightarrow> unit hub_act" where
  "each body js = foldr (\<lambda>j m. andthen (body j) m) js (ret ())"

lemma advances_each:
  assumes "\<And>j. Q j \<Longrightarrow> advances_from (holds_job j) (body j) \<and> only_job (ob_id j) (body j)"
  shows "distinct (map ob_id js) \<Longrightarrow> list_all Q js \<Longrightarrow> advances_from (\<lambda>s. list_all (\<lambda>j. holds_job j s) js) (each body js)"
proof (induction js)
  case Nil
  show ?case by (simp add: each_def advances_intros)
next
  case (Cons j js)
  from Cons.prems assms [of j] have j: "advances_from (holds_job j) (body j)" "only_job (ob_id j) (body j)" by simp_all
  from Cons have rest: "advances_from (\<lambda>s. list_all (\<lambda>j. holds_job j s) js) (each body js)" by simp
  have run: "each body (j # js) = andthen (body j) (each body js)" by (simp add: each_def)
  show ?case unfolding advances_from_def
  proof (intro allI impI)
    fix s assume ok: "jobs_ok s" and held: "list_all (\<lambda>j. holds_job j s) (j # js)"
    obtain r s1 where m: "body j s = (r, s1)" by fastforce
    from j(1) ok held m have 1: "jobs_ok s1" "progress s s1" by (auto simp: advances_from_def)
    from j(2) ok held Cons.prems(1) m have "list_all (\<lambda>j. holds_job j s1) js"
      by (auto simp: only_job_def holds_job_def list_all_iff) (metis image_eqI snd_conv)
    with rest 1(1) have 2: "jobs_ok (snd (each body js s1)) \<and> progress s1 (snd (each body js s1))" by (simp add: advances_from_def)
    show "jobs_ok (snd (each body (j # js) s)) \<and> progress s (snd (each body (j # js) s))"
      using 1 2 m by (cases r) (auto simp: run act_simps intro: progress_trans)
  qed
qed

lemma advances_selected:
  assumes "\<And>j. Q j \<Longrightarrow> advances_from (holds_job j) (body j) \<and> only_job (ob_id j) (body j)"
    and "\<And>j. R j \<Longrightarrow> Q j" "\<And>js. advances (f js)"
  shows "advances_from P (bind (look (\<lambda>s. Inr (map snd (select (\<lambda>_. R) (hs_jobs s))))) (\<lambda>js. andthen (each body js) (f js)))"
  unfolding advances_from_def
proof (intro allI impI)
  fix s assume ok: "jobs_ok s"
  let ?js = "map snd (select (\<lambda>_. R) (hs_jobs s))"
  note rows = ok [unfolded jobs_ok_def, THEN conjunct1]
  have ids: "map ob_id ?js = map fst (select (\<lambda>_. R) (hs_jobs s))"
    using rows by (auto simp: rows_ok_def select_def list_all_iff)
  have "distinct (map fst (select (\<lambda>_. R) (hs_jobs s)))"
    using rows_ok_table [OF rows] unfolding table_ok_def select_def by (rule distinct_map_filter)
  then have d: "distinct (map ob_id ?js)" by (simp only: ids)
  have q: "list_all Q ?js" using assms(2) by (auto simp: list_all_iff select_def)
  have h: "list_all (\<lambda>j. holds_job j s) ?js"
    using rows by (auto simp: list_all_iff select_def holds_job_def set_find [OF rows_ok_table [OF rows]] dest: rows_okD)
  have "advances_from (\<lambda>s. list_all (\<lambda>j. holds_job j s) ?js) (andthen (each body ?js) (f ?js))"
    by (rule advances_bind [OF advances_each [OF assms(1) d q] assms(3)])
  with ok h show "jobs_ok (snd (bind (look (\<lambda>s. Inr (map snd (select (\<lambda>_. R) (hs_jobs s))))) (\<lambda>js. andthen (each body js) (f js)) s)) \<and>
      progress s (snd (bind (look (\<lambda>s. Inr (map snd (select (\<lambda>_. R) (hs_jobs s))))) (\<lambda>js. andthen (each body js) (f js)) s))"
    by (simp add: advances_from_def act_simps)
qed

section \<open>New jobs\<close>

lemma new_jobs_ok:
  "job_ok (intent_job o' payload i now)" "job_ok (reply_job env o' name st evidence now)"
  "job_ok (notify_job c e b i now)" "job_ok (challenge_job ev b challenge i now)"
  by (simp_all add: job_ok_def view_def intent_job_def reply_job_def notify_job_def challenge_job_def given_def
      reply_key_def challenge_key_def message_key_def dget_or_def)

lemma adds_parts [adds_intros]:
  "adds (put_operation o')" "adds (update_operation_state i st now outcome)" "adds (set_event_state ref b w)"
  "adds (forget_authority i)" "adds (add_evidence i fence d)" "adds (add_receipt j r)" "adds (put_event ev)" "adds (add_audit a)"
  unfolding put_operation_def update_operation_state_def set_event_state_def forget_authority_def add_evidence_def
    add_receipt_def put_event_def add_audit_def Let_def
  by (intro adds_intros; force)+

lemma adds_settle_event [adds_intros]: "adds (settle_event j b w)"
  by (auto simp: settle_event_def split: pyval.split intro!: adds_intros)

lemma adds_replies [adds_intros]:
  "adds (enqueue_command_reply env o' st evidence now)" "adds (enqueue_reply_for_operation env i st evidence now)"
proof -
  show 1: "adds (enqueue_command_reply env o' st evidence now)" for o'
    unfolding enqueue_command_reply_def Let_def by (intro adds_intros new_jobs_ok)
  show "adds (enqueue_reply_for_operation env i st evidence now)"
    unfolding enqueue_reply_for_operation_def by (intro adds_intros 1)
qed

lemma adds_issue_actions [adds_intros]:
  "adds (persist_issue_action request b a c sc src op_id job_id now)"
  "adds (enqueue_issue_action p request authorization op_id job_id now)"
  "adds (enqueue_reconciliation_query p i key op_id job_id now)"
  "adds (enqueue_issue_command_for_actor binding_id actor ref sender key command op_id job_id now)"
proof -
  show 1: "adds (persist_issue_action request b a c sc src op_id job_id now)" for request b a c sc src op_id job_id now
    unfolding persist_issue_action_def add_operation_def insert_job_def [symmetric] Let_def
    by (intro adds_intros new_jobs_ok) force
  show 2: "adds (enqueue_issue_action p request authorization op_id job_id now)" for request authorization
    unfolding enqueue_issue_action_def Let_def by (intro adds_intros 1)
  show "adds (enqueue_reconciliation_query p i key op_id job_id now)"
    unfolding enqueue_reconciliation_query_def by (intro adds_intros 2)
  show "adds (enqueue_issue_command_for_actor binding_id actor ref sender key command op_id job_id now)"
    unfolding enqueue_issue_command_for_actor_def by (intro adds_intros 1)
qed

lemma adds_notify_all [adds_intros]: "adds (notify_all c e f now bs)"
  by (induction bs) (auto intro!: adds_intros new_jobs_ok)

lemma adds_inbox [adds_intros]:
  "adds (ingest_github_event i d e v n f now)" "adds (persist_wecom_inbound i ref org ws m v n now)"
  "adds (mark_wecom_inbound_processed ev i st op_id)" "adds (begin_wecom_challenge_observation i ref)"
  "adds (mark_wecom_challenge_unknown i ref)" "adds (enqueue_wecom_challenge_reply i ref ch n now)"
  unfolding ingest_github_event_def persist_wecom_inbound_def mark_wecom_inbound_processed_def
    begin_wecom_challenge_observation_def mark_wecom_challenge_unknown_def enqueue_wecom_challenge_reply_def Let_def
  by (intro adds_intros new_jobs_ok; force)+

lemma adds_connections [adds_intros]:
  "adds (create_connection p q body key mode n now)" "adds (create_binding p bq body key n now)"
  "adds (create_actor_binding p aq body key n now)" "adds (save_snapshot sn)"
  unfolding create_connection_def create_binding_def create_actor_binding_def attach_actor_def save_snapshot_def Let_def
  by (intro adds_intros; force)+

section \<open>Transitions\<close>

lemma job_moves_shape:
  assumes "job_ident j' = job_ident j" "job_step (readonly_query j) (ob_state j, ob_claim_fence j, ob_attempts j) (ob_state j', ob_claim_fence j', ob_attempts j')"
  shows "job_moves j j'"
  using assms by (intro job_moves_step) (simp_all add: view_def)

lemmas job_machine_simps = job_ident_def job_step.simps released_def requeued_def claimed_def readonly_query_def

lemma advances_put: "job_moves j j' \<Longrightarrow> (\<And>x. advances (f x)) \<Longrightarrow> advances_from (holds_job j) (bind (persist_job j') f)"
  by (intro advances_bind advances_persist)

lemma fenced_held: "jobs_ok s \<Longrightarrow> fenced_job i st fence stale s = Inr j \<Longrightarrow> holds_job j s \<and> ob_state j = st \<and> ob_claim_fence j = fence"
  using jobs_ok_row [of s i j] by (auto simp: fenced_job_def holds_job_def split: option.splits if_splits)

lemma advances_sending: "advances (mark_sending i fence now)"
  unfolding mark_sending_def Let_def
  by (intro advances_mutation advances_fenced advances_cases advances_basic advances_put job_moves_shape adds_advances adds_intros)
    (simp_all add: job_machine_simps)

lemma advances_fail: "advances (fail_claimed_job env i fence why now)"
  unfolding fail_claimed_job_def fail_operation_def Let_def
  by (intro advances_mutation advances_fenced advances_put job_moves_shape adds_advances adds_intros)
    (simp_all add: job_machine_simps)

lemma advances_prepare: "advances (prepare_authority_enqueue i fence candidate now)"
  unfolding prepare_authority_enqueue_def Let_def
  by (intro advances_mutation advances_fenced advances_cases advances_basic advances_from_look advances_put adds_advances adds_intros)
    (simp_all add: job_moves_def job_ident_def view_def)

lemma advances_awaiting: "advances (mark_awaiting_authority i fence ivk st now)"
  unfolding mark_awaiting_authority_def Let_def
  by (intro advances_mutation advances_fenced advances_cases advances_basic advances_put job_moves_shape adds_advances adds_intros)
    (simp_all add: job_machine_simps)

lemma advances_evidence: "advances (update_authority_evidence i fence ivk st now)"
  unfolding update_authority_evidence_def Let_def
  by (intro advances_mutation advances_fenced advances_cases advances_basic advances_put job_moves_shape adds_advances adds_intros)
    (simp_all add: job_machine_simps)

lemma advances_unknown: "advances (mark_authority_result_unknown env i fence ivk now)"
  unfolding mark_authority_result_unknown_def Let_def
  by (intro advances_mutation advances_fenced advances_cases advances_basic advances_put job_moves_shape adds_advances adds_intros)
    (simp_all add: job_machine_simps)

lemma waiting_held:
  "jobs_ok s \<Longrightarrow> waiting_job i s = Inr j \<Longrightarrow> holds_job j s \<and> (ob_state j = AwaitingAuthority \<or> ob_state j = Claimed) \<and> ob_operation_id j = Some i"
proof -
  assume ok: "jobs_ok s" and j: "waiting_job i s = Inr j"
  then have "j \<in> snd ` set (select (\<lambda>_ j. ob_operation_id j = Some i \<and> (ob_state j = AwaitingAuthority \<or> ob_state j = Claimed)) (hs_jobs s))"
    by (auto simp: waiting_job_def split: list.splits)
  with ok show ?thesis
    by (auto simp: select_def holds_job_def jobs_ok_def rows_ok_def list_all_iff set_find [symmetric])
qed

lemma advances_execution: "advances (begin_authorized_execution p op_id b ex digest ivk lease now)"
  unfolding begin_authorized_execution_def Let_def
  by (intro advances_from_result advances_mutation advances_from_look advances_look_job
        [where Q = "\<lambda>j. (ob_state j = AwaitingAuthority \<or> ob_state j = Claimed) \<and> ob_operation_id j = Some op_id"] waiting_held
        advances_put job_moves_shape adds_advances adds_intros)
    (auto simp: job_machine_simps)

lemma operation_state_settled: "operation_state_of st = Some os \<Longrightarrow> st \<in> {Accepted, Succeeded, JobFailed, Unknown}"
  by (cases st) simp_all

lemma advances_finish: "advances (finish_job env i fence st evidence receipt clock)"
  unfolding finish_job_def Let_def
  by (intro advances_cases advances_basic advances_mutation advances_fenced advances_put job_moves_shape adds_advances adds_intros)
    (auto simp: job_machine_simps dest: operation_state_settled)

lemma advances_retry: "advances (retry_readonly_job env i fence now after)"
  unfolding retry_readonly_job_def Let_def
  by (intro advances_mutation advances_fenced advances_cases advances_basic advances_put job_moves_shape adds_advances adds_intros)
    (simp_all add: job_machine_simps)

text \<open>Recovery and reconciliation, over several jobs.\<close>

lemma adds_settle_expired [adds_intros]: "adds (settle_expired env now i st why)"
  unfolding settle_expired_def by (intro adds_intros)

lemma expired_moves:
  assumes "ob_state j = Sending" "expired_send j now = (j', st, why)"
  shows "job_moves j j'" and "ob_id j' = ob_id j"
  using assms by (auto simp: expired_send_def job_machine_simps split: if_splits intro!: job_moves_shape)

lemma advances_recover_job:
  assumes "ob_state j = Claimed \<or> ob_state j = Sending"
  shows "advances_from (holds_job j) (recover_job env now j) \<and> only_job (ob_id j) (recover_job env now j)"
proof (cases "ob_state j = Claimed")
  case True
  let ?j = "released j (if given (ob_authority_invocation_id j) then AwaitingAuthority else Ready) now"
  have "job_moves j ?j" using True by (intro job_moves_shape) (simp_all add: job_machine_simps)
  with True only_job_persist [of ?j] show ?thesis
    by (auto simp: recover_job_def released_def intro: advances_persist)
next
  case False
  with assms have st: "ob_state j = Sending" by simp
  obtain j' os why where e: "expired_send j now = (j', os, why)" by (metis prod_cases3)
  note m = expired_moves [OF st e]
  have run: "recover_job env now j = andthen (case ob_operation_id j of None \<Rightarrow> ret () | Some i \<Rightarrow> settle_expired env now i os why) (persist_job j')"
    using st by (simp add: recover_job_def e)
  show ?thesis unfolding run
    by (intro conjI advances_after_adds only_job_bind adds_intros advances_persist m(1)) (metis m(2) only_job_persist)
qed

lemma recover_jobs_each: "recover_jobs env now js = each (recover_job env now) js"
  by (induction js) (simp_all add: each_def)

lemma advances_recover: "advances (recover_expired_claims env now)"
  unfolding recover_expired_claims_def recover_jobs_each
  by (intro advances_mutation advances_selected [where Q = "\<lambda>j. ob_state j = Claimed \<or> ob_state j = Sending"]
        advances_recover_job advances_basic) (auto simp: expired_def)

lemma stored_held:
  assumes "jobs_ok s" "j \<in> set (map snd (select P (hs_jobs s)))"
  shows "holds_job j s \<and> P (ob_id j) j"
proof -
  note rows = assms(1) [unfolded jobs_ok_def, THEN conjunct1]
  from assms(2) obtain k where k: "(k, j) \<in> set (hs_jobs s)" "P k j" by (auto simp: select_def)
  then have "find_row k (hs_jobs s) = Some j" by (simp add: set_find [OF rows_ok_table [OF rows]])
  with rows_okD [OF rows this] k(2) show ?thesis by (simp add: holds_job_def)
qed

lemma next_claimable_held:
  assumes "jobs_ok s" "next_claimable now s = Some j"
  shows "holds_job j s \<and> (ob_state j = Ready \<or> ob_state j = AwaitingAuthority) \<and> ob_available_at j \<le> now"
proof -
  let ?js = "map snd (select (\<lambda>_. claimable now) (hs_jobs s))"
  have "j \<in> set (sort_key (\<lambda>j. (ob_available_at j, ob_created_at j, ob_id j)) ?js)"
    using assms(2) unfolding next_claimable_def
    by (cases "sort_key (\<lambda>j. (ob_available_at j, ob_created_at j, ob_id j)) ?js") (simp_all only: list.case option.simps list.set_intros)
  then have "j \<in> set ?js" by (simp only: set_sort)
  from stored_held [OF assms(1) this] show ?thesis by (simp add: claimable_def)
qed

lemma advances_claim_next: "advances (claim_next worker now lease)"
proof -
  have "advances_from (\<lambda>_. True) (case row of None \<Rightarrow> ret None
       | Some j \<Rightarrow> let updated = claimed j worker now lease in andthen (persist_job updated)
           (ret (Some \<lparr>cj_job = updated, cj_claim_fence = ob_claim_fence updated, cj_claimed_from_state = ob_state j\<rparr>)))"
    if "row = None" for row by (simp add: that advances_intros)
  moreover have "advances_from (holds_job j) (andthen (persist_job (claimed j worker now lease)) (ret x))"
    if "ob_state j = Ready \<or> ob_state j = AwaitingAuthority" for j and x :: "claimed_job option"
    using that by (intro advances_put job_moves_shape advances_basic) (simp_all add: job_machine_simps)
  ultimately show ?thesis
    unfolding claim_next_def
    apply (intro advances_mutation)
    unfolding advances_from_def
    apply (intro allI impI)
    subgoal for s by (cases "next_claimable now s")
        (use next_claimable_held [of s now] in \<open>auto simp: act_simps Let_def advances_from_def\<close>)
    done
qed

lemma advances_claim: "advances (claim_job env worker now lease)"
  unfolding claim_job_def by (intro advances_cases advances_basic advances_bind advances_recover advances_claim_next)

lemma settle_unknown_each:
  "settle_unknown_jobs js outcome now =
     each (\<lambda>j. andthen (persist_job (j\<lparr>ob_state := Succeeded, ob_updated_at := now\<rparr>))
       (write_hub (\<lambda>s. s\<lparr>hs_evidence := replace_row (ob_id j, ob_claim_fence j)
          (foldl (\<lambda>d (k, v). dset k v d) [(''reconciledReadOnly'', PBool True)] outcome) (hs_evidence s)\<rparr>))) js"
  by (induction js) (simp_all add: each_def bind_assoc)

lemma advances_resolve: "advances (resolve_unknown_operation p i ok outcome authorization audit_id now)"
proof -
  have body: "advances_from (holds_job j) (andthen (persist_job (j\<lparr>ob_state := Succeeded, ob_updated_at := now\<rparr>)) (write_hub (g j))) \<and>
      only_job (ob_id j) (andthen (persist_job (j\<lparr>ob_state := Succeeded, ob_updated_at := now\<rparr>)) (write_hub (g j)))"
    if "ob_state j = Unknown" "\<And>s. hs_jobs (g j s) = hs_jobs s" for j and g :: "outbox_job \<Rightarrow> hub_store \<Rightarrow> hub_store"
  proof (intro conjI advances_put job_moves_shape adds_advances adds_intros)
    show "only_job (ob_id j) (andthen (persist_job (j\<lparr>ob_state := Succeeded, ob_updated_at := now\<rparr>)) (write_hub (g j)))"
      using that(2) by (simp add: only_job_def persist_job_def act_simps find_update)
  qed (use that in \<open>simp_all add: job_machine_simps\<close>)
  have "advances (bind (look (\<lambda>s. Inr (map snd (select (\<lambda>_ j. ob_operation_id j = Some i \<and> ob_state j = Unknown) (hs_jobs s)))))
      (\<lambda>js. andthen (settle_unknown_jobs js outcome now) (ret ())))"
    unfolding settle_unknown_each
    by (rule advances_selected [where Q = "\<lambda>j. ob_state j = Unknown"]) (auto intro!: body advances_basic)
  moreover have "andthen m (ret ()) = m" for m :: "unit hub_act"
    by (auto simp: fun_eq_iff act_simps split: sum.splits prod.splits)
  ultimately have settle: "advances (bind (look (\<lambda>s. Inr (map snd (select (\<lambda>_ j. ob_operation_id j = Some i \<and> ob_state j = Unknown) (hs_jobs s)))))
      (\<lambda>js. settle_unknown_jobs js outcome now))" by simp
  show ?thesis unfolding resolve_unknown_operation_def Let_def
    by (intro advances_from_result advances_mutation advances_from_look advances_bind advances_cases advances_basic settle
        adds_advances adds_intros)
qed

section \<open>Operations as data\<close>

datatype hub_op =
    CreateConnection hub_principal connection_request string string string uuid int
  | CreateBinding hub_principal binding_request string string uuid int
  | CreateActorBinding hub_principal actor_binding_request string string uuid int
  | IngestGithub uuid string github_event bool uuid "uuid \<Rightarrow> uuid" int
  | PersistWecom uuid string string string wecom_message bool uuid int
  | MarkProcessed uuid uuid wecom_state "uuid option"
  | BeginObservation uuid string
  | MarkChallengeUnknown uuid string
  | EnqueueChallengeReply uuid string string uuid int
  | EnqueueIssueAction hub_principal issue_request "string option" uuid uuid int
  | EnqueueIssueCommand uuid actor_scope string string string string uuid uuid int
  | EnqueueReconciliation hub_principal uuid string uuid uuid int
  | ClaimJob reply_env string int int
  | MarkSending uuid int int
  | FailClaimed reply_env uuid int string int
  | PrepareAuthority uuid int string int
  | MarkAwaiting uuid int string string int
  | UpdateEvidence uuid int string string int
  | MarkResultUnknown reply_env uuid int string int
  | BeginExecution hub_principal uuid uuid string string string int int
  | FinishJob reply_env uuid int job_state pydict "delivery_receipt option" int
  | RetryReadonly reply_env uuid int int "int option"
  | ResolveUnknown hub_principal uuid bool pydict string uuid int
  | SaveSnapshot resource_snapshot

fun hub_perform :: "hub_op \<Rightarrow> hub_store \<Rightarrow> hub_store" where
  "hub_perform (CreateConnection p q body key mode i now) s = snd (create_connection p q body key mode i now s)"
| "hub_perform (CreateBinding p q body key i now) s = snd (create_binding p q body key i now s)"
| "hub_perform (CreateActorBinding p q body key i now) s = snd (create_actor_binding p q body key i now s)"
| "hub_perform (IngestGithub c d e v i f now) s = snd (ingest_github_event c d e v i f now s)"
| "hub_perform (PersistWecom b ref org ws m v i now) s = snd (persist_wecom_inbound b ref org ws m v i now s)"
| "hub_perform (MarkProcessed e b st i) s = snd (mark_wecom_inbound_processed e b st i s)"
| "hub_perform (BeginObservation b ref) s = snd (begin_wecom_challenge_observation b ref s)"
| "hub_perform (MarkChallengeUnknown b ref) s = snd (mark_wecom_challenge_unknown b ref s)"
| "hub_perform (EnqueueChallengeReply b ref ch i now) s = snd (enqueue_wecom_challenge_reply b ref ch i now s)"
| "hub_perform (EnqueueIssueAction p q a i j now) s = snd (enqueue_issue_action p q a i j now s)"
| "hub_perform (EnqueueIssueCommand b a ref sender key command i j now) s =
     snd (enqueue_issue_command_for_actor b a ref sender key command i j now s)"
| "hub_perform (EnqueueReconciliation p o' key i j now) s = snd (enqueue_reconciliation_query p o' key i j now s)"
| "hub_perform (ClaimJob env worker now lease) s = snd (claim_job env worker now lease s)"
| "hub_perform (MarkSending i f now) s = snd (mark_sending i f now s)"
| "hub_perform (FailClaimed env i f why now) s = snd (fail_claimed_job env i f why now s)"
| "hub_perform (PrepareAuthority i f key now) s = snd (prepare_authority_enqueue i f key now s)"
| "hub_perform (MarkAwaiting i f ivk st now) s = snd (mark_awaiting_authority i f ivk st now s)"
| "hub_perform (UpdateEvidence i f ivk st now) s = snd (update_authority_evidence i f ivk st now s)"
| "hub_perform (MarkResultUnknown env i f ivk now) s = snd (mark_authority_result_unknown env i f ivk now s)"
| "hub_perform (BeginExecution p i b ex digest ivk lease now) s = snd (begin_authorized_execution p i b ex digest ivk lease now s)"
| "hub_perform (FinishJob env i f st evidence receipt clock) s = snd (finish_job env i f st evidence receipt clock s)"
| "hub_perform (RetryReadonly env i f now after) s = snd (retry_readonly_job env i f now after s)"
| "hub_perform (ResolveUnknown p i succeeded outcome authorization audit now) s =
     snd (resolve_unknown_operation p i succeeded outcome authorization audit now s)"
| "hub_perform (SaveSnapshot sn) s = snd (save_snapshot sn s)"

inductive hub_reachable :: "hub_store \<Rightarrow> bool" where
  start: "hub_reachable empty_hub"
| step: "hub_reachable s \<Longrightarrow> hub_reachable (hub_perform op s)"

lemma advancesD: "advances m \<Longrightarrow> jobs_ok s \<Longrightarrow> jobs_ok (snd (m s)) \<and> progress s (snd (m s))"
  by (simp add: advances_from_def)

lemmas advances_operations =
  advances_sending advances_fail advances_prepare advances_awaiting advances_evidence advances_unknown advances_execution
  advances_finish advances_retry advances_claim advances_resolve

lemmas adds_operations = adds_connections adds_inbox adds_issue_actions

lemmas all_advance = advances_operations adds_operations [THEN adds_advances [where P = "\<lambda>_. True"]]

lemma perform_advances:
  assumes "jobs_ok s"
  shows "jobs_ok (hub_perform op s) \<and> progress s (hub_perform op s)"
  by (cases op; simp only: hub_perform.simps; rule advancesD [OF _ assms]; rule all_advance)

lemma empty_hub_ok: "jobs_ok empty_hub"
  by (simp add: jobs_ok_def empty_hub_def rows_ok_def table_ok_def unique_by_def)

lemma hub_reachable_ok: "hub_reachable s \<Longrightarrow> jobs_ok s"
  by (induction rule: hub_reachable.induct) (simp_all add: empty_hub_ok perform_advances)

end
