(* ===== verification/Hub_Invariants.thy ===== *)
theory Hub_Invariants
  imports Hub_Steps "HOL-Library.Sublist"
begin

text \<open>
  What the operations of the hub do to the other tables: connections and bindings are written only
  where they are created, and an operation keeps everything but its state, its result, its Authority
  references and the time of its last change.
\<close>

section \<open>Which operation touches which table\<close>

lemma leaves_hub [leaves_intros]:
  "leaves v (look f)" "(\<And>s. v (g s) = v s) \<Longrightarrow> leaves v (write_hub g)"
  "(\<And>s s'. h s = Some s' \<Longrightarrow> v s' = v s) \<Longrightarrow> leaves v (insert_or t h)"
  by (auto simp: leaves_def act_simps insert_or_def split: option.splits)

lemma leaves_rows [leaves_intros]:
  assumes "\<And>s f. v (s\<lparr>hs_jobs := f\<rparr>) = v s"
  shows "leaves v (insert_job j)" "leaves v (persist_job j)"
  unfolding insert_job_def persist_job_def by (intro leaves_intros; auto simp: add_job_def assms split: if_splits)+

lemma leaves_facts [leaves_intros]:
  "(\<And>s f. v (s\<lparr>hs_operations := f\<rparr>) = v s) \<Longrightarrow> leaves v (put_operation o')"
  "(\<And>s f. v (s\<lparr>hs_operations := f\<rparr>) = v s) \<Longrightarrow> leaves v (update_operation_state i st now outcome)"
  "(\<And>s f. v (s\<lparr>hs_operations := f\<rparr>) = v s) \<Longrightarrow> leaves v (forget_authority i)"
  "(\<And>s f. v (s\<lparr>hs_evidence := f\<rparr>) = v s) \<Longrightarrow> leaves v (add_evidence i fence d)"
  "(\<And>s f. v (s\<lparr>hs_receipts := f\<rparr>) = v s) \<Longrightarrow> leaves v (add_receipt j r)"
  "(\<And>s f. v (s\<lparr>hs_audits := f\<rparr>) = v s) \<Longrightarrow> leaves v (add_audit a)"
  "(\<And>s f. v (s\<lparr>hs_wecom := f\<rparr>) = v s) \<Longrightarrow> leaves v (put_event e)"
  "(\<And>s f. v (s\<lparr>hs_wecom := f\<rparr>) = v s) \<Longrightarrow> leaves v (set_event_state ref b w)"
  unfolding put_operation_def update_operation_state_def forget_authority_def add_evidence_def add_receipt_def add_audit_def
    put_event_def set_event_state_def Let_def
  by (intro leaves_intros; auto)+

lemma leaves_settle_event [leaves_intros]:
  "(\<And>s f. v (s\<lparr>hs_wecom := f\<rparr>) = v s) \<Longrightarrow> leaves v (settle_event j b w)"
  by (auto simp: settle_event_def split: pyval.split intro!: leaves_intros)

lemma leaves_reply [leaves_intros]:
  assumes "\<And>s f. v (s\<lparr>hs_jobs := f\<rparr>) = v s"
  shows "leaves v (enqueue_command_reply env o' st evidence now)" "leaves v (enqueue_reply_for_operation env i st evidence now)"
  unfolding enqueue_reply_for_operation_def enqueue_command_reply_def Let_def by (intro leaves_intros assms)+

text \<open>A view that depends on none of the tables the outbox writes.\<close>

definition unmoved :: "(hub_store \<Rightarrow> 'x) \<Rightarrow> bool" where
  "unmoved v = (\<forall>s. (\<forall>f. v (s\<lparr>hs_jobs := f\<rparr>) = v s) \<and> (\<forall>f. v (s\<lparr>hs_operations := f\<rparr>) = v s) \<and> (\<forall>f. v (s\<lparr>hs_evidence := f\<rparr>) = v s) \<and>
     (\<forall>f. v (s\<lparr>hs_receipts := f\<rparr>) = v s) \<and> (\<forall>f. v (s\<lparr>hs_audits := f\<rparr>) = v s) \<and> (\<forall>f. v (s\<lparr>hs_wecom := f\<rparr>) = v s) \<and>
     (\<forall>f. v (s\<lparr>hs_incoming := f\<rparr>) = v s) \<and> (\<forall>f. v (s\<lparr>hs_snapshots := f\<rparr>) = v s))"

lemma steady_views: "unmoved hs_bindings" "unmoved hs_connections" "unmoved hs_actor_bindings"
  by (simp_all add: unmoved_def)

lemma leaves_each_job: "(\<And>j. leaves v (body j)) \<Longrightarrow> leaves v (each body js)"
  by (induction js) (simp_all add: each_def leaves_intros)

lemma leaves_recover: "unmoved v \<Longrightarrow> leaves v (recover_expired_claims env now)"
proof -
  assume "unmoved v"
  then have settle: "leaves v (settle_expired env now i st why)" for i st why
    unfolding settle_expired_def unmoved_def by (intro leaves_intros) simp_all
  from \<open>unmoved v\<close> have "leaves v (recover_job env now j)" for j
    unfolding recover_job_def by (intro leaves_intros settle) (simp_all add: unmoved_def)
  then show ?thesis unfolding recover_expired_claims_def recover_jobs_each by (intro leaves_intros leaves_each_job)
qed

lemma leaves_claim: "unmoved v \<Longrightarrow> leaves v (claim_job env worker now lease)"
  unfolding claim_job_def claim_next_def Let_def by (intro leaves_intros leaves_recover) (simp_all add: unmoved_def)

lemma leaves_transitions:
  assumes "unmoved v"
  shows "leaves v (mark_sending i fence now)" "leaves v (fail_claimed_job env i fence why now)"
    "leaves v (prepare_authority_enqueue i fence candidate now)" "leaves v (mark_awaiting_authority i fence ivk st now)"
    "leaves v (update_authority_evidence i fence ivk st now)" "leaves v (mark_authority_result_unknown env i fence ivk now)"
    "leaves v (begin_authorized_execution p op_id b ex digest ivk lease now)" "leaves v (finish_job env i fence js evidence receipt clock)"
    "leaves v (retry_readonly_job env i fence now after)"
  using assms unfolding unmoved_def mark_sending_def fail_claimed_job_def fail_operation_def prepare_authority_enqueue_def
    mark_awaiting_authority_def update_authority_evidence_def mark_authority_result_unknown_def begin_authorized_execution_def
    finish_job_def retry_readonly_job_def Let_def
  by (intro leaves_intros; simp)+

lemma leaves_resolve:
  assumes "unmoved v"
  shows "leaves v (resolve_unknown_operation p i ok outcome authorization audit_id now)"
  using assms unfolding unmoved_def resolve_unknown_operation_def settle_unknown_each Let_def
  by (intro leaves_intros leaves_each_job; simp)

lemma leaves_issue:
  assumes "unmoved v"
  shows "leaves v (persist_issue_action request b a c sc src op_id job_id now)"
    and "leaves v (enqueue_issue_action p request authorization op_id job_id now)"
    and "leaves v (enqueue_reconciliation_query p i key op_id job_id now)"
    and "leaves v (enqueue_issue_command_for_actor binding_id actor ref sender key command op_id job_id now)"
proof -
  show 1: "leaves v (persist_issue_action request b a c sc src op_id job_id now)" for request b a c sc src op_id job_id now
    using assms unfolding unmoved_def persist_issue_action_def Let_def
    by (intro leaves_intros; auto simp: add_operation_def)
  show 2: "leaves v (enqueue_issue_action p request authorization op_id job_id now)" for request authorization
    unfolding enqueue_issue_action_def Let_def by (intro leaves_intros 1)
  show "leaves v (enqueue_reconciliation_query p i key op_id job_id now)"
    unfolding enqueue_reconciliation_query_def by (intro leaves_intros 2)
  show "leaves v (enqueue_issue_command_for_actor binding_id actor ref sender key command op_id job_id now)"
    unfolding enqueue_issue_command_for_actor_def by (intro leaves_intros 1)
qed

lemma leaves_inbox:
  assumes "unmoved v"
  shows "leaves v (ingest_github_event i d e x n f now)" "leaves v (persist_wecom_inbound i ref org ws m x n now)"
    "leaves v (mark_wecom_inbound_processed ev i st op_id)" "leaves v (begin_wecom_challenge_observation i ref)"
    "leaves v (mark_wecom_challenge_unknown i ref)" "leaves v (enqueue_wecom_challenge_reply i ref ch n now)"
    "leaves v (save_snapshot sn)"
proof -
  have notify: "leaves v (notify_all c e' f now bs)" for c e' bs
    using assms by (induction bs) (auto simp: unmoved_def intro!: leaves_intros)
  show "leaves v (ingest_github_event i d e x n f now)" "leaves v (persist_wecom_inbound i ref org ws m x n now)"
    "leaves v (mark_wecom_inbound_processed ev i st op_id)" "leaves v (begin_wecom_challenge_observation i ref)"
    "leaves v (mark_wecom_challenge_unknown i ref)" "leaves v (enqueue_wecom_challenge_reply i ref ch n now)"
    "leaves v (save_snapshot sn)"
    using assms unfolding unmoved_def ingest_github_event_def persist_wecom_inbound_def mark_wecom_inbound_processed_def
      begin_wecom_challenge_observation_def mark_wecom_challenge_unknown_def enqueue_wecom_challenge_reply_def save_snapshot_def Let_def
    by (intro leaves_intros notify; auto)+
qed

section \<open>Connections and bindings\<close>

definition setup_ok :: "hub_store \<Rightarrow> bool" where
  "setup_ok s = (rows_ok (\<lambda>k c. cn_id c = k) (hs_connections s) \<and> rows_ok (\<lambda>k b. sb_id b = k) (hs_bindings s))"

lemma steady_setup: "unmoved (\<lambda>s. (hs_connections s, hs_bindings s))"
  by (simp add: unmoved_def)

lemma setup_left: "leaves (\<lambda>s. (hs_connections s, hs_bindings s)) m \<Longrightarrow> setup_ok s \<Longrightarrow> setup_ok (snd (m s))"
  by (auto dest!: leavesD [where s = s] simp: setup_ok_def)

lemma setup_actor_binding: "leaves (\<lambda>s. (hs_connections s, hs_bindings s)) (create_actor_binding p q body key i now)"
  unfolding create_actor_binding_def attach_actor_def Let_def by (intro leaves_intros; auto)

definition stays :: "(hub_store \<Rightarrow> bool) \<Rightarrow> 'a hub_act \<Rightarrow> bool" where
  "stays I m = (\<forall>s. I s \<longrightarrow> I (snd (m s)))"

named_theorems stays_intros \<open>composition of actions that keep an invariant\<close>

lemma stays_rules [stays_intros]:
  "stays I (ret x)" "stays I (raise e)" "stays I (result r)" "stays I (look g)"
  "stays I m \<Longrightarrow> (\<And>x. stays I (f x)) \<Longrightarrow> stays I (bind m f)"
  "stays I m \<Longrightarrow> stays I (mutation m)"
  "stays I m \<Longrightarrow> stays I n \<Longrightarrow> stays I (if c then m else n)"
  "stays I m \<Longrightarrow> (\<And>x. stays I (k x)) \<Longrightarrow> stays I (case v of None \<Rightarrow> m | Some x \<Rightarrow> k x)"
  "(\<And>s. I s \<Longrightarrow> I (u s)) \<Longrightarrow> stays I (write_hub u)"
  "(\<And>s s'. I s \<Longrightarrow> h s = Some s' \<Longrightarrow> I s') \<Longrightarrow> stays I (insert_or t h)"
  by (auto simp: stays_def act_simps mutation_def insert_or_def split: prod.splits sum.splits option.splits)

lemma staysD: "stays I m \<Longrightarrow> I s \<Longrightarrow> I (snd (m s))"
  by (simp add: stays_def)

lemma setup_connection: "stays setup_ok (create_connection p q body key mode i now)"
  unfolding create_connection_def Let_def
  by (intro stays_intros; auto simp: setup_ok_def; rule rows_ok_insert, assumption, assumption, simp add: new_connection_def)

lemma setup_binding: "stays setup_ok (create_binding p q body key i now)"
  unfolding create_binding_def Let_def
  by (intro stays_intros; auto simp: setup_ok_def; rule rows_ok_insert, assumption, assumption, simp add: new_binding_def)

lemmas setup_leaves =
  setup_actor_binding leaves_transitions [OF steady_setup] leaves_claim [OF steady_setup] leaves_resolve [OF steady_setup]
  leaves_issue [OF steady_setup] leaves_inbox [OF steady_setup]

lemma perform_setup:
  assumes "setup_ok s"
  shows "setup_ok (hub_perform op s)"
  by (cases op; simp only: hub_perform.simps; (rule staysD [OF setup_connection assms] staysD [OF setup_binding assms] | rule setup_left [OF _ assms]; rule setup_leaves))

section \<open>Operations\<close>

text \<open>What never changes of an operation, in the order of the table.\<close>

definition op_ident :: "issue_operation \<Rightarrow> issue_operation" where
  "op_ident o' = o'\<lparr>io_state := Queued, io_result := None, io_authority_invocation_id := None,
     io_authority_idempotency_key := None, io_updated_at := 0\<rparr>"

definition op_idents :: "hub_store \<Rightarrow> (uuid \<times> issue_operation) list" where
  "op_idents s = map (\<lambda>(k, o'). (k, op_ident o')) (hs_operations s)"

definition ops_ok :: "hub_store \<Rightarrow> bool" where
  "ops_ok s = rows_ok (\<lambda>k o'. io_id o' = k) (hs_operations s)"

definition holds_op :: "issue_operation \<Rightarrow> hub_store \<Rightarrow> bool" where
  "holds_op o' s = (find_row (io_id o') (hs_operations s) = Some o')"

definition grows_from :: "(hub_store \<Rightarrow> bool) \<Rightarrow> 'a hub_act \<Rightarrow> bool" where
  "grows_from P m = (\<forall>s. ops_ok s \<longrightarrow> P s \<longrightarrow> ops_ok (snd (m s)) \<and> prefix (op_idents s) (op_idents (snd (m s))))"

abbreviation grows :: "'a hub_act \<Rightarrow> bool" where
  "grows m \<equiv> grows_from (\<lambda>_. True) m"

lemma leaves_grows: "leaves hs_operations m \<Longrightarrow> grows_from P m"
  by (simp add: leaves_def grows_from_def op_idents_def ops_ok_def)

lemma op_ident_eqD:
  assumes "op_ident o' = op_ident o2"
  shows "io_id o' = io_id o2" "keyed_operation sc c key o' = keyed_operation sc c key o2" "io_request_hash o' = io_request_hash o2"
    "has_reply_context o' = has_reply_context o2" "reply_key o' = reply_key o2"
proof -
  have *: "f o' = f o2" if "\<And>x. f (op_ident x) = f x" for f :: "issue_operation \<Rightarrow> 'x"
    using assms that by metis
  show "io_id o' = io_id o2" "keyed_operation sc c key o' = keyed_operation sc c key o2" "io_request_hash o' = io_request_hash o2"
    "has_reply_context o' = has_reply_context o2" "reply_key o' = reply_key o2"
    by (rule *; simp add: op_ident_def keyed_operation_def has_reply_context_def reply_key_def)+
qed

lemma map_update_ident:
  assumes "table_ok t" "\<And>o'. find_row i t = Some o' \<Longrightarrow> op_ident (f o') = op_ident o'"
  shows "map (\<lambda>(k, o'). (k, op_ident o')) (update_row i f t) = map (\<lambda>(k, o'). (k, op_ident o')) t"
  using assms by (auto simp: update_row_def set_find)

lemma grows_update:
  assumes "\<And>s o'. P s \<Longrightarrow> find_row i (hs_operations s) = Some o' \<Longrightarrow> op_ident (f o') = op_ident o' \<and> io_id (f o') = io_id o'"
  shows "grows_from P (write_hub (\<lambda>s. s\<lparr>hs_operations := update_row i f (hs_operations s)\<rparr>))"
  unfolding grows_from_def
proof (intro allI impI)
  fix s assume s: "ops_ok s" "P s"
  have "rows_ok (\<lambda>k o'. io_id o' = k) (update_row i f (hs_operations s))"
    by (rule rows_ok_update) (use s assms in \<open>auto simp: ops_ok_def\<close>)
  with s map_update_ident [OF rows_ok_table, of _ "hs_operations s" i f] assms
  show "ops_ok (snd (write_hub (\<lambda>s. s\<lparr>hs_operations := update_row i f (hs_operations s)\<rparr>) s)) \<and>
      prefix (op_idents s) (op_idents (snd (write_hub (\<lambda>s. s\<lparr>hs_operations := update_row i f (hs_operations s)\<rparr>) s)))"
    by (auto simp: act_simps ops_ok_def op_idents_def)
qed

lemma grows_writes:
  "grows_from P (update_operation_state i st now outcome)" "grows_from P (forget_authority i)"
  unfolding update_operation_state_def forget_authority_def by (rule grows_update; simp add: op_ident_def)+

lemma grows_put: "op_ident o2 = op_ident o' \<Longrightarrow> grows_from (holds_op o') (put_operation o2)"
  unfolding put_operation_def by (rule grows_update) (auto simp: holds_op_def dest: op_ident_eqD)

named_theorems grows_intros \<open>actions that keep the operations\<close>

lemma grows_basic [grows_intros]:
  "grows_from P (ret x)" "grows_from P (raise e)" "grows_from P (result r)" "grows_from P (look f)"
  by (simp_all add: grows_from_def act_simps)

lemma grows_cases [grows_intros]:
  "(c \<Longrightarrow> grows_from P m) \<Longrightarrow> (\<not> c \<Longrightarrow> grows_from P m') \<Longrightarrow> grows_from P (if c then m else m')"
  "(v = None \<Longrightarrow> grows_from P m) \<Longrightarrow> (\<And>x. v = Some x \<Longrightarrow> grows_from P (k x)) \<Longrightarrow>
   grows_from P (case v of None \<Rightarrow> m | Some x \<Rightarrow> k x)"
  "(\<And>x y. grows_from P (h x y)) \<Longrightarrow> grows_from P (case p of (x, y) \<Rightarrow> h x y)"
  by (auto split: option.splits prod.splits)

lemma grows_mutation [grows_intros]: "grows_from P m \<Longrightarrow> grows_from P (mutation m)"
  unfolding grows_from_def mutation_def by (auto split: sum.splits prod.splits)

lemma grows_bind:
  assumes "grows_from P m" "\<And>x. grows (f x)"
  shows "grows_from P (bind m f)"
  unfolding grows_from_def
proof (intro allI impI)
  fix s assume s: "ops_ok s" "P s"
  obtain r s1 where m: "m s = (r, s1)" by fastforce
  from assms(1) s m have 1: "ops_ok s1" "prefix (op_idents s) (op_idents s1)" by (auto simp: grows_from_def)
  show "ops_ok (snd (bind m f s)) \<and> prefix (op_idents s) (op_idents (snd (bind m f s)))"
  proof (cases r)
    case (Inr x)
    with assms(2) [of x] 1 m show ?thesis by (auto simp: act_simps grows_from_def intro: prefix_order.trans)
  qed (simp add: act_simps m 1)
qed

text \<open>An action on other tables leaves the operation where it is.\<close>

lemma grows_left:
  assumes "leaves hs_operations m" "\<And>x. grows_from (holds_op o') (f x)"
  shows "grows_from (holds_op o') (bind m f)"
  unfolding grows_from_def
proof (intro allI impI)
  fix s assume s: "ops_ok s" "holds_op o' s"
  obtain r s1 where m: "m s = (r, s1)" by fastforce
  from assms(1) m have "hs_operations s1 = hs_operations s" by (auto dest: leavesD [where s = s])
  then have 1: "ops_ok s1" "holds_op o' s1" "op_idents s1 = op_idents s"
    using s by (simp_all add: ops_ok_def holds_op_def op_idents_def)
  show "ops_ok (snd (bind m f s)) \<and> prefix (op_idents s) (op_idents (snd (bind m f s)))"
  proof (cases r)
    case (Inr x)
    with assms(2) [of x] 1 m show ?thesis by (auto simp: act_simps grows_from_def)
  qed (simp add: act_simps m 1)
qed

lemma grows_look_op:
  assumes "\<And>s o'. g s = Inr o' \<Longrightarrow> \<exists>i. find_row i (hs_operations s) = Some o'" "\<And>o'. grows_from (holds_op o') (f o')"
  shows "grows_from P (bind (look g) f)"
  unfolding grows_from_def
proof (intro allI impI)
  fix s assume ok: "ops_ok s"
  show "ops_ok (snd (bind (look g) f s)) \<and> prefix (op_idents s) (op_idents (snd (bind (look g) f s)))"
  proof (cases "g s")
    case (Inr o')
    with assms(1) obtain i where i: "find_row i (hs_operations s) = Some o'" by blast
    with ok have "holds_op o' s" by (auto simp: ops_ok_def holds_op_def dest: rows_okD)
    with assms(2) [of o'] ok Inr show ?thesis by (simp add: act_simps grows_from_def)
  qed (simp add: act_simps ok)
qed

text \<open>The operations of the store.\<close>

lemma grows_facts [grows_intros]:
  "grows_from P (insert_job j)" "grows_from P (persist_job j)" "grows_from P (add_evidence i fence d)"
  "grows_from P (add_receipt j r)" "grows_from P (add_audit a)" "grows_from P (put_event e)" "grows_from P (settle_event j b w)"
  "grows_from P (enqueue_reply_for_operation env i js evidence now)"
  "grows_from P (update_operation_state i st now outcome)" "grows_from P (forget_authority i)"
  by (simp_all add: grows_writes) (intro leaves_grows leaves_intros; simp)+

lemmas look_op_facts = need_operation_def executable_operation_def unknown_operation_def

lemma need_operation_row: "need_operation i m s = Inr o' \<Longrightarrow> \<exists>i. find_row i (hs_operations s) = Some o'"
  and executable_row: "executable_operation p i s = Inr o' \<Longrightarrow> \<exists>i. find_row i (hs_operations s) = Some o'"
  and unknown_row: "unknown_operation p i s = Inr o' \<Longrightarrow> \<exists>i. find_row i (hs_operations s) = Some o'"
  by (auto simp: look_op_facts split: option.splits if_splits)

lemma op_ident_updates:
  "op_ident (o'\<lparr>io_authority_idempotency_key := k, io_updated_at := t\<rparr>) = op_ident o'"
  "op_ident (o'\<lparr>io_state := st, io_authority_invocation_id := k, io_updated_at := t\<rparr>) = op_ident o'"
  "op_ident (o'\<lparr>io_state := st, io_result := res, io_updated_at := t\<rparr>) = op_ident o'"
  "op_ident (o'\<lparr>io_updated_at := t\<rparr>) = op_ident o'"
  by (simp_all add: op_ident_def)

lemma grows_simple:
  "grows (mark_sending i fence now)" "grows (fail_claimed_job env i fence why now)"
  "grows (mark_authority_result_unknown env i fence ivk now)" "grows (finish_job env i fence js evidence receipt clock)"
  "grows (retry_readonly_job env i fence now after)"
  unfolding mark_sending_def fail_claimed_job_def fail_operation_def mark_authority_result_unknown_def finish_job_def
    retry_readonly_job_def Let_def
  by (intro grows_intros grows_bind)+

lemma grows_look: "(\<And>x. grows_from P (f x)) \<Longrightarrow> grows_from P (bind (look g) f)"
  by (auto simp: grows_from_def act_simps split: sum.splits)

lemmas grows_ops = grows_look_op [OF need_operation_row] grows_look_op [OF executable_row] grows_look_op [OF unknown_row]

lemma grows_put_then: "op_ident o2 = op_ident o' \<Longrightarrow> (\<And>x. grows (f x)) \<Longrightarrow> grows_from (holds_op o') (bind (put_operation o2) f)"
  by (rule grows_bind [OF grows_put])

lemma grows_authority:
  "grows (prepare_authority_enqueue i fence candidate now)" "grows (mark_awaiting_authority i fence ivk st now)"
  "grows (update_authority_evidence i fence ivk st now)"
proof -
  have persist: "grows_from (holds_op o') (andthen (persist_job j) (andthen (put_operation o2) (ret x)))"
    if "op_ident o2 = op_ident o'" for j o' o2 and x :: "issue_operation \<times> outbox_job \<times> string"
    by (intro grows_left grows_put_then that grows_basic leaves_intros) simp
  show "grows (prepare_authority_enqueue i fence candidate now)"
    unfolding prepare_authority_enqueue_def Let_def
    by (intro grows_cases grows_mutation grows_basic grows_ops grows_look persist op_ident_updates)
  show "grows (mark_awaiting_authority i fence ivk st now)"
    unfolding mark_awaiting_authority_def Let_def
    by (intro grows_cases grows_mutation grows_basic grows_ops grows_look grows_put op_ident_updates grows_bind grows_facts)
  show "grows (update_authority_evidence i fence ivk st now)"
    unfolding update_authority_evidence_def Let_def
    by (intro grows_cases grows_mutation grows_basic grows_ops grows_look grows_put op_ident_updates grows_bind grows_facts)
qed

lemma grows_execution: "grows (begin_authorized_execution p op_id b ex digest ivk lease now)"
proof -
  have persist: "grows_from (holds_op o') (andthen (persist_job j) (andthen (put_operation o2) (ret x)))"
    if "op_ident o2 = op_ident o'" for j o' o2 and x :: "issue_operation \<times> outbox_job \<times> int"
    by (intro grows_left grows_put_then that grows_basic leaves_intros) simp
  have checked: "(\<And>x. r = Inr x \<Longrightarrow> grows_from P (f x)) \<Longrightarrow> grows_from P (bind (result r) f)" for r P and f :: "_ \<Rightarrow> 'b hub_act"
    by (cases r) (simp_all add: grows_basic)
  show ?thesis unfolding begin_authorized_execution_def Let_def
    by (intro grows_mutation grows_ops grows_look checked persist op_ident_updates)
qed

lemma grows_each: "(\<And>j. grows (body j)) \<Longrightarrow> grows (each body js)"
  by (induction js) (simp_all add: each_def grows_basic grows_bind)

lemma grows_recover: "grows (recover_expired_claims env now)"
proof -
  have settle: "grows (settle_expired env now i st why)" for i st why
    unfolding settle_expired_def by (intro grows_intros grows_bind)
  have "grows (recover_job env now j)" for j
    unfolding recover_job_def by (intro grows_intros grows_bind settle)
  then show ?thesis unfolding recover_expired_claims_def recover_jobs_each
    by (intro grows_mutation grows_look grows_bind grows_each grows_basic)
qed

lemma grows_claim: "grows (claim_job env worker now lease)"
  unfolding claim_job_def claim_next_def Let_def by (intro grows_intros grows_bind grows_recover)

lemma grows_resolve: "grows (resolve_unknown_operation p i ok outcome authorization audit_id now)"
proof -
  have settle: "grows (settle_unknown_jobs js outcome now)" for js
    unfolding settle_unknown_each by (intro grows_each grows_intros grows_bind leaves_grows leaves_intros) simp
  have checked: "(\<And>x. r = Inr x \<Longrightarrow> grows_from P (f x)) \<Longrightarrow> grows_from P (bind (result r) f)" for r P and f :: "_ \<Rightarrow> 'b hub_act"
    by (cases r) (simp_all add: grows_basic)
  show ?thesis unfolding resolve_unknown_operation_def Let_def
    by (intro checked grows_mutation grows_ops grows_put_then op_ident_updates grows_look grows_intros grows_bind settle)
qed

text \<open>A new operation goes to the end of the table.\<close>

lemma grows_add_operation: "grows (insert_or t (add_operation o'))"
  unfolding grows_from_def
proof (intro allI impI)
  fix s assume ok: "ops_ok s"
  show "ops_ok (snd (insert_or t (add_operation o') s)) \<and> prefix (op_idents s) (op_idents (snd (insert_or t (add_operation o') s)))"
  proof (cases "insert_row (io_id o') o' (hs_operations s)")
    case (Some t')
    with rows_ok_insert [OF ok [unfolded ops_ok_def] Some] show ?thesis
      by (auto simp: insert_or_def add_operation_def ops_ok_def op_idents_def insert_row_def split: if_splits)
  qed (simp add: insert_or_def add_operation_def ok)
qed

lemma grows_issue:
  "grows (persist_issue_action request b a c sc src op_id job_id now)"
  "grows (enqueue_issue_action p request authorization op_id job_id now)"
  "grows (enqueue_reconciliation_query p i key op_id job_id now)"
  "grows (enqueue_issue_command_for_actor binding_id actor ref sender key command op_id job_id now)"
proof -
  show 1: "grows (persist_issue_action request b a c sc src op_id job_id now)" for request b a c sc src op_id job_id now
    unfolding persist_issue_action_def Let_def by (intro grows_intros grows_bind grows_add_operation)
  show 2: "grows (enqueue_issue_action p request authorization op_id job_id now)" for request authorization
    unfolding enqueue_issue_action_def Let_def by (intro grows_intros grows_bind 1)
  show "grows (enqueue_reconciliation_query p i key op_id job_id now)"
    unfolding enqueue_reconciliation_query_def by (intro grows_intros grows_bind 2)
  show "grows (enqueue_issue_command_for_actor binding_id actor ref sender key command op_id job_id now)"
    unfolding enqueue_issue_command_for_actor_def by (intro grows_intros grows_bind 1)
qed

lemma grows_other:
  "grows (ingest_github_event i d e x n f now)" "grows (persist_wecom_inbound i ref org ws m x n now)"
  "grows (mark_wecom_inbound_processed ev i wst oi)" "grows (begin_wecom_challenge_observation i ref)"
  "grows (mark_wecom_challenge_unknown i ref)" "grows (enqueue_wecom_challenge_reply i ref ch n now)"
  "grows (save_snapshot sn)" "grows (create_connection p q body key mode n now)" "grows (create_binding p bq body key n now)"
  "grows (create_actor_binding p aq body key n now)"
proof -
  have notify: "leaves hs_operations (notify_all c e' f now bs)" for c e' bs
    by (induction bs) (auto intro!: leaves_intros)
  show "grows (ingest_github_event i d e x n f now)" "grows (persist_wecom_inbound i ref org ws m x n now)"
    "grows (mark_wecom_inbound_processed ev i wst oi)" "grows (begin_wecom_challenge_observation i ref)"
    "grows (mark_wecom_challenge_unknown i ref)" "grows (enqueue_wecom_challenge_reply i ref ch n now)"
    "grows (save_snapshot sn)" "grows (create_connection p q body key mode n now)" "grows (create_binding p bq body key n now)"
    "grows (create_actor_binding p aq body key n now)"
    unfolding ingest_github_event_def persist_wecom_inbound_def mark_wecom_inbound_processed_def save_snapshot_def
      begin_wecom_challenge_observation_def mark_wecom_challenge_unknown_def enqueue_wecom_challenge_reply_def
      create_connection_def create_binding_def create_actor_binding_def attach_actor_def Let_def
    by (rule leaves_grows, intro leaves_intros notify; auto)+
qed

lemmas all_grow = grows_simple grows_authority grows_execution grows_claim grows_resolve grows_issue grows_other

lemma growsD: "grows m \<Longrightarrow> ops_ok s \<Longrightarrow> ops_ok (snd (m s)) \<and> prefix (op_idents s) (op_idents (snd (m s)))"
  by (simp add: grows_from_def)

lemma perform_grows:
  assumes "ops_ok s"
  shows "ops_ok (hub_perform op s) \<and> prefix (op_idents s) (op_idents (hub_perform op s))"
  by (cases op; simp only: hub_perform.simps; rule growsD [OF _ assms]; rule all_grow)

section \<open>Every reachable store\<close>

definition hub_ok :: "hub_store \<Rightarrow> bool" where
  "hub_ok s = (jobs_ok s \<and> setup_ok s \<and> ops_ok s)"

lemma perform_hub_ok: "hub_ok s \<Longrightarrow> hub_ok (hub_perform op s)"
  by (simp add: hub_ok_def perform_advances perform_setup perform_grows)

lemma reachable_hub_ok: "hub_reachable s \<Longrightarrow> hub_ok s"
proof (induction rule: hub_reachable.induct)
  case start
  have "setup_ok empty_hub \<and> ops_ok empty_hub"
    by (simp add: setup_ok_def ops_ok_def empty_hub_def rows_ok_def table_ok_def)
  then show ?case by (simp add: hub_ok_def empty_hub_ok)
qed (rule perform_hub_ok)

end
