(* ===== verification/Outbox_Facts.thy ===== *)
theory Outbox_Facts
  imports Hub_Invariants Retry_Facts
begin

text \<open>
  The guarantees of the outbox over whole histories: how often a job crosses the write boundary, what
  a superseded claim can still do, what a claim takes, two calls that cannot succeed, and the
  idempotency of issue intents.
\<close>

section \<open>Histories\<close>

definition hub_run :: "hub_op list \<Rightarrow> hub_store \<Rightarrow> hub_store" where
  "hub_run ops s = foldl (\<lambda>s op. hub_perform op s) s ops"

lemma hub_run_simps [simp]: "hub_run [] s = s" "hub_run (op # ops) s = hub_run ops (hub_perform op s)"
  by (simp_all add: hub_run_def)

lemma run_ok: "hub_ok s \<Longrightarrow> hub_ok (hub_run ops s)"
  by (induction ops arbitrary: s) (simp_all add: perform_hub_ok)

lemma run_progress: "jobs_ok s \<Longrightarrow> jobs_ok (hub_run ops s) \<and> progress s (hub_run ops s)"
proof (induction ops arbitrary: s)
  case (Cons op ops)
  from perform_advances [OF Cons.prems, of op] Cons.IH [of "hub_perform op s"] show ?case
    by (auto intro: progress_trans)
qed simp

lemma run_grows: "ops_ok s \<Longrightarrow> ops_ok (hub_run ops s) \<and> prefix (op_idents s) (op_idents (hub_run ops s))"
proof (induction ops arbitrary: s)
  case (Cons op ops)
  from perform_grows [OF Cons.prems, of op] Cons.IH [of "hub_perform op s"] show ?case
    by (auto intro: prefix_order.trans)
qed simp

lemma run_reachable: "hub_reachable s \<Longrightarrow> hub_reachable (hub_run ops s)"
  by (induction ops arbitrary: s) (simp_all add: hub_reachable.step)

section \<open>Crossing the write boundary\<close>

definition job_sending :: "uuid \<Rightarrow> hub_store \<Rightarrow> bool" where
  "job_sending i s = (case find_row i (hs_jobs s) of None \<Rightarrow> False | Some j \<Rightarrow> ob_state j = Sending)"

text \<open>How many of the operations moved the job to \<open>SENDING\<close>.\<close>

fun crossings :: "uuid \<Rightarrow> hub_op list \<Rightarrow> hub_store \<Rightarrow> nat" where
  "crossings i [] s = 0"
| "crossings i (op # ops) s =
     of_bool (\<not> job_sending i s \<and> job_sending i (hub_perform op s)) + crossings i ops (hub_perform op s)"

definition sends_of :: "bool \<Rightarrow> uuid \<Rightarrow> hub_store \<Rightarrow> nat" where
  "sends_of q i s = (case find_row i (hs_jobs s) of None \<Rightarrow> sends_left q (Ready, 0, 0) | Some j \<Rightarrow> sends_left q (view j))"

lemma perform_crossing:
  assumes "jobs_ok s" "\<And>j. find_row i (hs_jobs (hub_perform op s)) = Some j \<Longrightarrow> readonly_query j = q"
  shows "of_bool (\<not> job_sending i s \<and> job_sending i (hub_perform op s)) + sends_of q i (hub_perform op s) \<le> sends_of q i s"
proof (cases "find_row i (hs_jobs s)")
  case None
  show ?thesis
  proof (cases "find_row i (hs_jobs (hub_perform op s))")
    case (Some j)
    with jobs_ok_row [of "hub_perform op s" i j] perform_advances [OF assms(1), of op] assms(2)
    have "job_steps q (Ready, 0, 0) (view j)" by (auto simp: job_ok_def)
    from job_steps_sends [OF this] None Some show ?thesis by (simp add: job_sending_def sends_of_def crossed_def view_def)
  qed (use None in \<open>simp add: job_sending_def sends_of_def\<close>)
next
  case (Some j)
  with perform_advances [OF assms(1), of op] obtain j' where
    j': "find_row i (hs_jobs (hub_perform op s)) = Some j'" "job_moves j j'" by (auto simp: progress_def)
  with assms(2) have "job_steps q (view j) (view j')" by (auto simp: job_moves_def dest: job_ident_eqD(8))
  from job_steps_sends [OF this] Some j' show ?thesis by (simp add: job_sending_def sends_of_def crossed_def view_def)
qed

lemma run_crossings:
  assumes "jobs_ok s" "\<And>j. find_row i (hs_jobs (hub_run ops s)) = Some j \<Longrightarrow> readonly_query j = q"
  shows "crossings i ops s + sends_of q i (hub_run ops s) \<le> sends_of q i s"
  using assms
proof (induction ops arbitrary: s)
  case (Cons op ops)
  let ?s = "hub_perform op s"
  have ok: "jobs_ok ?s" using perform_advances [OF Cons.prems(1)] by simp
  have q: "readonly_query j = q" if "find_row i (hs_jobs ?s) = Some j" for j
  proof -
    from run_progress [OF ok, of ops] that obtain j' where
      "find_row i (hs_jobs (hub_run ops ?s)) = Some j'" "job_moves j j'" by (auto simp: progress_def)
    with Cons.prems(2) [of j'] show ?thesis by (auto simp: job_moves_def dest: job_ident_eqD(8))
  qed
  from Cons.IH [OF ok] Cons.prems(2) perform_crossing [OF Cons.prems(1) q] show ?case by fastforce
qed simp

lemma no_job_no_crossing:
  "jobs_ok s \<Longrightarrow> find_row i (hs_jobs (hub_run ops s)) = None \<Longrightarrow> crossings i ops s = 0"
proof (induction ops arbitrary: s)
  case (Cons op ops)
  let ?s = "hub_perform op s"
  have ok: "jobs_ok ?s" using perform_advances [OF Cons.prems(1)] by simp
  have "find_row i (hs_jobs ?s) = None"
  proof (rule ccontr)
    assume "find_row i (hs_jobs ?s) \<noteq> None"
    with run_progress [OF ok, of ops] Cons.prems(2) show False by (fastforce simp: progress_def)
  qed
  with Cons.IH [OF ok] Cons.prems(2) show ?case by (simp add: job_sending_def)
qed simp

section \<open>Stale claims\<close>

text \<open>Raises and leaves the store as it is.\<close>

definition inert :: "'a hub_act \<Rightarrow> hub_store \<Rightarrow> bool" where
  "inert m s = (\<exists>e. m s = (Inl e, s))"

lemma inert_mutation: "(\<exists>e. fst (m s) = Inl e) \<Longrightarrow> inert (mutation m) s"
  by (auto simp: inert_def mutation_def split: prod.splits sum.splits)

lemma stale_fence:
  assumes "find_row i (hs_jobs s) = Some j" "ob_claim_fence j \<noteq> fence"
  shows "fst (bind (look (fenced_job i st fence stale)) f s) = Inl (IntegrationConflict stale)"
  using assms by (simp add: act_simps fenced_job_def)

lemma stale_handlers:
  assumes "find_row i (hs_jobs s) = Some j" "ob_claim_fence j \<noteq> fence"
  shows "inert (mark_sending i fence now) s" "inert (fail_claimed_job env i fence why now) s"
    "inert (mark_awaiting_authority i fence ivk st now) s" "inert (prepare_authority_enqueue i fence candidate now) s"
    "inert (update_authority_evidence i fence ivk st now) s" "inert (mark_authority_result_unknown env i fence ivk now) s"
    "inert (finish_job env i fence js evidence receipt clock) s" "inert (retry_readonly_job env i fence now wait) s"
proof -
  have handler: "inert (mutation (bind (look (fenced_job i st fence stale)) f)) s" for st stale f
    by (rule inert_mutation) (simp add: stale_fence [OF assms])
  have refused: "inert (raise e) s" for e by (simp add: inert_def act_simps)
  show "inert (mark_sending i fence now) s" "inert (fail_claimed_job env i fence why now) s"
    "inert (mark_awaiting_authority i fence ivk st now) s" "inert (prepare_authority_enqueue i fence candidate now) s"
    "inert (update_authority_evidence i fence ivk st now) s" "inert (mark_authority_result_unknown env i fence ivk now) s"
    "inert (finish_job env i fence js evidence receipt clock) s" "inert (retry_readonly_job env i fence now wait) s"
    unfolding mark_sending_def fail_claimed_job_def mark_awaiting_authority_def prepare_authority_enqueue_def
      update_authority_evidence_def mark_authority_result_unknown_def finish_job_def retry_readonly_job_def Let_def
    by (auto simp: handler refused split: option.split)
qed

lemma run_fence:
  assumes "jobs_ok s" "find_row i (hs_jobs s) = Some j"
  shows "\<exists>j'. find_row i (hs_jobs (hub_run ops s)) = Some j' \<and> ob_claim_fence j \<le> ob_claim_fence j'"
proof -
  from run_progress [OF assms(1), of ops] assms(2) obtain j' where
    "find_row i (hs_jobs (hub_run ops s)) = Some j'" "job_moves j j'" by (auto simp: progress_def)
  with job_steps_fence [of "readonly_query j" "view j" "view j'"] show ?thesis by (auto simp: job_moves_def view_def)
qed

section \<open>Calls that cannot succeed\<close>

lemma insert_taken:
  assumes "list_ex (\<lambda>(k, j'). job_key j' = job_key j) (hs_jobs s)" "job_key j \<noteq> None"
  shows "\<exists>e. fst (insert_job j s) = Inl e"
  using assms by (simp add: insert_job_def insert_or_def add_job_def)

lemma reply_key_of_job: "job_key (reply_job env o' name st evidence now) = Some (CommandReply, reply_key o')"
  by (simp add: job_key_def reply_job_def)

text \<open>A reply whose key is taken is never queued again.\<close>

lemma reply_taken:
  assumes "find_row oi (hs_operations s) = Some o'" "has_reply_context o'"
    and "list_ex (\<lambda>(k, j'). job_key j' = Some (CommandReply, reply_key o')) (hs_jobs s)"
  shows "\<exists>e. fst (enqueue_reply_for_operation env oi st evidence now s) = Inl e"
proof -
  have "\<exists>e. fst (insert_job (reply_job env o' name st evidence now) s) = Inl e" for name
    by (rule insert_taken) (use assms(3) in \<open>simp_all add: reply_key_of_job\<close>)
  with assms(1,2) show ?thesis
    by (auto simp: enqueue_reply_for_operation_def enqueue_command_reply_def act_simps Let_def split: sum.splits)
qed

text \<open>Queuing it twice in one transaction fails the second time, if not the first.\<close>

lemma reply_twice:
  assumes "find_row oi (hs_operations s) = Some o'" "has_reply_context o'"
  shows "\<exists>e. fst (andthen (enqueue_reply_for_operation env oi st evidence now) (enqueue_reply_for_operation env oi st evidence now) s) = Inl e"
proof (cases "enqueue_reply_for_operation env oi st evidence now s")
  case (Pair r s1)
  show ?thesis
  proof (cases r)
    case (Inr u)
    with Pair assms have "\<exists>c :: connection. insert_job (reply_job env o' (cn_repository_name c) st evidence now) s = (Inr u, s1)"
      by (auto simp: enqueue_reply_for_operation_def enqueue_command_reply_def outcome_simps Let_def split: if_splits)
    then obtain c :: connection where "insert_job (reply_job env o' (cn_repository_name c) st evidence now) s = (Inr u, s1)" ..
    then have "list_ex (\<lambda>(k, j'). job_key j' = Some (CommandReply, reply_key o')) (hs_jobs s1)" "hs_operations s1 = hs_operations s"
      by (auto simp: insert_job_def outcome_simps add_job_def reply_key_of_job split: if_splits)
    with reply_taken [of oi s1 o'] assms Pair Inr show ?thesis by (auto simp: act_simps)
  qed (use Pair in \<open>simp add: act_simps\<close>)
qed

lemma fail_command_raises:
  assumes "find_row i (hs_jobs s) = Some j" "ob_kind j = IssueAction" "ob_operation_id j = Some oi"
    and "find_row oi (hs_operations s) = Some o'" "has_reply_context o'"
  shows "inert (fail_claimed_job env i fence why now) s"
proof -
  let ?why = "reason (take 100 why)"
  have twice: "\<exists>e. fst (fail_operation env oi ?why now s1) = Inl e" if "hs_operations s1 = hs_operations s" for s1
  proof -
    let ?o = "o'\<lparr>io_state := OpFailed, io_result := Some ?why, io_updated_at := now\<rparr>"
    define s2 where "s2 = snd (update_operation_state oi OpFailed now (Some ?why) s1)"
    then have u: "update_operation_state oi OpFailed now (Some ?why) s1 = (Inr (), s2)" and
      o2: "find_row oi (hs_operations s2) = Some ?o"
      using assms(4) that by (simp_all add: update_operation_state_def act_simps find_update)
    have "has_reply_context ?o" using assms(5) by (simp add: has_reply_context_def)
    from reply_twice [OF o2 this] u show ?thesis by (simp add: fail_operation_def act_simps)
  qed
  show ?thesis unfolding fail_claimed_job_def Let_def
  proof (rule inert_mutation)
    show "\<exists>e. fst (bind (look (fenced_job i Claimed fence ''job claim is stale''))
        (\<lambda>j. andthen (persist_job (released j JobFailed now))
          (andthen (add_evidence i fence ?why)
            (andthen (case ob_operation_id j of None \<Rightarrow> ret () | Some i' \<Rightarrow> if ob_kind j = IssueAction then fail_operation env i' ?why now else ret ())
              (andthen (settle_event j None EventRejected) (ret (released j JobFailed now)))))) s) = Inl e"
    proof (cases "fenced_job i Claimed fence ''job claim is stale'' s")
      case (Inr j')
      with assms(1) have "j' = j" by (auto simp: fenced_job_def split: if_splits)
      moreover obtain s1 where "persist_job (released j JobFailed now) s = (Inr (), s1)" "hs_operations s1 = hs_operations s"
        by (simp add: persist_job_def act_simps)
      moreover have "\<exists>e. fst (andthen (add_evidence i fence ?why) (andthen (fail_operation env oi ?why now) m) s1) = Inl e"
        if "hs_operations s1 = hs_operations s" for s1 and m :: "outbox_job hub_act"
      proof (cases "add_evidence i fence ?why s1")
        case (Pair r s2)
        have "hs_operations s2 = hs_operations s1"
          using Pair leavesD [where view = hs_operations and m = "add_evidence i fence ?why" and s = s1] by (simp add: leaves_intros)
        with twice [of s2] that Pair show ?thesis by (cases r) (auto simp: act_simps split: prod.splits sum.splits)
      qed
      ultimately show ?thesis using Inr assms(2,3) by (simp add: act_simps)
    qed (simp add: act_simps)
  qed
qed

text \<open>
  A job that is stored, and the operation it replies for: recovering other jobs leaves both.
\<close>

definition reply_stuck :: "outbox_job \<Rightarrow> uuid \<Rightarrow> hub_store \<Rightarrow> bool" where
  "reply_stuck j oi s = (find_row (ob_id j) (hs_jobs s) = Some j \<and>
     (\<exists>o'. find_row oi (hs_operations s) = Some o' \<and> has_reply_context o' \<and> job_key j = Some (CommandReply, reply_key o')))"

lemma stuck_insert: "stays (reply_stuck j oi) (insert_job j')"
proof -
  have "reply_stuck j oi s'" if s: "reply_stuck j oi s" and add: "add_job j' s = Some s'" for s s'
  proof -
    from add have "find_row (ob_id j') (hs_jobs s) = None" and ops: "hs_operations s' = hs_operations s"
      by (auto simp: add_job_def split: if_splits)
    with s have "ob_id j' \<noteq> ob_id j" by (auto simp: reply_stuck_def)
    with s ops show ?thesis by (simp add: reply_stuck_def add_job_find [OF add])
  qed
  then show ?thesis unfolding insert_job_def by (intro stays_intros)
qed

lemma stuck_persist: "ob_id j' \<noteq> ob_id j \<Longrightarrow> stays (reply_stuck j oi) (persist_job j')"
  unfolding persist_job_def by (intro stays_intros) (simp add: reply_stuck_def find_update)

lemma stuck_operation: "stays (reply_stuck j oi) (update_operation_state i st now res)"
  "stays (reply_stuck j oi) (forget_authority i)"
proof -
  have *: "reply_stuck j oi s \<Longrightarrow> reply_stuck j oi (s\<lparr>hs_operations := update_row i f (hs_operations s)\<rparr>)"
    if "\<And>o'. has_reply_context (f o') = has_reply_context o' \<and> reply_key (f o') = reply_key o'" for f s
    using that by (cases "oi = i") (auto simp: reply_stuck_def find_update)
  show "stays (reply_stuck j oi) (update_operation_state i st now res)" "stays (reply_stuck j oi) (forget_authority i)"
    unfolding update_operation_state_def forget_authority_def
    by (intro stays_intros *; simp add: has_reply_context_def reply_key_def)+
qed

lemma stuck_reply: "stays (reply_stuck j oi) (enqueue_reply_for_operation env i st evidence now)"
  unfolding enqueue_reply_for_operation_def enqueue_command_reply_def Let_def by (intro stays_intros stuck_insert)

lemma stuck_recover: "ob_id j' \<noteq> ob_id j \<Longrightarrow> stays (reply_stuck j oi) (recover_job env now j')"
proof -
  assume other: "ob_id j' \<noteq> ob_id j"
  have settle: "stays (reply_stuck j oi) (settle_expired env now i st why)" for i st why
    unfolding settle_expired_def by (intro stays_intros stuck_operation stuck_reply)
  obtain j2 st why where e: "expired_send j' now = (j2, st, why)" by (metis prod_cases3)
  then have "ob_id j2 = ob_id j'" by (auto simp: expired_send_def requeued_def released_def split: if_splits)
  with other show ?thesis unfolding recover_job_def e prod.case
    by (intro stays_intros settle stuck_persist) (simp_all add: released_def)
qed

lemma stuck_raises:
  assumes "reply_stuck j oi s" "ob_kind j = CommandReply" "ob_operation_id j = Some oi" "ob_state j = Sending"
  shows "\<exists>e. fst (recover_job env now j s) = Inl e"
proof -
  let ?why = "reason ''send_outcome_unknown_after_lease_expiry''"
  from assms(1) obtain o' where o': "find_row oi (hs_operations s) = Some o'" "has_reply_context o'"
    and key: "job_key j = Some (CommandReply, reply_key o')" and row: "find_row (ob_id j) (hs_jobs s) = Some j"
    by (auto simp: reply_stuck_def)
  have unknown: "expired_send j now = (released j Unknown now, OpUnknown, ''send_outcome_unknown_after_lease_expiry'')"
    using assms(2) by (simp add: expired_send_def readonly_query_def)
  define s1 where "s1 = snd (update_operation_state oi OpUnknown now (Some ?why) s)"
  then have u: "update_operation_state oi OpUnknown now (Some ?why) s = (Inr (), s1)"
    by (simp add: update_operation_state_def act_simps)
  have "find_row oi (hs_operations s1) = Some (o'\<lparr>io_state := OpUnknown, io_result := Some ?why, io_updated_at := now\<rparr>)" (is "_ = Some ?o")
    using o' by (simp add: s1_def update_operation_state_def act_simps find_update)
  moreover have "has_reply_context ?o" using o' by (simp add: has_reply_context_def)
  moreover have "list_ex (\<lambda>(k, j'). job_key j' = Some (CommandReply, reply_key ?o)) (hs_jobs s1)"
  proof -
    from row have "(ob_id j, j) \<in> set (hs_jobs s)" by (auto simp: find_row_def dest: map_of_SomeD)
    then show ?thesis using key by (auto simp: s1_def update_operation_state_def act_simps list_ex_iff reply_key_def)
  qed
  ultimately have "\<exists>e. fst (enqueue_reply_for_operation env oi Unknown ?why now s1) = Inl e" by (rule reply_taken)
  with u assms(3,4) unknown show ?thesis
    by (auto simp: recover_job_def settle_expired_def act_simps split: prod.splits sum.splits)
qed

lemma stuck_loop:
  assumes "j \<in> set js" "distinct (map ob_id js)" "reply_stuck j oi s" "ob_kind j = CommandReply" "ob_operation_id j = Some oi" "ob_state j = Sending"
  shows "\<exists>e. fst (recover_jobs env now js s) = Inl e"
  using assms(1,2,3)
proof (induction js arbitrary: s)
  case (Cons j' js)
  show ?case
  proof (cases "j' = j")
    case True
    with stuck_raises [OF Cons.prems(3) assms(4-6), of env now] show ?thesis by (auto simp: act_simps split: prod.splits)
  next
    case False
    with Cons.prems have js: "j \<in> set js" "ob_id j' \<noteq> ob_id j" by (auto simp: image_iff)
    obtain r s1 where m: "recover_job env now j' s = (r, s1)" by fastforce
    from staysD [OF stuck_recover [OF js(2)] Cons.prems(3), of env now] m have "reply_stuck j oi s1" by simp
    with Cons.IH [OF js(1)] Cons.prems(2) m show ?thesis by (cases r) (auto simp: act_simps)
  qed
qed simp

lemma expired_reply_raises:
  assumes "jobs_ok s" "reply_stuck j oi s" "ob_kind j = CommandReply" "ob_operation_id j = Some oi" "ob_state j = Sending"
    and "ob_lease_expires_at j = Some t" "t \<le> now"
  shows "inert (recover_expired_claims env now) s"
proof -
  let ?js = "map snd (select (\<lambda>_. expired now) (hs_jobs s))"
  note rows = assms(1) [unfolded jobs_ok_def, THEN conjunct1]
  have ids: "map ob_id ?js = map fst (select (\<lambda>_. expired now) (hs_jobs s))"
    using rows by (auto simp: rows_ok_def select_def list_all_iff)
  have "distinct (map fst (select (\<lambda>_. expired now) (hs_jobs s)))"
    using rows_ok_table [OF rows] unfolding table_ok_def select_def by (rule distinct_map_filter)
  then have d: "distinct (map ob_id ?js)" by (simp only: ids)
  have "(ob_id j, j) \<in> set (hs_jobs s)"
    using assms(2) by (simp add: reply_stuck_def set_find [OF rows_ok_table [OF rows]])
  then have "j \<in> set ?js" using assms(5-7) by (auto simp: select_def expired_def intro: rev_image_eqI)
  from stuck_loop [OF this d assms(2-5), of env now] obtain e where "fst (recover_jobs env now ?js s) = Inl e" by blast
  then show ?thesis unfolding recover_expired_claims_def
    by (intro inert_mutation) (auto simp: act_simps split: prod.splits)
qed

lemma claim_blocked: "inert (recover_expired_claims env now) s \<Longrightarrow> inert (claim_job env worker now lease) s"
  by (auto simp: inert_def claim_job_def act_simps)

section \<open>Idempotent intents\<close>

text \<open>The checks before an intent is stored.\<close>

definition issue_ready :: "hub_principal \<Rightarrow> issue_request \<Rightarrow> string option \<Rightarrow> int \<Rightarrow> hub_store \<Rightarrow> bool" where
  "issue_ready p request authorization now s =
     (let permission = (if given authorization then the authorization else action_id (rq_operation_id request)) in
      require_grant p permission now = Inr () \<and>
      (if rq_operation_id request = IssueComment then given (rq_body request) else rq_body request = None) \<and>
      (case binding_for_scope p (rq_binding_id request) s of
         Inl e \<Rightarrow> False
       | Inr b \<Rightarrow>
           sb_enabled b \<and> sb_connection_id b = rq_connection_id request \<and>
           (\<exists>a. actor_binding_for_operation p (sb_id b) permission now s = Inr a) \<and>
           (\<exists>c. connection_for_scope p (rq_connection_id request) s = Inr c)))"

text \<open>The digest an intent is bound to.\<close>

definition intent_digest :: "issue_request \<Rightarrow> string" where
  "intent_digest request =
     digest_of [(''connectionId'', PStr (rq_connection_id request)), (''bindingId'', PStr (rq_binding_id request)),
      (''operationId'', PStr (action_id (rq_operation_id request))), (''issueNumber'', PInt (rq_issue_number request)),
      (''body'', opt_py (rq_body request)), (''reconcilesOperationId'', opt_py (rq_reconciles_operation_id request)),
      (''sourceKind'', PStr ''REST''), (''sourceEventRef'', PNone)]"

lemma binding_scope_id: "setup_ok s \<Longrightarrow> binding_for_scope p i s = Inr b \<Longrightarrow> sb_id b = i"
  by (auto simp: binding_for_scope_def setup_ok_def dest: rows_okD split: option.splits if_splits)

lemma connection_scope_id: "setup_ok s \<Longrightarrow> connection_for_scope p i s = Inr c \<Longrightarrow> cn_id c = i"
  by (auto simp: connection_for_scope_def visible_connection_def setup_ok_def dest: rows_okD split: option.splits if_splits)

lemma intent_digest_of: "sb_id b = rq_binding_id request \<Longrightarrow> digest_of (canonical_intent request b rest_source) = intent_digest request"
  by (simp add: canonical_intent_def intent_digest_def rest_source_def opt_py_def)

lemma enqueue_runs:
  assumes "setup_ok s"
  obtains (refused) e where "enqueue_issue_action p request authorization op_id job_id now s = (Inl e, s)" "\<not> issue_ready p request authorization now s"
  | (stored) b a c where "enqueue_issue_action p request authorization op_id job_id now s =
        persist_issue_action request b a c (scope_of p) rest_source op_id job_id now s"
      "sb_id b = rq_binding_id request" "cn_id c = rq_connection_id request" "issue_ready p request authorization now s"
proof (cases "issue_ready p request authorization now s")
  case True
  then obtain b a c where r: "require_grant p (if given authorization then the authorization else action_id (rq_operation_id request)) now = Inr ()"
      "if rq_operation_id request = IssueComment then given (rq_body request) else rq_body request = None"
      "binding_for_scope p (rq_binding_id request) s = Inr b" "sb_enabled b" "sb_connection_id b = rq_connection_id request"
      "actor_binding_for_operation p (sb_id b) (if given authorization then the authorization else action_id (rq_operation_id request)) now s = Inr a"
      "connection_for_scope p (rq_connection_id request) s = Inr c"
    by (auto simp: issue_ready_def Let_def split: sum.splits)
  with stored [of b a c] binding_scope_id [OF assms r(3)] connection_scope_id [OF assms r(7)] True show ?thesis
    by (simp add: enqueue_issue_action_def act_simps Let_def split: if_splits)
next
  case False
  let ?permission = "if given authorization then the authorization else action_id (rq_operation_id request)"
  have "\<exists>e. enqueue_issue_action p request authorization op_id job_id now s = (Inl e, s)"
  proof (cases "binding_for_scope p (rq_binding_id request) s")
    case (Inr b)
    then show ?thesis
      using False by (cases "connection_for_scope p (rq_connection_id request) s";
        cases "actor_binding_for_operation p (sb_id b) ?permission now s"; cases "require_grant p ?permission now")
        (auto simp: issue_ready_def enqueue_issue_action_def act_simps Let_def)
  qed (cases "require_grant p ?permission now"; simp add: enqueue_issue_action_def act_simps Let_def)
  with refused False show ?thesis by blast
qed

text \<open>The intent bound to a key of a connection, by the hash it was stored with.\<close>

definition bound_intent :: "scope \<Rightarrow> uuid \<Rightarrow> string \<Rightarrow> hub_store \<Rightarrow> (string \<times> uuid) option" where
  "bound_intent sc connection_id key s =
     map_option (\<lambda>o'. (io_request_hash o', io_id o')) (find_keyed_operation sc connection_id key s)"

lemma bound_intent_idents:
  "bound_intent sc c key s = map_option (\<lambda>(k, o'). (io_request_hash o', io_id o')) (find (\<lambda>(k, o'). keyed_operation sc c key o') (op_idents s))"
proof -
  have same: "keyed_operation sc c key (op_ident o') = keyed_operation sc c key o'" "io_request_hash (op_ident o') = io_request_hash o'"
    "io_id (op_ident o') = io_id o'" for o'
    by (simp_all add: op_ident_def keyed_operation_def)
  have *: "map_option (\<lambda>(k, o'). (io_request_hash o', io_id o')) (find (\<lambda>(k, o'). keyed_operation sc c key o') t) =
      map_option (\<lambda>(k, o'). (io_request_hash o', io_id o')) (find (\<lambda>(k, o'). keyed_operation sc c key o') (map (\<lambda>(k, o'). (k, op_ident o')) t))" for t
    by (induction t) (auto simp: same)
  from * [of "hs_operations s"] show ?thesis
    by (simp add: bound_intent_def find_keyed_operation_def op_idents_def option.map_comp o_def case_prod_unfold)
qed

lemma find_append: "find P (xs @ ys) = (case find P xs of None \<Rightarrow> find P ys | Some x \<Rightarrow> Some x)"
  by (induction xs) simp_all

lemma bound_intent_later:
  assumes "prefix (op_idents s) (op_idents s')" "bound_intent sc c key s = Some b"
  shows "bound_intent sc c key s' = Some b"
  using assms unfolding bound_intent_idents prefix_def by (auto simp: find_append)

definition intent_there :: "uuid \<Rightarrow> hub_store \<Rightarrow> bool" where
  "intent_there i s = (i \<in> fst ` set (op_idents s))"

text \<open>The attempts of one actor on one key of a connection.\<close>

definition issue_attempt :: "hub_principal \<Rightarrow> uuid \<Rightarrow> string \<Rightarrow>
  string list \<times> int option \<times> issue_request \<times> string option \<times> uuid \<times> uuid \<times> int \<Rightarrow> issue_operation hub_act" where
  "issue_attempt p connection_id key =
     (\<lambda>(grants, expires, request, authorization, op_id, job_id, now).
        enqueue_issue_action (p\<lparr>hp_allowed_operation_ids := grants, hp_expires_at := expires\<rparr>)
          (request\<lparr>rq_connection_id := connection_id, rq_idempotency_key := key\<rparr>) authorization op_id job_id now)"

lemma persist_bound:
  assumes "find_keyed_operation sc (cn_id c) (rq_idempotency_key request) s = Some o'"
  shows "persist_issue_action request b a c sc src op_id job_id now s =
    ((if io_request_hash o' \<noteq> digest_of (canonical_intent request b src)
      then Inl (IntegrationConflict ''idempotency key was reused for a different request'') else Inr o'), s)"
  using assms by (simp add: persist_issue_action_def act_simps mutation_def Let_def)

lemma persist_new:
  assumes "find_keyed_operation sc (cn_id c) (rq_idempotency_key request) s = None"
    and "persist_issue_action request b a c sc src op_id job_id now s = (Inr o', s')"
  shows "bound_intent sc (cn_id c) (rq_idempotency_key request) s' = Some (digest_of (canonical_intent request b src), io_id o')"
    and "intent_there (io_id o') s'"
proof -
  from assms have "\<exists>execution arguments.
      o' = new_operation request b a c sc src execution (digest_of arguments) (digest_of (canonical_intent request b src)) op_id now \<and>
      insert_row (io_id o') o' (hs_operations s) = Some (hs_operations s')"
    by (auto simp: persist_issue_action_def mutation_Inr outcome_simps Let_def add_operation_def insert_job_def add_job_def split: if_splits)
  then obtain execution arguments where
    o': "o' = new_operation request b a c sc src execution (digest_of arguments) (digest_of (canonical_intent request b src)) op_id now"
    and s1: "insert_row (io_id o') o' (hs_operations s) = Some (hs_operations s')" by blast
  then have t: "hs_operations s' = hs_operations s @ [(io_id o', o')]" by (auto simp: insert_row_def split: if_splits)
  obtain g w i u where sc: "sc = (g, w, i, u)" by (metis prod_cases4)
  have "keyed_operation sc (cn_id c) (rq_idempotency_key request) o'" by (simp add: o' keyed_operation_def new_operation_def sc)
  with assms(1) t show "bound_intent sc (cn_id c) (rq_idempotency_key request) s' = Some (digest_of (canonical_intent request b src), io_id o')"
    by (auto simp: bound_intent_def find_keyed_operation_def find_append o' new_operation_def sc split: option.splits)
  show "intent_there (io_id o') s'" by (simp add: intent_there_def op_idents_def t)
qed

lemma persist_returns:
  assumes "find_keyed_operation sc (cn_id c) (rq_idempotency_key request) s = Some o'" "io_request_hash o' = digest_of (canonical_intent request b src)"
  shows "persist_issue_action request b a c sc src op_id job_id now s = (Inr o', s)"
  by (simp add: persist_bound [OF assms(1)] assms(2))

lemma keyed_there:
  assumes "ops_ok s" "find_keyed_operation sc c key s = Some o'"
  shows "intent_there (io_id o') s"
proof -
  note rows = assms(1) [unfolded ops_ok_def]
  from assms(2) obtain k where "find (\<lambda>(k, o'). keyed_operation sc c key o') (hs_operations s) = Some (k, o')"
    by (auto simp: find_keyed_operation_def)
  from find_hit [OF rows_ok_table [OF rows] this] have row: "find_row k (hs_operations s) = Some o'" by simp
  then have "(k, op_ident o') \<in> set (op_idents s)" by (force simp: find_row_def op_idents_def dest: map_of_SomeD)
  with rows_okD [OF rows row] show ?thesis by (force simp: intent_there_def)
qed

interpretation intents: idempotent_create
  "issue_attempt p connection_id key" "\<lambda>(grants, expires, request, authorization, op_id, job_id, now). intent_digest (request\<lparr>rq_connection_id := connection_id, rq_idempotency_key := key\<rparr>)" io_id
  "bound_intent (scope_of p) connection_id key" intent_there
  "\<lambda>(grants, expires, request, authorization, op_id, job_id, now) s. issue_ready (p\<lparr>hp_allowed_operation_ids := grants, hp_expires_at := expires\<rparr>)
     (request\<lparr>rq_connection_id := connection_id, rq_idempotency_key := key\<rparr>) authorization now s"
  hub_ok "\<lambda>s s'. \<exists>ops. s' = hub_run ops s" for p connection_id key
proof (unfold_locales, goal_cases)
  case (1 s x r s')
  obtain grants expires request authorization op_id job_id now where x: "x = (grants, expires, request, authorization, op_id, job_id, now)"
    by (metis prod_cases7)
  let ?p = "p\<lparr>hp_allowed_operation_ids := grants, hp_expires_at := expires\<rparr>"
    and ?q = "request\<lparr>rq_connection_id := connection_id, rq_idempotency_key := key\<rparr>"
  have scope: "scope_of ?p = scope_of p" by (simp add: scope_of_def)
  from 1(3) have run: "enqueue_issue_action ?p ?q authorization op_id job_id now s = (Inr r, s')" by (simp add: x issue_attempt_def)
  have keyed: "setup_ok s" using 1(1) by (simp add: hub_ok_def)
  have "hub_ok s'"
    using perform_hub_ok [OF 1(1), of "EnqueueIssueAction ?p ?q authorization op_id job_id now"] run by simp
  moreover have "bound_intent (scope_of p) connection_id key s' = Some (intent_digest ?q, io_id r) \<and> intent_there (io_id r) s'"
  proof (cases rule: enqueue_runs [OF keyed, where p = ?p and request = ?q and authorization = authorization and op_id = op_id and job_id = job_id and now = now, case_names refused stored])
    case (stored b a c)
    with run 1(2) scope have "persist_issue_action ?q b a c (scope_of p) rest_source op_id job_id now s = (Inr r, s')"
      "find_keyed_operation (scope_of p) (cn_id c) (rq_idempotency_key ?q) s = None" by (simp_all add: bound_intent_def)
    from persist_new [OF this(2,1)] stored(2,3) intent_digest_of [OF stored(2)] show ?thesis by simp
  qed (use run in simp)
  ultimately show ?case by (simp add: x)
next
  case (2 s d i x res s')
  obtain grants expires request authorization op_id job_id now where x: "x = (grants, expires, request, authorization, op_id, job_id, now)"
    by (metis prod_cases7)
  let ?p = "p\<lparr>hp_allowed_operation_ids := grants, hp_expires_at := expires\<rparr>"
    and ?q = "request\<lparr>rq_connection_id := connection_id, rq_idempotency_key := key\<rparr>"
  have scope: "scope_of ?p = scope_of p" by (simp add: scope_of_def)
  from 2(3) have run: "enqueue_issue_action ?p ?q authorization op_id job_id now s = (res, s')" by (simp add: x issue_attempt_def)
  have keyed: "setup_ok s" using 2(1) by (simp add: hub_ok_def)
  from 2(2) obtain o' where o': "find_keyed_operation (scope_of p) connection_id key s = Some o'" "io_request_hash o' = d" "io_id o' = i"
    by (auto simp: bound_intent_def)
  with keyed_there [of s "scope_of p" connection_id key o'] 2(1) have there: "intent_there i s" by (simp add: hub_ok_def)
  show ?case
  proof (cases rule: enqueue_runs [OF keyed, where p = ?p and request = ?q and authorization = authorization and op_id = op_id and job_id = job_id and now = now, case_names refused stored])
    case (stored b a c)
    with persist_bound [of "scope_of p" c ?q s o' b a rest_source op_id job_id now] o' run scope intent_digest_of [OF stored(2)] there x
    show ?thesis by (auto split: if_splits)
  qed (use run in simp)
next
  case (3 s x i)
  obtain grants expires request authorization op_id job_id now where x: "x = (grants, expires, request, authorization, op_id, job_id, now)"
    by (metis prod_cases7)
  let ?p = "p\<lparr>hp_allowed_operation_ids := grants, hp_expires_at := expires\<rparr>"
    and ?q = "request\<lparr>rq_connection_id := connection_id, rq_idempotency_key := key\<rparr>"
  have scope: "scope_of ?p = scope_of p" by (simp add: scope_of_def)
  have keyed: "setup_ok s" using 3(1) by (simp add: hub_ok_def)
  from 3(2) obtain o' where o': "find_keyed_operation (scope_of p) connection_id key s = Some o'" "io_request_hash o' = intent_digest ?q"
    by (auto simp: bound_intent_def x)
  show ?case
  proof (cases rule: enqueue_runs [OF keyed, where p = ?p and request = ?q and authorization = authorization and op_id = op_id and job_id = job_id and now = now, case_names refused stored])
    case (stored b a c)
    with persist_returns [of "scope_of p" c ?q s o' b rest_source a op_id job_id now] o' scope intent_digest_of [OF stored(2)]
    show ?thesis by (simp add: x issue_attempt_def)
  qed (use 3(4) in \<open>simp add: x\<close>)
next
  case (4 s s' b i)
  then obtain ops where s': "s' = hub_run ops s" by blast
  have grown: "prefix (op_idents s) (op_idents s')" using 4(2) run_grows [of s ops] by (simp add: s' hub_ok_def)
  with 4 run_ok [OF 4(2), of ops] bound_intent_later [OF grown] show ?case
    by (auto simp: s' intent_there_def prefix_def)
qed

end
