(* ===== verification/Dispatch_Facts.thy ===== *)
theory Dispatch_Facts
  imports Execution Outbox_Facts
begin

text \<open>
  One step of the worker and one signed execution, up to the calls they make: a message leaves at
  most once and only after its job is durably past the write boundary; the provider is reached only
  for a stored intent that every check agreed with.
\<close>

section \<open>The worker\<close>

text \<open>Which job a message belongs to, by the key the transport deduplicates on.\<close>

fun call_key :: "port_call \<Rightarrow> (job_kind \<times> string) option" where
  "call_key (SendNotification target content key) = Some (Notify, key)"
| "call_key (SendCommandReply r) = Some (CommandReply, rpl_key r)"
| "call_key (SendChallengeReply r) = Some (ChallengeReply, rpl_key r)"
| "call_key _ = None"

definition job_sent :: "uuid \<Rightarrow> hub_store \<Rightarrow> bool" where
  "job_sent i s = (\<exists>j. find_row i (hs_jobs s) = Some j \<and> sent (ob_state j) \<and> \<not> readonly_query j)"

definition tracks :: "hub_store \<Rightarrow> hub_world \<Rightarrow> bool" where
  "tracks s0 w = (jobs_ok (hw_store w) \<and> setup_ok (hw_store w) \<and> progress s0 (hw_store w))"

text \<open>Before the call of a step, and after it.\<close>

definition uncalled :: "port_call list \<Rightarrow> hub_store \<Rightarrow> hub_world \<Rightarrow> bool" where
  "uncalled cs s0 w = (hw_calls w = cs \<and> tracks s0 w)"

definition called :: "outbox_job \<Rightarrow> port_call list \<Rightarrow> hub_store \<Rightarrow> hub_world \<Rightarrow> bool" where
  "called j cs s0 w = (tracks s0 w \<and> (\<exists>c. hw_calls w = cs @ [c] \<and>
     (call_key c \<noteq> None \<longrightarrow> call_key c = job_key j \<and> job_sent (ob_id j) (hw_store w))))"

abbreviation at_most_once :: "outbox_job \<Rightarrow> port_call list \<Rightarrow> hub_store \<Rightarrow> hub_world \<Rightarrow> bool" where
  "at_most_once j cs s0 w \<equiv> uncalled cs s0 w \<or> called j cs s0 w"

lemma progressE:
  assumes "progress s s'" "find_row i (hs_jobs s) = Some j"
  obtains j' where "find_row i (hs_jobs s') = Some j'" "job_ident j' = job_ident j" "job_steps (readonly_query j) (view j) (view j')"
  using assms unfolding progress_def job_moves_def by blast

lemma job_sent_later: "progress s s' \<Longrightarrow> job_sent i s \<Longrightarrow> job_sent i s'"
proof -
  assume p: "progress s s'" and "job_sent i s"
  then obtain j where j: "find_row i (hs_jobs s) = Some j" "sent (ob_state j)" "\<not> readonly_query j" by (auto simp: job_sent_def)
  from progressE [OF p j(1)] obtain j' where j': "find_row i (hs_jobs s') = Some j'" "job_ident j' = job_ident j"
    "job_steps False (view j) (view j')" using j(3) by auto
  with job_steps_sent [OF j'(3)] j job_ident_eqD(8) [OF j'(2)] show ?thesis by (auto simp: job_sent_def view_def)
qed

text \<open>A store action that advances the jobs and leaves the setup keeps both.\<close>

definition routine :: "'a hub_act \<Rightarrow> bool" where
  "routine m = (advances m \<and> leaves (\<lambda>s. (hs_connections s, hs_bindings s)) m)"

lemma routine_tracks:
  assumes "routine m" "tracks s0 w" "in_store m w = (r, w')"
  shows "tracks s0 w' \<and> hw_calls w' = hw_calls w \<and> progress (hw_store w) (hw_store w')"
proof -
  obtain r' s where m: "m (hw_store w) = (r', s)" by fastforce
  with assms(3) have w': "w' = w\<lparr>hw_store := s\<rparr>" by (simp add: in_store_def)
  from assms(1,2) m have "jobs_ok s \<and> progress (hw_store w) s" "setup_ok s"
    using advancesD [of m "hw_store w"] setup_left [of m "hw_store w"] by (simp_all add: routine_def tracks_def)
  with assms(2) show ?thesis by (auto simp: tracks_def w' intro: progress_trans)
qed

lemma keeps_quiet: "routine m \<Longrightarrow> valid (uncalled cs s0) (in_store m) (\<lambda>_. uncalled cs s0) (\<lambda>_. uncalled cs s0)"
  unfolding valid_def uncalled_def by (auto dest: routine_tracks split: sum.splits prod.splits)

lemma keeps_called: "routine m \<Longrightarrow> valid (called j cs s0) (in_store m) (\<lambda>_. called j cs s0) (\<lambda>_. called j cs s0)"
  unfolding valid_def called_def
  by (auto dest!: routine_tracks split: sum.splits prod.splits intro: job_sent_later)

lemma valid_port:
  "(\<And>w. P w \<Longrightarrow> R (w\<lparr>hw_calls := hw_calls w @ [c]\<rparr>)) \<Longrightarrow> valid P (port c f) (\<lambda>_. R) (\<lambda>_. R)"
  by (auto simp: valid_def port_def split: sum.splits)

lemma valid_attempt: "valid P m (\<lambda>_. R) (\<lambda>_. R) \<Longrightarrow> valid P (attempt m) (\<lambda>_. R) (\<lambda>_. R)"
  by (fastforce simp: valid_def attempt_def split: sum.splits prod.splits)

lemmas routine_actions =
  advances_sending advances_fail advances_prepare advances_awaiting advances_evidence advances_unknown
  advances_finish advances_retry advances_claim advances_basic

lemma routines:
  "routine (mark_sending i fence now)" "routine (fail_claimed_job env i fence why now)"
  "routine (prepare_authority_enqueue i fence candidate now)" "routine (mark_awaiting_authority i fence ivk st now)"
  "routine (update_authority_evidence i fence ivk st now)" "routine (mark_authority_result_unknown env i fence ivk now)"
  "routine (finish_job env i fence js evidence receipt clock)" "routine (retry_readonly_job env i fence now wait)"
  "routine (claim_job env worker now lease)" "routine (look f)"
  by (simp_all only: routine_def routine_actions setup_leaves leaves_hub simp_thms)

lemma keeps_parts:
  "keeps I (ret x)" "keeps I (raise e)" "keeps I (result r)"
  "keeps I m \<Longrightarrow> (\<And>x. keeps I (f x)) \<Longrightarrow> keeps I (bind m f)"
  "keeps I m \<Longrightarrow> keeps I n \<Longrightarrow> keeps I (if b then m else n)"
  "keeps I m \<Longrightarrow> (\<And>x. keeps I (k x)) \<Longrightarrow> keeps I (case v of None \<Rightarrow> m | Some x \<Rightarrow> k x)"
  "(\<And>x y. keeps I (h x y)) \<Longrightarrow> keeps I (case p of (x, y) \<Rightarrow> h x y)"
  by (auto intro: valid_bind valid_intros split: option.split prod.split)

section \<open>The messages\<close>

lemma mark_sending_sent:
  assumes "\<not> readonly_query j" "find_row (ob_id j) (hs_jobs s0) = Some j"
  shows "valid (uncalled cs s0) (in_store (mark_sending (ob_id j) fence now))
    (\<lambda>_ w. uncalled cs s0 w \<and> job_sent (ob_id j) (hw_store w)) (\<lambda>_. uncalled cs s0)"
  unfolding valid_def
proof (intro allI impI)
  fix w assume w: "uncalled cs s0 w"
  obtain r w' where run: "in_store (mark_sending (ob_id j) fence now) w = (r, w')" by fastforce
  from w have "tracks s0 w" "hw_calls w = cs" by (simp_all add: uncalled_def)
  with routine_tracks [OF routines(1) this(1) run] have q: "uncalled cs s0 w'" by (simp add: uncalled_def)
  show "case in_store (mark_sending (ob_id j) fence now) w of
      (Inr x, w') \<Rightarrow> uncalled cs s0 w' \<and> job_sent (ob_id j) (hw_store w') | (Inl e, w') \<Rightarrow> uncalled cs s0 w'"
  proof (cases r)
    case (Inr x)
    with run obtain s where s: "mark_sending (ob_id j) fence now (hw_store w) = (Inr x, s)" "hw_store w' = s"
      by (auto simp: in_store_def split: prod.splits)
    then obtain j1 where "find_row (ob_id j) (hs_jobs (hw_store w)) = Some j1"
      and s1: "hs_jobs s = update_row (ob_id j1) (\<lambda>_. j1\<lparr>ob_state := Sending, ob_updated_at := now\<rparr>) (hs_jobs (hw_store w))"
      by (auto simp: mark_sending_def mutation_Inr outcome_simps Let_def fenced_job_def persist_job_def update_operation_state_def
          split: option.splits if_splits)
    moreover from this(1) w jobs_ok_row have "ob_id j1 = ob_id j" by (auto simp: uncalled_def tracks_def)
    ultimately have row: "find_row (ob_id j) (hs_jobs s) = Some (j1\<lparr>ob_state := Sending, ob_updated_at := now\<rparr>)"
      by (simp add: find_update)
    from q have "progress s0 s" by (simp add: uncalled_def tracks_def s(2))
    from progressE [OF this assms(2)] row have "readonly_query (j1\<lparr>ob_state := Sending, ob_updated_at := now\<rparr>) = readonly_query j"
      by (metis job_ident_eqD(8) option.inject)
    with row q s(2) assms(1) run Inr show ?thesis by (simp add: job_sent_def sent_def)
  qed (use run q in simp)
qed

lemma send_message_once:
  assumes "call_key c = job_key j"
  shows "valid (\<lambda>w. uncalled cs s0 w \<and> job_sent (ob_id j) (hw_store w)) (send_message dp j fence why1 why2 c)
    (\<lambda>_. at_most_once j cs s0) (\<lambda>_. at_most_once j cs s0)"
proof -
  have weak: "valid (called j cs s0) m (\<lambda>_. called j cs s0) (\<lambda>_. called j cs s0) \<Longrightarrow>
      valid (called j cs s0) m (\<lambda>_. at_most_once j cs s0) (\<lambda>_. at_most_once j cs s0)" for m :: "dispatch_result hub_step"
    by (erule valid_post) simp_all
  have finish: "keeps (called j cs s0) (finish_message dp j fence e)" for e
    unfolding finish_message_def Let_def by (intro keeps_parts keeps_called routines)
  show ?thesis unfolding send_message_def
  proof (rule valid_bind)
    show "valid (\<lambda>w. uncalled cs s0 w \<and> job_sent (ob_id j) (hw_store w)) (attempt (port c (\<lambda>n. pt_notify (dp_ports dp) n c)))
        (\<lambda>_. called j cs s0) (\<lambda>_. at_most_once j cs s0)"
      by (rule valid_post [OF valid_attempt [OF valid_port, where R = "called j cs s0"]])
        (use assms in \<open>auto simp: uncalled_def called_def tracks_def\<close>)
    show "valid (called j cs s0) (case x of
        Inl e \<Rightarrow> andthen (in_store (finish_job (dp_reply dp) (ob_id j) fence Unknown (reason why1) None (dp_later dp)))
          (ret \<lparr>ds_job_id = Some (ob_id j), ds_state = job_state_text Unknown, ds_reason_code = Some why2\<rparr>)
      | Inr evidence \<Rightarrow> finish_message dp j fence evidence) (\<lambda>_. at_most_once j cs s0) (\<lambda>_. at_most_once j cs s0)" for x
      by (cases x; simp only: sum.case; rule weak; intro finish keeps_parts keeps_called routines)
  qed
qed

text \<open>Each kind of job, from the claim on.\<close>

definition in_hand :: "outbox_job \<Rightarrow> hub_store \<Rightarrow> bool" where
  "in_hand j s0 = (find_row (ob_id j) (hs_jobs s0) = Some j \<and> job_ok j)"

abbreviation once :: "outbox_job \<Rightarrow> port_call list \<Rightarrow> hub_store \<Rightarrow> 'a hub_step \<Rightarrow> bool" where
  "once j cs s0 m \<equiv> valid (uncalled cs s0) m (\<lambda>_. at_most_once j cs s0) (\<lambda>_. at_most_once j cs s0)"

lemma once_quiet: "keeps (uncalled cs s0) m \<Longrightarrow> (\<And>x. once j cs s0 (f x)) \<Longrightarrow> once j cs s0 (bind m f)"
  by (rule valid_bind [where R = "\<lambda>_. uncalled cs s0"]) (auto elim: valid_post)

lemma once_then:
  assumes "valid (uncalled cs s0) m (\<lambda>_. called j cs s0) (\<lambda>_. called j cs s0)" "\<And>x. keeps (called j cs s0) (f x)"
  shows "once j cs s0 (bind m f)"
proof (rule valid_bind)
  show "valid (uncalled cs s0) m (\<lambda>_. called j cs s0) (\<lambda>_. at_most_once j cs s0)" by (rule valid_post [OF assms(1)]) simp_all
  show "valid (called j cs s0) (f x) (\<lambda>_. at_most_once j cs s0) (\<lambda>_. at_most_once j cs s0)" for x
    by (rule valid_post [OF assms(2)]) simp_all
qed

lemma once_checked:
  assumes "valid (uncalled cs s0) m (\<lambda>b w. uncalled cs s0 w \<and> ok b) (\<lambda>_. uncalled cs s0)" "\<And>b. ok b \<Longrightarrow> once j cs s0 (f b)"
  shows "once j cs s0 (bind m f)"
proof (rule valid_bind)
  show "valid (uncalled cs s0) m (\<lambda>b w. uncalled cs s0 w \<and> ok b) (\<lambda>_. at_most_once j cs s0)" by (rule valid_post [OF assms(1)]) simp_all
  show "valid (\<lambda>w. uncalled cs s0 w \<and> ok b) (f b) (\<lambda>_. at_most_once j cs s0) (\<lambda>_. at_most_once j cs s0)" for b
    using assms(2) [of b] by (cases "ok b") (auto intro: valid_pre, simp add: valid_def)
qed

lemma once_stop: "keeps (uncalled cs s0) m \<Longrightarrow> once j cs s0 m"
  by (auto elim: valid_post)

lemma send_once:
  assumes "in_hand j s0" "ob_kind j \<noteq> IssueAction" "call_key c = job_key j"
  shows "once j cs s0 (andthen (in_store (mark_sending (ob_id j) fence now)) (send_message dp j fence why1 why2 c))"
proof (rule valid_bind)
  have "\<not> readonly_query j" using assms(2) by (simp add: readonly_query_def)
  with assms(1) show "valid (uncalled cs s0) (in_store (mark_sending (ob_id j) fence now))
      (\<lambda>_ w. uncalled cs s0 w \<and> job_sent (ob_id j) (hw_store w)) (\<lambda>_. at_most_once j cs s0)"
    by (auto intro: valid_post [OF mark_sending_sent] simp: in_hand_def)
qed (rule send_message_once [OF assms(3)])

lemma reply_once:
  assumes "in_hand j s0" "ob_kind j = CommandReply \<or> ob_kind j = ChallengeReply"
    and "\<And>r. reply_request_of j = Some r \<Longrightarrow> call_key (call r) = Some (ob_kind j, rpl_key r)"
  shows "once j cs s0 (dispatch_reply dp j fence now incomplete why1 why2 call)"
proof (cases "reply_request_of j")
  case (Some r)
  have "given (ob_idempotency_key j)" using assms(1,2) by (auto simp: in_hand_def job_ok_def)
  with Some have "ob_idempotency_key j = Some (rpl_key r)"
    by (auto simp: reply_request_of_def Let_def given_def split: pyval.splits)
  then have "call_key (call r) = job_key j" using assms(3) [OF Some] by (simp add: job_key_def)
  with send_once [OF assms(1)] assms(2) Some show ?thesis by (auto simp: dispatch_reply_def)
qed (simp add: dispatch_reply_def once_stop keeps_parts)

lemma notification_once:
  assumes "in_hand j s0" "ob_kind j = Notify"
  shows "once j cs s0 (dispatch_notification dp j fence now)"
proof -
  have key: "job_key j = Some (Notify, message_key j)" and event: "is_str (dget (ob_payload j) ''eventId'')"
    using assms by (auto simp: in_hand_def job_ok_def job_key_def)
  from event obtain e where e: "dget (ob_payload j) ''eventId'' = PStr e" by (auto simp: is_str_iff)
  then have e': "dget_or (ob_payload j) ''eventId'' (PStr []) = PStr e"
    by (auto simp: dget_or_def split: option.splits)
  have bound: "valid (uncalled cs s0) (in_store (look (binding_for_job j)))
      (\<lambda>b w. uncalled cs s0 w \<and> ob_binding_id j = Some (sb_id b)) (\<lambda>_. uncalled cs s0)"
    by (auto simp: valid_def in_store_def act_simps uncalled_def tracks_def binding_for_job_def setup_ok_def dest: rows_okD
        split: sum.splits prod.splits option.splits if_splits)
  have send: "once j cs s0 (andthen (in_store (mark_sending (ob_id j) fence now))
      (send_message dp j fence why1 why2 (SendNotification target content
        (''incoming:'' @ value_str fr (dget_or (ob_payload j) ''eventId'' (PStr [])) @ '':'' @ sb_id b))))"
    if "ob_binding_id j = Some (sb_id b)" for b why1 why2 target content fr
    by (rule send_once [OF assms(1)]) (simp_all add: assms(2) key message_key_def e e' that value_str_def)
  show ?thesis unfolding dispatch_notification_def Let_def
    by (rule once_checked [OF bound]) (intro valid_if once_stop keeps_parts send)
qed

text \<open>The calls to Authority carry no message.\<close>

lemma authority_called: "call_key c = None \<Longrightarrow> valid (uncalled cs s0) (port c f) (\<lambda>_. called j cs s0) (\<lambda>_. called j cs s0)"
  by (rule valid_port) (auto simp: uncalled_def called_def tracks_def)

lemma once_prod: "(\<And>x y. once j cs s0 (h x y)) \<Longrightarrow> once j cs s0 (case p of (x, y) \<Rightarrow> h x y)"
  by (cases p) simp

lemma enqueue_once: "once j cs s0 (enqueue_authority dp j fence o' now)"
proof -
  have call: "once j cs s0 (bind (port (EnqueueAction request) (\<lambda>n. pt_enqueue (dp_ports dp) n request)) (\<lambda>(ivk, st).
      bind (in_store (mark_awaiting_authority (ob_id job) fence ivk (authority_text st) now)) (\<lambda>updated.
      ret \<lparr>ds_job_id = Some (ob_id job), ds_state = job_state_text (ob_state updated), ds_reason_code = None\<rparr>)))" for request job
    by (intro once_then authority_called keeps_parts keeps_called routines) simp
  show ?thesis unfolding enqueue_authority_def Let_def
    by (intro call valid_if valid_option once_quiet once_prod) (auto intro: once_stop keeps_parts(2) keeps_quiet routines)
qed

lemma poll_once: "once j cs s0 (poll_authority dp j fence now)"
proof -
  have call: "once j cs s0 (bind (port (PollInvocation ivk) (\<lambda>n. pt_poll (dp_ports dp) n ivk)) f)"
    if "\<And>x. keeps (called j cs s0) (f x)" for ivk f
    by (intro once_then authority_called that) simp
  have absent: "once j cs s0 (raise e)" for e by (intro once_stop keeps_parts)
  show ?thesis unfolding poll_authority_def by (intro valid_option absent call keeps_parts keeps_called routines)
qed

lemma dispatch_once:
  assumes "in_hand j s0"
  shows "once j cs s0 (dispatch_job dp j fence now)"
proof (cases "ob_kind j")
  case IssueAction
  have "once j cs s0 (bind (in_store (look (operation_for_job j))) (\<lambda>o'.
      if ob_authority_invocation_id j = None then enqueue_authority dp j fence o' now else poll_authority dp j fence now))"
    by (intro once_quiet keeps_quiet routines valid_if enqueue_once poll_once)
  with IssueAction show ?thesis by (simp add: dispatch_job_def)
qed (use assms in \<open>simp_all add: dispatch_job_def dispatch_command_reply_def dispatch_challenge_reply_def notification_once reply_once\<close>)

lemma handler_keeps:
  "keeps (uncalled cs s0) (dispatch_handler dp j fence now e)" "keeps (called j cs s0) (dispatch_handler dp j fence now e)"
  unfolding dispatch_handler_def
  by (cases e; simp only: hub_exn.case; intro keeps_parts keeps_quiet keeps_called routines)+

lemma handled_once: "once j cs s0 m \<Longrightarrow> once j cs s0 (catch m (dispatch_handler dp j fence now))"
proof (rule valid_catch, assumption)
  show "valid (at_most_once j cs s0) (dispatch_handler dp j fence now e) (\<lambda>_. at_most_once j cs s0) (\<lambda>_. at_most_once j cs s0)" for e
  proof -
    have "keeps (uncalled cs s0) (dispatch_handler dp j fence now e)" "keeps (called j cs s0) (dispatch_handler dp j fence now e)"
      by (rule handler_keeps)+
    then show ?thesis by (fastforce simp: valid_def split: sum.splits prod.splits)
  qed
qed

text \<open>What the claim hands out.\<close>

lemma claim_in_hand:
  assumes "jobs_ok s" "claim_job env worker now lease s = (Inr (Some c), s')"
  shows "in_hand (cj_job c) s' \<and> ob_state (cj_job c) = Claimed \<and> ob_claim_fence (cj_job c) = cj_claim_fence c"
proof -
  from assms(2) obtain s1 n where "recover_expired_claims env now s = (Inr n, s1)" and c: "claim_next worker now lease s1 = (Inr (Some c), s')"
    by (auto simp: claim_job_def outcome_simps split: if_splits)
  with advancesD [OF advances_recover assms(1), of env now] have ok: "jobs_ok s1" by simp
  from c obtain j where j: "next_claimable now s1 = Some j" "cj_job c = claimed j worker now lease" "cj_claim_fence c = ob_claim_fence (cj_job c)"
    and s': "s' = s1\<lparr>hs_jobs := update_row (ob_id (cj_job c)) (\<lambda>_. cj_job c) (hs_jobs s1)\<rparr>"
    by (auto simp: claim_next_def mutation_Inr outcome_simps Let_def persist_job_def split: option.splits)
  from next_claimable_held [OF ok j(1)] have "find_row (ob_id j) (hs_jobs s1) = Some j" by (simp add: holds_job_def)
  then have "find_row (ob_id (cj_job c)) (hs_jobs s') = Some (cj_job c)" by (simp add: s' j(2) find_update claimed_def)
  moreover from advancesD [OF advances_claim assms(1), of env worker now lease] assms(2) have "jobs_ok s'" by simp
  ultimately show ?thesis using jobs_ok_row [of s'] by (auto simp: in_hand_def j(2,3) claimed_def)
qed

lemma run_once_calls:
  assumes "hub_ok (hw_store w)" "run_once dp worker now w = (r, w')"
  obtains "hw_calls w' = hw_calls w"
  | c j s1 where "hw_calls w' = hw_calls w @ [c]" "in_hand j s1" "ob_state j = Claimed" "progress (hw_store w) s1" "progress s1 (hw_store w')"
      "call_key c \<noteq> None \<Longrightarrow> call_key c = job_key j \<and> job_sent (ob_id j) (hw_store w')" "jobs_ok s1"
proof -
  obtain r1 w1 where claim: "in_store (claim_job (dp_reply dp) worker now (dp_lease_seconds dp)) w = (r1, w1)" by fastforce
  have "tracks (hw_store w) w" using assms(1) by (simp add: tracks_def hub_ok_def)
  from routine_tracks [OF routines(9) this claim] have 1: "tracks (hw_store w) w1" "hw_calls w1 = hw_calls w" by simp_all
  consider (raised) e where "r1 = Inl e" | (idle) "r1 = Inr None" | (job) c where "r1 = Inr (Some c)" by (cases r1) (auto split: option.splits)
  then show thesis
  proof cases
    case (job c)
    from claim have "claim_job (dp_reply dp) worker now (dp_lease_seconds dp) (hw_store w) = (Inr (Some c), hw_store w1)"
      by (auto simp: in_store_def job split: prod.splits)
    from claim_in_hand [OF _ this] assms(1) have hand: "in_hand (cj_job c) (hw_store w1)" "ob_state (cj_job c) = Claimed"
      by (simp_all add: hub_ok_def)
    have run: "catch (dispatch_job dp (cj_job c) (cj_claim_fence c) now) (dispatch_handler dp (cj_job c) (cj_claim_fence c) now) w1 = (r, w')"
      using assms(2) claim job by (simp add: run_once_def act_simps)
    have "uncalled (hw_calls w) (hw_store w1) w1" using 1 by (simp add: uncalled_def tracks_def)
    with handled_once [OF dispatch_once [OF hand(1)], of "hw_calls w" dp "cj_claim_fence c" now dp "cj_claim_fence c" now] run
    have "at_most_once (cj_job c) (hw_calls w) (hw_store w1) w'" by (auto simp: valid_def split: sum.splits)
    with that hand 1 show thesis by (auto simp: uncalled_def called_def tracks_def)
  qed (use that claim assms(2) 1 in \<open>auto simp: run_once_def act_simps\<close>)
qed

section \<open>Signed execution\<close>

text \<open>The one provider call an intent stands for.\<close>

definition action_call :: "account_authorization \<Rightarrow> connection \<Rightarrow> issue_operation \<Rightarrow> port_call option" where
  "action_call a c o' =
     (case io_operation_id o' of
        IssueQuery \<Rightarrow> Some (GetIssue a (cn_repository_id c) (io_issue_number o'))
      | IssueComment \<Rightarrow> map_option (CreateComment a (cn_repository_id c) (io_issue_number o')) (io_body o')
      | IssueClose \<Rightarrow> Some (UpdateIssueState a (cn_repository_id c) (io_issue_number o') ''CLOSED'')
      | IssueReopen \<Rightarrow> Some (UpdateIssueState a (cn_repository_id c) (io_issue_number o') ''OPEN''))"

text \<open>What the store and the caller have to agree on before it is made.\<close>

definition authorized_intent ::
  "(bytes \<Rightarrow> json_outcome) \<Rightarrow> hub_principal \<Rightarrow> execution_call \<Rightarrow> int \<Rightarrow> hub_store \<Rightarrow> issue_operation \<Rightarrow> connection \<Rightarrow>
   account_authorization \<Rightarrow> bool" where
  "authorized_intent loads p xc now s o' c a =
     (find_row (xc_operation_id xc) (hs_operations s) = Some o' \<and>
      (io_organization_id o', io_workspace_id o', io_actor_issuer o', io_actor_subject o') = scope_of p \<and>
      require_grant p (xc_execution xc) now = Inr () \<and>
      intent_matches o' (xc_binding_id xc) (xc_execution xc) (xc_argument_digest xc) (xc_invocation_id xc) \<and>
      (\<exists>body. loads (xp_raw_body (xc_proof xc)) = JsonValue body \<and>
         proof_matches (xc_proof xc) body p o' (xc_binding_id xc) (xc_execution xc) (xc_invocation_id xc) (xc_argument_digest xc)) \<and>
      find_row (io_connection_id o') (hs_connections s) = Some c \<and> cn_enabled c \<and>
      (\<exists>g arguments. github_arguments c o' = Inr (g, arguments) \<and> digest_of arguments = io_argument_digest o' \<and>
         account_matches a c p g (io_argument_digest o') (io_account_link_ref o') now))"

lemma in_store_Inr: "in_store m w = (Inr x, w') \<longleftrightarrow> (\<exists>s. m (hw_store w) = (Inr x, s) \<and> w' = w\<lparr>hw_store := s\<rparr>)"
  by (auto simp: in_store_def split: prod.splits)

lemma in_store_look: "in_store (look f) w = (f (hw_store w), w)"
  by (simp add: in_store_def act_simps)

lemma check_execution_store:
  assumes "check_execution dp loads p xc now w = (r, w')"
  shows "hw_store w' = hw_store w \<and> (hw_calls w' = hw_calls w \<or> (\<exists>l g d. hw_calls w' = hw_calls w @ [GetAuthorization l g d]))"
proof -
  let ?I = "\<lambda>w'. hw_store w' = hw_store w \<and> (hw_calls w' = hw_calls w \<or> (\<exists>l g d. hw_calls w' = hw_calls w @ [GetAuthorization l g d]))"
  let ?A = "\<lambda>w'. w' = w"
  have step: "valid ?A m (\<lambda>_. ?I) (\<lambda>_. ?I)" if "valid ?A m (\<lambda>_. ?A) (\<lambda>_. ?A)" for m :: "'x hub_step"
    by (rule valid_post [OF that]) simp_all
  have bind_same: "valid ?A (bind m f) (\<lambda>_. ?I) (\<lambda>_. ?I)"
    if "valid ?A m (\<lambda>_. ?A) (\<lambda>_. ?A)" "\<And>x. valid ?A (f x) (\<lambda>_. ?I) (\<lambda>_. ?I)" for m :: "'x hub_step" and f :: "'x \<Rightarrow> 'y hub_step"
  proof (rule valid_bind)
    show "valid ?A m (\<lambda>_. ?A) (\<lambda>_. ?I)" by (rule valid_post [OF that(1)]) simp_all
  qed (rule that(2))
  have look: "valid ?A (in_store (look f)) (\<lambda>_. ?A) (\<lambda>_. ?A)" for f :: "hub_store \<Rightarrow> hub_exn + 'x"
    by (auto simp: valid_def in_store_look split: sum.splits)
  have res: "valid ?A (result r) (\<lambda>_. ?A) (\<lambda>_. ?A)" for r :: "hub_exn + 'x"
    by (auto simp: valid_def act_simps split: sum.splits)
  have last: "valid ?A (bind (port (GetAuthorization l g d) f) (\<lambda>a. bind (result (h a)) (\<lambda>_. ret (k a)))) (\<lambda>_. ?I) (\<lambda>_. ?I)"
    for l g d f h and k :: "'x \<Rightarrow> 'y"
    by (auto simp: valid_def act_simps port_def split: sum.splits prod.splits)
  have pair: "valid ?A (case q of (x, y) \<Rightarrow> h x y) (\<lambda>_. ?I) (\<lambda>_. ?I)" if "\<And>x y. valid ?A (h x y) (\<lambda>_. ?I) (\<lambda>_. ?I)"
    for q :: "'x \<times> 'y" and h :: "'x \<Rightarrow> 'y \<Rightarrow> 'z hub_step"
    by (cases q) (simp add: that)
  have "valid ?A (check_execution dp loads p xc now) (\<lambda>_. ?I) (\<lambda>_. ?I)"
    unfolding check_execution_def Let_def by (intro last pair bind_same look res)
  with assms show ?thesis by (auto simp: valid_def split: sum.splits)
qed

lemma check_execution_Inr:
  assumes "check_execution dp loads p xc now w = (Inr (o', c, a), w')" "hub_ok (hw_store w)"
  shows "hw_store w' = hw_store w \<and> (\<exists>l g d. hw_calls w' = hw_calls w @ [GetAuthorization l g d]) \<and>
    authorized_intent loads p xc now (hw_store w) o' c a"
proof -
  from assms(1) obtain g d b m where o': "operation_for_principal p (xc_operation_id xc) (xc_execution xc) now (hw_store w) = Inr o'"
    and grant: "require_grant p (xc_execution xc) now = Inr ()"
    and intent: "intent_matches o' (xc_binding_id xc) (xc_execution xc) (xc_argument_digest xc) (xc_invocation_id xc)"
    and proof_ok: "validate_execution_proof loads (xc_proof xc) p o' (xc_binding_id xc) (xc_execution xc) (xc_invocation_id xc) (xc_argument_digest xc) = Inr ()"
    and c: "connection_for_binding p (io_connection_id o') (xc_binding_id xc) (xc_execution xc) now (hw_store w) = Inr c"
    and args: "github_arguments c o' = Inr (g, d)" "digest_of d = io_argument_digest o'"
    and acc: "account_matches a c p g (io_argument_digest o') (io_account_link_ref o') now"
    and w': "w' = w\<lparr>hw_calls := hw_calls w @ [GetAuthorization (io_account_link_ref o') g d]\<rparr>"
    by (auto simp: check_execution_def outcome_simps in_store_look Let_def authz_def guard_eq_Inr port_def split: prod.splits)
  from proof_ok have "\<exists>body. loads (xp_raw_body (xc_proof xc)) = JsonValue body \<and>
      proof_matches (xc_proof xc) body p o' (xc_binding_id xc) (xc_execution xc) (xc_invocation_id xc) (xc_argument_digest xc)"
    by (auto simp: validate_execution_proof_def guard_eq_Inr split: json_outcome.splits)
  moreover from o' have "find_row (xc_operation_id xc) (hs_operations (hw_store w)) = Some o'"
    "(io_organization_id o', io_workspace_id o', io_actor_issuer o', io_actor_subject o') = scope_of p"
    by (auto simp: operation_for_principal_def result_simps split: option.splits if_splits)
  moreover from c have "find_row (io_connection_id o') (hs_connections (hw_store w)) = Some c" "cn_enabled c"
    by (auto simp: connection_for_binding_def connection_for_scope_def visible_connection_def result_simps split: option.splits if_splits)
  ultimately show ?thesis using grant intent args acc w' by (auto simp: authorized_intent_def)
qed

text \<open>The boundary of an execution: the job was claimed or waiting, and is being sent.\<close>

lemma begin_execution_Inr:
  assumes "begin_authorized_execution p i b ex digest ivk lease now s = (Inr (o', j, fence), s')" "hub_ok s"
  shows "\<exists>o1 j1. find_row i (hs_operations s) = Some o1 \<and> op_ident o' = op_ident o1 \<and> (io_state o1 = Queued \<or> io_state o1 = OpAwaiting) \<and>
    find_row (ob_id j) (hs_jobs s) = Some j1 \<and> (ob_state j1 = Claimed \<or> ob_state j1 = AwaitingAuthority) \<and> ob_operation_id j1 = Some i \<and>
    find_row (ob_id j) (hs_jobs s') = Some j \<and> ob_state j = Sending \<and> fence = ob_claim_fence j \<and> ob_claim_fence j1 < fence"
proof -
  from assms(1) obtain o1 j1 where o1: "executable_operation p i s = Inr o1" and j1: "waiting_job i s = Inr j1"
    and o': "o' = o1\<lparr>io_state := Running, io_authority_invocation_id := Some ivk, io_updated_at := now\<rparr>"
    and j: "j = j1\<lparr>ob_state := Sending, ob_claim_owner := Some (''authority:'' @ ivk), ob_claim_fence := ob_claim_fence j1 + 1,
             ob_lease_expires_at := Some (now + microseconds lease), ob_attempts := ob_attempts j1 + 1,
             ob_updated_at := now, ob_authority_invocation_id := Some ivk\<rparr>"
    and fence: "fence = ob_claim_fence j1 + 1"
    and s': "hs_jobs s' = update_row (ob_id j) (\<lambda>_. j) (hs_jobs s)"
    by (auto simp: begin_authorized_execution_def mutation_Inr outcome_simps Let_def persist_job_def put_operation_def guard_eq_Inr)
  from waiting_held [of s i j1] j1 assms(2) have w: "find_row (ob_id j1) (hs_jobs s) = Some j1"
    "ob_state j1 = AwaitingAuthority \<or> ob_state j1 = Claimed" "ob_operation_id j1 = Some i" by (simp_all add: hub_ok_def holds_job_def)
  from o1 have "find_row i (hs_operations s) = Some o1" "io_state o1 = Queued \<or> io_state o1 = OpAwaiting"
    by (auto simp: executable_operation_def split: option.splits if_splits)
  with w show ?thesis by (intro exI [of _ o1] exI [of _ j1]) (auto simp: o' j fence s' find_update op_ident_def)
qed

text \<open>The calls of a step as an invariant: the ones made so far, and at most one more.\<close>

definition made :: "port_call list \<Rightarrow> hub_world \<Rightarrow> bool" where
  "made cs w = (hw_calls w = cs)"

lemma made_store: "keeps (made cs) (in_store m)"
  by (auto simp: valid_def made_def in_store_def split: sum.splits prod.splits)

lemma made_port: "valid (made cs) (port c f) (\<lambda>_. made (cs @ [c])) (\<lambda>_. made (cs @ [c]))"
  by (rule valid_port) (simp add: made_def)

lemma made_then: "(\<And>x. keeps (made (cs @ [c])) (f x)) \<Longrightarrow> valid (made cs) (bind (port c g) f) (\<lambda>_. made (cs @ [c])) (\<lambda>_. made (cs @ [c]))"
  by (rule valid_bind [OF made_port])

lemma finish_write_made: "keeps (made cs) (finish_provider_write dp j fence e)"
  unfolding finish_provider_write_def by (intro keeps_parts made_store)

lemma query_made: "valid (made cs) (execute_query dp xe p xc o' c a j fence now)
    (\<lambda>_. made (cs @ [GetIssue a (cn_repository_id c) (io_issue_number o')])) (\<lambda>_. made (cs @ [GetIssue a (cn_repository_id c) (io_issue_number o')]))"
  unfolding execute_query_def reconcile_query_def Let_def by (intro made_then keeps_parts made_store)

lemma provider_step_made:
  assumes "action_call a c o' = Some call"
  shows "valid (made cs) (provider_step dp xe p xc o' c a j fence now) (\<lambda>_. made (cs @ [call])) (\<lambda>_. made (cs @ [call]))"
  using assms unfolding provider_step_def action_call_def Let_def
  by (cases "io_operation_id o'") (auto intro!: made_then query_made finish_write_made split: option.splits)

lemma provider_step_none:
  assumes "action_call a c o' = None"
  shows "keeps (made cs) (provider_step dp xe p xc o' c a j fence now)"
  using assms unfolding provider_step_def action_call_def
  by (cases "io_operation_id o'") (auto intro: keeps_parts)

lemma handler_made: "keeps (made cs) (provider_handler dp o' j fence e)"
  unfolding provider_handler_def Let_def by (cases e; simp only: hub_exn.case; intro keeps_parts made_store)

lemma provider_part:
  assumes "action_call a c o' = Some call"
  shows "valid (made cs) (andthen (catch (provider_step dp xe p xc o' c a j fence now) (provider_handler dp o' j fence)) (in_store m))
    (\<lambda>_. made (cs @ [call])) (\<lambda>_. made (cs @ [call]))"
  by (rule valid_bind [OF valid_catch [OF provider_step_made [OF assms] handler_made] made_store])

lemma begin_calls: "in_store (begin_authorized_execution p i b ex digest ivk lease now) w = (r, w') \<Longrightarrow> hw_calls w' = hw_calls w"
  by (auto simp: in_store_def split: prod.splits)

text \<open>\<open>github_arguments\<close> fails where there is no call to make.\<close>

lemma authorized_call: "authorized_intent loads p xc now s o' c a \<Longrightarrow> \<exists>call. action_call a c o' = Some call"
  by (auto simp: authorized_intent_def github_arguments_def action_call_def Let_def split: issue_action.splits option.splits)

lemma provider_call_ident: "op_ident o2 = op_ident o' \<Longrightarrow> action_call a c o2 = action_call a c o'"
proof -
  have *: "action_call a c (op_ident x) = action_call a c x" for x
    by (cases "io_operation_id x") (simp_all add: action_call_def op_ident_def)
  assume "op_ident o2 = op_ident o'"
  then show ?thesis by (metis *)
qed

lemma execution_calls:
  assumes "hub_ok (hw_store w)" "execute_authorized_action dp xe loads p xc now w = (r, w')"
  shows "\<exists>extra. hw_calls w' = hw_calls w @ extra \<and> (extra = [] \<or> (\<exists>l g d. extra = [GetAuthorization l g d]) \<or>
    (\<exists>l g d call o' c a i j. extra = [GetAuthorization l g d, call] \<and> authorized_intent loads p xc now (hw_store w) o' c a \<and>
       action_call a c o' = Some call \<and> find_row i (hs_jobs (hw_store w)) = Some j \<and> ob_operation_id j = Some (xc_operation_id xc) \<and>
       (ob_state j = Claimed \<or> ob_state j = AwaitingAuthority)))"
proof -
  obtain r1 w1 where check: "check_execution dp loads p xc now w = (r1, w1)" by fastforce
  note store = check_execution_store [OF check]
  show ?thesis
  proof (cases r1)
    case (Inl e)
    with assms(2) check store show ?thesis by (auto simp: execute_authorized_action_def act_simps)
  next
    case (Inr x)
    obtain o' c a where x: "x = (o', c, a)" by (metis prod_cases3)
    from check_execution_Inr [OF check [unfolded Inr x] assms(1)] obtain l g d where
      w1: "hw_store w1 = hw_store w" "hw_calls w1 = hw_calls w @ [GetAuthorization l g d]" and intent: "authorized_intent loads p xc now (hw_store w) o' c a"
      by auto
    obtain r2 w2 where begin_run: "in_store (begin_authorized_execution p (xc_operation_id xc) (xc_binding_id xc) (xc_execution xc)
        (xc_argument_digest xc) (xc_invocation_id xc) (dp_lease_seconds dp) now) w1 = (r2, w2)" by fastforce
    note calls2 = begin_calls [OF begin_run]
    show ?thesis
    proof (cases r2)
      case (Inl e)
      with assms(2) check Inr x begin_run calls2 w1 show ?thesis by (auto simp: execute_authorized_action_def act_simps)
    next
      case (Inr y)
      obtain o2 j fence where y: "y = (o2, j, fence)" by (metis prod_cases3)
      from begin_run obtain s where "begin_authorized_execution p (xc_operation_id xc) (xc_binding_id xc) (xc_execution xc)
          (xc_argument_digest xc) (xc_invocation_id xc) (dp_lease_seconds dp) now (hw_store w) = (Inr (o2, j, fence), s)"
        by (auto simp: Inr y in_store_Inr w1)
      from begin_execution_Inr [OF this assms(1)] obtain o1 j1 where
        o1: "find_row (xc_operation_id xc) (hs_operations (hw_store w)) = Some o1" "op_ident o2 = op_ident o1"
        and j1: "find_row (ob_id j) (hs_jobs (hw_store w)) = Some j1" "ob_state j1 = Claimed \<or> ob_state j1 = AwaitingAuthority"
          "ob_operation_id j1 = Some (xc_operation_id xc)" by auto
      from intent o1 have same: "action_call a c o2 = action_call a c o'" by (auto simp: authorized_intent_def intro: provider_call_ident)
      from authorized_call [OF intent] obtain call where call: "action_call a c o' = Some call" ..
      let ?rest = "andthen (catch (provider_step dp xe p xc o2 c a j fence now) (provider_handler dp o2 j fence))
          (in_store (look (operation_for_principal p (xc_operation_id xc) (xc_execution xc) now)))"
      have "?rest w2 = (r, w')"
        using assms(2) check \<open>r1 = Inr x\<close> x begin_run Inr y by (simp add: execute_authorized_action_def act_simps)
      moreover have "made (hw_calls w1) w2" by (simp add: made_def calls2)
      ultimately have "made (hw_calls w1 @ [call]) w'"
        using provider_part [of a c o2 call "hw_calls w1" dp xe p xc j fence now "look (operation_for_principal p (xc_operation_id xc) (xc_execution xc) now)"]
        by (auto simp: same call valid_def split: sum.splits)
      then have "hw_calls w' = hw_calls w @ [GetAuthorization l g d, call]" by (simp add: made_def w1)
      then have "hw_calls w' = hw_calls w @ [GetAuthorization l g d, call] \<and> authorized_intent loads p xc now (hw_store w) o' c a \<and>
          action_call a c o' = Some call \<and> find_row (ob_id j) (hs_jobs (hw_store w)) = Some j1 \<and>
          ob_operation_id j1 = Some (xc_operation_id xc) \<and> (ob_state j1 = Claimed \<or> ob_state j1 = AwaitingAuthority)"
        using intent call j1 by simp
      then show ?thesis by (intro exI [of _ "[GetAuthorization l g d, call]"] conjI disjI2) (simp, blast)
    qed
  qed
qed

end
