(* ===== verification/Delivery_Facts.thy ===== *)
theory Delivery_Facts
  imports Dispatch_Facts
begin

text \<open>
  The worker and the signed execution over whole histories: they change the store by the operations
  of the hub only, and a message is handed to the transport at most once, however often the
  worker, the execution and every other operation run.
\<close>

section \<open>Steps are operations\<close>

definition performed :: "'a hub_act \<Rightarrow> bool" where
  "performed m = (\<exists>op. \<forall>s. snd (m s) = hub_perform op s)"

lemma performed_operations:
  "performed (mark_sending i fence now)" "performed (fail_claimed_job env i fence why now)"
  "performed (prepare_authority_enqueue i fence candidate now)" "performed (mark_awaiting_authority i fence ivk st now)"
  "performed (update_authority_evidence i fence ivk st now)" "performed (mark_authority_result_unknown env i fence ivk now)"
  "performed (finish_job env i fence js evidence receipt clock)" "performed (retry_readonly_job env i fence now wait)"
  "performed (claim_job env worker now lease)" "performed (save_snapshot sn)"
  "performed (begin_authorized_execution p oi b ex digest ivk lease now)"
  "performed (resolve_unknown_operation p oi succeeded outcome authorization k now)"
  unfolding performed_def by (metis hub_perform.simps)+

definition run_from :: "hub_store \<Rightarrow> hub_world \<Rightarrow> bool" where
  "run_from s0 w = (\<exists>ops. hw_store w = hub_run ops s0)"

lemma hub_run_snoc: "hub_run (ops @ [op]) s = hub_perform op (hub_run ops s)"
  by (simp add: hub_run_def)

lemma run_store: "performed m \<Longrightarrow> keeps (run_from s0) (in_store m)"
proof -
  assume "performed m"
  then obtain op where op: "\<And>s. snd (m s) = hub_perform op s" by (auto simp: performed_def)
  have "run_from s0 w'" if "run_from s0 w" "in_store m w = (r, w')" for w r w'
  proof -
    obtain r1 s where m: "m (hw_store w) = (r1, s)" by fastforce
    with op [of "hw_store w"] that obtain ops where "hw_store w' = hub_run (ops @ [op]) s0"
      by (auto simp: run_from_def in_store_def hub_run_snoc)
    then show ?thesis by (auto simp: run_from_def)
  qed
  then show ?thesis by (auto simp: valid_def split: prod.splits sum.splits)
qed

lemma run_look: "keeps (run_from s0) (in_store (look f))"
  by (auto simp: valid_def in_store_look split: sum.splits)

lemma run_port: "keeps (run_from s0) (port c f)"
  by (rule valid_port) (simp add: run_from_def)

lemma keeps_catch: "keeps I m \<Longrightarrow> (\<And>e. keeps I (h e)) \<Longrightarrow> keeps I (catch m h)"
  by (rule valid_catch)

lemma keeps_sum: "(\<And>x. keeps I (g x)) \<Longrightarrow> (\<And>y. keeps I (h y)) \<Longrightarrow> keeps I (case z of Inl x \<Rightarrow> g x | Inr y \<Rightarrow> h y)"
  by (cases z) simp_all

lemmas run_parts = keeps_parts keeps_catch keeps_sum valid_attempt run_port run_look performed_operations [THEN run_store]

lemma run_messages: "keeps (run_from s0) (send_message dp j fence x y c)"
  unfolding send_message_def finish_message_def Let_def by (intro run_parts)

lemma run_reply: "keeps (run_from s0) (dispatch_reply dp j fence now x y z c)"
  unfolding dispatch_reply_def Let_def by (intro run_parts run_messages)

lemma run_job: "keeps (run_from s0) (dispatch_job dp j fence now)"
  unfolding dispatch_job_def dispatch_notification_def dispatch_command_reply_def dispatch_challenge_reply_def
    enqueue_authority_def poll_authority_def Let_def
  by (cases "ob_kind j"; simp only: job_kind.case; intro run_parts run_messages run_reply)

lemma run_handler: "keeps (run_from s0) (dispatch_handler dp j fence now e)"
  unfolding dispatch_handler_def by (cases e; simp only: hub_exn.case; intro run_parts)

lemma run_worker: "keeps (run_from s0) (run_once dp worker now)"
  unfolding run_once_def by (intro run_parts run_job run_handler)

lemma run_provider: "keeps (run_from s0) (provider_step dp xe p xc o' c a j fence now)"
  unfolding provider_step_def execute_query_def reconcile_query_def finish_provider_write_def Let_def
  by (cases "io_operation_id o'"; simp only: issue_action.case; intro run_parts)

lemma run_provider_handler: "keeps (run_from s0) (provider_handler dp o' j fence e)"
  unfolding provider_handler_def Let_def by (cases e; simp only: hub_exn.case; intro run_parts)

lemma run_execution: "keeps (run_from s0) (execute_authorized_action dp xe loads p xc now)"
  unfolding execute_authorized_action_def check_execution_def Let_def
  by (intro run_parts run_provider run_provider_handler)

lemma steps_run:
  "run_once dp worker now w = (r, w') \<Longrightarrow> \<exists>ops. hw_store w' = hub_run ops (hw_store w)"
  "execute_authorized_action dp xe loads p xc now w = (q, w') \<Longrightarrow> \<exists>ops. hw_store w' = hub_run ops (hw_store w)"
proof -
  have start: "run_from (hw_store w) w" by (auto simp: run_from_def intro: exI [of _ "[]"])
  show "run_once dp worker now w = (r, w') \<Longrightarrow> \<exists>ops. hw_store w' = hub_run ops (hw_store w)"
    using run_worker [of "hw_store w" dp worker now] start by (cases r) (fastforce simp: valid_def run_from_def)+
  show "execute_authorized_action dp xe loads p xc now w = (q, w') \<Longrightarrow> \<exists>ops. hw_store w' = hub_run ops (hw_store w)"
    using run_execution [of "hw_store w" dp xe loads p xc now] start by (cases q) (fastforce simp: valid_def run_from_def)+
qed

section \<open>One message per job\<close>

text \<open>The worker, the execution and every operation of the hub, in any order.\<close>

inductive hub_serves :: "hub_world \<Rightarrow> bool" where
  start: "hub_serves \<lparr>hw_store = empty_hub, hw_calls = []\<rparr>"
| store: "hub_serves w \<Longrightarrow> hub_serves (w\<lparr>hw_store := hub_perform op (hw_store w)\<rparr>)"
| work: "hub_serves w \<Longrightarrow> run_once dp worker now w = (r, w') \<Longrightarrow> hub_serves w'"
| execute: "hub_serves w \<Longrightarrow> execute_authorized_action dp xe loads p xc now w = (r, w') \<Longrightarrow> hub_serves w'"

definition messages :: "port_call list \<Rightarrow> (job_kind \<times> string) list" where
  "messages cs = List.map_filter call_key cs"

lemma messages_append [simp]: "messages (cs @ ds) = messages cs @ messages ds"
  by (simp add: messages_def map_filter_def)

lemma messages_Cons: "messages (c # cs) = (case call_key c of None \<Rightarrow> [] | Some k \<Rightarrow> [k]) @ messages cs"
  by (simp add: messages_def map_filter_simps split: option.split)

lemma messages_Nil [simp]: "messages [] = []"
  by (simp add: messages_def map_filter_simps)

text \<open>A job with the key is past the boundary.\<close>

definition key_sent :: "hub_store \<Rightarrow> job_kind \<times> string \<Rightarrow> bool" where
  "key_sent s k = (\<exists>i j. find_row i (hs_jobs s) = Some j \<and> job_key j = Some k \<and> job_sent i s)"

lemma key_sent_later: "progress s s' \<Longrightarrow> key_sent s k \<Longrightarrow> key_sent s' k"
proof -
  assume p: "progress s s'" and "key_sent s k"
  then obtain i j where j: "find_row i (hs_jobs s) = Some j" "job_key j = Some k" "job_sent i s" by (auto simp: key_sent_def)
  from progressE [OF p j(1)] obtain j' where "find_row i (hs_jobs s') = Some j'" "job_key j' = Some k"
    using j(2) by (metis job_ident_eqD(4))
  with job_sent_later [OF p j(3)] show ?thesis by (auto simp: key_sent_def)
qed

definition messages_ok :: "hub_world \<Rightarrow> bool" where
  "messages_ok w = (hub_reachable (hw_store w) \<and> distinct (messages (hw_calls w)) \<and>
     list_all (key_sent (hw_store w)) (messages (hw_calls w)))"

lemma messages_ok_run:
  assumes "messages_ok w" "hw_store w' = hub_run ops (hw_store w)" "messages (hw_calls w') = messages (hw_calls w)"
  shows "messages_ok w'"
proof -
  from assms(1) have "progress (hw_store w) (hw_store w')"
    using run_progress [of "hw_store w" ops] by (simp add: messages_ok_def hub_reachable_ok assms(2))
  with assms show ?thesis
    by (auto simp: messages_ok_def list_all_iff intro: run_reachable key_sent_later)
qed

lemma work_messages:
  assumes "messages_ok w" "run_once dp worker now w = (r, w')"
  shows "messages_ok w'"
proof -
  obtain ops where ops: "hw_store w' = hub_run ops (hw_store w)" using steps_run(1) [OF assms(2)] by blast
  from assms(1) have ok: "hub_ok (hw_store w)" and reach: "hub_reachable (hw_store w')"
    by (simp_all add: messages_ok_def reachable_hub_ok run_reachable ops)
  from run_once_calls [OF ok assms(2)] show ?thesis
  proof cases
    case 1
    then show ?thesis using messages_ok_run [OF assms(1) ops] by simp
  next
    case (2 c j s1)
    show ?thesis
    proof (cases "call_key c")
      case None
      then show ?thesis using messages_ok_run [OF assms(1) ops] 2(1) by (simp add: messages_Cons)
    next
      case (Some k)
      with 2(6) have k: "job_key j = Some k" "job_sent (ob_id j) (hw_store w')" by simp_all
      have "\<not> key_sent s1 k"
      proof
        assume "key_sent s1 k"
        then obtain i j1 where j1: "find_row i (hs_jobs s1) = Some j1" "job_key j1 = Some k" "job_sent i s1"
          by (auto simp: key_sent_def)
        with 2(2,7) k have "i = ob_id j" by (auto simp: in_hand_def intro: jobs_ok_key)
        with j1 2(2,3) show False by (simp add: job_sent_def in_hand_def sent_def)
      qed
      then have new: "k \<notin> set (messages (hw_calls w))"
        using assms(1) key_sent_later [OF 2(4), of k] by (fastforce simp: messages_ok_def list_all_iff)
      have "key_sent (hw_store w') k"
        using progressE [OF 2(5)] 2(2) k unfolding key_sent_def in_hand_def by (metis job_ident_eqD(4))
      moreover have "progress (hw_store w) (hw_store w')" using 2(4,5) by (rule progress_trans)
      ultimately show ?thesis using assms(1) new reach Some 2(1)
        by (auto simp: messages_ok_def list_all_iff messages_Cons intro: key_sent_later)
    qed
  qed
qed

lemma action_call_message: "action_call a c o' = Some call \<Longrightarrow> call_key call = None"
  by (auto simp: action_call_def split: issue_action.splits)

lemma execute_messages:
  assumes "messages_ok w" "execute_authorized_action dp xe loads p xc now w = (r, w')"
  shows "messages_ok w'"
proof -
  obtain ops where ops: "hw_store w' = hub_run ops (hw_store w)" using steps_run(2) [OF assms(2)] by blast
  from assms(1) have "hub_ok (hw_store w)" by (simp add: messages_ok_def reachable_hub_ok)
  from execution_calls [OF this assms(2)] have "messages (hw_calls w') = messages (hw_calls w)"
    by (auto simp: messages_Cons dest: action_call_message)
  with messages_ok_run [OF assms(1) ops] show ?thesis .
qed

lemma serves_messages: "hub_serves w \<Longrightarrow> messages_ok w"
proof (induction rule: hub_serves.induct)
  case start
  show ?case by (simp add: messages_ok_def hub_reachable.start)
next
  case (store w op)
  show ?case by (rule messages_ok_run [OF store.IH, where ops = "[op]"]) simp_all
qed (blast intro: work_messages execute_messages)+

end
