(* ===== verification/Intake.thy ===== *)
theory Intake
  imports Inbox
begin

text \<open>
  The signed WeCom ingress (\<open>integrations/intake.py\<close>): authentication of the raw request, the strict
  envelope, agreement with the canonical message, and the admission of issue commands and private
  link challenges. The protobuf library, \<open>json.loads\<close> and Account Center are parameters.
\<close>

definition hook_error :: "int \<Rightarrow> string \<Rightarrow> string \<Rightarrow> product_exn" where
  "hook_error status c detail = product_error (''EXCHANGE_WECOM_'' @ c) ''WeCom integration request rejected'' detail status"

section \<open>Configured sources\<close>

record wecom_source =
  ws_binding_id :: uuid
  ws_organization_id :: string
  ws_workspace_id :: string
  ws_source_authority :: string
  ws_bot_namespace :: string
  ws_account_id :: string
  ws_group_conversation_id :: string
  ws_hmac_key :: bytes

definition wecom_source_ok :: "wecom_source \<Rightarrow> hub_exn + unit" where
  "wecom_source_ok s =
     (let texts = [(''organization_id'', ws_organization_id s, 200), (''workspace_id'', ws_workspace_id s, 200),
            (''source_authority'', ws_source_authority s, 300), (''bot_namespace'', ws_bot_namespace s, 300),
            (''account_id'', ws_account_id s, 300), (''group_conversation_id'', ws_group_conversation_id s, 292)] in
      case find (\<lambda>(name, value, limit). blank value) texts of
        Some (name, value, limit) \<Rightarrow> Inl (HubValueError (name @ '' must be non-empty text''))
      | None \<Rightarrow>
          rbind (guard (list_all (\<lambda>(name, value, limit). length value \<le> (limit :: nat)) texts)
                   (HubValueError ''configured WeCom source fact exceeds its size limit'')) (\<lambda>_.
          rbind (guard (starts_with ''bot:'' (ws_account_id s)) (HubValueError ''account_id must identify the configured WeCom bot'')) (\<lambda>_.
          guard (length (ws_hmac_key s) \<ge> 32) (HubValueError ''request_hmac_key must contain at least 32 bytes''))))"

type_synonym wecom_sources = "(uuid \<times> wecom_source) list"

definition configured_source :: "wecom_sources \<Rightarrow> string \<Rightarrow> product_exn + wecom_source" where
  "configured_source sources binding_id =
     (let missing = hook_error 404 ''BINDING_NOT_FOUND'' ''WeCom binding not found'' in
      case parse_uuid binding_id of
        None \<Rightarrow> Inl missing
      | Some i \<Rightarrow> (case map_of sources i of None \<Rightarrow> Inl missing | Some s \<Rightarrow> Inr s))"

section \<open>The envelope\<close>

record wecom_envelope =
  wv_binding_id :: string
  wv_organization_id :: string
  wv_workspace_id :: string
  wv_source_authority :: string
  wv_bot_namespace :: string
  wv_account_id :: string
  wv_conversation_id :: string
  wv_conversation_kind :: string
  wv_source_event_id :: string
  wv_sender_id :: string
  wv_from_self :: bool
  wv_transport_request_id :: string
  wv_message_proto_b64 :: string
  wv_raw_body_sha256 :: string

text \<open>A field by its alias, or by its name where the alias is missing; every other key is forbidden.\<close>

definition field_key :: "pydict \<Rightarrow> string \<times> string \<Rightarrow> string" where
  "field_key d f = (if dhas d (fst f) then fst f else snd f)"

definition envelope_fields :: "(string \<times> string) list" where
  "envelope_fields =
     [(''schemaVersion'', ''schema_version''), (''bindingId'', ''binding_id''), (''organizationId'', ''organization_id''),
      (''workspaceId'', ''workspace_id''), (''sourceAuthority'', ''source_authority''), (''botNamespace'', ''bot_namespace''),
      (''accountId'', ''account_id''), (''conversationId'', ''conversation_id''), (''conversationKind'', ''conversation_kind''),
      (''sourceEventId'', ''source_event_id''), (''senderId'', ''sender_id''), (''fromSelf'', ''from_self''),
      (''sourceTransportRequestId'', ''source_transport_request_id''), (''messageProtoB64'', ''message_proto_b64'')]"

definition bounded_text :: "nat \<Rightarrow> pyval \<Rightarrow> unit + string" where
  "bounded_text limit v = rbind (need_str v ()) (\<lambda>s. if s \<noteq> [] \<and> length s \<le> limit then Inr s else Inl ())"

definition parse_envelope :: "pyval \<Rightarrow> unit + wecom_envelope" where
  "parse_envelope v =
     rbind (need_dict v ()) (\<lambda>d.
     let keys = map (field_key d) envelope_fields; field = (\<lambda>n. dget d (keys ! n)) in
     rbind (guard (list_all (\<lambda>(k, x). k \<in> set keys) d \<and> list_all (dhas d) keys \<and> field 0 = PInt 1) ()) (\<lambda>_.
     rbind (bounded_text 128 (field 1)) (\<lambda>binding_id.
     rbind (bounded_text 200 (field 2)) (\<lambda>organization.
     rbind (bounded_text 200 (field 3)) (\<lambda>workspace.
     rbind (bounded_text 300 (field 4)) (\<lambda>authority.
     rbind (bounded_text 300 (field 5)) (\<lambda>namespace.
     rbind (bounded_text 300 (field 6)) (\<lambda>account.
     rbind (bounded_text 292 (field 7)) (\<lambda>conversation.
     rbind (guard (field 8 \<in> {PStr ''private'', PStr ''group''}) ()) (\<lambda>_.
     rbind (need_str (field 8) ()) (\<lambda>kind.
     rbind (bounded_text 300 (field 9)) (\<lambda>source_event.
     rbind (bounded_text 200 (field 10)) (\<lambda>sender.
     rbind (need_bool (field 11) ()) (\<lambda>from_self.
     rbind (bounded_text 300 (field 12)) (\<lambda>transport.
     rbind (bounded_text 1500000 (field 13)) (\<lambda>proto.
     Inr \<lparr>wv_binding_id = binding_id, wv_organization_id = organization, wv_workspace_id = workspace,
          wv_source_authority = authority, wv_bot_namespace = namespace, wv_account_id = account,
          wv_conversation_id = conversation, wv_conversation_kind = kind, wv_source_event_id = source_event,
          wv_sender_id = sender, wv_from_self = from_self, wv_transport_request_id = transport,
          wv_message_proto_b64 = proto, wv_raw_body_sha256 = []\<rparr>))))))))))))))))"

section \<open>The canonical message\<close>

text \<open>What the projection of the protobuf message holds: of a content part, its text if it is one.\<close>

record canonical_message =
  cm_message_id :: string
  cm_sender_id :: string
  cm_vendor :: string
  cm_account_id :: string
  cm_conversation_id :: string
  cm_kind :: int
  cm_extension_vendor :: string
  cm_facts :: "(string \<times> string) list"
  cm_content :: "string option list"

abbreviation MAX_PROTO_BYTES :: nat where
  "MAX_PROTO_BYTES \<equiv> 1024 * 1024"

definition decode_canonical_message :: "(bytes \<Rightarrow> canonical_message option) \<Rightarrow> string \<Rightarrow> product_exn + canonical_message" where
  "decode_canonical_message parse encoded =
     (case b64decode encoded of
        None \<Rightarrow> Inl (hook_error 400 ''PROTO_INVALID'' ''Canonical message encoding is invalid'')
      | Some raw \<Rightarrow>
          if raw = [] \<or> length raw > MAX_PROTO_BYTES
          then Inl (hook_error 413 ''PROTO_TOO_LARGE'' ''Canonical message is outside the size limit'')
          else
            (case parse raw of
               None \<Rightarrow> Inl (hook_error 400 ''PROTO_INVALID'' ''Canonical message is invalid'')
             | Some m \<Rightarrow>
                 if cm_message_id m = [] \<or> cm_sender_id m = [] \<or> cm_vendor m = [] \<or> cm_account_id m = [] \<or> cm_conversation_id m = []
                 then Inl (hook_error 400 ''PROTO_INVALID'' ''Canonical message is incomplete'')
                 else Inr m))"

definition single_text_content :: "canonical_message \<Rightarrow> string" where
  "single_text_content m = (case cm_content m of [Some t] \<Rightarrow> if length t \<le> 4096 then t else [] | _ \<Rightarrow> [])"

definition kind_text :: "int \<Rightarrow> string option" where
  "kind_text n = (if n = 1 then Some ''private'' else if n = 2 then Some ''group'' else None)"

definition message_agrees :: "canonical_message \<Rightarrow> wecom_envelope \<Rightarrow> wecom_source \<Rightarrow> bool" where
  "message_agrees m e s =
     (cm_message_id m = wv_source_event_id e \<and> cm_sender_id m = wv_sender_id e \<and> cm_vendor m = ''wecom.bot'' \<and>
      cm_account_id m = ws_account_id s \<and> cm_conversation_id m = wv_conversation_id e \<and>
      kind_text (cm_kind m) = Some (wv_conversation_kind e) \<and> cm_extension_vendor m = ''wecom.bot'' \<and>
      map snd (filter (\<lambda>(name, value). name = ''transport_request_id'') (cm_facts m)) = [wv_transport_request_id e])"

definition source_facts_match :: "wecom_envelope \<Rightarrow> wecom_source \<Rightarrow> bool" where
  "source_facts_match e s =
     (wv_binding_id e = ws_binding_id s \<and> wv_organization_id e = ws_organization_id s \<and>
      wv_workspace_id e = ws_workspace_id s \<and> wv_source_authority e = ws_source_authority s \<and>
      wv_bot_namespace e = ws_bot_namespace s \<and> wv_account_id e = ws_account_id s)"

section \<open>Authentication\<close>

abbreviation HOOK_PREFIX :: string where
  "HOOK_PREFIX \<equiv> ''/api/v1/integrations/hooks/wecom/''"

abbreviation MAX_RAW_BODY_BYTES :: nat where
  "MAX_RAW_BODY_BYTES \<equiv> 2 * 1024 * 1024"

definition header_text :: "(string \<Rightarrow> string option) \<Rightarrow> string \<Rightarrow> string" where
  "header_text headers name = (case headers name of None \<Rightarrow> [] | Some v \<Rightarrow> strip v)"

definition word_char :: "char list \<Rightarrow> char \<Rightarrow> bool" where
  "word_char extra c = (code c \<in> {48..57} \<or> code c \<in> {65..90} \<or> code c \<in> {97..122} \<or> c \<in> set extra)"

text \<open>The patterns \<open>_TIMESTAMP\<close> and \<open>_REQUEST_ID\<close>.\<close>

definition timestamp_text :: "string \<Rightarrow> bool" where
  "timestamp_text s = (s = ''0'' \<or> (s \<noteq> [] \<and> length s \<le> 13 \<and> list_all dec_digit s \<and> hd s \<noteq> CHR ''0''))"

definition request_id_text :: "string \<Rightarrow> bool" where
  "request_id_text s = (s \<noteq> [] \<and> length s \<le> 200 \<and> list_all (word_char ''_.-'') s)"

definition signing_input :: "string \<Rightarrow> string \<Rightarrow> string \<Rightarrow> string \<Rightarrow> string \<Rightarrow> bytes" where
  "signing_input path timestamp request_id binding_id body_hash =
     utf8 (join [CHR 0x0A] [''v1'', ''POST'', path, timestamp, request_id, binding_id, body_hash])"

definition seconds_of :: "string \<Rightarrow> int" where
  "seconds_of s = foldl (\<lambda>n c. 10 * n + int (code c - 48)) 0 s"

definition unauthentic :: product_exn where
  "unauthentic = hook_error 401 ''SIGNATURE_INVALID'' ''WeCom source authentication failed''"

text \<open>The headers and the signature over the exact body.\<close>

definition authenticate_hook ::
  "wecom_source \<Rightarrow> string \<Rightarrow> (string \<Rightarrow> string option) \<Rightarrow> bytes \<Rightarrow> int \<Rightarrow> product_exn + unit" where
  "authenticate_hook s path headers body now =
     (let timestamp = header_text headers ''x-cyrene-wecom-timestamp''; request_id = header_text headers ''x-cyrene-wecom-request-id'';
          body_hash = header_text headers ''x-cyrene-wecom-body-sha256'';
          signed_binding = header_text headers ''x-cyrene-wecom-source-binding-id'';
          signature = header_text headers ''x-cyrene-wecom-signature''; actual = sha256_hex body in
      rbind (guard (lower (before_char (CHR '';'') (header_text headers ''content-type'')) = ''application/json'')
               (hook_error 415 ''CONTENT_TYPE_INVALID'' ''WeCom event must use application/json'')) (\<lambda>_.
      rbind (guard (timestamp_text timestamp \<and> request_id_text request_id \<and> signed_binding = ws_binding_id s \<and> hex64 body_hash)
               unauthentic) (\<lambda>_.
      rbind (guard (now - 300 \<le> seconds_of timestamp \<and> seconds_of timestamp \<le> now + 30)
               (hook_error 401 ''SIGNATURE_EXPIRED'' ''WeCom source authentication expired'')) (\<lambda>_.
      rbind (guard (actual = body_hash) (hook_error 401 ''BODY_HASH_MISMATCH'' ''WeCom source authentication failed'')) (\<lambda>_.
      rbind (guard (starts_with ''sha256='' signature \<and> hex64 (drop 7 signature)) unauthentic) (\<lambda>_.
      guard (drop 7 signature =
          hmac_sha256_hex (ws_hmac_key s) (signing_input path timestamp request_id (ws_binding_id s) actual)) unauthentic))))))"

text \<open>The authenticated body as an envelope that agrees with the source and the message it carries.\<close>

definition decode_envelope ::
  "(bytes \<Rightarrow> json_outcome) \<Rightarrow> (bytes \<Rightarrow> canonical_message option) \<Rightarrow> wecom_source \<Rightarrow> bytes \<Rightarrow> product_exn + wecom_envelope" where
  "decode_envelope loads parse s body =
     (let malformed = hook_error 400 ''ENVELOPE_INVALID'' ''WeCom event envelope is invalid'' in
      case loads body of
        JsonTooDeep \<Rightarrow> Inl (ProductOther ''RecursionError'' ''maximum recursion depth exceeded'')
      | JsonInvalid m \<Rightarrow> Inl malformed
      | JsonValue v \<Rightarrow>
          rbind (map_sum (\<lambda>_. malformed) id (parse_envelope v)) (\<lambda>e.
          rbind (guard (list_all (\<lambda>c. 32 \<le> code c \<and> code c \<noteq> 127) (wv_transport_request_id e))
                   (hook_error 400 ''ENVELOPE_INVALID'' ''WeCom callback correlation is invalid'')) (\<lambda>_.
          rbind (guard (source_facts_match e s)
                   (hook_error 403 ''SOURCE_SCOPE_MISMATCH'' ''WeCom source scope does not match its configured binding'')) (\<lambda>_.
          rbind (decode_canonical_message parse (wv_message_proto_b64 e)) (\<lambda>m.
          rbind (guard (message_agrees m e s)
                   (hook_error 400 ''CANONICAL_MESSAGE_MISMATCH'' ''Canonical message facts do not match the signed envelope'')) (\<lambda>_.
          Inr (e\<lparr>wv_raw_body_sha256 := sha256_hex body\<rparr>)))))))"

definition verify_and_decode_wecom_request ::
  "(bytes \<Rightarrow> json_outcome) \<Rightarrow> (bytes \<Rightarrow> canonical_message option) \<Rightarrow> wecom_source \<Rightarrow> string \<Rightarrow> string \<Rightarrow>
   (string \<Rightarrow> string option) \<Rightarrow> bytes \<Rightarrow> int \<Rightarrow> product_exn + wecom_envelope" where
  "verify_and_decode_wecom_request loads parse s binding_id path headers body now =
     rbind (guard (binding_id = ws_binding_id s \<and> path = HOOK_PREFIX @ ws_binding_id s)
              (hook_error 404 ''BINDING_NOT_FOUND'' ''WeCom binding not found'')) (\<lambda>_.
     rbind (guard (body \<noteq> [] \<and> length body \<le> MAX_RAW_BODY_BYTES)
              (hook_error 413 ''BODY_TOO_LARGE'' ''WeCom event body is outside the size limit'')) (\<lambda>_.
     rbind (authenticate_hook s path headers body now) (\<lambda>_.
     decode_envelope loads parse s body)))"

text \<open>\<open>_read_bounded_request_body\<close>: the declared length, then the chunks up to the bound.\<close>

fun read_bounded :: "bytes list \<Rightarrow> bytes \<Rightarrow> product_exn + bytes" where
  "read_bounded [] content = Inr content"
| "read_bounded (chunk # chunks) content =
     (if length content + length chunk > MAX_RAW_BODY_BYTES
      then Inl (hook_error 413 ''BODY_TOO_LARGE'' ''WeCom event body is outside the size limit'')
      else read_bounded chunks (content @ chunk))"

definition read_bounded_request_body :: "string option \<Rightarrow> bytes list \<Rightarrow> product_exn + bytes" where
  "read_bounded_request_body content_length chunks =
     (case content_length of
        None \<Rightarrow> read_bounded chunks []
      | Some raw \<Rightarrow>
          rbind (guard (raw \<noteq> [] \<and> list_all dec_digit raw)
                   (hook_error 400 ''CONTENT_LENGTH_INVALID'' ''WeCom event size is invalid'')) (\<lambda>_.
          rbind (map_sum (\<lambda>e. ProductValueError (exc_message e)) id (py_int raw)) (\<lambda>n.
          rbind (guard (n \<le> int MAX_RAW_BODY_BYTES)
                   (hook_error 413 ''BODY_TOO_LARGE'' ''WeCom event body is outside the size limit'')) (\<lambda>_.
          read_bounded chunks []))))"

section \<open>Admission\<close>

text \<open>
  Account Center: who a sender is linked to, and the observation of a challenge. A call may return or
  raise differently each time; the world is the store and the calls made so far. The environment
  carries the principal of a source (\<open>services.wecom_source_principal\<close>, a lookup of the host that
  may raise), the UUIDs and the times of one admission.
\<close>

record linked_sender =
  ls_issuer :: string
  ls_subject :: string
  ls_organization_id :: string
  ls_workspace_id :: "string option"

datatype intake_call =
    ResolveSender "hub_principal option" string string string
  | ObserveChallenge "hub_principal option" string string string string string int

record intake_world =
  nw_store :: hub_store
  nw_calls :: "intake_call list"

type_synonym 'a intake_step = "(intake_world, hub_exn, 'a) act"

record intake_env =
  ne_principal :: "uuid \<Rightarrow> hub_exn + hub_principal option"
  ne_resolve :: "nat \<Rightarrow> intake_call \<Rightarrow> hub_exn + linked_sender option"
  ne_observe :: "nat \<Rightarrow> intake_call \<Rightarrow> hub_exn + pyval"
  ne_event_id :: uuid
  ne_operation_id :: uuid
  ne_job_id :: uuid
  ne_now :: int

definition inbox :: "'a hub_act \<Rightarrow> 'a intake_step" where
  "inbox m = (\<lambda>w. case m (nw_store w) of (r, s) \<Rightarrow> (r, w\<lparr>nw_store := s\<rparr>))"

definition account_call :: "intake_call \<Rightarrow> (nat \<Rightarrow> intake_call \<Rightarrow> hub_exn + 'a) \<Rightarrow> 'a intake_step" where
  "account_call call f = (\<lambda>w. (f (length (nw_calls w)) call, w\<lparr>nw_calls := nw_calls w @ [call]\<rparr>))"

text \<open>\<open>try ... except Exception\<close> around one step.\<close>

definition attempted :: "'a intake_step \<Rightarrow> (hub_exn + 'a) intake_step" where
  "attempted m = (\<lambda>w. case m w of (r, w') \<Rightarrow> (Inr r, w'))"

definition mark_inbound :: "uuid \<Rightarrow> uuid \<Rightarrow> wecom_state \<Rightarrow> uuid option \<Rightarrow> unit intake_step" where
  "mark_inbound event_id binding_id st operation_id =
     bind (inbox (mark_wecom_inbound_processed event_id binding_id st operation_id)) (\<lambda>_. ret ())"

definition admit_issue_command ::
  "intake_env \<Rightarrow> wecom_source \<Rightarrow> wecom_envelope \<Rightarrow> uuid \<Rightarrow> string \<Rightarrow> unit intake_step" where
  "admit_issue_command env s e event_id command =
     (let mark = (\<lambda>st i. mark_inbound event_id (ws_binding_id s) st i) in
      bind (result (ne_principal env (ws_binding_id s))) (\<lambda>actor.
      bind (account_call (ResolveSender actor (ws_source_authority s) (ws_bot_namespace s) (wv_sender_id e))
              (ne_resolve env)) (\<lambda>linked.
      case linked of
        None \<Rightarrow> mark IgnoredUnlinked None
      | Some l \<Rightarrow>
          if ls_organization_id l \<noteq> ws_organization_id s \<or> ls_workspace_id l \<notin> {None, Some (ws_workspace_id s)}
          then mark IgnoredScope None
          else
            bind (attempted (inbox (enqueue_issue_command_for_actor (ws_binding_id s)
                    \<lparr>as_issuer = ls_issuer l, as_subject = ls_subject l, as_organization_id = ws_organization_id s,
                     as_workspace_id = ws_workspace_id s\<rparr>
                    event_id (wv_sender_id e) (''wecom:'' @ ws_binding_id s @ '':'' @ event_id) command
                    (ne_operation_id env) (ne_job_id env) (ne_now env)))) (\<lambda>queued.
            case queued of
              Inr o' \<Rightarrow> mark CommandQueued (Some (io_id o'))
            | Inl (IntegrationAuthorizationError m) \<Rightarrow> mark IgnoredUnbound None
            | Inl (IntegrationNotFound m) \<Rightarrow> mark IgnoredUnbound None
            | Inl x \<Rightarrow> raise x))))"

definition challenge_accepted :: "pyval \<Rightarrow> string \<Rightarrow> bool" where
  "challenge_accepted v challenge_id =
     (case v of PDict d \<Rightarrow> dget d ''accepted'' = PBool True \<and> dget d ''challenge_id'' = PStr challenge_id | _ \<Rightarrow> False)"

definition observe_private_link_challenge ::
  "intake_env \<Rightarrow> wecom_source \<Rightarrow> wecom_envelope \<Rightarrow> uuid \<Rightarrow> string \<Rightarrow> unit intake_step" where
  "observe_private_link_challenge env s e event_id challenge =
     (let binding = ws_binding_id s;
          unknown = bind (inbox (mark_wecom_challenge_unknown binding event_id)) (\<lambda>_. ret ()) in
      bind (inbox (begin_wecom_challenge_observation binding event_id)) (\<lambda>(observing, first).
      if \<not> first then ret ()
      else
        bind (result (ne_principal env binding)) (\<lambda>actor.
        bind (attempted (account_call (ObserveChallenge actor (ws_bot_namespace s) (ws_source_authority s) (wv_sender_id e)
                event_id challenge (ne_now env div 1000000 + 300)) (ne_observe env))) (\<lambda>observed.
        case observed of
          Inl x \<Rightarrow> unknown
        | Inr v \<Rightarrow>
            if \<not> challenge_accepted v event_id then unknown
            else
              bind (attempted (inbox (enqueue_wecom_challenge_reply binding event_id event_id (ne_job_id env) (ne_now env)))) (\<lambda>queued.
              case queued of Inl x \<Rightarrow> unknown | Inr y \<Rightarrow> ret ())))))"

text \<open>\<open>_LINK_COMMAND\<close>: the challenge of a private link command.\<close>

definition link_command :: "string \<Rightarrow> string option" where
  "link_command s =
     (let rest = drop 5 s; blanks = takeWhile (\<lambda>c. c = CHR '' '' \<or> code c = 9) rest; v = drop (length blanks) rest in
      if starts_with ''/link'' s \<and> blanks \<noteq> [] \<and> 16 \<le> length v \<and> length v \<le> 128 \<and> list_all (word_char ''._~-'') v
      then Some v else None)"

definition payload_fingerprint :: "wecom_envelope \<Rightarrow> string" where
  "payload_fingerprint e =
     (if wv_raw_body_sha256 e \<noteq> [] then wv_raw_body_sha256 e
      else digest_of [(''schemaVersion'', PInt 1), (''bindingId'', PStr (wv_binding_id e)),
        (''organizationId'', PStr (wv_organization_id e)), (''workspaceId'', PStr (wv_workspace_id e)),
        (''sourceAuthority'', PStr (wv_source_authority e)), (''botNamespace'', PStr (wv_bot_namespace e)),
        (''accountId'', PStr (wv_account_id e)), (''conversationId'', PStr (wv_conversation_id e)),
        (''conversationKind'', PStr (wv_conversation_kind e)), (''sourceEventId'', PStr (wv_source_event_id e)),
        (''senderId'', PStr (wv_sender_id e)), (''fromSelf'', PBool (wv_from_self e)),
        (''sourceTransportRequestId'', PStr (wv_transport_request_id e)), (''messageProtoB64'', PStr (wv_message_proto_b64 e))])"

definition self_authored :: "wecom_source \<Rightarrow> wecom_envelope \<Rightarrow> bool" where
  "self_authored s e =
     (wv_from_self e \<or> wv_sender_id e = (if starts_with ''bot:'' (ws_account_id s) then drop 4 (ws_account_id s) else ws_account_id s))"

definition inbound_of :: "wecom_source \<Rightarrow> wecom_envelope \<Rightarrow> canonical_message \<Rightarrow> wecom_message" where
  "inbound_of s e m =
     \<lparr>wm_sender_id = wv_sender_id e, wm_conversation_ref = wv_conversation_kind e @ '':'' @ wv_conversation_id e,
      wm_reply_message_id = Some (cm_message_id m), wm_reply_context_ref = Some (wv_transport_request_id e),
      wm_message_text = single_text_content m, wm_fingerprint = Some (payload_fingerprint e), wm_self_authored = self_authored s e\<rparr>"

text \<open>What a stored event leads to; everything else is acknowledged as it is.\<close>

definition admit_group :: "intake_env \<Rightarrow> wecom_source \<Rightarrow> wecom_envelope \<Rightarrow> uuid \<Rightarrow> string \<Rightarrow> unit intake_step" where
  "admit_group env s e event_id message =
     (let mark = (\<lambda>st. mark_inbound event_id (ws_binding_id s) st None) in
      if wv_conversation_id e \<noteq> ws_group_conversation_id s then mark IgnoredScope
      else if \<not> starts_with ''/issue'' message then mark IgnoredNonCommand
      else
        (case parse_issue_command message of
           Inl (IntegrationValidationError m) \<Rightarrow> mark IgnoredInvalidCommand
         | Inl x \<Rightarrow> raise x
         | Inr c \<Rightarrow> admit_issue_command env s e event_id message))"

definition admit_private :: "intake_env \<Rightarrow> wecom_source \<Rightarrow> wecom_envelope \<Rightarrow> uuid \<Rightarrow> string \<Rightarrow> unit intake_step" where
  "admit_private env s e event_id message =
     (case link_command message of
        Some challenge \<Rightarrow> observe_private_link_challenge env s e event_id challenge
      | None \<Rightarrow>
          mark_inbound event_id (ws_binding_id s) (if starts_with ''/issue'' message then IgnoredScope else IgnoredNonCommand) None)"

definition route_event :: "intake_env \<Rightarrow> wecom_source \<Rightarrow> wecom_envelope \<Rightarrow> string \<Rightarrow> wecom_event \<Rightarrow> unit intake_step" where
  "route_event env s e message event =
     (if self_authored s e \<or> we_state event = IgnoredSelf then ret ()
      else if we_state event = ChallengeObserving \<and> wv_conversation_kind e = ''private''
      then (case link_command message of
              Some challenge \<Rightarrow> observe_private_link_challenge env s e (we_id event) challenge
            | None \<Rightarrow> ret ())
      else if we_state event \<noteq> Received then ret ()
      else if wv_conversation_kind e = ''group'' then admit_group env s e (we_id event) message
      else admit_private env s e (we_id event) message)"

definition admit_wecom_event ::
  "(bytes \<Rightarrow> canonical_message option) \<Rightarrow> intake_env \<Rightarrow> wecom_source \<Rightarrow> wecom_envelope \<Rightarrow>
   (intake_world, product_exn, uuid) act" where
  "admit_wecom_event parse env s e =
     bind (result (decode_canonical_message parse (wv_message_proto_b64 e))) (\<lambda>m.
     (\<lambda>w. case (bind (inbox (persist_wecom_inbound (ws_binding_id s) (wv_source_event_id e) (ws_organization_id s)
                  (ws_workspace_id s) (inbound_of s e m) True (ne_event_id env) (ne_now env))) (\<lambda>(event, created).
             andthen (route_event env s e (single_text_content m) event) (ret (we_id event)))) w of
        (r, w') \<Rightarrow> (map_sum product_exn_of id r, w')))"

text \<open>The route: the source, the body, its authentication, its admission.\<close>

record hook_request =
  hr_binding_id :: string
  hr_path :: string
  hr_headers :: "string \<Rightarrow> string option"
  hr_chunks :: "bytes list"

definition admit_wecom_inbound ::
  "(bytes \<Rightarrow> json_outcome) \<Rightarrow> (bytes \<Rightarrow> canonical_message option) \<Rightarrow> wecom_sources \<Rightarrow> intake_env \<Rightarrow> hook_request \<Rightarrow>
   (intake_world, product_exn, uuid) act" where
  "admit_wecom_inbound loads parse sources env q =
     bind (result (configured_source sources (hr_binding_id q))) (\<lambda>s.
     bind (result (read_bounded_request_body (hr_headers q ''content-length'') (hr_chunks q))) (\<lambda>body.
     bind (result (verify_and_decode_wecom_request loads parse s (hr_binding_id q) (hr_path q) (hr_headers q) body
             (ne_now env div 1000000))) (\<lambda>e.
     admit_wecom_event parse env s e)))"

end
