(* ===== verification/Intake_Facts.thy ===== *)
theory Intake_Facts
  imports Intake Outbox_Facts
begin

text \<open>
  What the WeCom ingress guarantees: nothing is stored without the signature of the configured
  source, a delivery that was dealt with changes nothing when it comes again, and a link challenge
  is observed at most once.
\<close>

section \<open>The life of an event\<close>

text \<open>Received, then a challenge under observation, then anything else; an event never goes back.\<close>

fun event_rank :: "wecom_state \<Rightarrow> nat" where
  "event_rank Received = 0"
| "event_rank ChallengeObserving = 1"
| "event_rank _ = 2"

definition reached :: "nat \<Rightarrow> uuid \<Rightarrow> hub_store \<Rightarrow> bool" where
  "reached n i s = (rows_ok (\<lambda>k e. we_id e = k) (hs_wecom s) \<and>
     (n = 0 \<or> (\<exists>e. find_row i (hs_wecom s) = Some e \<and> n \<le> event_rank (we_state e))))"

lemma reached_left: "leaves hs_wecom m \<Longrightarrow> stays (reached n i) m"
  by (simp add: leaves_def stays_def reached_def)

lemma reached_update:
  assumes "reached n i s" "\<And>e. find_row k (hs_wecom s) = Some e \<Longrightarrow> we_id (f e) = we_id e \<and> event_rank (we_state e) \<le> event_rank (we_state (f e))"
  shows "reached n i (s\<lparr>hs_wecom := update_row k f (hs_wecom s)\<rparr>)"
proof -
  have "rows_ok (\<lambda>k e. we_id e = k) (update_row k f (hs_wecom s))"
    by (rule rows_ok_update) (use assms in \<open>auto simp: reached_def\<close>)
  with assms show ?thesis by (cases "i = k") (auto simp: reached_def find_update intro: order.trans)
qed

lemma rank_le: "event_rank st \<le> 2"
  by (cases st) simp_all

lemma reached_settled: "event_rank st = 2 \<Longrightarrow> stays (reached n i) (set_event_state ref b st)"
  unfolding set_event_state_def by (intro stays_intros reached_update) (simp_all add: rank_le)

lemma reached_settle: "event_rank st = 2 \<Longrightarrow> stays (reached n i) (settle_event j b st)"
  by (auto simp: settle_event_def split: pyval.split intro!: stays_intros reached_settled)

text \<open>An action that starts from an event it has read.\<close>

definition settles :: "nat \<Rightarrow> uuid \<Rightarrow> wecom_event \<Rightarrow> 'a hub_act \<Rightarrow> bool" where
  "settles n i e m = (\<forall>s. reached n i s \<longrightarrow> find_row (we_id e) (hs_wecom s) = Some e \<longrightarrow> reached n i (snd (m s)))"

lemma settles_looked: "(\<And>e. settles n i e (f e)) \<Longrightarrow> stays (reached n i) (bind (look (wecom_event_at b ref m)) f)"
  by (auto simp: stays_def act_simps wecom_event_at_def settles_def reached_def dest: rows_okD split: sum.splits option.splits if_splits)

lemma settles_rules:
  "settles n i e (ret x)" "settles n i e (raise ex)"
  "(c \<Longrightarrow> settles n i e m) \<Longrightarrow> (\<not> c \<Longrightarrow> settles n i e m') \<Longrightarrow> settles n i e (if c then m else m')"
  by (simp_all add: settles_def act_simps)

lemma settles_bind:
  assumes "leaves hs_wecom m" "\<And>x. settles n i e (f x)"
  shows "settles n i e (bind m f)"
  unfolding settles_def
proof (intro allI impI)
  fix s assume s: "reached n i s" "find_row (we_id e) (hs_wecom s) = Some e"
  obtain r s1 where m: "m s = (r, s1)" by fastforce
  from leavesD [OF assms(1), of s] m have 1: "hs_wecom s1 = hs_wecom s" by simp
  then have 2: "reached n i s1" "find_row (we_id e) (hs_wecom s1) = Some e" using s by (simp_all add: reached_def)
  show "reached n i (snd (bind m f s))"
  proof (cases r)
    case (Inr x)
    with assms(2) [of x] 2 m show ?thesis by (simp add: act_simps settles_def)
  qed (simp add: act_simps m 2)
qed

lemma settles_put:
  assumes "we_id e' = we_id e" "event_rank (we_state e) \<le> event_rank (we_state e')"
  shows "settles n i e (andthen (put_event e') (ret x))"
  using assms by (auto simp: settles_def put_event_def act_simps intro!: reached_update)

lemma disposition_rank: "disposition st \<Longrightarrow> event_rank st = 2"
  by (cases st) (simp_all add: disposition_def)

lemma reached_processed: "stays (reached n i) (mark_wecom_inbound_processed ev b st oi)"
proof (cases "disposition st")
  case True
  then show ?thesis unfolding mark_wecom_inbound_processed_def Let_def
    by (simp only: not_True_eq_False if_False simp_thms)
      (intro stays_intros settles_looked settles_rules settles_bind settles_put leaves_intros; simp add: disposition_rank rank_le)
qed (simp add: mark_wecom_inbound_processed_def stays_intros)

lemma reached_begin: "stays (reached n i) (begin_wecom_challenge_observation b ref)"
  unfolding begin_wecom_challenge_observation_def Let_def
  by (intro stays_intros settles_looked settles_rules settles_put) simp_all

lemma reached_unknown: "stays (reached n i) (mark_wecom_challenge_unknown b ref)"
  unfolding mark_wecom_challenge_unknown_def Let_def
  by (intro stays_intros settles_looked settles_rules settles_put) (simp_all add: rank_le)

lemma reached_reply: "stays (reached n i) (enqueue_wecom_challenge_reply b ref ch k now)"
proof -
  have queue: "settles n i e (andthen (insert_job j) (andthen (put_event (e\<lparr>we_state := ChallengeReplyPending, we_challenge_id := c\<rparr>)) (ret x)))"
    for e j c and x :: wecom_event
    by (intro settles_bind settles_put leaves_intros) (simp_all add: rank_le)
  show ?thesis unfolding enqueue_wecom_challenge_reply_def Let_def
    by (intro stays_intros settles_looked queue settles_rules settles_bind leaves_intros)
qed

lemma reached_persist: "stays (reached n i) (persist_wecom_inbound b ref org ws m x k now)"
proof -
  have "reached n i s'" if "reached n i s" "map_option (\<lambda>t. s\<lparr>hs_wecom := t\<rparr>) (insert_row (we_id e) e (hs_wecom s)) = Some s'" for s s' e
  proof -
    from that(2) obtain t where t: "insert_row (we_id e) e (hs_wecom s) = Some t" "s' = s\<lparr>hs_wecom := t\<rparr>" by auto
    have "find_row (we_id e) (hs_wecom s) = None" using t(1) insert_row_None by (metis option.distinct(1))
    with that(1) t(2) rows_ok_insert [of "\<lambda>k e. we_id e = k", OF _ t(1)] show ?thesis
      by (auto simp: reached_def find_insert [OF t(1)])
  qed
  from this [of _ "wecom_event_of m _ _ _ k now"] show ?thesis unfolding persist_wecom_inbound_def Let_def
    by (intro stays_intros) (auto simp: wecom_event_of_def)
qed

text \<open>Every operation of the hub.\<close>

lemma stays_left_bind: "leaves hs_wecom m \<Longrightarrow> (\<And>x. stays (reached n i) (f x)) \<Longrightarrow> stays (reached n i) (bind m f)"
  by (rule stays_rules(5) [OF reached_left])

lemma reached_fail: "stays (reached n i) (fail_claimed_job env j fence why now)"
  unfolding fail_claimed_job_def fail_operation_def Let_def
  by (intro stays_rules(6) stays_left_bind leaves_intros stays_rules(5) reached_settle stays_rules(1)) simp_all

lemma reached_finish: "stays (reached n i) (finish_job env j fence st evidence receipt clock)"
proof -
  have "event_rank (event_state_of js) = 2" for js by (simp add: event_state_of_def)
  then show ?thesis unfolding finish_job_def Let_def
    by (intro stays_rules(2,6,8) stays_left_bind leaves_intros stays_rules(5) reached_settle stays_rules(1)) simp_all
qed

lemma leaves_wecom:
  "leaves hs_wecom (mark_sending j fence now)" "leaves hs_wecom (prepare_authority_enqueue j fence candidate now)"
  "leaves hs_wecom (mark_awaiting_authority j fence ivk st now)" "leaves hs_wecom (update_authority_evidence j fence ivk st now)"
  "leaves hs_wecom (mark_authority_result_unknown env j fence ivk now)"
  "leaves hs_wecom (begin_authorized_execution p oi b ex digest ivk lease now)" "leaves hs_wecom (retry_readonly_job env j fence now wait)"
  "leaves hs_wecom (save_snapshot sn)" "leaves hs_wecom (create_connection p q body key mode k now)"
  "leaves hs_wecom (create_binding p bq body key k now)" "leaves hs_wecom (create_actor_binding p aq body key k now)"
  "leaves hs_wecom (persist_issue_action request bd a c sc src oi j now)"
  unfolding mark_sending_def prepare_authority_enqueue_def mark_awaiting_authority_def update_authority_evidence_def
    mark_authority_result_unknown_def begin_authorized_execution_def retry_readonly_job_def save_snapshot_def create_connection_def
    create_binding_def create_actor_binding_def attach_actor_def persist_issue_action_def add_operation_def Let_def
  by (intro leaves_intros; auto)+

lemma leaves_wecom_issue:
  "leaves hs_wecom (enqueue_issue_action p request authorization oi j now)"
  "leaves hs_wecom (enqueue_reconciliation_query p oi key k j now)"
  "leaves hs_wecom (enqueue_issue_command_for_actor b actor ref sender key command oi j now)"
  unfolding enqueue_reconciliation_query_def enqueue_issue_command_for_actor_def enqueue_issue_action_def Let_def
  by (intro leaves_intros leaves_wecom)+

lemma leaves_wecom_loops:
  "leaves hs_wecom (claim_job env worker now lease)" "leaves hs_wecom (resolve_unknown_operation p oi ok outcome authorization k now)"
  "leaves hs_wecom (ingest_github_event c d e x k f now)"
proof -
  have settle: "leaves hs_wecom (settle_expired env now oi st why)" for oi st why
    unfolding settle_expired_def by (intro leaves_intros) simp_all
  have "leaves hs_wecom (recover_job env now j)" for j
    unfolding recover_job_def by (intro leaves_intros settle) simp_all
  then show "leaves hs_wecom (claim_job env worker now lease)"
    unfolding claim_job_def claim_next_def recover_expired_claims_def recover_jobs_each Let_def
    by (intro leaves_intros leaves_each_job) simp_all
  show "leaves hs_wecom (resolve_unknown_operation p oi ok outcome authorization k now)"
    unfolding resolve_unknown_operation_def settle_unknown_each Let_def by (intro leaves_intros leaves_each_job) simp_all
  have notify: "leaves hs_wecom (notify_all c' e' f now bs)" for c' e' bs
    by (induction bs) (auto intro!: leaves_intros)
  show "leaves hs_wecom (ingest_github_event c d e x k f now)"
    unfolding ingest_github_event_def Let_def by (intro leaves_intros notify; auto)
qed

lemmas all_reached =
  reached_processed reached_begin reached_unknown reached_reply reached_persist reached_fail reached_finish
  leaves_wecom [THEN reached_left] leaves_wecom_issue [THEN reached_left] leaves_wecom_loops [THEN reached_left]

lemma perform_reached:
  assumes "reached n i s"
  shows "reached n i (hub_perform op s)"
  by (cases op; simp only: hub_perform.simps; rule staysD [where I = "reached n i", OF _ assms]; rule all_reached)

section \<open>One observation per event\<close>

text \<open>The events a list of calls observed a challenge for.\<close>

fun observed_event :: "intake_call \<Rightarrow> uuid option" where
  "observed_event (ResolveSender b authority namespace sender) = None"
| "observed_event (ObserveChallenge b namespace authority sender event challenge expires) = Some event"

definition observed :: "intake_call list \<Rightarrow> uuid list" where
  "observed cs = List.map_filter observed_event cs"

lemma observed_append: "observed (cs @ [c]) = observed cs @ (case observed_event c of None \<Rightarrow> [] | Some e \<Rightarrow> [e])"
  by (auto simp: observed_def List.map_filter_def split: option.splits)

text \<open>Each event at most once, and only when its observation has begun.\<close>

definition observes_once :: "intake_world \<Rightarrow> bool" where
  "observes_once w = (rows_ok (\<lambda>k e. we_id e = k) (hs_wecom (nw_store w)) \<and> distinct (observed (nw_calls w)) \<and>
     (\<forall>i \<in> set (observed (nw_calls w)). reached 1 i (nw_store w)))"

lemma observes_store: "(\<And>n i. stays (reached n i) m) \<Longrightarrow> keeps observes_once (inbox m)"
  unfolding valid_def
proof (intro allI impI)
  fix w assume st: "\<And>n i. stays (reached n i) m" and w: "observes_once w"
  obtain r s where m: "m (nw_store w) = (r, s)" by fastforce
  from staysD [OF st [of 0 "[]"], of "nw_store w"] w m have "rows_ok (\<lambda>k e. we_id e = k) (hs_wecom s)"
    by (simp add: observes_once_def reached_def)
  moreover have "reached 1 i s" if "i \<in> set (observed (nw_calls w))" for i
    using staysD [OF st [of 1 i], of "nw_store w"] w m that by (simp add: observes_once_def)
  ultimately have "observes_once (w\<lparr>nw_store := s\<rparr>)" using w by (simp add: observes_once_def)
  then show "case inbox m w of (Inl e, w') \<Rightarrow> observes_once w' | (Inr x, w') \<Rightarrow> observes_once w'"
    by (cases r) (simp_all add: inbox_def m)
qed

lemma observes_parts:
  "keeps observes_once m \<Longrightarrow> keeps observes_once (attempted m)"
  "observed_event c = None \<Longrightarrow> keeps observes_once (account_call c f)"
  by (auto simp: valid_def attempted_def account_call_def observes_once_def observed_append split: sum.splits prod.splits)

lemma keeps_actions:
  "keeps I (ret x)" "keeps I (raise e)" "keeps I (result r)"
  "keeps I m \<Longrightarrow> (\<And>x. keeps I (f x)) \<Longrightarrow> keeps I (bind m f)"
  "keeps I m \<Longrightarrow> keeps I n \<Longrightarrow> keeps I (if b then m else n)"
  "keeps I m \<Longrightarrow> (\<And>x. keeps I (k x)) \<Longrightarrow> keeps I (case v of None \<Rightarrow> m | Some x \<Rightarrow> k x)"
  "(\<And>x. keeps I (g x)) \<Longrightarrow> (\<And>y. keeps I (h y)) \<Longrightarrow> keeps I (case z of Inl x \<Rightarrow> g x | Inr y \<Rightarrow> h y)"
  by (auto intro: valid_bind valid_intros split: option.split sum.split)

lemma mark_observes: "keeps observes_once (mark_inbound i b st oi)"
  unfolding mark_inbound_def by (intro keeps_actions observes_store all_reached)

lemma command_observes: "keeps observes_once (admit_issue_command env s e i message)"
proof -
  have queued: "keeps observes_once (case q of
        Inr o' \<Rightarrow> mark_inbound i b CommandQueued (Some (io_id o'))
      | Inl (IntegrationAuthorizationError m) \<Rightarrow> mark_inbound i b IgnoredUnbound None
      | Inl (IntegrationNotFound m) \<Rightarrow> mark_inbound i b IgnoredUnbound None
      | Inl x \<Rightarrow> raise x)" for q b
    by (auto intro: mark_observes keeps_actions split: sum.split hub_exn.split)
  show ?thesis unfolding admit_issue_command_def Let_def
    by (intro keeps_actions observes_parts observes_store mark_observes queued all_reached) simp
qed

lemma begin_claims:
  assumes "begin_wecom_challenge_observation b ref s = (Inr (e, True), s')" "reached 0 ref s"
  shows "\<not> reached 1 ref s \<and> reached 1 ref s'"
proof -
  from assms obtain e0 where e0: "find_row ref (hs_wecom s) = Some e0" "we_state e0 = Received" "we_id e0 = ref"
    and s': "s' = s\<lparr>hs_wecom := update_row ref (\<lambda>_. e0\<lparr>we_state := ChallengeObserving\<rparr>) (hs_wecom s)\<rparr>"
    by (auto simp: begin_wecom_challenge_observation_def mutation_Inr outcome_simps Let_def wecom_event_at_def put_event_def reached_def
        dest: rows_okD split: option.splits if_splits)
  have "reached 0 ref s'" using staysD [OF reached_begin assms(2), of b ref] assms(1) by simp
  with e0 show ?thesis by (auto simp: reached_def s' find_update)
qed

lemma challenge_observes: "keeps observes_once (observe_private_link_challenge env s e i challenge)"
proof -
  let ?b = "ws_binding_id s"
  let ?Q = "\<lambda>first w. observes_once w \<and> (first \<longrightarrow> i \<notin> set (observed (nw_calls w)) \<and> reached 1 i (nw_store w))"
  have unknown: "keeps observes_once (bind (inbox (mark_wecom_challenge_unknown ?b i)) (\<lambda>_. ret ()))"
    by (intro keeps_actions observes_store all_reached)
  have start: "valid observes_once (inbox (begin_wecom_challenge_observation ?b i)) (\<lambda>(x, first). ?Q first) (\<lambda>_. observes_once)"
    unfolding valid_def
  proof (intro allI impI)
    fix w assume w: "observes_once w"
    obtain r s1 where m: "begin_wecom_challenge_observation ?b i (nw_store w) = (r, s1)" by fastforce
    have "keeps observes_once (inbox (begin_wecom_challenge_observation ?b i))" by (intro observes_store reached_begin)
    with w have keep: "observes_once (w\<lparr>nw_store := s1\<rparr>)" by (cases r) (auto simp: valid_def inbox_def m split: sum.splits)
    have "?Q True (w\<lparr>nw_store := s1\<rparr>)" if "r = Inr (x, True)" for x
      using begin_claims [OF m [unfolded that]] w keep by (auto simp: observes_once_def reached_def)
    with keep show "case inbox (begin_wecom_challenge_observation ?b i) w of
        (Inl e, w') \<Rightarrow> observes_once w' | (Inr x, w') \<Rightarrow> (case x of (x, first) \<Rightarrow> ?Q first) w'"
      by (auto simp: inbox_def m split: sum.split prod.split)
  qed
  have call: "valid (?Q True) (attempted (account_call (ObserveChallenge actor namespace authority sender i challenge expires) f))
      (\<lambda>_. observes_once) (\<lambda>_. observes_once)" for actor namespace authority sender expires f
    by (auto simp: valid_def attempted_def account_call_def observes_once_def observed_append split: sum.splits prod.splits)
  have rest: "keeps observes_once (case z of Inl x \<Rightarrow> bind (inbox (mark_wecom_challenge_unknown ?b i)) (\<lambda>_. ret ())
      | Inr v \<Rightarrow> if \<not> challenge_accepted v i then bind (inbox (mark_wecom_challenge_unknown ?b i)) (\<lambda>_. ret ())
          else bind (attempted (inbox (enqueue_wecom_challenge_reply ?b i i (ne_job_id env) (ne_now env))))
            (\<lambda>q. case q of Inl x \<Rightarrow> bind (inbox (mark_wecom_challenge_unknown ?b i)) (\<lambda>_. ret ()) | Inr y \<Rightarrow> ret ()))" for z
    by (intro keeps_actions(1,4-7) unknown observes_parts observes_store all_reached)
  have body: "valid (?Q first) (if \<not> first then ret ()
      else bind (result r) (\<lambda>actor. bind (attempted (account_call (ObserveChallenge actor namespace authority sender i challenge expires) f)) g))
      (\<lambda>_. observes_once) (\<lambda>_. observes_once)"
    if "\<And>z. keeps observes_once (g z)" for first r namespace authority sender expires f g
  proof (cases first)
    case True
    have "valid (?Q True) (bind (attempted (account_call (ObserveChallenge actor namespace authority sender i challenge expires) f)) g)
        (\<lambda>_. observes_once) (\<lambda>_. observes_once)" for actor by (rule valid_bind [OF call that])
    with True show ?thesis by (cases r) (auto simp: valid_def act_simps)
  qed (simp add: valid_def act_simps)
  show ?thesis unfolding observe_private_link_challenge_def Let_def
  proof (rule valid_bind [OF start])
    fix x :: "wecom_event \<times> bool"
    obtain ev first where x: "x = (ev, first)" by fastforce
    show "valid ((\<lambda>(x, first). ?Q first) x) (case x of (observing, first) \<Rightarrow>
      if \<not> first then ret ()
      else bind (result (ne_principal env ?b)) (\<lambda>actor.
           bind (attempted (account_call (ObserveChallenge actor (ws_bot_namespace s) (ws_source_authority s) (wv_sender_id e) i challenge
             (ne_now env div 1000000 + 300)) (ne_observe env)))
           (\<lambda>z. case z of Inl x \<Rightarrow> bind (inbox (mark_wecom_challenge_unknown ?b i)) (\<lambda>_. ret ())
              | Inr v \<Rightarrow> if \<not> challenge_accepted v i then bind (inbox (mark_wecom_challenge_unknown ?b i)) (\<lambda>_. ret ())
                  else bind (attempted (inbox (enqueue_wecom_challenge_reply ?b i i (ne_job_id env) (ne_now env))))
                    (\<lambda>q. case q of Inl x \<Rightarrow> bind (inbox (mark_wecom_challenge_unknown ?b i)) (\<lambda>_. ret ()) | Inr y \<Rightarrow> ret ()))))
      (\<lambda>_. observes_once) (\<lambda>_. observes_once)"
      unfolding x prod.case by (rule body [OF rest])
  qed
qed

lemma group_observes: "keeps observes_once (admit_group env s e i message)"
  unfolding admit_group_def Let_def
  by (auto intro: mark_observes command_observes keeps_actions split: sum.split hub_exn.split)

lemma private_observes: "keeps observes_once (admit_private env s e i message)"
  unfolding admit_private_def by (auto intro: mark_observes challenge_observes split: option.split)

lemma route_observes: "keeps observes_once (route_event env s e message event)"
  unfolding route_event_def
  by (auto intro: challenge_observes group_observes private_observes keeps_actions split: option.split)

lemma keeps_apart:
  assumes "keeps I m" "I w" "m w = (r, w')"
  shows "I w'"
  using assms by (cases r) (auto simp: valid_def)

lemma admit_observes:
  assumes "observes_once w" "admit_wecom_event parse env s e w = (r, w')"
  shows "observes_once w'"
proof (cases "decode_canonical_message parse (wv_message_proto_b64 e)")
  case (Inr m)
  have k: "keeps observes_once (bind (inbox (persist_wecom_inbound (ws_binding_id s) (wv_source_event_id e) (ws_organization_id s)
      (ws_workspace_id s) (inbound_of s e m) True (ne_event_id env) (ne_now env)))
      (\<lambda>(event, created). andthen (route_event env s e (single_text_content m) event) (ret (we_id event))))"
    by (rule valid_bind [where R = "\<lambda>_. observes_once"], rule observes_store, rule reached_persist)
      (auto intro: keeps_actions route_observes split: prod.split)
  show ?thesis
    using keeps_apart [OF k assms(1)] assms(2) Inr by (auto simp: admit_wecom_event_def act_simps split: prod.splits)
qed (use assms in \<open>simp add: admit_wecom_event_def act_simps\<close>)

lemma inbound_observes:
  assumes "observes_once w" "admit_wecom_inbound loads parse sources env q w = (r, w')"
  shows "observes_once w'"
  using assms unfolding admit_wecom_inbound_def
  by (auto simp: act_simps split: sum.splits dest: admit_observes)

text \<open>Deliveries and the operations of the hub, in any order.\<close>

inductive intake_runs :: "intake_world \<Rightarrow> bool" where
  start: "intake_runs \<lparr>nw_store = empty_hub, nw_calls = []\<rparr>"
| store: "intake_runs w \<Longrightarrow> intake_runs (w\<lparr>nw_store := hub_perform op (nw_store w)\<rparr>)"
| deliver: "intake_runs w \<Longrightarrow> admit_wecom_inbound loads parse sources env q w = (r, w') \<Longrightarrow> intake_runs w'"

lemma runs_observe: "intake_runs w \<Longrightarrow> observes_once w"
proof (induction rule: intake_runs.induct)
  case start
  have "rows_ok (\<lambda>k e. we_id e = k) (hs_wecom empty_hub)" by (simp add: empty_hub_def rows_ok_def table_ok_def)
  then show ?case by (simp add: observes_once_def observed_def List.map_filter_def)
next
  case (store w op)
  then show ?case
    using perform_reached [of 0 "[]" "nw_store w" op] by (auto simp: observes_once_def reached_def [of 0] intro: perform_reached)
next
  case (deliver w loads parse sources env q r w')
  then show ?case by (blast intro: inbound_observes)
qed

section \<open>Deliveries that come again\<close>

lemma digest_given: "digest_of d \<noteq> []"
proof -
  have "length (digest_of d) = 64" using sha256_hex_hex64 by (simp add: digest_of_def sha256_str_def hex64_def)
  then show ?thesis by (metis length_0_conv zero_neq_numeral)
qed

lemma fingerprint_given: "payload_fingerprint e \<noteq> []"
  by (simp only: payload_fingerprint_def digest_given split: if_split) simp

lemma persist_known:
  assumes "find_source_event b ref st = Some ev" "persist_wecom_inbound b ref org ws m x k now st = (r, st')" "wm_fingerprint m = Some fp" "fp \<noteq> []"
  shows "st' = st \<and> (\<forall>y. r = Inr y \<longrightarrow> y = (ev, False) \<and> we_payload_fingerprint ev = fp)"
  using assms
  by (auto simp: persist_wecom_inbound_def act_simps mutation_def or_else_def given_def Let_def split: sum.splits prod.splits if_splits)

lemma admit_known:
  assumes "find_source_event (ws_binding_id s) (wv_source_event_id e) (nw_store w) = Some ev"
    and "admit_wecom_event parse env s e w = (r, w')"
    and "payload_fingerprint e \<noteq> we_payload_fingerprint ev \<or> we_state ev \<notin> {Received, ChallengeObserving}"
  shows "w' = w \<and> (\<forall>i. r = Inr i \<longrightarrow> i = we_id ev \<and> payload_fingerprint e = we_payload_fingerprint ev)"
proof (cases "decode_canonical_message parse (wv_message_proto_b64 e)")
  case (Inr m)
  obtain r1 st where run: "persist_wecom_inbound (ws_binding_id s) (wv_source_event_id e) (ws_organization_id s) (ws_workspace_id s)
      (inbound_of s e m) True (ne_event_id env) (ne_now env) (nw_store w) = (r1, st)" by fastforce
  have "wm_fingerprint (inbound_of s e m) = Some (payload_fingerprint e)" by (simp add: inbound_of_def)
  from persist_known [OF assms(1) run this fingerprint_given] have st: "st = nw_store w"
    and ev: "\<And>y. r1 = Inr y \<Longrightarrow> y = (ev, False) \<and> we_payload_fingerprint ev = payload_fingerprint e" by auto
  show ?thesis
  proof (cases r1)
    case (Inl x)
    with assms(2) Inr run st show ?thesis by (auto simp: admit_wecom_event_def act_simps inbox_def)
  next
    case (Inr y)
    with ev have y: "r1 = Inr (ev, False)" "we_payload_fingerprint ev = payload_fingerprint e" by auto
    with assms(3) have "route_event env s e (single_text_content m) ev = ret ()" by (auto simp: route_event_def)
    with assms(2) \<open>decode_canonical_message parse (wv_message_proto_b64 e) = Inr m\<close> run st y show ?thesis
      by (auto simp: admit_wecom_event_def act_simps inbox_def)
  qed
qed (use assms(2) in \<open>auto simp: admit_wecom_event_def act_simps\<close>)

text \<open>The inbox takes the message of a delivery: it decodes, has the shape, and its source is bound.\<close>

definition taken :: "(bytes \<Rightarrow> canonical_message option) \<Rightarrow> wecom_source \<Rightarrow> wecom_envelope \<Rightarrow> hub_store \<Rightarrow> bool" where
  "taken parse s e st =
     (\<exists>m b. decode_canonical_message parse (wv_message_proto_b64 e) = Inr m \<and>
        wecom_shape (inbound_of s e m) (wv_source_event_id e) (ws_organization_id s) (ws_workspace_id s) = Inr () \<and>
        source_binding (ws_binding_id s) (ws_organization_id s) (ws_workspace_id s) st = Inr b \<and>
        hex64 (payload_fingerprint e))"

lemma persist_again:
  assumes "find_source_event b ref st = Some ev" "wecom_shape m ref org ws = Inr ()" "source_binding b org ws st = Inr bd"
    and "wm_fingerprint m = Some fp" "hex64 fp"
  shows "fst (persist_wecom_inbound b ref org ws m True k now st) =
     (if we_payload_fingerprint ev = fp then Inr (ev, False)
      else Inl (IntegrationConflict ''WeCom source event ID was reused with a different payload''))"
proof -
  have "or_else (Some fp) x = fp" for x using assms(5) by (auto simp: or_else_def given_def hex64_def)
  with assms show ?thesis by (auto simp: persist_wecom_inbound_def act_simps mutation_def look_def Let_def)
qed

lemma admit_again:
  assumes "find_source_event (ws_binding_id s) (wv_source_event_id e) (nw_store w) = Some ev" "taken parse s e (nw_store w)"
    and "payload_fingerprint e = we_payload_fingerprint ev \<longrightarrow> we_state ev \<notin> {Received, ChallengeObserving}"
  shows "fst (admit_wecom_event parse env s e w) =
     (if payload_fingerprint e = we_payload_fingerprint ev then Inr (we_id ev)
      else Inl (product_exn_of (IntegrationConflict ''WeCom source event ID was reused with a different payload'')))"
proof -
  from assms(2) obtain m b where m: "decode_canonical_message parse (wv_message_proto_b64 e) = Inr m"
    and p: "wecom_shape (inbound_of s e m) (wv_source_event_id e) (ws_organization_id s) (ws_workspace_id s) = Inr ()"
      "source_binding (ws_binding_id s) (ws_organization_id s) (ws_workspace_id s) (nw_store w) = Inr b"
    and fp: "hex64 (payload_fingerprint e)" by (auto simp: taken_def)
  have "wm_fingerprint (inbound_of s e m) = Some (payload_fingerprint e)" by (simp add: inbound_of_def)
  note again = persist_again [OF assms(1) p this fp, of "ne_event_id env" "ne_now env"]
  obtain r1 st where run: "persist_wecom_inbound (ws_binding_id s) (wv_source_event_id e) (ws_organization_id s) (ws_workspace_id s)
      (inbound_of s e m) True (ne_event_id env) (ne_now env) (nw_store w) = (r1, st)" by fastforce
  show ?thesis
  proof (cases "payload_fingerprint e = we_payload_fingerprint ev")
    case True
    then have "route_event env s e (single_text_content m) ev = ret ()" using assms(3) by (auto simp: route_event_def)
    with again run True m show ?thesis by (simp add: admit_wecom_event_def act_simps inbox_def)
  next
    case False
    with again run m show ?thesis by (auto simp: admit_wecom_event_def act_simps inbox_def)
  qed
qed

section \<open>Nothing without a signature\<close>

definition signed_delivery :: "wecom_sources \<Rightarrow> int \<Rightarrow> hook_request \<Rightarrow> bool" where
  "signed_delivery sources now q =
     (\<exists>s. configured_source sources (hr_binding_id q) = Inr s \<and> hr_path q = HOOK_PREFIX @ ws_binding_id s \<and>
        (let body = concat (hr_chunks q); timestamp = header_text (hr_headers q) ''x-cyrene-wecom-timestamp'' in
         length body \<le> MAX_RAW_BODY_BYTES \<and>
         header_text (hr_headers q) ''x-cyrene-wecom-signature'' =
           ''sha256='' @ hmac_sha256_hex (ws_hmac_key s)
             (signing_input (hr_path q) timestamp (header_text (hr_headers q) ''x-cyrene-wecom-request-id'') (ws_binding_id s) (sha256_hex body)) \<and>
         now - 300 \<le> seconds_of timestamp \<and> seconds_of timestamp \<le> now + 30))"

lemma read_bounded_Inr: "read_bounded chunks c = Inr body \<Longrightarrow> body = c @ concat chunks"
  by (induction chunks c rule: read_bounded.induct) (auto split: if_splits)

lemma hook_body_Inr: "read_bounded_request_body l chunks = Inr body \<Longrightarrow> body = concat chunks"
  by (auto simp: read_bounded_request_body_def result_simps dest: read_bounded_Inr split: option.splits)

lemma starts_with_drop: "starts_with p s \<Longrightarrow> s = p @ drop (length p) s"
  by (induction p s rule: starts_with.induct) auto

lemma verified_signed:
  assumes "configured_source sources (hr_binding_id q) = Inr s" "read_bounded_request_body l (hr_chunks q) = Inr body"
    and "verify_and_decode_wecom_request loads parse s (hr_binding_id q) (hr_path q) (hr_headers q) body now = Inr e"
  shows "signed_delivery sources now q"
proof -
  let ?sig = "header_text (hr_headers q) ''x-cyrene-wecom-signature''"
  from assms(3) have path: "hr_path q = HOOK_PREFIX @ ws_binding_id s" and size: "length body \<le> MAX_RAW_BODY_BYTES"
    and auth: "authenticate_hook s (hr_path q) (hr_headers q) body now = Inr ()"
    by (auto simp: verify_and_decode_wecom_request_def result_simps)
  from auth have sig: "starts_with ''sha256='' ?sig" and "drop 7 ?sig = hmac_sha256_hex (ws_hmac_key s)
      (signing_input (hr_path q) (header_text (hr_headers q) ''x-cyrene-wecom-timestamp'')
        (header_text (hr_headers q) ''x-cyrene-wecom-request-id'') (ws_binding_id s) (sha256_hex body))"
    "now - 300 \<le> seconds_of (header_text (hr_headers q) ''x-cyrene-wecom-timestamp'')"
    "seconds_of (header_text (hr_headers q) ''x-cyrene-wecom-timestamp'') \<le> now + 30"
    unfolding authenticate_hook_def Let_def by (simp_all only: result_simps) blast+
  moreover have "length ''sha256='' = 7" by simp
  with starts_with_drop [OF sig] have "?sig = ''sha256='' @ drop 7 ?sig" by (simp only:)
  ultimately show ?thesis using assms(1) path size hook_body_Inr [OF assms(2)] by (auto simp: signed_delivery_def Let_def)
qed

lemma unsigned_inert:
  assumes "admit_wecom_inbound loads parse sources env q w = (r, w')" "\<not> signed_delivery sources (ne_now env div 1000000) q"
  shows "w' = w \<and> (\<exists>x. r = Inl x)"
proof (cases "configured_source sources (hr_binding_id q)")
  case (Inr s)
  show ?thesis
  proof (cases "read_bounded_request_body (hr_headers q ''content-length'') (hr_chunks q)")
    case (Inr body)
    with verified_signed [OF \<open>configured_source sources (hr_binding_id q) = Inr s\<close> Inr] assms(2) obtain x where
      "verify_and_decode_wecom_request loads parse s (hr_binding_id q) (hr_path q) (hr_headers q) body (ne_now env div 1000000) = Inl x"
      by (metis sum.exhaust)
    with assms(1) Inr \<open>configured_source sources (hr_binding_id q) = Inr s\<close> show ?thesis by (auto simp: admit_wecom_inbound_def act_simps)
  qed (use assms(1) Inr in \<open>auto simp: admit_wecom_inbound_def act_simps\<close>)
qed (use assms(1) in \<open>auto simp: admit_wecom_inbound_def act_simps\<close>)

end
