(* ===== verification/Hub_Examples.thy ===== *)
theory Hub_Examples
  imports Delivery_Facts Intake_Facts
begin

text \<open>
  A hub with one repository connection, one group binding and one notification, evaluated by the
  kernel; and hand-written rows of the states a crash leaves behind.
\<close>

definition demo_hub_principal :: hub_principal where
  "demo_hub_principal =
     \<lparr>hp_issuer = ''i'', hp_subject = ''u'', hp_organization_id = ''o'', hp_workspace_id = ''w'',
      hp_allowed_operation_ids = [''integrationCreateConnection'', ''integrationCreateBinding'', ''integrationAttachActorBinding'',
        ''integration.issue.query'', ''integration.issue.close''],
      hp_delegation_id = None, hp_delegation_generation = None, hp_expires_at = None\<rparr>"

definition demo_connection_request :: connection_request where
  "demo_connection_request =
     \<lparr>cq_provider = ''github'', cq_binding_ref = None, cq_target_ref = None, cq_account_link_ref = None, cq_display_name = None,
      cq_repository_id = ''r'', cq_repository_name = ''n''\<rparr>"

definition demo_connection :: connection where
  "demo_connection = new_connection demo_hub_principal demo_connection_request ''actor_owned'' ''c'' 1"

definition demo_binding :: sync_binding where
  "demo_binding = new_binding demo_hub_principal demo_connection
     \<lparr>bq_connection_id = ''c'', bq_account_link_ref = None, bq_delegation_ref = None, bq_notification_target_ref = ''t''\<rparr> ''b'' 2"

definition demo_event :: github_event where
  "demo_event =
     \<lparr>gh_event_type = ''issues'', gh_action = ''opened'', gh_repository_id = ''r'', gh_issue_number = 7, gh_sender_id = ''s'',
      gh_sender_login = ''l'', gh_title = ''x'', gh_body = ''y'', gh_self_authored = False, gh_observed_at = 3\<rparr>"

definition demo_setup :: "hub_op list" where
  "demo_setup =
     [CreateConnection demo_hub_principal demo_connection_request [] ''k1'' ''actor_owned'' ''c'' 1,
      CreateBinding demo_hub_principal \<lparr>bq_connection_id = ''c'', bq_account_link_ref = None, bq_delegation_ref = None,
        bq_notification_target_ref = ''t''\<rparr> [] ''k2'' ''b'' 2,
      IngestGithub ''c'' ''d'' demo_event True ''e'' (\<lambda>_. ''j'') 3]"

definition demo_incoming :: incoming_event where
  "demo_incoming = incoming_of demo_event demo_connection ''d'' (github_fingerprint demo_event) ''e''"

definition demo_notify :: outbox_job where
  "demo_notify = notify_job demo_connection demo_incoming demo_binding ''j'' 3"

lemmas demo_hub_defs =
  demo_hub_principal_def demo_connection_request_def demo_connection_def demo_binding_def demo_event_def demo_incoming_def
  new_connection_def new_binding_def incoming_of_def github_event.defs incoming_event.defs

definition demo_hub :: hub_store where
  "demo_hub = hub_run demo_setup empty_hub"

lemma notify_job_id [simp]: "ob_id (notify_job c e b i now) = i"
  by (simp add: notify_job_def)

lemma demo_hub_tables:
  "hs_jobs demo_hub = [(''j'', demo_notify)]" "hs_connections demo_hub = [(''c'', demo_connection)]"
  "hs_bindings demo_hub = [(''b'', demo_binding)]" "hs_operations demo_hub = []"
  unfolding demo_hub_def demo_setup_def demo_notify_def
  by (simp_all add: demo_hub_defs empty_hub_def create_connection_def create_binding_def ingest_github_event_def act_simps
      require_grant_def bad_key_def connection_shape_def repository_shape_def selector_shape_def given_def replay_of_def
      mutation_def insert_or_def insert_row_def find_row_def or_else_def connection_scoped_def scope_of_def
      enabled_connection_def find_delivery_def bindings_of_def select_def insert_job_def add_job_def Let_def)

lemma demo_hub_reachable: "hub_reachable demo_hub"
  unfolding demo_hub_def by (rule run_reachable) (rule hub_reachable.start)

section \<open>Runs\<close>

definition demo_env :: reply_env where
  "demo_env = \<lparr>rp_new_id = (\<lambda>i. ''r''), rp_float = (\<lambda>x. [])\<rparr>"

text \<open>Two workers claim the notification, the second when the lease of the first has run out.\<close>

definition demo_claims :: "hub_op list" where
  "demo_claims = [ClaimJob demo_env ''w1'' 10 30, ClaimJob demo_env ''w2'' 40000000 30]"

lemma demo_notify_fields [simp]:
  "ob_id demo_notify = ''j''" "ob_kind demo_notify = Notify" "ob_state demo_notify = Ready" "ob_claim_fence demo_notify = 0"
  "ob_attempts demo_notify = 0" "ob_available_at demo_notify = 3" "ob_created_at demo_notify = 3" "ob_operation_id demo_notify = None"
  "ob_authority_invocation_id demo_notify = None" "ob_binding_id demo_notify = Some ''b''"
  "ob_idempotency_key demo_notify = Some ''incoming:e:b''"
  by (simp_all add: demo_notify_def notify_job_def demo_hub_defs)

definition demo_first :: outbox_job where
  "demo_first = demo_notify\<lparr>ob_state := Claimed, ob_claim_owner := Some ''w1'', ob_claim_fence := 1,
     ob_lease_expires_at := Some 30000010, ob_attempts := 1, ob_updated_at := 10\<rparr>"

definition demo_second :: outbox_job where
  "demo_second = demo_notify\<lparr>ob_state := Claimed, ob_claim_owner := Some ''w2'', ob_claim_fence := 2,
     ob_lease_expires_at := Some 70000000, ob_attempts := 2, ob_updated_at := 40000000\<rparr>"

lemmas claim_simps =
  claim_job_def recover_expired_claims_def claim_next_def next_claimable_def claimable_def claimed_def recover_job_def expired_def released_def
  persist_job_def select_def mutation_def act_simps microseconds_def update_row_def Let_def

lemma demo_claims_jobs:
  "hs_jobs (hub_perform (ClaimJob demo_env ''w1'' 10 30) demo_hub) = [(''j'', demo_first)]"
  by (simp add: claim_simps demo_hub_tables demo_first_def)

lemma claim_again:
  "hs_jobs s = [(''j'', demo_first)] \<Longrightarrow> hs_jobs (hub_perform (ClaimJob demo_env ''w2'' 40000000 30) s) = [(''j'', demo_second)]"
  by (simp add: claim_simps demo_first_def demo_second_def given_def)

text \<open>A worker that sends the notification, with a transport that accepts it.\<close>

definition demo_receipt :: message_evidence where
  "demo_receipt = \<lparr>me_accepted = True, me_vendor_message_id = None, me_transport_request_id = None, me_observed_at = 20, me_evidence = []\<rparr>"

definition demo_ports :: hub_ports where
  "demo_ports =
     \<lparr>pt_notify = (\<lambda>n call. Inr demo_receipt), pt_enqueue = (\<lambda>n q. Inr (''v'', APending)), pt_poll = (\<lambda>n v. Inr (v, APending)),
      pt_authorize = (\<lambda>n l g d. Inl (HubValueError [])), pt_get_issue = (\<lambda>n call. Inl (HubValueError [])),
      pt_write = (\<lambda>n call. Inl (HubValueError []))\<rparr>"

definition demo_dispatcher :: dispatcher where
  "demo_dispatcher =
     \<lparr>dp_ports = demo_ports, dp_lease_seconds = 30, dp_reply = demo_env, dp_receipt_id = ''q'', dp_later = 20, dp_em_dash = ''-''\<rparr>"

definition demo_hub_world :: hub_world where
  "demo_hub_world = \<lparr>hw_store = demo_hub, hw_calls = []\<rparr>"

lemma serves_run: "hub_serves w \<Longrightarrow> hub_serves (w\<lparr>hw_store := hub_run ops (hw_store w)\<rparr>)"
proof (induction ops arbitrary: w)
  case (Cons op ops)
  from Cons.IH [OF hub_serves.store [OF Cons.prems, of op]] show ?case by simp
qed simp

lemma demo_serves: "hub_serves demo_hub_world"
  using serves_run [OF hub_serves.start, of demo_setup] by (simp add: demo_hub_world_def demo_hub_def)

lemma demo_claim:
  "claim_job demo_env ''w1'' 10 30 demo_hub =
     (Inr (Some \<lparr>cj_job = demo_first, cj_claim_fence = 1, cj_claimed_from_state = Ready\<rparr>), demo_hub\<lparr>hs_jobs := [(''j'', demo_first)]\<rparr>)"
  by (simp add: claim_simps demo_hub_tables demo_first_def)

definition demo_sending :: outbox_job where
  "demo_sending = demo_first\<lparr>ob_state := Sending, ob_updated_at := 10\<rparr>"

lemma demo_send:
  "mark_sending ''j'' 1 10 (demo_hub\<lparr>hs_jobs := [(''j'', demo_first)]\<rparr>) = (Inr demo_sending, demo_hub\<lparr>hs_jobs := [(''j'', demo_sending)]\<rparr>)"
  by (simp add: mark_sending_def fenced_job_def find_row_def mutation_def act_simps persist_job_def update_row_def Let_def
      demo_first_def demo_sending_def)

lemma demo_first_fields [simp]:
  "ob_id demo_first = ''j''" "ob_kind demo_first = Notify" "ob_claim_fence demo_first = 1"
  "ob_binding_id demo_first = Some ''b''" "ob_payload demo_first = ob_payload demo_notify"
  by (simp_all add: demo_first_def)

definition demo_call :: port_call where
  "demo_call = SendNotification ''t'' (notification_text demo_dispatcher demo_first) ''incoming:e:b''"

lemma demo_dispatcher_fields [simp]:
  "dp_reply demo_dispatcher = demo_env" "dp_lease_seconds demo_dispatcher = 30" "dp_ports demo_dispatcher = demo_ports"
  "pt_notify demo_ports n call = Inr demo_receipt"
  by (simp_all add: demo_dispatcher_def demo_ports_def)

lemma demo_dispatch:
  "dispatch_job demo_dispatcher demo_first 1 10 \<lparr>hw_store = demo_hub\<lparr>hs_jobs := [(''j'', demo_first)]\<rparr>, hw_calls = []\<rparr> =
     finish_message demo_dispatcher demo_first 1 demo_receipt
       \<lparr>hw_store = demo_hub\<lparr>hs_jobs := [(''j'', demo_sending)]\<rparr>, hw_calls = [demo_call]\<rparr>"
proof -
  have b: "binding_for_job demo_first (demo_hub\<lparr>hs_jobs := [(''j'', demo_first)]\<rparr>) = Inr demo_binding"
    by (simp add: binding_for_job_def find_row_def demo_hub_tables demo_first_def demo_notify_def notify_job_def demo_hub_defs)
  have e: "value_str (rp_float demo_env) (dget_or (ob_payload demo_notify) ''eventId'' (PStr [])) = ''e''"
    and d: "sb_enabled demo_binding" "sb_id demo_binding = ''b''" "sb_notification_target_ref demo_binding = ''t''"
    by (simp_all add: demo_notify_def notify_job_def demo_hub_defs dget_or_def value_str_def)
  show ?thesis
    by (simp add: dispatch_job_def dispatch_notification_def in_store_look b act_simps d e Let_def in_store_def demo_send
        send_message_def attempt_def port_def demo_call_def)
qed

lemma demo_worker_run:
  assumes "run_once demo_dispatcher ''w1'' 10 demo_hub_world = (r, w')"
  shows "hw_calls w' = [demo_call]"
proof -
  have settled: "keeps (made cs) (catch (finish_message demo_dispatcher demo_first 1 demo_receipt) (dispatch_handler demo_dispatcher demo_first 1 10))" for cs
  proof (rule keeps_catch)
    show "keeps (made cs) (finish_message demo_dispatcher demo_first 1 demo_receipt)"
      unfolding finish_message_def Let_def by (intro keeps_parts made_store)
    show "keeps (made cs) (dispatch_handler demo_dispatcher demo_first 1 10 e)" for e
      unfolding dispatch_handler_def by (cases e; simp only: hub_exn.case; intro keeps_parts made_store)
  qed
  have "run_once demo_dispatcher ''w1'' 10 demo_hub_world =
      catch (finish_message demo_dispatcher demo_first 1 demo_receipt) (dispatch_handler demo_dispatcher demo_first 1 10)
        \<lparr>hw_store = demo_hub\<lparr>hs_jobs := [(''j'', demo_sending)]\<rparr>, hw_calls = [demo_call]\<rparr>"
    by (simp add: run_once_def act_simps in_store_def demo_hub_world_def demo_claim demo_dispatch)
  from keeps_apart [OF settled [of "[demo_call]"] _ trans [OF this [symmetric] assms]] show ?thesis by (simp add: made_def)
qed

section \<open>Intents\<close>

text \<open>The actor attached to the binding, and the connection without any job.\<close>

definition demo_actor :: actor_binding where
  "demo_actor = new_actor_binding demo_hub_principal \<lparr>aq_binding_id = ''b'', aq_account_link_ref = ''l'', aq_delegation_ref = ''g''\<rparr> ''a'' 4"

definition demo_message :: wecom_message where
  "demo_message =
     \<lparr>wm_sender_id = ''s'', wm_conversation_ref = ''v'', wm_reply_message_id = Some ''m'', wm_reply_context_ref = Some ''x'',
      wm_message_text = ''/issue close 7'', wm_fingerprint = None, wm_self_authored = False\<rparr>"

definition demo_linking :: "hub_op list" where
  "demo_linking =
     [CreateConnection demo_hub_principal demo_connection_request [] ''k1'' ''actor_owned'' ''c'' 1,
      CreateBinding demo_hub_principal \<lparr>bq_connection_id = ''c'', bq_account_link_ref = None, bq_delegation_ref = None,
        bq_notification_target_ref = ''t''\<rparr> [] ''k2'' ''b'' 2,
      CreateActorBinding demo_hub_principal \<lparr>aq_binding_id = ''b'', aq_account_link_ref = ''l'', aq_delegation_ref = ''g''\<rparr> [] ''k3'' ''a'' 4,
      PersistWecom ''b'' ''z'' ''o'' ''w'' demo_message True ''u'' 5]"

definition demo_linked :: hub_store where
  "demo_linked = hub_run demo_linking empty_hub"

definition demo_wecom :: wecom_event where
  "demo_wecom = wecom_event_of demo_message demo_binding ''z'' (wecom_digest demo_message ''b'') ''u'' 5"

lemma wecom_digest_hex: "hex64 (wecom_digest m b)"
  by (simp add: wecom_digest_def digest_of_def sha256_str_def sha256_hex_hex64)

lemma demo_linked_reachable: "hub_reachable demo_linked"
  unfolding demo_linked_def by (rule run_reachable) (rule hub_reachable.start)

lemma demo_linked_tables:
  "hs_jobs demo_linked = []" "hs_connections demo_linked = [(''c'', demo_connection)]"
  "hs_bindings demo_linked = [(''b'', demo_binding)]" "hs_operations demo_linked = []"
  "hs_actor_bindings demo_linked = [(''a'', demo_actor)]" "hs_wecom demo_linked = [(''u'', demo_wecom)]"
  unfolding demo_linked_def demo_linking_def
  by (simp_all add: demo_hub_defs empty_hub_def create_connection_def create_binding_def create_actor_binding_def attach_actor_def
      new_actor_binding_def demo_actor_def find_actor_binding_def binding_for_scope_def act_simps
      require_grant_def bad_key_def connection_shape_def repository_shape_def selector_shape_def given_def replay_of_def
      mutation_def insert_or_def insert_row_def find_row_def or_else_def connection_scoped_def scope_of_def
      persist_wecom_inbound_def wecom_shape_def demo_message_def find_source_event_def source_binding_def wecom_event_of_def demo_wecom_def
      wecom_digest_hex Let_def)

definition demo_close :: issue_request where
  "demo_close =
     \<lparr>rq_connection_id = ''c'', rq_binding_id = ''b'', rq_operation_id = IssueClose, rq_idempotency_key = ''k'', rq_issue_number = 7,
      rq_body = None, rq_reconciles_operation_id = None\<rparr>"

lemma demo_close_queued:
  "\<exists>o' s. enqueue_issue_action demo_hub_principal demo_close None ''p'' ''j'' 6 demo_linked = (Inr o', s)"
  by (simp add: enqueue_issue_action_def persist_issue_action_def act_simps mutation_def require_grant_def demo_hub_defs demo_close_def given_def
      binding_for_scope_def connection_for_scope_def visible_connection_def find_row_def demo_linked_tables scope_of_def
      actor_binding_for_operation_def find_actor_binding_def demo_actor_def new_actor_binding_def find_keyed_operation_def
      provider_arguments_def insert_or_def add_operation_def insert_row_def insert_job_def add_job_def attached_def Let_def)

text \<open>The command of the chat message, queued: its operation carries the reply context.\<close>

definition demo_scope :: actor_scope where
  "demo_scope = \<lparr>as_issuer = ''i'', as_subject = ''u'', as_organization_id = ''o'', as_workspace_id = ''w''\<rparr>"

definition demo_commanded :: hub_store where
  "demo_commanded = hub_perform (EnqueueIssueCommand ''b'' demo_scope ''u'' ''s'' ''k'' ''/issue close 7'' ''p'' ''j'' 6) demo_linked"

lemma demo_commanded_reachable: "hub_reachable demo_commanded"
  unfolding demo_commanded_def by (rule hub_reachable.step) (rule demo_linked_reachable)

lemma demo_parsed: "parse_issue_command ''/issue close 7'' = Inr \<lparr>ic_operation_id = IssueClose, ic_issue_number = 7, ic_body = None\<rparr>"
  by code_simp

lemma persist_first:
  assumes "provider_arguments request c = Inr (execution, arguments)" "hs_operations s = []" "hs_jobs s = []"
    and "o' = new_operation request b a c sc src execution (digest_of arguments) (digest_of (canonical_intent request b src)) op_id now"
  shows "\<exists>s'. persist_issue_action request b a c sc src op_id job_id now s = (Inr o', s') \<and> hs_operations s' = [(op_id, o')] \<and>
    hs_jobs s' = [(job_id, intent_job o' (canonical_intent request b src) job_id now)]"
proof -
  have "io_id o' = op_id" "ob_id (intent_job o' d job_id now) = job_id" for d
    by (simp_all add: assms(4) new_operation_def intent_job_def split: prod.split)
  then show ?thesis
    using assms(1-3) by (simp add: persist_issue_action_def find_keyed_operation_def act_simps mutation_def insert_or_def add_operation_def
        insert_job_def add_job_def insert_row_def find_row_def assms(4) [symmetric] Let_def)
qed

definition demo_source :: issue_source where
  "demo_source = command_issue_source demo_wecom ''u'' ''b''"

lemma demo_command_runs:
  "enqueue_issue_command_for_actor ''b'' demo_scope ''u'' ''s'' ''k'' ''/issue close 7'' ''p'' ''j'' 6 demo_linked =
     persist_issue_action demo_close demo_binding demo_actor demo_connection (''o'', ''w'', ''i'', ''u'') demo_source ''p'' ''j'' 6 demo_linked"
proof -
  have rows: "sender_binding ''b'' demo_scope demo_linked = Inr (demo_binding, demo_actor)"
    "wecom_event_at ''b'' ''u'' m demo_linked = Inr demo_wecom"
    "connection_for_scope_by_ids ''c'' ''o'' ''w'' demo_linked = Inr demo_connection" for m
    by (simp_all add: sender_binding_def find_row_def demo_linked_tables demo_scope_def demo_hub_defs find_actor_binding_def demo_actor_def
        new_actor_binding_def attached_def wecom_event_at_def demo_wecom_def wecom_event_of_def connection_for_scope_by_ids_def visible_connection_def)
  have fields: "sb_id demo_binding = ''b''" "sb_enabled demo_binding" "sb_connection_id demo_binding = ''c''" "cn_id demo_connection = ''c''"
    "ab_enabled demo_actor" "command_source demo_wecom ''s'' = Inr ()"
    by (simp_all add: demo_hub_defs demo_actor_def new_actor_binding_def command_source_def demo_wecom_def wecom_event_of_def demo_message_def given_def)
  show ?thesis
    by (simp add: enqueue_issue_command_for_actor_def demo_parsed rows fields act_simps bad_key_def demo_source_def demo_close_def)
      (simp add: demo_scope_def rows fields)
qed

lemma demo_commanded_rows:
  "\<exists>j o'. find_row ''j'' (hs_jobs demo_commanded) = Some j \<and> ob_kind j = IssueAction \<and> ob_operation_id j = Some ''p'' \<and>
     find_row ''p'' (hs_operations demo_commanded) = Some o' \<and> has_reply_context o'"
proof -
  obtain arguments where arguments: "provider_arguments demo_close demo_connection = Inr (''integrationExecuteIssueState'', arguments)"
    by (auto simp: provider_arguments_def demo_close_def)
  from persist_first [OF this demo_linked_tables(4,1), of _ demo_binding demo_actor "(''o'', ''w'', ''i'', ''u'')" demo_source "''p''" 6 "''j''", OF refl]
  show ?thesis
    by (auto simp: demo_commanded_def demo_command_runs find_row_def new_operation_def intent_job_def demo_source_def
        command_issue_source_def has_reply_context_def demo_wecom_def wecom_event_of_def demo_message_def given_def)
qed

section \<open>A reply cut off while it was sent\<close>

definition demo_reply :: "issue_operation \<Rightarrow> outbox_job" where
  "demo_reply o' =
     (reply_job demo_env o' ''n'' Succeeded [] 7)\<lparr>ob_state := Sending, ob_claim_owner := Some ''w1'', ob_claim_fence := 1,
       ob_lease_expires_at := Some 10, ob_attempts := 1\<rparr>"

definition demo_stuck :: "issue_operation \<Rightarrow> hub_store" where
  "demo_stuck o' = demo_commanded\<lparr>hs_jobs := [(''r'', demo_reply o')]\<rparr>"

lemma demo_stuck_ok:
  "jobs_ok (demo_stuck o')" "find_row (ob_id (demo_reply o')) (hs_jobs (demo_stuck o')) = Some (demo_reply o')"
  "hs_operations (demo_stuck o') = hs_operations demo_commanded"
proof -
  have id: "ob_id (demo_reply o') = ''r''" by (simp add: demo_reply_def reply_job_def demo_env_def)
  have "job_steps q (Ready, 0, 0) (Claimed, 1, 1)" for q by (rule r_into_rtranclp) (use job_step.claim [of Ready q 0 0] in simp)
  then have "job_steps q (Ready, 0, 0) (Sending, 1, 1)" for q by (rule rtranclp.rtrancl_into_rtrancl) (rule job_step.send)
  then have "job_ok (demo_reply o')" by (simp add: job_ok_def view_def demo_reply_def reply_job_def given_def reply_key_def)
  with id show "jobs_ok (demo_stuck o')"
    by (simp add: jobs_ok_def demo_stuck_def rows_ok_def table_ok_def unique_by_def)
  from id show "find_row (ob_id (demo_reply o')) (hs_jobs (demo_stuck o')) = Some (demo_reply o')"
    "hs_operations (demo_stuck o') = hs_operations demo_commanded" by (simp_all add: demo_stuck_def find_row_def)
qed

lemma operation_row_id: "hub_ok s \<Longrightarrow> find_row i (hs_operations s) = Some o' \<Longrightarrow> io_id o' = i"
proof -
  assume ok: "hub_ok s" and row: "find_row i (hs_operations s) = Some o'"
  then have "(i, op_ident o') \<in> set (op_idents s)" by (force simp: find_row_def op_idents_def dest: map_of_SomeD)
  from ok have "rows_ok (\<lambda>k o'. io_id o' = k) (hs_operations s)" by (simp add: hub_ok_def ops_ok_def)
  from rows_okD [OF this row] show ?thesis .
qed

section \<open>A signed delivery\<close>

definition demo_uuid :: uuid where
  "demo_uuid = ''00000000-0000-0000-0000-000000000001''"

definition demo_source_facts :: wecom_source where
  "demo_source_facts =
     \<lparr>ws_binding_id = demo_uuid, ws_organization_id = ''o'', ws_workspace_id = ''w'', ws_source_authority = ''y'',
      ws_bot_namespace = ''n'', ws_account_id = ''bot:d'', ws_group_conversation_id = ''v'', ws_hmac_key = replicate 32 7\<rparr>"

definition demo_intake :: intake_env where
  "demo_intake =
     \<lparr>ne_principal = (\<lambda>b. Inr None), ne_resolve = (\<lambda>n call. Inr None),
      ne_observe = (\<lambda>n call. Inr (PDict [(''accepted'', PBool True), (''challenge_id'', PStr ''u'')])),
      ne_event_id = ''u'', ne_operation_id = ''p'', ne_job_id = ''j'', ne_now = 500000000\<rparr>"

definition demo_delivery :: "(string \<Rightarrow> string option) \<Rightarrow> hook_request" where
  "demo_delivery headers =
     \<lparr>hr_binding_id = demo_uuid, hr_path = HOOK_PREFIX @ demo_uuid, hr_headers = headers, hr_chunks = [[123], [125]]\<rparr>"

definition demo_hooking :: "hub_op list" where
  "demo_hooking =
     [CreateConnection demo_hub_principal demo_connection_request [] ''k1'' ''actor_owned'' ''c'' 1,
      CreateBinding demo_hub_principal \<lparr>bq_connection_id = ''c'', bq_account_link_ref = None, bq_delegation_ref = None,
        bq_notification_target_ref = ''t''\<rparr> [] ''k2'' demo_uuid 2]"

definition demo_hook_world :: intake_world where
  "demo_hook_world = \<lparr>nw_store = hub_run demo_hooking empty_hub, nw_calls = []\<rparr>"

lemma intake_run: "intake_runs w \<Longrightarrow> intake_runs (w\<lparr>nw_store := hub_run ops (nw_store w)\<rparr>)"
proof (induction ops arbitrary: w)
  case (Cons op ops)
  from Cons.IH [OF intake_runs.store [OF Cons.prems, of op]] show ?case by simp
qed simp

lemma demo_hook_runs: "intake_runs demo_hook_world"
  using intake_run [OF intake_runs.start, of demo_hooking] by (simp add: demo_hook_world_def)

text \<open>The delivery of a private link command, signed.\<close>

definition demo_fields :: pydict where
  "demo_fields =
     [(''schemaVersion'', PInt 1), (''bindingId'', PStr demo_uuid), (''organizationId'', PStr ''o''), (''workspaceId'', PStr ''w''),
      (''sourceAuthority'', PStr ''y''), (''botNamespace'', PStr ''n''), (''accountId'', PStr ''bot:d''), (''conversationId'', PStr ''s''),
      (''conversationKind'', PStr ''private''), (''sourceEventId'', PStr ''z''), (''senderId'', PStr ''s''), (''fromSelf'', PBool False),
      (''sourceTransportRequestId'', PStr ''x''), (''messageProtoB64'', PStr ''AA=='')]"

definition demo_envelope :: wecom_envelope where
  "demo_envelope =
     \<lparr>wv_binding_id = demo_uuid, wv_organization_id = ''o'', wv_workspace_id = ''w'', wv_source_authority = ''y'', wv_bot_namespace = ''n'',
      wv_account_id = ''bot:d'', wv_conversation_id = ''s'', wv_conversation_kind = ''private'', wv_source_event_id = ''z'',
      wv_sender_id = ''s'', wv_from_self = False, wv_transport_request_id = ''x'', wv_message_proto_b64 = ''AA=='',
      wv_raw_body_sha256 = []\<rparr>"

definition demo_canonical :: canonical_message where
  "demo_canonical =
     \<lparr>cm_message_id = ''z'', cm_sender_id = ''s'', cm_vendor = ''wecom.bot'', cm_account_id = ''bot:d'', cm_conversation_id = ''s'',
      cm_kind = 1, cm_extension_vendor = ''wecom.bot'', cm_facts = [(''transport_request_id'', ''x'')],
      cm_content = [Some ''/link 0123456789abcdef'']\<rparr>"

lemma demo_keys: "map (field_key demo_fields) envelope_fields = map fst envelope_fields"
  by code_simp

lemma demo_envelope_checks:
  "list_all (\<lambda>(k, x). k \<in> set (map fst envelope_fields)) demo_fields" "list_all (dhas demo_fields) (map fst envelope_fields)"
  by code_simp+

lemma demo_field_values:
  "dget demo_fields (map fst envelope_fields ! 0) = PInt 1" "dget demo_fields (map fst envelope_fields ! 1) = PStr demo_uuid"
  "dget demo_fields (map fst envelope_fields ! 2) = PStr ''o''" "dget demo_fields (map fst envelope_fields ! 3) = PStr ''w''"
  "dget demo_fields (map fst envelope_fields ! 4) = PStr ''y''" "dget demo_fields (map fst envelope_fields ! 5) = PStr ''n''"
  "dget demo_fields (map fst envelope_fields ! 6) = PStr ''bot:d''" "dget demo_fields (map fst envelope_fields ! 7) = PStr ''s''"
  "dget demo_fields (map fst envelope_fields ! 8) = PStr ''private''" "dget demo_fields (map fst envelope_fields ! 9) = PStr ''z''"
  "dget demo_fields (map fst envelope_fields ! 10) = PStr ''s''" "dget demo_fields (map fst envelope_fields ! 11) = PBool False"
  "dget demo_fields (map fst envelope_fields ! 12) = PStr ''x''" "dget demo_fields (map fst envelope_fields ! 13) = PStr ''AA==''"
  by code_simp+

lemma demo_parsed_envelope: "parse_envelope (PDict demo_fields) = Inr demo_envelope"
proof -
  have short: "bounded_text n (PStr t) = Inr t" if "t \<noteq> []" "length t \<le> n" for n t
    using that by (simp add: bounded_text_def result_simps)
  have "length demo_uuid \<le> 128" "demo_uuid \<noteq> []" by code_simp+
  then show ?thesis
    unfolding parse_envelope_def
    by (simp only: need_dict_def pyval.case rbind_Inr Let_def demo_keys demo_envelope_checks demo_field_values)
      (simp add: short demo_envelope_def need_str_def need_bool_def guard_def)
qed

lemma demo_decoded: "decode_canonical_message (\<lambda>b. Some demo_canonical) ''AA=='' = Inr demo_canonical"
proof -
  have "b64decode ''AA=='' = Some [0]" by code_simp
  then show ?thesis by (simp add: decode_canonical_message_def demo_canonical_def)
qed

lemma demo_agrees: "message_agrees demo_canonical demo_envelope demo_source_facts" "source_facts_match demo_envelope demo_source_facts"
  by code_simp+

lemma demo_uuid_parsed: "parse_uuid demo_uuid = Some demo_uuid"
  by code_simp

definition demo_signature :: string where
  "demo_signature = hmac_sha256_hex (replicate 32 7)
     (signing_input (HOOK_PREFIX @ demo_uuid) ''500'' ''q'' demo_uuid (sha256_hex [123, 125]))"

definition demo_hook_headers :: "string \<Rightarrow> string option" where
  "demo_hook_headers n =
     (if n = ''content-type'' then Some ''application/json''
      else if n = ''x-cyrene-wecom-timestamp'' then Some ''500''
      else if n = ''x-cyrene-wecom-request-id'' then Some ''q''
      else if n = ''x-cyrene-wecom-source-binding-id'' then Some demo_uuid
      else if n = ''x-cyrene-wecom-body-sha256'' then Some (sha256_hex [123, 125])
      else if n = ''x-cyrene-wecom-signature'' then Some (''sha256='' @ demo_signature) else None)"

lemma hex64_plain: "hex64 s \<Longrightarrow> strip s = s"
  by (rule strip_fixed) (auto simp: hex64_def list_all_iff hex_char_def is_space_def)

lemma demo_signature_hex: "hex64 demo_signature"
  unfolding demo_signature_def hmac_sha256_hex_def Let_def by (rule sha256_hex_hex64)

lemma demo_hook_header:
  "header_text demo_hook_headers ''content-type'' = ''application/json''"
  "header_text demo_hook_headers ''x-cyrene-wecom-timestamp'' = ''500''"
  "header_text demo_hook_headers ''x-cyrene-wecom-request-id'' = ''q''"
  "header_text demo_hook_headers ''x-cyrene-wecom-source-binding-id'' = demo_uuid"
  "header_text demo_hook_headers ''x-cyrene-wecom-body-sha256'' = sha256_hex [123, 125]"
  "header_text demo_hook_headers ''x-cyrene-wecom-signature'' = ''sha256='' @ demo_signature"
proof -
  have "strip ''application/json'' = ''application/json''" "strip ''500'' = ''500''" "strip ''q'' = ''q''" "strip demo_uuid = demo_uuid"
    by code_simp+
  moreover have "strip (''sha256='' @ demo_signature) = ''sha256='' @ demo_signature"
    by (rule strip_fixed) (use demo_signature_hex in \<open>auto simp: hex64_def list_all_iff hex_char_def is_space_def code_def\<close>)
  ultimately show "header_text demo_hook_headers ''content-type'' = ''application/json''"
    "header_text demo_hook_headers ''x-cyrene-wecom-timestamp'' = ''500''"
    "header_text demo_hook_headers ''x-cyrene-wecom-request-id'' = ''q''"
    "header_text demo_hook_headers ''x-cyrene-wecom-source-binding-id'' = demo_uuid"
    "header_text demo_hook_headers ''x-cyrene-wecom-body-sha256'' = sha256_hex [123, 125]"
    "header_text demo_hook_headers ''x-cyrene-wecom-signature'' = ''sha256='' @ demo_signature"
    by (simp_all add: header_text_def demo_hook_headers_def hex64_plain [OF sha256_hex_hex64])
qed

lemma demo_authentic: "authenticate_hook demo_source_facts (HOOK_PREFIX @ demo_uuid) demo_hook_headers [123, 125] 500 = Inr ()"
proof -
  have facts: "ws_binding_id demo_source_facts = demo_uuid" "ws_hmac_key demo_source_facts = replicate 32 7"
    by (simp_all add: demo_source_facts_def)
  have "lower (before_char (CHR '';'') ''application/json'') = ''application/json''" "timestamp_text ''500'' \<and> request_id_text ''q''"
    "seconds_of ''500'' = 500" by code_simp+
  moreover have "drop 7 (''sha256='' @ demo_signature) = demo_signature" "starts_with ''sha256='' (''sha256='' @ demo_signature)" by simp_all
  ultimately show ?thesis
    unfolding authenticate_hook_def Let_def demo_hook_header facts
    by (simp only: guard_def demo_signature_hex sha256_hex_hex64 demo_signature_def [symmetric] rbind_Inr simp_thms if_True)
      simp
qed

lemma demo_verified:
  "verify_and_decode_wecom_request (\<lambda>b. JsonValue (PDict demo_fields)) (\<lambda>b. Some demo_canonical) demo_source_facts demo_uuid
     (HOOK_PREFIX @ demo_uuid) demo_hook_headers [123, 125] 500 = Inr (demo_envelope\<lparr>wv_raw_body_sha256 := sha256_hex [123, 125]\<rparr>)"
proof -
  have facts: "ws_binding_id demo_source_facts = demo_uuid" by (simp add: demo_source_facts_def)
  have "wv_message_proto_b64 demo_envelope = ''AA==''" "list_all (\<lambda>c. 32 \<le> code c \<and> code c \<noteq> 127) (wv_transport_request_id demo_envelope)"
    by (simp_all add: demo_envelope_def code_def)
  then have "decode_envelope (\<lambda>b. JsonValue (PDict demo_fields)) (\<lambda>b. Some demo_canonical) demo_source_facts [123, 125] =
      Inr (demo_envelope\<lparr>wv_raw_body_sha256 := sha256_hex [123, 125]\<rparr>)"
    by (simp add: decode_envelope_def demo_parsed_envelope demo_decoded demo_agrees guard_def)
  moreover have "([123, 125] :: bytes) \<noteq> [] \<and> length ([123, 125] :: bytes) \<le> MAX_RAW_BODY_BYTES" by simp
  ultimately show ?thesis
    by (simp only: verify_and_decode_wecom_request_def facts demo_authentic guard_def rbind_Inr simp_thms if_True)
qed

section \<open>The challenge it carries\<close>

definition demo_private :: wecom_envelope where
  "demo_private = demo_envelope\<lparr>wv_raw_body_sha256 := sha256_hex [123, 125]\<rparr>"

definition demo_hook_binding :: sync_binding where
  "demo_hook_binding = new_binding demo_hub_principal demo_connection
     \<lparr>bq_connection_id = ''c'', bq_account_link_ref = None, bq_delegation_ref = None, bq_notification_target_ref = ''t''\<rparr> demo_uuid 2"

abbreviation demo_inbound :: wecom_message where
  "demo_inbound \<equiv> inbound_of demo_source_facts demo_private demo_canonical"

definition demo_challenge_event :: wecom_event where
  "demo_challenge_event = wecom_event_of demo_inbound demo_hook_binding ''z'' (sha256_hex [123, 125]) ''u'' 500000000"

lemma demo_hook_tables:
  "hs_wecom (nw_store demo_hook_world) = []" "hs_bindings (nw_store demo_hook_world) = [(demo_uuid, demo_hook_binding)]"
  unfolding demo_hook_world_def demo_hooking_def
  by (simp_all add: demo_hub_defs demo_hook_binding_def empty_hub_def create_connection_def create_binding_def act_simps
      require_grant_def bad_key_def connection_shape_def repository_shape_def selector_shape_def given_def replay_of_def
      mutation_def insert_or_def insert_row_def find_row_def or_else_def connection_scoped_def scope_of_def Let_def)

lemma demo_digest_given: "sha256_hex [123, 125] \<noteq> []"
proof -
  have "length (sha256_hex [123, 125]) = 64" using sha256_hex_hex64 [of "[123, 125]"] by (simp add: hex64_def)
  then show ?thesis by (metis list.size(3) zero_neq_numeral)
qed

lemma demo_inbound_fields:
  "wecom_shape demo_inbound ''z'' ''o'' ''w'' = Inr ()" "wm_fingerprint demo_inbound = Some (sha256_hex [123, 125])"
  "single_text_content demo_canonical = ''/link 0123456789abcdef''" "wm_self_authored demo_inbound = False"
  "wm_message_text demo_inbound = ''/link 0123456789abcdef''"
proof -
  show words: "single_text_content demo_canonical = ''/link 0123456789abcdef''" by code_simp
  then show "wm_message_text demo_inbound = ''/link 0123456789abcdef''" by (simp add: inbound_of_def)
  show "wm_fingerprint demo_inbound = Some (sha256_hex [123, 125])"
    by (simp add: inbound_of_def payload_fingerprint_def demo_private_def demo_digest_given)
  show self: "wm_self_authored demo_inbound = False"
    by (simp add: inbound_of_def self_authored_def demo_private_def demo_envelope_def demo_source_facts_def)
  show "wecom_shape demo_inbound ''z'' ''o'' ''w'' = Inr ()"
    using words by (simp add: wecom_shape_def inbound_of_def guard_def demo_private_def demo_envelope_def demo_canonical_def)
qed

lemma demo_hook_stored:
  "\<exists>s. persist_wecom_inbound demo_uuid ''z'' ''o'' ''w'' demo_inbound True ''u'' 500000000
     (nw_store demo_hook_world) = (Inr (demo_challenge_event, True), s) \<and> hs_wecom s = [(''u'', demo_challenge_event)]"
proof -
  have "source_binding demo_uuid ''o'' ''w'' (nw_store demo_hook_world) = Inr demo_hook_binding"
    by (simp add: source_binding_def find_row_def demo_hook_tables demo_hook_binding_def demo_hub_defs)
  then show ?thesis
    by (simp add: persist_wecom_inbound_def act_simps mutation_def demo_inbound_fields or_else_def given_def demo_digest_given sha256_hex_hex64
        find_source_event_def demo_hook_tables insert_or_def insert_row_def find_row_def demo_challenge_event_def Let_def)
qed

text \<open>The same event once its challenge was observed.\<close>

definition demo_observed_world :: intake_world where
  "demo_observed_world =
     \<lparr>nw_store = (nw_store demo_hook_world)\<lparr>hs_wecom := [(''u'', demo_challenge_event\<lparr>we_state := ChallengeObserved\<rparr>)]\<rparr>, nw_calls = []\<rparr>"

lemma demo_observed_facts:
  "find_source_event (ws_binding_id demo_source_facts) (wv_source_event_id demo_private) (nw_store demo_observed_world) =
     Some (demo_challenge_event\<lparr>we_state := ChallengeObserved\<rparr>)"
  "taken (\<lambda>b. Some demo_canonical) demo_source_facts demo_private (nw_store demo_observed_world)"
  "payload_fingerprint demo_private = we_payload_fingerprint demo_challenge_event"
  "we_id demo_challenge_event = ''u''"
proof -
  have event: "we_binding_id demo_challenge_event = demo_uuid" "we_source_event_id demo_challenge_event = ''z''"
    "we_payload_fingerprint demo_challenge_event = sha256_hex [123, 125]"
    by (simp_all add: demo_challenge_event_def wecom_event_of_def demo_hook_binding_def new_binding_def)
  show "we_id demo_challenge_event = ''u''" by (simp add: demo_challenge_event_def wecom_event_of_def)
  show "payload_fingerprint demo_private = we_payload_fingerprint demo_challenge_event"
    by (simp add: event payload_fingerprint_def demo_private_def demo_digest_given)
  show "find_source_event (ws_binding_id demo_source_facts) (wv_source_event_id demo_private) (nw_store demo_observed_world) =
      Some (demo_challenge_event\<lparr>we_state := ChallengeObserved\<rparr>)"
    by (simp add: find_source_event_def demo_observed_world_def event demo_source_facts_def demo_private_def demo_envelope_def)
  have "wv_message_proto_b64 demo_private = ''AA==''" by (simp add: demo_private_def demo_envelope_def)
  then have "decode_canonical_message (\<lambda>b. Some demo_canonical) (wv_message_proto_b64 demo_private) = Inr demo_canonical"
    by (simp add: demo_decoded)
  moreover have "source_binding demo_uuid ''o'' ''w'' (nw_store demo_observed_world) = Inr demo_hook_binding"
    by (simp add: source_binding_def find_row_def demo_observed_world_def demo_hook_tables demo_hook_binding_def demo_hub_defs)
  ultimately show "taken (\<lambda>b. Some demo_canonical) demo_source_facts demo_private (nw_store demo_observed_world)"
    using demo_inbound_fields(1)
    by (auto simp: taken_def demo_source_facts_def demo_private_def demo_envelope_def payload_fingerprint_def demo_digest_given sha256_hex_hex64)
qed

lemma demo_observing:
  assumes "hs_wecom s = [(''u'', demo_challenge_event)]"
  shows "\<exists>e s'. begin_wecom_challenge_observation demo_uuid ''u'' s = (Inr (e, True), s')"
proof -
  have "we_state demo_challenge_event = Received" "we_binding_id demo_challenge_event = demo_uuid"
    by (simp_all add: demo_challenge_event_def wecom_event_of_def demo_inbound_fields demo_hook_binding_def new_binding_def)
  then show ?thesis
    by (simp add: begin_wecom_challenge_observation_def wecom_event_at_def find_row_def assms act_simps mutation_def put_event_def Let_def)
qed

definition demo_observation :: intake_call where
  "demo_observation = ObserveChallenge None ''n'' ''y'' ''s'' ''u'' ''0123456789abcdef'' 800"

definition asked :: "intake_call list \<Rightarrow> intake_world \<Rightarrow> bool" where
  "asked cs w = (nw_calls w = cs)"

lemma asked_store: "keeps (asked cs) (inbox m)" "keeps (asked cs) (attempted (inbox m))"
  by (auto simp: valid_def asked_def inbox_def attempted_def split: sum.splits prod.splits)

lemma first_call:
  assumes "m (nw_store w) = (Inr (e, True), s')" "nw_calls w = []" "\<And>z. keeps (asked [c]) (k z)"
    and "bind (inbox m) (\<lambda>(x, first). if \<not> first then ret () else bind (attempted (account_call c f)) k) w = (r, w')"
  shows "nw_calls w' = [c]"
proof -
  have "k (f 0 c) (w\<lparr>nw_store := s', nw_calls := [c]\<rparr>) = (r, w')"
    using assms(4) by (simp add: assms(1,2) inbox_def account_call_def attempted_def bind_def)
  from keeps_apart [OF assms(3) _ this] show ?thesis by (simp add: asked_def)
qed

lemma demo_observed:
  assumes "hs_wecom (nw_store w) = [(''u'', demo_challenge_event)]" "nw_calls w = []"
    and "observe_private_link_challenge demo_intake demo_source_facts demo_private ''u'' ''0123456789abcdef'' w = (r, w')"
  shows "nw_calls w' = [demo_observation]"
proof -
  obtain e s' where e: "begin_wecom_challenge_observation demo_uuid ''u'' (nw_store w) = (Inr (e, True), s')"
    using demo_observing [OF assms(1)] by blast
  have fields: "ws_binding_id demo_source_facts = demo_uuid" "ws_bot_namespace demo_source_facts = ''n''"
    "ws_source_authority demo_source_facts = ''y''" "wv_sender_id demo_private = ''s''" "ne_now demo_intake = 500000000"
    "ne_principal demo_intake demo_uuid = Inr None"
    by (simp_all add: demo_source_facts_def demo_private_def demo_envelope_def demo_intake_def)
  have time: "500000000 div 1000000 + 300 = (800 :: int)" by simp
  show ?thesis unfolding demo_observation_def
    by (rule first_call [OF e assms(2) _ assms(3) [unfolded observe_private_link_challenge_def Let_def fields time bind_result_Inr]])
      (intro keeps_actions asked_store)
qed

lemma demo_challenge_delivered:
  assumes "admit_wecom_inbound (\<lambda>b. JsonValue (PDict demo_fields)) (\<lambda>b. Some demo_canonical) [(demo_uuid, demo_source_facts)] demo_intake
      (demo_delivery demo_hook_headers) demo_hook_world = (r, w')"
  shows "nw_calls w' = [demo_observation]"
proof -
  have c: "configured_source [(demo_uuid, demo_source_facts)] demo_uuid = Inr demo_source_facts"
    by (simp add: configured_source_def demo_uuid_parsed)
  have b: "read_bounded_request_body (demo_hook_headers ''content-length'') [[123], [125]] = Inr [123, 125]"
    by (simp add: read_bounded_request_body_def demo_hook_headers_def)
  have q: "hr_binding_id (demo_delivery h) = demo_uuid" "hr_path (demo_delivery h) = HOOK_PREFIX @ demo_uuid"
    "hr_headers (demo_delivery h) = h" "hr_chunks (demo_delivery h) = [[123], [125]]" for h by (simp_all add: demo_delivery_def)
  have time: "ne_now demo_intake div 1000000 = 500" by (simp add: demo_intake_def)
  have run: "admit_wecom_event (\<lambda>b. Some demo_canonical) demo_intake demo_source_facts demo_private demo_hook_world = (r, w')"
    using assms by (simp only: admit_wecom_inbound_def q c b time demo_verified act_simps sum.case prod.case demo_private_def)
  obtain s where s: "persist_wecom_inbound demo_uuid ''z'' ''o'' ''w'' demo_inbound True ''u'' 500000000 (nw_store demo_hook_world) =
      (Inr (demo_challenge_event, True), s)" "hs_wecom s = [(''u'', demo_challenge_event)]" using demo_hook_stored by blast
  have fields: "wv_message_proto_b64 demo_private = ''AA==''" "ws_binding_id demo_source_facts = demo_uuid" "wv_source_event_id demo_private = ''z''"
    "ws_organization_id demo_source_facts = ''o''" "ws_workspace_id demo_source_facts = ''w''" "ne_event_id demo_intake = ''u''"
    "ne_now demo_intake = 500000000" "wv_conversation_kind demo_private = ''private''" "we_state demo_challenge_event = Received"
    "we_id demo_challenge_event = ''u''" "self_authored demo_source_facts demo_private = False"
    using demo_inbound_fields(4)
    by (simp_all add: demo_private_def demo_envelope_def demo_source_facts_def demo_intake_def demo_challenge_event_def wecom_event_of_def inbound_of_def)
  have "link_command ''/link 0123456789abcdef'' = Some ''0123456789abcdef''" by code_simp
  then have route: "route_event demo_intake demo_source_facts demo_private ''/link 0123456789abcdef'' demo_challenge_event =
      observe_private_link_challenge demo_intake demo_source_facts demo_private ''u'' ''0123456789abcdef''"
    unfolding route_event_def admit_private_def fields by simp
  have w: "(demo_hook_world\<lparr>nw_store := s\<rparr>) = \<lparr>nw_store = s, nw_calls = []\<rparr>" by (simp add: demo_hook_world_def)
  obtain r1 w1 where o: "observe_private_link_challenge demo_intake demo_source_facts demo_private ''u'' ''0123456789abcdef''
      \<lparr>nw_store = s, nw_calls = []\<rparr> = (r1, w1)" by fastforce
  from demo_observed [OF _ _ this] s(2) have "nw_calls w1 = [demo_observation]" by simp
  moreover have "w' = w1"
  proof -
    have "admit_wecom_event (\<lambda>b. Some demo_canonical) demo_intake demo_source_facts demo_private demo_hook_world =
        (case andthen (observe_private_link_challenge demo_intake demo_source_facts demo_private ''u'' ''0123456789abcdef'') (ret ''u'')
            \<lparr>nw_store = s, nw_calls = []\<rparr> of (r, w) \<Rightarrow> (map_sum product_exn_of id r, w))"
      by (simp only: admit_wecom_event_def fields demo_decoded demo_inbound_fields(3) inbox_def act_simps s(1) sum.case prod.case w route)
    with run o show ?thesis by (cases r1) (auto simp: act_simps)
  qed
  ultimately show ?thesis by simp
qed

end
