(* ===== verification/Command_Facts.thy ===== *)
theory Command_Facts
  imports Issue_Commands Request_Facts
begin

text \<open>
  The command grammar: \<open>shlex.split\<close> is splitting at blanks where nothing is quoted, a quoted text
  is one token, and every command has a text that parses back to it.
\<close>

section \<open>Tokens\<close>

definition plain_text :: "string \<Rightarrow> bool" where
  "plain_text s = list_all (\<lambda>c. \<not> lex_quote c \<and> c \<noteq> BACKSLASH) s"

text \<open>The reference: cut at every blank, drop the empty pieces.\<close>

fun cut_blanks :: "string \<Rightarrow> string list" where
  "cut_blanks [] = [[]]"
| "cut_blanks (c # cs) =
     (if lex_space c then [] # cut_blanks cs
      else (case cut_blanks cs of [] \<Rightarrow> [[c]] | w # ws \<Rightarrow> (c # w) # ws))"

definition blank_words :: "string \<Rightarrow> string list" where
  "blank_words s = filter (\<lambda>w. w \<noteq> []) (cut_blanks s)"

lemma cut_some: "cut_blanks s \<noteq> []"
  by (cases s) (auto split: list.split)

lemma shlex_plain_from:
  assumes "plain_text s" "st = Between \<or> st = InWord"
  shows "shlex_from st token False s = Inr (filter (\<lambda>w. w \<noteq> []) (case cut_blanks s of [] \<Rightarrow> [token] | w # ws \<Rightarrow> (token @ w) # ws))"
  using assms
proof (induction s arbitrary: st token)
  case (Cons c s)
  from Cons.prems(1) have c: "\<not> lex_quote c" "c \<noteq> BACKSLASH" and s: "plain_text s" by (simp_all add: plain_text_def)
  obtain w ws where w: "cut_blanks s = w # ws" using cut_some [of s] by (cases "cut_blanks s") auto
  show ?case
    using Cons.prems(2) Cons.IH [OF s, of Between "[]"] Cons.IH [OF s, of InWord "token @ [c]"] c w by (auto simp: emit_def)
qed (auto simp: emit_def)

lemma shlex_plain: "plain_text s \<Longrightarrow> shlex_split s = Inr (blank_words s)"
  using shlex_plain_from [of s Between "[]"] cut_some [of s] by (auto simp: shlex_split_def blank_words_def split: list.split)

text \<open>A word without blanks, and a text between quotes.\<close>

definition bare :: "string \<Rightarrow> bool" where
  "bare w = list_all (\<lambda>c. \<not> lex_space c \<and> \<not> lex_quote c \<and> c \<noteq> BACKSLASH) w"

lemma shlex_bare:
  assumes "bare w" "st = Between \<or> st = InWord" "w \<noteq> []"
  shows "shlex_from st token hadq (w @ rest) = shlex_from InWord (token @ w) hadq rest"
  using assms
proof (induction w arbitrary: st token)
  case (Cons c w)
  then show ?case by (cases "w = []") (auto simp: bare_def)
qed simp

definition quote_char :: "char \<Rightarrow> string" where
  "quote_char c = (if c = APOSTROPHE then [APOSTROPHE, CHR 0x22, APOSTROPHE, CHR 0x22, APOSTROPHE] else [c])"

definition shell_quote :: "string \<Rightarrow> string" where
  "shell_quote s = APOSTROPHE # concat (map quote_char s) @ [APOSTROPHE]"

lemma lex_marks:
  "lex_quote APOSTROPHE" "lex_quote (CHR 0x22)" "\<not> lex_space APOSTROPHE" "\<not> lex_space (CHR 0x22)" "APOSTROPHE \<noteq> BACKSLASH"
  "CHR 0x22 \<noteq> BACKSLASH" "CHR 0x22 \<noteq> APOSTROPHE" "lex_space (CHR '' '')"
  by code_simp+

lemma shlex_quoted:
  "shlex_from (InQuote APOSTROPHE) token True (concat (map quote_char s) @ APOSTROPHE # rest) = shlex_from InWord (token @ s) True rest"
proof (induction s arbitrary: token)
  case (Cons c s)
  show ?case
  proof (cases "c = APOSTROPHE")
    case True
    have "shlex_from (InQuote APOSTROPHE) token True (quote_char c @ r) = shlex_from (InQuote APOSTROPHE) (token @ [c]) True r" for r
      by (simp only: quote_char_def True if_True if_False append.simps shlex_from.simps lex_marks lex_marks(7) [symmetric] simp_thms)
    with Cons.IH show ?thesis by simp
  qed (use Cons.IH lex_marks in \<open>simp add: quote_char_def\<close>)
qed simp

lemma shlex_shell_quote:
  "shlex_from Between [] False (shell_quote s @ rest) = shlex_from InWord s True rest"
proof -
  have "shlex_from Between [] False (APOSTROPHE # r) = shlex_from (InQuote APOSTROPHE) [] False r" for r
    by (simp only: shlex_from.simps lex_marks if_False if_True simp_thms)
  moreover have "shlex_from (InQuote q) [] False r = shlex_from (InQuote q) [] True r" if "r \<noteq> []" for q r
    using that by (cases r) simp_all
  ultimately show ?thesis using shlex_quoted [of "[]" s rest] by (simp add: shell_quote_def)
qed

section \<open>Issue numbers\<close>

definition number_value :: "int \<Rightarrow> string \<Rightarrow> int" where
  "number_value a d = foldl (\<lambda>n c. 10 * n + int (code c - 48)) a d"

lemma number_value_simps [simp]:
  "number_value a [] = a" "number_value a (c # d) = number_value (10 * a + int (code c - 48)) d"
  "number_value a (d @ [c]) = 10 * number_value a d + int (code c - 48)"
  by (simp_all add: number_value_def)

lemma digits_bounds: "list_all dec_digit d \<Longrightarrow> a * 10 ^ length d \<le> number_value a d \<and> number_value a d < (a + 1) * 10 ^ length d"
proof (induction d arbitrary: a)
  case (Cons c d)
  let ?x = "int (code c - 48)"
  have "0 \<le> ?x" "?x \<le> 9" using Cons.prems by (auto simp: dec_digit_def)
  then have "(a * 10) * 10 ^ length d \<le> (10 * a + ?x) * 10 ^ length d" "(10 * a + ?x + 1) * 10 ^ length d \<le> ((a + 1) * 10) * 10 ^ length d"
    by (intro mult_right_mono; simp)+
  moreover have "(10 * a + ?x) * 10 ^ length d \<le> number_value (10 * a + ?x) d" "number_value (10 * a + ?x) d < (10 * a + ?x + 1) * 10 ^ length d"
    using Cons.IH [of "10 * a + ?x"] Cons.prems by simp_all
  ultimately have "(a * 10) * 10 ^ length d \<le> number_value a (c # d)" "number_value a (c # d) < ((a + 1) * 10) * 10 ^ length d"
    by (simp_all only: number_value_simps)
  then show ?case by (simp only: length_Cons power_Suc mult.assoc)
qed simp

text \<open>A number written without leading zeros, by its first digit.\<close>

lemma number_bounds:
  assumes "list_all dec_digit d" "d \<noteq> []" "hd d \<noteq> CHR ''0''"
  shows "10 ^ (length d - 1) \<le> number_value 0 d \<and> number_value 0 d < 10 ^ length d"
proof -
  obtain c r where d: "d = c # r" using assms(2) by (cases d) auto
  have "c = char_of (code c)" by (simp add: code_def)
  moreover have "char_of (48 :: nat) = CHR ''0''" by code_simp
  ultimately have "code c \<noteq> 48" using assms(3) d by (metis list.sel(1))
  then have "1 \<le> int (code c - 48)" using assms(1) d by (auto simp: dec_digit_def)
  then have "1 * 10 ^ length r \<le> int (code c - 48) * 10 ^ length r" by (rule mult_right_mono) simp
  also have "\<dots> \<le> number_value 0 d" using digits_bounds [of r "int (code c - 48)"] assms(1) by (simp add: d)
  finally show ?thesis using digits_bounds [of d 0] assms(1) by (simp add: d)
qed

lemma issue_number_Some:
  assumes "issue_number s = Some n"
  shows "1 \<le> n \<and> n \<le> 999999999"
proof -
  obtain d where d: "d \<noteq> []" "list_all dec_digit d" "hd d \<noteq> CHR ''0''" "length d \<le> 9" "n = number_value 0 d"
    using assms by (auto simp: issue_number_def Let_def number_value_def split: if_splits)
  have "(1::int) \<le> 10 ^ (length d - 1)" by (rule one_le_power) simp
  with number_bounds [OF d(2,1,3)] have "1 \<le> n" "n < 10 ^ length d" unfolding d(5) by linarith+
  moreover have "(10::int) ^ length d \<le> 10 ^ 9" using d(4) by (intro power_increasing) simp_all
  ultimately show ?thesis by simp
qed

lemma nat_str_digits: "list_all dec_digit (nat_str n) \<and> nat_str n \<noteq> [] \<and> number_value 0 (nat_str n) = int n \<and> (0 < n \<longrightarrow> hd (nat_str n) \<noteq> CHR ''0'')"
proof (induction n rule: nat_str.induct)
  case (1 n)
  have code: "code (char_of (48 + k)) = 48 + k" if "k < 10" for k :: nat using that by (simp add: code_def)
  have small: "dec_digit (char_of (48 + k))" if "k < 10" for k :: nat using code [OF that] that by (simp add: dec_digit_def)
  have "code (CHR ''0'') = 48" by code_simp
  then have zero: "char_of (48 + k) \<noteq> CHR ''0''" if "0 < k" "k < 10" for k :: nat
    using code [OF that(2)] that(1) by (metis add_cancel_left_right less_irrefl)
  show ?case
  proof (cases "n < 10")
    case True
    then have n: "nat_str n = [char_of (48 + n)]" by (simp add: nat_str.simps [of n])
    show ?thesis using code [OF True] small [OF True] zero [of n] True by (simp add: n)
  next
    case False
    then have n: "nat_str n = nat_str (n div 10) @ [char_of (48 + n mod 10)]" by (simp add: nat_str.simps [of n])
    have "10 * int (n div 10) + int (n mod 10) = int n" by presburger
    moreover have "n mod 10 < 10" by simp
    ultimately show ?thesis using False 1 [OF False] code [of "n mod 10"] small [of "n mod 10"] by (simp add: n hd_append)
  qed
qed

lemma issue_number_written:
  assumes "1 \<le> n" "n \<le> 999999999"
  shows "issue_number (int_str n) = Some n"
proof -
  let ?d = "nat_str (nat n)"
  from nat_str_digits [of "nat n"] assms(1) have d: "list_all dec_digit ?d" "?d \<noteq> []" "number_value 0 ?d = n" "hd ?d \<noteq> CHR ''0''" by auto
  have "length ?d \<le> 9"
  proof (rule ccontr)
    assume "\<not> length ?d \<le> 9"
    then have "(10::int) ^ 9 \<le> 10 ^ (length ?d - 1)" by (intro power_increasing) simp_all
    with number_bounds [OF d(1,2,4)] d(3) assms(2) show False by simp
  qed
  moreover obtain c r where c: "?d = c # r" using d(2) by (cases ?d) auto
  moreover have "c \<noteq> CHR ''#''" using d(1) c by (auto simp: dec_digit_def code_def)
  ultimately show ?thesis using d assms(1) by (simp add: issue_number_def int_str_def number_value_def)
qed

section \<open>Commands\<close>

text \<open>What the parser accepts.\<close>

definition valid_command :: "issue_command \<Rightarrow> bool" where
  "valid_command c =
     (1 \<le> ic_issue_number c \<and> ic_issue_number c \<le> 999999999 \<and>
      (case ic_body c of
         None \<Rightarrow> ic_operation_id c \<noteq> IssueComment
       | Some b \<Rightarrow> ic_operation_id c = IssueComment \<and> strip b = b \<and> b \<noteq> [] \<and> length b \<le> 4000))"

lemma parse_valid: "parse_issue_command s = Inr c \<Longrightarrow> valid_command c"
  by (auto simp: parse_issue_command_def command_of_parts_def valid_command_def Let_def dest: issue_number_Some
      split: if_splits sum.splits option.splits)

text \<open>A command as a text, the body between quotes.\<close>

fun action_word :: "issue_action \<Rightarrow> string" where
  "action_word IssueQuery = ''query''"
| "action_word IssueComment = ''comment''"
| "action_word IssueClose = ''close''"
| "action_word IssueReopen = ''reopen''"

definition command_text :: "issue_command \<Rightarrow> string" where
  "command_text c =
     ''/issue '' @ action_word (ic_operation_id c) @ '' '' @ int_str (ic_issue_number c) @
       (case ic_body c of None \<Rightarrow> [] | Some b \<Rightarrow> '' '' @ shell_quote b)"

definition command_words :: "issue_command \<Rightarrow> string list" where
  "command_words c =
     [''/issue'', action_word (ic_operation_id c), int_str (ic_issue_number c)] @ (case ic_body c of None \<Rightarrow> [] | Some b \<Rightarrow> [b])"

lemma bare_words: "bare ''/issue''" "bare (action_word a)" "bare (int_str n)" "action_word a \<noteq> []" "int_str n \<noteq> []"
proof -
  have digit: "dec_digit c \<Longrightarrow> \<not> lex_space c \<and> \<not> lex_quote c \<and> c \<noteq> BACKSLASH" for c
    by (auto simp: dec_digit_def lex_space_def lex_quote_def code_def)
  have "bare (nat_str k)" for k using nat_str_digits [of k] digit by (auto simp: bare_def list_all_iff)
  moreover have "bare ''-''" "bare ''/issue''" by code_simp+
  ultimately show "bare ''/issue''" "bare (int_str n)" by (auto simp: int_str_def bare_def)
  show "bare (action_word a)" by (cases a; simp; code_simp)
  show "action_word a \<noteq> []" by (cases a) simp_all
  show "int_str n \<noteq> []" using nat_str_digits by (simp add: int_str_def)
qed

lemma shlex_word: "bare w \<Longrightarrow> w \<noteq> [] \<Longrightarrow> shlex_from Between [] False (w @ CHR '' '' # rest) = rbind (shlex_from Between [] False rest) (\<lambda>ts. Inr (w # ts))"
  using lex_marks(8) by (simp add: shlex_bare emit_def)

lemma command_text_words: "shlex_split (command_text c) = Inr (command_words c)"
proof -
  note word = shlex_word [OF bare_words(1)] shlex_word [OF bare_words(2,4)] shlex_word [OF bare_words(3,5)]
  have last: "shlex_from Between [] False (int_str n) = Inr [int_str n]" for n
    using shlex_bare [OF bare_words(3), of Between n "[]" False "[]"] bare_words(5) by (simp add: emit_def)
  have quoted: "shlex_from Between [] False (shell_quote b) = Inr [b]" for b
    using shlex_shell_quote [of b "[]"] by (simp add: emit_def)
  have "command_text c = ''/issue'' @ CHR '' '' # action_word (ic_operation_id c) @ CHR '' '' # int_str (ic_issue_number c) @
      (case ic_body c of None \<Rightarrow> [] | Some b \<Rightarrow> CHR '' '' # shell_quote b)"
    by (simp add: command_text_def split: option.split)
  then show ?thesis
    by (cases "ic_body c") (simp_all add: shlex_split_def command_words_def word last quoted result_simps del: append.simps)
qed

lemma lower_word: "lower (action_word a) = action_word a"
  by (cases a; simp only: action_word.simps; code_simp)

lemma parse_text:
  assumes "valid_command c" "length (command_text c) \<le> MAX_COMMAND_LENGTH"
  shows "parse_issue_command (command_text c) = Inr c"
proof -
  from assms(1) have number: "issue_number (int_str (ic_issue_number c)) = Some (ic_issue_number c)"
    by (simp add: valid_command_def issue_number_written)
  have "\<not> list_all is_space (command_text c)" by (simp add: command_text_def is_space_def code_def)
  then have "\<not> blank (command_text c)" by (simp add: blank_def strip_eq_Nil_iff)
  moreover have "command_of_parts (action_word (ic_operation_id c)) (ic_issue_number c) (command_words c) = Inr c"
    using assms(1) by (cases c; cases "ic_operation_id c")
      (auto simp: valid_command_def command_of_parts_def command_words_def split: option.splits)
  ultimately show ?thesis
    using assms(2) number by (simp add: parse_issue_command_def command_text_words lower_word) (simp add: command_words_def lower_word)
qed

end
