(* ===== verification/Hub_Properties.thy ===== *)
theory Hub_Properties
  imports Hub_Examples Command_Facts
begin

text \<open>
  The properties of the integration hub: the outbox and its worker, the signed execution, the WeCom
  ingress and the command grammar.
\<close>

section \<open>The outbox\<close>

text \<open>
  C18. Every history of the hub is a run of the abstract job machine: a stored job has reached its
  state, fencing token and attempts from \<open>READY\<close>, 0, 0 by moves of the machine, and any further
  operation moves it along, without losing it and without changing what identifies it (its kind,
  scope, operation, idempotency key, payload).
\<close>

theorem jobs_follow_the_machine:
  assumes "hub_reachable s" "find_row i (hs_jobs s) = Some j"
  shows "ob_id j = i \<and> job_steps (readonly_query j) (Ready, 0, 0) (view j) \<and>
    (\<exists>j'. find_row i (hs_jobs (hub_perform op s)) = Some j' \<and> job_ident j' = job_ident j \<and>
       job_steps (readonly_query j) (view j) (view j'))"
proof -
  from assms(1) have ok: "jobs_ok s" by (rule hub_reachable_ok)
  from perform_advances [OF ok, of op] assms(2) obtain j' where
    "find_row i (hs_jobs (hub_perform op s)) = Some j'" "job_moves j j'" by (auto simp: progress_def)
  with jobs_ok_row [OF ok assms(2)] show ?thesis by (auto simp: job_moves_def job_ok_def)
qed

theorem jobs_follow_the_machine_witness:
  "job_steps (readonly_query demo_notify) (Ready, 0, 0) (view demo_notify) \<and>
   (\<exists>j'. find_row ''j'' (hs_jobs (hub_perform (ClaimJob demo_env ''w1'' 10 30) demo_hub)) = Some j' \<and> job_ident j' = job_ident demo_notify)"
proof -
  have "find_row ''j'' (hs_jobs demo_hub) = Some demo_notify" by (simp add: demo_hub_tables find_row_def)
  from jobs_follow_the_machine [OF demo_hub_reachable this] show ?thesis by blast
qed

text \<open>
  C19. The outbox stops sending: however the operations of the hub are interleaved, a job crosses
  the write boundary (its state becomes \<open>SENDING\<close>) at most once when it writes, and at most four
  times when it is a read-only query.
\<close>

theorem writes_cross_once:
  "crossings i ops empty_hub \<le>
     (case find_row i (hs_jobs (hub_run ops empty_hub)) of None \<Rightarrow> 0 | Some j \<Rightarrow> if readonly_query j then 4 else 1)"
proof (cases "find_row i (hs_jobs (hub_run ops empty_hub))")
  case None
  with no_job_no_crossing [OF empty_hub_ok] show ?thesis by simp
next
  case (Some j)
  have "crossings i ops empty_hub \<le> sends_of (readonly_query j) i empty_hub"
    using run_crossings [OF empty_hub_ok, of i ops "readonly_query j"] Some by simp
  also have "\<dots> = (if readonly_query j then 4 else 1)"
    by (simp add: sends_of_def empty_hub_def find_row_def sends_left_def sent_def)
  finally show ?thesis by (simp only: Some option.case)
qed

text \<open>
  C20. The messages of the hub are handed to the transport at most once each: whatever the workers,
  the signed executions and the other operations do, and however often they crash or repeat, no
  two sends carry the same kind and deduplication key.
\<close>

theorem messages_are_sent_once:
  assumes "hub_serves w"
  shows "distinct (messages (hw_calls w))"
  using serves_messages [OF assms] by (simp add: messages_ok_def)

theorem messages_are_sent_once_witness:
  "\<exists>w. hub_serves w \<and> hw_calls w = [demo_call] \<and> distinct (messages (hw_calls w))"
proof -
  obtain r w where run: "run_once demo_dispatcher ''w1'' 10 demo_hub_world = (r, w)" by fastforce
  from hub_serves.work [OF demo_serves run] have "hub_serves w" .
  with messages_are_sent_once [OF this] demo_worker_run [OF run] show ?thesis by blast
qed

text \<open>
  C21. A claim that was superseded can do nothing: once the fencing token of a job is higher, every
  operation that presents the old one raises and leaves the store as it is, for ever.
\<close>

theorem superseded_claims_are_inert:
  assumes "hub_reachable s" "find_row i (hs_jobs s) = Some j" "fence < ob_claim_fence j"
  shows "inert (mark_sending i fence now) (hub_run ops s) \<and> inert (fail_claimed_job env i fence why now) (hub_run ops s) \<and>
    inert (mark_awaiting_authority i fence ivk st now) (hub_run ops s) \<and>
    inert (prepare_authority_enqueue i fence candidate now) (hub_run ops s) \<and>
    inert (update_authority_evidence i fence ivk st now) (hub_run ops s) \<and>
    inert (mark_authority_result_unknown env i fence ivk now) (hub_run ops s) \<and>
    inert (finish_job env i fence js evidence receipt clock) (hub_run ops s) \<and>
    inert (retry_readonly_job env i fence now wait) (hub_run ops s)"
proof -
  from run_fence [OF hub_reachable_ok [OF assms(1)] assms(2), of ops] assms(3) obtain j' where
    j': "find_row i (hs_jobs (hub_run ops s)) = Some j'" "ob_claim_fence j' \<noteq> fence" by fastforce
  show ?thesis by (intro conjI) (rule stale_handlers [OF j'])+
qed

theorem superseded_claims_are_inert_witness:
  "\<forall>now ops. inert (mark_sending ''j'' 1 now) (hub_run ops (hub_run demo_claims demo_hub))"
proof -
  have s: "hub_reachable (hub_run demo_claims demo_hub)" by (rule run_reachable [OF demo_hub_reachable])
  have "hs_jobs (hub_run demo_claims demo_hub) = [(''j'', demo_second)]"
    unfolding demo_claims_def hub_run_simps by (rule claim_again [OF demo_claims_jobs])
  then have "find_row ''j'' (hs_jobs (hub_run demo_claims demo_hub)) = Some demo_second" by (simp add: find_row_def)
  from superseded_claims_are_inert [OF s this, of 1] show ?thesis by (simp add: demo_second_def)
qed

section \<open>Execution\<close>

text \<open>
  C22. The provider is only called for an authorized intent: an execution makes no call, or asks
  Account Center for a lease, or makes after it exactly the one provider call that its stored
  operation stands for; and then the operation is the actor's own, the grant, the approved
  invocation, the signed proof, the argument digest and the account lease all agree with it, its
  connection is enabled and its job was claimed or waiting for authority.
\<close>

theorem only_authorized_intents_execute:
  assumes "hub_reachable (hw_store w)" "execute_authorized_action dp xe loads p xc now w = (r, w')"
  shows "\<exists>extra. hw_calls w' = hw_calls w @ extra \<and> (extra = [] \<or> (\<exists>l g d. extra = [GetAuthorization l g d]) \<or>
    (\<exists>l g d call o' c a i j. extra = [GetAuthorization l g d, call] \<and> authorized_intent loads p xc now (hw_store w) o' c a \<and>
       action_call a c o' = Some call \<and> find_row i (hs_jobs (hw_store w)) = Some j \<and> ob_operation_id j = Some (xc_operation_id xc) \<and>
       (ob_state j = Claimed \<or> ob_state j = AwaitingAuthority)))"
  by (rule execution_calls [OF reachable_hub_ok [OF assms(1)] assms(2)])

theorem only_authorized_intents_execute_witness:
  "\<forall>xe loads xc. \<exists>extra. hw_calls (snd (execute_authorized_action demo_dispatcher xe loads demo_hub_principal xc 9 demo_hub_world)) = extra \<and> length extra \<le> 2"
proof -
  have "hub_reachable (hw_store demo_hub_world)" by (simp add: demo_hub_world_def demo_hub_reachable)
  from only_authorized_intents_execute [OF this prod.collapse [symmetric], of demo_dispatcher _ _ demo_hub_principal _ 9]
  have "\<exists>extra. hw_calls (snd (execute_authorized_action demo_dispatcher xe loads demo_hub_principal xc 9 demo_hub_world)) = extra \<and> length extra \<le> 2"
    for xe loads xc by (fastforce simp: demo_hub_world_def)
  then show ?thesis by blast
qed

section \<open>Intents\<close>

text \<open>
  C23. An issue intent is idempotent for its actor: whatever happens later, the same key with the
  same request returns the intent it made and changes nothing, whatever the grants of the actor
  have become, as long as its checks pass; and the same key with another request is refused.
\<close>

theorem issue_intents_are_idempotent:
  assumes "hub_reachable s" "enqueue_issue_action p request authorization op_id job_id now s = (Inr o', s1)"
    and "rq_connection_id request' = rq_connection_id request" "rq_idempotency_key request' = rq_idempotency_key request"
    and "p' = p\<lparr>hp_allowed_operation_ids := grants, hp_expires_at := expires\<rparr>"
    and "enqueue_issue_action p' request' authorization' op_id' job_id' now' (hub_run ops s1) = (res, s2)"
  shows "s2 = hub_run ops s1 \<and> (\<forall>o2. res = Inr o2 \<longrightarrow> io_id o2 = io_id o' \<and> intent_digest request' = intent_digest request) \<and>
    (intent_digest request' = intent_digest request \<and> issue_ready p' request' authorization' now' s2 \<longrightarrow> (\<exists>o2. res = Inr o2))"
proof -
  let ?c = "rq_connection_id request" and ?k = "rq_idempotency_key request"
  let ?x = "(hp_allowed_operation_ids p, hp_expires_at p, request, authorization, op_id, job_id, now)"
  let ?y = "(grants, expires, request', authorization', op_id', job_id', now')"
  have ok: "hub_ok s" by (rule reachable_hub_ok [OF assms(1)])
  have x: "issue_attempt p ?c ?k ?x s = (Inr o', s1)" using assms(2) by (simp add: issue_attempt_def)
  have same: "request'\<lparr>rq_connection_id := ?c, rq_idempotency_key := ?k\<rparr> = request'"
    using assms(3,4) by (cases request') simp
  have y: "issue_attempt p ?c ?k ?y (hub_run ops s1) = (res, s2)" using assms(5,6) same by (simp add: issue_attempt_def)
  have later: "\<exists>os. hub_run ops s1 = hub_run os s1" by blast
  from intents.created [OF ok x] same have bound: "hub_ok s1" "intent_there (io_id o') s1"
    "bound_intent (scope_of p) ?c ?k s1 = Some (intent_digest request, io_id o')" by simp_all
  have run: "hub_ok (hub_run ops s1) \<and> bound_intent (scope_of p) ?c ?k (hub_run ops s1) = Some (intent_digest request, io_id o')"
    using intents.later_keeps [OF later bound(1,3,2)] by blast
  from intents.create_bound [OF run [THEN conjunct1] run [THEN conjunct2] y] same have kept: "s2 = hub_run ops s1"
    "\<forall>o2. res = Inr o2 \<longrightarrow> intent_digest request = intent_digest request' \<and> io_id o2 = io_id o'" by (simp_all only: prod.case simp_thms; blast)+
  have returns: "\<exists>o2. res = Inr o2" if "intent_digest request' = intent_digest request" "issue_ready p' request' authorization' now' s2"
  proof -
    have "\<exists>o2. issue_attempt p ?c ?k ?y (hub_run ops s1) = (Inr o2, hub_run ops s1) \<and> io_id o2 = io_id o'"
      by (rule intents.retry_returns [OF ok x later]) (use that kept(1) assms(5) in \<open>simp_all add: same\<close>)
    with y show ?thesis by auto
  qed
  show ?thesis
  proof (intro conjI allI impI)
    show "io_id o2 = io_id o'" "intent_digest request' = intent_digest request" if "res = Inr o2" for o2
      using kept(2) that by (blast intro: sym)+
  qed (fact kept(1) | blast intro: returns)+
qed

theorem issue_intents_are_idempotent_witness:
  "\<exists>(o' :: issue_operation) s1. \<forall>ops res s2. enqueue_issue_action demo_hub_principal demo_close None ''p2'' ''j2'' 9 (hub_run ops s1) = (res, s2) \<longrightarrow>
     s2 = hub_run ops s1 \<and> (\<forall>o2. res = Inr o2 \<longrightarrow> io_id o2 = io_id o')"
proof -
  obtain o' s1 where s1: "enqueue_issue_action demo_hub_principal demo_close None ''p'' ''j'' 6 demo_linked = (Inr o', s1)"
    using demo_close_queued by blast
  have same: "demo_hub_principal = demo_hub_principal\<lparr>hp_allowed_operation_ids := hp_allowed_operation_ids demo_hub_principal, hp_expires_at := None\<rparr>"
    by (simp add: demo_hub_principal_def)
  have step: "s2 = hub_run ops s1 \<and> (\<forall>o2. res = Inr o2 \<longrightarrow> io_id o2 = io_id o')"
    if "enqueue_issue_action demo_hub_principal demo_close None ''p2'' ''j2'' 9 (hub_run ops s1) = (res, s2)" for ops res s2
  proof -
    note kept = issue_intents_are_idempotent [OF demo_linked_reachable s1 refl refl same that]
    show ?thesis by (rule conjI [OF kept [THEN conjunct1]]) (use kept [THEN conjunct2, THEN conjunct1] in blast)
  qed
  show ?thesis by (rule exI [of _ o'], rule exI [of _ s1], intro allI impI, rule step)
qed

section \<open>Calls that cannot succeed\<close>

text \<open>
  C24. A reply that was being sent when its worker died stops the whole outbox: once its lease has
  run out, recovering expired claims always fails, because it queues the same reply again, and
  every claim recovers first, so that no worker gets any job.
\<close>

theorem expired_reply_blocks_the_outbox:
  assumes "jobs_ok s" "find_row (ob_id j) (hs_jobs s) = Some j" "ob_kind j = CommandReply" "ob_state j = Sending"
    and "ob_lease_expires_at j = Some t" "t \<le> now"
    and "ob_operation_id j = Some i" "find_row i (hs_operations s) = Some o'" "has_reply_context o'"
    and "ob_idempotency_key j = Some (reply_key o')"
  shows "inert (recover_expired_claims env now) s \<and> inert (claim_job env worker now lease) s"
proof -
  have "job_key j = Some (CommandReply, reply_key o')" using assms(3,10) by (simp add: job_key_def)
  with assms have "reply_stuck j i s" by (auto simp: reply_stuck_def)
  from expired_reply_raises [OF assms(1) this assms(3,7,4,5,6)] show ?thesis by (simp add: claim_blocked)
qed

theorem expired_reply_blocks_the_outbox_witness:
  "\<exists>s. jobs_ok s \<and> inert (recover_expired_claims demo_env 20) s \<and> inert (claim_job demo_env ''w1'' 20 30) s"
proof -
  obtain o' where o': "find_row ''p'' (hs_operations demo_commanded) = Some o'" "has_reply_context o'"
    using demo_commanded_rows by blast
  from reachable_hub_ok [OF demo_commanded_reachable] o'(1) have id: "io_id o' = ''p''" by (rule operation_row_id)
  have job: "jobs_ok (demo_stuck o')" "find_row (ob_id (demo_reply o')) (hs_jobs (demo_stuck o')) = Some (demo_reply o')"
    "hs_operations (demo_stuck o') = hs_operations demo_commanded" by (simp_all add: demo_stuck_ok)
  from expired_reply_blocks_the_outbox [OF job(1,2), of 10 20 "''p''" o' demo_env "''w1''" 30] o' id job show ?thesis
    by (auto simp: demo_reply_def reply_job_def)
qed

text \<open>
  C25. A command that Authority denied cannot be failed: for an issue action that came from a chat
  message, failing the claimed job always raises and changes nothing, because the code queues the
  reply to the sender twice under one key. The job stays claimed and is tried again.
\<close>

theorem denied_command_cannot_fail:
  assumes "find_row i (hs_jobs s) = Some j" "ob_kind j = IssueAction" "ob_operation_id j = Some oi"
    and "find_row oi (hs_operations s) = Some o'" "has_reply_context o'"
  shows "inert (fail_claimed_job env i fence why now) s"
  by (rule fail_command_raises [OF assms])

theorem denied_command_cannot_fail_witness:
  "hub_reachable demo_commanded \<and> inert (fail_claimed_job demo_env ''j'' 1 ''authorization_denied'' 9) demo_commanded"
proof -
  obtain j o' where "find_row ''j'' (hs_jobs demo_commanded) = Some j" "ob_kind j = IssueAction" "ob_operation_id j = Some ''p''"
    "find_row ''p'' (hs_operations demo_commanded) = Some o'" "has_reply_context o'" using demo_commanded_rows by blast
  from denied_command_cannot_fail [OF this] demo_commanded_reachable show ?thesis by blast
qed

section \<open>The WeCom ingress\<close>

text \<open>
  C26. Nothing enters without the signature of a configured source: a delivery whose path, bounded
  body, HMAC over the exact body and timestamp window do not all agree with a configured source is
  refused, with no row stored and no call made.
\<close>

theorem unsigned_deliveries_change_nothing:
  assumes "admit_wecom_inbound loads parse sources env q w = (r, w')" "\<not> signed_delivery sources (ne_now env div 1000000) q"
  shows "w' = w \<and> (\<exists>x. r = Inl x)"
  by (rule unsigned_inert [OF assms])

theorem unsigned_deliveries_change_nothing_witness:
  "\<forall>loads parse. \<exists>x. admit_wecom_inbound loads parse [(demo_uuid, demo_source_facts)] demo_intake (demo_delivery (\<lambda>n. None)) demo_hook_world =
     (Inl x, demo_hook_world)"
proof -
  have "\<not> signed_delivery [(demo_uuid, demo_source_facts)] (ne_now demo_intake div 1000000) (demo_delivery (\<lambda>n. None))"
    by (auto simp: signed_delivery_def demo_delivery_def header_text_def Let_def)
  from unsigned_deliveries_change_nothing [OF prod.collapse [symmetric] this, of _ _ demo_hook_world] show ?thesis
    by (metis prod.collapse)
qed

text \<open>
  C27. A delivery that comes again changes nothing: when the event of a source is stored, a delivery
  with another payload is refused, and one whose event was dealt with answers with the stored event;
  neither touches the store or calls anyone. The answers are exact wherever the inbox takes the
  message: it decodes, has the shape, and its source is still bound; the new payload is answered
  with the conflict, the old one with the id of the stored event.
\<close>

theorem redelivery_changes_nothing:
  assumes "find_source_event (ws_binding_id s) (wv_source_event_id e) (nw_store w) = Some ev"
    and "payload_fingerprint e \<noteq> we_payload_fingerprint ev \<or> we_state ev \<notin> {Received, ChallengeObserving}"
    and "admit_wecom_event parse env s e w = (r, w')"
  shows "w' = w \<and> (case r of Inl x \<Rightarrow> True | Inr i \<Rightarrow> i = we_id ev \<and> payload_fingerprint e = we_payload_fingerprint ev) \<and>
    (taken parse s e (nw_store w) \<longrightarrow>
       r = (if payload_fingerprint e = we_payload_fingerprint ev then Inr (we_id ev)
            else Inl (product_exn_of (IntegrationConflict ''WeCom source event ID was reused with a different payload''))))"
proof (intro conjI impI)
  note known = admit_known [OF assms(1,3,2)]
  show "w' = w" using known by (rule conjunct1)
  show "case r of Inl x \<Rightarrow> True | Inr i \<Rightarrow> i = we_id ev \<and> payload_fingerprint e = we_payload_fingerprint ev"
    using known by (simp split: sum.split)
  assume "taken parse s e (nw_store w)"
  from admit_again [OF assms(1) this, of env] assms(2,3)
  show "r = (if payload_fingerprint e = we_payload_fingerprint ev then Inr (we_id ev)
      else Inl (product_exn_of (IntegrationConflict ''WeCom source event ID was reused with a different payload'')))"
    by (metis fst_conv)
qed

theorem redelivery_changes_nothing_witness:
  "admit_wecom_event (\<lambda>b. Some demo_canonical) demo_intake demo_source_facts demo_private demo_observed_world =
     (Inr ''u'', demo_observed_world) \<and>
   snd (admit_wecom_event (\<lambda>b. Some demo_canonical) demo_intake demo_source_facts
       (demo_private\<lparr>wv_raw_body_sha256 := ''0''\<rparr>) demo_observed_world) = demo_observed_world"
proof
  note found = demo_observed_facts(1)
  show "admit_wecom_event (\<lambda>b. Some demo_canonical) demo_intake demo_source_facts demo_private demo_observed_world =
      (Inr ''u'', demo_observed_world)"
    using redelivery_changes_nothing [OF found _ prod.collapse [symmetric], of "\<lambda>b. Some demo_canonical" demo_intake]
    by (simp add: demo_observed_facts prod_eq_iff)
  have found0: "find_source_event (ws_binding_id demo_source_facts) (wv_source_event_id (demo_private\<lparr>wv_raw_body_sha256 := ''0''\<rparr>))
      (nw_store demo_observed_world) = Some (demo_challenge_event\<lparr>we_state := ChallengeObserved\<rparr>)" using found by simp
  show "snd (admit_wecom_event (\<lambda>b. Some demo_canonical) demo_intake demo_source_facts
      (demo_private\<lparr>wv_raw_body_sha256 := ''0''\<rparr>) demo_observed_world) = demo_observed_world"
    using redelivery_changes_nothing [OF found0 _ prod.collapse [symmetric], of "\<lambda>b. Some demo_canonical" demo_intake]
    by (simp add: demo_observed_facts)
qed

text \<open>
  C28. A link challenge is observed at most once: whatever is delivered and redelivered, and
  whatever the hub does in between, Account Center is asked about the challenge of one event at
  most once.
\<close>

theorem challenges_are_observed_once:
  assumes "intake_runs w"
  shows "distinct (observed (nw_calls w))"
  using runs_observe [OF assms] by (simp add: observes_once_def)

theorem challenges_are_observed_once_witness:
  "\<exists>w. intake_runs w \<and> nw_calls w = [demo_observation] \<and> distinct (observed (nw_calls w))"
proof -
  obtain r w where run: "admit_wecom_inbound (\<lambda>b. JsonValue (PDict demo_fields)) (\<lambda>b. Some demo_canonical)
      [(demo_uuid, demo_source_facts)] demo_intake (demo_delivery demo_hook_headers) demo_hook_world = (r, w)" by fastforce
  from intake_runs.deliver [OF demo_hook_runs run] have "intake_runs w" .
  with challenges_are_observed_once [OF this] demo_challenge_delivered [OF run] show ?thesis by blast
qed

section \<open>Commands\<close>

text \<open>
  C29. A parsed command is well-formed (an issue number from 1 to 999999999; a comment has a
  stripped body of 1 to 4000 characters, the other actions none), and its canonical text parses
  back to it, when it keeps the size limit.
\<close>

theorem command_round_trip:
  assumes "parse_issue_command s = Inr c"
  shows "valid_command c \<and> (length (command_text c) \<le> MAX_COMMAND_LENGTH \<longrightarrow> parse_issue_command (command_text c) = Inr c)"
  using parse_valid [OF assms] by (auto intro: parse_text)

theorem command_round_trip_witness:
  "parse_issue_command (command_text \<lparr>ic_operation_id = IssueClose, ic_issue_number = 7, ic_body = None\<rparr>) =
     Inr \<lparr>ic_operation_id = IssueClose, ic_issue_number = 7, ic_body = None\<rparr>"
proof -
  have "length (command_text \<lparr>ic_operation_id = IssueClose, ic_issue_number = 7, ic_body = None\<rparr>) \<le> MAX_COMMAND_LENGTH" by code_simp
  with command_round_trip [OF demo_parsed] show ?thesis by blast
qed

end
