(* ===== verification/Connector_Ledger.thy ===== *)
theory Connector_Ledger
  imports Outbox
begin

text \<open>
  The connector tables of \<open>integrations/store.py\<close>: the replay window of signed request ids, the
  registry of one-use grants, and the bounded ledger of connector invocations with its receipts.
  The RFC 8785 encoder, the reader of stored receipts and the rendering of floats are arguments.
\<close>

section \<open>Budgets\<close>

definition RECEIPT_TTL_SECONDS :: int where
  "RECEIPT_TTL_SECONDS = 24 * 60 * 60"

definition RECEIPT_MAX_ENTRIES :: nat where
  "RECEIPT_MAX_ENTRIES = 256"

definition RECEIPT_MAX_BYTES :: nat where
  "RECEIPT_MAX_BYTES = 4 * 1024 * 1024"

definition RECEIPT_MAX_ENTRY_BYTES :: nat where
  "RECEIPT_MAX_ENTRY_BYTES = 16 * 1024"

definition TOMBSTONE_MAX_ENTRIES :: nat where
  "TOMBSTONE_MAX_ENTRIES = 4096"

definition TOMBSTONE_MAX_BYTES :: nat where
  "TOMBSTONE_MAX_BYTES = 2 * 1024 * 1024"

definition LEDGER_MAX_ENTRIES :: nat where
  "LEDGER_MAX_ENTRIES = 8192"

definition LEDGER_MAX_BYTES :: nat where
  "LEDGER_MAX_BYTES = 4 * 1024 * 1024"

section \<open>Rows\<close>

datatype invocation_state =
  InProgress | InvPending | UnknownResult | InvSucceeded | InvFailed | InvRejected | RateLimited

fun invocation_state_text :: "invocation_state \<Rightarrow> string" where
  "invocation_state_text InProgress = ''IN_PROGRESS''"
| "invocation_state_text InvPending = ''PENDING''"
| "invocation_state_text UnknownResult = ''UNKNOWN_RESULT''"
| "invocation_state_text InvSucceeded = ''SUCCEEDED''"
| "invocation_state_text InvFailed = ''FAILED''"
| "invocation_state_text InvRejected = ''REJECTED''"
| "invocation_state_text RateLimited = ''RATE_LIMITED''"

definition settled_state :: "invocation_state \<Rightarrow> bool" where
  "settled_state st = (st \<in> {InvSucceeded, InvFailed, InvRejected, RateLimited})"

definition unresolved_state :: "invocation_state \<Rightarrow> bool" where
  "unresolved_state st = (st \<in> {InvPending, UnknownResult})"

text \<open>What a request id is bound to: the columns \<open>reserve_connector_invocation\<close> compares.\<close>

record invocation_target =
  it_connection_ref :: string
  it_provider_id :: string
  it_profile_ref :: string
  it_operation_id :: string
  it_resource_ref :: string
  it_arguments_sha256 :: string
  it_envelope_sha256 :: string
  it_is_mutating :: bool

record invocation_row =
  iv_target :: invocation_target
  iv_state :: invocation_state
  iv_operation_ref :: "string option"
  iv_grant_ref :: string
  iv_created_at :: int
  iv_expires_at :: int
  iv_response_json :: "string option"
  iv_response_status :: int

type_synonym invocation_key = "scope \<times> string"

type_synonym invocations = "(invocation_key, invocation_row) table"

record grant_row =
  gr_encoded_sha256 :: string
  gr_expires_at :: int
  gr_consumed_at :: "int option"

record connector_ledger =
  cl_requests :: "(string \<times> string, int) table"
  cl_grants :: "(string, grant_row) table"
  cl_invocations :: invocations

datatype ledger_exn =
    LedgerIntegration hub_exn
  | ConnectorInvocationLedgerFull string
  | CanonicalizationInvalid
  | ReceiptUnreadable string

type_synonym 'a ledger_act = "(connector_ledger, ledger_exn, 'a) act"

section \<open>Request ids\<close>

definition live_requests :: "int \<Rightarrow> (string \<times> string, int) table \<Rightarrow> (string \<times> string, int) table" where
  "live_requests now t = select (\<lambda>k expires. \<not> expires \<le> now) t"

definition consume_connector_request_id ::
  "string \<Rightarrow> string \<Rightarrow> int \<Rightarrow> int \<Rightarrow> connector_ledger \<Rightarrow> bool \<times> connector_ledger" where
  "consume_connector_request_id key_id request_id expires now s =
     (if key_id = [] \<or> request_id = [] \<or> length key_id > 128 \<or> length request_id > 200 \<or> expires \<le> now then (False, s)
      else
        let t = live_requests now (cl_requests s) in
        case insert_row (key_id, request_id) expires t of
          None \<Rightarrow> (False, s\<lparr>cl_requests := t\<rparr>)
        | Some t' \<Rightarrow> (True, s\<lparr>cl_requests := t'\<rparr>))"

section \<open>One-use grants\<close>

definition live_grants :: "int \<Rightarrow> (string, grant_row) table \<Rightarrow> (string, grant_row) table" where
  "live_grants now t = select (\<lambda>k g. \<not> gr_expires_at g \<le> now) t"

abbreviation DIGEST_PREFIX :: string where
  "DIGEST_PREFIX \<equiv> ''sha256:''"

definition GRANT_MAX_ENTRIES :: nat where
  "GRANT_MAX_ENTRIES = 8192"

definition register_connector_grant ::
  "string \<Rightarrow> string \<Rightarrow> int \<Rightarrow> int \<Rightarrow> connector_ledger \<Rightarrow> bool \<times> connector_ledger" where
  "register_connector_grant grant_ref encoded_sha256 expires now s =
     (if \<not> starts_with DIGEST_PREFIX grant_ref \<or> length grant_ref > 80 \<or> length encoded_sha256 \<noteq> 64 \<or>
         expires \<le> now \<or> expires - now > 20 then (False, s)
      else
        let t = live_grants now (cl_grants s) in
        if length t \<ge> GRANT_MAX_ENTRIES then (False, s\<lparr>cl_grants := t\<rparr>)
        else
          case insert_row grant_ref \<lparr>gr_encoded_sha256 = encoded_sha256, gr_expires_at = expires, gr_consumed_at = None\<rparr> t of
            None \<Rightarrow> (False, s\<lparr>cl_grants := t\<rparr>)
          | Some t' \<Rightarrow> (True, s\<lparr>cl_grants := t'\<rparr>))"

text \<open>The rows the \<open>UPDATE\<close> matches; the reference is the primary key, so at most one does.\<close>

definition consumable :: "string \<Rightarrow> int \<Rightarrow> grant_row \<Rightarrow> bool" where
  "consumable encoded_sha256 now g =
     (gr_encoded_sha256 g = encoded_sha256 \<and> gr_expires_at g > now \<and> gr_consumed_at g = None)"

definition consume_connector_grant :: "string \<Rightarrow> string \<Rightarrow> int \<Rightarrow> connector_ledger \<Rightarrow> bool \<times> connector_ledger" where
  "consume_connector_grant grant_ref encoded_sha256 now s =
     (if grant_ref = [] \<or> length encoded_sha256 \<noteq> 64 then (False, s)
      else
        let t = live_grants now (cl_grants s) in
        (length (select (\<lambda>k g. k = grant_ref \<and> consumable encoded_sha256 now g) t) = 1,
         s\<lparr>cl_grants := update_row grant_ref
             (\<lambda>g. if consumable encoded_sha256 now g then g\<lparr>gr_consumed_at := Some now\<rparr> else g) t\<rparr>))"

section \<open>Receipts\<close>

abbreviation byte_count :: "string \<Rightarrow> nat" where
  "byte_count s \<equiv> length (utf8 s)"

definition cached_receipts :: "invocations \<Rightarrow> invocations" where
  "cached_receipts t = select (\<lambda>k r. iv_response_json r \<noteq> None) t"

definition receipt_size :: "invocation_row \<Rightarrow> nat" where
  "receipt_size r = (case iv_response_json r of None \<Rightarrow> 0 | Some j \<Rightarrow> byte_count j)"

definition receipt_bytes :: "invocations \<Rightarrow> nat" where
  "receipt_bytes t = sum_list (map (\<lambda>(k, r). receipt_size r) t)"

definition by_creation :: "invocations \<Rightarrow> invocations" where
  "by_creation t = sort_key (\<lambda>(k, r). iv_created_at r) t"

definition drop_expired :: "int \<Rightarrow> invocations \<Rightarrow> invocations" where
  "drop_expired now t =
     select (\<lambda>k r. \<not> (settled_state (iv_state r) \<and> 0 < iv_expires_at r \<and> iv_expires_at r \<le> now)) t"

definition receipts_fit :: "nat \<Rightarrow> invocations \<Rightarrow> bool" where
  "receipts_fit incoming t =
     (length (cached_receipts t) < RECEIPT_MAX_ENTRIES \<and> receipt_bytes (cached_receipts t) + incoming \<le> RECEIPT_MAX_BYTES)"

definition oldest_receipt :: "invocation_key \<Rightarrow> invocations \<Rightarrow> invocation_key option" where
  "oldest_receipt excluded t = map_option fst (find (\<lambda>(k, r). k \<noteq> excluded) (by_creation (cached_receipts t)))"

definition forget_receipt :: "invocation_key \<Rightarrow> invocations \<Rightarrow> invocations" where
  "forget_receipt k t = update_row k (\<lambda>r. r\<lparr>iv_response_json := None\<rparr>) t"

lemma find_in_set: "find P xs = Some x \<Longrightarrow> x \<in> set xs \<and> P x"
  by (auto simp: find_Some_iff)

lemma oldest_receipt_member:
  assumes "oldest_receipt excluded t = Some k"
  obtains r where "(k, r) \<in> set t" "iv_response_json r \<noteq> None" "k \<noteq> excluded"
proof -
  from assms obtain r where "find (\<lambda>(k, r). k \<noteq> excluded) (by_creation (cached_receipts t)) = Some (k, r)"
    by (auto simp: oldest_receipt_def)
  then have "(k, r) \<in> set (by_creation (cached_receipts t))" "k \<noteq> excluded"
    by (auto simp: find_Some_iff) (metis nth_mem)
  then show thesis by (intro that) (auto simp: by_creation_def cached_receipts_def select_def)
qed

lemma forget_receipt_fewer:
  assumes "(k, r) \<in> set t" "iv_response_json r \<noteq> None"
  shows "length (cached_receipts (forget_receipt k t)) < length (cached_receipts t)"
proof -
  have le: "length (cached_receipts (forget_receipt k u)) \<le> length (cached_receipts u)" for u
    by (induction u) (auto simp: cached_receipts_def forget_receipt_def select_def update_row_def split: if_splits)
  from assms show ?thesis
  proof (induction t)
    case (Cons x t)
    then show ?case using le [of t]
      by (cases x) (auto simp: cached_receipts_def forget_receipt_def select_def update_row_def)
  qed simp
qed

function trim_loop :: "nat \<Rightarrow> invocation_key \<Rightarrow> invocations \<Rightarrow> invocations" where
  "trim_loop incoming excluded t =
     (if receipts_fit incoming t then t
      else case oldest_receipt excluded t of
        None \<Rightarrow> t
      | Some k \<Rightarrow> trim_loop incoming excluded (forget_receipt k t))"
  by pat_completeness auto
termination
  by (relation "measure (\<lambda>(incoming, excluded, t). length (cached_receipts t))")
     (auto elim!: oldest_receipt_member intro: forget_receipt_fewer)

declare trim_loop.simps [simp del]

definition trim_connector_receipts :: "int \<Rightarrow> nat \<Rightarrow> invocation_key \<Rightarrow> invocations \<Rightarrow> invocations" where
  "trim_connector_receipts now incoming excluded t = trim_loop incoming excluded (drop_expired now t)"

text \<open>Trim, then keep the receipt only if it fits what is left.\<close>

definition admit_receipt :: "int \<Rightarrow> invocation_key \<Rightarrow> string \<Rightarrow> invocations \<Rightarrow> string option \<times> invocations" where
  "admit_receipt now k receipt t =
     (let t' = trim_connector_receipts now (byte_count receipt) k t in
      (if receipts_fit (byte_count receipt) t' then Some receipt else None, t'))"

type_synonym canonicalizer = "pyval \<Rightarrow> string option"

definition connector_canonical_json :: "canonicalizer \<Rightarrow> pyval \<Rightarrow> ledger_exn + string" where
  "connector_canonical_json canon v = (case canon v of None \<Rightarrow> Inl CanonicalizationInvalid | Some s \<Rightarrow> Inr s)"

definition receipt_outcome :: "invocation_state \<Rightarrow> string" where
  "receipt_outcome st =
     (if st = InvPending then ''pending'' else if st = UnknownResult then ''uncertain''
      else if st = InvFailed then ''failed'' else ''verified'')"

definition receipt_summary :: "invocation_state \<Rightarrow> string \<Rightarrow> bool \<Rightarrow> pydict" where
  "receipt_summary st digest fresh =
     [(''state'', PStr (invocation_state_text st)), (''receiptOnly'', PBool True), (''resultDigestSha256'', PStr digest),
      (''freshRequestRequired'', PBool fresh),
      (''replayPolicy'', PStr (if fresh then ''fresh-read'' else if unresolved_state st then ''status-reconciliation''
         else ''do-not-repeat'')),
      (''reasonCode'', PStr (if fresh then ''result_not_cached'' else if st = UnknownResult then ''operation_outcome_unknown''
         else if st = InvPending then ''operation_pending'' else ''operation_already_resolved''))]"

definition receipt_content :: "string \<Rightarrow> bool \<Rightarrow> pyval" where
  "receipt_content body failed =
     PDict [(''content'', PList [PDict [(''type'', PStr ''text''), (''text'', PStr body)]]), (''isError'', PBool failed)]"

definition status_fields :: "string list" where
  "status_fields = [''requestId'', ''status'', ''vendorMessageId'', ''reasonCode'', ''retryAfterSeconds'']"

definition compact_connector_receipt ::
  "canonicalizer \<Rightarrow> (pyfloat \<Rightarrow> string) \<Rightarrow> pydict \<Rightarrow> string \<Rightarrow> string option \<Rightarrow> invocation_state \<Rightarrow> bool \<Rightarrow> ledger_exn + string" where
  "compact_connector_receipt canon fr response digest operation_ref st fresh =
     (let request_id = dget response ''requestId'' in
      if dhas response ''outcome'' then
        let outcome = receipt_outcome st in
        rbind (connector_canonical_json canon (PDict (receipt_summary st digest fresh))) (\<lambda>summary.
        Inr (json_dumps fr (PDict
          ([(''requestId'', request_id), (''outcome'', PStr outcome),
            (''result'', receipt_content summary (outcome \<in> {''failed'', ''uncertain''}))] @
           (if given operation_ref then [(''operationRef'', opt_py operation_ref)] else [])))))
      else if dhas response ''status'' then
        Inr (json_dumps fr (PDict (map (\<lambda>k. (k, dget response k)) (filter (dhas response) status_fields))))
      else
        Inr (json_dumps fr (PDict
          [(''requestId'', request_id), (''state'', PStr (invocation_state_text st)), (''operationRef'', opt_py operation_ref),
           (''receiptOnly'', PBool True), (''resultDigestSha256'', PStr digest)])))"

section \<open>Reserving\<close>

datatype attempt_disposition = New | StillInProgress | Replay | UnknownOutcome

record reservation =
  rv_disposition :: attempt_disposition
  rv_state :: "invocation_state option"
  rv_response :: "pydict option"
  rv_http_status :: int
  rv_operation_ref :: "string option"
  rv_grant_ref :: "string option"
  rv_is_mutating :: bool

definition attempt_ok :: "string \<Rightarrow> invocation_target \<Rightarrow> string \<Rightarrow> bool" where
  "attempt_ok request_id t grant_ref =
     (request_id \<noteq> [] \<and> length request_id \<le> 200 \<and> length (it_connection_ref t) \<le> 300 \<and> length (it_provider_id t) \<le> 100 \<and>
      length (it_profile_ref t) \<le> 300 \<and> length (it_operation_id t) \<le> 200 \<and> length (it_resource_ref t) \<le> 1000 \<and>
      length (it_arguments_sha256 t) = 64 \<and> length (it_envelope_sha256 t) = 64 \<and>
      starts_with DIGEST_PREFIX grant_ref \<and> length grant_ref \<le> 80)"

definition key_bytes :: "invocation_key \<Rightarrow> nat" where
  "key_bytes k = (case k of ((organization, workspace, issuer, subject), request_id) \<Rightarrow>
     byte_count organization + byte_count workspace + byte_count issuer + byte_count subject + byte_count request_id)"

definition target_bytes :: "invocation_target \<Rightarrow> nat" where
  "target_bytes t =
     byte_count (it_connection_ref t) + byte_count (it_provider_id t) + byte_count (it_profile_ref t) +
     byte_count (it_operation_id t) + byte_count (it_resource_ref t) + byte_count (it_arguments_sha256 t) +
     byte_count (it_envelope_sha256 t)"

text \<open>
  A stored row counts one byte for its flag, the integer 0 or 1; a new one counts the text of the
  Boolean, \<open>True\<close> or \<open>False\<close>.
\<close>

definition row_bytes :: "invocation_key \<times> invocation_row \<Rightarrow> nat" where
  "row_bytes x = (case x of (k, r) \<Rightarrow> key_bytes k + target_bytes (iv_target r) + byte_count (iv_grant_ref r) + 1)"

definition attempt_bytes :: "invocation_key \<Rightarrow> invocation_target \<Rightarrow> string \<Rightarrow> nat" where
  "attempt_bytes k t grant_ref =
     key_bytes k + target_bytes t + byte_count grant_ref + (if it_is_mutating t then 4 else 5)"

definition table_bytes :: "invocations \<Rightarrow> nat" where
  "table_bytes t = sum_list (map row_bytes t)"

definition tombstones :: "invocations \<Rightarrow> invocations" where
  "tombstones t = select (\<lambda>k r. \<not> settled_state (iv_state r)) t"

text \<open>The loop that deletes the oldest settled rows until the new one fits; \<open>rows\<close> is \<open>all_rows\<close>.\<close>

function make_room :: "nat \<Rightarrow> invocations \<Rightarrow> int \<Rightarrow> invocations \<Rightarrow> ledger_exn + invocations" where
  "make_room incoming rows used t =
     (if \<not> (length rows \<ge> LEDGER_MAX_ENTRIES \<or> used + int incoming > int LEDGER_MAX_BYTES) then Inr t
      else case find (\<lambda>(k, r). settled_state (iv_state r)) rows of
        None \<Rightarrow> Inl (ConnectorInvocationLedgerFull ''connector invocation ledger metadata budget is full'')
      | Some x \<Rightarrow> make_room incoming (remove1 x rows) (used - int (row_bytes x)) (filter (\<lambda>y. fst y \<noteq> fst x) t))"
  by pat_completeness auto
termination
  by (relation "measure (\<lambda>(incoming, rows, used, t). length rows)")
     (auto dest!: find_in_set simp: length_remove1 intro!: diff_less)

declare make_room.simps [simp del]

definition stored_response :: "(string \<Rightarrow> json_outcome) \<Rightarrow> invocation_row \<Rightarrow> ledger_exn + pydict option" where
  "stored_response loads r =
     (case iv_response_json r of
        None \<Rightarrow> Inr None
      | Some j \<Rightarrow>
          (case loads j of
             JsonValue (PDict d) \<Rightarrow> Inr (Some d)
           | JsonValue v \<Rightarrow> Inr None
           | JsonInvalid m \<Rightarrow> Inl (ReceiptUnreadable m)
           | JsonTooDeep \<Rightarrow> Inl (ReceiptUnreadable ''RecursionError'')))"

definition disposition_of :: "invocation_state \<Rightarrow> pydict option \<Rightarrow> attempt_disposition" where
  "disposition_of st response =
     (if st = InProgress then StillInProgress
      else if unresolved_state st \<and> response = None then UnknownOutcome
      else Replay)"

definition prior_reservation :: "invocation_row \<Rightarrow> pydict option \<Rightarrow> reservation" where
  "prior_reservation r response =
     \<lparr>rv_disposition = disposition_of (iv_state r) response, rv_state = Some (iv_state r), rv_response = response,
      rv_http_status = iv_response_status r, rv_operation_ref = iv_operation_ref r,
      rv_grant_ref = (if iv_grant_ref r = [] then None else Some (iv_grant_ref r)), rv_is_mutating = it_is_mutating (iv_target r)\<rparr>"

definition new_reservation :: reservation where
  "new_reservation =
     \<lparr>rv_disposition = New, rv_state = Some InProgress, rv_response = None, rv_http_status = 200,
      rv_operation_ref = None, rv_grant_ref = None, rv_is_mutating = False\<rparr>"

definition new_row :: "invocation_target \<Rightarrow> string \<Rightarrow> int \<Rightarrow> invocation_row" where
  "new_row target grant_ref now =
     \<lparr>iv_target = target, iv_state = InProgress, iv_operation_ref = None, iv_grant_ref = grant_ref, iv_created_at = now,
      iv_expires_at = 0, iv_response_json = None, iv_response_status = 200\<rparr>"

definition admit_attempt ::
  "invocation_key \<Rightarrow> invocation_target \<Rightarrow> string \<Rightarrow> int \<Rightarrow> invocations \<Rightarrow> ledger_exn + invocations" where
  "admit_attempt k target grant_ref now t =
     (let rows = by_creation t; waiting = tombstones rows; incoming = attempt_bytes k target grant_ref in
      rbind (guard (\<not> (length waiting \<ge> TOMBSTONE_MAX_ENTRIES \<or> table_bytes waiting + incoming > TOMBSTONE_MAX_BYTES))
               (ConnectorInvocationLedgerFull ''connector invocation tombstone budget is full'')) (\<lambda>_.
      rbind (make_room incoming rows (int (table_bytes rows)) t) (\<lambda>t'.
      Inr (t' @ [(k, new_row target grant_ref now)]))))"

definition reserve_connector_invocation ::
  "(string \<Rightarrow> json_outcome) \<Rightarrow> hub_principal \<Rightarrow> string \<Rightarrow> invocation_target \<Rightarrow> string \<Rightarrow> int \<Rightarrow> reservation ledger_act" where
  "reserve_connector_invocation loads p request_id target grant_ref now =
     (let k = (scope_of p, request_id) in
      bind (result (guard (attempt_ok request_id target grant_ref)
              (LedgerIntegration (IntegrationValidationError ''connector invocation scope is invalid'')))) (\<lambda>_.
      bind (result (guard (key_bytes k \<le> 4096)
              (LedgerIntegration (IntegrationValidationError ''connector invocation identity is too large'')))) (\<lambda>_.
      mutation (\<lambda>s.
        let t = drop_expired now (cl_invocations s); s' = s\<lparr>cl_invocations := t\<rparr> in
        case find_row k t of
          Some r \<Rightarrow>
            if iv_target r \<noteq> target
            then (Inl (LedgerIntegration (IntegrationConflict
                    ''connector request id was already used for a different signed operation'')), s')
            else (rbind (stored_response loads r) (\<lambda>response. Inr (prior_reservation r response)), s')
        | None \<Rightarrow>
            (case admit_attempt k target grant_ref now t of
               Inl e \<Rightarrow> (Inl e, s')
             | Inr t' \<Rightarrow> (Inr new_reservation, s\<lparr>cl_invocations := t'\<rparr>))))))"

section \<open>Recording what happened\<close>

definition update_attempt ::
  "invocation_key \<Rightarrow> string \<Rightarrow> (invocation_row \<Rightarrow> invocation_row) \<Rightarrow> invocations \<Rightarrow> invocations" where
  "update_attempt k envelope f t = update_row k (\<lambda>r. if it_envelope_sha256 (iv_target r) = envelope then f r else r) t"

definition find_attempt :: "invocation_key \<Rightarrow> string \<Rightarrow> invocations \<Rightarrow> invocation_row option" where
  "find_attempt k envelope t =
     (case find_row k t of
        None \<Rightarrow> None
      | Some r \<Rightarrow> if it_envelope_sha256 (iv_target r) = envelope then Some r else None)"

definition reservation_missing :: ledger_exn where
  "reservation_missing = LedgerIntegration (IntegrationConflict ''connector invocation reservation is missing'')"

definition attach_connector_invocation_grant :: "hub_principal \<Rightarrow> string \<Rightarrow> string \<Rightarrow> string \<Rightarrow> unit ledger_act" where
  "attach_connector_invocation_grant p request_id envelope grant_ref =
     mutation (\<lambda>s.
       let k = (scope_of p, request_id) in
       (if find_attempt k envelope (cl_invocations s) = None then Inl reservation_missing else Inr (),
        s\<lparr>cl_invocations := update_attempt k envelope (\<lambda>r. r\<lparr>iv_grant_ref := grant_ref\<rparr>) (cl_invocations s)\<rparr>))"

definition receipt_expiry :: "invocation_state \<Rightarrow> int \<Rightarrow> int" where
  "receipt_expiry st now = (if unresolved_state st then 0 else now + RECEIPT_TTL_SECONDS)"

text \<open>The receipt to store, none when there is no response or the receipt is too large.\<close>

definition invocation_receipt ::
  "canonicalizer \<Rightarrow> (pyfloat \<Rightarrow> string) \<Rightarrow> invocation_row \<Rightarrow> invocation_state \<Rightarrow> pydict option \<Rightarrow> string option \<Rightarrow>
   ledger_exn + string option" where
  "invocation_receipt canon fr r st response operation_ref =
     (case response of
        None \<Rightarrow> Inr None
      | Some d \<Rightarrow>
          rbind (connector_canonical_json canon (PDict d)) (\<lambda>encoded.
          rbind (compact_connector_receipt canon fr d (sha256_hex (utf8 encoded)) operation_ref st
                   (\<not> it_is_mutating (iv_target r) \<and> st \<in> {InvSucceeded, InvFailed})) (\<lambda>receipt.
          Inr (if byte_count receipt > RECEIPT_MAX_ENTRY_BYTES then None else Some receipt))))"

definition record_outcome ::
  "invocation_state \<Rightarrow> string option \<Rightarrow> int \<Rightarrow> string option \<Rightarrow> int \<Rightarrow> invocation_row \<Rightarrow> invocation_row" where
  "record_outcome st operation_ref expiry receipt status r =
     r\<lparr>iv_state := st, iv_operation_ref := operation_ref, iv_expires_at := expiry, iv_response_json := receipt,
       iv_response_status := status\<rparr>"

definition complete_connector_invocation ::
  "canonicalizer \<Rightarrow> (pyfloat \<Rightarrow> string) \<Rightarrow> hub_principal \<Rightarrow> string \<Rightarrow> string \<Rightarrow> invocation_state \<Rightarrow> pydict option \<Rightarrow>
   string option \<Rightarrow> int \<Rightarrow> int \<Rightarrow> unit ledger_act" where
  "complete_connector_invocation canon fr p request_id envelope st response operation_ref status now =
     (let k = (scope_of p, request_id) in
      bind (result (guard (200 \<le> status \<and> status \<le> 599)
              (LedgerIntegration (IntegrationValidationError ''connector response status is invalid'')))) (\<lambda>_.
      mutation (\<lambda>s.
        case find_attempt k envelope (cl_invocations s) of
          None \<Rightarrow> (Inl reservation_missing, s)
        | Some r \<Rightarrow>
            (case invocation_receipt canon fr r st response operation_ref of
               Inl e \<Rightarrow> (Inl e, s)
             | Inr receipt \<Rightarrow>
                 let (kept, t) = (case receipt of None \<Rightarrow> (None, cl_invocations s)
                                  | Some j \<Rightarrow> admit_receipt now k j (cl_invocations s)) in
                 (Inr (), s\<lparr>cl_invocations :=
                    update_attempt k envelope (record_outcome st operation_ref (receipt_expiry st now) kept status) t\<rparr>)))))"

definition discardable :: "invocation_key \<Rightarrow> string \<Rightarrow> invocation_key \<Rightarrow> invocation_row \<Rightarrow> bool" where
  "discardable k envelope k' r =
     (k' = k \<and> it_envelope_sha256 (iv_target r) = envelope \<and> iv_state r = InProgress \<and> iv_operation_ref r = None)"

definition discard_connector_invocation :: "hub_principal \<Rightarrow> string \<Rightarrow> string \<Rightarrow> unit ledger_act" where
  "discard_connector_invocation p request_id envelope =
     mutation (\<lambda>s. (Inr (), s\<lparr>cl_invocations :=
       select (\<lambda>k r. \<not> discardable (scope_of p, request_id) envelope k r) (cl_invocations s)\<rparr>))"

section \<open>Reconciling\<close>

text \<open>
  The rows the \<open>SELECT\<close> finds through the index on scope, profile, operation and state: the pending
  ones first, then the unknown ones.
\<close>

definition matching_operation ::
  "scope \<Rightarrow> string \<Rightarrow> string \<Rightarrow> invocation_state \<Rightarrow> invocation_key \<times> invocation_row \<Rightarrow> bool" where
  "matching_operation sc profile_ref operation_ref st x =
     (case x of (k, r) \<Rightarrow> fst k = sc \<and> it_profile_ref (iv_target r) = profile_ref \<and>
        iv_operation_ref r = Some operation_ref \<and> iv_state r = st)"

definition unresolved_operations :: "scope \<Rightarrow> string \<Rightarrow> string \<Rightarrow> invocations \<Rightarrow> (string \<times> string) list" where
  "unresolved_operations sc profile_ref operation_ref t =
     map (\<lambda>(k, r). (snd k, it_envelope_sha256 (iv_target r)))
       (filter (matching_operation sc profile_ref operation_ref InvPending) t @
        filter (matching_operation sc profile_ref operation_ref UnknownResult) t)"

definition reconciled_receipt ::
  "canonicalizer \<Rightarrow> (pyfloat \<Rightarrow> string) \<Rightarrow> string \<Rightarrow> string \<Rightarrow> invocation_state \<Rightarrow> ledger_exn + string" where
  "reconciled_receipt canon fr request_id operation_ref st =
     rbind (connector_canonical_json canon (PDict
       [(''state'', PStr (invocation_state_text st)), (''operation_ref'', PStr operation_ref), (''reconciled'', PBool True),
        (''receiptOnly'', PBool True), (''replayPolicy'', PStr ''do-not-repeat'')])) (\<lambda>body.
     Inr (json_dumps fr (PDict
       [(''requestId'', PStr request_id), (''outcome'', PStr ''verified''), (''operationRef'', PStr operation_ref),
        (''result'', receipt_content body False)])))"

definition settle_row :: "invocation_state \<Rightarrow> int \<Rightarrow> string option \<Rightarrow> invocation_row \<Rightarrow> invocation_row" where
  "settle_row st now kept r =
     r\<lparr>iv_state := st, iv_expires_at := now + RECEIPT_TTL_SECONDS, iv_response_json := kept, iv_response_status := 200\<rparr>"

fun reconcile_rows ::
  "canonicalizer \<Rightarrow> (pyfloat \<Rightarrow> string) \<Rightarrow> scope \<Rightarrow> string \<Rightarrow> invocation_state \<Rightarrow> int \<Rightarrow> (string \<times> string) list \<Rightarrow> nat \<Rightarrow>
   invocations \<Rightarrow> ledger_exn + (nat \<times> invocations)" where
  "reconcile_rows canon fr sc operation_ref st now [] updated t = Inr (updated, t)"
| "reconcile_rows canon fr sc operation_ref st now ((request_id, envelope) # rest) updated t =
     rbind (reconciled_receipt canon fr request_id operation_ref st) (\<lambda>receipt.
     let k = (sc, request_id); (kept, t') = admit_receipt now k receipt t;
         hits = (if find_attempt k envelope t' = None then 0 else 1) in
     reconcile_rows canon fr sc operation_ref st now rest (updated + hits)
       (update_attempt k envelope (settle_row st now kept) t'))"

definition reconcile_connector_invocations ::
  "canonicalizer \<Rightarrow> (pyfloat \<Rightarrow> string) \<Rightarrow> hub_principal \<Rightarrow> string \<Rightarrow> string \<Rightarrow> invocation_state \<Rightarrow> int \<Rightarrow> nat ledger_act" where
  "reconcile_connector_invocations canon fr p profile_ref operation_ref st now =
     (if profile_ref = [] \<or> operation_ref = [] then ret 0
      else mutation (\<lambda>s.
        case reconcile_rows canon fr (scope_of p) operation_ref st now
               (unresolved_operations (scope_of p) profile_ref operation_ref (cl_invocations s)) 0 (cl_invocations s) of
          Inl e \<Rightarrow> (Inl e, s)
        | Inr (updated, t) \<Rightarrow> (Inr updated, s\<lparr>cl_invocations := t\<rparr>)))"

end
