(* ===== verification/Connector_Security.thy ===== *)
theory Connector_Security
  imports Connector_Ledger Intake
begin

text \<open>
  Signed Navigator requests and Authority grants (\<open>integrations/connector_security.py\<close>). Instants
  are microseconds; the replay guard and the grant registry are the functions of a provider over a
  state of its own. What the host's files hold, the JSON reader, the protobuf codec of the grant and
  the Ed25519 check are arguments.
\<close>

section \<open>Refusals\<close>

datatype connector_exn =
    ConnectorForbidden string
  | ConnectorReplayed string
  | ConnectorNotConfigured string
  | ConnectorTooLarge
  | ConnectorRequestInvalid string
  | ConnectorUncaught string

text \<open>The typed Product error of each, with its reason code.\<close>

fun connector_problem :: "connector_exn \<Rightarrow> product_exn \<times> string option" where
  "connector_problem (ConnectorForbidden why) =
     (product_error ''EXCHANGE_CONNECTOR_AUTHORIZATION_DENIED'' ''Connector authorization denied''
        ''The connector authorization proof is invalid or out of scope.'' 403, Some why)"
| "connector_problem (ConnectorReplayed why) =
     (product_error ''EXCHANGE_CONNECTOR_REQUEST_REPLAYED'' ''Connector request was already used''
        ''The connector request id or one-use grant has already been consumed.'' 409, Some why)"
| "connector_problem (ConnectorNotConfigured why) =
     (ExchangeProductError \<lparr>pe_code = ''EXCHANGE_CONNECTOR_NOT_CONFIGURED'',
        pe_title = ''Connector authorization is not configured'',
        pe_detail = ''Exchange cannot validate or dispatch this connector operation.'',
        pe_status = 503, pe_retryable = True, pe_resource_ref = None\<rparr>, Some why)"
| "connector_problem ConnectorTooLarge =
     (product_error ''EXCHANGE_CONNECTOR_REQUEST_TOO_LARGE'' ''Connector request is too large''
        ''The signed connector request exceeds the configured size limit.'' 413, None)"
| "connector_problem (ConnectorRequestInvalid detail) =
     (product_error ''EXCHANGE_CONNECTOR_REQUEST_INVALID'' ''Connector request is invalid'' detail 400, None)"
| "connector_problem (ConnectorUncaught kind) = (ProductOther kind [], None)"

section \<open>Texts\<close>

text \<open>\<open>str.upper\<close>; letters above 127 keep a place above 127, but for the sharp s.\<close>

definition upper_char :: "char \<Rightarrow> string" where
  "upper_char c =
     (if code c \<in> {97..122} then [char_of (code c - 32)] else if code c = 223 then ''SS'' else [c])"

definition upper :: "string \<Rightarrow> string" where
  "upper s = concat (map upper_char s)"

definition ascii_text :: "string \<Rightarrow> bool" where
  "ascii_text s = list_all (\<lambda>c. code c < 128) s"

text \<open>The pattern \<open>_KEY_ID\<close>.\<close>

definition key_id_text :: "string \<Rightarrow> bool" where
  "key_id_text s =
     (case s of [] \<Rightarrow> False | c # r \<Rightarrow> word_char [] c \<and> length r \<le> 127 \<and> list_all (word_char ''._:-'') r)"

section \<open>Host files\<close>

datatype host_file = FileMissing | FileUnavailable | HostFile bool int bytes

definition read_private_hmac_key :: "host_file \<Rightarrow> connector_exn + bytes" where
  "read_private_hmac_key f =
     (case f of
        FileMissing \<Rightarrow> Inl (ConnectorNotConfigured ''navigator_hmac_key_file_missing'')
      | FileUnavailable \<Rightarrow> Inl (ConnectorNotConfigured ''navigator_hmac_key_file_unavailable'')
      | HostFile regular mode content \<Rightarrow>
          if \<not> regular \<or> mode AND 63 \<noteq> 0 then Inl (ConnectorNotConfigured ''navigator_hmac_key_file_permissions_invalid'')
          else if length content \<noteq> 32 then Inl (ConnectorNotConfigured ''navigator_hmac_key_invalid'')
          else Inr content)"

section \<open>JSON with distinct members\<close>

text \<open>
  The reader keeps the members of an object in order, duplicates included; the hook refuses an
  object that repeats one.
\<close>

fun distinct_members :: "pyval \<Rightarrow> bool" where
  "distinct_members (PDict d) = (distinct (map fst d) \<and> list_all distinct_members (map snd d))"
| "distinct_members (PList vs) = list_all distinct_members vs"
| "distinct_members v = True"

definition parse_signed_json_object :: "(bytes \<Rightarrow> json_outcome) \<Rightarrow> bytes \<Rightarrow> connector_exn + pydict" where
  "parse_signed_json_object loads raw =
     (let malformed = ConnectorRequestInvalid ''The signed internal request must be a duplicate-free JSON object.'' in
      case loads raw of
        JsonTooDeep \<Rightarrow> Inl (ConnectorUncaught ''RecursionError'')
      | JsonInvalid m \<Rightarrow> Inl malformed
      | JsonValue v \<Rightarrow>
          rbind (guard (distinct_members v) malformed) (\<lambda>_.
          need_dict v (ConnectorRequestInvalid ''The signed internal request must be a JSON object.'')))"

definition digest_arguments :: "canonicalizer \<Rightarrow> pydict \<Rightarrow> ledger_exn + string" where
  "digest_arguments canon d = rbind (connector_canonical_json canon (PDict d)) (\<lambda>s. Inr (sha256_hex (utf8 s)))"

section \<open>Navigator requests\<close>

abbreviation GRANTS_PATH :: string where
  "GRANTS_PATH \<equiv> ''/internal/v1/connector-operation-grants''"

definition MAX_NAVIGATOR_BODY_BYTES :: nat where
  "MAX_NAVIGATOR_BODY_BYTES = 128 * 1024"

definition MAX_CONNECTOR_GRANT_BODY_BYTES :: nat where
  "MAX_CONNECTOR_GRANT_BODY_BYTES = 1500000"

definition navigator_hmac_body_limit :: "string \<Rightarrow> string \<Rightarrow> nat" where
  "navigator_hmac_body_limit http_method path =
     (if upper http_method = ''POST'' \<and> path = GRANTS_PATH then MAX_CONNECTOR_GRANT_BODY_BYTES else MAX_NAVIGATOR_BODY_BYTES)"

abbreviation MAX_CONTEXT_SKEW_SECONDS :: int where
  "MAX_CONTEXT_SKEW_SECONDS \<equiv> 30"

text \<open>\<open>int(clock())\<close> of a reading in microseconds, rounded towards zero.\<close>

definition whole_seconds :: "int \<Rightarrow> int" where
  "whole_seconds us = (if us < 0 then - ((- us) div 1000000) else us div 1000000)"

text \<open>The replay guard the authenticator calls: key id, request id, expiry and the time.\<close>

type_synonym 's replay_guard = "string \<Rightarrow> string \<Rightarrow> int \<Rightarrow> int \<Rightarrow> 's \<Rightarrow> bool \<times> 's"

definition mk_navigator_settings :: "string \<Rightarrow> hub_exn + string" where
  "mk_navigator_settings key_id =
     (if key_id_text key_id then Inr key_id else Inl (HubValueError ''Navigator HMAC key id is invalid''))"

definition consume_request_id ::
  "'s replay_guard \<Rightarrow> string option \<Rightarrow> string \<Rightarrow> string \<Rightarrow> int \<Rightarrow> int \<Rightarrow> ('s, connector_exn, unit) act" where
  "consume_request_id replay settings key_id request_id timestamp now =
     (case settings of
        None \<Rightarrow> raise (ConnectorNotConfigured ''navigator_hmac_not_configured'')
      | Some own \<Rightarrow>
          if key_id \<noteq> own \<or> request_id = [] \<or> length request_id > 200
          then raise (ConnectorForbidden ''navigator_request_id_invalid'')
          else (\<lambda>s.
            case replay key_id request_id (timestamp + MAX_CONTEXT_SKEW_SECONDS) (whole_seconds now) s of
              (True, s') \<Rightarrow> (Inr (), s')
            | (False, s') \<Rightarrow> (Inl (ConnectorReplayed ''navigator_request_replayed''), s')))"

record navigator_request =
  nr_method :: string
  nr_path :: string
  nr_key_id :: string
  nr_timestamp :: string
  nr_signature :: string
  nr_body :: bytes

text \<open>The request with its headers, \<open>headers.get(name, "")\<close>.\<close>

definition navigator_request_of :: "string \<Rightarrow> string \<Rightarrow> (string \<Rightarrow> string option) \<Rightarrow> bytes \<Rightarrow> navigator_request" where
  "navigator_request_of http_method path headers body =
     (let header = (\<lambda>name. case headers name of None \<Rightarrow> [] | Some v \<Rightarrow> v) in
      \<lparr>nr_method = http_method, nr_path = path, nr_key_id = header ''x-cyrene-navigator-key-id'',
       nr_timestamp = header ''x-cyrene-navigator-timestamp'', nr_signature = header ''x-cyrene-navigator-signature'',
       nr_body = body\<rparr>)"

definition signed_message :: "navigator_request \<Rightarrow> bytes" where
  "signed_message q =
     utf8 (upper (nr_method q)) @ [0x0A] @ utf8 (nr_path q) @ [0x0A] @ utf8 (nr_timestamp q) @ [0x0A] @ nr_body q"

definition check_navigator_request :: "string option \<Rightarrow> host_file \<Rightarrow> navigator_request \<Rightarrow> int \<Rightarrow> connector_exn + int" where
  "check_navigator_request settings key_file q now =
     (case settings of
        None \<Rightarrow> Inl (ConnectorNotConfigured ''navigator_hmac_not_configured'')
      | Some own \<Rightarrow>
          let digits = nr_timestamp q; seconds = seconds_of digits in
          rbind (guard (nr_key_id q = own \<and> key_id_text (nr_key_id q)) (ConnectorForbidden ''navigator_key_id_invalid'')) (\<lambda>_.
          rbind (guard (digits \<noteq> [] \<and> list_all dec_digit digits \<and> length digits \<le> 4300)
                   (ConnectorForbidden ''navigator_timestamp_invalid'')) (\<lambda>_.
          rbind (guard (\<not> (seconds * 1000000 > now + 5 * 1000000 \<or>
                            now - seconds * 1000000 > MAX_CONTEXT_SKEW_SECONDS * 1000000))
                   (ConnectorForbidden ''navigator_request_expired'')) (\<lambda>_.
          rbind (guard (\<not> length (nr_body q) > navigator_hmac_body_limit (nr_method q) (nr_path q)) ConnectorTooLarge) (\<lambda>_.
          rbind (guard (hex64 (nr_signature q)) (ConnectorForbidden ''navigator_signature_invalid'')) (\<lambda>_.
          rbind (read_private_hmac_key key_file) (\<lambda>key.
          rbind (guard (ascii_text (upper (nr_method q))) (ConnectorUncaught ''UnicodeEncodeError'')) (\<lambda>_.
          rbind (guard (nr_signature q = hmac_sha256_hex key (signed_message q))
                   (ConnectorForbidden ''navigator_signature_invalid'')) (\<lambda>_.
          Inr seconds)))))))))"

text \<open>\<open>verify\<close>: the clock is read once for the request and again when its id is consumed.\<close>

definition verify_navigator_request ::
  "'s replay_guard \<Rightarrow> string option \<Rightarrow> host_file \<Rightarrow> navigator_request \<Rightarrow> string option \<Rightarrow> int \<Rightarrow> int \<Rightarrow>
   ('s, connector_exn, int) act" where
  "verify_navigator_request replay settings key_file q request_id now later =
     bind (result (check_navigator_request settings key_file q now)) (\<lambda>timestamp.
     andthen
       (case request_id of
          None \<Rightarrow> ret ()
        | Some i \<Rightarrow> consume_request_id replay settings (nr_key_id q) i timestamp later)
       (ret timestamp))"

section \<open>Authority grants\<close>

record connector_grant =
  cg_request_id :: string
  cg_audience :: string
  cg_organization_id :: string
  cg_workspace_id :: string
  cg_principal_issuer :: string
  cg_principal_subject :: string
  cg_connection_ref :: string
  cg_provider_id :: string
  cg_profile_ref :: string
  cg_operation_id :: string
  cg_resource_ref :: string
  cg_arguments_digest :: bytes
  cg_issued_at :: "int option"
  cg_expires_at :: "int option"
  cg_grant_ref :: string
  cg_signing_key_id :: string
  cg_signature :: bytes

record grant_claims =
  gc_request_id :: string
  gc_audience :: string
  gc_organization_id :: string
  gc_workspace_id :: string
  gc_principal_issuer :: string
  gc_principal_subject :: string
  gc_connection_ref :: string
  gc_provider_id :: string
  gc_profile_ref :: string
  gc_operation_id :: string
  gc_resource_ref :: string
  gc_arguments_digest :: bytes
  gc_issued_at :: int
  gc_expires_at :: int
  gc_grant_ref :: string

definition claims_of :: "connector_grant \<Rightarrow> int \<Rightarrow> int \<Rightarrow> grant_claims" where
  "claims_of g issued expires =
     \<lparr>gc_request_id = cg_request_id g, gc_audience = cg_audience g, gc_organization_id = cg_organization_id g,
      gc_workspace_id = cg_workspace_id g, gc_principal_issuer = cg_principal_issuer g,
      gc_principal_subject = cg_principal_subject g, gc_connection_ref = cg_connection_ref g,
      gc_provider_id = cg_provider_id g, gc_profile_ref = cg_profile_ref g, gc_operation_id = cg_operation_id g,
      gc_resource_ref = cg_resource_ref g, gc_arguments_digest = cg_arguments_digest g, gc_issued_at = issued,
      gc_expires_at = expires, gc_grant_ref = cg_grant_ref g\<rparr>"

text \<open>The pinned keyring: a missing or unreadable file, or a \<open>ValueError\<close>, is a configuration fault.\<close>

definition keyring_invalid :: connector_exn where
  "keyring_invalid = ConnectorNotConfigured ''connector_authority_keyring_invalid''"

definition MAX_KEYRING_BYTES :: nat where
  "MAX_KEYRING_BYTES = 64 * 1024"

definition decode_keyring_entry :: "string \<times> pyval \<Rightarrow> connector_exn + (string \<times> bytes)" where
  "decode_keyring_entry x =
     (case x of (key_id, v) \<Rightarrow>
      rbind (guard (key_id_text key_id) keyring_invalid) (\<lambda>_.
      rbind (need_str v keyring_invalid) (\<lambda>encoded.
      case b64decode encoded of
        None \<Rightarrow> Inl keyring_invalid
      | Some key \<Rightarrow> if length key = 32 then Inr (key_id, key) else Inl keyring_invalid)))"

definition decode_authority_keyring :: "(bytes \<Rightarrow> json_outcome) \<Rightarrow> host_file \<Rightarrow> connector_exn + (string \<times> bytes) list" where
  "decode_authority_keyring loads f =
     (case f of
        FileMissing \<Rightarrow> Inl (ConnectorNotConfigured ''connector_authority_keyring_missing'')
      | FileUnavailable \<Rightarrow> Inl (ConnectorNotConfigured ''connector_authority_keyring_unavailable'')
      | HostFile regular mode raw \<Rightarrow>
          if \<not> regular \<or> mode AND 18 \<noteq> 0 then Inl keyring_invalid
          else if raw = [] \<or> length raw > MAX_KEYRING_BYTES then Inl keyring_invalid
          else
            (case loads raw of
               JsonTooDeep \<Rightarrow> Inl (ConnectorUncaught ''RecursionError'')
             | JsonInvalid m \<Rightarrow> Inl keyring_invalid
             | JsonValue v \<Rightarrow>
                 rbind (guard (distinct_members v) keyring_invalid) (\<lambda>_.
                 rbind (need_dict v keyring_invalid) (\<lambda>d.
                 rbind (guard (map fst d = [''keys'']) keyring_invalid) (\<lambda>_.
                 rbind (need_dict (dget d ''keys'') keyring_invalid) (\<lambda>keys.
                 rbind (guard (keys \<noteq> []) keyring_invalid) (\<lambda>_.
                 rmap (\<lambda>i x. decode_keyring_entry x) keys)))))))"

definition load_authority_verification_key :: "(bytes \<Rightarrow> json_outcome) \<Rightarrow> host_file \<Rightarrow> string \<Rightarrow> connector_exn + bytes" where
  "load_authority_verification_key loads f key_id =
     rbind (decode_authority_keyring loads f) (\<lambda>keys.
     case map_of keys key_id of
       None \<Rightarrow> Inl (ConnectorForbidden ''connector_grant_signing_key_untrusted'')
     | Some key \<Rightarrow> Inr key)"

text \<open>
  What the verifier uses from outside: \<open>ParseFromString\<close>, the deterministic serialization of the
  decoded message without its reference and signature, the signature check, and the JSON reader.
\<close>

record grant_library =
  gl_parse :: "bytes \<Rightarrow> connector_grant option"
  gl_unsigned :: "bytes \<Rightarrow> bytes"
  gl_signature_ok :: "bytes \<Rightarrow> bytes \<Rightarrow> bytes \<Rightarrow> bool"
  gl_loads :: "bytes \<Rightarrow> json_outcome"

record grant_verifier =
  gv_keyring_file :: "host_file option"
  gv_audience :: string

definition mk_grant_verifier :: "host_file option \<Rightarrow> string \<Rightarrow> hub_exn + grant_verifier" where
  "mk_grant_verifier keyring audience =
     (if length audience > 300 then Inl (HubValueError ''connector grant audience is invalid'')
      else Inr \<lparr>gv_keyring_file = keyring, gv_audience = audience\<rparr>)"

definition MAX_GRANT_BYTES :: nat where
  "MAX_GRANT_BYTES = 64 * 1024"

abbreviation MAX_GRANT_TTL_SECONDS :: int where
  "MAX_GRANT_TTL_SECONDS \<equiv> 15"

definition GRANT_DOMAIN :: bytes where
  "GRANT_DOMAIN = utf8 ''cyrene.workspace.authority.v2/connector-operation-grant'' @ [0]"

definition be32 :: "nat \<Rightarrow> bytes" where
  "be32 n = map (\<lambda>i. of_nat (n div 256 ^ i)) (rev [0..<4])"

definition digest_hex :: "bytes \<Rightarrow> string" where
  "digest_hex bs = concat (map (\<lambda>b. [hex_digit (unat b div 16), hex_digit (unat b mod 16)]) bs)"

definition grant_signature_message :: "string \<Rightarrow> bytes \<Rightarrow> bytes" where
  "grant_signature_message key_id digest = GRANT_DOMAIN @ be32 (byte_count key_id) @ utf8 key_id @ digest"

definition grant_complete :: "connector_grant \<Rightarrow> bool" where
  "grant_complete g =
     (cg_grant_ref g \<noteq> [] \<and> cg_signing_key_id g \<noteq> [] \<and> length (cg_signature g) = 64 \<and>
      length (cg_arguments_digest g) = 32 \<and> cg_issued_at g \<noteq> None \<and> cg_expires_at g \<noteq> None)"

definition parse_and_verify :: "grant_library \<Rightarrow> grant_verifier \<Rightarrow> bytes \<Rightarrow> connector_exn + grant_claims" where
  "parse_and_verify lib v encoded =
     (case gv_keyring_file v of
        None \<Rightarrow> Inl (ConnectorNotConfigured ''connector_authority_verifier_not_configured'')
      | Some keyring \<Rightarrow>
          if gv_audience v = [] then Inl (ConnectorNotConfigured ''connector_authority_verifier_not_configured'')
          else if encoded = [] \<or> length encoded > MAX_GRANT_BYTES then Inl (ConnectorForbidden ''connector_grant_invalid'')
          else
            (case gl_parse lib encoded of
               None \<Rightarrow> Inl (ConnectorForbidden ''connector_grant_invalid'')
             | Some g \<Rightarrow>
                 let digest = sha256_digest (gl_unsigned lib encoded);
                     issued = the (cg_issued_at g); expires = the (cg_expires_at g) in
                 rbind (guard (grant_complete g) (ConnectorForbidden ''connector_grant_invalid'')) (\<lambda>_.
                 rbind (load_authority_verification_key (gl_loads lib) keyring (cg_signing_key_id g)) (\<lambda>key.
                 rbind (guard (cg_grant_ref g = DIGEST_PREFIX @ digest_hex digest)
                          (ConnectorForbidden ''connector_grant_digest_invalid'')) (\<lambda>_.
                 rbind (guard (gl_signature_ok lib key (cg_signature g) (grant_signature_message (cg_signing_key_id g) digest))
                          (ConnectorForbidden ''connector_grant_signature_invalid'')) (\<lambda>_.
                 rbind (guard (cg_audience g = gv_audience v) (ConnectorForbidden ''connector_grant_audience_invalid'')) (\<lambda>_.
                 rbind (guard (0 < expires - issued \<and> expires - issued \<le> MAX_GRANT_TTL_SECONDS * 1000000)
                          (ConnectorForbidden ''connector_grant_ttl_invalid'')) (\<lambda>_.
                 Inr (claims_of g issued expires)))))))))"

definition claim_fields :: "grant_claims \<Rightarrow> (string \<times> string) list" where
  "claim_fields c =
     [(''request_id'', gc_request_id c), (''organization_id'', gc_organization_id c), (''workspace_id'', gc_workspace_id c),
      (''principal_issuer'', gc_principal_issuer c), (''principal_subject'', gc_principal_subject c),
      (''connection_ref'', gc_connection_ref c), (''provider_id'', gc_provider_id c), (''profile_ref'', gc_profile_ref c),
      (''operation_id'', gc_operation_id c), (''resource_ref'', gc_resource_ref c)]"

definition match_expected :: "grant_claims \<Rightarrow> pydict \<Rightarrow> connector_exn + unit" where
  "match_expected c expected =
     rbind (guard (list_all (\<lambda>(k, v). \<not> (dhas expected k \<and> dget expected k \<noteq> PStr v)) (claim_fields c))
              (ConnectorForbidden ''connector_grant_scope_mismatch'')) (\<lambda>_.
     case dget expected ''arguments_digest_sha256'' of
       PNone \<Rightarrow> Inr ()
     | PBytes digest \<Rightarrow>
         guard (gc_arguments_digest c = digest) (ConnectorForbidden ''connector_grant_arguments_mismatch'')
     | _ \<Rightarrow> Inl (ConnectorForbidden ''connector_grant_arguments_mismatch''))"

definition inspect_grant ::
  "grant_library \<Rightarrow> grant_verifier \<Rightarrow> bytes \<Rightarrow> pydict option \<Rightarrow> bool \<Rightarrow> int \<Rightarrow> connector_exn + grant_claims" where
  "inspect_grant lib v encoded expected allow_expired now =
     rbind (parse_and_verify lib v encoded) (\<lambda>c.
     rbind (guard (\<not> (\<not> allow_expired \<and> gc_expires_at c \<le> now)) (ConnectorForbidden ''connector_grant_expired'')) (\<lambda>_.
     rbind (case expected of None \<Rightarrow> Inr () | Some e \<Rightarrow> match_expected c e) (\<lambda>_.
     Inr c)))"

section \<open>Issuing and consuming grants\<close>

text \<open>
  The durable registry of the protocol \<open>ConnectorGrantRegistry\<close> over its state, or none: then the
  verifier keeps the issued and the consumed references in its own memory.
\<close>

record 's grant_registry =
  rg_register :: "string \<Rightarrow> string \<Rightarrow> int \<Rightarrow> int \<Rightarrow> 's \<Rightarrow> bool \<times> 's"
  rg_consume :: "string \<Rightarrow> string \<Rightarrow> int \<Rightarrow> 's \<Rightarrow> bool \<times> 's"

record 's grant_memory =
  gm_store :: 's
  gm_issued :: "(string \<times> bytes \<times> grant_claims) list"
  gm_consumed :: "(string \<times> int) list"

definition prune_grants :: "int \<Rightarrow> 's grant_memory \<Rightarrow> 's grant_memory" where
  "prune_grants now m =
     m\<lparr>gm_issued := filter (\<lambda>(k, e, c). \<not> gc_expires_at c \<le> now) (gm_issued m),
       gm_consumed := filter (\<lambda>(k, expires). \<not> expires \<le> now) (gm_consumed m)\<rparr>"

definition memory_full :: "'s grant_memory \<Rightarrow> bool" where
  "memory_full m = (length (gm_issued m) + length (gm_consumed m) \<ge> GRANT_MAX_ENTRIES)"

definition issue_grant ::
  "'s grant_registry option \<Rightarrow> bytes \<Rightarrow> grant_claims \<Rightarrow> int \<Rightarrow> ('s grant_memory, connector_exn, unit) act" where
  "issue_grant registry encoded c now =
     (\<lambda>m0. let m = prune_grants (now * 1000000) m0; r = gc_grant_ref c in
        case registry of
          Some g \<Rightarrow>
            (case rg_register g r (sha256_hex encoded) (whole_seconds (gc_expires_at c)) now (gm_store m) of
               (True, s) \<Rightarrow> (Inr (), m\<lparr>gm_store := s\<rparr>)
             | (False, s) \<Rightarrow> (Inl (ConnectorReplayed ''connector_grant_ref_replayed_or_registry_full''), m\<lparr>gm_store := s\<rparr>))
        | None \<Rightarrow>
            if map_of (gm_issued m) r \<noteq> None \<or> map_of (gm_consumed m) r \<noteq> None
            then (Inl (ConnectorReplayed ''connector_grant_ref_replayed''), m)
            else if memory_full m then (Inl (ConnectorNotConfigured ''connector_grant_registry_full''), m)
            else (Inr (), m\<lparr>gm_issued := gm_issued m @ [(r, encoded, c)]\<rparr>))"

definition validate_authority_response ::
  "grant_library \<Rightarrow> grant_verifier \<Rightarrow> 's grant_registry option \<Rightarrow> bytes \<Rightarrow> pydict \<Rightarrow> int \<Rightarrow>
   ('s grant_memory, connector_exn, grant_claims) act" where
  "validate_authority_response lib v registry encoded expected clock =
     (let now = whole_seconds clock in
      bind (result (parse_and_verify lib v encoded)) (\<lambda>c.
      bind (result (match_expected c expected)) (\<lambda>_.
      bind (result (guard (\<not> gc_expires_at c \<le> now * 1000000) (ConnectorForbidden ''connector_grant_expired''))) (\<lambda>_.
      bind (result (guard (\<not> gc_issued_at c > (now + 5) * 1000000) (ConnectorForbidden ''connector_grant_issue_time_invalid''))) (\<lambda>_.
      andthen (issue_grant registry encoded c now) (ret c))))))"

definition spend_grant ::
  "'s grant_registry option \<Rightarrow> bytes \<Rightarrow> grant_claims \<Rightarrow> int \<Rightarrow> ('s grant_memory, connector_exn, unit) act" where
  "spend_grant registry encoded c now =
     (\<lambda>m0. let m = prune_grants now m0; r = gc_grant_ref c in
        case registry of
          Some g \<Rightarrow>
            (case rg_consume g r (sha256_hex encoded) (whole_seconds now) (gm_store m) of
               (True, s) \<Rightarrow> (Inr (), m\<lparr>gm_store := s\<rparr>)
             | (False, s) \<Rightarrow> (Inl (ConnectorReplayed ''connector_grant_not_minted_here_or_replayed''), m\<lparr>gm_store := s\<rparr>))
        | None \<Rightarrow>
            let m' = m\<lparr>gm_issued := filter (\<lambda>x. fst x \<noteq> r) (gm_issued m)\<rparr> in
            if map_option fst (map_of (gm_issued m) r) \<noteq> Some encoded
            then (Inl (ConnectorForbidden ''connector_grant_not_minted_here''), m')
            else if map_of (gm_consumed m') r \<noteq> None then (Inl (ConnectorReplayed ''connector_grant_replayed''), m')
            else if memory_full m' then (Inl (ConnectorNotConfigured ''connector_grant_registry_full''), m')
            else (Inr (), m'\<lparr>gm_consumed := gm_consumed m' @ [(r, gc_expires_at c)]\<rparr>))"

definition consume_grant ::
  "grant_library \<Rightarrow> grant_verifier \<Rightarrow> 's grant_registry option \<Rightarrow> bytes \<Rightarrow> pydict \<Rightarrow> int \<Rightarrow>
   ('s grant_memory, connector_exn, grant_claims) act" where
  "consume_grant lib v registry encoded expected clock =
     bind (result (parse_and_verify lib v encoded)) (\<lambda>c.
     bind (result (match_expected c expected)) (\<lambda>_.
     bind (result (guard (\<not> gc_expires_at c \<le> clock) (ConnectorForbidden ''connector_grant_expired''))) (\<lambda>_.
     andthen (spend_grant registry encoded c clock) (ret c))))"

text \<open>The hub's own store as the replay guard and the registry.\<close>

definition durable_registry :: "connector_ledger grant_registry" where
  "durable_registry = \<lparr>rg_register = register_connector_grant, rg_consume = consume_connector_grant\<rparr>"

end
