(* ===== verification/Connector_Endpoint.thy ===== *)
theory Connector_Endpoint
  imports Connector_Security
begin

text \<open>
  The internal connector route of \<open>integrations/api.py\<close>: a request is checked, bound to its signed
  grant, reserved in the ledger, and its provider is called once. The handler is a machine whose
  stages end where it touches the store or the provider, so that executions can interleave; preparing
  an operation and the provider's answer are arguments.
\<close>

section \<open>Problems\<close>

text \<open>A typed Product error with its reason code.\<close>

type_synonym problem = "product_exn \<times> string option"

definition connector_error :: "string \<Rightarrow> string \<Rightarrow> string \<Rightarrow> int \<Rightarrow> problem" where
  "connector_error c title detail status = (product_error (''EXCHANGE_'' @ c) title detail status, None)"

definition request_invalid :: "string \<Rightarrow> int \<Rightarrow> problem" where
  "request_invalid detail status = connector_error ''CONNECTOR_REQUEST_INVALID'' ''Connector request is invalid'' detail status"

definition authorization_denied :: "string \<Rightarrow> string option \<Rightarrow> problem" where
  "authorization_denied detail why =
     (product_error ''EXCHANGE_CONNECTOR_AUTHORIZATION_DENIED'' ''Connector authorization denied'' detail 403, why)"

definition ambiguous_authentication :: "string \<Rightarrow> problem" where
  "ambiguous_authentication detail =
     connector_error ''INTEGRATION_AUTH_AMBIGUOUS'' ''Connector authentication is ambiguous'' detail 401"

definition retryable_problem :: "string \<Rightarrow> string \<Rightarrow> string \<Rightarrow> string option \<Rightarrow> problem" where
  "retryable_problem c title detail why =
     (ExchangeProductError \<lparr>pe_code = c, pe_title = title, pe_detail = detail, pe_status = 503, pe_retryable = True,
        pe_resource_ref = None\<rparr>, why)"

fun ledger_problem :: "ledger_exn \<Rightarrow> problem" where
  "ledger_problem (LedgerIntegration e) = (product_exn_of e, None)"
| "ledger_problem (ConnectorInvocationLedgerFull m) = (ProductRuntimeError m, None)"
| "ledger_problem CanonicalizationInvalid =
     connector_error ''CONNECTOR_CANONICALIZATION_INVALID'' ''Connector JSON value is invalid''
       ''The connector JSON value is outside the RFC 8785 canonicalization domain.'' 422"
| "ledger_problem (ReceiptUnreadable m) = (ProductValueError m, None)"

text \<open>The route translates a full ledger.\<close>

fun reserve_problem :: "ledger_exn \<Rightarrow> problem" where
  "reserve_problem (ConnectorInvocationLedgerFull m) =
     retryable_problem ''EXCHANGE_CONNECTOR_RECEIPT_CAPACITY_EXCEEDED'' ''Connector receipt capacity reached''
       ''Exchange cannot safely admit another provider attempt until receipts are reconciled or expire.'' None"
| "reserve_problem e = ledger_problem e"

abbreviation catching :: "('e \<Rightarrow> problem) \<Rightarrow> 'e + 'a \<Rightarrow> problem + 'a" where
  "catching f r \<equiv> map_sum f id r"

section \<open>The request\<close>

record operation_body =
  bd_request_id :: string
  bd_provider_id :: string
  bd_profile_ref :: string
  bd_operation_id :: string
  bd_resource_ref :: string
  bd_arguments :: pydict
  bd_key :: "string option"

definition operation_fields :: "(string \<times> string) list" where
  "operation_fields =
     [(''requestId'', ''request_id''), (''providerId'', ''provider_id''), (''profileRef'', ''profile_ref''),
      (''operationId'', ''operation_id''), (''resourceRef'', ''resource_ref''), (''arguments'', ''arguments''),
      (''idempotencyKey'', ''idempotency_key'')]"

definition parse_operation_body :: "pydict \<Rightarrow> unit + operation_body" where
  "parse_operation_body d =
     (let keys = map (field_key d) operation_fields; field = (\<lambda>n. dget d (keys ! n)) in
      rbind (guard (list_all (\<lambda>(k, x). k \<in> set keys) d) ()) (\<lambda>_.
      rbind (bounded_text 200 (field 0)) (\<lambda>request_id.
      rbind (bounded_text 100 (field 1)) (\<lambda>provider_id.
      rbind (bounded_text 300 (field 2)) (\<lambda>profile_ref.
      rbind (bounded_text 200 (field 3)) (\<lambda>operation_id.
      rbind (bounded_text 1000 (field 4)) (\<lambda>resource_ref.
      rbind (need_dict (field 5) ()) (\<lambda>arguments.
      rbind (if field 6 = PNone then Inr None else rbind (bounded_text 200 (field 6)) (\<lambda>k. Inr (Some k))) (\<lambda>key.
      Inr \<lparr>bd_request_id = request_id, bd_provider_id = provider_id, bd_profile_ref = profile_ref,
           bd_operation_id = operation_id, bd_resource_ref = resource_ref, bd_arguments = arguments, bd_key = key\<rparr>)))))))))"

definition too_large :: problem where
  "too_large = connector_problem ConnectorTooLarge"

fun read_chunks :: "nat \<Rightarrow> bytes list \<Rightarrow> bytes \<Rightarrow> problem + bytes" where
  "read_chunks limit [] content = Inr content"
| "read_chunks limit (chunk # chunks) content =
     (if length content + length chunk > limit then Inl too_large else read_chunks limit chunks (content @ chunk))"

definition read_connector_body :: "nat \<Rightarrow> string option \<Rightarrow> bytes list \<Rightarrow> problem + bytes" where
  "read_connector_body limit content_length chunks =
     (case content_length of
        None \<Rightarrow> read_chunks limit chunks []
      | Some raw \<Rightarrow>
          rbind (guard (raw \<noteq> [] \<and> list_all dec_digit raw)
                   (request_invalid ''The internal request Content-Length is invalid.'' 400)) (\<lambda>_.
          rbind (map_sum (\<lambda>e. (ProductValueError (exc_message e), None)) id (py_int raw)) (\<lambda>n.
          rbind (guard (n \<le> int limit) too_large) (\<lambda>_.
          read_chunks limit chunks []))))"

record connector_request =
  cr_connection_ref :: string
  cr_path :: string
  cr_query :: string
  cr_headers :: "string \<Rightarrow> string option"
  cr_chunks :: "bytes list"

section \<open>Preparation\<close>

record prepared_operation =
  po_connection_ref :: string
  po_provider_id :: string
  po_profile_ref :: string
  po_operation_id :: string
  po_resource_ref :: string
  po_arguments :: pydict
  po_organization_id :: string
  po_workspace_id :: string
  po_is_mutating :: bool
  po_idempotency_key :: "string option"

text \<open>What \<open>prepare_..._operation\<close> of the dispatcher returns or raises.\<close>

datatype prepare_outcome = PreparedAs prepared_operation | ScopeRefused | ArgumentsRefused | PrepareRaised problem

text \<open>
  The services of the route. The computer profile is a connection of its own; \<open>es_bytes\<close> is
  \<open>bytes.fromhex\<close> of the calculated digest.
\<close>

record endpoint_services =
  es_library :: grant_library
  es_canon :: canonicalizer
  es_float :: "pyfloat \<Rightarrow> string"
  es_receipts :: "string \<Rightarrow> json_outcome"
  es_verifier :: "grant_verifier option"
  es_dispatches :: bool
  es_computer_ref :: "string option"
  es_hub :: hub_store
  es_prepare_computer :: "hub_principal \<Rightarrow> operation_body \<Rightarrow> string \<Rightarrow> prepare_outcome"
  es_prepare_connection :: "hub_principal \<Rightarrow> operation_body \<Rightarrow> connection \<Rightarrow> prepare_outcome"

definition hex_value :: "char \<Rightarrow> nat" where
  "hex_value c = (if dec_digit c then code c - 48 else code c - 87)"

fun hex_bytes :: "string \<Rightarrow> bytes" where
  "hex_bytes (a # b # s) = of_nat (16 * hex_value a + hex_value b) # hex_bytes s"
| "hex_bytes s = []"

definition prepared_result :: "string \<Rightarrow> string \<Rightarrow> string \<Rightarrow> prepare_outcome \<Rightarrow> problem + prepared_operation" where
  "prepared_result scope_detail scope_reason arguments_detail p =
     (case p of
        PreparedAs op \<Rightarrow> Inr op
      | ScopeRefused \<Rightarrow> Inl (authorization_denied scope_detail (Some scope_reason))
      | ArgumentsRefused \<Rightarrow> Inl (request_invalid arguments_detail 422)
      | PrepareRaised e \<Rightarrow> Inl e)"

definition prepare_operation ::
  "endpoint_services \<Rightarrow> hub_principal \<Rightarrow> operation_body \<Rightarrow> string \<Rightarrow> grant_claims \<Rightarrow> problem + prepared_operation" where
  "prepare_operation es p body connection_ref c =
     (if es_computer_ref es = Some connection_ref
      then prepared_result ''The computer operation is outside the verified host workspace.'' ''computer_scope_mismatch''
             ''The computer operation does not match its fixed argument schema.'' (es_prepare_computer es p body connection_ref)
      else
        case parse_uuid connection_ref of
          None \<Rightarrow> Inl (connector_error ''CONNECTOR_NOT_FOUND'' ''Connector connection not found''
                       ''The requested connector connection does not exist.'' 404)
        | Some i \<Rightarrow>
            rbind (catching (\<lambda>e. (product_exn_of e, None))
              (connector_connection_for_actor i (gc_principal_issuer c) (gc_principal_subject c) (gc_workspace_id c)
                 (Some (gc_organization_id c)) (es_hub es))) (\<lambda>connection.
            prepared_result ''The connector operation is outside the verified actor or host binding.'' ''connector_scope_mismatch''
              ''The provider operation does not match its fixed argument schema.'' (es_prepare_connection es p body connection)))"

definition envelope_of :: "prepared_operation \<Rightarrow> string \<Rightarrow> pydict" where
  "envelope_of op digest =
     [(''connectionRef'', PStr (po_connection_ref op)), (''providerId'', PStr (po_provider_id op)),
      (''profileRef'', PStr (po_profile_ref op)), (''operationId'', PStr (po_operation_id op)),
      (''resourceRef'', PStr (po_resource_ref op)), (''argumentsDigestSha256'', PStr digest)] @
     (case po_idempotency_key op of None \<Rightarrow> [] | Some k \<Rightarrow> [(''idempotencyKey'', PStr k)])"

definition connector_envelope_sha256 :: "canonicalizer \<Rightarrow> prepared_operation \<Rightarrow> string \<Rightarrow> ledger_exn + string" where
  "connector_envelope_sha256 canon op digest =
     rbind (connector_canonical_json canon (PDict (envelope_of op digest))) (\<lambda>s. Inr (sha256_hex (utf8 s)))"

text \<open>An admitted operation: everything the later stages use.\<close>

record connector_operation =
  co_principal :: hub_principal
  co_request_id :: string
  co_body_arguments :: pydict
  co_prepared :: prepared_operation
  co_target :: invocation_target
  co_grant :: bytes
  co_expected :: pydict
  co_claims :: grant_claims

definition expected_claims :: "operation_body \<Rightarrow> prepared_operation \<Rightarrow> grant_claims \<Rightarrow> string \<Rightarrow> pydict" where
  "expected_claims body op c digest =
     [(''request_id'', PStr (bd_request_id body)), (''organization_id'', PStr (po_organization_id op)),
      (''workspace_id'', PStr (po_workspace_id op)), (''principal_issuer'', PStr (gc_principal_issuer c)),
      (''principal_subject'', PStr (gc_principal_subject c)), (''connection_ref'', PStr (po_connection_ref op)),
      (''provider_id'', PStr (po_provider_id op)), (''profile_ref'', PStr (po_profile_ref op)),
      (''operation_id'', PStr (po_operation_id op)), (''resource_ref'', PStr (po_resource_ref op)),
      (''arguments_digest_sha256'', PBytes (hex_bytes digest))]"

definition target_of :: "prepared_operation \<Rightarrow> string \<Rightarrow> string \<Rightarrow> invocation_target" where
  "target_of op digest envelope =
     \<lparr>it_connection_ref = po_connection_ref op, it_provider_id = po_provider_id op, it_profile_ref = po_profile_ref op,
      it_operation_id = po_operation_id op, it_resource_ref = po_resource_ref op, it_arguments_sha256 = digest,
      it_envelope_sha256 = envelope, it_is_mutating = po_is_mutating op\<rparr>"

text \<open>The checks of the request itself, in order.\<close>

definition read_operation :: "endpoint_services \<Rightarrow> connector_request \<Rightarrow> problem + (operation_body \<times> grant_verifier \<times> bytes)" where
  "read_operation es q =
     (let header = cr_headers q; present = (\<lambda>name. header name \<noteq> None \<and> header name \<noteq> Some []);
          content_type = lower (strip (before_char (CHR '';'') (case header ''content-type'' of None \<Rightarrow> [] | Some v \<Rightarrow> v))) in
      rbind (guard (cr_query q = [] \<and> \<not> present ''authorization'')
               (ambiguous_authentication ''Connector invocation accepts only X-Cyrene-Connector-Grant-Bin.'')) (\<lambda>_.
      rbind (guard (\<not> present ''x-cyrene-execution-credential-bin'')
               (ambiguous_authentication ''Product execution credentials cannot authorize connector operations.'')) (\<lambda>_.
      rbind (guard (content_type = ''application/json'')
               (request_invalid ''Connector invocation requires application/json.'' 415)) (\<lambda>_.
      rbind (read_connector_body 1500000 (header ''content-length'') (cr_chunks q)) (\<lambda>raw.
      rbind (catching connector_problem (parse_signed_json_object (gl_loads (es_library es)) raw)) (\<lambda>payload.
      rbind (catching (\<lambda>_. request_invalid ''The provider operation does not match its closed Exchange schema.'' 400)
               (parse_operation_body payload)) (\<lambda>body.
      case es_verifier es of
        None \<Rightarrow> Inl (retryable_problem ''EXCHANGE_CONNECTOR_NOT_CONFIGURED'' ''Connector authorization is not configured''
                  ''Exchange has no connector grant verifier or provider adapter.'' (Some ''connector_dispatch_not_configured''))
      | Some v \<Rightarrow>
          rbind (guard (es_dispatches es)
                   (retryable_problem ''EXCHANGE_CONNECTOR_NOT_CONFIGURED'' ''Connector authorization is not configured''
                      ''Exchange has no connector grant verifier or provider adapter.'' (Some ''connector_dispatch_not_configured''))) (\<lambda>_.
          (case b64decode (case header ''x-cyrene-connector-grant-bin'' of None \<Rightarrow> [] | Some g \<Rightarrow> g) of
             None \<Rightarrow> Inl (authorization_denied ''The connector grant header is malformed.'' None)
           | Some encoded \<Rightarrow>
               rbind (guard (cr_path q = ''/internal/v1/connector-operations/'' @ cr_connection_ref q)
                        (authorization_denied ''The connector grant does not target this route.'' None)) (\<lambda>_.
               Inr (body, v, encoded)))))))))))"

text \<open>From the request to an admitted operation; the two clock readings are those of \<open>inspect\<close>.\<close>

definition admit_operation :: "endpoint_services \<Rightarrow> connector_request \<Rightarrow> int \<Rightarrow> int \<Rightarrow> problem + connector_operation" where
  "admit_operation es q now later =
     rbind (read_operation es q) (\<lambda>(body, v, encoded).
     rbind (catching connector_problem (inspect_grant (es_library es) v encoded None False now)) (\<lambda>provisional.
     rbind (catching (\<lambda>e. (product_exn_of e, None))
       (mk_hub_principal (gc_principal_issuer provisional) (gc_principal_subject provisional)
          (gc_organization_id provisional) (gc_workspace_id provisional) [bd_operation_id body] None None None)) (\<lambda>p.
     rbind (prepare_operation es p body (cr_connection_ref q) provisional) (\<lambda>op.
     rbind (catching ledger_problem (digest_arguments (es_canon es) (po_arguments op))) (\<lambda>digest.
     let expected = expected_claims body op provisional digest in
     rbind (catching connector_problem (inspect_grant (es_library es) v encoded (Some expected) False later)) (\<lambda>c.
     rbind (catching ledger_problem (connector_envelope_sha256 (es_canon es) op digest)) (\<lambda>envelope.
     Inr \<lparr>co_principal = p, co_request_id = bd_request_id body, co_body_arguments = bd_arguments body, co_prepared = op,
          co_target = target_of op digest envelope, co_grant = encoded, co_expected = expected, co_claims = c\<rparr>)))))))"

section \<open>Responses\<close>

text \<open>
  \<open>str(v).strip().upper()\<close> where the code compares it with its own words: the text of a value that
  is no string is neither empty nor one of them.
\<close>

definition state_word :: "pyval \<Rightarrow> string" where
  "state_word v = (case v of PNone \<Rightarrow> [] | PStr s \<Rightarrow> upper (strip s) | _ \<Rightarrow> ''?'')"

definition either_field :: "pydict \<Rightarrow> string \<Rightarrow> string \<Rightarrow> pyval" where
  "either_field d a b = dget_or d a (dget d b)"

definition connector_operation_state :: "pydict \<Rightarrow> string option" where
  "connector_operation_state d = (case either_field d ''state'' ''status'' of PStr s \<Rightarrow> Some (upper (strip s)) | _ \<Rightarrow> None)"

definition connector_operation_ref :: "pydict \<Rightarrow> string option" where
  "connector_operation_ref d =
     (case either_field d ''operation_ref'' ''operationRef'' of PStr s \<Rightarrow> if s = [] then None else Some s | _ \<Rightarrow> None)"

definition unknown_mutation_words :: "string list" where
  "unknown_mutation_words =
     [''UNKNOWN'', ''UNKNOWN_RESULT'', ''UNCERTAIN'', ''REMOTE_STATE_UNVERIFIED'', ''COMMAND_INTERRUPTED'', ''COMMAND_CANCELLED'']"

definition work_operation_ref :: "string \<Rightarrow> bool" where
  "work_operation_ref s =
     (let u = drop 15 s in
      starts_with ''work-operation:'' s \<and> length u = 36 \<and>
      list_all (\<lambda>(i, c). if i \<in> {8, 13, 18, 23} then c = CHR ''-'' else hex_char c) (enumerate 0 u))"

definition bilibili_writes :: "string list" where
  "bilibili_writes = [''bilibili.comment.create'', ''bilibili.dynamic.publish'', ''bilibili.dm.send'']"

definition readback_proof :: "pydict \<Rightarrow> bool" where
  "readback_proof d =
     (case (either_field d ''external_id'' ''externalId'', either_field d ''readback_verified'' ''readbackVerified'',
            either_field d ''readback_sha256'' ''readbackSha256'') of
        (PStr i, PBool True, PStr h) \<Rightarrow> i \<noteq> [] \<and> length i \<le> 20 \<and> list_all dec_digit i \<and> hex64 h
      | _ \<Rightarrow> False)"

definition provider_failed :: "pydict \<Rightarrow> bool" where
  "provider_failed d =
     (dget_or d ''isError'' (dget_or d ''is_error'' (PBool False)) = PBool True \<or> is_mapping (dget d ''error''))"

text \<open>The chain of branches that names the outcome, before a pending one without a reference is demoted.\<close>

definition raw_outcome :: "bool \<Rightarrow> string \<Rightarrow> string option \<Rightarrow> pydict \<Rightarrow> string" where
  "raw_outcome mutating operation_id expected d =
     (let st = state_word (either_field d ''state'' ''status'');
          remote = state_word (either_field d ''remote_state'' ''remoteState'');
          unknown = st \<in> set unknown_mutation_words \<or> remote \<in> {''UNKNOWN'', ''UNKNOWN_RESULT'', ''UNVERIFIED''} in
      if mutating \<and> operation_id \<in> set bilibili_writes then
        (if st = ''SUCCEEDED'' \<and> (case expected of None \<Rightarrow> False | Some e \<Rightarrow> work_operation_ref e \<and> connector_operation_ref d = Some e) \<and>
            readback_proof d then ''verified''
         else if st \<in> {''REJECTED'', ''FAILED'', ''ERROR''} then ''failed'' else ''uncertain'')
      else if mutating \<and> unknown then ''uncertain''
      else if mutating \<and> operation_id = ''microsoft_graph.mail.message.send'' \<and> st = ''ACCEPTED'' then ''verified''
      else if st = ''COMMAND_FAILED'' \<and> remote \<in> {[], ''NOT_APPLICABLE''} then ''failed''
      else if mutating \<and> st \<in> {''PENDING'', ''RUNNING'', ''SUBMITTED'', ''ACCEPTED''} then ''pending''
      else if provider_failed d then ''failed''
      else if mutating \<and> (st \<in> {''FAILED'', ''REJECTED'', ''ERROR''} \<or> st = []) then (if st \<noteq> [] then ''failed'' else ''uncertain'')
      else ''verified'')"

definition operation_outcome :: "bool \<Rightarrow> string \<Rightarrow> string option \<Rightarrow> pydict \<Rightarrow> string" where
  "operation_outcome mutating operation_id expected d =
     (let out = raw_outcome mutating operation_id expected d in
      if out = ''pending'' \<and> connector_operation_ref d = None then ''uncertain'' else out)"

definition connector_operation_response ::
  "canonicalizer \<Rightarrow> string \<Rightarrow> pydict \<Rightarrow> bool \<Rightarrow> string \<Rightarrow> string option \<Rightarrow> ledger_exn + pydict" where
  "connector_operation_response canon request_id d mutating operation_id expected =
     (let out = operation_outcome mutating operation_id expected d in
      rbind (connector_canonical_json canon (PDict d)) (\<lambda>body.
      Inr ([(''requestId'', PStr request_id), (''outcome'', PStr out),
            (''result'', receipt_content body (out \<in> {''failed'', ''uncertain''}))] @
           (case connector_operation_ref d of None \<Rightarrow> [] | Some r \<Rightarrow> [(''operationRef'', PStr r)]))))"

definition outcome_state :: "string \<Rightarrow> invocation_state" where
  "outcome_state out =
     (if out = ''verified'' then InvSucceeded else if out = ''pending'' then InvPending
      else if out = ''uncertain'' then UnknownResult else InvFailed)"

definition failure_result :: "string \<Rightarrow> string \<Rightarrow> bool \<Rightarrow> pydict" where
  "failure_result st c retryable =
     [(''state'', PStr st), (''error'', PDict [(''code'', PStr c), (''retryable'', PBool retryable)])]"

definition connector_exception_result :: "product_error \<Rightarrow> bool \<Rightarrow> pydict" where
  "connector_exception_result e mutating =
     failure_result (if mutating \<and> pe_status e \<ge> 500 then ''UNKNOWN_RESULT'' else ''FAILED'') (pe_code e) (pe_retryable e)"

definition replay_outcome :: "invocation_state \<Rightarrow> string" where
  "replay_outcome st =
     (if st = InvPending then ''pending'' else if st \<in> {UnknownResult, InProgress} then ''uncertain''
      else if st \<in> {InvFailed, InvRejected} then ''failed'' else ''verified'')"

definition connector_replay_response :: "canonicalizer \<Rightarrow> string \<Rightarrow> reservation \<Rightarrow> ledger_exn + pydict" where
  "connector_replay_response canon request_id rv =
     (case rv_response rv of
        Some d \<Rightarrow> Inr d
      | None \<Rightarrow>
          let st = (case rv_state rv of None \<Rightarrow> UnknownResult | Some st \<Rightarrow> st); out = replay_outcome st;
              fresh = (\<not> rv_is_mutating rv \<and> st \<in> {InvSucceeded, InvFailed});
              named = (\<lambda>k. if given (rv_operation_ref rv) then [(k, opt_py (rv_operation_ref rv))] else []);
              summary = [(''state'', PStr (invocation_state_text st)), (''receiptOnly'', PBool True),
                (''reasonCode'', PStr ''connector_attempt_already_started''), (''freshRequestRequired'', PBool fresh),
                (''replayPolicy'', PStr (if fresh then ''fresh-read''
                   else if st \<in> {InvPending, UnknownResult, InProgress} then ''status-reconciliation'' else ''do-not-repeat''))] @
                named ''operation_ref'' in
          rbind (connector_canonical_json canon (PDict summary)) (\<lambda>body.
          Inr ([(''requestId'', PStr request_id), (''outcome'', PStr out)] @ named ''operationRef'' @
               [(''result'', receipt_content body (out \<in> {''failed'', ''uncertain''}))])))"

section \<open>The stages of the handler\<close>

text \<open>What the provider call returns or raises.\<close>

datatype provider_reply = ProviderResult pydict | ProviderProblem product_error | ProviderBroke

definition result_of :: "provider_reply \<Rightarrow> bool \<Rightarrow> pydict" where
  "result_of r mutating =
     (case r of
        ProviderResult d \<Rightarrow> d
      | ProviderProblem e \<Rightarrow> connector_exception_result e mutating
      | ProviderBroke \<Rightarrow> failure_result (if mutating then ''UNKNOWN_RESULT'' else ''FAILED'') ''PROVIDER_UNAVAILABLE'' True)"

record endpoint_world =
  ew_grants :: "connector_ledger grant_memory"
  ew_calls :: "(connector_operation \<times> grant_claims) list"

datatype op_stage =
    ToReserve
  | ToRespend reservation
  | ToReattach reservation grant_claims
  | ToSpend
  | ToDiscard problem
  | ToAttach grant_claims
  | ToInvoke grant_claims
  | ToComplete grant_claims pydict
  | ToReconcile pydict pydict
  | Finished "problem + pydict"

definition on_ledger :: "'a ledger_act \<Rightarrow> endpoint_world \<Rightarrow> (ledger_exn + 'a) \<times> endpoint_world" where
  "on_ledger f w = (case f (gm_store (ew_grants w)) of (r, s) \<Rightarrow> (r, w\<lparr>ew_grants := (ew_grants w)\<lparr>gm_store := s\<rparr>\<rparr>))"

definition on_grants ::
  "(connector_ledger grant_memory, connector_exn, 'a) act \<Rightarrow> endpoint_world \<Rightarrow> (connector_exn + 'a) \<times> endpoint_world" where
  "on_grants f w = (case f (ew_grants w) of (r, m) \<Rightarrow> (r, w\<lparr>ew_grants := m\<rparr>))"

text \<open>An untyped exception of \<open>consume\<close> passes the handler by; a typed one discards the reservation.\<close>

definition typed_refusal :: "connector_exn \<Rightarrow> bool" where
  "typed_refusal e = (case e of ConnectorUncaught k \<Rightarrow> False | _ \<Rightarrow> True)"

definition spend_now ::
  "endpoint_services \<Rightarrow> grant_verifier \<Rightarrow> connector_operation \<Rightarrow> int \<Rightarrow> endpoint_world \<Rightarrow> (connector_exn + grant_claims) \<times> endpoint_world" where
  "spend_now es v c now = on_grants (consume_grant (es_library es) v (Some durable_registry) (co_grant c) (co_expected c) now)"

definition attach_now :: "connector_operation \<Rightarrow> grant_claims \<Rightarrow> endpoint_world \<Rightarrow> (ledger_exn + unit) \<times> endpoint_world" where
  "attach_now c cl = on_ledger (attach_connector_invocation_grant (co_principal c) (co_request_id c)
     (it_envelope_sha256 (co_target c)) (gc_grant_ref cl))"

definition reserve_now :: "endpoint_services \<Rightarrow> connector_operation \<Rightarrow> int \<Rightarrow> endpoint_world \<Rightarrow> (ledger_exn + reservation) \<times> endpoint_world" where
  "reserve_now es c now = on_ledger (reserve_connector_invocation (es_receipts es) (co_principal c) (co_request_id c)
     (co_target c) (gc_grant_ref (co_claims c)) (whole_seconds now))"

definition complete_now ::
  "endpoint_services \<Rightarrow> connector_operation \<Rightarrow> string \<Rightarrow> pydict \<Rightarrow> string option \<Rightarrow> int \<Rightarrow> endpoint_world \<Rightarrow>
   (ledger_exn + unit) \<times> endpoint_world" where
  "complete_now es c out response operation_ref now =
     on_ledger (complete_connector_invocation (es_canon es) (es_float es) (co_principal c) (co_request_id c)
       (it_envelope_sha256 (co_target c)) (outcome_state out) (Some response) operation_ref 200 (whole_seconds now))"

text \<open>The reference a status read resolves, and the state it resolves it to.\<close>

definition reconciles :: "connector_operation \<Rightarrow> pydict \<Rightarrow> (string \<times> invocation_state) option" where
  "reconciles c d =
     (let st = connector_operation_state d;
          requested = (case dget (co_body_arguments c) ''operation_ref'' of PStr s \<Rightarrow> Some s | _ \<Rightarrow> None);
          found = (case connector_operation_ref d of Some r \<Rightarrow> Some r | None \<Rightarrow> requested) in
      if po_operation_id (co_prepared c) = ''cloud.operation.status.read'' \<and> st \<in> {Some ''SUCCEEDED'', Some ''FAILED''} \<and> given found
      then Some (the found, if st = Some ''SUCCEEDED'' then InvSucceeded else InvFailed) else None)"

fun advance ::
  "endpoint_services \<Rightarrow> grant_verifier \<Rightarrow> connector_operation \<Rightarrow> int \<Rightarrow> provider_reply \<Rightarrow> op_stage \<Rightarrow> endpoint_world \<Rightarrow>
   op_stage \<times> endpoint_world" where
  "advance es v c now reply ToReserve w =
     (case reserve_now es c now w of
        (Inl e, w') \<Rightarrow> (Finished (Inl (reserve_problem e)), w')
      | (Inr rv, w') \<Rightarrow>
          (if rv_disposition rv = New then ToSpend
           else if rv_grant_ref rv \<noteq> Some (gc_grant_ref (co_claims c)) then ToRespend rv
           else Finished (catching ledger_problem (connector_replay_response (es_canon es) (co_request_id c) rv)), w'))"
| "advance es v c now reply (ToRespend rv) w =
     (case spend_now es v c now w of
        (Inl e, w') \<Rightarrow> (Finished (Inl (connector_problem e)), w')
      | (Inr cl, w') \<Rightarrow> (ToReattach rv cl, w'))"
| "advance es v c now reply (ToReattach rv cl) w =
     (case attach_now c cl w of
        (Inl e, w') \<Rightarrow> (Finished (Inl (ledger_problem e)), w')
      | (Inr u, w') \<Rightarrow> (Finished (catching ledger_problem (connector_replay_response (es_canon es) (co_request_id c) rv)), w'))"
| "advance es v c now reply ToSpend w =
     (case spend_now es v c now w of
        (Inl e, w') \<Rightarrow> (if typed_refusal e then ToDiscard (connector_problem e) else Finished (Inl (connector_problem e)), w')
      | (Inr cl, w') \<Rightarrow> (ToAttach cl, w'))"
| "advance es v c now reply (ToDiscard e) w =
     (Finished (Inl e),
      snd (on_ledger (discard_connector_invocation (co_principal c) (co_request_id c) (it_envelope_sha256 (co_target c))) w))"
| "advance es v c now reply (ToAttach cl) w =
     (case attach_now c cl w of
        (Inl e, w') \<Rightarrow> (Finished (Inl (ledger_problem e)), w')
      | (Inr u, w') \<Rightarrow> (ToInvoke cl, w'))"
| "advance es v c now reply (ToInvoke cl) w =
     (ToComplete cl (result_of reply (po_is_mutating (co_prepared c))), w\<lparr>ew_calls := ew_calls w @ [(c, cl)]\<rparr>)"
| "advance es v c now reply (ToComplete cl d) w =
     (let op = co_prepared c; out = operation_outcome (po_is_mutating op) (po_operation_id op) (po_idempotency_key op) d in
      case connector_operation_response (es_canon es) (gc_request_id cl) d (po_is_mutating op) (po_operation_id op)
             (po_idempotency_key op) of
        Inl e \<Rightarrow> (Finished (Inl (ledger_problem e)), w)
      | Inr response \<Rightarrow>
          (case complete_now es c out response (connector_operation_ref d) now w of
             (Inl e, w') \<Rightarrow> (Finished (Inl (ledger_problem e)), w')
           | (Inr u, w') \<Rightarrow> (if reconciles c d = None then Finished (Inr response) else ToReconcile d response, w')))"
| "advance es v c now reply (ToReconcile d response) w =
     (case reconciles c d of
        None \<Rightarrow> (Finished (Inr response), w)
      | Some (operation_ref, st) \<Rightarrow>
          (case on_ledger (reconcile_connector_invocations (es_canon es) (es_float es) (co_principal c)
                   (po_profile_ref (co_prepared c)) operation_ref st (whole_seconds now)) w of
             (Inl e, w') \<Rightarrow> (Finished (Inl (ledger_problem e)), w')
           | (Inr n, w') \<Rightarrow> (Finished (Inr response), w')))"
| "advance es v c now reply (Finished r) w = (Finished r, w)"

text \<open>The handler alone: at most six stages, each at its own reading of the clock.\<close>

fun run_stages ::
  "endpoint_services \<Rightarrow> grant_verifier \<Rightarrow> connector_operation \<Rightarrow> provider_reply \<Rightarrow> int list \<Rightarrow> op_stage \<Rightarrow> endpoint_world \<Rightarrow>
   op_stage \<times> endpoint_world" where
  "run_stages es v c reply [] st w = (st, w)"
| "run_stages es v c reply (now # clock) st w =
     (case advance es v c now reply st w of (st', w') \<Rightarrow> run_stages es v c reply clock st' w')"

definition execute_connector_operation ::
  "endpoint_services \<Rightarrow> connector_request \<Rightarrow> provider_reply \<Rightarrow> (nat \<Rightarrow> int) \<Rightarrow> endpoint_world \<Rightarrow> op_stage \<times> endpoint_world" where
  "execute_connector_operation es q reply clock w =
     (case admit_operation es q (clock 0) (clock 1) of
        Inl e \<Rightarrow> (Finished (Inl e), w)
      | Inr c \<Rightarrow> run_stages es (the (es_verifier es)) c reply (map clock [2..<8]) ToReserve w)"

end
