(* ===== verification/Call_Runs.thy ===== *)
theory Call_Runs
  imports Effects
begin

text \<open>
  Runs of calls on a shared state, with the reply of each, and the argument behind every
  at-most-once guarantee: a call that succeeds marks the state, a marked state stays marked, and no
  further call succeeds on it. The calls happen at readings of a clock that does not go back.
\<close>

fun run_calls :: "('c \<Rightarrow> ('w, 'e, 'a) act) \<Rightarrow> 'c list \<Rightarrow> 'w \<Rightarrow> ('c \<times> ('e + 'a)) list \<times> 'w" where
  "run_calls step [] w = ([], w)"
| "run_calls step (c # cs) w =
     (let (r, w') = step c w; (rest, w'') = run_calls step cs w' in ((c, r) # rest, w''))"

definition count_hits :: "('c \<Rightarrow> ('e + 'a) \<Rightarrow> bool) \<Rightarrow> ('c \<times> ('e + 'a)) list \<Rightarrow> nat" where
  "count_hits hit replies = length (filter (\<lambda>(c, r). hit c r) replies)"

lemma run_calls_Cons:
  "run_calls step (c # cs) w =
     ((c, fst (step c w)) # fst (run_calls step cs (snd (step c w))), snd (run_calls step cs (snd (step c w))))"
  by (simp add: split_beta)

lemma count_hits_Cons: "count_hits hit ((c, r) # rest) = (if hit c r then 1 else 0) + count_hits hit rest"
  by (simp add: count_hits_def)

lemma run_calls_invariant:
  assumes "I w" and "\<And>c w. c \<in> set cs \<Longrightarrow> I w \<Longrightarrow> I (snd (step c w))"
  shows "I (snd (run_calls step cs w))"
  using assms by (induction cs arbitrary: w) (simp_all add: run_calls_Cons del: run_calls.simps(2))

locale marking =
  fixes step :: "'c \<Rightarrow> ('w, 'e, 'a) act"
    and time :: "'c \<Rightarrow> int"
    and allowed :: "'c \<Rightarrow> bool"
    and hit :: "'c \<Rightarrow> ('e + 'a) \<Rightarrow> bool"
    and sound :: "'w \<Rightarrow> bool"
    and marked :: "int \<Rightarrow> 'w \<Rightarrow> bool"
  assumes step_sound: "allowed c \<Longrightarrow> sound w \<Longrightarrow> sound (snd (step c w))"
    and hit_marks: "allowed c \<Longrightarrow> sound w \<Longrightarrow> hit c (fst (step c w)) \<Longrightarrow> marked (time c) (snd (step c w))"
    and marked_blocks: "allowed c \<Longrightarrow> sound w \<Longrightarrow> marked t w \<Longrightarrow> t \<le> time c \<Longrightarrow> \<not> hit c (fst (step c w))"
    and marked_stays: "allowed c \<Longrightarrow> sound w \<Longrightarrow> marked t w \<Longrightarrow> t \<le> time c \<Longrightarrow> marked (time c) (snd (step c w))"
begin

lemma none_after_mark:
  assumes "sound w" "marked t w" "sorted (map time cs)" "\<forall>c\<in>set cs. allowed c \<and> t \<le> time c"
  shows "count_hits hit (fst (run_calls step cs w)) = 0"
  using assms
proof (induction cs arbitrary: w t)
  case (Cons c cs)
  then have c: "allowed c" "t \<le> time c" by auto
  with Cons.prems have "sound (snd (step c w))" "marked (time c) (snd (step c w))" "\<not> hit c (fst (step c w))"
    using step_sound marked_stays marked_blocks by blast+
  with Cons show ?case by (simp add: run_calls_Cons count_hits_Cons del: run_calls.simps(2))
qed (simp add: count_hits_def)

lemma at_most_one:
  assumes "sound w" "sorted (map time cs)" "\<forall>c\<in>set cs. allowed c"
  shows "count_hits hit (fst (run_calls step cs w)) \<le> 1"
  using assms
proof (induction cs arbitrary: w)
  case (Cons c cs)
  then have c: "allowed c" "sound (snd (step c w))" using step_sound by auto
  show ?case
  proof (cases "hit c (fst (step c w))")
    case True
    then have "marked (time c) (snd (step c w))" using Cons.prems c hit_marks by blast
    with Cons.prems c(2) have "count_hits hit (fst (run_calls step cs (snd (step c w)))) = 0"
      by (intro none_after_mark) auto
    then show ?thesis by (simp add: run_calls_Cons count_hits_Cons del: run_calls.simps(2))
  next
    case False
    with Cons c show ?thesis by (simp add: run_calls_Cons count_hits_Cons del: run_calls.simps(2))
  qed
qed (simp add: count_hits_def)

end

end
