(* ===== verification/Connector_Ledger_Facts.thy ===== *)
theory Connector_Ledger_Facts
  imports Connector_Ledger Call_Runs "HOL-Library.Multiset"
begin

text \<open>
  The connector tables under every operation: distinct keys, the budgets of rows and receipts, and
  the fate of an invocation that is not settled.
\<close>

section \<open>Statements on the invocation table\<close>

lemma table_ok_select: "table_ok t \<Longrightarrow> table_ok (select P t)"
  by (simp add: table_ok_def select_def distinct_map_filter)

lemma find_select:
  "table_ok t \<Longrightarrow> find_row k (select P t) = (case find_row k t of None \<Rightarrow> None | Some r \<Rightarrow> if P k r then Some r else None)"
  by (induction t) (auto simp: find_row_def select_def table_ok_def image_iff split: option.splits dest: map_of_SomeD)

lemma length_select: "length (select P t) \<le> length t"
  by (simp add: select_def)

lemma length_update_row [simp]: "length (update_row k f t) = length t"
  by (simp add: update_row_def)

lemma find_filter_key: "find_row k (filter (\<lambda>y. fst y \<noteq> k') t) = (if k = k' then None else find_row k t)"
  by (simp add: find_row_def map_of_filter_key)

lemma table_ok_filter: "table_ok t \<Longrightarrow> table_ok (filter P t)"
  by (simp add: table_ok_def distinct_map_filter)

lemma table_ok_append: "table_ok t \<Longrightarrow> find_row k t = None \<Longrightarrow> table_ok (t @ [(k, r)])"
  by (auto simp: table_ok_def find_row_def map_of_eq_None_iff)

lemma table_ok_perm: "mset t = mset u \<Longrightarrow> table_ok t = table_ok u"
  unfolding table_ok_def by (metis mset_eq_imp_distinct_iff mset_map)

lemma find_update_attempt:
  "find_row k' (update_attempt k envelope f t) =
     (if k' = k then map_option (\<lambda>r. if it_envelope_sha256 (iv_target r) = envelope then f r else r) (find_row k t)
      else find_row k' t)"
  by (simp add: update_attempt_def find_update)

lemma find_attempt_Some:
  "find_attempt k envelope t = Some r \<longleftrightarrow> find_row k t = Some r \<and> it_envelope_sha256 (iv_target r) = envelope"
  by (auto simp: find_attempt_def split: option.splits if_splits)

lemma map_fst_update_attempt [simp]: "map fst (update_attempt k envelope f t) = map fst t"
  by (simp add: update_attempt_def)

lemma length_update_attempt [simp]: "length (update_attempt k envelope f t) = length t"
  by (simp add: update_attempt_def)

lemma table_ok_update_attempt: "table_ok t \<Longrightarrow> table_ok (update_attempt k envelope f t)"
  by (simp add: table_ok_def)

section \<open>Receipts\<close>

lemma receipt_bytes_cached: "receipt_bytes (cached_receipts t) = receipt_bytes t"
  by (induction t) (auto simp: receipt_bytes_def cached_receipts_def select_def receipt_size_def)

lemma receipt_bytes_append: "receipt_bytes (t @ u) = receipt_bytes t + receipt_bytes u"
  by (simp add: receipt_bytes_def)

lemma cached_append: "cached_receipts (t @ u) = cached_receipts t @ cached_receipts u"
  by (simp add: cached_receipts_def select_def)

definition receipts_bounded :: "invocations \<Rightarrow> bool" where
  "receipts_bounded t = (length (cached_receipts t) \<le> RECEIPT_MAX_ENTRIES \<and> receipt_bytes t \<le> RECEIPT_MAX_BYTES)"

text \<open>A row that gets \<open>kept\<close> as its receipt, or keeps its own.\<close>

definition size_of :: "string option \<Rightarrow> nat" where
  "size_of kept = (case kept of None \<Rightarrow> 0 | Some j \<Rightarrow> byte_count j)"

lemma receipts_update:
  assumes "table_ok t" "\<And>r. iv_response_json (f r) \<in> {kept, iv_response_json r}"
  shows "length (cached_receipts (update_row k f t)) \<le> length (cached_receipts t) + (if kept = None then 0 else 1)"
    and "receipt_bytes (update_row k f t) \<le> receipt_bytes t + size_of kept"
proof -
  have same: "update_row k f u = u" if "k \<notin> fst ` set u" for u
    using that by (induction u) (auto simp: update_row_def)
  have r: "iv_response_json (f r) \<noteq> None \<Longrightarrow> iv_response_json r \<noteq> None \<or> kept \<noteq> None"
    "receipt_size (f r) \<le> receipt_size r + size_of kept" for r
    using assms(2) [of r] by (auto simp: receipt_size_def size_of_def split: option.splits)
  show "length (cached_receipts (update_row k f t)) \<le> length (cached_receipts t) + (if kept = None then 0 else 1)"
    using assms(1)
  proof (induction t)
    case (Cons x t)
    show ?case
    proof (cases "fst x = k")
      case True
      with Cons.prems same [of t] r(1) [of "snd x"] show ?thesis
        by (cases x) (auto simp: table_ok_def update_row_def cached_receipts_def select_def)
    next
      case False
      with Cons show ?thesis
        by (cases x) (auto simp: table_ok_def update_row_def cached_receipts_def select_def)
    qed
  qed (simp add: update_row_def cached_receipts_def select_def)
  show "receipt_bytes (update_row k f t) \<le> receipt_bytes t + size_of kept"
    using assms(1)
  proof (induction t)
    case (Cons x t)
    show ?case
    proof (cases "fst x = k")
      case True
      with Cons.prems same [of t] r(2) [of "snd x"] show ?thesis
        by (cases x) (auto simp: table_ok_def update_row_def receipt_bytes_def)
    next
      case False
      with Cons show ?thesis
        by (cases x) (auto simp: table_ok_def update_row_def receipt_bytes_def)
    qed
  qed (simp add: update_row_def receipt_bytes_def)
qed

lemma receipts_select:
  "length (cached_receipts (select P t)) \<le> length (cached_receipts t)" "receipt_bytes (select P t) \<le> receipt_bytes t"
  by (induction t) (auto simp: cached_receipts_def select_def receipt_bytes_def)

lemma receipts_bounded_select: "receipts_bounded t \<Longrightarrow> receipts_bounded (select P t)"
  using receipts_select [of P t] by (auto simp: receipts_bounded_def)

lemma receipts_bounded_filter: "receipts_bounded t \<Longrightarrow> receipts_bounded (filter P t)"
  using receipts_bounded_select [of t "\<lambda>k r. P (k, r)"] by (simp add: select_def)

text \<open>What trimming leaves of each row.\<close>

lemma map_fst_forget [simp]: "map fst (forget_receipt k t) = map fst t"
  by (simp add: forget_receipt_def)

lemma trim_loop_keys [simp]: "map fst (trim_loop incoming excluded t) = map fst t"
  by (induction incoming excluded t rule: trim_loop.induct)
     (subst trim_loop.simps, auto split: option.splits)

lemma trim_loop_find:
  "\<exists>kept. find_row k (trim_loop incoming excluded t) = map_option (\<lambda>r. r\<lparr>iv_response_json := kept r\<rparr>) (find_row k t)"
proof (induction incoming excluded t rule: trim_loop.induct)
  case (1 incoming excluded t)
  show ?case
  proof (cases "receipts_fit incoming t \<or> oldest_receipt excluded t = None")
    case True
    then have "trim_loop incoming excluded t = t" by (subst trim_loop.simps) auto
    then show ?thesis by (intro exI [of _ iv_response_json]) (simp add: option.map_ident)
  next
    case False
    then obtain o' where o': "oldest_receipt excluded t = Some o'" by auto
    then have step: "trim_loop incoming excluded t = trim_loop incoming excluded (forget_receipt o' t)"
      using False by (subst trim_loop.simps) simp
    from 1 [OF _ o'] False obtain kept where
      "find_row k (trim_loop incoming excluded (forget_receipt o' t)) =
         map_option (\<lambda>r. r\<lparr>iv_response_json := kept r\<rparr>) (find_row k (forget_receipt o' t))" by blast
    then show ?thesis unfolding step
      by (intro exI [of _ "\<lambda>r. if k = o' then kept (r\<lparr>iv_response_json := None\<rparr>) else kept r"])
         (auto simp: forget_receipt_def find_update option.map_comp comp_def)
  qed
qed

lemma trim_loop_shrinks:
  "table_ok t \<Longrightarrow>
   length (cached_receipts (trim_loop incoming excluded t)) \<le> length (cached_receipts t) \<and>
   receipt_bytes (trim_loop incoming excluded t) \<le> receipt_bytes t"
proof (induction incoming excluded t rule: trim_loop.induct)
  case (1 incoming excluded t)
  have forget: "length (cached_receipts (forget_receipt k t)) \<le> length (cached_receipts t)"
    "receipt_bytes (forget_receipt k t) \<le> receipt_bytes t" "table_ok (forget_receipt k t)" for k
    using receipts_update [OF "1.prems", of "\<lambda>r. r\<lparr>iv_response_json := None\<rparr>" None k] "1.prems"
    by (simp_all add: forget_receipt_def size_of_def table_ok_update)
  show ?case
    using 1 forget by (subst (1 2) trim_loop.simps) (fastforce split: option.splits intro: le_trans)
qed

lemma trim_facts:
  assumes "table_ok t"
  shows "table_ok (trim_connector_receipts now incoming excluded t)"
    and "length (trim_connector_receipts now incoming excluded t) \<le> length t"
    and "receipts_bounded t \<Longrightarrow> receipts_bounded (trim_connector_receipts now incoming excluded t)"
proof -
  let ?d = "drop_expired now t" and ?t = "trim_connector_receipts now incoming excluded t"
  have keys: "map fst ?t = map fst ?d" by (simp add: trim_connector_receipts_def)
  have d: "table_ok ?d" using assms by (simp add: drop_expired_def table_ok_select)
  with keys show "table_ok ?t" by (simp add: table_ok_def)
  from keys have "length ?t = length ?d" by (metis length_map)
  then show "length ?t \<le> length t" by (simp add: drop_expired_def length_select)
  show "receipts_bounded ?t" if "receipts_bounded t"
    using trim_loop_shrinks [OF d, of incoming excluded] receipts_bounded_select [OF that]
    by (auto simp: receipts_bounded_def trim_connector_receipts_def drop_expired_def intro: le_trans)
qed

lemma admit_receipt_facts:
  assumes "table_ok t" "admit_receipt now k receipt t = (kept, t')"
  shows "table_ok t'" and "length t' \<le> length t" and "receipts_bounded t \<Longrightarrow> receipts_bounded t'"
    and "kept \<noteq> None \<Longrightarrow> receipts_fit (size_of kept) t'"
    and "t' = trim_connector_receipts now (byte_count receipt) k t"
  using assms trim_facts [OF assms(1), of now "byte_count receipt" k]
  by (auto simp: admit_receipt_def Let_def size_of_def split: if_splits)

text \<open>Storing an admitted receipt keeps the budgets.\<close>

lemma receipts_bounded_store:
  assumes "table_ok t" "receipts_bounded t" "kept \<noteq> None \<Longrightarrow> receipts_fit (size_of kept) t"
    and "\<And>r. iv_response_json (f r) = kept"
  shows "receipts_bounded (update_attempt k envelope f t)"
proof -
  let ?f = "\<lambda>r. if it_envelope_sha256 (iv_target r) = envelope then f r else r"
  have "iv_response_json (?f r) \<in> {kept, iv_response_json r}" for r using assms(4) by simp
  note u = receipts_update [OF assms(1) this, of k]
  show ?thesis
  proof (cases kept)
    case None
    with u assms(2) show ?thesis by (simp add: receipts_bounded_def update_attempt_def size_of_def)
  next
    case (Some j)
    with assms(3) have "receipts_fit (size_of kept) t" by simp
    with u Some show ?thesis by (simp add: receipts_bounded_def update_attempt_def receipts_fit_def receipt_bytes_cached)
  qed
qed

section \<open>Making room\<close>

lemma mset_by_creation [simp]: "mset (by_creation t) = mset t"
  by (simp add: by_creation_def)

lemma table_bytes_perm: "mset t = mset u \<Longrightarrow> table_bytes t = table_bytes u"
  unfolding table_bytes_def by (metis mset_map sum_mset_sum_list)

lemma tombstones_perm:
  assumes "mset t = mset u"
  shows "length (tombstones t) = length (tombstones u)" "table_bytes (tombstones t) = table_bytes (tombstones u)"
proof -
  have "mset (tombstones t) = mset (tombstones u)"
    using assms by (simp add: tombstones_def select_def)
  then show "length (tombstones t) = length (tombstones u)" "table_bytes (tombstones t) = table_bytes (tombstones u)"
    by (metis size_mset) (metis \<open>mset (tombstones t) = mset (tombstones u)\<close> table_bytes_perm)
qed

lemma filter_key_remove1: "table_ok t \<Longrightarrow> x \<in> set t \<Longrightarrow> filter (\<lambda>y. fst y \<noteq> fst x) t = remove1 x t"
proof (induction t)
  case (Cons y t)
  then show ?case
    by (cases "y = x") (auto simp: table_ok_def image_iff filter_id_conv intro: rev_image_eqI)
qed simp

lemma table_bytes_remove1: "x \<in> set t \<Longrightarrow> table_bytes t = row_bytes x + table_bytes (remove1 x t)"
  by (induction t) (auto simp: table_bytes_def)

definition spares :: "(invocation_key \<times> invocation_row \<Rightarrow> bool) \<Rightarrow> invocations \<Rightarrow> bool" where
  "spares Q t = (\<forall>x\<in>set t. \<not> settled_state (iv_state (snd x)) \<longrightarrow> Q x)"

lemma make_room_result:
  assumes "make_room incoming rows used t = Inr t'" "table_ok t" "mset rows = mset t" "used = int (table_bytes t)"
  shows "\<exists>Q. t' = filter Q t \<and> spares Q t \<and> length t' < LEDGER_MAX_ENTRIES \<and> table_bytes t' + incoming \<le> LEDGER_MAX_BYTES"
  using assms
proof (induction incoming rows used t rule: make_room.induct)
  case (1 incoming rows used t)
  let ?full = "length rows \<ge> LEDGER_MAX_ENTRIES \<or> used + int incoming > int LEDGER_MAX_BYTES"
  show ?case
  proof (cases ?full)
    case False
    with "1.prems" have "t' = t" by (subst (asm) make_room.simps) simp
    moreover have "length rows = length t" using "1.prems" by (metis size_mset)
    ultimately show ?thesis
      using False "1.prems"(4) by (intro exI [of _ "\<lambda>_. True"]) (simp add: spares_def)
  next
    case True
    with "1.prems"(1) obtain x where x: "find (\<lambda>(k, r). settled_state (iv_state r)) rows = Some x"
      by (subst (asm) make_room.simps) (auto split: option.splits)
    with True "1.prems"(1) have rest:
      "make_room incoming (remove1 x rows) (used - int (row_bytes x)) (filter (\<lambda>y. fst y \<noteq> fst x) t) = Inr t'"
      by (subst (asm) make_room.simps) simp
    from find_in_set [OF x] "1.prems"(3) have xt: "x \<in> set t" and xs: "settled_state (iv_state (snd x))"
      by (auto dest: mset_eq_setD)
    note del = filter_key_remove1 [OF "1.prems"(2) xt]
    have "\<not> \<not> ?full" using True by simp
    moreover have "table_ok (filter (\<lambda>y. fst y \<noteq> fst x) t)" by (rule table_ok_filter [OF "1.prems"(2)])
    moreover have "mset (remove1 x rows) = mset (filter (\<lambda>y. fst y \<noteq> fst x) t)" using "1.prems"(3) by (simp add: del)
    moreover have "used - int (row_bytes x) = int (table_bytes (filter (\<lambda>y. fst y \<noteq> fst x) t))"
      using "1.prems"(4) by (simp add: del table_bytes_remove1 [OF xt])
    ultimately obtain Q where
      Q: "t' = filter Q (filter (\<lambda>y. fst y \<noteq> fst x) t)" "spares Q (filter (\<lambda>y. fst y \<noteq> fst x) t)"
        "length t' < LEDGER_MAX_ENTRIES" "table_bytes t' + incoming \<le> LEDGER_MAX_BYTES"
      using "1.IH" x rest by blast
    have "fst y = fst x \<Longrightarrow> y \<in> set t \<Longrightarrow> y = x" for y
      using "1.prems"(2) xt by (metis eq_key_imp_eq_value prod.collapse table_ok_def)
    with xs have other: "y \<in> set t \<Longrightarrow> \<not> settled_state (iv_state (snd y)) \<Longrightarrow> fst y \<noteq> fst x" for y by blast
    with Q(2) have "spares (\<lambda>y. Q y \<and> fst y \<noteq> fst x) t" unfolding spares_def by (simp only: set_filter) blast
    with Q show ?thesis by (intro exI [of _ "\<lambda>y. Q y \<and> fst y \<noteq> fst x"]) (simp add: conj_commute)
  qed
qed

lemma tombstones_filter: "spares Q t \<Longrightarrow> tombstones (filter Q t) = tombstones t"
  by (induction t) (auto simp: tombstones_def select_def spares_def)

lemma find_filter_spared:
  assumes "table_ok t" "find_row k t = Some r" "\<not> settled_state (iv_state r)" "spares Q t"
  shows "find_row k (filter Q t) = Some r"
proof -
  from assms have "Q (k, r)" by (auto simp: spares_def set_find [symmetric])
  with assms show ?thesis using find_select [of t k "\<lambda>k r. Q (k, r)"] by (simp add: select_def)
qed

lemma table_bytes_append: "table_bytes (t @ u) = table_bytes t + table_bytes u"
  by (simp add: table_bytes_def)

lemma tombstones_append: "tombstones (t @ u) = tombstones t @ tombstones u"
  by (simp add: tombstones_def select_def)

text \<open>A table within every budget of \<open>reserve_connector_invocation\<close>.\<close>

definition within_budgets :: "invocations \<Rightarrow> bool" where
  "within_budgets t =
     (length t \<le> LEDGER_MAX_ENTRIES \<and> table_bytes t \<le> LEDGER_MAX_BYTES \<and>
      length (tombstones t) \<le> TOMBSTONE_MAX_ENTRIES \<and> table_bytes (tombstones t) \<le> TOMBSTONE_MAX_BYTES)"

lemma new_row_bytes: "row_bytes (k, new_row target grant_ref now) \<le> attempt_bytes k target grant_ref"
  by (simp add: row_bytes_def new_row_def attempt_bytes_def)

lemma admit_attempt_result:
  assumes "admit_attempt k target grant_ref now t = Inr t'" "table_ok t"
  obtains Q where "t' = filter Q t @ [(k, new_row target grant_ref now)]" "spares Q t" "within_budgets t'"
proof -
  let ?n = "attempt_bytes k target grant_ref" and ?new = "(k, new_row target grant_ref now)"
  from assms(1) obtain u where u: "make_room ?n (by_creation t) (int (table_bytes (by_creation t))) t = Inr u"
    and t': "t' = u @ [?new]"
    and tomb: "length (tombstones (by_creation t)) < TOMBSTONE_MAX_ENTRIES"
      "table_bytes (tombstones (by_creation t)) + ?n \<le> TOMBSTONE_MAX_BYTES"
    by (auto simp: admit_attempt_def Let_def guard_def rbind_def not_le split: if_splits sum.splits)
  have "int (table_bytes (by_creation t)) = int (table_bytes t)" by (simp add: table_bytes_perm [of "by_creation t" t])
  from make_room_result [OF u assms(2) _ this] obtain Q where
    Q: "u = filter Q t" "spares Q t" "length u < LEDGER_MAX_ENTRIES" "table_bytes u + ?n \<le> LEDGER_MAX_BYTES" by auto
  have "tombstones t' = tombstones t @ [?new]"
    using Q by (simp add: t' tombstones_append tombstones_filter) (simp add: tombstones_def select_def new_row_def settled_state_def)
  with tomb Q new_row_bytes [of k target grant_ref now] have "within_budgets t'"
    by (simp add: within_budgets_def t' tombstones_perm [of "by_creation t" t] table_bytes_append)
       (simp add: table_bytes_def)
  with that Q t' show thesis by blast
qed

end
