(* ===== verification/Connector_Runs.thy ===== *)
theory Connector_Runs
  imports Connector_Ledger_Facts
begin

text \<open>
  The connector tables over time: every operation of the store as a call with its reply, the
  invariant all of them keep, and the life of an invocation that waits for its outcome.
\<close>

section \<open>Calls\<close>

datatype ledger_call =
    CallRequestId string string int int
  | CallRegister string string int int
  | CallConsume string string int
  | CallReserve hub_principal string invocation_target string int
  | CallAttach hub_principal string string string
  | CallComplete hub_principal string string invocation_state "pydict option" "string option" int int
  | CallDiscard hub_principal string string
  | CallReconcile hub_principal string string invocation_state int

datatype ledger_reply = Answered bool | Reserved reservation | Recorded | Reconciled nat

record ledger_env =
  le_canon :: canonicalizer
  le_float :: "pyfloat \<Rightarrow> string"
  le_loads :: "string \<Rightarrow> json_outcome"

definition answer :: "(connector_ledger \<Rightarrow> bool \<times> connector_ledger) \<Rightarrow> ledger_reply ledger_act" where
  "answer f = (\<lambda>s. case f s of (b, s') \<Rightarrow> (Inr (Answered b), s'))"

fun ledger_call_step :: "ledger_env \<Rightarrow> ledger_call \<Rightarrow> ledger_reply ledger_act" where
  "ledger_call_step env (CallRequestId key_id request_id expires now) =
     answer (consume_connector_request_id key_id request_id expires now)"
| "ledger_call_step env (CallRegister grant_ref digest expires now) = answer (register_connector_grant grant_ref digest expires now)"
| "ledger_call_step env (CallConsume grant_ref digest now) = answer (consume_connector_grant grant_ref digest now)"
| "ledger_call_step env (CallReserve p request_id target grant_ref now) =
     bind (reserve_connector_invocation (le_loads env) p request_id target grant_ref now) (\<lambda>r. ret (Reserved r))"
| "ledger_call_step env (CallAttach p request_id envelope grant_ref) =
     bind (attach_connector_invocation_grant p request_id envelope grant_ref) (\<lambda>_. ret Recorded)"
| "ledger_call_step env (CallComplete p request_id envelope st response operation_ref status now) =
     bind (complete_connector_invocation (le_canon env) (le_float env) p request_id envelope st response operation_ref status now)
       (\<lambda>_. ret Recorded)"
| "ledger_call_step env (CallDiscard p request_id envelope) =
     bind (discard_connector_invocation p request_id envelope) (\<lambda>_. ret Recorded)"
| "ledger_call_step env (CallReconcile p profile_ref operation_ref st now) =
     bind (reconcile_connector_invocations (le_canon env) (le_float env) p profile_ref operation_ref st now) (\<lambda>n. ret (Reconciled n))"

lemma bind_ret_snd: "snd (bind m (\<lambda>x. ret (f x)) s) = snd (m s)"
  by (simp add: act_simps split: prod.splits sum.splits)

section \<open>The invariant\<close>

definition ledger_ok :: "connector_ledger \<Rightarrow> bool" where
  "ledger_ok s =
     (table_ok (cl_requests s) \<and> table_ok (cl_grants s) \<and> length (cl_grants s) \<le> GRANT_MAX_ENTRIES \<and>
      table_ok (cl_invocations s) \<and> length (cl_invocations s) \<le> LEDGER_MAX_ENTRIES \<and> receipts_bounded (cl_invocations s))"

text \<open>The part of it about the invocation table.\<close>

definition invocations_ok :: "invocations \<Rightarrow> bool" where
  "invocations_ok t = (table_ok t \<and> length t \<le> LEDGER_MAX_ENTRIES \<and> receipts_bounded t)"

lemma ledger_ok_invocations: "ledger_ok s \<Longrightarrow> invocations_ok (cl_invocations s)"
  and ledger_ok_update: "ledger_ok s \<Longrightarrow> invocations_ok t \<Longrightarrow> ledger_ok (s\<lparr>cl_invocations := t\<rparr>)"
  by (simp_all add: ledger_ok_def invocations_ok_def)

lemma invocations_ok_select: "invocations_ok t \<Longrightarrow> invocations_ok (select P t)"
  by (auto simp: invocations_ok_def table_ok_select receipts_bounded_select intro: le_trans [OF length_select])

lemma invocations_ok_filter: "invocations_ok t \<Longrightarrow> invocations_ok (filter P t)"
  using invocations_ok_select [of t "\<lambda>k r. P (k, r)"] by (simp add: select_def)

lemma invocations_ok_expired: "invocations_ok t \<Longrightarrow> invocations_ok (drop_expired now t)"
  by (simp add: drop_expired_def invocations_ok_select)

lemma invocations_ok_admit:
  assumes "invocations_ok t" "admit_attempt k target grant_ref now t = Inr t'" "find_row k t = None"
  shows "invocations_ok t'"
proof -
  from assms obtain Q where t': "t' = filter Q t @ [(k, new_row target grant_ref now)]" and w: "within_budgets t'"
    by (auto simp: invocations_ok_def elim: admit_attempt_result)
  have f: "invocations_ok (filter Q t)" by (rule invocations_ok_filter [OF assms(1)])
  have "find_row k (filter Q t) = None"
    using assms(1,3) find_select [of t k "\<lambda>k r. Q (k, r)"] by (simp add: select_def invocations_ok_def)
  with f have "table_ok t'" by (simp add: t' table_ok_append invocations_ok_def)
  moreover have "receipts_bounded t'"
    using f by (simp add: t' invocations_ok_def receipts_bounded_def cached_append receipt_bytes_append)
      (simp add: cached_receipts_def select_def receipt_bytes_def receipt_size_def new_row_def)
  ultimately show ?thesis using w by (simp add: invocations_ok_def within_budgets_def)
qed

lemma invocations_ok_admit_receipt:
  assumes "invocations_ok t" "admit_receipt now k receipt t = (kept, t')"
  shows "invocations_ok t'" "kept \<noteq> None \<Longrightarrow> receipts_fit (size_of kept) t'"
  using admit_receipt_facts [OF _ assms(2)] assms(1) by (auto simp: invocations_ok_def intro: le_trans)

lemma invocations_ok_store:
  assumes "invocations_ok t" "kept \<noteq> None \<Longrightarrow> receipts_fit (size_of kept) t" "\<And>r. iv_response_json (f r) = kept"
  shows "invocations_ok (update_attempt k envelope f t)"
  using assms receipts_bounded_store [of t kept f k envelope] by (simp add: invocations_ok_def table_ok_update_attempt)

lemma invocations_ok_attach:
  assumes "invocations_ok t"
  shows "invocations_ok (update_attempt k envelope (\<lambda>r. r\<lparr>iv_grant_ref := g\<rparr>) t)"
proof -
  let ?f = "\<lambda>r. if it_envelope_sha256 (iv_target r) = envelope then r\<lparr>iv_grant_ref := g\<rparr> else r"
  have "iv_response_json (?f r) \<in> {None, iv_response_json r}" for r by simp
  from receipts_update [of t ?f None k, OF _ this] assms show ?thesis
    by (auto simp: invocations_ok_def table_ok_update_attempt receipts_bounded_def size_of_def update_attempt_def
        table_ok_update)
qed

lemma invocations_ok_reconcile:
  "reconcile_rows canon fr sc operation_ref st now rows updated t = Inr (n, t') \<Longrightarrow> invocations_ok t \<Longrightarrow> invocations_ok t'"
proof (induction rows arbitrary: updated t)
  case (Cons x rows)
  obtain request_id envelope where x: "x = (request_id, envelope)" by (cases x)
  from Cons.prems(1) obtain receipt where receipt: "reconciled_receipt canon fr request_id operation_ref st = Inr receipt"
    by (auto simp: x rbind_def split: sum.splits)
  obtain kept u where u: "admit_receipt now (sc, request_id) receipt t = (kept, u)" by fastforce
  note a = invocations_ok_admit_receipt [OF Cons.prems(2) u]
  have "invocations_ok (update_attempt (sc, request_id) envelope (settle_row st now kept) u)"
    by (rule invocations_ok_store [OF a]) (simp_all add: settle_row_def)
  moreover obtain m where "reconcile_rows canon fr sc operation_ref st now rows m
      (update_attempt (sc, request_id) envelope (settle_row st now kept) u) = Inr (n, t')"
    using Cons.prems(1) by (auto simp: x receipt u rbind_def Let_def)
  ultimately show ?case using Cons.IH by blast
qed simp

text \<open>A successful reservation or completion, unfolded.\<close>

lemma reserve_cases:
  obtains (failed) e where "reserve_connector_invocation loads p request_id target grant_ref now s = (Inl e, s)"
  | (prior) r response where
      "find_row (scope_of p, request_id) (drop_expired now (cl_invocations s)) = Some r" "iv_target r = target"
      "stored_response loads r = Inr response"
      "reserve_connector_invocation loads p request_id target grant_ref now s =
         (Inr (prior_reservation r response), s\<lparr>cl_invocations := drop_expired now (cl_invocations s)\<rparr>)"
  | (fresh) t' where
      "find_row (scope_of p, request_id) (drop_expired now (cl_invocations s)) = None"
      "admit_attempt (scope_of p, request_id) target grant_ref now (drop_expired now (cl_invocations s)) = Inr t'"
      "reserve_connector_invocation loads p request_id target grant_ref now s =
         (Inr new_reservation, s\<lparr>cl_invocations := t'\<rparr>)"
proof -
  let ?k = "(scope_of p, request_id)" and ?t = "drop_expired now (cl_invocations s)"
  note unfolded = reserve_connector_invocation_def Let_def act_simps guard_def mutation_def rbind_def
  show thesis
  proof (cases "attempt_ok request_id target grant_ref \<and> key_bytes ?k \<le> 4096")
    case False
    show thesis
    proof (cases "attempt_ok request_id target grant_ref")
      case True
      with False show thesis by (intro failed) (simp add: unfolded)
    next
      case False
      then show thesis by (intro failed) (simp add: unfolded)
    qed
  next
    case True
    show thesis
    proof (cases "find_row ?k ?t")
      case None
      show thesis
      proof (cases "admit_attempt ?k target grant_ref now ?t")
        case Inl
        with True None show thesis by (intro failed) (simp add: unfolded)
      next
        case Inr
        with True None show thesis by (intro fresh) (simp_all add: unfolded)
      qed
    next
      case (Some r)
      show thesis
      proof (cases "iv_target r = target \<and> (\<exists>d. stored_response loads r = Inr d)")
        case True
        then obtain d where d: "iv_target r = target" "stored_response loads r = Inr d" by blast
        with Some \<open>attempt_ok request_id target grant_ref \<and> key_bytes ?k \<le> 4096\<close> show thesis
          by (intro prior) (simp_all add: unfolded)
      next
        case False
        with Some True show thesis
          by (intro failed [of "if iv_target r \<noteq> target then LedgerIntegration (IntegrationConflict
                ''connector request id was already used for a different signed operation'')
              else projl (stored_response loads r)"])
             (cases "stored_response loads r"; simp add: unfolded)
      qed
    qed
  qed
qed

lemma complete_cases:
  obtains (failed) e where
      "complete_connector_invocation canon fr p request_id envelope st response operation_ref status now s = (Inl e, s)"
  | (recorded) r receipt kept t where
      "find_attempt (scope_of p, request_id) envelope (cl_invocations s) = Some r"
      "invocation_receipt canon fr r st response operation_ref = Inr receipt"
      "(case receipt of None \<Rightarrow> (None, cl_invocations s)
        | Some j \<Rightarrow> admit_receipt now (scope_of p, request_id) j (cl_invocations s)) = (kept, t)"
      "complete_connector_invocation canon fr p request_id envelope st response operation_ref status now s =
         (Inr (), s\<lparr>cl_invocations := update_attempt (scope_of p, request_id) envelope
            (record_outcome st operation_ref (receipt_expiry st now) kept status) t\<rparr>)"
proof -
  let ?k = "(scope_of p, request_id)"
  note unfolded = complete_connector_invocation_def Let_def act_simps guard_def mutation_def
  show thesis
  proof (cases "200 \<le> status \<and> status \<le> 599")
    case False
    then show thesis by (intro failed) (auto simp: unfolded)
  next
    case True
    show thesis
    proof (cases "find_attempt ?k envelope (cl_invocations s)")
      case None
      with True show thesis by (intro failed) (simp add: unfolded)
    next
      case (Some r)
      show thesis
      proof (cases "invocation_receipt canon fr r st response operation_ref")
        case Inl
        with Some True show thesis by (intro failed) (simp add: unfolded)
      next
        case (Inr receipt)
        obtain kept t where kt: "(case receipt of None \<Rightarrow> (None, cl_invocations s)
            | Some j \<Rightarrow> admit_receipt now ?k j (cl_invocations s)) = (kept, t)" by fastforce
        with Some True Inr show thesis by (intro recorded [OF Some Inr kt]) (simp add: unfolded)
      qed
    qed
  qed
qed

section \<open>Every call keeps the invariant\<close>

lemma requests_step:
  assumes "table_ok (cl_requests s)"
  shows "table_ok (cl_requests (snd (consume_connector_request_id key_id request_id expires now s)))"
  using assms table_ok_select [OF assms]
  by (auto simp: consume_connector_request_id_def live_requests_def Let_def split: option.splits intro: table_ok_insert)

lemma length_insert_row: "insert_row k v t = Some t' \<Longrightarrow> length t' = Suc (length t)"
  by (auto simp: insert_row_def split: if_splits)

lemma register_step:
  assumes "table_ok (cl_grants s)" "length (cl_grants s) \<le> GRANT_MAX_ENTRIES"
  shows "table_ok (cl_grants (snd (register_connector_grant grant_ref digest expires now s)))"
    "length (cl_grants (snd (register_connector_grant grant_ref digest expires now s))) \<le> GRANT_MAX_ENTRIES"
  using assms table_ok_select [OF assms(1)] le_trans [OF length_select assms(2)]
  by (auto simp: register_connector_grant_def live_grants_def Let_def not_le Suc_le_eq length_insert_row
        split: option.splits intro: table_ok_insert)

lemma spend_step:
  assumes "table_ok (cl_grants s)" "length (cl_grants s) \<le> GRANT_MAX_ENTRIES"
  shows "table_ok (cl_grants (snd (consume_connector_grant grant_ref digest now s)))"
    "length (cl_grants (snd (consume_connector_grant grant_ref digest now s))) \<le> GRANT_MAX_ENTRIES"
  using assms table_ok_select [OF assms(1)] le_trans [OF length_select assms(2)]
  by (auto simp: consume_connector_grant_def live_grants_def Let_def table_ok_update)

lemma requests_frame:
  "cl_grants (snd (consume_connector_request_id key_id request_id expires now s)) = cl_grants s"
  "cl_invocations (snd (consume_connector_request_id key_id request_id expires now s)) = cl_invocations s"
  by (auto simp: consume_connector_request_id_def Let_def split: option.splits)

lemma grants_frame:
  "cl_requests (snd (register_connector_grant grant_ref digest expires now s)) = cl_requests s"
  "cl_invocations (snd (register_connector_grant grant_ref digest expires now s)) = cl_invocations s"
  "cl_requests (snd (consume_connector_grant grant_ref digest now s)) = cl_requests s"
  "cl_invocations (snd (consume_connector_grant grant_ref digest now s)) = cl_invocations s"
  by (auto simp: register_connector_grant_def consume_connector_grant_def Let_def split: option.splits)

lemma answer_snd: "snd (answer f s) = snd (f s)"
  by (simp add: answer_def split: prod.splits)

lemma reserve_ok:
  assumes "ledger_ok s"
  shows "ledger_ok (snd (reserve_connector_invocation loads p request_id target grant_ref now s))"
proof -
  have d: "invocations_ok (drop_expired now (cl_invocations s))"
    by (rule invocations_ok_expired [OF ledger_ok_invocations [OF assms]])
  show ?thesis
    using assms d
    by (cases rule: reserve_cases [of loads p request_id target grant_ref now s])
       (auto intro: ledger_ok_update invocations_ok_admit)
qed

lemma complete_ok:
  assumes "ledger_ok s"
  shows "ledger_ok (snd (complete_connector_invocation canon fr p request_id envelope st response operation_ref status now s))"
proof (cases rule: complete_cases [of canon fr p request_id envelope st response operation_ref status now s])
  case failed
  with assms show ?thesis by simp
next
  case (recorded r receipt kept t)
  from recorded(3) ledger_ok_invocations [OF assms]
  have "invocations_ok t \<and> (kept \<noteq> None \<longrightarrow> receipts_fit (size_of kept) t)"
    by (cases receipt) (auto dest: invocations_ok_admit_receipt)
  then have "invocations_ok (update_attempt (scope_of p, request_id) envelope
      (record_outcome st operation_ref (receipt_expiry st now) kept status) t)"
    by (intro invocations_ok_store) (auto simp: record_outcome_def)
  with recorded(4) assms show ?thesis by (simp add: ledger_ok_update)
qed

lemma reconcile_ok:
  assumes "ledger_ok s"
  shows "ledger_ok (snd (reconcile_connector_invocations canon fr p profile_ref operation_ref st now s))"
  using assms ledger_ok_invocations [OF assms]
  by (auto simp: reconcile_connector_invocations_def act_simps mutation_def
      intro: ledger_ok_update invocations_ok_reconcile split: sum.splits prod.splits)

lemma ledger_call_ok: "ledger_ok s \<Longrightarrow> ledger_ok (snd (ledger_call_step env c s))"
proof (cases c)
  case CallRequestId
  moreover assume "ledger_ok s"
  ultimately show ?thesis using requests_step by (auto simp: ledger_ok_def answer_snd requests_frame)
next
  case CallRegister
  moreover assume "ledger_ok s"
  ultimately show ?thesis using register_step by (auto simp: ledger_ok_def answer_snd grants_frame)
next
  case CallConsume
  moreover assume "ledger_ok s"
  ultimately show ?thesis using spend_step by (auto simp: ledger_ok_def answer_snd grants_frame)
next
  case CallAttach
  moreover assume "ledger_ok s"
  ultimately show ?thesis
    by (auto simp: attach_connector_invocation_grant_def bind_ret_snd mutation_def Let_def
        intro!: ledger_ok_update invocations_ok_attach ledger_ok_invocations)
next
  case CallDiscard
  moreover assume "ledger_ok s"
  ultimately show ?thesis
    by (auto simp: discard_connector_invocation_def bind_ret_snd mutation_def
        intro!: ledger_ok_update invocations_ok_select ledger_ok_invocations)
qed (simp_all add: bind_ret_snd reserve_ok complete_ok reconcile_ok)

section \<open>A waiting invocation\<close>

text \<open>Reserved and not settled: in progress, pending, or of unknown outcome.\<close>

definition waits :: "invocation_key \<Rightarrow> invocations \<Rightarrow> bool" where
  "waits k t = (case find_row k t of None \<Rightarrow> False | Some r \<Rightarrow> \<not> settled_state (iv_state r))"

lemma waits_select:
  assumes "table_ok t" "waits k t" "\<And>r. find_row k t = Some r \<Longrightarrow> \<not> settled_state (iv_state r) \<Longrightarrow> P k r"
  shows "waits k (select P t)"
  using assms by (auto simp: waits_def find_select split: option.splits)

lemma waits_expired: "table_ok t \<Longrightarrow> waits k t \<Longrightarrow> waits k (drop_expired now t)"
  unfolding drop_expired_def by (rule waits_select) simp_all

lemma waits_trim: "table_ok t \<Longrightarrow> waits k t \<Longrightarrow> waits k (trim_connector_receipts now incoming excluded t)"
  using waits_expired [of t k now] trim_loop_find [of k incoming excluded "drop_expired now t"]
  by (auto simp: trim_connector_receipts_def waits_def split: option.splits)

lemma waits_admit_receipt:
  "table_ok t \<Longrightarrow> waits k t \<Longrightarrow> admit_receipt now k' receipt t = (kept, t') \<Longrightarrow> waits k t'"
  using admit_receipt_facts(5) [of t now k' receipt kept t'] by (simp add: waits_trim)

lemma waits_update:
  assumes "waits k t" "k = k' \<Longrightarrow> \<forall>r. \<not> settled_state (iv_state r) \<longrightarrow> \<not> settled_state (iv_state (f r))"
  shows "waits k (update_attempt k' envelope f t)"
proof -
  from assms(1) obtain r where "find_row k t = Some r" "\<not> settled_state (iv_state r)"
    by (auto simp: waits_def split: option.splits)
  with assms(2) show ?thesis by (cases "k = k'") (simp_all add: waits_def find_update_attempt)
qed

lemma waits_admit:
  assumes "table_ok t" "waits k t" "admit_attempt k' target grant_ref now t = Inr t'"
  shows "waits k t'"
proof -
  from assms(1,3) obtain Q where t': "t' = filter Q t @ [(k', new_row target grant_ref now)]" and Q: "spares Q t"
    by (auto elim: admit_attempt_result)
  from assms(2) obtain r where r: "find_row k t = Some r" "\<not> settled_state (iv_state r)"
    by (auto simp: waits_def split: option.splits)
  with find_filter_spared [OF assms(1) r Q] show ?thesis by (simp add: waits_def t' find_row_append)
qed

lemma waits_reconcile:
  "reconcile_rows canon fr sc operation_ref st now rows updated t = Inr (n, t') \<Longrightarrow> table_ok t \<Longrightarrow> waits k t \<Longrightarrow>
   fst k = sc \<longrightarrow> \<not> settled_state st \<Longrightarrow> waits k t'"
proof (induction rows arbitrary: updated t)
  case (Cons x rows)
  obtain request_id envelope where x: "x = (request_id, envelope)" by (cases x)
  from Cons.prems(1) obtain receipt where receipt: "reconciled_receipt canon fr request_id operation_ref st = Inr receipt"
    by (auto simp: x rbind_def split: sum.splits)
  obtain kept u where u: "admit_receipt now (sc, request_id) receipt t = (kept, u)" by fastforce
  let ?t = "update_attempt (sc, request_id) envelope (settle_row st now kept) u"
  have "table_ok ?t" using admit_receipt_facts(1) [OF Cons.prems(2) u] by (rule table_ok_update_attempt)
  moreover have "waits k ?t"
    using waits_admit_receipt [OF Cons.prems(2,3) u] Cons.prems(4) by (intro waits_update) (auto simp: settle_row_def)
  moreover obtain m where "reconcile_rows canon fr sc operation_ref st now rows m ?t = Inr (n, t')"
    using Cons.prems(1) by (auto simp: x receipt u rbind_def Let_def)
  ultimately show ?case using Cons.IH Cons.prems(4) by blast
qed simp

text \<open>The calls that may end the wait of the invocation with key \<open>k\<close>.\<close>

fun resolves :: "invocation_key \<Rightarrow> ledger_call \<Rightarrow> bool" where
  "resolves k (CallComplete p request_id envelope st response operation_ref status now) =
     (k = (scope_of p, request_id) \<and> settled_state st)"
| "resolves k (CallDiscard p request_id envelope) = (k = (scope_of p, request_id))"
| "resolves k (CallReconcile p profile_ref operation_ref st now) = (fst k = scope_of p \<and> settled_state st)"
| "resolves k c = False"

lemma table_ok_expired: "table_ok t \<Longrightarrow> table_ok (drop_expired now t)"
  by (simp add: drop_expired_def table_ok_select)

lemma waits_reserve:
  "table_ok (cl_invocations s) \<Longrightarrow> waits k (cl_invocations s) \<Longrightarrow>
   waits k (cl_invocations (snd (reserve_connector_invocation loads p request_id target grant_ref now s)))"
  by (cases rule: reserve_cases [of loads p request_id target grant_ref now s])
     (auto intro: waits_expired waits_admit [OF table_ok_expired])

lemma waits_complete:
  assumes "table_ok (cl_invocations s)" "waits k (cl_invocations s)" "k = (scope_of p, request_id) \<longrightarrow> \<not> settled_state st"
  shows "waits k (cl_invocations
     (snd (complete_connector_invocation canon fr p request_id envelope st response operation_ref status now s)))"
proof (cases rule: complete_cases [of canon fr p request_id envelope st response operation_ref status now s])
  case (recorded r receipt kept t)
  have "waits k t" using recorded(3) assms by (cases receipt) (auto dest: waits_admit_receipt)
  then have "waits k (update_attempt (scope_of p, request_id) envelope
      (record_outcome st operation_ref (receipt_expiry st now) kept status) t)"
    by (rule waits_update) (use assms(3) in \<open>simp add: record_outcome_def\<close>)
  with recorded(4) show ?thesis by simp
qed (use assms in simp)

lemma waits_step:
  assumes "ledger_ok s" "waits k (cl_invocations s)" "\<not> resolves k c"
  shows "waits k (cl_invocations (snd (ledger_call_step env c s)))"
proof -
  have t: "table_ok (cl_invocations s)" using assms(1) by (simp add: ledger_ok_def)
  show ?thesis
  proof (cases c)
    case CallAttach
    with assms show ?thesis
      by (auto simp: attach_connector_invocation_grant_def bind_ret_snd mutation_def Let_def intro!: waits_update)
  next
    case CallDiscard
    with assms t show ?thesis
      by (auto simp: discard_connector_invocation_def bind_ret_snd mutation_def discardable_def intro!: waits_select)
  next
    case CallReconcile
    with assms t show ?thesis
      by (auto simp: reconcile_connector_invocations_def bind_ret_snd act_simps mutation_def
          dest: waits_reconcile split: sum.splits prod.splits)
  qed (use assms t in \<open>auto simp: bind_ret_snd answer_snd requests_frame grants_frame waits_reserve waits_complete\<close>)
qed

text \<open>A reservation handed out as new.\<close>

definition handed_out :: "invocation_key \<Rightarrow> ledger_call \<Rightarrow> ledger_exn + ledger_reply \<Rightarrow> bool" where
  "handed_out k c reply =
     (case (c, reply) of
        (CallReserve p request_id target grant_ref now, Inr (Reserved r)) \<Rightarrow>
          (scope_of p, request_id) = k \<and> rv_disposition r = New
      | _ \<Rightarrow> False)"

lemma prior_not_new: "rv_disposition (prior_reservation r response) \<noteq> New"
  by (simp add: prior_reservation_def disposition_of_def)

lemma handed_out_waits:
  assumes "ledger_ok s" "handed_out k c (fst (ledger_call_step env c s))"
  shows "waits k (cl_invocations (snd (ledger_call_step env c s)))" "\<not> waits k (cl_invocations s)"
proof -
  from assms(2) obtain p request_id target grant_ref now where c: "c = CallReserve p request_id target grant_ref now"
    and k: "(scope_of p, request_id) = k" by (auto simp: handed_out_def split: ledger_call.splits sum.splits ledger_reply.splits)
  have t: "table_ok (drop_expired now (cl_invocations s))" and t0: "table_ok (cl_invocations s)"
    using assms(1) by (simp_all add: ledger_ok_def drop_expired_def table_ok_select)
  have "waits k (cl_invocations (snd (ledger_call_step env c s))) \<and> \<not> waits k (cl_invocations s)"
  proof (cases rule: reserve_cases [of "le_loads env" p request_id target grant_ref now s])
    case failed
    with assms(2) c show ?thesis by (simp add: handed_out_def act_simps)
  next
    case prior
    with assms(2) c show ?thesis by (simp add: handed_out_def act_simps prior_not_new)
  next
    case (fresh t')
    from fresh(2) obtain Q where t': "t' = filter Q (drop_expired now (cl_invocations s)) @ [(k, new_row target grant_ref now)]"
      using t unfolding k by (elim admit_attempt_result)
    have "find_row k (filter Q (drop_expired now (cl_invocations s))) = None"
      using fresh(1) find_select [OF t, of k "\<lambda>k r. Q (k, r)"] unfolding k by (simp add: select_def)
    then have "waits k t'" by (simp add: t' waits_def find_row_append new_row_def settled_state_def)
    moreover have "\<not> waits k (cl_invocations s)"
      using fresh(1) waits_expired [OF t0, of k now] unfolding k by (auto simp: waits_def)
    ultimately show ?thesis using fresh(3) c by (simp add: act_simps)
  qed
  then show "waits k (cl_invocations (snd (ledger_call_step env c s)))" "\<not> waits k (cl_invocations s)" by blast+
qed

interpretation reserving: marking "ledger_call_step env" "\<lambda>c. 0" "\<lambda>c. \<not> resolves k c" "handed_out k" ledger_ok
  "\<lambda>t s. waits k (cl_invocations s)" for env k
  by unfold_locales (use ledger_call_ok handed_out_waits waits_step in blast)+

section \<open>Retries\<close>

lemma find_admit_receipt:
  assumes "table_ok t" "find_row k t = Some r" "\<not> settled_state (iv_state r)" "admit_receipt now k' receipt t = (kept, t')"
  shows "\<exists>j. find_row k t' = Some (r\<lparr>iv_response_json := j\<rparr>)"
proof -
  have "find_row k (drop_expired now t) = Some r"
    using assms(1-3) by (simp add: drop_expired_def find_select)
  then show ?thesis
    using trim_loop_find [of k "byte_count receipt" k' "drop_expired now t"] admit_receipt_facts(5) [OF assms(1,4)]
    by (auto simp: trim_connector_receipts_def)
qed

text \<open>A completed invocation has exactly the recorded outcome in its row.\<close>

lemma completed_row:
  assumes "table_ok (cl_invocations s)" "find_row (scope_of p, request_id) (cl_invocations s) = Some r"
    and "\<not> settled_state (iv_state r)"
    and "complete_connector_invocation canon fr p request_id envelope st response operation_ref status now s = (Inr (), s')"
  shows "\<exists>kept j. find_row (scope_of p, request_id) (cl_invocations s') =
      Some (record_outcome st operation_ref (receipt_expiry st now) kept status (r\<lparr>iv_response_json := j\<rparr>)) \<and>
    it_envelope_sha256 (iv_target r) = envelope"
proof (cases rule: complete_cases [of canon fr p request_id envelope st response operation_ref status now s])
  case (recorded r' receipt kept t)
  then have r': "r' = r" "it_envelope_sha256 (iv_target r) = envelope"
    using assms(2) by (auto simp: find_attempt_Some)
  have "\<exists>j. find_row (scope_of p, request_id) t = Some (r\<lparr>iv_response_json := j\<rparr>)"
  proof (cases receipt)
    case None
    with recorded(3) assms(2) have "find_row (scope_of p, request_id) t = Some (r\<lparr>iv_response_json := iv_response_json r\<rparr>)" by simp
    then show ?thesis ..
  next
    case (Some j)
    with recorded(3) find_admit_receipt [OF assms(1-3)] show ?thesis by simp
  qed
  then obtain j where j: "find_row (scope_of p, request_id) t = Some (r\<lparr>iv_response_json := j\<rparr>)" by blast
  have "s' = s\<lparr>cl_invocations := update_attempt (scope_of p, request_id) envelope
      (record_outcome st operation_ref (receipt_expiry st now) kept status) t\<rparr>"
    using recorded(4) assms(4) by simp
  with j r' show ?thesis by (intro exI [of _ kept] exI [of _ j]) (simp add: find_update_attempt)
qed (use assms in simp)

lemma reserve_prior:
  assumes "attempt_ok request_id target grant_ref" "key_bytes (scope_of p, request_id) \<le> 4096"
    and "find_row (scope_of p, request_id) (drop_expired now (cl_invocations s)) = Some r" "iv_target r = target"
    and "stored_response loads r = Inr response"
  shows "fst (reserve_connector_invocation loads p request_id target grant_ref now s) = Inr (prior_reservation r response)"
  using assms by (simp add: reserve_connector_invocation_def Let_def act_simps guard_def mutation_def rbind_def)

end
