(* ===== verification/Connector_Facts.thy ===== *)
theory Connector_Facts
  imports Connector_Security Connector_Runs
begin

text \<open>
  What the two protocols of \<open>connector_security.py\<close> promise their callers, as locales: a replay guard
  that refuses an id it has seen, and a grant registry that gives each reference out once. The
  connector tables of the store provide both; the verifier's own memory provides the second.
\<close>

lemma whole_seconds_mono: "a \<le> b \<Longrightarrow> whole_seconds a \<le> whole_seconds b"
  by (auto simp: whole_seconds_def zdiv_mono1 pos_imp_zdiv_nonneg_iff intro: order_trans [of _ 0])

lemma whole_seconds_below: "0 \<le> t \<Longrightarrow> whole_seconds t * 1000000 \<le> t"
  by (simp add: whole_seconds_def)

section \<open>Replay guards\<close>

locale replay_window =
  fixes replay :: "'s replay_guard"
    and guarded :: "'s \<Rightarrow> bool"
    and seen :: "string \<Rightarrow> string \<Rightarrow> int \<Rightarrow> int \<Rightarrow> 's \<Rightarrow> bool"
  assumes replay_guarded: "guarded s \<Longrightarrow> guarded (snd (replay k i e t s))"
    and accepted_seen: "guarded s \<Longrightarrow> fst (replay k i e t s) \<Longrightarrow> seen k i e t (snd (replay k i e t s))"
    and seen_refused: "guarded s \<Longrightarrow> seen k i e t s \<Longrightarrow> t \<le> t' \<Longrightarrow> \<not> fst (replay k i e t' s)"
    and seen_later: "seen k i e t s \<Longrightarrow> t \<le> t' \<Longrightarrow> seen k i e t' s"
    and seen_stays: "guarded s \<Longrightarrow> seen k i e t s \<Longrightarrow> t \<le> t' \<Longrightarrow> seen k i e t' (snd (replay k' i' e' t' s))"

text \<open>Verifications with the key file and the two clock readings of each.\<close>

record navigator_call =
  nc_request :: navigator_request
  nc_key_file :: host_file
  nc_request_id :: "string option"
  nc_now :: int
  nc_later :: int

definition verify_call ::
  "'s replay_guard \<Rightarrow> string option \<Rightarrow> navigator_call \<Rightarrow> ('s, connector_exn, int) act" where
  "verify_call replay settings c =
     verify_navigator_request replay settings (nc_key_file c) (nc_request c) (nc_request_id c) (nc_now c) (nc_later c)"

definition accepted_as :: "string \<Rightarrow> int \<Rightarrow> navigator_call \<Rightarrow> connector_exn + int \<Rightarrow> bool" where
  "accepted_as request_id timestamp c reply = (nc_request_id c = Some request_id \<and> reply = Inr timestamp)"

text \<open>A verification leaves the state alone or consumes one id under the configured key.\<close>

lemma verify_call_cases:
  obtains (untouched) r where "verify_call replay settings c s = (r, s)" "\<And>i ts. \<not> accepted_as i ts c r"
  | (unnamed) ts where "verify_call replay settings c s = (Inr ts, s)" "nc_request_id c = None"
  | (consumed) own i ts where "settings = Some own" "nc_request_id c = Some i"
      "verify_call replay settings c s =
         (let (b, s') = replay own i (ts + MAX_CONTEXT_SKEW_SECONDS) (whole_seconds (nc_later c)) s in
          (if b then Inr ts else Inl (ConnectorReplayed ''navigator_request_replayed''), s'))"
proof (cases "check_navigator_request settings (nc_key_file c) (nc_request c) (nc_now c)")
  case (Inl e)
  then show thesis
    by (intro untouched [of "Inl e"]) (simp_all add: verify_call_def verify_navigator_request_def act_simps accepted_as_def)
next
  case (Inr ts)
  then obtain own where own: "settings = Some own" and key: "nr_key_id (nc_request c) = own"
    by (auto simp: check_navigator_request_def Let_def rbind_def guard_def split: option.splits if_splits)
  show thesis
  proof (cases "nc_request_id c")
    case None
    with Inr show thesis by (intro unnamed) (simp_all add: verify_call_def verify_navigator_request_def act_simps)
  next
    case (Some i)
    show thesis
    proof (cases "i = [] \<or> length i > 200")
      case True
      with Inr own key Some show thesis
        by (intro untouched [of "Inl (ConnectorForbidden ''navigator_request_id_invalid'')"])
           (auto simp: verify_call_def verify_navigator_request_def consume_request_id_def act_simps accepted_as_def)
    next
      case False
      with Inr own key Some show thesis
        by (intro consumed [OF own Some, of ts])
           (auto simp: verify_call_def verify_navigator_request_def consume_request_id_def act_simps split: prod.splits)
    qed
  qed
qed

sublocale replay_window \<subseteq> verifying: marking "verify_call replay settings" nc_later "\<lambda>c. True" "accepted_as i ts" guarded
  "\<lambda>t s. \<forall>own. settings = Some own \<longrightarrow> seen own i (ts + MAX_CONTEXT_SKEW_SECONDS) (whole_seconds t) s" for settings i ts
proof unfold_locales
  fix c :: navigator_call and s t
  assume g: "guarded s"
  show "guarded (snd (verify_call replay settings c s))"
    by (cases rule: verify_call_cases [of replay settings c s]) (use g replay_guarded in \<open>simp_all add: split_beta\<close>)
  show "\<forall>own. settings = Some own \<longrightarrow>
      seen own i (ts + MAX_CONTEXT_SKEW_SECONDS) (whole_seconds (nc_later c)) (snd (verify_call replay settings c s))"
    if "accepted_as i ts c (fst (verify_call replay settings c s))"
    by (cases rule: verify_call_cases [of replay settings c s])
       (use that g accepted_seen in \<open>auto simp: accepted_as_def split_beta split: if_splits\<close>)
  assume m: "\<forall>own. settings = Some own \<longrightarrow> seen own i (ts + MAX_CONTEXT_SKEW_SECONDS) (whole_seconds t) s" and t: "t \<le> nc_later c"
  note later = whole_seconds_mono [OF t]
  show "\<not> accepted_as i ts c (fst (verify_call replay settings c s))"
    by (cases rule: verify_call_cases [of replay settings c s])
       (use m later g seen_refused in \<open>auto simp: accepted_as_def split_beta split: if_splits\<close>)
  show "\<forall>own. settings = Some own \<longrightarrow>
      seen own i (ts + MAX_CONTEXT_SKEW_SECONDS) (whole_seconds (nc_later c)) (snd (verify_call replay settings c s))"
    by (cases rule: verify_call_cases [of replay settings c s])
       (use m later g seen_stays seen_later in \<open>auto simp: split_beta\<close>)
qed

text \<open>The store's table of request ids is such a guard.\<close>

definition id_seen :: "string \<Rightarrow> string \<Rightarrow> int \<Rightarrow> int \<Rightarrow> connector_ledger \<Rightarrow> bool" where
  "id_seen k i e t s = (e \<le> t \<or> find_row (k, i) (cl_requests s) = Some e)"

lemma find_live_requests:
  "table_ok t \<Longrightarrow> find_row x (live_requests now t) =
     (case find_row x t of None \<Rightarrow> None | Some e \<Rightarrow> if e \<le> now then None else Some e)"
  by (simp add: live_requests_def find_select split: option.splits)

lemma id_seen_stays:
  assumes "table_ok (cl_requests s)" "id_seen k i e t s" "t \<le> t'"
  shows "id_seen k i e t' (snd (consume_connector_request_id k' i' e' t' s))"
proof (cases "e \<le> t'")
  case False
  with assms have row: "find_row (k, i) (live_requests t' (cl_requests s)) = Some e"
    "find_row (k, i) (cl_requests s) = Some e" by (auto simp: id_seen_def find_live_requests)
  then have "insert_row (k', i') e' (live_requests t' (cl_requests s)) = Some u \<Longrightarrow> find_row (k, i) u = Some e" for u
    by (cases "(k', i') = (k, i)") (auto simp: find_insert insert_row_def find_row_def map_of_eq_None_iff
        dest: map_of_SomeD split: if_splits)
  with row show ?thesis
    by (auto simp: id_seen_def consume_connector_request_id_def Let_def split: option.splits)
qed (simp add: id_seen_def)

interpretation ids: replay_window consume_connector_request_id "\<lambda>s. table_ok (cl_requests s)" id_seen
proof
  fix s :: connector_ledger and k i e t t' k' i' e'
  assume ok: "table_ok (cl_requests s)"
  show "table_ok (cl_requests (snd (consume_connector_request_id k i e t s)))" by (rule requests_step [OF ok])
  show "id_seen k i e t (snd (consume_connector_request_id k i e t s))" if "fst (consume_connector_request_id k i e t s)"
    using that by (auto simp: id_seen_def consume_connector_request_id_def Let_def find_insert split: if_splits option.splits)
  assume s: "id_seen k i e t s" "t \<le> t'"
  then have "e \<le> t' \<or> find_row (k, i) (live_requests t' (cl_requests s)) = Some e"
    using ok by (auto simp: id_seen_def find_live_requests split: if_splits)
  then show "\<not> fst (consume_connector_request_id k i e t' s)"
    by (auto simp: consume_connector_request_id_def Let_def insert_row_None split: option.splits)
       (metis insert_row_None option.distinct(1))
  show "id_seen k i e t' (snd (consume_connector_request_id k' i' e' t' s))" by (rule id_seen_stays [OF ok s])
qed (auto simp: id_seen_def)

section \<open>Grant registries\<close>

text \<open>
  \<open>x\<close> is the instant at which a grant with a given reference expires: the reference is the digest of
  the grant, so it fixes the expiry.
\<close>

locale one_use_grants =
  fixes registry :: "'s grant_registry option"
    and sound :: "(string \<Rightarrow> int) \<Rightarrow> 's grant_memory \<Rightarrow> bool"
    and spent :: "(string \<Rightarrow> int) \<Rightarrow> string \<Rightarrow> int \<Rightarrow> 's grant_memory \<Rightarrow> bool"
  assumes issue_sound: "sound x m \<Longrightarrow> gc_expires_at c = x (gc_grant_ref c) \<Longrightarrow> sound x (snd (issue_grant registry e c (whole_seconds t) m))"
    and spend_sound: "sound x m \<Longrightarrow> gc_expires_at c = x (gc_grant_ref c) \<Longrightarrow> sound x (snd (spend_grant registry e c t m))"
    and spend_spends: "sound x m \<Longrightarrow> gc_expires_at c = x (gc_grant_ref c) \<Longrightarrow> fst (spend_grant registry e c t m) = Inr () \<Longrightarrow>
      spent x (gc_grant_ref c) t (snd (spend_grant registry e c t m))"
    and spent_refused: "sound x m \<Longrightarrow> spent x (gc_grant_ref c) t m \<Longrightarrow> t \<le> t' \<Longrightarrow> t' < x (gc_grant_ref c) \<Longrightarrow>
      fst (spend_grant registry e c t' m) \<noteq> Inr ()"
    and spent_later: "spent x r t m \<Longrightarrow> t \<le> t' \<Longrightarrow> spent x r t' m"
    and issue_keeps: "sound x m \<Longrightarrow> spent x r t m \<Longrightarrow> gc_expires_at c = x (gc_grant_ref c) \<Longrightarrow> 0 \<le> t' \<Longrightarrow> t \<le> t' \<Longrightarrow>
      spent x r t' (snd (issue_grant registry e c (whole_seconds t') m))"
    and spend_keeps: "sound x m \<Longrightarrow> spent x r t m \<Longrightarrow> t \<le> t' \<Longrightarrow> spent x r t' (snd (spend_grant registry e c t' m))"

datatype grant_call = Mint bytes pydict int | Spend bytes pydict int

fun grant_call_step ::
  "grant_library \<Rightarrow> grant_verifier \<Rightarrow> 's grant_registry option \<Rightarrow> grant_call \<Rightarrow> ('s grant_memory, connector_exn, grant_claims) act" where
  "grant_call_step lib v registry (Mint encoded expected clock) = validate_authority_response lib v registry encoded expected clock"
| "grant_call_step lib v registry (Spend encoded expected clock) = consume_grant lib v registry encoded expected clock"

fun call_clock :: "grant_call \<Rightarrow> int" where
  "call_clock (Mint encoded expected clock) = clock"
| "call_clock (Spend encoded expected clock) = clock"

fun call_grant :: "grant_call \<Rightarrow> bytes" where
  "call_grant (Mint encoded expected clock) = encoded"
| "call_grant (Spend encoded expected clock) = encoded"

text \<open>The grant of the call, if it verifies, expires when its reference says.\<close>

definition expiry_agrees :: "grant_library \<Rightarrow> grant_verifier \<Rightarrow> (string \<Rightarrow> int) \<Rightarrow> grant_call \<Rightarrow> bool" where
  "expiry_agrees lib v x c =
     (0 \<le> call_clock c \<and>
      (case parse_and_verify lib v (call_grant c) of Inl e \<Rightarrow> True | Inr cl \<Rightarrow> gc_expires_at cl = x (gc_grant_ref cl)))"

fun spent_by :: "string \<Rightarrow> grant_call \<Rightarrow> connector_exn + grant_claims \<Rightarrow> bool" where
  "spent_by r (Spend encoded expected clock) (Inr cl) = (gc_grant_ref cl = r)"
| "spent_by r c reply = False"

text \<open>A call fails with the state untouched, or issues or spends the verified grant.\<close>

lemma grant_call_cases:
  obtains (refused) e where "grant_call_step lib v registry c m = (Inl e, m)"
  | (minted) expected cl where "c = Mint (call_grant c) expected (call_clock c)"
      "parse_and_verify lib v (call_grant c) = Inr cl" "\<And>r reply. \<not> spent_by r c reply"
      "snd (grant_call_step lib v registry c m) =
         snd (issue_grant registry (call_grant c) cl (whole_seconds (call_clock c)) m)"
  | (spending) expected cl where "c = Spend (call_grant c) expected (call_clock c)"
      "parse_and_verify lib v (call_grant c) = Inr cl" "call_clock c < gc_expires_at cl"
      "grant_call_step lib v registry c m =
         (case spend_grant registry (call_grant c) cl (call_clock c) m of (Inl e, m') \<Rightarrow> (Inl e, m') | (Inr u, m') \<Rightarrow> (Inr cl, m'))"
proof (cases "parse_and_verify lib v (call_grant c)")
  case (Inl e)
  then show thesis
    by (intro refused [of e]) (cases c; simp add: validate_authority_response_def consume_grant_def Let_def act_simps)
next
  case (Inr cl)
  show thesis
  proof (cases c)
    case (Mint encoded expected clock)
    show thesis
    proof (cases "match_expected cl expected = Inr () \<and> \<not> gc_expires_at cl \<le> whole_seconds clock * 1000000 \<and>
        \<not> gc_issued_at cl > (whole_seconds clock + 5) * 1000000")
      case True
      with Mint Inr show thesis
        by (intro minted [of expected cl])
           (auto simp: validate_authority_response_def Let_def act_simps guard_def split: prod.splits sum.splits)
    next
      case False
      with Mint Inr have "\<exists>e. grant_call_step lib v registry c m = (Inl e, m)"
        by (cases "match_expected cl expected") (auto simp: validate_authority_response_def Let_def act_simps guard_def)
      then show thesis using refused by blast
    qed
  next
    case (Spend encoded expected clock)
    show thesis
    proof (cases "match_expected cl expected = Inr () \<and> \<not> gc_expires_at cl \<le> clock")
      case True
      with Spend Inr show thesis
        by (intro spending [of expected cl])
           (auto simp: consume_grant_def act_simps guard_def split: prod.splits sum.splits)
    next
      case False
      with Spend Inr have "\<exists>e. grant_call_step lib v registry c m = (Inl e, m)"
        by (cases "match_expected cl expected") (auto simp: consume_grant_def act_simps guard_def)
      then show thesis using refused by blast
    qed
  qed
qed

sublocale one_use_grants \<subseteq> spending: marking "grant_call_step lib v registry" call_clock "expiry_agrees lib v x"
  "spent_by r" "sound x" "spent x r" for lib v x r
proof unfold_locales
  fix c m t
  assume a: "expiry_agrees lib v x c" and s: "sound x m"
  then have agrees: "parse_and_verify lib v (call_grant c) = Inr cl \<Longrightarrow> gc_expires_at cl = x (gc_grant_ref cl)" for cl
    by (simp add: expiry_agrees_def)
  have clock: "0 \<le> call_clock c" using a by (simp add: expiry_agrees_def)
  let ?m = "snd (grant_call_step lib v registry c m)"
  have spend: "snd (grant_call_step lib v registry c m) = snd (spend_grant registry (call_grant c) cl (call_clock c) m)"
    "spent_by r c (fst (grant_call_step lib v registry c m)) \<longleftrightarrow>
       gc_grant_ref cl = r \<and> fst (spend_grant registry (call_grant c) cl (call_clock c) m) = Inr ()"
    if "c = Spend (call_grant c) expected (call_clock c)"
      "grant_call_step lib v registry c m =
         (case spend_grant registry (call_grant c) cl (call_clock c) m of (Inl e, m') \<Rightarrow> (Inl e, m') | (Inr u, m') \<Rightarrow> (Inr cl, m'))"
    for expected cl
    using that by (cases c; auto split: prod.splits sum.splits)+
  show "sound x ?m"
    by (cases rule: grant_call_cases [of lib v registry c m])
       (use s agrees issue_sound spend_sound spend in \<open>simp_all\<close>)
  show "spent x r (call_clock c) ?m" if "spent_by r c (fst (grant_call_step lib v registry c m))"
    by (cases rule: grant_call_cases [of lib v registry c m])
       (use that s agrees spend_spends spend in \<open>auto\<close>)
  assume m: "spent x r t m" and t: "t \<le> call_clock c"
  show "\<not> spent_by r c (fst (grant_call_step lib v registry c m))"
    by (cases rule: grant_call_cases [of lib v registry c m])
       (use m t s agrees spent_refused spend in \<open>auto\<close>)
  show "spent x r (call_clock c) ?m"
    by (cases rule: grant_call_cases [of lib v registry c m])
       (use m t s agrees clock spent_later issue_keeps spend_keeps spend in \<open>auto\<close>)
qed

text \<open>The store's table of grants.\<close>

definition rows_expire :: "(string \<Rightarrow> int) \<Rightarrow> connector_ledger grant_memory \<Rightarrow> bool" where
  "rows_expire x m = rows_ok (\<lambda>r g. gr_expires_at g = whole_seconds (x r)) (cl_grants (gm_store m))"

definition row_spent :: "(string \<Rightarrow> int) \<Rightarrow> string \<Rightarrow> int \<Rightarrow> connector_ledger grant_memory \<Rightarrow> bool" where
  "row_spent x r t m =
     (x r \<le> t \<or>
      (case find_row r (cl_grants (gm_store m)) of
         None \<Rightarrow> whole_seconds (x r) \<le> whole_seconds t
       | Some g \<Rightarrow> gr_consumed_at g \<noteq> None))"

lemma rows_ok_select: "rows_ok P t \<Longrightarrow> rows_ok P (select Q t)"
  by (auto simp: rows_ok_def list_all_iff select_def table_ok_filter)

lemma find_live_grants:
  "table_ok t \<Longrightarrow> find_row r (live_grants now t) =
     (case find_row r t of None \<Rightarrow> None | Some g \<Rightarrow> if gr_expires_at g \<le> now then None else Some g)"
  by (simp add: live_grants_def find_select split: option.splits)

lemma select_one:
  assumes "table_ok t"
  shows "length (select (\<lambda>k v. k = r \<and> P v) t) = 1 \<longleftrightarrow> (\<exists>v. find_row r t = Some v \<and> P v)"
proof -
  have none: "r \<notin> fst ` set u \<Longrightarrow> select (\<lambda>k v. k = r \<and> P v) u = []" for u
    by (auto simp: select_def filter_empty_conv image_iff)
  from assms show ?thesis
  proof (induction t)
    case (Cons x t)
    then show ?case using none [of t]
      by (cases x) (auto simp: table_ok_def select_def find_row_def filter_empty_conv image_iff split: if_splits)
  qed (simp add: select_def find_row_def)
qed

text \<open>A consumption takes the live row of the grant, if it is unspent and has the same encoding.\<close>

lemma consume_row:
  assumes "table_ok (cl_grants s)"
  shows "fst (consume_connector_grant r digest now s) \<longleftrightarrow>
      r \<noteq> [] \<and> length digest = 64 \<and> (\<exists>g. find_row r (cl_grants s) = Some g \<and> consumable digest now g)"
    and "find_row r' (cl_grants (snd (consume_connector_grant r digest now s))) =
      (if r = [] \<or> length digest \<noteq> 64 then find_row r' (cl_grants s)
       else if r' = r then map_option (\<lambda>g. if consumable digest now g then g\<lparr>gr_consumed_at := Some now\<rparr> else g)
         (find_row r (live_grants now (cl_grants s)))
       else find_row r' (live_grants now (cl_grants s)))"
proof -
  have live: "table_ok (live_grants now (cl_grants s))" using assms by (simp add: live_grants_def table_ok_select)
  note one = select_one [OF live, of r "consumable digest now"]
  show "fst (consume_connector_grant r digest now s) \<longleftrightarrow>
      r \<noteq> [] \<and> length digest = 64 \<and> (\<exists>g. find_row r (cl_grants s) = Some g \<and> consumable digest now g)"
    using one by (auto simp: consume_connector_grant_def Let_def find_live_grants [OF assms] consumable_def split: option.splits if_splits)
  show "find_row r' (cl_grants (snd (consume_connector_grant r digest now s))) =
      (if r = [] \<or> length digest \<noteq> 64 then find_row r' (cl_grants s)
       else if r' = r then map_option (\<lambda>g. if consumable digest now g then g\<lparr>gr_consumed_at := Some now\<rparr> else g)
         (find_row r (live_grants now (cl_grants s)))
       else find_row r' (live_grants now (cl_grants s)))"
    by (auto simp: consume_connector_grant_def Let_def find_update)
qed

lemma register_row:
  assumes "table_ok (cl_grants s)"
  shows "find_row r' (cl_grants (snd (register_connector_grant r digest expires now s))) =
      find_row r' (cl_grants s) \<or>
    find_row r' (cl_grants (snd (register_connector_grant r digest expires now s))) =
      (if r' = r \<and> find_row r (live_grants now (cl_grants s)) = None \<and> fst (register_connector_grant r digest expires now s)
       then Some \<lparr>gr_encoded_sha256 = digest, gr_expires_at = expires, gr_consumed_at = None\<rparr>
       else find_row r' (live_grants now (cl_grants s)))"
  by (auto simp: register_connector_grant_def Let_def find_insert insert_row_None split: option.splits)
     (metis insert_row_None option.distinct(1))+

lemma register_true: "fst (register_connector_grant r digest expires now s) \<Longrightarrow> now < expires"
  by (auto simp: register_connector_grant_def Let_def split: if_splits)

lemma row_spent_live:
  assumes "table_ok (cl_grants s)" "\<And>g. find_row r (cl_grants s) = Some g \<Longrightarrow> gr_expires_at g = whole_seconds (x r)"
    and "case find_row r (cl_grants s) of None \<Rightarrow> whole_seconds (x r) \<le> whole_seconds t | Some g \<Rightarrow> gr_consumed_at g \<noteq> None"
    and "whole_seconds t \<le> now"
  shows "case find_row r (live_grants now (cl_grants s)) of None \<Rightarrow> whole_seconds (x r) \<le> now | Some g \<Rightarrow> gr_consumed_at g \<noteq> None"
  using assms by (auto simp: find_live_grants split: option.splits)

lemma durable_issue:
  "gm_store (snd (issue_grant (Some durable_registry) e c now m)) =
     snd (register_connector_grant (gc_grant_ref c) (sha256_hex e) (whole_seconds (gc_expires_at c)) now (gm_store m))"
  by (simp add: issue_grant_def durable_registry_def prune_grants_def Let_def split: prod.splits bool.splits)

lemma durable_spend:
  "gm_store (snd (spend_grant (Some durable_registry) e c now m)) =
     snd (consume_connector_grant (gc_grant_ref c) (sha256_hex e) (whole_seconds now) (gm_store m))"
  "fst (spend_grant (Some durable_registry) e c now m) = Inr () \<longleftrightarrow>
     fst (consume_connector_grant (gc_grant_ref c) (sha256_hex e) (whole_seconds now) (gm_store m))"
  by (simp_all add: spend_grant_def durable_registry_def prune_grants_def Let_def split: prod.splits bool.splits)

lemma rows_ok_register:
  assumes "rows_ok P (cl_grants s)" "P r \<lparr>gr_encoded_sha256 = digest, gr_expires_at = expires, gr_consumed_at = None\<rparr>"
  shows "rows_ok P (cl_grants (snd (register_connector_grant r digest expires now s)))"
  using assms rows_ok_select [OF assms(1)]
  by (auto simp: register_connector_grant_def live_grants_def Let_def split: option.splits intro: rows_ok_insert)

lemma rows_ok_consume:
  assumes "rows_ok P (cl_grants s)" "\<And>g. P r g \<Longrightarrow> P r (g\<lparr>gr_consumed_at := Some now\<rparr>)"
  shows "rows_ok P (cl_grants (snd (consume_connector_grant r digest now s)))"
  using assms rows_ok_select [OF assms(1)]
  by (auto simp: consume_connector_grant_def live_grants_def Let_def intro!: rows_ok_update)

interpretation durable: one_use_grants "Some durable_registry" rows_expire row_spent
proof
  fix x :: "string \<Rightarrow> int" and m :: "connector_ledger grant_memory" and c :: grant_claims and e t t' r
  let ?s = "gm_store m" and ?r = "gc_grant_ref c"
  show "row_spent x r t m \<Longrightarrow> t \<le> t' \<Longrightarrow> row_spent x r t' m"
    using whole_seconds_mono [of t t'] by (auto simp: row_spent_def split: option.splits)
  assume ok: "rows_expire x m"
  then have rows: "rows_ok (\<lambda>r g. gr_expires_at g = whole_seconds (x r)) (cl_grants ?s)" by (simp add: rows_expire_def)
  note table = rows_ok_table [OF rows] and expires = rows_okD [OF rows]
  show "rows_expire x (snd (spend_grant (Some durable_registry) e c t m))"
    using rows by (simp add: rows_expire_def durable_spend rows_ok_consume)
  show "row_spent x ?r t (snd (spend_grant (Some durable_registry) e c t m))"
    if "fst (spend_grant (Some durable_registry) e c t m) = Inr ()"
    using that consume_row(1) [OF table, of ?r "sha256_hex e" "whole_seconds t"]
      consume_row(2) [OF table, of ?r ?r "sha256_hex e" "whole_seconds t"]
    by (auto simp: row_spent_def durable_spend find_live_grants [OF table] consumable_def)
  show "fst (spend_grant (Some durable_registry) e c t' m) \<noteq> Inr ()"
    if "row_spent x ?r t m" "t \<le> t'" "t' < x ?r"
    using that consume_row(1) [OF table, of ?r "sha256_hex e" "whole_seconds t'"]
    by (auto simp: row_spent_def durable_spend consumable_def split: option.splits)
  show "row_spent x r t' (snd (spend_grant (Some durable_registry) e c t' m))" if "row_spent x r t m" "t \<le> t'"
  proof (cases "x r \<le> t'")
    case False
    with that have s: "case find_row r (cl_grants ?s) of None \<Rightarrow> whole_seconds (x r) \<le> whole_seconds t | Some g \<Rightarrow> gr_consumed_at g \<noteq> None"
      by (auto simp: row_spent_def)
    note live = row_spent_live [where x = x, OF table expires s whole_seconds_mono [OF that(2)]]
    from s whole_seconds_mono [OF that(2)]
    have now: "case find_row r (cl_grants ?s) of None \<Rightarrow> whole_seconds (x r) \<le> whole_seconds t' | Some g \<Rightarrow> gr_consumed_at g \<noteq> None"
      by (auto split: option.splits)
    with live show ?thesis
      by (auto simp: row_spent_def durable_spend consume_row(2) [OF table] split: option.splits)
  qed (simp add: row_spent_def)
  assume c: "gc_expires_at c = x ?r"
  show "rows_expire x (snd (issue_grant (Some durable_registry) e c (whole_seconds t) m))"
    using rows c by (simp add: rows_expire_def durable_issue rows_ok_register)
  show "row_spent x r t' (snd (issue_grant (Some durable_registry) e c (whole_seconds t') m))"
    if "row_spent x r t m" "t \<le> t'"
  proof (cases "x r \<le> t'")
    case False
    with that have s: "case find_row r (cl_grants ?s) of None \<Rightarrow> whole_seconds (x r) \<le> whole_seconds t | Some g \<Rightarrow> gr_consumed_at g \<noteq> None"
      by (auto simp: row_spent_def)
    note live = row_spent_live [where x = x, OF table expires s whole_seconds_mono [OF that(2)]]
    from s whole_seconds_mono [OF that(2)]
    have now: "case find_row r (cl_grants ?s) of None \<Rightarrow> whole_seconds (x r) \<le> whole_seconds t' | Some g \<Rightarrow> gr_consumed_at g \<noteq> None"
      by (auto split: option.splits)
    show ?thesis
      using register_row [OF table, of r ?r "sha256_hex e" "whole_seconds (gc_expires_at c)" "whole_seconds t'"] live now c
      by (auto simp: row_spent_def durable_issue dest!: register_true split: option.splits if_splits)
  qed (simp add: row_spent_def)
qed

text \<open>The verifier's own memory, where no registry is configured.\<close>

definition memory_expires :: "(string \<Rightarrow> int) \<Rightarrow> 's grant_memory \<Rightarrow> bool" where
  "memory_expires x m = list_all (\<lambda>(r, e). e = x r) (gm_consumed m)"

definition memory_spent :: "(string \<Rightarrow> int) \<Rightarrow> string \<Rightarrow> int \<Rightarrow> 's grant_memory \<Rightarrow> bool" where
  "memory_spent x r t m = (x r \<le> t \<or> r \<in> fst ` set (gm_consumed m))"

lemma memory_issue:
  "gm_consumed (snd (issue_grant None e c now m)) = gm_consumed (prune_grants (now * 1000000) m)"
  by (simp add: issue_grant_def Let_def)

lemma memory_spend:
  "gm_consumed (snd (spend_grant None e c now m)) =
     gm_consumed (prune_grants now m) @
     (if fst (spend_grant None e c now m) = Inr () then [(gc_grant_ref c, gc_expires_at c)] else [])"
  "fst (spend_grant None e c now m) = Inr () \<Longrightarrow> gc_grant_ref c \<notin> fst ` set (gm_consumed (prune_grants now m))"
  by (auto simp: spend_grant_def Let_def map_of_eq_None_iff split: if_splits)

lemma prune_keeps:
  assumes "memory_expires x m" "memory_spent x r t m" "t \<le> t'" "now \<le> t'"
  shows "x r \<le> t' \<or> r \<in> fst ` set (gm_consumed (prune_grants now m))"
  using assms by (force simp: memory_expires_def memory_spent_def prune_grants_def list_all_iff)

interpretation memory: one_use_grants None memory_expires memory_spent
proof
  fix x :: "string \<Rightarrow> int" and m :: "'s grant_memory" and c :: grant_claims and e t t' r
  show "memory_spent x r t m \<Longrightarrow> t \<le> t' \<Longrightarrow> memory_spent x r t' m" by (auto simp: memory_spent_def)
  assume ok: "memory_expires x m"
  then have pruned: "memory_expires x (prune_grants now m)" for now
    by (auto simp: memory_expires_def prune_grants_def list_all_iff)
  show "memory_expires x (snd (issue_grant None e c (whole_seconds t) m))"
    using pruned by (simp add: memory_expires_def memory_issue)
  show "memory_spent x (gc_grant_ref c) t (snd (spend_grant None e c t m))"
    if "fst (spend_grant None e c t m) = Inr ()"
    using that by (simp add: memory_spent_def memory_spend)
  show "memory_spent x r t' (snd (spend_grant None e c t' m))" if "memory_spent x r t m" "t \<le> t'"
    using prune_keeps [OF ok that, of t'] by (auto simp: memory_spent_def memory_spend)
  show "fst (spend_grant None e c t' m) \<noteq> Inr ()" if "memory_spent x (gc_grant_ref c) t m" "t \<le> t'" "t' < x (gc_grant_ref c)"
    using prune_keeps [OF ok that(1,2), of t'] that(3) memory_spend(2) [of e c t' m] by auto
  show "memory_spent x r t' (snd (issue_grant None e c (whole_seconds t') m))"
    if "memory_spent x r t m" "0 \<le> t'" "t \<le> t'"
    using prune_keeps [OF ok that(1,3) whole_seconds_below [OF that(2)]] by (auto simp: memory_spent_def memory_issue)
  assume "gc_expires_at c = x (gc_grant_ref c)"
  with pruned show "memory_expires x (snd (spend_grant None e c t m))"
    by (simp add: memory_expires_def memory_spend)
qed

end
