(* ===== verification/Connector_Interleaving.thy ===== *)
theory Connector_Interleaving
  imports Connector_Endpoint Connector_Facts
begin

text \<open>
  Executions of the connector route side by side: every stage of every handler is one step on the
  shared store, in any order. Each provider call owns its grant, and a request that is being executed
  is not executed a second time.
\<close>

section \<open>Steps\<close>

type_synonym op_task = "connector_operation \<times> op_stage"

type_synonym route_state = "op_task list \<times> endpoint_world \<times> int"

text \<open>A request arrives, time passes, another route mints a grant, or one execution takes a stage.\<close>

inductive route_step :: "endpoint_services \<Rightarrow> grant_verifier \<Rightarrow> route_state \<Rightarrow> route_state \<Rightarrow> bool" for es v where
  arrive: "route_step es v (ts, w, t) (ts @ [(c, ToReserve)], w, t)"
| tick: "t \<le> t' \<Longrightarrow> route_step es v (ts, w, t) (ts, w, t')"
| mint: "on_grants (validate_authority_response (es_library es) v (Some durable_registry) encoded expected t) w = (r, w') \<Longrightarrow>
    route_step es v (ts, w, t) (ts, w', t)"
| move: "i < length ts \<Longrightarrow> ts ! i = (c, st) \<Longrightarrow> advance es v c t reply st w = (st', w') \<Longrightarrow>
    route_step es v (ts, w, t) (ts[i := (c, st')], w', t)"

inductive_cases route_stepE: "route_step es v (ts, w, t) s'"

section \<open>What a stage does\<close>

abbreviation grants_of :: "endpoint_world \<Rightarrow> (string, grant_row) table" where
  "grants_of w \<equiv> cl_grants (gm_store (ew_grants w))"

abbreviation ledger_of :: "endpoint_world \<Rightarrow> connector_ledger" where
  "ledger_of w \<equiv> gm_store (ew_grants w)"

lemma on_ledger_snd:
  "ew_calls (snd (on_ledger f w)) = ew_calls w"
  "ledger_of (snd (on_ledger f w)) = snd (f (ledger_of w))"
  "fst (on_ledger f w) = fst (f (ledger_of w))"
  by (simp_all add: on_ledger_def split: prod.splits)

lemma on_grants_snd:
  "ew_calls (snd (on_grants f w)) = ew_calls w"
  "ew_grants (snd (on_grants f w)) = snd (f (ew_grants w))"
  "fst (on_grants f w) = fst (f (ew_grants w))"
  by (simp_all add: on_grants_def split: prod.splits)

text \<open>Only a spend touches the table of grants.\<close>

lemma reserve_grants: "cl_grants (snd (reserve_connector_invocation loads p i target g now s)) = cl_grants s"
  by (cases rule: reserve_cases [of loads p i target g now s]) simp_all

lemma attach_grants: "cl_grants (snd (attach_connector_invocation_grant p i envelope g s)) = cl_grants s"
  by (simp add: attach_connector_invocation_grant_def mutation_def Let_def)

lemma discard_grants: "cl_grants (snd (discard_connector_invocation p i envelope s)) = cl_grants s"
  by (simp add: discard_connector_invocation_def mutation_def)

lemma complete_grants:
  "cl_grants (snd (complete_connector_invocation canon fr p i envelope st response r status now s)) = cl_grants s"
  by (cases rule: complete_cases [of canon fr p i envelope st response r status now s]) simp_all

lemma reconcile_grants: "cl_grants (snd (reconcile_connector_invocations canon fr p f r st now s)) = cl_grants s"
  by (simp add: reconcile_connector_invocations_def act_simps mutation_def split: sum.splits prod.splits)

lemmas grants_frames = reserve_grants attach_grants discard_grants complete_grants reconcile_grants

section \<open>Every provider call owns its grant\<close>

text \<open>An execution that has spent the grant with reference \<open>r\<close> and is about to call its provider.\<close>

fun armed :: "string \<Rightarrow> op_stage \<Rightarrow> nat" where
  "armed r (ToAttach cl) = (if gc_grant_ref cl = r then 1 else 0)"
| "armed r (ToInvoke cl) = (if gc_grant_ref cl = r then 1 else 0)"
| "armed r st = 0"

definition calls_with :: "string \<Rightarrow> endpoint_world \<Rightarrow> nat" where
  "calls_with r w = length (filter (\<lambda>(c, cl). gc_grant_ref cl = r) (ew_calls w))"

definition spend_call :: "connector_operation \<Rightarrow> int \<Rightarrow> grant_call" where
  "spend_call c t = Spend (co_grant c) (co_expected c) t"

lemma spend_now_step:
  "fst (spend_now es v c t w) = fst (grant_call_step (es_library es) v (Some durable_registry) (spend_call c t) (ew_grants w))"
  "ew_grants (snd (spend_now es v c t w)) =
     snd (grant_call_step (es_library es) v (Some durable_registry) (spend_call c t) (ew_grants w))"
  "ew_calls (snd (spend_now es v c t w)) = ew_calls w"
  by (simp_all add: spend_now_def on_grants_snd spend_call_def)

lemma advance_spends:
  assumes "st = ToSpend \<or> (\<exists>rv. st = ToRespend rv)" "advance es v c t reply st w = (st', w')"
  shows "ew_grants w' = snd (grant_call_step (es_library es) v (Some durable_registry) (spend_call c t) (ew_grants w))"
    and "calls_with r w' = calls_with r w"
    and "armed r st' \<le> (if spent_by r (spend_call c t)
        (fst (grant_call_step (es_library es) v (Some durable_registry) (spend_call c t) (ew_grants w))) then 1 else 0)"
proof -
  obtain res u where u: "spend_now es v c t w = (res, u)" by fastforce
  have w': "w' = u" and st': "armed r st' \<le> (case res of Inr cl \<Rightarrow> if gc_grant_ref cl = r then 1 else 0 | _ \<Rightarrow> 0)"
    using assms u by (auto split: sum.splits if_splits)
  note s = spend_now_step [of es v c t w, unfolded u, simplified]
  show "ew_grants w' = snd (grant_call_step (es_library es) v (Some durable_registry) (spend_call c t) (ew_grants w))"
    "calls_with r w' = calls_with r w" using s w' by (simp_all add: calls_with_def)
  show "armed r st' \<le> (if spent_by r (spend_call c t)
        (fst (grant_call_step (es_library es) v (Some durable_registry) (spend_call c t) (ew_grants w))) then 1 else 0)"
    using st' s(1) [symmetric] by (cases res) (auto simp: spend_call_def)
qed

lemma advance_frame:
  assumes "st \<noteq> ToSpend" "\<And>rv. st \<noteq> ToRespend rv" "advance es v c t reply st w = (st', w')"
  shows "grants_of w' = grants_of w" and "armed r st' + calls_with r w' \<le> armed r st + calls_with r w"
proof -
  have led: "grants_of u = grants_of w \<and> ew_calls u = ew_calls w" if "on_ledger f w = (x, u)"
    "cl_grants (snd (f (ledger_of w))) = cl_grants (ledger_of w)" for f :: "'x ledger_act" and x u
    using that on_ledger_snd [of f w] by simp
  show "grants_of w' = grants_of w"
    using assms by (cases st) (auto simp: Let_def reserve_now_def attach_now_def complete_now_def on_ledger_snd grants_frames
        dest!: led split: sum.splits prod.splits if_splits option.splits)
  show "armed r st' + calls_with r w' \<le> armed r st + calls_with r w"
    using assms by (cases st) (auto simp: Let_def reserve_now_def attach_now_def complete_now_def on_ledger_snd grants_frames
        calls_with_def dest!: led split: sum.splits prod.splits if_splits option.splits)
qed

definition armed_total :: "string \<Rightarrow> op_task list \<Rightarrow> nat" where
  "armed_total r ts = sum_list (map (\<lambda>(c, st). armed r st) ts)"

lemma armed_total_update:
  assumes "i < length ts" "ts ! i = (c, st)"
  shows "armed_total r (ts[i := (c, st')]) + armed r st = armed_total r ts + armed r st'"
proof -
  have "armed r st \<le> armed_total r ts"
    using assms member_le_sum_list [of "armed r st" "map (\<lambda>(c, st). armed r st) ts"]
    by (force simp: armed_total_def in_set_conv_nth)
  then show ?thesis using assms by (simp add: armed_total_def map_update sum_list_update)
qed

text \<open>
  The grant \<open>r\<close> is used by at most one execution or call, and then it is spent. References fix
  expiries: \<open>x\<close> tells when.
\<close>

definition fixed_expiry :: "grant_library \<Rightarrow> grant_verifier \<Rightarrow> (string \<Rightarrow> int) \<Rightarrow> bool" where
  "fixed_expiry lib v x = (\<forall>encoded cl. parse_and_verify lib v encoded = Inr cl \<longrightarrow> gc_expires_at cl = x (gc_grant_ref cl))"

definition grant_owned :: "(string \<Rightarrow> int) \<Rightarrow> string \<Rightarrow> route_state \<Rightarrow> bool" where
  "grant_owned x r s =
     (case s of (ts, w, t) \<Rightarrow>
        0 \<le> t \<and> rows_expire x (ew_grants w) \<and> armed_total r ts + calls_with r w \<le> 1 \<and>
        (armed_total r ts + calls_with r w = 1 \<longrightarrow> row_spent x r t (ew_grants w)))"

lemma row_spent_grants: "grants_of w' = grants_of w \<Longrightarrow> row_spent x r t (ew_grants w') = row_spent x r t (ew_grants w)"
  and rows_expire_grants: "grants_of w' = grants_of w \<Longrightarrow> rows_expire x (ew_grants w') = rows_expire x (ew_grants w)"
  by (simp_all add: row_spent_def rows_expire_def)

lemma grant_owned_move:
  assumes f: "fixed_expiry (es_library es) v x" and s: "grant_owned x r (ts, w, t)"
    and i: "i < length ts" "ts ! i = (c, st)" and a: "advance es v c t reply st w = (st', w')"
  shows "grant_owned x r (ts[i := (c, st')], w', t)"
proof (cases "st = ToSpend \<or> (\<exists>rv. st = ToRespend rv)")
  case True
  let ?step = "grant_call_step (es_library es) v (Some durable_registry) (spend_call c t) (ew_grants w)"
  have agrees: "expiry_agrees (es_library es) v x (spend_call c t)"
    using f s by (auto simp: expiry_agrees_def spend_call_def fixed_expiry_def grant_owned_def split: sum.splits)
  have clock: "call_clock (spend_call c t) = t" by (simp add: spend_call_def)
  note adv = advance_spends [OF True a]
  have zero: "armed r st = 0" using True by auto
  have sound: "rows_expire x (ew_grants w)" using s by (simp add: grant_owned_def)
  then have sound': "rows_expire x (ew_grants w')"
    using durable.spending.step_sound [OF agrees sound] adv(1) by simp
  show ?thesis
  proof (cases "spent_by r (spend_call c t) (fst ?step)")
    case hit: True
    have "\<not> row_spent x r t (ew_grants w)"
      using durable.spending.marked_blocks [OF agrees sound, of r t] hit by (auto simp: clock)
    with s have "armed_total r ts + calls_with r w = 0" by (auto simp: grant_owned_def)
    moreover have "row_spent x r t (ew_grants w')"
      using durable.spending.hit_marks [OF agrees sound hit] adv(1) by (simp add: clock)
    ultimately show ?thesis
      using s sound' adv(2) [of r] adv(3) [of r] armed_total_update [OF i, of r st'] hit zero by (simp add: grant_owned_def)
  next
    case False
    have "row_spent x r t (ew_grants w')" if "row_spent x r t (ew_grants w)"
      using durable.spending.marked_stays [OF agrees sound that] adv(1) by (simp add: clock)
    then show ?thesis
      using s sound' adv(2) [of r] adv(3) [of r] armed_total_update [OF i, of r st'] False zero by (auto simp: grant_owned_def)
  qed
next
  case False
  then have "st \<noteq> ToSpend" "\<And>rv. st \<noteq> ToRespend rv" by auto
  note adv = advance_frame [OF this a]
  show ?thesis
    using s adv(2) [of r] armed_total_update [OF i, of r st'] row_spent_grants [OF adv(1)] rows_expire_grants [OF adv(1)]
    by (auto simp: grant_owned_def)
qed

lemma grant_owned_step:
  assumes f: "fixed_expiry (es_library es) v x" and s: "grant_owned x r s" and "route_step es v s s'"
  shows "grant_owned x r s'"
  using assms(3) s
proof cases
  case (arrive ts w t c)
  with s show ?thesis by (simp add: grant_owned_def armed_total_def)
next
  case (tick t t' ts w)
  with s durable.spent_later [of x r t "ew_grants w" t'] show ?thesis by (auto simp: grant_owned_def)
next
  case (mint encoded expected t w reply w' ts)
  let ?call = "Mint encoded expected t"
  have agrees: "expiry_agrees (es_library es) v x ?call"
    using f s mint by (auto simp: expiry_agrees_def fixed_expiry_def grant_owned_def split: sum.splits)
  have sound: "rows_expire x (ew_grants w)" using s mint by (simp add: grant_owned_def)
  have w': "ew_grants w' = snd (grant_call_step (es_library es) v (Some durable_registry) ?call (ew_grants w))"
    "calls_with r w' = calls_with r w"
    using mint(3) on_grants_snd [of "validate_authority_response (es_library es) v (Some durable_registry) encoded expected t" w]
    by (simp_all add: calls_with_def)
  have "rows_expire x (ew_grants w')" using durable.spending.step_sound [OF agrees sound] w'(1) by simp
  moreover have "row_spent x r t (ew_grants w) \<Longrightarrow> row_spent x r t (ew_grants w')"
    using durable.spending.marked_stays [OF agrees sound, of r t] w'(1) by simp
  ultimately show ?thesis using s mint w'(2) by (auto simp: grant_owned_def)
next
  case (move i ts c st t reply w st' w')
  with grant_owned_move [OF f, of r ts w t] s show ?thesis by simp
qed

lemma grant_owned_runs:
  assumes "fixed_expiry (es_library es) v x" "(route_step es v)\<^sup>*\<^sup>* s s'" "grant_owned x r s"
  shows "grant_owned x r s'"
  using assms(2,3) by (induction rule: rtranclp_induct) (auto intro: grant_owned_step [OF assms(1)])

section \<open>A request is executed by one handler at a time\<close>

text \<open>Between its reservation and the record of its outcome.\<close>

fun executing :: "op_stage \<Rightarrow> bool" where
  "executing ToSpend = True"
| "executing (ToDiscard e) = True"
| "executing (ToAttach cl) = True"
| "executing (ToInvoke cl) = True"
| "executing (ToComplete cl d) = True"
| "executing st = False"

definition op_key :: "connector_operation \<Rightarrow> invocation_key" where
  "op_key c = (scope_of (co_principal c), co_request_id c)"

definition running :: "invocation_key \<Rightarrow> invocations \<Rightarrow> bool" where
  "running k t = (case find_row k t of None \<Rightarrow> False | Some r \<Rightarrow> iv_state r = InProgress)"

lemma running_waits: "running k t \<Longrightarrow> waits k t"
  by (auto simp: running_def waits_def settled_state_def split: option.splits)

lemma running_row: "running k t \<longleftrightarrow> (\<exists>r. find_row k t = Some r \<and> iv_state r = InProgress)"
  by (auto simp: running_def split: option.splits)

lemma running_expired: "table_ok t \<Longrightarrow> running k t \<Longrightarrow> running k (drop_expired now t)"
  by (auto simp: running_row drop_expired_def find_select settled_state_def)

lemma running_admit_receipt:
  "table_ok t \<Longrightarrow> running k t \<Longrightarrow> admit_receipt now k' receipt t = (kept, t') \<Longrightarrow> running k t'"
  using find_admit_receipt [of t k _ now k' receipt kept t'] by (fastforce simp: running_row settled_state_def)

lemma running_update:
  assumes "running k t" "k = k' \<Longrightarrow> \<forall>r. iv_state r = InProgress \<longrightarrow> iv_state (f r) = InProgress"
  shows "running k (update_attempt k' envelope f t)"
proof -
  from assms(1) obtain r where "find_row k t = Some r" "iv_state r = InProgress" by (auto simp: running_row)
  with assms(2) show ?thesis by (cases "k = k'") (simp_all add: running_def find_update_attempt)
qed

lemma running_reconcile:
  "reconcile_rows canon fr sc operation_ref st now rows updated t = Inr (n, t') \<Longrightarrow> table_ok t \<Longrightarrow> running k t \<Longrightarrow>
   \<forall>x\<in>set rows. (sc, fst x) \<noteq> k \<Longrightarrow> running k t'"
proof (induction rows arbitrary: updated t)
  case (Cons x rows)
  obtain request_id envelope where x: "x = (request_id, envelope)" by (cases x)
  from Cons.prems(1) obtain receipt where receipt: "reconciled_receipt canon fr request_id operation_ref st = Inr receipt"
    by (auto simp: x rbind_def split: sum.splits)
  obtain kept u where u: "admit_receipt now (sc, request_id) receipt t = (kept, u)" by fastforce
  let ?t = "update_attempt (sc, request_id) envelope (settle_row st now kept) u"
  have "table_ok ?t" using admit_receipt_facts(1) [OF Cons.prems(2) u] by (rule table_ok_update_attempt)
  moreover have "running k ?t"
    using running_admit_receipt [OF Cons.prems(2,3) u] Cons.prems(4) by (intro running_update) (auto simp: x)
  moreover obtain m where "reconcile_rows canon fr sc operation_ref st now rows m ?t = Inr (n, t')"
    using Cons.prems(1) by (auto simp: x receipt u rbind_def Let_def)
  ultimately show ?case using Cons.IH Cons.prems(4) by (metis list.set_intros(2))
qed simp

text \<open>A row in progress is none of those a reconciliation selects.\<close>

lemma running_not_selected:
  assumes "table_ok t" "running k t" "x \<in> set (unresolved_operations sc f r t)"
  shows "(sc, fst x) \<noteq> k"
proof
  assume "(sc, fst x) = k"
  with assms(3) obtain row where "(k, row) \<in> set t" "iv_state row \<in> {InvPending, UnknownResult}"
    by (auto simp: unresolved_operations_def matching_operation_def)
  with assms(1,2) show False by (auto simp: set_find running_row)
qed

fun touches :: "invocation_key \<Rightarrow> ledger_call \<Rightarrow> bool" where
  "touches k (CallComplete p i envelope st response r status now) = (k = (scope_of p, i))"
| "touches k (CallDiscard p i envelope) = (k = (scope_of p, i))"
| "touches k c = False"

lemma running_step:
  assumes "ledger_ok s" "running k (cl_invocations s)" "\<not> touches k c"
  shows "running k (cl_invocations (snd (ledger_call_step env c s)))"
proof -
  have t: "table_ok (cl_invocations s)" using assms(1) by (simp add: ledger_ok_def)
  show ?thesis
  proof (cases c)
    case (CallReserve p i target g now)
    show ?thesis
    proof (cases rule: reserve_cases [of "le_loads env" p i target g now s])
      case (fresh t')
      obtain r where r: "find_row k (drop_expired now (cl_invocations s)) = Some r" "iv_state r = InProgress"
        using running_expired [OF t assms(2)] by (auto simp: running_row)
      from fresh(2) obtain Q where t': "t' = filter Q (drop_expired now (cl_invocations s)) @ [((scope_of p, i), new_row target g now)]"
        and Q: "spares Q (drop_expired now (cl_invocations s))"
        using table_ok_expired [OF t] by (elim admit_attempt_result)
      have "find_row k (filter Q (drop_expired now (cl_invocations s))) = Some r"
        by (rule find_filter_spared [OF table_ok_expired [OF t] r(1) _ Q]) (simp add: r settled_state_def)
      with r fresh(3) CallReserve show ?thesis by (simp add: bind_ret_snd t' running_row find_row_append)
    qed (use CallReserve assms t in \<open>auto simp: bind_ret_snd intro: running_expired\<close>)
  next
    case CallAttach
    with assms show ?thesis
      by (auto simp: attach_connector_invocation_grant_def bind_ret_snd mutation_def Let_def intro!: running_update)
  next
    case (CallComplete p i envelope st response r status now)
    show ?thesis
    proof (cases rule: complete_cases [of "le_canon env" "le_float env" p i envelope st response r status now s])
      case (recorded row receipt kept t')
      have "running k t'" using recorded(3) assms t by (cases receipt) (auto dest: running_admit_receipt)
      with recorded(4) CallComplete assms(3) show ?thesis by (auto simp: bind_ret_snd intro: running_update)
    qed (use CallComplete assms in \<open>simp add: bind_ret_snd\<close>)
  next
    case CallDiscard
    with assms t show ?thesis
      by (auto simp: discard_connector_invocation_def bind_ret_snd mutation_def discardable_def running_row find_select)
  next
    case (CallReconcile p f r st now)
    have "\<forall>x\<in>set (unresolved_operations (scope_of p) f r (cl_invocations s)). (scope_of p, fst x) \<noteq> k"
      using running_not_selected [OF t assms(2)] by blast
    then show ?thesis using CallReconcile assms(2)
      by (auto simp: reconcile_connector_invocations_def bind_ret_snd act_simps mutation_def
          dest: running_reconcile [OF _ t assms(2)] split: sum.splits prod.splits)
  qed (use assms in \<open>simp_all add: answer_snd requests_frame grants_frame\<close>)
qed

text \<open>The store calls of a stage.\<close>

definition stage_env :: "endpoint_services \<Rightarrow> ledger_env" where
  "stage_env es = \<lparr>le_canon = es_canon es, le_float = es_float es, le_loads = es_receipts es\<rparr>"

lemma stage_calls:
  "ledger_of (snd (reserve_now es c now w)) =
     snd (ledger_call_step (stage_env es) (CallReserve (co_principal c) (co_request_id c) (co_target c)
       (gc_grant_ref (co_claims c)) (whole_seconds now)) (ledger_of w))"
  "ledger_of (snd (attach_now c cl w)) =
     snd (ledger_call_step (stage_env es) (CallAttach (co_principal c) (co_request_id c) (it_envelope_sha256 (co_target c))
       (gc_grant_ref cl)) (ledger_of w))"
  "ledger_of (snd (complete_now es c out response operation_ref now w)) =
     snd (ledger_call_step (stage_env es) (CallComplete (co_principal c) (co_request_id c) (it_envelope_sha256 (co_target c))
       (outcome_state out) (Some response) operation_ref 200 (whole_seconds now)) (ledger_of w))"
  by (simp_all add: stage_env_def reserve_now_def attach_now_def complete_now_def on_ledger_snd bind_ret_snd)

text \<open>A spend and a mint leave the invocations alone.\<close>

lemma spend_frame:
  assumes "ledger_ok (ledger_of w)"
  shows "ledger_ok (ledger_of (snd (spend_now es v c t w)))"
    "cl_invocations (ledger_of (snd (spend_now es v c t w))) = cl_invocations (ledger_of w)"
proof -
  have "gm_store (snd (grant_call_step (es_library es) v (Some durable_registry) (spend_call c t) (ew_grants w))) = ledger_of w \<or>
    (\<exists>r digest now. gm_store (snd (grant_call_step (es_library es) v (Some durable_registry) (spend_call c t) (ew_grants w))) =
       snd (consume_connector_grant r digest now (ledger_of w)))"
  proof (cases rule: grant_call_cases [of "es_library es" v "Some durable_registry" "spend_call c t" "ew_grants w"])
    case (spending expected cl)
    have "snd (grant_call_step (es_library es) v (Some durable_registry) (spend_call c t) (ew_grants w)) =
        snd (spend_grant (Some durable_registry) (call_grant (spend_call c t)) cl (call_clock (spend_call c t)) (ew_grants w))"
      unfolding spending(4) by (simp split: prod.splits sum.splits)
    then show ?thesis by (simp only: durable_spend(1)) blast
  qed (simp_all add: spend_call_def)
  then show "ledger_ok (ledger_of (snd (spend_now es v c t w)))"
    "cl_invocations (ledger_of (snd (spend_now es v c t w))) = cl_invocations (ledger_of w)"
    using assms ledger_call_ok [of "ledger_of w" "stage_env es" "CallConsume _ _ _"]
    by (auto simp: spend_now_step(2) answer_snd grants_frame)
qed

lemma mint_frame:
  assumes "ledger_ok (ledger_of w)"
    "on_grants (validate_authority_response lib v (Some durable_registry) encoded expected t) w = (r, w')"
  shows "ledger_ok (ledger_of w')" "cl_invocations (ledger_of w') = cl_invocations (ledger_of w)"
proof -
  have w': "ew_grants w' = snd (grant_call_step lib v (Some durable_registry) (Mint encoded expected t) (ew_grants w))"
    using on_grants_snd(2) [of "validate_authority_response lib v (Some durable_registry) encoded expected t" w] assms(2) by simp
  have "ledger_of w' = ledger_of w \<or>
    (\<exists>r digest e now. ledger_of w' = snd (register_connector_grant r digest e now (ledger_of w)))"
    unfolding w'
  proof (cases rule: grant_call_cases [of lib v "Some durable_registry" "Mint encoded expected t" "ew_grants w"])
    case (minted expected' cl)
    then show "gm_store (snd (grant_call_step lib v (Some durable_registry) (Mint encoded expected t) (ew_grants w))) = ledger_of w \<or>
        (\<exists>r digest e now. gm_store (snd (grant_call_step lib v (Some durable_registry) (Mint encoded expected t) (ew_grants w))) =
           snd (register_connector_grant r digest e now (ledger_of w)))"
      by (simp only: durable_issue) blast
  qed simp_all
  then show "ledger_ok (ledger_of w')" "cl_invocations (ledger_of w') = cl_invocations (ledger_of w)"
    using assms(1) ledger_call_ok [of "ledger_of w" undefined "CallRegister _ _ _ _"] by (auto simp: answer_snd grants_frame)
qed

text \<open>A new reservation starts an invocation that did not wait.\<close>

lemma reserve_starts:
  assumes "ledger_ok (ledger_of w)" "reserve_now es c now w = (Inr rv, w')" "rv_disposition rv = New"
  shows "\<not> waits (op_key c) (cl_invocations (ledger_of w))" "running (op_key c) (cl_invocations (ledger_of w'))"
proof -
  let ?s = "ledger_of w" and ?d = "drop_expired (whole_seconds now) (cl_invocations (ledger_of w))"
  have t: "table_ok (cl_invocations ?s)" using assms(1) by (simp add: ledger_ok_def)
  have r: "fst (reserve_connector_invocation (es_receipts es) (co_principal c) (co_request_id c) (co_target c)
      (gc_grant_ref (co_claims c)) (whole_seconds now) ?s) = Inr rv"
    "ledger_of w' = snd (reserve_connector_invocation (es_receipts es) (co_principal c) (co_request_id c) (co_target c)
      (gc_grant_ref (co_claims c)) (whole_seconds now) ?s)"
    using assms(2) on_ledger_snd [of "reserve_connector_invocation (es_receipts es) (co_principal c) (co_request_id c) (co_target c)
      (gc_grant_ref (co_claims c)) (whole_seconds now)" w] by (simp_all add: reserve_now_def)
  have "\<not> waits (op_key c) (cl_invocations ?s) \<and> running (op_key c) (cl_invocations (ledger_of w'))"
  proof (cases rule: reserve_cases [of "es_receipts es" "co_principal c" "co_request_id c" "co_target c"
        "gc_grant_ref (co_claims c)" "whole_seconds now" ?s])
    case (fresh t')
    from fresh(2) obtain Q where t': "t' = filter Q ?d @ [(op_key c, new_row (co_target c) (gc_grant_ref (co_claims c)) (whole_seconds now))]"
      unfolding op_key_def using table_ok_expired [OF t] by (elim admit_attempt_result)
    have "find_row (op_key c) (filter Q ?d) = None"
      using fresh(1) find_select [OF table_ok_expired [OF t], of "op_key c" "\<lambda>k r. Q (k, r)"]
      by (simp add: select_def op_key_def)
    then have "running (op_key c) t'" by (simp add: t' running_row find_row_append new_row_def)
    moreover have "\<not> waits (op_key c) (cl_invocations ?s)"
      using fresh(1) waits_expired [OF t, of "op_key c" "whole_seconds now"] by (auto simp: waits_def op_key_def)
    ultimately show ?thesis using fresh(3) r(2) by simp
  qed (use r assms(3) prior_not_new in auto)
  then show "\<not> waits (op_key c) (cl_invocations (ledger_of w))" "running (op_key c) (cl_invocations (ledger_of w'))" by blast+
qed

text \<open>What a stage does to the ledger, and to the invocations in progress.\<close>

lemma called_stage:
  assumes "ledger_ok (ledger_of w)" "ledger_of w' = snd (ledger_call_step env call (ledger_of w))"
  shows "ledger_ok (ledger_of w')"
    and "running k (cl_invocations (ledger_of w)) \<Longrightarrow> \<not> touches k call \<Longrightarrow> running k (cl_invocations (ledger_of w'))"
  using assms ledger_call_ok running_step by simp_all

lemma discard_stage:
  "ledger_of (snd (on_ledger (discard_connector_invocation (co_principal c) (co_request_id c) envelope) w)) =
     snd (ledger_call_step env (CallDiscard (co_principal c) (co_request_id c) envelope) (ledger_of w))"
  by (simp add: on_ledger_snd bind_ret_snd)

lemma reconcile_stage:
  "ledger_of (snd (on_ledger (reconcile_connector_invocations (es_canon es) (es_float es) p f r st now) w)) =
     snd (ledger_call_step (stage_env es) (CallReconcile p f r st now) (ledger_of w))"
  by (simp add: on_ledger_snd bind_ret_snd stage_env_def)

lemma advance_execution:
  assumes ok: "ledger_ok (ledger_of w)" and a: "advance es v c now reply st w = (st', w')"
  shows "ledger_ok (ledger_of w')"
    and "executing st' \<Longrightarrow> executing st \<or>
      (\<not> waits (op_key c) (cl_invocations (ledger_of w)) \<and> running (op_key c) (cl_invocations (ledger_of w')))"
    and "running k (cl_invocations (ledger_of w)) \<Longrightarrow>
      (op_key c = k \<and> executing st \<and> \<not> executing st') \<or> running k (cl_invocations (ledger_of w'))"
proof -
  let ?ok = "ledger_ok (ledger_of w')"
  let ?start = "executing st' \<longrightarrow> executing st \<or>
      (\<not> waits (op_key c) (cl_invocations (ledger_of w)) \<and> running (op_key c) (cl_invocations (ledger_of w')))"
  let ?keep = "running k (cl_invocations (ledger_of w)) \<longrightarrow>
      (op_key c = k \<and> executing st \<and> \<not> executing st') \<or> running k (cl_invocations (ledger_of w'))"
  have "?ok \<and> ?start \<and> ?keep"
  proof (cases st)
    case ToReserve
    obtain r u where u: "reserve_now es c now w = (r, u)" by fastforce
    then have w': "w' = u" using a ToReserve by (cases r) auto
    from u have "ledger_of w' = snd (ledger_call_step (stage_env es) (CallReserve (co_principal c) (co_request_id c) (co_target c)
       (gc_grant_ref (co_claims c)) (whole_seconds now)) (ledger_of w))"
      using stage_calls(1) [of es c now w] w' by simp
    note call = called_stage [OF ok this]
    have ?start
    proof
      assume "executing st'"
      then obtain rv where "r = Inr rv" "rv_disposition rv = New"
        using a ToReserve u by (cases r) (auto split: if_splits)
      with reserve_starts [OF ok] u w' show "executing st \<or>
          (\<not> waits (op_key c) (cl_invocations (ledger_of w)) \<and> running (op_key c) (cl_invocations (ledger_of w')))" by blast
    qed
    with call show ?thesis by simp
  next
    case (ToRespend rv)
    then have "w' = snd (spend_now es v c now w)" "\<not> executing st'"
      using a by (auto split: prod.splits sum.splits)
    with spend_frame [OF ok] show ?thesis by simp
  next
    case ToSpend
    then have "w' = snd (spend_now es v c now w)" "executing st"
      using a by (auto split: prod.splits sum.splits)
    with spend_frame [OF ok] show ?thesis by simp
  next
    case (ToReattach rv cl)
    then have "w' = snd (attach_now c cl w)" "\<not> executing st'"
      using a by (auto split: prod.splits sum.splits)
    with called_stage [OF ok stage_calls(2) [of c cl w es]] show ?thesis by simp
  next
    case (ToAttach cl)
    then have "w' = snd (attach_now c cl w)" "executing st"
      using a by (auto split: prod.splits sum.splits)
    with called_stage [OF ok stage_calls(2) [of c cl w es]] show ?thesis by simp
  next
    case (ToDiscard e)
    then have "w' = snd (on_ledger (discard_connector_invocation (co_principal c) (co_request_id c) (it_envelope_sha256 (co_target c))) w)"
      "executing st" "\<not> executing st'" using a by auto
    with called_stage(1) [OF ok discard_stage [of c "it_envelope_sha256 (co_target c)" w "stage_env es"]]
      called_stage(2) [OF ok discard_stage [of c "it_envelope_sha256 (co_target c)" w "stage_env es"], of k] show ?thesis
      by (cases "op_key c = k") (simp_all add: op_key_def eq_commute [of k])
  next
    case (ToInvoke cl)
    with a ok show ?thesis by auto
  next
    case (ToComplete cl d)
    have fin: "executing st" "\<not> executing st'"
      using a ToComplete by (auto simp: Let_def split: sum.splits prod.splits if_splits)
    have "w' = w \<or> (\<exists>out response. w' = snd (complete_now es c out response (connector_operation_ref d) now w))"
      using a ToComplete by (auto simp: Let_def split: sum.splits prod.splits if_splits) (metis snd_conv)+
    then show ?thesis
    proof
      assume "w' = w"
      with ok fin show ?thesis by simp
    next
      assume "\<exists>out response. w' = snd (complete_now es c out response (connector_operation_ref d) now w)"
      then obtain out response where "w' = snd (complete_now es c out response (connector_operation_ref d) now w)" by blast
      with called_stage(1) [OF ok stage_calls(3) [of es c out response "connector_operation_ref d" now w]]
        called_stage(2) [OF ok stage_calls(3) [of es c out response "connector_operation_ref d" now w], of k] fin show ?thesis
        by (cases "op_key c = k") (simp_all add: op_key_def eq_commute [of k])
    qed
  next
    case (ToReconcile d response)
    have fin: "\<not> executing st'" using a ToReconcile by (auto split: option.splits sum.splits prod.splits)
    show ?thesis
    proof (cases "reconciles c d")
      case None
      with a ToReconcile ok fin show ?thesis by simp
    next
      case (Some x)
      then have "w' = snd (on_ledger (reconcile_connector_invocations (es_canon es) (es_float es) (co_principal c)
          (po_profile_ref (co_prepared c)) (fst x) (snd x) (whole_seconds now)) w)"
        using a ToReconcile by (auto split: prod.splits sum.splits)
      with called_stage [OF ok reconcile_stage [of es "co_principal c" "po_profile_ref (co_prepared c)" "fst x" "snd x"
            "whole_seconds now" w]] fin show ?thesis by simp
    qed
  next
    case (Finished r)
    with a ok show ?thesis by auto
  qed
  then show ?ok "executing st' \<Longrightarrow> executing st \<or>
      (\<not> waits (op_key c) (cl_invocations (ledger_of w)) \<and> running (op_key c) (cl_invocations (ledger_of w')))"
    "running k (cl_invocations (ledger_of w)) \<Longrightarrow>
      (op_key c = k \<and> executing st \<and> \<not> executing st') \<or> running k (cl_invocations (ledger_of w'))" by blast+
qed

definition execution :: "invocation_key \<Rightarrow> op_task \<Rightarrow> nat" where
  "execution k task = (if op_key (fst task) = k \<and> executing (snd task) then 1 else 0)"

definition executions :: "invocation_key \<Rightarrow> op_task list \<Rightarrow> nat" where
  "executions k ts = sum_list (map (execution k) ts)"

lemma executions_update:
  assumes "i < length ts" "ts ! i = task"
  shows "executions k (ts[i := task']) + execution k task = executions k ts + execution k task'"
proof -
  have "execution k task \<le> executions k ts"
    using assms member_le_sum_list [of "execution k task" "map (execution k) ts"]
    by (force simp: executions_def in_set_conv_nth)
  then show ?thesis using assms by (simp add: executions_def map_update sum_list_update)
qed

text \<open>At most one handler executes the request, and then its row is in progress.\<close>

definition single_execution :: "invocation_key \<Rightarrow> route_state \<Rightarrow> bool" where
  "single_execution k s =
     (case s of (ts, w, t) \<Rightarrow>
        ledger_ok (ledger_of w) \<and> executions k ts \<le> 1 \<and>
        (executions k ts = 1 \<longrightarrow> running k (cl_invocations (ledger_of w))))"

lemma single_execution_step:
  assumes s: "single_execution k s" and "route_step es v s s'"
  shows "single_execution k s'"
  using assms(2)
proof cases
  case (arrive ts w t c)
  with s show ?thesis by (simp add: single_execution_def executions_def execution_def)
next
  case (tick t t' ts w)
  with s show ?thesis by (simp add: single_execution_def)
next
  case (mint encoded expected t w r w' ts)
  with s mint_frame [OF _ mint(3)] show ?thesis by (simp add: single_execution_def)
next
  case (move i ts c st t reply w st' w')
  have ok: "ledger_ok (ledger_of w)" using s move by (simp add: single_execution_def)
  note adv = advance_execution [OF ok move(5)] and upd = executions_update [OF move(3,4), of k "(c, st')"]
  show ?thesis
  proof (cases "op_key c = k \<and> executing st' \<and> \<not> executing st")
    case True
    then have "\<not> waits k (cl_invocations (ledger_of w))" "running k (cl_invocations (ledger_of w'))" using adv(2) by auto
    moreover from this s move running_waits have "executions k ts = 0" by (fastforce simp: single_execution_def)
    ultimately show ?thesis using True upd adv(1) move by (simp add: single_execution_def execution_def)
  next
    case False
    then have le: "execution k (c, st') \<le> execution k (c, st)" by (auto simp: execution_def)
    with upd have "executions k (ts[i := (c, st')]) \<le> executions k ts" by simp
    moreover have "running k (cl_invocations (ledger_of w'))" if "executions k (ts[i := (c, st')]) = 1"
    proof -
      have one: "executions k ts = 1" "execution k (c, st') = execution k (c, st)"
        using that calculation upd s move by (auto simp: single_execution_def)
      then have "running k (cl_invocations (ledger_of w))" using s move by (simp add: single_execution_def)
      from adv(3) [OF this] one(2) show ?thesis by (auto simp: execution_def split: if_splits)
    qed
    ultimately show ?thesis using s adv(1) move by (simp add: single_execution_def)
  qed
qed

lemma single_execution_runs:
  "(route_step es v)\<^sup>*\<^sup>* s s' \<Longrightarrow> single_execution k s \<Longrightarrow> single_execution k s'"
  by (induction rule: rtranclp_induct) (auto intro: single_execution_step)

section \<open>The handler ends\<close>

fun stages_left :: "op_stage \<Rightarrow> nat" where
  "stages_left ToReserve = 6"
| "stages_left ToSpend = 5"
| "stages_left (ToAttach cl) = 4"
| "stages_left (ToInvoke cl) = 3"
| "stages_left (ToComplete cl d) = 2"
| "stages_left (ToRespend rv) = 2"
| "stages_left (ToReattach rv cl) = 1"
| "stages_left (ToDiscard e) = 1"
| "stages_left (ToReconcile d response) = 1"
| "stages_left (Finished r) = 0"

lemma advance_progress:
  "advance es v c now reply st w = (st', w') \<Longrightarrow> stages_left st' \<le> stages_left st - 1"
  by (cases st) (auto simp: Let_def split: sum.splits prod.splits option.splits if_splits)

lemma run_stages_left:
  "stages_left st \<le> length clock \<Longrightarrow> stages_left (fst (run_stages es v c reply clock st w)) = 0"
proof (induction clock arbitrary: st w)
  case (Cons now clock)
  obtain st' w' where a: "advance es v c now reply st w = (st', w')" by fastforce
  from advance_progress [OF a] Cons.prems have "stages_left st' \<le> length clock" by simp
  with Cons.IH a show ?case by simp
qed simp

lemma run_stages_finishes: "\<exists>r. fst (run_stages es v c reply (map clock [2..<8]) ToReserve w) = Finished r"
  using run_stages_left [of ToReserve "map clock [2..<8]" es v c reply w]
  by (cases "fst (run_stages es v c reply (map clock [2..<8]) ToReserve w)") (simp_all del: upt_rec_numeral)

end
