(* ===== verification/Connector_Properties.thy ===== *)
theory Connector_Properties
  imports Connector_Interleaving Hub_Examples
begin

text \<open>
  The guarantees of the connector tables and the two verifiers, each with an instance: ids and grants
  are used once, a waiting invocation is not handed out again, the ledger stays within its budgets,
  and a recorded outcome is what a retry sees.
\<close>

section \<open>Instances\<close>

definition empty_ledger :: connector_ledger where
  "empty_ledger = \<lparr>cl_requests = [], cl_grants = [], cl_invocations = []\<rparr>"

lemma empty_ledger_ok: "ledger_ok empty_ledger"
  by (simp add: ledger_ok_def empty_ledger_def table_ok_def receipts_bounded_def cached_receipts_def select_def receipt_bytes_def)

definition sample_target :: invocation_target where
  "sample_target = \<lparr>it_connection_ref = ''c'', it_provider_id = ''p'', it_profile_ref = ''f'', it_operation_id = ''op'',
     it_resource_ref = ''r'', it_arguments_sha256 = replicate 64 (CHR ''0''), it_envelope_sha256 = replicate 64 (CHR ''1''),
     it_is_mutating = True\<rparr>"

definition sample_env :: ledger_env where
  "sample_env = \<lparr>le_canon = (\<lambda>v. Some ''{}''), le_float = (\<lambda>x. ''0''), le_loads = (\<lambda>j. JsonValue (PDict []))\<rparr>"

definition sample_reserve :: ledger_call where
  "sample_reserve = CallReserve demo_hub_principal ''q'' sample_target ''sha256:0'' 100"

definition sample_row :: invocation_row where
  "sample_row = new_row sample_target ''sha256:0'' 100"


lemma sample_attempt_ok: "attempt_ok ''q'' sample_target ''sha256:0''" "key_bytes (scope_of demo_hub_principal, ''q'') \<le> 4096"
  by code_simp+

lemma sample_attempt_bytes: "attempt_bytes (scope_of demo_hub_principal, ''q'') sample_target ''sha256:0'' = 151"
  by code_simp

lemma sample_admitted:
  "admit_attempt (scope_of demo_hub_principal, ''q'') sample_target ''sha256:0'' 100 [] =
     Inr [((scope_of demo_hub_principal, ''q''), sample_row)]"
proof -
  have r: "make_room 151 [] 0 [] = Inr []"
    by (subst make_room.simps) (simp add: LEDGER_MAX_ENTRIES_def LEDGER_MAX_BYTES_def)
  show ?thesis
    by (simp add: admit_attempt_def Let_def sample_attempt_bytes r by_creation_def tombstones_def select_def table_bytes_def
        guard_def TOMBSTONE_MAX_ENTRIES_def TOMBSTONE_MAX_BYTES_def sample_row_def)
qed

lemma sample_reserves:
  assumes "cl_invocations s = []"
  shows "reserve_connector_invocation loads demo_hub_principal ''q'' sample_target ''sha256:0'' 100 s =
     (Inr new_reservation, s\<lparr>cl_invocations := [((scope_of demo_hub_principal, ''q''), sample_row)]\<rparr>)"
proof -
  have "find_row (scope_of demo_hub_principal, ''q'') (drop_expired 100 (cl_invocations s)) = None"
    "drop_expired 100 (cl_invocations s) = []"
    by (simp_all add: drop_expired_def select_def assms find_row_def)
  then show ?thesis
    by (simp add: reserve_connector_invocation_def Let_def act_simps guard_def sample_attempt_ok mutation_def sample_admitted)
qed

definition sample_unsigned_request :: navigator_request where
  "sample_unsigned_request =
     \<lparr>nr_method = ''POST'', nr_path = ''/m'', nr_key_id = ''k'', nr_timestamp = ''100'', nr_signature = [], nr_body = [123, 125]\<rparr>"

definition sample_request :: navigator_request where
  "sample_request = sample_unsigned_request\<lparr>nr_signature := hmac_sha256_hex (replicate 32 7) (signed_message sample_unsigned_request)\<rparr>"

definition sample_verification :: navigator_call where
  "sample_verification = \<lparr>nc_request = sample_request, nc_key_file = HostFile True 0 (replicate 32 7), nc_request_id = Some ''q'',
     nc_now = 100000000, nc_later = 100000000\<rparr>"

lemma sample_request_checked:
  "check_navigator_request (Some ''k'') (HostFile True 0 (replicate 32 7)) sample_request 100000000 = Inr 100"
proof -
  have q: "nr_method sample_request = ''POST''" "nr_path sample_request = ''/m''" "nr_key_id sample_request = ''k''"
    "nr_timestamp sample_request = ''100''" "nr_body sample_request = [123, 125]"
    by (simp_all add: sample_request_def sample_unsigned_request_def)
  have m: "signed_message sample_request = signed_message sample_unsigned_request"
    by (simp add: sample_request_def signed_message_def)
  have sig: "nr_signature sample_request = hmac_sha256_hex (replicate 32 7) (signed_message sample_unsigned_request)"
    by (simp add: sample_request_def)
  have "hex64 (nr_signature sample_request)" unfolding sig hmac_sha256_hex_def Let_def by (rule sha256_hex_hex64)
  moreover have "key_id_text ''k''" "list_all dec_digit ''100''" "seconds_of ''100'' = 100" "ascii_text (upper ''POST'')"
    "read_private_hmac_key (HostFile True 0 (replicate 32 7)) = Inr (replicate 32 7)"
    by code_simp+
  moreover have "2 \<le> navigator_hmac_body_limit ''POST'' ''/m''"
    by (simp add: navigator_hmac_body_limit_def MAX_CONNECTOR_GRANT_BODY_BYTES_def MAX_NAVIGATOR_BODY_BYTES_def)
  ultimately show ?thesis
    by (simp add: check_navigator_request_def Let_def q guard_def rbind_def m sig [symmetric])
qed

lemma sample_verified_once:
  "verify_call consume_connector_request_id (Some ''k'') sample_verification empty_ledger =
     (Inr 100, empty_ledger\<lparr>cl_requests := [((''k'', ''q''), 130)]\<rparr>)"
proof -
  have key: "nr_key_id sample_request = ''k''" by (simp add: sample_request_def sample_unsigned_request_def)
  have q: "nc_request sample_verification = sample_request" "nc_key_file sample_verification = HostFile True 0 (replicate 32 7)"
    "nc_request_id sample_verification = Some ''q''" "nc_now sample_verification = 100000000" "nc_later sample_verification = 100000000"
    by (simp_all add: sample_verification_def)
  have "consume_connector_request_id ''k'' ''q'' 130 100 empty_ledger = (True, empty_ledger\<lparr>cl_requests := [((''k'', ''q''), 130)]\<rparr>)"
    by (simp add: consume_connector_request_id_def live_requests_def select_def insert_row_def empty_ledger_def)
  then show ?thesis
    by (simp add: verify_call_def verify_navigator_request_def q sample_request_checked consume_request_id_def key act_simps
        whole_seconds_def)
qed

definition sample_grant :: connector_grant where
  "sample_grant =
     \<lparr>cg_request_id = ''q'', cg_audience = ''a'', cg_organization_id = ''o'', cg_workspace_id = ''w'', cg_principal_issuer = ''i'',
      cg_principal_subject = ''u'', cg_connection_ref = ''c'', cg_provider_id = ''p'', cg_profile_ref = ''f'', cg_operation_id = ''op'',
      cg_resource_ref = ''r'', cg_arguments_digest = replicate 32 0, cg_issued_at = Some 100000000, cg_expires_at = Some 110000000,
      cg_grant_ref = DIGEST_PREFIX @ digest_hex (sha256_digest [1]), cg_signing_key_id = ''k'', cg_signature = replicate 64 0\<rparr>"

definition sample_keyring :: pyval where
  "sample_keyring = PDict [(''keys'', PDict [(''k'', PStr (replicate 43 (CHR ''A'') @ ''=''))])]"

definition sample_library :: grant_library where
  "sample_library = \<lparr>gl_parse = (\<lambda>b. Some sample_grant), gl_unsigned = (\<lambda>b. [1]), gl_signature_ok = (\<lambda>k s m. True),
     gl_loads = (\<lambda>b. JsonValue sample_keyring)\<rparr>"

definition sample_verifier :: grant_verifier where
  "sample_verifier = \<lparr>gv_keyring_file = Some (HostFile True 0 [0]), gv_audience = ''a''\<rparr>"

lemma sample_key: "load_authority_verification_key (\<lambda>b. JsonValue sample_keyring) (HostFile True 0 [0]) ''k'' = Inr (replicate 32 0)"
proof -
  have "b64decode (replicate 43 (CHR ''A'') @ ''='') = Some (replicate 32 0)" "key_id_text ''k''"
    by code_simp+
  then have "decode_authority_keyring (\<lambda>b. JsonValue sample_keyring) (HostFile True 0 [0]) = Inr [(''k'', replicate 32 0)]"
    by (simp add: decode_authority_keyring_def sample_keyring_def MAX_KEYRING_BYTES_def guard_def rbind_def need_dict_def
        need_str_def dget_or_def rmap_def traverse.simps decode_keyring_entry_def)
  then show ?thesis by (simp add: load_authority_verification_key_def rbind_def)
qed

lemma sample_grant_verifies: "parse_and_verify sample_library sample_verifier [7] = Inr (claims_of sample_grant 100000000 110000000)"
proof -
  have "grant_complete sample_grant" by (simp add: grant_complete_def sample_grant_def)
  moreover have "cg_signing_key_id sample_grant = ''k''" "cg_audience sample_grant = ''a''" "cg_issued_at sample_grant = Some 100000000"
    "cg_expires_at sample_grant = Some 110000000" "cg_grant_ref sample_grant = DIGEST_PREFIX @ digest_hex (sha256_digest [1])"
    by (simp_all add: sample_grant_def)
  ultimately show ?thesis
    by (simp add: parse_and_verify_def sample_library_def sample_verifier_def Let_def MAX_GRANT_BYTES_def sample_key guard_def rbind_def)
qed

definition sample_calls :: "grant_call list" where
  "sample_calls = [Mint [7] [] 101000000, Spend [7] [] 102000000, Spend [7] [] 103000000]"

definition sample_expiry :: "string \<Rightarrow> int" where
  "sample_expiry r = 110000000"

definition sample_memory :: "connector_ledger grant_memory" where
  "sample_memory = \<lparr>gm_store = empty_ledger, gm_issued = [], gm_consumed = []\<rparr>"

lemma sample_calls_agree: "\<forall>c\<in>set sample_calls. expiry_agrees sample_library sample_verifier sample_expiry c"
  by (simp add: sample_calls_def expiry_agrees_def sample_grant_verifies claims_of_def sample_expiry_def)

lemma sample_calls_sorted: "sorted (map call_clock sample_calls)"
  by (simp add: sample_calls_def)

lemma sample_memory_sound: "rows_expire sample_expiry sample_memory" "memory_expires sample_expiry sample_memory"
  by (simp_all add: rows_expire_def memory_expires_def sample_memory_def empty_ledger_def rows_ok_def table_ok_def)

text \<open>The second call spends the grant the first one issued.\<close>

lemma sample_grant_spent:
  "map (\<lambda>(c, r). spent_by (cg_grant_ref sample_grant) c r)
     (fst (run_calls (grant_call_step sample_library sample_verifier None) sample_calls sample_memory)) = [False, True, False]"
proof -
  let ?c = "claims_of sample_grant 100000000 110000000" and ?r = "cg_grant_ref sample_grant"
  have c: "gc_expires_at ?c = 110000000" "gc_issued_at ?c = 100000000" "gc_grant_ref ?c = ?r" by (simp_all add: claims_of_def)
  have e: "match_expected ?c [] = Inr ()"
    by (simp add: match_expected_def claim_fields_def guard_def dhas_def dget_or_def rbind_def)
  show ?thesis
    by (simp add: sample_calls_def validate_authority_response_def consume_grant_def sample_grant_verifies act_simps c e guard_def
        whole_seconds_def issue_grant_def spend_grant_def prune_grants_def memory_full_def sample_memory_def Let_def GRANT_MAX_ENTRIES_def)
qed





text \<open>A request that is reserved, spends its grant and calls its provider.\<close>

definition sample_reference :: string where
  "sample_reference = cg_grant_ref sample_grant"

definition sample_services :: endpoint_services where
  "sample_services =
     \<lparr>es_library = sample_library, es_canon = (\<lambda>v. Some ''{}''), es_float = (\<lambda>x. ''0''), es_receipts = (\<lambda>j. JsonValue (PDict [])),
      es_verifier = Some sample_verifier, es_dispatches = True, es_computer_ref = None, es_hub = empty_hub,
      es_prepare_computer = (\<lambda>p b c. ScopeRefused), es_prepare_connection = (\<lambda>p b c. ScopeRefused)\<rparr>"

definition sample_claims :: grant_claims where
  "sample_claims = claims_of sample_grant 100000000 110000000"

definition sample_operation :: connector_operation where
  "sample_operation =
     \<lparr>co_principal = demo_hub_principal, co_request_id = ''q'', co_body_arguments = [],
      co_prepared = \<lparr>po_connection_ref = ''c'', po_provider_id = ''p'', po_profile_ref = ''f'', po_operation_id = ''op'',
        po_resource_ref = ''r'', po_arguments = [], po_organization_id = ''o'', po_workspace_id = ''w'', po_is_mutating = True,
        po_idempotency_key = None\<rparr>,
      co_target = sample_target, co_grant = [7], co_expected = [],
      co_claims = sample_claims\<lparr>gc_grant_ref := ''sha256:0''\<rparr>\<rparr>"

definition sample_minted :: grant_row where
  "sample_minted = \<lparr>gr_encoded_sha256 = sha256_hex [7], gr_expires_at = 110, gr_consumed_at = None\<rparr>"

definition sample_world :: endpoint_world where
  "sample_world = \<lparr>ew_grants = \<lparr>gm_store = empty_ledger\<lparr>cl_grants := [(sample_reference, sample_minted)]\<rparr>,
     gm_issued = [], gm_consumed = []\<rparr>, ew_calls = []\<rparr>"

definition sample_spent :: endpoint_world where
  "sample_spent = \<lparr>ew_grants = \<lparr>gm_store =
     \<lparr>cl_requests = [], cl_grants = [(sample_reference, sample_minted\<lparr>gr_consumed_at := Some 100\<rparr>)],
      cl_invocations = [((scope_of demo_hub_principal, ''q''), sample_row)]\<rparr>, gm_issued = [], gm_consumed = []\<rparr>, ew_calls = []\<rparr>"

lemma sample_reference_text: "starts_with DIGEST_PREFIX sample_reference" "sample_reference \<noteq> []"
  "gc_grant_ref sample_claims = sample_reference"
  by (simp_all add: sample_reference_def sample_grant_def sample_claims_def claims_of_def)

lemma sample_reserve_stage:
  "advance sample_services sample_verifier sample_operation 100000000 reply ToReserve sample_world =
     (ToSpend, sample_world\<lparr>ew_grants := (ew_grants sample_world)\<lparr>gm_store := (gm_store (ew_grants sample_world))
        \<lparr>cl_invocations := [((scope_of demo_hub_principal, ''q''), sample_row)]\<rparr>\<rparr>\<rparr>)"
proof -
  have "cl_invocations (gm_store (ew_grants sample_world)) = []" by (simp add: sample_world_def empty_ledger_def)
  from sample_reserves [OF this] show ?thesis
    by (simp add: reserve_now_def on_ledger_def sample_operation_def whole_seconds_def new_reservation_def)
qed

lemma sample_spend_stage:
  "advance sample_services sample_verifier sample_operation 100000000 reply ToSpend
     (sample_world\<lparr>ew_grants := (ew_grants sample_world)\<lparr>gm_store := (gm_store (ew_grants sample_world))
        \<lparr>cl_invocations := [((scope_of demo_hub_principal, ''q''), sample_row)]\<rparr>\<rparr>\<rparr>) = (ToAttach sample_claims, sample_spent)"
proof -
  have lib: "es_library sample_services = sample_library" by (simp add: sample_services_def)
  have e: "match_expected sample_claims [] = Inr ()"
    by (simp add: match_expected_def claim_fields_def guard_def dhas_def dget_or_def rbind_def)
  have x: "gc_expires_at sample_claims = 110000000" by (simp add: sample_claims_def claims_of_def)
  have h: "length (sha256_hex [7]) = 64" using sha256_hex_hex64 [of "[7]"] by (simp add: hex64_def)
  have "co_grant sample_operation = [7]" "co_expected sample_operation = []" by (simp_all add: sample_operation_def)
  then show ?thesis
    by (simp add: spend_now_def on_grants_def consume_grant_def sample_grant_verifies [folded sample_claims_def] lib act_simps e x guard_def
        spend_grant_def durable_registry_def prune_grants_def Let_def whole_seconds_def consume_connector_grant_def sample_reference_text h
        sample_world_def empty_ledger_def live_grants_def select_def sample_minted_def consumable_def update_row_def sample_spent_def)
qed

lemma sample_attach_stage:
  "\<exists>w. advance sample_services sample_verifier sample_operation 100000000 reply (ToAttach sample_claims) sample_spent =
     (ToInvoke sample_claims, w) \<and> ew_calls w = []"
proof -
  have "find_attempt (scope_of demo_hub_principal, ''q'') (it_envelope_sha256 sample_target)
      [((scope_of demo_hub_principal, ''q''), sample_row)] = Some sample_row"
    unfolding find_attempt_Some by (simp add: find_row_def sample_row_def new_row_def)
  then show ?thesis
    by (simp add: attach_now_def on_ledger_def attach_connector_invocation_grant_def mutation_def Let_def sample_operation_def sample_spent_def)
qed

lemma sample_run:
  "\<exists>w. (route_step sample_services sample_verifier)\<^sup>*\<^sup>* ([], sample_world, 100000000)
     ([(sample_operation, ToComplete sample_claims [(''state'', PStr ''SUCCEEDED'')])], w, 100000000) \<and>
   ew_calls w = [(sample_operation, sample_claims)]"
proof -
  let ?step = "route_step sample_services sample_verifier" and ?t = "100000000 :: int"
  let ?reply = "ProviderResult [(''state'', PStr ''SUCCEEDED'')]"
  have go: "?step ([(sample_operation, st)], w, ?t) ([(sample_operation, st')], w', ?t)"
    if "advance sample_services sample_verifier sample_operation ?t ?reply st w = (st', w')" for st st' w w'
    using move [of 0 "[(sample_operation, st)]" sample_operation st sample_services sample_verifier ?t ?reply w st' w'] that by simp
  obtain w where w: "advance sample_services sample_verifier sample_operation ?t ?reply (ToAttach sample_claims) sample_spent =
      (ToInvoke sample_claims, w)" "ew_calls w = []" using sample_attach_stage by blast
  have invoke: "advance sample_services sample_verifier sample_operation ?t ?reply (ToInvoke sample_claims) w =
      (ToComplete sample_claims [(''state'', PStr ''SUCCEEDED'')], w\<lparr>ew_calls := [(sample_operation, sample_claims)]\<rparr>)"
    using w(2) by (simp add: result_of_def)
  have "?step ([], sample_world, ?t) ([(sample_operation, ToReserve)], sample_world, ?t)"
    using arrive [of sample_services sample_verifier "[]"] by simp
  then have "?step\<^sup>*\<^sup>* ([], sample_world, ?t) ([(sample_operation, ToReserve)], sample_world, ?t)" by (rule r_into_rtranclp)
  also note go [OF sample_reserve_stage]
  also note go [OF sample_spend_stage]
  also note go [OF w(1)]
  also note go [OF invoke]
  finally have run: "?step\<^sup>*\<^sup>* ([], sample_world, ?t) ([(sample_operation, ToComplete sample_claims [(''state'', PStr ''SUCCEEDED'')])],
      w\<lparr>ew_calls := [(sample_operation, sample_claims)]\<rparr>, ?t)" .
  have "ew_calls (w\<lparr>ew_calls := [(sample_operation, sample_claims)]\<rparr>) = [(sample_operation, sample_claims)]" by (cases w) simp
  with run show ?thesis by blast
qed

lemma sample_world_ok:
  "fixed_expiry sample_library sample_verifier sample_expiry" "rows_expire sample_expiry (ew_grants sample_world)"
  "ledger_ok (gm_store (ew_grants sample_world))"
proof -
  have "gl_parse sample_library b = Some sample_grant" "gl_unsigned sample_library b = [1]" for b by (simp_all add: sample_library_def)
  then have "parse_and_verify sample_library sample_verifier b = Inr cl \<Longrightarrow> gc_expires_at cl = 110000000" for b cl
    by (auto simp: parse_and_verify_def Let_def sample_verifier_def result_simps claims_of_def sample_grant_def guard_def split: if_splits)
  then show "fixed_expiry sample_library sample_verifier sample_expiry" by (simp add: fixed_expiry_def sample_expiry_def)
  show "rows_expire sample_expiry (ew_grants sample_world)"
    by (simp add: rows_expire_def rows_ok_def table_ok_def sample_world_def sample_minted_def sample_expiry_def whole_seconds_def)
  show "ledger_ok (gm_store (ew_grants sample_world))"
    by (simp add: sample_world_def ledger_ok_def empty_ledger_def table_ok_def GRANT_MAX_ENTRIES_def receipts_bounded_def
        cached_receipts_def select_def receipt_bytes_def)
qed

section \<open>Guarantees\<close>

text \<open>
  C30. A signed Navigator request is accepted at most once: however many verifications run, for this
  and for other requests, with clock readings that do not go back, at most one of them returns the
  signing time \<open>ts\<close> for the request id \<open>i\<close>; every later presentation is refused as a replay or
  as expired, although the table of request ids forgets an id as soon as its window ends.
\<close>

theorem signed_requests_are_accepted_once:
  assumes "table_ok (cl_requests s)" "sorted (map nc_later calls)"
  shows "count_hits (accepted_as i ts)
    (fst (run_calls (verify_call consume_connector_request_id settings) calls s)) \<le> 1"
  by (rule ids.verifying.at_most_one [OF assms]) simp

theorem signed_requests_are_accepted_once_witness:
  "count_hits (accepted_as ''q'' 100)
     (fst (run_calls (verify_call consume_connector_request_id (Some ''k'')) [sample_verification, sample_verification] empty_ledger)) \<le> 1 \<and>
   fst (verify_call consume_connector_request_id (Some ''k'') sample_verification empty_ledger) = Inr 100"
  using signed_requests_are_accepted_once [of empty_ledger "[sample_verification, sample_verification]" "''q''" 100 "Some ''k''"]
    empty_ledger_ok
  by (simp add: sample_verified_once ledger_ok_def del: run_calls.simps)

text \<open>
  C31. A grant is spent at most once: in any sequence of minted and presented grants, with clock
  readings that do not go back, at most one presentation of the reference \<open>r\<close> is accepted, both with
  the store's registry and with the verifier's own memory. The premise says that a reference fixes
  the expiry of its grant, which it does because it is the digest of the grant.
\<close>

theorem grants_are_spent_once:
  assumes "\<forall>c\<in>set calls. expiry_agrees lib v x c" "sorted (map call_clock calls)"
    and "rows_expire x m" "memory_expires x m'"
  shows "count_hits (spent_by r) (fst (run_calls (grant_call_step lib v (Some durable_registry)) calls m)) \<le> 1 \<and>
    count_hits (spent_by r) (fst (run_calls (grant_call_step lib v None) calls m')) \<le> 1"
  by (intro conjI durable.spending.at_most_one memory.spending.at_most_one) (use assms in simp_all)

theorem grants_are_spent_once_witness:
  "count_hits (spent_by (cg_grant_ref sample_grant))
     (fst (run_calls (grant_call_step sample_library sample_verifier (Some durable_registry)) sample_calls sample_memory)) \<le> 1 \<and>
   count_hits (spent_by (cg_grant_ref sample_grant))
     (fst (run_calls (grant_call_step sample_library sample_verifier None) sample_calls sample_memory)) \<le> 1"
  by (rule grants_are_spent_once [OF sample_calls_agree sample_calls_sorted sample_memory_sound])

text \<open>
  C32. An invocation that waits for its outcome is never handed out again: as long as no call
  completes it with a settled state, discards it or reconciles its scope, at most one reservation of
  its key is new, whatever else happens to the ledger, evictions and expiries included.
\<close>

theorem waiting_invocations_are_not_reissued:
  assumes "ledger_ok s" "\<forall>c\<in>set calls. \<not> resolves k c"
  shows "count_hits (handed_out k) (fst (run_calls (ledger_call_step env) calls s)) \<le> 1"
  by (rule reserving.at_most_one [OF assms(1) _ assms(2)]) (simp add: sorted_iff_nth_mono)

theorem waiting_invocations_are_not_reissued_witness:
  "count_hits (handed_out (scope_of demo_hub_principal, ''q''))
     (fst (run_calls (ledger_call_step sample_env) [sample_reserve, sample_reserve] empty_ledger)) \<le> 1 \<and>
   handed_out (scope_of demo_hub_principal, ''q'') sample_reserve (fst (ledger_call_step sample_env sample_reserve empty_ledger))"
proof -
  have "fst (ledger_call_step sample_env sample_reserve empty_ledger) = Inr (Reserved new_reservation)"
    by (simp add: sample_reserve_def act_simps sample_reserves empty_ledger_def)
  then show ?thesis
    using waiting_invocations_are_not_reissued
        [of empty_ledger "[sample_reserve, sample_reserve]" "(scope_of demo_hub_principal, ''q'')" sample_env]
    by (simp add: empty_ledger_ok sample_reserve_def handed_out_def new_reservation_def)
qed

text \<open>
  C33. The connector tables stay within their budgets: after any calls on an empty store there are at
  most 8192 grants, 8192 invocations and 256 stored receipts, and the receipts take at most 4 MiB.
\<close>

theorem connector_tables_stay_bounded:
  "let s = snd (run_calls (ledger_call_step env) calls empty_ledger) in
   length (cl_grants s) \<le> 8192 \<and> length (cl_invocations s) \<le> 8192 \<and>
   length (cached_receipts (cl_invocations s)) \<le> 256 \<and> receipt_bytes (cl_invocations s) \<le> 4194304"
proof -
  have "ledger_ok (snd (run_calls (ledger_call_step env) calls empty_ledger))"
    by (rule run_calls_invariant [where I = ledger_ok, OF empty_ledger_ok ledger_call_ok])
  then show ?thesis
    by (simp add: Let_def ledger_ok_def receipts_bounded_def GRANT_MAX_ENTRIES_def LEDGER_MAX_ENTRIES_def
        RECEIPT_MAX_ENTRIES_def RECEIPT_MAX_BYTES_def)
qed



text \<open>
  C35. Every provider call of the connector route owns its grant: however executions interleave at the
  points where they touch the store, however often a request or a grant is presented, and however
  many are abandoned half-way, a grant reference stands behind at most one provider call. A reference
  fixes its grant's expiry, as its digest does. The clock that the stages read does not go back, and
  a stage reads it together with its one access to the store.
\<close>

theorem provider_calls_own_their_grants:
  assumes "fixed_expiry (es_library es) v x" "rows_expire x (ew_grants w)" "ew_calls w = []" "0 \<le> t"
    and "(route_step es v)\<^sup>*\<^sup>* ([], w, t) (ts, w', t')"
  shows "calls_with r w' \<le> 1"
  using grant_owned_runs [OF assms(1,5), of r] assms(2-4)
  by (simp add: grant_owned_def armed_total_def calls_with_def)

theorem provider_calls_own_their_grants_witness:
  "\<exists>ts w t. (route_step sample_services sample_verifier)\<^sup>*\<^sup>* ([], sample_world, 100000000) (ts, w, t) \<and>
     ew_calls w = [(sample_operation, sample_claims)] \<and> calls_with sample_reference w \<le> 1"
proof -
  obtain w where w: "(route_step sample_services sample_verifier)\<^sup>*\<^sup>* ([], sample_world, 100000000)
      ([(sample_operation, ToComplete sample_claims [(''state'', PStr ''SUCCEEDED'')])], w, 100000000)"
    "ew_calls w = [(sample_operation, sample_claims)]" using sample_run by blast
  have "es_library sample_services = sample_library" "ew_calls sample_world = []" by (simp_all add: sample_services_def sample_world_def)
  then have "calls_with sample_reference w \<le> 1"
    using provider_calls_own_their_grants [OF _ _ _ _ w(1), of sample_expiry] sample_world_ok by simp
  with w show ?thesis by blast
qed

text \<open>
  C36. A request is executed by one handler at a time: between the reservation of a request and the
  record of its outcome no other handler executes the same request, in any interleaving of any number
  of handlers, and other requests that evict or reconcile rows of the ledger do not change that.
\<close>

theorem one_execution_at_a_time:
  assumes "ledger_ok (gm_store (ew_grants w))" "(route_step es v)\<^sup>*\<^sup>* ([], w, t) (ts, w', t')"
  shows "executions k ts \<le> 1"
  using single_execution_runs [OF assms(2), of k] assms(1) by (simp add: single_execution_def executions_def)

theorem one_execution_at_a_time_witness:
  "\<exists>ts w. (route_step sample_services sample_verifier)\<^sup>*\<^sup>* ([], sample_world, 100000000) (ts, w, 100000000) \<and>
     ts \<noteq> [] \<and> executions (op_key sample_operation) ts \<le> 1"
proof -
  obtain w where w: "(route_step sample_services sample_verifier)\<^sup>*\<^sup>* ([], sample_world, 100000000)
      ([(sample_operation, ToComplete sample_claims [(''state'', PStr ''SUCCEEDED'')])], w, 100000000)" using sample_run by blast
  with one_execution_at_a_time [OF sample_world_ok(3) w] show ?thesis by blast
qed

text \<open>
  The handler of the connector route ends: whatever the request, the clock, the provider and the
  state of the store, it has an answer or a typed refusal after at most six stages.
\<close>

theorem connector_route_answers:
  "\<exists>r. fst (execute_connector_operation es q reply clock w) = Finished r"
proof (cases "admit_operation es q (clock 0) (clock 1)")
  case (Inr c)
  show ?thesis unfolding execute_connector_operation_def Inr sum.case by (rule run_stages_finishes)
qed (simp add: execute_connector_operation_def)

end
