(* ===== verification/Connector_Rules.thy ===== *)
theory Connector_Rules
  imports Connector_Endpoint
begin

text \<open>
  The argument rules of \<open>integrations/connector_operations.py\<close>: what a provider operation's
  arguments must look like before Exchange prepares it. A rule refuses with \<open>PermissionError\<close>,
  which the route answers as a denied authorization, or with \<open>ValueError\<close>, which it answers
  as an invalid request; the messages stay inside. Membership of a list or an object in a set
  of words raises \<open>TypeError\<close>, which the route does not catch. Arguments are parsed JSON.
\<close>

datatype refusal = PermissionRefused | ValueRefused | TypeRefused | KeyRefused | ProblemRefused problem

type_synonym 'a ruled = "refusal + 'a"

abbreviation permit :: "bool \<Rightarrow> unit ruled" where
  "permit b \<equiv> guard b PermissionRefused"

abbreviation demand :: "bool \<Rightarrow> unit ruled" where
  "demand b \<equiv> guard b ValueRefused"

fun all_rules :: "unit ruled list \<Rightarrow> unit ruled" where
  "all_rules [] = Inr ()"
| "all_rules (r # rs) = rbind r (\<lambda>_. all_rules rs)"

lemma all_rules_Inr [result_simps]: "all_rules rs = Inr u \<longleftrightarrow> (\<forall>r \<in> set rs. r = Inr ())"
  by (induction rs) (auto simp: result_simps)

text \<open>\<open>value in {words}\<close>.\<close>

definition one_of :: "pyval \<Rightarrow> string list \<Rightarrow> refusal \<Rightarrow> unit ruled" where
  "one_of v words e =
     (if \<not> hashable v then Inl TypeRefused else guard (\<exists>w \<in> set words. v = PStr w) e)"

definition texts :: "pyval \<Rightarrow> (string \<Rightarrow> bool) \<Rightarrow> bool" where
  "texts v P = (case v of PStr s \<Rightarrow> P s | _ \<Rightarrow> False)"

definition int_between :: "int \<Rightarrow> int \<Rightarrow> pyval \<Rightarrow> bool" where
  "int_between lo hi v = (case v of PInt n \<Rightarrow> lo \<le> n \<and> n \<le> hi | _ \<Rightarrow> False)"

definition when_given :: "pydict \<Rightarrow> string \<Rightarrow> (pyval \<Rightarrow> unit ruled) \<Rightarrow> unit ruled" where
  "when_given d k rule = (case map_of d k of None \<Rightarrow> Inr () | Some v \<Rightarrow> rule v)"

lemma texts_iff: "texts v P \<longleftrightarrow> (\<exists>s. v = PStr s \<and> P s)"
  by (cases v) (auto simp: texts_def)

lemma int_between_iff: "int_between lo hi v \<longleftrightarrow> (\<exists>n. v = PInt n \<and> lo \<le> n \<and> n \<le> hi)"
  by (cases v) (auto simp: int_between_def)

section \<open>Field sets and shared shapes\<close>

definition exact_fields :: "pydict \<Rightarrow> string list \<Rightarrow> unit ruled" where
  "exact_fields d required = demand (set (map fst d) = set required)"

definition exact_optional_fields :: "pydict \<Rightarrow> string list \<Rightarrow> string list \<Rightarrow> unit ruled" where
  "exact_optional_fields d required extra =
     demand (set required \<subseteq> set (map fst d) \<and> set (map fst d) \<subseteq> set required \<union> set extra)"

definition positive_int :: "pyval \<Rightarrow> unit ruled" where
  "positive_int v = demand (case v of PInt n \<Rightarrow> 1 \<le> n | _ \<Rightarrow> False)"

definition capped_text :: "nat \<Rightarrow> pyval \<Rightarrow> unit ruled" where
  "capped_text maximum v = demand (texts v (\<lambda>s. strip s \<noteq> [] \<and> length s \<le> maximum))"

abbreviation default_text :: "pyval \<Rightarrow> unit ruled" where
  "default_text \<equiv> capped_text 24000"

definition bounded_int :: "int \<Rightarrow> int \<Rightarrow> pyval \<Rightarrow> unit ruled" where
  "bounded_int minimum maximum v = demand (int_between minimum maximum v)"

definition dec_text :: "nat \<Rightarrow> string \<Rightarrow> bool" where
  "dec_text longest s = (s \<noteq> [] \<and> length s \<le> longest \<and> list_all dec_digit s)"

definition count_text :: "nat \<Rightarrow> string \<Rightarrow> bool" where
  "count_text longest s = (dec_text longest s \<and> hd s \<noteq> CHR ''0'')"

definition numeric_resource_id :: "pyval \<Rightarrow> unit ruled" where
  "numeric_resource_id v = demand (texts v (count_text 20))"

definition any_hex :: "char \<Rightarrow> bool" where
  "any_hex c = (hex_char c \<or> code c \<in> {65..70})"

definition sha_text :: "string \<Rightarrow> bool" where
  "sha_text s = (length s = 40 \<and> list_all any_hex s)"

definition validate_github_sha :: "pyval \<Rightarrow> unit ruled" where
  "validate_github_sha v = demand (texts v sha_text)"

definition lower_uuid :: "string \<Rightarrow> bool" where
  "lower_uuid s =
     (length s = 36 \<and> list_all (\<lambda>(i, c). if i \<in> {8, 13, 18, 23} then c = CHR ''-'' else hex_char c) (enumerate 0 s))"

section \<open>Vendor command lines\<close>

definition CLI_SECRET_WORDS :: "string list" where
  "CLI_SECRET_WORDS = [''access-token'', ''api-key'', ''auth-token'', ''password'', ''secret'', ''token'']"

definition CLI_EXPORT_PATTERNS :: "string list list" where
  "CLI_EXPORT_PATTERNS =
     [[''account'', ''get-access-token''], [''auth'', ''print-access-token''], [''auth'', ''token''],
      [''auth'', ''print-access-token''], [''auth'', ''login''], [''auth'', ''logout''], [''login''], [''logout''],
      [''configure''], [''config'', ''show''], [''credentials'', ''list'']]"

definition occurs :: "string list \<Rightarrow> string list \<Rightarrow> bool" where
  "occurs pattern items = list_ex (\<lambda>i. take (length pattern) (drop i items) = pattern) [0..<length items]"

definition argv_of :: "pyval \<Rightarrow> string list option" where
  "argv_of v = (case v of
       PList xs \<Rightarrow>
         if xs = [] \<or> 128 < length xs \<or> \<not> list_all (\<lambda>x. texts x (\<lambda>s. length s \<le> 4096)) xs then None
         else Some (map (\<lambda>x. case x of PStr s \<Rightarrow> s | _ \<Rightarrow> []) xs)
     | _ \<Rightarrow> None)"

definition exports_credentials :: "string list \<Rightarrow> bool" where
  "exports_credentials lowered =
     ((\<exists>item \<in> set lowered. \<exists>word \<in> set CLI_SECRET_WORDS. has_substring word item) \<or>
      (\<exists>pattern \<in> set CLI_EXPORT_PATTERNS. occurs pattern lowered))"

definition reject_credential_export :: "pydict \<Rightarrow> unit ruled" where
  "reject_credential_export d =
     (case argv_of (dget d ''argv'') of
        None \<Rightarrow> Inl ValueRefused
      | Some argv \<Rightarrow> permit (\<not> exports_credentials (map (\<lambda>item. lower (strip item)) argv)))"

section \<open>Bounded file contents\<close>

definition b64_char :: "nat \<Rightarrow> char" where
  "b64_char n =
     char_of (if n < 26 then n + 65 else if n < 52 then n + 71 else if n < 62 then n - 4 else if n = 62 then 43 else 47)"

fun b64encode :: "bytes \<Rightarrow> string" where
  "b64encode [] = []"
| "b64encode [a] = [b64_char (unat a div 4), b64_char (unat a mod 4 * 16), CHR ''='', CHR ''='']"
| "b64encode [a, b] =
     [b64_char (unat a div 4), b64_char (unat a mod 4 * 16 + unat b div 16), b64_char (unat b mod 16 * 4), CHR ''='']"
| "b64encode (a # b # c # rest) =
     b64_char (unat a div 4) # b64_char (unat a mod 4 * 16 + unat b div 16) #
     b64_char (unat b mod 16 * 4 + unat c div 64) # b64_char (unat c mod 64) # b64encode rest"

definition canonical_content :: "nat \<Rightarrow> nat \<Rightarrow> pyval \<Rightarrow> bytes ruled" where
  "canonical_content longest maximum v =
     rbind (need_str v ValueRefused) (\<lambda>s.
     rbind (demand (length s \<le> longest)) (\<lambda>_.
     case b64decode s of
       None \<Rightarrow> Inl ValueRefused
     | Some content \<Rightarrow>
         rbind (demand (length content \<le> maximum \<and> b64encode content = s)) (\<lambda>_. Inr content)))"

definition validate_github_content :: "pyval \<Rightarrow> bytes ruled" where
  "validate_github_content = canonical_content 666668 500000"

definition validate_bounded_base64 :: "nat \<Rightarrow> pyval \<Rightarrow> bytes ruled" where
  "validate_bounded_base64 maximum = canonical_content ((maximum + 2) div 3 * 4) maximum"

abbreviation checked :: "'a ruled \<Rightarrow> unit ruled" where
  "checked r \<equiv> rbind r (\<lambda>_. Inr ())"

section \<open>Branches and paths\<close>

definition PROTECTED_BRANCHES :: "string list" where
  "PROTECTED_BRANCHES = [''main'', ''master'', ''develop'', ''release'', ''production'', ''staging'']"

definition PROTECTED_BRANCH_PREFIXES :: "string list" where
  "PROTECTED_BRANCH_PREFIXES =
     [''main/'', ''master/'', ''develop/'', ''release/'', ''production/'', ''prod/'', ''staging/'']"

text \<open>
  \<open>casefold\<close> is \<^const>\<open>lower\<close> on the texts the patterns admit, which are ASCII.
\<close>

definition is_protected_branch :: "string \<Rightarrow> bool" where
  "is_protected_branch s =
     (let l = lower s in l \<in> set PROTECTED_BRANCHES \<or> (\<exists>p \<in> set PROTECTED_BRANCH_PREFIXES. starts_with p l))"

definition ends_in :: "string \<Rightarrow> string \<Rightarrow> bool" where
  "ends_in p s = starts_with (rev p) (rev s)"

definition safe_reference :: "string \<Rightarrow> bool" where
  "safe_reference s =
     (list_all (word_char ''._/-'') s \<and> \<not> starts_with ''/'' s \<and> \<not> ends_in ''/'' s \<and> \<not> ends_in ''.'' s \<and>
      \<not> has_substring ''//'' s \<and> \<not> has_substring [CHR ''@'', CHR 0x7B] s \<and>
      list_all (\<lambda>p. p \<notin> {[], ''.'', ''..''} \<and> \<not> starts_with ''.'' p \<and> \<not> ends_in ''.lock'' p) (split_all (CHR ''/'') s))"

definition validate_github_branch :: "bool \<Rightarrow> pyval \<Rightarrow> string ruled" where
  "validate_github_branch allow_protected v =
     rbind (need_str v ValueRefused) (\<lambda>s.
     rbind (demand (s \<noteq> [] \<and> length s \<le> 255)) (\<lambda>_.
     rbind (demand (safe_reference s)) (\<lambda>_.
     rbind (permit (allow_protected \<or> \<not> is_protected_branch s)) (\<lambda>_. Inr s))))"

definition PROTECTED_PATH_DIRECTORIES :: "string list" where
  "PROTECTED_PATH_DIRECTORIES =
     [''.github'', ''.git'', ''.gitlab'', ''.circleci'', ''.azure'', ''deploy'', ''deployment'', ''infra'',
      ''infrastructure'', ''terraform'', ''helm'', ''k8s'', ''kubernetes'', ''production'', ''prod'', ''permissions'']"

definition PROTECTED_PATH_FILES :: "string list" where
  "PROTECTED_PATH_FILES =
     [''codeowners'', ''azure-pipelines.yml'', ''azure-pipelines.yaml'', ''docker-compose.yml'', ''docker-compose.yaml'',
      ''compose.yml'', ''compose.yaml'', ''.gitmodules'']"

definition sensitive_segment :: "string \<Rightarrow> bool" where
  "sensitive_segment s =
     (\<exists>w \<in> set [''prod'', ''production'', ''permissions'', ''authorization'', ''access-control''].
        starts_with w s \<and> (length s = length w \<or> s ! length w \<in> set ''._-''))"

definition path_text :: "string \<Rightarrow> bool" where
  "path_text s = list_all (\<lambda>p. p \<noteq> [] \<and> list_all (word_char ''_.-'') p) (split_all (CHR ''/'') s)"

definition open_path :: "string \<Rightarrow> bool" where
  "open_path s =
     (let parts = split_all (CHR ''/'') s; lowered = map lower parts in
      list_all (\<lambda>p. p \<notin> {[], ''.'', ''..''} \<and> \<not> starts_with ''.'' p) parts \<and>
      list_all (\<lambda>p. p \<notin> set PROTECTED_PATH_DIRECTORIES) lowered \<and>
      last lowered \<notin> set PROTECTED_PATH_FILES \<and> \<not> starts_with ''dockerfile'' (last lowered) \<and>
      list_all (\<lambda>p. \<not> sensitive_segment p) lowered)"

definition validate_github_path :: "pyval \<Rightarrow> string ruled" where
  "validate_github_path v =
     rbind (need_str v ValueRefused) (\<lambda>s.
     rbind (demand (length s \<le> 512 \<and> path_text s)) (\<lambda>_.
     rbind (permit (open_path s)) (\<lambda>_. Inr s)))"

definition validate_huggingface_path :: "pyval \<Rightarrow> unit ruled" where
  "validate_huggingface_path v =
     demand (texts v (\<lambda>s. s \<noteq> [] \<and> length s \<le> 1024 \<and> \<not> starts_with ''/'' s \<and> char_of (92 :: nat) \<notin> set s \<and>
       list_all (\<lambda>p. p \<notin> {[], ''.'', ''..''}) (split_all (CHR ''/'') s)))"

section \<open>Bilibili\<close>

definition bilibili_shapes :: "(string \<times> string list \<times> string list) list" where
  "bilibili_shapes =
     [(''bilibili.auth.qr.begin'', [''profile_ref'', ''idempotency_key''], []),
      (''bilibili.auth.qr.status'', [''login_flow_id''], []),
      (''bilibili.search'', [''keyword'', ''search_type''], [''page'']),
      (''bilibili.user.find'', [''user_id''], []),
      (''bilibili.video.read'', [''video_id''], []),
      (''bilibili.comments.list'', [''video_id''], [''root_comment_id'', ''page'', ''limit'']),
      (''bilibili.dynamics.list'', [''user_id''], [''cursor'', ''limit'']),
      (''bilibili.dynamic.read'', [''dynamic_id''], []),
      (''bilibili.dm.list'', [''peer_user_id''], [''cursor'', ''limit'']),
      (''bilibili.dm.read'', [''peer_user_id'', ''message_id''], []),
      (''bilibili.comment.create'', [''video_id'', ''root_comment_id'', ''parent_comment_id'', ''content''], []),
      (''bilibili.dynamic.publish'', [''user_id'', ''content''], []),
      (''bilibili.dm.send'', [''peer_user_id'', ''content''], [])]"

definition bilibili_ids :: "string list" where
  "bilibili_ids =
     [''user_id'', ''peer_user_id'', ''message_id'', ''dynamic_id'', ''root_comment_id'', ''parent_comment_id'']"

definition video_text :: "string \<Rightarrow> bool" where
  "video_text s =
     (starts_with ''BV'' s \<and> length s = 12 \<and> list_all (word_char []) (drop 2 s) \<or>
      starts_with ''av'' s \<and> count_text 20 (drop 2 s))"

definition bilibili_text :: "nat \<Rightarrow> pyval \<Rightarrow> unit ruled" where
  "bilibili_text maximum v = permit (texts v (\<lambda>s. s \<noteq> [] \<and> length s \<le> maximum))"

definition bilibili_selector :: "string \<Rightarrow> pydict \<Rightarrow> unit ruled" where
  "bilibili_selector operation_id d =
     (if operation_id = ''bilibili.auth.qr.begin''
      then permit (texts (dget d ''profile_ref'') lower_uuid \<and>
             texts (dget d ''idempotency_key'') (\<lambda>s. 8 \<le> length s \<and> length s \<le> 128 \<and>
               list_all (\<lambda>c. code c \<in> {33..126}) s))
      else if operation_id = ''bilibili.auth.qr.status'' then permit (texts (dget d ''login_flow_id'') hex64)
      else if operation_id = ''bilibili.comment.create''
      then permit ((dget d ''root_comment_id'' = PStr ''0'') = (dget d ''parent_comment_id'' = PStr ''0''))
      else Inr ())"

definition validate_bilibili_arguments :: "string \<Rightarrow> pydict \<Rightarrow> unit ruled" where
  "validate_bilibili_arguments operation_id d =
     (case map_of bilibili_shapes operation_id of
        None \<Rightarrow> Inl PermissionRefused
      | Some (required, extra) \<Rightarrow>
          all_rules
            ([permit (set required \<subseteq> set (map fst d) \<and> set (map fst d) \<subseteq> set required \<union> set extra)] @
             map (\<lambda>k. when_given d k (\<lambda>v. permit (texts v (dec_text 20)))) bilibili_ids @
             [when_given d ''video_id'' (\<lambda>v. permit (texts v video_text)),
              when_given d ''keyword'' (bilibili_text 120),
              when_given d ''content'' (bilibili_text (if operation_id = ''bilibili.dm.send'' then 2000 else 5000)),
              when_given d ''search_type'' (\<lambda>v. one_of v [''video'', ''user'', ''article''] PermissionRefused),
              when_given d ''page'' (\<lambda>v. permit (v = PNone \<or> int_between 1 100 v)),
              when_given d ''limit'' (\<lambda>v. permit (v = PNone \<or> int_between 1 50 v)),
              when_given d ''cursor'' (\<lambda>v. permit (texts v (\<lambda>s. 1 \<le> length s \<and> length s \<le> 1024))),
              bilibili_selector operation_id d]))"

section \<open>GitHub\<close>

text \<open>
  What each operation on one repository requires and allows beside \<open>repository_id\<close> and
  \<open>repository\<close>.
\<close>

definition github_fields :: "(string \<times> string list \<times> string list) list" where
  "github_fields =
     [(''github.repository.get'', [], []),
      (''github.branches.list'', [], []),
      (''github.pull_requests.list'', [], [''state'', ''page_cursor'']),
      (''github.pull_request.get'', [''pull_number''], []),
      (''github.commits.compare'', [''base_sha'', ''head_sha''], []),
      (''github.actions.runs.list'', [], [''branch'', ''commit_sha'']),
      (''github.issues.search'', [''state'', ''limit''], [''query'', ''labels'', ''updated_since'', ''page_cursor'']),
      (''github.actions.jobs.list'', [''run_id'', ''limit''], []),
      (''github.actions.job.logs.read'', [''run_id'', ''job_id'', ''max_lines''], []),
      (''github.branch.create'', [''branch'', ''from_sha''], []),
      (''github.branch.delete'', [''branch'', ''expected_sha''], []),
      (''github.branch.get'', [''branch''], []),
      (''github.file.commit'', [''branch'', ''path'', ''message'', ''content_base64''], [''expected_sha'']),
      (''github.file.get'', [''branch'', ''path''], []),
      (''github.pull_request.draft.create'', [''head_branch'', ''base_branch'', ''title'', ''body''], []),
      (''github.pull_request.draft.find'', [''head_branch'', ''base_branch''], []),
      (''github.actions.rerun_failed'',
       [''run_id'', ''expected_workflow_id'', ''expected_head_branch'', ''expected_head_sha'', ''expected_attempt''], []),
      (''github.ci.status'', [''commit_sha''], []),
      (''github.issue.get'', [''issue_number''], []),
      (''github.issue.comment.create'', [''issue_number'', ''body''], []),
      (''github.issue.state.update'', [''issue_number'', ''state''], [])]"

definition repository_name_part :: "string \<Rightarrow> bool" where
  "repository_name_part s = (1 \<le> length s \<and> length s \<le> 100 \<and> list_all (word_char ''_.-'') s)"

definition repository_text :: "string \<Rightarrow> bool" where
  "repository_text s =
     (case split_all (CHR ''/'') s of [a, b] \<Rightarrow> repository_name_part a \<and> repository_name_part b | _ \<Rightarrow> False)"

definition repository_rules :: "connection \<Rightarrow> pydict \<Rightarrow> unit ruled list" where
  "repository_rules connection d =
     [demand (texts (dget d ''repository_id'') (\<lambda>s. s \<noteq> [] \<and> list_all dec_digit s) \<and>
             texts (dget d ''repository'') repository_text),
      permit (dget d ''repository_id'' = PStr (cn_repository_id connection) \<and>
              dget d ''repository'' = PStr (cn_repository_name connection))]"

definition page_text :: "nat \<Rightarrow> pyval \<Rightarrow> unit ruled" where
  "page_text maximum v = demand (texts v (\<lambda>s. count_text 4 s \<and> digits_value s \<le> maximum))"

text \<open>\<open>[A-Za-z0-9][A-Za-z0-9 _.-]{0,n}\<close>.\<close>

definition search_text :: "nat \<Rightarrow> string \<Rightarrow> bool" where
  "search_text n s =
     (case s of [] \<Rightarrow> False | c # r \<Rightarrow> word_char [] c \<and> length r \<le> n \<and> list_all (word_char '' _.-'') r)"

definition query_rule :: "pyval \<Rightarrow> unit ruled" where
  "query_rule v = all_rules [capped_text 128 v, demand (texts v (search_text 127))]"

definition labels_rule :: "pyval \<Rightarrow> unit ruled" where
  "labels_rule v =
     demand (case v of
         PList xs \<Rightarrow> length xs \<le> 10 \<and> list_all (\<lambda>x. texts x (search_text 49)) xs \<and> distinct xs
       | _ \<Rightarrow> False)"

text \<open>
  A UTC timestamp of the pattern, and \<open>datetime.fromisoformat\<close> of it: the ranges of the
  calendar and of the clock.
\<close>

definition leap_year :: "nat \<Rightarrow> bool" where
  "leap_year y = (4 dvd y \<and> (\<not> 100 dvd y \<or> 400 dvd y))"

definition month_days :: "nat \<Rightarrow> nat \<Rightarrow> nat" where
  "month_days y m = (if m = 2 then (if leap_year y then 29 else 28) else if m \<in> {4, 6, 9, 11} then 30 else 31)"

definition digits_at :: "string \<Rightarrow> nat \<Rightarrow> nat \<Rightarrow> nat" where
  "digits_at s i n = digits_value (take n (drop i s))"

definition utc_shape :: "string \<Rightarrow> bool" where
  "utc_shape s =
     (19 \<le> length s \<and>
      list_all (\<lambda>(i, c). if i \<in> {4, 7} then c = CHR ''-'' else if i = 10 then c = CHR ''T''
                  else if i \<in> {13, 16} then c = CHR '':'' else dec_digit c) (enumerate 0 (take 19 s)) \<and>
      (let r = drop 19 s;
           zone = (if starts_with ''.'' r then dropWhile dec_digit (tl r) else r);
           fraction = (if starts_with ''.'' r then length (takeWhile dec_digit (tl r)) else 1)
       in 1 \<le> fraction \<and> fraction \<le> 6 \<and> (zone = ''Z'' \<or> zone = ''+00:00'')))"

definition calendar_ok :: "string \<Rightarrow> bool" where
  "calendar_ok s =
     (let y = digits_at s 0 4; m = digits_at s 5 2; day = digits_at s 8 2 in
      1 \<le> y \<and> 1 \<le> m \<and> m \<le> 12 \<and> 1 \<le> day \<and> day \<le> month_days y m \<and>
      digits_at s 11 2 \<le> 23 \<and> digits_at s 14 2 \<le> 59 \<and> digits_at s 17 2 \<le> 59)"

definition updated_since_rule :: "pyval \<Rightarrow> unit ruled" where
  "updated_since_rule v = demand (texts v (\<lambda>s. utc_shape s \<and> calendar_ok s))"

definition search_page_rule :: "pydict \<Rightarrow> pyval \<Rightarrow> unit ruled" where
  "search_page_rule d v =
     (case dget d ''limit'' of
        PInt limit \<Rightarrow> demand (texts v (\<lambda>s. count_text 4 s \<and> int (digits_value s) \<le> (1000 + limit - 1) div limit))
      | _ \<Rightarrow> Inr ())"

definition branch_pair_rules :: "pydict \<Rightarrow> unit ruled list" where
  "branch_pair_rules d =
     [checked (validate_github_branch False (dget d ''head_branch'')),
      checked (validate_github_branch True (dget d ''base_branch'')),
      demand (dget d ''head_branch'' \<noteq> dget d ''base_branch'')]"

definition task_branch :: "pyval \<Rightarrow> unit ruled" where
  "task_branch v =
     rbind (validate_github_branch False v) (\<lambda>s. permit (starts_with ''cyrene/assistant/'' (lower s)))"

definition github_rules :: "string \<Rightarrow> pydict \<Rightarrow> unit ruled list" where
  "github_rules operation_id d =
     (let a = dget d in
      if operation_id = ''github.pull_request.get'' then [positive_int (a ''pull_number'')]
      else if operation_id = ''github.commits.compare'' then [validate_github_sha (a ''base_sha''), validate_github_sha (a ''head_sha'')]
      else if operation_id = ''github.ci.status'' then [default_text (a ''commit_sha'')]
      else if operation_id = ''github.issue.get'' then [positive_int (a ''issue_number'')]
      else if operation_id = ''github.issue.comment.create'' then [positive_int (a ''issue_number''), default_text (a ''body'')]
      else if operation_id = ''github.issue.state.update''
      then [positive_int (a ''issue_number''), one_of (a ''state'') [''OPEN'', ''CLOSED''] ValueRefused]
      else if operation_id = ''github.pull_requests.list''
      then [when_given d ''state'' (\<lambda>v. one_of v [''OPEN'', ''CLOSED'', ''ALL''] ValueRefused), when_given d ''page_cursor'' (page_text 1000)]
      else if operation_id = ''github.actions.runs.list'' then [when_given d ''branch'' default_text, when_given d ''commit_sha'' default_text]
      else if operation_id = ''github.issues.search''
      then [one_of (a ''state'') [''OPEN'', ''CLOSED'', ''ALL''] ValueRefused, bounded_int 1 50 (a ''limit''),
            when_given d ''query'' query_rule, when_given d ''labels'' labels_rule, when_given d ''updated_since'' updated_since_rule,
            when_given d ''page_cursor'' (search_page_rule d)]
      else if operation_id = ''github.actions.jobs.list'' then [numeric_resource_id (a ''run_id''), bounded_int 1 100 (a ''limit'')]
      else if operation_id = ''github.actions.job.logs.read''
      then [numeric_resource_id (a ''run_id''), numeric_resource_id (a ''job_id''), bounded_int 1 200 (a ''max_lines'')]
      else if operation_id = ''github.branch.create''
      then [checked (validate_github_branch False (a ''branch'')), validate_github_sha (a ''from_sha'')]
      else if operation_id = ''github.branch.delete''
      then [checked (validate_github_branch False (a ''branch'')), validate_github_sha (a ''expected_sha'')]
      else if operation_id = ''github.branch.get'' then [checked (validate_github_branch True (a ''branch''))]
      else if operation_id = ''github.file.commit''
      then [checked (validate_github_branch False (a ''branch'')), checked (validate_github_path (a ''path'')),
            capped_text 200 (a ''message''), when_given d ''expected_sha'' validate_github_sha,
            checked (validate_github_content (a ''content_base64''))]
      else if operation_id = ''github.file.get''
      then [checked (validate_github_branch True (a ''branch'')), checked (validate_github_path (a ''path''))]
      else if operation_id = ''github.pull_request.draft.create''
      then branch_pair_rules d @ [capped_text 256 (a ''title''), demand (texts (a ''body'') (\<lambda>s. length s \<le> 65536))]
      else if operation_id = ''github.pull_request.draft.find'' then branch_pair_rules d
      else if operation_id = ''github.actions.rerun_failed''
      then [numeric_resource_id (a ''run_id''), numeric_resource_id (a ''expected_workflow_id''),
            task_branch (a ''expected_head_branch''), validate_github_sha (a ''expected_head_sha''),
            bounded_int 1 2147483647 (a ''expected_attempt'')]
      else [])"

definition validate_github_target :: "connection \<Rightarrow> string \<Rightarrow> pydict \<Rightarrow> unit ruled" where
  "validate_github_target connection operation_id d =
     (if operation_id = ''github.vendor.cli.execute''
      then all_rules [exact_fields d [''argv''], reject_credential_export d]
      else if operation_id = ''github.repository.list'' then exact_fields d []
      else
        case map_of github_fields operation_id of
          None \<Rightarrow> Inl PermissionRefused
        | Some (required, extra) \<Rightarrow>
            all_rules
              ([exact_optional_fields d ([''repository_id'', ''repository''] @ required) extra] @
               repository_rules connection d @ github_rules operation_id d))"

section \<open>The computer workspace\<close>

record computer_profile =
  cp_profile_ref :: string
  cp_connection_ref :: string
  cp_organization_id :: string
  cp_workspace_id :: string
  cp_expected_issuer :: string
  cp_max_command_timeout_ms :: int
  cp_max_file_bytes :: nat
  cp_max_read_bytes :: int
  cp_max_directory_depth :: int

definition authorize_principal :: "computer_profile \<Rightarrow> hub_principal \<Rightarrow> unit ruled" where
  "authorize_principal profile p =
     permit (hp_issuer p = cp_expected_issuer profile \<and> hp_organization_id p = cp_organization_id profile \<and>
             hp_workspace_id p = cp_workspace_id profile)"

definition workspace_path :: "bool \<Rightarrow> string \<Rightarrow> bool" where
  "workspace_path allow_root s =
     (s \<noteq> [] \<and> CHR 0x00 \<notin> set s \<and> \<not> starts_with ''/'' s \<and> length s \<le> 1024 \<and> length (utf8 s) \<le> 4096 \<and>
      (s = ''.'' \<longrightarrow> allow_root) \<and>
      (s = ''.'' \<or> list_all (\<lambda>p. p \<notin> {[], ''.'', ''..''}) (split_all (CHR ''/'') s)))"

definition validate_computer_path :: "bool \<Rightarrow> pyval \<Rightarrow> unit ruled" where
  "validate_computer_path allow_root v = demand (texts v (workspace_path allow_root))"

definition shell_text :: "string \<Rightarrow> bool" where
  "shell_text s = (strip s \<noteq> [] \<and> CHR 0x00 \<notin> set s \<and> length s \<le> 8192 \<and> length (utf8 s) \<le> 32768)"

definition validate_computer_target :: "computer_profile \<Rightarrow> string \<Rightarrow> pydict \<Rightarrow> unit ruled" where
  "validate_computer_target profile operation_id d =
     (if operation_id = ''computer.command.execute''
      then all_rules
             [exact_optional_fields d [''command''] [''cwd'', ''timeout_ms''], demand (texts (dget d ''command'') shell_text),
              when_given d ''cwd'' (validate_computer_path True),
              when_given d ''timeout_ms'' (bounded_int 1 (cp_max_command_timeout_ms profile))]
      else if operation_id = ''computer.file.read''
      then all_rules
             [exact_optional_fields d [''path'', ''length''] [''offset''], validate_computer_path False (dget d ''path''),
              bounded_int 0 (min (cp_max_read_bytes profile) 65536) (dget d ''length''),
              when_given d ''offset'' (bounded_int 0 (2 ^ 63 - 1))]
      else if operation_id = ''computer.file.write''
      then all_rules
             [exact_fields d [''path'', ''content_base64'', ''overwrite''], validate_computer_path False (dget d ''path''),
              demand (case dget d ''overwrite'' of PBool b \<Rightarrow> True | _ \<Rightarrow> False),
              checked (validate_bounded_base64 (cp_max_file_bytes profile) (dget d ''content_base64''))]
      else if operation_id = ''computer.directory.list''
      then all_rules
             [exact_optional_fields d [''path''] [''max_depth''], validate_computer_path True (dget d ''path''),
              when_given d ''max_depth'' (bounded_int 1 (cp_max_directory_depth profile))]
      else Inl PermissionRefused)"

section \<open>Hugging Face and the clouds\<close>

text \<open>
  The host profile that a connection's \<open>binding_ref\<close> names: its provider, the target alias each
  name stands for, and the account scopes.
\<close>

record host_profile =
  hf_provider :: string
  hf_targets :: "(string \<times> string) list"
  hf_account_scopes :: pydict

definition hf_search_fields :: "pydict \<Rightarrow> unit ruled" where
  "hf_search_fields d =
     all_rules
       [exact_optional_fields d [] [''search'', ''limit''], when_given d ''search'' (capped_text 200),
        when_given d ''limit'' (bounded_int 1 100)]"

definition hf_content :: "pyval \<Rightarrow> unit ruled" where
  "hf_content v =
     demand (texts v (\<lambda>s. length s \<le> 1398104 \<and> (case b64decode s of None \<Rightarrow> False | Some bs \<Rightarrow> length bs \<le> 1048576)))"

definition hf_file_rules :: "pydict \<Rightarrow> unit ruled list" where
  "hf_file_rules d = [validate_huggingface_path (dget d ''path''), when_given d ''revision'' (capped_text 300)]"

definition hf_rules :: "string \<Rightarrow> pydict \<Rightarrow> unit ruled" where
  "hf_rules operation_id d =
     (if operation_id = ''huggingface.repo.get'' then exact_optional_fields d [''repo_type'', ''repo_id''] []
      else if operation_id = ''huggingface.file.download''
      then all_rules (exact_optional_fields d [''repo_type'', ''repo_id'', ''path''] [''revision''] # hf_file_rules d)
      else if operation_id = ''huggingface.file.upload''
      then all_rules
             (exact_optional_fields d [''repo_type'', ''repo_id'', ''path'', ''content_base64''] [''revision''] #
              hf_file_rules d @ [hf_content (dget d ''content_base64'')])
      else Inl PermissionRefused)"

definition hf_matching :: "string \<Rightarrow> pydict \<Rightarrow> pydict \<Rightarrow> pydict list" where
  "hf_matching target_ref scopes d =
     (case (dget d ''repo_type'', dget d ''repo_id'', dget scopes ''repositories'') of
        (PStr t, PStr i, PList items) \<Rightarrow>
          filter (\<lambda>item. dget item ''repo_type'' = PStr t \<and> dget item ''repo_id'' = PStr i \<and> i = target_ref)
            (concat (map (\<lambda>v. case v of PDict item \<Rightarrow> [item] | _ \<Rightarrow> []) items))
      | _ \<Rightarrow> [])"

definition hf_permitted :: "string \<Rightarrow> pydict list \<Rightarrow> unit ruled" where
  "hf_permitted permission matching =
     (case matching of
        [item] \<Rightarrow> (case dget item ''permissions'' of PList ps \<Rightarrow> permit (PStr permission \<in> set ps) | _ \<Rightarrow> Inl PermissionRefused)
      | _ \<Rightarrow> Inl PermissionRefused)"

definition hf_lists :: "(string \<times> string) list" where
  "hf_lists =
     [(''huggingface.models.list'', ''model''), (''huggingface.datasets.list'', ''dataset''),
      (''huggingface.spaces.list'', ''space'')]"

definition or_empty :: "string option \<Rightarrow> string" where
  "or_empty r = (case r of None \<Rightarrow> [] | Some s \<Rightarrow> s)"

definition validate_huggingface_target ::
  "(string \<Rightarrow> host_profile option) option \<Rightarrow> connection \<Rightarrow> string \<Rightarrow> pydict \<Rightarrow> unit ruled" where
  "validate_huggingface_target registry connection operation_id d =
     (case registry of
        None \<Rightarrow> Inl PermissionRefused
      | Some profiles \<Rightarrow>
          (case profiles (or_empty (cn_binding_ref connection)) of
             None \<Rightarrow> Inl PermissionRefused
           | Some profile \<Rightarrow>
               (case map_of (hf_targets profile) (or_empty (cn_target_ref connection)) of
                  None \<Rightarrow> Inl PermissionRefused
                | Some target_ref \<Rightarrow>
                    if hf_provider profile \<noteq> ''hf'' then Inl PermissionRefused
                    else if operation_id = ''huggingface.vendor.cli.execute''
                    then all_rules [exact_fields d [''argv''], reject_credential_export d, Inl PermissionRefused]
                    else if operation_id \<in> set (map fst hf_lists) then hf_search_fields d
                    else rbind (hf_rules operation_id d) (\<lambda>_.
                         hf_permitted (if operation_id = ''huggingface.file.upload'' then ''write'' else ''read'')
                           (hf_matching target_ref (hf_account_scopes profile) d)))))"

definition cloud_operation_refs :: "string list" where
  "cloud_operation_refs = [''cloud.operation.status.read'', ''cloud.operation.logs.read'', ''cloud.operation.cancel'']"

text \<open>\<open>bound\<close>: the registry finds the connection's host profile for this actor and operation.\<close>

definition validate_cloud_target :: "bool \<Rightarrow> string \<Rightarrow> pydict \<Rightarrow> unit ruled" where
  "validate_cloud_target bound operation_id d =
     (if \<not> bound then Inl PermissionRefused
      else if operation_id = ''cloud.provider.health.read'' then permit (dget d ''target'' = PNone)
      else if operation_id \<in> set cloud_operation_refs then default_text (dget d ''operation_ref'')
      else if operation_id = ''cloud.vendor.cli.execute''
      then permit (\<not> dhas d ''target'' \<and> (case dget d ''argv'' of PList xs \<Rightarrow> xs \<noteq> [] | _ \<Rightarrow> False))
      else permit (case dget d ''target'' of PDict t \<Rightarrow> t \<noteq> [] | _ \<Rightarrow> False))"

end
