(* ===== verification/Connector_Prepare.thy ===== *)
theory Connector_Prepare
  imports Connector_Rules
begin

text \<open>
  Preparation of a provider operation, \<open>integrations/connector_operations.py\<close>: the fixed tool map,
  the resource a grant is about and its reference, the lease target, and the two
  \<open>prepare_..._operation\<close> methods. The tables of Graph and Azure DevOps operations are those of
  \<open>microsoft_graph.py\<close> and \<open>azure_devops.py\<close>; the scope checks of those two providers are
  parameters.
\<close>

section \<open>Operations\<close>

definition PLANNER_READ :: "string list" where
  "PLANNER_READ =
     [''microsoft_graph.planner.plan.get'', ''microsoft_graph.planner.plans.list'',
      ''microsoft_graph.planner.tasks.list'', ''microsoft_graph.planner.task.get'']"

definition PLANNER_WRITE :: "string list" where
  "PLANNER_WRITE = [''microsoft_graph.planner.task.create'', ''microsoft_graph.planner.task.update'']"

definition SHAREPOINT_READ :: "string list" where
  "SHAREPOINT_READ =
     [''microsoft_graph.sharepoint.site.get'', ''microsoft_graph.sharepoint.list.get'',
      ''microsoft_graph.sharepoint.list.items.delta'']"

definition TODO_READ :: "string list" where
  "TODO_READ =
     [''microsoft_graph.todo.lists.list'', ''microsoft_graph.todo.tasks.list'', ''microsoft_graph.todo.task.get'']"

definition TODO_WRITE :: "string list" where
  "TODO_WRITE =
     [''microsoft_graph.todo.task.create'', ''microsoft_graph.todo.task.update'', ''microsoft_graph.todo.task.delete'']"

definition CALENDAR_READ :: "string list" where
  "CALENDAR_READ =
     [''microsoft_graph.calendar.calendars.list'', ''microsoft_graph.calendar.events.list'',
      ''microsoft_graph.calendar.event.get'', ''microsoft_graph.calendar.freebusy.get'']"

definition CALENDAR_WRITE :: "string list" where
  "CALENDAR_WRITE =
     [''microsoft_graph.calendar.event.create'', ''microsoft_graph.calendar.event.update'',
      ''microsoft_graph.calendar.event.delete'']"

definition MAIL_READ :: "string list" where
  "MAIL_READ =
     [''microsoft_graph.mail.folders.list'', ''microsoft_graph.mail.messages.list'',
      ''microsoft_graph.mail.message.get'', ''microsoft_graph.mail.drafts.list'']"

definition MAIL_WRITE :: "string list" where
  "MAIL_WRITE =
     [''microsoft_graph.mail.draft.create'', ''microsoft_graph.mail.draft.update'',
      ''microsoft_graph.mail.draft.delete'', ''microsoft_graph.mail.message.send'']"

definition SHAREPOINT_V2_READ :: "string list" where
  "SHAREPOINT_V2_READ =
     [''microsoft_graph.sharepoint.drives.list'', ''microsoft_graph.sharepoint.drive.items.list'']"

definition GRAPH_OPERATIONS :: "string list" where
  "GRAPH_OPERATIONS =
     PLANNER_READ @ PLANNER_WRITE @ SHAREPOINT_READ @ TODO_READ @ TODO_WRITE @ CALENDAR_READ @ CALENDAR_WRITE @
     MAIL_READ @ MAIL_WRITE @ SHAREPOINT_V2_READ"

definition GRAPH_MUTATING_OPERATIONS :: "string list" where
  "GRAPH_MUTATING_OPERATIONS = PLANNER_WRITE @ TODO_WRITE @ CALENDAR_WRITE @ MAIL_WRITE"

definition ADO_OBSERVATION_OPERATIONS :: "string list" where
  "ADO_OBSERVATION_OPERATIONS =
     [''azure_devops.observations.poll'', ''azure_devops.pipelines.list'', ''azure_devops.pipeline_runs.list'',
      ''azure_devops.pipeline_run.get'', ''azure_devops.deployments.list'', ''azure_devops.release_environment.get'']"

definition same_names :: "string list \<Rightarrow> (string \<times> string) list" where
  "same_names ops = map (\<lambda>x. (x, x)) ops"

definition cloud_tools :: "(string \<times> string) list" where
  "cloud_tools =
     [(''cloud.provider.health.read'', ''cloud_provider_health''), (''cloud.resources.list'', ''cloud_resources_list''),
      (''cloud.resource.get'', ''cloud_resource_get''), (''cloud.resource.create'', ''cloud_resource_create''),
      (''cloud.resource.deploy'', ''cloud_resource_deploy''), (''cloud.resource.start'', ''cloud_resource_start''),
      (''cloud.resource.stop'', ''cloud_resource_stop''), (''cloud.resource.update'', ''cloud_resource_update''),
      (''cloud.resource.delete'', ''cloud_resource_delete''), (''cloud.operation.status.read'', ''cloud_operation_status''),
      (''cloud.operation.logs.read'', ''cloud_operation_logs''), (''cloud.operation.cancel'', ''cloud_operation_cancel''),
      (''cloud.vendor.cli.execute'', ''cloud_vendor_cli'')]"

definition computer_operations :: "string list" where
  "computer_operations =
     [''computer.command.execute'', ''computer.file.read'', ''computer.file.write'', ''computer.directory.list'']"

definition TOOL_IDS_BY_PROVIDER :: "(string \<times> (string \<times> string) list) list" where
  "TOOL_IDS_BY_PROVIDER =
     [(''github'',
       (''github.vendor.cli.execute'', ''github_vendor_cli'') # (''github.repository.list'', ''github.repository.list'') #
         same_names (map fst github_fields)),
      (''huggingface'',
       same_names (map fst hf_lists @ [''huggingface.repo.get'', ''huggingface.file.download'', ''huggingface.file.upload''])),
      (''microsoft_graph'', same_names GRAPH_OPERATIONS),
      (''azure_devops'', same_names ADO_OBSERVATION_OPERATIONS),
      (''bilibili'', same_names (map fst bilibili_shapes)),
      (''azure'', cloud_tools), (''gcp'', cloud_tools),
      (''runpod'', (''cloud.resource.restart'', ''cloud_resource_restart'') # cloud_tools),
      (''computer'', same_names computer_operations)]"

definition tool_of :: "string \<Rightarrow> string \<Rightarrow> string option" where
  "tool_of provider operation_id =
     (case map_of TOOL_IDS_BY_PROVIDER provider of None \<Rightarrow> None | Some tools \<Rightarrow> map_of tools operation_id)"

definition MUTATING_OPERATIONS :: "string list" where
  "MUTATING_OPERATIONS =
     [''github.issue.comment.create'', ''github.issue.state.update'', ''github.branch.create'', ''github.branch.delete'',
      ''github.file.commit'', ''github.pull_request.draft.create'', ''github.actions.rerun_failed'',
      ''computer.command.execute'', ''computer.file.write'', ''github.vendor.cli.execute'', ''huggingface.file.upload'',
      ''bilibili.auth.qr.begin'', ''bilibili.comment.create'', ''bilibili.dynamic.publish'', ''bilibili.dm.send'',
      ''cloud.resource.create'', ''cloud.resource.deploy'', ''cloud.resource.start'', ''cloud.resource.stop'',
      ''cloud.resource.restart'', ''cloud.resource.update'', ''cloud.resource.delete'', ''cloud.operation.cancel'',
      ''cloud.vendor.cli.execute''] @ GRAPH_MUTATING_OPERATIONS"

definition VENDOR_CLIS :: "string list" where
  "VENDOR_CLIS = [''cloud.vendor.cli.execute'', ''github.vendor.cli.execute'', ''huggingface.vendor.cli.execute'']"

definition canonical_provider :: "string \<Rightarrow> string" where
  "canonical_provider provider = (if provider = ''hf'' then ''huggingface'' else provider)"

section \<open>The resource of an operation\<close>

text \<open>\<open>_fields\<close>, its names given in order.\<close>

definition fields_of :: "pydict \<Rightarrow> string list \<Rightarrow> pydict ruled" where
  "fields_of d names =
     (let selected = map (\<lambda>k. (k, dget d k)) (filter (dhas d) names) in
      rbind (demand (selected \<noteq> [] \<and> list_all (\<lambda>(k, v). v \<noteq> PNone) selected)) (\<lambda>_. Inr selected))"

definition merged :: "pydict \<Rightarrow> pydict \<Rightarrow> pydict" where
  "merged d e = foldl (\<lambda>acc (k, v). dset k v acc) d e"

definition bilibili_selectors :: "(string \<times> string list) list" where
  "bilibili_selectors =
     [(''bilibili.auth.qr.begin'', [''profile_ref'']), (''bilibili.auth.qr.status'', [''login_flow_id'']),
      (''bilibili.search'', [''search_type'']), (''bilibili.user.find'', [''user_id'']),
      (''bilibili.video.read'', [''video_id'']), (''bilibili.comments.list'', [''video_id'']),
      (''bilibili.dynamics.list'', [''user_id'']), (''bilibili.dynamic.read'', [''dynamic_id'']),
      (''bilibili.dm.list'', [''peer_user_id'']), (''bilibili.dm.read'', [''message_id'', ''peer_user_id'']),
      (''bilibili.comment.create'', [''parent_comment_id'', ''root_comment_id'', ''video_id'']),
      (''bilibili.dynamic.publish'', [''user_id'']), (''bilibili.dm.send'', [''peer_user_id''])]"

definition bilibili_projection :: "string \<Rightarrow> pydict \<Rightarrow> pydict ruled" where
  "bilibili_projection operation_id d =
     (case map_of bilibili_selectors operation_id of
        None \<Rightarrow> Inl PermissionRefused
      | Some names \<Rightarrow>
          rbind (fields_of d names) (\<lambda>t.
          Inr (if operation_id = ''bilibili.comments.list'' \<and> dhas d ''root_comment_id''
               then merged t [(''root_comment_id'', dget d ''root_comment_id'')] else t)))"

definition computer_projection :: "string option \<Rightarrow> string \<Rightarrow> pydict \<Rightarrow> pydict ruled" where
  "computer_projection workspace_ref operation_id d =
     (case workspace_ref of
        None \<Rightarrow> Inl ValueRefused
      | Some w \<Rightarrow>
          if w = [] then Inl ValueRefused
          else if operation_id = ''computer.command.execute'' then Inr [(''workspace_ref'', PStr w)]
          else if operation_id \<in> set computer_operations
          then rbind (capped_text 4096 (dget d ''path'')) (\<lambda>_. Inr [(''workspace_ref'', PStr w), (''path'', dget d ''path'')])
          else Inl PermissionRefused)"

definition github_selectors :: "string \<Rightarrow> string list" where
  "github_selectors operation_id =
     (if operation_id = ''github.pull_request.get'' then [''pull_number'']
      else if operation_id = ''github.ci.status'' then [''commit_sha'']
      else if starts_with ''github.issue.'' operation_id then [''issue_number'']
      else if operation_id \<in> {''github.actions.jobs.list'', ''github.actions.rerun_failed''} then [''run_id'']
      else if operation_id = ''github.actions.job.logs.read'' then [''job_id'', ''run_id'']
      else if operation_id \<in> {''github.branch.create'', ''github.branch.delete'', ''github.branch.get''} then [''branch'']
      else if operation_id \<in> {''github.file.commit'', ''github.file.get''} then [''branch'', ''path'']
      else if operation_id \<in> {''github.pull_request.draft.create'', ''github.pull_request.draft.find''}
      then [''base_branch'', ''head_branch'']
      else [])"

text \<open>The compared commits are texts by then; a missing one is a \<open>KeyError\<close>.\<close>

definition lowered_field :: "pydict \<Rightarrow> string \<Rightarrow> (string \<times> pyval) ruled" where
  "lowered_field d k = (case dget d k of PStr s \<Rightarrow> Inr (k, PStr (lower s)) | _ \<Rightarrow> Inl KeyRefused)"

definition github_projection :: "string \<Rightarrow> string \<Rightarrow> pydict \<Rightarrow> pydict ruled" where
  "github_projection profile_ref operation_id d =
     (if operation_id = ''github.repository.list'' then Inr [(''profile_ref'', PStr profile_ref)]
      else
        rbind (fields_of d [''repository'', ''repository_id'']) (\<lambda>t.
        if operation_id = ''github.commits.compare''
        then rbind (lowered_field d ''base_sha'') (\<lambda>b.
             rbind (lowered_field d ''head_sha'') (\<lambda>h. Inr (merged t [b, h])))
        else if github_selectors operation_id = [] then Inr t
        else rbind (fields_of d (github_selectors operation_id)) (\<lambda>e. Inr (merged t e))))"

definition huggingface_projection :: "string \<Rightarrow> string \<Rightarrow> pydict \<Rightarrow> pydict ruled" where
  "huggingface_projection profile_ref operation_id d =
     (if operation_id \<in> set (map fst hf_lists) then Inr [(''profile_ref'', PStr profile_ref)]
      else
        fields_of d
          ((if operation_id \<in> {''huggingface.file.download'', ''huggingface.file.upload''} then [''path''] else []) @
           [''repo_id'', ''repo_type''] @ (if dhas d ''revision'' then [''revision''] else [])))"

definition resource_projection :: "string \<Rightarrow> string \<Rightarrow> string \<Rightarrow> pydict \<Rightarrow> string option \<Rightarrow> pydict ruled" where
  "resource_projection provider_id profile_ref operation_id d workspace_ref =
     (if provider_id = ''msteams''
      then (case dget d ''conversation'' of PDict c \<Rightarrow> Inr [(''conversation'', PDict c)] | _ \<Rightarrow> Inl ValueRefused)
      else if operation_id = ''cloud.vendor.cli.execute''
      then rbind (demand (case dget d ''argv'' of PList xs \<Rightarrow> xs \<noteq> [] \<and> list_all is_str xs | _ \<Rightarrow> False))
             (\<lambda>_. Inr [(''profile_ref'', PStr profile_ref)])
      else if operation_id \<in> set VENDOR_CLIS then Inr [(''profile_ref'', PStr profile_ref)]
      else if provider_id = ''computer'' then computer_projection workspace_ref operation_id d
      else if provider_id = ''bilibili'' then bilibili_projection operation_id d
      else if dhas d ''target''
      then (case dget d ''target'' of PDict t \<Rightarrow> rbind (demand (t \<noteq> [])) (\<lambda>_. Inr t) | _ \<Rightarrow> Inl ValueRefused)
      else if provider_id = ''github'' then github_projection profile_ref operation_id d
      else if provider_id = ''huggingface'' then huggingface_projection profile_ref operation_id d
      else if operation_id \<in> set cloud_operation_refs then fields_of d [''operation_ref'']
      else Inr [(''profile_ref'', PStr profile_ref)])"

definition resource_ref_of :: "canonicalizer \<Rightarrow> string \<Rightarrow> string \<Rightarrow> string \<Rightarrow> pydict \<Rightarrow> string ruled" where
  "resource_ref_of canon provider_id profile_ref operation_id target =
     map_sum (\<lambda>e. ProblemRefused (ledger_problem e)) (\<lambda>h. ''sha256:'' @ h)
       (digest_arguments canon
          [(''providerId'', PStr provider_id), (''profileRef'', PStr profile_ref), (''operationId'', PStr operation_id),
           (''target'', PDict target)])"

section \<open>The lease target\<close>

definition graph_lease_fields :: "(string \<times> string list) list" where
  "graph_lease_fields =
     [(''microsoft_graph.planner.plan.get'', [''tenant_id'', ''plan_id'']),
      (''microsoft_graph.planner.plans.list'', [''tenant_id'']),
      (''microsoft_graph.planner.tasks.list'', [''tenant_id'', ''plan_id'']),
      (''microsoft_graph.planner.task.get'', [''tenant_id'', ''plan_id'', ''task_id'']),
      (''microsoft_graph.planner.task.create'', [''tenant_id'', ''plan_id'', ''bucket_id'']),
      (''microsoft_graph.planner.task.update'', [''tenant_id'', ''plan_id'', ''task_id'']),
      (''microsoft_graph.sharepoint.site.get'', [''tenant_id'', ''site_id'']),
      (''microsoft_graph.sharepoint.list.get'', [''tenant_id'', ''site_id'', ''list_id'']),
      (''microsoft_graph.sharepoint.list.items.delta'', [''tenant_id'', ''site_id'', ''list_id'']),
      (''microsoft_graph.todo.lists.list'', [''tenant_id'']),
      (''microsoft_graph.todo.tasks.list'', [''tenant_id'', ''task_list_id'']),
      (''microsoft_graph.todo.task.get'', [''tenant_id'', ''task_list_id'', ''task_id'']),
      (''microsoft_graph.todo.task.create'', [''tenant_id'', ''task_list_id'']),
      (''microsoft_graph.todo.task.update'', [''tenant_id'', ''task_list_id'', ''task_id'']),
      (''microsoft_graph.todo.task.delete'', [''tenant_id'', ''task_list_id'', ''task_id'']),
      (''microsoft_graph.calendar.calendars.list'', [''tenant_id'']),
      (''microsoft_graph.calendar.events.list'', [''tenant_id'', ''calendar_id'']),
      (''microsoft_graph.calendar.event.get'', [''tenant_id'', ''calendar_id'', ''event_id'']),
      (''microsoft_graph.calendar.event.create'', [''tenant_id'', ''calendar_id'', ''transaction_id'']),
      (''microsoft_graph.calendar.event.update'', [''tenant_id'', ''calendar_id'', ''event_id'']),
      (''microsoft_graph.calendar.event.delete'', [''tenant_id'', ''calendar_id'', ''event_id'']),
      (''microsoft_graph.calendar.freebusy.get'', [''tenant_id'', ''schedule_ids'']),
      (''microsoft_graph.sharepoint.drives.list'', [''tenant_id'', ''site_id'']),
      (''microsoft_graph.sharepoint.drive.items.list'', [''tenant_id'', ''site_id'', ''drive_id'']),
      (''microsoft_graph.mail.folders.list'', [''tenant_id'']),
      (''microsoft_graph.mail.messages.list'', [''tenant_id'', ''folder_id'']),
      (''microsoft_graph.mail.message.get'', [''tenant_id'', ''folder_id'', ''message_id'']),
      (''microsoft_graph.mail.drafts.list'', [''tenant_id'', ''folder_id'']),
      (''microsoft_graph.mail.draft.create'', [''tenant_id'', ''folder_id'']),
      (''microsoft_graph.mail.draft.update'', [''tenant_id'', ''folder_id'', ''message_id'']),
      (''microsoft_graph.mail.draft.delete'', [''tenant_id'', ''folder_id'', ''message_id'']),
      (''microsoft_graph.mail.message.send'', [''tenant_id'', ''folder_id'', ''message_id''])]"

definition add_given :: "pydict \<Rightarrow> string list \<Rightarrow> pydict \<Rightarrow> pydict" where
  "add_given d names target = foldl (\<lambda>t k. if dget d k = PNone then t else dset k (dget d k) t) target names"

definition account_lease_target :: "string \<Rightarrow> string \<Rightarrow> pydict \<Rightarrow> pydict \<Rightarrow> pydict ruled" where
  "account_lease_target provider_id operation_id projection d =
     (if provider_id = ''microsoft_graph''
      then (case map_of graph_lease_fields operation_id of
              None \<Rightarrow> Inl ValueRefused
            | Some names \<Rightarrow>
                rbind (demand (list_all (dhas projection) names)) (\<lambda>_. Inr (map (\<lambda>k. (k, dget projection k)) names)))
      else if provider_id = ''bilibili'' \<and> operation_id \<in> {''bilibili.auth.qr.begin'', ''bilibili.auth.qr.status''}
      then Inl PermissionRefused
      else if provider_id = ''github'' \<and> operation_id = ''github.repository.list'' then Inr []
      else if provider_id = ''huggingface'' \<and> operation_id \<in> set (map fst hf_lists)
      then Inr [(''repo_type'', PStr (or_empty (map_of hf_lists operation_id)))]
      else if operation_id \<in> {''github.vendor.cli.execute'', ''huggingface.vendor.cli.execute''} then Inr []
      else if provider_id = ''github'' \<and> operation_id = ''github.actions.runs.list''
      then Inr (add_given d [''branch'', ''commit_sha''] projection)
      else Inr projection)"

section \<open>Preparing on a connection\<close>

text \<open>
  A prepared operation as the dispatcher keeps it: the record of the route with the connection,
  the tool and the two targets. The dispatcher has the store, the registry of host profiles, the
  computer profile and RFC 8785. \<open>ds_bound\<close> is \<open>registry.profile_for_connection\<close>,
  \<open>ds_graph_target\<close> and \<open>ds_azure_targets\<close> the profile scope checks of the two providers and
  the selectors they give, with the lease target of the second.
\<close>

record prepared_call = prepared_operation +
  po_connection :: "connection option"
  po_tool_id :: string
  po_request_id :: string
  po_target_projection :: pydict
  po_account_lease_target :: "pydict option"

record dispatcher_setup =
  ds_store :: hub_store
  ds_registry :: "(string \<Rightarrow> host_profile option) option"
  ds_computer_profile :: "computer_profile option"
  ds_canon :: canonicalizer
  ds_bound :: "hub_principal \<Rightarrow> connection \<Rightarrow> string \<Rightarrow> bool"
  ds_graph_target :: "hub_principal \<Rightarrow> connection \<Rightarrow> string \<Rightarrow> string \<Rightarrow> pydict \<Rightarrow> pydict ruled"
  ds_azure_targets :: "hub_principal \<Rightarrow> connection \<Rightarrow> string \<Rightarrow> string \<Rightarrow> pydict \<Rightarrow> (pydict \<times> pydict) ruled"

definition LINKED_PROVIDERS :: "string list" where
  "LINKED_PROVIDERS = [''github'', ''hf'', ''microsoft_graph'', ''azure_devops'', ''bilibili'']"

definition ACTOR_OWNED_PROVIDERS :: "string list" where
  "ACTOR_OWNED_PROVIDERS = [''microsoft_graph'', ''azure_devops'', ''bilibili'']"

definition require_operation :: "hub_principal \<Rightarrow> string \<Rightarrow> int \<Rightarrow> unit ruled" where
  "require_operation p operation_id now =
     map_sum (\<lambda>e. ProblemRefused (product_exn_of e, None)) id (require_grant p operation_id now)"

definition owner_rules :: "hub_principal \<Rightarrow> connection \<Rightarrow> unit ruled list" where
  "owner_rules p c =
     (let owner = cn_actor_subject c = hp_subject p in
      [permit (cn_actor_issuer c = hp_issuer p \<and> cn_organization_id c = hp_organization_id p \<and>
               cn_workspace_id c = hp_workspace_id p \<and> (owner \<or> cn_access_mode c = ''workspace_operator'')),
       permit (cn_provider c \<in> set ACTOR_OWNED_PROVIDERS \<longrightarrow> owner \<and> cn_access_mode c = ''actor_owned'')])"

definition expected_profile :: "connection \<Rightarrow> string option" where
  "expected_profile c =
     (if cn_provider c \<in> set LINKED_PROVIDERS then cn_account_link_ref c else cn_binding_ref c)"

definition binding_rules :: "connection \<Rightarrow> string \<Rightarrow> string \<Rightarrow> string \<Rightarrow> pydict \<Rightarrow> unit ruled list" where
  "binding_rules c provider_id profile_ref operation_id d =
     [permit (provider_id = canonical_provider (cn_provider c)),
      permit (profile_ref \<noteq> [] \<and> expected_profile c = Some profile_ref),
      permit (tool_of (canonical_provider (cn_provider c)) operation_id \<noteq> None),
      permit (cn_provider c = ''runpod'' \<or> operation_id \<noteq> ''cloud.resource.restart''),
      permit (cn_provider c \<in> set LINKED_PROVIDERS \<or> dget d ''profile_ref'' = PStr profile_ref),
      permit (\<not> (cn_provider c = ''bilibili'' \<and> operation_id = ''bilibili.auth.qr.begin'') \<or>
              dget d ''profile_ref'' = PStr profile_ref)]"

definition argument_rules :: "dispatcher_setup \<Rightarrow> hub_principal \<Rightarrow> connection \<Rightarrow> string \<Rightarrow> pydict \<Rightarrow> string option \<Rightarrow> unit ruled" where
  "argument_rules ds p c operation_id d key =
     (if cn_provider c = ''github'' then validate_github_target c operation_id d
      else if cn_provider c = ''hf'' then validate_huggingface_target (ds_registry ds) c operation_id d
      else if cn_provider c \<in> {''microsoft_graph'', ''azure_devops''} then Inr ()
      else if cn_provider c = ''bilibili''
      then all_rules
             [validate_bilibili_arguments operation_id d,
              permit (operation_id \<notin> set bilibili_writes \<or> (case key of None \<Rightarrow> False | Some k \<Rightarrow> work_operation_ref k))]
      else validate_cloud_target (ds_registry ds \<noteq> None \<and> ds_bound ds p c operation_id) operation_id d)"

definition cli_rules :: "string \<Rightarrow> pydict \<Rightarrow> unit ruled" where
  "cli_rules operation_id d =
     (if operation_id \<in> set VENDOR_CLIS then all_rules [permit (\<not> dhas d ''target''), reject_credential_export d] else Inr ())"

text \<open>The projection, and the lease target where Account Center leases the credential.\<close>

definition targets_of :: "dispatcher_setup \<Rightarrow> hub_principal \<Rightarrow> connection \<Rightarrow> string \<Rightarrow> string \<Rightarrow> pydict \<Rightarrow> (pydict \<times> pydict option) ruled" where
  "targets_of ds p c profile_ref operation_id d =
     (if cn_provider c = ''azure_devops''
      then rbind (ds_azure_targets ds p c profile_ref operation_id d) (\<lambda>(t, l). Inr (t, Some l))
      else
        rbind (if cn_provider c = ''microsoft_graph'' then ds_graph_target ds p c profile_ref operation_id d
               else resource_projection (canonical_provider (cn_provider c)) profile_ref operation_id d None) (\<lambda>t.
        if cn_provider c \<in> set LINKED_PROVIDERS \<and> \<not> starts_with ''bilibili.auth.qr.'' operation_id
        then rbind (account_lease_target (canonical_provider (cn_provider c)) operation_id t d) (\<lambda>l. Inr (t, Some l))
        else Inr (t, None)))"

definition current_rule :: "dispatcher_setup \<Rightarrow> connection \<Rightarrow> unit ruled" where
  "current_rule ds c =
     permit (current_connection_for_provider_call (cn_id c) (ds_store ds) = Some c \<and> cn_enabled c)"

definition prepare_connection_operation ::
  "dispatcher_setup \<Rightarrow> hub_principal \<Rightarrow> connection \<Rightarrow> operation_body \<Rightarrow> int \<Rightarrow> prepared_call ruled" where
  "prepare_connection_operation ds p c body now =
     (let operation_id = bd_operation_id body; profile_ref = bd_profile_ref body; d = bd_arguments body in
      rbind (require_operation p operation_id now) (\<lambda>_.
      rbind (all_rules (current_rule ds c # owner_rules p c @
               binding_rules c (bd_provider_id body) profile_ref operation_id d)) (\<lambda>_.
      rbind (argument_rules ds p c operation_id d (bd_key body)) (\<lambda>_.
      rbind (cli_rules operation_id d) (\<lambda>_.
      rbind (targets_of ds p c profile_ref operation_id d) (\<lambda>(target, lease).
      rbind (resource_ref_of (ds_canon ds) (canonical_provider (cn_provider c)) profile_ref operation_id target) (\<lambda>expected.
      rbind (permit (bd_resource_ref body = expected)) (\<lambda>_.
      Inr \<lparr>po_connection_ref = cn_id c, po_provider_id = canonical_provider (cn_provider c), po_profile_ref = profile_ref,
           po_operation_id = operation_id, po_resource_ref = bd_resource_ref body, po_arguments = d,
           po_organization_id = cn_organization_id c, po_workspace_id = cn_workspace_id c,
           po_is_mutating = operation_id \<in> set MUTATING_OPERATIONS, po_idempotency_key = bd_key body,
           po_connection = Some c, po_tool_id = or_empty (tool_of (canonical_provider (cn_provider c)) operation_id),
           po_request_id = bd_request_id body, po_target_projection = target, po_account_lease_target = lease\<rparr>))))))))"

definition prepare_computer_operation ::
  "dispatcher_setup \<Rightarrow> hub_principal \<Rightarrow> computer_profile \<Rightarrow> string \<Rightarrow> operation_body \<Rightarrow> int \<Rightarrow> prepared_call ruled" where
  "prepare_computer_operation ds p profile connection_ref body now =
     (let operation_id = bd_operation_id body; profile_ref = bd_profile_ref body; d = bd_arguments body in
      rbind (permit (bd_provider_id body = ''computer'' \<and> ds_computer_profile ds = Some profile \<and>
                     connection_ref = cp_connection_ref profile \<and> profile_ref = cp_profile_ref profile)) (\<lambda>_.
      rbind (case parse_uuid (cp_connection_ref profile) of
               None \<Rightarrow> Inl ValueRefused
             | Some i \<Rightarrow> permit (current_connection_for_provider_call i (ds_store ds) = None)) (\<lambda>_.
      rbind (authorize_principal profile p) (\<lambda>_.
      rbind (require_operation p operation_id now) (\<lambda>_.
      rbind (permit (tool_of ''computer'' operation_id \<noteq> None)) (\<lambda>_.
      rbind (validate_computer_target profile operation_id d) (\<lambda>_.
      rbind (resource_projection ''computer'' profile_ref operation_id d (Some (cp_connection_ref profile))) (\<lambda>target.
      rbind (resource_ref_of (ds_canon ds) ''computer'' profile_ref operation_id target) (\<lambda>expected.
      rbind (permit (bd_resource_ref body = expected)) (\<lambda>_.
      Inr \<lparr>po_connection_ref = cp_connection_ref profile, po_provider_id = ''computer'', po_profile_ref = profile_ref,
           po_operation_id = operation_id, po_resource_ref = bd_resource_ref body, po_arguments = d,
           po_organization_id = cp_organization_id profile, po_workspace_id = cp_workspace_id profile,
           po_is_mutating = operation_id \<in> set MUTATING_OPERATIONS, po_idempotency_key = None,
           po_connection = None, po_tool_id = or_empty (tool_of ''computer'' operation_id),
           po_request_id = bd_request_id body, po_target_projection = target, po_account_lease_target = None\<rparr>))))))))))"

text \<open>What the route sees of a preparation.\<close>

fun outcome_of_refusal :: "refusal \<Rightarrow> prepare_outcome" where
  "outcome_of_refusal PermissionRefused = ScopeRefused"
| "outcome_of_refusal ValueRefused = ArgumentsRefused"
| "outcome_of_refusal TypeRefused = PrepareRaised (ProductOther ''TypeError'' [], None)"
| "outcome_of_refusal KeyRefused = PrepareRaised (ProductOther ''KeyError'' [], None)"
| "outcome_of_refusal (ProblemRefused e) = PrepareRaised e"

definition prepare_outcome_of :: "prepared_call ruled \<Rightarrow> prepare_outcome" where
  "prepare_outcome_of r =
     (case r of Inl e \<Rightarrow> outcome_of_refusal e | Inr po \<Rightarrow> PreparedAs (prepared_operation.truncate po))"

text \<open>The route with the dispatcher behind it, at the time \<open>t\<close> the dispatcher reads.\<close>

definition wired :: "dispatcher_setup \<Rightarrow> int \<Rightarrow> endpoint_services \<Rightarrow> endpoint_services" where
  "wired ds t es =
     es\<lparr>es_prepare_connection := (\<lambda>p body c. prepare_outcome_of (prepare_connection_operation ds p c body t)),
        es_prepare_computer := (\<lambda>p body connection_ref.
          case ds_computer_profile ds of
            None \<Rightarrow> ScopeRefused
          | Some profile \<Rightarrow> prepare_outcome_of (prepare_computer_operation ds p profile connection_ref body t))\<rparr>"

end
