(* ===== verification/Connector_Invoke.thy ===== *)
theory Connector_Invoke
  imports Connector_Prepare
begin

text \<open>
  The provider call of a prepared operation, \<open>ConnectorOperationDispatcher.invoke\<close>: the grant is
  compared with the operation, Account Center leases the credential, the fixed tool is called once,
  and the reply is projected. Account Center, the computer runner, the GitHub connector and the
  authorization cloud are services outside the repository or behind HTTP: their replies are
  arguments, and the calls made are the state, in order.
\<close>

section \<open>Replies\<close>

definition normal_key :: "string \<Rightarrow> string" where
  "normal_key k = filter (\<lambda>c. c \<notin> set ''_-'') (lower k)"

definition CREDENTIAL_KEYS :: "string list" where
  "CREDENTIAL_KEYS =
     [''accesstoken'', ''apikey'', ''authorization'', ''bearertoken'', ''clientsecret'', ''credential'', ''credentialvalue'',
      ''idtoken'', ''password'', ''privatekey'', ''refreshtoken'', ''secret'', ''token'']"

fun credential_free :: "pyval \<Rightarrow> bool" where
  "credential_free (PDict d) = list_all (\<lambda>(k, v). normal_key k \<notin> set CREDENTIAL_KEYS \<and> credential_free v) d"
| "credential_free (PList vs) = list_all credential_free vs"
| "credential_free v = True"

definition response_invalid :: "string \<Rightarrow> refusal" where
  "response_invalid detail =
     ProblemRefused (product_error ''EXCHANGE_CONNECTOR_PROVIDER_RESPONSE_INVALID'' ''Provider response invalid'' detail 502, None)"

definition MAX_PROVIDER_RESPONSE :: nat where
  "MAX_PROVIDER_RESPONSE = 1100000"

definition safe_provider_result :: "canonicalizer \<Rightarrow> pyval \<Rightarrow> pydict ruled" where
  "safe_provider_result canon v =
     rbind (need_dict v (response_invalid ''The provider must return one structured JSON object.'')) (\<lambda>d.
     rbind (guard (credential_free v) (response_invalid ''The provider attempted to return credential material.'')) (\<lambda>_.
     case connector_canonical_json canon v of
       Inl e \<Rightarrow> Inl (response_invalid ''The provider result is outside the RFC 8785 JSON domain.'')
     | Inr encoded \<Rightarrow>
         if MAX_PROVIDER_RESPONSE < byte_count encoded
         then Inl (ProblemRefused (product_error ''EXCHANGE_CONNECTOR_PROVIDER_RESPONSE_TOO_LARGE''
                ''Provider response is too large'' ''The provider result exceeds Exchange's bounded response size.'' 502, None))
         else Inr d))"

definition OUTPUT_KEYS :: "string list" where
  "OUTPUT_KEYS = [''stdout'', ''stderr'', ''rawoutput'', ''commandoutput'']"

fun drop_output :: "pyval \<Rightarrow> pyval" where
  "drop_output (PDict d) = PDict (map (\<lambda>(k, v). (k, drop_output v)) (filter (\<lambda>(k, v). normal_key k \<notin> set OUTPUT_KEYS) d))"
| "drop_output (PList vs) = PList (map drop_output vs)"
| "drop_output v = v"

definition without_cli_output :: "pydict \<Rightarrow> pydict" where
  "without_cli_output d = (case drop_output (PDict d) of PDict e \<Rightarrow> e | _ \<Rightarrow> [])"

definition projected_reply :: "canonicalizer \<Rightarrow> string \<Rightarrow> pyval \<Rightarrow> pydict ruled" where
  "projected_reply canon operation_id v =
     rbind (safe_provider_result canon v) (\<lambda>d.
     Inr (if operation_id \<in> set VENDOR_CLIS
          then dset ''stderr_suppressed'' (PBool True) (dset ''stdout_suppressed'' (PBool True) (without_cli_output d)) else d))"

section \<open>The lease\<close>

definition graph_lease_exclusions :: "(string \<times> string list) list" where
  "graph_lease_exclusions =
     [(''microsoft_graph.planner.plans.list'', []),
      (''microsoft_graph.planner.plan.get'', [''plan_id'']),
      (''microsoft_graph.planner.tasks.list'', [''plan_id'']),
      (''microsoft_graph.planner.task.get'', [''plan_id'', ''task_id'']),
      (''microsoft_graph.planner.task.create'', [''plan_id'', ''bucket_id'']),
      (''microsoft_graph.planner.task.update'', [''plan_id'', ''task_id'']),
      (''microsoft_graph.sharepoint.site.get'', [''site_id'']),
      (''microsoft_graph.sharepoint.list.get'', [''site_id'', ''list_id'']),
      (''microsoft_graph.sharepoint.list.items.delta'', [''site_id'', ''list_id'']),
      (''microsoft_graph.todo.lists.list'', []),
      (''microsoft_graph.todo.tasks.list'', [''task_list_id'']),
      (''microsoft_graph.todo.task.get'', [''task_list_id'', ''task_id'']),
      (''microsoft_graph.todo.task.create'', [''task_list_id'']),
      (''microsoft_graph.todo.task.update'', [''task_list_id'', ''task_id'']),
      (''microsoft_graph.todo.task.delete'', [''task_list_id'', ''task_id'']),
      (''microsoft_graph.calendar.calendars.list'', []),
      (''microsoft_graph.calendar.events.list'', [''calendar_id'']),
      (''microsoft_graph.calendar.event.get'', [''calendar_id'', ''event_id'']),
      (''microsoft_graph.calendar.event.create'', [''calendar_id'', ''transaction_id'']),
      (''microsoft_graph.calendar.event.update'', [''calendar_id'', ''event_id'']),
      (''microsoft_graph.calendar.event.delete'', [''calendar_id'', ''event_id'']),
      (''microsoft_graph.calendar.freebusy.get'', [''schedules'']),
      (''microsoft_graph.sharepoint.drives.list'', [''site_id'']),
      (''microsoft_graph.sharepoint.drive.items.list'', [''site_id'', ''drive_id'']),
      (''microsoft_graph.mail.folders.list'', []),
      (''microsoft_graph.mail.messages.list'', [''folder_id'']),
      (''microsoft_graph.mail.message.get'', [''folder_id'', ''message_id'']),
      (''microsoft_graph.mail.drafts.list'', []),
      (''microsoft_graph.mail.draft.create'', []),
      (''microsoft_graph.mail.draft.update'', [''message_id'']),
      (''microsoft_graph.mail.draft.delete'', [''message_id'']),
      (''microsoft_graph.mail.message.send'', [''message_id''])]"

definition graph_lease_arguments :: "string \<Rightarrow> pydict \<Rightarrow> pydict ruled" where
  "graph_lease_arguments operation_id d =
     (case map_of graph_lease_exclusions operation_id of
        None \<Rightarrow> Inl ValueRefused
      | Some excluded \<Rightarrow> Inr (filter (\<lambda>(k, v). k \<notin> set excluded) d))"

definition account_center_grant_proof :: "grant_claims \<Rightarrow> string \<Rightarrow> pydict ruled" where
  "account_center_grant_proof c arguments_sha256 =
     rbind (permit (length arguments_sha256 = 64 \<and> digest_hex (gc_arguments_digest c) = arguments_sha256 \<and>
                    gc_issued_at c < gc_expires_at c \<and> gc_expires_at c - gc_issued_at c \<le> 15 * 1000000)) (\<lambda>_.
     Inr [(''grant_ref'', PStr (gc_grant_ref c)), (''issued_at'', PInt (whole_seconds (gc_issued_at c))),
          (''expires_at'', PInt (whole_seconds (gc_expires_at c))), (''issuer'', PStr (gc_principal_issuer c)),
          (''subject'', PStr (gc_principal_subject c)), (''organization_id'', PStr (gc_organization_id c)),
          (''workspace_id'', PStr (gc_workspace_id c)), (''connection_ref'', PStr (gc_connection_ref c)),
          (''provider_id'', PStr (gc_provider_id c)), (''profile_ref'', PStr (gc_profile_ref c)),
          (''operation_id'', PStr (gc_operation_id c)), (''resource_ref'', PStr (gc_resource_ref c)),
          (''arguments_sha256'', PStr arguments_sha256)])"

record lease =
  ls_provider :: string
  ls_profile_ref :: string
  ls_operation_id :: string
  ls_target :: pydict
  ls_arguments_sha256 :: string
  ls_profile_scope_sha256 :: "string option"
  ls_lease_ref :: string

datatype outbound_call =
    LeaseCall hub_principal string string pydict string "pydict option"
  | ComputerCall string pydict
  | GithubCall hub_principal string string string pydict
  | CloudCall hub_principal connection string string pydict string

fun is_tool_call :: "outbound_call \<Rightarrow> bool" where
  "is_tool_call (LeaseCall p profile_ref operation_id target digest proof) = False"
| "is_tool_call c = True"

record provider_services =
  ps_canon :: canonicalizer
  ps_has_computer :: bool
  ps_has_cloud :: bool
  ps_lease :: "outbound_call \<Rightarrow> lease ruled"
  ps_tool :: "outbound_call \<Rightarrow> pyval ruled"

type_synonym 'a calling = "(outbound_call list, refusal, 'a) act"

definition place :: "(outbound_call \<Rightarrow> 'a ruled) \<Rightarrow> outbound_call \<Rightarrow> 'a calling" where
  "place reply c = (\<lambda>calls. (reply c, calls @ [c]))"

definition lease_mismatch :: "string \<Rightarrow> refusal" where
  "lease_mismatch detail =
     ProblemRefused (product_error ''EXCHANGE_ACCOUNT_CENTER_RESPONSE_INVALID'' ''Account Center response invalid'' detail 502, None)"

definition not_configured :: "string \<Rightarrow> refusal" where
  "not_configured why =
     ProblemRefused (retryable_problem ''EXCHANGE_CONNECTOR_NOT_CONFIGURED'' ''Connector provider is not configured''
       ''Exchange cannot dispatch this provider operation.'' (Some why))"

definition claims_match :: "canonicalizer \<Rightarrow> prepared_call \<Rightarrow> hub_principal \<Rightarrow> grant_claims \<Rightarrow> unit ruled" where
  "claims_match canon po p c =
     rbind (permit (gc_grant_ref c \<noteq> [] \<and> gc_request_id c = po_request_id po \<and>
        gc_organization_id c = hp_organization_id p \<and> gc_workspace_id c = hp_workspace_id p \<and>
        gc_principal_issuer c = hp_issuer p \<and> gc_principal_subject c = hp_subject p \<and>
        gc_connection_ref c = po_connection_ref po \<and> gc_provider_id c = po_provider_id po \<and>
        gc_profile_ref c = po_profile_ref po \<and> gc_operation_id c = po_operation_id po \<and>
        gc_resource_ref c = po_resource_ref po)) (\<lambda>_.
     rbind (map_sum (\<lambda>e. ProblemRefused (ledger_problem e)) id (digest_arguments canon (po_arguments po))) (\<lambda>h.
     permit (gc_arguments_digest c = hex_bytes h)))"

definition reachable_provider :: "provider_services \<Rightarrow> prepared_call \<Rightarrow> unit ruled" where
  "reachable_provider ps po =
     demand (if po_provider_id po = ''computer''
             then po_connection po = None \<and> ps_has_computer ps \<and> po_account_lease_target po = None
             else po_connection po \<noteq> None \<and> po_provider_id po \<noteq> ''msteams'')"

definition cloud_tool :: "provider_services \<Rightarrow> prepared_call \<Rightarrow> hub_principal \<Rightarrow> connection \<Rightarrow> string \<Rightarrow> pydict \<Rightarrow> pyval calling" where
  "cloud_tool ps po p c why d =
     andthen (result (guard (ps_has_cloud ps) (not_configured why)))
       (place (ps_tool ps) (CloudCall p c (po_operation_id po) (po_tool_id po) d (po_request_id po)))"

definition arguments_digest :: "provider_services \<Rightarrow> pydict \<Rightarrow> string ruled" where
  "arguments_digest ps d = map_sum (\<lambda>e. ProblemRefused (ledger_problem e)) id (digest_arguments (ps_canon ps) d)"

definition scope_digest_of :: "string \<Rightarrow> lease \<Rightarrow> string ruled" where
  "scope_digest_of name l =
     (case ls_profile_scope_sha256 l of
        Some h \<Rightarrow> if hex64 h then Inr h
          else Inl (lease_mismatch (''Account Center returned an invalid '' @ name @ '' scope digest.''))
      | None \<Rightarrow> Inl (lease_mismatch (''Account Center returned an invalid '' @ name @ '' scope digest.'')))"

section \<open>The call\<close>

definition leased_arguments :: "prepared_call \<Rightarrow> pydict \<Rightarrow> lease \<Rightarrow> string \<Rightarrow> pydict ruled" where
  "leased_arguments po target l digest =
     (let head = [(''profile_ref'', PStr (po_profile_ref po)), (''lease_ref'', PStr (ls_lease_ref l))];
          bound = head @ [(''target'', PDict target), (''arguments_sha256'', PStr digest)];
          payload = (''payload'', PDict (po_arguments po)) in
      if po_provider_id po \<in> {''microsoft_graph'', ''azure_devops''}
      then rbind (scope_digest_of (if po_provider_id po = ''azure_devops'' then ''Azure DevOps'' else ''Microsoft Graph'') l) (\<lambda>h.
           Inr (bound @ [(''profile_scope_sha256'', PStr h), payload]))
      else if po_provider_id po = ''bilibili''
      then Inr (bound @ payload #
             (case po_idempotency_key po of None \<Rightarrow> [] | Some k \<Rightarrow> [(''idempotency_key'', PStr k)]))
      else Inr (head @ [payload]))"

definition leased_tool ::
  "provider_services \<Rightarrow> prepared_call \<Rightarrow> hub_principal \<Rightarrow> connection \<Rightarrow> pydict \<Rightarrow> lease \<Rightarrow> string \<Rightarrow> pyval calling" where
  "leased_tool ps po p c target l digest =
     (if po_provider_id po = ''github''
      then place (ps_tool ps) (GithubCall p (po_tool_id po) (po_profile_ref po) (ls_lease_ref l) (po_arguments po))
      else
        andthen (result (guard (ps_has_cloud ps) (not_configured (po_provider_id po @ ''_provider_not_configured''))))
          (bind (result (leased_arguments po target l digest)) (\<lambda>d.
             cloud_tool ps po p c ''cloud_provider_not_configured'' d)))"

definition lease_fits :: "prepared_call \<Rightarrow> pydict \<Rightarrow> string \<Rightarrow> lease \<Rightarrow> unit ruled" where
  "lease_fits po target digest l =
     all_rules
       [guard (ls_profile_ref l = po_profile_ref po \<and> ls_operation_id l = po_operation_id po)
          (lease_mismatch ''Account Center returned a credential lease with a mismatched scope.''),
        guard (po_provider_id po = ''bilibili'' \<longrightarrow>
               ls_provider l = ''bilibili'' \<and> ls_target l = target \<and> ls_arguments_sha256 l = digest)
          (lease_mismatch ''Account Center returned a Bilibili lease with a mismatched scope.'')]"

definition lease_digest_of :: "provider_services \<Rightarrow> prepared_call \<Rightarrow> string \<Rightarrow> string ruled" where
  "lease_digest_of ps po payload_digest =
     (if po_provider_id po = ''microsoft_graph''
      then rbind (graph_lease_arguments (po_operation_id po) (po_arguments po)) (arguments_digest ps)
      else Inr payload_digest)"

definition shared_proof :: "connection \<Rightarrow> grant_claims \<Rightarrow> string \<Rightarrow> pydict option ruled" where
  "shared_proof c claims digest =
     (if cn_access_mode c = ''workspace_operator''
      then rbind (account_center_grant_proof claims digest) (\<lambda>proof. Inr (Some proof)) else Inr None)"

definition leased_call ::
  "provider_services \<Rightarrow> prepared_call \<Rightarrow> hub_principal \<Rightarrow> grant_claims \<Rightarrow> connection \<Rightarrow> pyval calling" where
  "leased_call ps po p claims c =
     (case po_account_lease_target po of
        None \<Rightarrow> raise ValueRefused
      | Some target \<Rightarrow>
          bind (result (arguments_digest ps (po_arguments po))) (\<lambda>payload_digest.
          andthen (result (permit (hex_bytes payload_digest = gc_arguments_digest claims)))
          (bind (result (lease_digest_of ps po payload_digest)) (\<lambda>digest.
          bind (result (shared_proof c claims digest)) (\<lambda>proof.
          bind (place (ps_lease ps) (LeaseCall p (po_profile_ref po) (po_operation_id po) target digest proof)) (\<lambda>l.
          andthen (result (lease_fits po target digest l)) (leased_tool ps po p c target l digest)))))))"

definition is_qr :: "prepared_call \<Rightarrow> bool" where
  "is_qr po = (po_provider_id po = ''bilibili'' \<and> starts_with ''bilibili.auth.qr.'' (po_operation_id po))"

definition LEASED_PROVIDERS :: "string list" where
  "LEASED_PROVIDERS = [''github'', ''huggingface'', ''microsoft_graph'', ''azure_devops'', ''bilibili'']"

definition raw_reply :: "provider_services \<Rightarrow> prepared_call \<Rightarrow> hub_principal \<Rightarrow> grant_claims \<Rightarrow> pyval calling" where
  "raw_reply ps po p claims =
     (case po_connection po of
        None \<Rightarrow>
          if po_provider_id po = ''computer''
          then place (ps_tool ps) (ComputerCall (po_tool_id po) (po_arguments po)) else raise ValueRefused
      | Some c \<Rightarrow>
          if is_qr po then cloud_tool ps po p c ''bilibili_provider_not_configured'' (po_arguments po)
          else if po_provider_id po \<in> set LEASED_PROVIDERS then leased_call ps po p claims c
          else cloud_tool ps po p c ''cloud_provider_not_configured'' (po_arguments po))"

definition invoke :: "provider_services \<Rightarrow> prepared_call \<Rightarrow> hub_principal \<Rightarrow> grant_claims \<Rightarrow> pydict calling" where
  "invoke ps po p claims =
     andthen (result (reachable_provider ps po))
     (andthen (result (claims_match (ps_canon ps) po p claims))
     (bind (raw_reply ps po p claims) (\<lambda>v.
      result (projected_reply (ps_canon ps) (po_operation_id po) v))))"

end
