(* ===== verification/Connector_Argument_Facts.thy ===== *)
theory Connector_Argument_Facts
  imports Connector_Invoke
begin

text \<open>
  What the argument rules guarantee: canonical base64 is exactly the encodings within the bound,
  accepted paths stay below their root, accepted branches and files are ordinary ones, and a provider
  call happens once, fits_call its grant, with a reply that carries no credential.
\<close>

section \<open>Canonical base64\<close>

lemma code_char_of [simp]: "n < 256 \<Longrightarrow> code (char_of n) = n"
  by (simp add: code_def)

lemma b64_value_char [simp]: "n < 64 \<Longrightarrow> b64_value (b64_char n) = Some n"
  unfolding b64_char_def b64_value_def by (cases "n < 26"; cases "n < 52"; cases "n < 62"; cases "n = 62") (auto simp: Let_def)

lemma b64_char_not_padding [simp]: "n < 64 \<Longrightarrow> b64_char n \<noteq> CHR ''=''"
  using b64_value_char[of n] by (auto simp: b64_value_def code_def)

lemma byte_bounds [simp]:
  fixes a :: "8 word"
  shows "unat a div 4 < 64" "unat a div 16 < 16" "unat a div 64 < 4" "unat a < 256"
  using unsigned_less[where 'a = nat, of a] by (simp_all add: div_less_iff_less_mult)

lemma six_bits:
  fixes a b :: "8 word"
  shows "unat a mod 4 * 16 + unat b div 16 < 64" "unat a mod 16 * 4 + unat b div 64 < 64"
  using byte_bounds(2,3)[of b] mod_less_divisor[of 4 "unat a"] mod_less_divisor[of 16 "unat a"] by linarith+

lemma b64decode_encode: "b64decode (b64encode bs) = Some bs"
proof (induction bs rule: b64encode.induct)
  case (2 a)
  show ?case by (simp add: div_mult_mod_eq)
next
  case (3 a b)
  show ?case using six_bits[of a b] by (simp add: div_mult_mod_eq)
next
  case (4 a b c rest)
  note bits = six_bits[of a b] six_bits[of b c]
  show ?case
  proof (cases "b64encode rest")
    case Nil
    then have "rest = []" by (cases rest rule: b64encode.cases) auto
    then show ?thesis using bits by (simp add: div_mult_mod_eq)
  next
    case (Cons x xs)
    then show ?thesis using bits 4 by (simp add: div_mult_mod_eq)
  qed
qed simp

lemma b64encode_length: "length (b64encode bs) = (length bs + 2) div 3 * 4"
proof (induction bs rule: b64encode.induct)
  case (4 a b c rest)
  have "(length (a # b # c # rest) + 2) div 3 = Suc ((length rest + 2) div 3)" by simp
  with 4 show ?case by simp
qed simp_all

lemma canonical_content_iff:
  assumes "(maximum + 2) div 3 * 4 \<le> longest"
  shows "canonical_content longest maximum v = Inr bs \<longleftrightarrow> v = PStr (b64encode bs) \<and> length bs \<le> maximum"
proof
  assume "v = PStr (b64encode bs) \<and> length bs \<le> maximum"
  moreover then have "(length bs + 2) div 3 * 4 \<le> (maximum + 2) div 3 * 4" by (simp add: div_le_mono)
  ultimately show "canonical_content longest maximum v = Inr bs"
    using assms by (simp add: canonical_content_def b64decode_encode b64encode_length)
qed (auto simp: canonical_content_def result_simps split: option.splits)

section \<open>Segments of a path\<close>

lemma split_all_not_empty [simp]: "split_all c s \<noteq> []"
  by (induction s) (auto split: list.splits)

lemma hd_split_all: "hd (split_all c s) = takeWhile (\<lambda>x. x \<noteq> c) s"
  by (induction s) (auto split: list.splits simp: neq_Nil_conv)

lemma prefix_take_iff: "starts_with p s \<longleftrightarrow> take (length p) s = p"
  by (induction p s rule: starts_with.induct) auto

lemma first_segment:
  assumes "hd (split_all c s) = w"
  shows "s = w \<or> starts_with (w @ [c]) s"
proof -
  have s: "s = w @ dropWhile (\<lambda>x. x \<noteq> c) s"
    using assms by (metis hd_split_all takeWhile_dropWhile_id)
  show ?thesis
  proof (cases "dropWhile (\<lambda>x. x \<noteq> c) s")
    case (Cons y ys)
    then have "y = c" using hd_dropWhile[of "\<lambda>x. x \<noteq> c" s] by auto
    with Cons have "s = w @ c # ys" using s by simp
    then show ?thesis by (simp add: prefix_take_iff)
  next
    case Nil
    with s have "s = w" by (metis append_Nil2)
    then show ?thesis by simp
  qed
qed

text \<open>
  Where a relative path leads, as the directories below the root that are entered: \<open>..\<close> leaves the
  last one and fails at the root.
\<close>

fun walk :: "string list \<Rightarrow> string list \<Rightarrow> string list option" where
  "walk here [] = Some here"
| "walk here (p # ps) =
     (if p = [] \<or> p = ''.'' then walk here ps
      else if p = ''..'' then (case here of [] \<Rightarrow> None | _ \<Rightarrow> walk (butlast here) ps)
      else walk (here @ [p]) ps)"

definition stays_below :: "string \<Rightarrow> bool" where
  "stays_below s =
     (\<not> starts_with ''/'' s \<and> (\<forall>n \<le> length (split_all (CHR ''/'') s). walk [] (take n (split_all (CHR ''/'') s)) \<noteq> None))"

lemma walk_plain:
  "list_all (\<lambda>p. p \<notin> {[], ''.'', ''..''}) ps \<Longrightarrow> walk here ps = Some (here @ ps)"
  by (induction ps arbitrary: here) auto

lemma plain_stays_below:
  assumes "\<not> starts_with ''/'' s" "list_all (\<lambda>p. p \<notin> {[], ''.'', ''..''}) (split_all (CHR ''/'') s)"
  shows "stays_below s"
proof -
  have "walk [] (take n (split_all (CHR ''/'') s)) \<noteq> None" for n
    using assms(2) walk_plain[of "take n (split_all (CHR ''/'') s)" "[]"] by (auto simp: list_all_iff dest: in_set_takeD)
  with assms(1) show ?thesis by (simp add: stays_below_def)
qed

lemma dot_stays_below: "stays_below ''.''"
  by (auto simp: stays_below_def le_Suc_eq)

lemma workspace_path_stays: "workspace_path allow_root s \<Longrightarrow> stays_below s"
  using plain_stays_below dot_stays_below by (auto simp: workspace_path_def)


section \<open>What GitHub operations may touch\<close>

text \<open>
  A task branch: the first segment of its name is none of the reserved ones, in any case of
  letters. An open file: no segment is hidden or a deployment directory.
\<close>

definition RESERVED_ROOTS :: "string list" where
  "RESERVED_ROOTS = [''main'', ''master'', ''develop'', ''release'', ''production'', ''staging'']"

definition task_branch_name :: "string \<Rightarrow> bool" where
  "task_branch_name s =
     (let root = hd (split_all (CHR ''/'') (lower s)) in
      root \<notin> set RESERVED_ROOTS \<and> (root = ''prod'' \<longrightarrow> lower s = ''prod''))"

definition open_file :: "string \<Rightarrow> bool" where
  "open_file s =
     list_all (\<lambda>p. p \<noteq> [] \<and> hd p \<noteq> CHR ''.'' \<and> lower p \<notin> set PROTECTED_PATH_DIRECTORIES) (split_all (CHR ''/'') s)"

lemma unprotected_branch: "\<not> is_protected_branch s \<Longrightarrow> task_branch_name s"
proof (unfold task_branch_name_def Let_def, intro conjI notI impI)
  let ?l = "lower s" and ?root = "hd (split_all (CHR ''/'') (lower s))"
  assume free: "\<not> is_protected_branch s"
  {
    assume "?root \<in> set RESERVED_ROOTS"
    then show False
      using free first_segment[of "CHR ''/''" ?l ?root, OF refl]
      by (auto simp: is_protected_branch_def RESERVED_ROOTS_def PROTECTED_BRANCHES_def PROTECTED_BRANCH_PREFIXES_def Let_def)
  }
  {
    assume "?root = ''prod''"
    then show "?l = ''prod''"
      using free first_segment[of "CHR ''/''" ?l "''prod''"]
      by (auto simp: is_protected_branch_def PROTECTED_BRANCH_PREFIXES_def Let_def)
  }
qed

lemma starts_with_dot: "p \<noteq> [] \<Longrightarrow> \<not> starts_with ''.'' p \<Longrightarrow> hd p \<noteq> CHR ''.''"
  by (cases p) auto

lemma open_path_open: "open_path s \<Longrightarrow> open_file s"
  by (auto simp: open_path_def open_file_def Let_def list_all_iff starts_with_dot)

lemma validate_github_branch_Inr [result_simps]:
  "validate_github_branch a v = Inr s \<longleftrightarrow>
     v = PStr s \<and> s \<noteq> [] \<and> length s \<le> 255 \<and> safe_reference s \<and> (a \<or> \<not> is_protected_branch s)"
  by (auto simp: validate_github_branch_def result_simps)

lemma validate_github_path_Inr [result_simps]:
  "validate_github_path v = Inr s \<longleftrightarrow> v = PStr s \<and> length s \<le> 512 \<and> path_text s \<and> open_path s"
  by (auto simp: validate_github_path_def result_simps)

lemma checked_Inr [result_simps]: "checked r = Inr u \<longleftrightarrow> (\<exists>x. r = Inr x)"
  by (cases r) auto

definition names_open_file :: "pyval \<Rightarrow> bool" where
  "names_open_file v = texts v (\<lambda>s. open_file s \<and> stays_below s)"

definition names_task_branch :: "pyval \<Rightarrow> bool" where
  "names_task_branch v = texts v task_branch_name"

lemma validated_branch: "validate_github_branch False v = Inr s \<Longrightarrow> names_task_branch v"
  by (auto simp: names_task_branch_def texts_def result_simps unprotected_branch)

lemma path_text_stays:
  assumes "path_text s" "open_path s"
  shows "stays_below s"
proof (rule plain_stays_below)
  show "list_all (\<lambda>p. p \<notin> {[], ''.'', ''..''}) (split_all (CHR ''/'') s)"
    using assms(2) by (auto simp: open_path_def Let_def list_all_iff)
  show "\<not> starts_with ''/'' s"
  proof
    assume "starts_with ''/'' s"
    then obtain r where "s = CHR ''/'' # r" by (cases s) auto
    with assms(1) show False by (simp add: path_text_def)
  qed
qed

lemma validated_path: "validate_github_path v = Inr s \<Longrightarrow> names_open_file v"
  by (auto simp: names_open_file_def texts_def result_simps open_path_open path_text_stays)

definition github_confined :: "connection \<Rightarrow> string \<Rightarrow> pydict \<Rightarrow> bool" where
  "github_confined c operation_id d =
     (dget d ''repository_id'' = PStr (cn_repository_id c) \<and> dget d ''repository'' = PStr (cn_repository_name c) \<and>
      (operation_id \<in> {''github.branch.create'', ''github.branch.delete'', ''github.file.commit''} \<longrightarrow>
         names_task_branch (dget d ''branch'')) \<and>
      (operation_id \<in> {''github.file.commit'', ''github.file.get''} \<longrightarrow> names_open_file (dget d ''path'')) \<and>
      (operation_id = ''github.pull_request.draft.create'' \<longrightarrow> names_task_branch (dget d ''head_branch'')) \<and>
      (operation_id = ''github.actions.rerun_failed'' \<longrightarrow>
         texts (dget d ''expected_head_branch'') (\<lambda>s. starts_with ''cyrene/assistant/'' (lower s))))"

lemma github_rules_hold:
  assumes "validate_github_target c operation_id d = Inr ()"
    and "operation_id \<notin> {''github.vendor.cli.execute'', ''github.repository.list''}"
  shows "\<forall>r \<in> set (repository_rules c d @ github_rules operation_id d). r = Inr ()"
  using assms by (auto simp: validate_github_target_def result_simps split: option.splits)

lemma task_branch_Inr: "task_branch v = Inr u \<Longrightarrow> texts v (\<lambda>s. starts_with ''cyrene/assistant/'' (lower s))"
  by (auto simp: task_branch_def result_simps texts_def)

lemma github_target_confined:
  assumes "validate_github_target c operation_id d = Inr ()"
    and "operation_id \<notin> {''github.vendor.cli.execute'', ''github.repository.list''}"
  shows "github_confined c operation_id d"
proof -
  note held = github_rules_hold[OF assms]
  then have "dget d ''repository_id'' = PStr (cn_repository_id c)" "dget d ''repository'' = PStr (cn_repository_name c)"
    by (auto simp: repository_rules_def result_simps)
  moreover have "names_task_branch (dget d ''branch'')"
    if "operation_id \<in> {''github.branch.create'', ''github.branch.delete'', ''github.file.commit''}"
    using held that validated_branch by (auto simp: github_rules_def Let_def result_simps)
  moreover have "names_open_file (dget d ''path'')" if "operation_id \<in> {''github.file.commit'', ''github.file.get''}"
    using held that validated_path by (auto simp: github_rules_def Let_def result_simps)
  moreover have "names_task_branch (dget d ''head_branch'')" if "operation_id = ''github.pull_request.draft.create''"
    using held that validated_branch by (auto simp: github_rules_def branch_pair_rules_def Let_def result_simps)
  moreover have "texts (dget d ''expected_head_branch'') (\<lambda>s. starts_with ''cyrene/assistant/'' (lower s))"
    if "operation_id = ''github.actions.rerun_failed''"
    using held that task_branch_Inr by (auto simp: github_rules_def Let_def)
  ultimately show ?thesis by (simp add: github_confined_def)
qed


section \<open>Preparation\<close>

lemma permit_all: "all_rules rs = Inr u \<Longrightarrow> permit b \<in> set rs \<Longrightarrow> b"
  by (auto simp: result_simps)

lemma prepared_connection:
  assumes "prepare_connection_operation ds p c body now = Inr po"
  shows "argument_rules ds p c (bd_operation_id body) (bd_arguments body) (bd_key body) = Inr ()"
    and "all_rules (owner_rules p c) = Inr ()"
    and "all_rules (binding_rules c (bd_provider_id body) (bd_profile_ref body) (bd_operation_id body) (bd_arguments body)) = Inr ()"
    and "current_rule ds c = Inr ()"
    and "bd_operation_id body \<in> set (hp_allowed_operation_ids p)"
    and "po_operation_id po = bd_operation_id body" "po_arguments po = bd_arguments body" "po_connection po = Some c"
    and "\<exists>target. resource_ref_of (ds_canon ds) (po_provider_id po) (po_profile_ref po) (po_operation_id po) target =
           Inr (po_resource_ref po) \<and> po_target_projection po = target"
  using assms
  by (auto simp: prepare_connection_operation_def Let_def result_simps require_operation_def require_grant_def
      map_sum_def split: sum.splits if_splits prod.splits)

definition same_owner :: "hub_principal \<Rightarrow> connection \<Rightarrow> bool" where
  "same_owner p c =
     (cn_actor_issuer c = hp_issuer p \<and> cn_organization_id c = hp_organization_id p \<and> cn_workspace_id c = hp_workspace_id p \<and>
      (cn_actor_subject c = hp_subject p \<or>
       cn_access_mode c = ''workspace_operator'' \<and> cn_provider c \<notin> set ACTOR_OWNED_PROVIDERS))"

lemma owner_rules_hold: "all_rules (owner_rules p c) = Inr u \<Longrightarrow> same_owner p c"
  by (auto simp: owner_rules_def same_owner_def result_simps Let_def)

lemma prepared_github:
  assumes "prepare_connection_operation ds p c body now = Inr po" "cn_provider c = ''github''"
    and "po_operation_id po \<notin> {''github.vendor.cli.execute'', ''github.repository.list''}"
  shows "github_confined c (po_operation_id po) (po_arguments po)"
  using prepared_connection(1,6,7)[OF assms(1)] assms(2,3) github_target_confined[of c "po_operation_id po" "po_arguments po"]
  by (simp add: argument_rules_def)

section \<open>The computer workspace\<close>

definition names_workspace_path :: "pyval \<Rightarrow> bool" where
  "names_workspace_path v = texts v stays_below"

lemma computer_path_stays: "validate_computer_path allow_root v = Inr u \<Longrightarrow> names_workspace_path v"
  by (auto simp: validate_computer_path_def names_workspace_path_def texts_iff result_simps workspace_path_stays)

lemma when_given_Inr: "when_given d k rule = Inr u \<Longrightarrow> dhas d k \<Longrightarrow> rule (dget d k) = Inr ()"
  by (auto simp: when_given_def dhas_def dget_or_def split: option.splits)

lemma validate_bounded_base64_iff:
  "validate_bounded_base64 maximum v = Inr bs \<longleftrightarrow> v = PStr (b64encode bs) \<and> length bs \<le> maximum"
  by (simp add: validate_bounded_base64_def canonical_content_iff)

definition computer_confined :: "computer_profile \<Rightarrow> string \<Rightarrow> pydict \<Rightarrow> bool" where
  "computer_confined profile operation_id d =
     ((operation_id = ''computer.command.execute'' \<longrightarrow> dhas d ''cwd'' \<longrightarrow> names_workspace_path (dget d ''cwd'')) \<and>
      (operation_id \<noteq> ''computer.command.execute'' \<longrightarrow> names_workspace_path (dget d ''path'')) \<and>
      (operation_id = ''computer.file.write'' \<longrightarrow>
         (\<exists>bs. dget d ''content_base64'' = PStr (b64encode bs) \<and> length bs \<le> cp_max_file_bytes profile)) \<and>
      (operation_id = ''computer.file.read'' \<longrightarrow> int_between 0 (cp_max_read_bytes profile) (dget d ''length'')))"

lemma computer_target_confined:
  assumes "validate_computer_target profile operation_id d = Inr ()"
  shows "computer_confined profile operation_id d"
  using assms computer_path_stays when_given_Inr[of d "''cwd''" "validate_computer_path True"]
  by (auto simp: validate_computer_target_def computer_confined_def result_simps validate_bounded_base64_iff
      bounded_int_def int_between_iff split: if_splits)

lemma computer_tools: "tool_of ''computer'' operation_id = Some t \<Longrightarrow> operation_id \<in> set computer_operations"
  by (auto simp: tool_of_def TOOL_IDS_BY_PROVIDER_def same_names_def computer_operations_def split: if_splits)

lemma computer_workspace_target:
  assumes "resource_projection ''computer'' profile_ref operation_id d (Some w) = Inr target"
    and "operation_id \<in> set computer_operations"
  shows "map_of target ''workspace_ref'' = Some (PStr w)"
proof -
  have "operation_id \<noteq> ''cloud.vendor.cli.execute''" "operation_id \<notin> set VENDOR_CLIS"
    using assms(2) by (auto simp: computer_operations_def VENDOR_CLIS_def)
  with assms(1) have "computer_projection (Some w) operation_id d = Inr target"
    by (simp add: resource_projection_def)
  then show ?thesis by (auto simp: computer_projection_def result_simps split: if_splits)
qed

lemma prepared_computer:
  assumes "prepare_computer_operation ds p profile connection_ref body now = Inr po"
  shows "computer_confined profile (po_operation_id po) (po_arguments po)"
    and "hp_issuer p = cp_expected_issuer profile" "hp_organization_id p = cp_organization_id profile"
        "hp_workspace_id p = cp_workspace_id profile"
    and "map_of (po_target_projection po) ''workspace_ref'' = Some (PStr (cp_connection_ref profile))"
    and "bd_operation_id body \<in> set (hp_allowed_operation_ids p)"
  using assms computer_target_confined[of profile "bd_operation_id body" "bd_arguments body"]
    computer_workspace_target[of "bd_profile_ref body" "bd_operation_id body" "bd_arguments body" "cp_connection_ref profile"]
    computer_tools[of "bd_operation_id body"]
  by (auto simp: prepare_computer_operation_def Let_def result_simps authorize_principal_def require_operation_def
      require_grant_def map_sum_def split: sum.splits option.splits if_splits)


section \<open>The provider call\<close>

text \<open>
  A call the operation may place: a lease for its profile, operation and target, or its own fixed
  tool.
\<close>

fun fits_call :: "prepared_call \<Rightarrow> hub_principal \<Rightarrow> outbound_call \<Rightarrow> bool" where
  "fits_call po p (LeaseCall q profile_ref operation_id target digest evidence) =
     (q = p \<and> profile_ref = po_profile_ref po \<and> operation_id = po_operation_id po \<and> po_account_lease_target po = Some target)"
| "fits_call po p (ComputerCall tool d) = (po_provider_id po = ''computer'' \<and> tool = po_tool_id po \<and> d = po_arguments po)"
| "fits_call po p (GithubCall q tool profile_ref ref d) =
     (q = p \<and> po_provider_id po = ''github'' \<and> tool = po_tool_id po \<and> profile_ref = po_profile_ref po \<and> d = po_arguments po)"
| "fits_call po p (CloudCall q c operation_id tool d request) =
     (q = p \<and> po_connection po = Some c \<and> operation_id = po_operation_id po \<and> tool = po_tool_id po \<and>
      request = po_request_id po)"

definition grant_covers :: "canonicalizer \<Rightarrow> prepared_call \<Rightarrow> hub_principal \<Rightarrow> grant_claims \<Rightarrow> bool" where
  "grant_covers canon po p c =
     (gc_request_id c = po_request_id po \<and> gc_organization_id c = hp_organization_id p \<and>
      gc_workspace_id c = hp_workspace_id p \<and> gc_principal_issuer c = hp_issuer p \<and>
      gc_principal_subject c = hp_subject p \<and> gc_connection_ref c = po_connection_ref po \<and>
      gc_provider_id c = po_provider_id po \<and> gc_profile_ref c = po_profile_ref po \<and>
      gc_operation_id c = po_operation_id po \<and> gc_resource_ref c = po_resource_ref po \<and>
      (\<exists>h. digest_arguments canon (po_arguments po) = Inr h \<and> gc_arguments_digest c = hex_bytes h))"

lemma claims_match_covers: "claims_match canon po p c = Inr u \<Longrightarrow> grant_covers canon po p c"
  by (auto simp: claims_match_def grant_covers_def result_simps map_sum_def split: sum.splits)

text \<open>One tool call at most, and last; a value only after it.\<close>

definition one_tool :: "prepared_call \<Rightarrow> hub_principal \<Rightarrow> outbound_call list \<Rightarrow> refusal + 'a \<Rightarrow> outbound_call list \<Rightarrow> bool" where
  "one_tool po p calls r calls' =
     (calls' = calls \<and> isl r \<or> (\<exists>c. calls' = calls @ [c] \<and> is_tool_call c \<and> fits_call po p c))"

lemma place_apply [act_simps]: "place reply c calls = (reply c, calls @ [c])"
  by (simp add: place_def)

lemma cloud_tool_once:
  assumes "po_connection po = Some c" "cloud_tool ps po p c why d calls = (r, calls')"
  shows "one_tool po p calls r calls'"
  using assms by (cases "ps_has_cloud ps") (auto simp: cloud_tool_def act_simps one_tool_def)

lemma leased_tool_once:
  assumes "po_connection po = Some c" "leased_tool ps po p c target l digest calls = (r, calls')"
  shows "one_tool po p calls r calls'"
proof (cases "po_provider_id po = ''github''")
  case True
  with assms show ?thesis by (auto simp: leased_tool_def act_simps one_tool_def)
next
  case False
  with assms show ?thesis
    by (cases "leased_arguments po target l digest"; cases "ps_has_cloud ps")
      (auto simp: leased_tool_def act_simps one_tool_def dest: cloud_tool_once[unfolded one_tool_def])
qed

definition leased_once :: "prepared_call \<Rightarrow> hub_principal \<Rightarrow> refusal + 'a \<Rightarrow> outbound_call list \<Rightarrow> bool" where
  "leased_once po p r calls =
     (calls = [] \<and> isl r \<or>
      (\<exists>l. \<not> is_tool_call l \<and> fits_call po p l \<and> one_tool po p [l] r calls))"

lemma leased_call_once:
  assumes "po_connection po = Some c" "leased_call ps po p claims c [] = (r, calls)"
  shows "leased_once po p r calls"
proof -
  have place: "leased_once po p r calls"
    if l: "bind (place (ps_lease ps) (LeaseCall p (po_profile_ref po) (po_operation_id po) target digest evidence))
             (\<lambda>l. andthen (result (lease_fits po target digest l)) (leased_tool ps po p c target l digest)) [] = (r, calls)"
      and target: "po_account_lease_target po = Some target" for target digest evidence
    using l leased_tool_once[OF assms(1), of ps p target _ digest "[LeaseCall p (po_profile_ref po) (po_operation_id po) target digest evidence]"] target
    by (fastforce simp: act_simps leased_once_def one_tool_def split: sum.splits prod.splits)
  show ?thesis
  proof (cases "po_account_lease_target po")
    case None
    with assms(2) show ?thesis by (auto simp: leased_call_def act_simps leased_once_def)
  next
    case (Some target)
    with assms(2) place[OF _ Some] show ?thesis
      unfolding leased_call_def Some option.case bind_apply[of "result x" for x] result_apply prod.case
      by (auto simp: leased_once_def split: sum.splits)
  qed
qed

lemma raw_reply_once:
  assumes "raw_reply ps po p claims [] = (r, calls)"
  shows "leased_once po p r calls \<or> one_tool po p [] r calls"
proof (cases "po_connection po")
  case None
  with assms show ?thesis by (auto simp: raw_reply_def act_simps one_tool_def split: if_splits)
next
  case (Some c)
  with assms show ?thesis
    using leased_call_once[OF Some] cloud_tool_once[OF Some] by (auto simp: raw_reply_def split: if_splits)
qed


section \<open>The reply\<close>

fun output_free :: "pyval \<Rightarrow> bool" where
  "output_free (PDict d) = list_all (\<lambda>(k, v). normal_key k \<notin> set OUTPUT_KEYS \<and> output_free v) d"
| "output_free (PList vs) = list_all output_free vs"
| "output_free v = True"

lemma drop_output_free: "output_free (drop_output v)"
  by (induction v rule: drop_output.induct) (auto simp: list_all_iff)

lemma drop_output_credentials: "credential_free v \<Longrightarrow> credential_free (drop_output v)"
  by (induction v rule: drop_output.induct) (fastforce simp: list_all_iff)+

lemma list_all_dset: "list_all P d \<Longrightarrow> P (k, v) \<Longrightarrow> list_all P (dset k v d)"
  by (induction d) auto

lemma without_cli_output_dict: "PDict (without_cli_output d) = drop_output (PDict d)"
  by (simp add: without_cli_output_def)

lemma suppressed_keys:
  "normal_key ''stdout_suppressed'' \<notin> set (CREDENTIAL_KEYS @ OUTPUT_KEYS)"
  "normal_key ''stderr_suppressed'' \<notin> set (CREDENTIAL_KEYS @ OUTPUT_KEYS)"
  by code_simp+

lemma safe_provider_result_Inr: "safe_provider_result canon v = Inr d \<Longrightarrow> v = PDict d \<and> credential_free (PDict d)"
  by (cases "connector_canonical_json canon v") (auto simp: safe_provider_result_def result_simps split: if_splits)

lemma projected_reply_safe:
  assumes "projected_reply canon operation_id v = Inr d"
  shows "credential_free (PDict d)" and "operation_id \<in> set VENDOR_CLIS \<Longrightarrow> output_free (PDict d)"
proof -
  obtain e where e: "credential_free (PDict e)" and d: "d = (if operation_id \<in> set VENDOR_CLIS
      then dset ''stderr_suppressed'' (PBool True) (dset ''stdout_suppressed'' (PBool True) (without_cli_output e)) else e)"
    using assms safe_provider_result_Inr by (auto simp: projected_reply_def result_simps)
  have "credential_free (PDict (without_cli_output e))" "output_free (PDict (without_cli_output e))"
    using drop_output_credentials [OF e] drop_output_free by (simp_all add: without_cli_output_dict del: drop_output.simps)
  then show "credential_free (PDict d)" and "operation_id \<in> set VENDOR_CLIS \<Longrightarrow> output_free (PDict d)"
    using e suppressed_keys by (auto simp: d intro!: list_all_dset)
qed

lemma invoke_once:
  assumes "invoke ps po p claims [] = (r, calls)"
  shows "leased_once po p r calls \<or> one_tool po p [] r calls"
    and "calls \<noteq> [] \<Longrightarrow> grant_covers (ps_canon ps) po p claims"
    and "r = Inr d \<Longrightarrow> \<exists>v. projected_reply (ps_canon ps) (po_operation_id po) v = Inr d"
proof -
  obtain r0 calls0 where raw: "raw_reply ps po p claims [] = (r0, calls0)" by fastforce
  have run: "calls = [] \<and> isl r \<or> claims_match (ps_canon ps) po p claims = Inr () \<and> calls = calls0 \<and>
      (isl r \<or> (\<exists>v. r0 = Inr v \<and> projected_reply (ps_canon ps) (po_operation_id po) v = r))"
    using assms raw
    by (cases "reachable_provider ps po"; cases "claims_match (ps_canon ps) po p claims"; cases r0)
      (auto simp: invoke_def act_simps)
  then show "leased_once po p r calls \<or> one_tool po p [] r calls"
    using raw_reply_once [OF raw] by (cases r; cases r0) (auto simp: leased_once_def one_tool_def)
  show "calls \<noteq> [] \<Longrightarrow> grant_covers (ps_canon ps) po p claims"
    using run claims_match_covers by blast
  show "r = Inr d \<Longrightarrow> \<exists>v. projected_reply (ps_canon ps) (po_operation_id po) v = Inr d"
    using run by auto
qed

lemma one_tool_shape:
  assumes "one_tool po p cs r calls" "\<forall>c\<in>set cs. \<not> is_tool_call c \<and> fits_call po p c"
  shows "length (filter is_tool_call calls) \<le> 1 \<and> (\<forall>c\<in>set calls. fits_call po p c) \<and>
    (\<not> isl r \<longrightarrow> calls \<noteq> [] \<and> is_tool_call (last calls))"
  using assms by (auto simp: one_tool_def filter_empty_conv)

lemma call_shape:
  assumes "leased_once po p r calls \<or> one_tool po p [] r calls"
  shows "length (filter is_tool_call calls) \<le> 1 \<and> (\<forall>c\<in>set calls. fits_call po p c) \<and>
    (\<not> isl r \<longrightarrow> calls \<noteq> [] \<and> is_tool_call (last calls))"
  using assms
proof
  assume "leased_once po p r calls"
  then consider "calls = []" "isl r" | l where "\<not> is_tool_call l" "fits_call po p l" "one_tool po p [l] r calls"
    by (auto simp: leased_once_def)
  then show ?thesis
  proof cases
    case 2
    with one_tool_shape [of po p "[l]" r calls] show ?thesis by simp
  qed simp
qed (use one_tool_shape [of po p "[]" r calls] in simp)

section \<open>From the route\<close>

lemma prepared_result_Inr: "prepared_result a b c r = Inr op \<Longrightarrow> r = PreparedAs op"
  by (cases r) (auto simp: prepared_result_def)

fun_cases refusal_preparedE: "outcome_of_refusal x = PreparedAs op"

lemma prepare_outcome_PreparedAs:
  "prepare_outcome_of r = PreparedAs op \<Longrightarrow> \<exists>po. r = Inr po \<and> op = prepared_operation.truncate po"
  by (auto simp: prepare_outcome_of_def split: sum.splits elim: refusal_preparedE)

lemma admitted_on_connection:
  assumes "admit_operation (wired ds t es) q now later = Inr op" "es_computer_ref es \<noteq> Some (cr_connection_ref q)"
  shows "\<exists>c body po. prepare_connection_operation ds (co_principal op) c body t = Inr po \<and>
    co_prepared op = prepared_operation.truncate po"
proof -
  obtain p body op' claims where p: "co_principal op = p" "co_prepared op = op'"
    "prepare_operation (wired ds t es) p body (cr_connection_ref q) claims = Inr op'"
    using assms(1) by (auto simp: admit_operation_def result_simps Let_def split: prod.splits)
  with assms(2) obtain c where "prepare_outcome_of (prepare_connection_operation ds p c body t) = PreparedAs op'"
    by (auto simp: prepare_operation_def wired_def result_simps split: option.splits dest!: prepared_result_Inr)
  from prepare_outcome_PreparedAs [OF this] p show ?thesis by blast
qed

end
