(* ===== verification/Operation_Properties.thy ===== *)
theory Operation_Properties
  imports Connector_Argument_Facts
begin

text \<open>
  What a prepared provider operation may touch and what its call may carry, each with an instance:
  GitHub operations stay on the connection's repository, task branches and open files, computer
  operations below the workspace root, file contents are canonical and bounded, and the provider is
  called at most once, within the grant.
\<close>

section \<open>Instances\<close>

definition sample_actor :: hub_principal where
  "sample_actor =
     \<lparr>hp_issuer = ''i'', hp_subject = ''u'', hp_organization_id = ''o'', hp_workspace_id = ''w'',
      hp_allowed_operation_ids = [''github.branch.create'', ''computer.directory.list''], hp_delegation_id = None,
      hp_delegation_generation = None, hp_expires_at = None\<rparr>"

definition sample_repository :: connection where
  "sample_repository =
     \<lparr>cn_id = ''c'', cn_organization_id = ''o'', cn_workspace_id = ''w'', cn_actor_issuer = ''i'', cn_actor_subject = ''u'',
      cn_account_link_ref = Some ''f'', cn_provider = ''github'', cn_binding_ref = None, cn_target_ref = None, cn_display_name = None,
      cn_repository_id = ''7'', cn_repository_name = ''a/b'', cn_access_mode = ''actor_owned'', cn_enabled = True,
      cn_created_at = 1, cn_updated_at = 1\<rparr>"

text \<open>The runner's reference is a UUID of its own.\<close>

definition sample_runner :: computer_profile where
  "sample_runner =
     \<lparr>cp_profile_ref = ''f'', cp_connection_ref = ''00000000-0000-0000-0000-000000000002'', cp_organization_id = ''o'',
      cp_workspace_id = ''w'', cp_expected_issuer = ''i'', cp_max_command_timeout_ms = 1000, cp_max_file_bytes = 10,
      cp_max_read_bytes = 10, cp_max_directory_depth = 3\<rparr>"

definition sample_setup :: dispatcher_setup where
  "sample_setup =
     \<lparr>ds_store = empty_hub\<lparr>hs_connections := [(''c'', sample_repository)]\<rparr>, ds_registry = None,
      ds_computer_profile = Some sample_runner, ds_canon = (\<lambda>v. Some ''{}''), ds_bound = (\<lambda>p c x. False),
      ds_graph_target = (\<lambda>p c f x d. Inl PermissionRefused), ds_azure_targets = (\<lambda>p c f x d. Inl PermissionRefused)\<rparr>"

definition sample_ref :: string where
  "sample_ref = ''sha256:'' @ sha256_hex (utf8 ''{}'')"



definition sample_listing :: operation_body where
  "sample_listing =
     \<lparr>bd_request_id = ''q'', bd_provider_id = ''computer'', bd_profile_ref = ''f'', bd_operation_id = ''computer.directory.list'',
      bd_resource_ref = sample_ref, bd_arguments = [(''path'', PStr ''src/a'')], bd_key = None\<rparr>"

lemma sample_digest: "resource_ref_of (ds_canon sample_setup) provider profile_ref operation_id target = Inr sample_ref"
  by (simp add: resource_ref_of_def digest_arguments_def connector_canonical_json_def sample_setup_def sample_ref_def)


lemma sample_listing_valid: "validate_computer_target sample_runner ''computer.directory.list'' [(''path'', PStr ''src/a'')] = Inr ()"
  by code_simp


lemma sample_listed:
  "\<exists>po. prepare_computer_operation sample_setup sample_actor sample_runner (cp_connection_ref sample_runner) sample_listing 5 = Inr po \<and>
     po_operation_id po = ''computer.directory.list'' \<and> po_arguments po = [(''path'', PStr ''src/a'')] \<and>
     po_request_id po = ''q'' \<and> po_connection_ref po = cp_connection_ref sample_runner \<and> po_provider_id po = ''computer'' \<and>
     po_profile_ref po = ''f'' \<and> po_resource_ref po = sample_ref \<and> po_connection po = None \<and> po_account_lease_target po = None"
proof -
  let ?x = "''computer.directory.list''" and ?d = "[(''path'', PStr ''src/a'')]"
  have "parse_uuid (cp_connection_ref sample_runner) = Some (cp_connection_ref sample_runner)" by code_simp
  moreover have "current_connection_for_provider_call (cp_connection_ref sample_runner) (ds_store sample_setup) = None" by code_simp
  moreover have "authorize_principal sample_runner sample_actor = Inr ()" by code_simp
  moreover have "require_operation sample_actor ?x 5 = Inr ()" by code_simp
  moreover have "tool_of ''computer'' ?x \<noteq> None" by code_simp
  moreover have "\<not> isl (resource_projection ''computer'' ''f'' ?x ?d (Some (cp_connection_ref sample_runner)))" by code_simp
  then have "\<exists>t. resource_projection ''computer'' ''f'' ?x ?d (Some (cp_connection_ref sample_runner)) = Inr t" by (metis sum.collapse(2))
  moreover have "ds_computer_profile sample_setup = Some sample_runner" "cp_profile_ref sample_runner = ''f''"
    by (simp_all add: sample_setup_def sample_runner_def)
  ultimately show ?thesis
    using sample_listing_valid by (auto simp: prepare_computer_operation_def sample_listing_def sample_digest Let_def)
qed

section \<open>GitHub\<close>



text \<open>
  The same from the route: what the connector route admits on a GitHub connection, with the dispatcher
  behind it, is confined.
\<close>

theorem admitted_github_operations_are_confined:
  assumes "admit_operation (wired ds t es) q now later = Inr op" "es_computer_ref es \<noteq> Some (cr_connection_ref q)"
  shows "\<exists>c. same_owner (co_principal op) c \<and> (cn_provider c = ''github'' \<longrightarrow>
    po_operation_id (co_prepared op) \<notin> {''github.vendor.cli.execute'', ''github.repository.list''} \<longrightarrow>
    github_confined c (po_operation_id (co_prepared op)) (po_arguments (co_prepared op)))"
proof -
  obtain c body po where po: "prepare_connection_operation ds (co_principal op) c body t = Inr po"
    "co_prepared op = prepared_operation.truncate po" using admitted_on_connection [OF assms] by blast
  have "same_owner (co_principal op) c" by (rule owner_rules_hold [OF prepared_connection(2) [OF po(1)]])
  with prepared_github [OF po(1)] po(2) show ?thesis by (auto simp: prepared_operation.defs)
qed

section \<open>The computer workspace\<close>

text \<open>
  C38. A computer operation that Exchange prepares stays in the workspace: the actor is of the
  runner's issuer, organization and workspace and is granted the operation, the resource is the
  runner's own reference, every path is relative and no prefix of it leaves the root, a written file is
  the canonical base64 of at most the configured bytes, and a read asks for at most the configured
  length.
\<close>

theorem computer_operations_stay_in_the_workspace:
  assumes "prepare_computer_operation ds p profile connection_ref body now = Inr po"
  shows "hp_issuer p = cp_expected_issuer profile \<and> hp_organization_id p = cp_organization_id profile \<and>
    hp_workspace_id p = cp_workspace_id profile \<and> bd_operation_id body \<in> set (hp_allowed_operation_ids p) \<and>
    map_of (po_target_projection po) ''workspace_ref'' = Some (PStr (cp_connection_ref profile)) \<and>
    computer_confined profile (po_operation_id po) (po_arguments po)"
  using prepared_computer [OF assms] by simp

theorem computer_operations_stay_in_the_workspace_witness:
  "stays_below ''src/a'' \<and>
   (\<exists>po. prepare_computer_operation sample_setup sample_actor sample_runner (cp_connection_ref sample_runner) sample_listing 5 = Inr po \<and>
      map_of (po_target_projection po) ''workspace_ref'' = Some (PStr (cp_connection_ref sample_runner)))"
proof -
  obtain po where po: "prepare_computer_operation sample_setup sample_actor sample_runner (cp_connection_ref sample_runner) sample_listing 5 = Inr po"
    "po_operation_id po = ''computer.directory.list''" "po_arguments po = [(''path'', PStr ''src/a'')]" using sample_listed by blast
  from computer_operations_stay_in_the_workspace [OF po(1)] po show ?thesis
    by (auto simp: computer_confined_def names_workspace_path_def texts_def dget_or_def)
qed

section \<open>File contents\<close>

text \<open>
  C39. The contents of GitHub commits and of computer writes are accepted exactly as the canonical
  base64 of at most 500,000 bytes, or of at most the profile's bytes: what is accepted decodes to
  the bytes it encodes, every content within the bound has one accepted spelling, and nothing else
  is accepted.
\<close>

theorem file_contents_round_trip:
  "(validate_github_content v = Inr content \<longleftrightarrow> v = PStr (b64encode content) \<and> length content \<le> 500000) \<and>
   (validate_bounded_base64 maximum v = Inr content \<longleftrightarrow> v = PStr (b64encode content) \<and> length content \<le> maximum)"
  by (simp add: validate_github_content_def validate_bounded_base64_iff canonical_content_iff)

section \<open>The provider call\<close>

text \<open>
  C40. A prepared operation reaches its provider at most once and within its grant: whatever the
  services reply, at most one tool is called; nothing at all is called unless the grant's claims
  name this request, actor, connection, profile, operation, resource and arguments; the lease is
  asked for this profile, operation and target, and the tool is the prepared one; and a reply
  comes back only after the tool was called, without any credential field at any depth, and for a
  vendor command line without its captured output.
\<close>

theorem provider_called_once_within_its_grant:
  assumes "invoke ps po p claims [] = (r, calls)"
  shows "length (filter is_tool_call calls) \<le> 1 \<and> (calls \<noteq> [] \<longrightarrow> grant_covers (ps_canon ps) po p claims) \<and>
    (\<forall>c\<in>set calls. fits_call po p c) \<and>
    (case r of Inl x \<Rightarrow> True | Inr d \<Rightarrow> calls \<noteq> [] \<and> is_tool_call (last calls) \<and> credential_free (PDict d) \<and>
       (po_operation_id po \<in> set VENDOR_CLIS \<longrightarrow> output_free (PDict d)))"
proof (cases r)
  case (Inl x)
  with call_shape [OF invoke_once(1) [OF assms]] invoke_once(2) [OF assms] show ?thesis by auto
next
  case (Inr d)
  obtain v where "projected_reply (ps_canon ps) (po_operation_id po) v = Inr d" using invoke_once(3) [OF assms Inr] by blast
  from projected_reply_safe [OF this] call_shape [OF invoke_once(1) [OF assms]] invoke_once(2) [OF assms] Inr show ?thesis
    by (auto simp del: credential_free.simps output_free.simps)
qed

definition sample_providers :: provider_services where
  "sample_providers =
     \<lparr>ps_canon = (\<lambda>v. Some ''{}''), ps_has_computer = True, ps_has_cloud = False, ps_lease = (\<lambda>c. Inl ValueRefused),
      ps_tool = (\<lambda>c. Inr (PDict [(''entries'', PList [])]))\<rparr>"

definition sample_run_claims :: grant_claims where
  "sample_run_claims =
     \<lparr>gc_request_id = ''q'', gc_audience = [], gc_organization_id = ''o'', gc_workspace_id = ''w'', gc_principal_issuer = ''i'',
      gc_principal_subject = ''u'', gc_connection_ref = cp_connection_ref sample_runner, gc_provider_id = ''computer'',
      gc_profile_ref = ''f'', gc_operation_id = ''computer.directory.list'', gc_resource_ref = sample_ref,
      gc_arguments_digest = hex_bytes (sha256_hex (utf8 ''{}'')), gc_issued_at = 1, gc_expires_at = 2, gc_grant_ref = ''g''\<rparr>"

theorem provider_called_once_within_its_grant_witness:
  "\<exists>(po :: prepared_call) calls. invoke sample_providers po sample_actor sample_run_claims [] = (Inr [(''entries'', PList [])], calls) \<and>
     length (filter is_tool_call calls) = 1 \<and> grant_covers (ps_canon sample_providers) po sample_actor sample_run_claims"
proof -
  obtain po :: prepared_call where po: "po_operation_id po = ''computer.directory.list''" "po_arguments po = [(''path'', PStr ''src/a'')]"
      "po_request_id po = ''q''" "po_connection_ref po = cp_connection_ref sample_runner" "po_provider_id po = ''computer''"
      "po_profile_ref po = ''f''" "po_resource_ref po = sample_ref" "po_connection po = None" "po_account_lease_target po = None"
    using sample_listed by blast
  have digest: "digest_arguments (ps_canon sample_providers) d = Inr (sha256_hex (utf8 ''{}''))" for d
    by (simp add: digest_arguments_def connector_canonical_json_def sample_providers_def)
  have "claims_match (ps_canon sample_providers) po sample_actor sample_run_claims = Inr ()"
    by (simp add: claims_match_def digest po sample_run_claims_def sample_actor_def)
  moreover have "reachable_provider sample_providers po = Inr ()" by (simp add: reachable_provider_def po sample_providers_def)
  moreover have "projected_reply (ps_canon sample_providers) ''computer.directory.list'' (PDict [(''entries'', PList [])]) =
      Inr [(''entries'', PList [])]"
  proof -
    have "credential_free (PDict [(''entries'', PList [])])" "''computer.directory.list'' \<notin> set VENDOR_CLIS" by code_simp+
    moreover have "byte_count ''{}'' = 2" by code_simp
    ultimately show ?thesis
      by (simp add: projected_reply_def safe_provider_result_def connector_canonical_json_def sample_providers_def
          MAX_PROVIDER_RESPONSE_def del: credential_free.simps)
  qed
  moreover have "ps_tool sample_providers c = Inr (PDict [(''entries'', PList [])])" for c by (simp add: sample_providers_def)
  ultimately have run: "invoke sample_providers po sample_actor sample_run_claims [] =
      (Inr [(''entries'', PList [])], [ComputerCall (po_tool_id po) (po_arguments po)])"
    by (simp add: invoke_def raw_reply_def act_simps po)
  from provider_called_once_within_its_grant [OF this] have "grant_covers (ps_canon sample_providers) po sample_actor sample_run_claims" by simp
  with run show ?thesis by (intro exI [of _ po] exI [of _ "[ComputerCall (po_tool_id po) (po_arguments po)]"]) simp
qed

end
