(* ===== verification/Spec2Isabelle.thy ===== *)
theory Spec2Isabelle
  imports Examples Hub_Properties Connector_Properties Operation_Properties
begin

text \<open>
  \<^bold>\<open>Cyrene Exchange.\<close> Exchange is an OpenAI-compatible model gateway, the Product around it that
  owns endpoints, routes, keys and quotas, and an integration hub that runs issue commands and
  provider operations for chat users. This development models the three as functions on explicit
  state and proves what they guarantee. Paths below are relative to \<open>src/\<close>; \<open>X/\<close> stands for
  \<open>src/cyrene_exchange/\<close>, \<open>P/\<close> for \<open>product/src/cyrene_exchange_product/\<close> and \<open>I/\<close> for
  \<open>P/integrations/\<close>.

  \<^bold>\<open>How the parts interact.\<close> A request enters \<open>X/http.py\<close>, is parsed by \<open>X/protocol.py\<close>, authenticated,
  admitted and planned by \<open>X/gateway.py\<close>, and answered by a provider. The gateway's collaborators are
  the Product's: \<open>P/store.py\<close> resolves the credential, \<open>P/routing.py\<close> plans over the stored routes,
  \<open>P/quota.py\<close> guards, \<open>P/audit.py\<close> records the request in the ledger of the store and
  \<open>X/billing.py\<close> posts its usage. The Product's own operations are \<open>P/service.py\<close> on the store, with
  \<open>P/route_admission.py\<close> deciding what may become a route and \<open>P/media_artifacts.py\<close> fetching Work
  attachments. The hub keeps its tables in \<open>I/store.py\<close>: \<open>I/intake.py\<close> admits signed chat events,
  \<open>I/commands.py\<close> parses their commands, the store queues them as intents with jobs, and
  \<open>I/dispatcher.py\<close> works the jobs off under leases and signed Authority decisions. Its connector route
  in \<open>I/api.py\<close> executes one provider operation: \<open>I/connector_security.py\<close> verifies the request and
  its grant, \<open>I/connector_operations.py\<close> prepares and invokes the operation, and the connector tables
  of the store make ids, grants and invocations single-use.

  \<^bold>\<open>Foundations.\<close> \<open>Prelude\<close>: Python values, dictionaries as association lists, the sum type that stands
  for exceptions. \<open>PyStdlib\<close>, \<open>Web\<close>, \<open>Encodings\<close>: what is used of the standard library (string methods,
  \<open>fnmatch\<close>, \<open>UUID\<close>, \<open>urlsplit\<close>, base64, SHA-256 and HMAC). \<open>Effects\<close>: actions on a state that may raise,
  with assertions and their rules. \<open>Tables\<close>: SQLite tables as association lists with the statements the
  stores use and the transaction that rolls back; the locale \<open>keyed_table\<close> for the two that replace.
  \<open>Call_Runs\<close>: runs of calls on a shared state and the locale \<open>marking\<close>, the argument behind every
  at-most-once guarantee.

  \<^bold>\<open>Gateway.\<close> \<open>Capabilities\<close> (\<open>X/capabilities.py\<close>), \<open>Protocol\<close> (\<open>X/protocol.py\<close>), \<open>Billing\<close>
  (\<open>X/billing.py\<close>), \<open>Gateway_Core\<close>, \<open>Gateway_Env\<close>, \<open>Gateway_Response\<close>, \<open>Gateway\<close> (\<open>X/gateway.py\<close>: errors
  and principals, the collaborators, response shaping and the stream generator, the two handlers phase
  by phase), \<open>Http_Server\<close> (\<open>X/http.py\<close>). Their facts: \<open>Request_Facts\<close> (the shape of an accepted request,
  the parser's errors, the round trip through the provider's dictionary), \<open>Media_Facts\<close> (verified bytes
  in place of references), \<open>Chat_Facts\<close> and \<open>Embed_Facts\<close> (which calls go out and what an answer consists
  of), \<open>Stream_Facts\<close> (delivery and the one terminal fact), \<open>Ledger\<close> (the locale \<open>request_ledger\<close> for the
  observer, interpreted on the audit recorder: no request stays unsettled).

  \<^bold>\<open>Product.\<close> \<open>Domain\<close> (\<open>P/domain.py\<close>, \<open>P/errors.py\<close>), \<open>Store\<close>, \<open>Credentials\<close>, \<open>Audit_Ledger\<close>
  (\<open>P/store.py\<close>), \<open>Service\<close> (\<open>P/service.py\<close>), \<open>Recorder\<close> (\<open>P/audit.py\<close>, \<open>P/quota.py\<close>), \<open>Product_Routing\<close>
  (\<open>P/routing.py\<close>, \<open>X/reference_routing.py\<close>), \<open>Admission\<close> (\<open>P/route_admission.py\<close>), \<open>Attachments\<close>
  (\<open>P/media_artifacts.py\<close>). \<open>Product_Steps\<close> makes one transition system of all state-changing operations;
  \<open>Store_Facts\<close> has its invariant, \<open>Route_Facts\<close> the life of a route, \<open>Key_Facts\<close> that of a credential,
  \<open>Retry_Facts\<close> the locale \<open>idempotent_create\<close>, interpreted on every creating operation of the service.
  \<open>Examples\<close> has concrete stores and requests.

  \<^bold>\<open>Hub.\<close> \<open>Hub_Types\<close> (\<open>I/models.py\<close>), \<open>Issue_Commands\<close> (\<open>I/commands.py\<close>), \<open>Outbox\<close>, \<open>Outbox_Jobs\<close>,
  \<open>Outbox_Authority\<close>, \<open>Connections\<close>, \<open>Inbox\<close> (\<open>I/store.py\<close>: intents, the transitions of a job, the
  Authority side, connections and bindings, incoming events), \<open>Dispatcher\<close>, \<open>Execution\<close>
  (\<open>I/dispatcher.py\<close>), \<open>Intake\<close> (\<open>I/intake.py\<close>). \<open>Job_Machine\<close> is the abstract machine of a job, a step
  relation on its state and fencing token; \<open>Hub_Steps\<close> shows that every operation of the store, as a
  step of the hub, refines it. \<open>Hub_Invariants\<close>, \<open>Outbox_Facts\<close> (idempotent intents, fencing, the write
  boundary), \<open>Dispatch_Facts\<close> and \<open>Delivery_Facts\<close> (one step of the worker, then whole histories),
  \<open>Intake_Facts\<close>, \<open>Command_Facts\<close>; \<open>Hub_Examples\<close> and \<open>Hub_Properties\<close>.

  \<^bold>\<open>Connectors.\<close> \<open>Connector_Ledger\<close> (\<open>I/store.py\<close>), \<open>Connector_Security\<close> (\<open>I/connector_security.py\<close>),
  \<open>Connector_Endpoint\<close> (\<open>I/api.py\<close>: the handler as a machine of stages, each with its one access to the
  store), \<open>Connector_Rules\<close>, \<open>Connector_Prepare\<close>, \<open>Connector_Invoke\<close> (\<open>I/connector_operations.py\<close>: the
  argument rules, the preparation, the provider call). \<open>Connector_Ledger_Facts\<close> and \<open>Connector_Runs\<close> have the
  budgets, the invariant of the tables and the life of a waiting invocation; \<open>Connector_Facts\<close> the
  locales \<open>replay_window\<close> and \<open>one_use_grants\<close>, each a \<open>marking\<close>, interpreted on the stored ids and on both
  grant registries; \<open>Connector_Interleaving\<close> runs any number of handlers side by side, stage by stage;
  \<open>Connector_Argument_Facts\<close> has what the rules and the call guarantee. \<open>Connector_Properties\<close> and
  \<open>Operation_Properties\<close> state the results.

  \<^bold>\<open>Assumptions of the model.\<close> Texts are sequences of code points up to 255; lone surrogates, which JSON
  can spell and UTF-8 cannot encode, are outside it, and with them the \<open>UnicodeEncodeError\<close> the size
  checks of \<open>X/protocol.py\<close> would raise. Integers of documents fit SQLite's 64 bits, and JSON integers
  stay under the digits \<open>int\<close> accepts. A call of a store is one atomic step, as its transaction is.
  Operations of the service that span several calls run as one step in the Product's transition
  system, which is stated where it matters (\<open>create_endpoint\<close>, whose race has its own theorem, and
  \<open>confirm_workspace_route_draft\<close>); requests of the connector route interleave at every access to the
  store, with a clock that does not go back. Instants are microseconds. UUIDs, clock readings, secrets,
  replies of HTTP services, JSON decoding, protobuf, Ed25519, RFC 8785, the text of a float and the
  collaborators outside the repository are arguments, whose outcomes the theorems quantify over. \<open>ORDER BY\<close>
  leaves ties in insertion order. The reference is CPython 3.12. \<open>shlex.split\<close>, base64 and the hashes are
  modelled after the documentation of the standard library; SHA-256 is computed, never assumed free of
  collisions.

  \<^bold>\<open>Loops and bounds.\<close> Loops over data are structural recursions. \<open>trim_loop\<close> and \<open>make_room\<close> of the
  ledger end because each turn removes a receipt or a row (their \<open>termination\<close> proofs). \<open>chunk_fuel\<close> of
  \<open>fnmatch\<close> has one unit per character and one more, and each turn consumes one. \<open>run_stages\<close> has the six
  stages of the connector route; \<open>stages_left\<close> decreases, and \<open>connector_route_answers\<close> shows that six
  are enough. The worker's \<open>run_once\<close> is one turn; its polling loop is not modelled.

  \<^bold>\<open>Not modelled.\<close> The gRPC clients of platform plugins (\<open>X/platform_resolver.py\<close>, \<open>X/direct_plugin.py\<close>) and
  logging, which do I/O around arguments of the model. The FastAPI routes, the server and the command line
  of the Product. In \<open>I/store.py\<close> the monitoring, cloud and e-mail tables; in \<open>I/api.py\<close> every route but
  the connector's. In \<open>I/connector_operations.py\<close> Teams replies, the listing of tools and the schema
  check of the computer runner; the profile scopes of Microsoft Graph and Azure DevOps and the registry
  of cloud profiles are arguments of the preparation. The parsing of host configuration
  (\<open>I/connector_profiles.py\<close>, \<open>I/authorization_cloud_profiles.py\<close>), OAuth and authorization flows, clients
  of Account Center, GitHub and the clouds, and host set-up. Generated bindings and scripts.
\<close>

section \<open>The request protocol\<close>

text \<open>
  C1. A chat payload that \<open>from_openai\<close> accepts has become a well-formed request: a stripped
  non-empty model, at least one message, every message with a known role and content that fits it
  (typed parts with exactly one media source each, tool calls with non-blank ids and names), a
  temperature in range, positive token limit, stream options only when streaming; and all inline
  media together stay within the 20 MiB bound.
\<close>

theorem chat_request_well_formed:
  assumes "from_openai payload = Inr r"
  shows "request_ok r \<and> request_bytes r \<le> MAX_CHAT_MEDIA_BYTES"
  by (rule from_openai_request_ok [OF assms])

theorem chat_request_well_formed_witness: "request_ok demo_request \<and> request_bytes demo_request \<le> MAX_CHAT_MEDIA_BYTES"
  by (rule chat_request_well_formed [OF demo_parse])

text \<open>
  Normalization is a normal form: the dictionary a provider receives for an accepted request
  without inline media is accepted again and gives the very same request.
\<close>

theorem provider_dict_round_trip:
  assumes "from_openai payload = Inr r" "request_bytes r = 0"
  shows "from_openai (PDict (to_provider_dict r)) = Inr r"
  by (rule from_openai_provider_dict [OF assms])

theorem provider_dict_round_trip_witness: "from_openai (PDict (to_provider_dict demo_request)) = Inr demo_request"
  by (rule provider_dict_round_trip [OF demo_parse]) code_simp

text \<open>
  On payloads whose texts can be encoded as UTF-8, parsing raises nothing but the protocol error
  that becomes a recorded rejection, the \<open>TypeError\<close> of an unhashable \<open>role\<close> or part \<open>type\<close>, and
  the \<open>OverflowError\<close> of a temperature too large for a float; and an embeddings payload nothing but
  the protocol error. A lone surrogate, which JSON can spell and the model's texts cannot hold,
  would raise a \<open>UnicodeEncodeError\<close> besides.
\<close>

theorem parse_errors:
  "raises_only request_error (from_openai payload) \<and> raises_only is_protocol_error (embedding_from_openai payload)"
  by (simp add: raises_from_openai raises_embedding_from_openai)

text \<open>
  C2. An exception of parsing that is not a protocol error escapes: for an authenticated caller within
  quota the chat handler ends with exactly that exception, and the observer has seen nothing, so
  no rejection is recorded.
\<close>

theorem unexpected_parse_error_escapes:
  assumes "authenticate gw headers = Inr caller" "check_quota gw caller = Inr ()" "\<not> gw_cancelled gw (polls w)"
    and "from_openai payload = Inl e" "\<not> is_protocol_error e"
  shows "handle_openai_chat gw rid headers payload w = (Inl (of_py e), w\<lparr>polls := Suc (polls w)\<rparr>)"
  by (rule parse_error_escapes [OF assms])

theorem unexpected_parse_error_escapes_witness:
  "handle_openai_chat demo_gateway ''q4'' demo_headers unhashable_role demo_world =
     (Inl (of_py (TypeError ''unhashable type'')), demo_world\<lparr>polls := 1\<rparr>)"
proof -
  have "from_openai unhashable_role = Inl (TypeError ''unhashable type'')" by code_simp
  from unexpected_parse_error_escapes [OF demo_authenticated _ _ this, of demo_world "''q4''"] show ?thesis
    by (simp add: demo_platform_simps is_protocol_error_def)
qed

text \<open>
  An accepted embeddings payload is a bounded batch: 1 to 128 non-blank texts of at most 32768
  characters, one MiB encoded in total, in the order of the payload.
\<close>

theorem embedding_request_well_formed:
  assumes "embedding_from_openai payload = Inr e"
  shows "embedding_request_ok e \<and>
    (\<exists>p. payload = PDict p \<and> (dget p ''input'' = PStr (hd (emb_inputs e)) \<and> length (emb_inputs e) = 1 \<or>
      dget p ''input'' \<in> {PList (map PStr (emb_inputs e)), PTuple (map PStr (emb_inputs e))}))"
  by (rule embedding_from_openai_ok [OF assms])

theorem embedding_request_well_formed_witness: "embedding_request_ok \<lparr>emb_model = ''m'', emb_inputs = [''hi'']\<rparr>"
proof -
  have "embedding_from_openai demo_embedding_payload = Inr \<lparr>emb_model = ''m'', emb_inputs = [''hi'']\<rparr>" by code_simp
  from embedding_request_well_formed [OF this] show ?thesis by simp
qed

section \<open>The gateway\<close>

text \<open>
  C3. Nothing leaves the gateway for a request that is not admitted: whatever the outcome of a
  chat request, media is read and providers are called only when the caller authenticated, is
  within quota, sent a well-formed request and may use its model; the providers called are planned
  targets, in plan order, at most one call each and no more than the attempt limit, each with the
  request whose media was resolved.
\<close>

theorem chat_calls_only_when_admitted:
  "\<exists>ids calls. outcalls (snd (handle_openai_chat gw rid headers payload w)) = outcalls w @ map MediaRead ids @ calls \<and>
    (ids = [] \<and> calls = [] \<or>
     (\<exists>caller request. admitted gw headers payload caller request \<and>
        (calls = [] \<or> planned_calls gw caller request calls)))"
  by (rule handle_openai_chat_calls [OF prod.collapse [symmetric]])

text \<open>
  C4. A chat answer is what one planned provider returned for the admitted request: status 200, the
  route of the target, the requested model name; a stream carries the provider's chunks, a unary
  body is the assembled message of all of them with their merged usage.
\<close>

theorem chat_answer_is_the_providers:
  assumes "handle_openai_chat gw rid headers payload w = (Inr resp, w')"
  shows "\<exists>caller request resolved router targets k t. admitted gw headers payload caller request \<and>
    resolve_router gw = Inr router \<and> plan_routes router (RoutedChat (request_for_routing request)) caller = Inr targets \<and>
    t \<in> set (take (gw_max_attempts gw) targets) \<and> media_resolved gw caller request resolved \<and>
    answers gw k rid resolved t (chat_metadata rid caller resolved t) resp"
  by (rule handle_openai_chat_Inr [OF assms])

theorem chat_answer_is_the_providers_witness:
  "\<exists>caller request resolved router targets k t. admitted demo_gateway demo_headers demo_payload caller request \<and>
    resolve_router demo_gateway = Inr router \<and>
    plan_routes router (RoutedChat (request_for_routing request)) caller = Inr targets \<and>
    t \<in> set (take (gw_max_attempts demo_gateway) targets) \<and> media_resolved demo_gateway caller request resolved \<and>
    answers demo_gateway k ''q1'' resolved t (chat_metadata ''q1'' caller resolved t) demo_response"
  by (rule chat_answer_is_the_providers [OF demo_runs(1)])

text \<open>
  C5. With the audit recorder as observer, and resolvers and providers that do not raise the
  gateway's own lifecycle error, a chat request that was not already open never leaves its ledger
  row \<open>started\<close>: an answer that is not streamed is recorded as completed, a streamed one is open
  with its generator carrying the request id, and every error leaves the row settled.
\<close>

theorem chat_request_is_settled:
  assumes "gw_observer gw = audit_recorder clock billing" "platform_plain gw"
    and "ledger_status rid (obs w) \<noteq> Some AuditStarted"
    and "handle_openai_chat gw rid headers payload w = (r, w')"
  shows "case r of
      Inl e \<Rightarrow> ledger_status rid (obs w') \<noteq> Some AuditStarted
    | Inr resp \<Rightarrow>
        if resp_stream resp
        then ledger_status rid (obs w') = Some AuditStarted \<and>
          (\<exists>ls. resp_body resp = Lazy ls \<and> meta_request_id (ls_metadata ls) = rid)
        else ledger_status rid (obs w') = Some AuditCompleted"
  by (rule recorder_settles(1) [OF assms])

theorem chat_request_is_settled_witness:
  "ledger_status ''q1'' (obs (snd demo_run)) = Some AuditCompleted"
  using chat_request_is_settled [OF demo_platform(1,2) _ demo_runs(1)] by (simp add: demo_platform_simps demo_response_def)

text \<open>The same for embeddings, which are never streamed.\<close>

theorem embeddings_request_is_settled:
  assumes "gw_observer gw = audit_recorder clock billing" "platform_plain gw"
    and "ledger_status rid (obs w) \<noteq> Some AuditStarted"
    and "handle_openai_embeddings gw rid headers payload w = (r, w')"
  shows "case r of
      Inl e \<Rightarrow> ledger_status rid (obs w') \<noteq> Some AuditStarted
    | Inr resp \<Rightarrow> \<not> resp_stream resp \<and> ledger_status rid (obs w') = Some AuditCompleted"
  by (rule recorder_settles(2) [OF assms])

theorem embeddings_request_is_settled_witness:
  "ledger_status ''q3'' (obs (snd demo_embedding_run)) = Some AuditCompleted"
  using embeddings_request_is_settled [OF demo_platform(1,2) _ demo_runs(3)] by (simp add: demo_platform_simps)

text \<open>
  A streamed request is settled once its generator is read, however the reading ends:
  exhausted, closed by the client after some events, cancelled, or failed by the provider.
\<close>

theorem streamed_request_is_settled:
  assumes "gw_observer gw = audit_recorder clock billing" "stream_body gw ls pulls w = (r, w')" "pulls \<noteq> Some 0"
  shows "ledger_status (meta_request_id (ls_metadata ls)) (obs w') \<noteq> Some AuditStarted"
  by (rule recorder_stream_settles [OF assms])

theorem streamed_request_is_settled_witness:
  "ledger_status ''q2'' (obs (snd (stream_body demo_gateway demo_stream (Some 1) (snd demo_stream_run)))) \<noteq> Some AuditStarted"
  using streamed_request_is_settled [OF demo_platform(1), of demo_stream "Some 1" "snd demo_stream_run"]
  by (simp add: demo_stream_def demo_metadata_def) (metis prod.collapse)

text \<open>
  C6. Reading a stream reports exactly one terminal fact for its request, with the usage merged
  over the chunks that were delivered, and \<open>[DONE]\<close> is published exactly when that fact was
  \<open>completed\<close> and the observer accepted it.
\<close>

theorem stream_reports_once:
  assumes "stream_body gw ls pulls w = (r, w')" "pulls \<noteq> Some 0"
  shows "\<exists>status err. one_terminal gw (ls_metadata ls) status (delivered_usage ls r) err w w' \<and> (sr_done r \<longleftrightarrow> status = Completed \<and>
    (\<exists>u. fst (on_finished (gw_observer gw) (ls_metadata ls) status (delivered_usage ls r) err (obs w)) = Inr u))"
  by (rule stream_body_terminal [OF assms])

theorem stream_reports_once_witness:
  "\<exists>status err. one_terminal demo_gateway (demo_metadata ''q2'' True) status
     (delivered_usage demo_stream (fst (stream_body demo_gateway demo_stream None demo_world))) err demo_world
     (snd (stream_body demo_gateway demo_stream None demo_world))"
  using stream_reports_once [of demo_gateway demo_stream None demo_world, OF prod.collapse [symmetric]]
  by (auto simp: demo_stream_def)

text \<open>
  A generator that is closed before its first event records nothing: the observer's state is
  untouched, so the request that was admitted for it stays open.
\<close>

theorem unread_stream_records_nothing:
  "stream_body gw ls (Some 0) w = (\<lparr>sr_events = [], sr_done = False, sr_outcome = StreamClosed\<rparr>, w)"
  by (rule stream_body_unread)

text \<open>
  C7. An undisturbed stream delivers everything: with no cancellation, an exhausted provider and
  an accepting observer it ends with \<open>[DONE]\<close>, the concatenated text and the tool-call fragments of
  its events are those of the chunks in order, some event carries a finish reason, and the usage of
  all chunks is what is recorded.
\<close>

theorem stream_delivers_everything:
  assumes "\<And>i. \<not> gw_cancelled gw i" "ls_end ls = Exhausted"
    and "\<And>s. fst (on_finished (gw_observer gw) (ls_metadata ls) Completed (merge_chunk_usage (ls_chunks ls)) None s) = Inr ()"
    and "stream_body gw ls None w = (r, w')"
  shows "sr_done r \<and> sr_outcome r = StreamEnded \<and>
    concat (map event_text (sr_events r)) = concat (map chunk_delta (ls_chunks ls)) \<and>
    concat (map event_calls (sr_events r)) = map (PDict \<circ> to_openai_delta) (concat (map chunk_tool_calls (ls_chunks ls))) \<and>
    (\<exists>e. e \<in> set (sr_events r) \<and> event_reason e \<noteq> PNone) \<and>
    one_terminal gw (ls_metadata ls) Completed (merge_chunk_usage (ls_chunks ls)) None w w'"
  using stream_complete [OF assms] by blast

theorem stream_delivers_everything_witness:
  "concat (map event_text (sr_events (fst (stream_body (demo_gateway\<lparr>gw_observer := noop_observer\<rparr>) demo_stream None demo_world)))) = ''hey''"
proof -
  let ?gw = "demo_gateway\<lparr>gw_observer := noop_observer\<rparr>"
  have "concat (map event_text (sr_events (fst (stream_body ?gw demo_stream None demo_world)))) =
      concat (map chunk_delta (ls_chunks demo_stream))"
    using stream_delivers_everything [of ?gw demo_stream demo_world, OF _ _ _ prod.collapse [symmetric]]
    by (simp add: demo_gateway_def demo_stream_def noop_observer_def act_simps)
  then show ?thesis by (simp add: demo_stream_def demo_chunks_def)
qed

section \<open>The transport\<close>

text \<open>
  Over the audit recorder a \<open>POST\<close> settles its request: once the response headers reach the
  client, no outcome of \<open>do_POST\<close> (an answer, an error, a stream cut off at any event, an escaping
  exception) leaves the ledger row \<open>started\<close>.
\<close>

theorem post_is_settled:
  assumes "gw_observer gw = audit_recorder clock billing" "platform_plain gw" "ledger_status rid (obs w) \<noteq> Some AuditStarted"
    and "tp_writes tp 0" "do_post tp gw rid path headers len body w = (x, w')"
  shows "ledger_status rid (obs w') \<noteq> Some AuditStarted"
  by (rule post_settles(2) [OF assms(1-3,5,4)])

theorem post_is_settled_witness:
  "ledger_status ''q2'' (obs (snd (do_post \<lparr>tp_dumps = (\<lambda>v. []), tp_writes = (\<lambda>k. k < 2)\<rparr> demo_gateway ''q2''
     ''/v1/chat/completions'' demo_headers (Some ''9'') (\<lambda>n. JsonValue demo_stream_payload) demo_world))) \<noteq> Some AuditStarted"
  by (rule post_is_settled [OF demo_platform(1,2) _ _ prod.collapse [symmetric]]) (simp_all add: demo_platform_simps)

text \<open>
  C8. A streamed answer whose response headers do not reach the client is never read: \<open>do_POST\<close>
  returns quietly and the ledger row of the request stays \<open>started\<close>.
\<close>

theorem lost_stream_stays_started:
  assumes "gw_observer gw = audit_recorder clock billing" "platform_plain gw" "ledger_status rid (obs w) \<noteq> Some AuditStarted"
    and "handle_openai_chat gw rid (header_dict headers) payload w = (Inr resp, w1)" "resp_stream resp"
    and "content_length Chat len = Inr n" "body n = JsonValue payload" "\<not> tp_writes tp 0"
  shows "do_post tp gw rid ''/v1/chat/completions'' headers len body w = (ClientGone, w1) \<and>
    ledger_status rid (obs w1) = Some AuditStarted"
  using assms by (rule post_stream_lost)

theorem lost_stream_stays_started_witness:
  "ledger_status ''q2'' (obs (snd demo_stream_run)) = Some AuditStarted"
proof -
  have h: "header_dict demo_headers = demo_headers" "content_length Chat (Some ''9'') = Inr 9" by code_simp+
  from lost_stream_stays_started [of demo_gateway demo_clock None "''q2''" demo_world demo_headers demo_stream_payload
      demo_stream_response "snd demo_stream_run" "Some ''9''" 9 "\<lambda>n. JsonValue demo_stream_payload"
      "\<lparr>tp_dumps = (\<lambda>v. []), tp_writes = (\<lambda>k. False)\<rparr>"]
  show ?thesis using demo_runs(2) by (simp add: demo_platform demo_platform_simps h demo_stream_response_def)
qed

section \<open>The Product store\<close>

text \<open>
  C9. Every store the Product can reach, by any sequence of its operations with any arguments and
  any outcome, is well-formed: unique keys, rows that agree with their documents and columns,
  endpoints for all routes, sorted grants, digests and API key ids that identify one row, and audit
  rows that are finished exactly when they are no longer \<open>started\<close>.
\<close>

theorem reachable_store_well_formed:
  assumes "product_reachable s"
  shows "store_ok s"
  by (rule reachable_ok [OF assms])

theorem reachable_store_well_formed_witness:
  "store_ok (perform (CreateEndpoint \<lparr>ce_name = ''E'', ce_public_base_url = ''https://x'', ce_auth_policy_ref = ''policy://p''\<rparr>
     ''{}'' (Some ''i1'') ''e'' 10) empty_store)"
  by (rule reachable_store_well_formed [OF product_reachable.step [OF product_reachable.start]])

text \<open>
  C10. The audit ledger is append-only: no operation removes a row, changes what a request was
  (model, route, actor, workspace, start), or touches a row that is no longer \<open>started\<close>.
\<close>

theorem audit_rows_are_final:
  assumes "get_request_audit i s = Some r"
  shows "\<exists>r'. get_request_audit i (perform op s) = Some r' \<and> (au_status r \<noteq> AuditStarted \<longrightarrow> r' = r) \<and>
    au_started_at r' = au_started_at r \<and> au_actor_id r' = au_actor_id r \<and> au_workspace_id r' = au_workspace_id r \<and>
    au_route_id r' = au_route_id r \<and> au_model r' = au_model r"
  by (rule audit_step [OF assms])

theorem audit_rows_are_final_witness:
  "au_status (the (get_request_audit ''q1'' (perform (FinishRequest (demo_metadata ''q1'' False) Failed None None 9)
     (px_store (obs (snd demo_run)))))) = AuditCompleted"
proof -
  have "ledger_status ''q1'' (obs (snd demo_run)) = Some AuditCompleted"
    using recorder_settles(1) [OF demo_platform(1,2) _ demo_runs(1)] by (simp add: demo_platform_simps demo_response_def)
  then obtain r where r: "get_request_audit ''q1'' (px_store (obs (snd demo_run))) = Some r" "au_status r = AuditCompleted"
    by (auto simp: ledger_status_def)
  from audit_rows_are_final [OF r(1), of "FinishRequest (demo_metadata ''q1'' False) Failed None None 9"] r(2) show ?thesis by auto
qed

text \<open>
  C11. A stored route only ever progresses: whatever operation runs (but the re-creation of its own
  id), it stays stored under its id, endpoint and scope, and either does not change at all, or was
  a draft that is edited or activated under the next version. An active route never changes.
\<close>

theorem routes_only_progress:
  assumes "store_ok s" "get_route i s = Some r" "\<not> recreates i op"
  shows "\<exists>r'. get_route i (perform op s) = Some r' \<and> route_progress r r'"
  by (rule route_step [OF assms])

theorem routes_only_progress_witness:
  "get_route ''r'' (perform (ConfirmDraft ''r'' 1 demo_owner (\<lambda>r. Inr ()) 5) demo_store) = Some (demo_route ''r'' RouteActive (Some ''o''))"
  using routes_only_progress [OF demo_store_ok demo_store_finds(2), of "ConfirmDraft ''r'' 1 demo_owner (\<lambda>r. Inr ()) 5"]
  by (auto simp: recreates_def route_progress_def demo_route_def)

text \<open>
  C12. Confirming a workspace draft publishes it only when everything the code demands holds: the
  caller's own draft of their organization and workspace, at the version they inspected, on an
  active endpoint an operator granted to that workspace, with an admitted target; it then becomes
  the active route under the next version, and no other route changes.
\<close>

theorem confirmation_publishes:
  assumes "confirm_workspace_route_draft i v p validate now s = (Inr r, s')" "store_ok s"
  shows "\<exists>c ep org. get_route i s = Some c \<and> gr_organization_id c = Some org \<and> pp_organization_id p = Some org \<and>
    gr_workspace_id c = Some (pp_workspace_id p) \<and> gr_created_by c = Some (pp_actor_id p) \<and> gr_state c = RouteDraft \<and>
    gr_resource_version c = v \<and> workspace_endpoint_is_granted (gr_endpoint_id c) org (pp_workspace_id p) s \<and>
    get_endpoint (gr_endpoint_id c) s = Some ep \<and> ge_state ep = EndpointActive \<and> validate c = Inr () \<and> r = activated c v now \<and>
    (\<forall>j. get_route j s' = (if j = i then Some r else get_route j s))"
proof -
  from confirm_workspace_Inr [OF assms(1)] obtain c ep org where c: "get_route i s = Some c" "gr_organization_id c = Some org"
    "pp_organization_id p = Some org" "gr_workspace_id c = Some (pp_workspace_id p)" "gr_created_by c = Some (pp_actor_id p)"
    "gr_state c = RouteDraft" "gr_resource_version c = v" "workspace_endpoint_is_granted (gr_endpoint_id c) org (pp_workspace_id p) s"
    "get_endpoint (gr_endpoint_id c) s = Some ep" "ge_state ep = EndpointActive" "validate c = Inr ()"
    "replace_route_version (activated c v now) v s = (Inr r, s')" by blast
  moreover have "gr_id (activated c v now) = i" using get_route_stored(1) [OF assms(2) c(1)] by (simp add: activated_def)
  ultimately show ?thesis using replace_route_version_Inr [OF c(12)] by auto
qed

theorem confirmation_publishes_witness:
  "get_route ''d'' (snd (confirm_workspace_route_draft ''d'' 1 demo_owner (\<lambda>r. Inr ()) 5 demo_base)) =
     Some (activated (demo_route ''d'' RouteDraft (Some ''o'')) 1 5)"
proof -
  have "fst (confirm_workspace_route_draft ''d'' 1 demo_owner (\<lambda>r. Inr ()) 5 demo_base) =
      Inr (activated (demo_route ''d'' RouteDraft (Some ''o'')) 1 5)"
    by code_simp
  then obtain s' where "confirm_workspace_route_draft ''d'' 1 demo_owner (\<lambda>r. Inr ()) 5 demo_base =
      (Inr (activated (demo_route ''d'' RouteDraft (Some ''o'')) 1 5), s')" by (metis prod.collapse)
  from confirmation_publishes [OF this demo_base_ok] this show ?thesis by auto
qed

text \<open>
  C13. Optimistic concurrency: once an edit of a draft has succeeded, every other edit or
  confirmation made from the version it started from is refused and leaves the store as it is.
\<close>

theorem one_editor_wins:
  assumes "store_ok s" "edit_route_draft i ed p now s = (Inr r, s')" "ed_resource_version ed' = ed_resource_version ed"
  shows "(\<exists>e. edit_route_draft i ed' p' now' s' = (Inl e, s')) \<and>
    (\<exists>e. confirm_route_draft i (ed_resource_version ed) p' validate now' s' = (Inl e, s'))"
  using one_editor(1) [OF assms(1,2) refl assms(3)] one_editor(2) [OF assms(1,2) refl] by blast

theorem one_editor_wins_witness:
  "\<exists>e. confirm_route_draft ''l'' 1 demo_owner (\<lambda>r. Inr ()) 7
     (snd (edit_route_draft ''l'' \<lparr>ed_resource_version = 1, ed_model_pattern = ''n'', ed_target_binding_id = ''p'',
        ed_target_model = ''n'', ed_priority = 2\<rparr> demo_owner 5 demo_base)) =
     (Inl e, snd (edit_route_draft ''l'' \<lparr>ed_resource_version = 1, ed_model_pattern = ''n'', ed_target_binding_id = ''p'',
        ed_target_model = ''n'', ed_priority = 2\<rparr> demo_owner 5 demo_base))"
proof -
  let ?ed = "\<lparr>ed_resource_version = 1, ed_model_pattern = ''n'', ed_target_binding_id = ''p'', ed_target_model = ''n'', ed_priority = 2\<rparr>"
  have "\<not> isl (fst (edit_route_draft ''l'' ?ed demo_owner 5 demo_base))" by code_simp
  then obtain r s' where r: "edit_route_draft ''l'' ?ed demo_owner 5 demo_base = (Inr r, s')"
    by (cases "edit_route_draft ''l'' ?ed demo_owner 5 demo_base"; cases "fst (edit_route_draft ''l'' ?ed demo_owner 5 demo_base)") auto
  from one_editor_wins [OF demo_base_ok r, where ed' = ?ed and p' = demo_owner and now' = 7 and validate = "\<lambda>r. Inr ()"] r show ?thesis by simp
qed

section \<open>Routing and admission\<close>

text \<open>
  C14. From the bearer token to the provider: a gateway built over the store reaches a provider
  only for a caller whose presented token is the digest of a usable credential (an API key, or a
  configured token), within quota and model scope; and then only through routes of the store that
  are active, match the model and hang on the gateway's active endpoint, at most as many as attempts
  are allowed. For a caller with an organization the routes are those of that organization and of
  the caller's workspace; a caller without one reaches only the legacy routes that belong to no
  organization, whatever their workspace.
\<close>

theorem providers_reached_through_own_routes:
  assumes "store_ok s"
  shows "\<exists>ids calls. outcalls (snd (handle_openai_chat (gateway_over gs s now_ms) rid headers payload w)) =
      outcalls w @ map MediaRead ids @ calls \<and>
    (ids = [] \<and> calls = [] \<or> (\<exists>caller request. from_openai payload = Inr request \<and> presented gs s now_ms headers caller \<and>
      quota_guard s (gs_billing gs) caller = Inr () \<and> permits caller (req_model request) \<and>
      length calls \<le> nat (gs_max_attempts gs) \<and>
      (\<forall>c\<in>set calls. \<exists>i route ep q. c = ProviderCalled (gr_target_binding_id route) q \<and> get_route i s = Some route \<and>
         gr_state route = RouteActive \<and> visible_to caller route \<and> fnmatchcase (req_model request) (gr_model_pattern route) \<and>
         gr_endpoint_id route = gs_endpoint gs \<and> get_endpoint (gs_endpoint gs) s = Some ep \<and> ge_state ep = EndpointActive)))"
  by (rule stored_chat_calls [OF assms prod.collapse [symmetric]])

theorem providers_reached_through_own_routes_witness:
  "\<exists>ids calls. outcalls (snd (handle_openai_chat (gateway_over demo_settings demo_store 5) ''q1'' demo_headers demo_payload demo_world)) =
     map MediaRead ids @ calls \<and> length calls \<le> 1"
  using providers_reached_through_own_routes [OF demo_store_ok, of demo_settings 5 "''q1''" demo_headers demo_payload demo_world]
  by (auto simp: demo_world_def demo_settings_def)

text \<open>
  Routes are planned in a fixed order: by priority, then by id, and a workspace sees exactly
  its own active routes of the endpoint.
\<close>

theorem active_routes_of_a_workspace:
  assumes "store_ok s"
  shows "sorted (map (\<lambda>r. (gr_priority r, gr_id r)) (active_routes e (Some org) (Some w) s)) \<and>
    (r \<in> set (active_routes e (Some org) (Some w) s) \<longleftrightarrow>
     w \<noteq> [] \<and> (\<exists>i. get_route i s = Some r \<and> gr_endpoint_id r = e \<and> gr_state r = RouteActive \<and>
       gr_organization_id r = Some org \<and> gr_workspace_id r = Some w))"
  using active_routes_sorted [OF assms] active_routes_scoped [OF assms, of r e org "Some w"] by simp

theorem active_routes_of_a_workspace_witness:
  "demo_route ''r'' RouteActive (Some ''o'') \<in> set (active_routes ''e'' (Some ''o'') (Some ''w'') demo_store)"
  using active_routes_of_a_workspace [OF demo_store_ok, of "''e''" "''o''" "''w''" "demo_route ''r'' RouteActive (Some ''o'')"]
  by (auto simp: demo_route_def intro!: exI [of _ "''r''"] demo_store_finds(2) [unfolded demo_route_def])

section \<open>Retries, keys and limits\<close>

text \<open>
  C15. Creating an endpoint is idempotent for ever: whatever the Product does afterwards, the same
  key with the same request returns the endpoint it made and changes nothing, and the same key with
  a request of another digest is refused.
\<close>

theorem endpoint_creation_is_idempotent:
  assumes "store_ok s" "create_endpoint c body (Some key) i now s = (Inr endpoint, s1)"
  shows "(\<exists>e. create_endpoint c' body (Some key) i' now' (performs ops s1) = (Inr e, performs ops s1) \<and> ge_id e = ge_id endpoint) \<and>
    (request_hash body' \<noteq> request_hash body \<longrightarrow>
     (\<exists>e. create_endpoint c'' body' (Some key) i'' now'' (performs ops s1) = (Inl e, performs ops s1)))"
proof -
  have "after s1 (performs ops s1)" by (auto simp: after_def)
  then show ?thesis
    using endpoint_retry [OF assms] endpoints.reuse_refused [of s key "(c, body, i, now)" endpoint s1 "performs ops s1" "(c'', body', i'', now'')"]
      assms prod.collapse [of "create_endpoint c'' body' (Some key) i'' now'' (performs ops s1)", symmetric]
    by (metis case_prod_conv)
qed

theorem endpoint_creation_is_idempotent_witness:
  "\<exists>s1 e. create_endpoint demo_command ''{}'' (Some ''i'') ''n2'' 9 s1 = (Inr e, s1) \<and> ge_id e = ''n''"
proof -
  obtain s1 where "create_endpoint demo_command ''{}'' (Some ''i'') ''n'' 5 demo_base = (Inr (new_endpoint demo_command ''n'' 5), s1)"
    using demo_created_endpoint by blast
  from endpoint_creation_is_idempotent [OF demo_base_ok this, where c' = demo_command and i' = "''n2''" and now' = 9 and ops = "[]"]
  show ?thesis by (simp add: performs_def new_endpoint_def) blast
qed

text \<open>
  The secret of an API key leaves the Product once: any later request under the same
  idempotency key that passes its checks returns the key without it.
\<close>

theorem secret_is_shown_once:
  assumes "store_ok s" "service_create_api_key c body p (Some key) i rnd now ms s = (Inr (k, secret, True), s1)"
    and "check_api_key_command c2 now2 = Inr ()"
  shows "\<exists>k2. service_create_api_key c2 body p (Some key) i2 rnd2 now2 ms2 (performs ops s1) = (Inr (k2, None, False), performs ops s1) \<and>
    ak_id k2 = ak_id k"
proof -
  have "after s1 (performs ops s1)" by (auto simp: after_def)
  from key_retry [OF assms(1,2) this assms(3)] show ?thesis by blast
qed

theorem secret_is_shown_once_witness:
  "\<exists>s1 k. service_create_api_key demo_key_command ''{}'' demo_owner (Some ''i'') ''k2'' ''s2'' 9 9 s1 = (Inr (k, None, False), s1)"
proof -
  obtain s1 where s1: "service_create_api_key demo_key_command ''{}'' demo_owner (Some ''i'') ''k'' ''s'' 5 6 demo_base =
     (Inr (demo_key, Some ''cyk_s'', True), s1)" using demo_created_key by blast
  from secret_is_shown_once [OF demo_base_ok s1 demo_key_checks [of 9], of "''k2''" "''s2''" 9 "[]"] show ?thesis
    by (auto simp: performs_def)
qed

text \<open>
  A created key is usable at once: until it expires its secret authenticates at the gateway as
  the actor, workspace, organization and model scope it was created for, and never as a control
  principal of the Product API.
\<close>

theorem created_key_is_usable:
  assumes "service_create_api_key c body p key i rnd now ms s = (Inr (k, Some secret, True), s')"
    and "case ck_expires_at c of None \<Rightarrow> True | Some t \<Rightarrow> t > later"
  shows "resolve_data_plane_credential secret digests later s' =
      rbind (mk_request_principal (pp_actor_id p) (pp_workspace_id p) (''api-key://'' @ i) (map strip (ck_model_scope c))
        (pp_organization_id p)) (\<lambda>q. Inr (Some q)) \<and>
    resolve_product_credential secret later s' = Inr None"
  using created_key_authenticates [OF assms] by simp

theorem created_key_is_usable_witness:
  "\<exists>s'. resolve_data_plane_credential ''cyk_s'' [] 7 s' =
     Inr (Some \<lparr>actor_id = ''a'', workspace_id = ''w'', credential_ref = ''api-key://k'', model_scope = [], organization_id = Some ''o''\<rparr>)"
proof -
  obtain s1 where s1: "service_create_api_key demo_key_command ''{}'' demo_owner (Some ''i'') ''k'' ''s'' 5 6 demo_base =
     (Inr (demo_key, Some ''cyk_s'', True), s1)" using demo_created_key by blast
  have "rbind (mk_request_principal (pp_actor_id demo_owner) (pp_workspace_id demo_owner) (''api-key://'' @ ''k'')
      (map strip (ck_model_scope demo_key_command)) (pp_organization_id demo_owner)) (\<lambda>q. Inr (Some q)) =
    (Inr (Some \<lparr>actor_id = ''a'', workspace_id = ''w'', credential_ref = ''api-key://k'', model_scope = [],
      organization_id = Some ''o''\<rparr>) :: py_exc + request_principal option)"
    by code_simp
  with created_key_is_usable [OF s1, of 7 "[]"] show ?thesis by (auto simp: demo_key_command_def)
qed

text \<open>
  C16. A revoked key stays dead: after its revocation no sequence of operations makes any token
  resolve to its credential again, unless an operator configures that very reference.
\<close>

theorem revoked_key_stays_dead:
  assumes "store_ok s" "get_api_key i s = Some k0" "ak_state k0 = KeyActive"
    and "service_revoke_api_key i p ms s = (Inr k, s')" "ms \<noteq> 0"
    and "\<And>op. op \<in> set ops \<Longrightarrow> \<not> reconfigures (ak_credential_ref k0) op"
  shows "(resolve_credential token now (performs ops s') = Inr (Some q) \<longrightarrow> credential_ref q \<noteq> ak_credential_ref k0) \<and>
    (resolve_data_plane_credential token digests now (performs ops s') = Inr (Some q) \<longrightarrow> credential_ref q \<noteq> ak_credential_ref k0)"
  by (rule revoked_key_is_dead [OF assms])

theorem revoked_key_stays_dead_witness:
  "resolve_credential ''tok'' 9 (snd (service_revoke_api_key ''k'' demo_owner 8 demo_store)) \<noteq>
     Inr (Some \<lparr>actor_id = ''a'', workspace_id = ''w'', credential_ref = ''api-key://k'', model_scope = [], organization_id = Some ''o''\<rparr>)"
proof -
  obtain k0 where k0: "get_api_key ''k'' demo_store = Some k0" "ak_state k0 = KeyActive" "ak_credential_ref k0 = ''api-key://k''"
    "key_in_scope k0 demo_owner"
    by (simp add: get_api_key_def demo_store_finds api_key_from_row_def demo_key_row_def or_default_def key_in_scope_def demo_owner_def)
  have "\<exists>k s'. service_revoke_api_key ''k'' demo_owner 8 demo_store = (Inr k, s')"
    using k0 by (auto simp: service_revoke_api_key_def owned_api_key_def revoke_api_key_def act_simps check_def mutation_def
        demo_store_finds get_api_key_def Let_def db_read_def db_write_def find_api_key_def
        demo_store_def update_row_def demo_key_row_def split: option.splits)
  then obtain k s' where r: "service_revoke_api_key ''k'' demo_owner 8 demo_store = (Inr k, s')" by blast
  from revoked_key_stays_dead [OF demo_store_ok k0(1,2) r, of "[]" "''tok''" 9] r k0(3) show ?thesis
    by (force simp: performs_def)
qed

text \<open>
  Configuring credentials is all or nothing: when it succeeds every given token is non-blank and
  its principal's reference is enabled and holds exactly that token's digest, and when it fails the
  store is untouched.
\<close>

theorem credentials_configured_or_untouched:
  "case configure_credentials clock cs s of
     (Inr _, s') \<Rightarrow> (\<forall>(token, p)\<in>set cs. \<not> blank token \<and> holds_token (pp_credential_ref p) (sha256_str token) s')
   | (Inl _, s') \<Rightarrow> s' = s"
  by (auto split: prod.split sum.split simp: configure_credentials_Inl dest: configure_credentials_Inr)

theorem credentials_configured_or_untouched_witness:
  "case configure_credentials demo_clock [(''tok'', demo_owner)] demo_base of
     (Inr _, s') \<Rightarrow> holds_token ''c'' (sha256_str ''tok'') s' | (Inl _, s') \<Rightarrow> s' = demo_base"
  using credentials_configured_or_untouched [where clock = demo_clock and cs = "[(''tok'', demo_owner)]" and s = demo_base]
  by (auto simp: demo_owner_def split: prod.splits sum.splits)

text \<open>
  C17. An attachment is what the Work product authorized and the digest names: a read that succeeds
  sent one request, with the non-blank token of the profile configured under the caller's credential
  for exactly the caller's actor, organization and workspace, and returns the bytes of its 200
  answer, non-empty, within the limit, and hashing to the requested id.
\<close>

theorem attachment_is_authorized_and_verified:
  assumes "read_attachment res http cancelled artifact_id caller (0, []) = (Inr a, w)" "0 \<le> wr_max_bytes res"
  shows "\<exists>p r. work_profile res caller = Inr p \<and> map_of (wr_credentials res) (credential_ref caller) = Some p \<and>
    wc_actor_id p = actor_id caller \<and> wc_organization_id p = organization_id caller \<and>
    wc_workspace_id p = workspace_id caller \<and> \<not> blank (wc_token p) \<and>
    snd w = [(attachment_url res (workspace_id caller) artifact_id, wc_token p)] \<and>
    http (attachment_url res (workspace_id caller) artifact_id) (wc_token p) = Inr r \<and> wk_status r = 200 \<and>
    art_data a = concat (wk_chunks r) \<and> art_data a \<noteq> [] \<and> int (length (art_data a)) \<le> wr_max_bytes res \<and>
    sha256_hex (art_data a) = artifact_id"
  using read_attachment_Inr [OF assms] by (auto simp: work_profile_Inr)

theorem attachment_is_authorized_and_verified_witness:
  "\<exists>p w. work_profile demo_work demo_caller = Inr p \<and> wc_actor_id p = actor_id demo_caller \<and>
     snd w = [(attachment_url demo_work ''w'' (sha256_hex [1]), wc_token p)]"
proof -
  obtain w where w: "read_attachment demo_work demo_work_http (\<lambda>i. False) (sha256_hex [1]) demo_caller (0, []) = (Inr demo_artifact, w)"
    using demo_read by (metis prod.collapse)
  have "0 \<le> wr_max_bytes demo_work" by (simp add: demo_work_def)
  from attachment_is_authorized_and_verified [OF w this] show ?thesis by (auto simp: demo_caller_def)
qed

text \<open>
  Two creations at once: one that looked its key up before a concurrent creation bound it still
  saves its endpoint, and only then fails, with an integrity error; the endpoint stays, unreachable
  by any key.
\<close>

theorem raced_creation_leaves_an_endpoint:
  assumes "find_row (''create-endpoint'', key) (idempotency s) = Some b"
  shows "\<exists>s'. publish_endpoint c body (Some key) i now s = (Inl (constraint ''UNIQUE''), s') \<and>
    get_endpoint i s' = Some (new_endpoint c i now) \<and> idempotency s' = idempotency s"
  by (simp add: publish_raced [OF assms] get_endpoint_def find_replace)

theorem raced_creation_leaves_an_endpoint_witness:
  "\<exists>s'. publish_endpoint demo_command ''{}'' (Some ''q'') ''n'' 5 (demo_base\<lparr>idempotency := [((''create-endpoint'', ''q''), (''h'', ''m''))]\<rparr>) =
     (Inl (constraint ''UNIQUE''), s') \<and> get_endpoint ''n'' s' = Some (new_endpoint demo_command ''n'' 5)"
  using raced_creation_leaves_an_endpoint [of "''q''" "demo_base\<lparr>idempotency := [((''create-endpoint'', ''q''), (''h'', ''m''))]\<rparr>" "(''h'', ''m'')" demo_command "''{}''" "''n''" 5]
  by (auto simp: find_row_def)

end
